(* ===== verification/Prelude.thy ===== *)
theory Prelude
  imports Main "HOL-Library.Word" "HOL-Library.Monad_Syntax"
begin

text \<open>
  The vocabulary shared by every theory of the development: the machine integers of the
  code (the deployment is aarch64, so \<open>size_t\<close>, \<open>uintptr_t\<close> and \<open>CUdeviceptr\<close> are 64-bit), byte
  strings, reads from a byte buffer whose out-of-range case is the value \<^const>\<open>None\<close> (undefined
  behaviour in C), and the lemmas about words, lists and \<^const>\<open>List.find\<close> the components share.
\<close>

unbundle bit_operations_syntax

section \<open>Types\<close>

type_synonym u8 = "8 word"
type_synonym u32 = "32 word"
type_synonym u64 = "64 word"
type_synonym bytes = "u8 list"

named_theorems model_defs \<open>definitions of the handlers and their helpers, unfolded on demand\<close>
named_theorems wire_simps \<open>evaluation of the wire codecs\<close>

text \<open>\<open>UINT32_MAX\<close>, \<open>UINT64_MAX\<close> and \<open>SIZE_MAX\<close> as values of the type they are compared with.\<close>

abbreviation (input) UINT32_MAX64 :: u64 where
  "UINT32_MAX64 \<equiv> 4294967295"

abbreviation (input) UINT64_MAX :: u64 where
  "UINT64_MAX \<equiv> - 1"

text \<open>A buffer of \<open>n\<close> bytes filled from \<open>bs\<close>: what a C array of that size holds after a copy into it.\<close>

definition fit :: "nat \<Rightarrow> bytes \<Rightarrow> bytes" where
  "fit n bs = take n (bs @ replicate n 0)"

lemma length_fit [simp]: "length (fit n bs) = n"
  by (simp add: fit_def)

lemma fit_id: "length bs = n \<Longrightarrow> fit n bs = bs"
  by (simp add: fit_def)

section \<open>Words without overflow\<close>

lemma unat_add_no_wrap:
  fixes a b :: "'a::len word"
  assumes "unat a + unat b < 2 ^ LENGTH('a)"
  shows "unat (a + b) = unat a + unat b"
  using assms by (simp add: unat_word_ariths)

lemma unat_mult_no_wrap:
  fixes a b :: "'a::len word"
  assumes "unat a * unat b < 2 ^ LENGTH('a)"
  shows "unat (a * b) = unat a * unat b"
  using assms by (simp add: unat_word_ariths)

lemma unat_sub_le:
  fixes a b :: "'a::len word"
  assumes "b \<le> a"
  shows "unat (a - b) = unat a - unat b"
  using assms by (rule unat_sub)

lemma unat_sub_one:
  fixes a :: "'a::len word"
  assumes "a \<noteq> 0"
  shows "unat (a - 1) = unat a - 1"
  using assms by (simp add: unat_minus_one)

lemma unat_gt_0_word:
  fixes a :: "'a::len word"
  shows "(0 < unat a) = (a \<noteq> 0)"
  by (simp add: unat_gt_0)

lemma unat_le_div_mult:
  fixes a b c :: "'a::len word"
  assumes "a \<le> b div c" "c \<noteq> 0"
  shows "unat a * unat c \<le> unat b"
proof -
  have "unat a \<le> unat b div unat c"
    using assms(1) by (simp add: word_le_nat_alt unat_div)
  then have "unat a * unat c \<le> unat b div unat c * unat c"
    by (rule mult_le_mono1)
  also have "\<dots> \<le> unat b"
    by (rule div_times_less_eq_dividend)
  finally show ?thesis .
qed

text \<open>The guard \<open>a > c \<or> b > c - a\<close> used throughout the server, read over the naturals.\<close>

lemma word_range_ok:
  fixes a b c :: "'a::len word"
  assumes "\<not> c < a" "\<not> c - a < b"
  shows "unat a + unat b \<le> unat c"
proof -
  have "a \<le> c" "b \<le> c - a" using assms by auto
  then have "unat b \<le> unat c - unat a"
    by (simp add: word_le_nat_alt unat_sub_le)
  moreover have "unat a \<le> unat c" using \<open>a \<le> c\<close> by (simp add: word_le_nat_alt)
  ultimately show ?thesis by simp
qed

lemma word_range_ok_iff:
  fixes a b c :: "'a::len word"
  shows "(\<not> c < a \<and> \<not> c - a < b) = (unat a + unat b \<le> unat c)"
proof
  assume "\<not> c < a \<and> \<not> c - a < b"
  then show "unat a + unat b \<le> unat c" by (auto intro: word_range_ok)
next
  assume s: "unat a + unat b \<le> unat c"
  then have "a \<le> c" by (simp add: word_le_nat_alt)
  moreover have "b \<le> c - a"
    using s \<open>a \<le> c\<close> by (simp add: word_le_nat_alt unat_sub_le)
  ultimately show "\<not> c < a \<and> \<not> c - a < b" by auto
qed

lemma unat_less_exp64 [simp]: "unat (x::u64) < 18446744073709551616"
proof -
  have "unat x < 2 ^ LENGTH(64)" by (rule unsigned_less)
  then show ?thesis by simp
qed

lemma unat_less_exp32 [simp]: "unat (x::u32) < 4294967296"
proof -
  have "unat x < 2 ^ LENGTH(32)" by (rule unsigned_less)
  then show ?thesis by simp
qed

lemma unat_inc:
  fixes a :: "'a::len word"
  shows "a + 1 \<noteq> 0 \<Longrightarrow> unat (a + 1) = Suc (unat a)"
  using unatSuc [of a] by (simp add: add.commute)

lemma inc_nonzero64: "Suc (unat (a::u64)) < 18446744073709551616 \<Longrightarrow> a + 1 \<noteq> 0"
  by (auto simp: unat_word_ariths unat_eq_zero [symmetric] simp del: unat_eq_zero)

text \<open>The length check \<open>header + bytes = len\<close> of a request with inline data.\<close>

lemma inline_length:
  fixes b :: u64
  assumes "k + b = of_nat l" "b \<le> 4294967295" "l < 4294967296" "unat k < 4294967296"
  shows "unat b = l - unat k \<and> unat k \<le> l"
proof -
  have "unat b \<le> 4294967295" using assms(2) by (simp add: word_le_nat_alt)
  then have "unat (k + b) = unat k + unat b" using assms(4) by (intro unat_add_no_wrap) simp
  moreover have "unat (of_nat l :: u64) = l" using assms(3) by (subst unat_of_nat) simp
  ultimately have "unat k + unat b = l" using arg_cong [OF assms(1), of unat] by presburger
  then show ?thesis by presburger
qed

lemma unat_le_u32max: "b \<le> 4294967295 \<Longrightarrow> unat (b::u64) < 4294967296"
  by (simp add: word_le_nat_alt)

lemma ucast_u32_small:
  fixes b :: u64
  assumes "b \<le> 4294967295"
  shows "unat (ucast b :: u32) = unat b" "ucast (ucast b :: u32) = b"
proof -
  have "unat (ucast b :: u32) = unat b mod 4294967296" by (simp add: unsigned_ucast_eq take_bit_eq_mod)
  then show u: "unat (ucast b :: u32) = unat b" using unat_le_u32max [OF assms] by simp
  have "unat (ucast (ucast b :: u32) :: u64) = unat b" using u by (simp add: unsigned_ucast_eq take_bit_eq_mod unat_mod)
  then show "ucast (ucast b :: u32) = b" by (rule unsigned_word_eqI)
qed

section \<open>First match in a table\<close>

lemma nth_upd: "j < length xs \<Longrightarrow> xs[i := x] ! j = (if i = j then x else xs ! j)"
  by (cases "i < length xs") (auto simp: nth_list_update)

lemma find_upt_Some:
  "List.find P [0..<n] = Some i \<longleftrightarrow> i < n \<and> P i \<and> (\<forall>j<i. \<not> P j)"
  by (auto simp: find_Some_iff nth_append)

lemma find_upt_None:
  "List.find P [0..<n] = None \<longleftrightarrow> (\<forall>i<n. \<not> P i)"
  by (auto simp: find_None_iff)

lemma find_upt_cong:
  "(\<And>i. i < n \<Longrightarrow> P i = Q i) \<Longrightarrow> List.find P [0..<n] = List.find Q [0..<n]"
  by (rule find_cong) auto

section \<open>Reads from a payload\<close>

text \<open>\<open>peek p off n\<close> is the \<open>n\<close> bytes at \<open>p + off\<close>; \<^const>\<open>None\<close> when they are not all inside the buffer.\<close>

definition peek :: "bytes \<Rightarrow> nat \<Rightarrow> nat \<Rightarrow> bytes option" where
  "peek p off n = (if off + n \<le> length p then Some (take n (drop off p)) else None)"

lemma peek_Some [simp]: "off + n \<le> length p \<Longrightarrow> peek p off n = Some (take n (drop off p))"
  by (simp add: peek_def)

lemma peek_None: "\<not> off + n \<le> length p \<Longrightarrow> peek p off n = None"
  by (simp add: peek_def)

end
