(* ===== verification/Wire.thy ===== *)
theory Wire
  imports Prelude
begin

text \<open>
  The CRX9 wire format of \<^verbatim>\<open>include/internal/corex_protocol.h\<close>: network-order integers, bounded
  cursor reads, request and response headers and the HELLO message. An output buffer is the list
  of the bytes written so far and its length is the write position; \<^const>\<open>None\<close> is the return
  value -1 of the C functions.
\<close>

section \<open>Byte order\<close>

text \<open>The memory image of an integer on the little-endian target, and back.\<close>

definition le_bytes32 :: "u32 \<Rightarrow> bytes" where
  "le_bytes32 v = [ucast v, ucast (drop_bit 8 v), ucast (drop_bit 16 v), ucast (drop_bit 24 v)]"

definition le_load32 :: "bytes \<Rightarrow> u32" where
  "le_load32 b = ucast (b ! 0) OR push_bit 8 (ucast (b ! 1)) OR push_bit 16 (ucast (b ! 2))
     OR push_bit 24 (ucast (b ! 3))"

definition le_bytes64 :: "u64 \<Rightarrow> bytes" where
  "le_bytes64 v = le_bytes32 (ucast v) @ le_bytes32 (ucast (drop_bit 32 v))"

definition le_load64 :: "bytes \<Rightarrow> u64" where
  "le_load64 b = ucast (le_load32 b) OR push_bit 32 (ucast (le_load32 (drop 4 b)))"

text \<open>\<open>htonl\<close> and \<open>ntohl\<close> reverse the four bytes.\<close>

definition htonl :: "u32 \<Rightarrow> u32" where
  "htonl v = le_load32 (rev (le_bytes32 v))"

definition corex_protocol_to_be64 :: "u64 \<Rightarrow> u64" where
  "corex_protocol_to_be64 value =
     push_bit 32 (ucast (htonl (ucast (value AND 4294967295)))) OR ucast (htonl (ucast (drop_bit 32 value)))"

definition corex_protocol_from_be64 :: "u64 \<Rightarrow> u64" where
  "corex_protocol_from_be64 value = corex_protocol_to_be64 value"

definition corex_protocol_read_u32 :: "bytes \<Rightarrow> u32" where
  "corex_protocol_read_u32 data = htonl (le_load32 data)"

definition corex_protocol_read_u64 :: "bytes \<Rightarrow> u64" where
  "corex_protocol_read_u64 data = corex_protocol_from_be64 (le_load64 data)"

definition corex_protocol_write_u32 :: "bytes \<Rightarrow> u32 \<Rightarrow> bytes" where
  "corex_protocol_write_u32 out value = out @ le_bytes32 (htonl value)"

definition corex_protocol_write_u64 :: "bytes \<Rightarrow> u64 \<Rightarrow> bytes" where
  "corex_protocol_write_u64 out value = out @ le_bytes64 (corex_protocol_to_be64 value)"

text \<open>The reference: most significant byte first.\<close>

definition be32 :: "u32 \<Rightarrow> bytes" where
  "be32 v = [ucast (drop_bit 24 v), ucast (drop_bit 16 v), ucast (drop_bit 8 v), ucast v]"

definition be64 :: "u64 \<Rightarrow> bytes" where
  "be64 v = be32 (ucast (drop_bit 32 v)) @ be32 (ucast v)"

lemma length_be [simp]: "length (be32 v) = 4" "length (be64 w) = 8"
  by (simp_all add: be32_def be64_def)

lemma length_le_bytes [simp]: "length (le_bytes32 v) = 4" "length (le_bytes64 w) = 8"
  by (simp_all add: le_bytes32_def le_bytes64_def)

lemma byte_cases:
  fixes n :: nat
  assumes "n < 32"
  obtains "n < 8" | "8 \<le> n" "n < 16" | "16 \<le> n" "n < 24" | "24 \<le> n" "n < 32"
  using assms by linarith

lemma le_load32_bytes: "le_load32 (le_bytes32 v) = v"
proof (rule bit_word_eqI)
  fix n assume "n < LENGTH(32)"
  then have "n < 32" by simp
  then show "bit (le_load32 (le_bytes32 v)) n = bit v n"
    by (cases rule: byte_cases) (auto simp: le_load32_def le_bytes32_def bit_simps)
qed

lemma le_bytes32_inject: "le_bytes32 v = le_bytes32 w \<longleftrightarrow> v = w"
  by (metis le_load32_bytes)

lemma le_bytes_load32:
  assumes "length b = 4"
  shows "le_bytes32 (le_load32 b) = b"
proof -
  obtain b0 b1 b2 b3 where b: "b = [b0, b1, b2, b3]"
    using assms by (auto simp: length_Suc_conv numeral_eq_Suc)
  have "ucast (le_load32 b) = b0" "ucast (drop_bit 8 (le_load32 b)) = b1"
    "ucast (drop_bit 16 (le_load32 b)) = b2" "ucast (drop_bit 24 (le_load32 b)) = b3"
    unfolding b le_load32_def by (rule bit_word_eqI, auto simp: bit_simps dest: bit_imp_le_length)+
  then show ?thesis by (simp add: b le_bytes32_def)
qed

lemma htonl_bytes: "le_bytes32 (htonl v) = be32 v"
proof -
  have "le_bytes32 (htonl v) = rev (le_bytes32 v)"
    unfolding htonl_def by (rule le_bytes_load32) simp
  then show ?thesis by (simp add: le_bytes32_def be32_def)
qed

lemma htonl_htonl [simp]: "htonl (htonl v) = v"
  by (metis htonl_bytes htonl_def be32_def le_bytes32_def le_load32_bytes rev.simps rev_rev_ident
      append_Cons append_Nil)

lemma ucast_mask32: "ucast ((v::u64) AND 4294967295) = (ucast v :: u32)"
proof -
  have m: "(4294967295 :: u64) = mask 32" by (simp add: mask_eq_exp_minus_1)
  show ?thesis unfolding m by (rule bit_word_eqI) (auto simp: bit_simps dest: bit_imp_le_length)
qed

lemma le_bytes64_to_be64: "le_bytes64 (corex_protocol_to_be64 v) = be64 v"
proof -
  let ?l = "htonl (ucast v)" and ?h = "htonl (ucast (drop_bit 32 v))"
  have tb: "corex_protocol_to_be64 v = push_bit 32 (ucast ?l) OR ucast ?h"
    by (simp add: corex_protocol_to_be64_def ucast_mask32)
  have "(ucast (corex_protocol_to_be64 v) :: u32) = ?h"
    unfolding tb by (rule bit_word_eqI) (auto simp: bit_simps dest: bit_imp_le_length)
  moreover have "(ucast (drop_bit 32 (corex_protocol_to_be64 v)) :: u32) = ?l"
    unfolding tb by (rule bit_word_eqI) (auto simp: bit_simps dest: bit_imp_le_length)
  ultimately show ?thesis by (simp add: le_bytes64_def be64_def htonl_bytes)
qed

text \<open>Only the first bytes of the buffer are read.\<close>

lemma le_load32_append [simp]: "length b = 4 \<Longrightarrow> le_load32 (b @ r) = le_load32 b"
  by (simp add: le_load32_def nth_append)

lemma read_u32_be [wire_simps]: "corex_protocol_read_u32 (be32 v @ r) = v"
proof -
  have "corex_protocol_read_u32 (be32 v @ r) = htonl (le_load32 (le_bytes32 (htonl v)))"
    by (simp add: corex_protocol_read_u32_def htonl_bytes)
  then show ?thesis by (simp add: le_load32_bytes)
qed

lemma le_load64_bytes: "le_load64 (le_bytes64 v @ r) = v"
proof -
  have "le_load64 (le_bytes64 v @ r) = ucast (ucast v :: u32) OR push_bit 32 (ucast (ucast (drop_bit 32 v) :: u32))"
    by (simp add: le_load64_def le_bytes64_def le_load32_bytes)
  also have "\<dots> = v"
    by (rule bit_word_eqI) (auto simp: bit_simps dest: bit_imp_le_length)
  finally show ?thesis .
qed

lemma to_be64_involutive: "corex_protocol_to_be64 (corex_protocol_to_be64 v) = v"
proof -
  let ?w = "corex_protocol_to_be64 v"
  have w: "?w = push_bit 32 (ucast (htonl (ucast v))) OR ucast (htonl (ucast (drop_bit 32 v)))"
    by (simp add: corex_protocol_to_be64_def ucast_mask32)
  have lo: "(ucast ?w :: u32) = htonl (ucast (drop_bit 32 v))"
    unfolding w by (rule bit_word_eqI) (auto simp: bit_simps dest: bit_imp_le_length)
  have hi: "(ucast (drop_bit 32 ?w) :: u32) = htonl (ucast v)"
    unfolding w by (rule bit_word_eqI) (auto simp: bit_simps dest: bit_imp_le_length)
  have "corex_protocol_to_be64 ?w = push_bit 32 (ucast (ucast (drop_bit 32 v) :: u32)) OR ucast (ucast v :: u32)"
    unfolding corex_protocol_to_be64_def [of ?w] ucast_mask32 lo hi by simp
  also have "\<dots> = v"
    by (rule bit_word_eqI) (auto simp: bit_simps dest: bit_imp_le_length)
  finally show ?thesis .
qed

lemma read_u64_be [wire_simps]: "corex_protocol_read_u64 (be64 v @ r) = v"
  by (simp add: corex_protocol_read_u64_def corex_protocol_from_be64_def le_load64_bytes
      flip: le_bytes64_to_be64) (simp add: to_be64_involutive)

lemma read_be_exact [simp]: "corex_protocol_read_u64 (be64 v) = v" "corex_protocol_read_u32 (be32 x) = x"
  using read_u64_be [of v "[]"] read_u32_be [of x "[]"] by simp_all

lemma write_u32_eq [wire_simps]: "corex_protocol_write_u32 out v = out @ be32 v"
  by (simp add: corex_protocol_write_u32_def htonl_bytes)

lemma write_u64_eq [wire_simps]: "corex_protocol_write_u64 out v = out @ be64 v"
  by (simp add: corex_protocol_write_u64_def le_bytes64_to_be64)

lemma be32_read:
  assumes "length b = 4"
  shows "be32 (corex_protocol_read_u32 b) = b"
  by (metis assms corex_protocol_read_u32_def htonl_bytes htonl_htonl le_bytes_load32)

lemma le_bytes_load64:
  assumes "length b = 8"
  shows "le_bytes64 (le_load64 b) = b"
proof -
  have "(ucast (le_load64 b) :: u32) = le_load32 b"
    unfolding le_load64_def by (rule bit_word_eqI) (auto simp: bit_simps dest: bit_imp_le_length)
  moreover have "\<not> bit (le_load32 b) (32 + n)" for n using bit_imp_le_length [of "le_load32 b" "32 + n"] by auto
  then have "(ucast (drop_bit 32 (le_load64 b)) :: u32) = le_load32 (drop 4 b)"
    unfolding le_load64_def by (intro bit_word_eqI) (auto simp: bit_simps)
  moreover have "le_load32 b = le_load32 (take 4 b)"
    using assms le_load32_append [of "take 4 b" "drop 4 b"] by simp
  ultimately show ?thesis using assms by (simp add: le_bytes64_def le_bytes_load32)
qed

lemma be64_read:
  assumes "length b = 8"
  shows "be64 (corex_protocol_read_u64 b) = b"
  by (simp add: corex_protocol_read_u64_def corex_protocol_from_be64_def to_be64_involutive le_bytes_load64 assms
      flip: le_bytes64_to_be64)

section \<open>Bounded reads\<close>

text \<open>
  \<open>take_u32 data position\<close> is the value and the advanced position, \<^const>\<open>None\<close> the return value -1.
\<close>

definition corex_protocol_take_u32 :: "bytes \<Rightarrow> nat \<Rightarrow> (u32 \<times> nat) option" where
  "corex_protocol_take_u32 data position =
     (if position > length data \<or> length data - position < 4 then None
      else Some (corex_protocol_read_u32 (drop position data), position + 4))"

definition corex_protocol_take_u64 :: "bytes \<Rightarrow> nat \<Rightarrow> (u64 \<times> nat) option" where
  "corex_protocol_take_u64 data position =
     (if position > length data \<or> length data - position < 8 then None
      else Some (corex_protocol_read_u64 (drop position data), position + 8))"

lemma take_u32_at:
  "corex_protocol_take_u32 (pre @ be32 v @ rest) (length pre) = Some (v, length pre + 4)"
  by (simp add: corex_protocol_take_u32_def read_u32_be)

lemma take_u64_at:
  "corex_protocol_take_u64 (pre @ be64 v @ rest) (length pre) = Some (v, length pre + 8)"
  by (simp add: corex_protocol_take_u64_def read_u64_be)

lemma take_u32_drop:
  assumes "drop position data = be32 v @ rest" "position \<le> length data"
  shows "corex_protocol_take_u32 data position = Some (v, position + 4)"
proof -
  have "length data - position = 4 + length rest"
    using assms(1) by (metis length_append length_be(1) length_drop)
  then show ?thesis
    using assms by (simp add: corex_protocol_take_u32_def read_u32_be)
qed

lemma take_u32_bounds:
  "corex_protocol_take_u32 data position = Some (v, position') \<Longrightarrow>
   position' = position + 4 \<and> position' \<le> length data"
  by (auto simp: corex_protocol_take_u32_def split: if_splits)

lemma take_u64_bounds:
  "corex_protocol_take_u64 data position = Some (v, position') \<Longrightarrow>
   position' = position + 8 \<and> position' \<le> length data"
  by (auto simp: corex_protocol_take_u64_def split: if_splits)

lemma le_load32_cong: "take 4 b = take 4 c \<Longrightarrow> 4 \<le> length b \<Longrightarrow> 4 \<le> length c \<Longrightarrow> le_load32 b = le_load32 c"
  by (metis append_take_drop_id le_load32_append length_take min_absorb2)

lemma take_u32_inverse:
  assumes "corex_protocol_take_u32 data position = Some (v, position')"
  shows "take 4 (drop position data) = be32 v"
proof -
  have b: "position \<le> length data" "4 \<le> length data - position"
    and v: "v = corex_protocol_read_u32 (drop position data)"
    using assms by (auto simp: corex_protocol_take_u32_def split: if_splits)
  have l: "length (take 4 (drop position data)) = 4" using b by simp
  have "v = corex_protocol_read_u32 (take 4 (drop position data))"
    unfolding v corex_protocol_read_u32_def
    using b by (intro arg_cong [where f = htonl] le_load32_cong) auto
  then show ?thesis using be32_read [OF l] by simp
qed

section \<open>Headers\<close>

abbreviation (input) CRX_PROTOCOL_MAGIC :: u32 where
  "CRX_PROTOCOL_MAGIC \<equiv> 0x43525839"

abbreviation (input) CRX_PROTOCOL_VERSION :: u32 where
  "CRX_PROTOCOL_VERSION \<equiv> 3"

record CorexProtocolRequestHeader =
  rq_opcode :: u32
  rq_request_id :: u32
  rq_payload_length :: u32

record CorexProtocolResponseHeader =
  rs_opcode :: u32
  rs_request_id :: u32
  rs_status :: u32
  rs_payload_length :: u32

definition corex_protocol_encode_request_header :: "u32 \<Rightarrow> u32 \<Rightarrow> u32 \<Rightarrow> bytes" where
  "corex_protocol_encode_request_header opcode request_id payload_length =
     (let out = corex_protocol_write_u32 [] CRX_PROTOCOL_MAGIC;
          out = corex_protocol_write_u32 out CRX_PROTOCOL_VERSION;
          out = corex_protocol_write_u32 out opcode;
          out = corex_protocol_write_u32 out request_id
      in corex_protocol_write_u32 out payload_length)"

definition corex_protocol_decode_request_header :: "bytes \<Rightarrow> CorexProtocolRequestHeader option" where
  "corex_protocol_decode_request_header input =
     do {
       (magic, position) \<leftarrow> corex_protocol_take_u32 input 0;
       (version, position) \<leftarrow> corex_protocol_take_u32 input position;
       (opcode, position) \<leftarrow> corex_protocol_take_u32 input position;
       (request_id, position) \<leftarrow> corex_protocol_take_u32 input position;
       (payload_length, position) \<leftarrow> corex_protocol_take_u32 input position;
       if magic = CRX_PROTOCOL_MAGIC \<and> version = CRX_PROTOCOL_VERSION
       then Some \<lparr>rq_opcode = opcode, rq_request_id = request_id, rq_payload_length = payload_length\<rparr>
       else None
     }"

definition corex_protocol_encode_response_header :: "u32 \<Rightarrow> u32 \<Rightarrow> u32 \<Rightarrow> u32 \<Rightarrow> bytes" where
  "corex_protocol_encode_response_header opcode request_id status payload_length =
     (let out = corex_protocol_write_u32 [] CRX_PROTOCOL_MAGIC;
          out = corex_protocol_write_u32 out CRX_PROTOCOL_VERSION;
          out = corex_protocol_write_u32 out opcode;
          out = corex_protocol_write_u32 out request_id;
          out = corex_protocol_write_u32 out status
      in corex_protocol_write_u32 out payload_length)"

definition corex_protocol_decode_response_header :: "bytes \<Rightarrow> CorexProtocolResponseHeader option" where
  "corex_protocol_decode_response_header input =
     do {
       (magic, position) \<leftarrow> corex_protocol_take_u32 input 0;
       (version, position) \<leftarrow> corex_protocol_take_u32 input position;
       (opcode, position) \<leftarrow> corex_protocol_take_u32 input position;
       (request_id, position) \<leftarrow> corex_protocol_take_u32 input position;
       (status, position) \<leftarrow> corex_protocol_take_u32 input position;
       (payload_length, position) \<leftarrow> corex_protocol_take_u32 input position;
       if magic = CRX_PROTOCOL_MAGIC \<and> version = CRX_PROTOCOL_VERSION
       then Some \<lparr>rs_opcode = opcode, rs_request_id = request_id, rs_status = status,
                  rs_payload_length = payload_length\<rparr>
       else None
     }"

lemma encode_request_header_eq [wire_simps]:
  "corex_protocol_encode_request_header op rid len =
     be32 CRX_PROTOCOL_MAGIC @ be32 CRX_PROTOCOL_VERSION @ be32 op @ be32 rid @ be32 len"
  by (simp add: corex_protocol_encode_request_header_def wire_simps)

lemma encode_response_header_eq [wire_simps]:
  "corex_protocol_encode_response_header op rid st len =
     be32 CRX_PROTOCOL_MAGIC @ be32 CRX_PROTOCOL_VERSION @ be32 op @ be32 rid @ be32 st @ be32 len"
  by (simp add: corex_protocol_encode_response_header_def wire_simps)

lemma length_headers [simp]:
  "length (corex_protocol_encode_request_header op rid len) = 20"
  "length (corex_protocol_encode_response_header op rid st len) = 24"
  by (simp_all add: wire_simps)

lemma drop_be32 [simp]: "drop (4 + n) (be32 v @ r) = drop n r"
  by simp

text \<open>The cursor over a concatenation of encoded words: the \<open>k\<close>-th read starts at offset \<open>4 * k\<close>.\<close>

lemma take_u32_word:
  assumes "k < length ws"
  shows "corex_protocol_take_u32 (concat (map be32 ws) @ rest) (4 * k) = Some (ws ! k, 4 * k + 4)"
proof -
  have ws: "ws = take k ws @ ws ! k # drop (Suc k) ws"
    using assms by (simp add: id_take_nth_drop)
  have len: "length (concat (map be32 (take k ws))) = 4 * k"
    using assms by (simp add: length_concat comp_def sum_list_triv)
  have "concat (map be32 ws) @ rest
      = concat (map be32 (take k ws)) @ be32 (ws ! k) @ (concat (map be32 (drop (Suc k) ws)) @ rest)"
    by (subst ws) simp
  then show ?thesis
    using take_u32_at [of "concat (map be32 (take k ws))" "ws ! k"] len by simp
qed

lemmas take_u32_words =
  take_u32_word [where k = 0, simplified] take_u32_word [where k = 1, simplified]
  take_u32_word [where k = 2, simplified] take_u32_word [where k = 3, simplified]
  take_u32_word [where k = 4, simplified] take_u32_word [where k = 5, simplified]
  take_u32_word [where k = 6, simplified] take_u32_word [where k = 7, simplified]
  take_u32_word [where k = 8, simplified] take_u32_word [where k = 9, simplified]
  take_u32_word [where k = 10, simplified]

lemma decode_encode_request_header:
  "corex_protocol_decode_request_header (corex_protocol_encode_request_header op rid len @ rest)
   = Some \<lparr>rq_opcode = op, rq_request_id = rid, rq_payload_length = len\<rparr>"
proof -
  let ?ws = "[CRX_PROTOCOL_MAGIC, CRX_PROTOCOL_VERSION, op, rid, len]"
  have "corex_protocol_encode_request_header op rid len @ rest = concat (map be32 ?ws) @ rest"
    by (simp add: wire_simps)
  moreover have "corex_protocol_decode_request_header (concat (map be32 ?ws) @ rest)
      = Some \<lparr>rq_opcode = op, rq_request_id = rid, rq_payload_length = len\<rparr>"
    unfolding corex_protocol_decode_request_header_def
    by (simp add: take_u32_words [where ws = ?ws and rest = rest, simplified])
  ultimately show ?thesis by simp
qed

lemma decode_encode_response_header:
  "corex_protocol_decode_response_header (corex_protocol_encode_response_header op rid st len @ rest)
   = Some \<lparr>rs_opcode = op, rs_request_id = rid, rs_status = st, rs_payload_length = len\<rparr>"
proof -
  let ?ws = "[CRX_PROTOCOL_MAGIC, CRX_PROTOCOL_VERSION, op, rid, st, len]"
  have "corex_protocol_encode_response_header op rid st len @ rest = concat (map be32 ?ws) @ rest"
    by (simp add: wire_simps)
  moreover have "corex_protocol_decode_response_header (concat (map be32 ?ws) @ rest)
      = Some \<lparr>rs_opcode = op, rs_request_id = rid, rs_status = st, rs_payload_length = len\<rparr>"
    unfolding corex_protocol_decode_response_header_def
    by (simp add: take_u32_words [where ws = ?ws and rest = rest, simplified])
  ultimately show ?thesis by simp
qed

end
