(* ===== verification/Hello.thy ===== *)
theory Hello
  imports Wire
begin

text \<open>
  The HELLO message of \<^verbatim>\<open>include/internal/corex_protocol.h\<close> and the contract every fixed message of
  the wire satisfies: decoding an encoded message returns it, and a buffer that decodes is the
  encoding of what it decodes to. The contract is interpreted on both headers and on HELLO.
\<close>

section \<open>The message contract\<close>

locale wire_message =
  fixes enc :: "'m \<Rightarrow> bytes"
    and dec :: "bytes \<Rightarrow> 'm option"
    and valid :: "'m \<Rightarrow> bool"
    and sized :: "bytes \<Rightarrow> bool"
  assumes dec_enc: "valid m \<Longrightarrow> dec (enc m) = Some m"
    and enc_dec: "sized b \<Longrightarrow> dec b = Some m \<Longrightarrow> enc m = b"
    and valid_dec: "sized b \<Longrightarrow> dec b = Some m \<Longrightarrow> valid m"
    and sized_enc: "valid m \<Longrightarrow> sized (enc m)"
begin

lemma dec_iff: "sized b \<Longrightarrow> dec b = Some m \<longleftrightarrow> valid m \<and> b = enc m"
  using dec_enc enc_dec valid_dec by blast

lemma enc_inject: "valid m \<Longrightarrow> valid m' \<Longrightarrow> enc m = enc m' \<longleftrightarrow> m = m'"
  by (metis dec_enc option.inject)

lemma dec_inject: "sized b \<Longrightarrow> sized c \<Longrightarrow> dec b = Some m \<Longrightarrow> dec c = Some m \<Longrightarrow> b = c"
  using enc_dec by metis

lemma rejected: "sized b \<Longrightarrow> dec b = None \<longleftrightarrow> (\<forall>m. valid m \<longrightarrow> enc m \<noteq> b)"
  by (metis dec_iff not_None_eq)

end

section \<open>Buffers that are a sequence of words\<close>

lemma chunks_of_words:
  assumes "length b = 4 * n" "length ws = n"
    and "\<And>k. k < n \<Longrightarrow> take 4 (drop (4 * k) b) = be32 (ws ! k)"
  shows "b = concat (map be32 ws)"
  using assms
proof (induction ws arbitrary: b n)
  case Nil
  then show ?case by simp
next
  case (Cons w ws)
  then obtain m where n: "n = Suc m" by (cases n) auto
  have hd: "take 4 b = be32 w" using Cons.prems(3) [of 0] n by simp
  have tl: "take 4 (drop (4 * k) (drop 4 b)) = be32 (ws ! k)" if "k < m" for k
    using Cons.prems(3) [of "Suc k"] n that by (simp add: add.commute)
  have "drop 4 b = concat (map be32 ws)"
    using Cons.prems n tl by (intro Cons.IH [of _ m]) auto
  then show ?case using hd by (metis append_take_drop_id concat.simps(2) list.map(2))
qed

lemma all_less_Suc: "(\<forall>k < Suc n. P k) \<longleftrightarrow> P 0 \<and> (\<forall>k < n. P (Suc k))"
  using less_Suc_eq_0_disj by force

lemma words_of_takes:
  assumes "length b = 4 * length ws"
    and "\<forall>k < length ws. \<exists>p. corex_protocol_take_u32 b (4 * k) = Some (ws ! k, p)"
  shows "b = concat (map be32 ws)"
  using assms by (intro chunks_of_words) (auto dest: take_u32_inverse)

lemma words_of_reads:
  assumes "length b = 4 * n"
  shows "concat (map (\<lambda>k. be32 (corex_protocol_read_u32 (drop (4 * k) b))) [0..<n]) = b"
proof -
  let ?ws = "map (\<lambda>k. corex_protocol_read_u32 (drop (4 * k) b)) [0..<n]"
  have "b = concat (map be32 ?ws)"
    using assms by (intro words_of_takes) (auto simp: corex_protocol_take_u32_def)
  then show ?thesis by (simp add: comp_def)
qed

lemma take_u32_Some_iff:
  "corex_protocol_take_u32 b p = Some r \<longleftrightarrow>
   r = (corex_protocol_read_u32 (drop p b), p + 4) \<and> p + 4 \<le> length b"
  by (auto simp: corex_protocol_take_u32_def)

section \<open>Headers are canonical\<close>

lemma request_header_canonical:
  assumes "length b = 20" "corex_protocol_decode_request_header b = Some h"
  shows "corex_protocol_encode_request_header (rq_opcode h) (rq_request_id h) (rq_payload_length h) = b"
  using assms words_of_reads [of b 5]
  by (auto simp: corex_protocol_decode_request_header_def bind_eq_Some_conv take_u32_Some_iff
      wire_simps upt_rec split: if_splits)

lemma response_header_canonical:
  assumes "length b = 24" "corex_protocol_decode_response_header b = Some h"
  shows "corex_protocol_encode_response_header (rs_opcode h) (rs_request_id h) (rs_status h)
           (rs_payload_length h) = b"
  using assms words_of_reads [of b 6]
  by (auto simp: corex_protocol_decode_response_header_def bind_eq_Some_conv take_u32_Some_iff
      wire_simps upt_rec split: if_splits)

interpretation request_header: wire_message
  "\<lambda>h. corex_protocol_encode_request_header (rq_opcode h) (rq_request_id h) (rq_payload_length h)"
  corex_protocol_decode_request_header "\<lambda>_. True" "\<lambda>b. length b = 20"
  using decode_encode_request_header [where rest = "[]"] request_header_canonical
  by unfold_locales auto

interpretation response_header: wire_message
  "\<lambda>h. corex_protocol_encode_response_header (rs_opcode h) (rs_request_id h) (rs_status h) (rs_payload_length h)"
  corex_protocol_decode_response_header "\<lambda>_. True" "\<lambda>b. length b = 24"
  using decode_encode_response_header [where rest = "[]"] response_header_canonical
  by unfold_locales auto

section \<open>HELLO\<close>

abbreviation (input) CRX_HELLO_SCHEMA_VERSION :: u32 where
  "CRX_HELLO_SCHEMA_VERSION \<equiv> 1"

abbreviation (input) CRX_HELLO_MAX_CAPABILITIES :: nat where
  "CRX_HELLO_MAX_CAPABILITIES \<equiv> 32"

text \<open>\<open>CRX_HELLO_FIXED_WORDS * sizeof(uint32_t)\<close> and \<open>CRX_HELLO_MAX_BYTES\<close>.\<close>

abbreviation (input) CRX_HELLO_FIXED_BYTES :: nat where
  "CRX_HELLO_FIXED_BYTES \<equiv> 44"

abbreviation (input) CRX_HELLO_MAX_BYTES :: nat where
  "CRX_HELLO_MAX_BYTES \<equiv> 172"

record CorexHello =
  server_major :: u32
  server_minor :: u32
  server_patch :: u32
  backend_id :: u32
  backend_version :: u32
  device_count :: u32
  device_profile_id :: u32
  capability_count :: u32
  capabilities :: "u32 list"

definition corex_protocol_encode_hello :: "CorexHello \<Rightarrow> bytes option" where
  "corex_protocol_encode_hello hello =
     (if unat (capability_count hello) > CRX_HELLO_MAX_CAPABILITIES then None
      else
        let out = corex_protocol_write_u32 [] CRX_PROTOCOL_MAGIC;
            out = corex_protocol_write_u32 out CRX_PROTOCOL_VERSION;
            out = corex_protocol_write_u32 out CRX_HELLO_SCHEMA_VERSION;
            out = corex_protocol_write_u32 out (server_major hello);
            out = corex_protocol_write_u32 out (server_minor hello);
            out = corex_protocol_write_u32 out (server_patch hello);
            out = corex_protocol_write_u32 out (backend_id hello);
            out = corex_protocol_write_u32 out (backend_version hello);
            out = corex_protocol_write_u32 out (device_count hello);
            out = corex_protocol_write_u32 out (device_profile_id hello);
            out = corex_protocol_write_u32 out (capability_count hello)
        in Some (fold (\<lambda>i out. corex_protocol_write_u32 out (capabilities hello ! i))
                   [0..<unat (capability_count hello)] out))"

text \<open>The capability loop: every value is nonzero and differs from the ones before it.\<close>

fun hello_take_capabilities :: "bytes \<Rightarrow> nat \<Rightarrow> nat \<Rightarrow> u32 list \<Rightarrow> (u32 list \<times> nat) option" where
  "hello_take_capabilities input 0 position acc = Some (acc, position)"
| "hello_take_capabilities input (Suc n) position acc =
     (case corex_protocol_take_u32 input position of
        None \<Rightarrow> None
      | Some (capability, position) \<Rightarrow>
          if capability = 0 \<or> capability \<in> set acc then None
          else hello_take_capabilities input n position (acc @ [capability]))"

definition corex_protocol_decode_hello :: "bytes \<Rightarrow> CorexHello option" where
  "corex_protocol_decode_hello input =
     (if length input < CRX_HELLO_FIXED_BYTES \<or> length input > CRX_HELLO_MAX_BYTES then None
      else do {
        (magic, position) \<leftarrow> corex_protocol_take_u32 input 0;
        (version, position) \<leftarrow> corex_protocol_take_u32 input position;
        (schema, position) \<leftarrow> corex_protocol_take_u32 input position;
        (if magic \<noteq> CRX_PROTOCOL_MAGIC \<or> version \<noteq> CRX_PROTOCOL_VERSION
            \<or> schema \<noteq> CRX_HELLO_SCHEMA_VERSION then None
         else do {
          (major, position) \<leftarrow> corex_protocol_take_u32 input position;
          (minor, position) \<leftarrow> corex_protocol_take_u32 input position;
          (patch, position) \<leftarrow> corex_protocol_take_u32 input position;
          (backend, position) \<leftarrow> corex_protocol_take_u32 input position;
          (backend_ver, position) \<leftarrow> corex_protocol_take_u32 input position;
          (devices, position) \<leftarrow> corex_protocol_take_u32 input position;
          (profile, position) \<leftarrow> corex_protocol_take_u32 input position;
          (count, position) \<leftarrow> corex_protocol_take_u32 input position;
          (if devices = 0 \<or> unat count > CRX_HELLO_MAX_CAPABILITIES
              \<or> length input \<noteq> CRX_HELLO_FIXED_BYTES + 4 * unat count then None
           else do {
            (caps, position) \<leftarrow> hello_take_capabilities input (unat count) position [];
            (if position = length input
             then Some \<lparr>server_major = major, server_minor = minor, server_patch = patch,
                        backend_id = backend, backend_version = backend_ver,
                        device_count = devices, device_profile_id = profile,
                        capability_count = count,
                        capabilities = caps @ replicate (CRX_HELLO_MAX_CAPABILITIES - length caps) 0\<rparr>
             else None)
           })
         })
      })"

text \<open>
  The messages the protocol means: at least one device, at most 32 distinct nonzero capabilities,
  the rest of the array zero.
\<close>

definition hello_caps :: "CorexHello \<Rightarrow> u32 list" where
  "hello_caps h = take (unat (capability_count h)) (capabilities h)"

definition hello_valid :: "CorexHello \<Rightarrow> bool" where
  "hello_valid h \<longleftrightarrow>
     length (capabilities h) = CRX_HELLO_MAX_CAPABILITIES \<and>
     unat (capability_count h) \<le> CRX_HELLO_MAX_CAPABILITIES \<and>
     device_count h \<noteq> 0 \<and>
     distinct (hello_caps h) \<and> 0 \<notin> set (hello_caps h) \<and>
     drop (unat (capability_count h)) (capabilities h)
       = replicate (CRX_HELLO_MAX_CAPABILITIES - unat (capability_count h)) 0"

definition hello_words :: "CorexHello \<Rightarrow> u32 list" where
  "hello_words h =
     [CRX_PROTOCOL_MAGIC, CRX_PROTOCOL_VERSION, CRX_HELLO_SCHEMA_VERSION,
      server_major h, server_minor h, server_patch h, backend_id h, backend_version h,
      device_count h, device_profile_id h, capability_count h] @ hello_caps h"

lemma fold_write_u32:
  "fold (\<lambda>i out. out @ be32 (xs ! i)) is out = out @ concat (map (\<lambda>i. be32 (xs ! i)) is)"
  by (induction "is" arbitrary: out) (simp_all add: wire_simps)

lemma encode_hello_words:
  assumes "unat (capability_count h) \<le> CRX_HELLO_MAX_CAPABILITIES" "length (capabilities h) = CRX_HELLO_MAX_CAPABILITIES"
  shows "corex_protocol_encode_hello h = Some (concat (map be32 (hello_words h)))"
proof -
  have "map (\<lambda>i. be32 (capabilities h ! i)) [0..<unat (capability_count h)] = map be32 (hello_caps h)"
    using assms by (intro nth_equalityI) (auto simp: hello_caps_def)
  then show ?thesis
    using assms by (simp add: corex_protocol_encode_hello_def fold_write_u32 hello_words_def wire_simps)
qed

lemma length_concat_be32 [simp]: "length (concat (map be32 ws)) = 4 * length ws"
  by (simp add: length_concat comp_def sum_list_triv)

lemma hello_take_capabilities_ok:
  assumes "drop position input = concat (map be32 caps)" "position \<le> length input"
    and "distinct (acc @ caps)" "0 \<notin> set caps"
  shows "hello_take_capabilities input (length caps) position acc = Some (acc @ caps, position + 4 * length caps)"
  using assms
proof (induction caps arbitrary: position acc)
  case Nil
  then show ?case by simp
next
  case (Cons c caps)
  have t: "corex_protocol_take_u32 input position = Some (c, position + 4)"
    using Cons.prems by (intro take_u32_drop [where rest = "concat (map be32 caps)"]) auto
  have d: "drop (position + 4) input = concat (map be32 caps)"
  proof -
    have "drop (position + 4) input = drop 4 (drop position input)" by (simp add: add.commute)
    then show ?thesis using Cons.prems(1) by simp
  qed
  have "position + 4 \<le> length input"
    using take_u32_bounds [OF t] by simp
  then have "hello_take_capabilities input (length caps) (position + 4) (acc @ [c])
      = Some ((acc @ [c]) @ caps, position + 4 + 4 * length caps)"
    using d Cons.prems by (intro Cons.IH) auto
  then show ?case using t Cons.prems by auto
qed

lemma hello_take_capabilities_sound:
  assumes "hello_take_capabilities input n position acc = Some (r, position')"
    and "distinct acc" "0 \<notin> set acc"
  shows "\<exists>caps. r = acc @ caps \<and> length caps = n \<and> distinct r \<and> 0 \<notin> set r \<and> position' = position + 4 * n \<and>
           (\<forall>k<n. \<exists>p. corex_protocol_take_u32 input (position + 4 * k) = Some (caps ! k, p))"
  using assms
proof (induction n arbitrary: position acc)
  case 0
  then show ?case by auto
next
  case (Suc n)
  then obtain c p where t: "corex_protocol_take_u32 input position = Some (c, p)"
    and c: "c \<noteq> 0" "c \<notin> set acc"
    and r: "hello_take_capabilities input n p (acc @ [c]) = Some (r, position')"
    by (auto split: option.splits if_splits prod.splits)
  have p: "p = position + 4" using take_u32_bounds [OF t] by simp
  obtain caps where caps: "r = (acc @ [c]) @ caps" "length caps = n" "distinct r" "0 \<notin> set r"
      "position' = p + 4 * n"
      "\<forall>k<n. \<exists>q. corex_protocol_take_u32 input (p + 4 * k) = Some (caps ! k, q)"
    using Suc.IH [OF r] Suc.prems c by auto
  have "\<forall>k<Suc n. \<exists>q. corex_protocol_take_u32 input (position + 4 * k) = Some ((c # caps) ! k, q)"
    using caps(6) t p by (auto simp: all_less_Suc algebra_simps)
  then show ?case using caps p by (intro exI [of _ "c # caps"]) auto
qed

lemma decode_encode_hello:
  assumes "hello_valid h"
  shows "Option.bind (corex_protocol_encode_hello h) corex_protocol_decode_hello = Some h"
proof -
  let ?b = "concat (map be32 (hello_words h))"
  have v: "unat (capability_count h) \<le> 32" "length (capabilities h) = 32" "device_count h \<noteq> 0"
    "distinct (hello_caps h)" "0 \<notin> set (hello_caps h)"
    using assms by (auto simp: hello_valid_def)
  have lc: "length (hello_caps h) = unat (capability_count h)" using v by (simp add: hello_caps_def)
  have lw: "length (hello_words h) = 11 + unat (capability_count h)" using lc by (simp add: hello_words_def)
  have t: "corex_protocol_take_u32 ?b (4 * k) = Some (hello_words h ! k, 4 * k + 4)" if "k < 11" for k
    using take_u32_word [of k "hello_words h" "[]"] that lw by simp
  have ts: "corex_protocol_take_u32 ?b 0 = Some (CRX_PROTOCOL_MAGIC, 4)"
    "corex_protocol_take_u32 ?b 4 = Some (CRX_PROTOCOL_VERSION, 8)"
    "corex_protocol_take_u32 ?b 8 = Some (CRX_HELLO_SCHEMA_VERSION, 12)"
    "corex_protocol_take_u32 ?b 12 = Some (server_major h, 16)"
    "corex_protocol_take_u32 ?b 16 = Some (server_minor h, 20)"
    "corex_protocol_take_u32 ?b 20 = Some (server_patch h, 24)"
    "corex_protocol_take_u32 ?b 24 = Some (backend_id h, 28)"
    "corex_protocol_take_u32 ?b 28 = Some (backend_version h, 32)"
    "corex_protocol_take_u32 ?b 32 = Some (device_count h, 36)"
    "corex_protocol_take_u32 ?b 36 = Some (device_profile_id h, 40)"
    "corex_protocol_take_u32 ?b 40 = Some (capability_count h, 44)"
    using t [of 0] t [of 1] t [of 2] t [of 3] t [of 4] t [of 5] t [of 6] t [of 7] t [of 8] t [of 9] t [of 10]
    by (simp_all add: hello_words_def)
  have "drop 44 ?b = concat (map be32 (hello_caps h))"
    by (simp add: hello_words_def)
  then have hc: "hello_take_capabilities ?b (unat (capability_count h)) 44 []
      = Some (hello_caps h, 44 + 4 * unat (capability_count h))"
    using hello_take_capabilities_ok [of 44 ?b "hello_caps h" "[]"] v lc lw by simp
  have caps: "hello_caps h @ replicate (32 - length (hello_caps h)) 0 = capabilities h"
    using assms lc by (metis append_take_drop_id hello_caps_def hello_valid_def)
  have "corex_protocol_decode_hello ?b = Some h"
    unfolding corex_protocol_decode_hello_def
    using v(1) by (simp add: ts hc caps lw v(3) not_less del: hello_take_capabilities.simps)
  then show ?thesis using encode_hello_words v by simp
qed

lemma take_u32_read:
  "p + 4 \<le> length b \<Longrightarrow> corex_protocol_take_u32 b p = Some (corex_protocol_read_u32 (drop p b), p + 4)"
  by (simp add: take_u32_Some_iff)

text \<open>On a buffer that holds the fixed words the eleven reads succeed.\<close>

lemma decode_hello_elim:
  assumes "corex_protocol_decode_hello b = Some h"
  obtains caps p where "device_count h \<noteq> 0" "unat (capability_count h) \<le> 32"
    "length b = 44 + 4 * unat (capability_count h)"
    "hello_take_capabilities b (unat (capability_count h)) 44 [] = Some (caps, p)"
    "capabilities h = caps @ replicate (32 - length caps) 0"
    "[CRX_PROTOCOL_MAGIC, CRX_PROTOCOL_VERSION, CRX_HELLO_SCHEMA_VERSION,
      server_major h, server_minor h, server_patch h, backend_id h, backend_version h,
      device_count h, device_profile_id h, capability_count h]
        = map (\<lambda>k. corex_protocol_read_u32 (drop (4 * k) b)) [0, 1, 2, 3, 4, 5, 6, 7, 8, 9, 10]"
proof -
  have len: "44 \<le> length b" "length b \<le> 172"
    using assms by (auto simp: corex_protocol_decode_hello_def split: if_splits)
  define R where "R k = corex_protocol_read_u32 (drop (4 * k) b)" for k
  have t: "corex_protocol_take_u32 b (4 * k) = Some (R k, 4 * k + 4)" if "k < 11" for k
    using len that by (simp add: R_def take_u32_Some_iff)
  have ts: "corex_protocol_take_u32 b 0 = Some (R 0, 4)" "corex_protocol_take_u32 b 4 = Some (R 1, 8)"
    "corex_protocol_take_u32 b 8 = Some (R 2, 12)" "corex_protocol_take_u32 b 12 = Some (R 3, 16)"
    "corex_protocol_take_u32 b 16 = Some (R 4, 20)" "corex_protocol_take_u32 b 20 = Some (R 5, 24)"
    "corex_protocol_take_u32 b 24 = Some (R 6, 28)" "corex_protocol_take_u32 b 28 = Some (R 7, 32)"
    "corex_protocol_take_u32 b 32 = Some (R 8, 36)" "corex_protocol_take_u32 b 36 = Some (R 9, 40)"
    "corex_protocol_take_u32 b 40 = Some (R 10, 44)"
    using t [of 0] t [of 1] t [of 2] t [of 3] t [of 4] t [of 5] t [of 6] t [of 7] t [of 8] t [of 9] t [of 10]
    by simp_all
  have "\<exists>caps p. hello_take_capabilities b (unat (R 10)) 44 [] = Some (caps, p) \<and>
      R 0 = CRX_PROTOCOL_MAGIC \<and> R 1 = CRX_PROTOCOL_VERSION \<and> R 2 = CRX_HELLO_SCHEMA_VERSION \<and>
      R 8 \<noteq> 0 \<and> unat (R 10) \<le> 32 \<and> length b = 44 + 4 * unat (R 10) \<and>
      h = \<lparr>server_major = R 3, server_minor = R 4, server_patch = R 5, backend_id = R 6,
           backend_version = R 7, device_count = R 8, device_profile_id = R 9, capability_count = R 10,
           capabilities = caps @ replicate (32 - length caps) 0\<rparr>"
    using assms unfolding corex_protocol_decode_hello_def
    by (simp add: ts not_less bind_eq_Some_conv del: hello_take_capabilities.simps split: if_splits)
  then obtain caps p where "hello_take_capabilities b (unat (R 10)) 44 [] = Some (caps, p)"
    and "R 0 = CRX_PROTOCOL_MAGIC" "R 1 = CRX_PROTOCOL_VERSION" "R 2 = CRX_HELLO_SCHEMA_VERSION"
      "R 8 \<noteq> 0" "unat (R 10) \<le> 32" "length b = 44 + 4 * unat (R 10)"
      "h = \<lparr>server_major = R 3, server_minor = R 4, server_patch = R 5, backend_id = R 6,
           backend_version = R 7, device_count = R 8, device_profile_id = R 9, capability_count = R 10,
           capabilities = caps @ replicate (32 - length caps) 0\<rparr>"
    by blast
  then show ?thesis by (intro that [of caps p]) (simp_all add: R_def [symmetric])
qed

lemma hello_canonical:
  assumes "corex_protocol_decode_hello b = Some h"
  shows "hello_valid h \<and> corex_protocol_encode_hello h = Some b"
proof -
  from assms obtain caps p where d: "device_count h \<noteq> 0" "unat (capability_count h) \<le> 32"
      "length b = 44 + 4 * unat (capability_count h)"
      "hello_take_capabilities b (unat (capability_count h)) 44 [] = Some (caps, p)"
      "capabilities h = caps @ replicate (32 - length caps) 0"
    and w: "[CRX_PROTOCOL_MAGIC, CRX_PROTOCOL_VERSION, CRX_HELLO_SCHEMA_VERSION,
      server_major h, server_minor h, server_patch h, backend_id h, backend_version h,
      device_count h, device_profile_id h, capability_count h]
        = map (\<lambda>k. corex_protocol_read_u32 (drop (4 * k) b)) [0, 1, 2, 3, 4, 5, 6, 7, 8, 9, 10]"
    by (rule decode_hello_elim)
  have w11: "[0, 1, 2, 3, 4, 5, 6, 7, 8, 9, 10] = [0..<11]" by (simp add: upt_rec)
  from hello_take_capabilities_sound [OF d(4)] have c: "length caps = unat (capability_count h)"
      "distinct caps" "0 \<notin> set caps"
      "\<And>k. k < unat (capability_count h) \<Longrightarrow> \<exists>q. corex_protocol_take_u32 b (44 + 4 * k) = Some (caps ! k, q)"
    by auto
  have hc: "hello_caps h = caps" using d(5) c(1) by (simp add: hello_caps_def)
  have v: "hello_valid h" using d c hc by (simp add: hello_valid_def)
  have len: "length (hello_words h) = 11 + unat (capability_count h)" using hc c by (simp add: hello_words_def)
  have "b = concat (map be32 (hello_words h))"
  proof (rule words_of_takes)
    show "length b = 4 * length (hello_words h)" using d(3) len by simp
    show "\<forall>k < length (hello_words h). \<exists>p. corex_protocol_take_u32 b (4 * k) = Some (hello_words h ! k, p)"
    proof (intro allI impI)
      fix k assume k: "k < length (hello_words h)"
      show "\<exists>p. corex_protocol_take_u32 b (4 * k) = Some (hello_words h ! k, p)"
      proof (cases "k < 11")
        case True
        then have "hello_words h ! k = corex_protocol_read_u32 (drop (4 * k) b)"
          unfolding hello_words_def w w11 by (simp add: nth_append)
        then show ?thesis using True d(3) by (simp add: take_u32_Some_iff)
      next
        case False
        then have "hello_words h ! k = caps ! (k - 11)"
          unfolding hello_words_def w w11 hc by (simp add: nth_append)
        moreover have "4 * k = 44 + 4 * (k - 11)" using False by simp
        ultimately show ?thesis using c(4) [of "k - 11"] k len False by simp
      qed
    qed
  qed
  then show ?thesis using encode_hello_words v by (simp add: hello_valid_def)
qed

interpretation hello: wire_message "\<lambda>h. the (corex_protocol_encode_hello h)"
  corex_protocol_decode_hello hello_valid "\<lambda>b. True"
proof unfold_locales
  fix m assume v: "hello_valid m"
  then show "corex_protocol_decode_hello (the (corex_protocol_encode_hello m)) = Some m"
    using decode_encode_hello [OF v] by (auto simp: bind_eq_Some_conv)
qed (auto dest: hello_canonical)

end
