(* ===== verification/Backend.thy ===== *)
theory Backend
  imports Hello
begin

text \<open>
  The boundary of the server: the driver seam of \<^verbatim>\<open>server/corex_backend.h\<close>, whose functions are one
  call each of the vendor driver, and the operating system (sockets, \<open>malloc\<close>). None of that code
  is in the repository, so it is a parameter, the \<open>driver\<close>: a function from the history of calls and
  the next call to its outcome. Nothing is assumed of it; a property that needs a documented
  behaviour of the driver says so as a hypothesis. The state of the server process is a \<open>world\<close>: the
  session, the history of calls (latest first) and the bytes sent to the client.
\<close>

section \<open>Results\<close>

text \<open>The driver results the server distinguishes; every other code is \<open>CUDA_ERROR_OTHER\<close>.\<close>

datatype CUresult =
    CUDA_SUCCESS
  | CUDA_ERROR_INVALID_VALUE
  | CUDA_ERROR_OUT_OF_MEMORY
  | CUDA_ERROR_INVALID_DEVICE
  | CUDA_ERROR_NOT_FOUND
  | CUDA_ERROR_NOT_READY
  | CUDA_ERROR_NOT_SUPPORTED
  | CUDA_ERROR_OTHER nat

text \<open>
  The outcome of a call: the result code, two scalar out-parameters, a byte buffer the call filled, the
  return value of an operating-system call and the fields of a structure the call filled. An
  out-parameter is read only when the call succeeded; \<open>malloc\<close> fails when \<open>o_ret\<close> is not 0.
\<close>

record outcome =
  o_rc :: CUresult
  o_val :: u64
  o_val2 :: u64
  o_data :: bytes
  o_ret :: int
  o_vals :: "u64 list"

section \<open>Calls\<close>

text \<open>
  One end of a strided copy: device memory, a pinned host buffer (by address), the bytes of the
  request payload, or the heap buffer a result is read into.
\<close>

datatype mem_end = At_device u64 | At_pinned u64 | At_payload bytes | At_result

record CUDA_MEMCPY2D =
  c2_src :: mem_end
  c2_srcPitch :: u64
  c2_dst :: mem_end
  c2_dstPitch :: u64
  c2_WidthInBytes :: u64
  c2_Height :: u64

record CUDA_MEMCPY3D =
  c3_src :: mem_end
  c3_srcPitch :: u64
  c3_srcHeight :: u64
  c3_dst :: mem_end
  c3_dstPitch :: u64
  c3_dstHeight :: u64
  c3_WidthInBytes :: u64
  c3_Height :: u64
  c3_Depth :: u64

datatype kernel_param = K_ptr u64 | K_i32 u32 | K_u64 u64 | K_f32 u32 | K_raw bytes

datatype ctx_call =
    B_context_sync
  | B_context_create u32
  | B_context_destroy u64
  | B_context_get_flags
  | B_context_get_limit u32
  | B_context_set_limit u32 u64
  | B_context_get_cache_config
  | B_context_set_cache_config u32
  | B_context_get_shared_mem_config
  | B_context_set_shared_mem_config u32
  | B_context_get_stream_priority_range

text \<open>Questions about the device and the driver, asked of device 0.\<close>

datatype device_call =
    B_driver_version
  | B_device_attribute u32
  | B_device_name u32
  | B_device_total_mem
  | B_mem_info
  | B_device_pci_bus_id u32
  | B_device_get_by_pci_bus_id bytes

text \<open>\<open>CUstreamAttrValue\<close>, one of its two members.\<close>

datatype stream_attr =
    Access_policy_window (w_base_ptr: u64) (w_num_bytes: u64) (w_hitRatio: u32) (w_hitProp: u32) (w_missProp: u32)
  | Sync_policy u32

datatype mem_call =
    B_mem_alloc u64
  | B_mem_alloc_pitch u64 u64 u32
  | B_mem_free u64
  | B_mem_alloc_async u64 u64
  | B_mem_alloc_from_pool_async u64 u64 u64
  | B_mem_free_async u64 u64
  | B_host_alloc u64
  | B_host_free u64

datatype copy_call =
    B_copy_h2d u64 bytes
  | B_copy_d2h u64 u64
  | B_copy_d2d u64 u64 u64
  | B_copy_d2d_async u64 u64 u64 u64
  | B_copy_h2d_async u64 mem_end u64 u64
  | B_copy_d2h_async mem_end u64 u64 u64
  | B_copy_2d CUDA_MEMCPY2D
  | B_copy_2d_async CUDA_MEMCPY2D u64
  | B_copy_3d CUDA_MEMCPY3D
  | B_copy_3d_async CUDA_MEMCPY3D u64

datatype fill_call =
    B_memset_d8 u64 u8 u64
  | B_memset_d8_async u64 u8 u64 u64
  | B_memset_d2d8 u64 u64 u8 u64 u64
  | B_memset_d2d8_async u64 u64 u8 u64 u64 u64

datatype stream_call =
    B_stream_create u32
  | B_stream_create_priority u32 u32
  | B_stream_get_flags u64
  | B_stream_get_priority u64
  | B_stream_destroy u64
  | B_stream_query u64
  | B_stream_sync u64
  | B_stream_wait_event u64 u64 u32
  | B_stream_copy_attributes u64 u64
  | B_stream_get_attribute u64 u32
  | B_stream_set_attribute u64 u32 stream_attr

datatype event_call =
    B_event_create u32
  | B_event_destroy u64
  | B_event_record u64 u64
  | B_event_query u64
  | B_event_sync u64
  | B_event_elapsed u64 u64

datatype module_call =
    B_module_load bytes
  | B_module_unload u64
  | B_module_global u64 bytes
  | B_module_function u64 bytes
  | B_launch u64 "u32 list" u32 u64 "kernel_param list"
  | B_function_attribute u64 u32
  | B_function_set_attribute u64 u32 u32
  | B_function_set_cache_config u64 u32
  | B_function_set_shared_config u64 u32
  | B_occupancy u64 u32 u64
  | B_occupancy_flags u64 u32 u64 u32
  | B_occupancy_potential u64 u64 u32

datatype pool_call =
    B_device_default_pool
  | B_device_get_pool
  | B_device_set_pool u64
  | B_pool_create
  | B_pool_destroy u64
  | B_pool_trim u64 u64
  | B_pool_get_attribute u64 u32
  | B_pool_set_attribute u64 u32 u64
  | B_pool_get_access u64
  | B_pool_set_access u64 u32

datatype graph_call =
    B_graph_exec_destroy u64
  | B_graph_destroy u64
  | B_capture_end u64
  | B_capture_exchange u32
  | B_graph_mem_get u32
  | B_graph_mem_set u32 u64
  | B_graph_mem_trim

text \<open>
  The operating system, and the pinned host buffers, which the driver shares with the server: a read
  of such a buffer returns whatever the device has put there.
\<close>

datatype os_call =
    OS_send bytes
  | OS_malloc u64
  | OS_pinned_write u64 bytes
  | OS_pinned_read u64 u64

datatype call =
    Ctx ctx_call | Device device_call | Mem mem_call | Copy copy_call | Fill fill_call | Stream stream_call
  | Event event_call | Module module_call | Pool pool_call | Graph graph_call | OS os_call

type_synonym driver = "call list \<Rightarrow> call \<Rightarrow> outcome"

section \<open>Protocol constants\<close>

text \<open>\<open>CorexProtocolStatus\<close>.\<close>

abbreviation (input) ST_OK :: u32 where "ST_OK \<equiv> 0"
abbreviation (input) ST_BAD_REQUEST :: u32 where "ST_BAD_REQUEST \<equiv> 1"
abbreviation (input) ST_NOT_FOUND :: u32 where "ST_NOT_FOUND \<equiv> 2"
abbreviation (input) ST_CUDA_ERROR :: u32 where "ST_CUDA_ERROR \<equiv> 3"
abbreviation (input) ST_INTERNAL :: u32 where "ST_INTERNAL \<equiv> 4"
abbreviation (input) ST_NO_RESOURCE :: u32 where "ST_NO_RESOURCE \<equiv> 5"
abbreviation (input) ST_ABI_MISMATCH :: u32 where "ST_ABI_MISMATCH \<equiv> 6"
abbreviation (input) ST_METADATA_ERROR :: u32 where "ST_METADATA_ERROR \<equiv> 7"
abbreviation (input) ST_INVALID_DEVICE :: u32 where "ST_INVALID_DEVICE \<equiv> 8"
abbreviation (input) ST_SYMBOL_NOT_FOUND :: u32 where "ST_SYMBOL_NOT_FOUND \<equiv> 9"
abbreviation (input) ST_NOT_SUPPORTED :: u32 where "ST_NOT_SUPPORTED \<equiv> 10"
abbreviation (input) ST_CAPTURE_UNSUPPORTED :: u32 where "ST_CAPTURE_UNSUPPORTED \<equiv> 11"

text \<open>\<open>CorexProtocolOpcode\<close>.\<close>

abbreviation (input) OP_ALLOC :: u32 where "OP_ALLOC \<equiv> 1"
abbreviation (input) OP_H2D :: u32 where "OP_H2D \<equiv> 2"
abbreviation (input) OP_LAUNCH :: u32 where "OP_LAUNCH \<equiv> 3"
abbreviation (input) OP_SYNC :: u32 where "OP_SYNC \<equiv> 4"
abbreviation (input) OP_D2H :: u32 where "OP_D2H \<equiv> 5"
abbreviation (input) OP_FREE :: u32 where "OP_FREE \<equiv> 6"
abbreviation (input) OP_CLOSE :: u32 where "OP_CLOSE \<equiv> 7"
abbreviation (input) OP_UPLOAD_MODULE :: u32 where "OP_UPLOAD_MODULE \<equiv> 8"
abbreviation (input) OP_GET_KERNEL :: u32 where "OP_GET_KERNEL \<equiv> 9"
abbreviation (input) OP_UNLOAD_MODULE :: u32 where "OP_UNLOAD_MODULE \<equiv> 10"
abbreviation (input) OP_LAUNCH_GENERIC :: u32 where "OP_LAUNCH_GENERIC \<equiv> 11"
abbreviation (input) OP_CREATE_STREAM :: u32 where "OP_CREATE_STREAM \<equiv> 12"
abbreviation (input) OP_DESTROY_STREAM :: u32 where "OP_DESTROY_STREAM \<equiv> 13"
abbreviation (input) OP_STREAM_QUERY :: u32 where "OP_STREAM_QUERY \<equiv> 14"
abbreviation (input) OP_STREAM_SYNC :: u32 where "OP_STREAM_SYNC \<equiv> 15"
abbreviation (input) OP_CREATE_EVENT :: u32 where "OP_CREATE_EVENT \<equiv> 16"
abbreviation (input) OP_DESTROY_EVENT :: u32 where "OP_DESTROY_EVENT \<equiv> 17"
abbreviation (input) OP_EVENT_RECORD :: u32 where "OP_EVENT_RECORD \<equiv> 18"
abbreviation (input) OP_EVENT_QUERY :: u32 where "OP_EVENT_QUERY \<equiv> 19"
abbreviation (input) OP_EVENT_SYNC :: u32 where "OP_EVENT_SYNC \<equiv> 20"
abbreviation (input) OP_STREAM_WAIT_EVENT :: u32 where "OP_STREAM_WAIT_EVENT \<equiv> 21"
abbreviation (input) OP_H2D_ASYNC_SUBMIT :: u32 where "OP_H2D_ASYNC_SUBMIT \<equiv> 22"
abbreviation (input) OP_D2H_ASYNC_SUBMIT :: u32 where "OP_D2H_ASYNC_SUBMIT \<equiv> 23"
abbreviation (input) OP_TRANSFER_QUERY :: u32 where "OP_TRANSFER_QUERY \<equiv> 24"
abbreviation (input) OP_TRANSFER_WAIT :: u32 where "OP_TRANSFER_WAIT \<equiv> 25"
abbreviation (input) OP_GET_DEVICE_INFO :: u32 where "OP_GET_DEVICE_INFO \<equiv> 26"
abbreviation (input) OP_HELLO :: u32 where "OP_HELLO \<equiv> 27"
abbreviation (input) OP_D2D :: u32 where "OP_D2D \<equiv> 28"
abbreviation (input) OP_MEMSET :: u32 where "OP_MEMSET \<equiv> 29"
abbreviation (input) OP_MEMSET_ASYNC :: u32 where "OP_MEMSET_ASYNC \<equiv> 30"
abbreviation (input) OP_STREAM_GET_FLAGS :: u32 where "OP_STREAM_GET_FLAGS \<equiv> 31"
abbreviation (input) OP_CREATE_STREAM_PRIORITY :: u32 where "OP_CREATE_STREAM_PRIORITY \<equiv> 32"
abbreviation (input) OP_STREAM_GET_PRIORITY :: u32 where "OP_STREAM_GET_PRIORITY \<equiv> 33"
abbreviation (input) OP_EVENT_ELAPSED_TIME :: u32 where "OP_EVENT_ELAPSED_TIME \<equiv> 34"
abbreviation (input) OP_GET_DRIVER_VERSION :: u32 where "OP_GET_DRIVER_VERSION \<equiv> 35"
abbreviation (input) OP_GET_RUNTIME_VERSION :: u32 where "OP_GET_RUNTIME_VERSION \<equiv> 36"
abbreviation (input) OP_FUNCTION_ATTRIBUTES :: u32 where "OP_FUNCTION_ATTRIBUTES \<equiv> 37"
abbreviation (input) OP_OCCUPANCY :: u32 where "OP_OCCUPANCY \<equiv> 38"
abbreviation (input) OP_DEVICE_GET_ATTRIBUTE :: u32 where "OP_DEVICE_GET_ATTRIBUTE \<equiv> 39"
abbreviation (input) OP_GET_DEVICE_FLAGS :: u32 where "OP_GET_DEVICE_FLAGS \<equiv> 40"
abbreviation (input) OP_GET_PRIORITY_RANGE :: u32 where "OP_GET_PRIORITY_RANGE \<equiv> 41"
abbreviation (input) OP_GET_LIMIT :: u32 where "OP_GET_LIMIT \<equiv> 42"
abbreviation (input) OP_GET_CACHE_CONFIG :: u32 where "OP_GET_CACHE_CONFIG \<equiv> 43"
abbreviation (input) OP_GET_SHARED_MEM_CONFIG :: u32 where "OP_GET_SHARED_MEM_CONFIG \<equiv> 44"
abbreviation (input) OP_FUNCTION_SET_ATTRIBUTE :: u32 where "OP_FUNCTION_SET_ATTRIBUTE \<equiv> 45"
abbreviation (input) OP_FUNCTION_SET_CACHE_CONFIG :: u32 where "OP_FUNCTION_SET_CACHE_CONFIG \<equiv> 46"
abbreviation (input) OP_DEVICE_GET_PCI_BUS_ID :: u32 where "OP_DEVICE_GET_PCI_BUS_ID \<equiv> 47"
abbreviation (input) OP_DEVICE_GET_BY_PCI_BUS_ID :: u32 where "OP_DEVICE_GET_BY_PCI_BUS_ID \<equiv> 48"
abbreviation (input) OP_ALLOC_PITCHED :: u32 where "OP_ALLOC_PITCHED \<equiv> 49"
abbreviation (input) OP_MEMCPY_2D :: u32 where "OP_MEMCPY_2D \<equiv> 50"
abbreviation (input) OP_MEMCPY_2D_ASYNC :: u32 where "OP_MEMCPY_2D_ASYNC \<equiv> 51"
abbreviation (input) OP_MEMSET_2D :: u32 where "OP_MEMSET_2D \<equiv> 52"
abbreviation (input) OP_MEMSET_2D_ASYNC :: u32 where "OP_MEMSET_2D_ASYNC \<equiv> 53"
abbreviation (input) OP_D2D_ASYNC :: u32 where "OP_D2D_ASYNC \<equiv> 54"
abbreviation (input) OP_MEMCPY_3D :: u32 where "OP_MEMCPY_3D \<equiv> 55"
abbreviation (input) OP_MEMCPY_3D_ASYNC :: u32 where "OP_MEMCPY_3D_ASYNC \<equiv> 56"
abbreviation (input) OP_MEMCPY_2D_H2D_ASYNC :: u32 where "OP_MEMCPY_2D_H2D_ASYNC \<equiv> 57"
abbreviation (input) OP_MEMCPY_2D_D2H_ASYNC :: u32 where "OP_MEMCPY_2D_D2H_ASYNC \<equiv> 58"
abbreviation (input) OP_SET_LIMIT :: u32 where "OP_SET_LIMIT \<equiv> 59"
abbreviation (input) OP_SET_CACHE_CONFIG :: u32 where "OP_SET_CACHE_CONFIG \<equiv> 60"
abbreviation (input) OP_SET_SHARED_MEM_CONFIG :: u32 where "OP_SET_SHARED_MEM_CONFIG \<equiv> 61"
abbreviation (input) OP_STREAM_COPY_ATTRIBUTES :: u32 where "OP_STREAM_COPY_ATTRIBUTES \<equiv> 62"
abbreviation (input) OP_STREAM_GET_ATTRIBUTE :: u32 where "OP_STREAM_GET_ATTRIBUTE \<equiv> 63"
abbreviation (input) OP_STREAM_SET_ATTRIBUTE :: u32 where "OP_STREAM_SET_ATTRIBUTE \<equiv> 64"
abbreviation (input) OP_MEMSET_3D :: u32 where "OP_MEMSET_3D \<equiv> 65"
abbreviation (input) OP_MEMSET_3D_ASYNC :: u32 where "OP_MEMSET_3D_ASYNC \<equiv> 66"
abbreviation (input) OP_FUNCTION_SET_SHARED_CONFIG :: u32 where "OP_FUNCTION_SET_SHARED_CONFIG \<equiv> 67"
abbreviation (input) OP_OCCUPANCY_FLAGS :: u32 where "OP_OCCUPANCY_FLAGS \<equiv> 68"
abbreviation (input) OP_OCCUPANCY_POTENTIAL :: u32 where "OP_OCCUPANCY_POTENTIAL \<equiv> 69"
abbreviation (input) OP_UPLOAD_LIBRARY :: u32 where "OP_UPLOAD_LIBRARY \<equiv> 70"
abbreviation (input) OP_LIBRARY_COUNT :: u32 where "OP_LIBRARY_COUNT \<equiv> 71"
abbreviation (input) OP_LIBRARY_KERNEL_NAME :: u32 where "OP_LIBRARY_KERNEL_NAME \<equiv> 72"
abbreviation (input) OP_MODULE_GET_GLOBAL :: u32 where "OP_MODULE_GET_GLOBAL \<equiv> 73"
abbreviation (input) OP_SET_DEVICE_FLAGS :: u32 where "OP_SET_DEVICE_FLAGS \<equiv> 74"
abbreviation (input) OP_DEVICE_DEFAULT_POOL :: u32 where "OP_DEVICE_DEFAULT_POOL \<equiv> 75"
abbreviation (input) OP_DEVICE_GET_POOL :: u32 where "OP_DEVICE_GET_POOL \<equiv> 76"
abbreviation (input) OP_DEVICE_SET_POOL :: u32 where "OP_DEVICE_SET_POOL \<equiv> 77"
abbreviation (input) OP_POOL_CREATE :: u32 where "OP_POOL_CREATE \<equiv> 78"
abbreviation (input) OP_POOL_DESTROY :: u32 where "OP_POOL_DESTROY \<equiv> 79"
abbreviation (input) OP_POOL_TRIM :: u32 where "OP_POOL_TRIM \<equiv> 80"
abbreviation (input) OP_POOL_GET_ATTRIBUTE :: u32 where "OP_POOL_GET_ATTRIBUTE \<equiv> 81"
abbreviation (input) OP_POOL_SET_ATTRIBUTE :: u32 where "OP_POOL_SET_ATTRIBUTE \<equiv> 82"
abbreviation (input) OP_POOL_GET_ACCESS :: u32 where "OP_POOL_GET_ACCESS \<equiv> 83"
abbreviation (input) OP_POOL_SET_ACCESS :: u32 where "OP_POOL_SET_ACCESS \<equiv> 84"
abbreviation (input) OP_ALLOC_ASYNC :: u32 where "OP_ALLOC_ASYNC \<equiv> 85"
abbreviation (input) OP_ALLOC_FROM_POOL_ASYNC :: u32 where "OP_ALLOC_FROM_POOL_ASYNC \<equiv> 86"
abbreviation (input) OP_FREE_ASYNC :: u32 where "OP_FREE_ASYNC \<equiv> 87"
abbreviation (input) OP_GRAPH :: u32 where "OP_GRAPH \<equiv> 88"
abbreviation (input) OP_GRAPH_MEM_GET :: u32 where "OP_GRAPH_MEM_GET \<equiv> 89"
abbreviation (input) OP_GRAPH_MEM_SET :: u32 where "OP_GRAPH_MEM_SET \<equiv> 90"
abbreviation (input) OP_GRAPH_MEM_TRIM :: u32 where "OP_GRAPH_MEM_TRIM \<equiv> 91"
abbreviation (input) OP_FUNCTION_INFO :: u32 where "OP_FUNCTION_INFO \<equiv> 92"

end
