(* ===== verification/Slots.thy ===== *)
theory Slots
  imports Prelude
begin

text \<open>
  The resource tables of \<^verbatim>\<open>server/runtime_server.c\<close>. Every kind of resource (allocations, modules,
  kernels, streams, events, transfers, pools, graphs) lives in a fixed array of entries with a
  \<open>used\<close> flag and an identifier from a counter that only grows; \<open>find_*\<close> returns the first used entry
  with an identifier, \<open>new_*_slot\<close> claims the first unused one and \<open>memset\<close> to zero releases it.
  A pointer to an entry is its index. The locale \<open>slot_table\<close> proves what the handlers rely on once;
  the session theory interprets it on each table.
\<close>

definition find_slot :: "('e \<Rightarrow> bool) \<Rightarrow> ('e \<Rightarrow> u64) \<Rightarrow> 'e list \<Rightarrow> u64 \<Rightarrow> nat option" where
  "find_slot used ident t key = List.find (\<lambda>i. used (t ! i) \<and> ident (t ! i) = key) [0..<length t]"

definition free_slot :: "('e \<Rightarrow> bool) \<Rightarrow> 'e list \<Rightarrow> nat option" where
  "free_slot used t = List.find (\<lambda>i. \<not> used (t ! i)) [0..<length t]"

text \<open>The claimed index, the table with the fresh entry in it and the counter after the increment.\<close>

definition new_slot :: "('e \<Rightarrow> bool) \<Rightarrow> (u64 \<Rightarrow> 'e) \<Rightarrow> 'e list \<Rightarrow> u64 \<Rightarrow> (nat \<times> 'e list \<times> u64) option" where
  "new_slot used fresh t nxt =
     (case free_slot used t of
        None \<Rightarrow> None
      | Some i \<Rightarrow> Some (i, t[i := fresh nxt], nxt + 1))"

text \<open>
  The table invariant: identifiers in use are nonzero, below the counter and pairwise different.
\<close>

definition table_inv :: "('e \<Rightarrow> bool) \<Rightarrow> ('e \<Rightarrow> u64) \<Rightarrow> u64 \<Rightarrow> 'e list \<Rightarrow> bool" where
  "table_inv used ident nxt t \<longleftrightarrow>
     nxt \<noteq> 0 \<and>
     (\<forall>i < length t. used (t ! i) \<longrightarrow> ident (t ! i) \<noteq> 0 \<and> ident (t ! i) < nxt) \<and>
     (\<forall>i < length t. \<forall>j < length t. used (t ! i) \<longrightarrow> used (t ! j) \<longrightarrow> ident (t ! i) = ident (t ! j) \<longrightarrow> i = j)"

text \<open>The abstract view: a finite map from identifiers to entries.\<close>

definition slot_map :: "('e \<Rightarrow> bool) \<Rightarrow> ('e \<Rightarrow> u64) \<Rightarrow> 'e list \<Rightarrow> (u64 \<rightharpoonup> 'e)" where
  "slot_map used ident t key = map_option (\<lambda>i. t ! i) (find_slot used ident t key)"

lemma find_slot_Some:
  "find_slot used ident t key = Some i \<Longrightarrow> i < length t \<and> used (t ! i) \<and> ident (t ! i) = key"
  by (auto simp: find_slot_def find_upt_Some)

lemma find_slot_None:
  "find_slot used ident t key = None \<longleftrightarrow> (\<forall>i < length t. used (t ! i) \<longrightarrow> ident (t ! i) \<noteq> key)"
  by (auto simp: find_slot_def find_upt_None)

lemma free_slot_Some: "free_slot used t = Some i \<Longrightarrow> i < length t \<and> \<not> used (t ! i)"
  by (auto simp: free_slot_def find_upt_Some)

lemma free_slot_None: "free_slot used t = None \<longleftrightarrow> (\<forall>i < length t. used (t ! i))"
  by (auto simp: free_slot_def find_upt_None)

lemma new_slot_Some:
  "new_slot used fresh t nxt = Some (i, t', nxt') \<longleftrightarrow>
   free_slot used t = Some i \<and> t' = t[i := fresh nxt] \<and> nxt' = nxt + 1"
  by (auto simp: new_slot_def split: option.splits)

lemma table_inv_less: "table_inv used ident nxt t \<Longrightarrow> i < length t \<Longrightarrow> used (t ! i) \<Longrightarrow> ident (t ! i) < nxt"
  by (simp add: table_inv_def)

lemma table_inv_unissued:
  "table_inv used ident nxt t \<Longrightarrow> key = 0 \<or> nxt \<le> key \<Longrightarrow> find_slot used ident t key = None"
  by (auto simp: table_inv_def find_slot_None)

lemma table_inv_blank:
  "\<not> used z \<Longrightarrow> nxt \<noteq> 0 \<Longrightarrow> table_inv used ident nxt (replicate n z)"
  by (auto simp: table_inv_def)

text \<open>An entry may be rewritten in place as long as its flag and identifier stay.\<close>

lemma table_inv_update:
  assumes "table_inv used ident nxt t" "used e = used (t ! i)" "ident e = ident (t ! i)"
  shows "table_inv used ident nxt (t[i := e])"
proof -
  have u: "used (t[i := e] ! j) = used (t ! j)" "ident (t[i := e] ! j) = ident (t ! j)" if "j < length t" for j
    using assms(2,3) that by (auto simp: nth_upd)
  show ?thesis using assms(1) u by (simp add: table_inv_def)
qed

lemma find_slot_update:
  assumes "used e = used (t ! i)" "ident e = ident (t ! i)"
  shows "find_slot used ident (t[i := e]) = find_slot used ident t"
  unfolding find_slot_def
  using assms by (intro ext) (auto simp: nth_upd intro!: find_upt_cong split: if_splits)

lemma find_slot_eqI:
  assumes "table_inv used ident nxt t" "i < length t" "used (t ! i)" "ident (t ! i) = key"
  shows "find_slot used ident t key = Some i"
proof -
  obtain j where j: "find_slot used ident t key = Some j"
    using assms(2,3,4) by (cases "find_slot used ident t key") (auto simp: find_slot_None)
  then have "j < length t" "used (t ! j)" "ident (t ! j) = key" by (auto dest: find_slot_Some)
  then have "j = i" using assms unfolding table_inv_def by metis
  then show ?thesis using j by simp
qed

section \<open>Stale identifiers\<close>

text \<open>
  From one state of a table to a later one: the counter does not go back, and every identifier in use
  later was in use before or was issued in between. So an identifier that went stale stays stale.
\<close>

definition persists :: "('e \<Rightarrow> bool) \<Rightarrow> ('e \<Rightarrow> u64) \<Rightarrow> u64 \<Rightarrow> 'e list \<Rightarrow> u64 \<Rightarrow> 'e list \<Rightarrow> bool" where
  "persists used ident nxt t nxt' t' \<longleftrightarrow> nxt \<le> nxt' \<and>
     (\<forall>i < length t'. used (t' ! i) \<longrightarrow>
        nxt \<le> ident (t' ! i) \<or> (\<exists>j < length t. used (t ! j) \<and> ident (t ! j) = ident (t' ! i)))"

lemma persists_refl [simp]: "persists used ident nxt t nxt t"
  by (auto simp: persists_def)

lemma persists_trans:
  assumes "persists used ident nxt t nxt' t'" "persists used ident nxt' t' nxt'' t''"
  shows "persists used ident nxt t nxt'' t''"
  unfolding persists_def
proof (intro conjI allI impI)
  show "nxt \<le> nxt''" using assms by (auto simp: persists_def)
  fix i assume "i < length t''" "used (t'' ! i)"
  then consider "nxt' \<le> ident (t'' ! i)" | j where "j < length t'" "used (t' ! j)" "ident (t' ! j) = ident (t'' ! i)"
    using assms(2) unfolding persists_def by blast
  then show "nxt \<le> ident (t'' ! i) \<or> (\<exists>j < length t. used (t ! j) \<and> ident (t ! j) = ident (t'' ! i))"
    using assms(1) by cases (force simp: persists_def)+
qed

text \<open>Rewriting an entry in place, or erasing it.\<close>

lemma persists_upd:
  assumes "persists used ident nxt t nxt' t'" "used e \<longrightarrow> used (t' ! i) \<and> ident e = ident (t' ! i)"
  shows "persists used ident nxt t nxt' (t'[i := e])"
  using assms by (auto simp: persists_def nth_upd)

lemma persists_stale:
  assumes "persists used ident nxt t nxt' t'" "key < nxt" "find_slot used ident t key = None"
  shows "find_slot used ident t' key = None"
  using assms by (auto simp: persists_def find_slot_None)

section \<open>The table contract\<close>

locale slot_table =
  fixes used :: "'e \<Rightarrow> bool"
    and ident :: "'e \<Rightarrow> u64"
    and blank :: 'e
    and fresh :: "u64 \<Rightarrow> 'e"
  assumes used_blank: "\<not> used blank"
    and used_fresh: "used (fresh n)"
    and ident_fresh: "ident (fresh n) = n"
begin

lemma new_inv:
  assumes "table_inv used ident nxt t" "new_slot used fresh t nxt = Some (i, t', nxt')" "nxt' \<noteq> 0"
  shows "table_inv used ident nxt' t'"
proof -
  have f: "i < length t" "\<not> used (t ! i)" "t' = t[i := fresh nxt]" "nxt' = nxt + 1"
    using assms(2) by (auto simp: new_slot_Some dest: free_slot_Some)
  have lt: "nxt < nxt'" and le: "\<And>x. x < nxt \<Longrightarrow> x < nxt'"
    using assms(3) f(4) by (auto simp: word_less_nat_alt unat_inc)
  show ?thesis
    unfolding table_inv_def
  proof (intro conjI allI impI)
    show "nxt' \<noteq> 0" by fact
    fix j assume j: "j < length t'" "used (t' ! j)"
    show "ident (t' ! j) \<noteq> 0" "ident (t' ! j) < nxt'"
      using j f lt le assms(1) by (auto simp: nth_upd ident_fresh table_inv_def split: if_splits)
    fix k assume k: "k < length t'" "used (t' ! k)" "ident (t' ! j) = ident (t' ! k)"
    have old: "ident (t ! m) \<noteq> nxt" if "m < length t" "used (t ! m)" for m
      using table_inv_less [OF assms(1) that] by auto
    show "j = k"
      using j k f old assms(1)
      by (cases "j = i"; cases "k = i") (auto simp: nth_upd ident_fresh table_inv_def)
  qed
qed

lemma new_bounded:
  assumes "table_inv used ident nxt t" "unat nxt \<le> n" "Suc n < 2 ^ 64"
    and "new_slot used fresh t nxt = Some (i, t', nxt')"
  shows "table_inv used ident nxt' t'" "unat nxt' \<le> Suc n" "i < length t" "\<not> used (t ! i)"
    "t' = t[i := fresh nxt]" "nxt' = nxt + 1"
proof -
  show f: "i < length t" "\<not> used (t ! i)" "t' = t[i := fresh nxt]" "nxt' = nxt + 1"
    using assms(4) by (auto simp: new_slot_Some dest: free_slot_Some)
  have nz: "nxt' \<noteq> 0" using assms(2,3) f(4) inc_nonzero64 [of nxt] by simp
  then show "table_inv used ident nxt' t'" by (rule new_inv [OF assms(1,4)])
  show "unat nxt' \<le> Suc n" using nz f(4) assms(2) by (simp add: unat_inc)
qed

lemma new_find:
  assumes "table_inv used ident nxt t" "new_slot used fresh t nxt = Some (i, t', nxt')"
  shows "find_slot used ident t' key = (if key = nxt then Some i else find_slot used ident t key)"
proof -
  have f: "i < length t" "\<not> used (t ! i)" "t' = t[i := fresh nxt]"
    using assms(2) by (auto simp: new_slot_Some dest: free_slot_Some)
  have old: "ident (t ! m) \<noteq> nxt" if "m < length t" "used (t ! m)" for m
    using table_inv_less [OF assms(1) that] by auto
  show ?thesis
  proof (cases "key = nxt")
    case True
    then have "find_slot used ident t' nxt = Some i"
      using f old by (auto simp: find_slot_def find_upt_Some used_fresh ident_fresh nth_upd)
    with True show ?thesis by simp
  next
    case False
    then have "find_slot used ident t' key = find_slot used ident t key"
      using f unfolding find_slot_def
      by (auto simp: nth_upd ident_fresh intro!: find_upt_cong split: if_splits)
    with False show ?thesis by simp
  qed
qed

lemma erase_inv: "table_inv used ident nxt t \<Longrightarrow> table_inv used ident nxt (t[i := blank])"
  unfolding table_inv_def
  by (intro conjI allI impI) (auto simp: nth_upd used_blank split: if_splits)

lemma erase_find:
  assumes "table_inv used ident nxt t" "i < length t" "used (t ! i)"
  shows "find_slot used ident (t[i := blank]) key
           = (if key = ident (t ! i) then None else find_slot used ident t key)"
proof (cases "key = ident (t ! i)")
  case True
  have "\<forall>j < length t. used (t[i := blank] ! j) \<longrightarrow> ident (t[i := blank] ! j) \<noteq> key"
    using assms True by (auto simp: nth_upd used_blank table_inv_def)
  with True show ?thesis by (simp add: find_slot_None)
next
  case False
  then have "find_slot used ident (t[i := blank]) key = find_slot used ident t key"
    unfolding find_slot_def using used_blank
    by (auto simp: nth_upd intro!: find_upt_cong split: if_splits)
  with False show ?thesis by simp
qed

lemma persists_new:
  assumes "new_slot used fresh t nxt = Some (i, t', nxt')" "nxt' \<noteq> 0"
  shows "persists used ident nxt t nxt' t'"
proof -
  have f: "t' = t[i := fresh nxt]" "nxt' = nxt + 1" using assms(1) by (auto simp: new_slot_Some)
  have "nxt \<le> nxt'" using assms(2) f(2) by (simp add: word_le_nat_alt unat_inc)
  then show ?thesis by (auto simp: persists_def f(1) nth_upd ident_fresh)
qed

text \<open>The tables refine maps: claiming a slot is an update at a fresh key, releasing it a deletion.\<close>

lemma map_blank: "slot_map used ident (replicate n blank) = Map.empty"
  by (rule ext) (auto simp: slot_map_def find_slot_None used_blank)

lemma map_new:
  assumes "table_inv used ident nxt t" "new_slot used fresh t nxt = Some (i, t', nxt')"
  shows "slot_map used ident t' = (slot_map used ident t)(nxt \<mapsto> fresh nxt)"
proof (rule ext)
  fix key
  have f: "i < length t" "\<not> used (t ! i)" "t' = t[i := fresh nxt]"
    using assms(2) by (auto simp: new_slot_Some dest: free_slot_Some)
  have "j \<noteq> i" if "find_slot used ident t key = Some j" for j
    using that f by (auto dest: find_slot_Some)
  then show "slot_map used ident t' key = ((slot_map used ident t)(nxt \<mapsto> fresh nxt)) key"
    using f(1,3) unfolding slot_map_def new_find [OF assms]
    by (cases "find_slot used ident t key") (auto simp: nth_upd dest: find_slot_Some)
qed

lemma map_new_fresh: "table_inv used ident nxt t \<Longrightarrow> slot_map used ident t nxt = None"
  by (simp add: slot_map_def table_inv_unissued)

lemma map_erase:
  assumes "table_inv used ident nxt t" "find_slot used ident t key = Some i"
  shows "slot_map used ident (t[i := blank]) = (slot_map used ident t)(key := None)"
proof (rule ext)
  fix k
  have i: "i < length t" "used (t ! i)" "ident (t ! i) = key"
    using assms(2) by (auto dest: find_slot_Some)
  have "j \<noteq> i" if "find_slot used ident t k = Some j" "k \<noteq> key" for j
    using that i by (auto dest: find_slot_Some)
  then show "slot_map used ident (t[i := blank]) k = ((slot_map used ident t)(key := None)) k"
    using i by (cases "find_slot used ident t k") (auto simp: slot_map_def erase_find [OF assms(1)])
qed

end

end
