(* ===== verification/Session.thy ===== *)
theory Session
  imports Backend Slots
begin

text \<open>
  The state of one client session, \<open>ServerSession\<close> of \<^verbatim>\<open>server/runtime_server.c\<close>, with the entries of
  its tables (\<^verbatim>\<open>server/corex_graph_objects.h\<close> for the graph tables, \<^verbatim>\<open>include/internal/corex_metadata.h\<close>
  for kernel metadata), the lookup and slot functions, the server process as a \<open>world\<close>, sending a
  response, the session invariant and the contract every request handler meets.
\<close>

section \<open>Kernel metadata\<close>

datatype CorexMetaArgKind =
  COREX_META_ARG_UNKNOWN | COREX_META_ARG_GLOBAL_BUFFER | COREX_META_ARG_BY_VALUE

record CorexArgMeta =
  ar_name :: bytes
  ar_offset :: u32
  ar_size :: u32
  ar_kind :: CorexMetaArgKind
  ar_value_kind :: bytes
  ar_address_space :: bytes

record CorexKernelMeta =
  km_name :: bytes
  km_symbol :: bytes
  km_kernarg_segment_align :: u32
  km_kernarg_segment_size :: u32
  km_warp_size :: u32
  km_argc :: u32
  km_args :: "CorexArgMeta list"

record CorexModuleMeta =
  mm_version_major :: u32
  mm_version_minor :: u32
  mm_kernel_count :: u32
  mm_kernels :: "CorexKernelMeta list"

abbreviation (input) COREX_META_MAX_KERNELS :: nat where "COREX_META_MAX_KERNELS \<equiv> 32"
abbreviation (input) COREX_META_MAX_ARGS :: nat where "COREX_META_MAX_ARGS \<equiv> 32"

definition zero_arg_meta :: CorexArgMeta where
  "zero_arg_meta = \<lparr>ar_name = [], ar_offset = 0, ar_size = 0, ar_kind = COREX_META_ARG_UNKNOWN,
     ar_value_kind = [], ar_address_space = []\<rparr>"

definition zero_kernel_meta :: CorexKernelMeta where
  "zero_kernel_meta = \<lparr>km_name = [], km_symbol = [], km_kernarg_segment_align = 0,
     km_kernarg_segment_size = 0, km_warp_size = 0, km_argc = 0,
     km_args = replicate COREX_META_MAX_ARGS zero_arg_meta\<rparr>"

definition zero_module_meta :: CorexModuleMeta where
  "zero_module_meta = \<lparr>mm_version_major = 0, mm_version_minor = 0, mm_kernel_count = 0,
     mm_kernels = replicate COREX_META_MAX_KERNELS zero_kernel_meta\<rparr>"

text \<open>The arrays of a metadata value have their declared length.\<close>

definition kernel_meta_ok :: "CorexKernelMeta \<Rightarrow> bool" where
  "kernel_meta_ok k \<longleftrightarrow> length (km_args k) = COREX_META_MAX_ARGS"

definition module_meta_ok :: "CorexModuleMeta \<Rightarrow> bool" where
  "module_meta_ok m \<longleftrightarrow> length (mm_kernels m) = COREX_META_MAX_KERNELS
     \<and> unat (mm_kernel_count m) \<le> COREX_META_MAX_KERNELS
     \<and> (\<forall>k \<in> set (mm_kernels m). kernel_meta_ok k)"

section \<open>Table entries\<close>

record Allocation =
  a_used :: bool
  a_id :: u64
  a_ptr :: u64
  a_size :: u64
  a_parent_module_id :: u64
  a_graph_id :: u64
  a_graph_active :: bool
  a_graph_paired :: bool
  a_layout_kind :: u32
  a_width :: u64
  a_height :: u64
  a_depth :: u64
  a_pitch :: u64
  a_slice_pitch :: u64

record ModuleEntry =
  m_used :: bool
  m_id :: u64
  m_module :: u64
  m_library :: bool
  m_image :: bytes
  m_name :: bytes
  m_metadata :: CorexModuleMeta
  m_metadata_valid :: bool

record KernelEntry =
  k_used :: bool
  k_id :: u64
  k_module_id :: u64
  k_function :: u64
  k_name :: bytes
  k_metadata :: CorexKernelMeta
  k_metadata_valid :: bool

record StreamEntry =
  st_used :: bool
  st_id :: u64
  st_stream :: u64

record PoolEntry =
  p_used :: bool
  p_id :: u64
  p_pool :: u64
  p_is_default :: bool

record EventEntry =
  e_used :: bool
  e_id :: u64
  e_event :: u64
  e_flags :: u32

record TransferEntry =
  t_used :: bool
  t_id :: u64
  t_kind :: u32
  t_allocation_id :: u64
  t_stream_id :: u64
  t_done_event :: u64
  t_host_buffer :: u64
  t_bytes :: u64

record GraphEntry =
  g_used :: bool
  g_id :: u64
  g_graph :: u64
  g_owner_node_id :: u64
  g_memory_frozen :: bool

record GraphNodeEntry =
  n_used :: bool
  n_id :: u64
  n_graph_id :: u64
  n_original_id :: u64
  n_node :: u64
  n_kind :: u32
  n_enabled :: u32
  n_params :: bytes

record GraphExecEntry =
  x_used :: bool
  x_id :: u64
  x_exec :: u64
  x_definition :: u64
  x_last_stream :: u64
  x_launched :: bool
  x_retired :: bool
  x_source_graph_id :: u64
  x_free_streams :: "u64 list"
  x_free_pending :: "bool list"
  x_count :: nat
  x_nodes :: "GraphNodeEntry list"

text \<open>The all-zero entries \<open>memset\<close> leaves.\<close>

definition zero_allocation :: Allocation where
  "zero_allocation = \<lparr>a_used = False, a_id = 0, a_ptr = 0, a_size = 0, a_parent_module_id = 0,
     a_graph_id = 0, a_graph_active = False, a_graph_paired = False, a_layout_kind = 0,
     a_width = 0, a_height = 0, a_depth = 0, a_pitch = 0, a_slice_pitch = 0\<rparr>"

definition zero_module :: ModuleEntry where
  "zero_module = \<lparr>m_used = False, m_id = 0, m_module = 0, m_library = False, m_image = [],
     m_name = [], m_metadata = zero_module_meta, m_metadata_valid = False\<rparr>"

definition zero_kernel :: KernelEntry where
  "zero_kernel = \<lparr>k_used = False, k_id = 0, k_module_id = 0, k_function = 0, k_name = [],
     k_metadata = zero_kernel_meta, k_metadata_valid = False\<rparr>"

definition zero_stream :: StreamEntry where
  "zero_stream = \<lparr>st_used = False, st_id = 0, st_stream = 0\<rparr>"

definition zero_pool :: PoolEntry where
  "zero_pool = \<lparr>p_used = False, p_id = 0, p_pool = 0, p_is_default = False\<rparr>"

definition zero_event :: EventEntry where
  "zero_event = \<lparr>e_used = False, e_id = 0, e_event = 0, e_flags = 0\<rparr>"

definition zero_transfer :: TransferEntry where
  "zero_transfer = \<lparr>t_used = False, t_id = 0, t_kind = 0, t_allocation_id = 0, t_stream_id = 0,
     t_done_event = 0, t_host_buffer = 0, t_bytes = 0\<rparr>"

definition zero_graph :: GraphEntry where
  "zero_graph = \<lparr>g_used = False, g_id = 0, g_graph = 0, g_owner_node_id = 0, g_memory_frozen = False\<rparr>"

definition zero_graph_node :: GraphNodeEntry where
  "zero_graph_node = \<lparr>n_used = False, n_id = 0, n_graph_id = 0, n_original_id = 0, n_node = 0,
     n_kind = 0, n_enabled = 0, n_params = []\<rparr>"

abbreviation (input) CRX_GRAPH_MAX_NODES :: nat where "CRX_GRAPH_MAX_NODES \<equiv> 64"

definition zero_graph_exec :: GraphExecEntry where
  "zero_graph_exec = \<lparr>x_used = False, x_id = 0, x_exec = 0, x_definition = 0, x_last_stream = 0,
     x_launched = False, x_retired = False, x_source_graph_id = 0,
     x_free_streams = replicate CRX_GRAPH_MAX_NODES 0,
     x_free_pending = replicate CRX_GRAPH_MAX_NODES False, x_count = 0,
     x_nodes = replicate CRX_GRAPH_MAX_NODES zero_graph_node\<rparr>"

section \<open>The session\<close>

record ServerSession =
  allocations :: "Allocation list"
  modules :: "ModuleEntry list"
  kernels :: "KernelEntry list"
  streams :: "StreamEntry list"
  events :: "EventEntry list"
  transfers :: "TransferEntry list"
  pools :: "PoolEntry list"
  graphs :: "GraphEntry list"
  graph_nodes :: "GraphNodeEntry list"
  graph_execs :: "GraphExecEntry list"
  next_graph_id :: u64
  next_graph_node_id :: u64
  next_graph_exec_id :: u64
  capture_stream :: u64
  capture_graph :: u64
  capture_supplied_graph :: bool
  capture_allow_alloc :: bool
  default_pool_id :: u64
  current_pool_id :: u64
  next_pool_id :: u64
  default_pool_attributes :: "u64 list"
  next_alloc_id :: u64
  next_module_id :: u64
  next_kernel_id :: u64
  next_stream_id :: u64
  next_event_id :: u64
  next_transfer_id :: u64

abbreviation (input) MAX_ALLOCS :: nat where "MAX_ALLOCS \<equiv> 64"
abbreviation (input) MAX_MODULES :: nat where "MAX_MODULES \<equiv> 32"
abbreviation (input) MAX_KERNELS :: nat where "MAX_KERNELS \<equiv> 128"
abbreviation (input) MAX_STREAMS :: nat where "MAX_STREAMS \<equiv> 64"
abbreviation (input) MAX_EVENTS :: nat where "MAX_EVENTS \<equiv> 128"
abbreviation (input) MAX_TRANSFERS :: nat where "MAX_TRANSFERS \<equiv> 128"
abbreviation (input) MAX_POOLS :: nat where "MAX_POOLS \<equiv> 32"
abbreviation (input) MAX_ARGS :: nat where "MAX_ARGS \<equiv> 32"
abbreviation (input) MAX_PAYLOAD :: nat where "MAX_PAYLOAD \<equiv> 67108864"
abbreviation (input) CRX_GRAPH_MAX_GRAPHS :: nat where "CRX_GRAPH_MAX_GRAPHS \<equiv> 128"
abbreviation (input) CRX_GRAPH_MAX_EXECS :: nat where "CRX_GRAPH_MAX_EXECS \<equiv> 128"
abbreviation (input) CRX_GRAPH_MAX_NODE_HANDLES :: nat where "CRX_GRAPH_MAX_NODE_HANDLES \<equiv> 4096"

definition server_session_init :: ServerSession where
  "server_session_init =
     \<lparr>allocations = replicate MAX_ALLOCS zero_allocation,
      modules = replicate MAX_MODULES zero_module,
      kernels = replicate MAX_KERNELS zero_kernel,
      streams = replicate MAX_STREAMS zero_stream,
      events = replicate MAX_EVENTS zero_event,
      transfers = replicate MAX_TRANSFERS zero_transfer,
      pools = replicate MAX_POOLS zero_pool,
      graphs = replicate CRX_GRAPH_MAX_GRAPHS zero_graph,
      graph_nodes = replicate CRX_GRAPH_MAX_NODE_HANDLES zero_graph_node,
      graph_execs = replicate CRX_GRAPH_MAX_EXECS zero_graph_exec,
      next_graph_id = 0, next_graph_node_id = 0, next_graph_exec_id = 0,
      capture_stream = 0, capture_graph = 0, capture_supplied_graph = False,
      capture_allow_alloc = False,
      default_pool_id = 0, current_pool_id = 0, next_pool_id = 1,
      default_pool_attributes = [0, 0, 0, 0],
      next_alloc_id = 1, next_module_id = 1, next_kernel_id = 1, next_stream_id = 1,
      next_event_id = 1, next_transfer_id = 1\<rparr>"

section \<open>Lookup and slots\<close>

definition find_allocation_record :: "ServerSession \<Rightarrow> u64 \<Rightarrow> nat option" where
  "find_allocation_record s n = find_slot a_used a_id (allocations s) n"

text \<open>A graph reservation is visible to ordinary requests only while it is mapped.\<close>

definition find_allocation :: "ServerSession \<Rightarrow> u64 \<Rightarrow> nat option" where
  "find_allocation s n =
     (case find_allocation_record s n of
        None \<Rightarrow> None
      | Some i \<Rightarrow> if a_graph_id (allocations s ! i) = 0 \<or> a_graph_active (allocations s ! i)
                   then Some i else None)"

definition find_module :: "ServerSession \<Rightarrow> u64 \<Rightarrow> nat option" where
  "find_module s n = find_slot m_used m_id (modules s) n"

definition find_kernel :: "ServerSession \<Rightarrow> u64 \<Rightarrow> nat option" where
  "find_kernel s n = find_slot k_used k_id (kernels s) n"

definition find_stream :: "ServerSession \<Rightarrow> u64 \<Rightarrow> nat option" where
  "find_stream s n = find_slot st_used st_id (streams s) n"

definition find_event :: "ServerSession \<Rightarrow> u64 \<Rightarrow> nat option" where
  "find_event s n = find_slot e_used e_id (events s) n"

definition find_transfer :: "ServerSession \<Rightarrow> u64 \<Rightarrow> nat option" where
  "find_transfer s n = find_slot t_used t_id (transfers s) n"

definition find_pool :: "ServerSession \<Rightarrow> u64 \<Rightarrow> nat option" where
  "find_pool s n = find_slot p_used p_id (pools s) n"

definition fresh_allocation :: "u64 \<Rightarrow> Allocation" where
  "fresh_allocation n = zero_allocation\<lparr>a_used := True, a_id := n\<rparr>"

definition fresh_module :: "u64 \<Rightarrow> ModuleEntry" where
  "fresh_module n = zero_module\<lparr>m_used := True, m_id := n\<rparr>"

definition fresh_kernel :: "u64 \<Rightarrow> KernelEntry" where
  "fresh_kernel n = zero_kernel\<lparr>k_used := True, k_id := n\<rparr>"

definition fresh_stream :: "u64 \<Rightarrow> StreamEntry" where
  "fresh_stream n = zero_stream\<lparr>st_used := True, st_id := n\<rparr>"

definition fresh_event :: "u64 \<Rightarrow> EventEntry" where
  "fresh_event n = zero_event\<lparr>e_used := True, e_id := n\<rparr>"

definition fresh_transfer :: "u64 \<Rightarrow> TransferEntry" where
  "fresh_transfer n = zero_transfer\<lparr>t_used := True, t_id := n\<rparr>"

definition fresh_pool :: "u64 \<Rightarrow> PoolEntry" where
  "fresh_pool n = zero_pool\<lparr>p_used := True, p_id := n\<rparr>"

text \<open>\<open>new_*_slot\<close>: the claimed index and the session after the claim, or \<^const>\<open>None\<close> (NULL) when the table is full.\<close>

definition new_allocation_slot :: "ServerSession \<Rightarrow> (nat \<times> ServerSession) option" where
  "new_allocation_slot s =
     (case new_slot a_used fresh_allocation (allocations s) (next_alloc_id s) of
        None \<Rightarrow> None
      | Some (i, t, nxt) \<Rightarrow> Some (i, s\<lparr>allocations := t, next_alloc_id := nxt\<rparr>))"

definition new_module_slot :: "ServerSession \<Rightarrow> (nat \<times> ServerSession) option" where
  "new_module_slot s =
     (case new_slot m_used fresh_module (modules s) (next_module_id s) of
        None \<Rightarrow> None
      | Some (i, t, nxt) \<Rightarrow> Some (i, s\<lparr>modules := t, next_module_id := nxt\<rparr>))"

definition new_kernel_slot :: "ServerSession \<Rightarrow> (nat \<times> ServerSession) option" where
  "new_kernel_slot s =
     (case new_slot k_used fresh_kernel (kernels s) (next_kernel_id s) of
        None \<Rightarrow> None
      | Some (i, t, nxt) \<Rightarrow> Some (i, s\<lparr>kernels := t, next_kernel_id := nxt\<rparr>))"

definition new_stream_slot :: "ServerSession \<Rightarrow> (nat \<times> ServerSession) option" where
  "new_stream_slot s =
     (case new_slot st_used fresh_stream (streams s) (next_stream_id s) of
        None \<Rightarrow> None
      | Some (i, t, nxt) \<Rightarrow> Some (i, s\<lparr>streams := t, next_stream_id := nxt\<rparr>))"

definition new_event_slot :: "ServerSession \<Rightarrow> (nat \<times> ServerSession) option" where
  "new_event_slot s =
     (case new_slot e_used fresh_event (events s) (next_event_id s) of
        None \<Rightarrow> None
      | Some (i, t, nxt) \<Rightarrow> Some (i, s\<lparr>events := t, next_event_id := nxt\<rparr>))"

definition new_transfer_slot :: "ServerSession \<Rightarrow> (nat \<times> ServerSession) option" where
  "new_transfer_slot s =
     (case new_slot t_used fresh_transfer (transfers s) (next_transfer_id s) of
        None \<Rightarrow> None
      | Some (i, t, nxt) \<Rightarrow> Some (i, s\<lparr>transfers := t, next_transfer_id := nxt\<rparr>))"

definition new_pool_slot :: "ServerSession \<Rightarrow> (nat \<times> ServerSession) option" where
  "new_pool_slot s =
     (case new_slot p_used fresh_pool (pools s) (next_pool_id s) of
        None \<Rightarrow> None
      | Some (i, t, nxt) \<Rightarrow> Some (i, s\<lparr>pools := t, next_pool_id := nxt\<rparr>))"

text \<open>Writes through a pointer to an entry.\<close>

definition upd_allocation :: "nat \<Rightarrow> (Allocation \<Rightarrow> Allocation) \<Rightarrow> ServerSession \<Rightarrow> ServerSession" where
  "upd_allocation i f s = s\<lparr>allocations := (allocations s)[i := f (allocations s ! i)]\<rparr>"

definition upd_module :: "nat \<Rightarrow> (ModuleEntry \<Rightarrow> ModuleEntry) \<Rightarrow> ServerSession \<Rightarrow> ServerSession" where
  "upd_module i f s = s\<lparr>modules := (modules s)[i := f (modules s ! i)]\<rparr>"

definition upd_kernel :: "nat \<Rightarrow> (KernelEntry \<Rightarrow> KernelEntry) \<Rightarrow> ServerSession \<Rightarrow> ServerSession" where
  "upd_kernel i f s = s\<lparr>kernels := (kernels s)[i := f (kernels s ! i)]\<rparr>"

definition upd_stream :: "nat \<Rightarrow> (StreamEntry \<Rightarrow> StreamEntry) \<Rightarrow> ServerSession \<Rightarrow> ServerSession" where
  "upd_stream i f s = s\<lparr>streams := (streams s)[i := f (streams s ! i)]\<rparr>"

definition upd_event :: "nat \<Rightarrow> (EventEntry \<Rightarrow> EventEntry) \<Rightarrow> ServerSession \<Rightarrow> ServerSession" where
  "upd_event i f s = s\<lparr>events := (events s)[i := f (events s ! i)]\<rparr>"

definition upd_transfer :: "nat \<Rightarrow> (TransferEntry \<Rightarrow> TransferEntry) \<Rightarrow> ServerSession \<Rightarrow> ServerSession" where
  "upd_transfer i f s = s\<lparr>transfers := (transfers s)[i := f (transfers s ! i)]\<rparr>"

definition upd_pool :: "nat \<Rightarrow> (PoolEntry \<Rightarrow> PoolEntry) \<Rightarrow> ServerSession \<Rightarrow> ServerSession" where
  "upd_pool i f s = s\<lparr>pools := (pools s)[i := f (pools s ! i)]\<rparr>"

text \<open>Stream 0 is the legacy default stream; \<^const>\<open>None\<close> is the return value -1.\<close>

definition resolve_stream_id :: "ServerSession \<Rightarrow> u64 \<Rightarrow> u64 option" where
  "resolve_stream_id s stream_id =
     (if stream_id = 0 then Some 0
      else case find_stream s stream_id of
             None \<Rightarrow> None
           | Some i \<Rightarrow> Some (st_stream (streams s ! i)))"

interpretation alloc_tab: slot_table a_used a_id zero_allocation fresh_allocation
  by unfold_locales (simp_all add: zero_allocation_def fresh_allocation_def)

interpretation module_tab: slot_table m_used m_id zero_module fresh_module
  by unfold_locales (simp_all add: zero_module_def fresh_module_def)

interpretation kernel_tab: slot_table k_used k_id zero_kernel fresh_kernel
  by unfold_locales (simp_all add: zero_kernel_def fresh_kernel_def)

interpretation stream_tab: slot_table st_used st_id zero_stream fresh_stream
  by unfold_locales (simp_all add: zero_stream_def fresh_stream_def)

interpretation event_tab: slot_table e_used e_id zero_event fresh_event
  by unfold_locales (simp_all add: zero_event_def fresh_event_def)

interpretation transfer_tab: slot_table t_used t_id zero_transfer fresh_transfer
  by unfold_locales (simp_all add: zero_transfer_def fresh_transfer_def)

interpretation pool_tab: slot_table p_used p_id zero_pool fresh_pool
  by unfold_locales (simp_all add: zero_pool_def fresh_pool_def)

section \<open>The server process\<close>

text \<open>
  The session with the globals of the server, the calls made so far and the bytes sent on the
  connection. A failed send leaves the bytes of the sends that completed.
\<close>

record world =
  sess :: ServerSession
  calls :: "call list"
  sent :: bytes
  g_ctx :: u64
  g_backend_version :: u32
  g_memory_pools_supported :: bool

definition invoke :: "driver \<Rightarrow> call \<Rightarrow> world \<Rightarrow> outcome \<times> world" where
  "invoke drv c w = (drv (calls w) c, w\<lparr>calls := c # calls w\<rparr>)"

text \<open>\<open>send_all\<close>: 0, or -1 when the connection failed.\<close>

definition send_all :: "driver \<Rightarrow> bytes \<Rightarrow> world \<Rightarrow> int \<times> world" where
  "send_all drv buf w =
     (let (r, w) = invoke drv (OS (OS_send buf)) w
      in if o_ret r = 0 then (0, w\<lparr>sent := sent w @ buf\<rparr>) else (- 1, w))"

definition send_response :: "driver \<Rightarrow> u32 \<Rightarrow> u32 \<Rightarrow> u32 \<Rightarrow> bytes \<Rightarrow> world \<Rightarrow> int \<times> world" where
  "send_response drv opcode req_id status payload w =
     (let (rc, w) = send_all drv (corex_protocol_encode_response_header opcode req_id status
                                    (of_nat (length payload))) w
      in if rc \<noteq> 0 then (- 1, w)
         else if length payload > 0
              then (let (rc, w) = send_all drv payload w in if rc \<noteq> 0 then (- 1, w) else (0, w))
              else (0, w))"

text \<open>
  A handler takes the request identifier, the payload and the world; \<^const>\<open>None\<close> is undefined
  behaviour (an access outside a buffer, a null dereference).
\<close>

type_synonym handler = "driver \<Rightarrow> u32 \<Rightarrow> bytes \<Rightarrow> world \<Rightarrow> (int \<times> world) option"

abbreviation reply :: "driver \<Rightarrow> u32 \<Rightarrow> u32 \<Rightarrow> u32 \<Rightarrow> bytes \<Rightarrow> world \<Rightarrow> (int \<times> world) option" where
  "reply drv opcode req_id status payload w \<equiv> Some (send_response drv opcode req_id status payload w)"

abbreviation put_sess :: "(ServerSession \<Rightarrow> ServerSession) \<Rightarrow> world \<Rightarrow> world" where
  "put_sess f w \<equiv> w\<lparr>sess := f (sess w)\<rparr>"

text \<open>Reads of the payload, \<^const>\<open>None\<close> when they leave it.\<close>

definition rd32 :: "bytes \<Rightarrow> nat \<Rightarrow> u32 option" where
  "rd32 p off = map_option corex_protocol_read_u32 (peek p off 4)"

definition rd64 :: "bytes \<Rightarrow> nat \<Rightarrow> u64 option" where
  "rd64 p off = map_option corex_protocol_read_u64 (peek p off 8)"

lemma rd32_Some [simp]: "off + 4 \<le> length p \<Longrightarrow> rd32 p off = Some (corex_protocol_read_u32 (take 4 (drop off p)))"
  by (simp add: rd32_def)

lemma rd64_Some [simp]: "off + 8 \<le> length p \<Longrightarrow> rd64 p off = Some (corex_protocol_read_u64 (take 8 (drop off p)))"
  by (simp add: rd64_def)

end
