(* ===== verification/Contract.thy ===== *)
theory Contract
  imports Session
begin

text \<open>
  The session invariant, the contract of a request handler and the lemmas that discharge it. The
  invariant is a conjunction of one predicate per table; each predicate takes only the fields it
  constrains, so an update elsewhere leaves it as it is.
\<close>

section \<open>Invariants\<close>

text \<open>
  \<open>n\<close> bounds the identifiers issued so far: the counters wrap at \<open>2 ^ 64\<close>, and the invariant is kept
  as long as fewer than that many requests were served.
\<close>

definition live_module :: "ModuleEntry list \<Rightarrow> u64 \<Rightarrow> bool" where
  "live_module mods n \<longleftrightarrow> (\<exists>m \<in> set mods. m_used m \<and> m_id m = n)"

definition alloc_inv :: "nat \<Rightarrow> Allocation list \<Rightarrow> u64 \<Rightarrow> ModuleEntry list \<Rightarrow> bool" where
  "alloc_inv n t nxt mods \<longleftrightarrow> length t = MAX_ALLOCS \<and> table_inv a_used a_id nxt t \<and> unat nxt \<le> n \<and>
     (\<forall>a \<in> set t. a_used a \<longrightarrow> a_parent_module_id a \<noteq> 0 \<longrightarrow> live_module mods (a_parent_module_id a))"

definition module_inv :: "nat \<Rightarrow> ModuleEntry list \<Rightarrow> u64 \<Rightarrow> bool" where
  "module_inv n t nxt \<longleftrightarrow> length t = MAX_MODULES \<and> table_inv m_used m_id nxt t \<and> unat nxt \<le> n \<and>
     (\<forall>m \<in> set t. module_meta_ok (m_metadata m))"

definition kernel_inv :: "nat \<Rightarrow> KernelEntry list \<Rightarrow> u64 \<Rightarrow> ModuleEntry list \<Rightarrow> bool" where
  "kernel_inv n t nxt mods \<longleftrightarrow> length t = MAX_KERNELS \<and> table_inv k_used k_id nxt t \<and> unat nxt \<le> n \<and>
     (\<forall>k \<in> set t. kernel_meta_ok (k_metadata k) \<and> (k_used k \<longrightarrow> live_module mods (k_module_id k)))"

definition stream_inv :: "nat \<Rightarrow> StreamEntry list \<Rightarrow> u64 \<Rightarrow> bool" where
  "stream_inv n t nxt \<longleftrightarrow> length t = MAX_STREAMS \<and> table_inv st_used st_id nxt t \<and> unat nxt \<le> n"

definition event_inv :: "nat \<Rightarrow> EventEntry list \<Rightarrow> u64 \<Rightarrow> bool" where
  "event_inv n t nxt \<longleftrightarrow> length t = MAX_EVENTS \<and> table_inv e_used e_id nxt t \<and> unat nxt \<le> n"

text \<open>A staged transfer fits a 32-bit length field.\<close>

definition transfer_inv :: "nat \<Rightarrow> TransferEntry list \<Rightarrow> u64 \<Rightarrow> bool" where
  "transfer_inv n t nxt \<longleftrightarrow> length t = MAX_TRANSFERS \<and> table_inv t_used t_id nxt t \<and> unat nxt \<le> n \<and>
     (\<forall>e \<in> set t. t_bytes e \<le> UINT32_MAX64)"

text \<open>
  The default pool, once created, stays in its slot; a current pool is a live pool and implies that
  the default pool exists.
\<close>

definition pool_inv :: "nat \<Rightarrow> PoolEntry list \<Rightarrow> u64 \<Rightarrow> u64 \<Rightarrow> u64 \<Rightarrow> u64 list \<Rightarrow> bool" where
  "pool_inv n t nxt dflt cur attrs \<longleftrightarrow> length t = MAX_POOLS \<and> table_inv p_used p_id nxt t \<and> unat nxt \<le> n \<and>
     length attrs = 4 \<and>
     (\<forall>p \<in> set t. p_used p \<longrightarrow> p_is_default p \<longleftrightarrow> p_id p = dflt) \<and>
     (dflt \<noteq> 0 \<longrightarrow> find_slot p_used p_id t dflt \<noteq> None) \<and>
     (cur \<noteq> 0 \<longrightarrow> dflt \<noteq> 0 \<and> find_slot p_used p_id t cur \<noteq> None)"

abbreviation (input) CU_GRAPH_NODE_TYPE_MEM_ALLOC :: u32 where "CU_GRAPH_NODE_TYPE_MEM_ALLOC \<equiv> 10"

text \<open>The snapshot of an executable graph: its arrays are full-sized, its allocation nodes carry their parameters.\<close>

definition exec_ok :: "GraphExecEntry \<Rightarrow> bool" where
  "exec_ok x \<longleftrightarrow> length (x_nodes x) = CRX_GRAPH_MAX_NODES \<and> length (x_free_streams x) = CRX_GRAPH_MAX_NODES \<and>
     length (x_free_pending x) = CRX_GRAPH_MAX_NODES \<and> x_count x \<le> CRX_GRAPH_MAX_NODES \<and>
     (\<forall>j < x_count x. n_kind (x_nodes x ! j) = CU_GRAPH_NODE_TYPE_MEM_ALLOC \<longrightarrow> 8 \<le> length (n_params (x_nodes x ! j)))"

definition graph_inv :: "GraphEntry list \<Rightarrow> GraphNodeEntry list \<Rightarrow> GraphExecEntry list \<Rightarrow> bool" where
  "graph_inv gs ns xs \<longleftrightarrow> length gs = CRX_GRAPH_MAX_GRAPHS \<and> length ns = CRX_GRAPH_MAX_NODE_HANDLES \<and>
     length xs = CRX_GRAPH_MAX_EXECS \<and> (\<forall>x \<in> set xs. exec_ok x)"

definition session_inv :: "nat \<Rightarrow> ServerSession \<Rightarrow> bool" where
  "session_inv n s \<longleftrightarrow>
     alloc_inv n (allocations s) (next_alloc_id s) (modules s) \<and>
     module_inv n (modules s) (next_module_id s) \<and>
     kernel_inv n (kernels s) (next_kernel_id s) (modules s) \<and>
     stream_inv n (streams s) (next_stream_id s) \<and>
     event_inv n (events s) (next_event_id s) \<and>
     transfer_inv n (transfers s) (next_transfer_id s) \<and>
     pool_inv n (pools s) (next_pool_id s) (default_pool_id s) (current_pool_id s) (default_pool_attributes s) \<and>
     graph_inv (graphs s) (graph_nodes s) (graph_execs s)"

lemma zero_metas_ok [simp]: "kernel_meta_ok zero_kernel_meta" "module_meta_ok zero_module_meta"
  by (simp_all add: kernel_meta_ok_def module_meta_ok_def zero_kernel_meta_def zero_module_meta_def)

lemma zero_entry_metas [simp]: "m_metadata zero_module = zero_module_meta" "k_metadata zero_kernel = zero_kernel_meta"
  by (simp_all add: zero_module_def zero_kernel_def)

lemma zero_transfer_bytes [simp]: "t_bytes zero_transfer = 0"
  by (simp add: zero_transfer_def)

lemma zero_exec_ok [simp]: "exec_ok zero_graph_exec"
  by (simp add: exec_ok_def zero_graph_exec_def)

text \<open>A fresh session satisfies the invariant.\<close>

lemma session_inv_init: "session_inv 1 server_session_init"
  unfolding session_inv_def server_session_init_def alloc_inv_def module_inv_def kernel_inv_def
    stream_inv_def event_inv_def transfer_inv_def pool_inv_def graph_inv_def
  by (simp add: table_inv_blank alloc_tab.used_blank module_tab.used_blank kernel_tab.used_blank
      stream_tab.used_blank event_tab.used_blank transfer_tab.used_blank pool_tab.used_blank)

lemma session_inv_mono: "session_inv n s \<Longrightarrow> n \<le> m \<Longrightarrow> session_inv m s"
  by (auto simp: session_inv_def alloc_inv_def module_inv_def kernel_inv_def stream_inv_def
      event_inv_def transfer_inv_def pool_inv_def)

lemmas blank_unused [simp] = alloc_tab.used_blank module_tab.used_blank kernel_tab.used_blank
  stream_tab.used_blank event_tab.used_blank transfer_tab.used_blank pool_tab.used_blank

section \<open>Stale identifiers stay stale\<close>

definition no_revival :: "ServerSession \<Rightarrow> ServerSession \<Rightarrow> bool" where
  "no_revival s s' \<longleftrightarrow>
     persists a_used a_id (next_alloc_id s) (allocations s) (next_alloc_id s') (allocations s') \<and>
     persists m_used m_id (next_module_id s) (modules s) (next_module_id s') (modules s') \<and>
     persists k_used k_id (next_kernel_id s) (kernels s) (next_kernel_id s') (kernels s') \<and>
     persists st_used st_id (next_stream_id s) (streams s) (next_stream_id s') (streams s') \<and>
     persists e_used e_id (next_event_id s) (events s) (next_event_id s') (events s') \<and>
     persists t_used t_id (next_transfer_id s) (transfers s) (next_transfer_id s') (transfers s') \<and>
     persists p_used p_id (next_pool_id s) (pools s) (next_pool_id s') (pools s')"

lemma no_revival_refl [simp]: "no_revival s s"
  by (simp add: no_revival_def)

lemma no_revival_trans: "no_revival s s' \<Longrightarrow> no_revival s' s'' \<Longrightarrow> no_revival s s''"
  unfolding no_revival_def by (elim conjE, intro conjI; rule persists_trans; assumption)

lemma no_revival_upd [simp]:
  "no_revival s s' \<Longrightarrow> a_used (f0 (allocations s' ! i)) \<longrightarrow> a_used (allocations s' ! i) \<and> a_id (f0 (allocations s' ! i)) = a_id (allocations s' ! i) \<Longrightarrow>
   no_revival s (upd_allocation i f0 s')"
  "no_revival s s' \<Longrightarrow> m_used (f1 (modules s' ! i)) \<longrightarrow> m_used (modules s' ! i) \<and> m_id (f1 (modules s' ! i)) = m_id (modules s' ! i) \<Longrightarrow>
   no_revival s (upd_module i f1 s')"
  "no_revival s s' \<Longrightarrow> k_used (f2 (kernels s' ! i)) \<longrightarrow> k_used (kernels s' ! i) \<and> k_id (f2 (kernels s' ! i)) = k_id (kernels s' ! i) \<Longrightarrow>
   no_revival s (upd_kernel i f2 s')"
  "no_revival s s' \<Longrightarrow> st_used (f3 (streams s' ! i)) \<longrightarrow> st_used (streams s' ! i) \<and> st_id (f3 (streams s' ! i)) = st_id (streams s' ! i) \<Longrightarrow>
   no_revival s (upd_stream i f3 s')"
  "no_revival s s' \<Longrightarrow> e_used (f4 (events s' ! i)) \<longrightarrow> e_used (events s' ! i) \<and> e_id (f4 (events s' ! i)) = e_id (events s' ! i) \<Longrightarrow>
   no_revival s (upd_event i f4 s')"
  "no_revival s s' \<Longrightarrow> t_used (f5 (transfers s' ! i)) \<longrightarrow> t_used (transfers s' ! i) \<and> t_id (f5 (transfers s' ! i)) = t_id (transfers s' ! i) \<Longrightarrow>
   no_revival s (upd_transfer i f5 s')"
  "no_revival s s' \<Longrightarrow> p_used (f6 (pools s' ! i)) \<longrightarrow> p_used (pools s' ! i) \<and> p_id (f6 (pools s' ! i)) = p_id (pools s' ! i) \<Longrightarrow>
   no_revival s (upd_pool i f6 s')"
  by (simp_all add: no_revival_def persists_upd upd_allocation_def upd_module_def upd_kernel_def upd_stream_def
      upd_event_def upd_transfer_def upd_pool_def)

lemma no_revival_graphs [simp]: "no_revival s (s'\<lparr>graph_execs := xs\<rparr>) = no_revival s s'"
  by (simp add: no_revival_def)

section \<open>The contract\<close>

text \<open>
  One response with the opcode and the identifier of the request was sent, unless the connection
  failed.
\<close>

definition replied :: "u32 \<Rightarrow> u32 \<Rightarrow> world \<Rightarrow> int \<Rightarrow> world \<Rightarrow> bool" where
  "replied opcode req_id w rc w' \<longleftrightarrow>
     (rc = 0 \<or> rc = - 1) \<and>
     (rc = 0 \<longrightarrow> (\<exists>status payload. length payload < 2 ^ 32 \<and>
        sent w' = sent w @ corex_protocol_encode_response_header opcode req_id status
                    (of_nat (length payload)) @ payload))"

text \<open>The result of a handler is defined and satisfies \<open>Q\<close>.\<close>

definition ends :: "(int \<times> world) option \<Rightarrow> (int \<Rightarrow> world \<Rightarrow> bool) \<Rightarrow> bool" where
  "ends r Q \<longleftrightarrow> (case r of None \<Rightarrow> False | Some (rc, w) \<Rightarrow> Q rc w)"

lemma ends_Some [simp]: "ends (Some x) Q = Q (fst x) (snd x)"
  by (cases x) (simp add: ends_def)

lemma ends_None [simp]: "\<not> ends None Q"
  by (simp add: ends_def)

lemma endsE: "ends r Q \<Longrightarrow> (\<And>rc w. r = Some (rc, w) \<Longrightarrow> Q rc w \<Longrightarrow> R) \<Longrightarrow> R"
  by (cases r) auto

lemma ends_mono: "ends r P \<Longrightarrow> (\<And>rc w. P rc w \<Longrightarrow> Q rc w) \<Longrightarrow> ends r Q"
  by (cases r) auto

definition served :: "nat \<Rightarrow> u32 \<Rightarrow> u32 \<Rightarrow> world \<Rightarrow> int \<Rightarrow> world \<Rightarrow> bool" where
  "served n opcode req_id w rc w' \<longleftrightarrow>
     session_inv (Suc n) (sess w') \<and> no_revival (sess w) (sess w') \<and> replied opcode req_id w rc w'"

locale request_handler =
  fixes h :: handler and opcode :: u32
  assumes serves: "session_inv n (sess w) \<Longrightarrow> Suc n < 2 ^ 64 \<Longrightarrow> length p < 2 ^ 32 \<Longrightarrow>
    ends (h drv req_id p w) (served n opcode req_id w)"
begin

lemma total:
  assumes "session_inv n (sess w)" "Suc n < 2 ^ 64" "length p < 2 ^ 32"
  obtains rc w' where "h drv req_id p w = Some (rc, w')" "session_inv (Suc n) (sess w')" "no_revival (sess w) (sess w')"
    "replied opcode req_id w rc w'"
  using serves [OF assms, of drv req_id] by (rule endsE) (auto simp: served_def)

end

section \<open>Sending\<close>

lemma sess_invoke [simp]: "sess (snd (invoke drv c w)) = sess w"
  "sent (snd (invoke drv c w)) = sent w" "calls (snd (invoke drv c w)) = c # calls w"
  "fst (invoke drv c w) = drv (calls w) c"
  "g_ctx (snd (invoke drv c w)) = g_ctx w"
  "g_memory_pools_supported (snd (invoke drv c w)) = g_memory_pools_supported w"
  by (simp_all add: invoke_def)

lemma sess_send_all [simp]: "sess (snd (send_all drv b w)) = sess w"
  by (simp add: send_all_def invoke_def split: prod.splits)

lemma sess_send_response [simp]: "sess (snd (send_response drv op rid st pl w)) = sess w"
  by (simp add: send_response_def split: prod.splits) (metis sess_send_all snd_conv)

lemma send_all_rc: "fst (send_all drv b w) = 0 \<and> sent (snd (send_all drv b w)) = sent w @ b
    \<or> fst (send_all drv b w) = - 1"
  by (simp add: send_all_def invoke_def)

lemma send_response_replied:
  assumes "length pl < 2 ^ 32"
  shows "replied op rid w (fst (send_response drv op rid st pl w)) (snd (send_response drv op rid st pl w))"
proof -
  let ?h = "corex_protocol_encode_response_header op rid st (of_nat (length pl))"
  obtain rc1 w1 where 1: "send_all drv ?h w = (rc1, w1)" by fastforce
  obtain rc2 w2 where 2: "send_all drv pl w1 = (rc2, w2)" by fastforce
  have "rc1 = 0 \<and> sent w1 = sent w @ ?h \<or> rc1 = - 1" using send_all_rc [of drv ?h w] 1 by simp
  moreover have "rc2 = 0 \<and> sent w2 = sent w1 @ pl \<or> rc2 = - 1" using send_all_rc [of drv pl w1] 2 by simp
  ultimately show ?thesis
    using assms unfolding replied_def send_response_def
    by (auto simp: 1 2 intro!: exI [of _ st] exI [of _ pl])
qed

lemma send_response_sent:
  assumes "fst (send_response drv op rid st pl w) = 0"
  shows "sent (snd (send_response drv op rid st pl w))
    = sent w @ corex_protocol_encode_response_header op rid st (of_nat (length pl)) @ pl"
  using assms by (auto simp: send_response_def send_all_def invoke_def Let_def split: if_splits)

text \<open>A reply whose session satisfies the invariant and that nothing was sent before meets the contract.\<close>

lemma served_reply:
  assumes "session_inv (Suc n) (sess w1)" "no_revival (sess w) (sess w1)" "sent w1 = sent w" "length pl < 2 ^ 32"
  shows "served n op rid w (fst (send_response drv op rid st pl w1)) (snd (send_response drv op rid st pl w1))"
  using assms send_response_replied [of pl op rid w1 drv st] by (simp add: served_def replied_def)

lemma served_reply_same:
  assumes "session_inv n (sess w)" "sess w1 = sess w" "sent w1 = sent w" "length pl < 2 ^ 32"
  shows "served n op rid w (fst (send_response drv op rid st pl w1)) (snd (send_response drv op rid st pl w1))"
  using assms by (intro served_reply) (auto intro: session_inv_mono)

section \<open>Changes of one table\<close>

text \<open>Writes through a pointer to an entry keep the invariant as long as its flag and identifier stay.\<close>

lemma set_upd_subset: "x \<in> set (xs[i := y]) \<Longrightarrow> x = y \<or> x \<in> set xs"
  using set_update_subset_insert by fastforce

lemma live_module_nth: "i < length t \<Longrightarrow> m_used (t ! i) \<Longrightarrow> live_module t (m_id (t ! i))"
  by (auto simp: live_module_def)

lemma live_module_iff: "live_module t n \<longleftrightarrow> (\<exists>j < length t. m_used (t ! j) \<and> m_id (t ! j) = n)"
  unfolding live_module_def by (metis in_set_conv_nth)

lemma live_module_update:
  assumes "m_used e = m_used (t ! i)" "m_id e = m_id (t ! i)"
  shows "live_module (t[i := e]) n = live_module t n"
proof -
  have "m_used (t[i := e] ! j) = m_used (t ! j)" "m_id (t[i := e] ! j) = m_id (t ! j)" if "j < length t" for j
    using assms that by (auto simp: nth_upd)
  then have "(\<exists>j < length t. m_used (t[i := e] ! j) \<and> m_id (t[i := e] ! j) = n)
      = (\<exists>j < length t. m_used (t ! j) \<and> m_id (t ! j) = n)"
    by auto
  then show ?thesis by (simp add: live_module_iff)
qed

lemma live_module_new:
  assumes "live_module t n" "\<not> m_used (t ! i)"
  shows "live_module (t[i := e]) n"
proof -
  from assms(1) obtain j where "j < length t" "m_used (t ! j)" "m_id (t ! j) = n"
    by (auto simp: live_module_def in_set_conv_nth)
  then show ?thesis
    using assms(2) unfolding live_module_def
    by (intro bexI [of _ "t ! j"]) (auto simp: in_set_conv_nth nth_upd intro!: exI [of _ j])
qed

lemma upd_allocation_inv:
  assumes "session_inv n s" "a_used (f (allocations s ! i)) = a_used (allocations s ! i)"
    "a_id (f (allocations s ! i)) = a_id (allocations s ! i)"
    "a_used (allocations s ! i) \<Longrightarrow> a_parent_module_id (f (allocations s ! i)) \<noteq> 0 \<Longrightarrow>
       live_module (modules s) (a_parent_module_id (f (allocations s ! i)))"
  shows "session_inv n (upd_allocation i f s)"
proof -
  let ?t = "(allocations s)[i := f (allocations s ! i)]"
  have "alloc_inv n ?t (next_alloc_id s) (modules s)"
    using assms unfolding session_inv_def alloc_inv_def
    by (auto simp: table_inv_update dest!: set_upd_subset)
  then show ?thesis using assms(1) by (simp add: session_inv_def upd_allocation_def)
qed

lemma upd_allocation_keep:
  assumes "session_inv n s" "i < MAX_ALLOCS" "\<And>a. a_used (f a) = a_used a" "\<And>a. a_id (f a) = a_id a"
    "\<And>a. a_parent_module_id (f a) = a_parent_module_id a"
  shows "session_inv n (upd_allocation i f s)"
  using assms(1,2) by (intro upd_allocation_inv) (simp_all add: assms(3-5) session_inv_def alloc_inv_def)

lemma erase_allocation_inv:
  assumes "session_inv n s"
  shows "session_inv n (upd_allocation i (\<lambda>_. zero_allocation) s)"
proof -
  have "alloc_inv n ((allocations s)[i := zero_allocation]) (next_alloc_id s) (modules s)"
    using assms unfolding session_inv_def alloc_inv_def
    by (auto simp: alloc_tab.erase_inv alloc_tab.used_blank dest!: set_upd_subset)
  then show ?thesis using assms by (simp add: session_inv_def upd_allocation_def)
qed

lemma new_allocation_slot_bounded:
  assumes "session_inv (Suc n) s" "unat (next_alloc_id s) \<le> n" "Suc n < 2 ^ 64" "new_allocation_slot s = Some (i, s')"
  shows "session_inv (Suc n) s' \<and> i < MAX_ALLOCS \<and> \<not> a_used (allocations s ! i) \<and>
    s' = s\<lparr>allocations := (allocations s)[i := fresh_allocation (next_alloc_id s)], next_alloc_id := next_alloc_id s + 1\<rparr>"
proof -
  from assms(4) obtain t nxt where ns: "new_slot a_used fresh_allocation (allocations s) (next_alloc_id s) = Some (i, t, nxt)"
    and s': "s' = s\<lparr>allocations := t, next_alloc_id := nxt\<rparr>"
    by (auto simp: new_allocation_slot_def split: option.splits)
  have inv: "table_inv a_used a_id (next_alloc_id s) (allocations s)" "length (allocations s) = MAX_ALLOCS"
    using assms(1) by (auto simp: session_inv_def alloc_inv_def)
  note new = alloc_tab.new_bounded [OF inv(1) assms(2,3) ns]
  have "live_module (modules s) (a_parent_module_id a)"
    if "a \<in> set t" "a_used a" "a_parent_module_id a \<noteq> 0" for a
    using that assms(1) new(5)
    by (auto simp: session_inv_def alloc_inv_def fresh_allocation_def zero_allocation_def dest!: set_upd_subset)
  then have "alloc_inv (Suc n) t nxt (modules s)"
    using new inv(2) by (simp add: alloc_inv_def)
  then have "session_inv (Suc n) s'"
    using assms(1) by (simp add: session_inv_def s')
  then show ?thesis using new inv(2) s' by simp
qed

lemma new_allocation_slot_inv:
  assumes "session_inv n s" "Suc n < 2 ^ 64" "new_allocation_slot s = Some (i, s')"
  shows "session_inv (Suc n) s' \<and> i < MAX_ALLOCS \<and> \<not> a_used (allocations s ! i) \<and>
    s' = s\<lparr>allocations := (allocations s)[i := fresh_allocation (next_alloc_id s)], next_alloc_id := next_alloc_id s + 1\<rparr>"
  using assms session_inv_mono [OF assms(1), of "Suc n"]
  by (intro new_allocation_slot_bounded) (auto simp: session_inv_def alloc_inv_def)

text \<open>A claimed slot carries an identifier that was not issued before.\<close>

lemma new_slot_no_revival:
  assumes "session_inv n s" "n < 18446744073709551615"
  shows
    "new_allocation_slot s = Some (i0, s0) \<Longrightarrow> no_revival s s0"
    "new_module_slot s = Some (i1, s1) \<Longrightarrow> no_revival s s1"
    "new_kernel_slot s = Some (i2, s2) \<Longrightarrow> no_revival s s2"
    "new_stream_slot s = Some (i3, s3) \<Longrightarrow> no_revival s s3"
    "new_event_slot s = Some (i4, s4) \<Longrightarrow> no_revival s s4"
    "new_transfer_slot s = Some (i5, s5) \<Longrightarrow> no_revival s s5"
    "new_pool_slot s = Some (i6, s6) \<Longrightarrow> no_revival s s6"
proof -
  have nz: "c + 1 \<noteq> 0" if "unat c \<le> n" for c :: u64
    using that assms(2) inc_nonzero64 [of c] by simp
  show "new_allocation_slot s = Some (i0, s0) \<Longrightarrow> no_revival s s0"
    using alloc_tab.persists_new assms(1) nz
    by (fastforce simp: new_allocation_slot_def no_revival_def session_inv_def alloc_inv_def new_slot_Some split: option.splits)
  show "new_module_slot s = Some (i1, s1) \<Longrightarrow> no_revival s s1"
    using module_tab.persists_new assms(1) nz
    by (fastforce simp: new_module_slot_def no_revival_def session_inv_def module_inv_def new_slot_Some split: option.splits)
  show "new_kernel_slot s = Some (i2, s2) \<Longrightarrow> no_revival s s2"
    using kernel_tab.persists_new assms(1) nz
    by (fastforce simp: new_kernel_slot_def no_revival_def session_inv_def kernel_inv_def new_slot_Some split: option.splits)
  show "new_stream_slot s = Some (i3, s3) \<Longrightarrow> no_revival s s3"
    using stream_tab.persists_new assms(1) nz
    by (fastforce simp: new_stream_slot_def no_revival_def session_inv_def stream_inv_def new_slot_Some split: option.splits)
  show "new_event_slot s = Some (i4, s4) \<Longrightarrow> no_revival s s4"
    using event_tab.persists_new assms(1) nz
    by (fastforce simp: new_event_slot_def no_revival_def session_inv_def event_inv_def new_slot_Some split: option.splits)
  show "new_transfer_slot s = Some (i5, s5) \<Longrightarrow> no_revival s s5"
    using transfer_tab.persists_new assms(1) nz
    by (fastforce simp: new_transfer_slot_def no_revival_def session_inv_def transfer_inv_def new_slot_Some split: option.splits)
  show "new_pool_slot s = Some (i6, s6) \<Longrightarrow> no_revival s s6"
    using pool_tab.persists_new assms(1) nz
    by (fastforce simp: new_pool_slot_def no_revival_def session_inv_def pool_inv_def new_slot_Some split: option.splits)
qed

lemma upd_stream_inv:
  assumes "session_inv n s" "st_used (f (streams s ! i)) = st_used (streams s ! i)"
    "st_id (f (streams s ! i)) = st_id (streams s ! i)"
  shows "session_inv n (upd_stream i f s)"
  using assms by (simp add: session_inv_def stream_inv_def upd_stream_def table_inv_update)

lemma erase_stream_inv: "session_inv n s \<Longrightarrow> session_inv n (upd_stream i (\<lambda>_. zero_stream) s)"
  by (simp add: session_inv_def stream_inv_def upd_stream_def stream_tab.erase_inv)

lemma new_stream_slot_inv:
  assumes "session_inv n s" "Suc n < 2 ^ 64" "new_stream_slot s = Some (i, s')"
  shows "session_inv (Suc n) s' \<and> i < MAX_STREAMS \<and> \<not> st_used (streams s ! i) \<and>
    s' = s\<lparr>streams := (streams s)[i := fresh_stream (next_stream_id s)], next_stream_id := next_stream_id s + 1\<rparr>"
proof -
  from assms(3) obtain t nxt where ns: "new_slot st_used fresh_stream (streams s) (next_stream_id s) = Some (i, t, nxt)"
    and s': "s' = s\<lparr>streams := t, next_stream_id := nxt\<rparr>"
    by (auto simp: new_stream_slot_def split: option.splits)
  have inv: "table_inv st_used st_id (next_stream_id s) (streams s)" "unat (next_stream_id s) \<le> n" "length (streams s) = MAX_STREAMS"
    using assms(1) by (auto simp: session_inv_def stream_inv_def)
  note new = stream_tab.new_bounded [OF inv(1,2) assms(2) ns]
  have "session_inv (Suc n) s'"
    using session_inv_mono [OF assms(1), of "Suc n"] new inv(3) by (simp add: session_inv_def stream_inv_def s')
  then show ?thesis using new inv(3) s' by simp
qed

lemma new_allocation_upd:
  assumes "session_inv n s" "n < 18446744073709551615" "new_allocation_slot s = Some (i, s')"
  shows "session_inv (Suc n) (upd_allocation i (\<lambda>_. zero_allocation) s')" "i < MAX_ALLOCS" "session_inv (Suc n) s'"
    "transfers s' = transfers s"
    "no_revival s s'" "(\<And>a. a_used (f a) = a_used a) \<Longrightarrow> (\<And>a. a_id (f a) = a_id a) \<Longrightarrow>
     (\<And>a. a_parent_module_id (f a) = a_parent_module_id a) \<Longrightarrow> session_inv (Suc n) (upd_allocation i f s')"
  using new_allocation_slot_inv [OF assms(1) _ assms(3)] new_slot_no_revival [OF assms(1,2)] assms(2,3) erase_allocation_inv upd_allocation_keep by auto

lemma upd_event_inv:
  assumes "session_inv n s" "e_used (f (events s ! i)) = e_used (events s ! i)"
    "e_id (f (events s ! i)) = e_id (events s ! i)"
  shows "session_inv n (upd_event i f s)"
  using assms by (simp add: session_inv_def event_inv_def upd_event_def table_inv_update)

lemma erase_event_inv: "session_inv n s \<Longrightarrow> session_inv n (upd_event i (\<lambda>_. zero_event) s)"
  by (simp add: session_inv_def event_inv_def upd_event_def event_tab.erase_inv)

lemma new_event_slot_inv:
  assumes "session_inv n s" "Suc n < 2 ^ 64" "new_event_slot s = Some (i, s')"
  shows "session_inv (Suc n) s' \<and> i < MAX_EVENTS \<and> \<not> e_used (events s ! i) \<and>
    s' = s\<lparr>events := (events s)[i := fresh_event (next_event_id s)], next_event_id := next_event_id s + 1\<rparr>"
proof -
  from assms(3) obtain t nxt where ns: "new_slot e_used fresh_event (events s) (next_event_id s) = Some (i, t, nxt)"
    and s': "s' = s\<lparr>events := t, next_event_id := nxt\<rparr>"
    by (auto simp: new_event_slot_def split: option.splits)
  have inv: "table_inv e_used e_id (next_event_id s) (events s)" "unat (next_event_id s) \<le> n" "length (events s) = MAX_EVENTS"
    using assms(1) by (auto simp: session_inv_def event_inv_def)
  note new = event_tab.new_bounded [OF inv(1,2) assms(2) ns]
  have "session_inv (Suc n) s'"
    using session_inv_mono [OF assms(1), of "Suc n"] new inv(3) by (simp add: session_inv_def event_inv_def s')
  then show ?thesis using new inv(3) s' by simp
qed

lemma new_stream_upd:
  assumes "session_inv n s" "n < 18446744073709551615" "new_stream_slot s = Some (i, s')"
  shows "session_inv (Suc n) (upd_stream i (\<lambda>_. zero_stream) s')" "i < MAX_STREAMS" "session_inv (Suc n) s'" "transfers s' = transfers s"
    "no_revival s s'" "(\<And>e. st_used (f e) = st_used e) \<Longrightarrow> (\<And>e. st_id (f e) = st_id e) \<Longrightarrow> session_inv (Suc n) (upd_stream i f s')"
  using new_stream_slot_inv [OF assms(1) _ assms(3)] new_slot_no_revival [OF assms(1,2)] assms(2,3) erase_stream_inv upd_stream_inv by auto

lemma new_event_upd:
  assumes "session_inv n s" "n < 18446744073709551615" "new_event_slot s = Some (i, s')"
  shows "session_inv (Suc n) (upd_event i (\<lambda>_. zero_event) s')" "i < MAX_EVENTS" "session_inv (Suc n) s'" "transfers s' = transfers s"
    "no_revival s s'" "(\<And>e. e_used (f e) = e_used e) \<Longrightarrow> (\<And>e. e_id (f e) = e_id e) \<Longrightarrow> session_inv (Suc n) (upd_event i f s')"
  using new_event_slot_inv [OF assms(1) _ assms(3)] new_slot_no_revival [OF assms(1,2)] assms(2,3) erase_event_inv upd_event_inv by auto

lemma upd_transfer_inv:
  assumes "session_inv n s" "t_used (f (transfers s ! i)) = t_used (transfers s ! i)"
    "t_id (f (transfers s ! i)) = t_id (transfers s ! i)" "t_bytes (f (transfers s ! i)) \<le> UINT32_MAX64"
  shows "session_inv n (upd_transfer i f s)"
proof -
  have "transfer_inv n ((transfers s)[i := f (transfers s ! i)]) (next_transfer_id s)"
    using assms unfolding session_inv_def transfer_inv_def
    by (auto simp: table_inv_update dest!: set_upd_subset)
  then show ?thesis using assms(1) by (simp add: session_inv_def upd_transfer_def)
qed

lemma erase_transfer_inv:
  assumes "session_inv n s"
  shows "session_inv n (upd_transfer i (\<lambda>_. zero_transfer) s)"
proof -
  have "transfer_inv n ((transfers s)[i := zero_transfer]) (next_transfer_id s)"
    using assms unfolding session_inv_def transfer_inv_def
    by (auto simp: transfer_tab.erase_inv zero_transfer_bytes dest!: set_upd_subset)
  then show ?thesis using assms by (simp add: session_inv_def upd_transfer_def)
qed

lemma new_transfer_slot_inv:
  assumes "session_inv n s" "Suc n < 2 ^ 64" "new_transfer_slot s = Some (i, s')"
  shows "session_inv (Suc n) s' \<and> i < MAX_TRANSFERS \<and> \<not> t_used (transfers s ! i) \<and>
    s' = s\<lparr>transfers := (transfers s)[i := fresh_transfer (next_transfer_id s)], next_transfer_id := next_transfer_id s + 1\<rparr>"
proof -
  from assms(3) obtain t nxt where ns: "new_slot t_used fresh_transfer (transfers s) (next_transfer_id s) = Some (i, t, nxt)"
    and s': "s' = s\<lparr>transfers := t, next_transfer_id := nxt\<rparr>"
    by (auto simp: new_transfer_slot_def split: option.splits)
  have inv: "table_inv t_used t_id (next_transfer_id s) (transfers s)" "unat (next_transfer_id s) \<le> n"
    "length (transfers s) = MAX_TRANSFERS" "\<forall>e \<in> set (transfers s). t_bytes e \<le> UINT32_MAX64"
    using assms(1) by (auto simp: session_inv_def transfer_inv_def)
  note new = transfer_tab.new_bounded [OF inv(1,2) assms(2) ns]
  have "transfer_inv (Suc n) t nxt"
    using new inv by (auto simp: transfer_inv_def fresh_transfer_def zero_transfer_def dest!: set_upd_subset)
  then have "session_inv (Suc n) s'"
    using session_inv_mono [OF assms(1), of "Suc n"] by (simp add: session_inv_def s')
  then show ?thesis using new inv(3) s' by simp
qed

lemma upd_module_inv:
  assumes "session_inv n s" "m_used (f (modules s ! i)) = m_used (modules s ! i)"
    "m_id (f (modules s ! i)) = m_id (modules s ! i)" "module_meta_ok (m_metadata (f (modules s ! i)))"
  shows "session_inv n (upd_module i f s)"
proof -
  let ?t = "(modules s)[i := f (modules s ! i)]"
  have "live_module ?t = live_module (modules s)" using assms(2,3) by (intro ext live_module_update) auto
  moreover have "module_inv n ?t (next_module_id s)"
    using assms unfolding session_inv_def module_inv_def
    by (auto simp: table_inv_update dest!: set_upd_subset)
  ultimately show ?thesis using assms(1) by (simp add: session_inv_def upd_module_def alloc_inv_def kernel_inv_def)
qed

text \<open>A module is erased only once no kernel and no alias refers to it.\<close>

lemma erase_module_inv:
  assumes "session_inv n s" "i < MAX_MODULES"
    "\<forall>a \<in> set (allocations s). a_used a \<longrightarrow> a_parent_module_id a \<noteq> m_id (modules s ! i)"
    "\<forall>k \<in> set (kernels s). k_used k \<longrightarrow> k_module_id k \<noteq> m_id (modules s ! i)"
  shows "session_inv n (upd_module i (\<lambda>_. zero_module) s)"
proof -
  let ?t = "(modules s)[i := zero_module]"
  have live: "live_module ?t m" if l: "live_module (modules s) m" "m \<noteq> m_id (modules s ! i)" for m
  proof -
    obtain j where "j < length (modules s)" "m_used (modules s ! j)" "m_id (modules s ! j) = m"
      using l(1) unfolding live_module_iff by blast
    then show ?thesis using l(2) by (auto simp: live_module_iff nth_upd intro!: exI [of _ j])
  qed
  have "module_inv n ?t (next_module_id s)"
    using assms(1) unfolding session_inv_def module_inv_def
    by (auto simp: module_tab.erase_inv dest!: set_upd_subset)
  then show ?thesis
    using assms live by (auto simp: session_inv_def upd_module_def alloc_inv_def kernel_inv_def)
qed

lemma new_module_slot_inv:
  assumes "session_inv n s" "Suc n < 2 ^ 64" "new_module_slot s = Some (i, s')"
  shows "session_inv (Suc n) s' \<and> i < MAX_MODULES \<and> \<not> m_used (modules s ! i) \<and>
    s' = s\<lparr>modules := (modules s)[i := fresh_module (next_module_id s)], next_module_id := next_module_id s + 1\<rparr>"
proof -
  from assms(3) obtain t nxt where ns: "new_slot m_used fresh_module (modules s) (next_module_id s) = Some (i, t, nxt)"
    and s': "s' = s\<lparr>modules := t, next_module_id := nxt\<rparr>"
    by (auto simp: new_module_slot_def split: option.splits)
  have inv: "table_inv m_used m_id (next_module_id s) (modules s)" "unat (next_module_id s) \<le> n"
    "length (modules s) = MAX_MODULES" "\<forall>m \<in> set (modules s). module_meta_ok (m_metadata m)"
    using assms(1) by (auto simp: session_inv_def module_inv_def)
  note new = module_tab.new_bounded [OF inv(1,2) assms(2) ns]
  have live: "live_module t m" if "live_module (modules s) m" for m
    using that new(4) by (simp add: new(5) live_module_new)
  have "module_inv (Suc n) t nxt"
    using new inv by (auto simp: module_inv_def fresh_module_def zero_module_def dest!: set_upd_subset)
  then have "session_inv (Suc n) s'"
    using session_inv_mono [OF assms(1), of "Suc n"] live
    by (auto simp: session_inv_def s' alloc_inv_def kernel_inv_def)
  then show ?thesis using new inv(3) s' by simp
qed

lemma upd_kernel_inv:
  assumes "session_inv n s" "k_used (f (kernels s ! i)) = k_used (kernels s ! i)"
    "k_id (f (kernels s ! i)) = k_id (kernels s ! i)" "kernel_meta_ok (k_metadata (f (kernels s ! i)))"
    "live_module (modules s) (k_module_id (f (kernels s ! i)))"
  shows "session_inv n (upd_kernel i f s)"
proof -
  have "kernel_inv n ((kernels s)[i := f (kernels s ! i)]) (next_kernel_id s) (modules s)"
    using assms unfolding session_inv_def kernel_inv_def
    by (auto simp: table_inv_update dest!: set_upd_subset)
  then show ?thesis using assms(1) by (simp add: session_inv_def upd_kernel_def)
qed

lemma erase_kernel_inv:
  assumes "session_inv n s"
  shows "session_inv n (upd_kernel i (\<lambda>_. zero_kernel) s)"
proof -
  have "kernel_inv n ((kernels s)[i := zero_kernel]) (next_kernel_id s) (modules s)"
    using assms unfolding session_inv_def kernel_inv_def
    by (auto simp: kernel_tab.erase_inv kernel_tab.used_blank dest!: set_upd_subset)
  then show ?thesis using assms by (simp add: session_inv_def upd_kernel_def)
qed

text \<open>A kernel slot satisfies the invariant only once it names its module.\<close>

lemma new_kernel_slot_inv:
  assumes "session_inv n s" "Suc n < 2 ^ 64" "new_kernel_slot s = Some (i, s')" "live_module (modules s) m"
  shows "session_inv (Suc n) (upd_kernel i (\<lambda>k. k\<lparr>k_module_id := m\<rparr>) s') \<and> i < MAX_KERNELS \<and> \<not> k_used (kernels s ! i) \<and>
    s' = s\<lparr>kernels := (kernels s)[i := fresh_kernel (next_kernel_id s)], next_kernel_id := next_kernel_id s + 1\<rparr>"
proof -
  from assms(3) obtain t nxt where ns: "new_slot k_used fresh_kernel (kernels s) (next_kernel_id s) = Some (i, t, nxt)"
    and s': "s' = s\<lparr>kernels := t, next_kernel_id := nxt\<rparr>"
    by (auto simp: new_kernel_slot_def split: option.splits)
  have inv: "table_inv k_used k_id (next_kernel_id s) (kernels s)" "unat (next_kernel_id s) \<le> n"
    "length (kernels s) = MAX_KERNELS"
    using assms(1) by (auto simp: session_inv_def kernel_inv_def)
  note new = kernel_tab.new_bounded [OF inv(1,2) assms(2) ns]
  let ?t = "t[i := (t ! i)\<lparr>k_module_id := m\<rparr>]"
  have "?t = (kernels s)[i := (fresh_kernel (next_kernel_id s))\<lparr>k_module_id := m\<rparr>]"
    using new(3) by (simp add: new(5))
  then have "\<forall>k \<in> set ?t. kernel_meta_ok (k_metadata k) \<and> (k_used k \<longrightarrow> live_module (modules s) (k_module_id k))"
    using assms(1,4) by (auto simp: session_inv_def kernel_inv_def fresh_kernel_def zero_kernel_def dest!: set_upd_subset)
  moreover have "table_inv k_used k_id nxt ?t" using new(1) by (intro table_inv_update) auto
  ultimately have "kernel_inv (Suc n) ?t nxt (modules s)" using new inv(3) by (simp add: kernel_inv_def)
  then have "session_inv (Suc n) (upd_kernel i (\<lambda>k. k\<lparr>k_module_id := m\<rparr>) s')"
    using session_inv_mono [OF assms(1), of "Suc n"] by (simp add: session_inv_def s' upd_kernel_def)
  then show ?thesis using new inv(3) s' by simp
qed

section \<open>Device accesses\<close>

text \<open>\<open>n\<close> bytes at a device address lie inside one live allocation.\<close>

definition covers :: "Allocation list \<Rightarrow> u64 \<Rightarrow> nat \<Rightarrow> bool" where
  "covers t addr n \<longleftrightarrow> (\<exists>a \<in> set t. a_used a \<and> (\<exists>off. addr = a_ptr a + off \<and> unat off + n \<le> unat (a_size a)))"

text \<open>One end of a strided copy of \<open>depth\<close> slices of \<open>height\<close> rows of \<open>width\<close> bytes.\<close>

definition end_in_bounds :: "Allocation list \<Rightarrow> mem_end \<Rightarrow> u64 \<Rightarrow> u64 \<Rightarrow> u64 \<Rightarrow> u64 \<Rightarrow> u64 \<Rightarrow> bool" where
  "end_in_bounds t m pitch sl width height depth =
     (case m of
        At_device addr \<Rightarrow> (\<forall>z < unat depth. \<forall>y < unat height. covers t (addr + of_nat z * sl + of_nat y * pitch) (unat width))
      | At_payload bs \<Rightarrow> (unat depth - 1) * unat sl + (unat height - 1) * unat pitch + unat width \<le> length bs
      | _ \<Rightarrow> True)"

text \<open>
  The device memory a call touches is inside live allocations of the table \<open>t\<close>, and the payload
  bytes it reads are inside the payload.
\<close>

definition call_in_bounds :: "Allocation list \<Rightarrow> call \<Rightarrow> bool" where
  "call_in_bounds t c =
     (case c of
        Copy (B_copy_h2d dst data) \<Rightarrow> covers t dst (length data)
      | Copy (B_copy_d2h src n) \<Rightarrow> covers t src (unat n)
      | Copy (B_copy_d2d dst src n) \<Rightarrow> covers t dst (unat n) \<and> covers t src (unat n)
      | Copy (B_copy_d2d_async dst src n _) \<Rightarrow> covers t dst (unat n) \<and> covers t src (unat n)
      | Copy (B_copy_h2d_async dst _ n _) \<Rightarrow> covers t dst (unat n)
      | Copy (B_copy_d2h_async _ src n _) \<Rightarrow> covers t src (unat n)
      | Copy (B_copy_2d m) \<Rightarrow>
          end_in_bounds t (c2_src m) (c2_srcPitch m) 0 (c2_WidthInBytes m) (c2_Height m) 1 \<and>
          end_in_bounds t (c2_dst m) (c2_dstPitch m) 0 (c2_WidthInBytes m) (c2_Height m) 1
      | Copy (B_copy_2d_async m _) \<Rightarrow>
          end_in_bounds t (c2_src m) (c2_srcPitch m) 0 (c2_WidthInBytes m) (c2_Height m) 1 \<and>
          end_in_bounds t (c2_dst m) (c2_dstPitch m) 0 (c2_WidthInBytes m) (c2_Height m) 1
      | Copy (B_copy_3d m) \<Rightarrow>
          end_in_bounds t (c3_src m) (c3_srcPitch m) (c3_srcPitch m * c3_srcHeight m) (c3_WidthInBytes m) (c3_Height m) (c3_Depth m) \<and>
          end_in_bounds t (c3_dst m) (c3_dstPitch m) (c3_dstPitch m * c3_dstHeight m) (c3_WidthInBytes m) (c3_Height m) (c3_Depth m)
      | Copy (B_copy_3d_async m _) \<Rightarrow>
          end_in_bounds t (c3_src m) (c3_srcPitch m) (c3_srcPitch m * c3_srcHeight m) (c3_WidthInBytes m) (c3_Height m) (c3_Depth m) \<and>
          end_in_bounds t (c3_dst m) (c3_dstPitch m) (c3_dstPitch m * c3_dstHeight m) (c3_WidthInBytes m) (c3_Height m) (c3_Depth m)
      | Fill (B_memset_d8 dst _ n) \<Rightarrow> covers t dst (unat n)
      | Fill (B_memset_d8_async dst _ n _) \<Rightarrow> covers t dst (unat n)
      | Fill (B_memset_d2d8 dst pitch _ width height) \<Rightarrow> end_in_bounds t (At_device dst) pitch 0 width height 1
      | Fill (B_memset_d2d8_async dst pitch _ width height _) \<Rightarrow> end_in_bounds t (At_device dst) pitch 0 width height 1
      | _ \<Rightarrow> True)"

text \<open>The history grew by calls that all satisfy \<open>P\<close>.\<close>

definition grown :: "(call \<Rightarrow> bool) \<Rightarrow> call list \<Rightarrow> call list \<Rightarrow> bool" where
  "grown P old cs \<longleftrightarrow> (\<exists>new. cs = new @ old \<and> (\<forall>c \<in> set new. P c))"

lemma grown_refl [simp]: "grown P old old"
  by (simp add: grown_def)

lemma grown_Cons [simp]: "grown P old cs \<Longrightarrow> grown P old (c # cs) \<longleftrightarrow> P c"
  unfolding grown_def by (metis append_Cons append_same_eq list.set_intros(1) set_ConsD)

lemma grown_trans: "grown P old cs \<Longrightarrow> grown P cs cs' \<Longrightarrow> grown P old cs'"
  unfolding grown_def by (metis Un_iff append.assoc set_append)

lemma grown_mono: "grown P old cs \<Longrightarrow> (\<And>c. P c \<Longrightarrow> Q c) \<Longrightarrow> grown Q old cs"
  unfolding grown_def by blast

text \<open>A reply adds its sends to the history.\<close>

lemma grown_send_all:
  "(\<And>b. P (OS (OS_send b))) \<Longrightarrow> grown P old (calls w) \<Longrightarrow> grown P old (calls (snd (send_all drv b w)))"
  by (simp add: send_all_def invoke_def)

lemma grown_send_response:
  assumes "\<And>b. P (OS (OS_send b))" "grown P old (calls w)"
  shows "grown P old (calls (snd (send_response drv op rid st pl w)))"
proof -
  let ?h = "corex_protocol_encode_response_header op rid st (of_nat (length pl))"
  note h = grown_send_all [of P, OF assms(1) assms(2), of drv ?h]
  show ?thesis
    using h grown_send_all [of P, OF assms(1) h, of drv pl]
    by (auto simp: send_response_def split: prod.splits)
qed

section \<open>Pinned staging buffers\<close>

text \<open>
  The ledger of pinned host buffers: how often a buffer was obtained from the driver minus how often
  it was given back, and how many transfers of the table hold it. A handler is balanced when both
  move together, so that no buffer is lost and none is freed while a transfer holds it.
\<close>

fun pins :: "driver \<Rightarrow> call list \<Rightarrow> u64 \<Rightarrow> int" where
  "pins drv [] b = 0"
| "pins drv (c # h) b = pins drv h b +
     (case c of
        Mem (B_host_alloc n) \<Rightarrow> (if o_rc (drv h c) = CUDA_SUCCESS \<and> o_val (drv h c) = b then 1 else 0)
      | Mem (B_host_free x) \<Rightarrow> (if x = b then - 1 else 0)
      | _ \<Rightarrow> 0)"

definition held :: "TransferEntry list \<Rightarrow> u64 \<Rightarrow> int" where
  "held t b = (\<Sum>e \<leftarrow> t. if t_used e \<and> t_host_buffer e = b then 1 else 0)"

definition balanced :: "driver \<Rightarrow> TransferEntry list \<Rightarrow> call list \<Rightarrow> TransferEntry list \<Rightarrow> call list \<Rightarrow> bool" where
  "balanced drv t cs t' cs' \<longleftrightarrow> (\<forall>b. b \<noteq> 0 \<longrightarrow> held t' b - held t b = pins drv cs' b - pins drv cs b)"

definition pin_call :: "call \<Rightarrow> bool" where
  "pin_call c = (case c of Mem (B_host_alloc _) \<Rightarrow> True | Mem (B_host_free _) \<Rightarrow> True | _ \<Rightarrow> False)"

lemma balanced_refl [simp]: "balanced drv t cs t cs"
  by (simp add: balanced_def)

lemma pins_other: "\<not> pin_call c \<Longrightarrow> pins drv (c # h) b = pins drv h b"
  by (auto simp: pin_call_def split: call.splits mem_call.splits)

lemma balanced_other [simp]: "\<not> pin_call c \<Longrightarrow> balanced drv t cs t' (c # cs') = balanced drv t cs t' cs'"
  by (simp add: balanced_def pins_other del: pins.simps)

lemma balanced_grown:
  assumes "balanced drv t cs t' cs1" "grown (\<lambda>c. \<not> pin_call c) cs1 cs2"
  shows "balanced drv t cs t' cs2"
proof -
  obtain new where "cs2 = new @ cs1" "\<forall>c \<in> set new. \<not> pin_call c" using assms(2) by (auto simp: grown_def)
  then show ?thesis using assms(1) by (induction new arbitrary: cs2) auto
qed

lemma balanced_trans:
  assumes "balanced drv t cs t1 cs1" "balanced drv t1 cs1 t' cs'"
  shows "balanced drv t cs t' cs'"
  unfolding balanced_def
proof (intro allI impI)
  fix b :: u64
  assume "b \<noteq> 0"
  then show "held t' b - held t b = pins drv cs' b - pins drv cs b"
    using assms [unfolded balanced_def, rule_format, of b] by linarith
qed

lemma held_upd:
  assumes "i < length t"
  shows "held (t[i := e]) b = held t b - (if t_used (t ! i) \<and> t_host_buffer (t ! i) = b then 1 else 0)
    + (if t_used e \<and> t_host_buffer e = b then 1 else 0)"
proof -
  have "t = take i t @ t ! i # drop (Suc i) t" using assms by (rule id_take_nth_drop)
  then have "held t b = held (take i t) b + (if t_used (t ! i) \<and> t_host_buffer (t ! i) = b then 1 else 0) + held (drop (Suc i) t) b"
    unfolding held_def by (metis (no_types, lifting) add.assoc list.simps(9) map_append sum_list.Cons sum_list_append)
  moreover have "held (t[i := e]) b = held (take i t) b + (if t_used e \<and> t_host_buffer e = b then 1 else 0) + held (drop (Suc i) t) b"
    by (simp add: upd_conv_take_nth_drop [OF assms] held_def)
  ultimately show ?thesis by simp
qed

lemma table_frame [simp]:
  "transfers (upd_allocation i f s) = transfers s" "transfers (upd_module i g s) = transfers s"
  "transfers (upd_kernel i h s) = transfers s" "transfers (upd_stream i k s) = transfers s"
  "transfers (upd_event i l s) = transfers s" "transfers (upd_pool i m s) = transfers s"
  by (simp_all add: upd_allocation_def upd_module_def upd_kernel_def upd_stream_def upd_event_def upd_pool_def)

section \<open>The contract with memory safety\<close>

text \<open>Sending to the client failed at some point of the history.\<close>

definition hung_up :: "driver \<Rightarrow> call list \<Rightarrow> bool" where
  "hung_up drv cs \<longleftrightarrow> (\<exists>later b before. cs = later @ OS (OS_send b) # before \<and> o_ret (drv before (OS (OS_send b))) \<noteq> 0)"

lemma hung_up_later: "hung_up drv cs \<Longrightarrow> hung_up drv (c # cs)"
  unfolding hung_up_def by (metis append_Cons)

lemma hung_up_grown: "grown P cs cs' \<Longrightarrow> hung_up drv cs \<Longrightarrow> hung_up drv cs'"
  unfolding hung_up_def grown_def by (metis append.assoc)

lemma hung_upI: "o_ret (drv before (OS (OS_send b))) \<noteq> 0 \<Longrightarrow> hung_up drv (OS (OS_send b) # before)"
  unfolding hung_up_def by (metis append_Nil)

lemma send_all_hung_up: "fst (send_all drv b w) \<noteq> 0 \<Longrightarrow> hung_up drv (calls (snd (send_all drv b w)))"
  by (simp add: send_all_def invoke_def hung_upI split: if_splits)

lemma send_response_hung_up:
  assumes "fst (send_response drv op rid st pl w) \<noteq> 0"
  shows "hung_up drv (calls (snd (send_response drv op rid st pl w)))"
  using assms send_all_hung_up [of drv] unfolding send_response_def
  by (auto split: prod.splits if_splits) (metis fst_conv snd_conv)+

definition safely_served :: "nat \<Rightarrow> driver \<Rightarrow> u32 \<Rightarrow> u32 \<Rightarrow> world \<Rightarrow> int \<Rightarrow> world \<Rightarrow> bool" where
  "safely_served n drv opcode req_id w rc w' \<longleftrightarrow> served n opcode req_id w rc w' \<and> (rc \<noteq> 0 \<longrightarrow> hung_up drv (calls w')) \<and>
     grown (call_in_bounds (allocations (sess w))) (calls w) (calls w') \<and>
     balanced drv (transfers (sess w)) (calls w) (transfers (sess w')) (calls w')"

text \<open>
  The stronger contract of almost every handler: it also fails only when the client is gone, touches
  device memory only inside live allocations and keeps the ledger of pinned buffers balanced.
\<close>

locale safe_handler =
  fixes h :: handler and opcode :: u32
  assumes serves_safely: "session_inv n (sess w) \<Longrightarrow> Suc n < 2 ^ 64 \<Longrightarrow> length p < 2 ^ 32 \<Longrightarrow>
    ends (h drv req_id p w) (safely_served n drv opcode req_id w)"
begin

lemma in_bounds:
  assumes "session_inv n (sess w)" "Suc n < 2 ^ 64" "length p < 2 ^ 32" "h drv req_id p w = Some (rc, w')"
  shows "grown (call_in_bounds (allocations (sess w))) (calls w) (calls w')"
    "balanced drv (transfers (sess w)) (calls w) (transfers (sess w')) (calls w')"
  using serves_safely [OF assms(1-3), of drv req_id] assms(4) by (simp_all add: safely_served_def)

end

sublocale safe_handler \<subseteq> request_handler h opcode
  by unfold_locales (rule ends_mono [OF serves_safely], assumption+, simp add: safely_served_def)

lemma session_inv_Suc [simp]: "session_inv n s \<Longrightarrow> session_inv (Suc n) s"
  by (simp add: session_inv_mono)

text \<open>How a reply discharges the contract.\<close>

lemma safe_reply [intro!]:
  assumes "session_inv (Suc n) (sess w1)" "no_revival (sess w) (sess w1)" "sent w1 = sent w" "length pl < 2 ^ 32"
    "grown (call_in_bounds (allocations (sess w))) (calls w) (calls w1)"
    "balanced drv (transfers (sess w)) (calls w) (transfers (sess w1)) (calls w1)"
  shows "safely_served n drv op rid w (fst (send_response drv op rid st pl w1)) (snd (send_response drv op rid st pl w1))"
proof -
  have "grown (\<lambda>c. \<not> pin_call c) (calls w1) (calls (snd (send_response drv op rid st pl w1)))"
    by (intro grown_send_response) (simp_all add: pin_call_def)
  from balanced_grown [OF assms(6) this] show ?thesis
    unfolding safely_served_def using assms(1-5)
    by (intro conjI served_reply grown_send_response impI send_response_hung_up) (simp_all add: call_in_bounds_def)
qed

lemmas run_simps = Let_def invoke_def call_in_bounds_def pin_call_def

lemma ends_if [simp]: "ends (if c then x else y) Q \<longleftrightarrow> (c \<longrightarrow> ends x Q) \<and> (\<not> c \<longrightarrow> ends y Q)"
  by simp

section \<open>Walking through a handler\<close>

text \<open>
  Introduction rules that follow the control flow of a handler and keep the words read from the
  payload abstract. They carry the proofs of the handlers whose guards are long.
\<close>

lemma invoke_case:
  "(case invoke drv c w of (r, w') \<Rightarrow> f r w') = f (drv (calls w) c) (snd (invoke drv c w))"
  by (simp add: invoke_def)

lemma ends_ifI: "(c \<Longrightarrow> ends x Q) \<Longrightarrow> (\<not> c \<Longrightarrow> ends y Q) \<Longrightarrow> ends (if c then x else y) Q"
  by simp

lemma ends_optionI:
  "(x = None \<Longrightarrow> ends a Q) \<Longrightarrow> (\<And>y. x = Some y \<Longrightarrow> ends (f y) Q) \<Longrightarrow> ends (case x of None \<Rightarrow> a | Some y \<Rightarrow> f y) Q"
  by (cases x) simp_all

lemma ends_rdI:
  "off + 8 \<le> length p \<Longrightarrow> (\<And>v. rd64 p off = Some v \<Longrightarrow> ends (f v) Q) \<Longrightarrow> ends (rd64 p off \<bind> f) Q"
  "off + 4 \<le> length p \<Longrightarrow> (\<And>v. rd32 p off = Some v \<Longrightarrow> ends (g v) Q) \<Longrightarrow> ends (rd32 p off \<bind> g) Q"
  "off + m \<le> length p \<Longrightarrow> (\<And>d. d = take m (drop off p) \<Longrightarrow> ends (h d) Q) \<Longrightarrow> ends (peek p off m \<bind> h) Q"
  by simp_all

lemma ends_bindI:
  "(c \<Longrightarrow> ends (x \<bind> f) Q) \<Longrightarrow> (\<not> c \<Longrightarrow> ends (y \<bind> f) Q) \<Longrightarrow> ends ((if c then x else y) \<bind> f) Q"
  "ends (f v) Q \<Longrightarrow> ends (Some v \<bind> f) Q"
  "ends (x \<bind> (\<lambda>v. g v \<bind> f)) Q \<Longrightarrow> ends ((x \<bind> g) \<bind> f) Q"
  by simp_all

lemma ends_pairI:
  "(\<And>x y. z = (x, y) \<Longrightarrow> ends (f x y) Q) \<Longrightarrow> ends (case z of (x, y) \<Rightarrow> f x y) Q"
  by (cases z) simp

lemma ends_replyI: "Q (fst x) (snd x) \<Longrightarrow> ends (Some x) Q"
  by simp

lemmas handler_vcg = ends_ifI ends_optionI ends_rdI ends_bindI ends_replyI

lemma error_reply:
  "session_inv n (sess w) \<Longrightarrow>
   safely_served n drv op rid w (fst (send_response drv op rid st [] w)) (snd (send_response drv op rid st [] w))"
  by (intro safe_reply) simp_all

text \<open>Calls that stay in bounds and leave the session and the connection alone.\<close>

definition harmless :: "world \<Rightarrow> world \<Rightarrow> bool" where
  "harmless w w' \<longleftrightarrow> sess w' = sess w \<and> sent w' = sent w \<and>
     grown (call_in_bounds (allocations (sess w))) (calls w) (calls w') \<and> grown (\<lambda>c. \<not> pin_call c) (calls w) (calls w')"

lemma harmless_refl [simp]: "harmless w w"
  by (simp add: harmless_def)

lemma harmless_trans: "harmless w w1 \<Longrightarrow> harmless w1 w2 \<Longrightarrow> harmless w w2"
  unfolding harmless_def using grown_trans by metis

lemma harmless_call:
  "harmless w w1 \<Longrightarrow> call_in_bounds (allocations (sess w)) c \<Longrightarrow> \<not> pin_call c \<Longrightarrow> harmless w (snd (invoke drv c w1))"
  by (simp add: harmless_def)

lemma harmless_reply:
  assumes "session_inv n (sess w)" "harmless w w1" "length pl < 2 ^ 32"
  shows "safely_served n drv op rid w (fst (send_response drv op rid st pl w1)) (snd (send_response drv op rid st pl w1))"
  using assms balanced_grown [OF balanced_refl] by (intro safe_reply) (auto simp: harmless_def)

lemma find_allocation_Some:
  "find_allocation s k = Some i \<Longrightarrow> i < length (allocations s) \<and> a_used (allocations s ! i) \<and> a_id (allocations s ! i) = k"
  by (auto simp: find_allocation_def find_allocation_record_def split: option.splits if_splits dest: find_slot_Some)

text \<open>The guards of the linear copies and fills.\<close>

lemma coversI:
  assumes "find_allocation s k = Some i" "unat off + n \<le> unat (a_size (allocations s ! i))"
  shows "covers (allocations s) (a_ptr (allocations s ! i) + off) n"
  using find_allocation_Some [OF assms(1)] assms(2) unfolding covers_def
  by (intro bexI [of _ "allocations s ! i"]) auto

lemma covers_guard:
  assumes "find_allocation s k = Some i" "off \<le> a_size (allocations s ! i)" "m \<le> a_size (allocations s ! i) - off"
  shows "covers (allocations s) (a_ptr (allocations s ! i) + off) (unat m)"
  using assms by (intro coversI word_range_ok) auto

lemma covers_guard0:
  assumes "find_allocation s k = Some i" "off \<le> a_size (allocations s ! i)"
  shows "covers (allocations s) (a_ptr (allocations s ! i) + off) 0"
  using covers_guard [OF assms, of 0] by simp

section \<open>The allocations a client sees\<close>

text \<open>The abstract allocation store: identifiers to the device range they name.\<close>

definition alloc_map :: "ServerSession \<Rightarrow> (u64 \<rightharpoonup> u64 \<times> u64)" where
  "alloc_map s k = map_option (\<lambda>i. (a_ptr (allocations s ! i), a_size (allocations s ! i))) (find_allocation s k)"

definition visible :: "Allocation \<Rightarrow> bool" where
  "visible a \<longleftrightarrow> a_graph_id a = 0 \<or> a_graph_active a"

lemma alloc_map_slot_map:
  "alloc_map s k = (case slot_map a_used a_id (allocations s) k of
     None \<Rightarrow> None | Some a \<Rightarrow> if visible a then Some (a_ptr a, a_size a) else None)"
  by (simp add: alloc_map_def slot_map_def find_allocation_def find_allocation_record_def visible_def
      split: option.split)

lemma session_inv_alloc_table:
  "session_inv n s \<Longrightarrow> table_inv a_used a_id (next_alloc_id s) (allocations s) \<and> length (allocations s) = MAX_ALLOCS"
  by (simp add: session_inv_def alloc_inv_def)

text \<open>Rewriting an entry in place changes what its identifier names.\<close>

lemma slot_map_update:
  assumes "table_inv used ident nxt t" "i < length t" "used (t ! i)" "used e" "ident e = ident (t ! i)"
  shows "slot_map used ident (t[i := e]) = (slot_map used ident t)(ident e \<mapsto> e)"
proof (rule ext)
  fix k
  have f: "find_slot used ident (t[i := e]) = find_slot used ident t"
    using assms(3-5) by (intro find_slot_update) auto
  have "j \<noteq> i" if "find_slot used ident t k = Some j" "k \<noteq> ident e" for j
    using that assms(5) by (auto dest: find_slot_Some)
  then show "slot_map used ident (t[i := e]) k = ((slot_map used ident t)(ident e \<mapsto> e)) k"
    using find_slot_eqI [OF assms(1-3) refl] assms(2,5) unfolding slot_map_def f
    by (cases "find_slot used ident t k") (auto simp: nth_upd dest: find_slot_Some)
qed

text \<open>A claimed slot that was filled in is a new key; an erased entry disappears.\<close>

lemma alloc_map_new:
  assumes "session_inv n s" "Suc n < 2 ^ 64" "new_allocation_slot s = Some (i, s')"
    "a_used (f (fresh_allocation (next_alloc_id s)))" "a_id (f (fresh_allocation (next_alloc_id s))) = next_alloc_id s"
  defines "a \<equiv> f (fresh_allocation (next_alloc_id s))"
  shows "alloc_map (upd_allocation i f s')
     = (if visible a then (alloc_map s)(next_alloc_id s \<mapsto> (a_ptr a, a_size a)) else (alloc_map s)(next_alloc_id s := None))"
    "alloc_map s (next_alloc_id s) = None"
    "alloc_map (upd_allocation i (\<lambda>_. zero_allocation) s') = alloc_map s"
proof -
  have t: "table_inv a_used a_id (next_alloc_id s) (allocations s)" "length (allocations s) = MAX_ALLOCS"
    using session_inv_alloc_table [OF assms(1)] by auto
  have s': "i < MAX_ALLOCS" "session_inv (Suc n) s'" "\<not> a_used (allocations s ! i)"
    "s' = s\<lparr>allocations := (allocations s)[i := fresh_allocation (next_alloc_id s)], next_alloc_id := next_alloc_id s + 1\<rparr>"
    using new_allocation_slot_inv [OF assms(1-3)] by auto
  have ns: "new_slot a_used fresh_allocation (allocations s) (next_alloc_id s) = Some (i, allocations s', next_alloc_id s')"
    using assms(3) by (auto simp: new_allocation_slot_def split: option.splits)
  have t': "table_inv a_used a_id (next_alloc_id s') (allocations s')" "i < length (allocations s')"
    using session_inv_alloc_table [OF s'(2)] s'(1) by auto
  have e: "allocations s' ! i = fresh_allocation (next_alloc_id s)" using s'(1,4) t(2) by simp
  have u: "a_used (allocations s' ! i)" "a_id (allocations s' ! i) = next_alloc_id s"
    using e alloc_tab.used_fresh alloc_tab.ident_fresh by simp_all
  have m: "slot_map a_used a_id (allocations s') = (slot_map a_used a_id (allocations s))(next_alloc_id s \<mapsto> fresh_allocation (next_alloc_id s))"
    using alloc_tab.map_new [OF t(1) ns] .
  have "slot_map a_used a_id ((allocations s')[i := a]) = (slot_map a_used a_id (allocations s))(next_alloc_id s \<mapsto> a)"
    using slot_map_update [OF t' u(1), of a] assms(4,5) m u(2) by (simp add: a_def)
  then show "alloc_map (upd_allocation i f s')
     = (if visible a then (alloc_map s)(next_alloc_id s \<mapsto> (a_ptr a, a_size a)) else (alloc_map s)(next_alloc_id s := None))"
    by (auto simp: alloc_map_slot_map upd_allocation_def e a_def fun_eq_iff)
  show none: "alloc_map s (next_alloc_id s) = None"
    using alloc_tab.map_new_fresh [OF t(1)] by (simp add: alloc_map_slot_map)
  have "slot_map a_used a_id ((allocations s')[i := zero_allocation]) = (slot_map a_used a_id (allocations s'))(next_alloc_id s := None)"
    using alloc_tab.map_erase [OF t'(1), of "next_alloc_id s" i] find_slot_eqI [OF t' u] by simp
  then show "alloc_map (upd_allocation i (\<lambda>_. zero_allocation) s') = alloc_map s"
    using alloc_tab.map_new_fresh [OF t(1)] by (auto simp: alloc_map_slot_map upd_allocation_def m fun_eq_iff)
qed

lemma alloc_map_erase:
  assumes "session_inv n s" "i < MAX_ALLOCS" "a_used (allocations s ! i)"
  shows "alloc_map (upd_allocation i (\<lambda>_. zero_allocation) s) = (alloc_map s)(a_id (allocations s ! i) := None)"
proof -
  have t: "table_inv a_used a_id (next_alloc_id s) (allocations s)" "length (allocations s) = MAX_ALLOCS"
    using session_inv_alloc_table [OF assms(1)] by auto
  have "find_slot a_used a_id (allocations s) (a_id (allocations s ! i)) = Some i"
    using assms t by (intro find_slot_eqI) auto
  then show ?thesis
    using alloc_tab.map_erase [OF t(1)] by (simp add: alloc_map_slot_map upd_allocation_def fun_eq_iff)
qed

text \<open>An invisible entry can be erased, and a visible one hidden, without touching the others.\<close>

lemma alloc_map_erase_invisible:
  assumes "session_inv n s" "i < MAX_ALLOCS" "a_used (allocations s ! i)" "\<not> visible (allocations s ! i)"
  shows "alloc_map (upd_allocation i (\<lambda>_. zero_allocation) s) = alloc_map s"
proof -
  have t: "table_inv a_used a_id (next_alloc_id s) (allocations s)" "length (allocations s) = MAX_ALLOCS"
    using session_inv_alloc_table [OF assms(1)] by auto
  have "alloc_map s (a_id (allocations s ! i)) = None"
    using find_slot_eqI [OF t(1), of i] assms t(2) by (simp add: alloc_map_slot_map slot_map_def)
  then show ?thesis using alloc_map_erase [OF assms(1-3)] by (simp add: fun_upd_idem)
qed

lemma alloc_map_hide:
  assumes "session_inv n s" "i < MAX_ALLOCS" "a_used (allocations s ! i)" "a_graph_id (allocations s ! i) \<noteq> 0"
  shows "alloc_map (upd_allocation i (\<lambda>a. a\<lparr>a_graph_active := False\<rparr>) s) = (alloc_map s)(a_id (allocations s ! i) := None)"
proof -
  have t: "table_inv a_used a_id (next_alloc_id s) (allocations s)" "length (allocations s) = MAX_ALLOCS"
    using session_inv_alloc_table [OF assms(1)] by auto
  show ?thesis
    using slot_map_update [OF t(1), of i "(allocations s ! i)\<lparr>a_graph_active := False\<rparr>"] assms t(2)
    by (auto simp: alloc_map_slot_map upd_allocation_def fun_eq_iff visible_def)
qed

end
