(* ===== verification/GraphMem.thy ===== *)
theory GraphMem
  imports Contract
begin

text \<open>
  The part of \<^verbatim>\<open>server/corex_graph_runtime.inc\<close> that ordinary memory requests reach: the lifetime of
  allocations reserved by a graph. An executable that was destroyed while one of its allocations is
  mapped, or while its last launch may still run, is retired and released later
  (\<open>retire_graph_memory\<close>); freeing a graph allocation marks it unmapped and records the stream the
  free was submitted to (\<open>graph_allocation_freed\<close>). Reading the parameters of a node outside its
  buffer is undefined behaviour, the value \<^const>\<open>None\<close>.
\<close>

definition find_graph :: "ServerSession \<Rightarrow> u64 \<Rightarrow> nat option" where
  "find_graph s n = find_slot g_used g_id (graphs s) n"

definition upd_exec :: "nat \<Rightarrow> (GraphExecEntry \<Rightarrow> GraphExecEntry) \<Rightarrow> ServerSession \<Rightarrow> ServerSession" where
  "upd_exec i f s = s\<lparr>graph_execs := (graph_execs s)[i := f (graph_execs s ! i)]\<rparr>"

text \<open>Destroy the native executable and, when it owns one, its definition; zero the entry.\<close>

definition release_graph_exec :: "driver \<Rightarrow> nat \<Rightarrow> world \<Rightarrow> world" where
  "release_graph_exec drv i w =
     (let e = graph_execs (sess w) ! i;
          (_, w) = invoke drv (Graph (B_graph_exec_destroy (x_exec e))) w;
          w = (if x_definition e \<noteq> 0
               then snd (invoke drv (Graph (B_graph_destroy (x_definition e))) w) else w)
      in put_sess (upd_exec i (\<lambda>_. zero_graph_exec)) w)"

text \<open>\<open>resolve_stream_id\<close> succeeds and the stream is not idle: the executable is still needed.\<close>

definition stream_busy :: "driver \<Rightarrow> u64 \<Rightarrow> world \<Rightarrow> bool \<times> world" where
  "stream_busy drv stream_id w =
     (case resolve_stream_id (sess w) stream_id of
        None \<Rightarrow> (False, w)
      | Some stream \<Rightarrow>
          (let (r, w) = invoke drv (Stream (B_stream_query stream)) w
           in (o_rc r \<noteq> CUDA_SUCCESS, w)))"

text \<open>The loop over the nodes of a retired executable; \<open>js\<close> are the indices still to visit.\<close>

fun retire_hold_nodes :: "driver \<Rightarrow> bool \<Rightarrow> GraphExecEntry \<Rightarrow> nat list \<Rightarrow> bool \<Rightarrow> world \<Rightarrow> (bool \<times> world) option" where
  "retire_hold_nodes drv gpu_done e [] hold w = Some (hold, w)"
| "retire_hold_nodes drv gpu_done e (j # js) hold w =
     (if n_kind (x_nodes e ! j) \<noteq> CU_GRAPH_NODE_TYPE_MEM_ALLOC
      then retire_hold_nodes drv gpu_done e js hold w
      else case rd64 (n_params (x_nodes e ! j)) 0 of
             None \<Rightarrow> None
           | Some alloc_id \<Rightarrow>
               (let mapped = (case find_allocation_record (sess w) alloc_id of
                                None \<Rightarrow> False
                              | Some i \<Rightarrow> a_graph_active (allocations (sess w) ! i));
                    hold = (hold \<or> mapped);
                    (hold, w) = (if x_free_pending e ! j \<and> \<not> gpu_done
                                 then (let (busy, w) = stream_busy drv (x_free_streams e ! j) w
                                       in (hold \<or> busy, w))
                                 else (hold, w))
                in retire_hold_nodes drv gpu_done e js hold w))"

definition retire_exec :: "driver \<Rightarrow> bool \<Rightarrow> nat \<Rightarrow> world \<Rightarrow> world option" where
  "retire_exec drv gpu_done i w =
     (let e = graph_execs (sess w) ! i
      in if \<not> x_used e \<or> \<not> x_retired e then Some w
         else case retire_hold_nodes drv gpu_done e [0..<x_count e] False w of
                None \<Rightarrow> None
              | Some (hold, w) \<Rightarrow>
                  (let (hold, w) = (if x_launched e \<and> \<not> gpu_done
                                    then (let (busy, w) = stream_busy drv (x_last_stream e) w
                                          in (hold \<or> busy, w))
                                    else (hold, w))
                   in Some (if hold then w else release_graph_exec drv i w)))"

fun retire_execs :: "driver \<Rightarrow> bool \<Rightarrow> nat list \<Rightarrow> world \<Rightarrow> world option" where
  "retire_execs drv gpu_done [] w = Some w"
| "retire_execs drv gpu_done (i # is) w =
     (case retire_exec drv gpu_done i w of None \<Rightarrow> None | Some w \<Rightarrow> retire_execs drv gpu_done is w)"

text \<open>A live executable that is not retired replays the allocation.\<close>

definition exec_owns :: "GraphExecEntry \<Rightarrow> u64 \<Rightarrow> bool option" where
  "exec_owns e alloc_id =
     (if \<not> x_used e \<or> x_retired e then Some False
      else fold (\<lambda>j acc. case acc of
                   None \<Rightarrow> None
                 | Some b \<Rightarrow>
                     if n_kind (x_nodes e ! j) = CU_GRAPH_NODE_TYPE_MEM_ALLOC
                     then (case rd64 (n_params (x_nodes e ! j)) 0 of
                             None \<Rightarrow> None
                           | Some k \<Rightarrow> Some (b \<or> k = alloc_id))
                     else Some b) [0..<x_count e] (Some False))"

fun execs_own :: "GraphExecEntry list \<Rightarrow> u64 \<Rightarrow> bool option" where
  "execs_own [] alloc_id = Some False"
| "execs_own (e # es) alloc_id =
     (case exec_owns e alloc_id of
        None \<Rightarrow> None
      | Some True \<Rightarrow> Some True
      | Some False \<Rightarrow> execs_own es alloc_id)"

text \<open>An unmapped reservation whose graph is gone and that no live executable replays is erased.\<close>

definition retire_allocation :: "nat \<Rightarrow> ServerSession \<Rightarrow> ServerSession option" where
  "retire_allocation i s =
     (let a = allocations s ! i
      in if \<not> a_used a \<or> a_graph_id a = 0 \<or> a_graph_active a then Some s
         else if find_graph s (a_graph_id a) \<noteq> None then Some s
         else case execs_own (graph_execs s) (a_id a) of
                None \<Rightarrow> None
              | Some owner \<Rightarrow> Some (if owner then s else upd_allocation i (\<lambda>_. zero_allocation) s))"

fun retire_allocations :: "nat list \<Rightarrow> ServerSession \<Rightarrow> ServerSession option" where
  "retire_allocations [] s = Some s"
| "retire_allocations (i # is) s =
     (case retire_allocation i s of None \<Rightarrow> None | Some s \<Rightarrow> retire_allocations is s)"

definition retire_graph_memory :: "driver \<Rightarrow> bool \<Rightarrow> world \<Rightarrow> world option" where
  "retire_graph_memory drv gpu_done w =
     (case retire_execs drv gpu_done [0..<length (graph_execs (sess w))] w of
        None \<Rightarrow> None
      | Some w \<Rightarrow>
          (case retire_allocations [0..<length (allocations (sess w))] (sess w) of
             None \<Rightarrow> None
           | Some s \<Rightarrow> Some (w\<lparr>sess := s\<rparr>)))"

text \<open>Record the free on every executable that holds the allocation.\<close>

definition note_freed :: "u64 \<Rightarrow> u64 \<Rightarrow> bool \<Rightarrow> GraphExecEntry \<Rightarrow> GraphExecEntry option" where
  "note_freed alloc_id stream async e =
     (if \<not> x_used e then Some e
      else fold (\<lambda>j acc. case acc of
                   None \<Rightarrow> None
                 | Some e \<Rightarrow>
                     if n_kind (x_nodes e ! j) = CU_GRAPH_NODE_TYPE_MEM_ALLOC
                     then (case rd64 (n_params (x_nodes e ! j)) 0 of
                             None \<Rightarrow> None
                           | Some k \<Rightarrow>
                               Some (if k = alloc_id
                                     then e\<lparr>x_free_pending := (x_free_pending e)[j := async],
                                            x_free_streams := (x_free_streams e)[j := stream]\<rparr>
                                     else e))
                     else Some e) [0..<x_count e] (Some e))"

fun note_freed_all :: "u64 \<Rightarrow> u64 \<Rightarrow> bool \<Rightarrow> GraphExecEntry list \<Rightarrow> GraphExecEntry list option" where
  "note_freed_all alloc_id stream async [] = Some []"
| "note_freed_all alloc_id stream async (e # es) =
     (case note_freed alloc_id stream async e of
        None \<Rightarrow> None
      | Some e' \<Rightarrow> map_option (\<lambda>es'. e' # es') (note_freed_all alloc_id stream async es))"

definition graph_allocation_freed :: "driver \<Rightarrow> nat \<Rightarrow> u64 \<Rightarrow> bool \<Rightarrow> world \<Rightarrow> world option" where
  "graph_allocation_freed drv i stream async w =
     (let s = upd_allocation i (\<lambda>a. a\<lparr>a_graph_active := False\<rparr>) (sess w)
      in case note_freed_all (a_id (allocations s ! i)) stream async (graph_execs s) of
           None \<Rightarrow> None
         | Some xs \<Rightarrow> retire_graph_memory drv (\<not> async) (w\<lparr>sess := s\<lparr>graph_execs := xs\<rparr>\<rparr>))"

section \<open>The retirement keeps the session invariant and sends nothing\<close>

definition quiet_call :: "call \<Rightarrow> bool" where
  "quiet_call c = (case c of Stream (B_stream_query _) \<Rightarrow> True | Graph _ \<Rightarrow> True | _ \<Rightarrow> False)"

definition calm :: "nat \<Rightarrow> world \<Rightarrow> world \<Rightarrow> bool" where
  "calm n w w' \<longleftrightarrow> session_inv n (sess w') \<and> sent w' = sent w \<and> g_ctx w' = g_ctx w \<and>
     g_memory_pools_supported w' = g_memory_pools_supported w \<and> grown quiet_call (calls w) (calls w') \<and>
     alloc_map (sess w') = alloc_map (sess w) \<and> transfers (sess w') = transfers (sess w) \<and>
     no_revival (sess w) (sess w')"

lemma calm_refl: "session_inv n (sess w) \<Longrightarrow> calm n w w"
  by (simp add: calm_def)

lemma calm_trans: "calm n w w' \<Longrightarrow> calm n w' w'' \<Longrightarrow> calm n w w''"
  using grown_trans no_revival_trans by (auto simp: calm_def)

lemma calmD:
  assumes "calm n w w'"
  shows "session_inv n (sess w')" "sent w' = sent w" "grown (call_in_bounds t) (calls w) (calls w')"
    "alloc_map (sess w') = alloc_map (sess w)"
    "transfers (sess w') = transfers (sess w)" "no_revival (sess w) (sess w')" "grown (\<lambda>c. \<not> pin_call c) (calls w) (calls w')"
  using assms unfolding calm_def
  by (auto elim!: grown_mono simp: quiet_call_def call_in_bounds_def pin_call_def split: call.splits)

lemma session_inv_execs:
  "session_inv n s \<Longrightarrow> length xs = CRX_GRAPH_MAX_EXECS \<Longrightarrow> \<forall>x \<in> set xs. exec_ok x \<Longrightarrow> session_inv n (s\<lparr>graph_execs := xs\<rparr>)"
  by (simp add: session_inv_def graph_inv_def)

lemma exec_ok_nth: "session_inv n s \<Longrightarrow> i < length (graph_execs s) \<Longrightarrow> exec_ok (graph_execs s ! i)"
  by (simp add: session_inv_def graph_inv_def)

lemma exec_ok_params:
  "exec_ok e \<Longrightarrow> j < x_count e \<Longrightarrow> n_kind (x_nodes e ! j) = CU_GRAPH_NODE_TYPE_MEM_ALLOC \<Longrightarrow> \<exists>k. rd64 (n_params (x_nodes e ! j)) 0 = Some k"
  by (simp add: exec_ok_def)

lemma upd_exec_inv:
  "session_inv n s \<Longrightarrow> exec_ok (f (graph_execs s ! i)) \<Longrightarrow> session_inv n (upd_exec i f s)"
  by (auto simp: session_inv_def graph_inv_def upd_exec_def dest!: set_upd_subset)

lemma transfers_upd_exec [simp]: "transfers (upd_exec i f s) = transfers s" "no_revival s' (upd_exec i f s) = no_revival s' s"
  by (simp_all add: upd_exec_def)

lemma alloc_map_execs [simp]:
  "alloc_map (upd_exec i f s) = alloc_map s" "alloc_map (s\<lparr>graph_execs := xs\<rparr>) = alloc_map s"
  by (simp_all add: fun_eq_iff alloc_map_slot_map upd_exec_def)

lemma release_graph_exec_calm: "session_inv n (sess w) \<Longrightarrow> calm n w (release_graph_exec drv i w)"
  by (simp add: release_graph_exec_def Let_def calm_def invoke_def upd_exec_inv quiet_call_def)

lemma stream_busy_calm: "session_inv n (sess w) \<Longrightarrow> calm n w (snd (stream_busy drv k w))"
  by (simp add: stream_busy_def calm_def invoke_def quiet_call_def split: option.split)

lemma retire_hold_nodes_calm:
  assumes "session_inv n (sess w)" "exec_ok e" "set js \<subseteq> {0..<x_count e}"
  shows "\<exists>hold' w'. retire_hold_nodes drv gpu_done e js hold w = Some (hold', w') \<and> calm n w w'"
  using assms
proof (induction js arbitrary: hold w)
  case Nil
  then show ?case by (simp add: calm_refl)
next
  case (Cons j js)
  show ?case
  proof (cases "n_kind (x_nodes e ! j) = CU_GRAPH_NODE_TYPE_MEM_ALLOC")
    case False
    then show ?thesis using Cons by simp
  next
    case True
    then obtain k where k: "rd64 (n_params (x_nodes e ! j)) 0 = Some k"
      using Cons.prems exec_ok_params by fastforce
    obtain b w1 where b: "stream_busy drv (x_free_streams e ! j) w = (b, w1)" by fastforce
    have c: "calm n w w1" using stream_busy_calm [OF Cons.prems(1), of drv "x_free_streams e ! j"] b by simp
    then have i: "session_inv n (sess w1)" by (simp add: calm_def)
    have js: "set js \<subseteq> {0..<x_count e}" using Cons.prems(3) by simp
    note here = Cons.IH [OF Cons.prems(1,2) js] and later = Cons.IH [OF i Cons.prems(2) js]
    show ?thesis
    proof (cases "x_free_pending e ! j \<and> \<not> gpu_done")
      case pending: True
      show ?thesis using later calm_trans [OF c] by (simp add: True k b Let_def pending) blast
    next
      case False
      then show ?thesis using here by (auto simp: True k Let_def)
    qed
  qed
qed

lemma retire_exec_calm:
  assumes "session_inv n (sess w)" "i < length (graph_execs (sess w))"
  shows "\<exists>w'. retire_exec drv gpu_done i w = Some w' \<and> calm n w w'"
proof -
  let ?e = "graph_execs (sess w) ! i"
  have e: "exec_ok ?e" using assms by (rule exec_ok_nth)
  obtain h w1 where h: "retire_hold_nodes drv gpu_done ?e [0..<x_count ?e] False w = Some (h, w1)" "calm n w w1"
    using retire_hold_nodes_calm [OF assms(1) e, of "[0..<x_count ?e]" drv gpu_done False] by auto
  obtain b w2 where b: "stream_busy drv (x_last_stream ?e) w1 = (b, w2)" by fastforce
  have i1: "session_inv n (sess w1)" using h(2) by (simp add: calm_def)
  have c2: "calm n w1 w2" using stream_busy_calm [OF i1, of drv "x_last_stream ?e"] b by simp
  then have i2: "session_inv n (sess w2)" by (simp add: calm_def)
  show ?thesis
    using assms(1) h c2 release_graph_exec_calm [OF i1, of drv i] release_graph_exec_calm [OF i2, of drv i]
    by (auto simp: retire_exec_def Let_def b calm_refl intro: calm_trans)
qed

lemma calm_execs_length: "calm n w w' \<Longrightarrow> length (graph_execs (sess w')) = CRX_GRAPH_MAX_EXECS"
  by (simp add: calm_def session_inv_def graph_inv_def)

lemma retire_execs_calm:
  assumes "session_inv n (sess w)" "set is \<subseteq> {0..<CRX_GRAPH_MAX_EXECS}"
  shows "\<exists>w'. retire_execs drv gpu_done is w = Some w' \<and> calm n w w'"
  using assms
proof (induction "is" arbitrary: w)
  case Nil
  then show ?case by (simp add: calm_refl)
next
  case (Cons i "is")
  have "i < length (graph_execs (sess w))"
    using Cons.prems calm_execs_length [OF calm_refl [OF Cons.prems(1)]] by simp
  then obtain w1 where w1: "retire_exec drv gpu_done i w = Some w1" "calm n w w1"
    using retire_exec_calm [OF Cons.prems(1)] by blast
  then have "session_inv n (sess w1)" by (simp add: calm_def)
  then obtain w2 where "retire_execs drv gpu_done is w1 = Some w2" "calm n w1 w2"
    using Cons by fastforce
  then show ?case using w1 by (auto intro: calm_trans)
qed

lemma fold_option_total:
  assumes "\<And>j x. j \<in> set js \<Longrightarrow> I x \<Longrightarrow> \<exists>y. f j x = Some y \<and> I y" "I x"
  shows "\<exists>y. fold (\<lambda>j acc. case acc of None \<Rightarrow> None | Some b \<Rightarrow> f j b) js (Some x) = Some y \<and> I y"
  using assms
proof (induction js arbitrary: x)
  case Nil
  then show ?case by simp
next
  case (Cons j js)
  then obtain y where "f j x = Some y" "I y" by (meson list.set_intros(1))
  then show ?case using Cons by (simp add: Cons.IH)
qed

lemma exec_owns_total:
  assumes "exec_ok e"
  shows "exec_owns e k \<noteq> None"
proof -
  have "\<exists>b. fold (\<lambda>j acc. case acc of None \<Rightarrow> None | Some b \<Rightarrow>
      if n_kind (x_nodes e ! j) = CU_GRAPH_NODE_TYPE_MEM_ALLOC
      then (case rd64 (n_params (x_nodes e ! j)) 0 of None \<Rightarrow> None | Some m \<Rightarrow> Some (b \<or> m = k))
      else Some b) [0..<x_count e] (Some False) = Some b \<and> True"
    using assms by (intro fold_option_total) (auto dest!: exec_ok_params)
  then show ?thesis by (auto simp: exec_owns_def)
qed

lemma execs_own_total: "\<forall>e \<in> set es. exec_ok e \<Longrightarrow> execs_own es k \<noteq> None"
proof (induction es)
  case Nil
  then show ?case by simp
next
  case (Cons e es)
  then have "exec_ok e" by simp
  then obtain b where b: "exec_owns e k = Some b" using exec_owns_total by blast
  show ?case using Cons b by (cases b) simp_all
qed

lemma retire_allocation_inv:
  assumes "session_inv n s" "i < MAX_ALLOCS"
  shows "\<exists>s'. retire_allocation i s = Some s' \<and> session_inv n s' \<and> alloc_map s' = alloc_map s \<and> transfers s' = transfers s \<and> no_revival s s'"
proof -
  obtain b where "execs_own (graph_execs s) (a_id (allocations s ! i)) = Some b"
    using execs_own_total assms by (metis session_inv_def graph_inv_def option.exhaust)
  then show ?thesis
    using assms erase_allocation_inv [OF assms(1)] alloc_map_erase_invisible [OF assms]
    by (simp add: retire_allocation_def Let_def visible_def)
qed

lemma retire_allocations_inv:
  assumes "session_inv n s" "set is \<subseteq> {0..<MAX_ALLOCS}"
  shows "\<exists>s'. retire_allocations is s = Some s' \<and> session_inv n s' \<and> alloc_map s' = alloc_map s \<and> transfers s' = transfers s \<and> no_revival s s'"
  using assms
proof (induction "is" arbitrary: s)
  case Nil
  then show ?case by simp
next
  case (Cons i "is")
  then show ?case using retire_allocation_inv [OF Cons.prems(1), of i] no_revival_trans by fastforce
qed

lemma retire_graph_memory_calm:
  assumes "session_inv n (sess w)"
  shows "\<exists>w'. retire_graph_memory drv gpu_done w = Some w' \<and> calm n w w'"
proof -
  have "length (graph_execs (sess w)) = CRX_GRAPH_MAX_EXECS" using assms by (simp add: session_inv_def graph_inv_def)
  then obtain w1 where w1: "retire_execs drv gpu_done [0..<length (graph_execs (sess w))] w = Some w1" "calm n w w1"
    using retire_execs_calm [OF assms, of "[0..<CRX_GRAPH_MAX_EXECS]" drv gpu_done] by auto
  then have "session_inv n (sess w1)" by (simp add: calm_def)
  then obtain s where "retire_allocations [0..<length (allocations (sess w1))] (sess w1) = Some s" "session_inv n s"
      "alloc_map s = alloc_map (sess w1)" "transfers s = transfers (sess w1)" "no_revival (sess w1) s"
    using retire_allocations_inv [of n "sess w1" "[0..<length (allocations (sess w1))]"] session_inv_alloc_table
    by (metis atLeastLessThan_upt order_refl)
  then show ?thesis using w1 no_revival_trans by (auto simp: retire_graph_memory_def calm_def)
qed

lemma note_freed_ok:
  assumes "exec_ok e"
  shows "\<exists>e'. note_freed k st async e = Some e' \<and> exec_ok e'"
proof -
  have "\<exists>y. fold (\<lambda>j acc. case acc of None \<Rightarrow> None | Some e \<Rightarrow>
      if n_kind (x_nodes e ! j) = CU_GRAPH_NODE_TYPE_MEM_ALLOC
      then (case rd64 (n_params (x_nodes e ! j)) 0 of None \<Rightarrow> None
            | Some m \<Rightarrow> Some (if m = k then e\<lparr>x_free_pending := (x_free_pending e)[j := async],
                 x_free_streams := (x_free_streams e)[j := st]\<rparr> else e))
      else Some e) [0..<x_count e] (Some e) = Some y \<and> (exec_ok y \<and> x_count y = x_count e)"
    using assms by (intro fold_option_total) (auto dest!: exec_ok_params simp: exec_ok_def)
  then show ?thesis using assms by (auto simp: note_freed_def)
qed

lemma note_freed_all_ok:
  "\<forall>e \<in> set es. exec_ok e \<Longrightarrow>
   \<exists>es'. note_freed_all k st async es = Some es' \<and> length es' = length es \<and> (\<forall>e \<in> set es'. exec_ok e)"
proof (induction es)
  case Nil
  then show ?case by simp
next
  case (Cons e es)
  obtain e' where "note_freed k st async e = Some e'" "exec_ok e'" using note_freed_ok Cons.prems by fastforce
  then show ?case using Cons by auto
qed

text \<open>Freeing a mapped reservation hides it; nothing else a client sees changes.\<close>

lemma graph_allocation_freed_calm:
  assumes "session_inv n (sess w)" "i < MAX_ALLOCS" "a_used (allocations (sess w) ! i)" "a_graph_id (allocations (sess w) ! i) \<noteq> 0"
  shows "\<exists>w1 w'. graph_allocation_freed drv i st async w = Some w' \<and> calm n w1 w' \<and> calls w1 = calls w \<and> sent w1 = sent w \<and>
    alloc_map (sess w1) = (alloc_map (sess w))(a_id (allocations (sess w) ! i) := None) \<and> transfers (sess w1) = transfers (sess w) \<and>
    no_revival (sess w) (sess w1)"
proof -
  let ?s = "upd_allocation i (\<lambda>a. a\<lparr>a_graph_active := False\<rparr>) (sess w)"
  have s: "session_inv n ?s" using assms by (intro upd_allocation_keep) auto
  then have "\<forall>e \<in> set (graph_execs ?s). exec_ok e" "length (graph_execs ?s) = CRX_GRAPH_MAX_EXECS"
    by (auto simp: session_inv_def graph_inv_def)
  then obtain xs where xs: "note_freed_all (a_id (allocations ?s ! i)) st async (graph_execs ?s) = Some xs"
      "length xs = CRX_GRAPH_MAX_EXECS" "\<forall>e \<in> set xs. exec_ok e"
    using note_freed_all_ok by metis
  let ?w = "w\<lparr>sess := ?s\<lparr>graph_execs := xs\<rparr>\<rparr>"
  have "session_inv n (sess ?w)" using session_inv_execs [OF s xs(2,3)] by simp
  then obtain w' where "retire_graph_memory drv (\<not> async) ?w = Some w'" "calm n ?w w'"
    using retire_graph_memory_calm by blast
  then show ?thesis
    using xs(1) alloc_map_hide [OF assms] by (intro exI [of _ ?w] exI [of _ w']) (simp add: graph_allocation_freed_def Let_def)
qed

end
