(* ===== verification/Lifetime.thy ===== *)
theory Lifetime
  imports Contract
begin

text \<open>
  Blocking destruction in \<^verbatim>\<open>server/runtime_server.c\<close> ("Gate 5E"): the memory of an allocation, a module
  and an event are destroyed only behind a synchronisation of the context, a stream only behind a
  synchronisation of that stream. \<open>fenced\<close> reads this off the history of calls; the handlers that
  destroy are shown to keep it.
\<close>

definition lifetime_context_barrier :: "driver \<Rightarrow> world \<Rightarrow> int \<times> world" where
  "lifetime_context_barrier drv w =
     (let (r, w) = invoke drv (Ctx B_context_sync) w
      in (if o_rc r = CUDA_SUCCESS then 0 else - 1, w))"

definition lifetime_stream_barrier :: "driver \<Rightarrow> u64 \<Rightarrow> world \<Rightarrow> int \<times> world" where
  "lifetime_stream_barrier drv stream w =
     (let (r, w) = invoke drv (Stream (B_stream_sync stream)) w
      in (if o_rc r = CUDA_SUCCESS then 0 else - 1, w))"

text \<open>The synchronisation a destroying call needs.\<close>

definition barrier_for :: "call \<Rightarrow> call option" where
  "barrier_for c =
     (case c of
        Mem (B_mem_free _) \<Rightarrow> Some (Ctx B_context_sync)
      | Module (B_module_unload _) \<Rightarrow> Some (Ctx B_context_sync)
      | Event (B_event_destroy _) \<Rightarrow> Some (Ctx B_context_sync)
      | Stream (B_stream_destroy st) \<Rightarrow> Some (Stream (B_stream_sync st))
      | _ \<Rightarrow> None)"

text \<open>
  A history that grew from \<open>old\<close> (latest call first) so that the call right before a destroying one is
  its barrier, and that barrier succeeded.
\<close>

inductive fences :: "driver \<Rightarrow> call list \<Rightarrow> call list \<Rightarrow> bool" for drv old where
  start: "fences drv old old"
| harmless: "fences drv old cs \<Longrightarrow> barrier_for c = None \<Longrightarrow> fences drv old (c # cs)"
| destroy: "fences drv old cs \<Longrightarrow> barrier_for c = Some b \<Longrightarrow> o_rc (drv cs b) = CUDA_SUCCESS \<Longrightarrow>
    fences drv old (c # b # cs)"

lemmas fences_rules [simp] = start harmless destroy

lemma barrier_harmless: "barrier_for c = Some b \<Longrightarrow> barrier_for b = None"
  by (auto simp: barrier_for_def split: call.splits mem_call.splits module_call.splits event_call.splits stream_call.splits)

text \<open>A destroying call of the new part follows its barrier.\<close>

lemma fences_inv:
  "fences drv old cs \<Longrightarrow> cs = pre @ c # post \<Longrightarrow> length old \<le> length post \<Longrightarrow> barrier_for c = Some b \<Longrightarrow>
   \<exists>before. post = b # before \<and> o_rc (drv before b) = CUDA_SUCCESS"
proof (induction arbitrary: pre rule: fences.induct)
  case start
  then show ?case by simp
next
  case (harmless cs c')
  then show ?case by (cases pre) auto
next
  case (destroy cs c' b')
  then show ?case by (auto simp: Cons_eq_append_conv dest: barrier_harmless)
qed

text \<open>Calls that destroy nothing keep the property.\<close>

lemma fences_grown:
  assumes "fences drv old cs" "grown (\<lambda>c. barrier_for c = None) cs cs'"
  shows "fences drv old cs'"
proof -
  obtain more where "cs' = more @ cs" "\<forall>c \<in> set more. barrier_for c = None"
    using assms(2) by (auto simp: grown_def)
  then show ?thesis using assms(1) by (induction more arbitrary: cs') auto
qed

lemma fences_reply [intro!]:
  assumes "fences drv old (calls w1)"
  shows "fences drv old (calls (snd (send_response drv op rid st pl w1)))"
  using fences_grown [OF assms] grown_send_response [of "\<lambda>c. barrier_for c = None" "calls w1" w1 drv op rid st pl]
  by (simp add: barrier_for_def)

end
