(* ===== verification/Samples.thy ===== *)
theory Samples
  imports Contract
begin

text \<open>
  Concrete worlds and drivers on which the properties are exercised: the server after start-up, the
  same with one allocation, and a driver whose calls all succeed with a fixed value.
\<close>

definition init_world :: world where
  "init_world = \<lparr>sess = server_session_init, calls = [], sent = [], g_ctx = 1, g_backend_version = 0,
     g_memory_pools_supported = True\<rparr>"

definition ok_driver :: "u64 \<Rightarrow> driver" where
  "ok_driver v h c = \<lparr>o_rc = CUDA_SUCCESS, o_val = v, o_val2 = v, o_data = [], o_ret = 0, o_vals = []\<rparr>"

text \<open>A driver on which exactly the calls satisfying \<open>P\<close> fail.\<close>

definition fail_driver :: "(call \<Rightarrow> bool) \<Rightarrow> driver" where
  "fail_driver P h c = \<lparr>o_rc = (if P c then CUDA_ERROR_OTHER 999 else CUDA_SUCCESS), o_val = 0, o_val2 = 0,
     o_data = [], o_ret = 0, o_vals = []\<rparr>"

definition one_alloc :: Allocation where
  "one_alloc = (fresh_allocation 1)\<lparr>a_ptr := 4096, a_size := 64\<rparr>"

definition alloc_world :: world where
  "alloc_world = init_world\<lparr>sess := server_session_init\<lparr>
     allocations := (replicate MAX_ALLOCS zero_allocation)[0 := one_alloc], next_alloc_id := 2\<rparr>\<rparr>"

lemma init_world_simps [simp]:
  "sess init_world = server_session_init" "calls init_world = []" "sent init_world = []"
  "g_memory_pools_supported init_world"
  by (simp_all add: init_world_def)

lemma init_session_simps [simp]:
  "allocations server_session_init = replicate MAX_ALLOCS zero_allocation"
  "streams server_session_init = replicate MAX_STREAMS zero_stream"
  "events server_session_init = replicate MAX_EVENTS zero_event"
  "transfers server_session_init = replicate MAX_TRANSFERS zero_transfer"
  "modules server_session_init = replicate MAX_MODULES zero_module"
  "kernels server_session_init = replicate MAX_KERNELS zero_kernel"
  "pools server_session_init = replicate MAX_POOLS zero_pool"
  "next_alloc_id server_session_init = 1" "next_module_id server_session_init = 1"
  "next_kernel_id server_session_init = 1" "next_stream_id server_session_init = 1"
  "next_event_id server_session_init = 1" "next_transfer_id server_session_init = 1"
  "next_pool_id server_session_init = 1" "default_pool_id server_session_init = 0"
  "current_pool_id server_session_init = 0"
  by (simp_all add: server_session_init_def)

lemma ok_driver_simps [simp]:
  "o_rc (ok_driver v h c) = CUDA_SUCCESS" "o_val (ok_driver v h c) = v" "o_val2 (ok_driver v h c) = v"
  "o_data (ok_driver v h c) = []" "o_ret (ok_driver v h c) = 0" "o_vals (ok_driver v h c) = []"
  by (simp_all add: ok_driver_def)

lemma free_slot_replicate [simp]: "0 < n \<Longrightarrow> \<not> used z \<Longrightarrow> free_slot used (replicate n z) = Some 0"
  by (simp add: free_slot_def find_upt_Some)

lemma find_slot_replicate [simp]: "\<not> used z \<Longrightarrow> find_slot used ident (replicate n z) k = None"
  by (simp add: find_slot_None)

lemma init_world_inv: "session_inv 1 (sess init_world)"
  using session_inv_init by simp

lemma init_alloc_map [simp]: "alloc_map server_session_init = Map.empty"
  by (simp add: fun_eq_iff alloc_map_def find_allocation_def find_allocation_record_def)

lemma alloc_world_sess:
  "sess alloc_world = upd_allocation 0 (\<lambda>a. a\<lparr>a_ptr := 4096, a_size := 64\<rparr>)
     (server_session_init\<lparr>allocations := (replicate MAX_ALLOCS zero_allocation)[0 := fresh_allocation 1], next_alloc_id := 2\<rparr>)"
  by (simp add: alloc_world_def upd_allocation_def one_alloc_def)

lemma new_slot_init: "new_allocation_slot server_session_init
  = Some (0, server_session_init\<lparr>allocations := (replicate MAX_ALLOCS zero_allocation)[0 := fresh_allocation 1], next_alloc_id := 2\<rparr>)"
  by (simp add: new_allocation_slot_def new_slot_def)

lemma alloc_world_inv: "session_inv 2 (sess alloc_world)"
  using new_allocation_upd(6) [OF session_inv_init _ new_slot_init, of "\<lambda>a. a\<lparr>a_ptr := 4096, a_size := 64\<rparr>"]
  by (simp add: alloc_world_sess numeral_2_eq_2)

lemma alloc_world_simps [simp]:
  "calls alloc_world = []" "sent alloc_world = []"
  "allocations (sess alloc_world) = (replicate MAX_ALLOCS zero_allocation)[0 := one_alloc]"
  "streams (sess alloc_world) = replicate MAX_STREAMS zero_stream"
  "next_alloc_id (sess alloc_world) = 2"
  by (simp_all add: alloc_world_def)

lemma one_alloc_simps [simp]:
  "a_used one_alloc" "a_id one_alloc = 1" "a_ptr one_alloc = 4096" "a_size one_alloc = 64"
  "a_graph_id one_alloc = 0" "a_parent_module_id one_alloc = 0"
  by (simp_all add: one_alloc_def fresh_allocation_def zero_allocation_def)

lemma alloc_world_find [simp]:
  "find_allocation (sess alloc_world) 1 = Some 0"
proof -
  have "find_slot a_used a_id (allocations (sess alloc_world)) 1 = Some 0"
    by (rule find_slot_eqI [where nxt = 2])
      (use session_inv_alloc_table [OF alloc_world_inv] in simp_all)
  then show ?thesis by (simp add: find_allocation_def find_allocation_record_def)
qed

lemma alloc_world_map: "alloc_map (sess alloc_world) = [1 \<mapsto> (4096, 64)]"
  using alloc_map_new(1) [OF session_inv_init _ new_slot_init, of "\<lambda>a. a\<lparr>a_ptr := 4096, a_size := 64\<rparr>"]
  by (simp add: alloc_world_sess fresh_allocation_def zero_allocation_def visible_def)

end
