(* ===== verification/Memory.thy ===== *)
theory Memory
  imports GraphMem Lifetime Samples
begin

text \<open>
  The linear memory requests of \<^verbatim>\<open>server/runtime_server.c\<close>: allocation (plain and pitched), copies
  between the host and the device and inside the device, fills, \<open>free\<close> behind the context barrier and
  the device synchronisation. Every handler is shown to be defined, to keep the session invariant, to
  answer exactly once and to pass the driver only ranges inside live allocations.
\<close>

abbreviation (input) SIZE_MAX :: u64 where "SIZE_MAX \<equiv> - 1"

section \<open>Operations\<close>

definition handle_alloc :: handler where
  "handle_alloc drv req_id p w =
     (if length p \<noteq> 8 then reply drv OP_ALLOC req_id ST_BAD_REQUEST [] w
      else do {
        size64 \<leftarrow> rd64 p 0;
        if size64 = 0 \<or> SIZE_MAX < size64 then reply drv OP_ALLOC req_id ST_BAD_REQUEST [] w
        else case new_allocation_slot (sess w) of
               None \<Rightarrow> reply drv OP_ALLOC req_id ST_NO_RESOURCE [] w
             | Some (i, s) \<Rightarrow>
                 (let (r, w) = invoke drv (Mem (B_mem_alloc size64)) (w\<lparr>sess := s\<rparr>)
                  in if o_rc r \<noteq> CUDA_SUCCESS
                     then reply drv OP_ALLOC req_id ST_CUDA_ERROR [] (put_sess (upd_allocation i (\<lambda>_. zero_allocation)) w)
                     else let w = put_sess (upd_allocation i (\<lambda>a. a\<lparr>a_ptr := o_val r, a_size := size64\<rparr>)) w
                          in reply drv OP_ALLOC req_id ST_OK
                               (le_bytes64 (corex_protocol_to_be64 (a_id (allocations (sess w) ! i)))) w)
      })"

text \<open>The native pitched allocation, then the linear one with the pitch equal to the width.\<close>

definition alloc_pitch_native :: "driver \<Rightarrow> u64 \<Rightarrow> u64 \<Rightarrow> world \<Rightarrow> (CUresult \<times> u64 \<times> u64) \<times> world" where
  "alloc_pitch_native drv width height w =
     (let (r, w) = invoke drv (Mem (B_mem_alloc_pitch width height 1)) w
      in if o_rc r = CUDA_SUCCESS then ((CUDA_SUCCESS, o_val r, o_val2 r), w)
         else if width > SIZE_MAX div height then ((CUDA_ERROR_OUT_OF_MEMORY, 0, width), w)
         else let (r, w) = invoke drv (Mem (B_mem_alloc (width * height))) w
              in if o_rc r \<noteq> CUDA_SUCCESS then ((CUDA_ERROR_OUT_OF_MEMORY, 0, width), w)
                 else ((CUDA_SUCCESS, o_val r, width), w))"

definition handle_alloc_pitched :: handler where
  "handle_alloc_pitched drv req_id p w =
     (if length p \<noteq> 16 then reply drv OP_ALLOC_PITCHED req_id ST_BAD_REQUEST [] w
      else do {
        width \<leftarrow> rd64 p 0;
        height \<leftarrow> rd64 p 8;
        if width = 0 \<or> height = 0 \<or> SIZE_MAX < width \<or> SIZE_MAX < height
        then reply drv OP_ALLOC_PITCHED req_id ST_BAD_REQUEST [] w
        else case new_allocation_slot (sess w) of
               None \<Rightarrow> reply drv OP_ALLOC_PITCHED req_id ST_NO_RESOURCE [] w
             | Some (i, s) \<Rightarrow>
                 (let ((rc, ptr, pitch), w) = alloc_pitch_native drv width height (w\<lparr>sess := s\<rparr>)
                  in if rc \<noteq> CUDA_SUCCESS \<or> pitch < width \<or> pitch > SIZE_MAX div height
                     then reply drv OP_ALLOC_PITCHED req_id ST_CUDA_ERROR []
                            (put_sess (upd_allocation i (\<lambda>_. zero_allocation)) w)
                     else let w = put_sess (upd_allocation i (\<lambda>a. a\<lparr>a_ptr := ptr, a_size := pitch * height,
                                    a_layout_kind := 1, a_width := width, a_height := height, a_pitch := pitch\<rparr>)) w;
                              slot = allocations (sess w) ! i
                          in reply drv OP_ALLOC_PITCHED req_id ST_OK
                               (corex_protocol_write_u64 (corex_protocol_write_u64 (corex_protocol_write_u64 [] (a_id slot)) pitch)
                                 (a_size slot)) w)
      })"

definition handle_h2d :: handler where
  "handle_h2d drv req_id p w =
     (if length p < 24 then reply drv OP_H2D req_id ST_BAD_REQUEST [] w
      else do {
        allocation_id \<leftarrow> rd64 p 0;
        offset64 \<leftarrow> rd64 p 8;
        bytes64 \<leftarrow> rd64 p 16;
        if bytes64 > UINT32_MAX64 \<or> 24 + bytes64 \<noteq> of_nat (length p)
        then reply drv OP_H2D req_id ST_BAD_REQUEST [] w
        else case find_allocation (sess w) allocation_id of
               None \<Rightarrow> reply drv OP_H2D req_id ST_NOT_FOUND [] w
             | Some i \<Rightarrow>
                 (let a = allocations (sess w) ! i
                  in if offset64 > a_size a \<or> bytes64 > a_size a - offset64
                     then reply drv OP_H2D req_id ST_BAD_REQUEST [] w
                     else do {
                       data \<leftarrow> peek p 24 (unat bytes64);
                       let (r, w) = invoke drv (Copy (B_copy_h2d (a_ptr a + offset64) data)) w;
                       if o_rc r \<noteq> CUDA_SUCCESS then reply drv OP_H2D req_id ST_CUDA_ERROR [] w
                       else reply drv OP_H2D req_id ST_OK [] w
                     })
      })"

text \<open>The heap buffer of \<open>handle_d2h\<close>: none for an empty copy; \<^const>\<open>False\<close> when \<open>malloc\<close> failed.\<close>

definition d2h_buffer :: "driver \<Rightarrow> u64 \<Rightarrow> world \<Rightarrow> bool \<times> world" where
  "d2h_buffer drv bytes64 w =
     (if bytes64 > 0 then (let (r, w) = invoke drv (OS (OS_malloc bytes64)) w in (o_ret r = 0, w))
      else (True, w))"

definition handle_d2h :: handler where
  "handle_d2h drv req_id p w =
     (if length p \<noteq> 24 then reply drv OP_D2H req_id ST_BAD_REQUEST [] w
      else do {
        allocation_id \<leftarrow> rd64 p 0;
        offset64 \<leftarrow> rd64 p 8;
        bytes64 \<leftarrow> rd64 p 16;
        if bytes64 > UINT32_MAX64 then reply drv OP_D2H req_id ST_BAD_REQUEST [] w
        else case find_allocation (sess w) allocation_id of
               None \<Rightarrow> reply drv OP_D2H req_id ST_NOT_FOUND [] w
             | Some i \<Rightarrow>
                 (let a = allocations (sess w) ! i
                  in if offset64 > a_size a \<or> bytes64 > a_size a - offset64
                     then reply drv OP_D2H req_id ST_BAD_REQUEST [] w
                     else let (ok, w) = d2h_buffer drv bytes64 w
                          in if \<not> ok then reply drv OP_D2H req_id ST_INTERNAL [] w
                             else let (r, w) = invoke drv (Copy (B_copy_d2h (a_ptr a + offset64) bytes64)) w
                                  in if o_rc r \<noteq> CUDA_SUCCESS then reply drv OP_D2H req_id ST_CUDA_ERROR [] w
                                     else reply drv OP_D2H req_id ST_OK (fit (unat bytes64) (o_data r)) w)
      })"

definition handle_d2d :: handler where
  "handle_d2d drv req_id p w =
     (if length p \<noteq> 40 then reply drv OP_D2D req_id ST_BAD_REQUEST [] w
      else do {
        dst_id \<leftarrow> rd64 p 0;
        dst_offset \<leftarrow> rd64 p 8;
        src_id \<leftarrow> rd64 p 16;
        src_offset \<leftarrow> rd64 p 24;
        bytes \<leftarrow> rd64 p 32;
        case (find_allocation (sess w) dst_id, find_allocation (sess w) src_id) of
          (Some d, Some s) \<Rightarrow>
            (let dst = allocations (sess w) ! d; src = allocations (sess w) ! s
             in if dst_offset > a_size dst \<or> src_offset > a_size src \<or>
                   bytes > a_size dst - dst_offset \<or> bytes > a_size src - src_offset
                then reply drv OP_D2D req_id ST_BAD_REQUEST [] w
                else if d = s \<and> dst_offset < src_offset + bytes \<and> src_offset < dst_offset + bytes
                then reply drv OP_D2D req_id ST_BAD_REQUEST [] w
                else let (r, w) = invoke drv (Copy (B_copy_d2d (a_ptr dst + dst_offset) (a_ptr src + src_offset) bytes)) w
                     in if o_rc r \<noteq> CUDA_SUCCESS then reply drv OP_D2D req_id ST_CUDA_ERROR [] w
                        else reply drv OP_D2D req_id ST_OK [] w)
        | _ \<Rightarrow> reply drv OP_D2D req_id ST_NOT_FOUND [] w
      })"

definition handle_d2d_async :: handler where
  "handle_d2d_async drv req_id p w =
     (if length p \<noteq> 48 then reply drv OP_D2D_ASYNC req_id ST_BAD_REQUEST [] w
      else do {
        did \<leftarrow> rd64 p 0;
        doff \<leftarrow> rd64 p 8;
        sid \<leftarrow> rd64 p 16;
        soff \<leftarrow> rd64 p 24;
        bytes \<leftarrow> rd64 p 32;
        stream_id \<leftarrow> rd64 p 40;
        case (find_allocation (sess w) did, find_allocation (sess w) sid, resolve_stream_id (sess w) stream_id) of
          (Some d, Some s, Some stream) \<Rightarrow>
            (let dst = allocations (sess w) ! d; src = allocations (sess w) ! s
             in if doff > a_size dst \<or> soff > a_size src \<or> bytes > a_size dst - doff \<or> bytes > a_size src - soff
                then reply drv OP_D2D_ASYNC req_id ST_BAD_REQUEST [] w
                else if d = s \<and> doff < soff + bytes \<and> soff < doff + bytes
                then reply drv OP_D2D_ASYNC req_id ST_BAD_REQUEST [] w
                else let (r, w) = invoke drv (Copy (B_copy_d2d_async (a_ptr dst + doff) (a_ptr src + soff) bytes stream)) w
                     in reply drv OP_D2D_ASYNC req_id (if o_rc r = CUDA_SUCCESS then ST_OK else ST_CUDA_ERROR) [] w)
        | _ \<Rightarrow> reply drv OP_D2D_ASYNC req_id ST_BAD_REQUEST [] w
      })"

text \<open>
  \<open>decode_memset_payload\<close>: the outer option is undefined behaviour, the inner one the return value
  -1; the allocation, the stream, the offset, the byte and the count on success.
\<close>

definition decode_memset_payload ::
  "ServerSession \<Rightarrow> bytes \<Rightarrow> bool \<Rightarrow> (nat \<times> u64 \<times> u64 \<times> u8 \<times> u64) option option" where
  "decode_memset_payload s p async =
     (if length p \<noteq> (if async then 36 else 28) then Some None
      else do {
        allocation_id \<leftarrow> rd64 p 0;
        offset \<leftarrow> rd64 p 8;
        value \<leftarrow> rd32 p 16;
        bytes \<leftarrow> rd64 p 20;
        case find_allocation s allocation_id of
          None \<Rightarrow> Some None
        | Some i \<Rightarrow>
            (let a = allocations s ! i
             in if value > 0xff \<or> offset > a_size a \<or> bytes > a_size a - offset then Some None
                else if async
                then do {
                  stream_id \<leftarrow> rd64 p 28;
                  if stream_id \<noteq> 0
                  then (case find_stream s stream_id of
                          None \<Rightarrow> Some None
                        | Some j \<Rightarrow> Some (Some (i, st_stream (streams s ! j), offset, ucast value, bytes)))
                  else Some (Some (i, 0, offset, ucast value, bytes))
                }
                else Some (Some (i, 0, offset, ucast value, bytes)))
      })"

definition handle_memset :: handler where
  "handle_memset drv req_id p w =
     do {
       d \<leftarrow> decode_memset_payload (sess w) p False;
       case d of
         None \<Rightarrow> reply drv OP_MEMSET req_id ST_BAD_REQUEST [] w
       | Some (i, stream, offset, value, bytes) \<Rightarrow>
           (let (r, w) = invoke drv (Fill (B_memset_d8 (a_ptr (allocations (sess w) ! i) + offset) value bytes)) w
            in if o_rc r \<noteq> CUDA_SUCCESS then reply drv OP_MEMSET req_id ST_CUDA_ERROR [] w
               else reply drv OP_MEMSET req_id ST_OK [] w)
     }"

definition handle_memset_async :: handler where
  "handle_memset_async drv req_id p w =
     do {
       d \<leftarrow> decode_memset_payload (sess w) p True;
       case d of
         None \<Rightarrow> reply drv OP_MEMSET_ASYNC req_id ST_BAD_REQUEST [] w
       | Some (i, stream, offset, value, bytes) \<Rightarrow>
           (let (r, w) = invoke drv (Fill (B_memset_d8_async (a_ptr (allocations (sess w) ! i) + offset) value bytes stream)) w
            in if o_rc r \<noteq> CUDA_SUCCESS then reply drv OP_MEMSET_ASYNC req_id ST_CUDA_ERROR [] w
               else reply drv OP_MEMSET_ASYNC req_id ST_OK [] w)
     }"

definition handle_free :: handler where
  "handle_free drv req_id p w =
     (if length p \<noteq> 8 then reply drv OP_FREE req_id ST_BAD_REQUEST [] w
      else do {
        allocation_id \<leftarrow> rd64 p 0;
        case find_allocation (sess w) allocation_id of
          None \<Rightarrow> reply drv OP_FREE req_id ST_NOT_FOUND [] w
        | Some i \<Rightarrow>
            (let a = allocations (sess w) ! i
             in if a_parent_module_id a \<noteq> 0 then reply drv OP_FREE req_id ST_BAD_REQUEST [] w
                else let (rc, w) = lifetime_context_barrier drv w
                     in if rc \<noteq> 0 then reply drv OP_FREE req_id ST_CUDA_ERROR [] w
                        else let (r, w) = invoke drv (Mem (B_mem_free (a_ptr a))) w
                             in if o_rc r \<noteq> CUDA_SUCCESS then reply drv OP_FREE req_id ST_CUDA_ERROR [] w
                                else do {
                                  w \<leftarrow> (if a_graph_id a \<noteq> 0 then graph_allocation_freed drv i 0 False w
                                       else Some (put_sess (upd_allocation i (\<lambda>_. zero_allocation)) w));
                                  reply drv OP_FREE req_id ST_OK [] w
                                })
      })"

definition handle_sync :: handler where
  "handle_sync drv req_id p w =
     (if length p \<noteq> 0 then reply drv OP_SYNC req_id ST_BAD_REQUEST [] w
      else let (r, w) = invoke drv (Ctx B_context_sync) w
           in if o_rc r \<noteq> CUDA_SUCCESS then reply drv OP_SYNC req_id ST_CUDA_ERROR [] w
              else do {
                w \<leftarrow> retire_graph_memory drv True w;
                reply drv OP_SYNC req_id ST_OK [] w
              })"

section \<open>Every handler meets the contract\<close>

interpretation alloc: safe_handler handle_alloc OP_ALLOC
  by unfold_locales
    (auto simp: handle_alloc_def run_simps new_allocation_upd split: option.split)

lemma alloc_pitch_native_effect:
  assumes "alloc_pitch_native drv width height w = ((rc, ptr, pitch), w')"
  shows "sess w' = sess w" "sent w' = sent w" "grown (call_in_bounds t) (calls w) (calls w')"
    "balanced drv tr cs tr' (calls w') = balanced drv tr cs tr' (calls w)"
  using assms by (auto simp: alloc_pitch_native_def run_simps split: if_splits)

interpretation alloc_pitched: safe_handler handle_alloc_pitched OP_ALLOC_PITCHED
  by unfold_locales
    (auto simp: handle_alloc_pitched_def Let_def new_allocation_upd wire_simps alloc_pitch_native_effect
      dest: alloc_pitch_native_effect split: option.split prod.split)

interpretation h2d: safe_handler handle_h2d OP_H2D
proof
  fix n and w :: world and p :: bytes and drv req_id
  assume "session_inv n (sess w)" "Suc n < 2 ^ 64" "length p < 2 ^ 32"
  then show "ends (handle_h2d drv req_id p w) (safely_served n drv OP_H2D req_id w)"
    using inline_length [of 24 "corex_protocol_read_u64 (take 8 (drop 16 p))" "length p"]
    by (auto simp: handle_h2d_def run_simps linorder_not_less split: option.split) (metis covers_guard)+
qed

interpretation d2h: safe_handler handle_d2h OP_D2H
  by unfold_locales
    (auto simp: handle_d2h_def d2h_buffer_def run_simps covers_guard covers_guard0 linorder_not_less unat_le_u32max split: option.split)

interpretation d2d: safe_handler handle_d2d OP_D2D
  by unfold_locales
    (auto simp: handle_d2d_def run_simps covers_guard linorder_not_less split: option.split)

interpretation d2d_async: safe_handler handle_d2d_async OP_D2D_ASYNC
  by unfold_locales
    (auto simp: handle_d2d_async_def run_simps covers_guard linorder_not_less split: option.split)

lemma decode_memset_total: "decode_memset_payload s p async \<noteq> None"
  by (auto simp: decode_memset_payload_def Let_def split: option.split)

lemma decode_memset_bounds:
  assumes "decode_memset_payload s p async = Some (Some (i, stream, offset, value, bytes))"
  shows "covers (allocations s) (a_ptr (allocations s ! i) + offset) (unat bytes)"
  using assms
  by (auto simp: decode_memset_payload_def Let_def covers_guard linorder_not_less bind_eq_Some_conv
      split: option.splits if_splits)

interpretation memset: safe_handler handle_memset OP_MEMSET
proof
  fix n and w :: world and p :: bytes and drv req_id
  assume "session_inv n (sess w)"
  then show "ends (handle_memset drv req_id p w) (safely_served n drv OP_MEMSET req_id w)"
    using decode_memset_total [of "sess w" p False]
    by (auto simp: handle_memset_def run_simps decode_memset_bounds split: option.split)
qed

interpretation memset_async: safe_handler handle_memset_async OP_MEMSET_ASYNC
proof
  fix n and w :: world and p :: bytes and drv req_id
  assume "session_inv n (sess w)"
  then show "ends (handle_memset_async drv req_id p w) (safely_served n drv OP_MEMSET_ASYNC req_id w)"
    using decode_memset_total [of "sess w" p True]
    by (auto simp: handle_memset_async_def run_simps decode_memset_bounds split: option.split)
qed

text \<open>A handler that ends with the release of a graph reservation.\<close>

lemma calm_safe_reply:
  assumes "calm n w1 w'" "sent w1 = sent w" "grown (call_in_bounds (allocations (sess w))) (calls w) (calls w1)"
    "balanced drv (transfers (sess w)) (calls w) (transfers (sess w1)) (calls w1)" "no_revival (sess w) (sess w1)"
  shows "safely_served n drv op rid w (fst (send_response drv op rid st [] w')) (snd (send_response drv op rid st [] w'))"
  using calmD [OF assms(1)] assms(2-5) grown_trans no_revival_trans by (intro safe_reply) (auto intro: balanced_grown)

text \<open>What \<open>handle_free\<close> does once the driver has released the memory.\<close>

lemma free_released:
  assumes "session_inv n (sess w)" "find_allocation (sess w) k = Some j" "sess w1 = sess w" "sent w1 = sent w"
  obtains w' where
    "(if a_graph_id (allocations (sess w) ! j) \<noteq> 0 then graph_allocation_freed drv j st async w1
      else Some (put_sess (upd_allocation j (\<lambda>_. zero_allocation)) w1)) = Some w'"
    "session_inv n (sess w')" "sent w' = sent w" "grown quiet_call (calls w1) (calls w')"
    "transfers (sess w') = transfers (sess w)" "no_revival (sess w) (sess w')"
    "alloc_map (sess w') = (alloc_map (sess w))(k := None)"
proof -
  have j: "j < MAX_ALLOCS" "a_used (allocations (sess w) ! j)" "a_id (allocations (sess w) ! j) = k"
    using find_allocation_Some [OF assms(2)] session_inv_alloc_table [OF assms(1)] by auto
  show ?thesis
  proof (cases "a_graph_id (allocations (sess w) ! j) = 0")
    case True
    then show ?thesis
      using that assms erase_allocation_inv alloc_map_erase [OF assms(1) j(1,2)] j(3) by simp
  next
    case False
    have "session_inv n (sess w1)" using assms(1,3) by simp
    from graph_allocation_freed_calm [OF this j(1), of drv st async] False j(2,3) assms(3)
    obtain w2 w' where g: "graph_allocation_freed drv j st async w1 = Some w'" "calm n w2 w'" "calls w2 = calls w1"
      "sent w2 = sent w1" "alloc_map (sess w2) = (alloc_map (sess w))(k := None)" "transfers (sess w2) = transfers (sess w)"
      "no_revival (sess w) (sess w2)"
      by auto
    show ?thesis
      using g False assms(4) no_revival_trans by (intro that [of w']) (auto simp: calm_def)
  qed
qed

lemma quiet_in_bounds:
  assumes "grown quiet_call old cs"
  shows "grown (call_in_bounds t) old cs" "grown (\<lambda>c. \<not> pin_call c) old cs"
  using assms by (auto elim!: grown_mono simp: quiet_call_def call_in_bounds_def pin_call_def split: call.splits)

interpretation free: safe_handler handle_free OP_FREE
proof
  fix n and w :: world and p :: bytes and drv req_id
  assume i: "session_inv n (sess w)" "Suc n < 2 ^ 64" "length p < 2 ^ 32"
  have freed: "ends ((if a_graph_id (allocations (sess w) ! j) \<noteq> 0 then graph_allocation_freed drv j 0 False w1
        else Some (put_sess (upd_allocation j (\<lambda>_. zero_allocation)) w1)) \<bind> (\<lambda>w. reply drv OP_FREE req_id ST_OK [] w))
      (safely_served n drv OP_FREE req_id w)"
    if f: "find_allocation (sess w) k = Some j" "w1 = w\<lparr>calls := [Mem (B_mem_free a), Ctx B_context_sync] @ calls w\<rparr>"
    for j w1 k a
  proof -
    have "sess w1 = sess w" "sent w1 = sent w" using f(2) by auto
    from free_released [OF i(1) f(1) this, of drv 0 False] obtain w' where
      w': "(if a_graph_id (allocations (sess w) ! j) \<noteq> 0 then graph_allocation_freed drv j 0 False w1
        else Some (put_sess (upd_allocation j (\<lambda>_. zero_allocation)) w1)) = Some w'"
      "session_inv n (sess w')" "sent w' = sent w" "grown quiet_call (calls w1) (calls w')"
      "transfers (sess w') = transfers (sess w)" "no_revival (sess w) (sess w')" .
    have "grown (call_in_bounds (allocations (sess w))) (calls w) (calls w1)"
      "balanced drv (transfers (sess w)) (calls w) (transfers (sess w)) (calls w1)"
      using f(2) by (simp_all add: call_in_bounds_def pin_call_def)
    moreover from this have "grown (call_in_bounds (allocations (sess w))) (calls w) (calls w')"
      using quiet_in_bounds [OF w'(4)] grown_trans by blast
    ultimately show ?thesis
      using w'(2,3,5,6) quiet_in_bounds(2) [OF w'(4)] unfolding w'(1) by (auto intro: balanced_grown)
  qed
  show "ends (handle_free drv req_id p w) (safely_served n drv OP_FREE req_id w)"
    using i freed
    by (auto simp: handle_free_def lifetime_context_barrier_def run_simps split: option.split)
qed

interpretation sync: safe_handler handle_sync OP_SYNC
proof
  fix n and w :: world and p :: bytes and drv req_id
  assume i: "session_inv n (sess w)" "Suc n < 2 ^ 64" "length p < 2 ^ 32"
  let ?w1 = "w\<lparr>calls := Ctx B_context_sync # calls w\<rparr>"
  obtain w' where "retire_graph_memory drv True ?w1 = Some w'" "calm n ?w1 w'"
    using retire_graph_memory_calm [of n ?w1 drv True] i(1) by auto
  then show "ends (handle_sync drv req_id p w) (safely_served n drv OP_SYNC req_id w)"
    using i calm_safe_reply [of n ?w1 w' w] by (auto simp: handle_sync_def run_simps)
qed

section \<open>Refinement of the allocation store\<close>

text \<open>
  C15. An allocation request refines the insertion of a fresh key into the map of allocations: it adds
  exactly the identifier it returns, naming the memory the driver returned, when the request is well
  formed, a slot is free and the driver succeeds; on every other path the map is unchanged.
\<close>

theorem alloc_refines:
  assumes "session_inv n (sess w)" "Suc n < 2 ^ 64"
  shows "ends (handle_alloc drv req_id p w) (\<lambda>rc w'.
    let sz = corex_protocol_read_u64 p; r = drv (calls w) (Mem (B_mem_alloc sz)); k = next_alloc_id (sess w)
    in alloc_map (sess w) k = None \<and>
       (if length p = 8 \<and> sz \<noteq> 0 \<and> free_slot a_used (allocations (sess w)) \<noteq> None \<and> o_rc r = CUDA_SUCCESS
        then alloc_map (sess w') = (alloc_map (sess w))(k \<mapsto> (o_val r, sz)) \<and>
             (rc = 0 \<longrightarrow> sent w' = sent w @ corex_protocol_encode_response_header OP_ALLOC req_id ST_OK 8 @ be64 k)
        else alloc_map (sess w') = alloc_map (sess w)))"
proof (cases "new_allocation_slot (sess w)")
  case None
  then have "free_slot a_used (allocations (sess w)) = None"
    by (auto simp: new_allocation_slot_def new_slot_def split: option.splits)
  moreover have "alloc_map (sess w) (next_alloc_id (sess w)) = None"
    using alloc_tab.map_new_fresh session_inv_alloc_table [OF assms(1)] by (simp add: alloc_map_slot_map)
  ultimately show ?thesis by (auto simp: handle_alloc_def None Let_def)
next
  case (Some x)
  obtain i s where x: "x = (i, s)" by fastforce
  have slot: "new_allocation_slot (sess w) = Some (i, s)" using Some x by simp
  have free: "free_slot a_used (allocations (sess w)) \<noteq> None"
    using slot by (auto simp: new_allocation_slot_def new_slot_def split: option.splits)
  have i: "i < length (allocations (sess w))"
    "s = (sess w)\<lparr>allocations := (allocations (sess w))[i := fresh_allocation (next_alloc_id (sess w))],
           next_alloc_id := next_alloc_id (sess w) + 1\<rparr>"
    using new_allocation_slot_inv [OF assms slot] session_inv_alloc_table [OF assms(1)] by auto
  let ?f = "\<lambda>y a. a\<lparr>a_ptr := y, a_size := corex_protocol_read_u64 p\<rparr>"
  have m: "alloc_map (upd_allocation i (?f y) s) = (alloc_map (sess w))(next_alloc_id (sess w) \<mapsto> (y, corex_protocol_read_u64 p))"
    "alloc_map (upd_allocation i (\<lambda>_. zero_allocation) s) = alloc_map (sess w)"
    "alloc_map (sess w) (next_alloc_id (sess w)) = None" for y
    using alloc_map_new [OF assms slot, of "?f y"] by (auto simp: fresh_allocation_def zero_allocation_def visible_def)
  have "a_id (allocations (upd_allocation i (?f y) s) ! i) = next_alloc_id (sess w)" for y
    using i by (simp add: upd_allocation_def fresh_allocation_def)
  then show ?thesis
    using free m by (auto simp: handle_alloc_def slot Let_def invoke_def le_bytes64_to_be64 send_response_sent)
qed

theorem alloc_refines_witness:
  "session_inv 1 (sess init_world) \<and>
   ends (handle_alloc (ok_driver 4096) 7 (be64 16) init_world) (\<lambda>rc w'. alloc_map (sess w') = [1 \<mapsto> (4096, 16)])"
  using alloc_refines [OF init_world_inv, of "ok_driver 4096" 7 "be64 16"] init_world_inv read_u64_be [of 16 "[]"]
  by (auto elim!: ends_mono simp: Let_def)

text \<open>
  C16. A free request refines the deletion of its key: the identifier stops naming memory exactly when
  it named a visible allocation that is not a module alias, the context barrier succeeded and the
  driver released the memory; on every other path the map is unchanged. Graph reservations and plain
  allocations alike.
\<close>

theorem free_refines:
  assumes "session_inv n (sess w)"
  shows "ends (handle_free drv req_id p w) (\<lambda>rc w'.
    let k = corex_protocol_read_u64 p
    in case find_allocation (sess w) k of
         None \<Rightarrow> alloc_map (sess w') = alloc_map (sess w) \<and> alloc_map (sess w) k = None
       | Some i \<Rightarrow> alloc_map (sess w') =
           (if length p = 8 \<and> a_parent_module_id (allocations (sess w) ! i) = 0 \<and>
               o_rc (drv (calls w) (Ctx B_context_sync)) = CUDA_SUCCESS \<and>
               o_rc (drv (Ctx B_context_sync # calls w) (Mem (B_mem_free (a_ptr (allocations (sess w) ! i))))) = CUDA_SUCCESS
            then (alloc_map (sess w))(k := None) else alloc_map (sess w)))"
proof (cases "length p = 8")
  case False
  then show ?thesis by (auto simp: handle_free_def alloc_map_def Let_def split: option.split)
next
  case len: True
  let ?k = "corex_protocol_read_u64 p"
  show ?thesis
  proof (cases "find_allocation (sess w) ?k")
    case None
    then show ?thesis using len by (simp add: handle_free_def alloc_map_def Let_def)
  next
    case (Some i)
    let ?w1 = "w\<lparr>calls := Mem (B_mem_free (a_ptr (allocations (sess w) ! i))) # Ctx B_context_sync # calls w\<rparr>"
    have "sess ?w1 = sess w" "sent ?w1 = sent w" by auto
    from free_released [OF assms Some this, of drv 0 False] obtain w' where
      "(if a_graph_id (allocations (sess w) ! i) \<noteq> 0 then graph_allocation_freed drv i 0 False ?w1
        else Some (put_sess (upd_allocation i (\<lambda>_. zero_allocation)) ?w1)) = Some w'"
      "alloc_map (sess w') = (alloc_map (sess w))(?k := None)" by metis
    then show ?thesis
      using len by (simp add: handle_free_def lifetime_context_barrier_def Some Let_def invoke_def split del: if_split)
        (auto split: if_splits)
  qed
qed

theorem free_refines_witness:
  "session_inv 2 (sess alloc_world) \<and>
   ends (handle_free (ok_driver 0) 7 (be64 1) alloc_world) (\<lambda>rc w'. alloc_map (sess w') = Map.empty)"
  using free_refines [OF alloc_world_inv, of "ok_driver 0" 7 "be64 1"] alloc_world_inv read_u64_be [of 1 "[]"]
  by (auto elim!: ends_mono simp: alloc_world_map fun_eq_iff)

section \<open>Lifetime\<close>

text \<open>
  C14. Device memory is released only behind a context synchronisation that succeeded: in every run of
  a free request, whatever the driver answers, the call right before the release of memory is the
  barrier and it returned success.
\<close>

theorem free_fenced:
  assumes "session_inv n (sess w)"
  shows "ends (handle_free drv req_id p w) (\<lambda>rc w'. fences drv (calls w) (calls w'))"
proof -
  have quiet: "grown (\<lambda>c. barrier_for c = None) old cs" if "grown quiet_call old cs" for old cs
    using that by (elim grown_mono) (auto simp: quiet_call_def barrier_for_def split: call.splits stream_call.splits)
  have freed: "ends ((if a_graph_id (allocations (sess w) ! j) \<noteq> 0 then graph_allocation_freed drv j 0 False w1
        else Some (put_sess (upd_allocation j (\<lambda>_. zero_allocation)) w1)) \<bind> (\<lambda>w. reply drv OP_FREE req_id ST_OK [] w))
      (\<lambda>rc w'. fences drv (calls w) (calls w'))"
    if f: "find_allocation (sess w) k = Some j" "w1 = w\<lparr>calls := Mem (B_mem_free a) # Ctx B_context_sync # calls w\<rparr>"
      "o_rc (drv (calls w) (Ctx B_context_sync)) = CUDA_SUCCESS"
    for j w1 k a
  proof -
    have "sess w1 = sess w" "sent w1 = sent w" using f(2) by auto
    from free_released [OF assms f(1) this] obtain w' where
      w': "(if a_graph_id (allocations (sess w) ! j) \<noteq> 0 then graph_allocation_freed drv j 0 False w1
        else Some (put_sess (upd_allocation j (\<lambda>_. zero_allocation)) w1)) = Some w'"
      "grown quiet_call (calls w1) (calls w')" by metis
    have "fences drv (calls w) (calls w1)" using f(2,3) by (simp add: barrier_for_def)
    from fences_grown [OF this quiet [OF w'(2)]] show ?thesis unfolding w'(1) by auto
  qed
  show ?thesis
    using freed
    by (auto simp: handle_free_def lifetime_context_barrier_def Let_def invoke_def barrier_for_def
        split: option.split)
qed

theorem free_fenced_witness:
  "ends (handle_free (fail_driver (\<lambda>c. c = Ctx B_context_sync)) 7 (be64 1) alloc_world)
     (\<lambda>rc w'. fences (fail_driver (\<lambda>c. c = Ctx B_context_sync)) [] (calls w'))"
  using free_fenced [OF alloc_world_inv] by simp

section \<open>Data\<close>

text \<open>Reading and overwriting a range of bytes; addresses wrap around like the words they are.\<close>

definition dev_read :: "(u64 \<Rightarrow> u8) \<Rightarrow> u64 \<Rightarrow> nat \<Rightarrow> bytes" where
  "dev_read m a n = map (\<lambda>k. m (a + of_nat k)) [0..<n]"

definition dev_write :: "u64 \<Rightarrow> bytes \<Rightarrow> (u64 \<Rightarrow> u8) \<Rightarrow> u64 \<Rightarrow> u8" where
  "dev_write a data m x = (if unat (x - a) < length data then data ! unat (x - a) else m x)"

lemma length_dev_read [simp]: "length (dev_read m a n) = n"
  by (simp add: dev_read_def)

lemma dev_read_write:
  assumes "length data < 2 ^ 64" "skip + n \<le> length data"
  shows "dev_read (dev_write a data m) (a + of_nat skip) n = take n (drop skip data)"
proof (rule nth_equalityI)
  fix k assume "k < length (dev_read (dev_write a data m) (a + of_nat skip) n)"
  then have k: "k < n" "skip + k < length data" using assms(2) by simp_all
  have "unat (of_nat (skip + k) :: u64) = skip + k" unfolding unat_of_nat using k assms(1) by (intro mod_less) simp
  then have "unat (a + of_nat skip + of_nat k - a) = skip + k" by (simp add: add.assoc)
  then show "dev_read (dev_write a data m) (a + of_nat skip) n ! k = take n (drop skip data) ! k"
    using k by (simp add: dev_read_def dev_write_def)
qed (use assms in simp)

text \<open>
  No work is in flight on the device: since the start or since the last context synchronisation that
  succeeded there were only synchronous copies between host and device and calls of the operating system
  that do not involve the device. Kernels, streams, fills and copies inside the device end this state.
\<close>

definition host_call :: "call \<Rightarrow> bool" where
  "host_call c = (case c of OS x \<Rightarrow> (case x of OS_send _ \<Rightarrow> True | OS_malloc _ \<Rightarrow> True | _ \<Rightarrow> False) | _ \<Rightarrow> False)"

definition plain_copy :: "call \<Rightarrow> bool" where
  "plain_copy c = (case c of Copy x \<Rightarrow> (case x of B_copy_h2d _ _ \<Rightarrow> True | B_copy_d2h _ _ \<Rightarrow> True | _ \<Rightarrow> False) | _ \<Rightarrow> False)"

fun settled :: "driver \<Rightarrow> call list \<Rightarrow> bool" where
  "settled drv [] = True"
| "settled drv (c # h) = (c = Ctx B_context_sync \<and> o_rc (drv h c) = CUDA_SUCCESS \<or> (host_call c \<or> plain_copy c) \<and> settled drv h)"

text \<open>
  The documented behaviour of the synchronous copies while nothing is in flight, for some content of the
  device memory after every history: a download that succeeds returns the content, an upload that
  succeeds overwrites its range and nothing else, and calls that do not involve the device keep the
  content. Nothing is said about histories with work in flight or about the content of fresh memory.
\<close>

definition stores_data :: "driver \<Rightarrow> (call list \<Rightarrow> u64 \<Rightarrow> u8) \<Rightarrow> bool" where
  "stores_data drv content \<longleftrightarrow> (\<forall>h. settled drv h \<longrightarrow>
     (\<forall>a n. o_rc (drv h (Copy (B_copy_d2h a n))) = CUDA_SUCCESS \<longrightarrow>
        o_data (drv h (Copy (B_copy_d2h a n))) = dev_read (content h) a (unat n)) \<and>
     (\<forall>a data. o_rc (drv h (Copy (B_copy_h2d a data))) = CUDA_SUCCESS \<longrightarrow>
        content (Copy (B_copy_h2d a data) # h) = dev_write a data (content h)) \<and>
     (\<forall>c. host_call c \<longrightarrow> content (c # h) = content h))"

lemma stores_data_host_calls:
  assumes "stores_data drv content" "settled drv h" "\<forall>c \<in> set cs. host_call c"
  shows "settled drv (cs @ h) \<and> content (cs @ h) = content h"
  using assms(3)
proof (induction cs)
  case (Cons c cs)
  then show ?case using assms(1) by (simp add: stores_data_def)
qed (simp add: assms(2))

lemma send_response_calls:
  "\<exists>sends. calls (snd (send_response drv op rid st pl w)) = sends @ calls w \<and> (\<forall>c \<in> set sends. \<exists>b. c = OS (OS_send b))"
  using grown_send_response [of "\<lambda>c. \<exists>b. c = OS (OS_send b)" "calls w" w drv op rid st pl] by (simp add: grown_def)

lemma stores_data_reply:
  assumes "stores_data drv content" "settled drv (calls w)"
  shows "settled drv (calls (snd (send_response drv op rid st pl w)))"
    "content (calls (snd (send_response drv op rid st pl w))) = content (calls w)"
proof -
  obtain sends where s: "calls (snd (send_response drv op rid st pl w)) = sends @ calls w" "\<forall>c \<in> set sends. \<exists>b. c = OS (OS_send b)"
    using send_response_calls by blast
  then have "\<forall>c \<in> set sends. host_call c" by (auto simp: host_call_def)
  from stores_data_host_calls [OF assms this] show
    "settled drv (calls (snd (send_response drv op rid st pl w)))"
    "content (calls (snd (send_response drv op rid st pl w))) = content (calls w)" by (simp_all add: s(1))
qed

text \<open>What a download answers: the content of its range, or an error the driver or the allocator is to blame for.\<close>

definition download_answer :: "driver \<Rightarrow> u32 \<Rightarrow> u64 \<Rightarrow> nat \<Rightarrow> bytes \<Rightarrow> bytes \<Rightarrow> bool" where
  "download_answer drv req_id addr n data b \<longleftrightarrow>
     b = corex_protocol_encode_response_header OP_D2H req_id ST_OK (of_nat n) @ data \<or>
     (\<exists>status h. status \<noteq> ST_OK \<and> b = corex_protocol_encode_response_header OP_D2H req_id status 0 \<and>
        (o_ret (drv h (OS (OS_malloc (of_nat n)))) \<noteq> 0 \<or> o_rc (drv h (Copy (B_copy_d2h addr (of_nat n)))) \<noteq> CUDA_SUCCESS))"

lemma download_answerI:
  "download_answer drv req_id addr n data (corex_protocol_encode_response_header OP_D2H req_id ST_OK (of_nat n) @ data)"
  "status \<noteq> ST_OK \<Longrightarrow>
     o_ret (drv h (OS (OS_malloc (of_nat n)))) \<noteq> 0 \<or> o_rc (drv h (Copy (B_copy_d2h addr (of_nat n)))) \<noteq> CUDA_SUCCESS \<Longrightarrow>
   download_answer drv req_id addr n data (corex_protocol_encode_response_header OP_D2H req_id status 0)"
  by (auto simp: download_answer_def)

lemma d2h_returns_content:
  assumes "stores_data drv content" "settled drv (calls w)"
    "find_allocation (sess w) k = Some i" "unat off + unat m \<le> unat (a_size (allocations (sess w) ! i))" "m \<le> UINT32_MAX64"
  shows "ends (handle_d2h drv req_id (be64 k @ be64 off @ be64 m) w) (\<lambda>rc w'. rc = 0 \<longrightarrow> (\<exists>b. sent w' = sent w @ b \<and>
    download_answer drv req_id (a_ptr (allocations (sess w) ! i) + off) (unat m)
      (dev_read (content (calls w)) (a_ptr (allocations (sess w) ! i) + off) (unat m)) b))"
proof -
  let ?a = "allocations (sess w) ! i"
  let ?c = "Copy (B_copy_d2h (a_ptr ?a + off) m)"
  have g: "\<not> a_size ?a < off" "\<not> a_size ?a - off < m" using assms(4) word_range_ok_iff by blast+
  define w1 where "w1 = snd (d2h_buffer drv m w)"
  have w1: "sess w1 = sess w" "sent w1 = sent w" "settled drv (calls w1)" "content (calls w1) = content (calls w)"
    using assms(1,2) stores_data_host_calls [OF assms(1,2), of "[OS (OS_malloc m)]"]
    by (auto simp: w1_def d2h_buffer_def invoke_def host_call_def)
  have d: "o_data (drv (calls w1) ?c) = dev_read (content (calls w)) (a_ptr ?a + off) (unat m)"
    if "o_rc (drv (calls w1) ?c) = CUDA_SUCCESS"
    using assms(1) w1(3,4) that by (simp add: stores_data_def)
  have b: "\<not> fst (d2h_buffer drv m w) \<Longrightarrow> \<exists>h. o_ret (drv h (OS (OS_malloc m))) \<noteq> 0"
    by (auto simp: d2h_buffer_def invoke_def split: if_splits)
  have "handle_d2h drv req_id (be64 k @ be64 off @ be64 m) w =
      (if \<not> fst (d2h_buffer drv m w) then reply drv OP_D2H req_id ST_INTERNAL [] w1
       else let w2 = snd (invoke drv ?c w1)
            in if o_rc (drv (calls w1) ?c) \<noteq> CUDA_SUCCESS then reply drv OP_D2H req_id ST_CUDA_ERROR [] w2
               else reply drv OP_D2H req_id ST_OK (fit (unat m) (o_data (drv (calls w1) ?c))) w2)"
    using assms(3,5) g by (auto simp: handle_d2h_def Let_def invoke_def w1_def linorder_not_less case_prod_beta)
  moreover have "download_answer drv req_id (a_ptr ?a + off) (unat m) x (corex_protocol_encode_response_header OP_D2H req_id status 0)"
    if "status \<noteq> ST_OK" "\<not> fst (d2h_buffer drv m w) \<or> o_rc (drv (calls w1) ?c) \<noteq> CUDA_SUCCESS" for status x
    using that b download_answerI(2) [of status drv _ "unat m" "a_ptr ?a + off"] by auto
  moreover note download_answerI(1) [of drv req_id "a_ptr ?a + off" "unat m"]
  ultimately show ?thesis
    using d w1(2) by (simp add: Let_def invoke_def send_response_sent fit_id)
qed

text \<open>
  C20. What a client uploads it can download: while nothing is in flight on the device, an upload into
  a range of an allocation that the driver accepts, followed by the download of any part of that range,
  is answered with exactly those bytes; the only other answer is an error status, and then the copy or
  the allocation of the reply buffer failed. The hypothesis on the driver is the documented behaviour
  of its synchronous copies.
\<close>

theorem h2d_d2h_roundtrip:
  assumes "stores_data drv content" "settled drv (calls w)"
    "find_allocation (sess w) k = Some i" "unat off + length data \<le> unat (a_size (allocations (sess w) ! i))"
    "length data + 24 < 2 ^ 32" "skip + n \<le> length data"
    "o_rc (drv (calls w) (Copy (B_copy_h2d (a_ptr (allocations (sess w) ! i) + off) data))) = CUDA_SUCCESS"
  shows "ends (handle_h2d drv r1 (be64 k @ be64 off @ be64 (of_nat (length data)) @ data) w) (\<lambda>_ w1.
    ends (handle_d2h drv r2 (be64 k @ be64 (off + of_nat skip) @ be64 (of_nat n)) w1) (\<lambda>rc w2. rc = 0 \<longrightarrow>
      (\<exists>b. sent w2 = sent w1 @ b \<and>
        download_answer drv r2 (a_ptr (allocations (sess w) ! i) + off + of_nat skip) n (take n (drop skip data)) b)))"
proof -
  let ?a = "allocations (sess w) ! i" and ?m = "of_nat (length data) :: u64"
  let ?c = "Copy (B_copy_h2d (a_ptr ?a + off) data)"
  have small: "unat (of_nat j :: u64) = j" if "j \<le> length data" for j using that assms(5) by (subst unat_of_nat) simp
  have le: "\<not> UINT32_MAX64 < ?m" "of_nat n \<le> UINT32_MAX64"
    using assms(5,6) by (simp_all add: word_le_nat_alt word_less_nat_alt small)
  have g: "\<not> a_size ?a < off" "\<not> a_size ?a - off < ?m"
    using assms(4) small [of "length data"] word_range_ok_iff [of "a_size ?a" off ?m] by auto
  have "unat off + skip < 2 ^ LENGTH(64)" using assms(4,6) unsigned_less [of "a_size ?a", where 'a = nat] by linarith
  then have off: "unat (off + of_nat skip) = unat off + skip" using assms(6) by (subst unat_add_no_wrap) (simp_all add: small)
  let ?w1 = "snd (invoke drv ?c w)"
  have h2d: "handle_h2d drv r1 (be64 k @ be64 off @ be64 ?m @ data) w = reply drv OP_H2D r1 ST_OK [] ?w1"
    using assms(3,5,7) g le(1) small [of "length data"] by (simp add: handle_h2d_def Let_def invoke_def)
  have s: "settled drv (calls ?w1)" "content (calls ?w1) = dev_write (a_ptr ?a + off) data (content (calls w))"
    using assms(1,2,7) by (simp_all add: stores_data_def plain_copy_def)
  let ?w2 = "snd (send_response drv OP_H2D r1 ST_OK [] ?w1)"
  note r = stores_data_reply [OF assms(1) s(1), of OP_H2D r1 ST_OK "[]"]
  have "dev_read (content (calls ?w2)) (a_ptr ?a + (off + of_nat skip)) n = take n (drop skip data)"
    unfolding r(2) s(2) using dev_read_write [of data skip n "a_ptr ?a + off"] assms(5,6) by (simp add: add.assoc)
  then show ?thesis
    unfolding h2d using d2h_returns_content [OF assms(1) r(1), of k i "off + of_nat skip" "of_nat n" r2] assms(3,4,6) le(2) off
    by (simp add: small add.assoc)
qed

text \<open>A driver that keeps the uploaded bytes, on a device whose memory was filled with 90 before.\<close>

fun uploaded :: "call list \<Rightarrow> u64 \<Rightarrow> u8" where
  "uploaded [] = (\<lambda>_. 90)"
| "uploaded (c # h) = (case c of Copy (B_copy_h2d dst data) \<Rightarrow> dev_write dst data (uploaded h) | _ \<Rightarrow> uploaded h)"

definition memory_driver :: driver where
  "memory_driver h c = \<lparr>o_rc = CUDA_SUCCESS, o_val = 0, o_val2 = 0,
     o_data = (case c of Copy (B_copy_d2h a n) \<Rightarrow> dev_read (uploaded h) a (unat n) | _ \<Rightarrow> []), o_ret = 0, o_vals = []\<rparr>"

theorem h2d_d2h_roundtrip_witness:
  "stores_data memory_driver uploaded \<and>
   ends (handle_h2d memory_driver 3 (be64 1 @ be64 8 @ be64 3 @ [171, 205, 239]) alloc_world) (\<lambda>_ w1.
     ends (handle_d2h memory_driver 4 (be64 1 @ be64 9 @ be64 2) w1) (\<lambda>rc w2. rc = 0 \<longrightarrow>
       sent w2 = sent w1 @ corex_protocol_encode_response_header OP_D2H 4 ST_OK 2 @ [205, 239]))"
proof -
  have "stores_data memory_driver uploaded"
    by (auto simp: stores_data_def memory_driver_def host_call_def split: call.splits)
  then show ?thesis
    using h2d_d2h_roundtrip [of memory_driver uploaded alloc_world 1 0 8 "[171, 205, 239]" 1 2 3 4]
    by (auto simp: download_answer_def memory_driver_def elim!: ends_mono)
qed

text \<open>
  The device addresses of a copy inside the device that may be performed: both identifiers name memory, both
  ranges lie inside it, read over the naturals, and inside one allocation they have no byte in common.
\<close>

definition d2d_addresses :: "ServerSession \<Rightarrow> u64 \<Rightarrow> u64 \<Rightarrow> u64 \<Rightarrow> u64 \<Rightarrow> u64 \<Rightarrow> (u64 \<times> u64) option" where
  "d2d_addresses s did doff sid soff m =
     (case (alloc_map s did, alloc_map s sid) of
        (Some (dst, dst_size), Some (src, src_size)) \<Rightarrow>
          if unat doff + unat m \<le> unat dst_size \<and> unat soff + unat m \<le> unat src_size \<and>
             (did = sid \<longrightarrow> {unat doff..<unat doff + unat m} \<inter> {unat soff..<unat soff + unat m} = {})
          then Some (dst + doff, src + soff) else None
      | _ \<Rightarrow> None)"

text \<open>A field of a payload.\<close>

definition u64_at :: "bytes \<Rightarrow> nat \<Rightarrow> u64" where
  "u64_at p off = corex_protocol_read_u64 (take 8 (drop off p))"

text \<open>A request makes exactly the given call, or none, and is answered with success exactly when that call succeeded.\<close>

definition performs :: "driver \<Rightarrow> u32 \<Rightarrow> u32 \<Rightarrow> call option \<Rightarrow> world \<Rightarrow> int \<Rightarrow> world \<Rightarrow> bool" where
  "performs drv opcode req_id c w rc w' \<longleftrightarrow> sess w' = sess w \<and>
     (\<exists>sends status. (\<forall>x \<in> set sends. \<exists>b. x = OS (OS_send b)) \<and>
        calls w' = sends @ (case c of None \<Rightarrow> [] | Some c \<Rightarrow> [c]) @ calls w \<and>
        (rc = 0 \<longrightarrow> sent w' = sent w @ corex_protocol_encode_response_header opcode req_id status 0) \<and>
        (status = ST_OK \<longleftrightarrow> (\<exists>x. c = Some x \<and> o_rc (drv (calls w) x) = CUDA_SUCCESS)))"

lemma performs_reply:
  "status \<noteq> ST_OK \<Longrightarrow> ends (reply drv opcode req_id status [] w) (performs drv opcode req_id None w)"
  "(status = ST_OK) = (o_rc (drv (calls w) c) = CUDA_SUCCESS) \<Longrightarrow>
   ends (reply drv opcode req_id status [] (w\<lparr>calls := c # calls w\<rparr>)) (performs drv opcode req_id (Some c) w)"
proof -
  have "\<exists>sends. (\<forall>x \<in> set sends. \<exists>b. x = OS (OS_send b)) \<and>
    calls (snd (send_response drv opcode req_id status [] v)) = sends @ calls v" for v
    using send_response_calls by blast
  note e = this [of w] this [of "w\<lparr>calls := c # calls w\<rparr>"]
  show "status \<noteq> ST_OK \<Longrightarrow> ends (reply drv opcode req_id status [] w) (performs drv opcode req_id None w)"
    using e(1) send_response_sent [of drv opcode req_id status "[]" w] by (fastforce simp: performs_def)
  show "(status = ST_OK) = (o_rc (drv (calls w) c) = CUDA_SUCCESS) \<Longrightarrow>
   ends (reply drv opcode req_id status [] (w\<lparr>calls := c # calls w\<rparr>)) (performs drv opcode req_id (Some c) w)"
    using e(2) send_response_sent [of drv opcode req_id status "[]" "w\<lparr>calls := c # calls w\<rparr>"] by (fastforce simp: performs_def)
qed

lemma disjoint_words:
  fixes doff soff m :: u64
  assumes "unat doff + unat m \<le> unat (x :: u64)" "unat soff + unat m \<le> unat (y :: u64)"
  shows "(doff < soff + m \<and> soff < doff + m) \<longleftrightarrow> {unat doff..<unat doff + unat m} \<inter> {unat soff..<unat soff + unat m} \<noteq> {}"
proof -
  have u: "unat (doff + m) = unat doff + unat m" "unat (soff + m) = unat soff + unat m"
    using assms by (auto intro!: unat_add_no_wrap intro: le_less_trans)
  have "{p..<p + l} \<inter> {q..<q + l} \<noteq> {} \<longleftrightarrow> p < q + l \<and> q < p + l" for p q l :: nat
  proof
    assume "p < q + l \<and> q < p + l"
    then have "max p q \<in> {p..<p + l} \<inter> {q..<q + l}" by auto
    then show "{p..<p + l} \<inter> {q..<q + l} \<noteq> {}" by blast
  qed auto
  then show ?thesis by (simp add: word_less_nat_alt u)
qed

text \<open>The checks of both handlers decide exactly this.\<close>

lemma d2d_addresses_checks:
  assumes "find_allocation s did = Some d" "find_allocation s sid = Some e"
  shows "d2d_addresses s did doff sid soff m =
    (let dst = allocations s ! d; src = allocations s ! e
     in if doff > a_size dst \<or> soff > a_size src \<or> m > a_size dst - doff \<or> m > a_size src - soff then None
        else if d = e \<and> doff < soff + m \<and> soff < doff + m then None else Some (a_ptr dst + doff, a_ptr src + soff))"
proof -
  let ?dst = "allocations s ! d" and ?src = "allocations s ! e"
  have same: "did = sid \<longleftrightarrow> d = e" using find_allocation_Some [OF assms(1)] find_allocation_Some [OF assms(2)] assms by (metis option.inject)
  have in_range: "\<not> (doff > a_size ?dst \<or> soff > a_size ?src \<or> m > a_size ?dst - doff \<or> m > a_size ?src - soff) \<longleftrightarrow>
      unat doff + unat m \<le> unat (a_size ?dst) \<and> unat soff + unat m \<le> unat (a_size ?src)"
    using word_range_ok_iff by blast
  show ?thesis
  proof (cases "unat doff + unat m \<le> unat (a_size ?dst) \<and> unat soff + unat m \<le> unat (a_size ?src)")
    case True
    then show ?thesis
      unfolding Let_def if_not_P [OF in_range [THEN iffD2, OF True]] using disjoint_words [of doff m "a_size ?dst" soff "a_size ?src"]
      by (simp add: d2d_addresses_def alloc_map_def assms same)
  next
    case False
    then show ?thesis using in_range by (auto simp: d2d_addresses_def alloc_map_def assms Let_def)
  qed
qed

lemma d2d_addresses_missing:
  "find_allocation s did = None \<or> find_allocation s sid = None \<Longrightarrow> d2d_addresses s did doff sid soff m = None"
  by (auto simp: d2d_addresses_def alloc_map_def split: option.split)

text \<open>
  C21. A copy inside the device is performed exactly when it may be: the handlers, synchronous and on a stream,
  make the copy of the requested ranges and no other call if the payload has its length, both identifiers name
  memory, both ranges lie inside it, the ranges have no byte in common when the identifiers are the same, and the
  stream exists; otherwise they make no call of the driver. The answer is success exactly when the copy was made
  and the driver accepted it. The sums of the overlap check in the code do not wrap.
\<close>

theorem d2d_exact:
  "ends (handle_d2d drv req_id p w) (performs drv OP_D2D req_id
     (if length p \<noteq> 40 then None
      else map_option (\<lambda>(dst, src). Copy (B_copy_d2d dst src (u64_at p 32)))
             (d2d_addresses (sess w) (u64_at p 0) (u64_at p 8) (u64_at p 16) (u64_at p 24) (u64_at p 32))) w) \<and>
   ends (handle_d2d_async drv req_id p w) (performs drv OP_D2D_ASYNC req_id
     (if length p \<noteq> 48 then None
      else case resolve_stream_id (sess w) (u64_at p 40) of
          None \<Rightarrow> None
        | Some stream \<Rightarrow> map_option (\<lambda>(dst, src). Copy (B_copy_d2d_async dst src (u64_at p 32) stream))
             (d2d_addresses (sess w) (u64_at p 0) (u64_at p 8) (u64_at p 16) (u64_at p 24) (u64_at p 32))) w)"
proof (cases "find_allocation (sess w) (u64_at p 0) = None \<or> find_allocation (sess w) (u64_at p 16) = None")
  case True
  then show ?thesis
    using performs_reply by (auto simp: handle_d2d_def handle_d2d_async_def d2d_addresses_missing u64_at_def split: option.split)
next
  case False
  then obtain d e where f: "find_allocation (sess w) (u64_at p 0) = Some d" "find_allocation (sess w) (u64_at p 16) = Some e" by auto
  show ?thesis
    unfolding d2d_addresses_checks [OF f] using f performs_reply
    by (auto simp: handle_d2d_def handle_d2d_async_def Let_def invoke_def u64_at_def split: option.split)
qed

end
