(* ===== verification/Transfers.thy ===== *)
theory Transfers
  imports Lifetime Samples
begin

text \<open>
  The asynchronous transfers of \<^verbatim>\<open>server/runtime_server.c\<close>: a submit request copies through a pinned
  staging buffer owned by a transfer entry, the entry is queried, and waiting for it consumes it. The
  error paths release what was obtained so far. \<open>staging\<close> is the invariant between the claim of an
  entry and the reply; its lemmas carry every submit handler of this theory and of the layout theory.
\<close>

abbreviation (input) TRANSFER_KIND_H2D :: u32 where "TRANSFER_KIND_H2D \<equiv> 1"
abbreviation (input) TRANSFER_KIND_D2H :: u32 where "TRANSFER_KIND_D2H \<equiv> 2"
abbreviation (input) TRANSFER_KIND_H2D_2D :: u32 where "TRANSFER_KIND_H2D_2D \<equiv> 3"
abbreviation (input) TRANSFER_KIND_D2H_2D :: u32 where "TRANSFER_KIND_D2H_2D \<equiv> 4"
abbreviation (input) STREAM_STATE_READY :: u32 where "STREAM_STATE_READY \<equiv> 0"
abbreviation (input) STREAM_STATE_PENDING :: u32 where "STREAM_STATE_PENDING \<equiv> 1"
abbreviation (input) CU_EVENT_DEFAULT :: u32 where "CU_EVENT_DEFAULT \<equiv> 0"

section \<open>Operations\<close>

definition release_transfer :: "driver \<Rightarrow> nat \<Rightarrow> world \<Rightarrow> world" where
  "release_transfer drv i w =
     (let e = transfers (sess w) ! i;
          w = (if t_done_event e \<noteq> 0 then snd (invoke drv (Event (B_event_destroy (t_done_event e))) w) else w);
          w = (if t_host_buffer e \<noteq> 0 then snd (invoke drv (Mem (B_host_free (t_host_buffer e))) w) else w)
      in put_sess (upd_transfer i (\<lambda>_. zero_transfer)) w)"

text \<open>The fields of a claimed entry.\<close>

definition fill_transfer :: "u32 \<Rightarrow> u64 \<Rightarrow> u64 \<Rightarrow> u64 \<Rightarrow> TransferEntry \<Rightarrow> TransferEntry" where
  "fill_transfer kind allocation_id stream_id bytes e =
     e\<lparr>t_kind := kind, t_allocation_id := allocation_id, t_stream_id := stream_id, t_bytes := bytes\<rparr>"

text \<open>
  Two steps every submit handler takes, each with the rest of the handler as a continuation: obtain
  the pinned buffer, create the completion event. A failure releases the entry and is answered.
\<close>

definition with_host_buffer ::
  "driver \<Rightarrow> u32 \<Rightarrow> u32 \<Rightarrow> nat \<Rightarrow> u64 \<Rightarrow> (u64 \<Rightarrow> world \<Rightarrow> (int \<times> world) option) \<Rightarrow> world \<Rightarrow> (int \<times> world) option" where
  "with_host_buffer drv opcode req_id i bytes k w =
     (let (r, w) = invoke drv (Mem (B_host_alloc bytes)) w
      in if o_rc r \<noteq> CUDA_SUCCESS then reply drv opcode req_id ST_CUDA_ERROR [] (release_transfer drv i w)
         else k (o_val r) (put_sess (upd_transfer i (\<lambda>e. e\<lparr>t_host_buffer := o_val r\<rparr>)) w))"

definition with_done_event ::
  "driver \<Rightarrow> u32 \<Rightarrow> u32 \<Rightarrow> nat \<Rightarrow> (world \<Rightarrow> (int \<times> world) option) \<Rightarrow> world \<Rightarrow> (int \<times> world) option" where
  "with_done_event drv opcode req_id i k w =
     (let (r, w) = invoke drv (Event (B_event_create CU_EVENT_DEFAULT)) w
      in if o_rc r \<noteq> CUDA_SUCCESS then reply drv opcode req_id ST_CUDA_ERROR [] (release_transfer drv i w)
         else k (put_sess (upd_transfer i (\<lambda>e. e\<lparr>t_done_event := o_val r\<rparr>)) w))"

text \<open>
  The tail the submit handlers share: the copy \<open>c\<close> on the stream, the event recorded behind it, and the
  reply with the identifier. A failed record synchronises the stream before the buffer is freed.
\<close>

definition submit_copy :: "driver \<Rightarrow> u32 \<Rightarrow> u32 \<Rightarrow> nat \<Rightarrow> copy_call \<Rightarrow> u64 \<Rightarrow> world \<Rightarrow> (int \<times> world) option" where
  "submit_copy drv opcode req_id i c stream w =
     (let (r, w) = invoke drv (Copy c) w
      in if o_rc r \<noteq> CUDA_SUCCESS then reply drv opcode req_id ST_CUDA_ERROR [] (release_transfer drv i w)
         else let (r, w) = invoke drv (Event (B_event_record (t_done_event (transfers (sess w) ! i)) stream)) w
              in if o_rc r \<noteq> CUDA_SUCCESS
                 then let (_, w) = invoke drv (Stream (B_stream_sync stream)) w
                      in reply drv opcode req_id ST_CUDA_ERROR [] (release_transfer drv i w)
                 else reply drv opcode req_id ST_OK
                        (le_bytes64 (corex_protocol_to_be64 (t_id (transfers (sess w) ! i)))) w)"

definition handle_h2d_async_submit :: handler where
  "handle_h2d_async_submit drv req_id p w =
     (if length p < 32 then reply drv OP_H2D_ASYNC_SUBMIT req_id ST_BAD_REQUEST [] w
      else do {
        allocation_id \<leftarrow> rd64 p 0;
        offset64 \<leftarrow> rd64 p 8;
        stream_id \<leftarrow> rd64 p 16;
        bytes64 \<leftarrow> rd64 p 24;
        if bytes64 = 0 \<or> bytes64 > UINT32_MAX64 \<or> 32 + bytes64 \<noteq> of_nat (length p)
        then reply drv OP_H2D_ASYNC_SUBMIT req_id ST_BAD_REQUEST [] w
        else case find_allocation (sess w) allocation_id of
          None \<Rightarrow> reply drv OP_H2D_ASYNC_SUBMIT req_id ST_NOT_FOUND [] w
        | Some j \<Rightarrow>
            (let a = allocations (sess w) ! j
             in if offset64 > a_size a \<or> bytes64 > a_size a - offset64
                then reply drv OP_H2D_ASYNC_SUBMIT req_id ST_BAD_REQUEST [] w
                else case resolve_stream_id (sess w) stream_id of
                  None \<Rightarrow> reply drv OP_H2D_ASYNC_SUBMIT req_id ST_NOT_FOUND [] w
                | Some stream \<Rightarrow>
                    (case new_transfer_slot (sess w) of
                       None \<Rightarrow> reply drv OP_H2D_ASYNC_SUBMIT req_id ST_NO_RESOURCE [] w
                     | Some (i, s) \<Rightarrow>
                         with_host_buffer drv OP_H2D_ASYNC_SUBMIT req_id i bytes64
                           (\<lambda>host_buffer w. do {
                              data \<leftarrow> peek p 32 (unat bytes64);
                              let (_, w) = invoke drv (OS (OS_pinned_write host_buffer data)) w;
                              with_done_event drv OP_H2D_ASYNC_SUBMIT req_id i
                                (submit_copy drv OP_H2D_ASYNC_SUBMIT req_id i
                                   (B_copy_h2d_async (a_ptr a + offset64) (At_pinned host_buffer) bytes64 stream) stream) w
                            })
                           (w\<lparr>sess := upd_transfer i (fill_transfer TRANSFER_KIND_H2D allocation_id stream_id bytes64) s\<rparr>)))
      })"

definition handle_d2h_async_submit :: handler where
  "handle_d2h_async_submit drv req_id p w =
     (if length p \<noteq> 32 then reply drv OP_D2H_ASYNC_SUBMIT req_id ST_BAD_REQUEST [] w
      else do {
        allocation_id \<leftarrow> rd64 p 0;
        offset64 \<leftarrow> rd64 p 8;
        stream_id \<leftarrow> rd64 p 16;
        bytes64 \<leftarrow> rd64 p 24;
        if bytes64 = 0 \<or> bytes64 > UINT32_MAX64 \<or> bytes64 > of_nat MAX_PAYLOAD
        then reply drv OP_D2H_ASYNC_SUBMIT req_id ST_BAD_REQUEST [] w
        else case find_allocation (sess w) allocation_id of
          None \<Rightarrow> reply drv OP_D2H_ASYNC_SUBMIT req_id ST_NOT_FOUND [] w
        | Some j \<Rightarrow>
            (let a = allocations (sess w) ! j
             in if offset64 > a_size a \<or> bytes64 > a_size a - offset64
                then reply drv OP_D2H_ASYNC_SUBMIT req_id ST_BAD_REQUEST [] w
                else case resolve_stream_id (sess w) stream_id of
                  None \<Rightarrow> reply drv OP_D2H_ASYNC_SUBMIT req_id ST_NOT_FOUND [] w
                | Some stream \<Rightarrow>
                    (case new_transfer_slot (sess w) of
                       None \<Rightarrow> reply drv OP_D2H_ASYNC_SUBMIT req_id ST_NO_RESOURCE [] w
                     | Some (i, s) \<Rightarrow>
                         with_host_buffer drv OP_D2H_ASYNC_SUBMIT req_id i bytes64
                           (\<lambda>host_buffer.
                              with_done_event drv OP_D2H_ASYNC_SUBMIT req_id i
                                (submit_copy drv OP_D2H_ASYNC_SUBMIT req_id i
                                   (B_copy_d2h_async (At_pinned host_buffer) (a_ptr a + offset64) bytes64 stream) stream))
                           (w\<lparr>sess := upd_transfer i (fill_transfer TRANSFER_KIND_D2H allocation_id stream_id bytes64) s\<rparr>)))
      })"

definition handle_transfer_query :: handler where
  "handle_transfer_query drv req_id p w =
     (if length p \<noteq> 8 then reply drv OP_TRANSFER_QUERY req_id ST_BAD_REQUEST [] w
      else do {
        transfer_id \<leftarrow> rd64 p 0;
        case find_transfer (sess w) transfer_id of
          None \<Rightarrow> reply drv OP_TRANSFER_QUERY req_id ST_NOT_FOUND [] w
        | Some i \<Rightarrow>
            (let (r, w) = invoke drv (Event (B_event_query (t_done_event (transfers (sess w) ! i)))) w
             in if o_rc r = CUDA_SUCCESS
                then reply drv OP_TRANSFER_QUERY req_id ST_OK (le_bytes32 (htonl STREAM_STATE_READY)) w
                else if o_rc r = CUDA_ERROR_NOT_READY
                then reply drv OP_TRANSFER_QUERY req_id ST_OK (le_bytes32 (htonl STREAM_STATE_PENDING)) w
                else reply drv OP_TRANSFER_QUERY req_id ST_CUDA_ERROR [] w)
      })"

text \<open>The response is read from the pinned buffer and sent before the entry is released.\<close>

definition handle_transfer_wait :: handler where
  "handle_transfer_wait drv req_id p w =
     (if length p \<noteq> 8 then reply drv OP_TRANSFER_WAIT req_id ST_BAD_REQUEST [] w
      else do {
        transfer_id \<leftarrow> rd64 p 0;
        case find_transfer (sess w) transfer_id of
          None \<Rightarrow> reply drv OP_TRANSFER_WAIT req_id ST_NOT_FOUND [] w
        | Some i \<Rightarrow>
            (let e = transfers (sess w) ! i;
                 (r, w) = invoke drv (Event (B_event_sync (t_done_event e))) w
             in if o_rc r \<noteq> CUDA_SUCCESS then reply drv OP_TRANSFER_WAIT req_id ST_CUDA_ERROR [] w
                else let (rc, w) =
                           (if t_kind e = TRANSFER_KIND_D2H \<or> t_kind e = TRANSFER_KIND_D2H_2D
                            then (let n = (ucast (t_bytes e) :: u32);
                                      (d, w) = invoke drv (OS (OS_pinned_read (t_host_buffer e) (ucast n))) w
                                  in send_response drv OP_TRANSFER_WAIT req_id ST_OK (fit (unat n) (o_data d)) w)
                            else send_response drv OP_TRANSFER_WAIT req_id ST_OK [] w)
                     in Some (rc, release_transfer drv i w))
      })"

section \<open>Staging\<close>

declare invoke_case [simp]

lemma transfers_length: "session_inv n s \<Longrightarrow> length (transfers s) = MAX_TRANSFERS"
  by (simp add: session_inv_def transfer_inv_def)

lemma transfer_bytes: "session_inv n s \<Longrightarrow> i < MAX_TRANSFERS \<Longrightarrow> t_bytes (transfers s ! i) \<le> UINT32_MAX64"
  by (simp add: session_inv_def transfer_inv_def)

text \<open>
  Between the claim of entry \<open>i\<close> by a request that started in \<open>w\<close> and its reply: the session is the old
  one with \<open>e\<close> in the claimed slot, nothing was sent, and the contract holds so far.
\<close>

definition staging :: "nat \<Rightarrow> driver \<Rightarrow> world \<Rightarrow> nat \<Rightarrow> TransferEntry \<Rightarrow> world \<Rightarrow> bool" where
  "staging n drv w i e w1 \<longleftrightarrow>
     session_inv (Suc n) (sess w1) \<and> free_slot t_used (transfers (sess w)) = Some i \<and> i < MAX_TRANSFERS \<and>
     length (transfers (sess w)) = MAX_TRANSFERS \<and>
     table_inv t_used t_id (next_transfer_id (sess w)) (transfers (sess w)) \<and>
     t_used e \<and> t_id e = next_transfer_id (sess w) \<and>
     sess w1 = (sess w)\<lparr>transfers := (transfers (sess w))[i := e], next_transfer_id := next_transfer_id (sess w) + 1\<rparr> \<and>
     sent w1 = sent w \<and> no_revival (sess w) (sess w1) \<and>
     grown (call_in_bounds (allocations (sess w))) (calls w) (calls w1) \<and>
     balanced drv (transfers (sess w)) (calls w) (transfers (sess w1)) (calls w1)"

lemma fill_transfer_simps [simp]:
  "t_kind (fill_transfer k a st m e) = k" "t_allocation_id (fill_transfer k a st m e) = a"
  "t_stream_id (fill_transfer k a st m e) = st" "t_bytes (fill_transfer k a st m e) = m"
  "t_host_buffer (fill_transfer k a st m e) = t_host_buffer e" "t_id (fill_transfer k a st m e) = t_id e"
  "t_host_buffer (fresh_transfer x) = 0" "t_id (fresh_transfer x) = x"
  by (simp_all add: fill_transfer_def fresh_transfer_def zero_transfer_def)

lemma staging_claim:
  assumes "session_inv n (sess w)" "Suc n < 2 ^ 64" "new_transfer_slot (sess w) = Some (i, s)" "m \<le> UINT32_MAX64"
  shows "staging n drv w i (fill_transfer k a st m (fresh_transfer (next_transfer_id (sess w))))
    (w\<lparr>sess := upd_transfer i (fill_transfer k a st m) s\<rparr>)"
proof -
  have s: "session_inv (Suc n) s" "i < MAX_TRANSFERS" "\<not> t_used (transfers (sess w) ! i)"
    "s = (sess w)\<lparr>transfers := (transfers (sess w))[i := fresh_transfer (next_transfer_id (sess w))],
           next_transfer_id := next_transfer_id (sess w) + 1\<rparr>"
    using new_transfer_slot_inv [OF assms(1-3)] by auto
  have t: "free_slot t_used (transfers (sess w)) = Some i"
    using assms(3) by (auto simp: new_transfer_slot_def new_slot_def split: option.splits)
  have len: "i < length (transfers (sess w))" using s(2) transfers_length [OF assms(1)] by simp
  have inv: "session_inv (Suc n) (upd_transfer i (fill_transfer k a st m) s)"
    by (rule upd_transfer_inv [OF s(1)]) (simp_all add: fill_transfer_def assms(4))
  have bal: "balanced drv (transfers (sess w)) (calls w) (transfers (upd_transfer i (fill_transfer k a st m) s)) (calls w)"
    using len s(3)
    by (simp add: balanced_def upd_transfer_def s(4) held_upd fill_transfer_def fresh_transfer_def zero_transfer_def)
  have "no_revival (sess w) s" using new_slot_no_revival(6) [OF assms(1) _ assms(3)] assms(2) by simp
  then have "no_revival (sess w) (upd_transfer i (fill_transfer k a st m) s)"
    using len by (intro no_revival_upd) (simp_all add: s(4) transfer_tab.used_fresh)
  then show ?thesis
    using inv bal t s(2) len assms(1)
    by (simp add: staging_def upd_transfer_def s(4) fill_transfer_def fresh_transfer_def session_inv_def transfer_inv_def)
qed

lemma staging_call [intro]:
  "staging n drv w i e w1 \<Longrightarrow> call_in_bounds (allocations (sess w)) c \<Longrightarrow> \<not> pin_call c \<Longrightarrow>
   staging n drv w i e (snd (invoke drv c w1))"
  by (auto simp: staging_def invoke_def)

lemma staging_alloc_fail:
  "staging n drv w i e w1 \<Longrightarrow> o_rc (drv (calls w1) (Mem (B_host_alloc m))) \<noteq> CUDA_SUCCESS \<Longrightarrow>
   staging n drv w i e (snd (invoke drv (Mem (B_host_alloc m)) w1))"
  by (auto simp: staging_def invoke_def call_in_bounds_def balanced_def)

text \<open>Rewriting the entry in place.\<close>

lemma staging_upd_inv:
  assumes "staging n drv w i e w1" "t_used (f e)" "t_id (f e) = t_id e" "t_bytes (f e) = t_bytes e"
  shows "session_inv (Suc n) (upd_transfer i f (sess w1))" "transfers (sess w1) ! i = e" "i < length (transfers (sess w1))"
    "no_revival (sess w) (upd_transfer i f (sess w1))"
proof -
  show i: "transfers (sess w1) ! i = e" "i < length (transfers (sess w1))"
    using assms(1) by (auto simp: staging_def)
  have "session_inv (Suc n) (sess w1)" "i < MAX_TRANSFERS" "t_used e" using assms(1) by (auto simp: staging_def)
  then show "session_inv (Suc n) (upd_transfer i f (sess w1))"
    using transfer_bytes [of "Suc n" "sess w1" i] i(1) assms(2-4)
    by (intro upd_transfer_inv) simp_all
  show "no_revival (sess w) (upd_transfer i f (sess w1))"
    using assms i(1) by (intro no_revival_upd) (auto simp: staging_def)
qed

lemma staging_alloc_ok:
  assumes "staging n drv w i e w1" "t_host_buffer e = 0" "o_rc (drv (calls w1) (Mem (B_host_alloc m))) = CUDA_SUCCESS"
  defines "b \<equiv> o_val (drv (calls w1) (Mem (B_host_alloc m)))"
  shows "staging n drv w i (e\<lparr>t_host_buffer := b\<rparr>)
    (put_sess (upd_transfer i (\<lambda>e. e\<lparr>t_host_buffer := b\<rparr>)) (snd (invoke drv (Mem (B_host_alloc m)) w1)))"
proof -
  have "t_used (e\<lparr>t_host_buffer := b\<rparr>)" using assms(1) by (simp add: staging_def)
  then have u: "session_inv (Suc n) (upd_transfer i (\<lambda>e. e\<lparr>t_host_buffer := b\<rparr>) (sess w1))"
    "transfers (sess w1) ! i = e" "i < length (transfers (sess w1))"
    "no_revival (sess w) (upd_transfer i (\<lambda>e. e\<lparr>t_host_buffer := b\<rparr>) (sess w1))"
    using staging_upd_inv [OF assms(1), of "\<lambda>e. e\<lparr>t_host_buffer := b\<rparr>"] by auto
  show ?thesis
    using assms(1-3) u
    by (auto simp: staging_def invoke_def call_in_bounds_def upd_transfer_def balanced_def held_upd b_def)
qed

lemma staging_event:
  assumes "staging n drv w i e w1"
  shows "staging n drv w i (e\<lparr>t_done_event := v\<rparr>) (put_sess (upd_transfer i (\<lambda>e. e\<lparr>t_done_event := v\<rparr>)) w1)"
proof -
  have "t_used (e\<lparr>t_done_event := v\<rparr>)" using assms(1) by (simp add: staging_def)
  then have u: "session_inv (Suc n) (upd_transfer i (\<lambda>e. e\<lparr>t_done_event := v\<rparr>) (sess w1))"
    "transfers (sess w1) ! i = e" "i < length (transfers (sess w1))"
    "no_revival (sess w) (upd_transfer i (\<lambda>e. e\<lparr>t_done_event := v\<rparr>) (sess w1))"
    using staging_upd_inv [OF assms(1), of "\<lambda>e. e\<lparr>t_done_event := v\<rparr>"] by auto
  show ?thesis using assms(1) u by (auto simp: staging_def upd_transfer_def balanced_def held_upd)
qed

text \<open>Releasing an entry gives its buffer back.\<close>

lemma release_transfer_effect:
  assumes "session_inv m (sess w)" "i < MAX_TRANSFERS" "t_used (transfers (sess w) ! i)"
  shows "session_inv m (sess (release_transfer drv i w))" "no_revival (sess w) (sess (release_transfer drv i w))" "sent (release_transfer drv i w) = sent w"
    "grown (call_in_bounds t) (calls w) (calls (release_transfer drv i w))"
    "balanced drv (transfers (sess w)) (calls w) (transfers (sess (release_transfer drv i w))) (calls (release_transfer drv i w))"
proof -
  have "i < length (transfers (sess w))" using assms(2) transfers_length [OF assms(1)] by simp
  then show "balanced drv (transfers (sess w)) (calls w) (transfers (sess (release_transfer drv i w))) (calls (release_transfer drv i w))"
    using assms(3)
    by (simp add: release_transfer_def Let_def invoke_def balanced_def upd_transfer_def held_upd)
qed (simp_all add: release_transfer_def Let_def invoke_def erase_transfer_inv assms(1) call_in_bounds_def)

text \<open>The transfers a client can name.\<close>

definition transfer_map :: "ServerSession \<Rightarrow> (u64 \<rightharpoonup> TransferEntry)" where
  "transfer_map s = slot_map t_used t_id (transfers s)"

lemma staging_map:
  assumes "staging n drv w i e w1"
  shows "transfer_map (sess w1) = (transfer_map (sess w))(next_transfer_id (sess w) \<mapsto> e)"
proof (rule ext)
  fix k
  have s: "free_slot t_used (transfers (sess w)) = Some i" "t_used e" "t_id e = next_transfer_id (sess w)"
    "table_inv t_used t_id (next_transfer_id (sess w)) (transfers (sess w))"
    "transfers (sess w1) = (transfers (sess w))[i := e]"
    using assms by (auto simp: staging_def)
  define t where "t = (transfers (sess w))[i := fresh_transfer (next_transfer_id (sess w))]"
  have i: "i < length (transfers (sess w))" using free_slot_Some [OF s(1)] by simp
  have ns: "new_slot t_used fresh_transfer (transfers (sess w)) (next_transfer_id (sess w)) = Some (i, t, next_transfer_id (sess w) + 1)"
    using s(1) by (simp add: new_slot_def t_def)
  have "t[i := e] = transfers (sess w1)" by (simp add: t_def s(5))
  moreover have "find_slot t_used t_id (t[i := e]) = find_slot t_used t_id t"
    using s(2,3) i by (intro find_slot_update) (auto simp: t_def transfer_tab.used_fresh transfer_tab.ident_fresh)
  ultimately have f: "find_slot t_used t_id (transfers (sess w1)) = find_slot t_used t_id t" by simp
  have ne: "j \<noteq> i" if "find_slot t_used t_id (transfers (sess w)) k = Some j" for j
    using that free_slot_Some [OF s(1)] by (auto dest: find_slot_Some)
  show "transfer_map (sess w1) k = ((transfer_map (sess w))(next_transfer_id (sess w) \<mapsto> e)) k"
    using ne i unfolding transfer_map_def slot_map_def f transfer_tab.new_find [OF s(4) ns]
    by (cases "find_slot t_used t_id (transfers (sess w)) k") (auto simp: s(5) nth_upd dest: find_slot_Some)
qed

text \<open>
  A submit request is all or nothing: it answers \<open>ST_OK\<close> with the next identifier and adds exactly that
  transfer, of which \<open>F\<close> holds, or it answers an error and leaves the transfers as they were.
\<close>

definition submitted :: "nat \<Rightarrow> driver \<Rightarrow> u32 \<Rightarrow> u32 \<Rightarrow> (TransferEntry \<Rightarrow> bool) \<Rightarrow> world \<Rightarrow> int \<Rightarrow> world \<Rightarrow> bool" where
  "submitted n drv op rid F w rc w' \<longleftrightarrow> safely_served n drv op rid w rc w' \<and>
     (\<exists>status pl.
        (rc = 0 \<longrightarrow> sent w' = sent w @ corex_protocol_encode_response_header op rid status (of_nat (length pl)) @ pl) \<and>
        (if status = ST_OK
         then pl = be64 (next_transfer_id (sess w)) \<and>
              (\<exists>e. F e \<and> t_id e = next_transfer_id (sess w) \<and>
                   transfer_map (sess w') = (transfer_map (sess w))(next_transfer_id (sess w) \<mapsto> e))
         else transfer_map (sess w') = transfer_map (sess w)))"

lemma submitted_error [intro!]:
  assumes "safely_served n drv op rid w (fst (send_response drv op rid st [] w1)) (snd (send_response drv op rid st [] w1))"
    "sent w1 = sent w" "st \<noteq> ST_OK" "transfer_map (sess w1) = transfer_map (sess w)"
  shows "submitted n drv op rid F w (fst (send_response drv op rid st [] w1)) (snd (send_response drv op rid st [] w1))"
  unfolding submitted_def using assms send_response_sent [of drv op rid st "[]" w1]
  by (intro conjI exI [of _ st] exI [of _ "[]"]) auto

lemma staging_release:
  assumes "staging n drv w i e w1"
  shows "safely_served n drv op rid w (fst (send_response drv op rid st [] (release_transfer drv i w1)))
      (snd (send_response drv op rid st [] (release_transfer drv i w1)))" (is ?A)
    "st \<noteq> ST_OK \<Longrightarrow> submitted n drv op rid F w (fst (send_response drv op rid st [] (release_transfer drv i w1)))
      (snd (send_response drv op rid st [] (release_transfer drv i w1)))"
proof -
  have st: "session_inv (Suc n) (sess w1)" "i < MAX_TRANSFERS" "t_used (transfers (sess w1) ! i)"
    using assms by (auto simp: staging_def)
  note r = release_transfer_effect [OF st]
  show safe: ?A
    using assms r(1,3) no_revival_trans [OF _ r(2)] grown_trans [OF _ r(4)] balanced_trans [OF _ r(5)]
    by (intro safe_reply) (auto simp: staging_def)
  have f: "find_slot t_used t_id (transfers (sess w1)) (next_transfer_id (sess w)) = Some i"
    using assms st(1) by (intro find_slot_eqI [where nxt = "next_transfer_id (sess w1)"])
      (auto simp: staging_def session_inv_def transfer_inv_def)
  have ns: "new_slot t_used (\<lambda>_. e) (transfers (sess w)) (next_transfer_id (sess w))
      = Some (i, transfers (sess w1), next_transfer_id (sess w1))"
    using assms by (simp add: staging_def new_slot_def)
  have "transfer_map (sess (release_transfer drv i w1)) = (transfer_map (sess w1))(next_transfer_id (sess w) := None)"
    using transfer_tab.map_erase [OF _ f, of "next_transfer_id (sess w1)"] st(1)
    by (simp add: transfer_map_def release_transfer_def Let_def invoke_def upd_transfer_def session_inv_def transfer_inv_def)
  also have "\<dots> = transfer_map (sess w)"
    using staging_map [OF assms] transfer_tab.map_new_fresh assms by (auto simp: transfer_map_def staging_def fun_upd_idem)
  finally have m: "transfer_map (sess (release_transfer drv i w1)) = transfer_map (sess w)" .
  show "st \<noteq> ST_OK \<Longrightarrow> submitted n drv op rid F w (fst (send_response drv op rid st [] (release_transfer drv i w1)))
      (snd (send_response drv op rid st [] (release_transfer drv i w1)))"
    using safe r(3) assms m by (intro submitted_error) (auto simp: staging_def)
qed

lemma staging_reply:
  assumes "staging n drv w i e w1" "F e"
  shows "submitted n drv op rid F w (fst (send_response drv op rid ST_OK (be64 (t_id e)) w1))
    (snd (send_response drv op rid ST_OK (be64 (t_id e)) w1))"
proof -
  have "safely_served n drv op rid w (fst (send_response drv op rid ST_OK (be64 (t_id e)) w1))
      (snd (send_response drv op rid ST_OK (be64 (t_id e)) w1))"
    using assms(1) by (intro safe_reply) (auto simp: staging_def)
  then show ?thesis
    unfolding submitted_def using assms send_response_sent [of drv op rid ST_OK "be64 (t_id e)" w1] staging_map [OF assms(1)]
    by (intro conjI exI [of _ ST_OK] exI [of _ "be64 (t_id e)"]) (auto simp: staging_def)
qed

lemma release_after_reply:
  assumes "safely_served n drv op rid w rc w1" "i < MAX_TRANSFERS" "t_used (transfers (sess w1) ! i)"
  shows "safely_served n drv op rid w rc (release_transfer drv i w1)"
proof -
  have st: "session_inv (Suc n) (sess w1)" using assms(1) by (simp add: safely_served_def served_def)
  note r = release_transfer_effect [OF st assms(2,3)]
  show ?thesis
    using assms(1) r(1,3) no_revival_trans [OF _ r(2)] grown_trans [OF _ r(4)] balanced_trans [OF _ r(5)] hung_up_grown [OF r(4)]
    by (auto simp: safely_served_def served_def replied_def)
qed

lemma submit_copy_serves:
  assumes "staging n drv w i e w1" "call_in_bounds (allocations (sess w)) (Copy c)" "F e"
  shows "ends (submit_copy drv op rid i c stream w1) (submitted n drv op rid F w)"
proof -
  have copy: "staging n drv w i e (snd (invoke drv (Copy c) w1))"
    using assms(2) by (rule staging_call [OF assms(1)]) (simp add: pin_call_def)
  have rec: "staging n drv w i e (snd (invoke drv (Event ev) (snd (invoke drv (Copy c) w1))))" for ev
    by (rule staging_call [OF copy]) (simp_all add: call_in_bounds_def pin_call_def)
  have sync: "staging n drv w i e (snd (invoke drv (Stream st) (snd (invoke drv (Event ev) (snd (invoke drv (Copy c) w1))))))" for ev st
    by (rule staging_call [OF rec]) (simp_all add: call_in_bounds_def pin_call_def)
  have "transfers (sess w1) ! i = e" using assms(1) by (auto simp: staging_def)
  then show ?thesis
    using staging_release [OF copy] staging_release [OF sync] staging_reply [OF rec, of F, OF assms(3)]
    by (simp add: submit_copy_def Let_def le_bytes64_to_be64)
qed

section \<open>Every handler meets the contract\<close>

text \<open>The steps with a continuation, for any postcondition that the error replies meet.\<close>

lemma with_host_buffer_ends:
  assumes "staging n drv w i e w1" "t_host_buffer e = 0"
    "\<And>w2. staging n drv w i e w2 \<Longrightarrow> ends (reply drv op rid ST_CUDA_ERROR [] (release_transfer drv i w2)) Q"
    "\<And>b w2. staging n drv w i (e\<lparr>t_host_buffer := b\<rparr>) w2 \<Longrightarrow> ends (k b w2) Q"
  shows "ends (with_host_buffer drv op rid i m k w1) Q"
  using assms(3) [OF staging_alloc_fail [OF assms(1)]] assms(4) [OF staging_alloc_ok [OF assms(1,2)]]
  by (simp add: with_host_buffer_def)

lemma with_done_event_ends:
  assumes "staging n drv w i e w1"
    "\<And>w2. staging n drv w i e w2 \<Longrightarrow> ends (reply drv op rid ST_CUDA_ERROR [] (release_transfer drv i w2)) Q"
    "\<And>v w2. staging n drv w i (e\<lparr>t_done_event := v\<rparr>) w2 \<Longrightarrow> ends (k w2) Q"
  shows "ends (with_done_event drv op rid i k w1) Q"
proof -
  have c: "staging n drv w i e (snd (invoke drv (Event (B_event_create CU_EVENT_DEFAULT)) w1))"
    by (rule staging_call [OF assms(1)]) (simp_all add: call_in_bounds_def pin_call_def)
  show ?thesis using assms(2) [OF c] assms(3) [OF staging_event [OF c]] by (simp add: with_done_event_def)
qed

lemma with_host_buffer_serves:
  assumes "staging n drv w i e w1" "t_host_buffer e = 0"
    "\<And>b w2. staging n drv w i (e\<lparr>t_host_buffer := b\<rparr>) w2 \<Longrightarrow> ends (k b w2) (submitted n drv op rid F w)"
  shows "ends (with_host_buffer drv op rid i m k w1) (submitted n drv op rid F w)"
  using assms by (intro with_host_buffer_ends [OF assms(1,2)]) (simp_all add: staging_release)

lemma with_done_event_serves:
  assumes "staging n drv w i e w1"
    "\<And>v w2. staging n drv w i (e\<lparr>t_done_event := v\<rparr>) w2 \<Longrightarrow> ends (k w2) (submitted n drv op rid F w)"
  shows "ends (with_done_event drv op rid i k w1) (submitted n drv op rid F w)"
  using assms by (intro with_done_event_ends [OF assms(1)]) (simp_all add: staging_release)

lemma staging_os:
  "staging n drv w i e w1 \<Longrightarrow> staging n drv w i e (snd (invoke drv (OS c) w1))"
  by (rule staging_call) (simp_all add: call_in_bounds_def pin_call_def)

lemma claim_serves:
  assumes "session_inv n (sess w)" "Suc n < 2 ^ 64" "new_transfer_slot (sess w) = Some (i, s)" "m \<le> UINT32_MAX64"
    "\<And>b w2. staging n drv w i ((fill_transfer k a st m (fresh_transfer (next_transfer_id (sess w))))\<lparr>t_host_buffer := b\<rparr>) w2 \<Longrightarrow>
       ends (rest b w2) (submitted n drv op rid F w)"
  shows "ends (with_host_buffer drv op rid i m' rest (w\<lparr>sess := upd_transfer i (fill_transfer k a st m) s\<rparr>))
    (submitted n drv op rid F w)"
  using with_host_buffer_serves [OF staging_claim [OF assms(1-4)]] assms(5) by simp

lemmas staging_rules = with_done_event_serves submit_copy_serves

text \<open>What the payload of a linear submit request says about the transfer.\<close>

definition linear_transfer :: "u32 \<Rightarrow> bytes \<Rightarrow> TransferEntry \<Rightarrow> bool" where
  "linear_transfer kind p e \<longleftrightarrow>
     t_kind e = kind \<and> rd64 p 0 = Some (t_allocation_id e) \<and> rd64 p 16 = Some (t_stream_id e) \<and> rd64 p 24 = Some (t_bytes e)"

lemma h2d_async_submit_submitted:
  assumes "session_inv n (sess w)" "Suc n < 2 ^ 64" "length p < 2 ^ 32"
  shows "ends (handle_h2d_async_submit drv req_id p w)
    (submitted n drv OP_H2D_ASYNC_SUBMIT req_id (linear_transfer TRANSFER_KIND_H2D p) w)"
  using assms inline_length [of 32 "corex_protocol_read_u64 (take 8 (drop 24 p))" "length p"]
  by (auto simp: handle_h2d_async_submit_def Let_def linorder_not_less call_in_bounds_def covers_guard
      linear_transfer_def
      intro!: staging_rules claim_serves [OF assms(1,2)] staging_os split: option.split)
    (metis covers_guard)

lemma d2h_async_submit_submitted:
  assumes "session_inv n (sess w)" "Suc n < 2 ^ 64" "length p < 2 ^ 32"
  shows "ends (handle_d2h_async_submit drv req_id p w)
    (submitted n drv OP_D2H_ASYNC_SUBMIT req_id (linear_transfer TRANSFER_KIND_D2H p) w)"
  using assms
  by (auto simp: handle_d2h_async_submit_def Let_def linorder_not_less call_in_bounds_def covers_guard
      linear_transfer_def
      intro!: staging_rules claim_serves [OF assms(1,2)] split: option.split)

lemma submitted_safe: "submitted n drv op rid F w rc w' \<Longrightarrow> safely_served n drv op rid w rc w'"
  by (simp add: submitted_def)

interpretation h2d_async_submit: safe_handler handle_h2d_async_submit OP_H2D_ASYNC_SUBMIT
  by unfold_locales (rule ends_mono [OF h2d_async_submit_submitted submitted_safe])

interpretation d2h_async_submit: safe_handler handle_d2h_async_submit OP_D2H_ASYNC_SUBMIT
  by unfold_locales (rule ends_mono [OF d2h_async_submit_submitted submitted_safe])

interpretation transfer_query: safe_handler handle_transfer_query OP_TRANSFER_QUERY
  by unfold_locales
    (auto simp: handle_transfer_query_def Let_def invoke_def call_in_bounds_def pin_call_def split: option.split)

lemma find_transfer_Some:
  "find_transfer s k = Some i \<Longrightarrow> i < length (transfers s) \<and> t_used (transfers s ! i) \<and> t_id (transfers s ! i) = k"
  by (auto simp: find_transfer_def dest: find_slot_Some)

interpretation transfer_wait: safe_handler handle_transfer_wait OP_TRANSFER_WAIT
proof
  fix n and w :: world and p :: bytes and drv req_id
  assume i: "session_inv n (sess w)" "Suc n < 2 ^ 64" "length p < 2 ^ 32"
  have u: "j < MAX_TRANSFERS \<and> t_used (transfers (sess w) ! j)" if "find_transfer (sess w) k = Some j" for j k
    using find_transfer_Some [OF that] transfers_length [OF i(1)] by simp
  show "ends (handle_transfer_wait drv req_id p w) (safely_served n drv OP_TRANSFER_WAIT req_id w)"
    using i u
    by (auto simp: handle_transfer_wait_def Let_def case_prod_beta call_in_bounds_def pin_call_def split: option.split
        intro!: release_after_reply)
qed

section \<open>Properties\<close>

text \<open>
  C22. An asynchronous upload or download is submitted all or nothing: when the answer is \<open>ST_OK\<close> it
  carries the next transfer identifier and exactly one transfer was added, of the requested kind and
  for the allocation, the stream and the byte count of the payload; with any other answer the
  transfers are as before. On the way device memory is touched only inside the named allocation, and
  every pinned buffer obtained is either held by the new transfer or given back.
\<close>

theorem submit_all_or_nothing:
  assumes "session_inv n (sess w)" "Suc n < 2 ^ 64" "length p < 2 ^ 32"
  shows "ends (handle_h2d_async_submit drv req_id p w)
      (submitted n drv OP_H2D_ASYNC_SUBMIT req_id (linear_transfer TRANSFER_KIND_H2D p) w) \<and>
    ends (handle_d2h_async_submit drv req_id p w)
      (submitted n drv OP_D2H_ASYNC_SUBMIT req_id (linear_transfer TRANSFER_KIND_D2H p) w)"
  using h2d_async_submit_submitted d2h_async_submit_submitted assms by blast

theorem submit_all_or_nothing_witness:
  "session_inv 2 (sess alloc_world) \<and>
   ends (handle_d2h_async_submit (ok_driver 9) 5 (be64 1 @ be64 0 @ be64 0 @ be64 4) alloc_world)
     (submitted 2 (ok_driver 9) OP_D2H_ASYNC_SUBMIT 5
        (linear_transfer TRANSFER_KIND_D2H (be64 1 @ be64 0 @ be64 0 @ be64 4)) alloc_world)"
  using submit_all_or_nothing [OF alloc_world_inv, of "be64 1 @ be64 0 @ be64 0 @ be64 4" "ok_driver 9" 5] alloc_world_inv
  by simp

text \<open>
  C23. Waiting consumes a transfer: when the driver reports completion, the identifier becomes stale and
  no other transfer changes, and the answer carries the staged bytes of a download, exactly as many as
  were requested, or nothing for an upload. When the wait fails, nothing is consumed.
\<close>

theorem transfer_wait_consumes:
  assumes "session_inv n (sess w)" "transfer_map (sess w) k = Some e" "p = be64 k"
  shows "ends (handle_transfer_wait drv req_id p w) (\<lambda>rc w'.
    let sync = Event (B_event_sync (t_done_event e)); data = OS (OS_pinned_read (t_host_buffer e) (t_bytes e))
    in if o_rc (drv (calls w) sync) \<noteq> CUDA_SUCCESS then transfer_map (sess w') = transfer_map (sess w)
       else transfer_map (sess w') = (transfer_map (sess w))(k := None) \<and>
            (rc = 0 \<longrightarrow> sent w' = sent w @
               (if t_kind e = TRANSFER_KIND_D2H \<or> t_kind e = TRANSFER_KIND_D2H_2D
                then corex_protocol_encode_response_header OP_TRANSFER_WAIT req_id ST_OK (of_nat (unat (t_bytes e))) @
                     fit (unat (t_bytes e)) (o_data (drv (sync # calls w) data))
                else corex_protocol_encode_response_header OP_TRANSFER_WAIT req_id ST_OK 0)))"
proof -
  obtain i where i: "find_transfer (sess w) k = Some i" "transfers (sess w) ! i = e"
    using assms(2) by (auto simp: transfer_map_def slot_map_def find_transfer_def)
  have u: "i < length (transfers (sess w))" "t_used e" "t_id e = k"
    using find_transfer_Some [OF i(1)] i(2) by auto
  have b: "t_bytes e \<le> UINT32_MAX64" using assms(1) u(1) i(2) by (auto simp: session_inv_def transfer_inv_def)
  note n = ucast_u32_small [OF b]
  have m: "slot_map t_used t_id ((transfers (sess w))[i := zero_transfer]) = (slot_map t_used t_id (transfers (sess w)))(k := None)"
    using transfer_tab.map_erase [of "next_transfer_id (sess w)" "transfers (sess w)" k i] assms(1) i(1)
    by (simp add: find_transfer_def session_inv_def transfer_inv_def)
  have rel: "transfer_map (sess (release_transfer drv i w1)) = (transfer_map (sess w))(k := None)"
    "sent (release_transfer drv i w1) = sent w1" if "transfers (sess w1) = transfers (sess w)" for w1
    using m that by (auto simp: transfer_map_def release_transfer_def Let_def invoke_def upd_transfer_def)
  show ?thesis
    using assms(3) i rel n
    by (auto simp: handle_transfer_wait_def Let_def case_prod_beta send_response_sent)
qed

definition staged_download :: TransferEntry where
  "staged_download = fill_transfer TRANSFER_KIND_D2H 1 0 4 (fresh_transfer 1)"

definition transfer_world :: world where
  "transfer_world = init_world\<lparr>sess := server_session_init\<lparr>
     next_transfer_id := 2, transfers := (replicate MAX_TRANSFERS zero_transfer)[0 := staged_download]\<rparr>\<rparr>"

lemma transfer_world_inv: "session_inv 2 (sess transfer_world)" "transfer_map (sess transfer_world) 1 = Some staged_download"
proof -
  let ?s = "server_session_init\<lparr>transfers := (replicate MAX_TRANSFERS zero_transfer)[0 := fresh_transfer 1], next_transfer_id := 2\<rparr>"
  have "new_transfer_slot (sess init_world) = Some (0, ?s)"
    by (simp add: new_transfer_slot_def new_slot_def)
  from staging_claim [OF init_world_inv _ this, of 4 "ok_driver 0" 2 1 0]
  have st: "staging 1 (ok_driver 0) init_world 0 staged_download transfer_world"
    by (simp add: transfer_world_def upd_transfer_def staged_download_def)
  then have "session_inv (Suc 1) (sess transfer_world)" unfolding staging_def by blast
  then show "session_inv 2 (sess transfer_world)" by (simp add: numeral_2_eq_2)
  show "transfer_map (sess transfer_world) 1 = Some staged_download" using staging_map [OF st] by simp
qed

theorem transfer_wait_consumes_witness:
  "session_inv 2 (sess transfer_world) \<and> transfer_map (sess transfer_world) 1 = Some staged_download \<and>
   ends (handle_transfer_wait (ok_driver 0) 6 (be64 1) transfer_world) (\<lambda>rc w'. transfer_map (sess w') 1 = None)"
  using transfer_wait_consumes [OF transfer_world_inv refl, of "ok_driver 0" 6] transfer_world_inv
  by (auto elim!: ends_mono simp: Let_def)

end
