(* ===== verification/Codecs.thy ===== *)
theory Codecs
  imports Hello
begin

text \<open>
  The payload codecs of \<^verbatim>\<open>include/generated/corex_api_schema.h\<close>: for each message of fixed size its encoder
  (with the capacity check) and its decoder (with the length check), field by field in the order of
  the schema. A signed 32-bit field is kept as its bit pattern. Every message satisfies the contract
  \<open>wire_message\<close>: decoding an encoding returns it, and the decoder accepts only encodings.
\<close>

section \<open>Splitting a buffer into words\<close>

lemma split32:
  assumes "4 \<le> length b"
  obtains v r where "b = be32 v @ r" "length r = length b - 4"
proof -
  have "take 4 b = be32 (corex_protocol_read_u32 (take 4 b))" using assms by (simp add: be32_read)
  then show thesis using that [of "corex_protocol_read_u32 (take 4 b)" "drop 4 b"] by (metis append_take_drop_id length_drop)
qed

lemma split64:
  assumes "8 \<le> length b"
  obtains v r where "b = be64 v @ r" "length r = length b - 8"
proof -
  have "take 8 b = be64 (corex_protocol_read_u64 (take 8 b))" using assms by (simp add: be64_read)
  then show thesis using that [of "corex_protocol_read_u64 (take 8 b)" "drop 8 b"] by (metis append_take_drop_id length_drop)
qed

lemma be_inject [simp]: "be32 v = be32 v' \<longleftrightarrow> v = v'" "be64 x = be64 x' \<longleftrightarrow> x = x'"
  by (metis read_be_exact)+

lemmas codec_simps = corex_protocol_take_u32_def corex_protocol_take_u64_def wire_simps

section \<open>Codecs\<close>

definition corex_generated_encode_cudaStreamQuery_request :: "nat \<Rightarrow> u64 \<Rightarrow> bytes option" where
  "corex_generated_encode_cudaStreamQuery_request capacity = (\<lambda>stream.
     if capacity < 8 then None else Some (corex_protocol_write_u64 [] stream))"

definition corex_generated_decode_cudaStreamQuery_request :: "bytes \<Rightarrow> (u64) option" where
  "corex_generated_decode_cudaStreamQuery_request input =
     (if length input \<noteq> 8 then None
      else do {
        (stream, position1) \<leftarrow> corex_protocol_take_u64 input 0;
        if position1 = length input then Some stream else None
      })"

definition corex_generated_encode_cudaStreamQuery_response :: "nat \<Rightarrow> u32 \<Rightarrow> bytes option" where
  "corex_generated_encode_cudaStreamQuery_response capacity = (\<lambda>state.
     if capacity < 4 then None else Some (corex_protocol_write_u32 [] state))"

definition corex_generated_decode_cudaStreamQuery_response :: "bytes \<Rightarrow> (u32) option" where
  "corex_generated_decode_cudaStreamQuery_response input =
     (if length input \<noteq> 4 then None
      else do {
        (state, position1) \<leftarrow> corex_protocol_take_u32 input 0;
        if position1 = length input then Some state else None
      })"

definition corex_generated_encode_cudaEventQuery_request :: "nat \<Rightarrow> u64 \<Rightarrow> bytes option" where
  "corex_generated_encode_cudaEventQuery_request capacity = (\<lambda>event.
     if capacity < 8 then None else Some (corex_protocol_write_u64 [] event))"

definition corex_generated_decode_cudaEventQuery_request :: "bytes \<Rightarrow> (u64) option" where
  "corex_generated_decode_cudaEventQuery_request input =
     (if length input \<noteq> 8 then None
      else do {
        (event, position1) \<leftarrow> corex_protocol_take_u64 input 0;
        if position1 = length input then Some event else None
      })"

definition corex_generated_encode_cudaEventQuery_response :: "nat \<Rightarrow> u32 \<Rightarrow> bytes option" where
  "corex_generated_encode_cudaEventQuery_response capacity = (\<lambda>state.
     if capacity < 4 then None else Some (corex_protocol_write_u32 [] state))"

definition corex_generated_decode_cudaEventQuery_response :: "bytes \<Rightarrow> (u32) option" where
  "corex_generated_decode_cudaEventQuery_response input =
     (if length input \<noteq> 4 then None
      else do {
        (state, position1) \<leftarrow> corex_protocol_take_u32 input 0;
        if position1 = length input then Some state else None
      })"

definition corex_generated_encode_cudaDriverGetVersion_response :: "nat \<Rightarrow> u32 \<Rightarrow> bytes option" where
  "corex_generated_encode_cudaDriverGetVersion_response capacity = (\<lambda>version.
     if capacity < 4 then None else Some (corex_protocol_write_u32 [] version))"

definition corex_generated_decode_cudaDriverGetVersion_response :: "bytes \<Rightarrow> (u32) option" where
  "corex_generated_decode_cudaDriverGetVersion_response input =
     (if length input \<noteq> 4 then None
      else do {
        (version, position1) \<leftarrow> corex_protocol_take_u32 input 0;
        if position1 = length input then Some version else None
      })"

definition corex_generated_encode_cudaRuntimeGetVersion_response :: "nat \<Rightarrow> u32 \<Rightarrow> bytes option" where
  "corex_generated_encode_cudaRuntimeGetVersion_response capacity = (\<lambda>version.
     if capacity < 4 then None else Some (corex_protocol_write_u32 [] version))"

definition corex_generated_decode_cudaRuntimeGetVersion_response :: "bytes \<Rightarrow> (u32) option" where
  "corex_generated_decode_cudaRuntimeGetVersion_response input =
     (if length input \<noteq> 4 then None
      else do {
        (version, position1) \<leftarrow> corex_protocol_take_u32 input 0;
        if position1 = length input then Some version else None
      })"

definition corex_generated_encode_cudaDeviceGetAttribute_request :: "nat \<Rightarrow> u32 \<times> u32 \<Rightarrow> bytes option" where
  "corex_generated_encode_cudaDeviceGetAttribute_request capacity = (\<lambda>(attribute, device).
     if capacity < 8 then None else Some (corex_protocol_write_u32 (corex_protocol_write_u32 [] attribute) device))"

definition corex_generated_decode_cudaDeviceGetAttribute_request :: "bytes \<Rightarrow> (u32 \<times> u32) option" where
  "corex_generated_decode_cudaDeviceGetAttribute_request input =
     (if length input \<noteq> 8 then None
      else do {
        (attribute, position1) \<leftarrow> corex_protocol_take_u32 input 0;
        (device, position2) \<leftarrow> corex_protocol_take_u32 input position1;
        if position2 = length input then Some (attribute, device) else None
      })"

definition corex_generated_encode_cudaDeviceGetAttribute_response :: "nat \<Rightarrow> u32 \<Rightarrow> bytes option" where
  "corex_generated_encode_cudaDeviceGetAttribute_response capacity = (\<lambda>val.
     if capacity < 4 then None else Some (corex_protocol_write_u32 [] val))"

definition corex_generated_decode_cudaDeviceGetAttribute_response :: "bytes \<Rightarrow> (u32) option" where
  "corex_generated_decode_cudaDeviceGetAttribute_response input =
     (if length input \<noteq> 4 then None
      else do {
        (val, position1) \<leftarrow> corex_protocol_take_u32 input 0;
        if position1 = length input then Some val else None
      })"

definition corex_generated_encode_cudaGetDeviceFlags_response :: "nat \<Rightarrow> u32 \<Rightarrow> bytes option" where
  "corex_generated_encode_cudaGetDeviceFlags_response capacity = (\<lambda>flags.
     if capacity < 4 then None else Some (corex_protocol_write_u32 [] flags))"

definition corex_generated_decode_cudaGetDeviceFlags_response :: "bytes \<Rightarrow> (u32) option" where
  "corex_generated_decode_cudaGetDeviceFlags_response input =
     (if length input \<noteq> 4 then None
      else do {
        (flags, position1) \<leftarrow> corex_protocol_take_u32 input 0;
        if position1 = length input then Some flags else None
      })"

definition corex_generated_encode_cudaDeviceGetStreamPriorityRange_response :: "nat \<Rightarrow> u32 \<times> u32 \<Rightarrow> bytes option" where
  "corex_generated_encode_cudaDeviceGetStreamPriorityRange_response capacity = (\<lambda>(least_priority, greatest_priority).
     if capacity < 8 then None else Some (corex_protocol_write_u32 (corex_protocol_write_u32 [] least_priority) greatest_priority))"

definition corex_generated_decode_cudaDeviceGetStreamPriorityRange_response :: "bytes \<Rightarrow> (u32 \<times> u32) option" where
  "corex_generated_decode_cudaDeviceGetStreamPriorityRange_response input =
     (if length input \<noteq> 8 then None
      else do {
        (least_priority, position1) \<leftarrow> corex_protocol_take_u32 input 0;
        (greatest_priority, position2) \<leftarrow> corex_protocol_take_u32 input position1;
        if position2 = length input then Some (least_priority, greatest_priority) else None
      })"

definition corex_generated_encode_cudaDeviceGetLimit_request :: "nat \<Rightarrow> u32 \<Rightarrow> bytes option" where
  "corex_generated_encode_cudaDeviceGetLimit_request capacity = (\<lambda>limit.
     if capacity < 4 then None else Some (corex_protocol_write_u32 [] limit))"

definition corex_generated_decode_cudaDeviceGetLimit_request :: "bytes \<Rightarrow> (u32) option" where
  "corex_generated_decode_cudaDeviceGetLimit_request input =
     (if length input \<noteq> 4 then None
      else do {
        (limit, position1) \<leftarrow> corex_protocol_take_u32 input 0;
        if position1 = length input then Some limit else None
      })"

definition corex_generated_encode_cudaDeviceGetLimit_response :: "nat \<Rightarrow> u64 \<Rightarrow> bytes option" where
  "corex_generated_encode_cudaDeviceGetLimit_response capacity = (\<lambda>val.
     if capacity < 8 then None else Some (corex_protocol_write_u64 [] val))"

definition corex_generated_decode_cudaDeviceGetLimit_response :: "bytes \<Rightarrow> (u64) option" where
  "corex_generated_decode_cudaDeviceGetLimit_response input =
     (if length input \<noteq> 8 then None
      else do {
        (val, position1) \<leftarrow> corex_protocol_take_u64 input 0;
        if position1 = length input then Some val else None
      })"

definition corex_generated_encode_cudaDeviceGetCacheConfig_response :: "nat \<Rightarrow> u32 \<Rightarrow> bytes option" where
  "corex_generated_encode_cudaDeviceGetCacheConfig_response capacity = (\<lambda>config.
     if capacity < 4 then None else Some (corex_protocol_write_u32 [] config))"

definition corex_generated_decode_cudaDeviceGetCacheConfig_response :: "bytes \<Rightarrow> (u32) option" where
  "corex_generated_decode_cudaDeviceGetCacheConfig_response input =
     (if length input \<noteq> 4 then None
      else do {
        (config, position1) \<leftarrow> corex_protocol_take_u32 input 0;
        if position1 = length input then Some config else None
      })"

definition corex_generated_encode_cudaDeviceGetSharedMemConfig_response :: "nat \<Rightarrow> u32 \<Rightarrow> bytes option" where
  "corex_generated_encode_cudaDeviceGetSharedMemConfig_response capacity = (\<lambda>config.
     if capacity < 4 then None else Some (corex_protocol_write_u32 [] config))"

definition corex_generated_decode_cudaDeviceGetSharedMemConfig_response :: "bytes \<Rightarrow> (u32) option" where
  "corex_generated_decode_cudaDeviceGetSharedMemConfig_response input =
     (if length input \<noteq> 4 then None
      else do {
        (config, position1) \<leftarrow> corex_protocol_take_u32 input 0;
        if position1 = length input then Some config else None
      })"

definition corex_generated_encode_cudaFuncSetAttribute_request :: "nat \<Rightarrow> u64 \<times> u32 \<times> u32 \<Rightarrow> bytes option" where
  "corex_generated_encode_cudaFuncSetAttribute_request capacity = (\<lambda>(kernel, attribute, val).
     if capacity < 16 then None else Some (corex_protocol_write_u32 (corex_protocol_write_u32 (corex_protocol_write_u64 [] kernel) attribute) val))"

definition corex_generated_decode_cudaFuncSetAttribute_request :: "bytes \<Rightarrow> (u64 \<times> u32 \<times> u32) option" where
  "corex_generated_decode_cudaFuncSetAttribute_request input =
     (if length input \<noteq> 16 then None
      else do {
        (kernel, position1) \<leftarrow> corex_protocol_take_u64 input 0;
        (attribute, position2) \<leftarrow> corex_protocol_take_u32 input position1;
        (val, position3) \<leftarrow> corex_protocol_take_u32 input position2;
        if position3 = length input then Some (kernel, attribute, val) else None
      })"

definition corex_generated_encode_cudaFuncSetCacheConfig_request :: "nat \<Rightarrow> u64 \<times> u32 \<Rightarrow> bytes option" where
  "corex_generated_encode_cudaFuncSetCacheConfig_request capacity = (\<lambda>(kernel, config).
     if capacity < 12 then None else Some (corex_protocol_write_u32 (corex_protocol_write_u64 [] kernel) config))"

definition corex_generated_decode_cudaFuncSetCacheConfig_request :: "bytes \<Rightarrow> (u64 \<times> u32) option" where
  "corex_generated_decode_cudaFuncSetCacheConfig_request input =
     (if length input \<noteq> 12 then None
      else do {
        (kernel, position1) \<leftarrow> corex_protocol_take_u64 input 0;
        (config, position2) \<leftarrow> corex_protocol_take_u32 input position1;
        if position2 = length input then Some (kernel, config) else None
      })"

definition corex_generated_encode_cudaOccupancyMaxActiveBlocksPerMultiprocessor_request :: "nat \<Rightarrow> u64 \<times> u32 \<times> u64 \<Rightarrow> bytes option" where
  "corex_generated_encode_cudaOccupancyMaxActiveBlocksPerMultiprocessor_request capacity = (\<lambda>(kernel, block_size, dynamic_shared).
     if capacity < 20 then None else Some (corex_protocol_write_u64 (corex_protocol_write_u32 (corex_protocol_write_u64 [] kernel) block_size) dynamic_shared))"

definition corex_generated_decode_cudaOccupancyMaxActiveBlocksPerMultiprocessor_request :: "bytes \<Rightarrow> (u64 \<times> u32 \<times> u64) option" where
  "corex_generated_decode_cudaOccupancyMaxActiveBlocksPerMultiprocessor_request input =
     (if length input \<noteq> 20 then None
      else do {
        (kernel, position1) \<leftarrow> corex_protocol_take_u64 input 0;
        (block_size, position2) \<leftarrow> corex_protocol_take_u32 input position1;
        (dynamic_shared, position3) \<leftarrow> corex_protocol_take_u64 input position2;
        if position3 = length input then Some (kernel, block_size, dynamic_shared) else None
      })"

definition corex_generated_encode_cudaOccupancyMaxActiveBlocksPerMultiprocessor_response :: "nat \<Rightarrow> u32 \<Rightarrow> bytes option" where
  "corex_generated_encode_cudaOccupancyMaxActiveBlocksPerMultiprocessor_response capacity = (\<lambda>blocks.
     if capacity < 4 then None else Some (corex_protocol_write_u32 [] blocks))"

definition corex_generated_decode_cudaOccupancyMaxActiveBlocksPerMultiprocessor_response :: "bytes \<Rightarrow> (u32) option" where
  "corex_generated_decode_cudaOccupancyMaxActiveBlocksPerMultiprocessor_response input =
     (if length input \<noteq> 4 then None
      else do {
        (blocks, position1) \<leftarrow> corex_protocol_take_u32 input 0;
        if position1 = length input then Some blocks else None
      })"

definition corex_generated_encode_cudaDeviceGetPCIBusId_request :: "nat \<Rightarrow> u32 \<Rightarrow> bytes option" where
  "corex_generated_encode_cudaDeviceGetPCIBusId_request capacity = (\<lambda>device.
     if capacity < 4 then None else Some (corex_protocol_write_u32 [] device))"

definition corex_generated_decode_cudaDeviceGetPCIBusId_request :: "bytes \<Rightarrow> (u32) option" where
  "corex_generated_decode_cudaDeviceGetPCIBusId_request input =
     (if length input \<noteq> 4 then None
      else do {
        (device, position1) \<leftarrow> corex_protocol_take_u32 input 0;
        if position1 = length input then Some device else None
      })"

definition corex_generated_encode_cudaDeviceGetByPCIBusId_response :: "nat \<Rightarrow> u32 \<Rightarrow> bytes option" where
  "corex_generated_encode_cudaDeviceGetByPCIBusId_response capacity = (\<lambda>device.
     if capacity < 4 then None else Some (corex_protocol_write_u32 [] device))"

definition corex_generated_decode_cudaDeviceGetByPCIBusId_response :: "bytes \<Rightarrow> (u32) option" where
  "corex_generated_decode_cudaDeviceGetByPCIBusId_response input =
     (if length input \<noteq> 4 then None
      else do {
        (device, position1) \<leftarrow> corex_protocol_take_u32 input 0;
        if position1 = length input then Some device else None
      })"

definition corex_generated_encode_cudaDeviceSetLimit_request :: "nat \<Rightarrow> u32 \<times> u64 \<Rightarrow> bytes option" where
  "corex_generated_encode_cudaDeviceSetLimit_request capacity = (\<lambda>(limit, val).
     if capacity < 12 then None else Some (corex_protocol_write_u64 (corex_protocol_write_u32 [] limit) val))"

definition corex_generated_decode_cudaDeviceSetLimit_request :: "bytes \<Rightarrow> (u32 \<times> u64) option" where
  "corex_generated_decode_cudaDeviceSetLimit_request input =
     (if length input \<noteq> 12 then None
      else do {
        (limit, position1) \<leftarrow> corex_protocol_take_u32 input 0;
        (val, position2) \<leftarrow> corex_protocol_take_u64 input position1;
        if position2 = length input then Some (limit, val) else None
      })"

definition corex_generated_encode_cudaDeviceSetCacheConfig_request :: "nat \<Rightarrow> u32 \<Rightarrow> bytes option" where
  "corex_generated_encode_cudaDeviceSetCacheConfig_request capacity = (\<lambda>config.
     if capacity < 4 then None else Some (corex_protocol_write_u32 [] config))"

definition corex_generated_decode_cudaDeviceSetCacheConfig_request :: "bytes \<Rightarrow> (u32) option" where
  "corex_generated_decode_cudaDeviceSetCacheConfig_request input =
     (if length input \<noteq> 4 then None
      else do {
        (config, position1) \<leftarrow> corex_protocol_take_u32 input 0;
        if position1 = length input then Some config else None
      })"

definition corex_generated_encode_cudaDeviceSetSharedMemConfig_request :: "nat \<Rightarrow> u32 \<Rightarrow> bytes option" where
  "corex_generated_encode_cudaDeviceSetSharedMemConfig_request capacity = (\<lambda>config.
     if capacity < 4 then None else Some (corex_protocol_write_u32 [] config))"

definition corex_generated_decode_cudaDeviceSetSharedMemConfig_request :: "bytes \<Rightarrow> (u32) option" where
  "corex_generated_decode_cudaDeviceSetSharedMemConfig_request input =
     (if length input \<noteq> 4 then None
      else do {
        (config, position1) \<leftarrow> corex_protocol_take_u32 input 0;
        if position1 = length input then Some config else None
      })"

definition corex_generated_encode_cudaStreamCopyAttributes_request :: "nat \<Rightarrow> u64 \<times> u64 \<Rightarrow> bytes option" where
  "corex_generated_encode_cudaStreamCopyAttributes_request capacity = (\<lambda>(dst, src).
     if capacity < 16 then None else Some (corex_protocol_write_u64 (corex_protocol_write_u64 [] dst) src))"

definition corex_generated_decode_cudaStreamCopyAttributes_request :: "bytes \<Rightarrow> (u64 \<times> u64) option" where
  "corex_generated_decode_cudaStreamCopyAttributes_request input =
     (if length input \<noteq> 16 then None
      else do {
        (dst, position1) \<leftarrow> corex_protocol_take_u64 input 0;
        (src, position2) \<leftarrow> corex_protocol_take_u64 input position1;
        if position2 = length input then Some (dst, src) else None
      })"

definition corex_generated_encode_cudaStreamGetAttribute_request :: "nat \<Rightarrow> u64 \<times> u32 \<Rightarrow> bytes option" where
  "corex_generated_encode_cudaStreamGetAttribute_request capacity = (\<lambda>(stream, attribute).
     if capacity < 12 then None else Some (corex_protocol_write_u32 (corex_protocol_write_u64 [] stream) attribute))"

definition corex_generated_decode_cudaStreamGetAttribute_request :: "bytes \<Rightarrow> (u64 \<times> u32) option" where
  "corex_generated_decode_cudaStreamGetAttribute_request input =
     (if length input \<noteq> 12 then None
      else do {
        (stream, position1) \<leftarrow> corex_protocol_take_u64 input 0;
        (attribute, position2) \<leftarrow> corex_protocol_take_u32 input position1;
        if position2 = length input then Some (stream, attribute) else None
      })"

definition corex_generated_encode_cudaStreamGetAttribute_response :: "nat \<Rightarrow> u64 \<times> u64 \<times> u64 \<times> u32 \<times> u32 \<times> u32 \<times> u32 \<Rightarrow> bytes option" where
  "corex_generated_encode_cudaStreamGetAttribute_response capacity = (\<lambda>(allocation, off, bytes, hit_ratio_bits, hit_property, miss_property, sync_policy).
     if capacity < 40 then None else Some (corex_protocol_write_u32 (corex_protocol_write_u32 (corex_protocol_write_u32 (corex_protocol_write_u32 (corex_protocol_write_u64 (corex_protocol_write_u64 (corex_protocol_write_u64 [] allocation) off) bytes) hit_ratio_bits) hit_property) miss_property) sync_policy))"

definition corex_generated_decode_cudaStreamGetAttribute_response :: "bytes \<Rightarrow> (u64 \<times> u64 \<times> u64 \<times> u32 \<times> u32 \<times> u32 \<times> u32) option" where
  "corex_generated_decode_cudaStreamGetAttribute_response input =
     (if length input \<noteq> 40 then None
      else do {
        (allocation, position1) \<leftarrow> corex_protocol_take_u64 input 0;
        (off, position2) \<leftarrow> corex_protocol_take_u64 input position1;
        (bytes, position3) \<leftarrow> corex_protocol_take_u64 input position2;
        (hit_ratio_bits, position4) \<leftarrow> corex_protocol_take_u32 input position3;
        (hit_property, position5) \<leftarrow> corex_protocol_take_u32 input position4;
        (miss_property, position6) \<leftarrow> corex_protocol_take_u32 input position5;
        (sync_policy, position7) \<leftarrow> corex_protocol_take_u32 input position6;
        if position7 = length input then Some (allocation, off, bytes, hit_ratio_bits, hit_property, miss_property, sync_policy) else None
      })"

definition corex_generated_encode_cudaStreamSetAttribute_request :: "nat \<Rightarrow> u64 \<times> u32 \<times> u64 \<times> u64 \<times> u64 \<times> u32 \<times> u32 \<times> u32 \<times> u32 \<Rightarrow> bytes option" where
  "corex_generated_encode_cudaStreamSetAttribute_request capacity = (\<lambda>(stream, attribute, allocation, off, bytes, hit_ratio_bits, hit_property, miss_property, sync_policy).
     if capacity < 52 then None else Some (corex_protocol_write_u32 (corex_protocol_write_u32 (corex_protocol_write_u32 (corex_protocol_write_u32 (corex_protocol_write_u64 (corex_protocol_write_u64 (corex_protocol_write_u64 (corex_protocol_write_u32 (corex_protocol_write_u64 [] stream) attribute) allocation) off) bytes) hit_ratio_bits) hit_property) miss_property) sync_policy))"

definition corex_generated_decode_cudaStreamSetAttribute_request :: "bytes \<Rightarrow> (u64 \<times> u32 \<times> u64 \<times> u64 \<times> u64 \<times> u32 \<times> u32 \<times> u32 \<times> u32) option" where
  "corex_generated_decode_cudaStreamSetAttribute_request input =
     (if length input \<noteq> 52 then None
      else do {
        (stream, position1) \<leftarrow> corex_protocol_take_u64 input 0;
        (attribute, position2) \<leftarrow> corex_protocol_take_u32 input position1;
        (allocation, position3) \<leftarrow> corex_protocol_take_u64 input position2;
        (off, position4) \<leftarrow> corex_protocol_take_u64 input position3;
        (bytes, position5) \<leftarrow> corex_protocol_take_u64 input position4;
        (hit_ratio_bits, position6) \<leftarrow> corex_protocol_take_u32 input position5;
        (hit_property, position7) \<leftarrow> corex_protocol_take_u32 input position6;
        (miss_property, position8) \<leftarrow> corex_protocol_take_u32 input position7;
        (sync_policy, position9) \<leftarrow> corex_protocol_take_u32 input position8;
        if position9 = length input then Some (stream, attribute, allocation, off, bytes, hit_ratio_bits, hit_property, miss_property, sync_policy) else None
      })"

definition corex_generated_encode_cudaMemset3D_request :: "nat \<Rightarrow> u64 \<times> u64 \<times> u64 \<times> u64 \<times> u64 \<times> u64 \<times> u64 \<times> u32 \<Rightarrow> bytes option" where
  "corex_generated_encode_cudaMemset3D_request capacity = (\<lambda>(allocation, off, pitch, sl, wid, hei, dep, val).
     if capacity < 60 then None else Some (corex_protocol_write_u32 (corex_protocol_write_u64 (corex_protocol_write_u64 (corex_protocol_write_u64 (corex_protocol_write_u64 (corex_protocol_write_u64 (corex_protocol_write_u64 (corex_protocol_write_u64 [] allocation) off) pitch) sl) wid) hei) dep) val))"

definition corex_generated_decode_cudaMemset3D_request :: "bytes \<Rightarrow> (u64 \<times> u64 \<times> u64 \<times> u64 \<times> u64 \<times> u64 \<times> u64 \<times> u32) option" where
  "corex_generated_decode_cudaMemset3D_request input =
     (if length input \<noteq> 60 then None
      else do {
        (allocation, position1) \<leftarrow> corex_protocol_take_u64 input 0;
        (off, position2) \<leftarrow> corex_protocol_take_u64 input position1;
        (pitch, position3) \<leftarrow> corex_protocol_take_u64 input position2;
        (sl, position4) \<leftarrow> corex_protocol_take_u64 input position3;
        (wid, position5) \<leftarrow> corex_protocol_take_u64 input position4;
        (hei, position6) \<leftarrow> corex_protocol_take_u64 input position5;
        (dep, position7) \<leftarrow> corex_protocol_take_u64 input position6;
        (val, position8) \<leftarrow> corex_protocol_take_u32 input position7;
        if position8 = length input then Some (allocation, off, pitch, sl, wid, hei, dep, val) else None
      })"

definition corex_generated_encode_cudaMemset3DAsync_request :: "nat \<Rightarrow> u64 \<times> u64 \<times> u64 \<times> u64 \<times> u64 \<times> u64 \<times> u64 \<times> u32 \<times> u64 \<Rightarrow> bytes option" where
  "corex_generated_encode_cudaMemset3DAsync_request capacity = (\<lambda>(allocation, off, pitch, sl, wid, hei, dep, val, stream).
     if capacity < 68 then None else Some (corex_protocol_write_u64 (corex_protocol_write_u32 (corex_protocol_write_u64 (corex_protocol_write_u64 (corex_protocol_write_u64 (corex_protocol_write_u64 (corex_protocol_write_u64 (corex_protocol_write_u64 (corex_protocol_write_u64 [] allocation) off) pitch) sl) wid) hei) dep) val) stream))"

definition corex_generated_decode_cudaMemset3DAsync_request :: "bytes \<Rightarrow> (u64 \<times> u64 \<times> u64 \<times> u64 \<times> u64 \<times> u64 \<times> u64 \<times> u32 \<times> u64) option" where
  "corex_generated_decode_cudaMemset3DAsync_request input =
     (if length input \<noteq> 68 then None
      else do {
        (allocation, position1) \<leftarrow> corex_protocol_take_u64 input 0;
        (off, position2) \<leftarrow> corex_protocol_take_u64 input position1;
        (pitch, position3) \<leftarrow> corex_protocol_take_u64 input position2;
        (sl, position4) \<leftarrow> corex_protocol_take_u64 input position3;
        (wid, position5) \<leftarrow> corex_protocol_take_u64 input position4;
        (hei, position6) \<leftarrow> corex_protocol_take_u64 input position5;
        (dep, position7) \<leftarrow> corex_protocol_take_u64 input position6;
        (val, position8) \<leftarrow> corex_protocol_take_u32 input position7;
        (stream, position9) \<leftarrow> corex_protocol_take_u64 input position8;
        if position9 = length input then Some (allocation, off, pitch, sl, wid, hei, dep, val, stream) else None
      })"

definition corex_generated_encode_cudaFuncSetSharedMemConfig_request :: "nat \<Rightarrow> u64 \<times> u32 \<Rightarrow> bytes option" where
  "corex_generated_encode_cudaFuncSetSharedMemConfig_request capacity = (\<lambda>(kernel, config).
     if capacity < 12 then None else Some (corex_protocol_write_u32 (corex_protocol_write_u64 [] kernel) config))"

definition corex_generated_decode_cudaFuncSetSharedMemConfig_request :: "bytes \<Rightarrow> (u64 \<times> u32) option" where
  "corex_generated_decode_cudaFuncSetSharedMemConfig_request input =
     (if length input \<noteq> 12 then None
      else do {
        (kernel, position1) \<leftarrow> corex_protocol_take_u64 input 0;
        (config, position2) \<leftarrow> corex_protocol_take_u32 input position1;
        if position2 = length input then Some (kernel, config) else None
      })"

definition corex_generated_encode_cudaOccupancyMaxActiveBlocksPerMultiprocessorWithFlags_request :: "nat \<Rightarrow> u64 \<times> u32 \<times> u64 \<times> u32 \<Rightarrow> bytes option" where
  "corex_generated_encode_cudaOccupancyMaxActiveBlocksPerMultiprocessorWithFlags_request capacity = (\<lambda>(kernel, block_size, dynamic_shared, flags).
     if capacity < 24 then None else Some (corex_protocol_write_u32 (corex_protocol_write_u64 (corex_protocol_write_u32 (corex_protocol_write_u64 [] kernel) block_size) dynamic_shared) flags))"

definition corex_generated_decode_cudaOccupancyMaxActiveBlocksPerMultiprocessorWithFlags_request :: "bytes \<Rightarrow> (u64 \<times> u32 \<times> u64 \<times> u32) option" where
  "corex_generated_decode_cudaOccupancyMaxActiveBlocksPerMultiprocessorWithFlags_request input =
     (if length input \<noteq> 24 then None
      else do {
        (kernel, position1) \<leftarrow> corex_protocol_take_u64 input 0;
        (block_size, position2) \<leftarrow> corex_protocol_take_u32 input position1;
        (dynamic_shared, position3) \<leftarrow> corex_protocol_take_u64 input position2;
        (flags, position4) \<leftarrow> corex_protocol_take_u32 input position3;
        if position4 = length input then Some (kernel, block_size, dynamic_shared, flags) else None
      })"

definition corex_generated_encode_cudaOccupancyMaxActiveBlocksPerMultiprocessorWithFlags_response :: "nat \<Rightarrow> u32 \<Rightarrow> bytes option" where
  "corex_generated_encode_cudaOccupancyMaxActiveBlocksPerMultiprocessorWithFlags_response capacity = (\<lambda>blocks.
     if capacity < 4 then None else Some (corex_protocol_write_u32 [] blocks))"

definition corex_generated_decode_cudaOccupancyMaxActiveBlocksPerMultiprocessorWithFlags_response :: "bytes \<Rightarrow> (u32) option" where
  "corex_generated_decode_cudaOccupancyMaxActiveBlocksPerMultiprocessorWithFlags_response input =
     (if length input \<noteq> 4 then None
      else do {
        (blocks, position1) \<leftarrow> corex_protocol_take_u32 input 0;
        if position1 = length input then Some blocks else None
      })"

definition corex_generated_encode_cudaOccupancyMaxPotentialBlockSize_request :: "nat \<Rightarrow> u64 \<times> u64 \<times> u32 \<Rightarrow> bytes option" where
  "corex_generated_encode_cudaOccupancyMaxPotentialBlockSize_request capacity = (\<lambda>(kernel, dynamic_shared, block_limit).
     if capacity < 20 then None else Some (corex_protocol_write_u32 (corex_protocol_write_u64 (corex_protocol_write_u64 [] kernel) dynamic_shared) block_limit))"

definition corex_generated_decode_cudaOccupancyMaxPotentialBlockSize_request :: "bytes \<Rightarrow> (u64 \<times> u64 \<times> u32) option" where
  "corex_generated_decode_cudaOccupancyMaxPotentialBlockSize_request input =
     (if length input \<noteq> 20 then None
      else do {
        (kernel, position1) \<leftarrow> corex_protocol_take_u64 input 0;
        (dynamic_shared, position2) \<leftarrow> corex_protocol_take_u64 input position1;
        (block_limit, position3) \<leftarrow> corex_protocol_take_u32 input position2;
        if position3 = length input then Some (kernel, dynamic_shared, block_limit) else None
      })"

definition corex_generated_encode_cudaOccupancyMaxPotentialBlockSize_response :: "nat \<Rightarrow> u32 \<times> u32 \<Rightarrow> bytes option" where
  "corex_generated_encode_cudaOccupancyMaxPotentialBlockSize_response capacity = (\<lambda>(grid, block).
     if capacity < 8 then None else Some (corex_protocol_write_u32 (corex_protocol_write_u32 [] grid) block))"

definition corex_generated_decode_cudaOccupancyMaxPotentialBlockSize_response :: "bytes \<Rightarrow> (u32 \<times> u32) option" where
  "corex_generated_decode_cudaOccupancyMaxPotentialBlockSize_response input =
     (if length input \<noteq> 8 then None
      else do {
        (grid, position1) \<leftarrow> corex_protocol_take_u32 input 0;
        (block, position2) \<leftarrow> corex_protocol_take_u32 input position1;
        if position2 = length input then Some (grid, block) else None
      })"

definition corex_generated_encode_cudaLibraryGetKernelCount_request :: "nat \<Rightarrow> u64 \<Rightarrow> bytes option" where
  "corex_generated_encode_cudaLibraryGetKernelCount_request capacity = (\<lambda>module.
     if capacity < 8 then None else Some (corex_protocol_write_u64 [] module))"

definition corex_generated_decode_cudaLibraryGetKernelCount_request :: "bytes \<Rightarrow> (u64) option" where
  "corex_generated_decode_cudaLibraryGetKernelCount_request input =
     (if length input \<noteq> 8 then None
      else do {
        (module, position1) \<leftarrow> corex_protocol_take_u64 input 0;
        if position1 = length input then Some module else None
      })"

definition corex_generated_encode_cudaLibraryGetKernelCount_response :: "nat \<Rightarrow> u32 \<Rightarrow> bytes option" where
  "corex_generated_encode_cudaLibraryGetKernelCount_response capacity = (\<lambda>count.
     if capacity < 4 then None else Some (corex_protocol_write_u32 [] count))"

definition corex_generated_decode_cudaLibraryGetKernelCount_response :: "bytes \<Rightarrow> (u32) option" where
  "corex_generated_decode_cudaLibraryGetKernelCount_response input =
     (if length input \<noteq> 4 then None
      else do {
        (count, position1) \<leftarrow> corex_protocol_take_u32 input 0;
        if position1 = length input then Some count else None
      })"

definition corex_generated_encode_cudaLibraryEnumerateKernels_request :: "nat \<Rightarrow> u64 \<times> u32 \<Rightarrow> bytes option" where
  "corex_generated_encode_cudaLibraryEnumerateKernels_request capacity = (\<lambda>(module, index).
     if capacity < 12 then None else Some (corex_protocol_write_u32 (corex_protocol_write_u64 [] module) index))"

definition corex_generated_decode_cudaLibraryEnumerateKernels_request :: "bytes \<Rightarrow> (u64 \<times> u32) option" where
  "corex_generated_decode_cudaLibraryEnumerateKernels_request input =
     (if length input \<noteq> 12 then None
      else do {
        (module, position1) \<leftarrow> corex_protocol_take_u64 input 0;
        (index, position2) \<leftarrow> corex_protocol_take_u32 input position1;
        if position2 = length input then Some (module, index) else None
      })"

definition corex_generated_encode_cudaGetSymbolAddress_response :: "nat \<Rightarrow> u64 \<times> u64 \<Rightarrow> bytes option" where
  "corex_generated_encode_cudaGetSymbolAddress_response capacity = (\<lambda>(allocation, bytes).
     if capacity < 16 then None else Some (corex_protocol_write_u64 (corex_protocol_write_u64 [] allocation) bytes))"

definition corex_generated_decode_cudaGetSymbolAddress_response :: "bytes \<Rightarrow> (u64 \<times> u64) option" where
  "corex_generated_decode_cudaGetSymbolAddress_response input =
     (if length input \<noteq> 16 then None
      else do {
        (allocation, position1) \<leftarrow> corex_protocol_take_u64 input 0;
        (bytes, position2) \<leftarrow> corex_protocol_take_u64 input position1;
        if position2 = length input then Some (allocation, bytes) else None
      })"

definition corex_generated_encode_cudaSetDeviceFlags_request :: "nat \<Rightarrow> u32 \<Rightarrow> bytes option" where
  "corex_generated_encode_cudaSetDeviceFlags_request capacity = (\<lambda>flags.
     if capacity < 4 then None else Some (corex_protocol_write_u32 [] flags))"

definition corex_generated_decode_cudaSetDeviceFlags_request :: "bytes \<Rightarrow> (u32) option" where
  "corex_generated_decode_cudaSetDeviceFlags_request input =
     (if length input \<noteq> 4 then None
      else do {
        (flags, position1) \<leftarrow> corex_protocol_take_u32 input 0;
        if position1 = length input then Some flags else None
      })"

definition corex_generated_encode_cudaDeviceGetDefaultMemPool_request :: "nat \<Rightarrow> u32 \<Rightarrow> bytes option" where
  "corex_generated_encode_cudaDeviceGetDefaultMemPool_request capacity = (\<lambda>device.
     if capacity < 4 then None else Some (corex_protocol_write_u32 [] device))"

definition corex_generated_decode_cudaDeviceGetDefaultMemPool_request :: "bytes \<Rightarrow> (u32) option" where
  "corex_generated_decode_cudaDeviceGetDefaultMemPool_request input =
     (if length input \<noteq> 4 then None
      else do {
        (device, position1) \<leftarrow> corex_protocol_take_u32 input 0;
        if position1 = length input then Some device else None
      })"

definition corex_generated_encode_cudaDeviceGetDefaultMemPool_response :: "nat \<Rightarrow> u64 \<Rightarrow> bytes option" where
  "corex_generated_encode_cudaDeviceGetDefaultMemPool_response capacity = (\<lambda>pool.
     if capacity < 8 then None else Some (corex_protocol_write_u64 [] pool))"

definition corex_generated_decode_cudaDeviceGetDefaultMemPool_response :: "bytes \<Rightarrow> (u64) option" where
  "corex_generated_decode_cudaDeviceGetDefaultMemPool_response input =
     (if length input \<noteq> 8 then None
      else do {
        (pool, position1) \<leftarrow> corex_protocol_take_u64 input 0;
        if position1 = length input then Some pool else None
      })"

definition corex_generated_encode_cudaDeviceGetMemPool_request :: "nat \<Rightarrow> u32 \<Rightarrow> bytes option" where
  "corex_generated_encode_cudaDeviceGetMemPool_request capacity = (\<lambda>device.
     if capacity < 4 then None else Some (corex_protocol_write_u32 [] device))"

definition corex_generated_decode_cudaDeviceGetMemPool_request :: "bytes \<Rightarrow> (u32) option" where
  "corex_generated_decode_cudaDeviceGetMemPool_request input =
     (if length input \<noteq> 4 then None
      else do {
        (device, position1) \<leftarrow> corex_protocol_take_u32 input 0;
        if position1 = length input then Some device else None
      })"

definition corex_generated_encode_cudaDeviceGetMemPool_response :: "nat \<Rightarrow> u64 \<Rightarrow> bytes option" where
  "corex_generated_encode_cudaDeviceGetMemPool_response capacity = (\<lambda>pool.
     if capacity < 8 then None else Some (corex_protocol_write_u64 [] pool))"

definition corex_generated_decode_cudaDeviceGetMemPool_response :: "bytes \<Rightarrow> (u64) option" where
  "corex_generated_decode_cudaDeviceGetMemPool_response input =
     (if length input \<noteq> 8 then None
      else do {
        (pool, position1) \<leftarrow> corex_protocol_take_u64 input 0;
        if position1 = length input then Some pool else None
      })"

definition corex_generated_encode_cudaDeviceSetMemPool_request :: "nat \<Rightarrow> u32 \<times> u64 \<Rightarrow> bytes option" where
  "corex_generated_encode_cudaDeviceSetMemPool_request capacity = (\<lambda>(device, pool).
     if capacity < 12 then None else Some (corex_protocol_write_u64 (corex_protocol_write_u32 [] device) pool))"

definition corex_generated_decode_cudaDeviceSetMemPool_request :: "bytes \<Rightarrow> (u32 \<times> u64) option" where
  "corex_generated_decode_cudaDeviceSetMemPool_request input =
     (if length input \<noteq> 12 then None
      else do {
        (device, position1) \<leftarrow> corex_protocol_take_u32 input 0;
        (pool, position2) \<leftarrow> corex_protocol_take_u64 input position1;
        if position2 = length input then Some (device, pool) else None
      })"

definition corex_generated_encode_cudaMemPoolCreate_request :: "nat \<Rightarrow> u32 \<times> u32 \<times> u32 \<Rightarrow> bytes option" where
  "corex_generated_encode_cudaMemPoolCreate_request capacity = (\<lambda>(allocation_type, location_type, device).
     if capacity < 12 then None else Some (corex_protocol_write_u32 (corex_protocol_write_u32 (corex_protocol_write_u32 [] allocation_type) location_type) device))"

definition corex_generated_decode_cudaMemPoolCreate_request :: "bytes \<Rightarrow> (u32 \<times> u32 \<times> u32) option" where
  "corex_generated_decode_cudaMemPoolCreate_request input =
     (if length input \<noteq> 12 then None
      else do {
        (allocation_type, position1) \<leftarrow> corex_protocol_take_u32 input 0;
        (location_type, position2) \<leftarrow> corex_protocol_take_u32 input position1;
        (device, position3) \<leftarrow> corex_protocol_take_u32 input position2;
        if position3 = length input then Some (allocation_type, location_type, device) else None
      })"

definition corex_generated_encode_cudaMemPoolCreate_response :: "nat \<Rightarrow> u64 \<Rightarrow> bytes option" where
  "corex_generated_encode_cudaMemPoolCreate_response capacity = (\<lambda>pool.
     if capacity < 8 then None else Some (corex_protocol_write_u64 [] pool))"

definition corex_generated_decode_cudaMemPoolCreate_response :: "bytes \<Rightarrow> (u64) option" where
  "corex_generated_decode_cudaMemPoolCreate_response input =
     (if length input \<noteq> 8 then None
      else do {
        (pool, position1) \<leftarrow> corex_protocol_take_u64 input 0;
        if position1 = length input then Some pool else None
      })"

definition corex_generated_encode_cudaMemPoolDestroy_request :: "nat \<Rightarrow> u64 \<Rightarrow> bytes option" where
  "corex_generated_encode_cudaMemPoolDestroy_request capacity = (\<lambda>pool.
     if capacity < 8 then None else Some (corex_protocol_write_u64 [] pool))"

definition corex_generated_decode_cudaMemPoolDestroy_request :: "bytes \<Rightarrow> (u64) option" where
  "corex_generated_decode_cudaMemPoolDestroy_request input =
     (if length input \<noteq> 8 then None
      else do {
        (pool, position1) \<leftarrow> corex_protocol_take_u64 input 0;
        if position1 = length input then Some pool else None
      })"

definition corex_generated_encode_cudaMemPoolTrimTo_request :: "nat \<Rightarrow> u64 \<times> u64 \<Rightarrow> bytes option" where
  "corex_generated_encode_cudaMemPoolTrimTo_request capacity = (\<lambda>(pool, bytes).
     if capacity < 16 then None else Some (corex_protocol_write_u64 (corex_protocol_write_u64 [] pool) bytes))"

definition corex_generated_decode_cudaMemPoolTrimTo_request :: "bytes \<Rightarrow> (u64 \<times> u64) option" where
  "corex_generated_decode_cudaMemPoolTrimTo_request input =
     (if length input \<noteq> 16 then None
      else do {
        (pool, position1) \<leftarrow> corex_protocol_take_u64 input 0;
        (bytes, position2) \<leftarrow> corex_protocol_take_u64 input position1;
        if position2 = length input then Some (pool, bytes) else None
      })"

definition corex_generated_encode_cudaMemPoolGetAttribute_request :: "nat \<Rightarrow> u64 \<times> u32 \<Rightarrow> bytes option" where
  "corex_generated_encode_cudaMemPoolGetAttribute_request capacity = (\<lambda>(pool, attribute).
     if capacity < 12 then None else Some (corex_protocol_write_u32 (corex_protocol_write_u64 [] pool) attribute))"

definition corex_generated_decode_cudaMemPoolGetAttribute_request :: "bytes \<Rightarrow> (u64 \<times> u32) option" where
  "corex_generated_decode_cudaMemPoolGetAttribute_request input =
     (if length input \<noteq> 12 then None
      else do {
        (pool, position1) \<leftarrow> corex_protocol_take_u64 input 0;
        (attribute, position2) \<leftarrow> corex_protocol_take_u32 input position1;
        if position2 = length input then Some (pool, attribute) else None
      })"

definition corex_generated_encode_cudaMemPoolGetAttribute_response :: "nat \<Rightarrow> u64 \<Rightarrow> bytes option" where
  "corex_generated_encode_cudaMemPoolGetAttribute_response capacity = (\<lambda>val.
     if capacity < 8 then None else Some (corex_protocol_write_u64 [] val))"

definition corex_generated_decode_cudaMemPoolGetAttribute_response :: "bytes \<Rightarrow> (u64) option" where
  "corex_generated_decode_cudaMemPoolGetAttribute_response input =
     (if length input \<noteq> 8 then None
      else do {
        (val, position1) \<leftarrow> corex_protocol_take_u64 input 0;
        if position1 = length input then Some val else None
      })"

definition corex_generated_encode_cudaMemPoolSetAttribute_request :: "nat \<Rightarrow> u64 \<times> u32 \<times> u64 \<Rightarrow> bytes option" where
  "corex_generated_encode_cudaMemPoolSetAttribute_request capacity = (\<lambda>(pool, attribute, val).
     if capacity < 20 then None else Some (corex_protocol_write_u64 (corex_protocol_write_u32 (corex_protocol_write_u64 [] pool) attribute) val))"

definition corex_generated_decode_cudaMemPoolSetAttribute_request :: "bytes \<Rightarrow> (u64 \<times> u32 \<times> u64) option" where
  "corex_generated_decode_cudaMemPoolSetAttribute_request input =
     (if length input \<noteq> 20 then None
      else do {
        (pool, position1) \<leftarrow> corex_protocol_take_u64 input 0;
        (attribute, position2) \<leftarrow> corex_protocol_take_u32 input position1;
        (val, position3) \<leftarrow> corex_protocol_take_u64 input position2;
        if position3 = length input then Some (pool, attribute, val) else None
      })"

definition corex_generated_encode_cudaMemPoolGetAccess_request :: "nat \<Rightarrow> u64 \<times> u32 \<times> u32 \<Rightarrow> bytes option" where
  "corex_generated_encode_cudaMemPoolGetAccess_request capacity = (\<lambda>(pool, location_type, device).
     if capacity < 16 then None else Some (corex_protocol_write_u32 (corex_protocol_write_u32 (corex_protocol_write_u64 [] pool) location_type) device))"

definition corex_generated_decode_cudaMemPoolGetAccess_request :: "bytes \<Rightarrow> (u64 \<times> u32 \<times> u32) option" where
  "corex_generated_decode_cudaMemPoolGetAccess_request input =
     (if length input \<noteq> 16 then None
      else do {
        (pool, position1) \<leftarrow> corex_protocol_take_u64 input 0;
        (location_type, position2) \<leftarrow> corex_protocol_take_u32 input position1;
        (device, position3) \<leftarrow> corex_protocol_take_u32 input position2;
        if position3 = length input then Some (pool, location_type, device) else None
      })"

definition corex_generated_encode_cudaMemPoolGetAccess_response :: "nat \<Rightarrow> u32 \<Rightarrow> bytes option" where
  "corex_generated_encode_cudaMemPoolGetAccess_response capacity = (\<lambda>flags.
     if capacity < 4 then None else Some (corex_protocol_write_u32 [] flags))"

definition corex_generated_decode_cudaMemPoolGetAccess_response :: "bytes \<Rightarrow> (u32) option" where
  "corex_generated_decode_cudaMemPoolGetAccess_response input =
     (if length input \<noteq> 4 then None
      else do {
        (flags, position1) \<leftarrow> corex_protocol_take_u32 input 0;
        if position1 = length input then Some flags else None
      })"

definition corex_generated_encode_cudaMemPoolSetAccess_request :: "nat \<Rightarrow> u64 \<times> u32 \<times> u32 \<times> u32 \<times> u32 \<Rightarrow> bytes option" where
  "corex_generated_encode_cudaMemPoolSetAccess_request capacity = (\<lambda>(pool, count, location_type, device, flags).
     if capacity < 24 then None else Some (corex_protocol_write_u32 (corex_protocol_write_u32 (corex_protocol_write_u32 (corex_protocol_write_u32 (corex_protocol_write_u64 [] pool) count) location_type) device) flags))"

definition corex_generated_decode_cudaMemPoolSetAccess_request :: "bytes \<Rightarrow> (u64 \<times> u32 \<times> u32 \<times> u32 \<times> u32) option" where
  "corex_generated_decode_cudaMemPoolSetAccess_request input =
     (if length input \<noteq> 24 then None
      else do {
        (pool, position1) \<leftarrow> corex_protocol_take_u64 input 0;
        (count, position2) \<leftarrow> corex_protocol_take_u32 input position1;
        (location_type, position3) \<leftarrow> corex_protocol_take_u32 input position2;
        (device, position4) \<leftarrow> corex_protocol_take_u32 input position3;
        (flags, position5) \<leftarrow> corex_protocol_take_u32 input position4;
        if position5 = length input then Some (pool, count, location_type, device, flags) else None
      })"

definition corex_generated_encode_cudaMallocAsync_request :: "nat \<Rightarrow> u64 \<times> u64 \<Rightarrow> bytes option" where
  "corex_generated_encode_cudaMallocAsync_request capacity = (\<lambda>(bytes, stream).
     if capacity < 16 then None else Some (corex_protocol_write_u64 (corex_protocol_write_u64 [] bytes) stream))"

definition corex_generated_decode_cudaMallocAsync_request :: "bytes \<Rightarrow> (u64 \<times> u64) option" where
  "corex_generated_decode_cudaMallocAsync_request input =
     (if length input \<noteq> 16 then None
      else do {
        (bytes, position1) \<leftarrow> corex_protocol_take_u64 input 0;
        (stream, position2) \<leftarrow> corex_protocol_take_u64 input position1;
        if position2 = length input then Some (bytes, stream) else None
      })"

definition corex_generated_encode_cudaMallocAsync_response :: "nat \<Rightarrow> u64 \<Rightarrow> bytes option" where
  "corex_generated_encode_cudaMallocAsync_response capacity = (\<lambda>allocation.
     if capacity < 8 then None else Some (corex_protocol_write_u64 [] allocation))"

definition corex_generated_decode_cudaMallocAsync_response :: "bytes \<Rightarrow> (u64) option" where
  "corex_generated_decode_cudaMallocAsync_response input =
     (if length input \<noteq> 8 then None
      else do {
        (allocation, position1) \<leftarrow> corex_protocol_take_u64 input 0;
        if position1 = length input then Some allocation else None
      })"

definition corex_generated_encode_cudaMallocFromPoolAsync_request :: "nat \<Rightarrow> u64 \<times> u64 \<times> u64 \<Rightarrow> bytes option" where
  "corex_generated_encode_cudaMallocFromPoolAsync_request capacity = (\<lambda>(bytes, pool, stream).
     if capacity < 24 then None else Some (corex_protocol_write_u64 (corex_protocol_write_u64 (corex_protocol_write_u64 [] bytes) pool) stream))"

definition corex_generated_decode_cudaMallocFromPoolAsync_request :: "bytes \<Rightarrow> (u64 \<times> u64 \<times> u64) option" where
  "corex_generated_decode_cudaMallocFromPoolAsync_request input =
     (if length input \<noteq> 24 then None
      else do {
        (bytes, position1) \<leftarrow> corex_protocol_take_u64 input 0;
        (pool, position2) \<leftarrow> corex_protocol_take_u64 input position1;
        (stream, position3) \<leftarrow> corex_protocol_take_u64 input position2;
        if position3 = length input then Some (bytes, pool, stream) else None
      })"

definition corex_generated_encode_cudaMallocFromPoolAsync_response :: "nat \<Rightarrow> u64 \<Rightarrow> bytes option" where
  "corex_generated_encode_cudaMallocFromPoolAsync_response capacity = (\<lambda>allocation.
     if capacity < 8 then None else Some (corex_protocol_write_u64 [] allocation))"

definition corex_generated_decode_cudaMallocFromPoolAsync_response :: "bytes \<Rightarrow> (u64) option" where
  "corex_generated_decode_cudaMallocFromPoolAsync_response input =
     (if length input \<noteq> 8 then None
      else do {
        (allocation, position1) \<leftarrow> corex_protocol_take_u64 input 0;
        if position1 = length input then Some allocation else None
      })"

definition corex_generated_encode_cudaFreeAsync_request :: "nat \<Rightarrow> u64 \<times> u64 \<Rightarrow> bytes option" where
  "corex_generated_encode_cudaFreeAsync_request capacity = (\<lambda>(allocation, stream).
     if capacity < 16 then None else Some (corex_protocol_write_u64 (corex_protocol_write_u64 [] allocation) stream))"

definition corex_generated_decode_cudaFreeAsync_request :: "bytes \<Rightarrow> (u64 \<times> u64) option" where
  "corex_generated_decode_cudaFreeAsync_request input =
     (if length input \<noteq> 16 then None
      else do {
        (allocation, position1) \<leftarrow> corex_protocol_take_u64 input 0;
        (stream, position2) \<leftarrow> corex_protocol_take_u64 input position1;
        if position2 = length input then Some (allocation, stream) else None
      })"

definition corex_generated_encode_cudaDeviceGetGraphMemAttribute_request :: "nat \<Rightarrow> u32 \<times> u32 \<Rightarrow> bytes option" where
  "corex_generated_encode_cudaDeviceGetGraphMemAttribute_request capacity = (\<lambda>(device, attribute).
     if capacity < 8 then None else Some (corex_protocol_write_u32 (corex_protocol_write_u32 [] device) attribute))"

definition corex_generated_decode_cudaDeviceGetGraphMemAttribute_request :: "bytes \<Rightarrow> (u32 \<times> u32) option" where
  "corex_generated_decode_cudaDeviceGetGraphMemAttribute_request input =
     (if length input \<noteq> 8 then None
      else do {
        (device, position1) \<leftarrow> corex_protocol_take_u32 input 0;
        (attribute, position2) \<leftarrow> corex_protocol_take_u32 input position1;
        if position2 = length input then Some (device, attribute) else None
      })"

definition corex_generated_encode_cudaDeviceGetGraphMemAttribute_response :: "nat \<Rightarrow> u64 \<Rightarrow> bytes option" where
  "corex_generated_encode_cudaDeviceGetGraphMemAttribute_response capacity = (\<lambda>val.
     if capacity < 8 then None else Some (corex_protocol_write_u64 [] val))"

definition corex_generated_decode_cudaDeviceGetGraphMemAttribute_response :: "bytes \<Rightarrow> (u64) option" where
  "corex_generated_decode_cudaDeviceGetGraphMemAttribute_response input =
     (if length input \<noteq> 8 then None
      else do {
        (val, position1) \<leftarrow> corex_protocol_take_u64 input 0;
        if position1 = length input then Some val else None
      })"

definition corex_generated_encode_cudaDeviceSetGraphMemAttribute_request :: "nat \<Rightarrow> u32 \<times> u32 \<times> u64 \<Rightarrow> bytes option" where
  "corex_generated_encode_cudaDeviceSetGraphMemAttribute_request capacity = (\<lambda>(device, attribute, val).
     if capacity < 16 then None else Some (corex_protocol_write_u64 (corex_protocol_write_u32 (corex_protocol_write_u32 [] device) attribute) val))"

definition corex_generated_decode_cudaDeviceSetGraphMemAttribute_request :: "bytes \<Rightarrow> (u32 \<times> u32 \<times> u64) option" where
  "corex_generated_decode_cudaDeviceSetGraphMemAttribute_request input =
     (if length input \<noteq> 16 then None
      else do {
        (device, position1) \<leftarrow> corex_protocol_take_u32 input 0;
        (attribute, position2) \<leftarrow> corex_protocol_take_u32 input position1;
        (val, position3) \<leftarrow> corex_protocol_take_u64 input position2;
        if position3 = length input then Some (device, attribute, val) else None
      })"

definition corex_generated_encode_cudaDeviceGraphMemTrim_request :: "nat \<Rightarrow> u32 \<Rightarrow> bytes option" where
  "corex_generated_encode_cudaDeviceGraphMemTrim_request capacity = (\<lambda>device.
     if capacity < 4 then None else Some (corex_protocol_write_u32 [] device))"

definition corex_generated_decode_cudaDeviceGraphMemTrim_request :: "bytes \<Rightarrow> (u32) option" where
  "corex_generated_decode_cudaDeviceGraphMemTrim_request input =
     (if length input \<noteq> 4 then None
      else do {
        (device, position1) \<leftarrow> corex_protocol_take_u32 input 0;
        if position1 = length input then Some device else None
      })"

definition corex_generated_encode_cudaFuncGetAttributes_request :: "nat \<Rightarrow> u64 \<Rightarrow> bytes option" where
  "corex_generated_encode_cudaFuncGetAttributes_request capacity = (\<lambda>kernel.
     if capacity < 8 then None else Some (corex_protocol_write_u64 [] kernel))"

definition corex_generated_decode_cudaFuncGetAttributes_request :: "bytes \<Rightarrow> (u64) option" where
  "corex_generated_decode_cudaFuncGetAttributes_request input =
     (if length input \<noteq> 8 then None
      else do {
        (kernel, position1) \<leftarrow> corex_protocol_take_u64 input 0;
        if position1 = length input then Some kernel else None
      })"

definition corex_generated_encode_cudaFuncGetAttributes_response :: "nat \<Rightarrow> u32 \<times> u32 \<times> u32 \<times> u32 \<times> u32 \<times> u32 \<times> u32 \<times> u32 \<times> u32 \<Rightarrow> bytes option" where
  "corex_generated_encode_cudaFuncGetAttributes_response capacity = (\<lambda>(shared_bytes, const_bytes, local_bytes, registers, ptx_version, binary_version, max_threads, cache_mode_ca, max_dynamic_shared).
     if capacity < 36 then None else Some (corex_protocol_write_u32 (corex_protocol_write_u32 (corex_protocol_write_u32 (corex_protocol_write_u32 (corex_protocol_write_u32 (corex_protocol_write_u32 (corex_protocol_write_u32 (corex_protocol_write_u32 (corex_protocol_write_u32 [] shared_bytes) const_bytes) local_bytes) registers) ptx_version) binary_version) max_threads) cache_mode_ca) max_dynamic_shared))"

definition corex_generated_decode_cudaFuncGetAttributes_response :: "bytes \<Rightarrow> (u32 \<times> u32 \<times> u32 \<times> u32 \<times> u32 \<times> u32 \<times> u32 \<times> u32 \<times> u32) option" where
  "corex_generated_decode_cudaFuncGetAttributes_response input =
     (if length input \<noteq> 36 then None
      else do {
        (shared_bytes, position1) \<leftarrow> corex_protocol_take_u32 input 0;
        (const_bytes, position2) \<leftarrow> corex_protocol_take_u32 input position1;
        (local_bytes, position3) \<leftarrow> corex_protocol_take_u32 input position2;
        (registers, position4) \<leftarrow> corex_protocol_take_u32 input position3;
        (ptx_version, position5) \<leftarrow> corex_protocol_take_u32 input position4;
        (binary_version, position6) \<leftarrow> corex_protocol_take_u32 input position5;
        (max_threads, position7) \<leftarrow> corex_protocol_take_u32 input position6;
        (cache_mode_ca, position8) \<leftarrow> corex_protocol_take_u32 input position7;
        (max_dynamic_shared, position9) \<leftarrow> corex_protocol_take_u32 input position8;
        if position9 = length input then Some (shared_bytes, const_bytes, local_bytes, registers, ptx_version, binary_version, max_threads, cache_mode_ca, max_dynamic_shared) else None
      })"

section \<open>Shapes\<close>

lemma shape_64:
  fixes b :: bytes
  assumes "length b = 8"
  shows "\<exists>x0. b = be64 x0"
proof -
  obtain x0 r0 where s0: "b = be64 x0 @ r0" "length r0 = length b - 8"
    using split64 [of "b"] assms by auto
  have "r0 = []" using assms s0(2) by simp
  then show ?thesis using s0(1) by auto
qed

lemma shape_32:
  fixes b :: bytes
  assumes "length b = 4"
  shows "\<exists>x0. b = be32 x0"
proof -
  obtain x0 r0 where s0: "b = be32 x0 @ r0" "length r0 = length b - 4"
    using split32 [of "b"] assms by auto
  have "r0 = []" using assms s0(2) by simp
  then show ?thesis using s0(1) by auto
qed

lemma shape_32_32:
  fixes b :: bytes
  assumes "length b = 8"
  shows "\<exists>x0 x1. b = be32 x0 @ be32 x1"
proof -
  obtain x0 r0 where s0: "b = be32 x0 @ r0" "length r0 = length b - 4"
    using split32 [of "b"] assms by auto
  obtain x1 r1 where s1: "r0 = be32 x1 @ r1" "length r1 = length r0 - 4"
    using split32 [of "r0"] assms s0(2) by auto
  have "r1 = []" using assms s0(2) s1(2) by simp
  then show ?thesis using s0(1) s1(1) by auto
qed

lemma shape_64_32_32:
  fixes b :: bytes
  assumes "length b = 16"
  shows "\<exists>x0 x1 x2. b = be64 x0 @ be32 x1 @ be32 x2"
proof -
  obtain x0 r0 where s0: "b = be64 x0 @ r0" "length r0 = length b - 8"
    using split64 [of "b"] assms by auto
  obtain x1 r1 where s1: "r0 = be32 x1 @ r1" "length r1 = length r0 - 4"
    using split32 [of "r0"] assms s0(2) by auto
  obtain x2 r2 where s2: "r1 = be32 x2 @ r2" "length r2 = length r1 - 4"
    using split32 [of "r1"] assms s0(2) s1(2) by auto
  have "r2 = []" using assms s0(2) s1(2) s2(2) by simp
  then show ?thesis using s0(1) s1(1) s2(1) by auto
qed

lemma shape_64_32:
  fixes b :: bytes
  assumes "length b = 12"
  shows "\<exists>x0 x1. b = be64 x0 @ be32 x1"
proof -
  obtain x0 r0 where s0: "b = be64 x0 @ r0" "length r0 = length b - 8"
    using split64 [of "b"] assms by auto
  obtain x1 r1 where s1: "r0 = be32 x1 @ r1" "length r1 = length r0 - 4"
    using split32 [of "r0"] assms s0(2) by auto
  have "r1 = []" using assms s0(2) s1(2) by simp
  then show ?thesis using s0(1) s1(1) by auto
qed

lemma shape_64_32_64:
  fixes b :: bytes
  assumes "length b = 20"
  shows "\<exists>x0 x1 x2. b = be64 x0 @ be32 x1 @ be64 x2"
proof -
  obtain x0 r0 where s0: "b = be64 x0 @ r0" "length r0 = length b - 8"
    using split64 [of "b"] assms by auto
  obtain x1 r1 where s1: "r0 = be32 x1 @ r1" "length r1 = length r0 - 4"
    using split32 [of "r0"] assms s0(2) by auto
  obtain x2 r2 where s2: "r1 = be64 x2 @ r2" "length r2 = length r1 - 8"
    using split64 [of "r1"] assms s0(2) s1(2) by auto
  have "r2 = []" using assms s0(2) s1(2) s2(2) by simp
  then show ?thesis using s0(1) s1(1) s2(1) by auto
qed

lemma shape_32_64:
  fixes b :: bytes
  assumes "length b = 12"
  shows "\<exists>x0 x1. b = be32 x0 @ be64 x1"
proof -
  obtain x0 r0 where s0: "b = be32 x0 @ r0" "length r0 = length b - 4"
    using split32 [of "b"] assms by auto
  obtain x1 r1 where s1: "r0 = be64 x1 @ r1" "length r1 = length r0 - 8"
    using split64 [of "r0"] assms s0(2) by auto
  have "r1 = []" using assms s0(2) s1(2) by simp
  then show ?thesis using s0(1) s1(1) by auto
qed

lemma shape_64_64:
  fixes b :: bytes
  assumes "length b = 16"
  shows "\<exists>x0 x1. b = be64 x0 @ be64 x1"
proof -
  obtain x0 r0 where s0: "b = be64 x0 @ r0" "length r0 = length b - 8"
    using split64 [of "b"] assms by auto
  obtain x1 r1 where s1: "r0 = be64 x1 @ r1" "length r1 = length r0 - 8"
    using split64 [of "r0"] assms s0(2) by auto
  have "r1 = []" using assms s0(2) s1(2) by simp
  then show ?thesis using s0(1) s1(1) by auto
qed

lemma shape_64_64_64_32_32_32_32:
  fixes b :: bytes
  assumes "length b = 40"
  shows "\<exists>x0 x1 x2 x3 x4 x5 x6. b = be64 x0 @ be64 x1 @ be64 x2 @ be32 x3 @ be32 x4 @ be32 x5 @ be32 x6"
proof -
  obtain x0 r0 where s0: "b = be64 x0 @ r0" "length r0 = length b - 8"
    using split64 [of "b"] assms by auto
  obtain x1 r1 where s1: "r0 = be64 x1 @ r1" "length r1 = length r0 - 8"
    using split64 [of "r0"] assms s0(2) by auto
  obtain x2 r2 where s2: "r1 = be64 x2 @ r2" "length r2 = length r1 - 8"
    using split64 [of "r1"] assms s0(2) s1(2) by auto
  obtain x3 r3 where s3: "r2 = be32 x3 @ r3" "length r3 = length r2 - 4"
    using split32 [of "r2"] assms s0(2) s1(2) s2(2) by auto
  obtain x4 r4 where s4: "r3 = be32 x4 @ r4" "length r4 = length r3 - 4"
    using split32 [of "r3"] assms s0(2) s1(2) s2(2) s3(2) by auto
  obtain x5 r5 where s5: "r4 = be32 x5 @ r5" "length r5 = length r4 - 4"
    using split32 [of "r4"] assms s0(2) s1(2) s2(2) s3(2) s4(2) by auto
  obtain x6 r6 where s6: "r5 = be32 x6 @ r6" "length r6 = length r5 - 4"
    using split32 [of "r5"] assms s0(2) s1(2) s2(2) s3(2) s4(2) s5(2) by auto
  have "r6 = []" using assms s0(2) s1(2) s2(2) s3(2) s4(2) s5(2) s6(2) by simp
  then show ?thesis using s0(1) s1(1) s2(1) s3(1) s4(1) s5(1) s6(1) by auto
qed

lemma shape_64_32_64_64_64_32_32_32_32:
  fixes b :: bytes
  assumes "length b = 52"
  shows "\<exists>x0 x1 x2 x3 x4 x5 x6 x7 x8. b = be64 x0 @ be32 x1 @ be64 x2 @ be64 x3 @ be64 x4 @ be32 x5 @ be32 x6 @ be32 x7 @ be32 x8"
proof -
  obtain x0 r0 where s0: "b = be64 x0 @ r0" "length r0 = length b - 8"
    using split64 [of "b"] assms by auto
  obtain x1 r1 where s1: "r0 = be32 x1 @ r1" "length r1 = length r0 - 4"
    using split32 [of "r0"] assms s0(2) by auto
  obtain x2 r2 where s2: "r1 = be64 x2 @ r2" "length r2 = length r1 - 8"
    using split64 [of "r1"] assms s0(2) s1(2) by auto
  obtain x3 r3 where s3: "r2 = be64 x3 @ r3" "length r3 = length r2 - 8"
    using split64 [of "r2"] assms s0(2) s1(2) s2(2) by auto
  obtain x4 r4 where s4: "r3 = be64 x4 @ r4" "length r4 = length r3 - 8"
    using split64 [of "r3"] assms s0(2) s1(2) s2(2) s3(2) by auto
  obtain x5 r5 where s5: "r4 = be32 x5 @ r5" "length r5 = length r4 - 4"
    using split32 [of "r4"] assms s0(2) s1(2) s2(2) s3(2) s4(2) by auto
  obtain x6 r6 where s6: "r5 = be32 x6 @ r6" "length r6 = length r5 - 4"
    using split32 [of "r5"] assms s0(2) s1(2) s2(2) s3(2) s4(2) s5(2) by auto
  obtain x7 r7 where s7: "r6 = be32 x7 @ r7" "length r7 = length r6 - 4"
    using split32 [of "r6"] assms s0(2) s1(2) s2(2) s3(2) s4(2) s5(2) s6(2) by auto
  obtain x8 r8 where s8: "r7 = be32 x8 @ r8" "length r8 = length r7 - 4"
    using split32 [of "r7"] assms s0(2) s1(2) s2(2) s3(2) s4(2) s5(2) s6(2) s7(2) by auto
  have "r8 = []" using assms s0(2) s1(2) s2(2) s3(2) s4(2) s5(2) s6(2) s7(2) s8(2) by simp
  then show ?thesis using s0(1) s1(1) s2(1) s3(1) s4(1) s5(1) s6(1) s7(1) s8(1) by auto
qed

lemma shape_64_64_64_64_64_64_64_32:
  fixes b :: bytes
  assumes "length b = 60"
  shows "\<exists>x0 x1 x2 x3 x4 x5 x6 x7. b = be64 x0 @ be64 x1 @ be64 x2 @ be64 x3 @ be64 x4 @ be64 x5 @ be64 x6 @ be32 x7"
proof -
  obtain x0 r0 where s0: "b = be64 x0 @ r0" "length r0 = length b - 8"
    using split64 [of "b"] assms by auto
  obtain x1 r1 where s1: "r0 = be64 x1 @ r1" "length r1 = length r0 - 8"
    using split64 [of "r0"] assms s0(2) by auto
  obtain x2 r2 where s2: "r1 = be64 x2 @ r2" "length r2 = length r1 - 8"
    using split64 [of "r1"] assms s0(2) s1(2) by auto
  obtain x3 r3 where s3: "r2 = be64 x3 @ r3" "length r3 = length r2 - 8"
    using split64 [of "r2"] assms s0(2) s1(2) s2(2) by auto
  obtain x4 r4 where s4: "r3 = be64 x4 @ r4" "length r4 = length r3 - 8"
    using split64 [of "r3"] assms s0(2) s1(2) s2(2) s3(2) by auto
  obtain x5 r5 where s5: "r4 = be64 x5 @ r5" "length r5 = length r4 - 8"
    using split64 [of "r4"] assms s0(2) s1(2) s2(2) s3(2) s4(2) by auto
  obtain x6 r6 where s6: "r5 = be64 x6 @ r6" "length r6 = length r5 - 8"
    using split64 [of "r5"] assms s0(2) s1(2) s2(2) s3(2) s4(2) s5(2) by auto
  obtain x7 r7 where s7: "r6 = be32 x7 @ r7" "length r7 = length r6 - 4"
    using split32 [of "r6"] assms s0(2) s1(2) s2(2) s3(2) s4(2) s5(2) s6(2) by auto
  have "r7 = []" using assms s0(2) s1(2) s2(2) s3(2) s4(2) s5(2) s6(2) s7(2) by simp
  then show ?thesis using s0(1) s1(1) s2(1) s3(1) s4(1) s5(1) s6(1) s7(1) by auto
qed

lemma shape_64_64_64_64_64_64_64_32_64:
  fixes b :: bytes
  assumes "length b = 68"
  shows "\<exists>x0 x1 x2 x3 x4 x5 x6 x7 x8. b = be64 x0 @ be64 x1 @ be64 x2 @ be64 x3 @ be64 x4 @ be64 x5 @ be64 x6 @ be32 x7 @ be64 x8"
proof -
  obtain x0 r0 where s0: "b = be64 x0 @ r0" "length r0 = length b - 8"
    using split64 [of "b"] assms by auto
  obtain x1 r1 where s1: "r0 = be64 x1 @ r1" "length r1 = length r0 - 8"
    using split64 [of "r0"] assms s0(2) by auto
  obtain x2 r2 where s2: "r1 = be64 x2 @ r2" "length r2 = length r1 - 8"
    using split64 [of "r1"] assms s0(2) s1(2) by auto
  obtain x3 r3 where s3: "r2 = be64 x3 @ r3" "length r3 = length r2 - 8"
    using split64 [of "r2"] assms s0(2) s1(2) s2(2) by auto
  obtain x4 r4 where s4: "r3 = be64 x4 @ r4" "length r4 = length r3 - 8"
    using split64 [of "r3"] assms s0(2) s1(2) s2(2) s3(2) by auto
  obtain x5 r5 where s5: "r4 = be64 x5 @ r5" "length r5 = length r4 - 8"
    using split64 [of "r4"] assms s0(2) s1(2) s2(2) s3(2) s4(2) by auto
  obtain x6 r6 where s6: "r5 = be64 x6 @ r6" "length r6 = length r5 - 8"
    using split64 [of "r5"] assms s0(2) s1(2) s2(2) s3(2) s4(2) s5(2) by auto
  obtain x7 r7 where s7: "r6 = be32 x7 @ r7" "length r7 = length r6 - 4"
    using split32 [of "r6"] assms s0(2) s1(2) s2(2) s3(2) s4(2) s5(2) s6(2) by auto
  obtain x8 r8 where s8: "r7 = be64 x8 @ r8" "length r8 = length r7 - 8"
    using split64 [of "r7"] assms s0(2) s1(2) s2(2) s3(2) s4(2) s5(2) s6(2) s7(2) by auto
  have "r8 = []" using assms s0(2) s1(2) s2(2) s3(2) s4(2) s5(2) s6(2) s7(2) s8(2) by simp
  then show ?thesis using s0(1) s1(1) s2(1) s3(1) s4(1) s5(1) s6(1) s7(1) s8(1) by auto
qed

lemma shape_64_32_64_32:
  fixes b :: bytes
  assumes "length b = 24"
  shows "\<exists>x0 x1 x2 x3. b = be64 x0 @ be32 x1 @ be64 x2 @ be32 x3"
proof -
  obtain x0 r0 where s0: "b = be64 x0 @ r0" "length r0 = length b - 8"
    using split64 [of "b"] assms by auto
  obtain x1 r1 where s1: "r0 = be32 x1 @ r1" "length r1 = length r0 - 4"
    using split32 [of "r0"] assms s0(2) by auto
  obtain x2 r2 where s2: "r1 = be64 x2 @ r2" "length r2 = length r1 - 8"
    using split64 [of "r1"] assms s0(2) s1(2) by auto
  obtain x3 r3 where s3: "r2 = be32 x3 @ r3" "length r3 = length r2 - 4"
    using split32 [of "r2"] assms s0(2) s1(2) s2(2) by auto
  have "r3 = []" using assms s0(2) s1(2) s2(2) s3(2) by simp
  then show ?thesis using s0(1) s1(1) s2(1) s3(1) by auto
qed

lemma shape_64_64_32:
  fixes b :: bytes
  assumes "length b = 20"
  shows "\<exists>x0 x1 x2. b = be64 x0 @ be64 x1 @ be32 x2"
proof -
  obtain x0 r0 where s0: "b = be64 x0 @ r0" "length r0 = length b - 8"
    using split64 [of "b"] assms by auto
  obtain x1 r1 where s1: "r0 = be64 x1 @ r1" "length r1 = length r0 - 8"
    using split64 [of "r0"] assms s0(2) by auto
  obtain x2 r2 where s2: "r1 = be32 x2 @ r2" "length r2 = length r1 - 4"
    using split32 [of "r1"] assms s0(2) s1(2) by auto
  have "r2 = []" using assms s0(2) s1(2) s2(2) by simp
  then show ?thesis using s0(1) s1(1) s2(1) by auto
qed

lemma shape_32_32_32:
  fixes b :: bytes
  assumes "length b = 12"
  shows "\<exists>x0 x1 x2. b = be32 x0 @ be32 x1 @ be32 x2"
proof -
  obtain x0 r0 where s0: "b = be32 x0 @ r0" "length r0 = length b - 4"
    using split32 [of "b"] assms by auto
  obtain x1 r1 where s1: "r0 = be32 x1 @ r1" "length r1 = length r0 - 4"
    using split32 [of "r0"] assms s0(2) by auto
  obtain x2 r2 where s2: "r1 = be32 x2 @ r2" "length r2 = length r1 - 4"
    using split32 [of "r1"] assms s0(2) s1(2) by auto
  have "r2 = []" using assms s0(2) s1(2) s2(2) by simp
  then show ?thesis using s0(1) s1(1) s2(1) by auto
qed

lemma shape_64_32_32_32_32:
  fixes b :: bytes
  assumes "length b = 24"
  shows "\<exists>x0 x1 x2 x3 x4. b = be64 x0 @ be32 x1 @ be32 x2 @ be32 x3 @ be32 x4"
proof -
  obtain x0 r0 where s0: "b = be64 x0 @ r0" "length r0 = length b - 8"
    using split64 [of "b"] assms by auto
  obtain x1 r1 where s1: "r0 = be32 x1 @ r1" "length r1 = length r0 - 4"
    using split32 [of "r0"] assms s0(2) by auto
  obtain x2 r2 where s2: "r1 = be32 x2 @ r2" "length r2 = length r1 - 4"
    using split32 [of "r1"] assms s0(2) s1(2) by auto
  obtain x3 r3 where s3: "r2 = be32 x3 @ r3" "length r3 = length r2 - 4"
    using split32 [of "r2"] assms s0(2) s1(2) s2(2) by auto
  obtain x4 r4 where s4: "r3 = be32 x4 @ r4" "length r4 = length r3 - 4"
    using split32 [of "r3"] assms s0(2) s1(2) s2(2) s3(2) by auto
  have "r4 = []" using assms s0(2) s1(2) s2(2) s3(2) s4(2) by simp
  then show ?thesis using s0(1) s1(1) s2(1) s3(1) s4(1) by auto
qed

lemma shape_64_64_64:
  fixes b :: bytes
  assumes "length b = 24"
  shows "\<exists>x0 x1 x2. b = be64 x0 @ be64 x1 @ be64 x2"
proof -
  obtain x0 r0 where s0: "b = be64 x0 @ r0" "length r0 = length b - 8"
    using split64 [of "b"] assms by auto
  obtain x1 r1 where s1: "r0 = be64 x1 @ r1" "length r1 = length r0 - 8"
    using split64 [of "r0"] assms s0(2) by auto
  obtain x2 r2 where s2: "r1 = be64 x2 @ r2" "length r2 = length r1 - 8"
    using split64 [of "r1"] assms s0(2) s1(2) by auto
  have "r2 = []" using assms s0(2) s1(2) s2(2) by simp
  then show ?thesis using s0(1) s1(1) s2(1) by auto
qed

lemma shape_32_32_64:
  fixes b :: bytes
  assumes "length b = 16"
  shows "\<exists>x0 x1 x2. b = be32 x0 @ be32 x1 @ be64 x2"
proof -
  obtain x0 r0 where s0: "b = be32 x0 @ r0" "length r0 = length b - 4"
    using split32 [of "b"] assms by auto
  obtain x1 r1 where s1: "r0 = be32 x1 @ r1" "length r1 = length r0 - 4"
    using split32 [of "r0"] assms s0(2) by auto
  obtain x2 r2 where s2: "r1 = be64 x2 @ r2" "length r2 = length r1 - 8"
    using split64 [of "r1"] assms s0(2) s1(2) by auto
  have "r2 = []" using assms s0(2) s1(2) s2(2) by simp
  then show ?thesis using s0(1) s1(1) s2(1) by auto
qed

lemma shape_32_32_32_32_32_32_32_32_32:
  fixes b :: bytes
  assumes "length b = 36"
  shows "\<exists>x0 x1 x2 x3 x4 x5 x6 x7 x8. b = be32 x0 @ be32 x1 @ be32 x2 @ be32 x3 @ be32 x4 @ be32 x5 @ be32 x6 @ be32 x7 @ be32 x8"
proof -
  obtain x0 r0 where s0: "b = be32 x0 @ r0" "length r0 = length b - 4"
    using split32 [of "b"] assms by auto
  obtain x1 r1 where s1: "r0 = be32 x1 @ r1" "length r1 = length r0 - 4"
    using split32 [of "r0"] assms s0(2) by auto
  obtain x2 r2 where s2: "r1 = be32 x2 @ r2" "length r2 = length r1 - 4"
    using split32 [of "r1"] assms s0(2) s1(2) by auto
  obtain x3 r3 where s3: "r2 = be32 x3 @ r3" "length r3 = length r2 - 4"
    using split32 [of "r2"] assms s0(2) s1(2) s2(2) by auto
  obtain x4 r4 where s4: "r3 = be32 x4 @ r4" "length r4 = length r3 - 4"
    using split32 [of "r3"] assms s0(2) s1(2) s2(2) s3(2) by auto
  obtain x5 r5 where s5: "r4 = be32 x5 @ r5" "length r5 = length r4 - 4"
    using split32 [of "r4"] assms s0(2) s1(2) s2(2) s3(2) s4(2) by auto
  obtain x6 r6 where s6: "r5 = be32 x6 @ r6" "length r6 = length r5 - 4"
    using split32 [of "r5"] assms s0(2) s1(2) s2(2) s3(2) s4(2) s5(2) by auto
  obtain x7 r7 where s7: "r6 = be32 x7 @ r7" "length r7 = length r6 - 4"
    using split32 [of "r6"] assms s0(2) s1(2) s2(2) s3(2) s4(2) s5(2) s6(2) by auto
  obtain x8 r8 where s8: "r7 = be32 x8 @ r8" "length r8 = length r7 - 4"
    using split32 [of "r7"] assms s0(2) s1(2) s2(2) s3(2) s4(2) s5(2) s6(2) s7(2) by auto
  have "r8 = []" using assms s0(2) s1(2) s2(2) s3(2) s4(2) s5(2) s6(2) s7(2) s8(2) by simp
  then show ?thesis using s0(1) s1(1) s2(1) s3(1) s4(1) s5(1) s6(1) s7(1) s8(1) by auto
qed

section \<open>Every message satisfies the contract\<close>

interpretation cudaStreamQuery_request: wire_message "\<lambda>v. the (corex_generated_encode_cudaStreamQuery_request 8 v)" corex_generated_decode_cudaStreamQuery_request "\<lambda>_. True" "\<lambda>_. True"
  by unfold_locales
    (auto simp: corex_generated_encode_cudaStreamQuery_request_def corex_generated_decode_cudaStreamQuery_request_def codec_simps
      dest!: shape_64 split: if_splits)

interpretation cudaStreamQuery_response: wire_message "\<lambda>v. the (corex_generated_encode_cudaStreamQuery_response 4 v)" corex_generated_decode_cudaStreamQuery_response "\<lambda>_. True" "\<lambda>_. True"
  by unfold_locales
    (auto simp: corex_generated_encode_cudaStreamQuery_response_def corex_generated_decode_cudaStreamQuery_response_def codec_simps
      dest!: shape_32 split: if_splits)

interpretation cudaEventQuery_request: wire_message "\<lambda>v. the (corex_generated_encode_cudaEventQuery_request 8 v)" corex_generated_decode_cudaEventQuery_request "\<lambda>_. True" "\<lambda>_. True"
  by unfold_locales
    (auto simp: corex_generated_encode_cudaEventQuery_request_def corex_generated_decode_cudaEventQuery_request_def codec_simps
      dest!: shape_64 split: if_splits)

interpretation cudaEventQuery_response: wire_message "\<lambda>v. the (corex_generated_encode_cudaEventQuery_response 4 v)" corex_generated_decode_cudaEventQuery_response "\<lambda>_. True" "\<lambda>_. True"
  by unfold_locales
    (auto simp: corex_generated_encode_cudaEventQuery_response_def corex_generated_decode_cudaEventQuery_response_def codec_simps
      dest!: shape_32 split: if_splits)

interpretation cudaDriverGetVersion_response: wire_message "\<lambda>v. the (corex_generated_encode_cudaDriverGetVersion_response 4 v)" corex_generated_decode_cudaDriverGetVersion_response "\<lambda>_. True" "\<lambda>_. True"
  by unfold_locales
    (auto simp: corex_generated_encode_cudaDriverGetVersion_response_def corex_generated_decode_cudaDriverGetVersion_response_def codec_simps
      dest!: shape_32 split: if_splits)

interpretation cudaRuntimeGetVersion_response: wire_message "\<lambda>v. the (corex_generated_encode_cudaRuntimeGetVersion_response 4 v)" corex_generated_decode_cudaRuntimeGetVersion_response "\<lambda>_. True" "\<lambda>_. True"
  by unfold_locales
    (auto simp: corex_generated_encode_cudaRuntimeGetVersion_response_def corex_generated_decode_cudaRuntimeGetVersion_response_def codec_simps
      dest!: shape_32 split: if_splits)

interpretation cudaDeviceGetAttribute_request: wire_message "\<lambda>v. the (corex_generated_encode_cudaDeviceGetAttribute_request 8 v)" corex_generated_decode_cudaDeviceGetAttribute_request "\<lambda>_. True" "\<lambda>_. True"
  by unfold_locales
    (auto simp: corex_generated_encode_cudaDeviceGetAttribute_request_def corex_generated_decode_cudaDeviceGetAttribute_request_def codec_simps
      dest!: shape_32_32 split: if_splits)

interpretation cudaDeviceGetAttribute_response: wire_message "\<lambda>v. the (corex_generated_encode_cudaDeviceGetAttribute_response 4 v)" corex_generated_decode_cudaDeviceGetAttribute_response "\<lambda>_. True" "\<lambda>_. True"
  by unfold_locales
    (auto simp: corex_generated_encode_cudaDeviceGetAttribute_response_def corex_generated_decode_cudaDeviceGetAttribute_response_def codec_simps
      dest!: shape_32 split: if_splits)

interpretation cudaGetDeviceFlags_response: wire_message "\<lambda>v. the (corex_generated_encode_cudaGetDeviceFlags_response 4 v)" corex_generated_decode_cudaGetDeviceFlags_response "\<lambda>_. True" "\<lambda>_. True"
  by unfold_locales
    (auto simp: corex_generated_encode_cudaGetDeviceFlags_response_def corex_generated_decode_cudaGetDeviceFlags_response_def codec_simps
      dest!: shape_32 split: if_splits)

interpretation cudaDeviceGetStreamPriorityRange_response: wire_message "\<lambda>v. the (corex_generated_encode_cudaDeviceGetStreamPriorityRange_response 8 v)" corex_generated_decode_cudaDeviceGetStreamPriorityRange_response "\<lambda>_. True" "\<lambda>_. True"
  by unfold_locales
    (auto simp: corex_generated_encode_cudaDeviceGetStreamPriorityRange_response_def corex_generated_decode_cudaDeviceGetStreamPriorityRange_response_def codec_simps
      dest!: shape_32_32 split: if_splits)

interpretation cudaDeviceGetLimit_request: wire_message "\<lambda>v. the (corex_generated_encode_cudaDeviceGetLimit_request 4 v)" corex_generated_decode_cudaDeviceGetLimit_request "\<lambda>_. True" "\<lambda>_. True"
  by unfold_locales
    (auto simp: corex_generated_encode_cudaDeviceGetLimit_request_def corex_generated_decode_cudaDeviceGetLimit_request_def codec_simps
      dest!: shape_32 split: if_splits)

interpretation cudaDeviceGetLimit_response: wire_message "\<lambda>v. the (corex_generated_encode_cudaDeviceGetLimit_response 8 v)" corex_generated_decode_cudaDeviceGetLimit_response "\<lambda>_. True" "\<lambda>_. True"
  by unfold_locales
    (auto simp: corex_generated_encode_cudaDeviceGetLimit_response_def corex_generated_decode_cudaDeviceGetLimit_response_def codec_simps
      dest!: shape_64 split: if_splits)

interpretation cudaDeviceGetCacheConfig_response: wire_message "\<lambda>v. the (corex_generated_encode_cudaDeviceGetCacheConfig_response 4 v)" corex_generated_decode_cudaDeviceGetCacheConfig_response "\<lambda>_. True" "\<lambda>_. True"
  by unfold_locales
    (auto simp: corex_generated_encode_cudaDeviceGetCacheConfig_response_def corex_generated_decode_cudaDeviceGetCacheConfig_response_def codec_simps
      dest!: shape_32 split: if_splits)

interpretation cudaDeviceGetSharedMemConfig_response: wire_message "\<lambda>v. the (corex_generated_encode_cudaDeviceGetSharedMemConfig_response 4 v)" corex_generated_decode_cudaDeviceGetSharedMemConfig_response "\<lambda>_. True" "\<lambda>_. True"
  by unfold_locales
    (auto simp: corex_generated_encode_cudaDeviceGetSharedMemConfig_response_def corex_generated_decode_cudaDeviceGetSharedMemConfig_response_def codec_simps
      dest!: shape_32 split: if_splits)

interpretation cudaFuncSetAttribute_request: wire_message "\<lambda>v. the (corex_generated_encode_cudaFuncSetAttribute_request 16 v)" corex_generated_decode_cudaFuncSetAttribute_request "\<lambda>_. True" "\<lambda>_. True"
  by unfold_locales
    (auto simp: corex_generated_encode_cudaFuncSetAttribute_request_def corex_generated_decode_cudaFuncSetAttribute_request_def codec_simps
      dest!: shape_64_32_32 split: if_splits)

interpretation cudaFuncSetCacheConfig_request: wire_message "\<lambda>v. the (corex_generated_encode_cudaFuncSetCacheConfig_request 12 v)" corex_generated_decode_cudaFuncSetCacheConfig_request "\<lambda>_. True" "\<lambda>_. True"
  by unfold_locales
    (auto simp: corex_generated_encode_cudaFuncSetCacheConfig_request_def corex_generated_decode_cudaFuncSetCacheConfig_request_def codec_simps
      dest!: shape_64_32 split: if_splits)

interpretation cudaOccupancyMaxActiveBlocksPerMultiprocessor_request: wire_message "\<lambda>v. the (corex_generated_encode_cudaOccupancyMaxActiveBlocksPerMultiprocessor_request 20 v)" corex_generated_decode_cudaOccupancyMaxActiveBlocksPerMultiprocessor_request "\<lambda>_. True" "\<lambda>_. True"
  by unfold_locales
    (auto simp: corex_generated_encode_cudaOccupancyMaxActiveBlocksPerMultiprocessor_request_def corex_generated_decode_cudaOccupancyMaxActiveBlocksPerMultiprocessor_request_def codec_simps
      dest!: shape_64_32_64 split: if_splits)

interpretation cudaOccupancyMaxActiveBlocksPerMultiprocessor_response: wire_message "\<lambda>v. the (corex_generated_encode_cudaOccupancyMaxActiveBlocksPerMultiprocessor_response 4 v)" corex_generated_decode_cudaOccupancyMaxActiveBlocksPerMultiprocessor_response "\<lambda>_. True" "\<lambda>_. True"
  by unfold_locales
    (auto simp: corex_generated_encode_cudaOccupancyMaxActiveBlocksPerMultiprocessor_response_def corex_generated_decode_cudaOccupancyMaxActiveBlocksPerMultiprocessor_response_def codec_simps
      dest!: shape_32 split: if_splits)

interpretation cudaDeviceGetPCIBusId_request: wire_message "\<lambda>v. the (corex_generated_encode_cudaDeviceGetPCIBusId_request 4 v)" corex_generated_decode_cudaDeviceGetPCIBusId_request "\<lambda>_. True" "\<lambda>_. True"
  by unfold_locales
    (auto simp: corex_generated_encode_cudaDeviceGetPCIBusId_request_def corex_generated_decode_cudaDeviceGetPCIBusId_request_def codec_simps
      dest!: shape_32 split: if_splits)

interpretation cudaDeviceGetByPCIBusId_response: wire_message "\<lambda>v. the (corex_generated_encode_cudaDeviceGetByPCIBusId_response 4 v)" corex_generated_decode_cudaDeviceGetByPCIBusId_response "\<lambda>_. True" "\<lambda>_. True"
  by unfold_locales
    (auto simp: corex_generated_encode_cudaDeviceGetByPCIBusId_response_def corex_generated_decode_cudaDeviceGetByPCIBusId_response_def codec_simps
      dest!: shape_32 split: if_splits)

interpretation cudaDeviceSetLimit_request: wire_message "\<lambda>v. the (corex_generated_encode_cudaDeviceSetLimit_request 12 v)" corex_generated_decode_cudaDeviceSetLimit_request "\<lambda>_. True" "\<lambda>_. True"
  by unfold_locales
    (auto simp: corex_generated_encode_cudaDeviceSetLimit_request_def corex_generated_decode_cudaDeviceSetLimit_request_def codec_simps
      dest!: shape_32_64 split: if_splits)

interpretation cudaDeviceSetCacheConfig_request: wire_message "\<lambda>v. the (corex_generated_encode_cudaDeviceSetCacheConfig_request 4 v)" corex_generated_decode_cudaDeviceSetCacheConfig_request "\<lambda>_. True" "\<lambda>_. True"
  by unfold_locales
    (auto simp: corex_generated_encode_cudaDeviceSetCacheConfig_request_def corex_generated_decode_cudaDeviceSetCacheConfig_request_def codec_simps
      dest!: shape_32 split: if_splits)

interpretation cudaDeviceSetSharedMemConfig_request: wire_message "\<lambda>v. the (corex_generated_encode_cudaDeviceSetSharedMemConfig_request 4 v)" corex_generated_decode_cudaDeviceSetSharedMemConfig_request "\<lambda>_. True" "\<lambda>_. True"
  by unfold_locales
    (auto simp: corex_generated_encode_cudaDeviceSetSharedMemConfig_request_def corex_generated_decode_cudaDeviceSetSharedMemConfig_request_def codec_simps
      dest!: shape_32 split: if_splits)

interpretation cudaStreamCopyAttributes_request: wire_message "\<lambda>v. the (corex_generated_encode_cudaStreamCopyAttributes_request 16 v)" corex_generated_decode_cudaStreamCopyAttributes_request "\<lambda>_. True" "\<lambda>_. True"
  by unfold_locales
    (auto simp: corex_generated_encode_cudaStreamCopyAttributes_request_def corex_generated_decode_cudaStreamCopyAttributes_request_def codec_simps
      dest!: shape_64_64 split: if_splits)

interpretation cudaStreamGetAttribute_request: wire_message "\<lambda>v. the (corex_generated_encode_cudaStreamGetAttribute_request 12 v)" corex_generated_decode_cudaStreamGetAttribute_request "\<lambda>_. True" "\<lambda>_. True"
  by unfold_locales
    (auto simp: corex_generated_encode_cudaStreamGetAttribute_request_def corex_generated_decode_cudaStreamGetAttribute_request_def codec_simps
      dest!: shape_64_32 split: if_splits)

interpretation cudaStreamGetAttribute_response: wire_message "\<lambda>v. the (corex_generated_encode_cudaStreamGetAttribute_response 40 v)" corex_generated_decode_cudaStreamGetAttribute_response "\<lambda>_. True" "\<lambda>_. True"
  by unfold_locales
    (auto simp: corex_generated_encode_cudaStreamGetAttribute_response_def corex_generated_decode_cudaStreamGetAttribute_response_def codec_simps
      dest!: shape_64_64_64_32_32_32_32 split: if_splits)

interpretation cudaStreamSetAttribute_request: wire_message "\<lambda>v. the (corex_generated_encode_cudaStreamSetAttribute_request 52 v)" corex_generated_decode_cudaStreamSetAttribute_request "\<lambda>_. True" "\<lambda>_. True"
  by unfold_locales
    (auto simp: corex_generated_encode_cudaStreamSetAttribute_request_def corex_generated_decode_cudaStreamSetAttribute_request_def codec_simps
      dest!: shape_64_32_64_64_64_32_32_32_32 split: if_splits)

interpretation cudaMemset3D_request: wire_message "\<lambda>v. the (corex_generated_encode_cudaMemset3D_request 60 v)" corex_generated_decode_cudaMemset3D_request "\<lambda>_. True" "\<lambda>_. True"
  by unfold_locales
    (auto simp: corex_generated_encode_cudaMemset3D_request_def corex_generated_decode_cudaMemset3D_request_def codec_simps
      dest!: shape_64_64_64_64_64_64_64_32 split: if_splits)

interpretation cudaMemset3DAsync_request: wire_message "\<lambda>v. the (corex_generated_encode_cudaMemset3DAsync_request 68 v)" corex_generated_decode_cudaMemset3DAsync_request "\<lambda>_. True" "\<lambda>_. True"
  by unfold_locales
    (auto simp: corex_generated_encode_cudaMemset3DAsync_request_def corex_generated_decode_cudaMemset3DAsync_request_def codec_simps
      dest!: shape_64_64_64_64_64_64_64_32_64 split: if_splits)

interpretation cudaFuncSetSharedMemConfig_request: wire_message "\<lambda>v. the (corex_generated_encode_cudaFuncSetSharedMemConfig_request 12 v)" corex_generated_decode_cudaFuncSetSharedMemConfig_request "\<lambda>_. True" "\<lambda>_. True"
  by unfold_locales
    (auto simp: corex_generated_encode_cudaFuncSetSharedMemConfig_request_def corex_generated_decode_cudaFuncSetSharedMemConfig_request_def codec_simps
      dest!: shape_64_32 split: if_splits)

interpretation cudaOccupancyMaxActiveBlocksPerMultiprocessorWithFlags_request: wire_message "\<lambda>v. the (corex_generated_encode_cudaOccupancyMaxActiveBlocksPerMultiprocessorWithFlags_request 24 v)" corex_generated_decode_cudaOccupancyMaxActiveBlocksPerMultiprocessorWithFlags_request "\<lambda>_. True" "\<lambda>_. True"
  by unfold_locales
    (auto simp: corex_generated_encode_cudaOccupancyMaxActiveBlocksPerMultiprocessorWithFlags_request_def corex_generated_decode_cudaOccupancyMaxActiveBlocksPerMultiprocessorWithFlags_request_def codec_simps
      dest!: shape_64_32_64_32 split: if_splits)

interpretation cudaOccupancyMaxActiveBlocksPerMultiprocessorWithFlags_response: wire_message "\<lambda>v. the (corex_generated_encode_cudaOccupancyMaxActiveBlocksPerMultiprocessorWithFlags_response 4 v)" corex_generated_decode_cudaOccupancyMaxActiveBlocksPerMultiprocessorWithFlags_response "\<lambda>_. True" "\<lambda>_. True"
  by unfold_locales
    (auto simp: corex_generated_encode_cudaOccupancyMaxActiveBlocksPerMultiprocessorWithFlags_response_def corex_generated_decode_cudaOccupancyMaxActiveBlocksPerMultiprocessorWithFlags_response_def codec_simps
      dest!: shape_32 split: if_splits)

interpretation cudaOccupancyMaxPotentialBlockSize_request: wire_message "\<lambda>v. the (corex_generated_encode_cudaOccupancyMaxPotentialBlockSize_request 20 v)" corex_generated_decode_cudaOccupancyMaxPotentialBlockSize_request "\<lambda>_. True" "\<lambda>_. True"
  by unfold_locales
    (auto simp: corex_generated_encode_cudaOccupancyMaxPotentialBlockSize_request_def corex_generated_decode_cudaOccupancyMaxPotentialBlockSize_request_def codec_simps
      dest!: shape_64_64_32 split: if_splits)

interpretation cudaOccupancyMaxPotentialBlockSize_response: wire_message "\<lambda>v. the (corex_generated_encode_cudaOccupancyMaxPotentialBlockSize_response 8 v)" corex_generated_decode_cudaOccupancyMaxPotentialBlockSize_response "\<lambda>_. True" "\<lambda>_. True"
  by unfold_locales
    (auto simp: corex_generated_encode_cudaOccupancyMaxPotentialBlockSize_response_def corex_generated_decode_cudaOccupancyMaxPotentialBlockSize_response_def codec_simps
      dest!: shape_32_32 split: if_splits)

interpretation cudaLibraryGetKernelCount_request: wire_message "\<lambda>v. the (corex_generated_encode_cudaLibraryGetKernelCount_request 8 v)" corex_generated_decode_cudaLibraryGetKernelCount_request "\<lambda>_. True" "\<lambda>_. True"
  by unfold_locales
    (auto simp: corex_generated_encode_cudaLibraryGetKernelCount_request_def corex_generated_decode_cudaLibraryGetKernelCount_request_def codec_simps
      dest!: shape_64 split: if_splits)

interpretation cudaLibraryGetKernelCount_response: wire_message "\<lambda>v. the (corex_generated_encode_cudaLibraryGetKernelCount_response 4 v)" corex_generated_decode_cudaLibraryGetKernelCount_response "\<lambda>_. True" "\<lambda>_. True"
  by unfold_locales
    (auto simp: corex_generated_encode_cudaLibraryGetKernelCount_response_def corex_generated_decode_cudaLibraryGetKernelCount_response_def codec_simps
      dest!: shape_32 split: if_splits)

interpretation cudaLibraryEnumerateKernels_request: wire_message "\<lambda>v. the (corex_generated_encode_cudaLibraryEnumerateKernels_request 12 v)" corex_generated_decode_cudaLibraryEnumerateKernels_request "\<lambda>_. True" "\<lambda>_. True"
  by unfold_locales
    (auto simp: corex_generated_encode_cudaLibraryEnumerateKernels_request_def corex_generated_decode_cudaLibraryEnumerateKernels_request_def codec_simps
      dest!: shape_64_32 split: if_splits)

interpretation cudaGetSymbolAddress_response: wire_message "\<lambda>v. the (corex_generated_encode_cudaGetSymbolAddress_response 16 v)" corex_generated_decode_cudaGetSymbolAddress_response "\<lambda>_. True" "\<lambda>_. True"
  by unfold_locales
    (auto simp: corex_generated_encode_cudaGetSymbolAddress_response_def corex_generated_decode_cudaGetSymbolAddress_response_def codec_simps
      dest!: shape_64_64 split: if_splits)

interpretation cudaSetDeviceFlags_request: wire_message "\<lambda>v. the (corex_generated_encode_cudaSetDeviceFlags_request 4 v)" corex_generated_decode_cudaSetDeviceFlags_request "\<lambda>_. True" "\<lambda>_. True"
  by unfold_locales
    (auto simp: corex_generated_encode_cudaSetDeviceFlags_request_def corex_generated_decode_cudaSetDeviceFlags_request_def codec_simps
      dest!: shape_32 split: if_splits)

interpretation cudaDeviceGetDefaultMemPool_request: wire_message "\<lambda>v. the (corex_generated_encode_cudaDeviceGetDefaultMemPool_request 4 v)" corex_generated_decode_cudaDeviceGetDefaultMemPool_request "\<lambda>_. True" "\<lambda>_. True"
  by unfold_locales
    (auto simp: corex_generated_encode_cudaDeviceGetDefaultMemPool_request_def corex_generated_decode_cudaDeviceGetDefaultMemPool_request_def codec_simps
      dest!: shape_32 split: if_splits)

interpretation cudaDeviceGetDefaultMemPool_response: wire_message "\<lambda>v. the (corex_generated_encode_cudaDeviceGetDefaultMemPool_response 8 v)" corex_generated_decode_cudaDeviceGetDefaultMemPool_response "\<lambda>_. True" "\<lambda>_. True"
  by unfold_locales
    (auto simp: corex_generated_encode_cudaDeviceGetDefaultMemPool_response_def corex_generated_decode_cudaDeviceGetDefaultMemPool_response_def codec_simps
      dest!: shape_64 split: if_splits)

interpretation cudaDeviceGetMemPool_request: wire_message "\<lambda>v. the (corex_generated_encode_cudaDeviceGetMemPool_request 4 v)" corex_generated_decode_cudaDeviceGetMemPool_request "\<lambda>_. True" "\<lambda>_. True"
  by unfold_locales
    (auto simp: corex_generated_encode_cudaDeviceGetMemPool_request_def corex_generated_decode_cudaDeviceGetMemPool_request_def codec_simps
      dest!: shape_32 split: if_splits)

interpretation cudaDeviceGetMemPool_response: wire_message "\<lambda>v. the (corex_generated_encode_cudaDeviceGetMemPool_response 8 v)" corex_generated_decode_cudaDeviceGetMemPool_response "\<lambda>_. True" "\<lambda>_. True"
  by unfold_locales
    (auto simp: corex_generated_encode_cudaDeviceGetMemPool_response_def corex_generated_decode_cudaDeviceGetMemPool_response_def codec_simps
      dest!: shape_64 split: if_splits)

interpretation cudaDeviceSetMemPool_request: wire_message "\<lambda>v. the (corex_generated_encode_cudaDeviceSetMemPool_request 12 v)" corex_generated_decode_cudaDeviceSetMemPool_request "\<lambda>_. True" "\<lambda>_. True"
  by unfold_locales
    (auto simp: corex_generated_encode_cudaDeviceSetMemPool_request_def corex_generated_decode_cudaDeviceSetMemPool_request_def codec_simps
      dest!: shape_32_64 split: if_splits)

interpretation cudaMemPoolCreate_request: wire_message "\<lambda>v. the (corex_generated_encode_cudaMemPoolCreate_request 12 v)" corex_generated_decode_cudaMemPoolCreate_request "\<lambda>_. True" "\<lambda>_. True"
  by unfold_locales
    (auto simp: corex_generated_encode_cudaMemPoolCreate_request_def corex_generated_decode_cudaMemPoolCreate_request_def codec_simps
      dest!: shape_32_32_32 split: if_splits)

interpretation cudaMemPoolCreate_response: wire_message "\<lambda>v. the (corex_generated_encode_cudaMemPoolCreate_response 8 v)" corex_generated_decode_cudaMemPoolCreate_response "\<lambda>_. True" "\<lambda>_. True"
  by unfold_locales
    (auto simp: corex_generated_encode_cudaMemPoolCreate_response_def corex_generated_decode_cudaMemPoolCreate_response_def codec_simps
      dest!: shape_64 split: if_splits)

interpretation cudaMemPoolDestroy_request: wire_message "\<lambda>v. the (corex_generated_encode_cudaMemPoolDestroy_request 8 v)" corex_generated_decode_cudaMemPoolDestroy_request "\<lambda>_. True" "\<lambda>_. True"
  by unfold_locales
    (auto simp: corex_generated_encode_cudaMemPoolDestroy_request_def corex_generated_decode_cudaMemPoolDestroy_request_def codec_simps
      dest!: shape_64 split: if_splits)

interpretation cudaMemPoolTrimTo_request: wire_message "\<lambda>v. the (corex_generated_encode_cudaMemPoolTrimTo_request 16 v)" corex_generated_decode_cudaMemPoolTrimTo_request "\<lambda>_. True" "\<lambda>_. True"
  by unfold_locales
    (auto simp: corex_generated_encode_cudaMemPoolTrimTo_request_def corex_generated_decode_cudaMemPoolTrimTo_request_def codec_simps
      dest!: shape_64_64 split: if_splits)

interpretation cudaMemPoolGetAttribute_request: wire_message "\<lambda>v. the (corex_generated_encode_cudaMemPoolGetAttribute_request 12 v)" corex_generated_decode_cudaMemPoolGetAttribute_request "\<lambda>_. True" "\<lambda>_. True"
  by unfold_locales
    (auto simp: corex_generated_encode_cudaMemPoolGetAttribute_request_def corex_generated_decode_cudaMemPoolGetAttribute_request_def codec_simps
      dest!: shape_64_32 split: if_splits)

interpretation cudaMemPoolGetAttribute_response: wire_message "\<lambda>v. the (corex_generated_encode_cudaMemPoolGetAttribute_response 8 v)" corex_generated_decode_cudaMemPoolGetAttribute_response "\<lambda>_. True" "\<lambda>_. True"
  by unfold_locales
    (auto simp: corex_generated_encode_cudaMemPoolGetAttribute_response_def corex_generated_decode_cudaMemPoolGetAttribute_response_def codec_simps
      dest!: shape_64 split: if_splits)

interpretation cudaMemPoolSetAttribute_request: wire_message "\<lambda>v. the (corex_generated_encode_cudaMemPoolSetAttribute_request 20 v)" corex_generated_decode_cudaMemPoolSetAttribute_request "\<lambda>_. True" "\<lambda>_. True"
  by unfold_locales
    (auto simp: corex_generated_encode_cudaMemPoolSetAttribute_request_def corex_generated_decode_cudaMemPoolSetAttribute_request_def codec_simps
      dest!: shape_64_32_64 split: if_splits)

interpretation cudaMemPoolGetAccess_request: wire_message "\<lambda>v. the (corex_generated_encode_cudaMemPoolGetAccess_request 16 v)" corex_generated_decode_cudaMemPoolGetAccess_request "\<lambda>_. True" "\<lambda>_. True"
  by unfold_locales
    (auto simp: corex_generated_encode_cudaMemPoolGetAccess_request_def corex_generated_decode_cudaMemPoolGetAccess_request_def codec_simps
      dest!: shape_64_32_32 split: if_splits)

interpretation cudaMemPoolGetAccess_response: wire_message "\<lambda>v. the (corex_generated_encode_cudaMemPoolGetAccess_response 4 v)" corex_generated_decode_cudaMemPoolGetAccess_response "\<lambda>_. True" "\<lambda>_. True"
  by unfold_locales
    (auto simp: corex_generated_encode_cudaMemPoolGetAccess_response_def corex_generated_decode_cudaMemPoolGetAccess_response_def codec_simps
      dest!: shape_32 split: if_splits)

interpretation cudaMemPoolSetAccess_request: wire_message "\<lambda>v. the (corex_generated_encode_cudaMemPoolSetAccess_request 24 v)" corex_generated_decode_cudaMemPoolSetAccess_request "\<lambda>_. True" "\<lambda>_. True"
  by unfold_locales
    (auto simp: corex_generated_encode_cudaMemPoolSetAccess_request_def corex_generated_decode_cudaMemPoolSetAccess_request_def codec_simps
      dest!: shape_64_32_32_32_32 split: if_splits)

interpretation cudaMallocAsync_request: wire_message "\<lambda>v. the (corex_generated_encode_cudaMallocAsync_request 16 v)" corex_generated_decode_cudaMallocAsync_request "\<lambda>_. True" "\<lambda>_. True"
  by unfold_locales
    (auto simp: corex_generated_encode_cudaMallocAsync_request_def corex_generated_decode_cudaMallocAsync_request_def codec_simps
      dest!: shape_64_64 split: if_splits)

interpretation cudaMallocAsync_response: wire_message "\<lambda>v. the (corex_generated_encode_cudaMallocAsync_response 8 v)" corex_generated_decode_cudaMallocAsync_response "\<lambda>_. True" "\<lambda>_. True"
  by unfold_locales
    (auto simp: corex_generated_encode_cudaMallocAsync_response_def corex_generated_decode_cudaMallocAsync_response_def codec_simps
      dest!: shape_64 split: if_splits)

interpretation cudaMallocFromPoolAsync_request: wire_message "\<lambda>v. the (corex_generated_encode_cudaMallocFromPoolAsync_request 24 v)" corex_generated_decode_cudaMallocFromPoolAsync_request "\<lambda>_. True" "\<lambda>_. True"
  by unfold_locales
    (auto simp: corex_generated_encode_cudaMallocFromPoolAsync_request_def corex_generated_decode_cudaMallocFromPoolAsync_request_def codec_simps
      dest!: shape_64_64_64 split: if_splits)

interpretation cudaMallocFromPoolAsync_response: wire_message "\<lambda>v. the (corex_generated_encode_cudaMallocFromPoolAsync_response 8 v)" corex_generated_decode_cudaMallocFromPoolAsync_response "\<lambda>_. True" "\<lambda>_. True"
  by unfold_locales
    (auto simp: corex_generated_encode_cudaMallocFromPoolAsync_response_def corex_generated_decode_cudaMallocFromPoolAsync_response_def codec_simps
      dest!: shape_64 split: if_splits)

interpretation cudaFreeAsync_request: wire_message "\<lambda>v. the (corex_generated_encode_cudaFreeAsync_request 16 v)" corex_generated_decode_cudaFreeAsync_request "\<lambda>_. True" "\<lambda>_. True"
  by unfold_locales
    (auto simp: corex_generated_encode_cudaFreeAsync_request_def corex_generated_decode_cudaFreeAsync_request_def codec_simps
      dest!: shape_64_64 split: if_splits)

interpretation cudaDeviceGetGraphMemAttribute_request: wire_message "\<lambda>v. the (corex_generated_encode_cudaDeviceGetGraphMemAttribute_request 8 v)" corex_generated_decode_cudaDeviceGetGraphMemAttribute_request "\<lambda>_. True" "\<lambda>_. True"
  by unfold_locales
    (auto simp: corex_generated_encode_cudaDeviceGetGraphMemAttribute_request_def corex_generated_decode_cudaDeviceGetGraphMemAttribute_request_def codec_simps
      dest!: shape_32_32 split: if_splits)

interpretation cudaDeviceGetGraphMemAttribute_response: wire_message "\<lambda>v. the (corex_generated_encode_cudaDeviceGetGraphMemAttribute_response 8 v)" corex_generated_decode_cudaDeviceGetGraphMemAttribute_response "\<lambda>_. True" "\<lambda>_. True"
  by unfold_locales
    (auto simp: corex_generated_encode_cudaDeviceGetGraphMemAttribute_response_def corex_generated_decode_cudaDeviceGetGraphMemAttribute_response_def codec_simps
      dest!: shape_64 split: if_splits)

interpretation cudaDeviceSetGraphMemAttribute_request: wire_message "\<lambda>v. the (corex_generated_encode_cudaDeviceSetGraphMemAttribute_request 16 v)" corex_generated_decode_cudaDeviceSetGraphMemAttribute_request "\<lambda>_. True" "\<lambda>_. True"
  by unfold_locales
    (auto simp: corex_generated_encode_cudaDeviceSetGraphMemAttribute_request_def corex_generated_decode_cudaDeviceSetGraphMemAttribute_request_def codec_simps
      dest!: shape_32_32_64 split: if_splits)

interpretation cudaDeviceGraphMemTrim_request: wire_message "\<lambda>v. the (corex_generated_encode_cudaDeviceGraphMemTrim_request 4 v)" corex_generated_decode_cudaDeviceGraphMemTrim_request "\<lambda>_. True" "\<lambda>_. True"
  by unfold_locales
    (auto simp: corex_generated_encode_cudaDeviceGraphMemTrim_request_def corex_generated_decode_cudaDeviceGraphMemTrim_request_def codec_simps
      dest!: shape_32 split: if_splits)

interpretation cudaFuncGetAttributes_request: wire_message "\<lambda>v. the (corex_generated_encode_cudaFuncGetAttributes_request 8 v)" corex_generated_decode_cudaFuncGetAttributes_request "\<lambda>_. True" "\<lambda>_. True"
  by unfold_locales
    (auto simp: corex_generated_encode_cudaFuncGetAttributes_request_def corex_generated_decode_cudaFuncGetAttributes_request_def codec_simps
      dest!: shape_64 split: if_splits)

interpretation cudaFuncGetAttributes_response: wire_message "\<lambda>v. the (corex_generated_encode_cudaFuncGetAttributes_response 36 v)" corex_generated_decode_cudaFuncGetAttributes_response "\<lambda>_. True" "\<lambda>_. True"
  by unfold_locales
    (auto simp: corex_generated_encode_cudaFuncGetAttributes_response_def corex_generated_decode_cudaFuncGetAttributes_response_def codec_simps
      dest!: shape_32_32_32_32_32_32_32_32_32 split: if_splits)

end
