(* ===== verification/Streams.thy ===== *)
theory Streams
  imports Lifetime Codecs Samples
begin

text \<open>
  The stream and event requests of \<^verbatim>\<open>server/runtime_server.c\<close>: creation, queries, synchronisation,
  ordering between streams and events, and destruction behind the lifetime barriers.
\<close>

abbreviation (input) CU_STREAM_DEFAULT :: u32 where "CU_STREAM_DEFAULT \<equiv> 0"
abbreviation (input) CU_STREAM_NON_BLOCKING :: u32 where "CU_STREAM_NON_BLOCKING \<equiv> 1"
abbreviation (input) CU_EVENT_DEFAULT :: u32 where "CU_EVENT_DEFAULT \<equiv> 0"
abbreviation (input) CU_EVENT_BLOCKING_SYNC :: u32 where "CU_EVENT_BLOCKING_SYNC \<equiv> 1"
abbreviation (input) CU_EVENT_DISABLE_TIMING :: u32 where "CU_EVENT_DISABLE_TIMING \<equiv> 2"
abbreviation (input) STREAM_STATE_READY :: u32 where "STREAM_STATE_READY \<equiv> 0"
abbreviation (input) STREAM_STATE_PENDING :: u32 where "STREAM_STATE_PENDING \<equiv> 1"

section \<open>Streams\<close>

definition handle_create_stream :: handler where
  "handle_create_stream drv req_id p w =
     (if length p \<noteq> 4 then reply drv OP_CREATE_STREAM req_id ST_BAD_REQUEST [] w
      else do {
        flags \<leftarrow> rd32 p 0;
        if flags \<noteq> CU_STREAM_DEFAULT \<and> flags \<noteq> CU_STREAM_NON_BLOCKING
        then reply drv OP_CREATE_STREAM req_id ST_BAD_REQUEST [] w
        else case new_stream_slot (sess w) of
               None \<Rightarrow> reply drv OP_CREATE_STREAM req_id ST_NO_RESOURCE [] w
             | Some (i, s) \<Rightarrow>
                 (let (r, w) = invoke drv (Stream (B_stream_create flags)) (w\<lparr>sess := s\<rparr>)
                  in if o_rc r \<noteq> CUDA_SUCCESS
                     then reply drv OP_CREATE_STREAM req_id ST_CUDA_ERROR [] (put_sess (upd_stream i (\<lambda>_. zero_stream)) w)
                     else let w = put_sess (upd_stream i (\<lambda>e. e\<lparr>st_stream := o_val r\<rparr>)) w
                          in reply drv OP_CREATE_STREAM req_id ST_OK
                               (le_bytes64 (corex_protocol_to_be64 (st_id (streams (sess w) ! i)))) w)
      })"

definition handle_create_stream_priority :: handler where
  "handle_create_stream_priority drv req_id p w =
     (if length p \<noteq> 8 then reply drv OP_CREATE_STREAM_PRIORITY req_id ST_BAD_REQUEST [] w
      else do {
        flags \<leftarrow> rd32 p 0;
        priority \<leftarrow> rd32 p 4;
        if flags \<noteq> CU_STREAM_DEFAULT \<and> flags \<noteq> CU_STREAM_NON_BLOCKING
        then reply drv OP_CREATE_STREAM_PRIORITY req_id ST_BAD_REQUEST [] w
        else case new_stream_slot (sess w) of
               None \<Rightarrow> reply drv OP_CREATE_STREAM_PRIORITY req_id ST_NO_RESOURCE [] w
             | Some (i, s) \<Rightarrow>
                 (let (r, w) = invoke drv (Stream (B_stream_create_priority flags priority)) (w\<lparr>sess := s\<rparr>)
                  in if o_rc r \<noteq> CUDA_SUCCESS
                     then reply drv OP_CREATE_STREAM_PRIORITY req_id ST_CUDA_ERROR [] (put_sess (upd_stream i (\<lambda>_. zero_stream)) w)
                     else let w = put_sess (upd_stream i (\<lambda>e. e\<lparr>st_stream := o_val r\<rparr>)) w
                          in reply drv OP_CREATE_STREAM_PRIORITY req_id ST_OK
                               (le_bytes64 (corex_protocol_to_be64 (st_id (streams (sess w) ! i)))) w)
      })"

definition handle_stream_scalar :: "bool \<Rightarrow> handler" where
  "handle_stream_scalar priority drv req_id p w =
     (let opcode = (if priority then OP_STREAM_GET_PRIORITY else OP_STREAM_GET_FLAGS)
      in if length p \<noteq> 8 then reply drv opcode req_id ST_BAD_REQUEST [] w
         else do {
           n \<leftarrow> rd64 p 0;
           case find_stream (sess w) n of
             None \<Rightarrow> reply drv opcode req_id ST_NOT_FOUND [] w
           | Some i \<Rightarrow>
               (let stream = st_stream (streams (sess w) ! i);
                    (r, w) = invoke drv (Stream (if priority then B_stream_get_priority stream else B_stream_get_flags stream)) w
                in if o_rc r \<noteq> CUDA_SUCCESS then reply drv opcode req_id ST_CUDA_ERROR [] w
                   else reply drv opcode req_id ST_OK (corex_protocol_write_u32 [] (ucast (o_val r))) w)
         })"

definition handle_stream_get_flags :: handler where
  "handle_stream_get_flags = handle_stream_scalar False"

definition handle_stream_get_priority :: handler where
  "handle_stream_get_priority = handle_stream_scalar True"

definition handle_stream_query :: handler where
  "handle_stream_query drv req_id p w =
     (case corex_generated_decode_cudaStreamQuery_request p of
        None \<Rightarrow> reply drv OP_STREAM_QUERY req_id ST_BAD_REQUEST [] w
      | Some stream_id \<Rightarrow>
          (case resolve_stream_id (sess w) stream_id of
             None \<Rightarrow> reply drv OP_STREAM_QUERY req_id ST_NOT_FOUND [] w
           | Some stream \<Rightarrow>
               (let (r, w) = invoke drv (Stream (B_stream_query stream)) w
                in if o_rc r \<noteq> CUDA_SUCCESS \<and> o_rc r \<noteq> CUDA_ERROR_NOT_READY
                   then reply drv OP_STREAM_QUERY req_id ST_CUDA_ERROR [] w
                   else let state = (if o_rc r = CUDA_SUCCESS then STREAM_STATE_READY else STREAM_STATE_PENDING)
                        in case corex_generated_encode_cudaStreamQuery_response 4 state of
                             None \<Rightarrow> reply drv OP_STREAM_QUERY req_id ST_INTERNAL [] w
                           | Some wire_state \<Rightarrow> reply drv OP_STREAM_QUERY req_id ST_OK wire_state w)))"

definition handle_stream_sync :: handler where
  "handle_stream_sync drv req_id p w =
     (if length p \<noteq> 8 then reply drv OP_STREAM_SYNC req_id ST_BAD_REQUEST [] w
      else do {
        stream_id \<leftarrow> rd64 p 0;
        case resolve_stream_id (sess w) stream_id of
          None \<Rightarrow> reply drv OP_STREAM_SYNC req_id ST_NOT_FOUND [] w
        | Some stream \<Rightarrow>
            (let (r, w) = invoke drv (Stream (B_stream_sync stream)) w
             in if o_rc r \<noteq> CUDA_SUCCESS then reply drv OP_STREAM_SYNC req_id ST_CUDA_ERROR [] w
                else reply drv OP_STREAM_SYNC req_id ST_OK [] w)
      })"

definition handle_destroy_stream :: handler where
  "handle_destroy_stream drv req_id p w =
     (if length p \<noteq> 8 then reply drv OP_DESTROY_STREAM req_id ST_BAD_REQUEST [] w
      else do {
        stream_id \<leftarrow> rd64 p 0;
        case find_stream (sess w) stream_id of
          None \<Rightarrow> reply drv OP_DESTROY_STREAM req_id ST_NOT_FOUND [] w
        | Some i \<Rightarrow>
            (let stream = st_stream (streams (sess w) ! i);
                 (rc, w) = lifetime_stream_barrier drv stream w
             in if rc \<noteq> 0 then reply drv OP_DESTROY_STREAM req_id ST_CUDA_ERROR [] w
                else let (r, w) = invoke drv (Stream (B_stream_destroy stream)) w
                     in if o_rc r \<noteq> CUDA_SUCCESS then reply drv OP_DESTROY_STREAM req_id ST_CUDA_ERROR [] w
                        else reply drv OP_DESTROY_STREAM req_id ST_OK [] (put_sess (upd_stream i (\<lambda>_. zero_stream)) w))
      })"

section \<open>Events\<close>

definition handle_create_event :: handler where
  "handle_create_event drv req_id p w =
     (if length p \<noteq> 4 then reply drv OP_CREATE_EVENT req_id ST_BAD_REQUEST [] w
      else do {
        flags \<leftarrow> rd32 p 0;
        if flags \<noteq> CU_EVENT_DEFAULT \<and> flags \<noteq> CU_EVENT_BLOCKING_SYNC \<and> flags \<noteq> CU_EVENT_DISABLE_TIMING
        then reply drv OP_CREATE_EVENT req_id ST_BAD_REQUEST [] w
        else case new_event_slot (sess w) of
               None \<Rightarrow> reply drv OP_CREATE_EVENT req_id ST_NO_RESOURCE [] w
             | Some (i, s) \<Rightarrow>
                 (let (r, w) = invoke drv (Event (B_event_create flags)) (w\<lparr>sess := s\<rparr>)
                  in if o_rc r \<noteq> CUDA_SUCCESS
                     then reply drv OP_CREATE_EVENT req_id ST_CUDA_ERROR [] (put_sess (upd_event i (\<lambda>_. zero_event)) w)
                     else let w = put_sess (upd_event i (\<lambda>e. e\<lparr>e_event := o_val r, e_flags := flags\<rparr>)) w
                          in reply drv OP_CREATE_EVENT req_id ST_OK
                               (le_bytes64 (corex_protocol_to_be64 (e_id (events (sess w) ! i)))) w)
      })"

definition handle_event_record :: handler where
  "handle_event_record drv req_id p w =
     (if length p \<noteq> 16 then reply drv OP_EVENT_RECORD req_id ST_BAD_REQUEST [] w
      else do {
        event_id \<leftarrow> rd64 p 0;
        stream_id \<leftarrow> rd64 p 8;
        case find_event (sess w) event_id of
          None \<Rightarrow> reply drv OP_EVENT_RECORD req_id ST_NOT_FOUND [] w
        | Some i \<Rightarrow>
            (case resolve_stream_id (sess w) stream_id of
               None \<Rightarrow> reply drv OP_EVENT_RECORD req_id ST_NOT_FOUND [] w
             | Some stream \<Rightarrow>
                 (let (r, w) = invoke drv (Event (B_event_record (e_event (events (sess w) ! i)) stream)) w
                  in if o_rc r \<noteq> CUDA_SUCCESS then reply drv OP_EVENT_RECORD req_id ST_CUDA_ERROR [] w
                     else reply drv OP_EVENT_RECORD req_id ST_OK [] w))
      })"

definition handle_event_query :: handler where
  "handle_event_query drv req_id p w =
     (case corex_generated_decode_cudaEventQuery_request p of
        None \<Rightarrow> reply drv OP_EVENT_QUERY req_id ST_BAD_REQUEST [] w
      | Some event_id \<Rightarrow>
          (case find_event (sess w) event_id of
             None \<Rightarrow> reply drv OP_EVENT_QUERY req_id ST_NOT_FOUND [] w
           | Some i \<Rightarrow>
               (let (r, w) = invoke drv (Event (B_event_query (e_event (events (sess w) ! i)))) w
                in if o_rc r \<noteq> CUDA_SUCCESS \<and> o_rc r \<noteq> CUDA_ERROR_NOT_READY
                   then reply drv OP_EVENT_QUERY req_id ST_CUDA_ERROR [] w
                   else let state = (if o_rc r = CUDA_SUCCESS then STREAM_STATE_READY else STREAM_STATE_PENDING)
                        in case corex_generated_encode_cudaEventQuery_response 4 state of
                             None \<Rightarrow> reply drv OP_EVENT_QUERY req_id ST_INTERNAL [] w
                           | Some wire_state \<Rightarrow> reply drv OP_EVENT_QUERY req_id ST_OK wire_state w)))"

definition handle_event_sync :: handler where
  "handle_event_sync drv req_id p w =
     (if length p \<noteq> 8 then reply drv OP_EVENT_SYNC req_id ST_BAD_REQUEST [] w
      else do {
        event_id \<leftarrow> rd64 p 0;
        case find_event (sess w) event_id of
          None \<Rightarrow> reply drv OP_EVENT_SYNC req_id ST_NOT_FOUND [] w
        | Some i \<Rightarrow>
            (let (r, w) = invoke drv (Event (B_event_sync (e_event (events (sess w) ! i)))) w
             in if o_rc r \<noteq> CUDA_SUCCESS then reply drv OP_EVENT_SYNC req_id ST_CUDA_ERROR [] w
                else reply drv OP_EVENT_SYNC req_id ST_OK [] w)
      })"

text \<open>The elapsed time is a \<open>float\<close> whose bits are sent.\<close>

definition handle_event_elapsed :: handler where
  "handle_event_elapsed drv req_id p w =
     (if length p \<noteq> 16 then reply drv OP_EVENT_ELAPSED_TIME req_id ST_BAD_REQUEST [] w
      else do {
        start_id \<leftarrow> rd64 p 0;
        end_id \<leftarrow> rd64 p 8;
        case (find_event (sess w) start_id, find_event (sess w) end_id) of
          (Some i, Some j) \<Rightarrow>
            (let (r, w) = invoke drv (Event (B_event_elapsed (e_event (events (sess w) ! i)) (e_event (events (sess w) ! j)))) w
             in if o_rc r \<noteq> CUDA_SUCCESS then reply drv OP_EVENT_ELAPSED_TIME req_id ST_CUDA_ERROR [] w
                else reply drv OP_EVENT_ELAPSED_TIME req_id ST_OK (corex_protocol_write_u32 [] (ucast (o_val r))) w)
        | _ \<Rightarrow> reply drv OP_EVENT_ELAPSED_TIME req_id ST_NOT_FOUND [] w
      })"

definition handle_stream_wait_event :: handler where
  "handle_stream_wait_event drv req_id p w =
     (if length p \<noteq> 20 then reply drv OP_STREAM_WAIT_EVENT req_id ST_BAD_REQUEST [] w
      else do {
        stream_id \<leftarrow> rd64 p 0;
        event_id \<leftarrow> rd64 p 8;
        flags \<leftarrow> rd32 p 16;
        if flags \<noteq> 0 then reply drv OP_STREAM_WAIT_EVENT req_id ST_BAD_REQUEST [] w
        else case resolve_stream_id (sess w) stream_id of
               None \<Rightarrow> reply drv OP_STREAM_WAIT_EVENT req_id ST_NOT_FOUND [] w
             | Some stream \<Rightarrow>
                 (case find_event (sess w) event_id of
                    None \<Rightarrow> reply drv OP_STREAM_WAIT_EVENT req_id ST_NOT_FOUND [] w
                  | Some i \<Rightarrow>
                      (let (r, w) = invoke drv (Stream (B_stream_wait_event stream (e_event (events (sess w) ! i)) flags)) w
                       in if o_rc r \<noteq> CUDA_SUCCESS then reply drv OP_STREAM_WAIT_EVENT req_id ST_CUDA_ERROR [] w
                          else reply drv OP_STREAM_WAIT_EVENT req_id ST_OK [] w))
      })"

definition handle_destroy_event :: handler where
  "handle_destroy_event drv req_id p w =
     (if length p \<noteq> 8 then reply drv OP_DESTROY_EVENT req_id ST_BAD_REQUEST [] w
      else do {
        event_id \<leftarrow> rd64 p 0;
        case find_event (sess w) event_id of
          None \<Rightarrow> reply drv OP_DESTROY_EVENT req_id ST_NOT_FOUND [] w
        | Some i \<Rightarrow>
            (let event = e_event (events (sess w) ! i);
                 (rc, w) = lifetime_context_barrier drv w
             in if rc \<noteq> 0 then reply drv OP_DESTROY_EVENT req_id ST_CUDA_ERROR [] w
                else let (r, w) = invoke drv (Event (B_event_destroy event)) w
                     in if o_rc r \<noteq> CUDA_SUCCESS then reply drv OP_DESTROY_EVENT req_id ST_CUDA_ERROR [] w
                        else reply drv OP_DESTROY_EVENT req_id ST_OK [] (put_sess (upd_event i (\<lambda>_. zero_event)) w))
      })"

section \<open>Every handler meets the contract\<close>

lemma query_responses [simp]:
  "corex_generated_encode_cudaStreamQuery_response 4 v = Some (be32 v)"
  "corex_generated_encode_cudaEventQuery_response 4 v = Some (be32 v)"
  by (simp_all add: corex_generated_encode_cudaStreamQuery_response_def
      corex_generated_encode_cudaEventQuery_response_def wire_simps)

interpretation create_stream: safe_handler handle_create_stream OP_CREATE_STREAM
  by unfold_locales (auto simp: handle_create_stream_def run_simps new_stream_upd split: option.split)

interpretation create_stream_priority: safe_handler handle_create_stream_priority OP_CREATE_STREAM_PRIORITY
  by unfold_locales (auto simp: handle_create_stream_priority_def run_simps new_stream_upd split: option.split)

interpretation stream_get_flags: safe_handler handle_stream_get_flags OP_STREAM_GET_FLAGS
  by unfold_locales
    (auto simp: handle_stream_get_flags_def handle_stream_scalar_def run_simps wire_simps split: option.split)

interpretation stream_get_priority: safe_handler handle_stream_get_priority OP_STREAM_GET_PRIORITY
  by unfold_locales
    (auto simp: handle_stream_get_priority_def handle_stream_scalar_def run_simps wire_simps split: option.split)

interpretation stream_query: safe_handler handle_stream_query OP_STREAM_QUERY
  by unfold_locales (auto simp: handle_stream_query_def run_simps split: option.split)

interpretation stream_sync: safe_handler handle_stream_sync OP_STREAM_SYNC
  by unfold_locales (auto simp: handle_stream_sync_def run_simps split: option.split)

interpretation destroy_stream: safe_handler handle_destroy_stream OP_DESTROY_STREAM
  by unfold_locales
    (auto simp: handle_destroy_stream_def lifetime_stream_barrier_def run_simps erase_stream_inv split: option.split)

interpretation create_event: safe_handler handle_create_event OP_CREATE_EVENT
  by unfold_locales (auto simp: handle_create_event_def run_simps new_event_upd split: option.split)

interpretation event_record: safe_handler handle_event_record OP_EVENT_RECORD
  by unfold_locales (auto simp: handle_event_record_def run_simps split: option.split)

interpretation event_query: safe_handler handle_event_query OP_EVENT_QUERY
  by unfold_locales (auto simp: handle_event_query_def run_simps split: option.split)

interpretation event_sync: safe_handler handle_event_sync OP_EVENT_SYNC
  by unfold_locales (auto simp: handle_event_sync_def run_simps split: option.split)

interpretation event_elapsed: safe_handler handle_event_elapsed OP_EVENT_ELAPSED_TIME
  by unfold_locales (auto simp: handle_event_elapsed_def run_simps wire_simps split: option.split)

interpretation stream_wait_event: safe_handler handle_stream_wait_event OP_STREAM_WAIT_EVENT
  by unfold_locales (auto simp: handle_stream_wait_event_def run_simps split: option.split)

interpretation destroy_event: safe_handler handle_destroy_event OP_DESTROY_EVENT
  by unfold_locales
    (auto simp: handle_destroy_event_def lifetime_context_barrier_def run_simps erase_event_inv split: option.split)

section \<open>Properties\<close>

text \<open>The streams a client can name, with the native handle behind each.\<close>

definition stream_map :: "ServerSession \<Rightarrow> (u64 \<rightharpoonup> u64)" where
  "stream_map s k = map_option st_stream (slot_map st_used st_id (streams s) k)"

lemma stream_table: "session_inv n s \<Longrightarrow> table_inv st_used st_id (next_stream_id s) (streams s)"
  by (simp add: session_inv_def stream_inv_def)

lemma stream_map_new:
  assumes "session_inv n s" "Suc n < 2 ^ 64" "new_stream_slot s = Some (i, s')"
  shows "stream_map (upd_stream i (\<lambda>e. e\<lparr>st_stream := v\<rparr>) s') = (stream_map s)(next_stream_id s \<mapsto> v)"
    "stream_map (upd_stream i (\<lambda>_. zero_stream) s') = stream_map s"
    "stream_map s (next_stream_id s) = None" "st_id (streams (upd_stream i (\<lambda>e. e\<lparr>st_stream := v\<rparr>) s') ! i) = next_stream_id s"
proof -
  have ns: "new_slot st_used fresh_stream (streams s) (next_stream_id s) = Some (i, streams s', next_stream_id s')"
    using assms(3) by (auto simp: new_stream_slot_def split: option.splits)
  have n: "unat (next_stream_id s) \<le> n" using assms(1) by (simp add: session_inv_def stream_inv_def)
  note new = stream_tab.new_bounded [OF stream_table [OF assms(1)] n assms(2) ns]
  have i: "i < length (streams s')" "streams s' ! i = fresh_stream (next_stream_id s)" using new by simp_all
  have u: "st_used (streams s' ! i)" "st_id (streams s' ! i) = next_stream_id s"
    using i(2) stream_tab.used_fresh stream_tab.ident_fresh by simp_all
  note m = stream_tab.map_new [OF stream_table [OF assms(1)] ns]
  show none: "stream_map s (next_stream_id s) = None"
    using stream_tab.map_new_fresh [OF stream_table [OF assms(1)]] by (simp add: stream_map_def)
  have "slot_map st_used st_id ((streams s')[i := (streams s' ! i)\<lparr>st_stream := v\<rparr>])
      = (slot_map st_used st_id (streams s))(next_stream_id s \<mapsto> (streams s' ! i)\<lparr>st_stream := v\<rparr>)"
    using slot_map_update [OF new(1) i(1) u(1), of "(streams s' ! i)\<lparr>st_stream := v\<rparr>"] u m by simp
  then show "stream_map (upd_stream i (\<lambda>e. e\<lparr>st_stream := v\<rparr>) s') = (stream_map s)(next_stream_id s \<mapsto> v)"
    by (simp add: stream_map_def upd_stream_def fun_eq_iff)
  show "st_id (streams (upd_stream i (\<lambda>e. e\<lparr>st_stream := v\<rparr>) s') ! i) = next_stream_id s"
    using i u by (simp add: upd_stream_def)
  have "slot_map st_used st_id ((streams s')[i := zero_stream]) = (slot_map st_used st_id (streams s'))(next_stream_id s := None)"
    using stream_tab.map_erase [OF new(1), of "next_stream_id s" i] find_slot_eqI [OF new(1) i(1) u] by simp
  then show "stream_map (upd_stream i (\<lambda>_. zero_stream) s') = stream_map s"
    using stream_tab.map_new_fresh [OF stream_table [OF assms(1)]] by (simp add: stream_map_def upd_stream_def m fun_eq_iff)
qed

text \<open>
  C28. Creating a stream refines the insertion of a fresh key: the answer \<open>ST_OK\<close> carries an identifier
  that named no stream and now names the native stream the driver created, and no other stream
  changes; with wrong flags, a full table or a driver error the streams are as before.
\<close>

theorem create_stream_refines:
  assumes "session_inv n (sess w)" "Suc n < 2 ^ 64"
  shows "ends (handle_create_stream drv req_id p w) (\<lambda>rc w'.
    let flags = corex_protocol_read_u32 p; r = drv (calls w) (Stream (B_stream_create flags)); k = next_stream_id (sess w)
    in stream_map (sess w) k = None \<and>
       (if length p = 4 \<and> (flags = CU_STREAM_DEFAULT \<or> flags = CU_STREAM_NON_BLOCKING) \<and>
           free_slot st_used (streams (sess w)) \<noteq> None \<and> o_rc r = CUDA_SUCCESS
        then stream_map (sess w') = (stream_map (sess w))(k \<mapsto> o_val r) \<and>
             (rc = 0 \<longrightarrow> sent w' = sent w @ corex_protocol_encode_response_header OP_CREATE_STREAM req_id ST_OK 8 @ be64 k)
        else stream_map (sess w') = stream_map (sess w)))"
proof -
  have fresh: "stream_map (sess w) (next_stream_id (sess w)) = None"
    using stream_tab.map_new_fresh [OF stream_table [OF assms(1)]] by (simp add: stream_map_def)
  have full: "free_slot st_used (streams (sess w)) = None \<longleftrightarrow> new_stream_slot (sess w) = None"
    by (auto simp: new_stream_slot_def new_slot_def split: option.splits)
  show ?thesis
    using fresh full stream_map_new [OF assms]
    by (auto simp: handle_create_stream_def Let_def invoke_def le_bytes64_to_be64 send_response_sent split: option.split)
qed

theorem create_stream_refines_witness:
  "session_inv 1 (sess init_world) \<and>
   ends (handle_create_stream (ok_driver 77) 7 (be32 1) init_world) (\<lambda>rc w'. stream_map (sess w') = [1 \<mapsto> 77])"
proof -
  have "stream_map (sess init_world) = Map.empty" by (simp add: stream_map_def slot_map_def fun_eq_iff)
  then show ?thesis
    using create_stream_refines [OF init_world_inv, of "ok_driver 77" 7 "be32 1"] init_world_inv read_be_exact(2) [of 1]
    by (auto elim!: ends_mono simp: Let_def)
qed

text \<open>
  C29. A stream is destroyed only right after a successful synchronisation of that stream, and an event
  only right after a successful synchronisation of the context, whatever the driver answers.
\<close>

theorem destroy_fenced:
  "ends (handle_destroy_stream drv req_id p w) (\<lambda>rc w'. fences drv (calls w) (calls w')) \<and>
   ends (handle_destroy_event drv req_id p w) (\<lambda>rc w'. fences drv (calls w) (calls w'))"
  by (auto simp: handle_destroy_stream_def handle_destroy_event_def lifetime_stream_barrier_def
      lifetime_context_barrier_def Let_def invoke_def barrier_for_def split: option.split)

text \<open>
  Destroying a stream refines the deletion of its key: the identifier becomes stale exactly when
  the stream was idle after the barrier and the driver destroyed it; otherwise nothing changes.
\<close>

theorem destroy_stream_refines:
  assumes "session_inv n (sess w)" "find_stream (sess w) k = Some i" "p = be64 k"
  shows "ends (handle_destroy_stream drv req_id p w) (\<lambda>rc w'.
    let st = st_stream (streams (sess w) ! i)
    in stream_map (sess w') =
         (if o_rc (drv (calls w) (Stream (B_stream_sync st))) = CUDA_SUCCESS \<and>
             o_rc (drv (Stream (B_stream_sync st) # calls w) (Stream (B_stream_destroy st))) = CUDA_SUCCESS
          then (stream_map (sess w))(k := None) else stream_map (sess w)))"
proof -
  have "stream_map (upd_stream i (\<lambda>_. zero_stream) (sess w)) = (stream_map (sess w))(k := None)"
    using stream_tab.map_erase [OF stream_table [OF assms(1)], of k i] assms(2)
    by (simp add: find_stream_def stream_map_def upd_stream_def fun_eq_iff)
  then show ?thesis
    using assms(2,3) by (auto simp: handle_destroy_stream_def lifetime_stream_barrier_def Let_def invoke_def)
qed

definition stream_world :: world where
  "stream_world = init_world\<lparr>sess := upd_stream 0 (\<lambda>e. e\<lparr>st_stream := 77\<rparr>)
     (server_session_init\<lparr>streams := (replicate MAX_STREAMS zero_stream)[0 := fresh_stream 1], next_stream_id := 2\<rparr>)\<rparr>"

lemma stream_world_inv: "session_inv 2 (sess stream_world)" "find_stream (sess stream_world) 1 = Some 0"
proof -
  have ns: "new_stream_slot server_session_init = Some (0,
      server_session_init\<lparr>streams := (replicate MAX_STREAMS zero_stream)[0 := fresh_stream 1], next_stream_id := 2\<rparr>)"
    by (simp add: new_stream_slot_def new_slot_def)
  show inv: "session_inv 2 (sess stream_world)"
    using new_stream_upd(6) [OF session_inv_init _ ns, of "\<lambda>e. e\<lparr>st_stream := 77\<rparr>"] by (simp add: stream_world_def numeral_2_eq_2)
  show "find_stream (sess stream_world) 1 = Some 0"
    unfolding find_stream_def
    by (rule find_slot_eqI [OF stream_table [OF inv]]) (simp_all add: stream_world_def upd_stream_def fresh_stream_def)
qed

theorem destroy_stream_refines_witness:
  "ends (handle_destroy_stream (ok_driver 0) 7 (be64 1) stream_world) (\<lambda>rc w'. stream_map (sess w') 1 = None)"
  using destroy_stream_refines [OF stream_world_inv refl, of "ok_driver 0" 7] by (auto elim!: ends_mono simp: Let_def)

end
