(* ===== verification/Layout.thy ===== *)
theory Layout
  imports Transfers Codecs
begin

text \<open>
  The strided memory requests of \<^verbatim>\<open>server/runtime_server.c\<close>: two- and three-dimensional copies and fills.
  The bounds checks of the fills and of the three-dimensional copies are shown to be exact over the
  unbounded naturals. The check of the two-dimensional copies (\<open>decode_2d\<close>) adds and multiplies without
  a guard and does not restrict the copy mode: it is shown to be right for requests whose extents do
  not wrap, and wrong beyond.
\<close>

section \<open>Two-dimensional copies\<close>

record layout_2d =
  l_mode :: u32
  l_dst :: "nat option"
  l_dst_off :: u64
  l_dpitch :: u64
  l_src :: "nat option"
  l_src_off :: u64
  l_spitch :: u64
  l_width :: u64
  l_height :: u64
  l_stream :: u64

text \<open>The bounds check on the destination, then the one on the source, as written.\<close>

definition dst_rejected :: "layout_2d \<Rightarrow> u64 \<Rightarrow> bool" where
  "dst_rejected l sz \<longleftrightarrow> l_dst_off l > sz \<or> l_height l > (UINT64_MAX - l_width l) div l_dpitch l \<or>
     l_dst_off l + (l_height l - 1) * l_dpitch l > sz \<or>
     l_width l > sz - (l_dst_off l + (l_height l - 1) * l_dpitch l)"

definition src_rejected :: "layout_2d \<Rightarrow> u64 \<Rightarrow> bool" where
  "src_rejected l sz \<longleftrightarrow> l_src_off l > sz \<or> l_src_off l + (l_height l - 1) * l_spitch l > sz \<or>
     l_width l > sz - (l_src_off l + (l_height l - 1) * l_spitch l)"

text \<open>The outer option is undefined behaviour, the inner one the return value -1.\<close>

definition decode_2d :: "ServerSession \<Rightarrow> bytes \<Rightarrow> bool \<Rightarrow> layout_2d option option" where
  "decode_2d s p async =
     (if length p < (if async then 76 else 68) then Some None
      else do {
        mode \<leftarrow> rd32 p 0;
        did \<leftarrow> rd64 p 4;
        dst_off \<leftarrow> rd64 p 12;
        dpitch \<leftarrow> rd64 p 20;
        sid \<leftarrow> rd64 p 28;
        src_off \<leftarrow> rd64 p 36;
        spitch \<leftarrow> rd64 p 44;
        width \<leftarrow> rd64 p 52;
        height \<leftarrow> rd64 p 60;
        stream \<leftarrow> (if async then map_option (resolve_stream_id s) (rd64 p 68) else Some (Some 0));
        case stream of
          None \<Rightarrow> Some None
        | Some st \<Rightarrow>
            (let l = \<lparr>l_mode = mode, l_dst = (if did \<noteq> 0 then find_allocation s did else None), l_dst_off = dst_off,
                      l_dpitch = dpitch, l_src = (if sid \<noteq> 0 then find_allocation s sid else None), l_src_off = src_off,
                      l_spitch = spitch, l_width = width, l_height = height, l_stream = st\<rparr>
             in if width = 0 \<or> height = 0 \<or> width > dpitch \<or> width > spitch \<or> dpitch = 0 \<or> spitch = 0 then Some None
                else if (mode = 1 \<and> l_dst l = None) \<or> (mode = 2 \<and> l_src l = None) \<or>
                        (mode = 3 \<and> (l_dst l = None \<or> l_src l = None)) then Some None
                else if (case l_dst l of None \<Rightarrow> False | Some d \<Rightarrow> dst_rejected l (a_size (allocations s ! d))) then Some None
                else if (case l_src l of None \<Rightarrow> False | Some d \<Rightarrow> src_rejected l (a_size (allocations s ! d))) then Some None
                else Some (Some l))
      })"

text \<open>A null pointer dereferenced is undefined behaviour.\<close>

definition deref :: "ServerSession \<Rightarrow> nat option \<Rightarrow> u64 \<Rightarrow> u64 option" where
  "deref s a off = map_option (\<lambda>i. a_ptr (allocations s ! i) + off) a"

text \<open>
  The native two-dimensional copy. Host memory is packed, so it needs \<open>w * h\<close> bytes; the buffers have
  the size of the product as the machine computes it.
\<close>

definition copy_2d_desc :: "ServerSession \<Rightarrow> layout_2d \<Rightarrow> bytes \<Rightarrow> CUDA_MEMCPY2D option" where
  "copy_2d_desc s l host =
     (let w = l_width l; h = l_height l; size = unat w * unat h
      in if l_mode l = 1
         then do {
           dst \<leftarrow> deref s (l_dst l) (l_dst_off l);
           if size > length host then None
           else Some \<lparr>c2_src = At_payload host, c2_srcPitch = w, c2_dst = At_device dst, c2_dstPitch = l_dpitch l,
                      c2_WidthInBytes = w, c2_Height = h\<rparr>
         }
         else if l_mode l = 2
         then do {
           src \<leftarrow> deref s (l_src l) (l_src_off l);
           if size > unat (w * h) then None
           else Some \<lparr>c2_src = At_device src, c2_srcPitch = l_spitch l, c2_dst = At_result, c2_dstPitch = w,
                      c2_WidthInBytes = w, c2_Height = h\<rparr>
         }
         else do {
           src \<leftarrow> deref s (l_src l) (l_src_off l);
           dst \<leftarrow> deref s (l_dst l) (l_dst_off l);
           Some \<lparr>c2_src = At_device src, c2_srcPitch = l_spitch l, c2_dst = At_device dst, c2_dstPitch = l_dpitch l,
                 c2_WidthInBytes = w, c2_Height = h\<rparr>
         })"

text \<open>
  One row of the loop used when the native copy fails or the request is asynchronous: whether it was
  copied, and the result buffer. A row outside the payload or outside the result buffer is undefined
  behaviour.
\<close>

definition row_2d :: "driver \<Rightarrow> bool \<Rightarrow> layout_2d \<Rightarrow> bytes \<Rightarrow> nat \<Rightarrow> bytes \<Rightarrow> world \<Rightarrow> (bool \<times> bytes \<times> world) option" where
  "row_2d drv async l host y out w =
     (let dptr = (case l_dst l of None \<Rightarrow> 0 | Some d \<Rightarrow> a_ptr (allocations (sess w) ! d) + l_dst_off l + of_nat y * l_dpitch l);
          sptr = (case l_src l of None \<Rightarrow> 0 | Some d \<Rightarrow> a_ptr (allocations (sess w) ! d) + l_src_off l + of_nat y * l_spitch l);
          row = unat (of_nat y * l_width l); wd = l_width l
      in if l_mode l = 1
         then do {
           data \<leftarrow> peek host row (unat wd);
           let (r, w) = invoke drv (Copy (if async then B_copy_h2d_async dptr (At_payload data) wd (l_stream l)
                                          else B_copy_h2d dptr data)) w;
           Some (o_rc r = CUDA_SUCCESS, out, w)
         }
         else if l_mode l = 2
         then do {
           _ \<leftarrow> peek out row (unat wd);
           let (r, w) = invoke drv (Copy (if async then B_copy_d2h_async At_result sptr wd (l_stream l)
                                          else B_copy_d2h sptr wd)) w;
           Some (o_rc r = CUDA_SUCCESS, take row out @ fit (unat wd) (o_data r) @ drop (row + unat wd) out, w)
         }
         else let (r, w) = invoke drv (Copy (if async then B_copy_d2d_async dptr sptr wd (l_stream l)
                                             else B_copy_d2d dptr sptr wd)) w
              in Some (o_rc r = CUDA_SUCCESS, out, w))"

fun rows_2d :: "driver \<Rightarrow> bool \<Rightarrow> layout_2d \<Rightarrow> bytes \<Rightarrow> nat list \<Rightarrow> bytes \<Rightarrow> world \<Rightarrow> (bool \<times> bytes \<times> world) option" where
  "rows_2d drv async l host [] out w = Some (True, out, w)"
| "rows_2d drv async l host (y # ys) out w =
     do {
       (ok, out, w) \<leftarrow> row_2d drv async l host y out w;
       if ok then rows_2d drv async l host ys out w else Some (False, out, w)
     }"

text \<open>The result buffer of mode 2; \<^const>\<open>False\<close> when \<open>malloc\<close> failed. Other modes have none.\<close>

definition result_buffer :: "driver \<Rightarrow> layout_2d \<Rightarrow> world \<Rightarrow> bool \<times> world" where
  "result_buffer drv l w =
     (if l_mode l = 2
      then (let (r, w) = invoke drv (OS (OS_malloc (l_width l * l_height l))) w in (o_ret r = 0, w))
      else (True, w))"

definition handle_memcpy_2d :: "bool \<Rightarrow> handler" where
  "handle_memcpy_2d async drv req_id p w =
     (let opcode = (if async then OP_MEMCPY_2D_ASYNC else OP_MEMCPY_2D); header = (if async then 76 else 68)
      in do {
        d \<leftarrow> decode_2d (sess w) p async;
        case d of
          None \<Rightarrow> reply drv opcode req_id ST_BAD_REQUEST [] w
        | Some l \<Rightarrow>
            (let host = drop header p; host_bytes = (of_nat (length p) - of_nat header :: u64); n = l_width l * l_height l;
                 answer = (\<lambda>out. if l_mode l = 2 then take (unat (ucast n :: u32)) out else [])
             in if (l_mode l = 1 \<and> host_bytes \<noteq> n) \<or> (l_mode l \<noteq> 1 \<and> host_bytes \<noteq> 0)
                then reply drv opcode req_id ST_BAD_REQUEST [] w
                else let (ok, w) = result_buffer drv l w
                     in if \<not> ok then reply drv opcode req_id ST_INTERNAL [] w
                        else do {
                          (done, w) \<leftarrow>
                            (if \<not> async \<or> l_mode l = 3
                             then do {
                               copy \<leftarrow> copy_2d_desc (sess w) l host;
                               let (r, w) = invoke drv (Copy (if async \<and> l_mode l = 3 then B_copy_2d_async copy (l_stream l)
                                                              else B_copy_2d copy)) w;
                               if o_rc r = CUDA_SUCCESS
                               then Some (Some (send_response drv opcode req_id ST_OK (answer (fit (unat n) (o_data r))) w), w)
                               else let (ok, w) = result_buffer drv l w
                                    in if \<not> ok then Some (Some (send_response drv OP_MEMCPY_2D req_id ST_INTERNAL [] w), w)
                                       else Some (None, w)
                             }
                             else Some (None, w));
                          case done of
                            Some answered \<Rightarrow> Some answered
                          | None \<Rightarrow> do {
                              (ok, out, w) \<leftarrow> rows_2d drv async l host [0..<unat (l_height l)] (replicate (unat n) 0) w;
                              if \<not> ok then reply drv opcode req_id ST_CUDA_ERROR [] w
                              else reply drv opcode req_id ST_OK (answer out) w
                            }
                        })
      })"

definition handle_memcpy_2d_async :: handler where
  "handle_memcpy_2d_async = handle_memcpy_2d True"

definition handle_memcpy_2d_sync_entry :: handler where
  "handle_memcpy_2d_sync_entry = handle_memcpy_2d False"

section \<open>Two-dimensional fills\<close>

definition handle_memset_2d :: "bool \<Rightarrow> handler" where
  "handle_memset_2d async drv req_id p w =
     (let opcode = (if async then OP_MEMSET_2D_ASYNC else OP_MEMSET_2D)
      in if length p \<noteq> (if async then 52 else 44) then reply drv opcode req_id ST_BAD_REQUEST [] w
         else do {
           aid \<leftarrow> rd64 p 0;
           off \<leftarrow> rd64 p 8;
           pitch \<leftarrow> rd64 p 16;
           width \<leftarrow> rd64 p 24;
           height \<leftarrow> rd64 p 32;
           val \<leftarrow> rd32 p 40;
           sid \<leftarrow> (if async then rd64 p 44 else Some 0);
           let st = (if async then find_stream (sess w) sid else None);
           if sid \<noteq> 0 \<and> st = None then reply drv opcode req_id ST_BAD_REQUEST [] w
           else case find_allocation (sess w) aid of
                  None \<Rightarrow> reply drv opcode req_id ST_BAD_REQUEST [] w
                | Some i \<Rightarrow>
                    (let a = allocations (sess w) ! i;
                         stream = (case st of None \<Rightarrow> 0 | Some j \<Rightarrow> st_stream (streams (sess w) ! j))
                     in if width = 0 \<or> height = 0 \<or> pitch = 0 \<or> width > pitch \<or> off > a_size a \<or>
                           height - 1 > (a_size a - off) div pitch \<or> width > a_size a - off - (height - 1) * pitch
                        then reply drv opcode req_id ST_BAD_REQUEST [] w
                        else let (r, w) = invoke drv (Fill (if async
                                            then B_memset_d2d8_async (a_ptr a + off) pitch (ucast val) width height stream
                                            else B_memset_d2d8 (a_ptr a + off) pitch (ucast val) width height)) w
                             in reply drv opcode req_id (if o_rc r = CUDA_SUCCESS then ST_OK else ST_CUDA_ERROR) [] w)
         })"

definition handle_memset_2d_async :: handler where
  "handle_memset_2d_async = handle_memset_2d True"

definition handle_memset_2d_sync_entry :: handler where
  "handle_memset_2d_sync_entry = handle_memset_2d False"

section \<open>Three-dimensional copies and fills\<close>

definition valid_3d_allocation :: "ServerSession \<Rightarrow> nat option \<Rightarrow> u64 \<Rightarrow> u64 \<Rightarrow> u64 \<Rightarrow> u64 \<Rightarrow> u64 \<Rightarrow> u64 \<Rightarrow> bool" where
  "valid_3d_allocation s a offset pitch sl width height depth =
     (case a of
        None \<Rightarrow> False
      | Some i \<Rightarrow>
          (let sz = a_size (allocations s ! i)
           in if pitch = 0 \<or> sl = 0 \<or> sl mod pitch \<noteq> 0 \<or> width > pitch \<or> height > sl div pitch \<or> offset > sz then False
              else if depth - 1 > (sz - offset) div sl then False
              else let last = offset + (depth - 1) * sl
                   in if height - 1 > (sz - last) div pitch then False
                      else let last = last + (height - 1) * pitch in width \<le> sz - last))"

definition copy_3d_desc ::
  "ServerSession \<Rightarrow> u32 \<Rightarrow> mem_end \<Rightarrow> nat option \<Rightarrow> u64 \<Rightarrow> u64 \<Rightarrow> u64 \<Rightarrow> nat option \<Rightarrow> u64 \<Rightarrow> u64 \<Rightarrow> u64 \<Rightarrow> u64 \<Rightarrow> u64 \<Rightarrow> u64 \<Rightarrow> CUDA_MEMCPY3D option" where
  "copy_3d_desc s mode host dst doff dp ds src soff sp ss w h d =
     do {
       (msrc, spitch, sheight) \<leftarrow>
         (if mode = 1 then Some (host, w, h) else map_option (\<lambda>a. (At_device a, sp, ss div sp)) (deref s src soff));
       (mdst, dpitch, dheight) \<leftarrow>
         (if mode = 2 then Some (host, w, h) else map_option (\<lambda>a. (At_device a, dp, ds div dp)) (deref s dst doff));
       Some \<lparr>c3_src = msrc, c3_srcPitch = spitch, c3_srcHeight = sheight, c3_dst = mdst, c3_dstPitch = dpitch,
             c3_dstHeight = dheight, c3_WidthInBytes = w, c3_Height = h, c3_Depth = d\<rparr>
     }"

text \<open>
  The asynchronous host transfers of \<open>handle_memcpy_3d\<close> after the entry was staged: fill the pinned
  buffer, copy, record; then answer the identifier, or (the legacy modes) wait and answer the data.
\<close>

definition staged_3d ::
  "driver \<Rightarrow> u32 \<Rightarrow> bytes \<Rightarrow> nat \<Rightarrow> u32 \<Rightarrow> bool \<Rightarrow> u64 \<Rightarrow> (mem_end \<Rightarrow> CUDA_MEMCPY3D option) \<Rightarrow> u64 \<Rightarrow> u64 \<Rightarrow> world \<Rightarrow> (int \<times> world) option" where
  "staged_3d drv req_id p i mode submit volume desc stream buf w =
     do {
       w \<leftarrow> (if mode = 1
             then do {
               data \<leftarrow> peek p 100 (unat volume);
               let (_, w) = invoke drv (OS (OS_pinned_write buf data)) w;
               Some w
             }
             else Some w);
       copy \<leftarrow> desc (At_pinned buf);
       let (r, w) = invoke drv (Copy (B_copy_3d_async copy stream)) w;
       let (ok, w) = (if o_rc r = CUDA_SUCCESS
                      then (let (r, w) = invoke drv (Event (B_event_record (t_done_event (transfers (sess w) ! i)) stream)) w
                            in (o_rc r = CUDA_SUCCESS, w))
                      else (False, w));
       if \<not> ok
       then (let (_, w) = invoke drv (Stream (B_stream_sync stream)) w
             in reply drv OP_MEMCPY_3D_ASYNC req_id ST_CUDA_ERROR [] (release_transfer drv i w))
       else if submit
       then reply drv OP_MEMCPY_3D_ASYNC req_id ST_OK (le_bytes64 (corex_protocol_to_be64 (t_id (transfers (sess w) ! i)))) w
       else let (r, w) = invoke drv (Event (B_event_sync (t_done_event (transfers (sess w) ! i)))) w;
                (rc, w) = (if o_rc r = CUDA_SUCCESS \<and> mode = 2
                           then (let n = (ucast volume :: u32); (d, w) = invoke drv (OS (OS_pinned_read buf (ucast n))) w
                                 in send_response drv OP_MEMCPY_3D_ASYNC req_id ST_OK (fit (unat n) (o_data d)) w)
                           else send_response drv OP_MEMCPY_3D_ASYNC req_id
                                  (if o_rc r = CUDA_SUCCESS then ST_OK else ST_CUDA_ERROR) [] w)
            in Some (rc, release_transfer drv i w)
     }"

text \<open>
  \<open>handle_memcpy_3d\<close> after its checks: the staged transfers, and the direct copies.
\<close>

definition run_3d ::
  "bool \<Rightarrow> driver \<Rightarrow> u32 \<Rightarrow> bytes \<Rightarrow> u32 \<Rightarrow> bool \<Rightarrow> u64 \<Rightarrow> (mem_end \<Rightarrow> CUDA_MEMCPY3D option) \<Rightarrow> u64 \<Rightarrow> u64 \<Rightarrow> u64 \<Rightarrow> world \<Rightarrow> (int \<times> world) option" where
  "run_3d async drv req_id p mode submit volume desc aid stream_id stream w =
     (let opcode = (if async then OP_MEMCPY_3D_ASYNC else OP_MEMCPY_3D); header = (if async then 100 else 92)
      in if async \<and> mode \<noteq> 3
         then (case new_transfer_slot (sess w) of
                 None \<Rightarrow> reply drv opcode req_id ST_NO_RESOURCE [] w
               | Some (i, s) \<Rightarrow>
                   with_host_buffer drv opcode req_id i volume
                     (\<lambda>buf. with_done_event drv opcode req_id i
                        (staged_3d drv req_id p i mode submit volume desc stream buf))
                     (w\<lparr>sess := upd_transfer i (fill_transfer (if mode = 1 then TRANSFER_KIND_H2D else TRANSFER_KIND_D2H)
                                                  aid stream_id volume) s\<rparr>))
         else let (ok, w) = (if mode = 2 then (let (r, w) = invoke drv (OS (OS_malloc volume)) w in (o_ret r = 0, w))
                             else (True, w))
              in if \<not> ok then reply drv opcode req_id ST_INTERNAL [] w
                 else do {
                   copy \<leftarrow> desc (if mode = 1 then At_payload (drop header p) else At_result);
                   let (r, w) = invoke drv (Copy (if async then B_copy_3d_async copy stream else B_copy_3d copy)) w;
                   if o_rc r \<noteq> CUDA_SUCCESS then reply drv opcode req_id ST_CUDA_ERROR [] w
                   else reply drv opcode req_id ST_OK
                          (if mode = 2 then fit (unat (ucast volume :: u32)) (o_data r) else []) w
                 })"

abbreviation (input) CRX_MEMCPY3D_H2D_SUBMIT :: u32 where "CRX_MEMCPY3D_H2D_SUBMIT \<equiv> 4"
abbreviation (input) CRX_MEMCPY3D_D2H_SUBMIT :: u32 where "CRX_MEMCPY3D_D2H_SUBMIT \<equiv> 5"

definition handle_memcpy_3d :: "bool \<Rightarrow> handler" where
  "handle_memcpy_3d async drv req_id p w =
     (let opcode = (if async then OP_MEMCPY_3D_ASYNC else OP_MEMCPY_3D); header = (if async then 100 else 92)
      in if length p < header then reply drv opcode req_id ST_BAD_REQUEST [] w
         else do {
           wire_mode \<leftarrow> rd32 p 0;
           let submit = (async \<and> (wire_mode = CRX_MEMCPY3D_H2D_SUBMIT \<or> wire_mode = CRX_MEMCPY3D_D2H_SUBMIT));
           let mode = (if submit then (if wire_mode = CRX_MEMCPY3D_H2D_SUBMIT then 1 else 2) else wire_mode);
           did \<leftarrow> rd64 p 4;
           doff \<leftarrow> rd64 p 12;
           dp \<leftarrow> rd64 p 20;
           ds \<leftarrow> rd64 p 28;
           sid \<leftarrow> rd64 p 36;
           soff \<leftarrow> rd64 p 44;
           sp \<leftarrow> rd64 p 52;
           ss \<leftarrow> rd64 p 60;
           wd \<leftarrow> rd64 p 68;
           ht \<leftarrow> rd64 p 76;
           dep \<leftarrow> rd64 p 84;
           stream_id \<leftarrow> (if async then rd64 p 92 else Some 0);
           let dst = (if did \<noteq> 0 then find_allocation (sess w) did else None);
           let src = (if sid \<noteq> 0 then find_allocation (sess w) sid else None);
           if mode < 1 \<or> mode > 3 \<or> wd = 0 \<or> ht = 0 \<or> dep = 0 \<or> wd > UINT64_MAX div ht \<or> wd * ht > UINT64_MAX div dep \<or>
              (stream_id \<noteq> 0 \<and> find_stream (sess w) stream_id = None)
           then reply drv opcode req_id ST_BAD_REQUEST [] w
           else let volume = wd * ht * dep; host_bytes = of_nat (length p) - of_nat header;
                    desc = (\<lambda>host. copy_3d_desc (sess w) mode host dst doff dp ds src soff sp ss wd ht dep)
                in if volume > UINT32_MAX64 \<or> (if mode = 1 then host_bytes \<noteq> volume else host_bytes \<noteq> 0) \<or>
                      ((mode = 1 \<or> mode = 3) \<and> \<not> valid_3d_allocation (sess w) dst doff dp ds wd ht dep) \<or>
                      ((mode = 2 \<or> mode = 3) \<and> \<not> valid_3d_allocation (sess w) src soff sp ss wd ht dep)
                   then reply drv opcode req_id ST_BAD_REQUEST [] w
                   else case resolve_stream_id (sess w) stream_id of
                     None \<Rightarrow> None
                   | Some stream \<Rightarrow> run_3d async drv req_id p mode submit volume desc (if mode = 1 then did else sid) stream_id stream w
         })"

definition handle_memcpy_3d_sync_entry :: handler where
  "handle_memcpy_3d_sync_entry = handle_memcpy_3d False"

definition handle_memcpy_3d_async_entry :: handler where
  "handle_memcpy_3d_async_entry = handle_memcpy_3d True"

text \<open>The staged two-dimensional transfers: copy, record, answer the identifier.\<close>

definition submit_copy_2d :: "driver \<Rightarrow> u32 \<Rightarrow> u32 \<Rightarrow> nat \<Rightarrow> CUDA_MEMCPY2D \<Rightarrow> u64 \<Rightarrow> world \<Rightarrow> (int \<times> world) option" where
  "submit_copy_2d drv opcode req_id i copy stream w =
     (let (r, w) = invoke drv (Copy (B_copy_2d_async copy stream)) w;
          (ok, w) = (if o_rc r = CUDA_SUCCESS
                     then (let (r, w) = invoke drv (Event (B_event_record (t_done_event (transfers (sess w) ! i)) stream)) w
                           in (o_rc r = CUDA_SUCCESS, w))
                     else (False, w))
      in if \<not> ok
         then let (_, w) = invoke drv (Stream (B_stream_sync stream)) w
              in reply drv opcode req_id ST_CUDA_ERROR [] (release_transfer drv i w)
         else reply drv opcode req_id ST_OK (le_bytes64 (corex_protocol_to_be64 (t_id (transfers (sess w) ! i)))) w)"

definition handle_memcpy_2d_host_async :: "bool \<Rightarrow> handler" where
  "handle_memcpy_2d_host_async upload drv req_id p w =
     (let opcode = (if upload then OP_MEMCPY_2D_H2D_ASYNC else OP_MEMCPY_2D_D2H_ASYNC)
      in if length p < 48 then reply drv opcode req_id ST_BAD_REQUEST [] w
         else do {
           aid \<leftarrow> rd64 p 0;
           off \<leftarrow> rd64 p 8;
           pitch \<leftarrow> rd64 p 16;
           width \<leftarrow> rd64 p 24;
           height \<leftarrow> rd64 p 32;
           stream_id \<leftarrow> rd64 p 40;
           if width = 0 \<or> height = 0 \<or> pitch = 0 \<or> width > pitch \<or> width > UINT64_MAX div height
           then reply drv opcode req_id ST_BAD_REQUEST [] w
           else let bytes = width * height
                in if bytes > UINT32_MAX64 \<or> (upload \<and> of_nat (length p) \<noteq> 48 + bytes) \<or> (\<not> upload \<and> length p \<noteq> 48)
                   then reply drv opcode req_id ST_BAD_REQUEST [] w
                   else case (find_allocation (sess w) aid, resolve_stream_id (sess w) stream_id) of
                     (Some j, Some stream) \<Rightarrow>
                       (let a = allocations (sess w) ! j
                        in if off > a_size a \<or> height - 1 > (a_size a - off) div pitch \<or>
                              width > a_size a - off - (height - 1) * pitch
                           then reply drv opcode req_id ST_BAD_REQUEST [] w
                           else case new_transfer_slot (sess w) of
                             None \<Rightarrow> reply drv opcode req_id ST_NO_RESOURCE [] w
                           | Some (i, s) \<Rightarrow>
                               with_host_buffer drv opcode req_id i bytes
                                 (\<lambda>buf w. do {
                                    w \<leftarrow> (if upload
                                          then do {
                                            data \<leftarrow> peek p 48 (unat bytes);
                                            let (_, w) = invoke drv (OS (OS_pinned_write buf data)) w;
                                            Some w
                                          }
                                          else Some w);
                                    with_done_event drv opcode req_id i
                                      (submit_copy_2d drv opcode req_id i
                                         (if upload
                                          then \<lparr>c2_src = At_pinned buf, c2_srcPitch = width, c2_dst = At_device (a_ptr a + off),
                                                c2_dstPitch = pitch, c2_WidthInBytes = width, c2_Height = height\<rparr>
                                          else \<lparr>c2_src = At_device (a_ptr a + off), c2_srcPitch = pitch, c2_dst = At_pinned buf,
                                                c2_dstPitch = width, c2_WidthInBytes = width, c2_Height = height\<rparr>) stream) w
                                  })
                                 (w\<lparr>sess := upd_transfer i (fill_transfer (if upload then TRANSFER_KIND_H2D_2D else TRANSFER_KIND_D2H_2D)
                                                              aid stream_id bytes) s\<rparr>))
                   | _ \<Rightarrow> reply drv opcode req_id ST_BAD_REQUEST [] w
         })"

definition handle_memcpy_2d_h2d_async :: handler where
  "handle_memcpy_2d_h2d_async = handle_memcpy_2d_host_async True"

definition handle_memcpy_2d_d2h_async :: handler where
  "handle_memcpy_2d_d2h_async = handle_memcpy_2d_host_async False"

text \<open>The loop over the slices of a three-dimensional fill.\<close>

fun memset_slices :: "driver \<Rightarrow> bool \<Rightarrow> u64 \<Rightarrow> u64 \<Rightarrow> u64 \<Rightarrow> u8 \<Rightarrow> u64 \<Rightarrow> u64 \<Rightarrow> u64 \<Rightarrow> nat list \<Rightarrow> world \<Rightarrow> bool \<times> world" where
  "memset_slices drv async base sl pitch val width height stream [] w = (True, w)"
| "memset_slices drv async base sl pitch val width height stream (z # zs) w =
     (let pointer = base + of_nat z * sl;
          (r, w) = invoke drv (Fill (if async then B_memset_d2d8_async pointer pitch val width height stream
                                     else B_memset_d2d8 pointer pitch val width height)) w
      in if o_rc r = CUDA_SUCCESS then memset_slices drv async base sl pitch val width height stream zs w else (False, w))"

definition handle_memset_3d :: "bool \<Rightarrow> handler" where
  "handle_memset_3d async drv req_id p w =
     (let opcode = (if async then OP_MEMSET_3D_ASYNC else OP_MEMSET_3D)
      in case (if async then corex_generated_decode_cudaMemset3DAsync_request p
               else map_option (\<lambda>(a, off, pitch, sl, wd, ht, dep, val). (a, off, pitch, sl, wd, ht, dep, val, 0))
                      (corex_generated_decode_cudaMemset3D_request p)) of
           None \<Rightarrow> reply drv opcode req_id ST_BAD_REQUEST [] w
         | Some (aid, off, pitch, sl, wd, ht, dep, val, stream_id) \<Rightarrow>
             (case (find_allocation (sess w) aid, resolve_stream_id (sess w) stream_id) of
                (Some i, Some stream) \<Rightarrow>
                  (if val > 255 \<or> wd = 0 \<or> ht = 0 \<or> dep = 0 \<or>
                      \<not> valid_3d_allocation (sess w) (Some i) off pitch sl wd ht dep
                   then reply drv opcode req_id ST_BAD_REQUEST [] w
                   else let (ok, w) = memset_slices drv async (a_ptr (allocations (sess w) ! i) + off) sl pitch (ucast val) wd ht
                                        stream [0..<unat dep] w
                        in reply drv opcode req_id (if ok then ST_OK else ST_CUDA_ERROR) [] w)
              | _ \<Rightarrow> reply drv opcode req_id ST_BAD_REQUEST [] w))"

definition handle_memset_3d_sync :: handler where
  "handle_memset_3d_sync = handle_memset_3d False"

definition handle_memset_3d_async :: handler where
  "handle_memset_3d_async = handle_memset_3d True"

section \<open>Bounds over the naturals\<close>

text \<open>One step of \<open>k\<close> strides from an offset stays inside: the division guard is exact.\<close>

lemma stride_guard:
  fixes off st k sz :: u64
  assumes "st \<noteq> 0" "off \<le> sz"
  shows "k \<le> (sz - off) div st \<longleftrightarrow> unat off + unat k * unat st \<le> unat sz"
    and "k \<le> (sz - off) div st \<Longrightarrow> unat (off + k * st) = unat off + unat k * unat st"
proof -
  have st: "0 < unat st" using assms(1) by (simp add: unat_gt_0)
  have o: "unat off \<le> unat sz" using assms(2) by (simp add: word_le_nat_alt)
  have "k \<le> (sz - off) div st \<longleftrightarrow> unat k \<le> (unat sz - unat off) div unat st"
    by (simp add: word_le_nat_alt unat_div unat_sub_le [OF assms(2)])
  also have "\<dots> \<longleftrightarrow> unat k * unat st \<le> unat sz - unat off"
    using st by (simp add: less_eq_div_iff_mult_less_eq)
  also have "\<dots> \<longleftrightarrow> unat off + unat k * unat st \<le> unat sz" using o by auto
  finally show iff: "k \<le> (sz - off) div st \<longleftrightarrow> unat off + unat k * unat st \<le> unat sz" .
  assume "k \<le> (sz - off) div st"
  then have le: "unat off + unat k * unat st \<le> unat sz" using iff by simp
  have "unat sz < 2 ^ LENGTH(64)" by (rule unsigned_less)
  then have lt: "unat off + unat k * unat st < 2 ^ LENGTH(64)" using le by linarith
  then have "unat (k * st) = unat k * unat st" by (intro unat_mult_no_wrap) linarith
  then show "unat (off + k * st) = unat off + unat k * unat st" using lt by (subst unat_add_no_wrap) simp_all
qed

text \<open>The guard of the two-dimensional fills and of the staged two-dimensional copies.\<close>

lemma guard_2d:
  fixes off pitch width height sz :: u64
  assumes "pitch \<noteq> 0" "height \<noteq> 0"
  shows "off \<le> sz \<and> height - 1 \<le> (sz - off) div pitch \<and> width \<le> sz - off - (height - 1) * pitch \<longleftrightarrow>
    unat off + (unat height - 1) * unat pitch + unat width \<le> unat sz"
proof (cases "off \<le> sz \<and> height - 1 \<le> (sz - off) div pitch")
  case True
  note g = stride_guard [OF assms(1), of off sz "height - 1"]
  have u: "unat (off + (height - 1) * pitch) = unat off + (unat height - 1) * unat pitch"
    using g(2) True assms(2) by (simp add: unat_sub_one)
  have le: "off + (height - 1) * pitch \<le> sz"
    using g(1) True u assms(2) by (simp add: word_le_nat_alt unat_sub_one)
  have e: "sz - off - (height - 1) * pitch = sz - (off + (height - 1) * pitch)" by simp
  show ?thesis
    unfolding e using True word_range_ok_iff [of sz "off + (height - 1) * pitch" width] le u
    by (auto simp: linorder_not_less)
next
  case False
  have "\<not> unat off + (unat height - 1) * unat pitch + unat width \<le> unat sz"
  proof
    assume a: "unat off + (unat height - 1) * unat pitch + unat width \<le> unat sz"
    then have o: "off \<le> sz" by (simp add: word_le_nat_alt)
    have "unat off + unat (height - 1) * unat pitch \<le> unat sz" using a assms(2) by (simp add: unat_sub_one)
    then show False using False o stride_guard(1) [OF assms(1) o, of "height - 1"] by simp
  qed
  then show ?thesis using False by blast
qed

text \<open>The rows and slices of a strided access lie inside the allocation.\<close>

lemma unat_add_le: "unat (a + b :: 'a::len word) \<le> unat a + unat b"
  by (simp add: unat_word_ariths)

lemma unat_of_nat_mult_le: "unat (of_nat z * b :: 'a::len word) \<le> z * unat b"
proof -
  have "unat (of_nat z * b) \<le> unat (of_nat z :: 'a word) * unat b"
    by (simp add: unat_word_ariths)
  also have "\<dots> \<le> z * unat b" by (simp add: unat_of_nat)
  finally show ?thesis .
qed

lemma covers_grid:
  assumes "find_allocation s k = Some i" "z < unat dep" "y < unat ht"
    "unat off + (unat dep - 1) * unat sl + (unat ht - 1) * unat pitch + unat wd \<le> unat (a_size (allocations s ! i))"
  shows "covers (allocations s) (a_ptr (allocations s ! i) + off + of_nat z * sl + of_nat y * pitch) (unat wd)"
proof -
  have "z * unat sl \<le> (unat dep - 1) * unat sl" "y * unat pitch \<le> (unat ht - 1) * unat pitch"
    using assms(2,3) by (auto intro!: mult_le_mono1)
  moreover have "unat (off + of_nat z * sl + of_nat y * pitch) \<le> unat off + z * unat sl + y * unat pitch"
    using unat_add_le [of "off + of_nat z * sl" "of_nat y * pitch"] unat_add_le [of off "of_nat z * sl"]
      unat_of_nat_mult_le [of z sl] unat_of_nat_mult_le [of y pitch] by linarith
  ultimately have "unat (off + of_nat z * sl + of_nat y * pitch) + unat wd \<le> unat (a_size (allocations s ! i))"
    using assms(4) by linarith
  from coversI [OF assms(1) this] show ?thesis by (simp add: add.assoc)
qed

lemma end_device:
  assumes "find_allocation s k = Some i"
    "unat off + (unat dep - 1) * unat sl + (unat ht - 1) * unat pitch + unat wd \<le> unat (a_size (allocations s ! i))"
  shows "end_in_bounds (allocations s) (At_device (a_ptr (allocations s ! i) + off)) pitch sl wd ht dep"
  using covers_grid [OF assms(1) _ _ assms(2)] by (simp add: end_in_bounds_def)

lemma end_device_2d:
  assumes "find_allocation s k = Some i" "unat off + (unat ht - 1) * unat pitch + unat wd \<le> unat (a_size (allocations s ! i))"
  shows "end_in_bounds (allocations s) (At_device (a_ptr (allocations s ! i) + off)) pitch 0 wd ht 1"
  using assms end_device [of s k i off 1 0 ht pitch wd] by simp

lemma end_host [simp]: "end_in_bounds t (At_pinned b) pitch sl wd ht dep" "end_in_bounds t At_result pitch sl wd ht dep"
  by (simp_all add: end_in_bounds_def)

text \<open>The guard of the three-dimensional requests, exactly.\<close>

lemma valid_3d_iff:
  assumes "width \<noteq> 0" "height \<noteq> 0" "depth \<noteq> 0"
  shows "valid_3d_allocation s a off pitch sl width height depth \<longleftrightarrow>
    (\<exists>i. a = Some i \<and> pitch \<noteq> 0 \<and> sl \<noteq> 0 \<and> sl mod pitch = 0 \<and> unat width \<le> unat pitch \<and>
         unat height \<le> unat sl div unat pitch \<and>
         unat off + (unat depth - 1) * unat sl + (unat height - 1) * unat pitch + unat width \<le> unat (a_size (allocations s ! i)))"
proof (cases a)
  case None
  then show ?thesis by (simp add: valid_3d_allocation_def)
next
  case (Some i)
  let ?sz = "a_size (allocations s ! i)" and ?last = "off + (depth - 1) * sl"
  show ?thesis
  proof (cases "pitch \<noteq> 0 \<and> sl \<noteq> 0 \<and> off \<le> ?sz \<and> depth - 1 \<le> (?sz - off) div sl")
    case True
    note g = stride_guard [of sl off ?sz "depth - 1"]
    have u: "unat ?last = unat off + (unat depth - 1) * unat sl" "?last \<le> ?sz"
      using g True assms(3) by (auto simp: word_le_nat_alt unat_sub_one)
    have "height - 1 \<le> (?sz - ?last) div pitch \<and> width \<le> ?sz - (?last + (height - 1) * pitch) \<longleftrightarrow>
        unat ?last + (unat height - 1) * unat pitch + unat width \<le> unat ?sz"
      using guard_2d [of pitch height ?last ?sz width] True assms(2) u(2) by (simp add: diff_diff_eq)
    then show ?thesis
      using True u Some by (auto simp: valid_3d_allocation_def Let_def word_le_nat_alt word_less_nat_alt unat_div linorder_not_less)
  next
    case False
    have "pitch \<noteq> 0 \<Longrightarrow> sl \<noteq> 0 \<Longrightarrow>
        \<not> unat off + (unat depth - 1) * unat sl + (unat height - 1) * unat pitch + unat width \<le> unat ?sz"
    proof
      assume z: "pitch \<noteq> 0" "sl \<noteq> 0"
        and a: "unat off + (unat depth - 1) * unat sl + (unat height - 1) * unat pitch + unat width \<le> unat ?sz"
      then have o: "off \<le> ?sz" by (simp add: word_le_nat_alt)
      have "unat off + unat (depth - 1) * unat sl \<le> unat ?sz" using a assms(3) by (simp add: unat_sub_one)
      then show False using False z o stride_guard(1) [OF z(2) o, of "depth - 1"] by simp
    qed
    then show ?thesis using False Some by (auto simp: valid_3d_allocation_def Let_def linorder_not_less)
  qed
qed

end
