(* ===== verification/Layout_Safety.thy ===== *)
theory Layout_Safety
  imports Layout
begin

text \<open>
  The strided requests meet the handler contract: every row and slice they let the driver touch lies
  inside the named allocation, and what they stage is released or handed to the client.
\<close>

section \<open>Fills\<close>

lemma guard_2d_end:
  assumes "find_allocation s k = Some i" "pitch \<noteq> 0" "height \<noteq> 0"
    "\<not> (off > a_size (allocations s ! i) \<or> height - 1 > (a_size (allocations s ! i) - off) div pitch \<or>
        width > a_size (allocations s ! i) - off - (height - 1) * pitch)"
  shows "end_in_bounds (allocations s) (At_device (a_ptr (allocations s ! i) + off)) pitch 0 width height 1"
  using guard_2d [OF assms(2,3), of off "a_size (allocations s ! i)" width] assms(4)
  by (intro end_device_2d [OF assms(1)]) (simp add: linorder_not_less)

text \<open>A reply after one more call.\<close>

lemma call_reply:
  assumes "session_inv n (sess w)" "call_in_bounds (allocations (sess w)) c" "\<not> pin_call c" "length pl < 2 ^ 32"
  shows "safely_served n drv op rid w (fst (send_response drv op rid st pl (snd (invoke drv c w))))
      (snd (send_response drv op rid st pl (snd (invoke drv c w))))"
  using assms by (intro safe_reply) simp_all

lemma fill_call:
  "call_in_bounds t (Fill (B_memset_d2d8_async a pitch v width height st)) = end_in_bounds t (At_device a) pitch 0 width height 1"
  "call_in_bounds t (Fill (B_memset_d2d8 a pitch v width height)) = end_in_bounds t (At_device a) pitch 0 width height 1"
  "\<not> pin_call (Fill c)"
  by (simp_all add: call_in_bounds_def pin_call_def)

lemma memset_2d_serves:
  assumes i: "session_inv n (sess w)"
  shows "ends (handle_memset_2d async drv req_id p w)
    (safely_served n drv (if async then OP_MEMSET_2D_ASYNC else OP_MEMSET_2D) req_id w)"
  unfolding handle_memset_2d_def Let_def invoke_case
  by (intro handler_vcg; (rule error_reply [OF i] call_reply [OF i])?)
    (simp_all add: fill_call, auto intro: guard_2d_end)

interpretation memset_2d_async: safe_handler handle_memset_2d_async OP_MEMSET_2D_ASYNC
  using memset_2d_serves [where async = True] by unfold_locales (simp add: handle_memset_2d_async_def)

interpretation memset_2d_sync: safe_handler handle_memset_2d_sync_entry OP_MEMSET_2D
  using memset_2d_serves [where async = False] by unfold_locales (simp add: handle_memset_2d_sync_entry_def)

lemma memset_slices_effect:
  assumes "\<forall>z \<in> set zs. end_in_bounds t (At_device (base + of_nat z * sl)) pitch 0 width height 1"
    "memset_slices drv async base sl pitch val width height stream zs w = (ok, w')"
  shows "sess w' = sess w \<and> sent w' = sent w \<and> grown (call_in_bounds t) (calls w) (calls w') \<and>
    grown (\<lambda>c. \<not> pin_call c) (calls w) (calls w')"
  using assms
proof (induction zs arbitrary: w)
  case Nil
  then show ?case by simp
next
  case (Cons z zs)
  let ?c = "Fill (if async then B_memset_d2d8_async (base + of_nat z * sl) pitch val width height stream
                  else B_memset_d2d8 (base + of_nat z * sl) pitch val width height)"
  have c: "call_in_bounds t ?c" "\<not> pin_call ?c" using Cons.prems(1) by (auto simp: call_in_bounds_def pin_call_def)
  have "grown (call_in_bounds t) (calls w) (calls (snd (invoke drv ?c w)))"
    "grown (\<lambda>c. \<not> pin_call c) (calls w) (calls (snd (invoke drv ?c w)))"
    using c by (simp_all add: invoke_def)
  note step = grown_trans [OF this(1)] grown_trans [OF this(2)]
  show ?case
    using Cons.IH [of "snd (invoke drv ?c w)"] Cons.prems c step by (auto simp: Let_def split: if_splits)
qed

lemma slices_in_bounds:
  assumes "find_allocation s k = Some i" "width \<noteq> 0" "height \<noteq> 0" "depth \<noteq> 0"
    "valid_3d_allocation s (Some i) off pitch sl width height depth"
  shows "\<forall>z \<in> set [0..<unat depth]. end_in_bounds (allocations s) (At_device (a_ptr (allocations s ! i) + off + of_nat z * sl)) pitch 0 width height 1"
  using assms(5) valid_3d_iff [OF assms(2-4)] covers_grid [OF assms(1)]
  by (auto simp: end_in_bounds_def)

lemma slices_reply:
  assumes "session_inv n (sess w)" "find_allocation (sess w) k = Some i"
    "\<not> (val > 255 \<or> wd = 0 \<or> ht = 0 \<or> dep = 0 \<or> \<not> valid_3d_allocation (sess w) (Some i) off pitch sl wd ht dep)"
    "memset_slices drv async (a_ptr (allocations (sess w) ! i) + off) sl pitch v wd ht stream [0..<unat dep] w = (ok, w')"
  shows "safely_served n drv op req_id w (fst (send_response drv op req_id st [] w')) (snd (send_response drv op req_id st [] w'))"
  using memset_slices_effect [OF slices_in_bounds [OF assms(2)] assms(4)] assms(1,3) balanced_grown [OF balanced_refl]
  by (intro safe_reply) simp_all

lemma memset_3d_serves:
  assumes i: "session_inv n (sess w)"
  shows "ends (handle_memset_3d async drv req_id p w)
    (safely_served n drv (if async then OP_MEMSET_3D_ASYNC else OP_MEMSET_3D) req_id w)"
  unfolding handle_memset_3d_def Let_def
  by (intro handler_vcg ends_pairI; (rule error_reply [OF i] slices_reply [OF i])?) auto

interpretation memset_3d_sync: safe_handler handle_memset_3d_sync OP_MEMSET_3D
  using memset_3d_serves [where async = False] by unfold_locales (simp add: handle_memset_3d_sync_def)

interpretation memset_3d_async: safe_handler handle_memset_3d_async OP_MEMSET_3D_ASYNC
  using memset_3d_serves [where async = True] by unfold_locales (simp add: handle_memset_3d_async_def)

section \<open>Staged copies\<close>

text \<open>Products that the guards keep from wrapping.\<close>

lemma product_guard:
  fixes a b :: u64
  assumes "b \<noteq> 0" "a \<le> UINT64_MAX div b"
  shows "unat (a * b) = unat a * unat b"
  using unat_le_div_mult [OF assms(2,1)] by (intro unat_mult_no_wrap) (simp add: le_less_trans)

lemma staging_safe_reply:
  "staging n drv w i e w1 \<Longrightarrow> length pl < 2 ^ 32 \<Longrightarrow>
   safely_served n drv op rid w (fst (send_response drv op rid st pl w1)) (snd (send_response drv op rid st pl w1))"
  by (intro safe_reply) (auto simp: staging_def)

lemma staging_entry:
  "staging n drv w i e w1 \<Longrightarrow> i < MAX_TRANSFERS \<and> transfers (sess w1) ! i = e \<and> t_used e"
  by (auto simp: staging_def)

lemma staging_event_call:
  "staging n drv w i e w1 \<Longrightarrow> staging n drv w i e (snd (invoke drv (Event c) w1))"
  "staging n drv w i e w1 \<Longrightarrow> staging n drv w i e (snd (invoke drv (Stream c') w1))"
  by (rule staging_call; simp add: call_in_bounds_def pin_call_def)+

lemma staging_copy:
  "staging n drv w i e w1 \<Longrightarrow> call_in_bounds (allocations (sess w)) (Copy c) \<Longrightarrow> staging n drv w i e (snd (invoke drv (Copy c) w1))"
  by (rule staging_call) (simp_all add: pin_call_def)

lemma submit_copy_2d_serves:
  assumes "staging n drv w i e w1" "call_in_bounds (allocations (sess w)) (Copy (B_copy_2d_async c stream))" "F e"
  shows "ends (submit_copy_2d drv op rid i c stream w1) (submitted n drv op rid F w)"
proof -
  note copy = staging_copy [OF assms(1,2)]
  note rec = staging_event_call(1) [OF copy]
  have "transfers (sess w1) ! i = e" using staging_entry [OF assms(1)] by simp
  then show ?thesis
    using staging_release [OF staging_event_call(2) [OF copy]] staging_release [OF staging_event_call(2) [OF rec]]
      staging_reply [OF rec, of F, OF assms(3)]
    by (simp add: submit_copy_2d_def Let_def le_bytes64_to_be64)
qed

text \<open>What the payload of a strided submit request says about the transfer.\<close>

definition strided_transfer :: "u32 \<Rightarrow> bytes \<Rightarrow> TransferEntry \<Rightarrow> bool" where
  "strided_transfer kind p e \<longleftrightarrow>
     t_kind e = kind \<and> rd64 p 0 = Some (t_allocation_id e) \<and> rd64 p 40 = Some (t_stream_id e) \<and>
     (\<exists>width height. rd64 p 24 = Some width \<and> rd64 p 32 = Some height \<and> unat (t_bytes e) = unat width * unat height)"

lemma error_submitted:
  "session_inv n (sess w) \<Longrightarrow> st \<noteq> ST_OK \<Longrightarrow>
   submitted n drv op rid F w (fst (send_response drv op rid st [] w)) (snd (send_response drv op rid st [] w))"
  by (intro submitted_error error_reply) simp_all

lemma copy_2d_call:
  "call_in_bounds t (Copy (B_copy_2d_async c st)) =
     (end_in_bounds t (c2_src c) (c2_srcPitch c) 0 (c2_WidthInBytes c) (c2_Height c) 1 \<and>
      end_in_bounds t (c2_dst c) (c2_dstPitch c) 0 (c2_WidthInBytes c) (c2_Height c) 1)"
  by (simp add: call_in_bounds_def)

lemma staged_2d_serves:
  assumes st: "staging n drv w i e w1" and F: "\<And>v. F (e\<lparr>t_done_event := v\<rparr>)"
    and c: "call_in_bounds (allocations (sess w)) (Copy (B_copy_2d_async c stream))"
  shows "ends (with_done_event drv op rid i (submit_copy_2d drv op rid i c stream) w1) (submitted n drv op rid F w)"
  using c F by (intro with_done_event_serves [OF st] submit_copy_2d_serves)

text \<open>The part of the request after its checks.\<close>

lemma host_async_checked:
  assumes i: "session_inv n (sess w)" "Suc n < 2 ^ 64" "length p < 2 ^ 32" and h: "\<not> length p < 48"
    and rd: "rd64 p 0 = Some aid" "rd64 p 24 = Some width" "rd64 p 32 = Some height" "rd64 p 40 = Some sid"
    and g1: "\<not> (width = 0 \<or> height = 0 \<or> pitch = 0 \<or> width > pitch \<or> width > UINT64_MAX div height)"
    and g2: "\<not> (width * height > UINT32_MAX64 \<or> (upload \<and> of_nat (length p) \<noteq> 48 + width * height) \<or> (\<not> upload \<and> length p \<noteq> 48))"
    and a: "find_allocation (sess w) aid = Some j"
    and g3: "\<not> (off > a_size (allocations (sess w) ! j) \<or> height - 1 > (a_size (allocations (sess w) ! j) - off) div pitch \<or>
        width > a_size (allocations (sess w) ! j) - off - (height - 1) * pitch)"
    and s: "new_transfer_slot (sess w) = Some (k, s)"
  shows "ends (with_host_buffer drv opcode req_id k (width * height)
      (\<lambda>buf w1. (if upload
                then peek p 48 (unat (width * height)) \<bind> (\<lambda>data. Some (snd (invoke drv (OS (OS_pinned_write buf data)) w1)))
                else Some w1) \<bind>
         with_done_event drv opcode req_id k
            (submit_copy_2d drv opcode req_id k
               (if upload
                then \<lparr>c2_src = At_pinned buf, c2_srcPitch = width, c2_dst = At_device (a_ptr (allocations (sess w) ! j) + off),
                      c2_dstPitch = pitch, c2_WidthInBytes = width, c2_Height = height\<rparr>
                else \<lparr>c2_src = At_device (a_ptr (allocations (sess w) ! j) + off), c2_srcPitch = pitch, c2_dst = At_pinned buf,
                      c2_dstPitch = width, c2_WidthInBytes = width, c2_Height = height\<rparr>) stream))
      (w\<lparr>sess := upd_transfer k (fill_transfer (if upload then TRANSFER_KIND_H2D_2D else TRANSFER_KIND_D2H_2D)
                                   aid sid (width * height)) s\<rparr>))
    (submitted n drv opcode req_id (strided_transfer (if upload then TRANSFER_KIND_H2D_2D else TRANSFER_KIND_D2H_2D) p) w)"
proof (rule claim_serves [OF i(1,2) s])
  have nz: "pitch \<noteq> 0" "height \<noteq> 0" and vol: "width * height \<le> UINT32_MAX64" and d: "width \<le> UINT64_MAX div height"
    using g1 g2 by (auto simp: linorder_not_less)
  have prod: "unat (width * height) = unat width * unat height" by (rule product_guard [OF nz(2) d])
  have "48 + width * height = of_nat (length p)" if upload using g2 that by simp
  then have pk: "48 + unat (width * height) \<le> length p" if upload
    using inline_length [of 48 "width * height" "length p"] vol i(3) that by auto
  note e = guard_2d_end [OF a nz g3]
  show "width * height \<le> UINT32_MAX64" by (rule vol)
  fix buf w2
  let ?e = "(fill_transfer (if upload then TRANSFER_KIND_H2D_2D else TRANSFER_KIND_D2H_2D) aid sid (width * height)
    (fresh_transfer (next_transfer_id (sess w))))\<lparr>t_host_buffer := buf\<rparr>"
  let ?F = "strided_transfer (if upload then TRANSFER_KIND_H2D_2D else TRANSFER_KIND_D2H_2D) p"
  assume st: "staging n drv w k ?e w2"
  have F: "?F (?e\<lparr>t_done_event := v\<rparr>)" for v using rd prod by (simp add: strided_transfer_def)
  show "ends ((if upload
                then peek p 48 (unat (width * height)) \<bind> (\<lambda>data. Some (snd (invoke drv (OS (OS_pinned_write buf data)) w2)))
                else Some w2) \<bind>
         with_done_event drv opcode req_id k
            (submit_copy_2d drv opcode req_id k
               (if upload
                then \<lparr>c2_src = At_pinned buf, c2_srcPitch = width, c2_dst = At_device (a_ptr (allocations (sess w) ! j) + off),
                      c2_dstPitch = pitch, c2_WidthInBytes = width, c2_Height = height\<rparr>
                else \<lparr>c2_src = At_device (a_ptr (allocations (sess w) ! j) + off), c2_srcPitch = pitch, c2_dst = At_pinned buf,
                      c2_dstPitch = width, c2_WidthInBytes = width, c2_Height = height\<rparr>) stream))
      (submitted n drv opcode req_id ?F w)"
    using pk e staged_2d_serves [OF st, where F = ?F] staged_2d_serves [OF staging_os [OF st], where F = ?F] F
    by (cases upload) (simp_all add: copy_2d_call)
qed

lemma memcpy_2d_host_async_submitted:
  assumes i: "session_inv n (sess w)" "Suc n < 2 ^ 64" "length p < 2 ^ 32"
  shows "ends (handle_memcpy_2d_host_async upload drv req_id p w)
    (submitted n drv (if upload then OP_MEMCPY_2D_H2D_ASYNC else OP_MEMCPY_2D_D2H_ASYNC) req_id
       (strided_transfer (if upload then TRANSFER_KIND_H2D_2D else TRANSFER_KIND_D2H_2D) p) w)"
  unfolding handle_memcpy_2d_host_async_def Let_def invoke_case
  by (intro handler_vcg ends_pairI; (rule error_submitted [OF i(1)] | simp only: prod.inject, elim conjE, hypsubst, rule host_async_checked [OF i]; assumption)?)
    simp_all

interpretation memcpy_2d_h2d_async: safe_handler handle_memcpy_2d_h2d_async OP_MEMCPY_2D_H2D_ASYNC
  using ends_mono [OF memcpy_2d_host_async_submitted [where upload = True] submitted_safe]
  by unfold_locales (simp add: handle_memcpy_2d_h2d_async_def)

interpretation memcpy_2d_d2h_async: safe_handler handle_memcpy_2d_d2h_async OP_MEMCPY_2D_D2H_ASYNC
  using ends_mono [OF memcpy_2d_host_async_submitted [where upload = False] submitted_safe]
  by unfold_locales (simp add: handle_memcpy_2d_d2h_async_def)

section \<open>Three-dimensional copies\<close>

text \<open>The device end of a three-dimensional copy.\<close>

lemma device_end_3d:
  assumes "valid_3d_allocation s (if k \<noteq> 0 then find_allocation s k else None) off pitch sl wd ht dep"
    "wd \<noteq> 0" "ht \<noteq> 0" "dep \<noteq> 0"
  obtains a where "deref s (if k \<noteq> 0 then find_allocation s k else None) off = Some a"
    "end_in_bounds (allocations s) (At_device a) pitch (pitch * (sl div pitch)) wd ht dep"
proof -
  from assms(1) obtain i where i: "(if k \<noteq> 0 then find_allocation s k else None) = Some i"
    and v: "pitch \<noteq> 0" "sl mod pitch = 0"
      "unat off + (unat dep - 1) * unat sl + (unat ht - 1) * unat pitch + unat wd \<le> unat (a_size (allocations s ! i))"
    unfolding valid_3d_iff [OF assms(2-4)] by (elim exE conjE) (rule that; assumption)
  have f: "find_allocation s k = Some i" using i by (simp split: if_splits)
  have sl: "pitch * (sl div pitch) = sl" using v(2) div_mult_mod_eq [of sl pitch] by (simp add: mult.commute)
  show ?thesis
    using that [of "a_ptr (allocations s ! i) + off"] end_device [OF f v(3)] unfolding i sl deref_def by simp
qed

text \<open>The packed host end fits in \<open>wd * ht * dep\<close> bytes.\<close>

lemma payload_end_3d:
  fixes wd ht dep :: u64
  assumes "unat (wd * ht) = unat wd * unat ht" "wd \<noteq> 0" "ht \<noteq> 0" "dep \<noteq> 0" "unat wd * unat ht * unat dep \<le> length bs"
  shows "end_in_bounds t (At_payload bs) wd (wd * ht) wd ht dep"
proof -
  obtain h d where hd: "unat ht = Suc h" "unat dep = Suc d"
    using assms(3,4) by (metis not0_implies_Suc unat_eq_zero)
  have "d * (unat wd * Suc h) + h * unat wd + unat wd = unat wd * Suc h * Suc d" by (simp add: algebra_simps)
  then show ?thesis using assms(1,5) hd by (simp add: end_in_bounds_def algebra_simps)
qed

lemma copy_3d_call:
  "call_in_bounds t (Copy (B_copy_3d_async c st)) = call_in_bounds t (Copy (B_copy_3d c))"
  by (simp add: call_in_bounds_def)

text \<open>The descriptor is defined and in bounds when the device ends were validated.\<close>

lemma copy_3d_desc_ok:
  assumes "1 \<le> mode" "mode \<le> 3" "wd \<noteq> 0" "ht \<noteq> 0" "dep \<noteq> 0"
    "mode = 1 \<or> mode = 3 \<Longrightarrow> valid_3d_allocation s (if did \<noteq> 0 then find_allocation s did else None) doff dp ds wd ht dep"
    "mode = 2 \<or> mode = 3 \<Longrightarrow> valid_3d_allocation s (if sid \<noteq> 0 then find_allocation s sid else None) soff sp ss wd ht dep"
    "end_in_bounds (allocations s) host wd (wd * ht) wd ht dep"
  obtains c where "copy_3d_desc s mode host (if did \<noteq> 0 then find_allocation s did else None) doff dp ds
      (if sid \<noteq> 0 then find_allocation s sid else None) soff sp ss wd ht dep = Some c"
    "call_in_bounds (allocations s) (Copy (B_copy_3d c))"
proof -
  have m: "mode = 1 \<or> mode = 2 \<or> mode = 3"
  proof -
    have "1 \<le> unat mode" "unat mode \<le> 3" using assms(1,2) by (simp_all add: word_le_nat_alt)
    then have "unat mode = unat (1 :: u32) \<or> unat mode = unat (2 :: u32) \<or> unat mode = unat (3 :: u32)" by auto
    then show ?thesis by (metis unsigned_word_eqI)
  qed
  have src: "\<exists>a. deref s (if sid \<noteq> 0 then find_allocation s sid else None) soff = Some a \<and>
      end_in_bounds (allocations s) (At_device a) sp (sp * (ss div sp)) wd ht dep" if "mode \<noteq> 1"
    using device_end_3d [OF assms(7) assms(3-5)] m that by (metis (no_types, lifting))
  have dst: "\<exists>a. deref s (if did \<noteq> 0 then find_allocation s did else None) doff = Some a \<and>
      end_in_bounds (allocations s) (At_device a) dp (dp * (ds div dp)) wd ht dep" if "mode \<noteq> 2"
    using device_end_3d [OF assms(6) assms(3-5)] m that by (metis (no_types, lifting))
  from m show ?thesis
    using that src dst assms(8)
    by (elim disjE) (auto simp: copy_3d_desc_def call_in_bounds_def simp del: if_split)
qed

lemma release_staged_reply:
  assumes "staging n drv w i e w1" "length pl < 2 ^ 32"
  shows "safely_served n drv op rid w (fst (send_response drv op rid st pl w1)) (release_transfer drv i (snd (send_response drv op rid st pl w1)))"
  using staging_entry [OF assms(1)] by (intro release_after_reply staging_safe_reply [OF assms]) simp_all

lemma staged_3d_serves:
  assumes st: "staging n drv w i e w1" and len: "mode = 1 \<Longrightarrow> 100 + unat volume \<le> length p"
    and c: "desc (At_pinned buf) = Some c" "call_in_bounds (allocations (sess w)) (Copy (B_copy_3d c))"
    and vol: "volume \<le> UINT32_MAX64"
  shows "ends (staged_3d drv req_id p i mode submit volume desc stream buf w1) (safely_served n drv OP_MEMCPY_3D_ASYNC req_id w)"
proof -
  define w2 where "w2 = (if mode = 1 then snd (invoke drv (OS (OS_pinned_write buf (take (unat volume) (drop 100 p)))) w1) else w1)"
  have w2: "staging n drv w i e w2" using st staging_os [OF st] by (simp add: w2_def)
  have copy: "staging n drv w i e (snd (invoke drv (Copy (B_copy_3d_async c stream)) w2))"
    using c(2) by (intro staging_copy [OF w2]) (simp add: copy_3d_call)
  note ev = staging_event_call(1) [OF copy] and ev2 = staging_event_call(1) [OF staging_event_call(1) [OF copy]]
  note n = ucast_u32_small [OF vol] unat_le_u32max [OF vol]
  have done_event: "transfers (sess w1) ! i = e" "transfers (sess w2) ! i = e" using staging_entry st w2 by auto
  have bind: "(if mode = 1 then peek p 100 (unat volume) \<bind> (\<lambda>data. Some (snd (invoke drv (OS (OS_pinned_write buf data)) w1))) else Some w1) = Some w2"
    using len by (simp add: w2_def)
  show ?thesis
    unfolding staged_3d_def Let_def invoke_case bind bind.bind_lunit c(1)
    using staging_release(1) [OF staging_event_call(2) [OF copy]] staging_release(1) [OF staging_event_call(2) [OF ev]]
      staging_safe_reply [OF ev] release_staged_reply [OF ev2] release_staged_reply [OF staging_os [OF ev2]] n
    by (simp add: case_prod_beta)
qed

lemma claim_ends:
  assumes "session_inv n (sess w)" "Suc n < 2 ^ 64" "new_transfer_slot (sess w) = Some (i, s)" "m \<le> UINT32_MAX64"
    "\<And>b v w2 e. staging n drv w i e w2 \<Longrightarrow> ends (rest b w2) (safely_served n drv op rid w)"
  shows "ends (with_host_buffer drv op rid i m' (\<lambda>b. with_done_event drv op rid i (rest b))
      (w\<lparr>sess := upd_transfer i (fill_transfer k a st m) s\<rparr>)) (safely_served n drv op rid w)"
  by (rule with_host_buffer_ends [OF staging_claim [OF assms(1-4)]])
    (auto simp: staging_release intro!: with_done_event_ends assms(5))

lemma run_3d_serves:
  assumes i: "session_inv n (sess w)" "Suc n < 2 ^ 64" and vol: "volume \<le> UINT32_MAX64"
    and len: "mode = 1 \<Longrightarrow> (if async then 100 else 92) + unat volume \<le> length p"
    and desc: "\<And>host. host \<in> {At_result} \<union> range At_pinned \<or> (mode = 1 \<and> host = At_payload (drop (if async then 100 else 92) p)) \<Longrightarrow>
       \<exists>c. desc host = Some c \<and> call_in_bounds (allocations (sess w)) (Copy (B_copy_3d c))"
  shows "ends (run_3d async drv req_id p mode submit volume desc aid stream_id stream w)
    (safely_served n drv (if async then OP_MEMCPY_3D_ASYNC else OP_MEMCPY_3D) req_id w)"
proof (cases "async \<and> mode \<noteq> 3")
  case True
  have st: "ends (staged_3d drv req_id p j mode submit volume desc stream buf w1) (safely_served n drv OP_MEMCPY_3D_ASYNC req_id w)"
    if "staging n drv w j e w1" for j e w1 buf
    using desc [of "At_pinned buf"] len True staged_3d_serves [OF that _ _ _ vol] by auto
  show ?thesis
    unfolding run_3d_def Let_def using True vol i st
    by (auto intro!: ends_optionI claim_ends error_reply)
next
  case False
  have "\<exists>c. desc (if mode = 1 then At_payload (drop (if async then 100 else 92) p) else At_result) = Some c \<and>
      call_in_bounds (allocations (sess w)) (Copy (B_copy_3d c))" using desc by auto
  then obtain c where c: "desc (if mode = 1 then At_payload (drop (if async then 100 else 92) p) else At_result) = Some c"
    "call_in_bounds (allocations (sess w)) (Copy (B_copy_3d c))" by blast
  show ?thesis
    unfolding run_3d_def Let_def invoke_case c bind.bind_lunit
    using False i(1) c(2) ucast_u32_small [OF vol] unat_le_u32max [OF vol]
    by (auto simp: copy_3d_call case_prod_beta call_in_bounds_def [of _ "OS _"] pin_call_def)
qed

text \<open>The host bytes of the payload, when the length check passed.\<close>

lemma host_bytes_exact:
  fixes v :: u64
  assumes "of_nat l - of_nat h = v" "v \<le> UINT32_MAX64" "l < 2 ^ 32" "h \<le> l"
  shows "h + unat v = l"
proof -
  have "of_nat l - of_nat h = (of_nat (l - h) :: u64)" using assms(4) by simp
  then have "unat v = l - h" using assms(1,3) by (auto simp: unat_of_nat)
  then show ?thesis using assms(4) by simp
qed

lemma run_3d_checked:
  assumes i: "session_inv n (sess w)" "Suc n < 2 ^ 64" "length p < 2 ^ 32"
    and h: "\<not> length p < (if async then 100 else 92)"
    and g1: "\<not> (mode < 1 \<or> mode > 3 \<or> wd = 0 \<or> ht = 0 \<or> dep = 0 \<or> wd > UINT64_MAX div ht \<or> wd * ht > UINT64_MAX div dep \<or> bad_stream)"
    and g2: "\<not> (wd * ht * dep > UINT32_MAX64 \<or>
       (if mode = 1 then of_nat (length p) - of_nat (if async then 100 else 92) \<noteq> wd * ht * dep
        else of_nat (length p) - of_nat (if async then 100 else 92) \<noteq> (0 :: u64)) \<or>
       ((mode = 1 \<or> mode = 3) \<and> \<not> valid_3d_allocation (sess w) (if did \<noteq> 0 then find_allocation (sess w) did else None) doff dp ds wd ht dep) \<or>
       ((mode = 2 \<or> mode = 3) \<and> \<not> valid_3d_allocation (sess w) (if sid \<noteq> 0 then find_allocation (sess w) sid else None) soff sp ss wd ht dep))"
  shows "ends (run_3d async drv req_id p mode submit (wd * ht * dep)
      (\<lambda>host. copy_3d_desc (sess w) mode host (if did \<noteq> 0 then find_allocation (sess w) did else None) doff dp ds
         (if sid \<noteq> 0 then find_allocation (sess w) sid else None) soff sp ss wd ht dep) aid stream_id stream w)
    (safely_served n drv (if async then OP_MEMCPY_3D_ASYNC else OP_MEMCPY_3D) req_id w)"
proof (rule run_3d_serves [OF i(1,2)])
  let ?h = "if async then 100 else 92 :: nat"
  have ext: "wd \<noteq> 0" "ht \<noteq> 0" "dep \<noteq> 0" "1 \<le> mode" "mode \<le> 3" using g1 by (simp_all only: linorder_not_less de_Morgan_disj simp_thms)
  have p1: "unat (wd * ht) = unat wd * unat ht" using g1 by (intro product_guard) (auto simp: linorder_not_less)
  have p2: "unat (wd * ht * dep) = unat wd * unat ht * unat dep"
    using product_guard [of dep "wd * ht"] g1 p1 by (auto simp: linorder_not_less)
  show vol: "wd * ht * dep \<le> UINT32_MAX64" using g2 by (simp add: linorder_not_less)
  show len: "?h + unat (wd * ht * dep) \<le> length p" if "mode = 1"
  proof -
    have "of_nat (length p) - of_nat ?h = wd * ht * dep"
      using g2 unfolding that by (simp only: simp_thms if_True de_Morgan_disj)
    then show ?thesis using host_bytes_exact [OF _ vol i(3), of ?h] h by (simp only: linorder_not_less)
  qed
  have pay: "end_in_bounds t (At_payload (drop ?h p)) wd (wd * ht) wd ht dep" if "mode = 1" for t
    using len [OF that] p2 h by (intro payload_end_3d p1 ext) simp
  have dst: "valid_3d_allocation (sess w) (if did \<noteq> 0 then find_allocation (sess w) did else None) doff dp ds wd ht dep"
    if "mode = 1 \<or> mode = 3" using g2 that by argo
  have src: "valid_3d_allocation (sess w) (if sid \<noteq> 0 then find_allocation (sess w) sid else None) soff sp ss wd ht dep"
    if "mode = 2 \<or> mode = 3" using g2 that by argo
  fix host
  assume "host \<in> {At_result} \<union> range At_pinned \<or> (mode = 1 \<and> host = At_payload (drop ?h p))"
  then have "end_in_bounds (allocations (sess w)) host wd (wd * ht) wd ht dep" using pay by auto
  note copy_3d_desc_ok [OF ext(4,5,1-3) dst src this]
  then show "\<exists>c. copy_3d_desc (sess w) mode host (if did \<noteq> 0 then find_allocation (sess w) did else None) doff dp ds
         (if sid \<noteq> 0 then find_allocation (sess w) sid else None) soff sp ss wd ht dep = Some c \<and>
       call_in_bounds (allocations (sess w)) (Copy (B_copy_3d c))" by metis
qed

lemma unresolved: "resolve_stream_id s sid = None \<Longrightarrow> sid \<noteq> 0 \<and> find_stream s sid = None"
  by (auto simp: resolve_stream_id_def split: option.splits if_splits)

lemma memcpy_3d_serves:
  assumes i: "session_inv n (sess w)" "Suc n < 2 ^ 64" "length p < 2 ^ 32"
  shows "ends (handle_memcpy_3d async drv req_id p w)
    (safely_served n drv (if async then OP_MEMCPY_3D_ASYNC else OP_MEMCPY_3D) req_id w)"
  unfolding handle_memcpy_3d_def Let_def
  by (intro handler_vcg ends_pairI;
      ((rule error_reply [OF i(1)] | rule run_3d_checked [OF i]; assumption))?; (simp split: if_splits; fail)?)
    (drule unresolved, elim conjE, simp only: simp_thms)+

interpretation memcpy_3d_sync: safe_handler handle_memcpy_3d_sync_entry OP_MEMCPY_3D
  using memcpy_3d_serves [where async = False] by unfold_locales (simp add: handle_memcpy_3d_sync_entry_def)

interpretation memcpy_3d_async: safe_handler handle_memcpy_3d_async_entry OP_MEMCPY_3D_ASYNC
  using memcpy_3d_serves [where async = True] by unfold_locales (simp add: handle_memcpy_3d_async_entry_def)

end
