(* ===== verification/Layout_2d.thy ===== *)
theory Layout_2d
  imports Layout_Safety Samples
begin

text \<open>
  The two-dimensional copies: the checks of \<^verbatim>\<open>decode_2d\<close> are right for the requests whose extents do
  not wrap and whose mode is documented, and the handler then meets the contract. Requests outside
  these conditions show that neither is checked.
\<close>

section \<open>Accepted layouts\<close>

lemma decode_2d_bounds:
  fixes off pitch width height sz :: u64
  assumes "width \<noteq> 0" "height \<noteq> 0" "unat off + (unat height - 1) * unat pitch < 2 ^ 64"
    "\<not> off + (height - 1) * pitch > sz" "\<not> width > sz - (off + (height - 1) * pitch)"
  shows "unat off + (unat height - 1) * unat pitch + unat width \<le> unat sz"
proof -
  have "unat ((height - 1) * pitch) = (unat height - 1) * unat pitch"
    using assms(2,3) by (subst unat_mult_no_wrap) (simp_all add: unat_sub_one)
  then have "unat (off + (height - 1) * pitch) = unat off + (unat height - 1) * unat pitch"
    using assms(3) by (subst unat_add_no_wrap) simp_all
  then show ?thesis using word_range_ok [OF assms(4,5)] by simp
qed

lemma row_index:
  fixes width height :: u64
  assumes "y < unat height" "unat width * unat height < 2 ^ 64"
  shows "unat (of_nat y * width) = y * unat width" "y * unat width + unat width \<le> unat width * unat height"
proof -
  have "y < 2 ^ 64" using assms(1) by (rule less_trans) simp
  then have y: "unat (of_nat y :: u64) = y" by (simp add: unat_of_nat)
  show le: "y * unat width + unat width \<le> unat width * unat height"
    using mult_le_mono1 [of "Suc y" "unat height" "unat width"] assms(1) by (simp add: mult.commute add.commute)
  have "y * unat width \<le> unat width * unat height" using le by linarith
  then have "unat (of_nat y :: u64) * unat width < 2 ^ LENGTH(64)" using le_less_trans [OF _ assms(2)] unfolding y by simp
  from unat_mult_no_wrap [OF this] show "unat (of_nat y * width) = y * unat width" by (simp add: y)
qed

definition covers_rows :: "ServerSession \<Rightarrow> nat option \<Rightarrow> u64 \<Rightarrow> u64 \<Rightarrow> u64 \<Rightarrow> u64 \<Rightarrow> bool" where
  "covers_rows s a off pitch width height \<longleftrightarrow> (\<exists>k i. a = Some i \<and> find_allocation s k = Some i \<and>
     unat off + (unat height - 1) * unat pitch + unat width \<le> unat (a_size (allocations s ! i)))"

lemma covers_rows_row:
  assumes "covers_rows s a off pitch width height" "y < unat height"
  obtains i where "a = Some i" "covers (allocations s) (a_ptr (allocations s ! i) + off + of_nat y * pitch) (unat width)"
proof -
  from assms(1) obtain k i where "a = Some i" "find_allocation s k = Some i"
    "unat off + (unat height - 1) * unat pitch + unat width \<le> unat (a_size (allocations s ! i))"
    by (auto simp: covers_rows_def)
  then show ?thesis using that covers_grid [of s k i 0 1 y height off 0 pitch width] assms(2) by simp
qed

text \<open>The layouts whose extents do not wrap, after the checks of the request.\<close>

definition sound_layout :: "ServerSession \<Rightarrow> layout_2d \<Rightarrow> bytes \<Rightarrow> bool" where
  "sound_layout s l host \<longleftrightarrow>
     unat (l_width l) * unat (l_height l) < 2 ^ 32 \<and>
     (l_mode l = 1 \<longrightarrow> length host = unat (l_width l) * unat (l_height l)) \<and>
     (l_mode l \<noteq> 2 \<longrightarrow> covers_rows s (l_dst l) (l_dst_off l) (l_dpitch l) (l_width l) (l_height l)) \<and>
     (l_mode l \<noteq> 1 \<longrightarrow> covers_rows s (l_src l) (l_src_off l) (l_spitch l) (l_width l) (l_height l))"

lemma row_2d_effect:
  assumes "sound_layout (sess w) l host" "l_mode l = 2 \<Longrightarrow> length out = unat (l_width l) * unat (l_height l)" "y < unat (l_height l)"
  obtains ok out' c where "row_2d drv async l host y out w = Some (ok, out', snd (invoke drv c w))"
    "call_in_bounds (allocations (sess w)) c" "\<not> pin_call c" "length out' = length out"
proof -
  have "unat (l_width l) * unat (l_height l) < 2 ^ 64" using assms(1) by (simp add: sound_layout_def)
  note row = row_index [OF assms(3) this]
  note cov = covers_rows_row [OF _ assms(3)]
  show ?thesis
  proof (cases "l_mode l = 1")
    case True
    then obtain d where d: "l_dst l = Some d"
      "covers (allocations (sess w)) (a_ptr (allocations (sess w) ! d) + l_dst_off l + of_nat y * l_dpitch l) (unat (l_width l))"
      using cov [of "sess w" "l_dst l" "l_dst_off l" "l_dpitch l" "l_width l"] assms(1) by (auto simp: sound_layout_def)
    let ?a = "a_ptr (allocations (sess w) ! d) + l_dst_off l + of_nat y * l_dpitch l"
    let ?data = "take (unat (l_width l)) (drop (y * unat (l_width l)) host)"
    let ?c = "Copy (if async then B_copy_h2d_async ?a (At_payload ?data) (l_width l) (l_stream l) else B_copy_h2d ?a ?data)"
    have "row_2d drv async l host y out w = Some (o_rc (drv (calls w) ?c) = CUDA_SUCCESS, out, snd (invoke drv ?c w))"
      using True d(1) row assms(1) by (simp add: row_2d_def sound_layout_def Let_def)
    moreover have "length ?data = unat (l_width l)" using row(2) assms(1) True by (simp add: sound_layout_def)
    ultimately show ?thesis using d(2) that by (simp add: call_in_bounds_def pin_call_def)
  next
    case False
    then obtain d where d: "l_src l = Some d"
      "covers (allocations (sess w)) (a_ptr (allocations (sess w) ! d) + l_src_off l + of_nat y * l_spitch l) (unat (l_width l))"
      using cov [of "sess w" "l_src l" "l_src_off l" "l_spitch l" "l_width l"] assms(1) by (auto simp: sound_layout_def)
    have dst: "\<exists>d. l_dst l = Some d \<and>
      covers (allocations (sess w)) (a_ptr (allocations (sess w) ! d) + l_dst_off l + of_nat y * l_dpitch l) (unat (l_width l))"
      if "l_mode l \<noteq> 2"
      using cov [of "sess w" "l_dst l" "l_dst_off l" "l_dpitch l" "l_width l"] assms(1) that by (auto simp: sound_layout_def)
    let ?s = "a_ptr (allocations (sess w) ! d) + l_src_off l + of_nat y * l_spitch l"
    show ?thesis
    proof (cases "l_mode l = 2")
      case True
      let ?c = "Copy (if async then B_copy_d2h_async At_result ?s (l_width l) (l_stream l) else B_copy_d2h ?s (l_width l))"
      let ?r = "drv (calls w) ?c" and ?k = "y * unat (l_width l)"
      have "row_2d drv async l host y out w = Some (o_rc ?r = CUDA_SUCCESS,
          take ?k out @ fit (unat (l_width l)) (o_data ?r) @ drop (?k + unat (l_width l)) out, snd (invoke drv ?c w))"
        using True d(1) row assms(2) by (simp add: row_2d_def Let_def)
      then show ?thesis using d(2) that row(2) assms(2) True by (simp add: call_in_bounds_def pin_call_def)
    next
      case no: False
      then obtain d' where d': "l_dst l = Some d'"
        "covers (allocations (sess w)) (a_ptr (allocations (sess w) ! d') + l_dst_off l + of_nat y * l_dpitch l) (unat (l_width l))"
        using dst by auto
      let ?a = "a_ptr (allocations (sess w) ! d') + l_dst_off l + of_nat y * l_dpitch l"
      let ?c = "Copy (if async then B_copy_d2d_async ?a ?s (l_width l) (l_stream l) else B_copy_d2d ?a ?s (l_width l))"
      have "row_2d drv async l host y out w = Some (o_rc (drv (calls w) ?c) = CUDA_SUCCESS, out, snd (invoke drv ?c w))"
        using False no d(1) d'(1) by (simp add: row_2d_def Let_def)
      then show ?thesis using d(2) d'(2) that by (simp add: call_in_bounds_def pin_call_def)
    qed
  qed
qed

lemma rows_2d_effect:
  assumes "sound_layout (sess w) l host" "l_mode l = 2 \<Longrightarrow> length out = unat (l_width l) * unat (l_height l)"
    "\<forall>y \<in> set ys. y < unat (l_height l)"
  shows "\<exists>ok out' w'. rows_2d drv async l host ys out w = Some (ok, out', w') \<and> sess w' = sess w \<and> sent w' = sent w \<and>
    grown (call_in_bounds (allocations (sess w))) (calls w) (calls w') \<and> grown (\<lambda>c. \<not> pin_call c) (calls w) (calls w') \<and>
    length out' = length out"
  using assms
proof (induction ys arbitrary: out w)
  case Nil
  then show ?case by auto
next
  case (Cons y ys)
  obtain ok out' c where r: "row_2d drv async l host y out w = Some (ok, out', snd (invoke drv c w))"
    "call_in_bounds (allocations (sess w)) c" "\<not> pin_call c" "length out' = length out"
    by (rule row_2d_effect [OF Cons.prems(1,2), of y drv async]) (use Cons.prems(3) in simp_all)
  have "grown (call_in_bounds (allocations (sess w))) (calls w) (calls (snd (invoke drv c w)))"
    "grown (\<lambda>c. \<not> pin_call c) (calls w) (calls (snd (invoke drv c w)))" using r(2,3) by simp_all
  note step = grown_trans [OF this(1)] grown_trans [OF this(2)]
  show ?case
    using Cons.IH [of "snd (invoke drv c w)" out'] Cons.prems r step by fastforce
qed

text \<open>The requests for which the arithmetic of \<^const>\<open>decode_2d\<close> does not wrap and the mode is one of the three documented.\<close>

definition unwrapped_2d :: "ServerSession \<Rightarrow> bytes \<Rightarrow> bool \<Rightarrow> bool" where
  "unwrapped_2d s p async =
     (case decode_2d s p async of
        Some (Some l) \<Rightarrow>
          (l_mode l = 1 \<or> l_mode l = 2 \<or> l_mode l = 3) \<and> unat (l_width l) * unat (l_height l) < 2 ^ 32 \<and>
          unat (l_dst_off l) + (unat (l_height l) - 1) * unat (l_dpitch l) < 2 ^ 64 \<and>
          unat (l_src_off l) + (unat (l_height l) - 1) * unat (l_spitch l) < 2 ^ 64
      | _ \<Rightarrow> True)"

lemma decode_2d_total: "\<exists>d. decode_2d s p async = Some d"
  by (simp add: decode_2d_def Let_def split: option.split)

text \<open>What an accepted request satisfies, by walking through the checks.\<close>

definition accepts :: "layout_2d option option \<Rightarrow> (layout_2d \<Rightarrow> bool) \<Rightarrow> bool" where
  "accepts r Q \<longleftrightarrow> (\<forall>l. r = Some (Some l) \<longrightarrow> Q l)"

lemma accepts_rules:
  "(c \<Longrightarrow> accepts x Q) \<Longrightarrow> (\<not> c \<Longrightarrow> accepts y Q) \<Longrightarrow> accepts (if c then x else y) Q"
  "(\<And>v. accepts (f v) Q) \<Longrightarrow> accepts (z \<bind> f) Q"
  "accepts a Q \<Longrightarrow> (\<And>v. accepts (g v) Q) \<Longrightarrow> accepts (case u of None \<Rightarrow> a | Some v \<Rightarrow> g v) Q"
  "accepts (Some None) Q" "Q l \<Longrightarrow> accepts (Some (Some l)) Q"
  by (auto simp: accepts_def split: option.split bind_splits)

lemma decode_2d_accepted:
  assumes "decode_2d s p async = Some (Some l)"
  shows "l_width l \<noteq> 0 \<and> l_height l \<noteq> 0 \<and> (if async then 76 else 68) \<le> length p \<and>
    (l_mode l = 1 \<or> l_mode l = 3 \<longrightarrow> l_dst l \<noteq> None) \<and> (l_mode l = 2 \<or> l_mode l = 3 \<longrightarrow> l_src l \<noteq> None) \<and>
    (\<forall>i. l_dst l = Some i \<longrightarrow> (\<exists>k. find_allocation s k = Some i) \<and> \<not> dst_rejected l (a_size (allocations s ! i))) \<and>
    (\<forall>i. l_src l = Some i \<longrightarrow> (\<exists>k. find_allocation s k = Some i) \<and> \<not> src_rejected l (a_size (allocations s ! i)))"
    (is "?Q l")
proof -
  have "accepts (decode_2d s p async) ?Q"
    unfolding decode_2d_def Let_def by (intro accepts_rules) (auto split: if_splits)
  then show ?thesis using assms by (simp add: accepts_def)
qed
text \<open>The checks are right for the requests that do not wrap.\<close>

lemma decode_2d_sound:
  assumes "decode_2d s p async = Some (Some l)" "unwrapped_2d s p async"
    "\<not> ((l_mode l = 1 \<and> of_nat (length p) - of_nat (if async then 76 else 68) \<noteq> l_width l * l_height l) \<or> x)" "length p < 2 ^ 32"
  shows "sound_layout s l (drop (if async then 76 else 68) p)"
proof -
  let ?h = "if async then 76 else 68 :: nat"
  have m: "l_mode l = 1 \<or> l_mode l = 2 \<or> l_mode l = 3" "unat (l_width l) * unat (l_height l) < 2 ^ 32"
    "unat (l_dst_off l) + (unat (l_height l) - 1) * unat (l_dpitch l) < 2 ^ 64"
    "unat (l_src_off l) + (unat (l_height l) - 1) * unat (l_spitch l) < 2 ^ 64"
    using assms(1,2) by (simp_all add: unwrapped_2d_def)
  note a = decode_2d_accepted [OF assms(1)]
  have wh: "unat (l_width l * l_height l) = unat (l_width l) * unat (l_height l)"
    using m(2) by (intro unat_mult_no_wrap) simp
  have dst: "covers_rows s (l_dst l) (l_dst_off l) (l_dpitch l) (l_width l) (l_height l)" if "l_mode l \<noteq> 2"
    using a m(1) that decode_2d_bounds [OF _ _ m(3)] by (auto simp: covers_rows_def dst_rejected_def)
  have src: "covers_rows s (l_src l) (l_src_off l) (l_spitch l) (l_width l) (l_height l)" if "l_mode l \<noteq> 1"
    using a m(1) that decode_2d_bounds [OF _ _ m(4)] by (auto simp: covers_rows_def src_rejected_def)
  have "l_width l * l_height l \<le> UINT32_MAX64" using m(2) wh by (simp add: word_le_nat_alt)
  then have host: "length (drop ?h p) = unat (l_width l) * unat (l_height l)" if "l_mode l = 1"
    using host_bytes_exact [of "length p" ?h "l_width l * l_height l"] assms(3,4) a that wh by auto
  show ?thesis using m(2) host dst src by (simp add: sound_layout_def)
qed

lemma covers_rows_end:
  assumes "covers_rows s a off pitch width height"
  obtains addr where "deref s a off = Some addr" "end_in_bounds (allocations s) (At_device addr) pitch 0 width height 1"
  using assms end_device_2d by (fastforce simp: covers_rows_def deref_def)

lemma payload_end_2d:
  "height \<noteq> 0 \<Longrightarrow> unat width * unat height \<le> length bs \<Longrightarrow> end_in_bounds t (At_payload bs) width 0 width height 1"
  by (cases "unat height") (auto simp: end_in_bounds_def algebra_simps unat_eq_zero)

lemma copy_2d_desc_ok:
  assumes "sound_layout s l host" "l_height l \<noteq> 0" "l_mode l = 1 \<or> l_mode l = 2 \<or> l_mode l = 3"
  obtains c where "copy_2d_desc s l host = Some c" "\<And>st. call_in_bounds (allocations s) (Copy (B_copy_2d_async c st))"
    "call_in_bounds (allocations s) (Copy (B_copy_2d c))"
proof -
  have w: "unat (l_width l * l_height l) = unat (l_width l) * unat (l_height l)"
    using assms(1) by (intro unat_mult_no_wrap) (simp add: sound_layout_def)
  note pay = payload_end_2d [OF assms(2), of "l_width l" host]
  have src: "\<exists>a. deref s (l_src l) (l_src_off l) = Some a \<and> end_in_bounds (allocations s) (At_device a) (l_spitch l) 0 (l_width l) (l_height l) 1"
    if "l_mode l \<noteq> 1" using assms(1) covers_rows_end that unfolding sound_layout_def by metis
  have dst: "\<exists>a. deref s (l_dst l) (l_dst_off l) = Some a \<and> end_in_bounds (allocations s) (At_device a) (l_dpitch l) 0 (l_width l) (l_height l) 1"
    if "l_mode l \<noteq> 2" using assms(1) covers_rows_end that unfolding sound_layout_def by metis
  show ?thesis
    using assms(3) that w pay src dst assms(1)
    by (elim disjE) (auto simp: copy_2d_desc_def Let_def call_in_bounds_def sound_layout_def)
qed

section \<open>The handler\<close>

lemma result_buffer_harmless: "harmless w (snd (result_buffer drv l w))"
  by (simp add: result_buffer_def harmless_def call_in_bounds_def pin_call_def case_prod_beta)

lemma rows_2d_harmless:
  assumes "sound_layout (sess w) l host" "harmless w w1"
  obtains ok out w2 where "rows_2d drv async l host [0..<unat (l_height l)] (replicate (unat (l_width l * l_height l)) 0) w1 = Some (ok, out, w2)"
    "harmless w w2"
proof -
  have w: "unat (l_width l * l_height l) = unat (l_width l) * unat (l_height l)"
    using assms(1) by (intro unat_mult_no_wrap) (simp add: sound_layout_def)
  have "sound_layout (sess w1) l host" using assms by (simp add: harmless_def)
  from rows_2d_effect [OF this, of "replicate (unat (l_width l * l_height l)) 0" "[0..<unat (l_height l)]" drv async] w
  obtain ok out w2 where r: "rows_2d drv async l host [0..<unat (l_height l)] (replicate (unat (l_width l * l_height l)) 0) w1 = Some (ok, out, w2)"
    "harmless w1 w2" by (auto simp: harmless_def)
  then show ?thesis using that harmless_trans [OF assms(2)] by blast
qed

lemma memcpy_2d_serves:
  assumes i: "session_inv n (sess w)" "length p < 2 ^ 32" and ok: "unwrapped_2d (sess w) p False"
  shows "ends (handle_memcpy_2d False drv req_id p w) (safely_served n drv OP_MEMCPY_2D req_id w)"
proof -
  obtain d where d: "decode_2d (sess w) p False = Some d" using decode_2d_total by blast
  have small: "unat (ucast n :: u32) < 4294967296" for n :: u64 by simp
  show ?thesis
  proof (cases d)
    case None
    then show ?thesis using d error_reply [OF i(1)] by (simp add: handle_memcpy_2d_def)
  next
    case (Some l)
    note dec = d [unfolded Some]
    show ?thesis
    proof (cases "(l_mode l = 1 \<and> of_nat (length p) - of_nat 68 \<noteq> l_width l * l_height l) \<or> (l_mode l \<noteq> 1 \<and> of_nat (length p) - of_nat 68 \<noteq> (0 :: u64))")
      case True
      then show ?thesis using dec error_reply [OF i(1)] by (simp add: handle_memcpy_2d_def Let_def)
    next
      case False
      have s: "sound_layout (sess w) l (drop 68 p)" using decode_2d_sound [OF dec ok _ i(2)] False by auto
      have m: "l_mode l = 1 \<or> l_mode l = 2 \<or> l_mode l = 3" using ok dec by (simp add: unwrapped_2d_def)
      obtain c where c: "copy_2d_desc (sess w) l (drop 68 p) = Some c" "call_in_bounds (allocations (sess w)) (Copy (B_copy_2d c))"
        using copy_2d_desc_ok [OF s _ m] decode_2d_accepted [OF dec] by metis
      define w1 where "w1 = snd (result_buffer drv l w)"
      define w2 where "w2 = snd (invoke drv (Copy (B_copy_2d c)) w1)"
      define w3 where "w3 = snd (result_buffer drv l w2)"
      have h1: "harmless w w1" by (simp add: w1_def result_buffer_harmless)
      have h2: "harmless w w2" using h1 c(2) unfolding w2_def by (intro harmless_call) (simp_all add: pin_call_def)
      have h3: "harmless w w3" unfolding w3_def by (rule harmless_trans [OF h2 result_buffer_harmless])
      have sw: "sess w1 = sess w" using h1 by (simp add: harmless_def)
      obtain ok out w4 where r: "rows_2d drv False l (drop 68 p) [0..<unat (l_height l)] (replicate (unat (l_width l * l_height l)) 0) w3 = Some (ok, out, w4)"
        "harmless w w4" by (rule rows_2d_harmless [OF s h3])
      note rep = harmless_reply [OF i(1)]
      have "handle_memcpy_2d False drv req_id p w =
         (if \<not> fst (result_buffer drv l w) then reply drv OP_MEMCPY_2D req_id ST_INTERNAL [] w1
          else if o_rc (drv (calls w1) (Copy (B_copy_2d c))) = CUDA_SUCCESS
          then reply drv OP_MEMCPY_2D req_id ST_OK (if l_mode l = 2 then take (unat (ucast (l_width l * l_height l) :: u32))
                  (fit (unat (l_width l * l_height l)) (o_data (drv (calls w1) (Copy (B_copy_2d c))))) else []) w2
          else if \<not> fst (result_buffer drv l w2) then reply drv OP_MEMCPY_2D req_id ST_INTERNAL [] w3
          else if \<not> ok then reply drv OP_MEMCPY_2D req_id ST_CUDA_ERROR [] w4
          else reply drv OP_MEMCPY_2D req_id ST_OK (if l_mode l = 2 then take (unat (ucast (l_width l * l_height l) :: u32)) out else []) w4)"
        using False c(1) r(1) sw
        by (cases "l_mode l = 1") (auto simp: handle_memcpy_2d_def dec Let_def case_prod_beta w1_def [symmetric] w2_def [symmetric] w3_def [symmetric])
      then show ?thesis using rep [OF h1] rep [OF h2] rep [OF h3] rep [OF r(2)] by (simp add: min.strict_coboundedI2 min.strict_coboundedI1)
    qed
  qed
qed

lemma memcpy_2d_async_serves:
  assumes i: "session_inv n (sess w)" "length p < 2 ^ 32" and ok: "unwrapped_2d (sess w) p True"
  shows "ends (handle_memcpy_2d True drv req_id p w) (safely_served n drv OP_MEMCPY_2D_ASYNC req_id w)"
proof -
  obtain d where d: "decode_2d (sess w) p True = Some d" using decode_2d_total by blast
  note rep = harmless_reply [OF i(1)]
  show ?thesis
  proof (cases "\<exists>l. d = Some l \<and> \<not> ((l_mode l = 1 \<and> of_nat (length p) - of_nat 76 \<noteq> l_width l * l_height l) \<or>
      (l_mode l \<noteq> 1 \<and> of_nat (length p) - of_nat 76 \<noteq> (0 :: u64)))")
    case False
    then show ?thesis using d error_reply [OF i(1)] by (cases d) (auto simp: handle_memcpy_2d_def Let_def)
  next
    case True
    then obtain l where l: "d = Some l" and g: "\<not> ((l_mode l = 1 \<and> of_nat (length p) - of_nat 76 \<noteq> l_width l * l_height l) \<or>
      (l_mode l \<noteq> 1 \<and> of_nat (length p) - of_nat 76 \<noteq> (0 :: u64)))" by blast
    note dec = d [unfolded l]
    have s: "sound_layout (sess w) l (drop 76 p)" using decode_2d_sound [OF dec ok _ i(2)] g by auto
    have m: "l_mode l = 1 \<or> l_mode l = 2 \<or> l_mode l = 3" using ok dec by (simp add: unwrapped_2d_def)
    obtain c where c: "copy_2d_desc (sess w) l (drop 76 p) = Some c" "\<And>st. call_in_bounds (allocations (sess w)) (Copy (B_copy_2d_async c st))"
      using copy_2d_desc_ok [OF s _ m] decode_2d_accepted [OF dec] by metis
    define w1 where "w1 = snd (result_buffer drv l w)"
    define w2 where "w2 = (if l_mode l = 3 then snd (invoke drv (Copy (B_copy_2d_async c (l_stream l))) w) else w1)"
    have h1: "harmless w w1" by (simp add: w1_def result_buffer_harmless)
    have "harmless w (snd (invoke drv (Copy (B_copy_2d_async c (l_stream l))) w))"
      using c(2) by (intro harmless_call) (simp_all add: pin_call_def)
    then have h2: "harmless w w2" using h1 by (simp add: w2_def)
    obtain ok out w4 where r: "rows_2d drv True l (drop 76 p) [0..<unat (l_height l)] (replicate (unat (l_width l * l_height l)) 0) w2 = Some (ok, out, w4)"
      "harmless w w4" by (rule rows_2d_harmless [OF s h2])
    have no: "result_buffer drv l w' = (True, w')" if "l_mode l \<noteq> 2" for w' using that by (simp add: result_buffer_def)
    have "handle_memcpy_2d True drv req_id p w =
       (if \<not> fst (result_buffer drv l w) then reply drv OP_MEMCPY_2D_ASYNC req_id ST_INTERNAL [] w1
        else if l_mode l = 3 \<and> o_rc (drv (calls w) (Copy (B_copy_2d_async c (l_stream l)))) = CUDA_SUCCESS
        then reply drv OP_MEMCPY_2D_ASYNC req_id ST_OK [] w2
        else if \<not> ok then reply drv OP_MEMCPY_2D_ASYNC req_id ST_CUDA_ERROR [] w4
        else reply drv OP_MEMCPY_2D_ASYNC req_id ST_OK (if l_mode l = 2 then take (unat (ucast (l_width l * l_height l) :: u32)) out else []) w4)"
      using g c(1) r(1) m no
      by (elim disjE) (auto simp: handle_memcpy_2d_def dec Let_def case_prod_beta w1_def w2_def)
    then show ?thesis using rep [OF h1] rep [OF h2] rep [OF r(2)] by (simp add: min.strict_coboundedI2)
  qed
qed

section \<open>Properties\<close>

text \<open>
  C25. A two-dimensional copy whose mode is 1, 2 or 3 and whose extents do not wrap around is answered
  exactly once, keeps the session invariant, never revives a stale identifier and lets the driver
  touch only memory inside the allocations the request names, in the synchronous and in the
  asynchronous form, whether the native copy succeeds or the rows are copied one by one.
\<close>

theorem memcpy_2d_safe:
  assumes "session_inv n (sess w)" "length p < 2 ^ 32" "unwrapped_2d (sess w) p async"
  shows "ends (handle_memcpy_2d async drv req_id p w)
    (safely_served n drv (if async then OP_MEMCPY_2D_ASYNC else OP_MEMCPY_2D) req_id w)"
  using memcpy_2d_serves [OF assms(1,2)] memcpy_2d_async_serves [OF assms(1,2)] assms(3) by (cases async) simp_all

definition upload_2d :: bytes where
  "upload_2d = be32 1 @ be64 1 @ be64 0 @ be64 8 @ be64 0 @ be64 0 @ be64 8 @ be64 2 @ be64 2 @ replicate 4 7"

lemma upload_2d_accepted: "decode_2d (sess alloc_world) upload_2d False =
    Some (Some \<lparr>l_mode = 1, l_dst = Some 0, l_dst_off = 0, l_dpitch = 8, l_src = None, l_src_off = 0, l_spitch = 8,
      l_width = 2, l_height = 2, l_stream = 0\<rparr>)"
  by (simp add: decode_2d_def upload_2d_def Let_def dst_rejected_def)

theorem memcpy_2d_safe_witness:
  "decode_2d (sess alloc_world) upload_2d False \<noteq> Some None \<and> unwrapped_2d (sess alloc_world) upload_2d False \<and>
   ends (handle_memcpy_2d False (ok_driver 0) 3 upload_2d alloc_world) (safely_served 2 (ok_driver 0) OP_MEMCPY_2D 3 alloc_world)"
  using memcpy_2d_safe [OF alloc_world_inv, of upload_2d False "ok_driver 0" 3] upload_2d_accepted
  by (simp add: unwrapped_2d_def) (simp add: upload_2d_def)

text \<open>
  C24. The bounds check of the three-dimensional requests is exact: an extent is accepted if and only
  if its allocation exists, its rows fit their pitch, its rows per slice fit the slice, and its last
  byte, computed without wrap-around, lies inside the allocation.
\<close>

theorem valid_3d_exact:
  assumes "width \<noteq> 0" "height \<noteq> 0" "depth \<noteq> 0"
  shows "valid_3d_allocation s a off pitch sl width height depth \<longleftrightarrow>
    (\<exists>i. a = Some i \<and> pitch \<noteq> 0 \<and> sl \<noteq> 0 \<and> sl mod pitch = 0 \<and> unat width \<le> unat pitch \<and>
         unat height \<le> unat sl div unat pitch \<and>
         unat off + (unat depth - 1) * unat sl + (unat height - 1) * unat pitch + unat width \<le> unat (a_size (allocations s ! i)))"
  using valid_3d_iff [OF assms] .

theorem valid_3d_exact_witness:
  "valid_3d_allocation (sess alloc_world) (Some 0) 0 8 16 8 2 4 \<and> \<not> valid_3d_allocation (sess alloc_world) (Some 0) 1 8 16 8 2 4"
  using valid_3d_exact [of 8 2 4 "sess alloc_world" "Some 0" 0 8 16] valid_3d_exact [of 8 2 4 "sess alloc_world" "Some 0" 1 8 16] by simp

text \<open>
  An asynchronous two-dimensional upload or download is submitted all or nothing, with a transfer
  of exactly \<open>width * height\<close> bytes.
\<close>

theorem submit_2d_all_or_nothing:
  assumes "session_inv n (sess w)" "Suc n < 2 ^ 64" "length p < 2 ^ 32"
  shows "ends (handle_memcpy_2d_h2d_async drv req_id p w)
      (submitted n drv OP_MEMCPY_2D_H2D_ASYNC req_id (strided_transfer TRANSFER_KIND_H2D_2D p) w) \<and>
    ends (handle_memcpy_2d_d2h_async drv req_id p w)
      (submitted n drv OP_MEMCPY_2D_D2H_ASYNC req_id (strided_transfer TRANSFER_KIND_D2H_2D p) w)"
  using memcpy_2d_host_async_submitted [OF assms, of True drv req_id] memcpy_2d_host_async_submitted [OF assms, of False drv req_id]
  by (simp add: handle_memcpy_2d_h2d_async_def handle_memcpy_2d_d2h_async_def)

theorem submit_2d_all_or_nothing_witness:
  "ends (handle_memcpy_2d_d2h_async (ok_driver 9) 5 (be64 1 @ be64 0 @ be64 8 @ be64 4 @ be64 2 @ be64 0) alloc_world)
     (submitted 2 (ok_driver 9) OP_MEMCPY_2D_D2H_ASYNC 5
        (strided_transfer TRANSFER_KIND_D2H_2D (be64 1 @ be64 0 @ be64 8 @ be64 4 @ be64 2 @ be64 0)) alloc_world)"
  using submit_2d_all_or_nothing [OF alloc_world_inv, of "be64 1 @ be64 0 @ be64 8 @ be64 4 @ be64 2 @ be64 0" "ok_driver 9" 5]
  by simp

text \<open>The payload of a synchronous two-dimensional download.\<close>

definition download_2d :: "u64 \<Rightarrow> u64 \<Rightarrow> u64 \<Rightarrow> u64 \<Rightarrow> u64 \<Rightarrow> bytes" where
  "download_2d k off pitch width height =
     be32 2 @ be64 0 @ be64 0 @ be64 width @ be64 k @ be64 off @ be64 pitch @ be64 width @ be64 height"

text \<open>A number of rows whose distances add up to a multiple of \<open>2 ^ 64\<close> looks like a single row.\<close>

lemma rows_wrap:
  fixes pitch height :: u64
  assumes "2 ^ 64 dvd (unat height - 1) * unat pitch" "height \<noteq> 0"
  shows "(height - 1) * pitch = 0"
proof -
  have "unat ((height - 1) * pitch) = ((unat height - 1) * unat pitch) mod 2 ^ 64"
    using assms(2) by (simp add: unat_word_ariths unat_sub_one)
  then show ?thesis using assms(1) by (simp add: unat_eq_0)
qed

text \<open>
  C26. The bounds check of the two-dimensional copies wraps around. For every live allocation and every range of
  one row inside it, a download of any number of rows whose distances add up to a multiple of \<open>2 ^ 64\<close> is
  accepted; with two rows or more its last row lies outside the allocation, computed without wrap-around.
\<close>

theorem decode_2d_wraps:
  assumes "find_allocation s k = Some i" "k \<noteq> 0" "width \<noteq> 0" "1 < height" "width \<le> pitch"
    "unat off + unat width \<le> unat (a_size (allocations s ! i))" "2 ^ 64 dvd (unat height - 1) * unat pitch"
  shows "decode_2d s (download_2d k off pitch width height) False =
      Some (Some \<lparr>l_mode = 2, l_dst = None, l_dst_off = 0, l_dpitch = width, l_src = Some i, l_src_off = off, l_spitch = pitch,
        l_width = width, l_height = height, l_stream = 0\<rparr>) \<and>
    unat (a_size (allocations s ! i)) < unat off + (unat height - 1) * unat pitch"
proof
  have z: "(height - 1) * pitch = 0" using assms(4,7) by (intro rows_wrap) auto
  have pos: "pitch \<noteq> 0" "1 < unat height" using assms(3-5) by (auto simp: word_less_nat_alt)
  have g: "\<not> a_size (allocations s ! i) < off" "\<not> a_size (allocations s ! i) - off < width"
    using assms(6) word_range_ok_iff by blast+
  show "decode_2d s (download_2d k off pitch width height) False =
      Some (Some \<lparr>l_mode = 2, l_dst = None, l_dst_off = 0, l_dpitch = width, l_src = Some i, l_src_off = off, l_spitch = pitch,
        l_width = width, l_height = height, l_stream = 0\<rparr>)"
    using assms(1-5) pos(1) g z by (auto simp: decode_2d_def download_2d_def Let_def src_rejected_def not_less)
  have "0 < (unat height - 1) * unat pitch" using pos by (simp add: unat_gt_0)
  with assms(7) have "2 ^ 64 \<le> (unat height - 1) * unat pitch" by (rule dvd_imp_le)
  moreover have "unat (a_size (allocations s ! i)) < 2 ^ 64" using unsigned_less [of "a_size (allocations s ! i)", where 'a = nat] by simp
  ultimately show "unat (a_size (allocations s ! i)) < unat off + (unat height - 1) * unat pitch" by linarith
qed

theorem decode_2d_wraps_witness:
  "decode_2d (sess alloc_world) (download_2d 1 0 8589934592 1 2147483649) False =
     Some (Some \<lparr>l_mode = 2, l_dst = None, l_dst_off = 0, l_dpitch = 1, l_src = Some 0, l_src_off = 0, l_spitch = 8589934592,
       l_width = 1, l_height = 2147483649, l_stream = 0\<rparr>) \<and>
   (64 :: nat) < 2147483648 * 8589934592"
  using decode_2d_wraps [of "sess alloc_world" 1 0 1 2147483649 8589934592 0] by simp

definition modeless_2d :: bytes where
  "modeless_2d = be32 0 @ be64 0 @ be64 0 @ be64 1 @ be64 0 @ be64 0 @ be64 1 @ be64 1 @ be64 1"

text \<open>
  C27. The copy mode is not checked: a synchronous two-dimensional copy with mode 0 and no allocation
  dereferences a null pointer.
\<close>

theorem memcpy_2d_null: "handle_memcpy_2d_sync_entry drv req_id modeless_2d w = None"
  by (simp add: handle_memcpy_2d_sync_entry_def handle_memcpy_2d_def decode_2d_def modeless_2d_def Let_def
      result_buffer_def copy_2d_desc_def deref_def)

end
