(* ===== verification/Pools.thy ===== *)
theory Pools
  imports Codecs Memory
begin

text \<open>
  The memory pools of \<^verbatim>\<open>server/runtime_server.c\<close>: the default pool, which is created on first use and
  never destroyed, the current pool of the device, the pools of the client, and the allocations that
  are ordered on a stream. A pool is named by an identifier of the session; the invariant of
  \<open>pool_inv\<close> makes the default pool the safe fallback when the current pool is destroyed.
\<close>

abbreviation (input) CU_MEM_ALLOCATION_TYPE_PINNED :: u32 where "CU_MEM_ALLOCATION_TYPE_PINNED \<equiv> 1"
abbreviation (input) CU_MEM_LOCATION_TYPE_DEVICE :: u32 where "CU_MEM_LOCATION_TYPE_DEVICE \<equiv> 1"
abbreviation (input) CU_MEM_ACCESS_FLAGS_PROT_READWRITE :: u32 where "CU_MEM_ACCESS_FLAGS_PROT_READWRITE \<equiv> 3"
abbreviation (input) CU_MEMPOOL_ATTR_RELEASE_THRESHOLD :: u32 where "CU_MEMPOOL_ATTR_RELEASE_THRESHOLD \<equiv> 4"

section \<open>Operations\<close>

fun pool_status :: "CUresult \<Rightarrow> u32" where
  "pool_status CUDA_SUCCESS = ST_OK"
| "pool_status CUDA_ERROR_INVALID_VALUE = ST_BAD_REQUEST"
| "pool_status CUDA_ERROR_NOT_SUPPORTED = ST_NOT_SUPPORTED"
| "pool_status CUDA_ERROR_OUT_OF_MEMORY = ST_NO_RESOURCE"
| "pool_status _ = ST_CUDA_ERROR"

text \<open>
  The attributes up to 3 are \<open>int\<close>s, widened with their sign; \<open>old\<close> is the value of the destination
  before the call, kept when a read of a 64-bit attribute fails.
\<close>

definition pool_read_attribute :: "driver \<Rightarrow> u64 \<Rightarrow> u32 \<Rightarrow> u64 \<Rightarrow> world \<Rightarrow> (CUresult \<times> u64) \<times> world" where
  "pool_read_attribute drv pool attribute old w =
     (let (r, w) = invoke drv (Pool (B_pool_get_attribute pool attribute)) w
      in if attribute \<le> 3
         then ((o_rc r, if o_rc r = CUDA_SUCCESS then scast (ucast (o_val r) :: u32) else 0), w)
         else ((o_rc r, if o_rc r = CUDA_SUCCESS then o_val r else old), w))"

definition pool_write_attribute :: "driver \<Rightarrow> u64 \<Rightarrow> u32 \<Rightarrow> u64 \<Rightarrow> world \<Rightarrow> CUresult \<times> world" where
  "pool_write_attribute drv pool attribute val w =
     (let (r, w) = invoke drv (Pool (B_pool_set_attribute pool attribute
                     (if attribute \<le> 3 then scast (ucast val :: u32) else val))) w
      in (o_rc r, w))"

text \<open>The loop over the attributes of the default pool.\<close>

fun read_default_attributes :: "driver \<Rightarrow> u64 \<Rightarrow> nat list \<Rightarrow> world \<Rightarrow> CUresult \<times> world" where
  "read_default_attributes drv pool [] w = (CUDA_SUCCESS, w)"
| "read_default_attributes drv pool (attr # attrs) w =
     (let ((rc, v), w) = pool_read_attribute drv pool (of_nat attr) (default_pool_attributes (sess w) ! (attr - 1)) w;
          w = put_sess (\<lambda>s. s\<lparr>default_pool_attributes := (default_pool_attributes s)[attr - 1 := v]\<rparr>) w
      in if rc = CUDA_SUCCESS then read_default_attributes drv pool attrs w else (rc, w))"

definition ensure_default_pool :: "driver \<Rightarrow> world \<Rightarrow> u32 \<times> world" where
  "ensure_default_pool drv w =
     (if \<not> g_memory_pools_supported w then (ST_NOT_SUPPORTED, w)
      else if default_pool_id (sess w) \<noteq> 0 then (ST_OK, w)
      else case new_pool_slot (sess w) of
             None \<Rightarrow> (ST_NO_RESOURCE, w)
           | Some (i, s) \<Rightarrow>
               (let (r, w) = invoke drv (Pool B_device_default_pool) (w\<lparr>sess := s\<rparr>);
                    w = (if o_rc r = CUDA_SUCCESS then put_sess (upd_pool i (\<lambda>p. p\<lparr>p_pool := o_val r\<rparr>)) w else w);
                    (rc, w) = (if o_rc r = CUDA_SUCCESS
                               then read_default_attributes drv (p_pool (pools (sess w) ! i)) [1, 2, 3, 4] w
                               else (o_rc r, w))
                in if rc \<noteq> CUDA_SUCCESS
                   then (pool_status rc, put_sess (upd_pool i (\<lambda>_. zero_pool)) w)
                   else (ST_OK, put_sess (\<lambda>s. (upd_pool i (\<lambda>p. p\<lparr>p_is_default := True\<rparr>) s)
                                   \<lparr>default_pool_id := p_id (pools s ! i), current_pool_id := p_id (pools s ! i)\<rparr>) w)))"

definition handle_device_default_pool :: handler where
  "handle_device_default_pool drv req_id p w =
     (case corex_generated_decode_cudaDeviceGetDefaultMemPool_request p of
        None \<Rightarrow> reply drv OP_DEVICE_DEFAULT_POOL req_id ST_BAD_REQUEST [] w
      | Some device \<Rightarrow>
          if device \<noteq> 0 then reply drv OP_DEVICE_DEFAULT_POOL req_id ST_INVALID_DEVICE [] w
          else let (status, w) = ensure_default_pool drv w
               in if status \<noteq> ST_OK then reply drv OP_DEVICE_DEFAULT_POOL req_id status [] w
                  else do {
                    wire \<leftarrow> corex_generated_encode_cudaDeviceGetDefaultMemPool_response 8 (default_pool_id (sess w));
                    reply drv OP_DEVICE_DEFAULT_POOL req_id ST_OK wire w
                  })"

definition handle_device_get_pool :: handler where
  "handle_device_get_pool drv req_id p w =
     (case corex_generated_decode_cudaDeviceGetMemPool_request p of
        None \<Rightarrow> reply drv OP_DEVICE_GET_POOL req_id ST_BAD_REQUEST [] w
      | Some device \<Rightarrow>
          if device \<noteq> 0 then reply drv OP_DEVICE_GET_POOL req_id ST_INVALID_DEVICE [] w
          else let (status, w) = ensure_default_pool drv w
               in if status \<noteq> ST_OK then reply drv OP_DEVICE_GET_POOL req_id status [] w
                  else let (r, w) = invoke drv (Pool B_device_get_pool) w
                       in case find_pool (sess w) (current_pool_id (sess w)) of
                            None \<Rightarrow> reply drv OP_DEVICE_GET_POOL req_id ST_CUDA_ERROR [] w
                          | Some i \<Rightarrow>
                              if o_rc r \<noteq> CUDA_SUCCESS \<or> p_pool (pools (sess w) ! i) \<noteq> o_val r
                              then reply drv OP_DEVICE_GET_POOL req_id ST_CUDA_ERROR [] w
                              else do {
                                wire \<leftarrow> corex_generated_encode_cudaDeviceGetMemPool_response 8 (p_id (pools (sess w) ! i));
                                reply drv OP_DEVICE_GET_POOL req_id ST_OK wire w
                              })"

definition handle_device_set_pool :: handler where
  "handle_device_set_pool drv req_id p w =
     (case corex_generated_decode_cudaDeviceSetMemPool_request p of
        None \<Rightarrow> reply drv OP_DEVICE_SET_POOL req_id ST_BAD_REQUEST [] w
      | Some (device, pool) \<Rightarrow>
          if device \<noteq> 0 then reply drv OP_DEVICE_SET_POOL req_id ST_INVALID_DEVICE [] w
          else case find_pool (sess w) pool of
                 None \<Rightarrow> reply drv OP_DEVICE_SET_POOL req_id ST_NOT_FOUND [] w
               | Some i \<Rightarrow>
                   (let (status, w) = ensure_default_pool drv w
                    in if status \<noteq> ST_OK then reply drv OP_DEVICE_SET_POOL req_id status [] w
                       else let entry = pools (sess w) ! i;
                                (r, w) = invoke drv (Pool (B_device_set_pool (p_pool entry))) w;
                                w = (if o_rc r = CUDA_SUCCESS then put_sess (\<lambda>s. s\<lparr>current_pool_id := p_id entry\<rparr>) w else w)
                            in reply drv OP_DEVICE_SET_POOL req_id (pool_status (o_rc r)) [] w))"

definition handle_pool_create :: handler where
  "handle_pool_create drv req_id p w =
     (case corex_generated_decode_cudaMemPoolCreate_request p of
        None \<Rightarrow> reply drv OP_POOL_CREATE req_id ST_BAD_REQUEST [] w
      | Some (allocation_type, location_type, device) \<Rightarrow>
          if allocation_type \<noteq> CU_MEM_ALLOCATION_TYPE_PINNED \<or> location_type \<noteq> CU_MEM_LOCATION_TYPE_DEVICE
          then reply drv OP_POOL_CREATE req_id ST_BAD_REQUEST [] w
          else if device \<noteq> 0 then reply drv OP_POOL_CREATE req_id ST_INVALID_DEVICE [] w
          else if \<not> g_memory_pools_supported w then reply drv OP_POOL_CREATE req_id ST_NOT_SUPPORTED [] w
          else case new_pool_slot (sess w) of
                 None \<Rightarrow> reply drv OP_POOL_CREATE req_id ST_NO_RESOURCE [] w
               | Some (i, s) \<Rightarrow>
                   (let (r, w) = invoke drv (Pool B_pool_create) (w\<lparr>sess := s\<rparr>)
                    in if o_rc r \<noteq> CUDA_SUCCESS
                       then reply drv OP_POOL_CREATE req_id (pool_status (o_rc r)) [] (put_sess (upd_pool i (\<lambda>_. zero_pool)) w)
                       else let w = put_sess (upd_pool i (\<lambda>p. p\<lparr>p_pool := o_val r\<rparr>)) w
                            in do {
                              wire \<leftarrow> corex_generated_encode_cudaMemPoolCreate_response 8 (p_id (pools (sess w) ! i));
                              reply drv OP_POOL_CREATE req_id ST_OK wire w
                            }))"

text \<open>The native destruction at the end of \<open>handle_pool_destroy\<close>.\<close>

definition destroy_pool_entry :: "driver \<Rightarrow> u32 \<Rightarrow> nat \<Rightarrow> world \<Rightarrow> (int \<times> world) option" where
  "destroy_pool_entry drv req_id i w =
     (let (r, w) = invoke drv (Pool (B_pool_destroy (p_pool (pools (sess w) ! i)))) w;
          w = (if o_rc r = CUDA_SUCCESS then put_sess (upd_pool i (\<lambda>_. zero_pool)) w else w)
      in reply drv OP_POOL_DESTROY req_id (pool_status (o_rc r)) [] w)"

text \<open>
  The current pool is replaced by the default pool before it is destroyed; a missing default pool
  would be dereferenced.
\<close>

definition handle_pool_destroy :: handler where
  "handle_pool_destroy drv req_id p w =
     (case corex_generated_decode_cudaMemPoolDestroy_request p of
        None \<Rightarrow> reply drv OP_POOL_DESTROY req_id ST_BAD_REQUEST [] w
      | Some pool \<Rightarrow>
          (case find_pool (sess w) pool of
             None \<Rightarrow> reply drv OP_POOL_DESTROY req_id ST_NOT_FOUND [] w
           | Some i \<Rightarrow>
               if p_is_default (pools (sess w) ! i) then reply drv OP_POOL_DESTROY req_id ST_BAD_REQUEST [] w
               else if current_pool_id (sess w) = p_id (pools (sess w) ! i)
               then (case find_pool (sess w) (default_pool_id (sess w)) of
                       None \<Rightarrow> None
                     | Some f \<Rightarrow>
                         let fallback = pools (sess w) ! f;
                             (r, w) = invoke drv (Pool (B_device_set_pool (p_pool fallback))) w
                         in if o_rc r \<noteq> CUDA_SUCCESS
                            then reply drv OP_POOL_DESTROY req_id (pool_status (o_rc r)) [] w
                            else destroy_pool_entry drv req_id i (put_sess (\<lambda>s. s\<lparr>current_pool_id := p_id fallback\<rparr>) w))
               else destroy_pool_entry drv req_id i w))"

text \<open>
  \<open>corex_backend_pool_trim\<close> of \<^verbatim>\<open>server/corex_backend.c\<close>: a trim to zero goes through a zero release
  threshold, which is restored whatever happens in between.
\<close>

definition corex_backend_pool_trim :: "driver \<Rightarrow> u64 \<Rightarrow> u64 \<Rightarrow> world \<Rightarrow> CUresult \<times> world" where
  "corex_backend_pool_trim drv pool bytes w =
     (if bytes \<noteq> 0 then (let (r, w) = invoke drv (Pool (B_pool_trim pool bytes)) w in (o_rc r, w))
      else
        let (r, w) = invoke drv (Pool (B_pool_get_attribute pool CU_MEMPOOL_ATTR_RELEASE_THRESHOLD)) w
        in if o_rc r \<noteq> CUDA_SUCCESS then (o_rc r, w)
           else let threshold = o_val r;
                    (r, w) = invoke drv (Pool (B_pool_set_attribute pool CU_MEMPOOL_ATTR_RELEASE_THRESHOLD 0)) w
                in if o_rc r \<noteq> CUDA_SUCCESS then (o_rc r, w)
                   else let (r, w) = invoke drv (Ctx B_context_sync) w;
                            (result, w) = (if o_rc r = CUDA_SUCCESS
                                           then (let (r, w) = invoke drv (Pool (B_pool_trim pool 0)) w in (o_rc r, w))
                                           else (o_rc r, w));
                            (r, w) = invoke drv (Pool (B_pool_set_attribute pool CU_MEMPOOL_ATTR_RELEASE_THRESHOLD threshold)) w
                        in (if result = CUDA_SUCCESS then o_rc r else result, w))"

definition handle_pool_trim :: handler where
  "handle_pool_trim drv req_id p w =
     (case corex_generated_decode_cudaMemPoolTrimTo_request p of
        None \<Rightarrow> reply drv OP_POOL_TRIM req_id ST_BAD_REQUEST [] w
      | Some (pool, bytes) \<Rightarrow>
          (case find_pool (sess w) pool of
             None \<Rightarrow> reply drv OP_POOL_TRIM req_id ST_NOT_FOUND [] w
           | Some i \<Rightarrow>
               let (rc, w) = corex_backend_pool_trim drv (p_pool (pools (sess w) ! i)) bytes w
               in reply drv OP_POOL_TRIM req_id (pool_status rc) [] w))"

definition handle_pool_get_attribute :: handler where
  "handle_pool_get_attribute drv req_id p w =
     (case corex_generated_decode_cudaMemPoolGetAttribute_request p of
        None \<Rightarrow> reply drv OP_POOL_GET_ATTRIBUTE req_id ST_BAD_REQUEST [] w
      | Some (pool, attribute) \<Rightarrow>
          if attribute < 1 \<or> attribute > 8 then reply drv OP_POOL_GET_ATTRIBUTE req_id ST_BAD_REQUEST [] w
          else case find_pool (sess w) pool of
                 None \<Rightarrow> reply drv OP_POOL_GET_ATTRIBUTE req_id ST_NOT_FOUND [] w
               | Some i \<Rightarrow>
                   (let ((rc, val), w) = pool_read_attribute drv (p_pool (pools (sess w) ! i)) attribute 0 w
                    in if rc \<noteq> CUDA_SUCCESS then reply drv OP_POOL_GET_ATTRIBUTE req_id (pool_status rc) [] w
                       else do {
                         wire \<leftarrow> corex_generated_encode_cudaMemPoolGetAttribute_response 8 val;
                         reply drv OP_POOL_GET_ATTRIBUTE req_id ST_OK wire w
                       }))"

definition handle_pool_set_attribute :: handler where
  "handle_pool_set_attribute drv req_id p w =
     (case corex_generated_decode_cudaMemPoolSetAttribute_request p of
        None \<Rightarrow> reply drv OP_POOL_SET_ATTRIBUTE req_id ST_BAD_REQUEST [] w
      | Some (pool, attribute, val) \<Rightarrow>
          if attribute < 1 \<or> attribute > 8 \<or> attribute = 5 \<or> attribute = 7 \<or> (attribute \<le> 3 \<and> val > 1) \<or>
             ((attribute = 6 \<or> attribute = 8) \<and> val \<noteq> 0)
          then reply drv OP_POOL_SET_ATTRIBUTE req_id ST_BAD_REQUEST [] w
          else case find_pool (sess w) pool of
                 None \<Rightarrow> reply drv OP_POOL_SET_ATTRIBUTE req_id ST_NOT_FOUND [] w
               | Some i \<Rightarrow>
                   if attribute \<le> 3 \<and> val \<noteq> 0 then reply drv OP_POOL_SET_ATTRIBUTE req_id ST_NOT_SUPPORTED [] w
                   else let (rc, w) = pool_write_attribute drv (p_pool (pools (sess w) ! i)) attribute val w
                        in reply drv OP_POOL_SET_ATTRIBUTE req_id (pool_status rc) [] w)"

definition handle_pool_get_access :: handler where
  "handle_pool_get_access drv req_id p w =
     (case corex_generated_decode_cudaMemPoolGetAccess_request p of
        None \<Rightarrow> reply drv OP_POOL_GET_ACCESS req_id ST_BAD_REQUEST [] w
      | Some (pool, location_type, device) \<Rightarrow>
          if location_type \<noteq> CU_MEM_LOCATION_TYPE_DEVICE then reply drv OP_POOL_GET_ACCESS req_id ST_BAD_REQUEST [] w
          else if device \<noteq> 0 then reply drv OP_POOL_GET_ACCESS req_id ST_INVALID_DEVICE [] w
          else case find_pool (sess w) pool of
                 None \<Rightarrow> reply drv OP_POOL_GET_ACCESS req_id ST_NOT_FOUND [] w
               | Some i \<Rightarrow>
                   (let (r, w) = invoke drv (Pool (B_pool_get_access (p_pool (pools (sess w) ! i)))) w
                    in if o_rc r \<noteq> CUDA_SUCCESS then reply drv OP_POOL_GET_ACCESS req_id (pool_status (o_rc r)) [] w
                       else do {
                         wire \<leftarrow> corex_generated_encode_cudaMemPoolGetAccess_response 4 (ucast (o_val r));
                         reply drv OP_POOL_GET_ACCESS req_id ST_OK wire w
                       }))"

text \<open>The last argument of the call is the number of descriptors, 0 or 1.\<close>

definition handle_pool_set_access :: handler where
  "handle_pool_set_access drv req_id p w =
     (case corex_generated_decode_cudaMemPoolSetAccess_request p of
        None \<Rightarrow> reply drv OP_POOL_SET_ACCESS req_id ST_BAD_REQUEST [] w
      | Some (pool, count, location_type, device, flags) \<Rightarrow>
          if count > 1 \<or> (count \<noteq> 0 \<and> (location_type \<noteq> CU_MEM_LOCATION_TYPE_DEVICE \<or> (flags \<noteq> 0 \<and> flags \<noteq> 1 \<and> flags \<noteq> 3)))
          then reply drv OP_POOL_SET_ACCESS req_id ST_BAD_REQUEST [] w
          else if count \<noteq> 0 \<and> device \<noteq> 0 then reply drv OP_POOL_SET_ACCESS req_id ST_INVALID_DEVICE [] w
          else case find_pool (sess w) pool of
                 None \<Rightarrow> reply drv OP_POOL_SET_ACCESS req_id ST_NOT_FOUND [] w
               | Some i \<Rightarrow>
                   if count \<noteq> 0 \<and> flags \<noteq> CU_MEM_ACCESS_FLAGS_PROT_READWRITE
                   then reply drv OP_POOL_SET_ACCESS req_id ST_NOT_SUPPORTED [] w
                   else let (r, w) = invoke drv (Pool (B_pool_set_access (p_pool (pools (sess w) ! i)) count)) w
                        in reply drv OP_POOL_SET_ACCESS req_id (pool_status (o_rc r)) [] w)"

text \<open>The pool of a stream-ordered allocation.\<close>

definition allocation_pool :: "driver \<Rightarrow> u64 \<Rightarrow> world \<Rightarrow> u32 \<times> nat option \<times> world" where
  "allocation_pool drv pool_id w =
     (if pool_id \<noteq> 0
      then (case find_pool (sess w) pool_id of
              None \<Rightarrow> (ST_NOT_FOUND, None, w)
            | Some j \<Rightarrow> (ST_OK, Some j, w))
      else (let (status, w) = ensure_default_pool drv w in (status, None, w)))"

text \<open>Stream-ordered allocation; \<open>pool_id\<close> 0 allocates from the current pool of the device.\<close>

definition allocate_async :: "driver \<Rightarrow> u32 \<Rightarrow> u64 \<Rightarrow> u64 \<Rightarrow> u64 \<Rightarrow> world \<Rightarrow> (int \<times> world) option" where
  "allocate_async drv req_id bytes pool_id stream_id w =
     (let opcode = (if pool_id \<noteq> 0 then OP_ALLOC_FROM_POOL_ASYNC else OP_ALLOC_ASYNC)
      in if bytes = 0 then reply drv opcode req_id ST_BAD_REQUEST [] w
         else case resolve_stream_id (sess w) stream_id of
                None \<Rightarrow> reply drv opcode req_id ST_NOT_FOUND [] w
              | Some stream \<Rightarrow>
                  (let (status, pool, w) = allocation_pool drv pool_id w
                   in if status \<noteq> ST_OK then reply drv opcode req_id status [] w
                      else case new_allocation_slot (sess w) of
                             None \<Rightarrow> reply drv opcode req_id ST_NO_RESOURCE [] w
                           | Some (i, s) \<Rightarrow>
                               (let (r, w) = invoke drv
                                      (case pool of
                                         None \<Rightarrow> Mem (B_mem_alloc_async bytes stream)
                                       | Some j \<Rightarrow> Mem (B_mem_alloc_from_pool_async bytes (p_pool (pools s ! j)) stream)) (w\<lparr>sess := s\<rparr>)
                                in if o_rc r \<noteq> CUDA_SUCCESS
                                   then reply drv opcode req_id (pool_status (o_rc r)) [] (put_sess (upd_allocation i (\<lambda>_. zero_allocation)) w)
                                   else let w = put_sess (upd_allocation i (\<lambda>a. a\<lparr>a_ptr := o_val r, a_size := bytes\<rparr>)) w
                                        in do {
                                          wire \<leftarrow> corex_generated_encode_cudaMallocAsync_response 8 (a_id (allocations (sess w) ! i));
                                          reply drv opcode req_id ST_OK wire w
                                        })))"

definition handle_alloc_async :: handler where
  "handle_alloc_async drv req_id p w =
     (case corex_generated_decode_cudaMallocAsync_request p of
        None \<Rightarrow> reply drv OP_ALLOC_ASYNC req_id ST_BAD_REQUEST [] w
      | Some (bytes, stream) \<Rightarrow> allocate_async drv req_id bytes 0 stream w)"

definition handle_alloc_from_pool_async :: handler where
  "handle_alloc_from_pool_async drv req_id p w =
     (case corex_generated_decode_cudaMallocFromPoolAsync_request p of
        None \<Rightarrow> reply drv OP_ALLOC_FROM_POOL_ASYNC req_id ST_BAD_REQUEST [] w
      | Some (bytes, pool, stream) \<Rightarrow>
          if pool = 0 then reply drv OP_ALLOC_FROM_POOL_ASYNC req_id ST_BAD_REQUEST [] w
          else allocate_async drv req_id bytes pool stream w)"

definition handle_free_async :: handler where
  "handle_free_async drv req_id p w =
     (case corex_generated_decode_cudaFreeAsync_request p of
        None \<Rightarrow> reply drv OP_FREE_ASYNC req_id ST_BAD_REQUEST [] w
      | Some (allocation, stream_id) \<Rightarrow>
          (case (find_allocation (sess w) allocation, resolve_stream_id (sess w) stream_id) of
             (Some i, Some stream) \<Rightarrow>
               let a = allocations (sess w) ! i
               in if a_parent_module_id a \<noteq> 0 then reply drv OP_FREE_ASYNC req_id ST_BAD_REQUEST [] w
                  else let (r, w) = invoke drv (Mem (B_mem_free_async (a_ptr a) stream)) w
                       in do {
                         w \<leftarrow> (if o_rc r = CUDA_SUCCESS
                               then (if a_graph_id a \<noteq> 0 then graph_allocation_freed drv i stream_id True w
                                     else Some (put_sess (upd_allocation i (\<lambda>_. zero_allocation)) w))
                               else Some w);
                         reply drv OP_FREE_ASYNC req_id (pool_status (o_rc r)) [] w
                       }
           | _ \<Rightarrow> reply drv OP_FREE_ASYNC req_id ST_NOT_FOUND [] w))"

section \<open>The pool table\<close>

lemma session_inv_pool: "session_inv n s \<Longrightarrow>
    pool_inv n (pools s) (next_pool_id s) (default_pool_id s) (current_pool_id s) (default_pool_attributes s)"
  by (simp add: session_inv_def)

text \<open>The other tables do not see the pools.\<close>

lemma session_inv_pools:
  assumes "session_inv n s" "n \<le> m" "pool_inv m t nxt d c a"
  shows "session_inv m (s\<lparr>pools := t, next_pool_id := nxt, default_pool_id := d, current_pool_id := c, default_pool_attributes := a\<rparr>)"
  using session_inv_mono [OF assms(1,2)] assms(3) by (simp add: session_inv_def)

lemma find_pool_Some:
  "find_pool s k = Some i \<Longrightarrow> i < length (pools s) \<and> p_used (pools s ! i) \<and> p_id (pools s ! i) = k"
  by (simp add: find_pool_def find_slot_Some)

lemma pool_inv_new:
  assumes "pool_inv n t nxt d c a" "Suc n < 2 ^ 64" "new_slot p_used fresh_pool t nxt = Some (i, t', nxt')"
  shows "pool_inv (Suc n) t' nxt' d c a" "i < MAX_POOLS" "\<not> p_used (t ! i)" "t' = t[i := fresh_pool nxt]"
    "find_slot p_used p_id t' k = (if k = nxt then Some i else find_slot p_used p_id t k)" "nxt \<noteq> 0" "d \<noteq> nxt" "c \<noteq> nxt"
proof -
  have inv: "table_inv p_used p_id nxt t" "unat nxt \<le> n" "length t = MAX_POOLS" "length a = 4"
    "\<forall>p \<in> set t. p_used p \<longrightarrow> p_is_default p \<longleftrightarrow> p_id p = d" "d \<noteq> 0 \<Longrightarrow> find_slot p_used p_id t d \<noteq> None"
    "c \<noteq> 0 \<Longrightarrow> d \<noteq> 0 \<and> find_slot p_used p_id t c \<noteq> None"
    using assms(1) by (auto simp: pool_inv_def)
  note new = pool_tab.new_bounded [OF inv(1,2) assms(2,3)]
  show nz: "nxt \<noteq> 0" using inv(1) by (simp add: table_inv_def)
  have fresh: "find_slot p_used p_id t nxt = None"
    using pool_tab.map_new_fresh [OF inv(1)] by (simp add: slot_map_def)
  show dn: "d \<noteq> nxt" using fresh inv(6) nz by auto
  show "c \<noteq> nxt" using fresh inv(7) nz by auto
  show f: "find_slot p_used p_id t' k = (if k = nxt then Some i else find_slot p_used p_id t k)" for k
    using pool_tab.new_find [OF inv(1) assms(3)] .
  have "\<forall>p \<in> set t'. p_used p \<longrightarrow> p_is_default p \<longleftrightarrow> p_id p = d"
    using inv(5) dn by (auto simp: new(5) fresh_pool_def zero_pool_def dest!: set_upd_subset)
  then show "pool_inv (Suc n) t' nxt' d c a"
    using new inv f by (simp add: pool_inv_def)
  show "i < MAX_POOLS" "\<not> p_used (t ! i)" "t' = t[i := fresh_pool nxt]" using new inv(3) by simp_all
qed

lemma pool_inv_update:
  assumes "pool_inv n t nxt d c a" "p_used e = p_used (t ! i)" "p_id e = p_id (t ! i)" "p_is_default e = p_is_default (t ! i)"
    "i < MAX_POOLS"
  shows "pool_inv n (t[i := e]) nxt d c a"
proof -
  have "find_slot p_used p_id (t[i := e]) = find_slot p_used p_id t"
    using assms(2,3) by (intro find_slot_update)
  moreover have "t ! i \<in> set t" using assms(1,5) by (simp add: pool_inv_def)
  ultimately show ?thesis
    using assms unfolding pool_inv_def by (auto simp: table_inv_update dest!: set_upd_subset)
qed

lemma pool_inv_erase:
  assumes "pool_inv n t nxt d c a" "i < MAX_POOLS" "p_used (t ! i)" "p_id (t ! i) \<noteq> d" "p_id (t ! i) \<noteq> c"
  shows "pool_inv n (t[i := zero_pool]) nxt d c a"
proof -
  have inv: "table_inv p_used p_id nxt t" "i < length t" using assms(1,2) by (auto simp: pool_inv_def)
  show ?thesis
    using assms pool_tab.erase_find [OF inv assms(3)] unfolding pool_inv_def
    by (auto simp: pool_tab.erase_inv dest!: set_upd_subset)
qed

text \<open>The claimed slot becomes the default pool.\<close>

lemma pool_inv_default:
  assumes "pool_inv n t nxt 0 c a" "i < MAX_POOLS" "p_used (t ! i)"
  shows "pool_inv n (t[i := (t ! i)\<lparr>p_is_default := True\<rparr>]) nxt (p_id (t ! i)) (p_id (t ! i)) a"
proof -
  let ?t = "t[i := (t ! i)\<lparr>p_is_default := True\<rparr>]"
  have inv: "table_inv p_used p_id nxt t" "i < length t" "length t = MAX_POOLS" using assms(1,2) by (auto simp: pool_inv_def)
  have f: "find_slot p_used p_id ?t = find_slot p_used p_id t" by (intro find_slot_update) simp_all
  have "find_slot p_used p_id t (p_id (t ! i)) = Some i" by (rule find_slot_eqI [OF inv(1,2) assms(3) refl])
  moreover have "\<not> p_is_default (t ! j)" if "j < length t" "p_used (t ! j)" for j
    using assms(1) that inv(1) nth_mem [OF that(1)] by (auto simp: pool_inv_def table_inv_def)
  then have "\<forall>p \<in> set ?t. p_used p \<longrightarrow> p_is_default p \<longleftrightarrow> p_id p = p_id (t ! i)"
    using assms(3) inv(1,2,3) by (auto simp: in_set_conv_nth nth_upd table_inv_def)
  ultimately show ?thesis
    using assms(1) f unfolding pool_inv_def by (simp add: table_inv_update)
qed

section \<open>The default pool\<close>

text \<open>Work before the reply: the invariant, the connection and the staging buffers are as the contract wants them.\<close>

definition ready :: "nat \<Rightarrow> world \<Rightarrow> world \<Rightarrow> bool" where
  "ready n w w' \<longleftrightarrow> session_inv (Suc n) (sess w') \<and> no_revival (sess w) (sess w') \<and> sent w' = sent w \<and>
     transfers (sess w') = transfers (sess w) \<and>
     grown (call_in_bounds (allocations (sess w))) (calls w) (calls w') \<and> grown (\<lambda>c. \<not> pin_call c) (calls w) (calls w')"

lemma ready_refl [simp]: "session_inv n (sess w) \<Longrightarrow> ready n w w"
  by (simp add: ready_def)

lemma ready_reply:
  assumes "ready n w w1" "length pl < 2 ^ 32"
  shows "safely_served n drv op rid w (fst (send_response drv op rid st pl w1)) (snd (send_response drv op rid st pl w1))"
  using assms balanced_grown [OF balanced_refl] by (intro safe_reply) (auto simp: ready_def)

lemma ready_call:
  "ready n w w1 \<Longrightarrow> call_in_bounds (allocations (sess w)) c \<Longrightarrow> \<not> pin_call c \<Longrightarrow> ready n w (snd (invoke drv c w1))"
  by (simp add: ready_def)

lemma no_revival_pools:
  assumes "persists p_used p_id (next_pool_id s) (pools s) nxt t"
  shows "no_revival s (s\<lparr>pools := t, next_pool_id := nxt, default_pool_id := d, current_pool_id := c, default_pool_attributes := a\<rparr>)"
  using assms by (simp add: no_revival_def)

lemma read_default_attributes_effect:
  assumes "read_default_attributes drv pool attrs w = (rc, w')"
  shows "\<exists>a. sess w' = (sess w)\<lparr>default_pool_attributes := a\<rparr> \<and> length a = length (default_pool_attributes (sess w)) \<and>
    sent w' = sent w \<and> g_memory_pools_supported w' = g_memory_pools_supported w \<and>
    (\<forall>t. grown (call_in_bounds t) (calls w) (calls w')) \<and> grown (\<lambda>c. \<not> pin_call c) (calls w) (calls w')"
  using assms
proof (induction attrs arbitrary: w)
  case Nil
  then show ?case by (auto intro!: exI [of _ "default_pool_attributes (sess w)"])
next
  case (Cons attr attrs)
  obtain r v w1 where r: "pool_read_attribute drv pool (of_nat attr) (default_pool_attributes (sess w) ! (attr - 1)) w = ((r, v), w1)"
    by (metis surj_pair)
  have w1: "sess w1 = sess w" "sent w1 = sent w" "calls w1 = Pool (B_pool_get_attribute pool (of_nat attr)) # calls w"
    "g_memory_pools_supported w1 = g_memory_pools_supported w"
    using r by (auto simp: pool_read_attribute_def Let_def invoke_def split: if_splits)
  let ?w = "put_sess (\<lambda>s. s\<lparr>default_pool_attributes := (default_pool_attributes s)[attr - 1 := v]\<rparr>) w1"
  have g: "grown (call_in_bounds t) (calls w) (calls ?w)" "grown (\<lambda>c. \<not> pin_call c) (calls w) (calls ?w)" for t
    by (simp_all add: w1 call_in_bounds_def pin_call_def)
  show ?case
  proof (cases "r = CUDA_SUCCESS")
    case True
    then have "read_default_attributes drv pool attrs ?w = (rc, w')" using Cons.prems r by simp
    from Cons.IH [OF this] obtain a where "sess w' = (sess ?w)\<lparr>default_pool_attributes := a\<rparr>"
      "length a = length (default_pool_attributes (sess ?w))" "sent w' = sent ?w"
      "g_memory_pools_supported w' = g_memory_pools_supported ?w"
      "\<forall>t. grown (call_in_bounds t) (calls ?w) (calls w')" "grown (\<lambda>c. \<not> pin_call c) (calls ?w) (calls w')" by blast
    then show ?thesis using w1 grown_trans [OF g(1)] grown_trans [OF g(2)] by (intro exI [of _ a]) simp
  next
    case False
    then have "w' = ?w" using Cons.prems r by simp
    then show ?thesis using g w1 by (intro exI [of _ "(default_pool_attributes (sess w))[attr - 1 := v]"]) simp
  qed
qed

text \<open>
  What \<open>ensure_default_pool\<close> does to the session: nothing, a claimed slot that was given back, or a
  claimed slot that became the default pool.
\<close>

lemma ensure_default_pool_cases:
  assumes "session_inv n (sess w)" "Suc n < 2 ^ 64" "ensure_default_pool drv w = (st, w')"
  obtains (same) "w' = w" "st = ST_OK \<longrightarrow> default_pool_id (sess w) \<noteq> 0"
  | (failed) i nxt a where "st \<noteq> ST_OK" "length a = 4"
      "new_slot p_used fresh_pool (pools (sess w)) (next_pool_id (sess w)) = Some (i, (pools (sess w))[i := fresh_pool (next_pool_id (sess w))], nxt)"
      "sess w' = (sess w)\<lparr>pools := (pools (sess w))[i := zero_pool], next_pool_id := nxt,
         default_pool_id := default_pool_id (sess w), current_pool_id := current_pool_id (sess w), default_pool_attributes := a\<rparr>"
      "sent w' = sent w" "\<forall>t. grown (call_in_bounds t) (calls w) (calls w')" "grown (\<lambda>c. \<not> pin_call c) (calls w) (calls w')"
  | (created) i nxt v a where "st = ST_OK" "length a = 4" "default_pool_id (sess w) = 0"
      "new_slot p_used fresh_pool (pools (sess w)) (next_pool_id (sess w)) = Some (i, (pools (sess w))[i := fresh_pool (next_pool_id (sess w))], nxt)"
      "sess w' = (sess w)\<lparr>pools := (pools (sess w))[i := (fresh_pool (next_pool_id (sess w)))\<lparr>p_pool := v, p_is_default := True\<rparr>],
         next_pool_id := nxt, default_pool_id := next_pool_id (sess w), current_pool_id := next_pool_id (sess w), default_pool_attributes := a\<rparr>"
      "sent w' = sent w" "\<forall>t. grown (call_in_bounds t) (calls w) (calls w')" "grown (\<lambda>c. \<not> pin_call c) (calls w) (calls w')"
proof (cases "g_memory_pools_supported w \<and> default_pool_id (sess w) = 0 \<and> new_pool_slot (sess w) \<noteq> None")
  case False
  then have "w' = w \<and> (st = ST_OK \<longrightarrow> default_pool_id (sess w) \<noteq> 0)"
    using assms(3) by (cases "new_pool_slot (sess w)") (auto simp: ensure_default_pool_def split: if_splits)
  then show ?thesis using same by blast
next
  case True
  then obtain i t nxt where new: "new_slot p_used fresh_pool (pools (sess w)) (next_pool_id (sess w)) = Some (i, t, nxt)"
    by (auto simp: new_pool_slot_def split: option.splits)
  have inv: "pool_inv n (pools (sess w)) (next_pool_id (sess w)) 0 (current_pool_id (sess w)) (default_pool_attributes (sess w))"
    using session_inv_pool [OF assms(1)] True by simp
  have i: "i < length (pools (sess w))" "t = (pools (sess w))[i := fresh_pool (next_pool_id (sess w))]"
    "length (default_pool_attributes (sess w)) = 4"
    using pool_inv_new [OF inv assms(2) new] inv by (simp_all add: pool_inv_def)
  define s where "s = (sess w)\<lparr>pools := t, next_pool_id := nxt\<rparr>"
  define r where "r = drv (calls w) (Pool B_device_default_pool)"
  define w1 where "w1 = w\<lparr>sess := s, calls := Pool B_device_default_pool # calls w\<rparr>"
  define w2 where "w2 = w1\<lparr>sess := upd_pool i (\<lambda>p. p\<lparr>p_pool := o_val r\<rparr>) s\<rparr>"
  have ens: "ensure_default_pool drv w =
     (let (rc, w) = (if o_rc r = CUDA_SUCCESS then read_default_attributes drv (o_val r) [1, 2, 3, 4] w2 else (o_rc r, w1))
      in if rc \<noteq> CUDA_SUCCESS then (pool_status rc, put_sess (upd_pool i (\<lambda>_. zero_pool)) w)
         else (ST_OK, put_sess (\<lambda>s. (upd_pool i (\<lambda>p. p\<lparr>p_is_default := True\<rparr>) s)
                 \<lparr>default_pool_id := p_id (pools s ! i), current_pool_id := p_id (pools s ! i)\<rparr>) w))"
    using True new i by (simp add: ensure_default_pool_def new_pool_slot_def invoke_def w1_def w2_def s_def r_def upd_pool_def Let_def
        del: read_default_attributes.simps)
  have bad: "rc \<noteq> CUDA_SUCCESS \<Longrightarrow> pool_status rc \<noteq> ST_OK" for rc by (cases rc) simp_all
  show ?thesis
  proof (cases "o_rc r = CUDA_SUCCESS")
    case False
    then have e: "st = pool_status (o_rc r)" "w' = put_sess (upd_pool i (\<lambda>_. zero_pool)) w1" using ens assms(3) by auto
    show ?thesis
      using bad [OF False] i
      by (intro failed [of "default_pool_attributes (sess w)" i nxt])
        (simp_all add: new e w1_def s_def upd_pool_def call_in_bounds_def pin_call_def)
  next
    case ok: True
    obtain rc w3 where rd: "read_default_attributes drv (o_val r) [1, 2, 3, 4] w2 = (rc, w3)" by (metis surj_pair)
    obtain a where a: "sess w3 = (sess w2)\<lparr>default_pool_attributes := a\<rparr>" "length a = 4" "sent w3 = sent w2"
      "\<forall>t. grown (call_in_bounds t) (calls w2) (calls w3)" "grown (\<lambda>c. \<not> pin_call c) (calls w2) (calls w3)"
      using read_default_attributes_effect [OF rd] i(3) by (auto simp: w2_def s_def upd_pool_def)
    have g: "grown (call_in_bounds t) (calls w) (calls w3)" "grown (\<lambda>c. \<not> pin_call c) (calls w) (calls w3)" for t
      using a(4,5) grown_trans [of _ "calls w" "calls w2" "calls w3"] by (simp_all add: w2_def w1_def call_in_bounds_def pin_call_def)
    show ?thesis
    proof (cases "rc = CUDA_SUCCESS")
      case False
      then have e: "st = pool_status rc" "w' = put_sess (upd_pool i (\<lambda>_. zero_pool)) w3" using ens assms(3) rd ok by auto
      show ?thesis
        using bad [OF False] i a(1-3) g
        by (intro failed [of a i nxt]) (simp_all add: new e w2_def w1_def s_def upd_pool_def)
    next
      case True
      then have e: "st = ST_OK" "w' = put_sess (\<lambda>s. (upd_pool i (\<lambda>p. p\<lparr>p_is_default := True\<rparr>) s)
          \<lparr>default_pool_id := p_id (pools s ! i), current_pool_id := p_id (pools s ! i)\<rparr>) w3"
        using ens assms(3) rd ok by auto
      show ?thesis
        using i a(1-3) g \<open>g_memory_pools_supported w \<and> _ \<and> _\<close>
        by (intro created [of a i nxt "o_val r"]) (simp_all add: new e w2_def w1_def s_def upd_pool_def fresh_pool_def)
    qed
  qed
qed

text \<open>A claimed slot, whatever is stored in it, revives nothing and moves no other pool.\<close>

lemma pool_claimed:
  assumes "pool_inv n t nxt d c a" "Suc n < 2 ^ 64" "new_slot p_used fresh_pool t nxt = Some (i, t[i := fresh_pool nxt], nxt')"
    "p_used e \<longrightarrow> p_id e = nxt" "pool_inv (Suc n) (t[i := e]) nxt' d' c' a'"
  shows "persists p_used p_id nxt t nxt' (t[i := e])"
    "find_slot p_used p_id t k = Some j \<Longrightarrow> find_slot p_used p_id (t[i := e]) k = Some j"
proof -
  note new = pool_inv_new [OF assms(1-3)]
  have i: "i < length t" using new(2) assms(1) by (simp add: pool_inv_def)
  have inv: "table_inv p_used p_id nxt t" "unat nxt \<le> n" using assms(1) by (simp_all add: pool_inv_def)
  have nz: "nxt' \<noteq> 0" using pool_tab.new_bounded(1) [OF inv assms(2,3)] by (simp add: table_inv_def)
  have "persists p_used p_id nxt t nxt' ((t[i := fresh_pool nxt])[i := e])"
    using assms(4) i by (intro persists_upd pool_tab.persists_new [OF assms(3) nz])
      (simp add: pool_tab.used_fresh pool_tab.ident_fresh)
  then show "persists p_used p_id nxt t nxt' (t[i := e])" by simp
  assume "find_slot p_used p_id t k = Some j"
  then have j: "j < length t" "p_used (t ! j)" "p_id (t ! j) = k" by (auto dest: find_slot_Some)
  then have "j \<noteq> i" using new(3) by auto
  with j assms(5) show "find_slot p_used p_id (t[i := e]) k = Some j"
    by (intro find_slot_eqI) (auto simp: pool_inv_def)
qed

lemma claimed_pool_ready:
  assumes "session_inv n (sess w)" "Suc n < 2 ^ 64"
    "new_slot p_used fresh_pool (pools (sess w)) (next_pool_id (sess w)) = Some (i, (pools (sess w))[i := fresh_pool (next_pool_id (sess w))], nxt)"
    "p_used e \<longrightarrow> p_id e = next_pool_id (sess w)" "pool_inv (Suc n) ((pools (sess w))[i := e]) nxt d c a"
    "sess w' = (sess w)\<lparr>pools := (pools (sess w))[i := e], next_pool_id := nxt, default_pool_id := d, current_pool_id := c, default_pool_attributes := a\<rparr>"
    "sent w' = sent w" "\<forall>t. grown (call_in_bounds t) (calls w) (calls w')" "grown (\<lambda>c. \<not> pin_call c) (calls w) (calls w')"
  shows "ready n w w'" "find_pool (sess w) k = Some j \<Longrightarrow> find_pool (sess w') k = Some j"
  using session_inv_pools [OF assms(1) le_SucI [OF order_refl] assms(5)] assms(6-9)
    no_revival_pools [OF pool_claimed(1) [OF session_inv_pool [OF assms(1)] assms(2-5)]]
    pool_claimed(2) [OF session_inv_pool [OF assms(1)] assms(2-5)]
  by (simp_all add: ready_def find_pool_def)

lemma ensure_default_pool_effect:
  assumes "session_inv n (sess w)" "Suc n < 2 ^ 64" "ensure_default_pool drv w = (st, w')"
  shows "ready n w w'" "allocations (sess w') = allocations (sess w)" "next_alloc_id (sess w') = next_alloc_id (sess w)"
    "st = ST_OK \<Longrightarrow> default_pool_id (sess w') \<noteq> 0"
    "find_pool (sess w) k = Some i \<Longrightarrow> find_pool (sess w') k = Some i"
proof -
  note inv = session_inv_pool [OF assms(1)]
  have "ready n w w' \<and> allocations (sess w') = allocations (sess w) \<and> next_alloc_id (sess w') = next_alloc_id (sess w) \<and>
    (st = ST_OK \<longrightarrow> default_pool_id (sess w') \<noteq> 0) \<and> (find_pool (sess w) k = Some i \<longrightarrow> find_pool (sess w') k = Some i)"
    using assms
  proof (cases rule: ensure_default_pool_cases)
    case same
    then show ?thesis using assms(1) by simp
  next
    case (failed j nxt a)
    note new = pool_inv_new [OF inv assms(2) failed(3)]
    let ?t = "(pools (sess w))[j := fresh_pool (next_pool_id (sess w))]"
    have u: "?t ! j = fresh_pool (next_pool_id (sess w))" using new(2) inv by (simp add: pool_inv_def)
    have "pool_inv (Suc n) (?t[j := zero_pool]) nxt (default_pool_id (sess w)) (current_pool_id (sess w)) (default_pool_attributes (sess w))"
      using new by (intro pool_inv_erase) (simp_all only: u pool_tab.used_fresh pool_tab.ident_fresh simp_thms)
    then have "pool_inv (Suc n) ((pools (sess w))[j := zero_pool]) nxt (default_pool_id (sess w)) (current_pool_id (sess w)) a"
      using failed(2) by (simp add: pool_inv_def)
    note rd = claimed_pool_ready [OF assms(1,2) failed(3) _ this failed(4-7)]
    show ?thesis using rd failed(1) by (simp add: failed(4))
  next
    case (created j nxt v a)
    note new = pool_inv_new [OF inv assms(2) created(4)]
    let ?t = "(pools (sess w))[j := fresh_pool (next_pool_id (sess w))]"
    have u: "?t ! j = fresh_pool (next_pool_id (sess w))" using new(2) inv by (simp add: pool_inv_def)
    let ?e = "(fresh_pool (next_pool_id (sess w)))\<lparr>p_pool := v\<rparr>"
    have "pool_inv (Suc n) (?t[j := ?e]) nxt 0 (current_pool_id (sess w)) (default_pool_attributes (sess w))"
      using pool_inv_update [OF new(1), of ?e j] new(2) created(3) by (simp add: u)
    moreover have e: "(?t[j := ?e]) ! j = ?e" using new(2) inv by (simp add: pool_inv_def)
    ultimately have "pool_inv (Suc n) ((?t[j := ?e])[j := ?e\<lparr>p_is_default := True\<rparr>]) nxt (next_pool_id (sess w)) (next_pool_id (sess w))
        (default_pool_attributes (sess w))"
      using pool_inv_default [of "Suc n" "?t[j := ?e]" nxt _ _ j] new(2) by (simp add: fresh_pool_def)
    then have "pool_inv (Suc n) ((pools (sess w))[j := (fresh_pool (next_pool_id (sess w)))\<lparr>p_pool := v, p_is_default := True\<rparr>]) nxt
        (next_pool_id (sess w)) (next_pool_id (sess w)) a"
      using created(2) by (simp add: pool_inv_def)
    note rd = claimed_pool_ready [OF assms(1,2) created(4) _ this created(5-8)]
    show ?thesis using rd new(6) by (simp add: created(5) fresh_pool_def)
  qed
  then show "ready n w w'" "allocations (sess w') = allocations (sess w)" "next_alloc_id (sess w') = next_alloc_id (sess w)"
    "st = ST_OK \<Longrightarrow> default_pool_id (sess w') \<noteq> 0"
    "find_pool (sess w) k = Some i \<Longrightarrow> find_pool (sess w') k = Some i" by simp_all
qed

section \<open>Every pool request is served safely\<close>

lemma pool_response_size:
  "corex_generated_encode_cudaDeviceGetDefaultMemPool_response 8 v = Some (be64 v)"
  "corex_generated_encode_cudaDeviceGetMemPool_response 8 v = Some (be64 v)"
  "corex_generated_encode_cudaMemPoolCreate_response 8 v = Some (be64 v)"
  "corex_generated_encode_cudaMemPoolGetAttribute_response 8 v = Some (be64 v)"
  "corex_generated_encode_cudaMemPoolGetAccess_response 4 x = Some (be32 x)"
  "corex_generated_encode_cudaMallocAsync_response 8 v = Some (be64 v)"
  by (simp_all add: corex_generated_encode_cudaDeviceGetDefaultMemPool_response_def corex_generated_encode_cudaDeviceGetMemPool_response_def
      corex_generated_encode_cudaMemPoolCreate_response_def corex_generated_encode_cudaMemPoolGetAttribute_response_def
      corex_generated_encode_cudaMemPoolGetAccess_response_def corex_generated_encode_cudaMallocAsync_response_def wire_simps)

interpretation device_default_pool: safe_handler handle_device_default_pool OP_DEVICE_DEFAULT_POOL
  by unfold_locales
    (auto simp: handle_device_default_pool_def Let_def pool_response_size split: option.split prod.split
      intro!: ready_reply dest: ensure_default_pool_effect(1))

interpretation device_get_pool: safe_handler handle_device_get_pool OP_DEVICE_GET_POOL
  by unfold_locales
    (auto simp: handle_device_get_pool_def Let_def pool_response_size invoke_case call_in_bounds_def pin_call_def split: option.split prod.split
      intro!: ready_reply ready_call dest: ensure_default_pool_effect(1))

lemma find_pool_set_current:
  assumes "ready n w w1" "find_pool (sess w1) k = Some i" "default_pool_id (sess w1) \<noteq> 0"
  shows "ready n w (put_sess (\<lambda>s. s\<lparr>current_pool_id := k\<rparr>) w1)"
  using assms by (auto simp: ready_def session_inv_def pool_inv_def no_revival_def find_pool_def)

interpretation device_set_pool: safe_handler handle_device_set_pool OP_DEVICE_SET_POOL
proof
  fix n and w :: world and p :: bytes and drv req_id
  assume inv: "session_inv n (sess w)" "Suc n < 2 ^ 64" "length p < 2 ^ 32"
  have "ends (let (status, w1) = ensure_default_pool drv w
      in if status \<noteq> ST_OK then reply drv OP_DEVICE_SET_POOL req_id status [] w1
         else let entry = pools (sess w1) ! i;
              (r, w1) = invoke drv (Pool (B_device_set_pool (p_pool entry))) w1;
              w1 = (if o_rc r = CUDA_SUCCESS then put_sess (\<lambda>s. s\<lparr>current_pool_id := p_id entry\<rparr>) w1 else w1)
              in reply drv OP_DEVICE_SET_POOL req_id (pool_status (o_rc r)) [] w1)
     (safely_served n drv OP_DEVICE_SET_POOL req_id w)" if f: "find_pool (sess w) k = Some i" for k i
  proof -
    obtain st w1 where e: "ensure_default_pool drv w = (st, w1)" by (metis surj_pair)
    note r = ensure_default_pool_effect [OF inv(1,2) e]
    let ?c = "Pool (B_device_set_pool (p_pool (pools (sess w1) ! i)))"
    have c: "ready n w (snd (invoke drv ?c w1))" 
      by (intro ready_call r(1)) (simp_all add: call_in_bounds_def pin_call_def)
    have f1: "find_pool (sess w1) k = Some i" by (rule r(5) [OF f])
    show ?thesis using c find_pool_set_current [OF c, of k i] f1 r(1,4) find_pool_Some [OF f1]
      by (auto simp: e Let_def invoke_case intro!: ready_reply)
  qed
  then show "ends (handle_device_set_pool drv req_id p w) (safely_served n drv OP_DEVICE_SET_POOL req_id w)"
    using inv by (auto simp: handle_device_set_pool_def split: option.split)
qed


lemma new_pool_ready:
  assumes "session_inv n (sess w)" "Suc n < 2 ^ 64" "new_pool_slot (sess w) = Some (i, s)" "\<not> pin_call c" "\<And>t. call_in_bounds t c"
  shows "ready n w ((snd (invoke drv c (w\<lparr>sess := s\<rparr>)))\<lparr>sess := upd_pool i (\<lambda>_. zero_pool) s\<rparr>)"
    "ready n w ((snd (invoke drv c (w\<lparr>sess := s\<rparr>)))\<lparr>sess := upd_pool i (\<lambda>p. p\<lparr>p_pool := v\<rparr>) s\<rparr>)"
proof -
  note inv = session_inv_pool [OF assms(1)]
  obtain t nxt where ns: "new_slot p_used fresh_pool (pools (sess w)) (next_pool_id (sess w)) = Some (i, t, nxt)"
    and s: "s = (sess w)\<lparr>pools := t, next_pool_id := nxt\<rparr>"
    using assms(3) by (auto simp: new_pool_slot_def split: option.splits)
  note new = pool_inv_new [OF inv assms(2) ns]
  have u: "t ! i = fresh_pool (next_pool_id (sess w))" using new(2,4) inv by (simp add: pool_inv_def)
  have s1: "session_inv (Suc n) s"
    using session_inv_pools [OF assms(1) le_SucI [OF order_refl] new(1)] by (simp add: s)
  have nr: "no_revival (sess w) s" using new_slot_no_revival(7) [OF assms(1) _ assms(3)] assms(2) by simp
  have "pool_inv (Suc n) (t[i := zero_pool]) nxt (default_pool_id s) (current_pool_id s) (default_pool_attributes s)"
    using pool_inv_erase [OF new(1,2)] new(7,8) s by (simp add: u pool_tab.used_fresh pool_tab.ident_fresh)
  moreover have "pool_inv (Suc n) (t[i := (t ! i)\<lparr>p_pool := v\<rparr>]) nxt (default_pool_id s) (current_pool_id s) (default_pool_attributes s)"
    using pool_inv_update [OF new(1), of "(t ! i)\<lparr>p_pool := v\<rparr>" i] new(2) s by simp
  ultimately have "session_inv (Suc n) (upd_pool i (\<lambda>_. zero_pool) s)" "session_inv (Suc n) (upd_pool i (\<lambda>p. p\<lparr>p_pool := v\<rparr>) s)"
    using s1 s by (simp_all add: session_inv_def upd_pool_def)
  then show "ready n w ((snd (invoke drv c (w\<lparr>sess := s\<rparr>)))\<lparr>sess := upd_pool i (\<lambda>_. zero_pool) s\<rparr>)"
    "ready n w ((snd (invoke drv c (w\<lparr>sess := s\<rparr>)))\<lparr>sess := upd_pool i (\<lambda>p. p\<lparr>p_pool := v\<rparr>) s\<rparr>)"
    using nr assms(4,5) s by (simp_all add: ready_def)
qed

interpretation pool_create: safe_handler handle_pool_create OP_POOL_CREATE
  by unfold_locales
    (auto simp: handle_pool_create_def Let_def invoke_case pool_response_size call_in_bounds_def pin_call_def split: option.split
      intro!: ready_reply new_pool_ready)

text \<open>The fallback of a destroyed current pool is the default pool, which the invariant keeps alive.\<close>

lemma current_fallback:
  assumes "session_inv n s" "find_pool s k = Some i" "current_pool_id s = k"
  shows "\<exists>f. find_pool s (default_pool_id s) = Some f"
proof -
  have "k \<noteq> 0" using assms(1) find_pool_Some [OF assms(2)] by (auto simp: session_inv_def pool_inv_def table_inv_def)
  then show ?thesis using assms(1,3) by (auto simp: session_inv_def pool_inv_def find_pool_def)
qed

lemma ready_erase_pool:
  assumes "ready n w w1" "sess w1 = s" "i < MAX_POOLS" "p_used (pools s ! i)" "p_id (pools s ! i) \<noteq> default_pool_id s"
    "p_id (pools s ! i) \<noteq> current_pool_id s"
  shows "ready n w (w1\<lparr>sess := upd_pool i (\<lambda>_. zero_pool) s\<rparr>)"
proof -
  have inv: "session_inv (Suc n) s" using assms(1,2) by (simp add: ready_def)
  have "session_inv (Suc n) (upd_pool i (\<lambda>_. zero_pool) s)"
    using pool_inv_erase [OF session_inv_pool [OF inv] assms(3-6)] inv by (simp add: session_inv_def upd_pool_def)
  then show ?thesis using assms(1,2) by (simp add: ready_def)
qed

lemma session_pool_facts:
  assumes "session_inv n s" "find_pool s k = Some i"
  shows "i < MAX_POOLS" "p_used (pools s ! i)" "p_id (pools s ! i) = k" "p_is_default (pools s ! i) \<longleftrightarrow> k = default_pool_id s"
  using find_pool_Some [OF assms(2)] assms(1) nth_mem [of i "pools s"] by (auto simp: session_inv_def pool_inv_def)

lemma destroy_pool_entry_serves:
  assumes "ready n w w1" "i < MAX_POOLS" "p_used (pools (sess w1) ! i)" "p_id (pools (sess w1) ! i) \<noteq> default_pool_id (sess w1)"
    "p_id (pools (sess w1) ! i) \<noteq> current_pool_id (sess w1)"
  shows "ends (destroy_pool_entry drv req_id i w1) (safely_served n drv OP_POOL_DESTROY req_id w)"
  using assms
  by (auto simp: destroy_pool_entry_def Let_def invoke_case call_in_bounds_def pin_call_def
      intro!: ready_reply ready_erase_pool ready_call)

text \<open>Making the fallback current is the only way to let go of the current pool.\<close>

lemma ready_fallback:
  assumes "session_inv n (sess w)" "find_pool (sess w) (default_pool_id (sess w)) = Some f"
  shows "ready n w (put_sess (\<lambda>s. s\<lparr>current_pool_id := default_pool_id (sess w)\<rparr>)
    (snd (invoke drv (Pool (B_device_set_pool (p_pool (pools (sess w) ! f)))) w)))" (is "ready n w (put_sess _ ?w)")
proof -
  have r: "ready n w ?w" using assms(1) by (intro ready_call ready_refl) (simp_all add: call_in_bounds_def pin_call_def)
  have "default_pool_id (sess w) \<noteq> 0"
    using session_pool_facts [OF assms] assms(1) by (auto simp: session_inv_def pool_inv_def table_inv_def)
  then show ?thesis using assms(2) by (intro find_pool_set_current [OF r]) simp_all
qed

lemma pool_destroy_found:
  assumes inv: "session_inv n (sess w)" and k: "find_pool (sess w) k = Some i" and nd: "k \<noteq> default_pool_id (sess w)"
  shows "find_pool (sess w) (default_pool_id (sess w)) = Some f \<Longrightarrow>
      ends (destroy_pool_entry drv req_id i ((snd (invoke drv (Pool (B_device_set_pool (p_pool (pools (sess w) ! f)))) w))
        \<lparr>sess := (sess w)\<lparr>current_pool_id := default_pool_id (sess w)\<rparr>\<rparr>)) (safely_served n drv OP_POOL_DESTROY req_id w)"
    "current_pool_id (sess w) \<noteq> k \<Longrightarrow> ends (destroy_pool_entry drv req_id i w) (safely_served n drv OP_POOL_DESTROY req_id w)"
proof -
  note e = session_pool_facts [OF inv k]
  show "ends (destroy_pool_entry drv req_id i w) (safely_served n drv OP_POOL_DESTROY req_id w)" if "current_pool_id (sess w) \<noteq> k"
    using destroy_pool_entry_serves [OF ready_refl [OF inv]] e nd that by simp
  assume f: "find_pool (sess w) (default_pool_id (sess w)) = Some f"
  then show "ends (destroy_pool_entry drv req_id i ((snd (invoke drv (Pool (B_device_set_pool (p_pool (pools (sess w) ! f)))) w))
        \<lparr>sess := (sess w)\<lparr>current_pool_id := default_pool_id (sess w)\<rparr>\<rparr>)) (safely_served n drv OP_POOL_DESTROY req_id w)"
    using destroy_pool_entry_serves [OF ready_fallback [OF inv f], of i] session_pool_facts [OF inv f] e nd by simp
qed

interpretation pool_destroy: safe_handler handle_pool_destroy OP_POOL_DESTROY
  by unfold_locales
    (auto simp: handle_pool_destroy_def Let_def invoke_case session_pool_facts call_in_bounds_def pin_call_def split: option.split
      intro!: ready_reply ready_call pool_destroy_found dest: current_fallback)

lemma corex_backend_pool_trim_ready:
  assumes "session_inv n (sess w)" "corex_backend_pool_trim drv pool bytes w = (rc, w')"
  shows "ready n w w'"
  using assms by (auto simp: corex_backend_pool_trim_def Let_def invoke_case call_in_bounds_def pin_call_def
      intro!: ready_call split: if_splits)

interpretation pool_trim: safe_handler handle_pool_trim OP_POOL_TRIM
  by unfold_locales
    (auto simp: handle_pool_trim_def Let_def split: option.split prod.split
      intro!: ready_reply dest: corex_backend_pool_trim_ready)

lemma pool_attribute_ready:
  assumes "session_inv n (sess w)"
  shows "pool_read_attribute drv pool attr old w = ((rc, v), w') \<Longrightarrow> ready n w w'"
    "pool_write_attribute drv pool attr val w = (rc, w') \<Longrightarrow> ready n w w'"
  using assms by (auto simp: pool_read_attribute_def pool_write_attribute_def Let_def invoke_case call_in_bounds_def pin_call_def
      intro!: ready_call split: if_splits)

interpretation pool_get_attribute: safe_handler handle_pool_get_attribute OP_POOL_GET_ATTRIBUTE
  by unfold_locales
    (auto simp: handle_pool_get_attribute_def Let_def pool_response_size split: option.split prod.split
      intro!: ready_reply dest: pool_attribute_ready)

interpretation pool_set_attribute: safe_handler handle_pool_set_attribute OP_POOL_SET_ATTRIBUTE
  by unfold_locales
    (auto simp: handle_pool_set_attribute_def Let_def split: option.split prod.split
      intro!: ready_reply dest: pool_attribute_ready)

interpretation pool_get_access: safe_handler handle_pool_get_access OP_POOL_GET_ACCESS
  by unfold_locales
    (auto simp: handle_pool_get_access_def Let_def invoke_case pool_response_size call_in_bounds_def pin_call_def split: option.split
      intro!: ready_reply ready_call)

interpretation pool_set_access: safe_handler handle_pool_set_access OP_POOL_SET_ACCESS
  by unfold_locales
    (auto simp: handle_pool_set_access_def Let_def invoke_case call_in_bounds_def pin_call_def split: option.split
      intro!: ready_reply ready_call)

text \<open>One request may claim a pool slot and an allocation slot; each counter moves by one.\<close>

lemma new_allocation_ready:
  assumes "ready n w w1" "unat (next_alloc_id (sess w1)) \<le> n" "Suc n < 2 ^ 64" "new_allocation_slot (sess w1) = Some (i, s)"
    "\<not> pin_call c" "\<And>t. call_in_bounds t c"
  shows "ready n w ((snd (invoke drv c (w1\<lparr>sess := s\<rparr>)))\<lparr>sess := upd_allocation i (\<lambda>_. zero_allocation) s\<rparr>)"
    "ready n w ((snd (invoke drv c (w1\<lparr>sess := s\<rparr>)))\<lparr>sess := upd_allocation i (\<lambda>a. a\<lparr>a_ptr := v, a_size := b\<rparr>) s\<rparr>)"
proof -
  have inv: "session_inv (Suc n) (sess w1)" using assms(1) by (simp add: ready_def)
  note new = new_allocation_slot_bounded [OF inv assms(2-4)]
  have "next_alloc_id (sess w1) + 1 \<noteq> 0" using assms(2,3) inc_nonzero64 [of "next_alloc_id (sess w1)"] by simp
  then have "no_revival (sess w1) s"
    using alloc_tab.persists_new assms(4)
    by (fastforce simp: new_allocation_slot_def no_revival_def new_slot_Some split: option.splits)
  then have nr: "no_revival (sess w) s" using assms(1) no_revival_trans by (auto simp: ready_def)
  have "session_inv (Suc n) (upd_allocation i (\<lambda>_. zero_allocation) s)"
    "session_inv (Suc n) (upd_allocation i (\<lambda>a. a\<lparr>a_ptr := v, a_size := b\<rparr>) s)"
    using new erase_allocation_inv upd_allocation_keep [of "Suc n" s i "\<lambda>a. a\<lparr>a_ptr := v, a_size := b\<rparr>"] by auto
  moreover have "transfers s = transfers (sess w1)" using new by simp
  ultimately show "ready n w ((snd (invoke drv c (w1\<lparr>sess := s\<rparr>)))\<lparr>sess := upd_allocation i (\<lambda>_. zero_allocation) s\<rparr>)"
    "ready n w ((snd (invoke drv c (w1\<lparr>sess := s\<rparr>)))\<lparr>sess := upd_allocation i (\<lambda>a. a\<lparr>a_ptr := v, a_size := b\<rparr>) s\<rparr>)"
    using nr assms(1,5,6) by (simp_all add: ready_def)
qed

lemma session_alloc_counter: "session_inv n s \<Longrightarrow> unat (next_alloc_id s) \<le> n"
  by (simp add: session_inv_def alloc_inv_def)

lemma allocate_async_serves:
  assumes inv: "session_inv n (sess w)" "Suc n < 2 ^ 64"
  shows "ends (allocate_async drv req_id bytes pool_id stream_id w)
    (safely_served n drv (if pool_id \<noteq> 0 then OP_ALLOC_FROM_POOL_ASYNC else OP_ALLOC_ASYNC) req_id w)"
proof -
  obtain status pool w1 where p: "allocation_pool drv pool_id w = (status, pool, w1)" by (metis surj_pair)
  have w1: "ready n w w1" "unat (next_alloc_id (sess w1)) \<le> n"
    using p ensure_default_pool_effect [OF inv] session_alloc_counter [OF inv(1)] inv(1)
    by (auto simp: allocation_pool_def split: if_splits option.splits prod.splits)
  show ?thesis
    unfolding allocate_async_def p Let_def prod.case invoke_case
    using inv(1) w1 inv(2)
    by (auto simp: pool_response_size call_in_bounds_def pin_call_def split: option.split
        intro!: ready_reply new_allocation_ready [OF w1 inv(2)])
qed

interpretation alloc_async: safe_handler handle_alloc_async OP_ALLOC_ASYNC
proof
  fix n and w :: world and p :: bytes and drv req_id
  assume inv: "session_inv n (sess w)" "Suc n < 2 ^ 64" "length p < 2 ^ 32"
  then show "ends (handle_alloc_async drv req_id p w) (safely_served n drv OP_ALLOC_ASYNC req_id w)"
    using allocate_async_serves [OF inv(1,2), of drv req_id _ 0] by (auto simp: handle_alloc_async_def split: option.split)
qed

interpretation alloc_from_pool_async: safe_handler handle_alloc_from_pool_async OP_ALLOC_FROM_POOL_ASYNC
proof
  fix n and w :: world and p :: bytes and drv req_id
  assume inv: "session_inv n (sess w)" "Suc n < 2 ^ 64" "length p < 2 ^ 32"
  have "ends (allocate_async drv req_id b k st w) (safely_served n drv OP_ALLOC_FROM_POOL_ASYNC req_id w)" if "k \<noteq> 0" for b k st
    using allocate_async_serves [OF inv(1,2), of drv req_id b k st] that by simp
  then show "ends (handle_alloc_from_pool_async drv req_id p w) (safely_served n drv OP_ALLOC_FROM_POOL_ASYNC req_id w)"
    using inv by (auto simp: handle_alloc_from_pool_async_def split: option.split)
qed

interpretation free_async: safe_handler handle_free_async OP_FREE_ASYNC
proof
  fix n and w :: world and p :: bytes and drv req_id
  assume inv: "session_inv n (sess w)" "Suc n < 2 ^ 64" "length p < 2 ^ 32"
  have freed: "ends ((if a_graph_id (allocations (sess w) ! j) \<noteq> 0 then graph_allocation_freed drv j st True w1
        else Some (put_sess (upd_allocation j (\<lambda>_. zero_allocation)) w1)) \<bind> (\<lambda>w. reply drv OP_FREE_ASYNC req_id 0 [] w))
      (safely_served n drv OP_FREE_ASYNC req_id w)"
    if f: "find_allocation (sess w) k = Some j" "w1 = snd (invoke drv (Mem (B_mem_free_async a s)) w)" for j w1 k a st s
  proof -
    have "sess w1 = sess w" "sent w1 = sent w" using f(2) by auto
    from free_released [OF inv(1) f(1) this, of drv st True] obtain w' where
      w': "(if a_graph_id (allocations (sess w) ! j) \<noteq> 0 then graph_allocation_freed drv j st True w1
        else Some (put_sess (upd_allocation j (\<lambda>_. zero_allocation)) w1)) = Some w'"
      "session_inv n (sess w')" "sent w' = sent w" "grown quiet_call (calls w1) (calls w')"
      "transfers (sess w') = transfers (sess w)" "no_revival (sess w) (sess w')" .
    have "grown (call_in_bounds (allocations (sess w))) (calls w) (calls w1)" "grown (\<lambda>c. \<not> pin_call c) (calls w) (calls w1)"
      using f(2) by (simp_all add: call_in_bounds_def pin_call_def)
    then have "ready n w w'" using w' quiet_in_bounds [OF w'(4)] grown_trans by (simp add: ready_def)
    then show ?thesis unfolding w'(1) by (simp add: ready_reply)
  qed
  show "ends (handle_free_async drv req_id p w) (safely_served n drv OP_FREE_ASYNC req_id w)"
    unfolding handle_free_async_def Let_def invoke_case using inv freed
    by (auto simp: call_in_bounds_def pin_call_def split: option.split intro!: ready_reply ready_call)
qed

section \<open>Properties\<close>

text \<open>The abstract view: identifiers to native pools.\<close>

definition pool_map :: "ServerSession \<Rightarrow> (u64 \<rightharpoonup> u64)" where
  "pool_map s k = map_option p_pool (slot_map p_used p_id (pools s) k)"

lemma pool_map_find: "pool_map s k = map_option (\<lambda>i. p_pool (pools s ! i)) (find_pool s k)"
  by (simp add: pool_map_def slot_map_def find_pool_def option.map_comp comp_def)

lemma pool_map_erase:
  assumes "session_inv n s" "find_pool s k = Some i"
  shows "pool_map (upd_pool i (\<lambda>_. zero_pool) s) = (pool_map s)(k := None)"
  using pool_tab.map_erase [of "next_pool_id s" "pools s" k i] assms
  by (auto simp: pool_map_def upd_pool_def session_inv_def pool_inv_def find_pool_def)

lemma pool_map_current [simp]:
  "pool_map (s\<lparr>current_pool_id := c\<rparr>) = pool_map s" "pool_map (s\<lparr>current_pool_id := c, pools := t\<rparr>) = pool_map (s\<lparr>pools := t\<rparr>)"
  by (simp_all add: fun_eq_iff pool_map_def)

lemma reply_keeps_calls: "c \<in> set (calls w) \<Longrightarrow> c \<in> set (calls (snd (send_response drv op rid st pl w)))"
  by (simp add: send_response_def send_all_def invoke_def Let_def)

text \<open>A session whose current pool is not the default pool.\<close>

definition pool_world :: world where
  "pool_world = init_world\<lparr>sess := server_session_init\<lparr>
     pools := (replicate MAX_POOLS zero_pool)[0 := (fresh_pool 1)\<lparr>p_pool := 100, p_is_default := True\<rparr>, 1 := (fresh_pool 2)\<lparr>p_pool := 200\<rparr>],
     next_pool_id := 3, default_pool_id := 1, current_pool_id := 2\<rparr>\<rparr>"

lemma pool_world_find: "find_pool (sess pool_world) 2 = Some 1" "find_pool (sess pool_world) 1 = Some 0"
  by (simp_all add: pool_world_def find_pool_def find_slot_def find_upt_Some fresh_pool_def zero_pool_def nth_upd)

lemma pool_world_inv: "session_inv 3 (sess pool_world)"
proof -
  have "pool_inv 3 (pools (sess pool_world)) 3 1 2 [0, 0, 0, 0]"
    using pool_world_find
    by (auto simp: pool_inv_def table_inv_def pool_world_def fresh_pool_def zero_pool_def nth_upd find_pool_def dest!: set_upd_subset)
  then show ?thesis
    using session_inv_mono [OF session_inv_init, of 3]
    by (simp add: session_inv_def pool_world_def server_session_init_def)
qed

text \<open>
  C30. Destroying a pool refines the deletion of its key, exactly when it succeeds. The requested pool is
  deleted if and only if it is live, not the default pool, the device was first switched to the default
  pool in case it was the current one, and the driver then destroyed it; in every other case the map of
  pools is unchanged. The current pool becomes the default pool exactly when the switch was made, and
  the answer carries the status of the step that decided. The handler never dereferences a missing fallback.
\<close>

theorem pool_destroy_refines:
  assumes "session_inv n (sess w)"
  shows "ends (handle_pool_destroy drv req_id p w) (\<lambda>rc w'.
    default_pool_id (sess w') = default_pool_id (sess w) \<and>
    (case corex_generated_decode_cudaMemPoolDestroy_request p of
       None \<Rightarrow> pool_map (sess w') = pool_map (sess w) \<and> current_pool_id (sess w') = current_pool_id (sess w)
     | Some k \<Rightarrow>
         (case pool_map (sess w) k of
            None \<Rightarrow> pool_map (sess w') = pool_map (sess w) \<and> current_pool_id (sess w') = current_pool_id (sess w)
          | Some native \<Rightarrow>
              (\<exists>fallback.
                 (k = current_pool_id (sess w) \<longrightarrow> pool_map (sess w) (default_pool_id (sess w)) = Some fallback) \<and>
                 (let switch = Pool (B_device_set_pool fallback); destroy = Pool (B_pool_destroy native);
                      current = (k = current_pool_id (sess w)); owned = (k \<noteq> default_pool_id (sess w));
                      switched = (current \<longrightarrow> o_rc (drv (calls w) switch) = CUDA_SUCCESS);
                      destroyed = o_rc (drv (if current then switch # calls w else calls w) destroy)
                  in pool_map (sess w') = (if owned \<and> switched \<and> destroyed = CUDA_SUCCESS
                                           then (pool_map (sess w))(k := None) else pool_map (sess w)) \<and>
                     current_pool_id (sess w') = (if owned \<and> current \<and> switched then default_pool_id (sess w)
                                                  else current_pool_id (sess w)) \<and>
                     (rc = 0 \<longrightarrow> sent w' = sent w @ corex_protocol_encode_response_header OP_POOL_DESTROY req_id
                        (if \<not> owned then ST_BAD_REQUEST
                         else pool_status (if switched then destroyed else o_rc (drv (calls w) switch))) 0))))))"
proof (cases "corex_generated_decode_cudaMemPoolDestroy_request p")
  case None
  then show ?thesis by (simp add: handle_pool_destroy_def)
next
  case k: (Some k)
  show ?thesis
  proof (cases "find_pool (sess w) k")
    case None
    then have "pool_map (sess w) k = None" by (simp add: pool_map_def slot_map_def find_pool_def)
    then show ?thesis using None by (simp add: handle_pool_destroy_def k)
  next
    case (Some i)
    note e = session_pool_facts [OF assms Some]
    have m: "pool_map (upd_pool i (\<lambda>_. zero_pool) (sess w)) = (pool_map (sess w))(k := None)"
      "pool_map (upd_pool i (\<lambda>_. zero_pool) ((sess w)\<lparr>current_pool_id := c\<rparr>)) = (pool_map (sess w))(k := None)"
      "pool_map ((sess w)\<lparr>current_pool_id := c\<rparr>) = pool_map (sess w)"
      "pool_map (sess w) k = Some (p_pool (pools (sess w) ! i))" for c
      using pool_map_erase [OF assms Some] by (simp_all add: upd_pool_def pool_map_def slot_map_def Some [unfolded find_pool_def])
    show ?thesis
    proof (cases "current_pool_id (sess w) = k")
      case True
      then obtain f where f: "find_pool (sess w) (default_pool_id (sess w)) = Some f" using current_fallback [OF assms Some] by blast
      have "pool_map (sess w) (default_pool_id (sess w)) = Some (p_pool (pools (sess w) ! f))"
        by (simp add: pool_map_def slot_map_def f [unfolded find_pool_def])
      then show ?thesis
        using True e m session_pool_facts [OF assms f]
        by (auto simp: handle_pool_destroy_def k Some f destroy_pool_entry_def Let_def invoke_def send_response_sent upd_pool_def)
    next
      case False
      then show ?thesis
        using e m
        by (auto simp: handle_pool_destroy_def k Some destroy_pool_entry_def Let_def invoke_def send_response_sent upd_pool_def)
    qed
  qed
qed

theorem pool_destroy_refines_witness:
  "session_inv 3 (sess pool_world) \<and>
   ends (handle_pool_destroy (ok_driver 0) 7 (be64 2) pool_world) (\<lambda>rc w'.
     pool_map (sess w') = (pool_map (sess pool_world))(2 := None) \<and> current_pool_id (sess w') = 1)"
proof -
  have "pool_map (sess pool_world) 2 = Some 200" "pool_map (sess pool_world) 1 = Some 100"
    using pool_world_find by (simp_all add: pool_map_def slot_map_def find_pool_def) (simp_all add: pool_world_def fresh_pool_def)
  moreover have "corex_generated_decode_cudaMemPoolDestroy_request (be64 2) = Some 2"
    by (simp add: corex_generated_decode_cudaMemPoolDestroy_request_def codec_simps)
  moreover have "current_pool_id (sess pool_world) = 2" "default_pool_id (sess pool_world) = 1" by (simp_all add: pool_world_def)
  ultimately show ?thesis
    using pool_destroy_refines [OF pool_world_inv, of "ok_driver 0" 7 "be64 2"] pool_world_inv
    by (auto elim!: ends_mono simp: Let_def)
qed

text \<open>
  C31. A trim to zero restores the release threshold: once the zero threshold was written, whatever the
  synchronisation and the trim answer, the last call writes back the value that was read before; and
  the trim itself happens only while the threshold is zero and the context is idle.
\<close>

theorem pool_trim_restores:
  fixes w :: world and pool :: u64
  defines "read \<equiv> Pool (B_pool_get_attribute pool CU_MEMPOOL_ATTR_RELEASE_THRESHOLD)"
    and "write \<equiv> \<lambda>v. Pool (B_pool_set_attribute pool CU_MEMPOOL_ATTR_RELEASE_THRESHOLD v)"
  assumes "corex_backend_pool_trim drv pool 0 w = (rc, w')" "o_rc (drv (calls w) read) = CUDA_SUCCESS"
    "o_rc (drv (read # calls w) (write 0)) = CUDA_SUCCESS"
  shows "\<exists>mid. calls w' = write (o_val (drv (calls w) read)) # mid @ [write 0, read] @ calls w \<and>
    set mid \<subseteq> {Ctx B_context_sync, Pool (B_pool_trim pool 0)} \<and>
    (Pool (B_pool_trim pool 0) \<in> set mid \<longrightarrow> o_rc (drv ([write 0, read] @ calls w) (Ctx B_context_sync)) = CUDA_SUCCESS) \<and>
    (rc = CUDA_SUCCESS \<longrightarrow> Pool (B_pool_trim pool 0) \<in> set mid \<and> o_rc (drv (mid @ [write 0, read] @ calls w) (hd (calls w'))) = CUDA_SUCCESS)"
  using assms(3-5) unfolding read_def write_def
  by (cases "o_rc (drv ([Pool (B_pool_set_attribute pool 4 0), Pool (B_pool_get_attribute pool 4)] @ calls w) (Ctx B_context_sync)) = CUDA_SUCCESS")
    (auto simp: corex_backend_pool_trim_def Let_def invoke_def split: if_splits
      intro: exI [of _ "[Pool (B_pool_trim pool 0), Ctx B_context_sync]"] exI [of _ "[Ctx B_context_sync]"])

theorem pool_trim_restores_witness:
  "corex_backend_pool_trim (ok_driver 5) 9 0 init_world = (CUDA_SUCCESS, snd (corex_backend_pool_trim (ok_driver 5) 9 0 init_world)) \<and>
   (\<exists>mid. calls (snd (corex_backend_pool_trim (ok_driver 5) 9 0 init_world)) = Pool (B_pool_set_attribute 9 4 5) # mid)"
  using pool_trim_restores [of "ok_driver 5" 9 init_world CUDA_SUCCESS "snd (corex_backend_pool_trim (ok_driver 5) 9 0 init_world)"]
  by (auto simp: corex_backend_pool_trim_def Let_def invoke_def)

end
