(* ===== verification/Strings_Codecs.thy ===== *)
theory Strings_Codecs
  imports Codecs
begin

text \<open>
  The codecs of \<^verbatim>\<open>include/generated/corex_api_schema.h\<close> with a bounded string field. The sender holds the
  string in a character array next to its length; the receiver accepts a length of at most the bound
  that the remaining input covers, and no zero byte. Each message satisfies \<open>wire_message\<close> for the
  strings within the bound.
\<close>

section \<open>A bounded string\<close>

text \<open>
  The generated lines for one string field: \<open>name\<close> is the array (a read beyond it is excluded by its
  size, the bound plus one), \<^const>\<open>None\<close> the return value -1.
\<close>

definition write_bounded :: "nat \<Rightarrow> nat \<Rightarrow> bytes \<Rightarrow> bytes \<Rightarrow> u32 \<Rightarrow> bytes option" where
  "write_bounded bound capacity out name name_length =
     (if unat name_length > bound then None
      else if name ! unat name_length \<noteq> 0 \<or> 0 \<in> set (take (unat name_length) name) then None
      else if length out > capacity \<or> capacity - length out < 4 + unat name_length then None
      else Some (corex_protocol_write_u32 out name_length @ take (unat name_length) name))"

definition take_bounded :: "nat \<Rightarrow> bytes \<Rightarrow> nat \<Rightarrow> (bytes \<times> nat) option" where
  "take_bounded bound input position =
     do {
       (name_length, position) \<leftarrow> corex_protocol_take_u32 input position;
       if unat name_length > bound \<or> unat name_length > length input - position then None
       else if 0 \<in> set (take (unat name_length) (drop position input)) then None
       else Some (take (unat name_length) (drop position input), position + unat name_length)
     }"

definition corex_generated_encode_cudaDeviceGetPCIBusId_response :: "nat \<Rightarrow> bytes \<times> u32 \<Rightarrow> bytes option" where
  "corex_generated_encode_cudaDeviceGetPCIBusId_response capacity = (\<lambda>(pci_bus_id, pci_bus_id_length).
     if capacity < 4 then None
     else do {
       out \<leftarrow> write_bounded 32 capacity [] pci_bus_id pci_bus_id_length;
       if length out \<le> 36 then Some out else None
     })"

definition corex_generated_decode_cudaDeviceGetPCIBusId_response :: "bytes \<Rightarrow> bytes option" where
  "corex_generated_decode_cudaDeviceGetPCIBusId_response input =
     (if length input < 4 \<or> length input > 36 then None
      else do {
        (pci_bus_id, position) \<leftarrow> take_bounded 32 input 0;
        if position = length input then Some pci_bus_id else None
      })"

definition corex_generated_encode_cudaDeviceGetByPCIBusId_request :: "nat \<Rightarrow> bytes \<times> u32 \<Rightarrow> bytes option" where
  "corex_generated_encode_cudaDeviceGetByPCIBusId_request capacity = (\<lambda>(pci_bus_id, pci_bus_id_length).
     if capacity < 4 then None
     else do {
       out \<leftarrow> write_bounded 32 capacity [] pci_bus_id pci_bus_id_length;
       if length out \<le> 36 then Some out else None
     })"

definition corex_generated_decode_cudaDeviceGetByPCIBusId_request :: "bytes \<Rightarrow> bytes option" where
  "corex_generated_decode_cudaDeviceGetByPCIBusId_request input =
     (if length input < 4 \<or> length input > 36 then None
      else do {
        (pci_bus_id, position) \<leftarrow> take_bounded 32 input 0;
        if position = length input then Some pci_bus_id else None
      })"

definition corex_generated_encode_cudaLibraryEnumerateKernels_response :: "nat \<Rightarrow> bytes \<times> u32 \<Rightarrow> bytes option" where
  "corex_generated_encode_cudaLibraryEnumerateKernels_response capacity = (\<lambda>(name, name_length).
     if capacity < 4 then None
     else do {
       out \<leftarrow> write_bounded 127 capacity [] name name_length;
       if length out \<le> 131 then Some out else None
     })"

definition corex_generated_decode_cudaLibraryEnumerateKernels_response :: "bytes \<Rightarrow> bytes option" where
  "corex_generated_decode_cudaLibraryEnumerateKernels_response input =
     (if length input < 4 \<or> length input > 131 then None
      else do {
        (name, position) \<leftarrow> take_bounded 127 input 0;
        if position = length input then Some name else None
      })"

definition corex_generated_encode_cudaGetSymbolAddress_request :: "nat \<Rightarrow> u64 \<times> bytes \<times> u32 \<Rightarrow> bytes option" where
  "corex_generated_encode_cudaGetSymbolAddress_request capacity = (\<lambda>(module, name, name_length).
     if capacity < 12 then None
     else do {
       out \<leftarrow> write_bounded 127 capacity (corex_protocol_write_u64 [] module) name name_length;
       if length out \<le> 139 then Some out else None
     })"

definition corex_generated_decode_cudaGetSymbolAddress_request :: "bytes \<Rightarrow> (u64 \<times> bytes) option" where
  "corex_generated_decode_cudaGetSymbolAddress_request input =
     (if length input < 12 \<or> length input > 139 then None
      else do {
        (module, position) \<leftarrow> corex_protocol_take_u64 input 0;
        (name, position) \<leftarrow> take_bounded 127 input position;
        if position = length input then Some (module, name) else None
      })"

section \<open>Every message satisfies the contract\<close>

text \<open>The array of a C string.\<close>

definition carray :: "bytes \<Rightarrow> bytes \<times> u32" where
  "carray s = (s @ [0], of_nat (length s))"

definition bounded_string :: "nat \<Rightarrow> bytes \<Rightarrow> bool" where
  "bounded_string bound s \<longleftrightarrow> length s \<le> bound \<and> 0 \<notin> set s"

lemma unat_small32: "k < 4294967296 \<Longrightarrow> unat (of_nat k :: u32) = k"
  by (simp add: unat_of_nat)

lemma write_bounded_string:
  assumes "bounded_string bound s" "bound < 2 ^ 32" "length out + 4 + bound \<le> capacity"
  shows "write_bounded bound capacity out (s @ [0]) (of_nat (length s)) = Some (out @ be32 (of_nat (length s)) @ s)"
proof -
  have "unat (of_nat (length s) :: u32) = length s" using assms by (intro unat_small32) (simp add: bounded_string_def)
  moreover have "\<not> capacity - length out < 4 + length s" "length out \<le> capacity"
    using assms unfolding bounded_string_def by linarith+
  ultimately show ?thesis using assms by (simp add: write_bounded_def bounded_string_def wire_simps)
qed

lemma take_bounded_string:
  assumes "bounded_string bound s" "bound < 2 ^ 32"
  shows "take_bounded bound (out @ be32 (of_nat (length s)) @ s) (length out) = Some (s, length out + 4 + length s)"
proof -
  have "unat (of_nat (length s) :: u32) = length s" using assms by (intro unat_small32) (simp add: bounded_string_def)
  then show ?thesis using assms by (simp add: take_bounded_def bounded_string_def take_u32_at)
qed

lemma take_bounded_Some:
  assumes "take_bounded bound input position = Some (s, position')" "bound < 2 ^ 32"
  shows "bounded_string bound s \<and> position' = position + 4 + length s \<and> position' \<le> length input \<and>
    take (4 + length s) (drop position input) = be32 (of_nat (length s)) @ s"
proof -
  from assms(1) obtain n p where t: "corex_protocol_take_u32 input position = Some (n, p)"
    and n: "unat n \<le> bound" "unat n \<le> length input - p" "0 \<notin> set (take (unat n) (drop p input))"
    and s: "s = take (unat n) (drop p input)" "position' = p + unat n"
    by (auto simp: take_bounded_def bind_eq_Some_conv split: if_splits)
  have p: "p = position + 4" "p \<le> length input" using take_u32_bounds [OF t] by simp_all
  have len: "length s = unat n" using s(1) n(2) by simp
  have "take 4 (drop position input) = be32 n" by (rule take_u32_inverse [OF t])
  moreover have "of_nat (length s) = n" using len by simp
  ultimately show ?thesis
    using n len p s take_add [of 4 "unat n" "drop position input"] by (auto simp: bounded_string_def add.commute)
qed

text \<open>A message that is one string.\<close>

lemma string_encoded:
  assumes "bounded_string bound s" "bound < 2 ^ 32" "capacity = 4 + bound"
  shows "write_bounded bound capacity [] (s @ [0]) (of_nat (length s)) \<bind> (\<lambda>out. if length out \<le> capacity then Some out else None)
    = Some (be32 (of_nat (length s)) @ s)"
  using write_bounded_string [OF assms(1,2), of "[]" capacity] assms(1,3) by (simp add: bounded_string_def)

lemma string_decoded:
  assumes "bound < 2 ^ 32"
  shows "take_bounded bound input 0 \<bind> (\<lambda>(name, position). if position = length input then Some name else None) = Some s
    \<longleftrightarrow> bounded_string bound s \<and> input = be32 (of_nat (length s)) @ s" (is "?l \<longleftrightarrow> ?r")
proof
  assume ?l
  then have "take_bounded bound input 0 = Some (s, length input)"
    by (auto simp: bind_eq_Some_conv split: if_splits)
  from take_bounded_Some [OF this assms] show ?r by auto
next
  assume ?r
  then show ?l using take_bounded_string [OF _ assms, of s "[]"] by simp
qed

lemma bounded_string_length: "bounded_string bound s \<Longrightarrow> length s \<le> bound"
  by (simp add: bounded_string_def)

lemma string_accepted:
  assumes "bounded_string bound s" "bound < 2 ^ 32"
  shows "take_bounded bound (be32 (of_nat (length s)) @ s) 0 \<bind> (\<lambda>(name, position). if position = 4 + length s then Some name else None) = Some s"
  using string_decoded [OF assms(2), of "be32 (of_nat (length s)) @ s" s] assms(1) by simp

lemmas string_message = string_encoded string_decoded string_accepted carray_def

interpretation cudaDeviceGetPCIBusId_response: wire_message "\<lambda>s. the (corex_generated_encode_cudaDeviceGetPCIBusId_response 36 (carray s))"
    corex_generated_decode_cudaDeviceGetPCIBusId_response "bounded_string 32" "\<lambda>_. True"
  by unfold_locales
    (auto simp: corex_generated_encode_cudaDeviceGetPCIBusId_response_def corex_generated_decode_cudaDeviceGetPCIBusId_response_def
      string_message dest: bounded_string_length split: if_splits)

interpretation cudaDeviceGetByPCIBusId_request: wire_message "\<lambda>s. the (corex_generated_encode_cudaDeviceGetByPCIBusId_request 36 (carray s))"
    corex_generated_decode_cudaDeviceGetByPCIBusId_request "bounded_string 32" "\<lambda>_. True"
  by unfold_locales
    (auto simp: corex_generated_encode_cudaDeviceGetByPCIBusId_request_def corex_generated_decode_cudaDeviceGetByPCIBusId_request_def
      string_message dest: bounded_string_length split: if_splits)

interpretation cudaLibraryEnumerateKernels_response: wire_message "\<lambda>s. the (corex_generated_encode_cudaLibraryEnumerateKernels_response 131 (carray s))"
    corex_generated_decode_cudaLibraryEnumerateKernels_response "bounded_string 127" "\<lambda>_. True"
  by unfold_locales
    (auto simp: corex_generated_encode_cudaLibraryEnumerateKernels_response_def corex_generated_decode_cudaLibraryEnumerateKernels_response_def
      string_message dest: bounded_string_length split: if_splits)

lemma symbol_message:
  assumes "bounded_string 127 s"
  shows "corex_generated_encode_cudaGetSymbolAddress_request 139 (m, carray s) = Some (be64 m @ be32 (of_nat (length s)) @ s)"
    "corex_generated_decode_cudaGetSymbolAddress_request (be64 m @ be32 (of_nat (length s)) @ s) = Some (m, s)"
  using write_bounded_string [OF assms, of "be64 m" 139] take_bounded_string [OF assms, of "be64 m"] assms take_u64_at [of "[]"]
  by (simp_all add: corex_generated_encode_cudaGetSymbolAddress_request_def corex_generated_decode_cudaGetSymbolAddress_request_def
      carray_def wire_simps bounded_string_def)

lemma symbol_input:
  assumes "corex_generated_decode_cudaGetSymbolAddress_request b = Some (m, s)"
  shows "bounded_string 127 s \<and> b = be64 m @ be32 (of_nat (length s)) @ s"
proof -
  have "12 \<le> length b" using assms by (auto simp: corex_generated_decode_cudaGetSymbolAddress_request_def split: if_splits)
  then obtain x r where b: "b = be64 x @ r" using split64 [of b] by auto
  then have "take_bounded 127 b 8 = Some (s, length b)" "x = m"
    using assms take_u64_at [of "[]" x r]
    by (auto simp: corex_generated_decode_cudaGetSymbolAddress_request_def bind_eq_Some_conv split: if_splits)
  then show ?thesis using take_bounded_Some [of 127 b 8 s "length b"] b by auto
qed

interpretation cudaGetSymbolAddress_request:
  wire_message "\<lambda>(m, s). the (corex_generated_encode_cudaGetSymbolAddress_request 139 (m, carray s))"
    corex_generated_decode_cudaGetSymbolAddress_request "\<lambda>(m, s). bounded_string 127 s" "\<lambda>_. True"
  by unfold_locales (auto simp: symbol_message dest: symbol_input)

end
