(* ===== verification/Queries.thy ===== *)
theory Queries
  imports Pools Strings_Codecs
begin

text \<open>
  The questions about the device, the context, the streams and the functions, and the settings a
  client may change, as answered by \<^verbatim>\<open>server/runtime_server.c\<close>: versions, attributes, limits, cache and
  bank configurations, PCI identifiers, device flags, stream attributes, function attributes and
  occupancy. None of them touches the tables of the session; \<open>handle_set_device_flags\<close> replaces the
  context, which it does only while the session owns no native object.
\<close>

section \<open>Enumerations\<close>

text \<open>
  The server accepts the runtime's numbers it knows and maps each to the driver's enumerator; the
  driver's numbers are those of \<^verbatim>\<open>cuda.h\<close>.
\<close>

fun lookup :: "(u32 \<times> u32) list \<Rightarrow> u32 \<Rightarrow> u32 option" where
  "lookup [] v = None"
| "lookup ((k, x) # t) v = (if v = k then Some x else lookup t v)"

abbreviation (input) CU_DEVICE_ATTRIBUTE_MAX_THREADS_PER_BLOCK :: u32 where "CU_DEVICE_ATTRIBUTE_MAX_THREADS_PER_BLOCK \<equiv> 1"
abbreviation (input) CU_DEVICE_ATTRIBUTE_MAX_BLOCK_DIM_X :: u32 where "CU_DEVICE_ATTRIBUTE_MAX_BLOCK_DIM_X \<equiv> 2"
abbreviation (input) CU_DEVICE_ATTRIBUTE_MAX_BLOCK_DIM_Y :: u32 where "CU_DEVICE_ATTRIBUTE_MAX_BLOCK_DIM_Y \<equiv> 3"
abbreviation (input) CU_DEVICE_ATTRIBUTE_MAX_BLOCK_DIM_Z :: u32 where "CU_DEVICE_ATTRIBUTE_MAX_BLOCK_DIM_Z \<equiv> 4"
abbreviation (input) CU_DEVICE_ATTRIBUTE_MAX_GRID_DIM_X :: u32 where "CU_DEVICE_ATTRIBUTE_MAX_GRID_DIM_X \<equiv> 5"
abbreviation (input) CU_DEVICE_ATTRIBUTE_MAX_GRID_DIM_Y :: u32 where "CU_DEVICE_ATTRIBUTE_MAX_GRID_DIM_Y \<equiv> 6"
abbreviation (input) CU_DEVICE_ATTRIBUTE_MAX_GRID_DIM_Z :: u32 where "CU_DEVICE_ATTRIBUTE_MAX_GRID_DIM_Z \<equiv> 7"
abbreviation (input) CU_DEVICE_ATTRIBUTE_MAX_SHARED_MEMORY_PER_BLOCK :: u32 where "CU_DEVICE_ATTRIBUTE_MAX_SHARED_MEMORY_PER_BLOCK \<equiv> 8"
abbreviation (input) CU_DEVICE_ATTRIBUTE_TOTAL_CONSTANT_MEMORY :: u32 where "CU_DEVICE_ATTRIBUTE_TOTAL_CONSTANT_MEMORY \<equiv> 9"
abbreviation (input) CU_DEVICE_ATTRIBUTE_WARP_SIZE :: u32 where "CU_DEVICE_ATTRIBUTE_WARP_SIZE \<equiv> 10"
abbreviation (input) CU_DEVICE_ATTRIBUTE_MAX_PITCH :: u32 where "CU_DEVICE_ATTRIBUTE_MAX_PITCH \<equiv> 11"
abbreviation (input) CU_DEVICE_ATTRIBUTE_MAX_REGISTERS_PER_BLOCK :: u32 where "CU_DEVICE_ATTRIBUTE_MAX_REGISTERS_PER_BLOCK \<equiv> 12"
abbreviation (input) CU_DEVICE_ATTRIBUTE_CLOCK_RATE :: u32 where "CU_DEVICE_ATTRIBUTE_CLOCK_RATE \<equiv> 13"
abbreviation (input) CU_DEVICE_ATTRIBUTE_TEXTURE_ALIGNMENT :: u32 where "CU_DEVICE_ATTRIBUTE_TEXTURE_ALIGNMENT \<equiv> 14"
abbreviation (input) CU_DEVICE_ATTRIBUTE_MULTIPROCESSOR_COUNT :: u32 where "CU_DEVICE_ATTRIBUTE_MULTIPROCESSOR_COUNT \<equiv> 16"
abbreviation (input) CU_DEVICE_ATTRIBUTE_KERNEL_EXEC_TIMEOUT :: u32 where "CU_DEVICE_ATTRIBUTE_KERNEL_EXEC_TIMEOUT \<equiv> 17"
abbreviation (input) CU_DEVICE_ATTRIBUTE_INTEGRATED :: u32 where "CU_DEVICE_ATTRIBUTE_INTEGRATED \<equiv> 18"
abbreviation (input) CU_DEVICE_ATTRIBUTE_CAN_MAP_HOST_MEMORY :: u32 where "CU_DEVICE_ATTRIBUTE_CAN_MAP_HOST_MEMORY \<equiv> 19"
abbreviation (input) CU_DEVICE_ATTRIBUTE_COMPUTE_MODE :: u32 where "CU_DEVICE_ATTRIBUTE_COMPUTE_MODE \<equiv> 20"
abbreviation (input) CU_DEVICE_ATTRIBUTE_CONCURRENT_KERNELS :: u32 where "CU_DEVICE_ATTRIBUTE_CONCURRENT_KERNELS \<equiv> 31"
abbreviation (input) CU_DEVICE_ATTRIBUTE_ECC_ENABLED :: u32 where "CU_DEVICE_ATTRIBUTE_ECC_ENABLED \<equiv> 32"
abbreviation (input) CU_DEVICE_ATTRIBUTE_PCI_BUS_ID :: u32 where "CU_DEVICE_ATTRIBUTE_PCI_BUS_ID \<equiv> 33"
abbreviation (input) CU_DEVICE_ATTRIBUTE_PCI_DEVICE_ID :: u32 where "CU_DEVICE_ATTRIBUTE_PCI_DEVICE_ID \<equiv> 34"
abbreviation (input) CU_DEVICE_ATTRIBUTE_TCC_DRIVER :: u32 where "CU_DEVICE_ATTRIBUTE_TCC_DRIVER \<equiv> 35"
abbreviation (input) CU_DEVICE_ATTRIBUTE_MEMORY_CLOCK_RATE :: u32 where "CU_DEVICE_ATTRIBUTE_MEMORY_CLOCK_RATE \<equiv> 36"
abbreviation (input) CU_DEVICE_ATTRIBUTE_GLOBAL_MEMORY_BUS_WIDTH :: u32 where "CU_DEVICE_ATTRIBUTE_GLOBAL_MEMORY_BUS_WIDTH \<equiv> 37"
abbreviation (input) CU_DEVICE_ATTRIBUTE_L2_CACHE_SIZE :: u32 where "CU_DEVICE_ATTRIBUTE_L2_CACHE_SIZE \<equiv> 38"
abbreviation (input) CU_DEVICE_ATTRIBUTE_MAX_THREADS_PER_MULTIPROCESSOR :: u32 where "CU_DEVICE_ATTRIBUTE_MAX_THREADS_PER_MULTIPROCESSOR \<equiv> 39"
abbreviation (input) CU_DEVICE_ATTRIBUTE_ASYNC_ENGINE_COUNT :: u32 where "CU_DEVICE_ATTRIBUTE_ASYNC_ENGINE_COUNT \<equiv> 40"
abbreviation (input) CU_DEVICE_ATTRIBUTE_UNIFIED_ADDRESSING :: u32 where "CU_DEVICE_ATTRIBUTE_UNIFIED_ADDRESSING \<equiv> 41"
abbreviation (input) CU_DEVICE_ATTRIBUTE_COMPUTE_CAPABILITY_MAJOR :: u32 where "CU_DEVICE_ATTRIBUTE_COMPUTE_CAPABILITY_MAJOR \<equiv> 75"
abbreviation (input) CU_DEVICE_ATTRIBUTE_COMPUTE_CAPABILITY_MINOR :: u32 where "CU_DEVICE_ATTRIBUTE_COMPUTE_CAPABILITY_MINOR \<equiv> 76"
abbreviation (input) CU_DEVICE_ATTRIBUTE_MEMORY_POOLS_SUPPORTED :: u32 where "CU_DEVICE_ATTRIBUTE_MEMORY_POOLS_SUPPORTED \<equiv> 115"

definition map_runtime_device_attribute :: "u32 \<Rightarrow> u32 option" where
  "map_runtime_device_attribute =
     lookup [(1, CU_DEVICE_ATTRIBUTE_MAX_THREADS_PER_BLOCK), (8, CU_DEVICE_ATTRIBUTE_MAX_SHARED_MEMORY_PER_BLOCK),
       (10, CU_DEVICE_ATTRIBUTE_WARP_SIZE), (13, CU_DEVICE_ATTRIBUTE_CLOCK_RATE), (16, CU_DEVICE_ATTRIBUTE_MULTIPROCESSOR_COUNT),
       (36, CU_DEVICE_ATTRIBUTE_MEMORY_CLOCK_RATE), (37, CU_DEVICE_ATTRIBUTE_GLOBAL_MEMORY_BUS_WIDTH),
       (75, CU_DEVICE_ATTRIBUTE_COMPUTE_CAPABILITY_MAJOR), (76, CU_DEVICE_ATTRIBUTE_COMPUTE_CAPABILITY_MINOR),
       (115, CU_DEVICE_ATTRIBUTE_MEMORY_POOLS_SUPPORTED)]"

text \<open>\<open>CUlimit\<close>: stack, printf FIFO, heap, sync depth, pending launches, L2 granularity, persisting L2.\<close>

definition map_runtime_limit :: "u32 \<Rightarrow> u32 option" where
  "map_runtime_limit = lookup [(0, 0), (1, 1), (2, 2), (3, 3), (4, 4), (5, 5), (6, 6)]"

text \<open>\<open>CUfunc_cache\<close>: none, shared, L1, equal.\<close>

definition map_runtime_cache_config :: "u32 \<Rightarrow> u32 option" where
  "map_runtime_cache_config = lookup [(0, 0), (1, 1), (2, 2), (3, 3)]"

definition map_corex_cache_config :: "u32 \<Rightarrow> u32 option" where
  "map_corex_cache_config = lookup [(0, 0), (1, 1), (2, 2), (3, 3)]"

text \<open>\<open>CUsharedconfig\<close>: default, four-byte and eight-byte banks.\<close>

definition map_corex_shared_mem_config :: "u32 \<Rightarrow> u32 option" where
  "map_corex_shared_mem_config = lookup [(0, 0), (1, 1), (2, 2)]"

definition map_runtime_function_attribute :: "u32 \<Rightarrow> u32 option" where
  "map_runtime_function_attribute v = (if v \<noteq> 8 \<and> v \<noteq> 9 then None else Some v)"

section \<open>The device and the context\<close>

definition handle_version_query :: "driver \<Rightarrow> u32 \<Rightarrow> u32 \<Rightarrow> world \<Rightarrow> (int \<times> world) option" where
  "handle_version_query drv req_id opcode w =
     (if opcode = OP_GET_DRIVER_VERSION
      then let (r, w) = invoke drv (Device B_driver_version) w; version = ucast (o_val r) :: u32
           in if o_rc r \<noteq> CUDA_SUCCESS \<or> sint version < 0 then reply drv opcode req_id ST_CUDA_ERROR [] w
              else reply drv opcode req_id ST_OK (corex_protocol_write_u32 [] version) w
      else reply drv opcode req_id ST_OK (corex_protocol_write_u32 [] 11000) w)"

definition handle_driver_version :: handler where
  "handle_driver_version drv req_id p w =
     (if length p \<noteq> 0 then reply drv OP_GET_DRIVER_VERSION req_id ST_BAD_REQUEST [] w
      else handle_version_query drv req_id OP_GET_DRIVER_VERSION w)"

definition handle_runtime_version :: handler where
  "handle_runtime_version drv req_id p w =
     (if length p \<noteq> 0 then reply drv OP_GET_RUNTIME_VERSION req_id ST_BAD_REQUEST [] w
      else handle_version_query drv req_id OP_GET_RUNTIME_VERSION w)"

definition handle_device_get_attribute :: handler where
  "handle_device_get_attribute drv req_id p w =
     (case corex_generated_decode_cudaDeviceGetAttribute_request p of
        None \<Rightarrow> reply drv OP_DEVICE_GET_ATTRIBUTE req_id ST_BAD_REQUEST [] w
      | Some (attribute, device) \<Rightarrow>
          if device \<noteq> 0 then reply drv OP_DEVICE_GET_ATTRIBUTE req_id ST_INVALID_DEVICE [] w
          else case map_runtime_device_attribute attribute of
                 None \<Rightarrow> reply drv OP_DEVICE_GET_ATTRIBUTE req_id ST_BAD_REQUEST [] w
               | Some attr \<Rightarrow>
                   (let (r, w) = invoke drv (Device (B_device_attribute attr)) w
                    in if o_rc r \<noteq> CUDA_SUCCESS then reply drv OP_DEVICE_GET_ATTRIBUTE req_id ST_CUDA_ERROR [] w
                       else case corex_generated_encode_cudaDeviceGetAttribute_response 4 (ucast (o_val r)) of
                              None \<Rightarrow> reply drv OP_DEVICE_GET_ATTRIBUTE req_id ST_INTERNAL [] w
                            | Some wire \<Rightarrow> reply drv OP_DEVICE_GET_ATTRIBUTE req_id ST_OK wire w))"

text \<open>\<open>strnlen\<close>.\<close>

definition strnlen :: "bytes \<Rightarrow> nat" where
  "strnlen buf = length (takeWhile (\<lambda>c. c \<noteq> 0) buf)"

definition handle_device_get_pci_bus_id :: handler where
  "handle_device_get_pci_bus_id drv req_id p w =
     (case corex_generated_decode_cudaDeviceGetPCIBusId_request p of
        None \<Rightarrow> reply drv OP_DEVICE_GET_PCI_BUS_ID req_id ST_BAD_REQUEST [] w
      | Some device \<Rightarrow>
          if device \<noteq> 0 then reply drv OP_DEVICE_GET_PCI_BUS_ID req_id ST_INVALID_DEVICE [] w
          else let (r, w) = invoke drv (Device (B_device_pci_bus_id 33)) w
               in if o_rc r = CUDA_ERROR_INVALID_DEVICE then reply drv OP_DEVICE_GET_PCI_BUS_ID req_id ST_INVALID_DEVICE [] w
                  else if o_rc r = CUDA_ERROR_INVALID_VALUE then reply drv OP_DEVICE_GET_PCI_BUS_ID req_id ST_BAD_REQUEST [] w
                  else if o_rc r \<noteq> CUDA_SUCCESS then reply drv OP_DEVICE_GET_PCI_BUS_ID req_id ST_CUDA_ERROR [] w
                  else let pci_bus_id = fit 33 (o_data r); len = strnlen pci_bus_id
                       in if len = 33 \<or> len > 32 then reply drv OP_DEVICE_GET_PCI_BUS_ID req_id ST_INTERNAL [] w
                          else case corex_generated_encode_cudaDeviceGetPCIBusId_response 36
                                      (fit 33 (take (len + 1) pci_bus_id), of_nat len) of
                                 None \<Rightarrow> reply drv OP_DEVICE_GET_PCI_BUS_ID req_id ST_INTERNAL [] w
                               | Some wire \<Rightarrow> reply drv OP_DEVICE_GET_PCI_BUS_ID req_id ST_OK wire w)"

definition handle_device_get_by_pci_bus_id :: handler where
  "handle_device_get_by_pci_bus_id drv req_id p w =
     (case corex_generated_decode_cudaDeviceGetByPCIBusId_request p of
        None \<Rightarrow> reply drv OP_DEVICE_GET_BY_PCI_BUS_ID req_id ST_BAD_REQUEST [] w
      | Some pci_bus_id \<Rightarrow>
          (let (r, w) = invoke drv (Device (B_device_get_by_pci_bus_id pci_bus_id)) w
           in if o_rc r = CUDA_ERROR_INVALID_DEVICE then reply drv OP_DEVICE_GET_BY_PCI_BUS_ID req_id ST_INVALID_DEVICE [] w
              else if o_rc r = CUDA_ERROR_INVALID_VALUE then reply drv OP_DEVICE_GET_BY_PCI_BUS_ID req_id ST_BAD_REQUEST [] w
              else if o_rc r \<noteq> CUDA_SUCCESS then reply drv OP_DEVICE_GET_BY_PCI_BUS_ID req_id ST_CUDA_ERROR [] w
              else case corex_generated_encode_cudaDeviceGetByPCIBusId_response 4 (ucast (o_val r)) of
                     None \<Rightarrow> reply drv OP_DEVICE_GET_BY_PCI_BUS_ID req_id ST_INTERNAL [] w
                   | Some wire \<Rightarrow> reply drv OP_DEVICE_GET_BY_PCI_BUS_ID req_id ST_OK wire w))"

definition handle_get_device_flags :: handler where
  "handle_get_device_flags drv req_id p w =
     (if length p \<noteq> 0 then reply drv OP_GET_DEVICE_FLAGS req_id ST_BAD_REQUEST [] w
      else let (r, w) = invoke drv (Ctx B_context_get_flags) w
           in if o_rc r \<noteq> CUDA_SUCCESS then reply drv OP_GET_DEVICE_FLAGS req_id ST_CUDA_ERROR [] w
              else case corex_generated_encode_cudaGetDeviceFlags_response 4 (ucast (o_val r)) of
                     None \<Rightarrow> reply drv OP_GET_DEVICE_FLAGS req_id ST_INTERNAL [] w
                   | Some wire \<Rightarrow> reply drv OP_GET_DEVICE_FLAGS req_id ST_OK wire w)"

definition handle_get_priority_range :: handler where
  "handle_get_priority_range drv req_id p w =
     (if length p \<noteq> 0 then reply drv OP_GET_PRIORITY_RANGE req_id ST_BAD_REQUEST [] w
      else let (r, w) = invoke drv (Ctx B_context_get_stream_priority_range) w
           in if o_rc r \<noteq> CUDA_SUCCESS then reply drv OP_GET_PRIORITY_RANGE req_id ST_CUDA_ERROR [] w
              else case corex_generated_encode_cudaDeviceGetStreamPriorityRange_response 8 (ucast (o_val r), ucast (o_val2 r)) of
                     None \<Rightarrow> reply drv OP_GET_PRIORITY_RANGE req_id ST_INTERNAL [] w
                   | Some wire \<Rightarrow> reply drv OP_GET_PRIORITY_RANGE req_id ST_OK wire w)"

definition handle_get_limit :: handler where
  "handle_get_limit drv req_id p w =
     (case corex_generated_decode_cudaDeviceGetLimit_request p of
        None \<Rightarrow> reply drv OP_GET_LIMIT req_id ST_BAD_REQUEST [] w
      | Some limit \<Rightarrow>
          (case map_runtime_limit limit of
             None \<Rightarrow> reply drv OP_GET_LIMIT req_id ST_BAD_REQUEST [] w
           | Some l \<Rightarrow>
               let (r, w) = invoke drv (Ctx (B_context_get_limit l)) w
               in if o_rc r \<noteq> CUDA_SUCCESS then reply drv OP_GET_LIMIT req_id ST_CUDA_ERROR [] w
                  else case corex_generated_encode_cudaDeviceGetLimit_response 8 (o_val r) of
                         None \<Rightarrow> reply drv OP_GET_LIMIT req_id ST_INTERNAL [] w
                       | Some wire \<Rightarrow> reply drv OP_GET_LIMIT req_id ST_OK wire w))"

definition handle_get_cache_config :: handler where
  "handle_get_cache_config drv req_id p w =
     (if length p \<noteq> 0 then reply drv OP_GET_CACHE_CONFIG req_id ST_BAD_REQUEST [] w
      else let (r, w) = invoke drv (Ctx B_context_get_cache_config) w
           in if o_rc r \<noteq> CUDA_SUCCESS then reply drv OP_GET_CACHE_CONFIG req_id ST_CUDA_ERROR [] w
              else case map_corex_cache_config (ucast (o_val r)) of
                     None \<Rightarrow> reply drv OP_GET_CACHE_CONFIG req_id ST_CUDA_ERROR [] w
                   | Some config \<Rightarrow>
                       (case corex_generated_encode_cudaDeviceGetCacheConfig_response 4 config of
                          None \<Rightarrow> reply drv OP_GET_CACHE_CONFIG req_id ST_INTERNAL [] w
                        | Some wire \<Rightarrow> reply drv OP_GET_CACHE_CONFIG req_id ST_OK wire w))"

definition handle_get_shared_mem_config :: handler where
  "handle_get_shared_mem_config drv req_id p w =
     (if length p \<noteq> 0 then reply drv OP_GET_SHARED_MEM_CONFIG req_id ST_BAD_REQUEST [] w
      else let (r, w) = invoke drv (Ctx B_context_get_shared_mem_config) w
           in if o_rc r \<noteq> CUDA_SUCCESS then reply drv OP_GET_SHARED_MEM_CONFIG req_id ST_CUDA_ERROR [] w
              else case map_corex_shared_mem_config (ucast (o_val r)) of
                     None \<Rightarrow> reply drv OP_GET_SHARED_MEM_CONFIG req_id ST_CUDA_ERROR [] w
                   | Some config \<Rightarrow>
                       (case corex_generated_encode_cudaDeviceGetSharedMemConfig_response 4 config of
                          None \<Rightarrow> reply drv OP_GET_SHARED_MEM_CONFIG req_id ST_INTERNAL [] w
                        | Some wire \<Rightarrow> reply drv OP_GET_SHARED_MEM_CONFIG req_id ST_OK wire w))"

definition handle_set_limit :: handler where
  "handle_set_limit drv req_id p w =
     (case corex_generated_decode_cudaDeviceSetLimit_request p of
        None \<Rightarrow> reply drv OP_SET_LIMIT req_id ST_BAD_REQUEST [] w
      | Some (limit, val) \<Rightarrow>
          (case map_runtime_limit limit of
             None \<Rightarrow> reply drv OP_SET_LIMIT req_id ST_BAD_REQUEST [] w
           | Some l \<Rightarrow>
               let (r, w) = invoke drv (Ctx (B_context_set_limit l val)) w
               in reply drv OP_SET_LIMIT req_id (if o_rc r = CUDA_SUCCESS then ST_OK else ST_CUDA_ERROR) [] w))"

definition handle_set_cache_config :: handler where
  "handle_set_cache_config drv req_id p w =
     (case corex_generated_decode_cudaDeviceSetCacheConfig_request p of
        None \<Rightarrow> reply drv OP_SET_CACHE_CONFIG req_id ST_BAD_REQUEST [] w
      | Some config \<Rightarrow>
          (case map_runtime_cache_config config of
             None \<Rightarrow> reply drv OP_SET_CACHE_CONFIG req_id ST_BAD_REQUEST [] w
           | Some c \<Rightarrow>
               let (r, w) = invoke drv (Ctx (B_context_set_cache_config c)) w
               in reply drv OP_SET_CACHE_CONFIG req_id (if o_rc r = CUDA_SUCCESS then ST_OK else ST_CUDA_ERROR) [] w))"

definition handle_set_shared_mem_config :: handler where
  "handle_set_shared_mem_config drv req_id p w =
     (case corex_generated_decode_cudaDeviceSetSharedMemConfig_request p of
        None \<Rightarrow> reply drv OP_SET_SHARED_MEM_CONFIG req_id ST_BAD_REQUEST [] w
      | Some config \<Rightarrow>
          (case lookup [(0, 0), (1, 1), (2, 2)] config of
             None \<Rightarrow> reply drv OP_SET_SHARED_MEM_CONFIG req_id ST_BAD_REQUEST [] w
           | Some c \<Rightarrow>
               let (r, w) = invoke drv (Ctx (B_context_set_shared_mem_config c)) w
               in reply drv OP_SET_SHARED_MEM_CONFIG req_id (if o_rc r = CUDA_SUCCESS then ST_OK else ST_CUDA_ERROR) [] w))"


text \<open>The tables the server looks through before it replaces the context.\<close>

definition owns_nothing :: "ServerSession \<Rightarrow> bool" where
  "owns_nothing s \<longleftrightarrow>
     \<not> list_ex a_used (allocations s) \<and> \<not> list_ex st_used (streams s) \<and> \<not> list_ex e_used (events s) \<and>
     \<not> list_ex m_used (modules s) \<and> \<not> list_ex p_used (pools s) \<and> \<not> list_ex g_used (graphs s) \<and>
     \<not> list_ex x_used (graph_execs s) \<and> \<not> list_ex t_used (transfers s)"

text \<open>The context is destroyed and created anew; when the creation fails, the old flags are tried again.\<close>

definition handle_set_device_flags :: handler where
  "handle_set_device_flags drv req_id p w =
     (case corex_generated_decode_cudaSetDeviceFlags_request p of
        None \<Rightarrow> reply drv OP_SET_DEVICE_FLAGS req_id ST_BAD_REQUEST [] w
      | Some flags \<Rightarrow>
          if flags AND NOT 31 \<noteq> 0 then reply drv OP_SET_DEVICE_FLAGS req_id ST_BAD_REQUEST [] w
          else let (r, w) = invoke drv (Ctx B_context_get_flags) w; current = ucast (o_val r) :: u32
               in if o_rc r \<noteq> CUDA_SUCCESS then reply drv OP_SET_DEVICE_FLAGS req_id ST_CUDA_ERROR [] w
                  else if current = flags then reply drv OP_SET_DEVICE_FLAGS req_id ST_OK [] w
                  else if \<not> owns_nothing (sess w) then reply drv OP_SET_DEVICE_FLAGS req_id ST_NOT_SUPPORTED [] w
                  else let (r, w) = invoke drv (Ctx (B_context_destroy (g_ctx w))) w
                       in if o_rc r \<noteq> CUDA_SUCCESS then reply drv OP_SET_DEVICE_FLAGS req_id ST_CUDA_ERROR [] w
                          else let (r, w) = invoke drv (Ctx (B_context_create flags)) (w\<lparr>g_ctx := 0\<rparr>)
                               in if o_rc r = CUDA_SUCCESS
                                  then reply drv OP_SET_DEVICE_FLAGS req_id ST_OK [] (w\<lparr>g_ctx := o_val r\<rparr>)
                                  else let (r, w) = invoke drv (Ctx (B_context_create current)) w;
                                           w = (if o_rc r = CUDA_SUCCESS then w\<lparr>g_ctx := o_val r\<rparr> else w)
                                       in reply drv OP_SET_DEVICE_FLAGS req_id ST_CUDA_ERROR [] w)"

section \<open>Stream attributes\<close>

text \<open>A field of the structure a call filled; a field the call left alone is zero.\<close>

definition out_field :: "outcome \<Rightarrow> nat \<Rightarrow> u64" where
  "out_field r k = (if k < length (o_vals r) then o_vals r ! k else 0)"

definition handle_stream_copy_attributes :: handler where
  "handle_stream_copy_attributes drv req_id p w =
     (case corex_generated_decode_cudaStreamCopyAttributes_request p of
        None \<Rightarrow> reply drv OP_STREAM_COPY_ATTRIBUTES req_id ST_BAD_REQUEST [] w
      | Some (dst_id, src_id) \<Rightarrow>
          (case (resolve_stream_id (sess w) dst_id, resolve_stream_id (sess w) src_id) of
             (Some dst, Some src) \<Rightarrow>
               let (r, w) = invoke drv (Stream (B_stream_copy_attributes dst src)) w
               in reply drv OP_STREAM_COPY_ATTRIBUTES req_id (if o_rc r = CUDA_SUCCESS then ST_OK else ST_CUDA_ERROR) [] w
           | _ \<Rightarrow> reply drv OP_STREAM_COPY_ATTRIBUTES req_id ST_NOT_FOUND [] w))"

text \<open>The first live allocation that contains the window, and the offset of the window in it.\<close>

definition window_owner :: "ServerSession \<Rightarrow> u64 \<Rightarrow> u64 \<Rightarrow> (u64 \<times> u64) option" where
  "window_owner s pointer num_bytes =
     map_option (\<lambda>a. (a_id a, pointer - a_ptr a))
       (List.find (\<lambda>a. a_used a \<and> pointer \<ge> a_ptr a \<and> pointer - a_ptr a \<le> a_size a \<and>
                     num_bytes \<le> a_size a - (pointer - a_ptr a)) (allocations s))"

definition handle_stream_get_attribute :: handler where
  "handle_stream_get_attribute drv req_id p w =
     (case corex_generated_decode_cudaStreamGetAttribute_request p of
        None \<Rightarrow> reply drv OP_STREAM_GET_ATTRIBUTE req_id ST_BAD_REQUEST [] w
      | Some (stream_id, attribute) \<Rightarrow>
          if attribute \<noteq> 1 \<and> attribute \<noteq> 3 then reply drv OP_STREAM_GET_ATTRIBUTE req_id ST_BAD_REQUEST [] w
          else case resolve_stream_id (sess w) stream_id of
                 None \<Rightarrow> reply drv OP_STREAM_GET_ATTRIBUTE req_id ST_NOT_FOUND [] w
               | Some stream \<Rightarrow>
                   (let (r, w) = invoke drv (Stream (B_stream_get_attribute stream attribute)) w
                    in if o_rc r \<noteq> CUDA_SUCCESS then reply drv OP_STREAM_GET_ATTRIBUTE req_id ST_CUDA_ERROR [] w
                       else let base_ptr = out_field r 0; num_bytes = out_field r 1;
                                response = (if attribute = 1
                                  then map_option (\<lambda>(allocation, off). (allocation, off, num_bytes, ucast (out_field r 2),
                                                      ucast (out_field r 3), ucast (out_field r 4), 0))
                                         (if base_ptr \<noteq> 0 then window_owner (sess w) base_ptr num_bytes else Some (0, 0))
                                  else Some (0, 0, 0, 0, 0, 0, ucast (o_val r)))
                            in case response of
                                 None \<Rightarrow> reply drv OP_STREAM_GET_ATTRIBUTE req_id ST_CUDA_ERROR [] w
                               | Some request \<Rightarrow>
                                   (case corex_generated_encode_cudaStreamGetAttribute_response 40 request of
                                      None \<Rightarrow> reply drv OP_STREAM_GET_ATTRIBUTE req_id ST_INTERNAL [] w
                                    | Some wire \<Rightarrow> reply drv OP_STREAM_GET_ATTRIBUTE req_id ST_OK wire w)))"

text \<open>The bits of a \<open>float\<close> in the closed interval from 0 to 1; a NaN and the negatives fail both comparisons.\<close>

definition unit_float :: "u32 \<Rightarrow> bool" where
  "unit_float bits \<longleftrightarrow> bits \<le> 0x3F800000 \<or> bits = 0x80000000"

text \<open>The attribute value to set, or \<^const>\<open>None\<close> for the bad request.\<close>

definition stream_attribute_value :: "ServerSession \<Rightarrow> u32 \<Rightarrow> u64 \<times> u64 \<times> u64 \<times> u32 \<times> u32 \<times> u32 \<times> u32 \<Rightarrow> stream_attr option" where
  "stream_attribute_value s attribute = (\<lambda>(allocation, off, bytes, hit_ratio_bits, hit_property, miss_property, sync_policy).
     if attribute = 1
     then if \<not> unit_float hit_ratio_bits \<or> sint hit_property < 0 \<or> sint hit_property > 2 \<or>
             sint miss_property < 0 \<or> sint miss_property > 1
          then None
          else if allocation \<noteq> 0
          then (case find_allocation s allocation of
                  None \<Rightarrow> None
                | Some i \<Rightarrow> let a = allocations s ! i
                            in if off > a_size a \<or> bytes > a_size a - off then None
                               else Some (Access_policy_window (a_ptr a + off) bytes hit_ratio_bits hit_property miss_property))
          else if off \<noteq> 0 \<or> bytes \<noteq> 0 then None
          else Some (Access_policy_window 0 bytes hit_ratio_bits hit_property miss_property)
     else Some (Sync_policy sync_policy))"

definition handle_stream_set_attribute :: handler where
  "handle_stream_set_attribute drv req_id p w =
     (case corex_generated_decode_cudaStreamSetAttribute_request p of
        None \<Rightarrow> reply drv OP_STREAM_SET_ATTRIBUTE req_id ST_BAD_REQUEST [] w
      | Some (stream_id, attribute, request) \<Rightarrow>
          if attribute \<noteq> 1 \<and> attribute \<noteq> 3 then reply drv OP_STREAM_SET_ATTRIBUTE req_id ST_BAD_REQUEST [] w
          else case resolve_stream_id (sess w) stream_id of
                 None \<Rightarrow> reply drv OP_STREAM_SET_ATTRIBUTE req_id ST_NOT_FOUND [] w
               | Some stream \<Rightarrow>
                   (case stream_attribute_value (sess w) attribute request of
                      None \<Rightarrow> reply drv OP_STREAM_SET_ATTRIBUTE req_id ST_BAD_REQUEST [] w
                    | Some val \<Rightarrow>
                        let (r, w) = invoke drv (Stream (B_stream_set_attribute stream attribute val)) w
                        in reply drv OP_STREAM_SET_ATTRIBUTE req_id
                             (if o_rc r = CUDA_SUCCESS then ST_OK
                              else if o_rc r = CUDA_ERROR_INVALID_VALUE then ST_BAD_REQUEST else ST_CUDA_ERROR) [] w))"

section \<open>Functions\<close>

definition handle_function_set_attribute :: handler where
  "handle_function_set_attribute drv req_id p w =
     (case corex_generated_decode_cudaFuncSetAttribute_request p of
        None \<Rightarrow> reply drv OP_FUNCTION_SET_ATTRIBUTE req_id ST_BAD_REQUEST [] w
      | Some (kernel_id, attribute, val) \<Rightarrow>
          (case find_kernel (sess w) kernel_id of
             None \<Rightarrow> reply drv OP_FUNCTION_SET_ATTRIBUTE req_id ST_NOT_FOUND [] w
           | Some i \<Rightarrow>
               (case map_runtime_function_attribute attribute of
                  None \<Rightarrow> reply drv OP_FUNCTION_SET_ATTRIBUTE req_id ST_BAD_REQUEST [] w
                | Some attr \<Rightarrow>
                    let (r, w) = invoke drv (Module (B_function_set_attribute (k_function (kernels (sess w) ! i)) attr val)) w
                    in if o_rc r \<noteq> CUDA_SUCCESS then reply drv OP_FUNCTION_SET_ATTRIBUTE req_id ST_CUDA_ERROR [] w
                       else reply drv OP_FUNCTION_SET_ATTRIBUTE req_id ST_OK [] w)))"

definition handle_function_set_cache_config :: handler where
  "handle_function_set_cache_config drv req_id p w =
     (case corex_generated_decode_cudaFuncSetCacheConfig_request p of
        None \<Rightarrow> reply drv OP_FUNCTION_SET_CACHE_CONFIG req_id ST_BAD_REQUEST [] w
      | Some (kernel_id, config) \<Rightarrow>
          (case find_kernel (sess w) kernel_id of
             None \<Rightarrow> reply drv OP_FUNCTION_SET_CACHE_CONFIG req_id ST_NOT_FOUND [] w
           | Some i \<Rightarrow>
               (case map_runtime_cache_config config of
                  None \<Rightarrow> reply drv OP_FUNCTION_SET_CACHE_CONFIG req_id ST_BAD_REQUEST [] w
                | Some c \<Rightarrow>
                    let (r, w) = invoke drv (Module (B_function_set_cache_config (k_function (kernels (sess w) ! i)) c)) w
                    in if o_rc r \<noteq> CUDA_SUCCESS then reply drv OP_FUNCTION_SET_CACHE_CONFIG req_id ST_CUDA_ERROR [] w
                       else reply drv OP_FUNCTION_SET_CACHE_CONFIG req_id ST_OK [] w)))"

definition handle_function_set_shared_config :: handler where
  "handle_function_set_shared_config drv req_id p w =
     (case corex_generated_decode_cudaFuncSetSharedMemConfig_request p of
        None \<Rightarrow> reply drv OP_FUNCTION_SET_SHARED_CONFIG req_id ST_BAD_REQUEST [] w
      | Some (kernel_id, config) \<Rightarrow>
          if sint config < 0 \<or> sint config > 2 then reply drv OP_FUNCTION_SET_SHARED_CONFIG req_id ST_BAD_REQUEST [] w
          else case find_kernel (sess w) kernel_id of
                 None \<Rightarrow> reply drv OP_FUNCTION_SET_SHARED_CONFIG req_id ST_NOT_FOUND [] w
               | Some i \<Rightarrow>
                   (let (r, w) = invoke drv (Module (B_function_set_shared_config (k_function (kernels (sess w) ! i)) config)) w
                    in reply drv OP_FUNCTION_SET_SHARED_CONFIG req_id (if o_rc r = CUDA_SUCCESS then ST_OK else ST_CUDA_ERROR) [] w))"

text \<open>
  The attributes of a function, read one after the other until one fails; \<open>CUfunction_attribute\<close>: shared 1,
  constant 2, local 3, registers 4, PTX 5, binary 6, threads 0, cache mode 7, dynamic shared 8.
\<close>

fun function_values :: "driver \<Rightarrow> u64 \<Rightarrow> u32 list \<Rightarrow> world \<Rightarrow> (CUresult \<times> u32 list) \<times> world" where
  "function_values drv function [] w = ((CUDA_SUCCESS, []), w)"
| "function_values drv function (attr # attrs) w =
     (let (r, w) = invoke drv (Module (B_function_attribute function attr)) w
      in if o_rc r \<noteq> CUDA_SUCCESS then ((o_rc r, []), w)
         else let ((rc, vs), w) = function_values drv function attrs w in ((rc, ucast (o_val r) # vs), w))"

definition handle_function_attributes :: handler where
  "handle_function_attributes drv req_id p w =
     (if length p \<noteq> 8 then reply drv OP_FUNCTION_ATTRIBUTES req_id ST_BAD_REQUEST [] w
      else do {
        kernel_id \<leftarrow> rd64 p 0;
        case find_kernel (sess w) kernel_id of
          None \<Rightarrow> reply drv OP_FUNCTION_ATTRIBUTES req_id ST_NOT_FOUND [] w
        | Some i \<Rightarrow>
            (let ((rc, values), w) = function_values drv (k_function (kernels (sess w) ! i)) [1, 2, 3, 4, 5, 6, 0] w
             in if rc \<noteq> CUDA_SUCCESS then reply drv OP_FUNCTION_ATTRIBUTES req_id ST_CUDA_ERROR [] w
                else reply drv OP_FUNCTION_ATTRIBUTES req_id ST_OK (foldl corex_protocol_write_u32 [] values) w)
      })"

definition handle_function_info :: handler where
  "handle_function_info drv req_id p w =
     (case corex_generated_decode_cudaFuncGetAttributes_request p of
        None \<Rightarrow> reply drv OP_FUNCTION_INFO req_id ST_BAD_REQUEST [] w
      | Some kernel_id \<Rightarrow>
          (case find_kernel (sess w) kernel_id of
             None \<Rightarrow> reply drv OP_FUNCTION_INFO req_id ST_NOT_FOUND [] w
           | Some i \<Rightarrow>
               let ((rc, values), w) = function_values drv (k_function (kernels (sess w) ! i)) [1, 2, 3, 4, 5, 6, 0, 7, 8] w
               in if rc \<noteq> CUDA_SUCCESS then reply drv OP_FUNCTION_INFO req_id (pool_status rc) [] w
                  else case corex_generated_encode_cudaFuncGetAttributes_response 36
                              (values ! 0, values ! 1, values ! 2, values ! 3, values ! 4, values ! 5, values ! 6, values ! 7, values ! 8) of
                         None \<Rightarrow> reply drv OP_FUNCTION_INFO req_id ST_INTERNAL [] w
                       | Some wire \<Rightarrow> reply drv OP_FUNCTION_INFO req_id ST_OK wire w))"

definition handle_occupancy :: handler where
  "handle_occupancy drv req_id p w =
     (if length p \<noteq> 20 then reply drv OP_OCCUPANCY req_id ST_BAD_REQUEST [] w
      else do {
        kernel_id \<leftarrow> rd64 p 0;
        block_size \<leftarrow> rd32 p 8;
        dynamic_shared \<leftarrow> rd64 p 12;
        case find_kernel (sess w) kernel_id of
          None \<Rightarrow> reply drv OP_OCCUPANCY req_id ST_BAD_REQUEST [] w
        | Some i \<Rightarrow>
            if sint block_size \<le> 0 \<or> sint block_size > 2048 then reply drv OP_OCCUPANCY req_id ST_BAD_REQUEST [] w
            else let (r, w) = invoke drv (Module (B_occupancy (k_function (kernels (sess w) ! i)) block_size dynamic_shared)) w
                 in if o_rc r \<noteq> CUDA_SUCCESS then reply drv OP_OCCUPANCY req_id ST_CUDA_ERROR [] w
                    else reply drv OP_OCCUPANCY req_id ST_OK (corex_protocol_write_u32 [] (ucast (o_val r))) w
      })"

definition handle_occupancy_flags :: handler where
  "handle_occupancy_flags drv req_id p w =
     (case corex_generated_decode_cudaOccupancyMaxActiveBlocksPerMultiprocessorWithFlags_request p of
        None \<Rightarrow> reply drv OP_OCCUPANCY_FLAGS req_id ST_BAD_REQUEST [] w
      | Some (kernel_id, block_size, dynamic_shared, flags) \<Rightarrow>
          if sint block_size \<le> 0 \<or> flags > 1 then reply drv OP_OCCUPANCY_FLAGS req_id ST_BAD_REQUEST [] w
          else case find_kernel (sess w) kernel_id of
                 None \<Rightarrow> reply drv OP_OCCUPANCY_FLAGS req_id ST_NOT_FOUND [] w
               | Some i \<Rightarrow>
                   (let (r, w) = invoke drv (Module (B_occupancy_flags (k_function (kernels (sess w) ! i)) block_size dynamic_shared flags)) w
                    in if o_rc r \<noteq> CUDA_SUCCESS
                       then reply drv OP_OCCUPANCY_FLAGS req_id (if o_rc r = CUDA_ERROR_INVALID_VALUE then ST_BAD_REQUEST else ST_CUDA_ERROR) [] w
                       else do {
                         out \<leftarrow> corex_generated_encode_cudaOccupancyMaxActiveBlocksPerMultiprocessorWithFlags_response 4 (ucast (o_val r));
                         reply drv OP_OCCUPANCY_FLAGS req_id ST_OK out w
                       }))"

definition handle_occupancy_potential :: handler where
  "handle_occupancy_potential drv req_id p w =
     (case corex_generated_decode_cudaOccupancyMaxPotentialBlockSize_request p of
        None \<Rightarrow> reply drv OP_OCCUPANCY_POTENTIAL req_id ST_BAD_REQUEST [] w
      | Some (kernel_id, dynamic_shared, block_limit) \<Rightarrow>
          if sint block_limit < 0 then reply drv OP_OCCUPANCY_POTENTIAL req_id ST_BAD_REQUEST [] w
          else case find_kernel (sess w) kernel_id of
                 None \<Rightarrow> reply drv OP_OCCUPANCY_POTENTIAL req_id ST_NOT_FOUND [] w
               | Some i \<Rightarrow>
                   (let (r, w) = invoke drv (Module (B_occupancy_potential (k_function (kernels (sess w) ! i)) dynamic_shared block_limit)) w
                    in if o_rc r \<noteq> CUDA_SUCCESS
                       then reply drv OP_OCCUPANCY_POTENTIAL req_id (if o_rc r = CUDA_ERROR_INVALID_VALUE then ST_BAD_REQUEST else ST_CUDA_ERROR) [] w
                       else do {
                         out \<leftarrow> corex_generated_encode_cudaOccupancyMaxPotentialBlockSize_response 8 (ucast (o_val r), ucast (o_val2 r));
                         reply drv OP_OCCUPANCY_POTENTIAL req_id ST_OK out w
                       }))"

section \<open>Device information\<close>

definition g8c_query_attr :: "driver \<Rightarrow> u32 \<Rightarrow> world \<Rightarrow> u32 option \<times> world" where
  "g8c_query_attr drv attr w =
     (let (r, w) = invoke drv (Device (B_device_attribute attr)) w; val = ucast (o_val r) :: u32
      in (if o_rc r \<noteq> CUDA_SUCCESS \<or> sint val < 0 then None else Some val, w))"

fun query_attrs :: "driver \<Rightarrow> u32 list \<Rightarrow> world \<Rightarrow> u32 list option \<times> world" where
  "query_attrs drv [] w = (Some [], w)"
| "query_attrs drv (attr # attrs) w =
     (case g8c_query_attr drv attr w of
        (None, w) \<Rightarrow> (None, w)
      | (Some v, w) \<Rightarrow> (case query_attrs drv attrs w of (vs, w) \<Rightarrow> (map_option (\<lambda>vs. v # vs) vs, w)))"

text \<open>The attributes in the order of the \<open>ATTR\<close> lines; entry \<open>k\<close> of the values belongs to entry \<open>k\<close> here.\<close>

definition info_attrs :: "u32 list" where
  "info_attrs =
     [CU_DEVICE_ATTRIBUTE_MAX_THREADS_PER_BLOCK, CU_DEVICE_ATTRIBUTE_MAX_BLOCK_DIM_X, CU_DEVICE_ATTRIBUTE_MAX_BLOCK_DIM_Y,
      CU_DEVICE_ATTRIBUTE_MAX_BLOCK_DIM_Z, CU_DEVICE_ATTRIBUTE_MAX_GRID_DIM_X, CU_DEVICE_ATTRIBUTE_MAX_GRID_DIM_Y,
      CU_DEVICE_ATTRIBUTE_MAX_GRID_DIM_Z, CU_DEVICE_ATTRIBUTE_MAX_SHARED_MEMORY_PER_BLOCK, CU_DEVICE_ATTRIBUTE_TOTAL_CONSTANT_MEMORY,
      CU_DEVICE_ATTRIBUTE_WARP_SIZE, CU_DEVICE_ATTRIBUTE_MAX_PITCH, CU_DEVICE_ATTRIBUTE_MAX_REGISTERS_PER_BLOCK,
      CU_DEVICE_ATTRIBUTE_CLOCK_RATE, CU_DEVICE_ATTRIBUTE_TEXTURE_ALIGNMENT, CU_DEVICE_ATTRIBUTE_MULTIPROCESSOR_COUNT,
      CU_DEVICE_ATTRIBUTE_KERNEL_EXEC_TIMEOUT, CU_DEVICE_ATTRIBUTE_INTEGRATED, CU_DEVICE_ATTRIBUTE_CAN_MAP_HOST_MEMORY,
      CU_DEVICE_ATTRIBUTE_COMPUTE_MODE, CU_DEVICE_ATTRIBUTE_CONCURRENT_KERNELS, CU_DEVICE_ATTRIBUTE_ECC_ENABLED,
      CU_DEVICE_ATTRIBUTE_PCI_BUS_ID, CU_DEVICE_ATTRIBUTE_PCI_DEVICE_ID, CU_DEVICE_ATTRIBUTE_TCC_DRIVER,
      CU_DEVICE_ATTRIBUTE_MEMORY_CLOCK_RATE, CU_DEVICE_ATTRIBUTE_GLOBAL_MEMORY_BUS_WIDTH, CU_DEVICE_ATTRIBUTE_L2_CACHE_SIZE,
      CU_DEVICE_ATTRIBUTE_MAX_THREADS_PER_MULTIPROCESSOR, CU_DEVICE_ATTRIBUTE_ASYNC_ENGINE_COUNT,
      CU_DEVICE_ATTRIBUTE_UNIFIED_ADDRESSING, CU_DEVICE_ATTRIBUTE_COMPUTE_CAPABILITY_MAJOR, CU_DEVICE_ATTRIBUTE_COMPUTE_CAPABILITY_MINOR]"

definition device_info_bytes :: "u32 \<Rightarrow> bytes \<Rightarrow> u64 \<Rightarrow> u64 \<Rightarrow> u32 list \<Rightarrow> bytes" where
  "device_info_bytes logical_device name total_global_mem free_mem v =
     (let u32 = (\<lambda>x out. corex_protocol_write_u32 out x); u64 = (\<lambda>x out. corex_protocol_write_u64 out x);
          out = u32 logical_device (u32 1 []) @ name;
          out = u64 (ucast (v ! 7)) (u64 free_mem (u64 total_global_mem out));
          out = u64 (ucast (v ! 10)) (u32 (v ! 9) (u32 (v ! 11) out));
          out = u32 (v ! 3) (u32 (v ! 2) (u32 (v ! 1) (u32 (v ! 0) out)));
          out = u32 (v ! 6) (u32 (v ! 5) (u32 (v ! 4) out));
          out = u64 (ucast (v ! 8)) (u32 (v ! 12) out);
          out = u64 (ucast (v ! 13)) (u32 (v ! 31) (u32 (v ! 30) out));
          out = u32 (if v ! 28 > 0 then 1 else 0) out;
          out = u32 (v ! 18) (u32 (v ! 17) (u32 (v ! 16) (u32 (v ! 15) (u32 (v ! 14) out))));
          out = u32 (v ! 23) (u32 (v ! 22) (u32 (v ! 21) (u32 (v ! 20) (u32 (v ! 19) out))))
      in u32 (v ! 29) (u32 (v ! 28) (u32 (v ! 27) (u32 (v ! 26) (u32 (v ! 25) (u32 (v ! 24) out))))))"

definition handle_get_device_info :: handler where
  "handle_get_device_info drv req_id p w =
     (if length p \<noteq> 4 then reply drv OP_GET_DEVICE_INFO req_id ST_BAD_REQUEST [] w
      else do {
        logical_device \<leftarrow> rd32 p 0;
        if logical_device \<noteq> 0 then reply drv OP_GET_DEVICE_INFO req_id ST_NOT_FOUND [] w
        else let (r1, w) = invoke drv (Device (B_device_name 256)) w
             in if o_rc r1 \<noteq> CUDA_SUCCESS then reply drv OP_GET_DEVICE_INFO req_id ST_CUDA_ERROR [] w
                else let (r2, w) = invoke drv (Device B_device_total_mem) w
                     in if o_rc r2 \<noteq> CUDA_SUCCESS then reply drv OP_GET_DEVICE_INFO req_id ST_CUDA_ERROR [] w
                        else let (r3, w) = invoke drv (Device B_mem_info) w
                             in if o_rc r3 \<noteq> CUDA_SUCCESS then reply drv OP_GET_DEVICE_INFO req_id ST_CUDA_ERROR [] w
                                else (case query_attrs drv info_attrs w of
                                        (None, w) \<Rightarrow> reply drv OP_GET_DEVICE_INFO req_id ST_CUDA_ERROR [] w
                                      | (Some v, w) \<Rightarrow>
                                          reply drv OP_GET_DEVICE_INFO req_id ST_OK
                                            (device_info_bytes logical_device (fit 256 (o_data r1)) (o_val r2) (o_val r3) v) w)
      })"

section \<open>Every request is served safely\<close>

lemmas query_responses = corex_generated_encode_cudaDeviceGetAttribute_response_def
  corex_generated_encode_cudaDeviceGetByPCIBusId_response_def corex_generated_encode_cudaGetDeviceFlags_response_def
  corex_generated_encode_cudaDeviceGetStreamPriorityRange_response_def corex_generated_encode_cudaDeviceGetLimit_response_def
  corex_generated_encode_cudaDeviceGetCacheConfig_response_def corex_generated_encode_cudaDeviceGetSharedMemConfig_response_def
  corex_generated_encode_cudaStreamGetAttribute_response_def corex_generated_encode_cudaFuncGetAttributes_response_def
  corex_generated_encode_cudaOccupancyMaxActiveBlocksPerMultiprocessorWithFlags_response_def
  corex_generated_encode_cudaOccupancyMaxPotentialBlockSize_response_def

lemma pci_response_length: "corex_generated_encode_cudaDeviceGetPCIBusId_response 36 m = Some wire \<Longrightarrow> length wire < 4294967296"
  by (auto simp: corex_generated_encode_cudaDeviceGetPCIBusId_response_def bind_eq_Some_conv split: prod.splits if_splits)

lemmas query_calls = invoke_case call_in_bounds_def pin_call_def query_responses wire_simps

lemma version_query_serves:
  "session_inv n (sess w) \<Longrightarrow> ends (handle_version_query drv req_id opcode w) (safely_served n drv opcode req_id w)"
  by (auto simp: handle_version_query_def Let_def query_calls intro!: ready_reply ready_call)

interpretation driver_version: safe_handler handle_driver_version OP_GET_DRIVER_VERSION
  by unfold_locales (auto simp: handle_driver_version_def intro!: version_query_serves)

interpretation runtime_version: safe_handler handle_runtime_version OP_GET_RUNTIME_VERSION
  by unfold_locales (auto simp: handle_runtime_version_def intro!: version_query_serves)

interpretation device_get_attribute: safe_handler handle_device_get_attribute OP_DEVICE_GET_ATTRIBUTE
  by unfold_locales
    (auto simp: handle_device_get_attribute_def Let_def query_calls split: option.split intro!: ready_reply ready_call)

interpretation device_get_pci_bus_id: safe_handler handle_device_get_pci_bus_id OP_DEVICE_GET_PCI_BUS_ID
  by unfold_locales
    (auto simp: handle_device_get_pci_bus_id_def Let_def query_calls split: option.split intro!: ready_reply ready_call dest: pci_response_length)

interpretation device_get_by_pci_bus_id: safe_handler handle_device_get_by_pci_bus_id OP_DEVICE_GET_BY_PCI_BUS_ID
  by unfold_locales
    (auto simp: handle_device_get_by_pci_bus_id_def Let_def query_calls split: option.split intro!: ready_reply ready_call)

interpretation get_device_flags: safe_handler handle_get_device_flags OP_GET_DEVICE_FLAGS
  by unfold_locales (auto simp: handle_get_device_flags_def Let_def query_calls intro!: ready_reply ready_call)

interpretation get_priority_range: safe_handler handle_get_priority_range OP_GET_PRIORITY_RANGE
  by unfold_locales (auto simp: handle_get_priority_range_def Let_def query_calls intro!: ready_reply ready_call)

interpretation get_limit: safe_handler handle_get_limit OP_GET_LIMIT
  by unfold_locales (auto simp: handle_get_limit_def Let_def query_calls split: option.split intro!: ready_reply ready_call)

interpretation get_cache_config: safe_handler handle_get_cache_config OP_GET_CACHE_CONFIG
  by unfold_locales (auto simp: handle_get_cache_config_def Let_def query_calls split: option.split intro!: ready_reply ready_call)

interpretation get_shared_mem_config: safe_handler handle_get_shared_mem_config OP_GET_SHARED_MEM_CONFIG
  by unfold_locales (auto simp: handle_get_shared_mem_config_def Let_def query_calls split: option.split intro!: ready_reply ready_call)

interpretation set_limit: safe_handler handle_set_limit OP_SET_LIMIT
  by unfold_locales (auto simp: handle_set_limit_def Let_def query_calls split: option.split intro!: ready_reply ready_call)

interpretation set_cache_config: safe_handler handle_set_cache_config OP_SET_CACHE_CONFIG
  by unfold_locales (auto simp: handle_set_cache_config_def Let_def query_calls split: option.split intro!: ready_reply ready_call)

interpretation set_shared_mem_config: safe_handler handle_set_shared_mem_config OP_SET_SHARED_MEM_CONFIG
  by unfold_locales (auto simp: handle_set_shared_mem_config_def Let_def query_calls split: option.split intro!: ready_reply ready_call)

lemma ready_context [simp]: "ready n w (w1\<lparr>g_ctx := c\<rparr>) = ready n w w1"
  by (simp add: ready_def)

interpretation set_device_flags: safe_handler handle_set_device_flags OP_SET_DEVICE_FLAGS
  by unfold_locales (auto simp: handle_set_device_flags_def Let_def query_calls split: option.split intro!: ready_reply ready_call)

interpretation stream_copy_attributes: safe_handler handle_stream_copy_attributes OP_STREAM_COPY_ATTRIBUTES
  by unfold_locales (auto simp: handle_stream_copy_attributes_def Let_def query_calls split: option.split intro!: ready_reply ready_call)

interpretation stream_get_attribute: safe_handler handle_stream_get_attribute OP_STREAM_GET_ATTRIBUTE
  by unfold_locales (auto simp: handle_stream_get_attribute_def Let_def query_calls split: option.split intro!: ready_reply ready_call)

interpretation stream_set_attribute: safe_handler handle_stream_set_attribute OP_STREAM_SET_ATTRIBUTE
  by unfold_locales (auto simp: handle_stream_set_attribute_def Let_def query_calls split: option.split intro!: ready_reply ready_call)

interpretation function_set_attribute: safe_handler handle_function_set_attribute OP_FUNCTION_SET_ATTRIBUTE
  by unfold_locales (auto simp: handle_function_set_attribute_def Let_def query_calls split: option.split intro!: ready_reply ready_call)

interpretation function_set_cache_config: safe_handler handle_function_set_cache_config OP_FUNCTION_SET_CACHE_CONFIG
  by unfold_locales (auto simp: handle_function_set_cache_config_def Let_def query_calls split: option.split intro!: ready_reply ready_call)

interpretation function_set_shared_config: safe_handler handle_function_set_shared_config OP_FUNCTION_SET_SHARED_CONFIG
  by unfold_locales (auto simp: handle_function_set_shared_config_def Let_def query_calls split: option.split intro!: ready_reply ready_call)

lemma function_values_effect:
  assumes "function_values drv function attrs w1 = ((rc, vs), w2)" "ready n w w1"
  shows "ready n w w2 \<and> length vs \<le> length attrs \<and> (rc = CUDA_SUCCESS \<longrightarrow> length vs = length attrs)"
  using assms
proof (induction attrs arbitrary: w1 vs)
  case (Cons attr attrs)
  let ?c = "Module (B_function_attribute function attr)"
  have "ready n w (snd (invoke drv ?c w1))" using Cons.prems(2) by (intro ready_call) (simp_all add: call_in_bounds_def pin_call_def)
  then show ?case
    using Cons.prems(1) Cons.IH [of "snd (invoke drv ?c w1)"] by (auto simp: Let_def invoke_case split: if_splits prod.splits)
qed simp

lemma function_values_ready:
  assumes "session_inv n (sess w)" "function_values drv function attrs w = ((rc, vs), w2)"
  shows "ready n w w2" "length vs \<le> length attrs" "rc = CUDA_SUCCESS \<Longrightarrow> length vs = length attrs"
  using function_values_effect [OF assms(2) ready_refl [OF assms(1)]] by simp_all

lemma foldl_write_length: "length (foldl corex_protocol_write_u32 out vs) = length out + 4 * length vs"
  by (induction vs arbitrary: out) (simp_all add: wire_simps)

interpretation function_attributes: safe_handler handle_function_attributes OP_FUNCTION_ATTRIBUTES
  by unfold_locales
    (auto simp: handle_function_attributes_def Let_def foldl_write_length split: option.split prod.split intro!: ready_reply
      dest: function_values_ready simp del: function_values.simps)

interpretation function_info: safe_handler handle_function_info OP_FUNCTION_INFO
  by unfold_locales
    (auto simp: handle_function_info_def Let_def query_calls split: option.split prod.split intro!: ready_reply
      dest: function_values_ready simp del: function_values.simps)

interpretation occupancy: safe_handler handle_occupancy OP_OCCUPANCY
  by unfold_locales (auto simp: handle_occupancy_def Let_def query_calls split: option.split intro!: ready_reply ready_call)

interpretation occupancy_flags: safe_handler handle_occupancy_flags OP_OCCUPANCY_FLAGS
  by unfold_locales (auto simp: handle_occupancy_flags_def Let_def query_calls split: option.split intro!: ready_reply ready_call)

interpretation occupancy_potential: safe_handler handle_occupancy_potential OP_OCCUPANCY_POTENTIAL
  by unfold_locales (auto simp: handle_occupancy_potential_def Let_def query_calls split: option.split intro!: ready_reply ready_call)

lemma query_attrs_effect:
  assumes "query_attrs drv attrs w1 = (r, w2)" "ready n w w1"
  shows "ready n w w2 \<and> (\<forall>vs. r = Some vs \<longrightarrow> length vs = length attrs)"
  using assms
proof (induction attrs arbitrary: w1 r)
  case (Cons attr attrs)
  let ?c = "Device (B_device_attribute attr)"
  have "ready n w (snd (invoke drv ?c w1))" using Cons.prems(2) by (intro ready_call) (simp_all add: call_in_bounds_def pin_call_def)
  then show ?case
    using Cons.prems(1) Cons.IH [of "snd (invoke drv ?c w1)"]
    by (auto simp: g8c_query_attr_def Let_def invoke_case split: if_splits prod.splits option.splits)
qed simp

lemma device_info_length: "length name = 256 \<Longrightarrow> length (device_info_bytes d name t f v) = 428"
  by (simp add: device_info_bytes_def Let_def wire_simps)

interpretation get_device_info: safe_handler handle_get_device_info OP_GET_DEVICE_INFO
  by unfold_locales
    (auto simp: handle_get_device_info_def Let_def query_calls device_info_length split: option.split prod.split
      intro!: ready_reply ready_call dest!: query_attrs_effect)

section \<open>Properties\<close>

text \<open>A session whose checked tables are empty has no live kernel either: every kernel belongs to a live module.\<close>

lemma owns_nothing_kernels:
  assumes "session_inv n s" "owns_nothing s"
  shows "\<not> list_ex k_used (kernels s)"
  using assms by (auto simp: session_inv_def kernel_inv_def owns_nothing_def live_module_def list_ex_iff)

lemma reply_context [simp]: "g_ctx (snd (send_response drv op rid st pl w)) = g_ctx w"
  by (simp add: send_response_def send_all_def invoke_def Let_def)

text \<open>A window that is a range of a live allocation.\<close>

lemma stream_window_in_bounds:
  assumes "stream_attribute_value s 1 (allocation, off, bytes, hr, hp, mp, sp) = Some (Access_policy_window base num hr' hp' mp')" "allocation \<noteq> 0"
  obtains i where "find_allocation s allocation = Some i" "base = a_ptr (allocations s ! i) + off" "num = bytes"
    "unat off + unat bytes \<le> unat (a_size (allocations s ! i))" "hr' = hr" "hp' = hp" "mp' = mp"
  using assms word_range_ok_iff
  by (auto simp: stream_attribute_value_def Let_def not_less split: if_splits option.splits)

text \<open>The driver hands out disjoint ranges that do not wrap around.\<close>

definition apart :: "Allocation list \<Rightarrow> bool" where
  "apart t \<longleftrightarrow> (\<forall>i < length t. a_used (t ! i) \<longrightarrow> unat (a_ptr (t ! i)) + unat (a_size (t ! i)) < 2 ^ 64) \<and>
     (\<forall>i < length t. \<forall>j < length t. a_used (t ! i) \<longrightarrow> a_used (t ! j) \<longrightarrow> i \<noteq> j \<longrightarrow>
        unat (a_ptr (t ! i)) + unat (a_size (t ! i)) \<le> unat (a_ptr (t ! j)) \<or>
        unat (a_ptr (t ! j)) + unat (a_size (t ! j)) \<le> unat (a_ptr (t ! i)))"

text \<open>
  C33. An access-policy window survives the round trip through the driver: the pointer that
  \<open>handle_stream_set_attribute\<close> computes for a nonempty window is named by
  \<open>handle_stream_get_attribute\<close> with the same allocation and the same offset, provided the driver
  hands out disjoint ranges.
\<close>

theorem stream_window_roundtrip:
  assumes "stream_attribute_value s 1 (allocation, off, bytes, hr, hp, mp, sp) = Some (Access_policy_window base num hr' hp' mp')"
    "allocation \<noteq> 0" "bytes \<noteq> 0" "apart (allocations s)"
  shows "window_owner s base num = Some (allocation, off)"
proof -
  obtain i where i: "find_allocation s allocation = Some i" "base = a_ptr (allocations s ! i) + off" "num = bytes"
    "unat off + unat bytes \<le> unat (a_size (allocations s ! i))"
    using stream_window_in_bounds [OF assms(1,2)] by metis
  note f = find_allocation_Some [OF i(1)]
  have sum: "unat (a_ptr (allocations s ! i)) + unat (a_size (allocations s ! i)) < 2 ^ 64" using assms(4) f by (simp add: apart_def)
  have base: "unat base = unat (a_ptr (allocations s ! i)) + unat off" using sum i(2,4) by (simp add: unat_add_no_wrap)
  let ?P = "\<lambda>a. a_used a \<and> base \<ge> a_ptr a \<and> base - a_ptr a \<le> a_size a \<and> num \<le> a_size a - (base - a_ptr a)"
  have this_one: "?P (allocations s ! i)"
    using f i(2,3) base word_range_ok_iff [of "a_size (allocations s ! i)" off bytes] i(4) by (simp add: word_le_nat_alt not_less)
  have "\<not> ?P (allocations s ! j)" if "j < length (allocations s)" "j \<noteq> i" for j
  proof
    assume P: "?P (allocations s ! j)"
    then have "unat (base - a_ptr (allocations s ! j)) + unat bytes \<le> unat (a_size (allocations s ! j))"
      using i(3) by (intro word_range_ok) auto
    moreover have "unat base = unat (a_ptr (allocations s ! j)) + unat (base - a_ptr (allocations s ! j))"
      using P by (simp add: unat_sub_le word_le_nat_alt)
    moreover have "0 < unat bytes" using assms(3) by (simp add: unat_gt_0)
    moreover have "unat (a_ptr (allocations s ! i)) + unat (a_size (allocations s ! i)) \<le> unat (a_ptr (allocations s ! j)) \<or>
        unat (a_ptr (allocations s ! j)) + unat (a_size (allocations s ! j)) \<le> unat (a_ptr (allocations s ! i))"
      using assms(4) that f P unfolding apart_def by blast
    ultimately show False using base i(4) by linarith
  qed
  then have "List.find ?P (allocations s) = Some (allocations s ! i)"
    using this_one f by (auto simp: find_Some_iff intro!: exI [of _ i])
  then show ?thesis using f i(2) by (simp add: window_owner_def)
qed

theorem stream_window_roundtrip_witness:
  "stream_attribute_value (sess alloc_world) 1 (1, 8, 16, 0x3F800000, 1, 0, 0) = Some (Access_policy_window 4104 16 0x3F800000 1 0) \<and>
   window_owner (sess alloc_world) 4104 16 = Some (1, 8)"
proof -
  have v: "stream_attribute_value (sess alloc_world) 1 (1, 8, 16, 0x3F800000, 1, 0, 0) = Some (Access_policy_window 4104 16 0x3F800000 1 0)"
    by (simp add: stream_attribute_value_def unit_float_def Let_def del: alloc_world_simps(3)) (simp add: word_less_nat_alt)
  have "apart (allocations (sess alloc_world))"
    by (auto simp: apart_def nth_upd zero_allocation_def)
  from stream_window_roundtrip [OF v _ _ this] v show ?thesis by simp
qed

end
