(* ===== verification/Metadata.thy ===== *)
theory Metadata
  imports Session
begin

text \<open>
  The metadata parser of \<^verbatim>\<open>src/corex_metadata.c\<close>: it finds the \<open>.note\<close> section of a little-endian
  ELF64 image, the note of owner "Iluvatar" and type 10 in it, and decodes the MessagePack map of that
  note into a \<open>CorexModuleMeta\<close>. The image comes from the client, so the parser has to stand every
  byte string. A character array is modelled by the C string it holds; the text of an error message is
  not modelled.
\<close>

section \<open>Results\<close>

text \<open>A read outside the buffer (\<open>Undef\<close>), the return value -1 (\<open>Fail\<close>), or a result.\<close>

datatype 'a parse = Undef | Fail | Ok 'a

fun and_then :: "'a parse \<Rightarrow> ('a \<Rightarrow> 'b parse) \<Rightarrow> 'b parse" where
  "and_then Undef f = Undef"
| "and_then Fail f = Fail"
| "and_then (Ok x) f = f x"

definition require :: "bool \<Rightarrow> 'a parse \<Rightarrow> 'a parse" where
  "require c r = (if c then r else Fail)"

definition cstr :: "string \<Rightarrow> bytes" where
  "cstr s = map of_char s"

section \<open>Reading integers\<close>

definition rd8 :: "bytes \<Rightarrow> nat \<Rightarrow> u8 parse" where
  "rd8 p off = (if off < length p then Ok (p ! off) else Undef)"

definition read_le16 :: "bytes \<Rightarrow> nat \<Rightarrow> 16 word parse" where
  "read_le16 p off =
     (if off + 2 \<le> length p then Ok (ucast (p ! off) OR push_bit 8 (ucast (p ! (off + 1)))) else Undef)"

definition read_le32 :: "bytes \<Rightarrow> nat \<Rightarrow> u32 parse" where
  "read_le32 p off =
     (if off + 4 \<le> length p
      then Ok (ucast (p ! off) OR push_bit 8 (ucast (p ! (off + 1))) OR push_bit 16 (ucast (p ! (off + 2)))
               OR push_bit 24 (ucast (p ! (off + 3))))
      else Undef)"

definition read_le64 :: "bytes \<Rightarrow> nat \<Rightarrow> u64 parse" where
  "read_le64 p off =
     and_then (read_le32 p off) (\<lambda>lo. and_then (read_le32 p (off + 4)) (\<lambda>hi. Ok (ucast lo OR push_bit 32 (ucast hi))))"

definition read_be16 :: "bytes \<Rightarrow> nat \<Rightarrow> 16 word parse" where
  "read_be16 p off =
     (if off + 2 \<le> length p then Ok (push_bit 8 (ucast (p ! off)) OR ucast (p ! (off + 1))) else Undef)"

definition read_be32 :: "bytes \<Rightarrow> nat \<Rightarrow> u32 parse" where
  "read_be32 p off =
     (if off + 4 \<le> length p
      then Ok (push_bit 24 (ucast (p ! off)) OR push_bit 16 (ucast (p ! (off + 1))) OR push_bit 8 (ucast (p ! (off + 2)))
               OR ucast (p ! (off + 3)))
      else Undef)"

definition read_be64 :: "bytes \<Rightarrow> nat \<Rightarrow> u64 parse" where
  "read_be64 p off =
     and_then (read_be32 p off) (\<lambda>hi. and_then (read_be32 p (off + 4)) (\<lambda>lo. Ok (push_bit 32 (ucast hi) OR ucast lo)))"

definition align4 :: "nat \<Rightarrow> nat" where
  "align4 n = 4 * ((n + 3) div 4)"

section \<open>MessagePack\<close>

text \<open>The reader is the buffer with a position; a result carries the position after it.\<close>

definition mp_need :: "bytes \<Rightarrow> nat \<Rightarrow> nat \<Rightarrow> unit parse" where
  "mp_need data pos n = (if n > length data - pos then Fail else Ok ())"

definition mp_get_u8 :: "bytes \<Rightarrow> nat \<Rightarrow> (u8 \<times> nat) parse" where
  "mp_get_u8 data pos = and_then (mp_need data pos 1) (\<lambda>_. and_then (rd8 data pos) (\<lambda>c. Ok (c, pos + 1)))"

text \<open>A length field of 1, 2 or 4 bytes.\<close>

definition mp_len8 :: "bytes \<Rightarrow> nat \<Rightarrow> (u32 \<times> nat) parse" where
  "mp_len8 data pos = and_then (mp_get_u8 data pos) (\<lambda>(x, pos). Ok (ucast x, pos))"

definition mp_len16 :: "bytes \<Rightarrow> nat \<Rightarrow> (u32 \<times> nat) parse" where
  "mp_len16 data pos = and_then (mp_need data pos 2) (\<lambda>_. and_then (read_be16 data pos) (\<lambda>v. Ok (ucast v, pos + 2)))"

definition mp_len32 :: "bytes \<Rightarrow> nat \<Rightarrow> (u32 \<times> nat) parse" where
  "mp_len32 data pos = and_then (mp_need data pos 4) (\<lambda>_. and_then (read_be32 data pos) (\<lambda>v. Ok (v, pos + 4)))"

definition mp_read_map_len :: "bytes \<Rightarrow> nat \<Rightarrow> (u32 \<times> nat) parse" where
  "mp_read_map_len data pos =
     and_then (mp_get_u8 data pos) (\<lambda>(c, pos).
       if c \<ge> 0x80 \<and> c \<le> 0x8f then Ok (ucast (c AND 0x0f), pos)
       else if c = 0xde then mp_len16 data pos
       else if c = 0xdf then mp_len32 data pos
       else Fail)"

definition mp_read_array_len :: "bytes \<Rightarrow> nat \<Rightarrow> (u32 \<times> nat) parse" where
  "mp_read_array_len data pos =
     and_then (mp_get_u8 data pos) (\<lambda>(c, pos).
       if c \<ge> 0x90 \<and> c \<le> 0x9f then Ok (ucast (c AND 0x0f), pos)
       else if c = 0xdc then mp_len16 data pos
       else if c = 0xdd then mp_len32 data pos
       else Fail)"

text \<open>The length of a string, and the C string its copy leaves in an array of \<open>out_size\<close> characters.\<close>

definition mp_string_len :: "bytes \<Rightarrow> u8 \<Rightarrow> nat \<Rightarrow> (u32 \<times> nat) parse" where
  "mp_string_len data c pos =
     (if c \<ge> 0xa0 \<and> c \<le> 0xbf then Ok (ucast (c AND 0x1f), pos)
      else if c = 0xd9 then mp_len8 data pos
      else if c = 0xda then mp_len16 data pos
      else if c = 0xdb then mp_len32 data pos
      else Fail)"

definition mp_copy_string :: "bytes \<Rightarrow> nat \<Rightarrow> nat \<Rightarrow> nat \<Rightarrow> (bytes \<times> nat) parse" where
  "mp_copy_string data pos n out_size =
     and_then (mp_need data pos n) (\<lambda>_.
       let copy = (if n \<ge> out_size then out_size - 1 else n)
       in if pos + copy \<le> length data
          then Ok (takeWhile (\<lambda>b. b \<noteq> 0) (take copy (drop pos data)), pos + n)
          else Undef)"

definition mp_read_string :: "bytes \<Rightarrow> nat \<Rightarrow> nat \<Rightarrow> (bytes \<times> nat) parse" where
  "mp_read_string data pos out_size =
     (if out_size = 0 then Fail
      else and_then (mp_get_u8 data pos) (\<lambda>(c, pos).
           and_then (mp_string_len data c pos) (\<lambda>(n, pos). mp_copy_string data pos (unat n) out_size)))"

definition mp_read_uint64 :: "bytes \<Rightarrow> nat \<Rightarrow> (u64 \<times> nat) parse" where
  "mp_read_uint64 data pos =
     and_then (mp_get_u8 data pos) (\<lambda>(c, pos).
       if c \<le> 0x7f then Ok (ucast c, pos)
       else if c = 0xcc then and_then (mp_need data pos 1) (\<lambda>_. and_then (rd8 data pos) (\<lambda>v. Ok (ucast v, pos + 1)))
       else if c = 0xcd then and_then (mp_need data pos 2) (\<lambda>_. and_then (read_be16 data pos) (\<lambda>v. Ok (ucast v, pos + 2)))
       else if c = 0xce then and_then (mp_need data pos 4) (\<lambda>_. and_then (read_be32 data pos) (\<lambda>v. Ok (ucast v, pos + 4)))
       else if c = 0xcf then and_then (mp_need data pos 8) (\<lambda>_. and_then (read_be64 data pos) (\<lambda>v. Ok (v, pos + 8)))
       else if c = 0xd0 then and_then (mp_need data pos 1) (\<lambda>_. and_then (rd8 data pos) (\<lambda>v. require (sint v \<ge> 0) (Ok (ucast v, pos + 1))))
       else if c = 0xd1 then and_then (mp_need data pos 2) (\<lambda>_. and_then (read_be16 data pos) (\<lambda>v. require (sint v \<ge> 0) (Ok (ucast v, pos + 2))))
       else if c = 0xd2 then and_then (mp_need data pos 4) (\<lambda>_. and_then (read_be32 data pos) (\<lambda>v. require (sint v \<ge> 0) (Ok (ucast v, pos + 4))))
       else if c = 0xd3 then and_then (mp_need data pos 8) (\<lambda>_. and_then (read_be64 data pos) (\<lambda>v. require (sint v \<ge> 0) (Ok (v, pos + 8))))
       else Fail)"

text \<open>The bytes after a value header that holds no further values.\<close>

definition mp_advance :: "bytes \<Rightarrow> nat \<Rightarrow> nat \<Rightarrow> nat parse" where
  "mp_advance data pos n = and_then (mp_need data pos n) (\<lambda>_. Ok (pos + n))"

text \<open>
  Skipping a value of any type. \<open>fuel\<close> bounds the depth of the recursion; a value nests at most as deep
  as it has bytes, so one more than the length of the buffer is always enough, and running out counts
  as \<open>Undef\<close>.
\<close>

fun mp_skip :: "nat \<Rightarrow> bytes \<Rightarrow> nat \<Rightarrow> nat parse"
and mp_skip_n :: "nat \<Rightarrow> bytes \<Rightarrow> nat \<Rightarrow> nat \<Rightarrow> nat parse" where
  "mp_skip 0 data pos = Undef"
| "mp_skip (Suc fuel) data pos =
     and_then (mp_get_u8 data pos) (\<lambda>(c, pos).
       if c \<le> 0x7f \<or> c \<ge> 0xe0 \<or> c = 0xc0 \<or> c = 0xc2 \<or> c = 0xc3 then Ok pos
       else if c \<ge> 0xa0 \<and> c \<le> 0xbf then mp_advance data pos (unat (c AND 0x1f))
       else if c \<ge> 0x90 \<and> c \<le> 0x9f then mp_skip_n fuel data (unat (c AND 0x0f)) pos
       else if c \<ge> 0x80 \<and> c \<le> 0x8f then mp_skip_n fuel data (unat (2 * (ucast (c AND 0x0f) :: u32))) pos
       else if c = 0xc4 \<or> c = 0xd9 then and_then (mp_len8 data pos) (\<lambda>(n, pos). mp_advance data pos (unat n))
       else if c = 0xc5 \<or> c = 0xda then and_then (mp_len16 data pos) (\<lambda>(n, pos). mp_advance data pos (unat n))
       else if c = 0xc6 \<or> c = 0xdb then and_then (mp_len32 data pos) (\<lambda>(n, pos). mp_advance data pos (unat n))
       else if c = 0xca then mp_advance data pos 4
       else if c = 0xcb then mp_advance data pos 8
       else if c = 0xcc \<or> c = 0xd0 then mp_advance data pos 1
       else if c = 0xcd \<or> c = 0xd1 then mp_advance data pos 2
       else if c = 0xce \<or> c = 0xd2 then mp_advance data pos 4
       else if c = 0xcf \<or> c = 0xd3 then mp_advance data pos 8
       else if c = 0xdc then and_then (mp_len16 data pos) (\<lambda>(count, pos). mp_skip_n fuel data (unat count) pos)
       else if c = 0xdd then and_then (mp_len32 data pos) (\<lambda>(count, pos). mp_skip_n fuel data (unat count) pos)
       else if c = 0xde then and_then (mp_len16 data pos) (\<lambda>(count, pos). mp_skip_n fuel data (unat (2 * count)) pos)
       else if c = 0xdf then and_then (mp_len32 data pos) (\<lambda>(count, pos). mp_skip_n fuel data (unat (2 * count)) pos)
       else Fail)"
| "mp_skip_n fuel data 0 pos = Ok pos"
| "mp_skip_n fuel data (Suc count) pos = and_then (mp_skip fuel data pos) (\<lambda>pos. mp_skip_n fuel data count pos)"

definition skip_value :: "bytes \<Rightarrow> nat \<Rightarrow> nat parse" where
  "skip_value data pos = mp_skip (length data + 1) data pos"

section \<open>The metadata map\<close>

definition parse_arg_kind :: "bytes \<Rightarrow> CorexMetaArgKind" where
  "parse_arg_kind value_kind =
     (if value_kind = cstr ''global_buffer'' then COREX_META_ARG_GLOBAL_BUFFER
      else if value_kind = cstr ''by_value'' then COREX_META_ARG_BY_VALUE
      else COREX_META_ARG_UNKNOWN)"

text \<open>One field of an argument, and the loop over the fields.\<close>

definition parse_arg_field :: "bytes \<Rightarrow> bytes \<Rightarrow> CorexArgMeta \<Rightarrow> nat \<Rightarrow> (CorexArgMeta \<times> nat) parse" where
  "parse_arg_field data key arg pos =
     (if key = cstr ''.name''
      then and_then (mp_read_string data pos 64) (\<lambda>(s, pos). Ok (arg\<lparr>ar_name := s\<rparr>, pos))
      else if key = cstr ''.offset''
      then and_then (mp_read_uint64 data pos) (\<lambda>(v, pos). require (v \<le> UINT32_MAX64) (Ok (arg\<lparr>ar_offset := ucast v\<rparr>, pos)))
      else if key = cstr ''.size''
      then and_then (mp_read_uint64 data pos) (\<lambda>(v, pos). require (v \<le> UINT32_MAX64) (Ok (arg\<lparr>ar_size := ucast v\<rparr>, pos)))
      else if key = cstr ''.value_kind''
      then and_then (mp_read_string data pos 32) (\<lambda>(s, pos). Ok (arg\<lparr>ar_value_kind := s, ar_kind := parse_arg_kind s\<rparr>, pos))
      else if key = cstr ''.address_space''
      then and_then (mp_read_string data pos 32) (\<lambda>(s, pos). Ok (arg\<lparr>ar_address_space := s\<rparr>, pos))
      else and_then (skip_value data pos) (\<lambda>pos. Ok (arg, pos)))"

fun parse_arg_fields :: "bytes \<Rightarrow> nat \<Rightarrow> CorexArgMeta \<Rightarrow> nat \<Rightarrow> (CorexArgMeta \<times> nat) parse" where
  "parse_arg_fields data 0 arg pos = Ok (arg, pos)"
| "parse_arg_fields data (Suc n) arg pos =
     and_then (mp_read_string data pos 64) (\<lambda>(key, pos).
     and_then (parse_arg_field data key arg pos) (\<lambda>(arg, pos). parse_arg_fields data n arg pos))"

definition parse_arg :: "bytes \<Rightarrow> nat \<Rightarrow> (CorexArgMeta \<times> nat) parse" where
  "parse_arg data pos =
     and_then (mp_read_map_len data pos) (\<lambda>(n, pos). parse_arg_fields data (unat n) zero_arg_meta pos)"

fun parse_args :: "bytes \<Rightarrow> nat list \<Rightarrow> CorexKernelMeta \<Rightarrow> nat \<Rightarrow> (CorexKernelMeta \<times> nat) parse" where
  "parse_args data [] km pos = Ok (km, pos)"
| "parse_args data (j # js) km pos =
     and_then (parse_arg data pos) (\<lambda>(arg, pos).
       if j < length (km_args km) then parse_args data js (km\<lparr>km_args := (km_args km)[j := arg]\<rparr>) pos
       else Undef)"

definition parse_kernel_field :: "bytes \<Rightarrow> bytes \<Rightarrow> CorexKernelMeta \<Rightarrow> nat \<Rightarrow> (CorexKernelMeta \<times> nat) parse" where
  "parse_kernel_field data key km pos =
     (if key = cstr ''.name''
      then and_then (mp_read_string data pos 128) (\<lambda>(s, pos). Ok (km\<lparr>km_name := s\<rparr>, pos))
      else if key = cstr ''.symbol''
      then and_then (mp_read_string data pos 128) (\<lambda>(s, pos). Ok (km\<lparr>km_symbol := s\<rparr>, pos))
      else if key = cstr ''.kernarg_segment_align''
      then and_then (mp_read_uint64 data pos) (\<lambda>(v, pos). Ok (km\<lparr>km_kernarg_segment_align := ucast v\<rparr>, pos))
      else if key = cstr ''.kernarg_segment_size''
      then and_then (mp_read_uint64 data pos) (\<lambda>(v, pos). Ok (km\<lparr>km_kernarg_segment_size := ucast v\<rparr>, pos))
      else if key = cstr ''.warp_size''
      then and_then (mp_read_uint64 data pos) (\<lambda>(v, pos). Ok (km\<lparr>km_warp_size := ucast v\<rparr>, pos))
      else if key = cstr ''.args''
      then and_then (mp_read_array_len data pos) (\<lambda>(count, pos).
             if unat count > COREX_META_MAX_ARGS then Fail
             else parse_args data [0..<unat count] (km\<lparr>km_argc := count\<rparr>) pos)
      else and_then (skip_value data pos) (\<lambda>pos. Ok (km, pos)))"

fun parse_kernel_fields :: "bytes \<Rightarrow> nat \<Rightarrow> CorexKernelMeta \<Rightarrow> nat \<Rightarrow> (CorexKernelMeta \<times> nat) parse" where
  "parse_kernel_fields data 0 km pos = Ok (km, pos)"
| "parse_kernel_fields data (Suc n) km pos =
     and_then (mp_read_string data pos 96) (\<lambda>(key, pos).
     and_then (parse_kernel_field data key km pos) (\<lambda>(km, pos). parse_kernel_fields data n km pos))"

definition parse_kernel :: "bytes \<Rightarrow> nat \<Rightarrow> (CorexKernelMeta \<times> nat) parse" where
  "parse_kernel data pos =
     and_then (mp_read_map_len data pos) (\<lambda>(n, pos). parse_kernel_fields data (unat n) zero_kernel_meta pos)"

fun parse_kernels :: "bytes \<Rightarrow> nat list \<Rightarrow> CorexModuleMeta \<Rightarrow> nat \<Rightarrow> (CorexModuleMeta \<times> nat) parse" where
  "parse_kernels data [] out pos = Ok (out, pos)"
| "parse_kernels data (j # js) out pos =
     and_then (parse_kernel data pos) (\<lambda>(k, pos).
       if j < length (mm_kernels out) then parse_kernels data js (out\<lparr>mm_kernels := (mm_kernels out)[j := k]\<rparr>) pos
       else Undef)"

fun parse_version :: "bytes \<Rightarrow> nat \<Rightarrow> nat \<Rightarrow> CorexModuleMeta \<Rightarrow> nat \<Rightarrow> (CorexModuleMeta \<times> nat) parse" where
  "parse_version data 0 j out pos = Ok (out, pos)"
| "parse_version data (Suc n) j out pos =
     and_then (mp_read_uint64 data pos) (\<lambda>(v, pos).
       parse_version data n (j + 1)
         (if j = 0 then out\<lparr>mm_version_major := ucast v\<rparr>
          else if j = 1 then out\<lparr>mm_version_minor := ucast v\<rparr> else out) pos)"

definition parse_root_field :: "bytes \<Rightarrow> bytes \<Rightarrow> CorexModuleMeta \<Rightarrow> nat \<Rightarrow> (CorexModuleMeta \<times> nat) parse" where
  "parse_root_field data key out pos =
     (if key = cstr ''iluvatar.kernels''
      then and_then (mp_read_array_len data pos) (\<lambda>(count, pos).
             if unat count > COREX_META_MAX_KERNELS then Fail
             else parse_kernels data [0..<unat count] (out\<lparr>mm_kernel_count := count\<rparr>) pos)
      else if key = cstr ''iluvatar.version''
      then and_then (mp_read_array_len data pos) (\<lambda>(count, pos). parse_version data (unat count) 0 out pos)
      else and_then (skip_value data pos) (\<lambda>pos. Ok (out, pos)))"

fun parse_root_fields :: "bytes \<Rightarrow> nat \<Rightarrow> CorexModuleMeta \<Rightarrow> nat \<Rightarrow> (CorexModuleMeta \<times> nat) parse" where
  "parse_root_fields data 0 out pos = Ok (out, pos)"
| "parse_root_fields data (Suc n) out pos =
     and_then (mp_read_string data pos 96) (\<lambda>(key, pos).
     and_then (parse_root_field data key out pos) (\<lambda>(out, pos). parse_root_fields data n out pos))"

definition parse_root_metadata :: "bytes \<Rightarrow> CorexModuleMeta \<Rightarrow> CorexModuleMeta parse" where
  "parse_root_metadata data out =
     and_then (mp_read_map_len data 0) (\<lambda>(n, pos).
     and_then (parse_root_fields data (unat n) out pos) (\<lambda>(out, pos). require (pos = length data) (Ok out)))"

section \<open>The ELF container\<close>

text \<open>The range check over the naturals: no operand exceeds 64 bits and \<open>size_all\<close> is a \<open>size_t\<close>.\<close>

definition safe_range :: "nat \<Rightarrow> u64 \<Rightarrow> u64 \<Rightarrow> bool" where
  "safe_range size_all off size64 \<longleftrightarrow> unat off \<le> size_all \<and> unat size64 \<le> size_all - unat off"

definition get_section :: "bytes \<Rightarrow> u64 \<Rightarrow> 16 word \<Rightarrow> 16 word \<Rightarrow> (u32 \<times> u64 \<times> u64) parse" where
  "get_section img shoff shentsize index =
     (let off = shoff + ucast index * ucast shentsize
      in require (safe_range (length img) off (ucast shentsize))
           (and_then (read_le32 img (unat off)) (\<lambda>name_offset.
            and_then (read_le64 img (unat off + 24)) (\<lambda>section_offset.
            and_then (read_le64 img (unat off + 32)) (\<lambda>section_size.
              require (safe_range (length img) section_offset section_size)
                (Ok (name_offset, section_offset, section_size)))))))"

text \<open>\<open>memcmp\<close> with the wanted name and its terminator, inside the name table.\<close>

definition section_name_equals :: "bytes \<Rightarrow> u32 \<Rightarrow> bytes \<Rightarrow> bool" where
  "section_name_equals names name_offset wanted \<longleftrightarrow>
     unat name_offset < length names \<and> length wanted + 1 \<le> length names - unat name_offset \<and>
     take (length wanted + 1) (drop (unat name_offset) names) = wanted @ [0]"

fun find_note :: "bytes \<Rightarrow> u64 \<Rightarrow> 16 word \<Rightarrow> bytes \<Rightarrow> nat list \<Rightarrow> (u64 \<times> u64) parse" where
  "find_note img shoff shentsize names [] = Fail"
| "find_note img shoff shentsize names (i # is) =
     and_then (get_section img shoff shentsize (of_nat i)) (\<lambda>(name_offset, sec_offset, sec_size).
       if section_name_equals names name_offset (cstr ''.note'') then Ok (sec_offset, sec_size)
       else find_note img shoff shentsize names is)"

text \<open>The notes one after the other, from \<open>pos\<close>: the payload of the first that is ours.\<close>

function find_metadata_note :: "bytes \<Rightarrow> nat \<Rightarrow> bytes parse" where
  "find_metadata_note notes pos =
     (if pos + 12 \<le> length notes
      then and_then (read_le32 notes pos) (\<lambda>namesz.
           and_then (read_le32 notes (pos + 4)) (\<lambda>descsz.
           and_then (read_le32 notes (pos + 8)) (\<lambda>type.
             let name_pos = pos + 12; name_padded = align4 (unat namesz); desc_padded = align4 (unat descsz)
             in if name_padded > length notes - name_pos then Fail
                else let desc_pos = name_pos + name_padded
                     in if desc_padded > length notes - desc_pos then Fail
                        else if unat namesz \<ge> 8 \<and> name_pos + 8 > length notes then Undef
                        else if unat namesz \<ge> 8 \<and> take 8 (drop name_pos notes) = cstr ''Iluvatar'' \<and> type = 0x0a
                        then (if desc_pos + unat descsz \<le> length notes then Ok (take (unat descsz) (drop desc_pos notes)) else Undef)
                        else find_metadata_note notes (desc_pos + desc_padded))))
      else Fail)"
  by pat_completeness auto

termination find_metadata_note
  by (relation "measure (\<lambda>(notes, pos). length notes - pos)") auto

declare find_metadata_note.simps [simp del]

definition corex_parse_metadata :: "bytes \<Rightarrow> CorexModuleMeta parse" where
  "corex_parse_metadata img =
     (if length img < 64 then Fail
      else if take 4 img \<noteq> [0x7f, 0x45, 0x4c, 0x46] \<or> img ! 4 \<noteq> 2 \<or> img ! 5 \<noteq> 1 then Fail
      else and_then (read_le64 img 0x28) (\<lambda>shoff.
           and_then (read_le16 img 0x3a) (\<lambda>shentsize.
           and_then (read_le16 img 0x3c) (\<lambda>shnum.
           and_then (read_le16 img 0x3e) (\<lambda>shstrndx.
             if shentsize < 64 \<or> shnum = 0 \<or> shstrndx \<ge> shnum then Fail
             else if \<not> safe_range (length img) shoff (ucast shentsize * ucast shnum) then Fail
             else and_then (get_section img shoff shentsize shstrndx) (\<lambda>(_, shstr_offset, shstr_size).
                  let names = take (unat shstr_size) (drop (unat shstr_offset) img)
                  in and_then (find_note img shoff shentsize names [0..<unat shnum]) (\<lambda>(note_offset, note_size).
                     let notes = take (unat note_size) (drop (unat note_offset) img)
                     in and_then (find_metadata_note notes 0) (\<lambda>desc.
                        and_then (parse_root_metadata desc zero_module_meta) (\<lambda>out.
                          require (mm_kernel_count out \<noteq> 0) (Ok out))))))))))"

definition corex_find_kernel_meta :: "CorexModuleMeta \<Rightarrow> bytes \<Rightarrow> CorexKernelMeta option" where
  "corex_find_kernel_meta mm kernel_name =
     List.find (\<lambda>k. km_name k = kernel_name) (take (unat (mm_kernel_count mm)) (mm_kernels mm))"

definition corex_meta_arg_kind_name :: "CorexMetaArgKind \<Rightarrow> bytes" where
  "corex_meta_arg_kind_name kind =
     (case kind of
        COREX_META_ARG_GLOBAL_BUFFER \<Rightarrow> cstr ''global_buffer''
      | COREX_META_ARG_BY_VALUE \<Rightarrow> cstr ''by_value''
      | COREX_META_ARG_UNKNOWN \<Rightarrow> cstr ''unknown'')"

end
