(* ===== verification/Metadata_Safety.thy ===== *)
theory Metadata_Safety
  imports Metadata
begin

text \<open>
  The parser stands every input: it never reads outside the image or writes outside its arrays, it
  terminates, and what it accepts is well formed. \<open>post\<close> is the weakest precondition of a parser step;
  the lemmas below follow the parser bottom-up.
\<close>

section \<open>Postconditions\<close>

definition post :: "'a parse \<Rightarrow> ('a \<Rightarrow> bool) \<Rightarrow> bool" where
  "post r Q = (case r of Undef \<Rightarrow> False | Fail \<Rightarrow> True | Ok x \<Rightarrow> Q x)"

named_theorems parse_post \<open>what the readers guarantee\<close>

lemma post_simps [simp]:
  "post (Ok x) Q = Q x" "post Fail Q = True" "post Undef Q = False"
  "post (and_then r f) Q = post r (\<lambda>x. post (f x) Q)"
  "post (require c r') Q = (c \<longrightarrow> post r' Q)"
  by (simp_all add: post_def require_def) (cases r; simp)

lemma post_mono: "post r P \<Longrightarrow> (\<And>x. P x \<Longrightarrow> Q x) \<Longrightarrow> post r Q"
  by (cases r) (auto simp: post_def)

lemma post_need [simp]: "post (mp_need data pos n) Q = (n \<le> length data - pos \<longrightarrow> Q ())"
  by (simp add: mp_need_def)

text \<open>The reads, given room.\<close>

lemma post_reads:
  "off < length p \<Longrightarrow> (\<And>v. Q1 v) \<Longrightarrow> post (rd8 p off) Q1"
  "off + 2 \<le> length p \<Longrightarrow> (\<And>v. Q2 v) \<Longrightarrow> post (read_le16 p off) Q2"
  "off + 4 \<le> length p \<Longrightarrow> (\<And>v. Q3 v) \<Longrightarrow> post (read_le32 p off) Q3"
  "off + 8 \<le> length p \<Longrightarrow> (\<And>v. Q4 v) \<Longrightarrow> post (read_le64 p off) Q4"
  "off + 2 \<le> length p \<Longrightarrow> (\<And>v. Q2 v) \<Longrightarrow> post (read_be16 p off) Q2"
  "off + 4 \<le> length p \<Longrightarrow> (\<And>v. Q3 v) \<Longrightarrow> post (read_be32 p off) Q3"
  "off + 8 \<le> length p \<Longrightarrow> (\<And>v. Q4 v) \<Longrightarrow> post (read_be64 p off) Q4"
  by (simp_all add: rd8_def read_le16_def read_le32_def read_le64_def read_be16_def read_be32_def read_be64_def)

lemma post_get_u8:
  "pos \<le> length data \<Longrightarrow> (\<And>c. pos + 1 \<le> length data \<Longrightarrow> Q (c, pos + 1)) \<Longrightarrow> post (mp_get_u8 data pos) Q"
  by (auto simp: mp_get_u8_def intro!: post_reads)

lemma post_lens:
  "pos \<le> length data \<Longrightarrow> (\<And>n. pos + 1 \<le> length data \<Longrightarrow> Q (n, pos + 1)) \<Longrightarrow> post (mp_len8 data pos) Q"
  "pos \<le> length data \<Longrightarrow> (\<And>n. pos + 2 \<le> length data \<Longrightarrow> Q (n, pos + 2)) \<Longrightarrow> post (mp_len16 data pos) Q"
  "pos \<le> length data \<Longrightarrow> (\<And>n. pos + 4 \<le> length data \<Longrightarrow> Q (n, pos + 4)) \<Longrightarrow> post (mp_len32 data pos) Q"
  by (auto simp: mp_len8_def mp_len16_def mp_len32_def intro!: post_reads post_get_u8)

text \<open>A result that moved forward and stayed inside the buffer.\<close>

abbreviation forward :: "bytes \<Rightarrow> nat \<Rightarrow> nat \<Rightarrow> bool" where
  "forward data pos pos' \<equiv> pos < pos' \<and> pos' \<le> length data"

lemma post_container_len:
  assumes "pos \<le> length data"
  shows "post (mp_read_map_len data pos) (\<lambda>(n, pos'). forward data pos pos')"
    "post (mp_read_array_len data pos) (\<lambda>(n, pos'). forward data pos pos')"
  using assms by (auto simp: mp_read_map_len_def mp_read_array_len_def intro!: post_get_u8 post_lens)

lemma post_string_len:
  "pos \<le> length data \<Longrightarrow> post (mp_string_len data c pos) (\<lambda>(n, pos'). pos \<le> pos' \<and> pos' \<le> length data)"
  by (auto simp: mp_string_len_def intro!: post_lens)

lemma takeWhile_string: "m < k \<Longrightarrow> length (takeWhile (\<lambda>b. b \<noteq> 0) (take m xs)) < k"
  using length_takeWhile_le [of "\<lambda>b. b \<noteq> 0" "take m xs"] by simp

lemma post_copy_string:
  assumes "pos \<le> length data" "0 < k"
  shows "post (mp_copy_string data pos n k) (\<lambda>(s, pos'). pos \<le> pos' \<and> pos' \<le> length data \<and> length s < k \<and> 0 \<notin> set s)"
proof -
  have "pos + (if n \<ge> k then k - 1 else n) \<le> length data" "pos + n \<le> length data" if "n \<le> length data - pos"
    using assms that by auto
  then show ?thesis
    using assms(2) by (auto simp: mp_copy_string_def Let_def takeWhile_string dest: set_takeWhileD)
qed

lemma post_string:
  assumes "pos \<le> length data" "0 < k"
  shows "post (mp_read_string data pos k) (\<lambda>(s, pos'). forward data pos pos' \<and> length s < k \<and> 0 \<notin> set s)"
proof -
  have "post (and_then (mp_string_len data c p) (\<lambda>(n, p). mp_copy_string data p (unat n) k))
      (\<lambda>(s, pos'). forward data pos pos' \<and> length s < k \<and> 0 \<notin> set s)" if "p = pos + 1" "p \<le> length data" for c p
    unfolding post_simps(4)
    by (rule post_mono [OF post_string_len [OF that(2)]], clarify, rule post_mono [OF post_copy_string]) (use assms(2) that(1) in auto)
  then show ?thesis using assms(2) by (simp add: mp_read_string_def, intro post_get_u8 [OF assms(1)]) simp
qed

lemma post_uint64:
  assumes "pos \<le> length data"
  shows "post (mp_read_uint64 data pos) (\<lambda>(v, pos'). forward data pos pos')"
  using assms unfolding mp_read_uint64_def by (simp, intro post_get_u8) (auto intro!: post_reads)

lemma post_advance: "pos \<le> length data \<Longrightarrow> post (mp_advance data pos n) (\<lambda>pos'. pos \<le> pos' \<and> pos' \<le> length data)"
  by (auto simp: mp_advance_def)


section \<open>Skipping\<close>

lemma post_ifI: "(c \<Longrightarrow> post a Q) \<Longrightarrow> (\<not> c \<Longrightarrow> post b Q) \<Longrightarrow> post (if c then a else b) Q"
  by simp

lemma post_skip_n:
  assumes "\<And>pos. pos \<le> length data \<Longrightarrow> length data - pos < fuel \<Longrightarrow> post (mp_skip fuel data pos) (\<lambda>pos'. forward data pos pos')"
    "pos \<le> length data" "length data - pos < fuel"
  shows "post (mp_skip_n fuel data count pos) (\<lambda>pos'. pos \<le> pos' \<and> pos' \<le> length data)"
  using assms(2,3)
proof (induction count arbitrary: pos)
  case (Suc count)
  have "post (mp_skip_n fuel data count p) (\<lambda>pos'. pos \<le> pos' \<and> pos' \<le> length data)" if "forward data pos p" for p
    by (rule post_mono [OF Suc.IH]) (use that Suc.prems in auto)
  then show ?case using post_mono [OF assms(1) [OF Suc.prems]] by simp
qed simp

lemma post_skip:
  "pos \<le> length data \<Longrightarrow> length data - pos < fuel \<Longrightarrow> post (mp_skip fuel data pos) (\<lambda>pos'. forward data pos pos')"
proof (induction fuel arbitrary: pos)
  case (Suc fuel)
  have adv: "post (mp_advance data p n) (\<lambda>pos'. forward data pos pos')" if "pos < p" "p \<le> length data" for p n
    by (rule post_mono [OF post_advance]) (use that in auto)
  have rec: "post (mp_skip_n fuel data n p) (\<lambda>pos'. forward data pos pos')" if "pos < p" "p \<le> length data" for n p
    by (rule post_mono [OF post_skip_n [OF Suc.IH]]) (use that Suc.prems in auto)
  show ?case
    unfolding mp_skip.simps post_simps(4)
    by (rule post_get_u8 [OF Suc.prems(1)], unfold prod.case, intro post_ifI, simp_all only: post_simps(4))
      (auto intro!: adv rec post_lens)
qed simp

lemma post_skip_value: "pos \<le> length data \<Longrightarrow> post (skip_value data pos) (\<lambda>pos'. forward data pos pos')"
  unfolding skip_value_def by (rule post_skip) simp_all


section \<open>Well-formed metadata\<close>

definition arg_meta_wf :: "CorexArgMeta \<Rightarrow> bool" where
  "arg_meta_wf a \<longleftrightarrow> length (ar_name a) < 64 \<and> 0 \<notin> set (ar_name a) \<and> length (ar_value_kind a) < 32 \<and> 0 \<notin> set (ar_value_kind a) \<and>
     length (ar_address_space a) < 32 \<and> 0 \<notin> set (ar_address_space a) \<and> ar_kind a = parse_arg_kind (ar_value_kind a)"

definition kernel_meta_wf :: "CorexKernelMeta \<Rightarrow> bool" where
  "kernel_meta_wf k \<longleftrightarrow> length (km_name k) < 128 \<and> 0 \<notin> set (km_name k) \<and> length (km_symbol k) < 128 \<and> 0 \<notin> set (km_symbol k) \<and>
     unat (km_argc k) \<le> COREX_META_MAX_ARGS \<and> length (km_args k) = COREX_META_MAX_ARGS \<and> (\<forall>a \<in> set (km_args k). arg_meta_wf a)"

definition module_meta_wf :: "CorexModuleMeta \<Rightarrow> bool" where
  "module_meta_wf m \<longleftrightarrow> unat (mm_kernel_count m) \<le> COREX_META_MAX_KERNELS \<and> length (mm_kernels m) = COREX_META_MAX_KERNELS \<and>
     (\<forall>k \<in> set (mm_kernels m). kernel_meta_wf k)"

lemma module_meta_wf_ok: "module_meta_wf m \<Longrightarrow> module_meta_ok m"
  by (auto simp: module_meta_wf_def module_meta_ok_def kernel_meta_wf_def kernel_meta_ok_def)

lemma zero_meta_wf: "arg_meta_wf zero_arg_meta" "kernel_meta_wf zero_kernel_meta" "module_meta_wf zero_module_meta"
  by (auto simp: arg_meta_wf_def kernel_meta_wf_def module_meta_wf_def zero_arg_meta_def zero_kernel_meta_def zero_module_meta_def
      parse_arg_kind_def cstr_def)

section \<open>The metadata map\<close>

text \<open>The readers as introduction rules, so that a proof follows the text of the parser.\<close>

lemma post_stringI:
  "pos \<le> length data \<Longrightarrow> 0 < k \<Longrightarrow> (\<And>s p. forward data pos p \<Longrightarrow> length s < k \<Longrightarrow> 0 \<notin> set s \<Longrightarrow> Q (s, p)) \<Longrightarrow>
   post (mp_read_string data pos k) Q"
  by (rule post_mono [OF post_string]) auto

lemma post_uint64I: "pos \<le> length data \<Longrightarrow> (\<And>v p. forward data pos p \<Longrightarrow> Q (v, p)) \<Longrightarrow> post (mp_read_uint64 data pos) Q"
  by (rule post_mono [OF post_uint64]) auto

lemma post_skipI: "pos \<le> length data \<Longrightarrow> (\<And>p. forward data pos p \<Longrightarrow> Q p) \<Longrightarrow> post (skip_value data pos) Q"
  by (rule post_mono [OF post_skip_value]) auto

lemma post_lenI:
  "pos \<le> length data \<Longrightarrow> (\<And>n p. forward data pos p \<Longrightarrow> Q (n, p)) \<Longrightarrow> post (mp_read_map_len data pos) Q"
  "pos \<le> length data \<Longrightarrow> (\<And>n p. forward data pos p \<Longrightarrow> Q (n, p)) \<Longrightarrow> post (mp_read_array_len data pos) Q"
  by (rule post_mono [OF post_container_len(1)] post_mono [OF post_container_len(2)]; auto)+

lemma post_arg_fieldI:
  assumes "arg_meta_wf arg" "pos \<le> length data" "\<And>a p. arg_meta_wf a \<Longrightarrow> forward data pos p \<Longrightarrow> Q (a, p)"
  shows "post (parse_arg_field data key arg pos) Q"
  unfolding parse_arg_field_def
  by (intro post_ifI; simp; intro post_stringI post_uint64I post_skipI assms(2))
    (use assms(1) in \<open>auto simp: arg_meta_wf_def intro!: assms(3)\<close>)

lemma post_arg_fieldsI:
  "arg_meta_wf arg \<Longrightarrow> pos \<le> length data \<Longrightarrow> (\<And>a p. arg_meta_wf a \<Longrightarrow> pos \<le> p \<Longrightarrow> p \<le> length data \<Longrightarrow> Q (a, p)) \<Longrightarrow>
   post (parse_arg_fields data n arg pos) Q"
  by (induction n arbitrary: arg pos) (auto intro!: post_stringI post_arg_fieldI)

lemma post_argI:
  "pos \<le> length data \<Longrightarrow> (\<And>a p. arg_meta_wf a \<Longrightarrow> forward data pos p \<Longrightarrow> Q (a, p)) \<Longrightarrow> post (parse_arg data pos) Q"
  by (auto simp: parse_arg_def intro!: post_lenI post_arg_fieldsI zero_meta_wf)

lemma kernel_meta_wf_arg: "kernel_meta_wf km \<Longrightarrow> arg_meta_wf a \<Longrightarrow> kernel_meta_wf (km\<lparr>km_args := (km_args km)[j := a]\<rparr>)"
  using set_update_subset_insert [of "km_args km" j a] by (auto simp: kernel_meta_wf_def)

lemma post_argsI:
  "kernel_meta_wf km \<Longrightarrow> pos \<le> length data \<Longrightarrow> \<forall>j \<in> set js. j < COREX_META_MAX_ARGS \<Longrightarrow>
   (\<And>k p. kernel_meta_wf k \<Longrightarrow> pos \<le> p \<Longrightarrow> p \<le> length data \<Longrightarrow> Q (k, p)) \<Longrightarrow> post (parse_args data js km pos) Q"
proof (induction js arbitrary: km pos)
  case (Cons j js)
  have "length (km_args km) = COREX_META_MAX_ARGS" using Cons.prems(1) by (simp add: kernel_meta_wf_def)
  then show ?case using Cons.prems by (auto intro!: post_argI Cons.IH kernel_meta_wf_arg)
qed simp

lemma post_kernel_fieldI:
  assumes "kernel_meta_wf km" "pos \<le> length data" "\<And>k p. kernel_meta_wf k \<Longrightarrow> forward data pos p \<Longrightarrow> Q (k, p)"
  shows "post (parse_kernel_field data key km pos) Q"
proof -
  have "kernel_meta_wf (km\<lparr>km_argc := n\<rparr>)" if "\<not> unat n > COREX_META_MAX_ARGS" for n
    using assms(1) that by (simp add: kernel_meta_wf_def)
  then show ?thesis
    unfolding parse_kernel_field_def
    by (intro post_ifI; simp; intro post_stringI post_uint64I post_skipI post_lenI assms(2))
      (use assms(1) in \<open>auto simp: kernel_meta_wf_def intro!: assms(3) post_argsI\<close>)
qed

lemma post_kernel_fieldsI:
  "kernel_meta_wf km \<Longrightarrow> pos \<le> length data \<Longrightarrow> (\<And>k p. kernel_meta_wf k \<Longrightarrow> pos \<le> p \<Longrightarrow> p \<le> length data \<Longrightarrow> Q (k, p)) \<Longrightarrow>
   post (parse_kernel_fields data n km pos) Q"
  by (induction n arbitrary: km pos) (auto intro!: post_stringI post_kernel_fieldI)

lemma post_kernelI:
  "pos \<le> length data \<Longrightarrow> (\<And>k p. kernel_meta_wf k \<Longrightarrow> forward data pos p \<Longrightarrow> Q (k, p)) \<Longrightarrow> post (parse_kernel data pos) Q"
  by (auto simp: parse_kernel_def intro!: post_lenI post_kernel_fieldsI zero_meta_wf)

lemma module_meta_wf_kernel: "module_meta_wf m \<Longrightarrow> kernel_meta_wf k \<Longrightarrow> module_meta_wf (m\<lparr>mm_kernels := (mm_kernels m)[j := k]\<rparr>)"
  using set_update_subset_insert [of "mm_kernels m" j k] by (auto simp: module_meta_wf_def)

lemma post_kernelsI:
  "module_meta_wf m \<Longrightarrow> pos \<le> length data \<Longrightarrow> \<forall>j \<in> set js. j < COREX_META_MAX_KERNELS \<Longrightarrow>
   (\<And>m p. module_meta_wf m \<Longrightarrow> pos \<le> p \<Longrightarrow> p \<le> length data \<Longrightarrow> Q (m, p)) \<Longrightarrow> post (parse_kernels data js m pos) Q"
proof (induction js arbitrary: m pos)
  case (Cons j js)
  have "length (mm_kernels m) = COREX_META_MAX_KERNELS" using Cons.prems(1) by (simp add: module_meta_wf_def)
  then show ?case using Cons.prems by (auto intro!: post_kernelI Cons.IH module_meta_wf_kernel)
qed simp

lemma post_versionI:
  "module_meta_wf m \<Longrightarrow> pos \<le> length data \<Longrightarrow> (\<And>m p. module_meta_wf m \<Longrightarrow> pos \<le> p \<Longrightarrow> p \<le> length data \<Longrightarrow> Q (m, p)) \<Longrightarrow>
   post (parse_version data n j m pos) Q"
proof (induction n arbitrary: j m pos)
  case (Suc n)
  have "module_meta_wf (if j = 0 then m\<lparr>mm_version_major := ucast v\<rparr> else if j = 1 then m\<lparr>mm_version_minor := ucast v\<rparr> else m)"
    for v :: u64 using Suc.prems(1) by (simp add: module_meta_wf_def)
  then show ?case using Suc.prems by (auto intro!: post_uint64I Suc.IH)
qed simp

lemma post_root_fieldI:
  assumes "module_meta_wf m" "pos \<le> length data" "\<And>m p. module_meta_wf m \<Longrightarrow> forward data pos p \<Longrightarrow> Q (m, p)"
  shows "post (parse_root_field data key m pos) Q"
proof -
  have "module_meta_wf (m\<lparr>mm_kernel_count := n\<rparr>)" if "\<not> unat n > COREX_META_MAX_KERNELS" for n
    using assms(1) that by (simp add: module_meta_wf_def)
  then show ?thesis
    unfolding parse_root_field_def
    by (intro post_ifI; simp; intro post_skipI post_lenI assms(2))
      (use assms(1) in \<open>auto intro!: assms(3) post_kernelsI post_versionI\<close>)
qed

lemma post_root_fieldsI:
  "module_meta_wf m \<Longrightarrow> pos \<le> length data \<Longrightarrow> (\<And>m p. module_meta_wf m \<Longrightarrow> pos \<le> p \<Longrightarrow> p \<le> length data \<Longrightarrow> Q (m, p)) \<Longrightarrow>
   post (parse_root_fields data n m pos) Q"
  by (induction n arbitrary: m pos) (auto intro!: post_stringI post_root_fieldI)

lemma post_root_metadata: "post (parse_root_metadata data zero_module_meta) module_meta_wf"
  by (auto simp: parse_root_metadata_def intro!: post_lenI post_root_fieldsI zero_meta_wf)


section \<open>The container\<close>

lemma align4_ge: "n \<le> align4 n"
  by (simp add: align4_def)

lemma unat_less_exp16: "unat (x :: 16 word) mod 18446744073709551616 = unat x"
  using unsigned_less [of x, where 'a = nat] by simp

lemma post_get_section:
  assumes "64 \<le> shentsize"
  shows "post (get_section img shoff shentsize i) (\<lambda>(n, off, sz). safe_range (length img) off sz)"
proof -
  have "unat (ucast shentsize :: u64) = unat shentsize"
    using unat_less_exp16 by (simp add: unsigned_ucast_eq take_bit_eq_mod)
  then have "64 \<le> unat (ucast shentsize :: u64)" using assms by (simp add: word_le_nat_alt)
  then show ?thesis
    unfolding get_section_def Let_def
    by (simp, intro impI post_reads) (auto simp: safe_range_def)
qed

lemma post_find_note:
  "64 \<le> shentsize \<Longrightarrow> post (find_note img shoff shentsize names is) (\<lambda>(off, sz). safe_range (length img) off sz)"
proof (induction "is")
  case (Cons i "is")
  then show ?case by (auto intro!: post_mono [OF post_get_section])
qed simp

lemma post_find_metadata_note: "post (find_metadata_note b pos) (\<lambda>_. True)"
proof (induction b pos rule: find_metadata_note.induct)
  case (1 b pos)
  show ?case
  proof (cases "pos + 12 \<le> length b")
    case True
    have body: "post (if nm > length b - (pos + 12) then Fail
         else if dm > length b - (pos + 12 + nm) then Fail
         else if unat v \<ge> 8 \<and> pos + 12 + 8 > length b then Undef
         else if unat v \<ge> 8 \<and> take 8 (drop (pos + 12) b) = cstr ''Iluvatar'' \<and> ty = 0x0a
         then (if pos + 12 + nm + unat va \<le> length b then Ok (take (unat va) (drop (pos + 12 + nm) b)) else Undef)
         else find_metadata_note b (pos + 12 + nm + dm)) (\<lambda>_. True)"
      if "nm = align4 (unat v)" "dm = align4 (unat va)" for nm dm and v va ty :: u32
    proof (intro post_ifI)
      assume g: "\<not> nm > length b - (pos + 12)" "\<not> dm > length b - (pos + 12 + nm)"
      have ge: "unat v \<le> nm" "unat va \<le> dm" by (simp_all add: that align4_ge)
      show "post Undef (\<lambda>_. True)" if "unat v \<ge> 8 \<and> pos + 12 + 8 > length b" using that g ge by auto
      show "post Undef (\<lambda>_. True)" if "\<not> pos + 12 + nm + unat va \<le> length b" using that g ge True by auto
      show "post (find_metadata_note b (pos + 12 + nm + dm)) (\<lambda>_. True)"
        if "\<not> (unat v \<ge> 8 \<and> pos + 12 + 8 > length b)" "\<not> (unat v \<ge> 8 \<and> take 8 (drop (pos + 12) b) = cstr ''Iluvatar'' \<and> ty = 0x0a)"
        using 1 [OF True] g that \<open>nm = _\<close> \<open>dm = _\<close> by blast
    qed simp_all
    show ?thesis
      unfolding find_metadata_note.simps [of b pos] Let_def if_P [OF True] post_simps(4)
      by (intro post_reads) (use True body in \<open>simp_all del: if_splits\<close>)
  qed (simp add: find_metadata_note.simps)
qed

lemma parse_metadata_post: "post (corex_parse_metadata img) (\<lambda>m. module_meta_wf m \<and> mm_kernel_count m \<noteq> 0)"
  unfolding corex_parse_metadata_def Let_def
  by (intro post_ifI; simp; (intro post_reads post_ifI)?; (simp; fail)?)
   (auto simp: not_less intro!: post_mono [OF post_get_section] post_mono [OF post_find_note] post_mono [OF post_find_metadata_note]
      post_mono [OF post_root_metadata])

text \<open>
  C10. The parser stands every image: it reads only inside the image and writes only inside its arrays,
  it terminates, and it either rejects the image or returns well-formed metadata with at least one
  kernel, at most 32 kernels and 32 arguments each, and strings that fit their arrays.
\<close>

theorem corex_parse_metadata_safe: "post (corex_parse_metadata img) (\<lambda>m. module_meta_wf m \<and> mm_kernel_count m \<noteq> 0)"
  by (rule parse_metadata_post)

end
