(* ===== verification/Metadata_Roundtrip.thy ===== *)
theory Metadata_Roundtrip
  imports Metadata_Safety
begin

text \<open>
  The parser against a reference: the MessagePack encoding of a value. Skipping a value moves exactly
  over its encoding, and the metadata map of a module is read back as it was written, whatever unknown
  fields stand in front. The one place where the parser departs from the format is the length of a
  large map.
\<close>

section \<open>Decoding what was encoded\<close>

definition decodes :: "(bytes \<Rightarrow> nat \<Rightarrow> ('a \<times> nat) parse) \<Rightarrow> bytes \<Rightarrow> 'a \<Rightarrow> bool" where
  "decodes f e v \<longleftrightarrow> (\<forall>pre rest. f (pre @ e @ rest) (length pre) = Ok (v, length pre + length e))"

lemma decodesI: "(\<And>pre rest. f (pre @ e @ rest) (length pre) = Ok (v, length pre + length e)) \<Longrightarrow> decodes f e v"
  by (simp add: decodes_def)

lemma decodes_at: "decodes f e v \<Longrightarrow> data = pre @ e @ rest \<Longrightarrow> pos = length pre \<Longrightarrow> f data pos = Ok (v, pos + length e)"
  by (simp add: decodes_def)

definition be_join :: "u8 \<Rightarrow> u8 \<Rightarrow> u8 \<Rightarrow> u8 \<Rightarrow> u32" where
  "be_join a b c d = push_bit 24 (ucast a) OR push_bit 16 (ucast b) OR push_bit 8 (ucast c) OR ucast d"

lemma be_join_split:
  fixes v :: u32
  shows "be_join (ucast (drop_bit 24 v)) (ucast (drop_bit 16 v)) (ucast (drop_bit 8 v)) (ucast v) = v"
proof (rule bit_word_eqI)
  fix n assume "n < LENGTH(32)"
  then have "n < 32" by simp
  then show "bit (be_join (ucast (drop_bit 24 v)) (ucast (drop_bit 16 v)) (ucast (drop_bit 8 v)) (ucast v)) n = bit v n"
    unfolding be_join_def by (cases rule: byte_cases) (auto simp: bit_simps)
qed

lemma read_be32_at: "read_be32 (pre @ be32 v @ rest) (length pre) = Ok v"
  using be_join_split [of v] by (simp add: read_be32_def be32_def nth_append be_join_def)

lemma get_u8_at: "mp_get_u8 (pre @ c # rest) (length pre) = Ok (c, length pre + 1)"
  by (simp add: mp_get_u8_def mp_need_def rd8_def)

lemma len8_at: "mp_len8 (pre @ c # rest) (length pre) = Ok (ucast c, length pre + 1)"
  by (simp add: mp_len8_def get_u8_at)

lemma len32_at: "mp_len32 (pre @ be32 v @ rest) (length pre) = Ok (v, length pre + 4)"
  by (simp add: mp_len32_def mp_need_def read_be32_at)

text \<open>The same one byte further, behind the type byte.\<close>

lemma after_type:
  "mp_get_u8 (pre @ t # c # rest) (length pre + 1) = Ok (c, length pre + 2)"
  "mp_len8 (pre @ t # c # rest) (length pre + 1) = Ok (ucast c, length pre + 2)"
  "mp_len32 (pre @ t # be32 v @ rest) (length pre + 1) = Ok (v, length pre + 5)"
  "read_be32 (pre @ t # be32 v @ rest) (length pre + 1) = Ok v"
  using get_u8_at [of "pre @ [t]" c rest] len8_at [of "pre @ [t]" c rest] len32_at [of "pre @ [t]" v rest]
    read_be32_at [of "pre @ [t]" v rest] by simp_all

section \<open>Scalars\<close>

definition enc_u32 :: "u32 \<Rightarrow> bytes" where
  "enc_u32 v = 0xce # be32 v"

definition enc_str :: "bytes \<Rightarrow> bytes" where
  "enc_str s = (if length s < 32 then [0xa0 + of_nat (length s)] else [0xd9, of_nat (length s)]) @ s"

definition enc_array_len :: "nat \<Rightarrow> bytes" where
  "enc_array_len n = 0xdd # be32 (of_nat n)"

definition enc_map_len :: "nat \<Rightarrow> bytes" where
  "enc_map_len n = [0x80 + of_nat n]"

lemmas at_simps = get_u8_at [simplified] after_type [simplified] mp_need_def

lemma decodes_u32: "decodes mp_read_uint64 (enc_u32 v) (ucast v)"
  by (rule decodesI) (simp add: mp_read_uint64_def enc_u32_def at_simps)

lemma decodes_array_len: "n < 2 ^ 32 \<Longrightarrow> decodes mp_read_array_len (enc_array_len n) (of_nat n)"
  by (rule decodesI) (simp add: mp_read_array_len_def enc_array_len_def at_simps)

text \<open>A type byte that carries a small number in its low bits.\<close>

lemma low_bits:
  assumes "n < 2 ^ k" "k < 8" "2 ^ k dvd unat b" "unat b + n < 256"
  shows "unat (b + of_nat n :: u8) = unat b + n" "unat ((b + of_nat n) AND mask k) = n"
proof -
  have "unat (of_nat n :: u8) = n" using assms(4) by (simp add: unat_of_nat)
  then show u: "unat (b + of_nat n) = unat b + n" using assms(4) by (subst unat_add_no_wrap) simp_all
  have "unat ((b + of_nat n) AND mask k) = take_bit k (unat (b + of_nat n))"
    by (simp only: take_bit_eq_mask [symmetric] unsigned_take_bit_eq)
  then show "unat ((b + of_nat n) AND mask k) = n" using u assms(1,3) by (auto simp: take_bit_eq_mod elim!: dvdE)
qed

lemma ucast_of_unat: "unat (x :: u8) = n \<Longrightarrow> (ucast x :: u32) = of_nat n"
  by auto

lemma decodes_map_len:
  assumes "n < 16"
  shows "decodes mp_read_map_len (enc_map_len n) (of_nat n)"
proof -
  let ?c = "0x80 + of_nat n :: u8"
  have c: "unat ?c = 128 + n" "unat (?c AND 0x0f) = n" using low_bits [of n 4 "0x80"] assms by (simp_all add: mask_numeral)
  then have "0x80 \<le> ?c \<and> ?c \<le> 0x8f" using assms by (simp add: word_le_nat_alt)
  then show ?thesis using ucast_of_unat [OF c(2)]
    by (intro decodesI) (simp add: mp_read_map_len_def enc_map_len_def at_simps)
qed

lemma string_len_at:
  assumes "length s < 256"
  shows "\<exists>c p. mp_get_u8 (pre @ enc_str s @ rest) (length pre) = Ok (c, length pre + 1) \<and>
     mp_string_len (pre @ enc_str s @ rest) c (length pre + 1) = Ok (of_nat (length s), p) \<and>
     p + length s = length pre + length (enc_str s) \<and> drop p (pre @ enc_str s @ rest) = s @ rest"
proof (cases "length s < 32")
  case True
  let ?c = "0xa0 + of_nat (length s) :: u8"
  have c: "unat ?c = 160 + length s" "unat (?c AND 0x1f) = length s"
    using low_bits [of "length s" 5 "0xa0"] True by (simp_all add: mask_numeral)
  then have "0xa0 \<le> ?c \<and> ?c \<le> 0xbf" using True by (simp add: word_le_nat_alt)
  then show ?thesis using ucast_of_unat [OF c(2)] True
    by (intro exI [of _ ?c] exI [of _ "length pre + 1"]) (simp add: mp_string_len_def enc_str_def at_simps)
next
  case False
  have "(ucast (of_nat (length s) :: u8) :: u32) = of_nat (length s)"
    by (rule ucast_of_unat) (use assms in \<open>simp add: unat_of_nat\<close>)
  then show ?thesis using False
    by (intro exI [of _ "0xd9"] exI [of _ "length pre + 2"]) (simp add: mp_string_len_def enc_str_def at_simps)
qed

lemma takeWhile_no_zero: "0 \<notin> set s \<Longrightarrow> takeWhile (\<lambda>b. b \<noteq> (0 :: u8)) s = s"
  by (simp add: takeWhile_eq_all_conv) (metis)

lemma decodes_str:
  assumes "length s < 256" "length s < out_size" "0 \<notin> set s"
  shows "decodes (\<lambda>data pos. mp_read_string data pos out_size) (enc_str s) s"
proof (rule decodesI)
  fix pre rest
  let ?d = "pre @ enc_str s @ rest"
  obtain c p where r: "mp_get_u8 ?d (length pre) = Ok (c, length pre + 1)"
     "mp_string_len ?d c (length pre + 1) = Ok (of_nat (length s), p)"
     "p + length s = length pre + length (enc_str s)" "drop p ?d = s @ rest"
    using string_len_at [OF assms(1)] by blast
  have n: "unat (of_nat (length s) :: u32) = length s" using assms(1) by (simp add: unat_of_nat)
  have "p + length s \<le> length ?d" using r(3) by simp
  then show "mp_read_string ?d (length pre) out_size = Ok (s, length pre + length (enc_str s))"
    using assms r n by (simp add: mp_read_string_def mp_copy_string_def mp_need_def Let_def takeWhile_no_zero)
qed

section \<open>Skipping a value\<close>

text \<open>The MessagePack values, in the forms whose length field has 32 bits.\<close>

datatype mp_value =
    MNil
  | MBool bool
  | MU32 u32
  | MF64 u64
  | MStr bytes
  | MBin bytes
  | MArr "mp_value list"
  | MMap "(mp_value \<times> mp_value) list"

fun mp_enc :: "mp_value \<Rightarrow> bytes" where
  "mp_enc MNil = [0xc0]"
| "mp_enc (MBool b) = [if b then 0xc3 else 0xc2]"
| "mp_enc (MU32 v) = 0xce # be32 v"
| "mp_enc (MF64 v) = 0xcb # be64 v"
| "mp_enc (MStr s) = 0xdb # be32 (of_nat (length s)) @ s"
| "mp_enc (MBin s) = 0xc6 # be32 (of_nat (length s)) @ s"
| "mp_enc (MArr vs) = 0xdd # be32 (of_nat (length vs)) @ concat (map mp_enc vs)"
| "mp_enc (MMap es) = 0xdf # be32 (of_nat (length es)) @ concat (map (\<lambda>(k, v). mp_enc k @ mp_enc v) es)"

text \<open>The lengths that the parser can carry: a map only below \<open>2 ^ 31\<close> entries.\<close>

fun mp_fits :: "mp_value \<Rightarrow> bool" where
  "mp_fits (MStr s) \<longleftrightarrow> length s < 2 ^ 32"
| "mp_fits (MBin s) \<longleftrightarrow> length s < 2 ^ 32"
| "mp_fits (MArr vs) \<longleftrightarrow> length vs < 2 ^ 32 \<and> (\<forall>v \<in> set vs. mp_fits v)"
| "mp_fits (MMap es) \<longleftrightarrow> length es < 2 ^ 31 \<and> (\<forall>(k, v) \<in> set es. mp_fits k \<and> mp_fits v)"
| "mp_fits _ \<longleftrightarrow> True"

definition skips :: "nat \<Rightarrow> mp_value \<Rightarrow> bool" where
  "skips fuel v \<longleftrightarrow> (\<forall>pre rest. mp_skip fuel (pre @ mp_enc v @ rest) (length pre) = Ok (length pre + length (mp_enc v)))"

lemma skips_at: "skips fuel v \<Longrightarrow> data = pre @ mp_enc v @ rest \<Longrightarrow> pos = length pre \<Longrightarrow> mp_skip fuel data pos = Ok (pos + length (mp_enc v))"
  by (simp add: skips_def)

lemma skip_n_at:
  "\<forall>v \<in> set vs. skips fuel v \<Longrightarrow> data = pre @ concat (map mp_enc vs) @ rest \<Longrightarrow> pos = length pre \<Longrightarrow>
   mp_skip_n fuel data (length vs) pos = Ok (pos + length (concat (map mp_enc vs)))"
proof (induction vs arbitrary: pre pos)
  case (Cons v vs)
  have "mp_skip fuel data pos = Ok (pos + length (mp_enc v))"
    by (rule skips_at [of _ _ _ pre "concat (map mp_enc vs) @ rest"]) (use Cons.prems in auto)
  moreover have "mp_skip_n fuel data (length vs) (pos + length (mp_enc v)) = Ok (pos + length (mp_enc v) + length (concat (map mp_enc vs)))"
    by (rule Cons.IH [of "pre @ mp_enc v"]) (use Cons.prems in auto)
  ultimately show ?case by simp
qed simp

text \<open>A map is skipped as the sequence of its keys and values.\<close>

definition entries :: "(mp_value \<times> mp_value) list \<Rightarrow> mp_value list" where
  "entries es = concat (map (\<lambda>(k, v). [k, v]) es)"

lemma entries_facts:
  "length (entries es) = 2 * length es"
  "concat (map mp_enc (entries es)) = concat (map (\<lambda>(k, v). mp_enc k @ mp_enc v) es)"
  "v \<in> set (entries es) \<longleftrightarrow> (\<exists>(a, b) \<in> set es. v = a \<or> v = b)"
  by (induction es) (auto simp: entries_def)

lemma mp_enc_nonempty: "0 < length (mp_enc v)"
  by (cases v) simp_all

lemma skips_arr:
  assumes "length vs < 2 ^ 32" "\<forall>v \<in> set vs. skips fuel v"
  shows "skips (Suc fuel) (MArr vs)"
  unfolding skips_def
proof (intro allI)
  fix pre rest
  have n: "unat (of_nat (length vs) :: u32) = length vs" using assms(1) by (simp add: unat_of_nat)
  have "mp_skip_n fuel (pre @ mp_enc (MArr vs) @ rest) (length vs) (length pre + 5) = Ok (length pre + 5 + length (concat (map mp_enc vs)))"
    by (rule skip_n_at [OF assms(2), of _ "pre @ 0xdd # be32 (of_nat (length vs))" rest]) simp_all
  then show "mp_skip (Suc fuel) (pre @ mp_enc (MArr vs) @ rest) (length pre) = Ok (length pre + length (mp_enc (MArr vs)))"
    by (simp add: at_simps n)
qed

lemma skips_map:
  assumes "length es < 2 ^ 31" "\<forall>v \<in> set (entries es). skips fuel v"
  shows "skips (Suc fuel) (MMap es)"
  unfolding skips_def
proof (intro allI)
  fix pre rest
  have "(2 :: u32) * of_nat (length es) = of_nat (length (entries es))" by (simp add: entries_facts)
  moreover have "unat (of_nat (length (entries es)) :: u32) = length (entries es)"
    using assms(1) by (subst unat_of_nat) (simp add: entries_facts)
  ultimately have n: "unat ((2 :: u32) * of_nat (length es)) = length (entries es)" by simp
  have "mp_skip_n fuel (pre @ mp_enc (MMap es) @ rest) (length (entries es)) (length pre + 5)
      = Ok (length pre + 5 + length (concat (map mp_enc (entries es))))"
    by (rule skip_n_at [OF assms(2), of _ "pre @ 0xdf # be32 (of_nat (length es))" rest]) (simp_all add: entries_facts)
  then show "mp_skip (Suc fuel) (pre @ mp_enc (MMap es) @ rest) (length pre) = Ok (length pre + length (mp_enc (MMap es)))"
    by (simp add: at_simps n entries_facts)
qed

lemma skips_scalar:
  assumes "mp_fits v" "\<And>vs. v \<noteq> MArr vs" "\<And>es. v \<noteq> MMap es"
  shows "skips (Suc fuel) v"
  using assms by (cases v) (auto simp: skips_def at_simps mp_advance_def unat_of_nat)

lemma part_length: "v \<in> set vs \<Longrightarrow> length (mp_enc v) \<le> length (concat (map mp_enc vs))"
  by (induction vs) auto

lemma fuel_suffices: "mp_fits v \<Longrightarrow> length (mp_enc v) \<le> fuel \<Longrightarrow> skips fuel v"
proof (induction fuel arbitrary: v)
  case 0
  then show ?case using mp_enc_nonempty [of v] by simp
next
  case (Suc fuel)
  consider vs where "v = MArr vs" | es where "v = MMap es" | "\<And>vs. v \<noteq> MArr vs" "\<And>es. v \<noteq> MMap es" by blast
  then show ?case
  proof cases
    case 1
    have "skips fuel w" if "w \<in> set vs" for w
      using Suc part_length [OF that] that 1 by auto
    then show ?thesis using Suc.prems 1 by (simp add: skips_arr)
  next
    case 2
    have "skips fuel w" if "w \<in> set (entries es)" for w
      by (rule Suc.IH) (use Suc.prems part_length [OF that] that 2 in \<open>auto simp: entries_facts\<close>)
    then show ?thesis using Suc.prems 2 by (simp add: skips_map)
  next
    case 3
    then show ?thesis using Suc.prems skips_scalar by blast
  qed
qed

lemma skip_value_at: "mp_fits v \<Longrightarrow> skip_value (pre @ mp_enc v @ rest) (length pre) = Ok (length pre + length (mp_enc v))"
  using fuel_suffices [of v "length (pre @ mp_enc v @ rest) + 1"] by (simp add: skip_value_def skips_def)

text \<open>
  C35. Skipping is exact: whatever stands before and after it, the encoding of a MessagePack value, of
  any nesting, is passed over byte for byte. The bound is the length of a map: see the next theorem.
\<close>

theorem skip_value_exact:
  assumes "mp_fits v"
  shows "skip_value (pre @ mp_enc v @ rest) (length pre) = Ok (length pre + length (mp_enc v))"
  using assms by (rule skip_value_at)

theorem skip_value_exact_witness:
  "skip_value ([0x90] @ mp_enc (MMap [(MStr [0x61], MArr [MNil, MU32 7])]) @ [0xc0]) 1 = Ok 23"
  using skip_value_exact [of "MMap [(MStr [0x61], MArr [MNil, MU32 7])]" "[0x90]" "[0xc0]"] by simp

text \<open>
  C36. The exception: the number of entries of a map is doubled in 32 bits, so the header of a map of
  \<open>2 ^ 31\<close> entries is skipped as an empty map, and the position stands inside the value.
\<close>

theorem mp_skip_map_wraps:
  "skip_value (pre @ 0xdf # be32 (2 ^ 31) @ rest) (length pre) = Ok (length pre + 5)"
proof -
  have "mp_skip (Suc fuel) (pre @ 0xdf # be32 (2 ^ 31) @ rest) (length pre) = Ok (length pre + 5)" for fuel
    by (simp add: at_simps)
  then show ?thesis by (simp only: skip_value_def flip: Suc_eq_plus1)
qed

section \<open>The metadata map\<close>

definition enc_key :: "string \<Rightarrow> bytes" where
  "enc_key s = enc_str (cstr s)"

definition enc_arg :: "CorexArgMeta \<Rightarrow> bytes" where
  "enc_arg a = enc_map_len 5
     @ enc_key ''.name'' @ enc_str (ar_name a) @ enc_key ''.offset'' @ enc_u32 (ar_offset a)
     @ enc_key ''.size'' @ enc_u32 (ar_size a) @ enc_key ''.value_kind'' @ enc_str (ar_value_kind a)
     @ enc_key ''.address_space'' @ enc_str (ar_address_space a)"

definition enc_kernel :: "CorexKernelMeta \<Rightarrow> bytes" where
  "enc_kernel k = enc_map_len 6
     @ enc_key ''.name'' @ enc_str (km_name k) @ enc_key ''.symbol'' @ enc_str (km_symbol k)
     @ enc_key ''.kernarg_segment_align'' @ enc_u32 (km_kernarg_segment_align k)
     @ enc_key ''.kernarg_segment_size'' @ enc_u32 (km_kernarg_segment_size k)
     @ enc_key ''.warp_size'' @ enc_u32 (km_warp_size k)
     @ enc_key ''.args'' @ enc_array_len (unat (km_argc k)) @ concat (map enc_arg (take (unat (km_argc k)) (km_args k)))"

definition enc_root :: "(bytes \<times> mp_value) list \<Rightarrow> CorexModuleMeta \<Rightarrow> bytes" where
  "enc_root extra m = enc_map_len (length extra + 2) @ concat (map (\<lambda>(k, v). enc_str k @ mp_enc v) extra)
     @ enc_key ''iluvatar.version'' @ (enc_array_len 2 @ enc_u32 (mm_version_major m) @ enc_u32 (mm_version_minor m))
     @ enc_key ''iluvatar.kernels'' @ enc_array_len (unat (mm_kernel_count m))
     @ concat (map enc_kernel (take (unat (mm_kernel_count m)) (mm_kernels m)))"

text \<open>The unused entries of the arrays are zero.\<close>

definition kernel_canonical :: "CorexKernelMeta \<Rightarrow> bool" where
  "kernel_canonical k \<longleftrightarrow> kernel_meta_wf k \<and>
     drop (unat (km_argc k)) (km_args k) = replicate (COREX_META_MAX_ARGS - unat (km_argc k)) zero_arg_meta"

definition module_canonical :: "CorexModuleMeta \<Rightarrow> bool" where
  "module_canonical m \<longleftrightarrow> module_meta_wf m \<and> (\<forall>k \<in> set (take (unat (mm_kernel_count m)) (mm_kernels m)). kernel_canonical k) \<and>
     drop (unat (mm_kernel_count m)) (mm_kernels m) = replicate (COREX_META_MAX_KERNELS - unat (mm_kernel_count m)) zero_kernel_meta"

definition extra_ok :: "bytes \<times> mp_value \<Rightarrow> bool" where
  "extra_ok kv \<longleftrightarrow> length (fst kv) < 96 \<and> 0 \<notin> set (fst kv) \<and> mp_fits (snd kv)
     \<and> fst kv \<noteq> cstr ''iluvatar.kernels'' \<and> fst kv \<noteq> cstr ''iluvatar.version''"

lemma decodes_then:
  assumes "decodes f e v" "decodes (\<lambda>data pos. g v data pos) e' w"
  shows "decodes (\<lambda>data pos. and_then (f data pos) (\<lambda>(x, pos). g x data pos)) (e @ e') w"
proof (rule decodesI)
  fix pre rest
  have "f (pre @ e @ e' @ rest) (length pre) = Ok (v, length pre + length e)" using assms(1) by (simp add: decodes_def)
  moreover have "g v (pre @ e @ e' @ rest) (length pre + length e) = Ok (w, length pre + length e + length e')"
    using decodes_at [OF assms(2), of "pre @ e @ e' @ rest" "pre @ e" rest] by simp
  ultimately show "and_then (f (pre @ (e @ e') @ rest) (length pre)) (\<lambda>(x, pos). g x (pre @ (e @ e') @ rest) pos)
      = Ok (w, length pre + length (e @ e'))" by simp
qed

lemma decodes_return: "decodes (\<lambda>data pos. Ok (v, pos)) [] v"
  by (simp add: decodes_def)

lemma decodes_map:
  assumes "decodes f e v"
  shows "decodes (\<lambda>data pos. and_then (f data pos) (\<lambda>(x, pos). Ok (h x, pos))) e (h v)"
  using decodes_then [OF assms decodes_return] by simp

lemma decodes_skip: "mp_fits v \<Longrightarrow> decodes (\<lambda>data pos. and_then (skip_value data pos) (\<lambda>pos. Ok (x, pos))) (mp_enc v) x"
  by (rule decodesI) (simp add: skip_value_at)

text \<open>One field of each map.\<close>

lemma arg_fields_step:
  assumes "decodes (\<lambda>data pos. parse_arg_field data k a pos) e a'"
    "decodes (\<lambda>data pos. parse_arg_fields data n a' pos) es r" "length k < 64" "0 \<notin> set k"
  shows "decodes (\<lambda>data pos. parse_arg_fields data (Suc n) a pos) (enc_str k @ e @ es) r"
  unfolding parse_arg_fields.simps
  by (intro decodes_then [OF decodes_str] decodes_then [OF assms(1)] assms(2)) (use assms(3,4) in simp_all)

lemma kernel_fields_step:
  assumes "decodes (\<lambda>data pos. parse_kernel_field data k m pos) e m'"
    "decodes (\<lambda>data pos. parse_kernel_fields data n m' pos) es r" "length k < 96" "0 \<notin> set k"
  shows "decodes (\<lambda>data pos. parse_kernel_fields data (Suc n) m pos) (enc_str k @ e @ es) r"
  unfolding parse_kernel_fields.simps
  by (intro decodes_then [OF decodes_str] decodes_then [OF assms(1)] assms(2)) (use assms(3,4) in simp_all)

lemma root_fields_step:
  assumes "decodes (\<lambda>data pos. parse_root_field data k m pos) e m'"
    "decodes (\<lambda>data pos. parse_root_fields data n m' pos) es r" "length k < 96" "0 \<notin> set k"
  shows "decodes (\<lambda>data pos. parse_root_fields data (Suc n) m pos) (enc_str k @ e @ es) r"
  unfolding parse_root_fields.simps
  by (intro decodes_then [OF decodes_str] decodes_then [OF assms(1)] assms(2)) (use assms(3,4) in simp_all)

lemma decodes_apply:
  assumes "decodes f e v" "\<And>data pos. g v data pos = Ok (w, pos)"
  shows "decodes (\<lambda>data pos. and_then (f data pos) (\<lambda>(x, pos). g x data pos)) e w"
  using decodes_then [OF assms(1), of g "[]" w] assms(2) by (simp add: decodes_def)

lemma u32_fits: "(ucast (v :: u32) :: u64) \<le> UINT32_MAX64" "ucast (ucast v :: u64) = v"
proof -
  have "unat v < 4294967296" using unsigned_less [of v, where 'a = nat] by simp
  then have "unat v \<le> 4294967295" by linarith
  then have "unat v mod 18446744073709551616 \<le> 4294967295" by (rule order_trans [OF mod_less_eq_dividend])
  then show "(ucast v :: u64) \<le> UINT32_MAX64" by (simp add: word_le_nat_alt unsigned_ucast_eq take_bit_eq_mod)
qed (rule bit_word_eqI, simp add: bit_simps)

lemma arg_field_at:
  "length s < 64 \<Longrightarrow> 0 \<notin> set s \<Longrightarrow> decodes (\<lambda>data pos. parse_arg_field data (cstr ''.name'') a pos) (enc_str s) (a\<lparr>ar_name := s\<rparr>)"
  "decodes (\<lambda>data pos. parse_arg_field data (cstr ''.offset'') a pos) (enc_u32 v) (a\<lparr>ar_offset := v\<rparr>)"
  "decodes (\<lambda>data pos. parse_arg_field data (cstr ''.size'') a pos) (enc_u32 v) (a\<lparr>ar_size := v\<rparr>)"
  "length s < 32 \<Longrightarrow> 0 \<notin> set s \<Longrightarrow> decodes (\<lambda>data pos. parse_arg_field data (cstr ''.value_kind'') a pos) (enc_str s)
     (a\<lparr>ar_value_kind := s, ar_kind := parse_arg_kind s\<rparr>)"
  "length s < 32 \<Longrightarrow> 0 \<notin> set s \<Longrightarrow> decodes (\<lambda>data pos. parse_arg_field data (cstr ''.address_space'') a pos) (enc_str s)
     (a\<lparr>ar_address_space := s\<rparr>)"
  unfolding parse_arg_field_def
  by (simp_all add: decodes_apply [OF decodes_str] decodes_apply [OF decodes_u32] u32_fits require_def cstr_def)

lemma cstr_ok: "length (cstr s) = length s" "0 \<notin> set (cstr s) \<longleftrightarrow> (\<forall>c \<in> set s. (of_char c :: u8) \<noteq> 0)"
  by (auto simp: cstr_def)

lemma fields_done:
  "v = w \<Longrightarrow> decodes (\<lambda>data pos. parse_arg_fields data 0 v pos) [] w"
  "k = l \<Longrightarrow> decodes (\<lambda>data pos. parse_kernel_fields data 0 k pos) [] l"
  "m = r \<Longrightarrow> decodes (\<lambda>data pos. parse_root_fields data 0 m pos) [] r"
  by (simp_all add: decodes_return)

lemma decodes_map_header:
  assumes "n < 16" "decodes (\<lambda>data pos. g n data pos) es r"
  shows "decodes (\<lambda>data pos. and_then (mp_read_map_len data pos) (\<lambda>(x, pos). g (unat x) data pos)) (enc_map_len n @ es) r"
proof -
  have "unat (of_nat n :: u32) = n" using assms(1) by (simp add: unat_of_nat)
  then show ?thesis using decodes_then [OF decodes_map_len [OF assms(1)], of "\<lambda>x data pos. g (unat x) data pos"] assms(2) by simp
qed

lemma decodes_array_header:
  assumes "n < 2 ^ 32" "decodes (\<lambda>data pos. g (of_nat n) data pos) es r"
  shows "decodes (\<lambda>data pos. and_then (mp_read_array_len data pos) (\<lambda>(x, pos). g x data pos)) (enc_array_len n @ es) r"
  by (rule decodes_then [where g = g, OF decodes_array_len [OF assms(1)] assms(2)])

lemma count_eqs: "(2 :: nat) = Suc (Suc 0)" "(5 :: nat) = Suc (Suc (Suc (Suc (Suc 0))))" "(6 :: nat) = Suc (Suc (Suc (Suc (Suc (Suc 0)))))"
  by simp_all

lemma decodes_arg:
  assumes "arg_meta_wf a"
  shows "decodes parse_arg (enc_arg a) a"
proof -
  have "decodes (\<lambda>data pos. parse_arg_fields data 5 zero_arg_meta pos)
     (enc_str (cstr ''.name'') @ enc_str (ar_name a) @ enc_str (cstr ''.offset'') @ enc_u32 (ar_offset a)
     @ enc_str (cstr ''.size'') @ enc_u32 (ar_size a) @ enc_str (cstr ''.value_kind'') @ enc_str (ar_value_kind a)
     @ enc_str (cstr ''.address_space'') @ enc_str (ar_address_space a) @ []) a"
    unfolding count_eqs
    by (rule arg_fields_step [OF arg_field_at(1) arg_fields_step [OF arg_field_at(2) arg_fields_step [OF arg_field_at(3)
      arg_fields_step [OF arg_field_at(4) arg_fields_step [OF arg_field_at(5) fields_done(1)]]]]])
      (use assms in \<open>auto simp: arg_meta_wf_def cstr_def zero_arg_meta_def\<close>)
  then show ?thesis unfolding parse_arg_def [abs_def] enc_arg_def enc_key_def
    using decodes_map_header [of 5 "\<lambda>n data pos. parse_arg_fields data n zero_arg_meta pos"] by simp
qed

lemma decodes_args:
  "\<forall>a \<in> set as. arg_meta_wf a \<Longrightarrow> j + length as \<le> length (km_args km) \<Longrightarrow>
   decodes (\<lambda>data pos. parse_args data [j..<j + length as] km pos) (concat (map enc_arg as))
     (km\<lparr>km_args := take j (km_args km) @ as @ drop (j + length as) (km_args km)\<rparr>)"
proof (induction as arbitrary: j km)
  case Nil
  then show ?case using decodes_return by simp
next
  case (Cons a as)
  let ?km = "km\<lparr>km_args := (km_args km)[j := a]\<rparr>"
  have j: "j < length (km_args km)" using Cons.prems(2) by simp
  have "decodes (\<lambda>data pos. parse_args data [Suc j..<Suc j + length as] ?km pos) (concat (map enc_arg as))
     (?km\<lparr>km_args := take (Suc j) (km_args ?km) @ as @ drop (Suc j + length as) (km_args ?km)\<rparr>)"
    by (rule Cons.IH) (use Cons.prems in simp_all)
  moreover have "take (Suc j) ((km_args km)[j := a]) = take j (km_args km) @ [a]" using j by (simp add: take_Suc_conv_app_nth)
  ultimately have "decodes (\<lambda>data pos. parse_args data [Suc j..<Suc (j + length as)] ?km pos) (concat (map enc_arg as))
     (km\<lparr>km_args := take j (km_args km) @ (a # as) @ drop (j + length (a # as)) (km_args km)\<rparr>)" by (simp del: upt_Suc)
  then show ?case
    using decodes_then [OF decodes_arg [of a], of "\<lambda>a data pos. if j < length (km_args km)
       then parse_args data [Suc j..<Suc (j + length as)] (km\<lparr>km_args := (km_args km)[j := a]\<rparr>) pos else Undef"] Cons.prems(1) j
    by (simp add: upt_conv_Cons del: upt_Suc)
qed

lemma kernel_field_at:
  "length s < 128 \<Longrightarrow> 0 \<notin> set s \<Longrightarrow> decodes (\<lambda>data pos. parse_kernel_field data (cstr ''.name'') k pos) (enc_str s) (k\<lparr>km_name := s\<rparr>)"
  "length s < 128 \<Longrightarrow> 0 \<notin> set s \<Longrightarrow> decodes (\<lambda>data pos. parse_kernel_field data (cstr ''.symbol'') k pos) (enc_str s) (k\<lparr>km_symbol := s\<rparr>)"
  "decodes (\<lambda>data pos. parse_kernel_field data (cstr ''.kernarg_segment_align'') k pos) (enc_u32 v) (k\<lparr>km_kernarg_segment_align := v\<rparr>)"
  "decodes (\<lambda>data pos. parse_kernel_field data (cstr ''.kernarg_segment_size'') k pos) (enc_u32 v) (k\<lparr>km_kernarg_segment_size := v\<rparr>)"
  "decodes (\<lambda>data pos. parse_kernel_field data (cstr ''.warp_size'') k pos) (enc_u32 v) (k\<lparr>km_warp_size := v\<rparr>)"
  unfolding parse_kernel_field_def
  by (simp_all add: decodes_apply [OF decodes_str] decodes_apply [OF decodes_u32] u32_fits cstr_def)

lemma kernel_args_at:
  assumes "\<forall>a \<in> set as. arg_meta_wf a" "length as \<le> COREX_META_MAX_ARGS" "length (km_args k) = COREX_META_MAX_ARGS"
  shows "decodes (\<lambda>data pos. parse_kernel_field data (cstr ''.args'') k pos) (enc_array_len (length as) @ concat (map enc_arg as))
     (k\<lparr>km_argc := of_nat (length as), km_args := as @ drop (length as) (km_args k)\<rparr>)"
proof -
  have n: "unat (of_nat (length as) :: u32) = length as" using assms(2) by (simp add: unat_of_nat)
  have "decodes (\<lambda>data pos. if unat (of_nat (length as) :: u32) > COREX_META_MAX_ARGS then Fail
      else parse_args data [0..<unat (of_nat (length as) :: u32)] (k\<lparr>km_argc := of_nat (length as)\<rparr>) pos) (concat (map enc_arg as))
     (k\<lparr>km_argc := of_nat (length as), km_args := as @ drop (length as) (km_args k)\<rparr>)"
    using decodes_args [OF assms(1), of 0 "k\<lparr>km_argc := of_nat (length as)\<rparr>"] assms(2,3) by (simp add: n)
  then show ?thesis unfolding parse_kernel_field_def
    using decodes_array_header [of "length as" "\<lambda>count data pos. if unat count > COREX_META_MAX_ARGS then Fail
      else parse_args data [0..<unat count] (k\<lparr>km_argc := count\<rparr>) pos"] assms(2) by (simp add: cstr_def)
qed

lemma decodes_kernel:
  assumes "kernel_canonical k"
  shows "decodes parse_kernel (enc_kernel k) k"
proof -
  let ?as = "take (unat (km_argc k)) (km_args k)"
  note wf = assms [unfolded kernel_canonical_def kernel_meta_wf_def]
  have as: "length ?as = unat (km_argc k)" "\<forall>a \<in> set ?as. arg_meta_wf a" using wf by (auto dest: in_set_takeD)
  have whole: "?as @ replicate (COREX_META_MAX_ARGS - unat (km_argc k)) zero_arg_meta = km_args k"
    using wf by (metis append_take_drop_id)
  have "decodes (\<lambda>data pos. parse_kernel_fields data 6 zero_kernel_meta pos)
     (enc_str (cstr ''.name'') @ enc_str (km_name k) @ enc_str (cstr ''.symbol'') @ enc_str (km_symbol k)
     @ enc_str (cstr ''.kernarg_segment_align'') @ enc_u32 (km_kernarg_segment_align k)
     @ enc_str (cstr ''.kernarg_segment_size'') @ enc_u32 (km_kernarg_segment_size k)
     @ enc_str (cstr ''.warp_size'') @ enc_u32 (km_warp_size k)
     @ enc_str (cstr ''.args'') @ (enc_array_len (length ?as) @ concat (map enc_arg ?as)) @ []) k"
    unfolding count_eqs
    by (rule kernel_fields_step [OF kernel_field_at(1) kernel_fields_step [OF kernel_field_at(2) kernel_fields_step [OF kernel_field_at(3)
      kernel_fields_step [OF kernel_field_at(4) kernel_fields_step [OF kernel_field_at(5) kernel_fields_step [OF kernel_args_at fields_done(2)]]]]]])
      (use wf as whole in \<open>auto simp: cstr_def zero_kernel_meta_def\<close>)
  then show ?thesis unfolding parse_kernel_def [abs_def] enc_kernel_def enc_key_def
    using decodes_map_header [of 6 "\<lambda>n data pos. parse_kernel_fields data n zero_kernel_meta pos"] as(1) by simp
qed

lemma decodes_kernels:
  "\<forall>k \<in> set ks. kernel_canonical k \<Longrightarrow> j + length ks \<le> length (mm_kernels m) \<Longrightarrow>
   decodes (\<lambda>data pos. parse_kernels data [j..<j + length ks] m pos) (concat (map enc_kernel ks))
     (m\<lparr>mm_kernels := take j (mm_kernels m) @ ks @ drop (j + length ks) (mm_kernels m)\<rparr>)"
proof (induction ks arbitrary: j m)
  case Nil
  then show ?case using decodes_return by simp
next
  case (Cons k ks)
  let ?m = "m\<lparr>mm_kernels := (mm_kernels m)[j := k]\<rparr>"
  have j: "j < length (mm_kernels m)" using Cons.prems(2) by simp
  have "decodes (\<lambda>data pos. parse_kernels data [Suc j..<Suc j + length ks] ?m pos) (concat (map enc_kernel ks))
     (?m\<lparr>mm_kernels := take (Suc j) (mm_kernels ?m) @ ks @ drop (Suc j + length ks) (mm_kernels ?m)\<rparr>)"
    by (rule Cons.IH) (use Cons.prems in simp_all)
  moreover have "take (Suc j) ((mm_kernels m)[j := k]) = take j (mm_kernels m) @ [k]" using j by (simp add: take_Suc_conv_app_nth)
  ultimately have "decodes (\<lambda>data pos. parse_kernels data [Suc j..<Suc (j + length ks)] ?m pos) (concat (map enc_kernel ks))
     (m\<lparr>mm_kernels := take j (mm_kernels m) @ (k # ks) @ drop (j + length (k # ks)) (mm_kernels m)\<rparr>)" by (simp del: upt_Suc)
  then show ?case
    using decodes_then [OF decodes_kernel [of k], of "\<lambda>k data pos. if j < length (mm_kernels m)
       then parse_kernels data [Suc j..<Suc (j + length ks)] (m\<lparr>mm_kernels := (mm_kernels m)[j := k]\<rparr>) pos else Undef"] Cons.prems(1) j
    by (simp add: upt_conv_Cons del: upt_Suc)
qed

lemma root_kernels_at:
  assumes "\<forall>k \<in> set ks. kernel_canonical k" "length ks \<le> COREX_META_MAX_KERNELS" "length (mm_kernels m) = COREX_META_MAX_KERNELS"
  shows "decodes (\<lambda>data pos. parse_root_field data (cstr ''iluvatar.kernels'') m pos) (enc_array_len (length ks) @ concat (map enc_kernel ks))
     (m\<lparr>mm_kernel_count := of_nat (length ks), mm_kernels := ks @ drop (length ks) (mm_kernels m)\<rparr>)"
proof -
  have n: "unat (of_nat (length ks) :: u32) = length ks" using assms(2) by (simp add: unat_of_nat)
  have "decodes (\<lambda>data pos. if unat (of_nat (length ks) :: u32) > COREX_META_MAX_KERNELS then Fail
      else parse_kernels data [0..<unat (of_nat (length ks) :: u32)] (m\<lparr>mm_kernel_count := of_nat (length ks)\<rparr>) pos) (concat (map enc_kernel ks))
     (m\<lparr>mm_kernel_count := of_nat (length ks), mm_kernels := ks @ drop (length ks) (mm_kernels m)\<rparr>)"
    using decodes_kernels [OF assms(1), of 0 "m\<lparr>mm_kernel_count := of_nat (length ks)\<rparr>"] assms(2,3) by (simp add: n)
  then show ?thesis unfolding parse_root_field_def
    using decodes_array_header [of "length ks" "\<lambda>count data pos. if unat count > COREX_META_MAX_KERNELS then Fail
      else parse_kernels data [0..<unat count] (m\<lparr>mm_kernel_count := count\<rparr>) pos"] assms(2) by (simp add: cstr_def)
qed

lemma root_version_at:
  "decodes (\<lambda>data pos. parse_root_field data (cstr ''iluvatar.version'') m pos) (enc_array_len 2 @ enc_u32 a @ enc_u32 b)
     (m\<lparr>mm_version_major := a, mm_version_minor := b\<rparr>)"
proof -
  have "decodes (\<lambda>data pos. parse_version data (Suc (Suc 0)) 0 m pos) (enc_u32 a @ enc_u32 b @ [])
     (m\<lparr>mm_version_major := a, mm_version_minor := b\<rparr>)"
    unfolding parse_version.simps
    by (rule decodes_then [OF decodes_u32], rule decodes_then [OF decodes_u32]) (simp add: decodes_return u32_fits)
  then have "decodes (\<lambda>data pos. parse_version data (unat (of_nat 2 :: u32)) 0 m pos) (enc_u32 a @ enc_u32 b)
     (m\<lparr>mm_version_major := a, mm_version_minor := b\<rparr>)" by (simp add: count_eqs(1) [symmetric])
  then show ?thesis unfolding parse_root_field_def
    using decodes_array_header [of 2 "\<lambda>count data pos. parse_version data (unat count) 0 m pos"] by (simp add: cstr_def)
qed

lemma root_extra_at: "extra_ok (k, v) \<Longrightarrow> decodes (\<lambda>data pos. parse_root_field data k m pos) (mp_enc v) m"
  unfolding parse_root_field_def by (simp add: extra_ok_def decodes_skip)

lemma decodes_extras:
  assumes "\<forall>kv \<in> set extra. extra_ok kv" "decodes (\<lambda>data pos. parse_root_fields data n m pos) es r"
  shows "decodes (\<lambda>data pos. parse_root_fields data (length extra + n) m pos) (concat (map (\<lambda>(k, v). enc_str k @ mp_enc v) extra) @ es) r"
  using assms(1)
proof (induction extra)
  case Nil
  then show ?case using assms(2) by simp
next
  case (Cons kv extra)
  obtain k v where kv: "kv = (k, v)" by fastforce
  have "extra_ok (k, v)" "length k < 96" "0 \<notin> set k" using Cons.prems kv by (auto simp: extra_ok_def)
  moreover have "decodes (\<lambda>data pos. parse_root_fields data (length extra + n) m pos)
      (concat (map (\<lambda>(k, v). enc_str k @ mp_enc v) extra) @ es) r" using Cons by simp
  ultimately show ?case using root_fields_step [OF root_extra_at] kv by (simp del: parse_root_fields.simps)
qed

lemma decodes_root_fields:
  assumes "module_canonical m" "\<forall>kv \<in> set extra. extra_ok kv"
  shows "decodes (\<lambda>data pos. parse_root_fields data (length extra + 2) zero_module_meta pos)
     (concat (map (\<lambda>(k, v). enc_str k @ mp_enc v) extra)
     @ enc_str (cstr ''iluvatar.version'') @ (enc_array_len 2 @ enc_u32 (mm_version_major m) @ enc_u32 (mm_version_minor m))
     @ enc_str (cstr ''iluvatar.kernels'') @ (enc_array_len (unat (mm_kernel_count m))
     @ concat (map enc_kernel (take (unat (mm_kernel_count m)) (mm_kernels m)))) @ []) m"
proof -
  let ?ks = "take (unat (mm_kernel_count m)) (mm_kernels m)"
  note wf = assms(1) [unfolded module_canonical_def module_meta_wf_def]
  have ks: "length ?ks = unat (mm_kernel_count m)" "\<forall>k \<in> set ?ks. kernel_canonical k" using wf by auto
  have whole: "?ks @ replicate (COREX_META_MAX_KERNELS - unat (mm_kernel_count m)) zero_kernel_meta = mm_kernels m"
    using wf by (metis append_take_drop_id)
  have "decodes (\<lambda>data pos. parse_root_fields data (Suc (Suc 0)) zero_module_meta pos)
     (enc_str (cstr ''iluvatar.version'') @ (enc_array_len 2 @ enc_u32 (mm_version_major m) @ enc_u32 (mm_version_minor m))
     @ enc_str (cstr ''iluvatar.kernels'') @ (enc_array_len (length ?ks) @ concat (map enc_kernel ?ks)) @ []) m"
    by (rule root_fields_step [OF root_version_at root_fields_step [OF root_kernels_at fields_done(3)]])
      (use wf ks whole in \<open>auto simp: cstr_def zero_module_meta_def\<close>)
  then show ?thesis using decodes_extras [OF assms(2)] ks(1) by (simp only: numeral_2_eq_2)
qed

lemma and_then_assoc: "and_then (and_then r (\<lambda>(x, y). f x y)) g = and_then r (\<lambda>(x, y). and_then (f x y) g)"
  by (cases r) auto

text \<open>
  C34. Round trip of the metadata: the map of a module, written in MessagePack with up to 13 fields that
  the parser does not know in front of it, each with a value of any nesting, is parsed to that module.
\<close>

theorem parse_root_roundtrip:
  assumes "module_canonical m" "\<forall>kv \<in> set extra. extra_ok kv" "length extra \<le> 13"
  shows "parse_root_metadata (enc_root extra m) zero_module_meta = Ok m"
proof -
  have "decodes (\<lambda>data pos. and_then (mp_read_map_len data pos)
      (\<lambda>(n, pos). parse_root_fields data (unat n) zero_module_meta pos)) (enc_root extra m) m"
    unfolding enc_root_def enc_key_def
    using decodes_map_header [where g = "\<lambda>n data pos. parse_root_fields data n zero_module_meta pos", OF _ decodes_root_fields [OF assms(1,2)]] assms(3) by simp
  from decodes_at [OF this, of _ "[]" "[]" 0]
  have "and_then (mp_read_map_len (enc_root extra m) 0) (\<lambda>(n, pos). parse_root_fields (enc_root extra m) (unat n) zero_module_meta pos)
      = Ok (m, length (enc_root extra m))" by simp
  then show ?thesis by (simp add: parse_root_metadata_def require_def flip: and_then_assoc)
qed

text \<open>A module with one kernel of one argument, and a field that the parser passes over.\<close>

definition sample_arg :: CorexArgMeta where
  "sample_arg = \<lparr>ar_name = cstr ''x'', ar_offset = 0, ar_size = 8, ar_kind = COREX_META_ARG_GLOBAL_BUFFER,
     ar_value_kind = cstr ''global_buffer'', ar_address_space = cstr ''global''\<rparr>"

definition sample_kernel_meta :: CorexKernelMeta where
  "sample_kernel_meta = zero_kernel_meta\<lparr>km_name := cstr ''f'', km_kernarg_segment_size := 8, km_argc := 1,
     km_args := sample_arg # replicate 31 zero_arg_meta\<rparr>"

definition sample_module_meta :: CorexModuleMeta where
  "sample_module_meta = zero_module_meta\<lparr>mm_version_major := 1, mm_kernel_count := 1,
     mm_kernels := sample_kernel_meta # replicate 31 zero_kernel_meta\<rparr>"

lemma sample_module_canonical: "module_canonical sample_module_meta"
proof -
  have a: "arg_meta_wf sample_arg" by (simp add: arg_meta_wf_def sample_arg_def cstr_def parse_arg_kind_def)
  have k: "kernel_canonical sample_kernel_meta"
    using a zero_meta_wf(1) by (auto simp: kernel_canonical_def kernel_meta_wf_def sample_kernel_meta_def zero_kernel_meta_def cstr_def)
  then have "kernel_meta_wf sample_kernel_meta" by (simp add: kernel_canonical_def)
  then show ?thesis using k zero_meta_wf(2) by (auto simp: module_canonical_def module_meta_wf_def sample_module_meta_def zero_module_meta_def)
qed

theorem parse_root_roundtrip_witness:
  "parse_root_metadata (enc_root [(cstr ''note'', MMap [(MStr [0x61], MArr [MNil])])] sample_module_meta) zero_module_meta = Ok sample_module_meta"
  by (rule parse_root_roundtrip) (auto simp: sample_module_canonical extra_ok_def cstr_def)

text \<open>
  The fuel of \<open>mp_skip\<close> is the depth of its recursion, that is of the C stack, and nothing limits it:
  an array of one element nested \<open>d\<close> times takes \<open>d + 1\<close> bytes and cannot be skipped with \<open>d\<close> levels.
\<close>

lemma mp_skip_depth: "pos + fuel \<le> d \<Longrightarrow> mp_skip fuel (replicate d 0x91 @ [0xc0]) pos = Undef"
proof (induction fuel arbitrary: pos)
  case (Suc fuel)
  then have "mp_get_u8 (replicate d 0x91 @ [0xc0]) pos = Ok (0x91, pos + 1)"
    by (simp add: mp_get_u8_def mp_need_def rd8_def nth_append)
  then show ?case using Suc.IH [of "pos + 1"] Suc.prems by simp
qed simp

end
