(* ===== verification/Modules.thy ===== *)
theory Modules
  imports Pools Strings_Codecs Metadata_Safety Samples
begin

text \<open>
  The module and kernel requests of \<^verbatim>\<open>server/runtime_server.c\<close>: an image is uploaded, its metadata parsed
  and the module loaded; kernels and global variables of a module are looked up by name; unloading a
  module takes its kernels and the aliases of its globals with it.
\<close>

section \<open>Names\<close>

text \<open>The C string in a zeroed array that the bytes were copied into.\<close>

definition c_string :: "bytes \<Rightarrow> bytes" where
  "c_string raw = takeWhile (\<lambda>b. b \<noteq> 0) raw"

text \<open>\<open>strstr\<close> finds the needle.\<close>

definition strstr :: "bytes \<Rightarrow> bytes \<Rightarrow> bool" where
  "strstr s needle \<longleftrightarrow> (\<exists>i \<in> {0..length s}. take (length needle) (drop i s) = needle)"

text \<open>A basename with the suffix of an image; \<open>raw\<close> are the bytes of the name as sent.\<close>

definition image_name_ok :: "bytes \<Rightarrow> bool" where
  "image_name_ok raw \<longleftrightarrow>
     \<not> (0x2f \<in> set (c_string raw) \<or> strstr (c_string raw) (cstr ''..'') \<or>
        length raw < 6 \<or> c_string (drop (length raw - 6) raw) \<noteq> cstr ''.cubin'')"

section \<open>Uploading an image\<close>

definition fill_module :: "u64 \<Rightarrow> bool \<Rightarrow> bytes \<Rightarrow> bytes \<Rightarrow> CorexModuleMeta \<Rightarrow> ModuleEntry \<Rightarrow> ModuleEntry" where
  "fill_module handle library img name metadata m =
     m\<lparr>m_module := handle, m_library := library, m_image := img, m_name := name, m_metadata := metadata, m_metadata_valid := True\<rparr>"

text \<open>From the checked image on: its metadata, the native module, the entry.\<close>

definition load_image :: "driver \<Rightarrow> u32 \<Rightarrow> u32 \<Rightarrow> bytes \<Rightarrow> bytes \<Rightarrow> world \<Rightarrow> (int \<times> world) option" where
  "load_image drv opcode req_id name img w =
     (case corex_parse_metadata img of
        Undef \<Rightarrow> None
      | Fail \<Rightarrow> reply drv opcode req_id ST_METADATA_ERROR [] w
      | Ok parsed_metadata \<Rightarrow>
          let (r, w) = invoke drv (Module (B_module_load img)) w
          in if o_rc r \<noteq> CUDA_SUCCESS then reply drv opcode req_id ST_CUDA_ERROR [] w
             else case new_module_slot (sess w) of
                    None \<Rightarrow>
                      (let (_, w) = invoke drv (Module (B_module_unload (o_val r))) w
                       in reply drv opcode req_id ST_NO_RESOURCE [] w)
                  | Some (i, s) \<Rightarrow>
                      (let s = upd_module i (fill_module (o_val r) (opcode = OP_UPLOAD_LIBRARY) img name parsed_metadata) s
                       in reply drv opcode req_id ST_OK (corex_protocol_write_u64 [] (m_id (modules s ! i))) (w\<lparr>sess := s\<rparr>)))"

definition handle_upload_image :: "u32 \<Rightarrow> handler" where
  "handle_upload_image opcode drv req_id p w =
     (if length p < 12 then reply drv opcode req_id ST_BAD_REQUEST [] w
      else do {
        name_len \<leftarrow> rd32 p 0;
        if name_len = 0 \<or> name_len \<ge> 128 then reply drv opcode req_id ST_BAD_REQUEST [] w
        else if 4 + unat name_len + 8 > length p then reply drv opcode req_id ST_BAD_REQUEST [] w
        else do {
          raw \<leftarrow> peek p 4 (unat name_len);
          if \<not> image_name_ok raw then reply drv opcode req_id ST_BAD_REQUEST [] w
          else do {
            let size_pos = 4 + unat name_len;
            image_size \<leftarrow> rd64 p size_pos;
            let image_pos = size_pos + 8;
            if image_size = 0 \<or> of_nat image_pos + image_size \<noteq> of_nat (length p)
            then reply drv opcode req_id ST_BAD_REQUEST [] w
            else if image_size < 4 then reply drv opcode req_id ST_BAD_REQUEST [] w
            else do {
              magic \<leftarrow> peek p image_pos 4;
              if magic \<noteq> [0x7f, 0x45, 0x4c, 0x46] then reply drv opcode req_id ST_BAD_REQUEST [] w
              else let (r, w) = invoke drv (OS (OS_malloc image_size)) w
                   in if o_ret r \<noteq> 0 then reply drv opcode req_id ST_INTERNAL [] w
                      else do {
                        img \<leftarrow> peek p image_pos (unat image_size);
                        load_image drv opcode req_id (c_string raw) img w
                      }
            }
          }
        }
      })"

definition handle_upload_module :: handler where
  "handle_upload_module = handle_upload_image OP_UPLOAD_MODULE"

definition handle_upload_library :: handler where
  "handle_upload_library = handle_upload_image OP_UPLOAD_LIBRARY"

section \<open>Globals of a module\<close>

text \<open>The alias that an earlier request made for the same variable.\<close>

definition find_alias :: "ServerSession \<Rightarrow> u64 \<Rightarrow> u64 \<Rightarrow> nat option" where
  "find_alias s module_id pointer =
     List.find (\<lambda>i. a_used (allocations s ! i) \<and> a_parent_module_id (allocations s ! i) = module_id \<and> a_ptr (allocations s ! i) = pointer)
       [0..<length (allocations s)]"

definition global_reply :: "driver \<Rightarrow> u32 \<Rightarrow> nat \<Rightarrow> world \<Rightarrow> (int \<times> world) option" where
  "global_reply drv req_id i w =
     do {
       out \<leftarrow> corex_generated_encode_cudaGetSymbolAddress_response 16 (a_id (allocations (sess w) ! i), a_size (allocations (sess w) ! i));
       reply drv OP_MODULE_GET_GLOBAL req_id ST_OK out w
     }"

definition handle_module_global :: handler where
  "handle_module_global drv req_id p w =
     (case corex_generated_decode_cudaGetSymbolAddress_request p of
        None \<Rightarrow> reply drv OP_MODULE_GET_GLOBAL req_id ST_BAD_REQUEST [] w
      | Some (module_id, name) \<Rightarrow>
          if name = [] then reply drv OP_MODULE_GET_GLOBAL req_id ST_BAD_REQUEST [] w
          else case find_module (sess w) module_id of
                 None \<Rightarrow> reply drv OP_MODULE_GET_GLOBAL req_id ST_NOT_FOUND [] w
               | Some m \<Rightarrow>
                   (let (r, w) = invoke drv (Module (B_module_global (m_module (modules (sess w) ! m)) name)) w
                    in if o_rc r \<noteq> CUDA_SUCCESS
                       then reply drv OP_MODULE_GET_GLOBAL req_id (if o_rc r = CUDA_ERROR_NOT_FOUND then ST_SYMBOL_NOT_FOUND else ST_CUDA_ERROR) [] w
                       else if o_val r = 0 \<or> o_val2 r = 0 then reply drv OP_MODULE_GET_GLOBAL req_id ST_CUDA_ERROR [] w
                       else case find_alias (sess w) (m_id (modules (sess w) ! m)) (o_val r) of
                              Some i \<Rightarrow> global_reply drv req_id i w
                            | None \<Rightarrow>
                                (case new_allocation_slot (sess w) of
                                   None \<Rightarrow> reply drv OP_MODULE_GET_GLOBAL req_id ST_NO_RESOURCE [] w
                                 | Some (i, s) \<Rightarrow>
                                     global_reply drv req_id i (w\<lparr>sess := upd_allocation i (\<lambda>a. a\<lparr>a_ptr := o_val r, a_size := o_val2 r,
                                       a_parent_module_id := m_id (modules (sess w) ! m)\<rparr>) s\<rparr>))))"

section \<open>Kernels\<close>

definition handle_library_count :: handler where
  "handle_library_count drv req_id p w =
     (case corex_generated_decode_cudaLibraryGetKernelCount_request p of
        None \<Rightarrow> reply drv OP_LIBRARY_COUNT req_id ST_BAD_REQUEST [] w
      | Some module_id \<Rightarrow>
          (case find_module (sess w) module_id of
             None \<Rightarrow> reply drv OP_LIBRARY_COUNT req_id ST_NOT_FOUND [] w
           | Some m \<Rightarrow>
               if \<not> m_library (modules (sess w) ! m) then reply drv OP_LIBRARY_COUNT req_id ST_NOT_FOUND [] w
               else do {
                 out \<leftarrow> corex_generated_encode_cudaLibraryGetKernelCount_response 4 (mm_kernel_count (m_metadata (modules (sess w) ! m)));
                 reply drv OP_LIBRARY_COUNT req_id ST_OK out w
               }))"

definition handle_library_kernel_name :: handler where
  "handle_library_kernel_name drv req_id p w =
     (case corex_generated_decode_cudaLibraryEnumerateKernels_request p of
        None \<Rightarrow> reply drv OP_LIBRARY_KERNEL_NAME req_id ST_BAD_REQUEST [] w
      | Some (module_id, index) \<Rightarrow>
          (case find_module (sess w) module_id of
             None \<Rightarrow> reply drv OP_LIBRARY_KERNEL_NAME req_id ST_NOT_FOUND [] w
           | Some m \<Rightarrow>
               let mm = m_metadata (modules (sess w) ! m)
               in if \<not> m_library (modules (sess w) ! m) then reply drv OP_LIBRARY_KERNEL_NAME req_id ST_NOT_FOUND [] w
                  else if index \<ge> mm_kernel_count mm then reply drv OP_LIBRARY_KERNEL_NAME req_id ST_BAD_REQUEST [] w
                  else if unat index \<ge> length (mm_kernels mm) then None
                  else case corex_generated_encode_cudaLibraryEnumerateKernels_response 131
                              (carray (take 127 (km_name (mm_kernels mm ! unat index)))) of
                         None \<Rightarrow> reply drv OP_LIBRARY_KERNEL_NAME req_id ST_INTERNAL [] w
                       | Some out \<Rightarrow> reply drv OP_LIBRARY_KERNEL_NAME req_id ST_OK out w))"

definition fill_kernel :: "u64 \<Rightarrow> u64 \<Rightarrow> bytes \<Rightarrow> CorexKernelMeta \<Rightarrow> KernelEntry \<Rightarrow> KernelEntry" where
  "fill_kernel module_id function name metadata k =
     k\<lparr>k_module_id := module_id, k_function := function, k_name := name, k_metadata := metadata, k_metadata_valid := True\<rparr>"

definition handle_get_kernel :: handler where
  "handle_get_kernel drv req_id p w =
     (if length p < 12 then reply drv OP_GET_KERNEL req_id ST_BAD_REQUEST [] w
      else do {
        module_id \<leftarrow> rd64 p 0;
        name_len \<leftarrow> rd32 p 8;
        if name_len = 0 \<or> name_len \<ge> 128 \<or> 12 + unat name_len \<noteq> length p
        then reply drv OP_GET_KERNEL req_id ST_BAD_REQUEST [] w
        else do {
          raw \<leftarrow> peek p 12 (unat name_len);
          let name = c_string raw;
          case find_module (sess w) module_id of
            None \<Rightarrow> reply drv OP_GET_KERNEL req_id ST_NOT_FOUND [] w
          | Some m \<Rightarrow>
              (let e = modules (sess w) ! m; missing = (if m_library e then ST_SYMBOL_NOT_FOUND else ST_METADATA_ERROR)
               in if \<not> m_metadata_valid e then reply drv OP_GET_KERNEL req_id missing [] w
                  else case corex_find_kernel_meta (m_metadata e) name of
                         None \<Rightarrow> reply drv OP_GET_KERNEL req_id missing [] w
                       | Some kernel_meta \<Rightarrow>
                           (let (r, w) = invoke drv (Module (B_module_function (m_module e) name)) w
                            in if o_rc r \<noteq> CUDA_SUCCESS then reply drv OP_GET_KERNEL req_id ST_NOT_FOUND [] w
                               else case new_kernel_slot (sess w) of
                                      None \<Rightarrow> reply drv OP_GET_KERNEL req_id ST_NO_RESOURCE [] w
                                    | Some (i, s) \<Rightarrow>
                                        (let s = upd_kernel i (fill_kernel module_id (o_val r) name kernel_meta) s
                                         in reply drv OP_GET_KERNEL req_id ST_OK (corex_protocol_write_u64 [] (k_id (kernels s ! i))) (w\<lparr>sess := s\<rparr>))))
        }
      })"

section \<open>Unloading a module\<close>

definition invalidate_module_kernels :: "u64 \<Rightarrow> ServerSession \<Rightarrow> ServerSession" where
  "invalidate_module_kernels module_id s =
     s\<lparr>kernels := map (\<lambda>k. if \<not> k_used k \<or> k_module_id k \<noteq> module_id then k else zero_kernel) (kernels s)\<rparr>"

definition drop_aliases :: "u64 \<Rightarrow> ServerSession \<Rightarrow> ServerSession" where
  "drop_aliases module_id s =
     s\<lparr>allocations := map (\<lambda>a. if a_used a \<and> a_parent_module_id a = module_id then zero_allocation else a) (allocations s)\<rparr>"

definition handle_unload_module :: handler where
  "handle_unload_module drv req_id p w =
     (if length p \<noteq> 8 then reply drv OP_UNLOAD_MODULE req_id ST_BAD_REQUEST [] w
      else do {
        module_id \<leftarrow> rd64 p 0;
        case find_module (sess w) module_id of
          None \<Rightarrow> reply drv OP_UNLOAD_MODULE req_id ST_NOT_FOUND [] w
        | Some m \<Rightarrow>
            (let (rc, w) = lifetime_context_barrier drv w
             in if rc \<noteq> 0 then reply drv OP_UNLOAD_MODULE req_id ST_CUDA_ERROR [] w
                else let w = put_sess (invalidate_module_kernels module_id) w;
                         (r, w) = invoke drv (Module (B_module_unload (m_module (modules (sess w) ! m)))) w
                     in if o_rc r \<noteq> CUDA_SUCCESS then reply drv OP_UNLOAD_MODULE req_id ST_CUDA_ERROR [] w
                        else reply drv OP_UNLOAD_MODULE req_id ST_OK []
                               (put_sess (upd_module m (\<lambda>_. zero_module) \<circ> drop_aliases module_id) w))
      })"

section \<open>Every request is served safely\<close>

lemma parsed: "corex_parse_metadata img \<noteq> Undef" "corex_parse_metadata img = Ok mm \<Longrightarrow> module_meta_ok mm"
  using parse_metadata_post [of img] by (auto simp: post_def intro: module_meta_wf_ok)

lemma new_module_upd:
  assumes "session_inv n s" "n < 18446744073709551615" "new_module_slot s = Some (i, s')" "module_meta_ok mm"
  shows "session_inv (Suc n) (upd_module i (fill_module h lib img name mm) s')" "no_revival s s'" "transfers s' = transfers s"
  using new_module_slot_inv [OF assms(1) _ assms(3)] new_slot_no_revival(2) [OF assms(1,2,3)] assms(2,4)
  by (auto simp: fill_module_def intro!: upd_module_inv)

lemma load_image_serves:
  assumes "ready n w w1" "session_inv n (sess w)" "sess w1 = sess w" "Suc n < 2 ^ 64"
  shows "ends (load_image drv opcode req_id name img w1) (safely_served n drv opcode req_id w)"
proof (cases "corex_parse_metadata img")
  case Undef
  then show ?thesis by (simp add: parsed)
next
  case Fail
  then show ?thesis using assms(1) by (simp add: load_image_def ready_reply)
next
  case (Ok mm)
  let ?w2 = "snd (invoke drv (Module (B_module_load img)) w1)"
  have w2: "ready n w ?w2" by (intro ready_call assms(1)) (simp_all add: call_in_bounds_def pin_call_def)
  moreover have "ready n w (?w2\<lparr>sess := upd_module i (fill_module h lib img name mm) s\<rparr>)"
    if "new_module_slot (sess w) = Some (i, s)" for i s h lib
    using new_module_upd [OF assms(2) _ that parsed(2) [OF Ok]] w2 assms(3,4) by (simp add: ready_def fill_module_def)
  ultimately show ?thesis
    using assms(3) unfolding load_image_def Ok parse.simps
    by (auto simp: Let_def invoke_case call_in_bounds_def pin_call_def wire_simps split: option.split intro!: ready_reply ready_call)
qed

lemma upload_image_serves:
  assumes "session_inv n (sess w)" "Suc n < 2 ^ 64" "length p < 2 ^ 32"
  shows "ends (handle_upload_image opcode drv req_id p w) (safely_served n drv opcode req_id w)"
proof -
  have room: "image_pos + unat sz \<le> length p" if "of_nat image_pos + sz = (of_nat (length p) :: u64)" "image_pos \<le> length p" for sz image_pos
  proof -
    have "sz = of_nat (length p) - of_nat image_pos" using that(1) by (simp add: algebra_simps)
    then have "sz = of_nat (length p - image_pos)" using that(2) by (simp add: of_nat_diff)
    then have "unat sz = length p - image_pos" using assms(3) by (simp add: unat_of_nat)
    then show ?thesis using that(2) by simp
  qed
  have size: "12 + unat nl + unat sz \<le> length p" if "12 + ucast nl + sz = (of_nat (length p) :: u64)" "12 + unat nl \<le> length p" for nl :: u32 and sz
    using room [of "12 + unat nl" sz] that by simp
  have "ready n w (snd (invoke drv (OS (OS_malloc k)) w))" for k
    using assms(1) by (intro ready_call ready_refl) (simp_all add: call_in_bounds_def pin_call_def)
  then show ?thesis
    using assms unfolding handle_upload_image_def Let_def
    by (auto simp: invoke_case peek_def word_less_nat_alt dest: size intro!: ready_reply load_image_serves)
qed

interpretation upload_module: safe_handler handle_upload_module OP_UPLOAD_MODULE
  by unfold_locales (simp add: handle_upload_module_def upload_image_serves)

interpretation upload_library: safe_handler handle_upload_library OP_UPLOAD_LIBRARY
  by unfold_locales (simp add: handle_upload_library_def upload_image_serves)

lemma find_module_live:
  assumes "find_module s k = Some m"
  shows "m < length (modules s)" "m_used (modules s ! m)" "m_id (modules s ! m) = k" "live_module (modules s) k"
  using find_slot_Some [OF assms [unfolded find_module_def]] live_module_nth [of m "modules s"] by auto

lemma new_alias_ready:
  assumes "ready n w w1" "session_inv n (sess w)" "sess w1 = sess w" "Suc n < 2 ^ 64"
    "new_allocation_slot (sess w) = Some (i, s)" "live_module (modules (sess w)) k"
  shows "ready n w (w1\<lparr>sess := upd_allocation i (\<lambda>a. a\<lparr>a_ptr := v, a_size := b, a_parent_module_id := k\<rparr>) s\<rparr>)"
proof -
  have n: "n < 18446744073709551615" using assms(4) by simp
  note new = new_allocation_slot_inv [OF assms(2,4,5)]
  have "session_inv (Suc n) (upd_allocation i (\<lambda>a. a\<lparr>a_ptr := v, a_size := b, a_parent_module_id := k\<rparr>) s)"
    using new assms(6) by (intro upd_allocation_inv) auto
  then show ?thesis
    using new_slot_no_revival(1) [OF assms(2) n assms(5)] new assms(1,3) by (auto simp: ready_def)
qed

interpretation module_global: safe_handler handle_module_global OP_MODULE_GET_GLOBAL
proof
  fix n and w :: world and p :: bytes and drv :: driver and req_id :: u32
  assume a: "session_inv n (sess w)" "Suc n < 2 ^ 64" "length p < 2 ^ 32"
  have c: "ready n w (snd (invoke drv (Module (B_module_global h nm)) w))" for h nm
    using a(1) by (intro ready_call ready_refl) (simp_all add: call_in_bounds_def pin_call_def)
  show "ends (handle_module_global drv req_id p w) (safely_served n drv OP_MODULE_GET_GLOBAL req_id w)"
    using a c
    by (auto simp: handle_module_global_def global_reply_def Let_def invoke_case
        corex_generated_encode_cudaGetSymbolAddress_response_def wire_simps
        split: option.split intro!: ready_reply new_alias_ready dest: find_module_live(3,4))
qed

interpretation library_count: safe_handler handle_library_count OP_LIBRARY_COUNT
  by unfold_locales
    (auto simp: handle_library_count_def corex_generated_encode_cudaLibraryGetKernelCount_response_def wire_simps
      split: option.split intro!: ready_reply)

interpretation library_kernel_name: safe_handler handle_library_kernel_name OP_LIBRARY_KERNEL_NAME
proof
  fix n and w :: world and p :: bytes and drv :: driver and req_id :: u32
  assume a: "session_inv n (sess w)" "Suc n < 2 ^ 64" "length p < 2 ^ 32"
  have short: "length out < 4294967296" if "corex_generated_encode_cudaLibraryEnumerateKernels_response 131 (carray m) = Some out" for m out
    using that by (auto simp: corex_generated_encode_cudaLibraryEnumerateKernels_response_def bind_eq_Some_conv split: prod.splits if_splits)
  have "unat index < length (mm_kernels (m_metadata (modules (sess w) ! m)))"
    if "find_module (sess w) k = Some m" "\<not> mm_kernel_count (m_metadata (modules (sess w) ! m)) \<le> index" for k m index
  proof -
    have "module_meta_ok (m_metadata (modules (sess w) ! m))"
      using a(1) find_module_live(1) [OF that(1)] by (simp add: session_inv_def module_inv_def)
    then show ?thesis using that(2) by (auto simp: module_meta_ok_def word_le_nat_alt)
  qed
  then show "ends (handle_library_kernel_name drv req_id p w) (safely_served n drv OP_LIBRARY_KERNEL_NAME req_id w)"
    using a(1)
    by (auto simp: handle_library_kernel_name_def Let_def linorder_not_less [symmetric] split: option.split intro!: ready_reply dest: short)
qed

lemma found_kernel_meta_ok:
  assumes "session_inv n s" "find_module s k = Some m" "corex_find_kernel_meta (m_metadata (modules s ! m)) name = Some km"
  shows "kernel_meta_ok km"
proof -
  have "module_meta_ok (m_metadata (modules s ! m))"
    using assms(1) find_module_live(1) [OF assms(2)] by (simp add: session_inv_def module_inv_def)
  moreover have "km \<in> set (mm_kernels (m_metadata (modules s ! m)))"
    using assms(3) unfolding corex_find_kernel_meta_def by (metis find_Some_iff in_set_conv_nth in_set_takeD)
  ultimately show ?thesis by (simp add: module_meta_ok_def)
qed

lemma new_kernel_ready:
  assumes "ready n w w1" "session_inv n (sess w)" "sess w1 = sess w" "Suc n < 2 ^ 64"
    "new_kernel_slot (sess w) = Some (i, s)" "live_module (modules (sess w)) k" "kernel_meta_ok km"
  shows "ready n w (w1\<lparr>sess := upd_kernel i (fill_kernel k f name km) s\<rparr>)"
proof -
  have n: "n < 18446744073709551615" using assms(4) by simp
  note new = new_kernel_slot_inv [OF assms(2,4,5,6)]
  have len: "i < length (kernels s)" using new assms(2) by (auto simp: session_inv_def kernel_inv_def)
  have "session_inv (Suc n) (upd_kernel i (\<lambda>e. fill_kernel k f name km e) (upd_kernel i (\<lambda>e. e\<lparr>k_module_id := k\<rparr>) s))"
    using assms(6,7) new by (intro upd_kernel_inv [OF conjunct1 [OF new]]) (auto simp: upd_kernel_def fill_kernel_def)
  moreover have "upd_kernel i (\<lambda>e. fill_kernel k f name km e) (upd_kernel i (\<lambda>e. e\<lparr>k_module_id := k\<rparr>) s)
      = upd_kernel i (fill_kernel k f name km) s"
    using len by (simp add: upd_kernel_def fill_kernel_def)
  ultimately show ?thesis
    using new_slot_no_revival(3) [OF assms(2) n assms(5)] new assms(1,3) by (auto simp: ready_def fill_kernel_def)
qed

interpretation get_kernel: safe_handler handle_get_kernel OP_GET_KERNEL
proof
  fix n and w :: world and p :: bytes and drv :: driver and req_id :: u32
  assume a: "session_inv n (sess w)" "Suc n < 2 ^ 64" "length p < 2 ^ 32"
  have "ready n w (snd (invoke drv (Module (B_module_function h nm)) w))" for h nm
    using a(1) by (intro ready_call ready_refl) (simp_all add: call_in_bounds_def pin_call_def)
  then show "ends (handle_get_kernel drv req_id p w) (safely_served n drv OP_GET_KERNEL req_id w)"
    using a
    by (auto simp: handle_get_kernel_def Let_def invoke_case peek_def wire_simps
        split: option.split intro!: ready_reply new_kernel_ready dest: find_module_live(3,4) found_kernel_meta_ok)
qed

lemma persists_map:
  assumes "persists used ident nxt t nxt' t'" "\<And>e. used (f e) \<Longrightarrow> f e = e"
  shows "persists used ident nxt t nxt' (map f t')"
  unfolding persists_def
proof (intro conjI allI impI)
  show "nxt \<le> nxt'" using assms(1) by (simp add: persists_def)
  fix i assume i: "i < length (map f t')" "used (map f t' ! i)"
  then have "map f t' ! i = t' ! i" using assms(2) [of "t' ! i"] by simp
  then show "nxt \<le> ident (map f t' ! i) \<or> (\<exists>j < length t. used (t ! j) \<and> ident (t ! j) = ident (map f t' ! i))"
    using assms(1) i by (simp add: persists_def)
qed

lemma table_inv_map:
  assumes "table_inv used ident nxt t" "\<And>e. used (f e) \<Longrightarrow> f e = e"
  shows "table_inv used ident nxt (map f t)"
proof -
  have "used (t ! i) \<and> ident (f (t ! i)) = ident (t ! i)" if "used (f (t ! i))" for i
    using assms(2) [OF that] that by simp
  then show ?thesis using assms(1) by (auto simp: table_inv_def)
qed

definition keep_kernel :: "u64 \<Rightarrow> KernelEntry \<Rightarrow> KernelEntry" where
  "keep_kernel module_id k = (if \<not> k_used k \<or> k_module_id k \<noteq> module_id then k else zero_kernel)"

definition keep_allocation :: "u64 \<Rightarrow> Allocation \<Rightarrow> Allocation" where
  "keep_allocation module_id a = (if a_used a \<and> a_parent_module_id a = module_id then zero_allocation else a)"

lemma keep_used:
  "k_used (keep_kernel m k) \<Longrightarrow> keep_kernel m k = k" "a_used (keep_allocation m a) \<Longrightarrow> keep_allocation m a = a"
  by (auto simp: keep_kernel_def keep_allocation_def split: if_splits)

lemma keep_gone:
  "k_used (keep_kernel m k) \<Longrightarrow> k_module_id (keep_kernel m k) \<noteq> m"
  "a_used (keep_allocation m a) \<Longrightarrow> a_parent_module_id (keep_allocation m a) \<noteq> m"
  by (auto simp: keep_kernel_def keep_allocation_def split: if_splits)

lemma invalidated: "invalidate_module_kernels m s = s\<lparr>kernels := map (keep_kernel m) (kernels s)\<rparr>"
  "drop_aliases m s = s\<lparr>allocations := map (keep_allocation m) (allocations s)\<rparr>"
  by (simp_all add: invalidate_module_kernels_def keep_kernel_def drop_aliases_def keep_allocation_def cong: if_cong)

lemma invalidate_inv:
  assumes "session_inv n s"
  shows "session_inv n (invalidate_module_kernels m s)" "session_inv n (drop_aliases m s)"
    "no_revival s (invalidate_module_kernels m s)" "no_revival s (drop_aliases m s)"
proof -
  have "kernel_inv n (map (keep_kernel m) (kernels s)) (next_kernel_id s) (modules s)"
    using assms unfolding session_inv_def kernel_inv_def by (auto simp: keep_used table_inv_map) (auto simp: keep_kernel_def split: if_splits)
  then show "session_inv n (invalidate_module_kernels m s)" using assms by (simp add: session_inv_def invalidated)
  have "alloc_inv n (map (keep_allocation m) (allocations s)) (next_alloc_id s) (modules s)"
    using assms unfolding session_inv_def alloc_inv_def by (auto simp: keep_used table_inv_map) (metis keep_used(2))
  then show "session_inv n (drop_aliases m s)" using assms by (simp add: session_inv_def invalidated)
  show "no_revival s (invalidate_module_kernels m s)" "no_revival s (drop_aliases m s)"
    by (simp_all add: no_revival_def invalidated persists_map keep_used)
qed

lemma unload_ready:
  assumes "ready n w w1" "sess w1 = invalidate_module_kernels k (sess w)" "session_inv n (sess w)" "find_module (sess w) k = Some m"
  shows "ready n w (w1\<lparr>sess := upd_module m (\<lambda>_. zero_module) (drop_aliases k (sess w1))\<rparr>)"
proof -
  let ?s = "drop_aliases k (sess w1)"
  have m: "m < MAX_MODULES" "m_id (modules (sess w) ! m) = k"
    using find_module_live [OF assms(4)] assms(3) by (auto simp: session_inv_def module_inv_def)
  have inv: "session_inv (Suc n) ?s" "no_revival (sess w) ?s"
    using assms(1) invalidate_inv(2,4) [of "Suc n" "sess w1" k] no_revival_trans by (auto simp: ready_def)
  have "session_inv (Suc n) (upd_module m (\<lambda>_. zero_module) ?s)"
    by (rule erase_module_inv [OF inv(1) m(1)]) (use keep_gone m(2) assms(2) in \<open>auto simp: invalidated\<close>)
  then show ?thesis using assms(1) inv(2) by (simp add: ready_def invalidated)
qed

interpretation unload_module: safe_handler handle_unload_module OP_UNLOAD_MODULE
proof
  fix n and w :: world and p :: bytes and drv :: driver and req_id :: u32
  assume a: "session_inv n (sess w)" "Suc n < 2 ^ 64" "length p < 2 ^ 32"
  let ?b = "snd (invoke drv (Ctx B_context_sync) w)"
  have b: "ready n w ?b" using a(1) by (intro ready_call ready_refl) (simp_all add: call_in_bounds_def pin_call_def)
  have r: "ready n w (snd (invoke drv (Module (B_module_unload h)) (?b\<lparr>sess := invalidate_module_kernels k (sess w)\<rparr>)))" for k h
    using b invalidate_inv(1,3) [OF a(1), of k] by (intro ready_call) (auto simp: ready_def call_in_bounds_def pin_call_def invalidated)
  show "ends (handle_unload_module drv req_id p w) (safely_served n drv OP_UNLOAD_MODULE req_id w)"
    using a(1) b r unload_ready [OF r _ a(1)]
    by (auto simp: handle_unload_module_def lifetime_context_barrier_def Let_def invoke_case split: option.split intro!: ready_reply)
qed

section \<open>What a client sees of modules and kernels\<close>

definition module_map :: "ServerSession \<Rightarrow> (u64 \<rightharpoonup> ModuleEntry)" where
  "module_map s = slot_map m_used m_id (modules s)"

definition kernel_map :: "ServerSession \<Rightarrow> (u64 \<rightharpoonup> KernelEntry)" where
  "kernel_map s = slot_map k_used k_id (kernels s)"

definition allocation_map :: "ServerSession \<Rightarrow> (u64 \<rightharpoonup> Allocation)" where
  "allocation_map s = slot_map a_used a_id (allocations s)"

text \<open>The entries that do not satisfy \<open>P\<close>.\<close>

definition without :: "('e \<Rightarrow> bool) \<Rightarrow> (u64 \<rightharpoonup> 'e) \<Rightarrow> (u64 \<rightharpoonup> 'e)" where
  "without P m k = (case m k of None \<Rightarrow> None | Some e \<Rightarrow> if P e then None else Some e)"

lemma slot_map_erased:
  assumes "table_inv used ident nxt t" "\<And>e. f e = (if used e \<and> P e then blank else e)" "\<not> used blank"
  shows "slot_map used ident (map f t) = without P (slot_map used ident t)"
proof (rule ext)
  fix key
  show "slot_map used ident (map f t) key = without P (slot_map used ident t) key"
  proof (cases "find_slot used ident t key")
    case None
    then have "find_slot used ident (map f t) key = None"
      using assms(2,3) by (auto simp: find_slot_None split: if_splits)
    then show ?thesis using None by (simp add: slot_map_def without_def)
  next
    case (Some i)
    note i = find_slot_Some [OF Some]
    show ?thesis
    proof (cases "P (t ! i)")
      case True
      have "used (f (t ! j)) \<longrightarrow> ident (f (t ! j)) \<noteq> key" if "j < length t" for j
        using find_slot_eqI [OF assms(1) that] Some True assms(2,3) by (cases "j = i") (auto split: if_splits)
      then have "find_slot used ident (map f t) key = None" by (simp add: find_slot_None)
      then show ?thesis using Some True by (simp add: slot_map_def without_def)
    next
      case False
      have "table_inv used ident nxt (map f t)"
        by (rule table_inv_map [OF assms(1)]) (use assms(2,3) in \<open>auto split: if_splits\<close>)
      then have "find_slot used ident (map f t) key = Some i"
        by (rule find_slot_eqI) (use i False assms(2) in auto)
      then show ?thesis using Some False i assms(2) by (simp add: slot_map_def without_def)
    qed
  qed
qed

text \<open>
  C17. Unloading a module refines three deletions at once: its key leaves the map of modules, and every
  kernel and every alias of a global variable of that module leaves its map, while everything else
  stays. The kernels go as soon as the context barrier succeeded, so a driver that then refuses to
  unload leaves the module without its kernels.
\<close>

theorem unload_module_cascade:
  assumes "session_inv n (sess w)" "length p = 8" "k = corex_protocol_read_u64 p" "find_module (sess w) k = Some m"
  shows "ends (handle_unload_module drv req_id p w) (\<lambda>rc w'.
    let idle = (o_rc (drv (calls w) (Ctx B_context_sync)) = CUDA_SUCCESS);
        gone = (idle \<and> o_rc (drv (Ctx B_context_sync # calls w) (Module (B_module_unload (m_module (modules (sess w) ! m))))) = CUDA_SUCCESS)
    in module_map (sess w') = (if gone then (module_map (sess w))(k := None) else module_map (sess w)) \<and>
       kernel_map (sess w') = (if idle then without (\<lambda>e. k_module_id e = k) (kernel_map (sess w)) else kernel_map (sess w)) \<and>
       allocation_map (sess w') = (if gone then without (\<lambda>a. a_parent_module_id a = k) (allocation_map (sess w)) else allocation_map (sess w)))"
proof -
  have t: "table_inv k_used k_id (next_kernel_id (sess w)) (kernels (sess w))"
    "table_inv a_used a_id (next_alloc_id (sess w)) (allocations (sess w))"
    "table_inv m_used m_id (next_module_id (sess w)) (modules (sess w))"
    using assms(1) by (simp_all add: session_inv_def kernel_inv_def alloc_inv_def module_inv_def)
  have "slot_map k_used k_id (map (keep_kernel k) (kernels (sess w))) = without (\<lambda>e. k_module_id e = k) (kernel_map (sess w))"
    unfolding kernel_map_def by (rule slot_map_erased [OF t(1), where blank = zero_kernel]) (auto simp: keep_kernel_def)
  moreover have "slot_map a_used a_id (map (keep_allocation k) (allocations (sess w))) = without (\<lambda>a. a_parent_module_id a = k) (allocation_map (sess w))"
    unfolding allocation_map_def by (rule slot_map_erased [OF t(2), where blank = zero_allocation]) (auto simp: keep_allocation_def)
  moreover have "slot_map m_used m_id ((modules (sess w))[m := zero_module]) = (module_map (sess w))(k := None)"
    unfolding module_map_def using module_tab.map_erase [OF t(3)] assms(4) by (simp add: find_module_def)
  ultimately show ?thesis
    using assms(2,4) unfolding handle_unload_module_def
    by (simp add: assms(3) [symmetric] lifetime_context_barrier_def Let_def invoke_case)
      (simp add: module_map_def kernel_map_def allocation_map_def invalidated upd_module_def)
qed

text \<open>
  The code of a module is unloaded only behind a context synchronisation that succeeded, so no
  submitted kernel can still be running it.
\<close>

theorem unload_module_fenced:
  "ends (handle_unload_module drv req_id p w) (\<lambda>rc w'. fences drv (calls w) (calls w'))"
  unfolding handle_unload_module_def lifetime_context_barrier_def
  by (auto simp: Let_def invoke_def barrier_for_def split: option.split)

text \<open>A slot that is claimed and filled in at once is a slot of the same table.\<close>

lemma kernel_map_new:
  assumes "session_inv n s" "new_kernel_slot s = Some (i, s')"
  shows "kernel_map (upd_kernel i (fill_kernel m f name km) s')
      = (kernel_map s)(next_kernel_id s \<mapsto> fill_kernel m f name km (fresh_kernel (next_kernel_id s)))"
    "k_id (kernels (upd_kernel i (fill_kernel m f name km) s') ! i) = next_kernel_id s"
proof -
  have filled: "slot_table k_used k_id zero_kernel (\<lambda>n. fill_kernel m f name km (fresh_kernel n))"
    by unfold_locales (simp_all add: zero_kernel_def fill_kernel_def fresh_kernel_def)
  have t: "table_inv k_used k_id (next_kernel_id s) (kernels s)"
    using assms(1) by (simp add: session_inv_def kernel_inv_def)
  obtain t' nxt where ns: "new_slot k_used fresh_kernel (kernels s) (next_kernel_id s) = Some (i, t', nxt)" "s' = s\<lparr>kernels := t', next_kernel_id := nxt\<rparr>"
    using assms(2) by (auto simp: new_kernel_slot_def split: option.splits)
  then have i: "i < length (kernels s)" "t' = (kernels s)[i := fresh_kernel (next_kernel_id s)]"
    by (auto simp: new_slot_Some dest: free_slot_Some)
  have "new_slot k_used (\<lambda>n. fill_kernel m f name km (fresh_kernel n)) (kernels s) (next_kernel_id s)
      = Some (i, (kernels s)[i := fill_kernel m f name km (fresh_kernel (next_kernel_id s))], nxt)"
    using ns(1) by (simp add: new_slot_Some)
  from slot_table.map_new [OF filled t this]
  show "kernel_map (upd_kernel i (fill_kernel m f name km) s')
      = (kernel_map s)(next_kernel_id s \<mapsto> fill_kernel m f name km (fresh_kernel (next_kernel_id s)))"
    using i by (simp add: kernel_map_def upd_kernel_def ns(2))
  show "k_id (kernels (upd_kernel i (fill_kernel m f name km) s') ! i) = next_kernel_id s"
    using i by (simp add: ns(2) upd_kernel_def fill_kernel_def fresh_kernel_def)
qed

text \<open>
  C37. Looking up a kernel refines the insertion of a fresh key: when the module is alive, its metadata
  lists a kernel of that name, the driver knows the function and a slot is free, the answer carries an
  identifier that named no kernel and now names that function with the metadata of exactly that kernel;
  otherwise the map of kernels is unchanged.
\<close>

theorem get_kernel_refines:
  assumes "session_inv n (sess w)" "find_module (sess w) k = Some m" "0 < length raw" "length raw < 128" "name = c_string raw"
  shows "ends (handle_get_kernel drv req_id (be64 k @ be32 (of_nat (length raw)) @ raw) w) (\<lambda>rc w'.
    let e = modules (sess w) ! m; r = drv (calls w) (Module (B_module_function (m_module e) name)); id = next_kernel_id (sess w)
    in kernel_map (sess w) id = None \<and>
       (case corex_find_kernel_meta (m_metadata e) name of
          None \<Rightarrow> kernel_map (sess w') = kernel_map (sess w)
        | Some km \<Rightarrow>
            if m_metadata_valid e \<and> o_rc r = CUDA_SUCCESS \<and> free_slot k_used (kernels (sess w)) \<noteq> None
            then kernel_map (sess w') = (kernel_map (sess w))(id \<mapsto> fill_kernel k (o_val r) name km (fresh_kernel id)) \<and>
                 (rc = 0 \<longrightarrow> sent w' = sent w @ corex_protocol_encode_response_header OP_GET_KERNEL req_id ST_OK 8 @ be64 id)
            else kernel_map (sess w') = kernel_map (sess w)))"
proof -
  have fresh: "kernel_map (sess w) (next_kernel_id (sess w)) = None"
    using kernel_tab.map_new_fresh assms(1) by (simp add: kernel_map_def session_inv_def kernel_inv_def)
  have full: "free_slot k_used (kernels (sess w)) = None \<longleftrightarrow> new_kernel_slot (sess w) = None"
    by (auto simp: new_kernel_slot_def new_slot_def split: option.splits)
  have len: "unat (of_nat (length raw) :: u32) = length raw" "(of_nat (length raw) :: u32) \<noteq> 0" "\<not> 128 \<le> (of_nat (length raw) :: u32)"
    using assms(3,4) by (simp_all add: unat_of_nat word_le_nat_alt unat_eq_zero [symmetric] del: unat_eq_zero) 
  show ?thesis
    using fresh full assms(2-5) len kernel_map_new [OF assms(1)]
    by (auto simp: handle_get_kernel_def Let_def invoke_def peek_def wire_simps send_response_sent read_be_exact split: option.split)
qed

lemma find_alias_new:
  assumes "session_inv n s" "Suc n < 2 ^ 64" "new_allocation_slot s = Some (i, s')"
  shows "find_alias (upd_allocation i (\<lambda>a. a\<lparr>a_ptr := ptr, a_size := b, a_parent_module_id := m\<rparr>) s') m ptr \<noteq> None"
proof -
  have "i < length (allocations s')" "a_used (allocations s' ! i)"
    using new_allocation_slot_inv [OF assms] assms(1) by (auto simp: session_inv_def alloc_inv_def fresh_allocation_def)
  then show ?thesis by (auto simp: find_alias_def find_upt_None upd_allocation_def intro!: exI [of _ i])
qed

text \<open>
  C38. A global variable has one alias: a second request for the same variable, while the driver keeps
  answering the same address, leaves the session as the first one left it, whatever the first answered.
\<close>

theorem module_global_idempotent:
  assumes "session_inv n (sess w)" "Suc n < 2 ^ 64"
    "\<And>h h' m name. drv h (Module (B_module_global m name)) = drv h' (Module (B_module_global m name))"
  shows "ends (handle_module_global drv r1 p w) (\<lambda>_ w1. ends (handle_module_global drv r2 p w1) (\<lambda>_ w2. sess w2 = sess w1))"
proof -
  have slot: "find_module (upd_allocation i f s) = find_module (sess w)" "modules (upd_allocation i f s) = modules (sess w)"
    if "new_allocation_slot (sess w) = Some (i, s)" for i s f
    using new_allocation_slot_inv [OF assms(1,2) that]
    by (auto simp: find_module_def upd_allocation_def fun_eq_iff)
  have enc: "corex_generated_encode_cudaGetSymbolAddress_response 16 (a, b) = Some (be64 a @ be64 b)" for a b
    by (simp add: corex_generated_encode_cudaGetSymbolAddress_response_def wire_simps)
  define answer where "answer = (\<lambda>m name. drv [] (Module (B_module_global m name)))"
  have "drv h (Module (B_module_global m name)) = answer m name" for h m name
    unfolding answer_def by (rule assms(3))
  then show ?thesis
    using slot unfolding handle_module_global_def global_reply_def Let_def invoke_case
    by (auto simp: enc split: option.split) (use find_alias_new [OF assms(1,2)] in blast)
qed

section \<open>Witnesses\<close>

text \<open>A session with one module of one kernel, that kernel looked up, and one alias of a global.\<close>

definition one_kernel_meta :: CorexKernelMeta where
  "one_kernel_meta = zero_kernel_meta\<lparr>km_name := cstr ''f''\<rparr>"

definition one_module_meta :: CorexModuleMeta where
  "one_module_meta = zero_module_meta\<lparr>mm_kernel_count := 1, mm_kernels := one_kernel_meta # replicate 31 zero_kernel_meta\<rparr>"

definition one_module :: ModuleEntry where
  "one_module = fill_module 500 False [0x7f] (cstr ''a.cubin'') one_module_meta (fresh_module 1)"

definition one_kernel :: KernelEntry where
  "one_kernel = fill_kernel 1 600 (cstr ''f'') one_kernel_meta (fresh_kernel 1)"

definition one_alias :: Allocation where
  "one_alias = (fresh_allocation 1)\<lparr>a_ptr := 4096, a_size := 64, a_parent_module_id := 1\<rparr>"

definition module_world :: world where
  "module_world = init_world\<lparr>sess := server_session_init\<lparr>
     modules := (replicate MAX_MODULES zero_module)[0 := one_module], next_module_id := 2,
     kernels := (replicate MAX_KERNELS zero_kernel)[0 := one_kernel], next_kernel_id := 2,
     allocations := (replicate MAX_ALLOCS zero_allocation)[0 := one_alias], next_alloc_id := 2\<rparr>\<rparr>"

lemma one_simps [simp]:
  "m_used one_module" "m_id one_module = 1" "m_module one_module = 500" "m_metadata one_module = one_module_meta" "m_metadata_valid one_module"
  "k_used one_kernel" "k_id one_kernel = 1" "k_module_id one_kernel = 1" "k_metadata one_kernel = one_kernel_meta"
  "a_used one_alias" "a_id one_alias = 1" "a_parent_module_id one_alias = 1"
  by (simp_all add: one_module_def one_kernel_def one_alias_def fill_module_def fill_kernel_def fresh_module_def fresh_kernel_def fresh_allocation_def)

lemma table_inv_single: "\<not> used z \<Longrightarrow> used e \<Longrightarrow> ident e = 1 \<Longrightarrow> table_inv used ident 2 ((replicate n z)[0 := e])"
  by (auto simp: table_inv_def nth_upd split: if_splits)

lemma one_metas_ok: "kernel_meta_ok one_kernel_meta" "module_meta_ok one_module_meta"
  by (auto simp: kernel_meta_ok_def module_meta_ok_def one_kernel_meta_def one_module_meta_def zero_kernel_meta_def zero_module_meta_def)

lemma set_single: "x \<in> set ((replicate n z)[0 := e]) \<Longrightarrow> x = z \<or> x = e"
  by (auto dest!: set_upd_subset)

lemma module_world_inv: "session_inv 2 (sess module_world)"
proof -
  have live: "live_module ((replicate MAX_MODULES zero_module)[0 := one_module]) 1"
    using live_module_nth [of 0 "(replicate MAX_MODULES zero_module)[0 := one_module]"] by simp
  have "alloc_inv 2 (allocations (sess module_world)) 2 (modules (sess module_world))"
    using live by (auto simp: module_world_def alloc_inv_def table_inv_single dest!: set_single)
  moreover have "module_inv 2 (modules (sess module_world)) 2"
    by (auto simp: module_world_def module_inv_def table_inv_single one_metas_ok dest!: set_single)
  moreover have "kernel_inv 2 (kernels (sess module_world)) 2 (modules (sess module_world))"
    using live by (auto simp: module_world_def kernel_inv_def table_inv_single one_metas_ok dest!: set_single)
  ultimately show ?thesis
    using session_inv_mono [OF session_inv_init, of 2] by (simp add: session_inv_def) (simp add: module_world_def)
qed

lemma module_world_find: "find_module (sess module_world) 1 = Some 0"
  unfolding find_module_def
  by (rule find_slot_eqI [where nxt = 2]) (simp_all add: module_world_def table_inv_single)

lemma module_world_maps:
  "module_map (sess module_world) = [1 \<mapsto> one_module]" "kernel_map (sess module_world) = [1 \<mapsto> one_kernel]"
  "allocation_map (sess module_world) = [1 \<mapsto> one_alias]"
proof -
  have single: "slot_map used ident ((replicate (Suc n) z)[0 := e]) = [1 \<mapsto> e]" if "\<not> used z" "used e" "ident e = 1" for used ident n z e
  proof (rule ext)
    fix key :: u64
    have "find_slot used ident ((replicate (Suc n) z)[0 := e]) 1 = Some 0"
      by (rule find_slot_eqI [OF table_inv_single]) (use that in auto)
    moreover have "find_slot used ident ((replicate (Suc n) z)[0 := e]) key = None" if "key \<noteq> 1"
      using that \<open>\<not> used z\<close> \<open>ident e = 1\<close> by (auto simp: find_slot_None nth_Cons' split: if_splits)
    ultimately show "slot_map used ident ((replicate (Suc n) z)[0 := e]) key = [1 \<mapsto> e] key"
      by (cases "key = 1") (simp_all add: slot_map_def)
  qed
  show "module_map (sess module_world) = [1 \<mapsto> one_module]" "kernel_map (sess module_world) = [1 \<mapsto> one_kernel]"
    "allocation_map (sess module_world) = [1 \<mapsto> one_alias]"
    using single [of m_used zero_module one_module m_id 31] single [of k_used zero_kernel one_kernel k_id 127]
      single [of a_used zero_allocation one_alias a_id 63]
    by (simp_all add: module_map_def kernel_map_def allocation_map_def module_world_def)
qed

theorem unload_module_cascade_witness:
  "ends (handle_unload_module (ok_driver 0) 7 (be64 1) module_world) (\<lambda>rc w'.
     module_map (sess w') = Map.empty \<and> kernel_map (sess w') = Map.empty \<and> allocation_map (sess w') = Map.empty)"
  using unload_module_cascade [OF module_world_inv, of "be64 1" 1 0 "ok_driver 0" 7] module_world_find read_u64_be [of 1 "[]"]
  by (auto elim!: ends_mono simp: module_world_maps without_def fun_eq_iff Let_def)

theorem get_kernel_refines_witness:
  "ends (handle_get_kernel (ok_driver 700) 7 (be64 1 @ be32 1 @ cstr ''f'') module_world) (\<lambda>rc w'.
     kernel_map (sess w') = [1 \<mapsto> one_kernel, 2 \<mapsto> fill_kernel 1 700 (cstr ''f'') one_kernel_meta (fresh_kernel 2)])"
proof -
  have m: "modules (sess module_world) ! 0 = one_module" "next_kernel_id (sess module_world) = 2"
    "corex_find_kernel_meta one_module_meta (cstr ''f'') = Some one_kernel_meta"
    by (simp_all add: module_world_def corex_find_kernel_meta_def one_module_meta_def one_kernel_meta_def)
  have "free_slot k_used (kernels (sess module_world)) \<noteq> None"
    by (auto simp: free_slot_None module_world_def nth_upd intro!: exI [of _ 1])
  moreover have "c_string (cstr ''f'') = cstr ''f''" "length (cstr ''f'') = 1" by (simp_all add: c_string_def cstr_def)
  ultimately show ?thesis
    using get_kernel_refines [OF module_world_inv module_world_find, of "cstr ''f''" "cstr ''f''" "ok_driver 700" 7]
    by (auto elim!: ends_mono simp: Let_def m module_world_maps)
qed

theorem module_global_idempotent_witness:
  "ends (handle_module_global (ok_driver 8192) 7 (be64 1 @ be32 1 @ [0x78]) module_world)
     (\<lambda>_ w1. ends (handle_module_global (ok_driver 8192) 8 (be64 1 @ be32 1 @ [0x78]) w1) (\<lambda>_ w2. sess w2 = sess w1))"
  by (rule module_global_idempotent [OF module_world_inv]) (simp_all add: ok_driver_def)

end
