(* ===== verification/Launch.thy ===== *)
theory Launch
  imports Modules Streams
begin

text \<open>
  Kernel launches in \<^verbatim>\<open>server/runtime_server.c\<close>: the arguments of a launch arrive tagged with a wire kind and
  a size and are checked against the metadata of the kernel before the driver sees them. The parameter
  array handed to the driver is modelled by the list of values its entries point to.
\<close>

section \<open>The argument ABI\<close>

text \<open>\<open>CorexProtocolArgKind\<close>.\<close>

abbreviation (input) ARG_REMOTE_PTR :: u32 where "ARG_REMOTE_PTR \<equiv> 1"
abbreviation (input) ARG_I32 :: u32 where "ARG_I32 \<equiv> 2"
abbreviation (input) ARG_U64 :: u32 where "ARG_U64 \<equiv> 3"
abbreviation (input) ARG_F32 :: u32 where "ARG_F32 \<equiv> 4"
abbreviation (input) ARG_RAW_VALUE :: u32 where "ARG_RAW_VALUE \<equiv> 5"

definition wire_arg_kind_name :: "u32 \<Rightarrow> bytes" where
  "wire_arg_kind_name kind =
     (if kind = ARG_REMOTE_PTR then cstr ''REMOTE_PTR''
      else if kind = ARG_I32 then cstr ''I32''
      else if kind = ARG_U64 then cstr ''U64''
      else if kind = ARG_F32 then cstr ''F32''
      else if kind = ARG_RAW_VALUE then cstr ''RAW_VALUE''
      else cstr ''UNKNOWN'')"

definition wire_arg_payload_size :: "u32 \<Rightarrow> u32" where
  "wire_arg_payload_size kind =
     (if kind = ARG_REMOTE_PTR then 16
      else if kind = ARG_I32 then 4
      else if kind = ARG_U64 then 8
      else if kind = ARG_F32 then 4
      else 0)"

definition wire_arg_abi_size :: "u32 \<Rightarrow> u32 \<Rightarrow> u32" where
  "wire_arg_abi_size kind payload_size =
     (if kind = ARG_REMOTE_PTR then 8
      else if kind = ARG_I32 then 4
      else if kind = ARG_U64 then 8
      else if kind = ARG_F32 then 4
      else if kind = ARG_RAW_VALUE then payload_size
      else 0)"

definition wire_arg_expected_meta_kind :: "u32 \<Rightarrow> CorexMetaArgKind" where
  "wire_arg_expected_meta_kind kind =
     (if kind = ARG_REMOTE_PTR then COREX_META_ARG_GLOBAL_BUFFER
      else if kind \<in> {ARG_I32, ARG_U64, ARG_F32, ARG_RAW_VALUE} then COREX_META_ARG_BY_VALUE
      else COREX_META_ARG_UNKNOWN)"

section \<open>Decoding a launch\<close>

record DecodedKernelLaunch =
  d_func :: u64
  d_dims :: "u32 list"
  d_sharedMemBytes :: u32
  d_params :: "kernel_param list"
  d_stream :: u64
  d_kernel :: nat

text \<open>
  The value of one argument, at \<open>pos\<close> behind its tag and size: a status (\<^const>\<open>Inl\<close>) or the parameter.
\<close>

definition decode_arg_value :: "driver \<Rightarrow> bytes \<Rightarrow> bool \<Rightarrow> u32 \<Rightarrow> u32 \<Rightarrow> nat \<Rightarrow> world \<Rightarrow> ((u32 + kernel_param) \<times> world) option" where
  "decode_arg_value drv p graph_resources kind arg_size pos w =
     (if kind = ARG_REMOTE_PTR then do {
        allocation_id \<leftarrow> rd64 p pos;
        offset64 \<leftarrow> rd64 p (pos + 8);
        case (if graph_resources then find_allocation_record (sess w) allocation_id else find_allocation (sess w) allocation_id) of
          None \<Rightarrow> Some (Inl ST_NOT_FOUND, w)
        | Some i \<Rightarrow>
            (let a = allocations (sess w) ! i
             in if offset64 \<ge> a_size a then Some (Inl ST_BAD_REQUEST, w)
                else Some (Inr (K_ptr (a_ptr a + offset64)), w))
      }
      else if kind = ARG_I32 then do { bits \<leftarrow> rd32 p pos; Some (Inr (K_i32 bits), w) }
      else if kind = ARG_U64 then do { v \<leftarrow> rd64 p pos; Some (Inr (K_u64 v), w) }
      else if kind = ARG_F32 then do { bits \<leftarrow> rd32 p pos; Some (Inr (K_f32 bits), w) }
      else if kind = ARG_RAW_VALUE then
        (let (r, w) = invoke drv (OS (OS_malloc (ucast arg_size))) w
         in if o_ret r \<noteq> 0 then Some (Inl ST_INTERNAL, w)
            else do { data \<leftarrow> peek p pos (unat arg_size); Some (Inr (K_raw data), w) })
      else Some (Inl ST_BAD_REQUEST, w))"

text \<open>One argument: its tag and size, the checks against the metadata, its value; and the position behind it.\<close>

definition decode_arg :: "driver \<Rightarrow> bytes \<Rightarrow> bool \<Rightarrow> CorexArgMeta \<Rightarrow> nat \<Rightarrow> world \<Rightarrow> ((u32 + kernel_param \<times> nat) \<times> world) option" where
  "decode_arg drv p graph_resources meta_arg pos w =
     (if pos + 8 > length p then Some (Inl ST_BAD_REQUEST, w)
      else do {
        kind \<leftarrow> rd32 p pos;
        arg_size \<leftarrow> rd32 p (pos + 4);
        let pos = pos + 8;
        if pos + unat arg_size > length p then Some (Inl ST_BAD_REQUEST, w)
        else if kind \<noteq> ARG_RAW_VALUE \<and> (wire_arg_payload_size kind = 0 \<or> arg_size \<noteq> wire_arg_payload_size kind)
        then Some (Inl ST_BAD_REQUEST, w)
        else if kind = ARG_RAW_VALUE \<and> arg_size = 0 then Some (Inl ST_BAD_REQUEST, w)
        else if wire_arg_expected_meta_kind kind = COREX_META_ARG_UNKNOWN \<or>
                ar_kind meta_arg \<noteq> wire_arg_expected_meta_kind kind \<or>
                ar_size meta_arg \<noteq> wire_arg_abi_size kind arg_size
        then Some (Inl ST_ABI_MISMATCH, w)
        else do {
          (r, w) \<leftarrow> decode_arg_value drv p graph_resources kind arg_size pos w;
          (case r of
             Inl status \<Rightarrow> Some (Inl status, w)
           | Inr v \<Rightarrow> Some (Inr (v, pos + unat arg_size), w))
        }
      })"

fun decode_args :: "driver \<Rightarrow> bytes \<Rightarrow> bool \<Rightarrow> CorexArgMeta list \<Rightarrow> nat \<Rightarrow> world \<Rightarrow> ((u32 + kernel_param list \<times> nat) \<times> world) option" where
  "decode_args drv p graph_resources [] pos w = Some (Inr ([], pos), w)"
| "decode_args drv p graph_resources (meta_arg # metas) pos w =
     do {
       (r, w) \<leftarrow> decode_arg drv p graph_resources meta_arg pos w;
       case r of
         Inl status \<Rightarrow> Some (Inl status, w)
       | Inr (v, pos) \<Rightarrow> do {
           (r, w) \<leftarrow> decode_args drv p graph_resources metas pos w;
           case r of
             Inl status \<Rightarrow> Some (Inl status, w)
           | Inr (vs, pos) \<Rightarrow> Some (Inr (v # vs, pos), w)
         }
     }"

text \<open>
  \<open>Inl\<close> is a status other than \<open>ST_OK\<close>. The metadata array has \<open>COREX_META_MAX_ARGS\<close> entries, and
  reading beyond it is undefined.
\<close>

definition decode_kernel_launch :: "driver \<Rightarrow> bytes \<Rightarrow> bool \<Rightarrow> world \<Rightarrow> ((u32 + DecodedKernelLaunch) \<times> world) option" where
  "decode_kernel_launch drv p graph_resources w =
     (if length p < 48 then Some (Inl ST_BAD_REQUEST, w)
      else do {
        kernel_id \<leftarrow> rd64 p 0;
        stream_id \<leftarrow> rd64 p 8;
        grid_x \<leftarrow> rd32 p 16;
        grid_y \<leftarrow> rd32 p 20;
        grid_z \<leftarrow> rd32 p 24;
        block_x \<leftarrow> rd32 p 28;
        block_y \<leftarrow> rd32 p 32;
        block_z \<leftarrow> rd32 p 36;
        shared_mem \<leftarrow> rd32 p 40;
        argc \<leftarrow> rd32 p 44;
        if unat argc > MAX_ARGS then Some (Inl ST_BAD_REQUEST, w)
        else case find_kernel (sess w) kernel_id of
               None \<Rightarrow> Some (Inl ST_NOT_FOUND, w)
             | Some i \<Rightarrow>
                 (let k = kernels (sess w) ! i
                  in if \<not> k_metadata_valid k then Some (Inl ST_METADATA_ERROR, w)
                     else if argc \<noteq> km_argc (k_metadata k) then Some (Inl ST_ABI_MISMATCH, w)
                     else case resolve_stream_id (sess w) stream_id of
                            None \<Rightarrow> Some (Inl ST_NOT_FOUND, w)
                          | Some stream \<Rightarrow>
                              if unat argc > length (km_args (k_metadata k)) then None
                              else do {
                                (r, w) \<leftarrow> decode_args drv p graph_resources (take (unat argc) (km_args (k_metadata k))) 48 w;
                                case r of
                                  Inl status \<Rightarrow> Some (Inl status, w)
                                | Inr (params, pos) \<Rightarrow>
                                    if pos \<noteq> length p then Some (Inl ST_BAD_REQUEST, w)
                                    else if grid_x = 0 \<or> grid_y = 0 \<or> grid_z = 0 \<or> block_x = 0 \<or> block_y = 0 \<or> block_z = 0
                                    then Some (Inl ST_BAD_REQUEST, w)
                                    else Some (Inr \<lparr>d_func = k_function k, d_dims = [grid_x, grid_y, grid_z, block_x, block_y, block_z],
                                           d_sharedMemBytes = shared_mem, d_params = params, d_stream = stream, d_kernel = i\<rparr>, w)
                              })
      })"

definition handle_launch_generic :: handler where
  "handle_launch_generic drv req_id p w =
     do {
       (d, w) \<leftarrow> decode_kernel_launch drv p False w;
       case d of
         Inl status \<Rightarrow> reply drv OP_LAUNCH_GENERIC req_id status [] w
       | Inr d \<Rightarrow>
           (let (r, w) = invoke drv (Module (B_launch (d_func d) (d_dims d) (d_sharedMemBytes d) (d_stream d) (d_params d))) w
            in reply drv OP_LAUNCH_GENERIC req_id (if o_rc r = CUDA_SUCCESS then ST_OK else ST_CUDA_ERROR) [] w)
     }"

section \<open>What is launched\<close>

text \<open>The parameter has the kind and the size that the metadata of the argument asks for.\<close>

fun param_fits :: "CorexArgMeta \<Rightarrow> kernel_param \<Rightarrow> bool" where
  "param_fits meta (K_ptr _) \<longleftrightarrow> ar_kind meta = COREX_META_ARG_GLOBAL_BUFFER \<and> ar_size meta = 8"
| "param_fits meta (K_i32 _) \<longleftrightarrow> ar_kind meta = COREX_META_ARG_BY_VALUE \<and> ar_size meta = 4"
| "param_fits meta (K_u64 _) \<longleftrightarrow> ar_kind meta = COREX_META_ARG_BY_VALUE \<and> ar_size meta = 8"
| "param_fits meta (K_f32 _) \<longleftrightarrow> ar_kind meta = COREX_META_ARG_BY_VALUE \<and> ar_size meta = 4"
| "param_fits meta (K_raw data) \<longleftrightarrow> ar_kind meta = COREX_META_ARG_BY_VALUE \<and> unat (ar_size meta) = length data \<and> data \<noteq> []"

text \<open>A pointer argument points into a live allocation.\<close>

fun param_in_bounds :: "Allocation list \<Rightarrow> kernel_param \<Rightarrow> bool" where
  "param_in_bounds t (K_ptr a) \<longleftrightarrow> covers t a 1"
| "param_in_bounds t _ \<longleftrightarrow> True"

definition quiet_step :: "world \<Rightarrow> world \<Rightarrow> bool" where
  "quiet_step w w' \<longleftrightarrow> sess w' = sess w \<and> sent w' = sent w \<and> grown (\<lambda>c. \<exists>n. c = OS (OS_malloc n)) (calls w) (calls w')"

lemma quiet_step_refl [simp]: "quiet_step w w"
  by (simp add: quiet_step_def)

lemma quiet_step_trans: "quiet_step w w1 \<Longrightarrow> quiet_step w1 w2 \<Longrightarrow> quiet_step w w2"
  by (auto simp: quiet_step_def intro: grown_trans)

lemma quiet_step_malloc [simp]: "quiet_step w (snd (invoke drv (OS (OS_malloc n)) w))"
  by (simp add: quiet_step_def)

lemma pointer_in_bounds:
  assumes "find_allocation s k = Some i \<or> find_allocation_record s k = Some i" "\<not> a_size (allocations s ! i) \<le> off"
  shows "covers (allocations s) (a_ptr (allocations s ! i) + off) 1"
proof -
  have "i < length (allocations s)" "a_used (allocations s ! i)"
    using assms(1) find_slot_Some [of a_used a_id "allocations s" k i]
    by (auto simp: find_allocation_record_def find_allocation_def split: option.splits if_splits)
  moreover have "unat off + 1 \<le> unat (a_size (allocations s ! i))" using assms(2) by (simp add: word_le_nat_alt)
  ultimately show ?thesis unfolding covers_def by (intro bexI [of _ "allocations s ! i"]) auto
qed

text \<open>The result of a step is defined and satisfies \<open>Q\<close>.\<close>

definition yields :: "('a \<times> world) option \<Rightarrow> ('a \<Rightarrow> world \<Rightarrow> bool) \<Rightarrow> bool" where
  "yields r Q \<longleftrightarrow> (case r of None \<Rightarrow> False | Some (x, w) \<Rightarrow> Q x w)"

lemma yields_simps [simp]:
  "yields (Some (x, w)) Q = Q x w" "yields None Q = False"
  "yields (if c then a else b) Q \<longleftrightarrow> (c \<longrightarrow> yields a Q) \<and> (\<not> c \<longrightarrow> yields b Q)"
  by (simp_all add: yields_def)

lemma yields_bind: "yields r P \<Longrightarrow> (\<And>x w. P x w \<Longrightarrow> yields (f (x, w)) Q) \<Longrightarrow> yields (r \<bind> f) Q"
  by (cases r) (auto simp: yields_def)

lemma yields_rd: "off + 4 \<le> length p \<Longrightarrow> (\<And>v. yields (g v) Q) \<Longrightarrow> yields (rd32 p off \<bind> g) Q"
  by simp

lemma yields_ifI: "(c \<Longrightarrow> yields x Q) \<Longrightarrow> (\<not> c \<Longrightarrow> yields y Q) \<Longrightarrow> yields (if c then x else y) Q"
  by simp

lemma yields_mono: "yields r P \<Longrightarrow> (\<And>x w. P x w \<Longrightarrow> Q x w) \<Longrightarrow> yields r Q"
  by (auto simp: yields_def split: option.splits)

definition arg_result :: "CorexArgMeta \<Rightarrow> world \<Rightarrow> u32 + kernel_param \<Rightarrow> world \<Rightarrow> bool" where
  "arg_result meta w r w' \<longleftrightarrow> quiet_step w w' \<and>
     (case r of Inl status \<Rightarrow> status \<noteq> ST_OK | Inr v \<Rightarrow> param_fits meta v \<and> param_in_bounds (allocations (sess w)) v)"

lemmas wire_arg_defs = wire_arg_payload_size_def wire_arg_expected_meta_kind_def wire_arg_abi_size_def

lemma decode_arg_value_result:
  assumes "kind = ARG_RAW_VALUE \<longrightarrow> arg_size \<noteq> 0" "kind \<noteq> ARG_RAW_VALUE \<longrightarrow> wire_arg_payload_size kind \<noteq> 0 \<and> arg_size = wire_arg_payload_size kind"
    "pos + unat arg_size \<le> length p" "ar_kind meta = wire_arg_expected_meta_kind kind" "ar_size meta = wire_arg_abi_size kind arg_size"
  shows "yields (decode_arg_value drv p gr kind arg_size pos w) (arg_result meta w)"
proof -
  consider "kind = ARG_REMOTE_PTR" | "kind = ARG_I32" | "kind = ARG_U64" | "kind = ARG_F32" | "kind = ARG_RAW_VALUE"
    using assms(2) by (auto simp: wire_arg_payload_size_def split: if_splits)
  then show ?thesis
  proof cases
    case 1
    then show ?thesis using assms(2-5) pointer_in_bounds [of "sess w"]
      by (simp add: decode_arg_value_def arg_result_def wire_arg_defs Let_def) (auto simp: arg_result_def Let_def split: option.split)
  next
    case 5
    then have "0 < unat arg_size" using assms(1) by (simp add: word_neq_0_conv [symmetric] unat_gt_0)
    then have "take (unat arg_size) (drop pos p) \<noteq> []" using assms(3) by auto
    then show ?thesis using 5 assms(3-5)
      by (simp add: decode_arg_value_def arg_result_def wire_arg_defs invoke_case)
  qed (use assms in \<open>simp_all add: decode_arg_value_def arg_result_def wire_arg_defs\<close>)
qed

lemma decode_arg_result:
  "yields (decode_arg drv p gr meta pos w) (\<lambda>r. arg_result meta w (map_sum id fst r))"
  unfolding decode_arg_def Let_def
  by (intro yields_ifI yields_rd yields_bind [OF decode_arg_value_result]) (auto simp: arg_result_def split: sum.splits)

definition args_result :: "CorexArgMeta list \<Rightarrow> world \<Rightarrow> u32 + kernel_param list \<times> nat \<Rightarrow> world \<Rightarrow> bool" where
  "args_result metas w r w' \<longleftrightarrow> quiet_step w w' \<and>
     (case r of Inl status \<Rightarrow> status \<noteq> ST_OK
      | Inr (vs, pos) \<Rightarrow> list_all2 param_fits metas vs \<and> (\<forall>v \<in> set vs. param_in_bounds (allocations (sess w)) v))"

lemma args_result_step:
  "arg_result meta w (Inl status) w1 \<Longrightarrow> args_result (meta # metas) w (Inl status) w1"
  "arg_result meta w (Inr v) w1 \<Longrightarrow> args_result metas w1 (Inl status) w2 \<Longrightarrow> args_result (meta # metas) w (Inl status) w2"
  "arg_result meta w (Inr v) w1 \<Longrightarrow> args_result metas w1 (Inr (vs, pos)) w2 \<Longrightarrow> args_result (meta # metas) w (Inr (v # vs, pos)) w2"
  using quiet_step_trans [of w w1 w2] by (auto simp: arg_result_def args_result_def quiet_step_def)

lemma decode_args_result: "yields (decode_args drv p gr metas pos w) (args_result metas w)"
proof (induction metas arbitrary: pos w)
  case Nil
  then show ?case by (simp add: args_result_def)
next
  case (Cons meta metas)
  show ?case
    unfolding decode_args.simps
    by (intro yields_bind [OF decode_arg_result])
      (auto split: sum.splits intro!: yields_bind [OF Cons.IH] intro: args_result_step)
qed

text \<open>
  A launch that may reach the driver: it names a live kernel of a loaded module, a live stream or the
  default stream, and its parameters are as the metadata of the kernel declares them.
\<close>

definition launch_sound :: "ServerSession \<Rightarrow> u64 \<Rightarrow> u32 list \<Rightarrow> u64 \<Rightarrow> kernel_param list \<Rightarrow> bool" where
  "launch_sound s func dims stream params \<longleftrightarrow>
     (\<exists>k \<in> set (kernels s). k_used k \<and> k_function k = func \<and> live_module (modules s) (k_module_id k) \<and>
        list_all2 param_fits (take (unat (km_argc (k_metadata k))) (km_args (k_metadata k))) params) \<and>
     (\<forall>v \<in> set params. param_in_bounds (allocations s) v) \<and> length dims = 6 \<and> 0 \<notin> set dims \<and>
     (stream = 0 \<or> (\<exists>e \<in> set (streams s). st_used e \<and> st_stream e = stream))"

definition call_sound :: "ServerSession \<Rightarrow> call \<Rightarrow> bool" where
  "call_sound s c = (case c of Module (B_launch func dims _ stream params) \<Rightarrow> launch_sound s func dims stream params | _ \<Rightarrow> True)"

definition launch_result :: "world \<Rightarrow> u32 + DecodedKernelLaunch \<Rightarrow> world \<Rightarrow> bool" where
  "launch_result w r w' \<longleftrightarrow> quiet_step w w' \<and>
     (case r of Inl status \<Rightarrow> status \<noteq> ST_OK | Inr d \<Rightarrow> launch_sound (sess w) (d_func d) (d_dims d) (d_stream d) (d_params d))"

lemma resolve_stream_live:
  "resolve_stream_id s k = Some st \<Longrightarrow> st = 0 \<or> (\<exists>e \<in> set (streams s). st_used e \<and> st_stream e = st)"
  unfolding resolve_stream_id_def find_stream_def
  by (auto split: if_splits option.splits dest!: find_slot_Some)

lemma find_kernel_live:
  assumes "session_inv n s" "find_kernel s k = Some i"
  shows "kernels s ! i \<in> set (kernels s)" "k_used (kernels s ! i)" "k_id (kernels s ! i) = k"
    "live_module (modules s) (k_module_id (kernels s ! i))" "length (km_args (k_metadata (kernels s ! i))) = COREX_META_MAX_ARGS"
  using assms find_slot_Some [of k_used k_id "kernels s" k i]
  by (auto simp: find_kernel_def session_inv_def kernel_inv_def kernel_meta_ok_def)

lemma launch_soundI:
  assumes "session_inv n s" "find_kernel s k = Some i" "resolve_stream_id s sid = Some st" "km_argc (k_metadata (kernels s ! i)) = argc"
    "list_all2 param_fits (take (unat argc) (km_args (k_metadata (kernels s ! i)))) params"
    "\<forall>v \<in> set params. param_in_bounds (allocations s) v" "length dims = 6" "0 \<notin> set dims" "func = k_function (kernels s ! i)"
  shows "launch_sound s func dims st params"
  unfolding launch_sound_def
  using find_kernel_live [OF assms(1,2)] resolve_stream_live [OF assms(3)] assms(4-9) by auto

lemma yields_rd64: "off + 8 \<le> length p \<Longrightarrow> (\<And>v. yields (g v) Q) \<Longrightarrow> yields (rd64 p off \<bind> g) Q"
  by simp

lemma yields_optionI:
  "(x = None \<Longrightarrow> yields a Q) \<Longrightarrow> (\<And>y. x = Some y \<Longrightarrow> yields (f y) Q) \<Longrightarrow> yields (case x of None \<Rightarrow> a | Some y \<Rightarrow> f y) Q"
  by (cases x) simp_all

lemma launch_rejected: "status \<noteq> ST_OK \<Longrightarrow> yields (Some (Inl status, w)) (launch_result w)"
  by (simp add: launch_result_def)

lemma launch_decoded:
  assumes "session_inv n (sess w)" "find_kernel (sess w) k = Some i" "resolve_stream_id (sess w) sid = Some st"
    "km_argc (k_metadata (kernels (sess w) ! i)) = argc"
    "args_result (take (unat argc) (km_args (k_metadata (kernels (sess w) ! i)))) w r w1"
  shows "yields (case r of
       Inl status \<Rightarrow> Some (Inl status, w1)
     | Inr (params, pos) \<Rightarrow>
         if pos \<noteq> length p then Some (Inl ST_BAD_REQUEST, w1)
         else if gx = 0 \<or> gy = 0 \<or> gz = 0 \<or> bx = 0 \<or> by' = 0 \<or> bz = 0 then Some (Inl ST_BAD_REQUEST, w1)
         else Some (Inr \<lparr>d_func = k_function (kernels (sess w) ! i), d_dims = [gx, gy, gz, bx, by', bz],
                d_sharedMemBytes = sm, d_params = params, d_stream = st, d_kernel = i\<rparr>, w1)) (launch_result w)"
  using assms(5) launch_soundI [OF assms(1-4)]
  by (cases r) (auto simp: launch_result_def args_result_def)

lemma decode_kernel_launch_result:
  assumes "session_inv n (sess w)"
  shows "yields (decode_kernel_launch drv p gr w) (launch_result w)"
proof -
  have args: "\<not> unat (km_argc (k_metadata (kernels (sess w) ! i))) > length (km_args (k_metadata (kernels (sess w) ! i)))"
    if "find_kernel (sess w) k = Some i" "\<not> unat argc > MAX_ARGS" "\<not> argc \<noteq> km_argc (k_metadata (kernels (sess w) ! i))" for k i argc
    using find_kernel_live(5) [OF assms that(1)] that(2,3) by simp
  show ?thesis
    unfolding decode_kernel_launch_def Let_def
    by (intro yields_ifI yields_rd yields_rd64 yields_optionI launch_rejected yields_bind [OF decode_args_result];
        (unfold prod.case, rule launch_decoded [OF assms], assumption+)?; (use args in \<open>simp; fail\<close>)?)
qed

lemma quiet_step_ready: "session_inv n (sess w) \<Longrightarrow> quiet_step w w' \<Longrightarrow> ready n w w'"
  by (auto simp: quiet_step_def ready_def call_in_bounds_def pin_call_def elim!: grown_mono)

lemma launch_generic_run:
  assumes "session_inv n (sess w)"
    "\<And>w' status. ready n w w' \<Longrightarrow> grown (call_sound (sess w)) (calls w) (calls w') \<Longrightarrow> sess w' = sess w \<Longrightarrow>
      Q (fst (send_response drv OP_LAUNCH_GENERIC req_id status [] w')) (snd (send_response drv OP_LAUNCH_GENERIC req_id status [] w'))"
  shows "ends (handle_launch_generic drv req_id p w) Q"
proof -
  have quiet: "ready n w w' \<and> grown (call_sound (sess w)) (calls w) (calls w') \<and> sess w' = sess w" if "quiet_step w w'" for w'
    using quiet_step_ready [OF assms(1) that] that by (auto simp: quiet_step_def call_sound_def elim!: grown_mono)
  obtain r w' where d: "decode_kernel_launch drv p False w = Some (r, w')" "launch_result w r w'"
    using decode_kernel_launch_result [OF assms(1), of drv p False] by (auto simp: yields_def split: option.splits)
  have "quiet_step w w'" using d(2) by (simp add: launch_result_def)
  from quiet [OF this] have w': "ready n w w'" "grown (call_sound (sess w)) (calls w) (calls w')" "sess w' = sess w"
    by simp_all
  show ?thesis
  proof (cases r)
    case (Inl status)
    then show ?thesis using assms(2) w' d(1) by (simp add: handle_launch_generic_def)
  next
    case (Inr l)
    let ?c = "Module (B_launch (d_func l) (d_dims l) (d_sharedMemBytes l) (d_stream l) (d_params l))"
    have "call_sound (sess w) ?c" using d(2) Inr by (simp add: launch_result_def call_sound_def)
    then have "ready n w (snd (invoke drv ?c w'))" "grown (call_sound (sess w)) (calls w) (calls (snd (invoke drv ?c w')))"
      using w' by (auto intro!: ready_call simp: call_in_bounds_def pin_call_def)
    then show ?thesis using assms(2) w'(3) d(1) Inr by (simp add: handle_launch_generic_def invoke_case)
  qed
qed

interpretation launch_generic: safe_handler handle_launch_generic OP_LAUNCH_GENERIC
  by unfold_locales (rule launch_generic_run, assumption, simp add: ready_reply)

text \<open>
  C9. Launches are well typed: whatever bytes a client sends, the driver is asked to launch only a live
  kernel of a loaded module, with one parameter per argument of the kernel's metadata and of exactly the
  declared kind and size, pointer parameters inside live allocations, nonzero dimensions and a live
  stream.
\<close>

theorem launch_well_typed:
  assumes "session_inv n (sess w)"
  shows "ends (handle_launch_generic drv req_id p w) (\<lambda>rc w'. sess w' = sess w \<and> grown (call_sound (sess w)) (calls w) (calls w'))"
  by (rule launch_generic_run [OF assms]) (simp add: grown_send_response call_sound_def)

theorem launch_well_typed_witness:
  "ends (handle_launch_generic (ok_driver 0) 7 (be64 1 @ be64 0 @ concat (replicate 6 (be32 1)) @ be32 0 @ be32 0) module_world)
     (\<lambda>rc w'. sess w' = sess module_world \<and> grown (call_sound (sess module_world)) (calls module_world) (calls w'))"
  by (rule launch_well_typed [OF module_world_inv])

end
