(* ===== verification/Registry.thy ===== *)
theory Registry
  imports Layout_2d Queries Launch
begin

text \<open>
  The handler registry of \<^verbatim>\<open>server/runtime_server.c\<close>: the handlers that remain (HELLO, CLOSE, the legacy
  launch, the graph memory attributes of \<^verbatim>\<open>server/corex_graph_runtime.inc\<close>), the schema table of
  \<^verbatim>\<open>include/generated/corex_api_schema.h\<close>, the registry that names one handler per opcode, its start-up
  check, and the lemma that every registered handler meets the contract of \<open>safe_handler\<close>. The
  handler of \<open>OP_GRAPH\<close> is an argument of the registry: its command model is not part of this library,
  and nothing is claimed of requests with that opcode.
\<close>

section \<open>The remaining handlers\<close>

abbreviation (input) CRX_CAP_DEVICE_INFO :: u32 where "CRX_CAP_DEVICE_INFO \<equiv> 1"
abbreviation (input) CRX_CAP_LINEAR_MEMORY :: u32 where "CRX_CAP_LINEAR_MEMORY \<equiv> 2"
abbreviation (input) CRX_CAP_COPY_SYNC :: u32 where "CRX_CAP_COPY_SYNC \<equiv> 3"
abbreviation (input) CRX_CAP_STREAM_EVENT :: u32 where "CRX_CAP_STREAM_EVENT \<equiv> 4"
abbreviation (input) CRX_CAP_COPY_ASYNC :: u32 where "CRX_CAP_COPY_ASYNC \<equiv> 5"
abbreviation (input) CRX_CAP_MODULE_KERNEL :: u32 where "CRX_CAP_MODULE_KERNEL \<equiv> 6"
abbreviation (input) CRX_CAP_LAYOUT_TRANSFER :: u32 where "CRX_CAP_LAYOUT_TRANSFER \<equiv> 7"
abbreviation (input) CRX_CAP_MEMORY_POOLS :: u32 where "CRX_CAP_MEMORY_POOLS \<equiv> 8"
abbreviation (input) CRX_CAP_GRAPHS :: u32 where "CRX_CAP_GRAPHS \<equiv> 9"
abbreviation (input) CRX_CAP_FUNCTION_INFO :: u32 where "CRX_CAP_FUNCTION_INFO \<equiv> 10"

definition server_hello :: "world \<Rightarrow> CorexHello" where
  "server_hello w =
     \<lparr>server_major = 1, server_minor = 1, server_patch = 0, backend_id = 1,
      backend_version = g_backend_version w, device_count = 1, device_profile_id = 1,
      capability_count = (if g_memory_pools_supported w then 10 else 9),
      capabilities = [CRX_CAP_DEVICE_INFO, CRX_CAP_LINEAR_MEMORY, CRX_CAP_COPY_SYNC,
        CRX_CAP_STREAM_EVENT, CRX_CAP_COPY_ASYNC, CRX_CAP_MODULE_KERNEL, CRX_CAP_LAYOUT_TRANSFER,
        CRX_CAP_GRAPHS, CRX_CAP_FUNCTION_INFO, CRX_CAP_MEMORY_POOLS]\<rparr>"

definition handle_hello :: handler where
  "handle_hello drv req_id payload w =
     (if length payload \<noteq> 0 then reply drv OP_HELLO req_id ST_BAD_REQUEST [] w
      else case corex_protocol_encode_hello (server_hello w) of
             None \<Rightarrow> reply drv OP_HELLO req_id ST_INTERNAL [] w
           | Some response \<Rightarrow> reply drv OP_HELLO req_id ST_OK response w)"

definition handle_hello_entry :: handler where
  "handle_hello_entry drv req_id payload w = handle_hello drv req_id payload w"

definition handle_legacy_launch :: handler where
  "handle_legacy_launch drv req_id payload w = reply drv OP_LAUNCH req_id ST_BAD_REQUEST [] w"

definition handle_close :: handler where
  "handle_close drv req_id payload w =
     reply drv OP_CLOSE req_id (if length payload = 0 then ST_OK else ST_BAD_REQUEST) [] w"

definition graph_result :: "CUresult \<Rightarrow> u32" where
  "graph_result r =
     (if r = CUDA_SUCCESS then ST_OK
      else if r = CUDA_ERROR_INVALID_VALUE then ST_BAD_REQUEST
      else if r = CUDA_ERROR_NOT_SUPPORTED then ST_NOT_SUPPORTED
      else ST_CUDA_ERROR)"

definition handle_graph_mem_get :: handler where
  "handle_graph_mem_get drv req_id payload w =
     (case corex_generated_decode_cudaDeviceGetGraphMemAttribute_request payload of
        None \<Rightarrow> reply drv OP_GRAPH_MEM_GET req_id ST_BAD_REQUEST [] w
      | Some (device, attribute) \<Rightarrow>
          if attribute > 3 then reply drv OP_GRAPH_MEM_GET req_id ST_BAD_REQUEST [] w
          else if device \<noteq> 0 then reply drv OP_GRAPH_MEM_GET req_id ST_INVALID_DEVICE [] w
          else
            let (r, w) = invoke drv (Graph (B_graph_mem_get attribute)) w
            in if o_rc r \<noteq> CUDA_SUCCESS then reply drv OP_GRAPH_MEM_GET req_id (graph_result (o_rc r)) [] w
               else reply drv OP_GRAPH_MEM_GET req_id ST_OK
                      (the (corex_generated_encode_cudaDeviceGetGraphMemAttribute_response 8 (o_val r))) w)"

definition handle_graph_mem_set :: handler where
  "handle_graph_mem_set drv req_id payload w =
     (case corex_generated_decode_cudaDeviceSetGraphMemAttribute_request payload of
        None \<Rightarrow> reply drv OP_GRAPH_MEM_SET req_id ST_BAD_REQUEST [] w
      | Some (device, attribute, val) \<Rightarrow>
          if (attribute \<noteq> 1 \<and> attribute \<noteq> 3) \<or> val \<noteq> 0
          then reply drv OP_GRAPH_MEM_SET req_id ST_BAD_REQUEST [] w
          else if device \<noteq> 0 then reply drv OP_GRAPH_MEM_SET req_id ST_INVALID_DEVICE [] w
          else
            let (r, w) = invoke drv (Graph (B_graph_mem_set attribute val)) w
            in reply drv OP_GRAPH_MEM_SET req_id (graph_result (o_rc r)) [] w)"

definition handle_graph_mem_trim :: handler where
  "handle_graph_mem_trim drv req_id payload w =
     (case corex_generated_decode_cudaDeviceGraphMemTrim_request payload of
        None \<Rightarrow> reply drv OP_GRAPH_MEM_TRIM req_id ST_BAD_REQUEST [] w
      | Some device \<Rightarrow>
          if device \<noteq> 0 then reply drv OP_GRAPH_MEM_TRIM req_id ST_INVALID_DEVICE [] w
          else case retire_graph_memory drv False w of
                 None \<Rightarrow> None
               | Some w \<Rightarrow>
                   (let (r, w) = invoke drv (Graph B_graph_mem_trim) w
                    in reply drv OP_GRAPH_MEM_TRIM req_id (graph_result (o_rc r)) [] w))"

section \<open>The schema table\<close>

text \<open>The columns of the generated table the server reads.\<close>

record CorexGeneratedApiMetadata =
  api_opcode :: u32
  api_capability_id :: u32
  request_min_bytes :: nat
  request_max_bytes :: nat
  response_min_bytes :: nat
  response_max_bytes :: nat

abbreviation (input) api :: "u32 \<Rightarrow> u32 \<Rightarrow> nat \<Rightarrow> nat \<Rightarrow> nat \<Rightarrow> nat \<Rightarrow> CorexGeneratedApiMetadata" where
  "api op cap rqmin rqmax rsmin rsmax \<equiv> \<lparr>api_opcode = op, api_capability_id = cap, request_min_bytes = rqmin,
     request_max_bytes = rqmax, response_min_bytes = rsmin, response_max_bytes = rsmax\<rparr>"

definition corex_generated_apis :: "CorexGeneratedApiMetadata list" where
  "corex_generated_apis =
     [api OP_SYNC CRX_CAP_STREAM_EVENT 0 0 0 0,
      api OP_STREAM_QUERY CRX_CAP_STREAM_EVENT 8 8 4 4,
      api OP_EVENT_QUERY CRX_CAP_STREAM_EVENT 8 8 4 4,
      api OP_GET_DRIVER_VERSION CRX_CAP_DEVICE_INFO 0 0 4 4,
      api OP_GET_RUNTIME_VERSION CRX_CAP_DEVICE_INFO 0 0 4 4,
      api OP_DEVICE_GET_ATTRIBUTE CRX_CAP_DEVICE_INFO 8 8 4 4,
      api OP_GET_DEVICE_FLAGS CRX_CAP_DEVICE_INFO 0 0 4 4,
      api OP_GET_PRIORITY_RANGE CRX_CAP_STREAM_EVENT 0 0 8 8,
      api OP_GET_LIMIT CRX_CAP_DEVICE_INFO 4 4 8 8,
      api OP_GET_CACHE_CONFIG CRX_CAP_DEVICE_INFO 0 0 4 4,
      api OP_GET_SHARED_MEM_CONFIG CRX_CAP_DEVICE_INFO 0 0 4 4,
      api OP_FUNCTION_SET_ATTRIBUTE CRX_CAP_MODULE_KERNEL 16 16 0 0,
      api OP_FUNCTION_SET_CACHE_CONFIG CRX_CAP_MODULE_KERNEL 12 12 0 0,
      api OP_OCCUPANCY CRX_CAP_MODULE_KERNEL 20 20 4 4,
      api OP_DEVICE_GET_PCI_BUS_ID CRX_CAP_DEVICE_INFO 4 4 4 36,
      api OP_DEVICE_GET_BY_PCI_BUS_ID CRX_CAP_DEVICE_INFO 4 36 4 4,
      api OP_SET_LIMIT CRX_CAP_DEVICE_INFO 12 12 0 0,
      api OP_SET_CACHE_CONFIG CRX_CAP_DEVICE_INFO 4 4 0 0,
      api OP_SET_SHARED_MEM_CONFIG CRX_CAP_DEVICE_INFO 4 4 0 0,
      api OP_STREAM_COPY_ATTRIBUTES CRX_CAP_STREAM_EVENT 16 16 0 0,
      api OP_STREAM_GET_ATTRIBUTE CRX_CAP_STREAM_EVENT 12 12 40 40,
      api OP_STREAM_SET_ATTRIBUTE CRX_CAP_STREAM_EVENT 52 52 0 0,
      api OP_MEMSET_3D CRX_CAP_LAYOUT_TRANSFER 60 60 0 0,
      api OP_MEMSET_3D_ASYNC CRX_CAP_LAYOUT_TRANSFER 68 68 0 0,
      api OP_FUNCTION_SET_SHARED_CONFIG CRX_CAP_MODULE_KERNEL 12 12 0 0,
      api OP_OCCUPANCY_FLAGS CRX_CAP_MODULE_KERNEL 24 24 4 4,
      api OP_OCCUPANCY_POTENTIAL CRX_CAP_MODULE_KERNEL 20 20 8 8,
      api OP_LIBRARY_COUNT CRX_CAP_MODULE_KERNEL 8 8 4 4,
      api OP_LIBRARY_KERNEL_NAME CRX_CAP_MODULE_KERNEL 12 12 4 131,
      api OP_MODULE_GET_GLOBAL CRX_CAP_MODULE_KERNEL 12 139 16 16,
      api OP_SET_DEVICE_FLAGS CRX_CAP_DEVICE_INFO 4 4 0 0,
      api OP_DEVICE_DEFAULT_POOL CRX_CAP_MEMORY_POOLS 4 4 8 8,
      api OP_DEVICE_GET_POOL CRX_CAP_MEMORY_POOLS 4 4 8 8,
      api OP_DEVICE_SET_POOL CRX_CAP_MEMORY_POOLS 12 12 0 0,
      api OP_POOL_CREATE CRX_CAP_MEMORY_POOLS 12 12 8 8,
      api OP_POOL_DESTROY CRX_CAP_MEMORY_POOLS 8 8 0 0,
      api OP_POOL_TRIM CRX_CAP_MEMORY_POOLS 16 16 0 0,
      api OP_POOL_GET_ATTRIBUTE CRX_CAP_MEMORY_POOLS 12 12 8 8,
      api OP_POOL_SET_ATTRIBUTE CRX_CAP_MEMORY_POOLS 20 20 0 0,
      api OP_POOL_GET_ACCESS CRX_CAP_MEMORY_POOLS 16 16 4 4,
      api OP_POOL_SET_ACCESS CRX_CAP_MEMORY_POOLS 24 24 0 0,
      api OP_ALLOC_ASYNC CRX_CAP_MEMORY_POOLS 16 16 8 8,
      api OP_ALLOC_FROM_POOL_ASYNC CRX_CAP_MEMORY_POOLS 24 24 8 8,
      api OP_FREE_ASYNC CRX_CAP_MEMORY_POOLS 16 16 0 0,
      api OP_GRAPH CRX_CAP_GRAPHS 52 8244 16 65551,
      api OP_GRAPH_MEM_GET CRX_CAP_GRAPHS 8 8 8 8,
      api OP_GRAPH_MEM_SET CRX_CAP_GRAPHS 16 16 0 0,
      api OP_GRAPH_MEM_TRIM CRX_CAP_GRAPHS 4 4 0 0,
      api OP_FUNCTION_INFO CRX_CAP_FUNCTION_INFO 8 8 36 36]"

text \<open>0 when the length of a payload fits its schema, -1 otherwise and for an opcode outside the schema.\<close>

definition corex_generated_validate_payload :: "u32 \<Rightarrow> nat \<Rightarrow> int" where
  "corex_generated_validate_payload opcode len =
     (case find (\<lambda>a. api_opcode a = opcode) corex_generated_apis of
        Some a \<Rightarrow> (if request_min_bytes a \<le> len \<and> len \<le> request_max_bytes a then 0 else - 1)
      | None \<Rightarrow> - 1)"

definition corex_generated_validate_response :: "u32 \<Rightarrow> nat \<Rightarrow> int" where
  "corex_generated_validate_response opcode len =
     (case find (\<lambda>a. api_opcode a = opcode) corex_generated_apis of
        Some a \<Rightarrow> (if response_min_bytes a \<le> len \<and> len \<le> response_max_bytes a then 0 else - 1)
      | None \<Rightarrow> - 1)"

section \<open>The registry\<close>

abbreviation (input) OP__COUNT :: u32 where "OP__COUNT \<equiv> 93"

text \<open>One row of the registry macro: the opcode, the handler and the capability it belongs to.\<close>

type_synonym ServerHandlerEntry = "u32 \<times> handler \<times> u32"

definition COREX_GENERATED_SERVER_HANDLER_REGISTRY :: "handler \<Rightarrow> ServerHandlerEntry list" where
  "COREX_GENERATED_SERVER_HANDLER_REGISTRY graph =
     [(OP_SYNC, handle_sync, CRX_CAP_STREAM_EVENT),
      (OP_STREAM_QUERY, handle_stream_query, CRX_CAP_STREAM_EVENT),
      (OP_EVENT_QUERY, handle_event_query, CRX_CAP_STREAM_EVENT),
      (OP_GET_DRIVER_VERSION, handle_driver_version, CRX_CAP_DEVICE_INFO),
      (OP_GET_RUNTIME_VERSION, handle_runtime_version, CRX_CAP_DEVICE_INFO),
      (OP_DEVICE_GET_ATTRIBUTE, handle_device_get_attribute, CRX_CAP_DEVICE_INFO),
      (OP_GET_DEVICE_FLAGS, handle_get_device_flags, CRX_CAP_DEVICE_INFO),
      (OP_GET_PRIORITY_RANGE, handle_get_priority_range, CRX_CAP_STREAM_EVENT),
      (OP_GET_LIMIT, handle_get_limit, CRX_CAP_DEVICE_INFO),
      (OP_GET_CACHE_CONFIG, handle_get_cache_config, CRX_CAP_DEVICE_INFO),
      (OP_GET_SHARED_MEM_CONFIG, handle_get_shared_mem_config, CRX_CAP_DEVICE_INFO),
      (OP_FUNCTION_SET_ATTRIBUTE, handle_function_set_attribute, CRX_CAP_MODULE_KERNEL),
      (OP_FUNCTION_SET_CACHE_CONFIG, handle_function_set_cache_config, CRX_CAP_MODULE_KERNEL),
      (OP_OCCUPANCY, handle_occupancy, CRX_CAP_MODULE_KERNEL),
      (OP_DEVICE_GET_PCI_BUS_ID, handle_device_get_pci_bus_id, CRX_CAP_DEVICE_INFO),
      (OP_DEVICE_GET_BY_PCI_BUS_ID, handle_device_get_by_pci_bus_id, CRX_CAP_DEVICE_INFO),
      (OP_SET_LIMIT, handle_set_limit, CRX_CAP_DEVICE_INFO),
      (OP_SET_CACHE_CONFIG, handle_set_cache_config, CRX_CAP_DEVICE_INFO),
      (OP_SET_SHARED_MEM_CONFIG, handle_set_shared_mem_config, CRX_CAP_DEVICE_INFO),
      (OP_STREAM_COPY_ATTRIBUTES, handle_stream_copy_attributes, CRX_CAP_STREAM_EVENT),
      (OP_STREAM_GET_ATTRIBUTE, handle_stream_get_attribute, CRX_CAP_STREAM_EVENT),
      (OP_STREAM_SET_ATTRIBUTE, handle_stream_set_attribute, CRX_CAP_STREAM_EVENT),
      (OP_MEMSET_3D, handle_memset_3d_sync, CRX_CAP_LAYOUT_TRANSFER),
      (OP_MEMSET_3D_ASYNC, handle_memset_3d_async, CRX_CAP_LAYOUT_TRANSFER),
      (OP_FUNCTION_SET_SHARED_CONFIG, handle_function_set_shared_config, CRX_CAP_MODULE_KERNEL),
      (OP_OCCUPANCY_FLAGS, handle_occupancy_flags, CRX_CAP_MODULE_KERNEL),
      (OP_OCCUPANCY_POTENTIAL, handle_occupancy_potential, CRX_CAP_MODULE_KERNEL),
      (OP_LIBRARY_COUNT, handle_library_count, CRX_CAP_MODULE_KERNEL),
      (OP_LIBRARY_KERNEL_NAME, handle_library_kernel_name, CRX_CAP_MODULE_KERNEL),
      (OP_MODULE_GET_GLOBAL, handle_module_global, CRX_CAP_MODULE_KERNEL),
      (OP_SET_DEVICE_FLAGS, handle_set_device_flags, CRX_CAP_DEVICE_INFO),
      (OP_DEVICE_DEFAULT_POOL, handle_device_default_pool, CRX_CAP_MEMORY_POOLS),
      (OP_DEVICE_GET_POOL, handle_device_get_pool, CRX_CAP_MEMORY_POOLS),
      (OP_DEVICE_SET_POOL, handle_device_set_pool, CRX_CAP_MEMORY_POOLS),
      (OP_POOL_CREATE, handle_pool_create, CRX_CAP_MEMORY_POOLS),
      (OP_POOL_DESTROY, handle_pool_destroy, CRX_CAP_MEMORY_POOLS),
      (OP_POOL_TRIM, handle_pool_trim, CRX_CAP_MEMORY_POOLS),
      (OP_POOL_GET_ATTRIBUTE, handle_pool_get_attribute, CRX_CAP_MEMORY_POOLS),
      (OP_POOL_SET_ATTRIBUTE, handle_pool_set_attribute, CRX_CAP_MEMORY_POOLS),
      (OP_POOL_GET_ACCESS, handle_pool_get_access, CRX_CAP_MEMORY_POOLS),
      (OP_POOL_SET_ACCESS, handle_pool_set_access, CRX_CAP_MEMORY_POOLS),
      (OP_ALLOC_ASYNC, handle_alloc_async, CRX_CAP_MEMORY_POOLS),
      (OP_ALLOC_FROM_POOL_ASYNC, handle_alloc_from_pool_async, CRX_CAP_MEMORY_POOLS),
      (OP_FREE_ASYNC, handle_free_async, CRX_CAP_MEMORY_POOLS),
      (OP_GRAPH, graph, CRX_CAP_GRAPHS),
      (OP_GRAPH_MEM_GET, handle_graph_mem_get, CRX_CAP_GRAPHS),
      (OP_GRAPH_MEM_SET, handle_graph_mem_set, CRX_CAP_GRAPHS),
      (OP_GRAPH_MEM_TRIM, handle_graph_mem_trim, CRX_CAP_GRAPHS),
      (OP_FUNCTION_INFO, handle_function_info, CRX_CAP_FUNCTION_INFO)]"

definition SERVER_HANDLER_REGISTRY :: "handler \<Rightarrow> ServerHandlerEntry list" where
  "SERVER_HANDLER_REGISTRY graph =
     [(OP_ALLOC, handle_alloc, CRX_CAP_LINEAR_MEMORY),
      (OP_ALLOC_PITCHED, handle_alloc_pitched, CRX_CAP_LAYOUT_TRANSFER),
      (OP_H2D, handle_h2d, CRX_CAP_COPY_SYNC),
      (OP_LAUNCH, handle_legacy_launch, 0),
      (OP_D2H, handle_d2h, CRX_CAP_COPY_SYNC),
      (OP_FREE, handle_free, CRX_CAP_LINEAR_MEMORY),
      (OP_CLOSE, handle_close, 0),
      (OP_UPLOAD_MODULE, handle_upload_module, CRX_CAP_MODULE_KERNEL),
      (OP_UPLOAD_LIBRARY, handle_upload_library, CRX_CAP_MODULE_KERNEL),
      (OP_GET_KERNEL, handle_get_kernel, CRX_CAP_MODULE_KERNEL),
      (OP_UNLOAD_MODULE, handle_unload_module, CRX_CAP_MODULE_KERNEL),
      (OP_LAUNCH_GENERIC, handle_launch_generic, CRX_CAP_MODULE_KERNEL),
      (OP_CREATE_STREAM, handle_create_stream, CRX_CAP_STREAM_EVENT),
      (OP_DESTROY_STREAM, handle_destroy_stream, CRX_CAP_STREAM_EVENT),
      (OP_STREAM_SYNC, handle_stream_sync, CRX_CAP_STREAM_EVENT),
      (OP_CREATE_EVENT, handle_create_event, CRX_CAP_STREAM_EVENT),
      (OP_DESTROY_EVENT, handle_destroy_event, CRX_CAP_STREAM_EVENT),
      (OP_EVENT_RECORD, handle_event_record, CRX_CAP_STREAM_EVENT),
      (OP_EVENT_SYNC, handle_event_sync, CRX_CAP_STREAM_EVENT),
      (OP_STREAM_WAIT_EVENT, handle_stream_wait_event, CRX_CAP_STREAM_EVENT),
      (OP_H2D_ASYNC_SUBMIT, handle_h2d_async_submit, CRX_CAP_COPY_ASYNC),
      (OP_D2H_ASYNC_SUBMIT, handle_d2h_async_submit, CRX_CAP_COPY_ASYNC),
      (OP_TRANSFER_QUERY, handle_transfer_query, CRX_CAP_COPY_ASYNC),
      (OP_TRANSFER_WAIT, handle_transfer_wait, CRX_CAP_COPY_ASYNC),
      (OP_GET_DEVICE_INFO, handle_get_device_info, CRX_CAP_DEVICE_INFO),
      (OP_HELLO, handle_hello_entry, 0),
      (OP_D2D, handle_d2d, CRX_CAP_COPY_SYNC),
      (OP_D2D_ASYNC, handle_d2d_async, CRX_CAP_COPY_ASYNC),
      (OP_MEMCPY_2D, handle_memcpy_2d_sync_entry, CRX_CAP_LAYOUT_TRANSFER),
      (OP_MEMCPY_2D_ASYNC, handle_memcpy_2d_async, CRX_CAP_LAYOUT_TRANSFER),
      (OP_MEMSET, handle_memset, CRX_CAP_LINEAR_MEMORY),
      (OP_MEMSET_ASYNC, handle_memset_async, CRX_CAP_COPY_ASYNC),
      (OP_MEMSET_2D, handle_memset_2d_sync_entry, CRX_CAP_LAYOUT_TRANSFER),
      (OP_MEMSET_2D_ASYNC, handle_memset_2d_async, CRX_CAP_LAYOUT_TRANSFER),
      (OP_MEMCPY_3D, handle_memcpy_3d_sync_entry, CRX_CAP_LAYOUT_TRANSFER),
      (OP_MEMCPY_3D_ASYNC, handle_memcpy_3d_async_entry, CRX_CAP_LAYOUT_TRANSFER),
      (OP_MEMCPY_2D_H2D_ASYNC, handle_memcpy_2d_h2d_async, CRX_CAP_COPY_ASYNC),
      (OP_MEMCPY_2D_D2H_ASYNC, handle_memcpy_2d_d2h_async, CRX_CAP_COPY_ASYNC),
      (OP_STREAM_GET_FLAGS, handle_stream_get_flags, CRX_CAP_STREAM_EVENT),
      (OP_CREATE_STREAM_PRIORITY, handle_create_stream_priority, CRX_CAP_STREAM_EVENT),
      (OP_STREAM_GET_PRIORITY, handle_stream_get_priority, CRX_CAP_STREAM_EVENT),
      (OP_EVENT_ELAPSED_TIME, handle_event_elapsed, CRX_CAP_STREAM_EVENT),
      (OP_FUNCTION_ATTRIBUTES, handle_function_attributes, CRX_CAP_MODULE_KERNEL)] @
     COREX_GENERATED_SERVER_HANDLER_REGISTRY graph"

text \<open>The array \<open>g_handlers\<close>, \<^const>\<open>None\<close> where it is null.\<close>

definition g_handlers :: "handler \<Rightarrow> u32 \<Rightarrow> (handler \<times> u32) option" where
  "g_handlers graph opcode = (if opcode < OP__COUNT then map_of (SERVER_HANDLER_REGISTRY graph) opcode else None)"

definition server_registry_validate :: "handler \<Rightarrow> int" where
  "server_registry_validate graph =
     (if (\<exists>opcode \<in> set (map of_nat [1..<93]). case g_handlers graph opcode of
            None \<Rightarrow> True | Some (_, capability) \<Rightarrow> capability > CRX_CAP_FUNCTION_INFO)
      then - 1
      else if (\<exists>a \<in> set corex_generated_apis. api_opcode a \<ge> OP__COUNT \<or>
            (case g_handlers graph (api_opcode a) of
               None \<Rightarrow> api_capability_id a \<noteq> 0 | Some (_, capability) \<Rightarrow> capability \<noteq> api_capability_id a))
      then - 1 else 0)"

section \<open>Every registered handler meets the contract\<close>

lemma hello_encodes:
  "\<exists>b. corex_protocol_encode_hello (server_hello w) = Some b \<and> length b < 2 ^ 32"
  by (simp add: corex_protocol_encode_hello_def server_hello_def Let_def upt_rec corex_protocol_write_u32_def)

interpretation hello_entry: safe_handler handle_hello_entry OP_HELLO
proof unfold_locales
  fix n and w :: world and p :: bytes and drv :: driver and req_id :: u32
  assume "session_inv n (sess w)"
  then show "ends (handle_hello_entry drv req_id p w) (safely_served n drv OP_HELLO req_id w)"
    using hello_encodes [of w]
    by (auto simp: handle_hello_entry_def handle_hello_def intro!: ready_reply)
qed

interpretation legacy_launch: safe_handler handle_legacy_launch OP_LAUNCH
  by unfold_locales (auto simp: handle_legacy_launch_def intro!: ready_reply)

interpretation close: safe_handler handle_close OP_CLOSE
  by unfold_locales (auto simp: handle_close_def intro!: ready_reply)

interpretation graph_mem_get: safe_handler handle_graph_mem_get OP_GRAPH_MEM_GET
  by unfold_locales (auto simp: handle_graph_mem_get_def invoke_case call_in_bounds_def pin_call_def
      corex_generated_encode_cudaDeviceGetGraphMemAttribute_response_def codec_simps
      split: option.split intro!: ready_reply ready_call)

interpretation graph_mem_set: safe_handler handle_graph_mem_set OP_GRAPH_MEM_SET
  by unfold_locales (auto simp: handle_graph_mem_set_def invoke_case call_in_bounds_def pin_call_def
      split: option.split intro!: ready_reply ready_call)

lemma calm_ready: "calm n w w' \<Longrightarrow> ready n w w'"
  using calmD [of n w w'] by (simp add: ready_def)

interpretation graph_mem_trim: safe_handler handle_graph_mem_trim OP_GRAPH_MEM_TRIM
proof unfold_locales
  fix n and w :: world and p :: bytes and drv :: driver and req_id :: u32
  assume i: "session_inv n (sess w)"
  then obtain w' where "retire_graph_memory drv False w = Some w'" "ready n w w'"
    using retire_graph_memory_calm calm_ready by blast
  then show "ends (handle_graph_mem_trim drv req_id p w) (safely_served n drv OP_GRAPH_MEM_TRIM req_id w)"
    using i by (auto simp: handle_graph_mem_trim_def invoke_case call_in_bounds_def pin_call_def
        split: option.split intro!: ready_reply ready_call)
qed

lemmas handler_contracts =
  launch_generic.safe_handler_axioms memset_2d_async.safe_handler_axioms memset_2d_sync.safe_handler_axioms
  memset_3d_sync.safe_handler_axioms memset_3d_async.safe_handler_axioms
  memcpy_2d_h2d_async.safe_handler_axioms memcpy_2d_d2h_async.safe_handler_axioms
  memcpy_3d_sync.safe_handler_axioms memcpy_3d_async.safe_handler_axioms alloc.safe_handler_axioms
  alloc_pitched.safe_handler_axioms h2d.safe_handler_axioms d2h.safe_handler_axioms d2d.safe_handler_axioms
  d2d_async.safe_handler_axioms memset.safe_handler_axioms memset_async.safe_handler_axioms
  free.safe_handler_axioms sync.safe_handler_axioms upload_module.safe_handler_axioms
  upload_library.safe_handler_axioms module_global.safe_handler_axioms library_count.safe_handler_axioms
  library_kernel_name.safe_handler_axioms get_kernel.safe_handler_axioms unload_module.safe_handler_axioms
  device_default_pool.safe_handler_axioms device_get_pool.safe_handler_axioms
  device_set_pool.safe_handler_axioms pool_create.safe_handler_axioms pool_destroy.safe_handler_axioms
  pool_trim.safe_handler_axioms pool_get_attribute.safe_handler_axioms pool_set_attribute.safe_handler_axioms
  pool_get_access.safe_handler_axioms pool_set_access.safe_handler_axioms alloc_async.safe_handler_axioms
  alloc_from_pool_async.safe_handler_axioms free_async.safe_handler_axioms driver_version.safe_handler_axioms
  runtime_version.safe_handler_axioms device_get_attribute.safe_handler_axioms
  device_get_pci_bus_id.safe_handler_axioms device_get_by_pci_bus_id.safe_handler_axioms
  get_device_flags.safe_handler_axioms get_priority_range.safe_handler_axioms get_limit.safe_handler_axioms
  get_cache_config.safe_handler_axioms get_shared_mem_config.safe_handler_axioms set_limit.safe_handler_axioms
  set_cache_config.safe_handler_axioms set_shared_mem_config.safe_handler_axioms
  set_device_flags.safe_handler_axioms stream_copy_attributes.safe_handler_axioms
  stream_get_attribute.safe_handler_axioms stream_set_attribute.safe_handler_axioms
  function_set_attribute.safe_handler_axioms function_set_cache_config.safe_handler_axioms
  function_set_shared_config.safe_handler_axioms function_attributes.safe_handler_axioms
  function_info.safe_handler_axioms occupancy.safe_handler_axioms occupancy_flags.safe_handler_axioms
  occupancy_potential.safe_handler_axioms get_device_info.safe_handler_axioms
  create_stream.safe_handler_axioms create_stream_priority.safe_handler_axioms
  stream_get_flags.safe_handler_axioms stream_get_priority.safe_handler_axioms
  stream_query.safe_handler_axioms stream_sync.safe_handler_axioms destroy_stream.safe_handler_axioms
  create_event.safe_handler_axioms event_record.safe_handler_axioms event_query.safe_handler_axioms
  event_sync.safe_handler_axioms event_elapsed.safe_handler_axioms stream_wait_event.safe_handler_axioms
  destroy_event.safe_handler_axioms h2d_async_submit.safe_handler_axioms d2h_async_submit.safe_handler_axioms
  transfer_query.safe_handler_axioms transfer_wait.safe_handler_axioms hello_entry.safe_handler_axioms
  legacy_launch.safe_handler_axioms close.safe_handler_axioms graph_mem_get.safe_handler_axioms
  graph_mem_set.safe_handler_axioms graph_mem_trim.safe_handler_axioms

text \<open>The opcodes whose handlers meet the contract on every request.\<close>

definition contract_opcode :: "u32 \<Rightarrow> bool" where
  "contract_opcode opcode \<longleftrightarrow> opcode \<noteq> OP_GRAPH \<and> opcode \<noteq> OP_MEMCPY_2D \<and> opcode \<noteq> OP_MEMCPY_2D_ASYNC"

lemma registry_contracts:
  "list_all (\<lambda>(opcode, h, cap). contract_opcode opcode \<longrightarrow> safe_handler h opcode) (SERVER_HANDLER_REGISTRY graph)"
  by (simp add: SERVER_HANDLER_REGISTRY_def COREX_GENERATED_SERVER_HANDLER_REGISTRY_def handler_contracts contract_opcode_def)

text \<open>The opcodes and capabilities of the rows, and the start-up check read off them.\<close>

definition registry_caps :: "(u32 \<times> u32) list" where
  "registry_caps = [(1, 2), (49, 7), (2, 3), (3, 0), (5, 3), (6, 2), (7, 0), (8, 6), (70, 6), (9, 6), (10, 6), (11, 6), (12,
     4), (13, 4), (15, 4), (16, 4), (17, 4), (18, 4), (20, 4), (21, 4), (22, 5), (23, 5), (24, 5), (25, 5),
     (26, 1), (27, 0), (28, 3), (54, 5), (50, 7), (51, 7), (29, 2), (30, 5), (52, 7), (53, 7), (55, 7), (56,
     7), (57, 5), (58, 5), (31, 4), (32, 4), (33, 4), (34, 4), (37, 6), (4, 4), (14, 4), (19, 4), (35, 1),
     (36, 1), (39, 1), (40, 1), (41, 4), (42, 1), (43, 1), (44, 1), (45, 6), (46, 6), (38, 6), (47, 1), (48,
     1), (59, 1), (60, 1), (61, 1), (62, 4), (63, 4), (64, 4), (65, 7), (66, 7), (67, 6), (68, 6), (69, 6),
     (71, 6), (72, 6), (73, 6), (74, 1), (75, 8), (76, 8), (77, 8), (78, 8), (79, 8), (80, 8), (81, 8), (82,
     8), (83, 8), (84, 8), (85, 8), (86, 8), (87, 8), (88, 9), (89, 9), (90, 9), (91, 9), (92, 10)]"

lemma registry_caps_eq: "map (\<lambda>(opcode, h, cap). (opcode, cap)) (SERVER_HANDLER_REGISTRY graph) = registry_caps"
  by (simp add: SERVER_HANDLER_REGISTRY_def COREX_GENERATED_SERVER_HANDLER_REGISTRY_def registry_caps_def)

lemma map_of_caps: "map_option snd (map_of rows k) = map_of (map (\<lambda>(opcode, h, cap). (opcode, cap)) rows) k"
  by (induction rows) auto

lemma g_handlers_caps:
  "map_option snd (g_handlers graph opcode) = (if opcode < OP__COUNT then map_of registry_caps opcode else None)"
  by (simp add: g_handlers_def map_of_caps registry_caps_eq)

lemma case_caps: "(case x of None \<Rightarrow> a | Some (h, c) \<Rightarrow> f c) = (case map_option snd x of None \<Rightarrow> a | Some c \<Rightarrow> f c)"
  by (simp split: option.split)

text \<open>The opcodes of the rows are the numbers from 1 to 92, each once.\<close>

definition registry_order :: "nat list" where
  "registry_order = [1, 49, 2, 3, 5, 6, 7, 8, 70, 9, 10, 11, 12, 13, 15, 16, 17, 18, 20, 21, 22, 23, 24, 25, 26, 27, 28, 54,
     50, 51, 29, 30, 52, 53, 55, 56, 57, 58, 31, 32, 33, 34, 37, 4, 14, 19, 35, 36, 39, 40, 41, 42, 43, 44,
     45, 46, 38, 47, 48, 59, 60, 61, 62, 63, 64, 65, 66, 67, 68, 69, 71, 72, 73, 74, 75, 76, 77, 78, 79, 80,
     81, 82, 83, 84, 85, 86, 87, 88, 89, 90, 91, 92]"

lemma registry_order: "sort_key id registry_order = [1..<93]"
  by code_simp

lemma registry_caps_order: "map fst registry_caps = map of_nat registry_order"
  by (simp add: registry_caps_def registry_order_def)

lemma registry_order_set: "set registry_order = {1..<93}" "distinct registry_order"
  using set_sort [of id registry_order] distinct_sort [of id registry_order] unfolding registry_order set_upt distinct_upt by simp_all

lemma registry_caps_distinct: "distinct (map fst registry_caps)"
  unfolding registry_caps_order distinct_map
proof
  show "inj_on (of_nat :: nat \<Rightarrow> u32) (set registry_order)"
    by (rule inj_onI) (simp add: registry_order_set word_of_nat_eq_iff take_bit_nat_eq_self)
qed (rule registry_order_set)

lemma registry_caps_bounded: "list_all (\<lambda>(opcode, c). c \<le> CRX_CAP_FUNCTION_INFO) registry_caps"
  by (simp add: registry_caps_def)

text \<open>The generated rows carry the capabilities of the schema.\<close>

lemma schema_caps: "map (\<lambda>a. (api_opcode a, api_capability_id a)) corex_generated_apis = drop 43 registry_caps"
  by (simp add: corex_generated_apis_def registry_caps_def)

lemma registry_caps_map: "map_of registry_caps k = Some c \<longleftrightarrow> (k, c) \<in> set registry_caps"
  by (rule map_of_eq_Some_iff [OF registry_caps_distinct])

lemma registry_caps_total:
  assumes "1 \<le> opcode" "opcode < OP__COUNT"
  shows "\<exists>c. (opcode, c) \<in> set registry_caps \<and> c \<le> CRX_CAP_FUNCTION_INFO"
proof -
  have "opcode = of_nat (unat opcode)" "unat opcode \<in> {1..<93}" using assms by (auto simp: word_le_nat_alt word_less_nat_alt)
  then have "opcode \<in> set (map fst registry_caps)" unfolding registry_caps_order set_map registry_order_set by blast
  then show ?thesis using registry_caps_bounded by (auto simp: list_all_iff)
qed

lemma g_handlers_Some:
  "g_handlers graph opcode = Some (h, c) \<Longrightarrow> (opcode, h, c) \<in> set (SERVER_HANDLER_REGISTRY graph) \<and> opcode < OP__COUNT"
  by (auto simp: g_handlers_def map_of_SomeD split: if_splits)

lemma g_handlers_contract:
  "g_handlers graph opcode = Some (h, c) \<Longrightarrow> contract_opcode opcode \<Longrightarrow> safe_handler h opcode"
  using registry_contracts [of graph] by (auto simp: list_all_iff dest!: g_handlers_Some)

lemma g_handlers_total:
  assumes "1 \<le> opcode" "opcode < OP__COUNT"
  obtains h c where "g_handlers graph opcode = Some (h, c)" "c \<le> CRX_CAP_FUNCTION_INFO"
proof -
  obtain c where c: "(opcode, c) \<in> set registry_caps" "c \<le> CRX_CAP_FUNCTION_INFO" using registry_caps_total [OF assms] by auto
  then have "map_option snd (g_handlers graph opcode) = Some c" using assms by (simp add: g_handlers_caps registry_caps_map)
  then show ?thesis using that c(2) by (cases "g_handlers graph opcode") auto
qed

lemma registry_rows_distinct: "distinct (map fst (SERVER_HANDLER_REGISTRY graph))"
proof -
  have "map fst (SERVER_HANDLER_REGISTRY graph) = map fst registry_caps"
    unfolding registry_caps_eq [of graph, symmetric] by (simp add: comp_def case_prod_beta)
  then show ?thesis using registry_caps_distinct by simp
qed

lemma schema_caps_registered:
  assumes "a \<in> set corex_generated_apis"
  shows "map_option snd (g_handlers graph (api_opcode a)) = Some (api_capability_id a)" "api_opcode a < OP__COUNT"
proof -
  have "(api_opcode a, api_capability_id a) \<in> set (drop 43 registry_caps)"
    using assms unfolding schema_caps [symmetric] by auto
  then have r: "(api_opcode a, api_capability_id a) \<in> set registry_caps" by (rule in_set_dropD)
  then have "api_opcode a \<in> set (map fst registry_caps)" by force
  then obtain k where "k \<in> {1..<93}" "api_opcode a = of_nat k" unfolding registry_caps_order by (auto simp: registry_order_set)
  then show "api_opcode a < OP__COUNT" by (auto simp: word_less_nat_alt unat_of_nat)
  then show "map_option snd (g_handlers graph (api_opcode a)) = Some (api_capability_id a)"
    using r by (simp add: g_handlers_caps registry_caps_map)
qed

text \<open>
  C40. The registry is complete and unambiguous: whatever the handler of the graph commands is, the
  start-up check of the registry succeeds, no opcode is registered twice, and exactly the opcodes
  from 1 to 92 of the protocol have a handler.
\<close>

theorem registry_complete:
  "server_registry_validate graph = 0 \<and> distinct (map fst (SERVER_HANDLER_REGISTRY graph)) \<and>
   (g_handlers graph opcode \<noteq> None) = (opcode \<noteq> 0 \<and> opcode < OP__COUNT)"
proof (intro conjI)
  have 1: "\<not> (\<exists>opcode \<in> set (map of_nat [1..<93]). case g_handlers graph opcode of
      None \<Rightarrow> True | Some (_, capability) \<Rightarrow> capability > CRX_CAP_FUNCTION_INFO)"
  proof
    assume "\<exists>opcode \<in> set (map of_nat [1..<93]). case g_handlers graph opcode of
      None \<Rightarrow> True | Some (_, capability) \<Rightarrow> capability > CRX_CAP_FUNCTION_INFO"
    then obtain k where k: "k \<in> {1..<93}" "case g_handlers graph (of_nat k) of
      None \<Rightarrow> True | Some (_, capability) \<Rightarrow> capability > CRX_CAP_FUNCTION_INFO" by auto
    then have "(1 :: u32) \<le> of_nat k" "of_nat k < OP__COUNT" by (auto simp: word_le_nat_alt word_less_nat_alt unat_of_nat)
    then obtain h c where "g_handlers graph (of_nat k) = Some (h, c)" "c \<le> CRX_CAP_FUNCTION_INFO" by (rule g_handlers_total)
    then show False using k by auto
  qed
  have 2: "\<not> (\<exists>a \<in> set corex_generated_apis. api_opcode a \<ge> OP__COUNT \<or> (case g_handlers graph (api_opcode a) of
      None \<Rightarrow> api_capability_id a \<noteq> 0 | Some (_, capability) \<Rightarrow> capability \<noteq> api_capability_id a))"
    unfolding case_caps by (auto simp: schema_caps_registered not_le [symmetric] dest: schema_caps_registered(2))
  show "server_registry_validate graph = 0" unfolding server_registry_validate_def using 1 2 by (simp only: if_False)
  show "distinct (map fst (SERVER_HANDLER_REGISTRY graph))" by (rule registry_rows_distinct)
  have "g_handlers graph opcode \<noteq> None" if "1 \<le> opcode" "opcode < OP__COUNT"
    using g_handlers_total [OF that, of graph] by (metis option.distinct(1))
  moreover have "g_handlers graph 0 = None"
  proof -
    have "(0 :: u32) \<notin> set (map fst registry_caps)"
      unfolding registry_caps_order set_map registry_order_set by (auto simp: word_unat_eq_iff unat_of_nat)
    then have "map_of registry_caps 0 = None" by (simp add: map_of_eq_None_iff)
    then show ?thesis using g_handlers_caps [of graph 0] by simp
  qed
  ultimately show "(g_handlers graph opcode \<noteq> None) = (opcode \<noteq> 0 \<and> opcode < OP__COUNT)"
    by (auto simp: g_handlers_def word_le_nat_alt unat_gt_0 Suc_le_eq)
qed

end
