(* ===== verification/Cleanup.thy ===== *)
theory Cleanup
  imports Registry
begin

text \<open>
  The end of a session: \<open>cleanup_graphs\<close> (\<^verbatim>\<open>server/corex_graph_runtime.inc\<close>) and \<open>cleanup_session\<close>
  (\<^verbatim>\<open>server/runtime_server.c\<close>). Every native object the session owns is destroyed exactly once, in an
  order in which an object outlives its users, and the session is the initial one afterwards.
\<close>

section \<open>Graphs\<close>

definition release_graph_node :: "nat \<Rightarrow> ServerSession \<Rightarrow> ServerSession" where
  "release_graph_node i s = s\<lparr>graph_nodes := (graph_nodes s)[i := zero_graph_node]\<rparr>"

text \<open>Ending a capture that is still open. A failed end discards the graph the capture created.\<close>

definition cleanup_capture :: "driver \<Rightarrow> world \<Rightarrow> world" where
  "cleanup_capture drv w =
     (if capture_graph (sess w) = 0 then w
      else
        let graph = find_graph (sess w) (capture_graph (sess w));
            (captured, w) = (case find_stream (sess w) (capture_stream (sess w)) of
                               None \<Rightarrow> (0, w)
                             | Some i \<Rightarrow>
                                 (let (r, w) = invoke drv (Graph (B_capture_end (st_stream (streams (sess w) ! i)))) w
                                  in (o_val r, w)));
            w = (case graph of
                   None \<Rightarrow> w
                 | Some g \<Rightarrow>
                     if captured = 0 \<and> \<not> capture_supplied_graph (sess w)
                     then put_sess (\<lambda>s. s\<lparr>graph_nodes := map (\<lambda>n. if n_used n \<and> n_graph_id n = g_id (graphs s ! g)
                                                                then zero_graph_node else n) (graph_nodes s),
                                          graphs := (graphs s)[g := zero_graph]\<rparr>) w
                     else w)
        in put_sess (\<lambda>s. s\<lparr>capture_graph := 0, capture_stream := 0, capture_supplied_graph := False\<rparr>) w)"

text \<open>One turn of a loop over a table: the body runs on the entries in use.\<close>

definition cleanup_graph_allocation :: "driver \<Rightarrow> nat \<Rightarrow> world \<Rightarrow> world" where
  "cleanup_graph_allocation drv i w =
     (let a = allocations (sess w) ! i
      in if a_used a \<and> a_graph_id a \<noteq> 0 \<and> a_graph_active a
         then put_sess (upd_allocation i (\<lambda>a. a\<lparr>a_graph_active := False\<rparr>)) (snd (invoke drv (Mem (B_mem_free (a_ptr a))) w))
         else w)"

definition cleanup_graph_exec :: "driver \<Rightarrow> nat \<Rightarrow> world \<Rightarrow> world" where
  "cleanup_graph_exec drv i w =
     (if x_used (graph_execs (sess w) ! i) then release_graph_exec drv i w else w)"

definition cleanup_graph :: "driver \<Rightarrow> nat \<Rightarrow> world \<Rightarrow> world" where
  "cleanup_graph drv i w =
     (let g = graphs (sess w) ! i;
          w = (if g_used g \<and> g_owner_node_id g = 0
               then snd (invoke drv (Graph (B_graph_destroy (g_graph g))) w) else w)
      in put_sess (\<lambda>s. s\<lparr>graphs := (graphs s)[i := zero_graph]\<rparr>) w)"

definition cleanup_graphs :: "driver \<Rightarrow> world \<Rightarrow> world option" where
  "cleanup_graphs drv w =
     (let w = cleanup_capture drv w;
          w = snd (invoke drv (Ctx B_context_sync) w);
          w = fold (cleanup_graph_allocation drv) [0..<MAX_ALLOCS] w;
          w = fold (cleanup_graph_exec drv) [0..<CRX_GRAPH_MAX_EXECS] w;
          w = fold (cleanup_graph drv) [0..<CRX_GRAPH_MAX_GRAPHS] w;
          w = fold (\<lambda>i. put_sess (release_graph_node i)) [0..<CRX_GRAPH_MAX_NODE_HANDLES] w
      in retire_graph_memory drv True w)"

section \<open>The session\<close>

definition cleanup_stream_sync :: "driver \<Rightarrow> nat \<Rightarrow> world \<Rightarrow> world" where
  "cleanup_stream_sync drv i w =
     (if \<not> st_used (streams (sess w) ! i) then w
      else snd (invoke drv (Stream (B_stream_sync (st_stream (streams (sess w) ! i)))) w))"

definition cleanup_transfer :: "driver \<Rightarrow> nat \<Rightarrow> world \<Rightarrow> world" where
  "cleanup_transfer drv i w =
     (if \<not> t_used (transfers (sess w) ! i) then w
      else release_transfer drv i (snd (invoke drv (Event (B_event_sync (t_done_event (transfers (sess w) ! i)))) w)))"

definition cleanup_event :: "driver \<Rightarrow> nat \<Rightarrow> world \<Rightarrow> world" where
  "cleanup_event drv i w =
     (if \<not> e_used (events (sess w) ! i) then w
      else put_sess (upd_event i (\<lambda>_. zero_event)) (snd (invoke drv (Event (B_event_destroy (e_event (events (sess w) ! i)))) w)))"

definition cleanup_stream :: "driver \<Rightarrow> nat \<Rightarrow> world \<Rightarrow> world" where
  "cleanup_stream drv i w =
     (if \<not> st_used (streams (sess w) ! i) then w
      else put_sess (upd_stream i (\<lambda>_. zero_stream)) (snd (invoke drv (Stream (B_stream_destroy (st_stream (streams (sess w) ! i)))) w)))"

definition cleanup_allocation :: "driver \<Rightarrow> nat \<Rightarrow> world \<Rightarrow> world" where
  "cleanup_allocation drv i w =
     (let a = allocations (sess w) ! i
      in if \<not> a_used a then w
         else put_sess (upd_allocation i (\<lambda>_. zero_allocation))
                (if a_ptr a \<noteq> 0 \<and> a_parent_module_id a = 0 \<and> (a_graph_id a = 0 \<or> a_graph_active a)
                 then snd (invoke drv (Mem (B_mem_free (a_ptr a))) w) else w))"

definition cleanup_kernel :: "nat \<Rightarrow> world \<Rightarrow> world" where
  "cleanup_kernel i w = (if \<not> k_used (kernels (sess w) ! i) then w else put_sess (upd_kernel i (\<lambda>_. zero_kernel)) w)"

definition cleanup_module :: "driver \<Rightarrow> nat \<Rightarrow> world \<Rightarrow> world" where
  "cleanup_module drv i w =
     (let m = modules (sess w) ! i
      in if \<not> m_used m then w
         else put_sess (upd_module i (\<lambda>_. zero_module))
                (if m_module m \<noteq> 0 then snd (invoke drv (Module (B_module_unload (m_module m))) w) else w))"

text \<open>The default pool is selected again, its attributes are restored, it is trimmed and its high-water marks are reset.\<close>

definition restore_default_pool :: "driver \<Rightarrow> world \<Rightarrow> world" where
  "restore_default_pool drv w =
     (case find_pool (sess w) (default_pool_id (sess w)) of
        None \<Rightarrow> w
      | Some i \<Rightarrow>
          (let pool = p_pool (pools (sess w) ! i);
               w = snd (invoke drv (Pool (B_device_set_pool pool)) w);
               w = fold (\<lambda>attr w. snd (pool_write_attribute drv pool (of_nat attr)
                           (default_pool_attributes (sess w) ! (attr - 1)) w)) [1..<5] w;
               w = snd (corex_backend_pool_trim drv pool 0 w);
               w = snd (pool_write_attribute drv pool 6 0 w)
           in snd (pool_write_attribute drv pool 8 0 w)))"

definition cleanup_pool :: "driver \<Rightarrow> nat \<Rightarrow> world \<Rightarrow> world" where
  "cleanup_pool drv i w =
     (let p = pools (sess w) ! i
      in if \<not> p_used p \<or> p_is_default p then w else snd (invoke drv (Pool (B_pool_destroy (p_pool p))) w))"

definition cleanup_session :: "driver \<Rightarrow> world \<Rightarrow> world option" where
  "cleanup_session drv w =
     (case cleanup_graphs drv w of
        None \<Rightarrow> None
      | Some w \<Rightarrow>
          (let w = fold (cleanup_stream_sync drv) [0..<MAX_STREAMS] w;
               w = fold (cleanup_transfer drv) [0..<MAX_TRANSFERS] w;
               w = fold (cleanup_event drv) [0..<MAX_EVENTS] w;
               w = fold (cleanup_stream drv) [0..<MAX_STREAMS] w;
               w = (if g_ctx w \<noteq> 0 then snd (invoke drv (Ctx B_context_sync) w) else w);
               w = fold (cleanup_allocation drv) [0..<MAX_ALLOCS] w;
               w = fold cleanup_kernel [0..<MAX_KERNELS] w;
               w = fold (cleanup_module drv) [0..<MAX_MODULES] w;
               w = restore_default_pool drv w;
               w = fold (cleanup_pool drv) [0..<MAX_POOLS] w
           in Some (w\<lparr>sess := server_session_init\<rparr>)))"

section \<open>Loops over a table\<close>

text \<open>The history after a list of calls, in the order they are made.\<close>

definition emit :: "call list \<Rightarrow> world \<Rightarrow> world" where
  "emit cs w = w\<lparr>calls := rev cs @ calls w\<rparr>"

lemma emit_simps [simp]:
  "sess (emit cs w) = sess w" "sent (emit cs w) = sent w" "calls (emit cs w) = rev cs @ calls w"
  "g_ctx (emit cs w) = g_ctx w" "emit [] w = w" "emit ds (emit cs w) = emit (cs @ ds) w"
  "(emit cs w)\<lparr>sess := s\<rparr> = emit cs (w\<lparr>sess := s\<rparr>)"
  by (simp_all add: emit_def)

lemma invoke_emit: "snd (invoke drv c w) = emit [c] w"
  by (simp add: invoke_def emit_def)

text \<open>A table of the session, as a field that can be read and written.\<close>

locale session_table =
  fixes get :: "ServerSession \<Rightarrow> 'e list"
    and put :: "'e list \<Rightarrow> ServerSession \<Rightarrow> ServerSession"
  assumes get_put: "get (put t s) = t"
    and put_put: "put t' (put t s) = put t' s"
    and put_get: "put (get s) s = s"
begin

text \<open>
  A loop over the table whose body makes the calls \<open>act\<close> of an entry that satisfies \<open>P\<close> and replaces
  that entry: the calls are those of the entries that satisfied \<open>P\<close> at the start, in table order.
\<close>

lemma sweep_from:
  assumes "\<And>i w. i < n \<Longrightarrow> body i w = (if P (get (sess w) ! i)
      then emit (act (get (sess w) ! i)) (put_sess (put ((get (sess w))[i := f (get (sess w) ! i)])) w) else w)"
    and "length (get (sess w)) = n" "k \<le> n"
  shows "fold body [k..<n] w = emit (concat (map act (filter P (drop k (get (sess w))))))
      (put_sess (put (take k (get (sess w)) @ map (\<lambda>e. if P e then f e else e) (drop k (get (sess w))))) w)"
  using assms(2,3)
proof (induction "n - k" arbitrary: k w)
  case 0
  then show ?case by (simp add: put_get)
next
  case (Suc m)
  then have k: "k < n" by simp
  let ?t = "get (sess w)"
  let ?e = "?t ! k"
  let ?t' = "if P ?e then ?t[k := f ?e] else ?t"
  let ?w = "emit (if P ?e then act ?e else []) (put_sess (put ?t') w)"
  have b: "body k w = ?w" using assms(1) [OF k] by (simp add: put_get)
  have len: "length (get (sess ?w)) = n" using Suc.prems by (simp add: get_put)
  have d: "drop k ?t = ?e # drop (Suc k) ?t" using k Suc.prems by (simp add: Cons_nth_drop_Suc)
  have t: "take (Suc k) ?t' = take k ?t @ [if P ?e then f ?e else ?e]" "drop (Suc k) ?t' = drop (Suc k) ?t"
    using k Suc.prems by (simp_all add: take_Suc_conv_app_nth)
  have "fold body [k..<n] w = fold body [Suc k..<n] ?w" using k b by (simp add: upt_conv_Cons)
  also have "\<dots> = emit (concat (map act (filter P (drop (Suc k) ?t'))))
      (put_sess (put (take (Suc k) ?t' @ map (\<lambda>e. if P e then f e else e) (drop (Suc k) ?t'))) ?w)"
    using Suc.hyps(1) [of "Suc k" ?w] Suc.hyps(2) k len by (simp add: get_put)
  also have "\<dots> = emit (concat (map act (filter P (drop k ?t))))
      (put_sess (put (take k ?t @ map (\<lambda>e. if P e then f e else e) (drop k ?t))) w)"
    unfolding t d by (simp add: put_put)
  finally show ?case .
qed

lemma sweep:
  assumes "\<And>i w. i < n \<Longrightarrow> body i w = (if P (get (sess w) ! i)
      then emit (act (get (sess w) ! i)) (put_sess (put ((get (sess w))[i := f (get (sess w) ! i)])) w) else w)"
    and "length (get (sess w)) = n"
  shows "fold body [0..<n] w = emit (concat (map act (filter P (get (sess w)))))
      (put_sess (put (map (\<lambda>e. if P e then f e else e) (get (sess w)))) w)"
  using sweep_from [of n body P act f w 0, OF assms] by simp

end

interpretation allocation_table: session_table allocations "\<lambda>t s. s\<lparr>allocations := t\<rparr>"
  by unfold_locales simp_all

interpretation module_table: session_table modules "\<lambda>t s. s\<lparr>modules := t\<rparr>"
  by unfold_locales simp_all

interpretation kernel_table: session_table kernels "\<lambda>t s. s\<lparr>kernels := t\<rparr>"
  by unfold_locales simp_all

interpretation stream_table: session_table streams "\<lambda>t s. s\<lparr>streams := t\<rparr>"
  by unfold_locales simp_all

interpretation event_table: session_table events "\<lambda>t s. s\<lparr>events := t\<rparr>"
  by unfold_locales simp_all

interpretation transfer_table: session_table transfers "\<lambda>t s. s\<lparr>transfers := t\<rparr>"
  by unfold_locales simp_all

interpretation pool_table: session_table pools "\<lambda>t s. s\<lparr>pools := t\<rparr>"
  by unfold_locales simp_all

interpretation graph_table: session_table graphs "\<lambda>t s. s\<lparr>graphs := t\<rparr>"
  by unfold_locales simp_all

interpretation exec_table: session_table graph_execs "\<lambda>t s. s\<lparr>graph_execs := t\<rparr>"
  by unfold_locales simp_all

interpretation node_table: session_table graph_nodes "\<lambda>t s. s\<lparr>graph_nodes := t\<rparr>"
  by unfold_locales simp_all

section \<open>What each loop does\<close>

definition free_graph_calls :: "Allocation \<Rightarrow> call list" where
  "free_graph_calls a = [Mem (B_mem_free (a_ptr a))]"

definition exec_calls :: "GraphExecEntry \<Rightarrow> call list" where
  "exec_calls e = Graph (B_graph_exec_destroy (x_exec e)) #
     (if x_definition e \<noteq> 0 then [Graph (B_graph_destroy (x_definition e))] else [])"

definition transfer_calls :: "TransferEntry \<Rightarrow> call list" where
  "transfer_calls e = Event (B_event_sync (t_done_event e)) #
     (if t_done_event e \<noteq> 0 then [Event (B_event_destroy (t_done_event e))] else []) @
     (if t_host_buffer e \<noteq> 0 then [Mem (B_host_free (t_host_buffer e))] else [])"

definition allocation_calls :: "Allocation \<Rightarrow> call list" where
  "allocation_calls a =
     (if a_ptr a \<noteq> 0 \<and> a_parent_module_id a = 0 \<and> (a_graph_id a = 0 \<or> a_graph_active a)
      then [Mem (B_mem_free (a_ptr a))] else [])"

definition module_calls :: "ModuleEntry \<Rightarrow> call list" where
  "module_calls m = (if m_module m \<noteq> 0 then [Module (B_module_unload (m_module m))] else [])"

lemma sweep_simps [simp]: "map (If True z) t = replicate (length t) z" "concat (map (\<lambda>_. []) t) = []"
  by (simp_all add: map_replicate_const concat_eq_Nil_conv fun_eq_iff [of "If True z"] flip: map_replicate_const)

lemma sweep_graph_allocations:
  "length (allocations (sess w)) = MAX_ALLOCS \<Longrightarrow>
   fold (cleanup_graph_allocation drv) [0..<MAX_ALLOCS] w =
     emit (concat (map free_graph_calls (filter (\<lambda>a. a_used a \<and> a_graph_id a \<noteq> 0 \<and> a_graph_active a) (allocations (sess w)))))
       (put_sess (\<lambda>s. s\<lparr>allocations := map (\<lambda>a. if a_used a \<and> a_graph_id a \<noteq> 0 \<and> a_graph_active a
          then a\<lparr>a_graph_active := False\<rparr> else a) (allocations s)\<rparr>) w)"
  by (subst allocation_table.sweep) (auto simp: cleanup_graph_allocation_def Let_def invoke_emit free_graph_calls_def upd_allocation_def)

lemma sweep_graph_execs:
  "length (graph_execs (sess w)) = CRX_GRAPH_MAX_EXECS \<Longrightarrow>
   fold (cleanup_graph_exec drv) [0..<CRX_GRAPH_MAX_EXECS] w =
     emit (concat (map exec_calls (filter x_used (graph_execs (sess w)))))
       (put_sess (\<lambda>s. s\<lparr>graph_execs := map (\<lambda>e. if x_used e then zero_graph_exec else e) (graph_execs s)\<rparr>) w)"
  by (subst exec_table.sweep) (auto simp: cleanup_graph_exec_def release_graph_exec_def invoke_case Let_def invoke_emit exec_calls_def upd_exec_def)

lemma sweep_graphs:
  "length (graphs (sess w)) = CRX_GRAPH_MAX_GRAPHS \<Longrightarrow>
   fold (cleanup_graph drv) [0..<CRX_GRAPH_MAX_GRAPHS] w =
     emit (concat (map (\<lambda>g. if g_used g \<and> g_owner_node_id g = 0 then [Graph (B_graph_destroy (g_graph g))] else []) (graphs (sess w))))
       (put_sess (\<lambda>s. s\<lparr>graphs := replicate CRX_GRAPH_MAX_GRAPHS zero_graph\<rparr>) w)"
  by (subst graph_table.sweep [where P = "\<lambda>_. True" and f = "\<lambda>_. zero_graph"
      and act = "\<lambda>g. if g_used g \<and> g_owner_node_id g = 0 then [Graph (B_graph_destroy (g_graph g))] else []"])
    (auto simp: cleanup_graph_def Let_def invoke_emit map_replicate_const)

lemma sweep_nodes:
  "length (graph_nodes (sess w)) = CRX_GRAPH_MAX_NODE_HANDLES \<Longrightarrow>
   fold (\<lambda>i. put_sess (release_graph_node i)) [0..<CRX_GRAPH_MAX_NODE_HANDLES] w =
     put_sess (\<lambda>s. s\<lparr>graph_nodes := replicate CRX_GRAPH_MAX_NODE_HANDLES zero_graph_node\<rparr>) w"
  by (subst node_table.sweep [where P = "\<lambda>_. True" and f = "\<lambda>_. zero_graph_node" and act = "\<lambda>_. []"])
    (auto simp: release_graph_node_def map_replicate_const)

lemma sweep_stream_syncs:
  "length (streams (sess w)) = MAX_STREAMS \<Longrightarrow>
   fold (cleanup_stream_sync drv) [0..<MAX_STREAMS] w =
     emit (concat (map (\<lambda>e. [Stream (B_stream_sync (st_stream e))]) (filter st_used (streams (sess w))))) w"
  by (subst stream_table.sweep [where f = "\<lambda>e. e"]) (auto simp: cleanup_stream_sync_def invoke_emit)

lemma sweep_transfers:
  "length (transfers (sess w)) = MAX_TRANSFERS \<Longrightarrow>
   fold (cleanup_transfer drv) [0..<MAX_TRANSFERS] w =
     emit (concat (map transfer_calls (filter t_used (transfers (sess w)))))
       (put_sess (\<lambda>s. s\<lparr>transfers := map (\<lambda>e. if t_used e then zero_transfer else e) (transfers s)\<rparr>) w)"
  by (subst transfer_table.sweep) (auto simp: cleanup_transfer_def release_transfer_def Let_def invoke_emit transfer_calls_def upd_transfer_def)

lemma sweep_events:
  "length (events (sess w)) = MAX_EVENTS \<Longrightarrow>
   fold (cleanup_event drv) [0..<MAX_EVENTS] w =
     emit (concat (map (\<lambda>e. [Event (B_event_destroy (e_event e))]) (filter e_used (events (sess w)))))
       (put_sess (\<lambda>s. s\<lparr>events := map (\<lambda>e. if e_used e then zero_event else e) (events s)\<rparr>) w)"
  by (subst event_table.sweep) (auto simp: cleanup_event_def invoke_emit upd_event_def)

lemma sweep_streams:
  "length (streams (sess w)) = MAX_STREAMS \<Longrightarrow>
   fold (cleanup_stream drv) [0..<MAX_STREAMS] w =
     emit (concat (map (\<lambda>e. [Stream (B_stream_destroy (st_stream e))]) (filter st_used (streams (sess w)))))
       (put_sess (\<lambda>s. s\<lparr>streams := map (\<lambda>e. if st_used e then zero_stream else e) (streams s)\<rparr>) w)"
  by (subst stream_table.sweep) (auto simp: cleanup_stream_def invoke_emit upd_stream_def)

lemma sweep_allocations:
  "length (allocations (sess w)) = MAX_ALLOCS \<Longrightarrow>
   fold (cleanup_allocation drv) [0..<MAX_ALLOCS] w =
     emit (concat (map allocation_calls (filter a_used (allocations (sess w)))))
       (put_sess (\<lambda>s. s\<lparr>allocations := map (\<lambda>a. if a_used a then zero_allocation else a) (allocations s)\<rparr>) w)"
  by (subst allocation_table.sweep) (auto simp: cleanup_allocation_def Let_def invoke_emit allocation_calls_def upd_allocation_def)

lemma sweep_kernels:
  "length (kernels (sess w)) = MAX_KERNELS \<Longrightarrow>
   fold cleanup_kernel [0..<MAX_KERNELS] w =
     put_sess (\<lambda>s. s\<lparr>kernels := map (\<lambda>k. if k_used k then zero_kernel else k) (kernels s)\<rparr>) w"
  by (subst kernel_table.sweep [where act = "\<lambda>_. []"]) (auto simp: cleanup_kernel_def upd_kernel_def)

lemma sweep_modules:
  "length (modules (sess w)) = MAX_MODULES \<Longrightarrow>
   fold (cleanup_module drv) [0..<MAX_MODULES] w =
     emit (concat (map module_calls (filter m_used (modules (sess w)))))
       (put_sess (\<lambda>s. s\<lparr>modules := map (\<lambda>m. if m_used m then zero_module else m) (modules s)\<rparr>) w)"
  by (subst module_table.sweep) (auto simp: cleanup_module_def Let_def invoke_emit module_calls_def upd_module_def)

lemma sweep_pools:
  "length (pools (sess w)) = MAX_POOLS \<Longrightarrow>
   fold (cleanup_pool drv) [0..<MAX_POOLS] w =
     emit (concat (map (\<lambda>p. [Pool (B_pool_destroy (p_pool p))]) (filter (\<lambda>p. p_used p \<and> \<not> p_is_default p) (pools (sess w))))) w"
  by (subst pool_table.sweep [where f = "\<lambda>e. e" and P = "\<lambda>p. p_used p \<and> \<not> p_is_default p"
      and act = "\<lambda>p. [Pool (B_pool_destroy (p_pool p))]"]) (auto simp: cleanup_pool_def Let_def invoke_emit)

section \<open>What the release of graphs leaves alone\<close>

text \<open>The tables outside the graph runtime are the same.\<close>

definition same_core :: "ServerSession \<Rightarrow> ServerSession \<Rightarrow> bool" where
  "same_core s s' \<longleftrightarrow> modules s' = modules s \<and> kernels s' = kernels s \<and> streams s' = streams s \<and> events s' = events s \<and>
     transfers s' = transfers s \<and> pools s' = pools s \<and> default_pool_id s' = default_pool_id s \<and>
     default_pool_attributes s' = default_pool_attributes s"

text \<open>Allocations of no graph, which only \<open>cleanup_session\<close> itself may free.\<close>

definition plain :: "Allocation list \<Rightarrow> Allocation list" where
  "plain t = filter (\<lambda>a. a_used a \<and> a_graph_id a = 0) t"

definition unmapped :: "Allocation list \<Rightarrow> bool" where
  "unmapped t \<longleftrightarrow> (\<forall>a \<in> set t. a_used a \<and> a_graph_id a \<noteq> 0 \<longrightarrow> \<not> a_graph_active a)"

lemma filter_update_other: "\<not> P (t ! i) \<Longrightarrow> \<not> P z \<Longrightarrow> filter P (t[i := z]) = filter P t"
proof (induction t arbitrary: i)
  case (Cons a t)
  then show ?case by (cases i) auto
qed simp

lemma retire_hold_nodes_sess:
  "retire_hold_nodes drv done e js hold w = Some (h, w') \<Longrightarrow> sess w' = sess w"
  by (induction js arbitrary: hold w)
    (auto simp: Let_def stream_busy_def invoke_def split: if_splits option.splits prod.splits)

lemma retire_exec_sess:
  assumes "retire_exec drv done i w = Some w'"
  shows "\<exists>xs. sess w' = (sess w)\<lparr>graph_execs := xs\<rparr>"
proof (cases "x_used (graph_execs (sess w) ! i) \<and> x_retired (graph_execs (sess w) ! i)")
  case False
  then show ?thesis using assms by (intro exI [of _ "graph_execs (sess w)"]) (auto simp: retire_exec_def Let_def)
next
  case True
  then obtain h w1 where h: "retire_hold_nodes drv done (graph_execs (sess w) ! i) [0..<x_count (graph_execs (sess w) ! i)] False w = Some (h, w1)"
    using assms by (auto simp: retire_exec_def Let_def split: option.splits)
  have s: "sess w1 = sess w" by (rule retire_hold_nodes_sess [OF h])
  obtain b w2 where b: "stream_busy drv (x_last_stream (graph_execs (sess w) ! i)) w1 = (b, w2)" by fastforce
  have s2: "sess w2 = sess w" using b s by (auto simp: stream_busy_def invoke_def split: option.splits)
  have r: "\<exists>xs. sess (release_graph_exec drv i v) = (sess w)\<lparr>graph_execs := xs\<rparr>" if "sess v = sess w" for v
    using that by (auto simp: release_graph_exec_def Let_def invoke_def upd_exec_def)
  have keep: "\<exists>xs. sess w = (sess w)\<lparr>graph_execs := xs\<rparr>" by (rule exI [of _ "graph_execs (sess w)"]) simp
  show ?thesis
    using assms True h b s s2 r [OF s] r [OF s2] keep
    by (auto simp: retire_exec_def Let_def split: if_splits)
qed

lemma retire_execs_sess: "retire_execs drv done is w = Some w' \<Longrightarrow> \<exists>xs. sess w' = (sess w)\<lparr>graph_execs := xs\<rparr>"
proof (induction "is" arbitrary: w)
  case Nil
  then show ?case by (auto intro!: exI [of _ "graph_execs (sess w)"])
next
  case (Cons i "is")
  then show ?case by (fastforce split: option.splits dest: retire_exec_sess)
qed

lemma retire_allocations_sess:
  "retire_allocations is s = Some s' \<Longrightarrow> \<exists>as. s' = s\<lparr>allocations := as\<rparr> \<and> plain as = plain (allocations s) \<and>
     (unmapped (allocations s) \<longrightarrow> unmapped as)"
proof (induction "is" arbitrary: s)
  case Nil
  then show ?case by (auto intro!: exI [of _ "allocations s"])
next
  case (Cons i "is")
  then obtain s1 where s1: "retire_allocation i s = Some s1" "retire_allocations is s1 = Some s'" by (auto split: option.splits)
  have "\<exists>as. s1 = s\<lparr>allocations := as\<rparr> \<and> plain as = plain (allocations s) \<and> (unmapped (allocations s) \<longrightarrow> unmapped as)"
  proof (cases "s1 = s")
    case True
    then show ?thesis by (auto intro!: exI [of _ "allocations s"])
  next
    case False
    then have e: "s1 = upd_allocation i (\<lambda>_. zero_allocation) s" "a_used (allocations s ! i)" "a_graph_id (allocations s ! i) \<noteq> 0"
      using s1(1) by (auto simp: retire_allocation_def Let_def split: if_splits option.splits)
    have "plain ((allocations s)[i := zero_allocation]) = plain (allocations s)"
      unfolding plain_def using e(2,3) by (intro filter_update_other) auto
    moreover have "unmapped (allocations s) \<Longrightarrow> unmapped ((allocations s)[i := zero_allocation])"
      by (auto simp: unmapped_def dest!: set_upd_subset)
    ultimately show ?thesis using e(1) by (auto simp: upd_allocation_def)
  qed
  then show ?case using Cons.IH [OF s1(2)] by auto
qed

lemma retire_graph_memory_sess:
  assumes "retire_graph_memory drv done w = Some w'"
  shows "same_core (sess w) (sess w')" "plain (allocations (sess w')) = plain (allocations (sess w))"
    "unmapped (allocations (sess w)) \<Longrightarrow> unmapped (allocations (sess w'))"
proof -
  obtain w1 s where w1: "retire_execs drv done [0..<length (graph_execs (sess w))] w = Some w1"
    "retire_allocations [0..<length (allocations (sess w1))] (sess w1) = Some s" "w' = w1\<lparr>sess := s\<rparr>"
    using assms by (auto simp: retire_graph_memory_def split: option.splits)
  obtain xs where xs: "sess w1 = (sess w)\<lparr>graph_execs := xs\<rparr>" using retire_execs_sess [OF w1(1)] by blast
  obtain as where as: "s = (sess w1)\<lparr>allocations := as\<rparr>" "plain as = plain (allocations (sess w1))"
    "unmapped (allocations (sess w1)) \<longrightarrow> unmapped as" using retire_allocations_sess [OF w1(2)] by blast
  show "same_core (sess w) (sess w')" "plain (allocations (sess w')) = plain (allocations (sess w))"
    "unmapped (allocations (sess w)) \<Longrightarrow> unmapped (allocations (sess w'))"
    using xs as w1(3) by (auto simp: same_core_def)
qed

section \<open>The release plan\<close>

text \<open>
  A capture that is still open is ended on its stream. The graph it was building is lost when the
  capture has no stream any more or its end returns no graph, unless the client supplied the graph.
\<close>

definition capture_end_calls :: "ServerSession \<Rightarrow> call list" where
  "capture_end_calls s =
     (if capture_graph s = 0 then []
      else case find_stream s (capture_stream s) of
             None \<Rightarrow> []
           | Some i \<Rightarrow> [Graph (B_capture_end (st_stream (streams s ! i)))])"

definition capture_lost :: "driver \<Rightarrow> world \<Rightarrow> bool" where
  "capture_lost drv w \<longleftrightarrow> capture_graph (sess w) \<noteq> 0 \<and> \<not> capture_supplied_graph (sess w) \<and>
     (\<forall>c \<in> set (capture_end_calls (sess w)). o_val (drv (calls w) c) = 0)"

text \<open>The graphs left to destroy.\<close>

definition remaining_graphs :: "bool \<Rightarrow> ServerSession \<Rightarrow> GraphEntry list" where
  "remaining_graphs lost s =
     (case find_graph s (capture_graph s) of
        None \<Rightarrow> graphs s
      | Some g \<Rightarrow> if lost then (graphs s)[g := zero_graph] else graphs s)"

text \<open>
  The default pool is selected, its four attributes are written back, it is trimmed, and its two
  high-water marks are reset. Which calls a trim makes depends on what they answer.
\<close>

definition written_attribute :: "u64 \<Rightarrow> u32 \<Rightarrow> u64 \<Rightarrow> call" where
  "written_attribute pool attr v = Pool (B_pool_set_attribute pool attr (if attr \<le> 3 then scast (ucast v :: u32) else v))"

definition trim_call :: "u64 \<Rightarrow> call \<Rightarrow> bool" where
  "trim_call pool c \<longleftrightarrow> c = Ctx B_context_sync \<or> c = Pool (B_pool_trim pool 0) \<or>
     c = Pool (B_pool_get_attribute pool CU_MEMPOOL_ATTR_RELEASE_THRESHOLD) \<or>
     (\<exists>v. c = Pool (B_pool_set_attribute pool CU_MEMPOOL_ATTR_RELEASE_THRESHOLD v))"

definition restore_calls :: "call list \<Rightarrow> ServerSession \<Rightarrow> call list" where
  "restore_calls trim s =
     (case find_pool s (default_pool_id s) of
        None \<Rightarrow> []
      | Some i \<Rightarrow>
          (let pool = p_pool (pools s ! i)
           in Pool (B_device_set_pool pool) #
              map (\<lambda>attr. written_attribute pool (of_nat attr) (default_pool_attributes s ! (attr - 1))) [1..<5] @
              trim @ [written_attribute pool 6 0, written_attribute pool 8 0]))"

text \<open>
  Every call the end of a session makes, in order: the end of an open capture; a wait for the context;
  the mapped graph allocations, the executable graphs with their definitions and the graphs that no node owns; a
  wait for every stream; for every transfer a wait, its event and its pinned buffer; the events; the
  streams; a wait for the context, if there is one; the allocations that are neither aliases of a module's
  globals nor reserved by a graph; the modules; the default pool; the other pools.
\<close>

definition release_plan :: "bool \<Rightarrow> u64 \<Rightarrow> call list \<Rightarrow> ServerSession \<Rightarrow> call list" where
  "release_plan lost ctx trim s =
     capture_end_calls s @ [Ctx B_context_sync] @
     map (\<lambda>a. Mem (B_mem_free (a_ptr a))) (filter (\<lambda>a. a_used a \<and> a_graph_id a \<noteq> 0 \<and> a_graph_active a) (allocations s)) @
     concat (map exec_calls (filter x_used (graph_execs s))) @
     map (\<lambda>g. Graph (B_graph_destroy (g_graph g))) (filter (\<lambda>g. g_used g \<and> g_owner_node_id g = 0) (remaining_graphs lost s)) @
     map (\<lambda>e. Stream (B_stream_sync (st_stream e))) (filter st_used (streams s)) @
     concat (map transfer_calls (filter t_used (transfers s))) @
     map (\<lambda>e. Event (B_event_destroy (e_event e))) (filter e_used (events s)) @
     map (\<lambda>e. Stream (B_stream_destroy (st_stream e))) (filter st_used (streams s)) @
     (if ctx \<noteq> 0 then [Ctx B_context_sync] else []) @
     map (\<lambda>a. Mem (B_mem_free (a_ptr a))) (filter (\<lambda>a. a_ptr a \<noteq> 0 \<and> a_parent_module_id a = 0) (plain (allocations s))) @
     map (\<lambda>m. Module (B_module_unload (m_module m))) (filter (\<lambda>m. m_used m \<and> m_module m \<noteq> 0) (modules s)) @
     restore_calls trim s @
     map (\<lambda>p. Pool (B_pool_destroy (p_pool p))) (filter (\<lambda>p. p_used p \<and> \<not> p_is_default p) (pools s))"

text \<open>\<open>w'\<close> is reached from \<open>w\<close> by exactly the calls \<open>cs\<close>, and nothing is sent.\<close>

definition releases :: "world \<Rightarrow> call list \<Rightarrow> world \<Rightarrow> bool" where
  "releases w cs w' \<longleftrightarrow> calls w' = rev cs @ calls w \<and> sent w' = sent w \<and> g_ctx w' = g_ctx w"

lemma releases_refl: "releases w [] w"
  by (simp add: releases_def)

lemma releases_trans: "releases w cs w1 \<Longrightarrow> releases w1 ds w2 \<Longrightarrow> releases w (cs @ ds) w2"
  by (simp add: releases_def)

lemma releases_emit: "releases w cs (emit cs w)"
  by (simp add: releases_def)

lemma releases_sess [simp]: "releases w cs (w'\<lparr>sess := s\<rparr>) = releases w cs w'" "releases (w\<lparr>sess := s\<rparr>) cs w' = releases w cs w'"
  by (simp_all add: releases_def)

lemma releases_invoke: "releases w [c] (snd (invoke drv c w))"
  by (simp add: releases_def invoke_def)

section \<open>The graphs are released\<close>

lemma capture_sess:
  "allocations (sess (cleanup_capture drv w)) = allocations (sess w)" "same_core (sess w) (sess (cleanup_capture drv w))"
  "graph_execs (sess (cleanup_capture drv w)) = graph_execs (sess w)"
  by (auto simp: cleanup_capture_def Let_def invoke_def same_core_def split: option.split)

lemma capture_graphs: "graphs (sess (cleanup_capture drv w)) = remaining_graphs (capture_lost drv w) (sess w)"
  by (auto simp: cleanup_capture_def Let_def invoke_def remaining_graphs_def capture_lost_def capture_end_calls_def split: option.split)

lemma capture_releases: "releases w (capture_end_calls (sess w)) (cleanup_capture drv w)"
  by (auto simp: cleanup_capture_def Let_def invoke_def releases_def capture_end_calls_def split: option.split)

lemma session_inv_graph_tables:
  "session_inv n s \<Longrightarrow> length gs = CRX_GRAPH_MAX_GRAPHS \<Longrightarrow> length ns = CRX_GRAPH_MAX_NODE_HANDLES \<Longrightarrow>
   session_inv n (s\<lparr>graph_nodes := ns, graphs := gs\<rparr>)"
  by (simp add: session_inv_def graph_inv_def)

lemma session_inv_capture: "session_inv n (s\<lparr>capture_graph := g, capture_stream := st, capture_supplied_graph := b\<rparr>) = session_inv n s"
  by (simp add: session_inv_def)

lemma session_inv_lengths:
  assumes "session_inv n s"
  shows "length (allocations s) = MAX_ALLOCS" "length (streams s) = MAX_STREAMS" "length (events s) = MAX_EVENTS"
    "length (transfers s) = MAX_TRANSFERS" "length (modules s) = MAX_MODULES" "length (kernels s) = MAX_KERNELS"
    "length (pools s) = MAX_POOLS" "length (graphs s) = CRX_GRAPH_MAX_GRAPHS"
    "length (graph_nodes s) = CRX_GRAPH_MAX_NODE_HANDLES" "length (graph_execs s) = CRX_GRAPH_MAX_EXECS"
  using assms by (simp_all add: session_inv_def alloc_inv_def stream_inv_def event_inv_def transfer_inv_def module_inv_def
      kernel_inv_def pool_inv_def graph_inv_def)

lemma capture_inv: "session_inv n (sess w) \<Longrightarrow> session_inv n (sess (cleanup_capture drv w))"
  using session_inv_lengths(8,9) [of n "sess w"]
  by (simp add: cleanup_capture_def Let_def invoke_def session_inv_capture session_inv_graph_tables split: option.split)

lemma table_inv_map_keep:
  "table_inv used ident nxt t \<Longrightarrow> (\<And>e. used (f e) = used e \<and> ident (f e) = ident e) \<Longrightarrow> table_inv used ident nxt (map f t)"
  by (simp add: table_inv_def)

lemma session_inv_unmap:
  assumes "session_inv n s" "\<And>a. a_used (f a) = a_used a \<and> a_id (f a) = a_id a \<and> a_parent_module_id (f a) = a_parent_module_id a"
  shows "session_inv n (s\<lparr>allocations := map f (allocations s)\<rparr>)"
  using assms by (auto simp: session_inv_def alloc_inv_def intro!: table_inv_map_keep)

lemma same_core_trans: "same_core s s1 \<Longrightarrow> same_core s1 s2 \<Longrightarrow> same_core s s2"
  by (simp add: same_core_def)

text \<open>The calls of the loops, entry by entry.\<close>

lemma concat_map_single: "concat (map (\<lambda>e. [f e]) xs) = map f xs"
  by (induction xs) simp_all

lemma concat_map_if: "concat (map (\<lambda>e. if P e then [f e] else []) xs) = map f (filter P xs)"
  by (induction xs) simp_all

lemma free_graph_calls_map: "concat (map free_graph_calls xs) = map (\<lambda>a. Mem (B_mem_free (a_ptr a))) xs"
  by (induction xs) (simp_all add: free_graph_calls_def)

lemma module_calls_map:
  "concat (map module_calls (filter m_used ms)) = map (\<lambda>m. Module (B_module_unload (m_module m))) (filter (\<lambda>m. m_used m \<and> m_module m \<noteq> 0) ms)"
  by (induction ms) (simp_all add: module_calls_def)

lemma allocation_calls_map:
  "unmapped t \<Longrightarrow> concat (map allocation_calls (filter a_used t)) =
     map (\<lambda>a. Mem (B_mem_free (a_ptr a))) (filter (\<lambda>a. a_ptr a \<noteq> 0 \<and> a_parent_module_id a = 0) (plain t))"
proof (induction t)
  case (Cons a t)
  then have "unmapped t" "a_used a \<Longrightarrow> a_graph_id a \<noteq> 0 \<Longrightarrow> \<not> a_graph_active a" by (auto simp: unmapped_def)
  then show ?case using Cons.IH by (auto simp: plain_def allocation_calls_def)
qed (simp add: plain_def)

lemmas loop_calls = concat_map_single concat_map_if free_graph_calls_map module_calls_map

text \<open>The four loops of \<open>cleanup_graphs\<close>, before the retirement.\<close>

definition graphs_dropped :: "driver \<Rightarrow> world \<Rightarrow> world" where
  "graphs_dropped drv w =
     fold (\<lambda>i. put_sess (release_graph_node i)) [0..<CRX_GRAPH_MAX_NODE_HANDLES]
       (fold (cleanup_graph drv) [0..<CRX_GRAPH_MAX_GRAPHS]
         (fold (cleanup_graph_exec drv) [0..<CRX_GRAPH_MAX_EXECS]
           (fold (cleanup_graph_allocation drv) [0..<MAX_ALLOCS] w)))"

lemma cleanup_graphs_alt:
  "cleanup_graphs drv w = retire_graph_memory drv True (graphs_dropped drv (emit [Ctx B_context_sync] (cleanup_capture drv w)))"
  by (simp add: cleanup_graphs_def graphs_dropped_def Let_def invoke_emit)

lemma graphs_dropped_eq:
  assumes "session_inv n (sess w)"
  shows "graphs_dropped drv w = emit
    (map (\<lambda>a. Mem (B_mem_free (a_ptr a))) (filter (\<lambda>a. a_used a \<and> a_graph_id a \<noteq> 0 \<and> a_graph_active a) (allocations (sess w))) @
     concat (map exec_calls (filter x_used (graph_execs (sess w)))) @
     map (\<lambda>g. Graph (B_graph_destroy (g_graph g))) (filter (\<lambda>g. g_used g \<and> g_owner_node_id g = 0) (graphs (sess w))))
    (put_sess (\<lambda>s. s
      \<lparr>allocations := map (\<lambda>a. if a_used a \<and> a_graph_id a \<noteq> 0 \<and> a_graph_active a then a\<lparr>a_graph_active := False\<rparr> else a) (allocations s),
       graph_execs := map (\<lambda>e. if x_used e then zero_graph_exec else e) (graph_execs s),
       graphs := replicate CRX_GRAPH_MAX_GRAPHS zero_graph,
       graph_nodes := replicate CRX_GRAPH_MAX_NODE_HANDLES zero_graph_node\<rparr>) w)"
  using session_inv_lengths [OF assms]
  by (simp add: graphs_dropped_def sweep_graph_allocations sweep_graph_execs sweep_graphs sweep_nodes loop_calls)

lemma graphs_dropped_inv:
  assumes "session_inv n s"
  shows "session_inv n (s\<lparr>allocations := map (\<lambda>a. if a_used a \<and> a_graph_id a \<noteq> 0 \<and> a_graph_active a then a\<lparr>a_graph_active := False\<rparr> else a) (allocations s),
       graph_execs := map (\<lambda>e. if x_used e then zero_graph_exec else e) (graph_execs s),
       graphs := replicate CRX_GRAPH_MAX_GRAPHS zero_graph,
       graph_nodes := replicate CRX_GRAPH_MAX_NODE_HANDLES zero_graph_node\<rparr>)"
proof -
  let ?f = "\<lambda>a. if a_used a \<and> a_graph_id a \<noteq> 0 \<and> a_graph_active a then a\<lparr>a_graph_active := False\<rparr> else a"
  have "session_inv n (s\<lparr>allocations := map ?f (allocations s)\<rparr>)" using assms by (intro session_inv_unmap) auto
  then have "session_inv n ((s\<lparr>allocations := map ?f (allocations s)\<rparr>)\<lparr>graph_execs := map (\<lambda>e. if x_used e then zero_graph_exec else e) (graph_execs s)\<rparr>)"
    using session_inv_lengths(10) [OF assms] exec_ok_nth [OF assms]
    by (intro session_inv_execs) (auto simp: in_set_conv_nth)
  then show ?thesis by (simp add: session_inv_def graph_inv_def)
qed

lemma unmap_plain:
  "plain (map (\<lambda>a. if a_used a \<and> a_graph_id a \<noteq> 0 \<and> a_graph_active a then a\<lparr>a_graph_active := False\<rparr> else a) t) = plain t"
  "unmapped (map (\<lambda>a. if a_used a \<and> a_graph_id a \<noteq> 0 \<and> a_graph_active a then a\<lparr>a_graph_active := False\<rparr> else a) t)"
proof -
  show "plain (map (\<lambda>a. if a_used a \<and> a_graph_id a \<noteq> 0 \<and> a_graph_active a then a\<lparr>a_graph_active := False\<rparr> else a) t) = plain t"
    by (induction t) (simp_all add: plain_def)
qed (auto simp: unmapped_def)

text \<open>With no executable graph left the retirement makes no call.\<close>

lemma retire_execs_idle:
  "\<forall>i \<in> set is. \<not> x_used (graph_execs (sess w) ! i) \<Longrightarrow> retire_execs drv done is w = Some w"
  by (induction "is") (simp_all add: retire_exec_def)

lemma retire_idle:
  assumes "\<forall>e \<in> set (graph_execs (sess w)). \<not> x_used e" "retire_graph_memory drv done w = Some w'"
  shows "releases w [] w'"
proof -
  have "retire_execs drv done [0..<length (graph_execs (sess w))] w = Some w"
    using assms(1) by (intro retire_execs_idle) simp
  then show ?thesis using assms(2) by (auto simp: retire_graph_memory_def releases_refl split: option.splits)
qed

lemma cleanup_graphs_releases:
  assumes "session_inv n (sess w)"
  shows "\<exists>w'. cleanup_graphs drv w = Some w' \<and> session_inv n (sess w') \<and> same_core (sess w) (sess w') \<and>
    unmapped (allocations (sess w')) \<and> plain (allocations (sess w')) = plain (allocations (sess w)) \<and>
    releases w (capture_end_calls (sess w) @ [Ctx B_context_sync] @
      map (\<lambda>a. Mem (B_mem_free (a_ptr a))) (filter (\<lambda>a. a_used a \<and> a_graph_id a \<noteq> 0 \<and> a_graph_active a) (allocations (sess w))) @
      concat (map exec_calls (filter x_used (graph_execs (sess w)))) @
      map (\<lambda>g. Graph (B_graph_destroy (g_graph g)))
        (filter (\<lambda>g. g_used g \<and> g_owner_node_id g = 0) (remaining_graphs (capture_lost drv w) (sess w)))) w'"
    (is "\<exists>w'. _ \<and> _ \<and> _ \<and> _ \<and> _ \<and> releases w (?end @ ?wait @ ?plan) w'")
proof -
  define w1 where "w1 = emit ?wait (cleanup_capture drv w)"
  have i1: "session_inv n (sess w1)" using capture_inv [OF assms, of drv] by (simp add: w1_def)
  have r1: "releases w (?end @ ?wait) w1"
    using releases_trans [OF capture_releases releases_emit] by (simp add: w1_def)
  have a1: "allocations (sess w1) = allocations (sess w)" "same_core (sess w) (sess w1)" "graph_execs (sess w1) = graph_execs (sess w)"
    "graphs (sess w1) = remaining_graphs (capture_lost drv w) (sess w)" by (simp_all add: w1_def capture_sess capture_graphs)
  define w2 where "w2 = graphs_dropped drv w1"
  note w2 = w2_def [unfolded graphs_dropped_eq [OF i1] a1]
  have i2: "session_inv n (sess w2)" using graphs_dropped_inv [OF i1] w2 by (simp add: a1)
  have "releases w1 ?plan w2" unfolding w2 by (simp add: releases_def)
  then have r2: "releases w (?end @ ?wait @ ?plan) w2" using releases_trans [OF r1] by simp
  have a2: "unmapped (allocations (sess w2))" "plain (allocations (sess w2)) = plain (allocations (sess w))" "same_core (sess w) (sess w2)"
    "\<forall>e \<in> set (graph_execs (sess w2)). \<not> x_used e"
    using a1 w2 by (auto simp: unmap_plain same_core_def zero_graph_exec_def)
  obtain w3 where w3: "retire_graph_memory drv True w2 = Some w3" "calm n w2 w3" using retire_graph_memory_calm [OF i2] by blast
  have "releases w (?end @ ?wait @ ?plan) w3" using releases_trans [OF r2 retire_idle [OF a2(4) w3(1)]] by simp
  then show ?thesis
    using w3 a2 retire_graph_memory_sess [OF w3(1)] same_core_trans
    by (auto simp: cleanup_graphs_alt calm_def simp flip: w1_def w2_def)
qed

section \<open>The session is released\<close>

lemma pool_trim_calls:
  "\<exists>trim. releases w trim (snd (corex_backend_pool_trim drv pool 0 w)) \<and> (\<forall>c \<in> set trim. trim_call pool c)"
  "sess (snd (corex_backend_pool_trim drv pool 0 w)) = sess w"
proof -
  let ?r = "Pool (B_pool_get_attribute pool CU_MEMPOOL_ATTR_RELEASE_THRESHOLD)"
    and ?s = "\<lambda>v. Pool (B_pool_set_attribute pool CU_MEMPOOL_ATTR_RELEASE_THRESHOLD v)" and ?t = "Pool (B_pool_trim pool 0)"
  have "\<exists>trim \<in> {[?r], [?r, ?s 0], [?r, ?s 0, Ctx B_context_sync, ?t, ?s (o_val (drv (calls w) ?r))],
      [?r, ?s 0, Ctx B_context_sync, ?s (o_val (drv (calls w) ?r))]}. releases w trim (snd (corex_backend_pool_trim drv pool 0 w))"
    by (auto simp: corex_backend_pool_trim_def Let_def invoke_def releases_def)
  then show "\<exists>trim. releases w trim (snd (corex_backend_pool_trim drv pool 0 w)) \<and> (\<forall>c \<in> set trim. trim_call pool c)"
    by (fastforce simp: trim_call_def)
qed (simp add: corex_backend_pool_trim_def Let_def invoke_def)

lemma pool_write_calls:
  "sess (snd (pool_write_attribute drv pool attr v w)) = sess w"
  "releases w [written_attribute pool attr v] (snd (pool_write_attribute drv pool attr v w))"
  by (simp_all add: pool_write_attribute_def Let_def invoke_def written_attribute_def releases_def)

lemma pool_writes_calls:
  "sess (fold (\<lambda>attr w. snd (pool_write_attribute drv pool (of_nat attr) (v (sess w) attr) w)) attrs w) = sess w \<and>
   releases w (map (\<lambda>attr. written_attribute pool (of_nat attr) (v (sess w) attr)) attrs)
     (fold (\<lambda>attr w. snd (pool_write_attribute drv pool (of_nat attr) (v (sess w) attr) w)) attrs w)"
proof (induction attrs arbitrary: w)
  case (Cons attr attrs)
  let ?w = "snd (pool_write_attribute drv pool (of_nat attr) (v (sess w) attr) w)"
  show ?case using Cons.IH [of ?w] releases_trans [OF pool_write_calls(2) [of w]] pool_write_calls(1) by fastforce
qed (simp add: releases_refl)

text \<open>The calls of a trim of the default pool; there is none without a default pool.\<close>

definition default_trim :: "ServerSession \<Rightarrow> call list \<Rightarrow> bool" where
  "default_trim s trim \<longleftrightarrow> (\<forall>c \<in> set trim. \<exists>i. find_pool s (default_pool_id s) = Some i \<and> trim_call (p_pool (pools s ! i)) c)"

lemma restore_default_pool_calls:
  "sess (restore_default_pool drv w) = sess w \<and>
   (\<exists>trim. default_trim (sess w) trim \<and> releases w (restore_calls trim (sess w)) (restore_default_pool drv w))"
proof (cases "find_pool (sess w) (default_pool_id (sess w))")
  case None
  then show ?thesis by (auto simp: restore_default_pool_def restore_calls_def releases_refl default_trim_def intro!: exI [of _ "[]"])
next
  case (Some i)
  define pool where "pool = p_pool (pools (sess w) ! i)"
  define w1 where "w1 = snd (invoke drv (Pool (B_device_set_pool pool)) w)"
  define w2 where "w2 = fold (\<lambda>attr w. snd (pool_write_attribute drv pool (of_nat attr)
    (default_pool_attributes (sess w) ! (attr - 1)) w)) [1..<5] w1"
  define w3 where "w3 = snd (corex_backend_pool_trim drv pool 0 w2)"
  define w4 where "w4 = snd (pool_write_attribute drv pool 6 0 w3)"
  have e: "restore_default_pool drv w = snd (pool_write_attribute drv pool 8 0 w4)"
    by (simp only: restore_default_pool_def Some option.case Let_def pool_def w1_def w2_def w3_def w4_def)
  have s1: "sess w1 = sess w" by (simp add: w1_def)
  have w2: "sess w2 = sess w" "releases w1 (map (\<lambda>attr. written_attribute pool (of_nat attr) (default_pool_attributes (sess w) ! (attr - 1))) [1..<5]) w2"
    using pool_writes_calls [of drv pool "\<lambda>s attr. default_pool_attributes s ! (attr - 1)" "[1..<5]" w1] unfolding w2_def s1 by simp_all
  have s4: "sess w4 = sess w" using w2(1) by (simp add: w4_def w3_def pool_write_calls(1) pool_trim_calls(2))
  obtain trim where trim: "releases w2 trim w3" "\<forall>c \<in> set trim. trim_call pool c" using pool_trim_calls(1) unfolding w3_def by blast
  have "releases w (Pool (B_device_set_pool pool) # map (\<lambda>attr. written_attribute pool (of_nat attr) (default_pool_attributes (sess w) ! (attr - 1))) [1..<5] @
      trim @ [written_attribute pool 6 0, written_attribute pool 8 0]) (snd (pool_write_attribute drv pool 8 0 w4))"
    using w2(2) trim(1) pool_write_calls(2) [of w3 pool 6 0 drv] pool_write_calls(2) [of w4 pool 8 0 drv]
    by (simp add: releases_def w1_def w4_def invoke_def)
  then show ?thesis
    using trim(2) s4 by (auto simp: e pool_write_calls(1) restore_calls_def Some pool_def default_trim_def Let_def intro!: exI [of _ trim])
qed

text \<open>The loops after the graphs are gone.\<close>

definition session_dropped :: "driver \<Rightarrow> world \<Rightarrow> world" where
  "session_dropped drv w =
     fold (cleanup_module drv) [0..<MAX_MODULES] (fold cleanup_kernel [0..<MAX_KERNELS] (fold (cleanup_allocation drv) [0..<MAX_ALLOCS]
       (let w = fold (cleanup_stream drv) [0..<MAX_STREAMS] (fold (cleanup_event drv) [0..<MAX_EVENTS]
                  (fold (cleanup_transfer drv) [0..<MAX_TRANSFERS] (fold (cleanup_stream_sync drv) [0..<MAX_STREAMS] w)))
        in if g_ctx w \<noteq> 0 then snd (invoke drv (Ctx B_context_sync) w) else w)))"

lemma cleanup_session_alt:
  "cleanup_session drv w = (case cleanup_graphs drv w of None \<Rightarrow> None
     | Some w \<Rightarrow> Some ((fold (cleanup_pool drv) [0..<MAX_POOLS] (restore_default_pool drv (session_dropped drv w)))\<lparr>sess := server_session_init\<rparr>))"
  by (simp only: cleanup_session_def session_dropped_def Let_def)

text \<open>What the default pool and the pools are is not changed by these loops.\<close>

definition same_pools :: "ServerSession \<Rightarrow> ServerSession \<Rightarrow> bool" where
  "same_pools s s' \<longleftrightarrow> pools s' = pools s \<and> default_pool_id s' = default_pool_id s \<and> default_pool_attributes s' = default_pool_attributes s"

lemma session_dropped_releases:
  assumes "session_inv n (sess w)" "unmapped (allocations (sess w))"
  shows "same_pools (sess w) (sess (session_dropped drv w)) \<and> releases w
    (map (\<lambda>e. Stream (B_stream_sync (st_stream e))) (filter st_used (streams (sess w))) @
     concat (map transfer_calls (filter t_used (transfers (sess w)))) @
     map (\<lambda>e. Event (B_event_destroy (e_event e))) (filter e_used (events (sess w))) @
     map (\<lambda>e. Stream (B_stream_destroy (st_stream e))) (filter st_used (streams (sess w))) @
     (if g_ctx w \<noteq> 0 then [Ctx B_context_sync] else []) @
     map (\<lambda>a. Mem (B_mem_free (a_ptr a))) (filter (\<lambda>a. a_ptr a \<noteq> 0 \<and> a_parent_module_id a = 0) (plain (allocations (sess w)))) @
     map (\<lambda>m. Module (B_module_unload (m_module m))) (filter (\<lambda>m. m_used m \<and> m_module m \<noteq> 0) (modules (sess w))))
    (session_dropped drv w)"
  unfolding session_dropped_def invoke_emit Let_def
  using session_inv_lengths [OF assms(1)]
  by (simp add: sweep_stream_syncs sweep_transfers sweep_events sweep_streams sweep_allocations sweep_kernels sweep_modules
      same_pools_def releases_def loop_calls allocation_calls_map [OF assms(2)])

lemma restore_calls_cong: "same_pools s s' \<Longrightarrow> restore_calls trim s' = restore_calls trim s \<and> default_trim s' trim = default_trim s trim"
  by (simp add: same_pools_def restore_calls_def default_trim_def find_pool_def split: option.split)

lemma cleanup_session_sound:
  assumes "session_inv n (sess w)"
  obtains w' trim where "cleanup_session drv w = Some w'" "sess w' = server_session_init" "default_trim (sess w) trim"
    "releases w (release_plan (capture_lost drv w) (g_ctx w) trim (sess w)) w'"
proof -
  obtain w1 where w1: "cleanup_graphs drv w = Some w1" "session_inv n (sess w1)" "same_core (sess w) (sess w1)"
    "unmapped (allocations (sess w1))" "plain (allocations (sess w1)) = plain (allocations (sess w))" and
    r1: "releases w (capture_end_calls (sess w) @ [Ctx B_context_sync] @
      map (\<lambda>a. Mem (B_mem_free (a_ptr a))) (filter (\<lambda>a. a_used a \<and> a_graph_id a \<noteq> 0 \<and> a_graph_active a) (allocations (sess w))) @
      concat (map exec_calls (filter x_used (graph_execs (sess w)))) @
      map (\<lambda>g. Graph (B_graph_destroy (g_graph g)))
        (filter (\<lambda>g. g_used g \<and> g_owner_node_id g = 0) (remaining_graphs (capture_lost drv w) (sess w)))) w1"
    using cleanup_graphs_releases [OF assms, of drv] by blast
  let ?w2 = "session_dropped drv w1" and ?w3 = "restore_default_pool drv (session_dropped drv w1)"
  note d = session_dropped_releases [OF w1(2,4), of drv]
  have p: "same_pools (sess w) (sess ?w2)" using d w1(3) by (auto simp: same_pools_def same_core_def)
  obtain trim where trim: "default_trim (sess w) trim" "releases ?w2 (restore_calls trim (sess w)) ?w3"
    using restore_default_pool_calls [of drv ?w2] restore_calls_cong [OF p] by auto
  have q: "pools (sess ?w3) = pools (sess w)" "length (pools (sess ?w3)) = MAX_POOLS"
    using restore_default_pool_calls [of drv ?w2] p session_inv_lengths(7) [OF assms] by (simp_all add: same_pools_def)
  have "g_ctx w1 = g_ctx w" using r1 by (simp add: releases_def)
  note r = releases_trans [OF r1 releases_trans [OF conjunct2 [OF d] releases_trans [OF trim(2) releases_emit]]]
  have "releases w (release_plan (capture_lost drv w) (g_ctx w) trim (sess w)) (fold (cleanup_pool drv) [0..<MAX_POOLS] ?w3)"
    unfolding sweep_pools [OF q(2)] q(1) loop_calls release_plan_def
    using r [of "map (\<lambda>p. Pool (B_pool_destroy (p_pool p))) (filter (\<lambda>p. p_used p \<and> \<not> p_is_default p) (pools (sess w)))"] w1(3,5)
      \<open>g_ctx w1 = g_ctx w\<close> by (simp add: same_core_def)
  then show ?thesis using w1(1) that trim(1) by (simp add: cleanup_session_alt)
qed


text \<open>A session that owns an allocation, a stream and a graph.\<close>

definition busy_world :: world where
  "busy_world = alloc_world\<lparr>sess := (sess alloc_world)\<lparr>
     streams := (replicate MAX_STREAMS zero_stream)[0 := (fresh_stream 1)\<lparr>st_stream := 70\<rparr>], next_stream_id := 2,
     graphs := (replicate CRX_GRAPH_MAX_GRAPHS zero_graph)[0 := zero_graph\<lparr>g_used := True, g_id := 1, g_graph := 80\<rparr>]\<rparr>\<rparr>"

lemma busy_world_inv: "session_inv 2 (sess busy_world)"
proof -
  have "stream_inv 2 (streams (sess busy_world)) 2"
    by (auto simp: stream_inv_def table_inv_def busy_world_def fresh_stream_def zero_stream_def nth_upd dest!: set_upd_subset)
  then show ?thesis using alloc_world_inv by (simp add: session_inv_def busy_world_def graph_inv_def)
qed


section \<open>A session that owns nothing\<close>

text \<open>The calls that give a native object back.\<close>

definition destroys :: "call \<Rightarrow> bool" where
  "destroys c = (case c of
     Mem _ \<Rightarrow> True | Module _ \<Rightarrow> True
   | Event x \<Rightarrow> (case x of B_event_destroy _ \<Rightarrow> True | _ \<Rightarrow> False)
   | Stream x \<Rightarrow> (case x of B_stream_destroy _ \<Rightarrow> True | _ \<Rightarrow> False)
   | Pool x \<Rightarrow> (case x of B_pool_destroy _ \<Rightarrow> True | _ \<Rightarrow> False)
   | Graph x \<Rightarrow> (case x of B_graph_destroy _ \<Rightarrow> True | B_graph_exec_destroy _ \<Rightarrow> True | _ \<Rightarrow> False)
   | _ \<Rightarrow> False)"

text \<open>No identifier names anything, and the end of the session would give nothing back.\<close>

definition unowned :: "ServerSession \<Rightarrow> bool" where
  "unowned s \<longleftrightarrow>
     (\<forall>k. find_allocation_record s k = None \<and> find_module s k = None \<and> find_kernel s k = None \<and> find_stream s k = None \<and>
          find_event s k = None \<and> find_transfer s k = None \<and> find_pool s k = None \<and> find_graph s k = None) \<and>
     (\<forall>c \<in> set (release_plan False 0 [] s). \<not> destroys c)"

lemma find_slot_nothing: "(\<forall>k. find_slot used ident t k = None) \<longleftrightarrow> \<not> list_ex used t"
  unfolding find_slot_None list_ex_iff by (metis in_set_conv_nth)

text \<open>The guard of the handler decides this, although it does not look at the kernels.\<close>

lemma owns_nothing_unowned:
  assumes "session_inv n s"
  shows "owns_nothing s \<longleftrightarrow> unowned s"
proof
  assume o: "owns_nothing s"
  have none: "filter P xs = []" if "\<not> list_ex P xs" for P :: "'a \<Rightarrow> bool" and xs using that by (auto simp: list_ex_iff filter_empty_conv)
  have "\<forall>c \<in> set (release_plan False 0 [] s). \<not> destroys c"
    using o by (auto simp: release_plan_def owns_nothing_def list_ex_iff plain_def remaining_graphs_def capture_end_calls_def destroys_def
        restore_calls_def find_pool_def find_slot_None written_attribute_def Let_def split: option.splits if_splits)
  then show "unowned s"
    using o owns_nothing_kernels [OF assms o]
    by (simp add: unowned_def all_conj_distrib find_allocation_record_def find_module_def find_kernel_def find_stream_def find_event_def
        find_transfer_def find_pool_def find_graph_def find_slot_nothing owns_nothing_def)
next
  assume u: "unowned s"
  have "\<not> x_used e" if "e \<in> set (graph_execs s)" for e
  proof
    assume "x_used e"
    then have "Graph (B_graph_exec_destroy (x_exec e)) \<in> set (release_plan False 0 [] s)"
      using that by (auto simp: release_plan_def exec_calls_def)
    then show False using u by (auto simp: unowned_def destroys_def)
  qed
  then show "owns_nothing s"
    using u by (auto simp: unowned_def all_conj_distrib find_allocation_record_def find_module_def find_kernel_def find_stream_def find_event_def
        find_transfer_def find_pool_def find_graph_def find_slot_nothing owns_nothing_def list_ex_iff [of x_used])
qed

text \<open>
  What a request to set the flags may do to the context: the calls it makes (latest first), its answer
  and the context afterwards.
\<close>

definition context_change :: "driver \<Rightarrow> u32 option \<Rightarrow> world \<Rightarrow> call list \<Rightarrow> u32 \<Rightarrow> u64 \<Rightarrow> bool" where
  "context_change drv flags w made status ctx \<longleftrightarrow>
     (let get = Ctx B_context_get_flags; old = ucast (o_val (drv (calls w) get)) :: u32; destroy = Ctx (B_context_destroy (g_ctx w))
      in (destroy \<in> set made \<longleftrightarrow> unowned (sess w) \<and> o_rc (drv (calls w) get) = CUDA_SUCCESS \<and>
            (\<exists>f. flags = Some f \<and> f AND NOT 31 = 0 \<and> f \<noteq> old)) \<and>
         (destroy \<notin> set made \<longrightarrow> made \<in> {[], [get]} \<and> ctx = g_ctx w \<and> (status = ST_OK \<longrightarrow> flags = Some old)) \<and>
         (destroy \<in> set made \<longrightarrow> (\<exists>f. flags = Some f \<and>
            (let create = \<lambda>f. Ctx (B_context_create f); r = drv (destroy # get # calls w) (create f);
                 r' = drv (create f # destroy # get # calls w) (create old)
             in if o_rc (drv (get # calls w) destroy) \<noteq> CUDA_SUCCESS
                then made = [destroy, get] \<and> ctx = g_ctx w \<and> status = ST_CUDA_ERROR
                else if o_rc r = CUDA_SUCCESS
                then made = [create f, destroy, get] \<and> ctx = o_val r \<and> status = ST_OK
                else made = [create old, create f, destroy, get] \<and> status = ST_CUDA_ERROR \<and>
                     ctx = (if o_rc r' = CUDA_SUCCESS then o_val r' else 0)))))"

text \<open>A request makes the given calls (latest first), keeps the session and is answered with the given status.\<close>

definition answered :: "u32 \<Rightarrow> u32 \<Rightarrow> call list \<Rightarrow> u32 \<Rightarrow> world \<Rightarrow> int \<Rightarrow> world \<Rightarrow> bool" where
  "answered opcode req_id made status w rc w' \<longleftrightarrow> sess w' = sess w \<and>
     (\<exists>sends. (\<forall>c \<in> set sends. \<exists>b. c = OS (OS_send b)) \<and> calls w' = sends @ made @ calls w) \<and>
     (rc = 0 \<longrightarrow> sent w' = sent w @ corex_protocol_encode_response_header opcode req_id status 0)"

lemma answered_reply:
  assumes "sess v = sess w" "sent v = sent w" "calls v = made @ calls w" "P made status (g_ctx v)"
  shows "ends (reply drv opcode req_id status [] v) (\<lambda>rc w'. \<exists>made status. answered opcode req_id made status w rc w' \<and> P made status (g_ctx w'))"
proof -
  obtain sends where "calls (snd (send_response drv opcode req_id status [] v)) = sends @ calls v" "\<forall>c \<in> set sends. \<exists>b. c = OS (OS_send b)"
    using send_response_calls by blast
  then have "answered opcode req_id made status w (fst (send_response drv opcode req_id status [] v)) (snd (send_response drv opcode req_id status [] v))"
    using assms send_response_sent [of drv opcode req_id status "[]" v] by (auto simp: answered_def)
  then show ?thesis using assms(4) by auto
qed

text \<open>
  C32. The context is replaced only under a session that owns nothing, and exactly when that is needed. The
  request never changes the session. Unless the context is destroyed it stays as it is, and success then means that the
  context already has the requested flags. The context is destroyed exactly when the flags are valid and differ
  from the current ones, no identifier of any kind names anything (kernels included, whose table the handler does not
  look at) and the end of the session would give nothing back; then the context is the one created with the
  requested flags and the answer is success, or else the answer is an error, the old flags were tried again
  and the context is the one created with them, if any.
\<close>

theorem set_device_flags_idle:
  assumes "session_inv n (sess w)"
  shows "ends (handle_set_device_flags drv req_id p w) (\<lambda>rc w'. \<exists>made status.
    answered OP_SET_DEVICE_FLAGS req_id made status w rc w' \<and>
    context_change drv (corex_generated_decode_cudaSetDeviceFlags_request p) w made status (g_ctx w'))"
proof -
  let ?get = "Ctx B_context_get_flags" and ?destroy = "Ctx (B_context_destroy (g_ctx w))" and ?create = "\<lambda>f. Ctx (B_context_create f)"
  let ?old = "ucast (o_val (drv (calls w) ?get)) :: u32" and ?d = "corex_generated_decode_cudaSetDeviceFlags_request p"
  note answer = answered_reply [where w = w and P = "context_change drv ?d w"]
  note change = context_change_def Let_def owns_nothing_unowned [OF assms, symmetric]
  note steps = handle_set_device_flags_def Let_def invoke_case
  show ?thesis
  proof (cases "?d")
    case None
    show ?thesis
      unfolding steps None option.case
      by (rule answer [where made = "[]", unfolded None]) (simp_all add: change)
  next
    case (Some f)
    note answer = answer [unfolded Some]
    let ?goal = "\<lambda>r. ends r (\<lambda>rc w'. \<exists>made status. answered OP_SET_DEVICE_FLAGS req_id made status w rc w' \<and>
      context_change drv (Some f) w made status (g_ctx w'))"
    have bad: "?goal (reply drv OP_SET_DEVICE_FLAGS req_id ST_BAD_REQUEST [] w)" if "f AND NOT 31 \<noteq> 0"
      by (rule answer [where made = "[]"]) (use that in \<open>simp_all add: change\<close>)
    have same: "?goal (reply drv OP_SET_DEVICE_FLAGS req_id st [] (snd (invoke drv ?get w)))"
      if "o_rc (drv (calls w) ?get) \<noteq> CUDA_SUCCESS \<or> f = ?old \<or> \<not> owns_nothing (sess w)" "st = ST_OK \<longrightarrow> f = ?old" for st
      by (rule answer [where made = "[?get]"]) (use that in \<open>auto simp: change\<close>)
    let ?w1 = "snd (invoke drv ?destroy (snd (invoke drv ?get w)))"
    let ?w2 = "snd (invoke drv (?create f) (?w1\<lparr>g_ctx := 0\<rparr>))"
    let ?w3 = "snd (invoke drv (?create ?old) ?w2)"
    have new: "?goal (reply drv OP_SET_DEVICE_FLAGS req_id ST_CUDA_ERROR [] ?w1)"
      if "f AND NOT 31 = 0" "o_rc (drv (calls w) ?get) = CUDA_SUCCESS" "f \<noteq> ?old" "owns_nothing (sess w)"
        "o_rc (drv (?get # calls w) ?destroy) \<noteq> CUDA_SUCCESS"
      by (rule answer [where made = "[?destroy, ?get]"]) (use that in \<open>auto simp: change\<close>)
    have created: "?goal (reply drv OP_SET_DEVICE_FLAGS req_id ST_OK [] (?w2\<lparr>g_ctx := o_val (drv (?destroy # ?get # calls w) (?create f))\<rparr>))"
      if "f AND NOT 31 = 0" "o_rc (drv (calls w) ?get) = CUDA_SUCCESS" "f \<noteq> ?old" "owns_nothing (sess w)"
        "o_rc (drv (?get # calls w) ?destroy) = CUDA_SUCCESS" "o_rc (drv (?destroy # ?get # calls w) (?create f)) = CUDA_SUCCESS"
      by (rule answer [where made = "[?create f, ?destroy, ?get]"]) (use that in \<open>auto simp: change\<close>)
    have restored: "?goal (reply drv OP_SET_DEVICE_FLAGS req_id ST_CUDA_ERROR [] (if o_rc r = CUDA_SUCCESS then ?w3\<lparr>g_ctx := o_val r\<rparr> else ?w3))"
      if "f AND NOT 31 = 0" "o_rc (drv (calls w) ?get) = CUDA_SUCCESS" "f \<noteq> ?old" "owns_nothing (sess w)"
        "o_rc (drv (?get # calls w) ?destroy) = CUDA_SUCCESS" "o_rc (drv (?destroy # ?get # calls w) (?create f)) \<noteq> CUDA_SUCCESS"
        "r = drv (?create f # ?destroy # ?get # calls w) (?create ?old)" for r
      by (rule answer [where made = "[?create ?old, ?create f, ?destroy, ?get]"]) (use that in \<open>auto simp: change\<close>)
    show ?thesis
      unfolding steps Some option.case
      by (intro ends_ifI; use bad same new created restored [OF _ _ _ _ _ _ refl] in \<open>simp split: if_splits\<close>)
  qed
qed

theorem set_device_flags_idle_witness:
  "session_inv 1 (sess init_world) \<and> unowned (sess init_world) \<and>
   ends (handle_set_device_flags (ok_driver 3) 7 (be32 4) init_world) (\<lambda>rc w'. g_ctx w' = 3)"
proof -
  have d: "corex_generated_decode_cudaSetDeviceFlags_request (be32 4) = Some 4"
    by (simp add: corex_generated_decode_cudaSetDeviceFlags_request_def codec_simps)
  have o: "owns_nothing (sess init_world)" by (auto simp: owns_nothing_def list_ex_iff server_session_init_def zero_graph_def zero_graph_exec_def)
  then show ?thesis
    using set_device_flags_idle [OF init_world_inv, of "ok_driver 3" 7 "be32 4"] init_world_inv owns_nothing_unowned [OF init_world_inv]
    by (auto elim!: ends_mono simp: context_change_def Let_def d split: if_splits)
qed

end
