(* ===== verification/Dispatch.thy ===== *)
theory Dispatch
  imports Cleanup
begin

text \<open>
  The request loop of \<^verbatim>\<open>server/runtime_server.c\<close>: \<open>serve_session\<close> reads a header and a payload, checks the
  length against the schema, refuses what an active capture does not allow, calls the registered
  handler and goes on until the client closes or the connection ends; the loop of \<open>main\<close> runs one
  session after the other and resets the context in between. The bytes the client sends before it
  disconnects are a list; every turn of the loop consumes a header of it, so that the loop ends.
\<close>

section \<open>The connection\<close>

text \<open>\<open>recv_all\<close>: the bytes read and the bytes that remain, or the end of the connection.\<close>

definition recv_all :: "bytes \<Rightarrow> nat \<Rightarrow> (bytes \<times> bytes) option" where
  "recv_all input n = (if n \<le> length input then Some (take n input, drop n input) else None)"

definition corex_graph_capture_safe_opcode :: "u32 \<Rightarrow> bool" where
  "corex_graph_capture_safe_opcode opcode \<longleftrightarrow> opcode \<in> set [OP_GRAPH, OP_CLOSE, OP_HELLO,
     OP_GET_DEVICE_INFO, OP_GET_DRIVER_VERSION, OP_GET_RUNTIME_VERSION,
     OP_DEVICE_GET_ATTRIBUTE, OP_GET_DEVICE_FLAGS, OP_GET_PRIORITY_RANGE,
     OP_GET_LIMIT, OP_GET_CACHE_CONFIG, OP_GET_SHARED_MEM_CONFIG,
     OP_DEVICE_GET_PCI_BUS_ID, OP_DEVICE_GET_BY_PCI_BUS_ID,
     OP_FUNCTION_ATTRIBUTES, OP_OCCUPANCY, OP_STREAM_GET_FLAGS,
     OP_STREAM_GET_PRIORITY]"

abbreviation (input) CU_STREAM_CAPTURE_MODE_RELAXED :: u32 where "CU_STREAM_CAPTURE_MODE_RELAXED \<equiv> 2"

abbreviation (input) CRX_REQUEST_HEADER_BYTES :: nat where "CRX_REQUEST_HEADER_BYTES \<equiv> 20"

section \<open>One request\<close>

text \<open>The length check against the schema, for the opcodes the schema has.\<close>

definition generated_schema_error :: "u32 \<Rightarrow> nat \<Rightarrow> bool" where
  "generated_schema_error opcode len \<longleftrightarrow>
     (\<exists>a \<in> set corex_generated_apis. api_opcode a = opcode) \<and> corex_generated_validate_payload opcode len \<noteq> 0"

definition serve_request :: "handler \<Rightarrow> driver \<Rightarrow> u32 \<Rightarrow> u32 \<Rightarrow> bytes \<Rightarrow> world \<Rightarrow> (int \<times> world) option" where
  "serve_request graph drv opcode req_id payload w =
     (let schema_error = generated_schema_error opcode (length payload);
          allow_alloc = (capture_graph (sess w) \<noteq> 0 \<and> capture_allow_alloc (sess w) \<and> opcode = OP_ALLOC);
          w = put_sess (\<lambda>s. s\<lparr>capture_allow_alloc := False\<rparr>) w
      in if capture_graph (sess w) \<noteq> 0 \<and> \<not> corex_graph_capture_safe_opcode opcode \<and> \<not> allow_alloc
         then reply drv opcode req_id ST_CAPTURE_UNSUPPORTED [] w
         else
           let (exchanged, previous, w) =
                 (if allow_alloc
                  then (let (r, w) = invoke drv (Graph (B_capture_exchange CU_STREAM_CAPTURE_MODE_RELAXED)) w
                        in (o_rc r = CUDA_SUCCESS, ucast (o_val r), w))
                  else (True, CU_STREAM_CAPTURE_MODE_RELAXED, w));
               result =
                 (if \<not> exchanged then reply drv opcode req_id ST_CUDA_ERROR [] w
                  else if schema_error then reply drv opcode req_id ST_BAD_REQUEST [] w
                  else case g_handlers graph opcode of
                         Some (h, _) \<Rightarrow> h drv req_id payload w
                       | None \<Rightarrow> reply drv opcode req_id ST_BAD_REQUEST [] w)
           in case result of
                None \<Rightarrow> None
              | Some (rc, w) \<Rightarrow>
                  Some (rc, if allow_alloc \<and> exchanged
                            then snd (invoke drv (Graph (B_capture_exchange previous)) w) else w))"

section \<open>The loop\<close>

text \<open>One turn of the loop: it ends the session with a code, or goes on with the rest of the input.\<close>

datatype turn = Stop int world | Next bytes world

definition serve_turn :: "handler \<Rightarrow> driver \<Rightarrow> bytes \<Rightarrow> world \<Rightarrow> turn option" where
  "serve_turn graph drv input w =
     (case recv_all input CRX_REQUEST_HEADER_BYTES of
        None \<Rightarrow> Some (Stop 0 w)
      | Some (h, input) \<Rightarrow>
          (case corex_protocol_decode_request_header h of
             None \<Rightarrow> Some (Stop (- 1) w)
           | Some rq \<Rightarrow>
               if unat (rq_payload_length rq) > MAX_PAYLOAD then Some (Stop (- 1) w)
               else
                 let (allocated, w) =
                       (if rq_payload_length rq > 0
                        then (let (r, w) = invoke drv (OS (OS_malloc (ucast (rq_payload_length rq)))) w in (o_ret r = 0, w))
                        else (True, w))
                 in if \<not> allocated
                    then Some (Stop (- 1) (snd (send_response drv (rq_opcode rq) (rq_request_id rq) ST_INTERNAL [] w)))
                    else case recv_all input (unat (rq_payload_length rq)) of
                           None \<Rightarrow> Some (Stop (- 1) w)
                         | Some (payload, input) \<Rightarrow>
                             (case serve_request graph drv (rq_opcode rq) (rq_request_id rq) payload w of
                                None \<Rightarrow> None
                              | Some (rc, w) \<Rightarrow>
                                  if rc \<noteq> 0 then Some (Stop (- 1) w)
                                  else if rq_opcode rq = OP_CLOSE \<and> rq_payload_length rq = 0 then Some (Stop 0 w)
                                  else Some (Next input w))))"

lemma serve_turn_consumes: "serve_turn graph drv input w = Some (Next rest w') \<Longrightarrow> length rest + 20 \<le> length input"
  by (auto simp: serve_turn_def recv_all_def Let_def split: option.splits if_splits prod.splits)

function serve_session :: "handler \<Rightarrow> driver \<Rightarrow> bytes \<Rightarrow> world \<Rightarrow> (int \<times> world) option" where
  "serve_session graph drv input w =
     (case serve_turn graph drv input w of
        None \<Rightarrow> None
      | Some (Stop rc w) \<Rightarrow> Some (rc, w)
      | Some (Next input w) \<Rightarrow> serve_session graph drv input w)"
  by pat_completeness auto
termination
  by (relation "measure (\<lambda>(_, _, input, _). length input)") (auto dest: serve_turn_consumes)

declare serve_session.simps [simp del]

section \<open>One session after the other\<close>

text \<open>
  The body of the accept loop of \<open>main\<close>: a fresh session is served and cleaned up, then the context is
  replaced. The result is whether the server goes on.
\<close>

definition run_session :: "handler \<Rightarrow> driver \<Rightarrow> bytes \<Rightarrow> world \<Rightarrow> (bool \<times> world) option" where
  "run_session graph drv input w =
     (case serve_session graph drv input (w\<lparr>sess := server_session_init\<rparr>) of
        None \<Rightarrow> None
      | Some (_, w) \<Rightarrow>
          (case cleanup_session drv w of
             None \<Rightarrow> None
           | Some w \<Rightarrow>
               (let (r, w) = invoke drv (Ctx (B_context_destroy (g_ctx w))) w;
                    w = w\<lparr>g_ctx := 0\<rparr>
                in if o_rc r \<noteq> CUDA_SUCCESS then Some (False, w)
                   else let (r, w) = invoke drv (Ctx (B_context_create 0)) w
                        in if o_rc r = CUDA_SUCCESS then Some (True, w\<lparr>g_ctx := o_val r\<rparr>) else Some (False, w))))"

fun run_sessions :: "handler \<Rightarrow> driver \<Rightarrow> bytes list \<Rightarrow> world \<Rightarrow> world option" where
  "run_sessions graph drv [] w = Some w"
| "run_sessions graph drv (input # inputs) w =
     (case run_session graph drv input w of
        None \<Rightarrow> None
      | Some (go_on, w) \<Rightarrow> if go_on then run_sessions graph drv inputs w else Some w)"

section \<open>Every request is served\<close>

lemma capture_flag_frame [simp]:
  "session_inv n (s\<lparr>capture_allow_alloc := b\<rparr>) = session_inv n s"
  "no_revival (s\<lparr>capture_allow_alloc := b\<rparr>) s' = no_revival s s'"
  "no_revival s (s'\<lparr>capture_allow_alloc := b\<rparr>) = no_revival s s'"
  by (simp_all add: session_inv_def no_revival_def)

lemma capture_flag_lookup:
  "find_allocation (s\<lparr>capture_allow_alloc := b\<rparr>) = find_allocation s"
  "resolve_stream_id (s\<lparr>capture_allow_alloc := b\<rparr>) = resolve_stream_id s"
  "allocations (s\<lparr>capture_allow_alloc := b\<rparr>) = allocations s"
  by (auto simp: fun_eq_iff find_allocation_def find_allocation_record_def resolve_stream_id_def find_stream_def split: option.split)

lemma capture_flag_2d [simp]: "decode_2d (s\<lparr>capture_allow_alloc := b\<rparr>) p async = decode_2d s p async"
  unfolding decode_2d_def capture_flag_lookup by (rule refl)

lemma safely_served_from:
  assumes "safely_served n drv op rid w1 rc w2" "sess w1 = (sess w)\<lparr>capture_allow_alloc := b\<rparr>" "sent w1 = sent w"
    "calls w1 = calls w \<or> (\<exists>g. calls w1 = Graph g # calls w)"
  shows "safely_served n drv op rid w rc w2"
proof -
  have "grown (call_in_bounds (allocations (sess w))) (calls w) (calls w1)"
    "balanced drv (transfers (sess w)) (calls w) (transfers (sess w1)) (calls w1)"
    using assms(2,4) by (auto simp: call_in_bounds_def pin_call_def)
  then show ?thesis
    using assms(1-3) grown_trans [of _ "calls w" "calls w1" "calls w2"] balanced_trans [of drv _ _ _ "calls w1"]
    by (simp add: safely_served_def served_def replied_def)
qed

lemma safely_served_then:
  "safely_served n drv op rid w rc w2 \<Longrightarrow> safely_served n drv op rid w rc (snd (invoke drv (Graph g) w2))"
  by (simp add: safely_served_def served_def replied_def call_in_bounds_def pin_call_def hung_up_later)

text \<open>
  The requests the contract covers: every opcode but the graph commands, and the two-dimensional
  copies as long as their layout does not wrap.
\<close>

definition admissible :: "ServerSession \<Rightarrow> u32 \<Rightarrow> bytes \<Rightarrow> bool" where
  "admissible s opcode p \<longleftrightarrow> opcode \<noteq> OP_GRAPH \<and> (opcode = OP_MEMCPY_2D \<longrightarrow> unwrapped_2d s p False) \<and>
     (opcode = OP_MEMCPY_2D_ASYNC \<longrightarrow> unwrapped_2d s p True)"

lemma admissible_flag [simp]: "admissible (s\<lparr>capture_allow_alloc := b\<rparr>) opcode p = admissible s opcode p"
  by (simp add: admissible_def unwrapped_2d_def)

lemma registry_2d:
  "g_handlers graph OP_MEMCPY_2D = Some (handle_memcpy_2d_sync_entry, CRX_CAP_LAYOUT_TRANSFER)"
  "g_handlers graph OP_MEMCPY_2D_ASYNC = Some (handle_memcpy_2d_async, CRX_CAP_LAYOUT_TRANSFER)"
  by (simp_all add: g_handlers_def SERVER_HANDLER_REGISTRY_def)

lemma handler_served:
  assumes "session_inv n (sess w)" "Suc n < 2 ^ 64" "length p < 2 ^ 32" "admissible (sess w) opcode p"
    "g_handlers graph opcode = Some (h, c)"
  shows "ends (h drv req_id p w) (safely_served n drv opcode req_id w)"
proof (cases "contract_opcode opcode")
  case True
  with assms(5) have "safe_handler h opcode" by (rule g_handlers_contract)
  then show ?thesis by (rule safe_handler.serves_safely [OF _ assms(1-3)])
next
  case False
  then show ?thesis
    using assms memcpy_2d_serves [OF assms(1,3)] memcpy_2d_async_serves [OF assms(1,3)] registry_2d [of graph]
    by (auto simp: contract_opcode_def admissible_def handle_memcpy_2d_sync_entry_def handle_memcpy_2d_async_def)
qed

lemma serve_request_served:
  assumes inv: "session_inv n (sess w)" "Suc n < 2 ^ 64" "length p < 2 ^ 32" and adm: "admissible (sess w) opcode p"
  shows "ends (serve_request graph drv opcode req_id p w) (safely_served n drv opcode req_id w)"
proof -
  define w0 where "w0 = put_sess (\<lambda>s. s\<lparr>capture_allow_alloc := False\<rparr>) w"
  define w1 where "w1 = snd (invoke drv (Graph (B_capture_exchange CU_STREAM_CAPTURE_MODE_RELAXED)) w0)"
  define result where "result ok v = (if \<not> ok then reply drv opcode req_id ST_CUDA_ERROR [] v
      else if generated_schema_error opcode (length p) then reply drv opcode req_id ST_BAD_REQUEST [] v
      else case g_handlers graph opcode of Some (h, _) \<Rightarrow> h drv req_id p v | None \<Rightarrow> reply drv opcode req_id ST_BAD_REQUEST [] v)" for ok v
  have r: "ends (result ok v) (safely_served n drv opcode req_id v)" if "sess v = sess w0" for ok v
    using that inv adm handler_served [of n v p opcode graph] error_reply [of n v]
    by (auto simp: result_def w0_def split: option.split)
  have f: "sess v = sess w0 \<Longrightarrow> sent v = sent w \<Longrightarrow> calls v = calls w \<or> (\<exists>g. calls v = Graph g # calls w) \<Longrightarrow>
      ends (result ok v) (safely_served n drv opcode req_id w)" for ok v
    by (rule ends_mono [OF r]) (auto intro: safely_served_from [where b = False] simp: w0_def)
  have s: "ends (result ok w0) (safely_served n drv opcode req_id w)" "ends (result ok w1) (safely_served n drv opcode req_id w)"
    "ends (reply drv opcode req_id ST_CAPTURE_UNSUPPORTED [] w0) (safely_served n drv opcode req_id w)" for ok
    using f [of w0 ok] f [of w1 ok] error_reply [of n w0 drv opcode req_id ST_CAPTURE_UNSUPPORTED] inv(1)
    by (auto simp: w0_def w1_def intro: safely_served_from [where b = False])
  define ok where "ok = (o_rc (drv (calls w0) (Graph (B_capture_exchange CU_STREAM_CAPTURE_MODE_RELAXED))) = CUDA_SUCCESS)"
  obtain rc0 v0 where v0: "result True w0 = Some (rc0, v0)" "safely_served n drv opcode req_id w rc0 v0" using s(1) by (rule endsE)
  obtain rc1 v1 where v1: "result ok w1 = Some (rc1, v1)" "safely_served n drv opcode req_id w rc1 v1" using s(2) by (rule endsE)
  note unfolded = serve_request_def Let_def w0_def [symmetric] invoke_case w1_def [symmetric] ok_def [symmetric]
  show ?thesis
  proof (cases "capture_graph (sess w) \<noteq> 0 \<and> capture_allow_alloc (sess w) \<and> opcode = OP_ALLOC")
    case True
    then show ?thesis unfolding unfolded using v1 safely_served_then [OF v1(2)]
      by (cases ok) (simp_all add: result_def [symmetric])
  next
    case False
    then show ?thesis unfolding unfolded if_not_P [OF False] using False s(3) v0 by (auto simp: result_def [symmetric])
  qed
qed

section \<open>What a client sends\<close>

text \<open>The first complete request of the input, with the rest; \<^const>\<open>None\<close> when the loop stops before serving one.\<close>

definition next_request :: "bytes \<Rightarrow> (u32 \<times> u32 \<times> bytes \<times> bytes) option" where
  "next_request input =
     (case recv_all input CRX_REQUEST_HEADER_BYTES of
        None \<Rightarrow> None
      | Some (h, rest) \<Rightarrow>
          (case corex_protocol_decode_request_header h of
             None \<Rightarrow> None
           | Some rq \<Rightarrow>
               if unat (rq_payload_length rq) > MAX_PAYLOAD then None
               else case recv_all rest (unat (rq_payload_length rq)) of
                      None \<Rightarrow> None
                    | Some (payload, rest) \<Rightarrow> Some (rq_opcode rq, rq_request_id rq, payload, rest)))"

lemma next_request_shorter: "next_request input = Some (opcode, req_id, p, rest) \<Longrightarrow>
    length rest + 20 \<le> length input \<and> length p \<le> MAX_PAYLOAD"
  by (auto simp: next_request_def recv_all_def split: option.splits if_splits)

text \<open>The requests the loop serves: all of the input, or up to the first CLOSE.\<close>

function client_requests :: "bytes \<Rightarrow> (u32 \<times> u32 \<times> bytes) list" where
  "client_requests input =
     (case next_request input of
        None \<Rightarrow> []
      | Some (opcode, req_id, p, rest) \<Rightarrow>
          (opcode, req_id, p) # (if opcode = OP_CLOSE \<and> p = [] then [] else client_requests rest))"
  by pat_completeness auto
termination
  by (relation "measure length") (auto dest!: next_request_shorter)

declare client_requests.simps [simp del]

definition request_bytes :: "u32 \<times> u32 \<times> bytes \<Rightarrow> bytes" where
  "request_bytes = (\<lambda>(opcode, req_id, p). corex_protocol_encode_request_header opcode req_id (of_nat (length p)) @ p)"

lemma next_request_bytes:
  assumes "length p \<le> MAX_PAYLOAD"
  shows "next_request (request_bytes (opcode, req_id, p) @ rest) = Some (opcode, req_id, p, rest)"
proof -
  let ?h = "corex_protocol_encode_request_header opcode req_id (of_nat (length p))"
  have "length ?h = 20" by (simp add: wire_simps)
  moreover have "unat (of_nat (length p) :: u32) = length p" using assms by (simp add: unat_of_nat)
  ultimately show ?thesis
    using assms decode_encode_request_header [of opcode req_id "of_nat (length p)" "[]"]
    by (simp add: next_request_def recv_all_def request_bytes_def)
qed

text \<open>A client that sends a list of requests, CLOSE at most as the last one, has exactly these requests served.\<close>

lemma client_requests_sent:
  assumes "\<forall>(opcode, req_id, p) \<in> set rqs. length p \<le> MAX_PAYLOAD"
    "\<forall>(opcode, req_id, p) \<in> set (butlast rqs). \<not> (opcode = OP_CLOSE \<and> p = [])"
  shows "client_requests (concat (map request_bytes rqs)) = rqs"
  using assms
proof (induction rqs)
  case Nil
  then show ?case by (simp add: client_requests.simps next_request_def recv_all_def)
next
  case (Cons rq rqs)
  obtain opcode req_id p where rq: "rq = (opcode, req_id, p)" by (cases rq)
  have "client_requests (concat (map request_bytes rqs)) = rqs"
    using Cons by (cases rqs) auto
  then show ?case
    using Cons.prems next_request_bytes [of p opcode req_id "concat (map request_bytes rqs)"]
    by (subst client_requests.simps) (auto simp: rq split: if_splits)
qed

text \<open>The responses to a list of requests, one each and in order.\<close>

definition answer :: "u32 \<Rightarrow> u32 \<Rightarrow> bytes \<Rightarrow> bool" where
  "answer opcode req_id b \<longleftrightarrow> (\<exists>status payload. length payload < 2 ^ 32 \<and>
     b = corex_protocol_encode_response_header opcode req_id status (of_nat (length payload)) @ payload)"

fun answers :: "(u32 \<times> u32 \<times> bytes) list \<Rightarrow> bytes \<Rightarrow> bool" where
  "answers [] b = (b = [])"
| "answers ((opcode, req_id, p) # rqs) b = (\<exists>b1 b2. b = b1 @ b2 \<and> answer opcode req_id b1 \<and> answers rqs b2)"

text \<open>Every request of the session is admissible when the loop reaches it.\<close>

function well_behaved :: "handler \<Rightarrow> driver \<Rightarrow> bytes \<Rightarrow> world \<Rightarrow> bool" where
  "well_behaved graph drv input w =
     (case next_request input of
        None \<Rightarrow> True
      | Some (opcode, req_id, p, _) \<Rightarrow>
          admissible (sess w) opcode p \<and>
          (case serve_turn graph drv input w of
             Some (Next rest w) \<Rightarrow> well_behaved graph drv rest w
           | _ \<Rightarrow> True))"
  by pat_completeness auto
termination
  by (relation "measure (\<lambda>(_, _, input, _). length input)") (auto dest: serve_turn_consumes)

declare well_behaved.simps [simp del]

text \<open>Requests outside the graph commands and the two-dimensional copies are always admissible.\<close>

lemma contract_admissible: "contract_opcode opcode \<Longrightarrow> admissible s opcode p"
  by (simp add: contract_opcode_def admissible_def)

lemma serve_turn_rest: "serve_turn graph drv input w = Some (Next rest w') \<Longrightarrow>
    \<exists>opcode req_id p. next_request input = Some (opcode, req_id, p, rest) \<and> \<not> (opcode = OP_CLOSE \<and> p = [])"
  by (auto simp: serve_turn_def next_request_def recv_all_def Let_def unat_eq_0 split: option.splits if_splits prod.splits)

lemma contract_well_behaved:
  "\<forall>(opcode, req_id, p) \<in> set (client_requests input). contract_opcode opcode \<Longrightarrow> well_behaved graph drv input w"
proof (induction graph drv input w rule: well_behaved.induct)
  case (1 graph drv input w)
  show ?case
  proof (cases "next_request input")
    case None
    then show ?thesis by (simp add: well_behaved.simps)
  next
    case (Some r)
    obtain opcode req_id p rest where r: "r = (opcode, req_id, p, rest)" by (cases r)
    have a: "contract_opcode opcode" "\<not> (opcode = OP_CLOSE \<and> p = []) \<Longrightarrow> \<forall>(opcode, req_id, p) \<in> set (client_requests rest). contract_opcode opcode"
      using "1.prems" Some r by (subst (asm) client_requests.simps, simp)+
    have "well_behaved graph drv rest' w'" if "serve_turn graph drv input w = Some (Next rest' w')" for rest' w'
      using serve_turn_rest [OF that] "1.IH" [OF Some r [symmetric] refl refl that refl] a(2) Some r that by auto
    then show ?thesis using Some r a(1) by (subst well_behaved.simps) (auto simp: contract_admissible split: option.split turn.split)
  qed
qed

section \<open>The loop is sound\<close>

definition kept :: "nat \<Rightarrow> driver \<Rightarrow> world \<Rightarrow> world \<Rightarrow> bool" where
  "kept n drv w w' \<longleftrightarrow> session_inv n (sess w') \<and> no_revival (sess w) (sess w') \<and>
     balanced drv (transfers (sess w)) (calls w) (transfers (sess w')) (calls w')"

lemma kept_trans: "kept n drv w w1 \<Longrightarrow> kept m drv w1 w2 \<Longrightarrow> kept m drv w w2"
  using no_revival_trans balanced_trans unfolding kept_def by blast

lemma kept_quiet:
  "session_inv n (sess w) \<Longrightarrow> sess w' = sess w \<Longrightarrow> grown (\<lambda>c. \<not> pin_call c) (calls w) (calls w') \<Longrightarrow> kept n drv w w'"
  by (simp add: kept_def balanced_grown [OF balanced_refl])

lemma kept_served: "safely_served n drv op rid w rc w' \<Longrightarrow> kept (Suc n) drv w w'"
  by (simp add: kept_def safely_served_def served_def)

lemma kept_mono: "kept n drv w w' \<Longrightarrow> n \<le> m \<Longrightarrow> kept m drv w w'"
  using session_inv_mono by (auto simp: kept_def)

text \<open>The client stays connected; memory for payloads is available as well.\<close>

definition connected :: "driver \<Rightarrow> bool" where
  "connected drv \<longleftrightarrow> (\<forall>h b. o_ret (drv h (OS (OS_send b))) = 0)"

definition reliable :: "driver \<Rightarrow> bool" where
  "reliable drv \<longleftrightarrow> connected drv \<and> (\<forall>h n. o_ret (drv h (OS (OS_malloc n))) = 0)"

lemma connected_hung_up: "connected drv \<Longrightarrow> \<not> hung_up drv cs"
  by (auto simp: connected_def hung_up_def)

lemma reliable_hung_up: "reliable drv \<Longrightarrow> \<not> hung_up drv cs"
  by (auto simp: reliable_def connected_hung_up)

text \<open>
  One response to each request up to one whose payload the server could not allocate: it is told so, and it is
  the last one served. Its payload need not have arrived in full, so that it may be behind the last complete request.
\<close>

definition exhausted :: "driver \<Rightarrow> (u32 \<times> u32 \<times> bytes) list \<Rightarrow> bytes \<Rightarrow> bool" where
  "exhausted drv rqs b \<longleftrightarrow> (\<exists>ready later opcode req_id b0. rqs = ready @ later \<and> answers ready b0 \<and>
     (case later of [] \<Rightarrow> True | (opcode', req_id', _) # _ \<Rightarrow> opcode = opcode' \<and> req_id = req_id') \<and>
     b = b0 @ corex_protocol_encode_response_header opcode req_id ST_INTERNAL 0 \<and>
     (\<exists>h sz. o_ret (drv h (OS (OS_malloc sz))) \<noteq> 0))"

lemma exhausted_here:
  assumes "o_ret (drv h (OS (OS_malloc sz))) \<noteq> 0"
  shows "exhausted drv [] (corex_protocol_encode_response_header opcode req_id ST_INTERNAL 0)"
    "exhausted drv ((opcode, req_id, p) # rqs) (corex_protocol_encode_response_header opcode req_id ST_INTERNAL 0)"
  unfolding exhausted_def
  by (rule exI [of _ "[]"], rule exI [of _ "[]"], rule exI [of _ opcode], rule exI [of _ req_id], use assms in auto)
    (rule exI [of _ "[]"], rule exI [of _ "(opcode, req_id, p) # rqs"], use assms in auto)

lemma exhausted_later:
  assumes "answer opcode req_id b1" "exhausted drv rqs b2"
  shows "exhausted drv ((opcode, req_id, p) # rqs) (b1 @ b2)"
proof -
  obtain ready later o' r' b0 where e: "rqs = ready @ later" "answers ready b0"
    "case later of [] \<Rightarrow> True | (opcode', req_id', _) # _ \<Rightarrow> o' = opcode' \<and> r' = req_id'"
    "b2 = b0 @ corex_protocol_encode_response_header o' r' ST_INTERNAL 0" "\<exists>h sz. o_ret (drv h (OS (OS_malloc sz))) \<noteq> 0"
    using assms(2) unfolding exhausted_def by blast
  then show ?thesis
    unfolding exhausted_def using assms(1)
    by (intro exI [of _ "(opcode, req_id, p) # ready"] exI [of _ later] exI [of _ o'] exI [of _ r'] exI [of _ "b1 @ b0"]) auto
qed

lemma reliable_exhausted: "reliable drv \<Longrightarrow> \<not> exhausted drv rqs b"
  by (auto simp: reliable_def exhausted_def)

lemma serve_turn_None:
  assumes "next_request input = None"
  shows "\<exists>rc w'. serve_turn graph drv input w = Some (Stop rc w') \<and> (rc = 0 \<or> rc = - 1) \<and> sess w' = sess w \<and>
    grown (\<lambda>c. \<not> pin_call c) (calls w) (calls w') \<and>
    (connected drv \<longrightarrow> sent w' = sent w \<or> (\<exists>b. sent w' = sent w @ b \<and> exhausted drv [] b))"
proof -
  have reply: "fst (send_response drv op rid st pl v) = 0" if "connected drv" for op rid st pl v
    using that by (simp add: send_response_def send_all_def invoke_def connected_def Let_def)
  have internal: "\<exists>b. sent (snd (send_response drv op rid ST_INTERNAL [] (snd (invoke drv (OS (OS_malloc sz)) w)))) = sent w @ b \<and> exhausted drv [] b"
    if "connected drv" "o_ret (drv (calls w) (OS (OS_malloc sz))) \<noteq> 0" for op rid sz
    using send_response_sent [OF reply [OF that(1)]] exhausted_here(1) [of drv "calls w" sz] that(2) by (auto simp: invoke_def)
  show ?thesis
    using assms internal
    by (auto simp: serve_turn_def next_request_def Let_def invoke_case pin_call_def
        intro!: grown_send_response split: option.splits if_splits)
qed

definition payload_buffer :: "driver \<Rightarrow> bytes \<Rightarrow> world \<Rightarrow> bool \<times> world" where
  "payload_buffer drv p w =
     (if p \<noteq> [] then (let (r, w) = invoke drv (OS (OS_malloc (of_nat (length p)))) w in (o_ret r = 0, w)) else (True, w))"

lemma serve_turn_Some:
  assumes "next_request input = Some (opcode, req_id, p, rest)"
  shows "serve_turn graph drv input w =
    (let (allocated, w) = payload_buffer drv p w
     in if \<not> allocated then Some (Stop (- 1) (snd (send_response drv opcode req_id ST_INTERNAL [] w)))
        else case serve_request graph drv opcode req_id p w of
               None \<Rightarrow> None
             | Some (rc, w) \<Rightarrow> if rc \<noteq> 0 then Some (Stop (- 1) w)
                 else if opcode = OP_CLOSE \<and> p = [] then Some (Stop 0 w) else Some (Next rest w))"
proof -
  obtain h r rq where h: "recv_all input 20 = Some (h, r)" "corex_protocol_decode_request_header h = Some rq"
    "\<not> unat (rq_payload_length rq) > MAX_PAYLOAD" "recv_all r (unat (rq_payload_length rq)) = Some (p, rest)"
    "opcode = rq_opcode rq" "req_id = rq_request_id rq"
    using assms by (auto simp: next_request_def split: option.splits if_splits)
  have l: "length p = unat (rq_payload_length rq)" using h(4) by (auto simp: recv_all_def split: if_splits)
  have len: "0 < rq_payload_length rq \<longleftrightarrow> p \<noteq> []" "rq_payload_length rq = 0 \<longleftrightarrow> p = []"
    using l by (auto simp: word_gt_0 unat_eq_0)
  have n: "ucast (rq_payload_length rq) = (of_nat (length p) :: u64)" unfolding l by simp
  show ?thesis
    unfolding serve_turn_def h(1,2) option.case prod.case if_not_P [OF h(3)] len n payload_buffer_def h(5,6)
    by (simp only: h(4) option.case prod.case)
qed

lemma payload_buffer_effect:
  "sess (snd (payload_buffer drv p w)) = sess w" "sent (snd (payload_buffer drv p w)) = sent w"
  "grown (\<lambda>c. \<not> pin_call c) (calls w) (calls (snd (payload_buffer drv p w)))"
  "reliable drv \<Longrightarrow> fst (payload_buffer drv p w)"
  by (auto simp: payload_buffer_def Let_def invoke_def pin_call_def reliable_def)

lemma serve_turn_sound:
  assumes "session_inv n (sess w)" "Suc n < 2 ^ 64" "next_request input = Some (opcode, req_id, p, rest)" "admissible (sess w) opcode p"
  shows "\<exists>t. serve_turn graph drv input w = Some t \<and>
    (case t of Stop rc w' \<Rightarrow> (rc = 0 \<or> rc = - 1) \<and> kept (Suc n) drv w w' \<and>
        (connected drv \<longrightarrow> (\<exists>b. sent w' = sent w @ b \<and>
           (opcode = OP_CLOSE \<and> p = [] \<and> answer opcode req_id b \<or> (\<forall>rqs. exhausted drv ((opcode, req_id, p) # rqs) b))))
     | Next rest' w' \<Rightarrow> rest' = rest \<and> kept (Suc n) drv w w' \<and> \<not> (opcode = OP_CLOSE \<and> p = []) \<and>
         (\<exists>b. sent w' = sent w @ b \<and> answer opcode req_id b))"
proof -
  let ?w = "snd (payload_buffer drv p w)"
  note e = payload_buffer_effect [where drv = drv and p = p and w = w]
  have k: "kept n drv w ?w" using assms(1) e by (intro kept_quiet) auto
  have len: "length p < 2 ^ 32" using next_request_shorter [OF assms(3)] by simp
  obtain rc w' where r: "serve_request graph drv opcode req_id p ?w = Some (rc, w')" "safely_served n drv opcode req_id ?w rc w'"
    using serve_request_served [of n ?w p opcode graph drv req_id] assms(1,2,4) e(1) len by (metis endsE)
  have s: "kept (Suc n) drv w w'" by (rule kept_trans [OF k kept_served [OF r(2)]])
  have a: "rc = 0 \<Longrightarrow> \<exists>b. sent w' = sent w @ b \<and> answer opcode req_id b"
    using r(2) e(2) by (auto simp: safely_served_def served_def replied_def answer_def)
  have z: "connected drv \<Longrightarrow> rc = 0" using r(2) connected_hung_up by (auto simp: safely_served_def)
  have x: "\<exists>b. sent (snd (send_response drv opcode req_id ST_INTERNAL [] ?w)) = sent w @ b \<and> (\<forall>rqs. exhausted drv ((opcode, req_id, p) # rqs) b)"
    if "connected drv" "\<not> fst (payload_buffer drv p w)"
  proof -
    have "fst (send_response drv opcode req_id ST_INTERNAL [] ?w) = 0"
      using that(1) by (simp add: send_response_def send_all_def invoke_def connected_def Let_def)
    moreover have "\<exists>h sz. o_ret (drv h (OS (OS_malloc sz))) \<noteq> 0"
      using that(2) by (auto simp: payload_buffer_def invoke_def split: if_splits)
    ultimately show ?thesis using send_response_sent [of drv opcode req_id ST_INTERNAL "[]" ?w] e(2) exhausted_here(2) by auto
  qed
  have f: "kept (Suc n) drv w (snd (send_response drv opcode req_id ST_INTERNAL [] ?w))"
    using kept_trans [OF k kept_served [OF error_reply]] assms(1) e(1) by simp
  show ?thesis
    unfolding serve_turn_Some [OF assms(3)] using r(1) s a z f x
    by (cases "fst (payload_buffer drv p w)") (auto simp: case_prod_beta Let_def)
qed

lemma kept_refl: "session_inv n (sess w) \<Longrightarrow> kept n drv w w"
  by (simp add: kept_def)

lemma serve_session_sound:
  assumes "session_inv n (sess w)" "n + length input < 2 ^ 64" "well_behaved graph drv input w"
  shows "\<exists>rc w'. serve_session graph drv input w = Some (rc, w') \<and> (rc = 0 \<or> rc = - 1) \<and> kept (n + length input) drv w w' \<and>
    (connected drv \<longrightarrow> (\<exists>b. sent w' = sent w @ b \<and> (answers (client_requests input) b \<or> exhausted drv (client_requests input) b)))"
  using assms
proof (induction graph drv input w arbitrary: n rule: serve_session.induct)
  case (1 graph drv input w)
  show ?case
  proof (cases "next_request input")
    case None
    then obtain rc w' where t: "serve_turn graph drv input w = Some (Stop rc w')" "rc = 0 \<or> rc = - 1" "sess w' = sess w"
      "grown (\<lambda>c. \<not> pin_call c) (calls w) (calls w')"
      "connected drv \<longrightarrow> sent w' = sent w \<or> (\<exists>b. sent w' = sent w @ b \<and> exhausted drv [] b)"
      using serve_turn_None by blast
    have "kept (n + length input) drv w w'" using kept_quiet [OF "1.prems"(1) t(3,4)] by (rule kept_mono) simp
    then show ?thesis using t None by (auto simp: serve_session.simps client_requests.simps)
  next
    case (Some r)
    obtain opcode req_id p rest where r: "r = (opcode, req_id, p, rest)" by (cases r)
    note nr = Some [unfolded r]
    have len: "length rest + 20 \<le> length input" using next_request_shorter [OF nr] by simp
    have adm: "admissible (sess w) opcode p" using "1.prems"(3) nr by (simp add: well_behaved.simps)
    have sn: "Suc n < 2 ^ 64" using "1.prems"(2) len by simp
    note sound = serve_turn_sound [OF "1.prems"(1) sn nr adm, of graph drv]
    then obtain t where t: "serve_turn graph drv input w = Some t" by blast
    show ?thesis
    proof (cases t)
      case (Stop rc w')
      then have "kept (n + length input) drv w w'" using sound t len by (auto intro: kept_mono)
      then show ?thesis using sound t Stop nr by (auto simp: serve_session.simps client_requests.simps)
    next
      case (Next rest' w')
      then have k: "rest' = rest" "kept (Suc n) drv w w'" "\<not> (opcode = OP_CLOSE \<and> p = [])"
        "\<exists>b. sent w' = sent w @ b \<and> answer opcode req_id b" using sound t by auto
      have "well_behaved graph drv rest w'" using "1.prems"(3) nr t Next k(1) by (simp add: well_behaved.simps [of graph drv input])
      then obtain rc v where v: "serve_session graph drv rest w' = Some (rc, v)" "rc = 0 \<or> rc = - 1"
        "kept (Suc n + length rest) drv w' v" "connected drv \<longrightarrow> (\<exists>b. sent v = sent w' @ b \<and> (answers (client_requests rest) b \<or> exhausted drv (client_requests rest) b))"
        using "1.IH" [of t rest w' "Suc n"] t Next k len "1.prems"(2) by (auto simp: kept_def)
      have "kept (n + length input) drv w v" using kept_trans [OF k(2) v(3)] by (rule kept_mono) (use len in simp)
      moreover have "serve_session graph drv input w = Some (rc, v)" using t Next k(1) v(1) by (simp add: serve_session.simps [of graph drv input])
      moreover have "client_requests input = (opcode, req_id, p) # client_requests rest" using nr k(3) by (auto simp: client_requests.simps [of input])
      ultimately show ?thesis using k(4) v(2,4) exhausted_later by fastforce
    qed
  qed
qed

text \<open>
  C1. A whole session keeps the session invariant: from the initial session, on any input of less than
  \<open>2 ^ 64 - 1\<close> bytes whose requests are admissible when they are reached, whatever the driver answers, the
  request loop returns without undefined behaviour; afterwards every table is well formed (identifiers
  are unique, nonzero and below their counter, aliases and kernels name live modules, the default and the
  current pool exist), and every pinned buffer obtained from the driver and not given back is held by a live transfer.
\<close>

theorem serve_session_invariant:
  assumes "1 + length input < 2 ^ 64" "well_behaved graph drv input w" "sess w = server_session_init"
  shows "\<exists>rc w'. serve_session graph drv input w = Some (rc, w') \<and> session_inv (1 + length input) (sess w') \<and>
    (\<forall>b. b \<noteq> 0 \<longrightarrow> pins drv (calls w') b - pins drv (calls w) b = held (transfers (sess w')) b)"
proof -
  have "held (transfers server_session_init) b = 0" for b by (simp add: held_def sum_list_replicate)
  then show ?thesis
    using serve_session_sound [OF _ assms(1,2)] session_inv_init assms(3)
    by (fastforce simp: kept_def balanced_def)
qed

definition sample_requests :: "(u32 \<times> u32 \<times> bytes) list" where
  "sample_requests = [(OP_HELLO, 1, []), (OP_ALLOC, 2, be64 64), (99, 3, [7]), (OP_CLOSE, 4, [])]"

lemma sample_requests_ok:
  "\<forall>(opcode, req_id, p) \<in> set sample_requests. length p \<le> MAX_PAYLOAD \<and> contract_opcode opcode"
  "\<forall>(opcode, req_id, p) \<in> set (butlast sample_requests). \<not> (opcode = OP_CLOSE \<and> p = [])"
  "length (concat (map request_bytes sample_requests)) = 89"
  by (simp_all add: sample_requests_def contract_opcode_def request_bytes_def wire_simps)

lemma sample_well_behaved: "well_behaved graph drv (concat (map request_bytes sample_requests)) w"
proof (rule contract_well_behaved)
  have "client_requests (concat (map request_bytes sample_requests)) = sample_requests"
    using sample_requests_ok by (intro client_requests_sent) auto
  then show "\<forall>(opcode, req_id, p) \<in> set (client_requests (concat (map request_bytes sample_requests))). contract_opcode opcode"
    using sample_requests_ok(1) by auto
qed

theorem serve_session_invariant_witness:
  "\<exists>rc w'. serve_session handle_close (ok_driver 4096) (concat (map request_bytes sample_requests)) init_world = Some (rc, w') \<and>
     session_inv 90 (sess w')"
  using serve_session_invariant [of "concat (map request_bytes sample_requests)" handle_close "ok_driver 4096" init_world]
    sample_well_behaved [of handle_close "ok_driver 4096" init_world] sample_requests_ok(3) by auto

text \<open>
  C3. Requests are answered in order: in a session of admissible requests, while the client stays connected and
  whatever the driver answers, the server sends exactly one response to each complete request of the input, in
  the order of the requests and with the opcode and the identifier of its request, up to the first CLOSE. The one
  exception is a payload the server cannot allocate: that request is told so, and its response is the last
  one. Admissible are all requests but graph commands, and two-dimensional copies only if their layout does not wrap
  around and their mode is documented.
\<close>

theorem requests_answered_in_order:
  assumes "connected drv" "session_inv n (sess w)" "n + length input < 2 ^ 64" "well_behaved graph drv input w"
  shows "\<exists>rc w' b. serve_session graph drv input w = Some (rc, w') \<and> sent w' = sent w @ b \<and>
    (answers (client_requests input) b \<or> exhausted drv (client_requests input) b)"
  using serve_session_sound [OF assms(2-4)] assms(1) by auto

lemma ok_driver_reliable: "reliable (ok_driver v)"
  by (simp add: reliable_def connected_def)

theorem requests_answered_in_order_witness:
  "\<exists>rc w' b. serve_session handle_close (ok_driver 4096) (concat (map request_bytes sample_requests)) init_world = Some (rc, w') \<and>
     sent w' = b \<and> answers [(OP_HELLO, 1, []), (OP_ALLOC, 2, be64 64), (99, 3, [7]), (OP_CLOSE, 4, [])] b"
proof -
  have c: "client_requests (concat (map request_bytes sample_requests)) = sample_requests"
    using sample_requests_ok by (intro client_requests_sent) auto
  have r: "reliable (ok_driver 4096)" by (rule ok_driver_reliable)
  then have "connected (ok_driver 4096)" by (simp add: reliable_def)
  from requests_answered_in_order [OF this, of 1 init_world "concat (map request_bytes sample_requests)" handle_close]
  show ?thesis
    using sample_requests_ok(3) session_inv_init sample_well_behaved [of handle_close "ok_driver 4096" init_world] reliable_exhausted [OF r]
    unfolding c by (auto simp: sample_requests_def)
qed

text \<open>
  C7. Handles are never revived: an identifier of an allocation, module, kernel, stream, event, transfer or
  pool that was issued before and names nothing any more names nothing at the end of the session either,
  whatever admissible requests the client sends and whatever the driver answers.
\<close>

theorem stale_handles_stay_stale:
  assumes "session_inv n (sess w)" "n + length input < 2 ^ 64" "well_behaved graph drv input w"
    "serve_session graph drv input w = Some (rc, w')"
  shows "(k < next_alloc_id (sess w) \<and> find_allocation_record (sess w) k = None \<longrightarrow> find_allocation_record (sess w') k = None) \<and>
    (k < next_module_id (sess w) \<and> find_module (sess w) k = None \<longrightarrow> find_module (sess w') k = None) \<and>
    (k < next_kernel_id (sess w) \<and> find_kernel (sess w) k = None \<longrightarrow> find_kernel (sess w') k = None) \<and>
    (k < next_stream_id (sess w) \<and> find_stream (sess w) k = None \<longrightarrow> find_stream (sess w') k = None) \<and>
    (k < next_event_id (sess w) \<and> find_event (sess w) k = None \<longrightarrow> find_event (sess w') k = None) \<and>
    (k < next_transfer_id (sess w) \<and> find_transfer (sess w) k = None \<longrightarrow> find_transfer (sess w') k = None) \<and>
    (k < next_pool_id (sess w) \<and> find_pool (sess w) k = None \<longrightarrow> find_pool (sess w') k = None)"
proof -
  have "no_revival (sess w) (sess w')" using serve_session_sound [OF assms(1-3)] assms(4) by (auto simp: kept_def)
  then show ?thesis
    by (auto simp: no_revival_def find_allocation_record_def find_module_def find_kernel_def find_stream_def find_event_def
        find_transfer_def find_pool_def intro: persists_stale)
qed

definition free_world :: world where
  "free_world = init_world\<lparr>sess := server_session_init\<lparr>next_alloc_id := 2\<rparr>\<rparr>"

lemma free_world_inv: "session_inv 2 (sess free_world)"
  using session_inv_mono [OF session_inv_init, of 2]
  by (auto simp: free_world_def session_inv_def alloc_inv_def table_inv_def)

theorem stale_handles_stay_stale_witness:
  "find_allocation_record (sess free_world) 1 = None \<and>
   (\<exists>rc w'. serve_session handle_close (ok_driver 4096) (concat (map request_bytes sample_requests)) free_world = Some (rc, w') \<and>
     find_allocation_record (sess w') 1 = None)"
proof -
  let ?in = "concat (map request_bytes sample_requests)"
  have n: "find_allocation_record (sess free_world) 1 = None" "(1 :: u64) < next_alloc_id (sess free_world)"
    by (simp_all add: free_world_def find_allocation_record_def)
  have len: "2 + length ?in < 2 ^ 64" by (simp add: sample_requests_ok(3))
  obtain rc w' where "serve_session handle_close (ok_driver 4096) ?in free_world = Some (rc, w')"
    using serve_session_sound [OF free_world_inv len sample_well_behaved] by blast
  then show ?thesis
    using stale_handles_stay_stale [OF free_world_inv len sample_well_behaved, of _ _ _ _ 1] n by blast
qed

section \<open>Capture\<close>

text \<open>
  C18. While a capture is open only the allowlist reaches the driver: any other request, whatever its
  handler would do, is answered with the status that the capture does not support it, makes no call of
  the driver but the sending of that answer, and leaves every table as it is. The one exception is an
  allocation the capture was told to allow: the permission holds for the next request only.
\<close>

theorem capture_gate:
  assumes "capture_graph (sess w) \<noteq> 0" "\<not> corex_graph_capture_safe_opcode opcode"
    "\<not> (capture_allow_alloc (sess w) \<and> opcode = OP_ALLOC)"
  shows "\<exists>rc w'. serve_request graph drv opcode req_id p w = Some (rc, w') \<and>
    sess w' = (sess w)\<lparr>capture_allow_alloc := False\<rparr> \<and>
    (\<exists>new. calls w' = new @ calls w \<and> (\<forall>c \<in> set new. \<exists>b. c = OS (OS_send b))) \<and>
    (rc = 0 \<longrightarrow> sent w' = sent w @ corex_protocol_encode_response_header opcode req_id ST_CAPTURE_UNSUPPORTED 0)"
proof -
  let ?w = "put_sess (\<lambda>s. s\<lparr>capture_allow_alloc := False\<rparr>) w"
  let ?r = "send_response drv opcode req_id ST_CAPTURE_UNSUPPORTED [] ?w"
  have "serve_request graph drv opcode req_id p w = Some ?r" using assms by (simp add: serve_request_def Let_def)
  moreover have "grown (\<lambda>c. \<exists>b. c = OS (OS_send b)) (calls w) (calls (snd ?r))" by (intro grown_send_response) auto
  ultimately show ?thesis
    using send_response_sent [of drv opcode req_id ST_CAPTURE_UNSUPPORTED "[]" ?w]
    by (intro exI [of _ "fst ?r"] exI [of _ "snd ?r"]) (simp add: grown_def)
qed

definition capture_world :: world where
  "capture_world = alloc_world\<lparr>sess := (sess alloc_world)\<lparr>capture_graph := 1, capture_stream := 1\<rparr>\<rparr>"

theorem capture_gate_witness:
  "\<exists>rc w'. serve_request handle_close (ok_driver 0) OP_FREE 5 (be64 1) capture_world = Some (rc, w') \<and>
     find_allocation (sess w') 1 = find_allocation (sess capture_world) 1"
proof -
  have g: "capture_graph (sess capture_world) \<noteq> 0" by (simp add: capture_world_def)
  have u: "\<not> corex_graph_capture_safe_opcode OP_FREE" by (simp add: corex_graph_capture_safe_opcode_def)
  show ?thesis using capture_gate [OF g u, of handle_close "ok_driver 0" 5 "be64 1"] by (auto simp: capture_flag_lookup)
qed

section \<open>One session after the other\<close>

lemma pins_append_quiet: "\<forall>c \<in> set cs. \<not> pin_call c \<Longrightarrow> pins drv (cs @ h) b = pins drv h b"
  by (induction cs) (simp_all add: pins_other del: pins.simps)

text \<open>Calls that obtain no pinned buffer: the ledger falls by the buffers given back.\<close>

definition gives :: "u64 \<Rightarrow> call list \<Rightarrow> int" where
  "gives b cs = int (length (filter (\<lambda>c. c = Mem (B_host_free b)) cs))"

lemma pins_gives:
  "\<forall>c \<in> set cs. \<forall>n. c \<noteq> Mem (B_host_alloc n) \<Longrightarrow> pins drv (rev cs @ h) b = pins drv h b - gives b cs"
proof (induction cs rule: rev_induct)
  case (snoc c cs)
  have "pins drv (c # rev cs @ h) b = pins drv (rev cs @ h) b - (if c = Mem (B_host_free b) then 1 else 0)"
    using snoc.prems by (auto split: call.split mem_call.split)
  then show ?case using snoc by (simp add: gives_def del: pins.simps)
qed (simp add: gives_def)

lemma gives_append: "gives b (cs @ ds) = gives b cs + gives b ds"
  by (simp add: gives_def)

lemma gives_none: "(\<And>x. f x \<noteq> Mem (B_host_free b)) \<Longrightarrow> gives b (map f xs) = 0"
  by (auto simp: gives_def filter_empty_conv)

lemma gives_transfers: "b \<noteq> 0 \<Longrightarrow> gives b (concat (map transfer_calls (filter t_used ts))) = held ts b"
  by (induction ts) (auto simp: gives_def held_def transfer_calls_def)

lemma gives_elsewhere: "\<forall>c \<in> set cs. c \<noteq> Mem (B_host_free b) \<Longrightarrow> gives b cs = 0"
  by (auto simp: gives_def filter_empty_conv)

lemma default_trim_calls: "default_trim s trim \<Longrightarrow> c \<in> set (restore_calls trim s) \<Longrightarrow> c \<noteq> Mem x"
  by (auto simp: default_trim_def restore_calls_def trim_call_def written_attribute_def Let_def split: option.splits)

lemma gives_release_plan:
  assumes "default_trim s trim" "b \<noteq> 0"
  shows "gives b (release_plan lost ctx trim s) = held (transfers s) b"
proof -
  have "gives b (restore_calls trim s) = 0" "gives b (capture_end_calls s) = 0" "gives b (concat (map exec_calls xs)) = 0"
    "gives b [Ctx B_context_sync] = 0" "gives b (if ctx \<noteq> 0 then [Ctx B_context_sync] else []) = 0" for xs
    using default_trim_calls [OF assms(1)]
    by (auto intro!: gives_elsewhere simp: capture_end_calls_def exec_calls_def split: option.splits if_splits)
  then show ?thesis unfolding release_plan_def gives_append using assms(2) by (simp add: gives_transfers gives_none)
qed

lemma release_plan_no_alloc:
  "default_trim s trim \<Longrightarrow> c \<in> set (release_plan lost ctx trim s) \<Longrightarrow> c \<noteq> Mem (B_host_alloc m)"
  using default_trim_calls [of s trim c]
  by (auto simp: release_plan_def transfer_calls_def exec_calls_def capture_end_calls_def split: if_splits option.splits)

lemma releases_pins:
  assumes "default_trim s trim" "releases w (release_plan lost ctx trim s) w'" "b \<noteq> 0"
  shows "pins drv (calls w') b = pins drv (calls w) b - held (transfers s) b"
  using pins_gives [of "release_plan lost ctx trim s" drv "calls w" b] release_plan_no_alloc [OF assms(1)]
    gives_release_plan [OF assms(1,3)] assms(2) by (auto simp: releases_def)

lemma run_session_sound:
  assumes "1 + length input < 2 ^ 64" "well_behaved graph drv input (w\<lparr>sess := server_session_init\<rparr>)"
  shows "\<exists>go_on w'. run_session graph drv input w = Some (go_on, w') \<and> sess w' = server_session_init \<and>
    (\<forall>b. b \<noteq> 0 \<longrightarrow> pins drv (calls w') b = pins drv (calls w) b)"
proof -
  let ?w = "w\<lparr>sess := server_session_init\<rparr>"
  obtain rc w1 where w1: "serve_session graph drv input ?w = Some (rc, w1)" "kept (1 + length input) drv ?w w1"
    using serve_session_sound [OF _ assms] session_inv_init by auto
  then have i: "session_inv (1 + length input) (sess w1)" by (simp add: kept_def)
  obtain w2 trim where w2: "cleanup_session drv w1 = Some w2" "sess w2 = server_session_init" "default_trim (sess w1) trim"
    "releases w1 (release_plan (capture_lost drv w1) (g_ctx w1) trim (sess w1)) w2"
    using cleanup_session_sound [OF i] .
  have "held (transfers server_session_init) b = 0" for b by (simp add: held_def sum_list_replicate)
  then have p: "pins drv (calls w2) b = pins drv (calls w) b" if "b \<noteq> 0" for b
    using releases_pins [OF w2(3,4) that, of drv] w1(2) that by (simp add: kept_def balanced_def)
  show ?thesis using w1(1) w2(1,2) p by (auto simp: run_session_def Let_def invoke_def)
qed

text \<open>
  C19. Sessions are isolated: whatever the previous state of the server, a session of admissible requests
  ends, the next client finds the initial session, and every pinned buffer the session obtained from the
  driver has been given back exactly as often as it was obtained.
\<close>

theorem run_session_isolated:
  assumes "1 + length input < 2 ^ 64" "well_behaved graph drv input (w\<lparr>sess := server_session_init\<rparr>)"
  shows "\<exists>go_on w'. run_session graph drv input w = Some (go_on, w') \<and> sess w' = server_session_init \<and>
    (\<forall>b. b \<noteq> 0 \<longrightarrow> pins drv (calls w') b = pins drv (calls w) b)"
  using assms by (rule run_session_sound)

theorem run_session_isolated_witness:
  "\<exists>go_on w'. run_session handle_close (ok_driver 4096) (concat (map request_bytes sample_requests)) alloc_world = Some (go_on, w') \<and>
     sess w' = server_session_init"
  using run_session_isolated [of "concat (map request_bytes sample_requests)" handle_close "ok_driver 4096" alloc_world]
    sample_well_behaved [of handle_close "ok_driver 4096"] sample_requests_ok(3) by auto

text \<open>
  C39. The server survives every sequence of clients: if no client sends a graph command or a
  two-dimensional copy and none sends \<open>2 ^ 64 - 1\<close> bytes or more, then serving the clients one after the
  other ends in a defined state, and the ledger of pinned buffers is what it was at the start.
\<close>

theorem run_sessions_terminate:
  assumes "\<forall>input \<in> set inputs. 1 + length input < 2 ^ 64 \<and>
    (\<forall>(opcode, req_id, p) \<in> set (client_requests input). contract_opcode opcode)"
  shows "\<exists>w'. run_sessions graph drv inputs w = Some w' \<and> (\<forall>b. b \<noteq> 0 \<longrightarrow> pins drv (calls w') b = pins drv (calls w) b)"
  using assms
proof (induction inputs arbitrary: w)
  case Nil
  then show ?case by simp
next
  case (Cons input inputs)
  have "well_behaved graph drv input (w\<lparr>sess := server_session_init\<rparr>)"
    by (rule contract_well_behaved) (use Cons.prems in auto)
  then obtain go_on w1 where w1: "run_session graph drv input w = Some (go_on, w1)"
    "\<forall>b. b \<noteq> 0 \<longrightarrow> pins drv (calls w1) b = pins drv (calls w) b"
    using run_session_sound [of input graph drv w] Cons.prems by auto
  show ?case using Cons.IH [of w1] Cons.prems w1 by (cases go_on) auto
qed

theorem run_sessions_terminate_witness:
  "\<exists>w'. run_sessions handle_close (ok_driver 4096) [concat (map request_bytes sample_requests), [1, 2, 3]] init_world = Some w' \<and>
     (\<forall>b. b \<noteq> 0 \<longrightarrow> pins (ok_driver 4096) (calls w') b = 0)"
proof -
  have "client_requests (concat (map request_bytes sample_requests)) = sample_requests"
    using sample_requests_ok by (intro client_requests_sent) auto
  then have a: "\<forall>(opcode, req_id, p) \<in> set (client_requests (concat (map request_bytes sample_requests))). contract_opcode opcode"
    using sample_requests_ok(1) by auto
  have b: "client_requests [1, 2, 3] = []" by (simp add: client_requests.simps next_request_def recv_all_def)
  show ?thesis
    using run_sessions_terminate [of "[concat (map request_bytes sample_requests), [1, 2, 3]]" handle_close "ok_driver 4096" init_world]
      a b sample_requests_ok(3) by auto
qed

end
