(* ===== verification/Stubs.thy ===== *)
theory Stubs
  imports Strings_Codecs
begin

text \<open>
  The client side of \<^verbatim>\<open>include/generated/corex_api_schema.h\<close>: the messages without a field, the two messages
  of the graph command (a fixed head and a bounded block of data), and the call stubs. A stub encodes
  its request, makes one remote call and decodes the answer. The function it calls is its argument
  \<open>rpc_call\<close>, as in the code, over an arbitrary state.
\<close>

section \<open>Messages without a field\<close>

definition corex_generated_encode_cudaDeviceSynchronize_request :: "nat \<Rightarrow> unit \<Rightarrow> bytes option" where
  "corex_generated_encode_cudaDeviceSynchronize_request capacity = (\<lambda>_. Some [])"

definition corex_generated_decode_cudaDeviceSynchronize_request :: "bytes \<Rightarrow> unit option" where
  "corex_generated_decode_cudaDeviceSynchronize_request input = (if length input \<noteq> 0 then None else Some ())"

definition corex_generated_encode_cudaDeviceSynchronize_response :: "nat \<Rightarrow> unit \<Rightarrow> bytes option" where
  "corex_generated_encode_cudaDeviceSynchronize_response capacity = (\<lambda>_. Some [])"

definition corex_generated_decode_cudaDeviceSynchronize_response :: "bytes \<Rightarrow> unit option" where
  "corex_generated_decode_cudaDeviceSynchronize_response input = (if length input \<noteq> 0 then None else Some ())"

definition corex_generated_encode_cudaDriverGetVersion_request :: "nat \<Rightarrow> unit \<Rightarrow> bytes option" where
  "corex_generated_encode_cudaDriverGetVersion_request capacity = (\<lambda>_. Some [])"

definition corex_generated_decode_cudaDriverGetVersion_request :: "bytes \<Rightarrow> unit option" where
  "corex_generated_decode_cudaDriverGetVersion_request input = (if length input \<noteq> 0 then None else Some ())"

definition corex_generated_encode_cudaRuntimeGetVersion_request :: "nat \<Rightarrow> unit \<Rightarrow> bytes option" where
  "corex_generated_encode_cudaRuntimeGetVersion_request capacity = (\<lambda>_. Some [])"

definition corex_generated_decode_cudaRuntimeGetVersion_request :: "bytes \<Rightarrow> unit option" where
  "corex_generated_decode_cudaRuntimeGetVersion_request input = (if length input \<noteq> 0 then None else Some ())"

definition corex_generated_encode_cudaGetDeviceFlags_request :: "nat \<Rightarrow> unit \<Rightarrow> bytes option" where
  "corex_generated_encode_cudaGetDeviceFlags_request capacity = (\<lambda>_. Some [])"

definition corex_generated_decode_cudaGetDeviceFlags_request :: "bytes \<Rightarrow> unit option" where
  "corex_generated_decode_cudaGetDeviceFlags_request input = (if length input \<noteq> 0 then None else Some ())"

definition corex_generated_encode_cudaDeviceGetStreamPriorityRange_request :: "nat \<Rightarrow> unit \<Rightarrow> bytes option" where
  "corex_generated_encode_cudaDeviceGetStreamPriorityRange_request capacity = (\<lambda>_. Some [])"

definition corex_generated_decode_cudaDeviceGetStreamPriorityRange_request :: "bytes \<Rightarrow> unit option" where
  "corex_generated_decode_cudaDeviceGetStreamPriorityRange_request input = (if length input \<noteq> 0 then None else Some ())"

definition corex_generated_encode_cudaDeviceGetCacheConfig_request :: "nat \<Rightarrow> unit \<Rightarrow> bytes option" where
  "corex_generated_encode_cudaDeviceGetCacheConfig_request capacity = (\<lambda>_. Some [])"

definition corex_generated_decode_cudaDeviceGetCacheConfig_request :: "bytes \<Rightarrow> unit option" where
  "corex_generated_decode_cudaDeviceGetCacheConfig_request input = (if length input \<noteq> 0 then None else Some ())"

definition corex_generated_encode_cudaDeviceGetSharedMemConfig_request :: "nat \<Rightarrow> unit \<Rightarrow> bytes option" where
  "corex_generated_encode_cudaDeviceGetSharedMemConfig_request capacity = (\<lambda>_. Some [])"

definition corex_generated_decode_cudaDeviceGetSharedMemConfig_request :: "bytes \<Rightarrow> unit option" where
  "corex_generated_decode_cudaDeviceGetSharedMemConfig_request input = (if length input \<noteq> 0 then None else Some ())"

definition corex_generated_encode_cudaFuncSetAttribute_response :: "nat \<Rightarrow> unit \<Rightarrow> bytes option" where
  "corex_generated_encode_cudaFuncSetAttribute_response capacity = (\<lambda>_. Some [])"

definition corex_generated_decode_cudaFuncSetAttribute_response :: "bytes \<Rightarrow> unit option" where
  "corex_generated_decode_cudaFuncSetAttribute_response input = (if length input \<noteq> 0 then None else Some ())"

definition corex_generated_encode_cudaFuncSetCacheConfig_response :: "nat \<Rightarrow> unit \<Rightarrow> bytes option" where
  "corex_generated_encode_cudaFuncSetCacheConfig_response capacity = (\<lambda>_. Some [])"

definition corex_generated_decode_cudaFuncSetCacheConfig_response :: "bytes \<Rightarrow> unit option" where
  "corex_generated_decode_cudaFuncSetCacheConfig_response input = (if length input \<noteq> 0 then None else Some ())"

definition corex_generated_encode_cudaDeviceSetLimit_response :: "nat \<Rightarrow> unit \<Rightarrow> bytes option" where
  "corex_generated_encode_cudaDeviceSetLimit_response capacity = (\<lambda>_. Some [])"

definition corex_generated_decode_cudaDeviceSetLimit_response :: "bytes \<Rightarrow> unit option" where
  "corex_generated_decode_cudaDeviceSetLimit_response input = (if length input \<noteq> 0 then None else Some ())"

definition corex_generated_encode_cudaDeviceSetCacheConfig_response :: "nat \<Rightarrow> unit \<Rightarrow> bytes option" where
  "corex_generated_encode_cudaDeviceSetCacheConfig_response capacity = (\<lambda>_. Some [])"

definition corex_generated_decode_cudaDeviceSetCacheConfig_response :: "bytes \<Rightarrow> unit option" where
  "corex_generated_decode_cudaDeviceSetCacheConfig_response input = (if length input \<noteq> 0 then None else Some ())"

definition corex_generated_encode_cudaDeviceSetSharedMemConfig_response :: "nat \<Rightarrow> unit \<Rightarrow> bytes option" where
  "corex_generated_encode_cudaDeviceSetSharedMemConfig_response capacity = (\<lambda>_. Some [])"

definition corex_generated_decode_cudaDeviceSetSharedMemConfig_response :: "bytes \<Rightarrow> unit option" where
  "corex_generated_decode_cudaDeviceSetSharedMemConfig_response input = (if length input \<noteq> 0 then None else Some ())"

definition corex_generated_encode_cudaStreamCopyAttributes_response :: "nat \<Rightarrow> unit \<Rightarrow> bytes option" where
  "corex_generated_encode_cudaStreamCopyAttributes_response capacity = (\<lambda>_. Some [])"

definition corex_generated_decode_cudaStreamCopyAttributes_response :: "bytes \<Rightarrow> unit option" where
  "corex_generated_decode_cudaStreamCopyAttributes_response input = (if length input \<noteq> 0 then None else Some ())"

definition corex_generated_encode_cudaStreamSetAttribute_response :: "nat \<Rightarrow> unit \<Rightarrow> bytes option" where
  "corex_generated_encode_cudaStreamSetAttribute_response capacity = (\<lambda>_. Some [])"

definition corex_generated_decode_cudaStreamSetAttribute_response :: "bytes \<Rightarrow> unit option" where
  "corex_generated_decode_cudaStreamSetAttribute_response input = (if length input \<noteq> 0 then None else Some ())"

definition corex_generated_encode_cudaMemset3D_response :: "nat \<Rightarrow> unit \<Rightarrow> bytes option" where
  "corex_generated_encode_cudaMemset3D_response capacity = (\<lambda>_. Some [])"

definition corex_generated_decode_cudaMemset3D_response :: "bytes \<Rightarrow> unit option" where
  "corex_generated_decode_cudaMemset3D_response input = (if length input \<noteq> 0 then None else Some ())"

definition corex_generated_encode_cudaMemset3DAsync_response :: "nat \<Rightarrow> unit \<Rightarrow> bytes option" where
  "corex_generated_encode_cudaMemset3DAsync_response capacity = (\<lambda>_. Some [])"

definition corex_generated_decode_cudaMemset3DAsync_response :: "bytes \<Rightarrow> unit option" where
  "corex_generated_decode_cudaMemset3DAsync_response input = (if length input \<noteq> 0 then None else Some ())"

definition corex_generated_encode_cudaFuncSetSharedMemConfig_response :: "nat \<Rightarrow> unit \<Rightarrow> bytes option" where
  "corex_generated_encode_cudaFuncSetSharedMemConfig_response capacity = (\<lambda>_. Some [])"

definition corex_generated_decode_cudaFuncSetSharedMemConfig_response :: "bytes \<Rightarrow> unit option" where
  "corex_generated_decode_cudaFuncSetSharedMemConfig_response input = (if length input \<noteq> 0 then None else Some ())"

definition corex_generated_encode_cudaSetDeviceFlags_response :: "nat \<Rightarrow> unit \<Rightarrow> bytes option" where
  "corex_generated_encode_cudaSetDeviceFlags_response capacity = (\<lambda>_. Some [])"

definition corex_generated_decode_cudaSetDeviceFlags_response :: "bytes \<Rightarrow> unit option" where
  "corex_generated_decode_cudaSetDeviceFlags_response input = (if length input \<noteq> 0 then None else Some ())"

definition corex_generated_encode_cudaDeviceSetMemPool_response :: "nat \<Rightarrow> unit \<Rightarrow> bytes option" where
  "corex_generated_encode_cudaDeviceSetMemPool_response capacity = (\<lambda>_. Some [])"

definition corex_generated_decode_cudaDeviceSetMemPool_response :: "bytes \<Rightarrow> unit option" where
  "corex_generated_decode_cudaDeviceSetMemPool_response input = (if length input \<noteq> 0 then None else Some ())"

definition corex_generated_encode_cudaMemPoolDestroy_response :: "nat \<Rightarrow> unit \<Rightarrow> bytes option" where
  "corex_generated_encode_cudaMemPoolDestroy_response capacity = (\<lambda>_. Some [])"

definition corex_generated_decode_cudaMemPoolDestroy_response :: "bytes \<Rightarrow> unit option" where
  "corex_generated_decode_cudaMemPoolDestroy_response input = (if length input \<noteq> 0 then None else Some ())"

definition corex_generated_encode_cudaMemPoolTrimTo_response :: "nat \<Rightarrow> unit \<Rightarrow> bytes option" where
  "corex_generated_encode_cudaMemPoolTrimTo_response capacity = (\<lambda>_. Some [])"

definition corex_generated_decode_cudaMemPoolTrimTo_response :: "bytes \<Rightarrow> unit option" where
  "corex_generated_decode_cudaMemPoolTrimTo_response input = (if length input \<noteq> 0 then None else Some ())"

definition corex_generated_encode_cudaMemPoolSetAttribute_response :: "nat \<Rightarrow> unit \<Rightarrow> bytes option" where
  "corex_generated_encode_cudaMemPoolSetAttribute_response capacity = (\<lambda>_. Some [])"

definition corex_generated_decode_cudaMemPoolSetAttribute_response :: "bytes \<Rightarrow> unit option" where
  "corex_generated_decode_cudaMemPoolSetAttribute_response input = (if length input \<noteq> 0 then None else Some ())"

definition corex_generated_encode_cudaMemPoolSetAccess_response :: "nat \<Rightarrow> unit \<Rightarrow> bytes option" where
  "corex_generated_encode_cudaMemPoolSetAccess_response capacity = (\<lambda>_. Some [])"

definition corex_generated_decode_cudaMemPoolSetAccess_response :: "bytes \<Rightarrow> unit option" where
  "corex_generated_decode_cudaMemPoolSetAccess_response input = (if length input \<noteq> 0 then None else Some ())"

definition corex_generated_encode_cudaFreeAsync_response :: "nat \<Rightarrow> unit \<Rightarrow> bytes option" where
  "corex_generated_encode_cudaFreeAsync_response capacity = (\<lambda>_. Some [])"

definition corex_generated_decode_cudaFreeAsync_response :: "bytes \<Rightarrow> unit option" where
  "corex_generated_decode_cudaFreeAsync_response input = (if length input \<noteq> 0 then None else Some ())"

definition corex_generated_encode_cudaDeviceSetGraphMemAttribute_response :: "nat \<Rightarrow> unit \<Rightarrow> bytes option" where
  "corex_generated_encode_cudaDeviceSetGraphMemAttribute_response capacity = (\<lambda>_. Some [])"

definition corex_generated_decode_cudaDeviceSetGraphMemAttribute_response :: "bytes \<Rightarrow> unit option" where
  "corex_generated_decode_cudaDeviceSetGraphMemAttribute_response input = (if length input \<noteq> 0 then None else Some ())"

definition corex_generated_encode_cudaDeviceGraphMemTrim_response :: "nat \<Rightarrow> unit \<Rightarrow> bytes option" where
  "corex_generated_encode_cudaDeviceGraphMemTrim_response capacity = (\<lambda>_. Some [])"

definition corex_generated_decode_cudaDeviceGraphMemTrim_response :: "bytes \<Rightarrow> unit option" where
  "corex_generated_decode_cudaDeviceGraphMemTrim_response input = (if length input \<noteq> 0 then None else Some ())"

lemmas empty_codec_defs =
  corex_generated_encode_cudaDeviceSynchronize_request_def corex_generated_decode_cudaDeviceSynchronize_request_def
  corex_generated_encode_cudaDeviceSynchronize_response_def corex_generated_decode_cudaDeviceSynchronize_response_def
  corex_generated_encode_cudaDriverGetVersion_request_def corex_generated_decode_cudaDriverGetVersion_request_def
  corex_generated_encode_cudaRuntimeGetVersion_request_def corex_generated_decode_cudaRuntimeGetVersion_request_def
  corex_generated_encode_cudaGetDeviceFlags_request_def corex_generated_decode_cudaGetDeviceFlags_request_def
  corex_generated_encode_cudaDeviceGetStreamPriorityRange_request_def corex_generated_decode_cudaDeviceGetStreamPriorityRange_request_def
  corex_generated_encode_cudaDeviceGetCacheConfig_request_def corex_generated_decode_cudaDeviceGetCacheConfig_request_def
  corex_generated_encode_cudaDeviceGetSharedMemConfig_request_def corex_generated_decode_cudaDeviceGetSharedMemConfig_request_def
  corex_generated_encode_cudaFuncSetAttribute_response_def corex_generated_decode_cudaFuncSetAttribute_response_def
  corex_generated_encode_cudaFuncSetCacheConfig_response_def corex_generated_decode_cudaFuncSetCacheConfig_response_def
  corex_generated_encode_cudaDeviceSetLimit_response_def corex_generated_decode_cudaDeviceSetLimit_response_def
  corex_generated_encode_cudaDeviceSetCacheConfig_response_def corex_generated_decode_cudaDeviceSetCacheConfig_response_def
  corex_generated_encode_cudaDeviceSetSharedMemConfig_response_def corex_generated_decode_cudaDeviceSetSharedMemConfig_response_def
  corex_generated_encode_cudaStreamCopyAttributes_response_def corex_generated_decode_cudaStreamCopyAttributes_response_def
  corex_generated_encode_cudaStreamSetAttribute_response_def corex_generated_decode_cudaStreamSetAttribute_response_def
  corex_generated_encode_cudaMemset3D_response_def corex_generated_decode_cudaMemset3D_response_def
  corex_generated_encode_cudaMemset3DAsync_response_def corex_generated_decode_cudaMemset3DAsync_response_def
  corex_generated_encode_cudaFuncSetSharedMemConfig_response_def corex_generated_decode_cudaFuncSetSharedMemConfig_response_def
  corex_generated_encode_cudaSetDeviceFlags_response_def corex_generated_decode_cudaSetDeviceFlags_response_def
  corex_generated_encode_cudaDeviceSetMemPool_response_def corex_generated_decode_cudaDeviceSetMemPool_response_def
  corex_generated_encode_cudaMemPoolDestroy_response_def corex_generated_decode_cudaMemPoolDestroy_response_def
  corex_generated_encode_cudaMemPoolTrimTo_response_def corex_generated_decode_cudaMemPoolTrimTo_response_def
  corex_generated_encode_cudaMemPoolSetAttribute_response_def corex_generated_decode_cudaMemPoolSetAttribute_response_def
  corex_generated_encode_cudaMemPoolSetAccess_response_def corex_generated_decode_cudaMemPoolSetAccess_response_def
  corex_generated_encode_cudaFreeAsync_response_def corex_generated_decode_cudaFreeAsync_response_def
  corex_generated_encode_cudaDeviceSetGraphMemAttribute_response_def corex_generated_decode_cudaDeviceSetGraphMemAttribute_response_def
  corex_generated_encode_cudaDeviceGraphMemTrim_response_def corex_generated_decode_cudaDeviceGraphMemTrim_response_def

section \<open>The graph command\<close>

text \<open>The data block stands for the array and its length; a length beyond the array is refused.\<close>

record CorexGeneratedcudaGraphCreateRequest =
  gq_action :: u32
  gq_graph :: u64
  gq_node :: u64
  gq_exec :: u64
  gq_stream :: u64
  gq_kind :: u32
  gq_value :: u64
  gq_data :: bytes

record CorexGeneratedcudaGraphCreateResponse =
  gr_object :: u64
  gr_value :: u32
  gr_data :: bytes

text \<open>The generated lines for a bounded block of bytes.\<close>

definition write_block :: "nat \<Rightarrow> nat \<Rightarrow> bytes \<Rightarrow> bytes \<Rightarrow> bytes option" where
  "write_block bound capacity out data =
     (if length data > bound then None
      else if length out > capacity \<or> capacity - length out < 4 + length data then None
      else Some (corex_protocol_write_u32 out (of_nat (length data)) @ data))"

definition take_block :: "nat \<Rightarrow> bytes \<Rightarrow> nat \<Rightarrow> (bytes \<times> nat) option" where
  "take_block bound input position =
     do {
       (data_length, position) \<leftarrow> corex_protocol_take_u32 input position;
       if unat data_length > bound \<or> unat data_length > length input - position then None
       else Some (take (unat data_length) (drop position input), position + unat data_length)
     }"

definition corex_generated_encode_cudaGraphCreate_request :: "nat \<Rightarrow> CorexGeneratedcudaGraphCreateRequest \<Rightarrow> bytes option" where
  "corex_generated_encode_cudaGraphCreate_request capacity value =
     (if capacity < 52 then None
      else let out = corex_protocol_write_u32 [] (gq_action value);
               out = corex_protocol_write_u64 out (gq_graph value);
               out = corex_protocol_write_u64 out (gq_node value);
               out = corex_protocol_write_u64 out (gq_exec value);
               out = corex_protocol_write_u64 out (gq_stream value);
               out = corex_protocol_write_u32 out (gq_kind value);
               out = corex_protocol_write_u64 out (gq_value value)
           in do {
                out \<leftarrow> write_block 8192 capacity out (gq_data value);
                if length out \<le> 8244 then Some out else None
              })"

definition corex_generated_decode_cudaGraphCreate_request :: "bytes \<Rightarrow> CorexGeneratedcudaGraphCreateRequest option" where
  "corex_generated_decode_cudaGraphCreate_request input =
     (if length input < 52 \<or> length input > 8244 then None
      else do {
        (action, position) \<leftarrow> corex_protocol_take_u32 input 0;
        (graph, position) \<leftarrow> corex_protocol_take_u64 input position;
        (node, position) \<leftarrow> corex_protocol_take_u64 input position;
        (exec, position) \<leftarrow> corex_protocol_take_u64 input position;
        (stream, position) \<leftarrow> corex_protocol_take_u64 input position;
        (kind, position) \<leftarrow> corex_protocol_take_u32 input position;
        (value, position) \<leftarrow> corex_protocol_take_u64 input position;
        (data, position) \<leftarrow> take_block 8192 input position;
        if position = length input
        then Some \<lparr>gq_action = action, gq_graph = graph, gq_node = node, gq_exec = exec, gq_stream = stream,
               gq_kind = kind, gq_value = value, gq_data = data\<rparr>
        else None
      })"

definition corex_generated_encode_cudaGraphCreate_response :: "nat \<Rightarrow> CorexGeneratedcudaGraphCreateResponse \<Rightarrow> bytes option" where
  "corex_generated_encode_cudaGraphCreate_response capacity value =
     (if capacity < 16 then None
      else let out = corex_protocol_write_u64 [] (gr_object value);
               out = corex_protocol_write_u32 out (gr_value value)
           in do {
                out \<leftarrow> write_block 65535 capacity out (gr_data value);
                if length out \<le> 65551 then Some out else None
              })"

definition corex_generated_decode_cudaGraphCreate_response :: "bytes \<Rightarrow> CorexGeneratedcudaGraphCreateResponse option" where
  "corex_generated_decode_cudaGraphCreate_response input =
     (if length input < 16 \<or> length input > 65551 then None
      else do {
        (object, position) \<leftarrow> corex_protocol_take_u64 input 0;
        (value, position) \<leftarrow> corex_protocol_take_u32 input position;
        (data, position) \<leftarrow> take_block 65535 input position;
        if position = length input then Some \<lparr>gr_object = object, gr_value = value, gr_data = data\<rparr> else None
      })"


section \<open>The call stubs\<close>

text \<open>The body all stubs share: encode, call, decode; \<^const>\<open>None\<close> is the return value -1.\<close>

type_synonym 's rpc_call = "u32 \<Rightarrow> bytes \<Rightarrow> 's \<Rightarrow> bytes option \<times> 's"

definition generated_call :: "bytes option \<Rightarrow> u32 \<Rightarrow> (bytes \<Rightarrow> 'r option) \<Rightarrow> 's rpc_call \<Rightarrow> 's \<Rightarrow> 'r option \<times> 's" where
  "generated_call request_wire opcode decode rpc_call s =
     (case request_wire of
        None \<Rightarrow> (None, s)
      | Some wire \<Rightarrow>
          (case rpc_call opcode wire s of
             (None, s) \<Rightarrow> (None, s)
           | (Some response_wire, s) \<Rightarrow> (decode response_wire, s)))"

definition corex_generated_call_cudaDeviceSynchronize where
  "corex_generated_call_cudaDeviceSynchronize rpc_call request =
     generated_call (corex_generated_encode_cudaDeviceSynchronize_request 1 request) 4 corex_generated_decode_cudaDeviceSynchronize_response rpc_call"

definition corex_generated_call_cudaStreamQuery where
  "corex_generated_call_cudaStreamQuery rpc_call request =
     generated_call (corex_generated_encode_cudaStreamQuery_request 8 request) 14 corex_generated_decode_cudaStreamQuery_response rpc_call"

definition corex_generated_call_cudaEventQuery where
  "corex_generated_call_cudaEventQuery rpc_call request =
     generated_call (corex_generated_encode_cudaEventQuery_request 8 request) 19 corex_generated_decode_cudaEventQuery_response rpc_call"

definition corex_generated_call_cudaDriverGetVersion where
  "corex_generated_call_cudaDriverGetVersion rpc_call request =
     generated_call (corex_generated_encode_cudaDriverGetVersion_request 1 request) 35 corex_generated_decode_cudaDriverGetVersion_response rpc_call"

definition corex_generated_call_cudaRuntimeGetVersion where
  "corex_generated_call_cudaRuntimeGetVersion rpc_call request =
     generated_call (corex_generated_encode_cudaRuntimeGetVersion_request 1 request) 36 corex_generated_decode_cudaRuntimeGetVersion_response rpc_call"

definition corex_generated_call_cudaDeviceGetAttribute where
  "corex_generated_call_cudaDeviceGetAttribute rpc_call request =
     generated_call (corex_generated_encode_cudaDeviceGetAttribute_request 8 request) 39 corex_generated_decode_cudaDeviceGetAttribute_response rpc_call"

definition corex_generated_call_cudaGetDeviceFlags where
  "corex_generated_call_cudaGetDeviceFlags rpc_call request =
     generated_call (corex_generated_encode_cudaGetDeviceFlags_request 1 request) 40 corex_generated_decode_cudaGetDeviceFlags_response rpc_call"

definition corex_generated_call_cudaDeviceGetStreamPriorityRange where
  "corex_generated_call_cudaDeviceGetStreamPriorityRange rpc_call request =
     generated_call (corex_generated_encode_cudaDeviceGetStreamPriorityRange_request 1 request) 41 corex_generated_decode_cudaDeviceGetStreamPriorityRange_response rpc_call"

definition corex_generated_call_cudaDeviceGetLimit where
  "corex_generated_call_cudaDeviceGetLimit rpc_call request =
     generated_call (corex_generated_encode_cudaDeviceGetLimit_request 4 request) 42 corex_generated_decode_cudaDeviceGetLimit_response rpc_call"

definition corex_generated_call_cudaDeviceGetCacheConfig where
  "corex_generated_call_cudaDeviceGetCacheConfig rpc_call request =
     generated_call (corex_generated_encode_cudaDeviceGetCacheConfig_request 1 request) 43 corex_generated_decode_cudaDeviceGetCacheConfig_response rpc_call"

definition corex_generated_call_cudaDeviceGetSharedMemConfig where
  "corex_generated_call_cudaDeviceGetSharedMemConfig rpc_call request =
     generated_call (corex_generated_encode_cudaDeviceGetSharedMemConfig_request 1 request) 44 corex_generated_decode_cudaDeviceGetSharedMemConfig_response rpc_call"

definition corex_generated_call_cudaFuncSetAttribute where
  "corex_generated_call_cudaFuncSetAttribute rpc_call request =
     generated_call (corex_generated_encode_cudaFuncSetAttribute_request 16 request) 45 corex_generated_decode_cudaFuncSetAttribute_response rpc_call"

definition corex_generated_call_cudaFuncSetCacheConfig where
  "corex_generated_call_cudaFuncSetCacheConfig rpc_call request =
     generated_call (corex_generated_encode_cudaFuncSetCacheConfig_request 12 request) 46 corex_generated_decode_cudaFuncSetCacheConfig_response rpc_call"

definition corex_generated_call_cudaOccupancyMaxActiveBlocksPerMultiprocessor where
  "corex_generated_call_cudaOccupancyMaxActiveBlocksPerMultiprocessor rpc_call request =
     generated_call (corex_generated_encode_cudaOccupancyMaxActiveBlocksPerMultiprocessor_request 20 request) 38 corex_generated_decode_cudaOccupancyMaxActiveBlocksPerMultiprocessor_response rpc_call"

definition corex_generated_call_cudaDeviceGetPCIBusId where
  "corex_generated_call_cudaDeviceGetPCIBusId rpc_call request =
     generated_call (corex_generated_encode_cudaDeviceGetPCIBusId_request 4 request) 47 corex_generated_decode_cudaDeviceGetPCIBusId_response rpc_call"

definition corex_generated_call_cudaDeviceGetByPCIBusId where
  "corex_generated_call_cudaDeviceGetByPCIBusId rpc_call request =
     generated_call (corex_generated_encode_cudaDeviceGetByPCIBusId_request 36 request) 48 corex_generated_decode_cudaDeviceGetByPCIBusId_response rpc_call"

definition corex_generated_call_cudaDeviceSetLimit where
  "corex_generated_call_cudaDeviceSetLimit rpc_call request =
     generated_call (corex_generated_encode_cudaDeviceSetLimit_request 12 request) 59 corex_generated_decode_cudaDeviceSetLimit_response rpc_call"

definition corex_generated_call_cudaDeviceSetCacheConfig where
  "corex_generated_call_cudaDeviceSetCacheConfig rpc_call request =
     generated_call (corex_generated_encode_cudaDeviceSetCacheConfig_request 4 request) 60 corex_generated_decode_cudaDeviceSetCacheConfig_response rpc_call"

definition corex_generated_call_cudaDeviceSetSharedMemConfig where
  "corex_generated_call_cudaDeviceSetSharedMemConfig rpc_call request =
     generated_call (corex_generated_encode_cudaDeviceSetSharedMemConfig_request 4 request) 61 corex_generated_decode_cudaDeviceSetSharedMemConfig_response rpc_call"

definition corex_generated_call_cudaStreamCopyAttributes where
  "corex_generated_call_cudaStreamCopyAttributes rpc_call request =
     generated_call (corex_generated_encode_cudaStreamCopyAttributes_request 16 request) 62 corex_generated_decode_cudaStreamCopyAttributes_response rpc_call"

definition corex_generated_call_cudaStreamGetAttribute where
  "corex_generated_call_cudaStreamGetAttribute rpc_call request =
     generated_call (corex_generated_encode_cudaStreamGetAttribute_request 12 request) 63 corex_generated_decode_cudaStreamGetAttribute_response rpc_call"

definition corex_generated_call_cudaStreamSetAttribute where
  "corex_generated_call_cudaStreamSetAttribute rpc_call request =
     generated_call (corex_generated_encode_cudaStreamSetAttribute_request 52 request) 64 corex_generated_decode_cudaStreamSetAttribute_response rpc_call"

definition corex_generated_call_cudaMemset3D where
  "corex_generated_call_cudaMemset3D rpc_call request =
     generated_call (corex_generated_encode_cudaMemset3D_request 60 request) 65 corex_generated_decode_cudaMemset3D_response rpc_call"

definition corex_generated_call_cudaMemset3DAsync where
  "corex_generated_call_cudaMemset3DAsync rpc_call request =
     generated_call (corex_generated_encode_cudaMemset3DAsync_request 68 request) 66 corex_generated_decode_cudaMemset3DAsync_response rpc_call"

definition corex_generated_call_cudaFuncSetSharedMemConfig where
  "corex_generated_call_cudaFuncSetSharedMemConfig rpc_call request =
     generated_call (corex_generated_encode_cudaFuncSetSharedMemConfig_request 12 request) 67 corex_generated_decode_cudaFuncSetSharedMemConfig_response rpc_call"

definition corex_generated_call_cudaOccupancyMaxActiveBlocksPerMultiprocessorWithFlags where
  "corex_generated_call_cudaOccupancyMaxActiveBlocksPerMultiprocessorWithFlags rpc_call request =
     generated_call (corex_generated_encode_cudaOccupancyMaxActiveBlocksPerMultiprocessorWithFlags_request 24 request) 68 corex_generated_decode_cudaOccupancyMaxActiveBlocksPerMultiprocessorWithFlags_response rpc_call"

definition corex_generated_call_cudaOccupancyMaxPotentialBlockSize where
  "corex_generated_call_cudaOccupancyMaxPotentialBlockSize rpc_call request =
     generated_call (corex_generated_encode_cudaOccupancyMaxPotentialBlockSize_request 20 request) 69 corex_generated_decode_cudaOccupancyMaxPotentialBlockSize_response rpc_call"

definition corex_generated_call_cudaLibraryGetKernelCount where
  "corex_generated_call_cudaLibraryGetKernelCount rpc_call request =
     generated_call (corex_generated_encode_cudaLibraryGetKernelCount_request 8 request) 71 corex_generated_decode_cudaLibraryGetKernelCount_response rpc_call"

definition corex_generated_call_cudaLibraryEnumerateKernels where
  "corex_generated_call_cudaLibraryEnumerateKernels rpc_call request =
     generated_call (corex_generated_encode_cudaLibraryEnumerateKernels_request 12 request) 72 corex_generated_decode_cudaLibraryEnumerateKernels_response rpc_call"

definition corex_generated_call_cudaGetSymbolAddress where
  "corex_generated_call_cudaGetSymbolAddress rpc_call request =
     generated_call (corex_generated_encode_cudaGetSymbolAddress_request 139 request) 73 corex_generated_decode_cudaGetSymbolAddress_response rpc_call"

definition corex_generated_call_cudaSetDeviceFlags where
  "corex_generated_call_cudaSetDeviceFlags rpc_call request =
     generated_call (corex_generated_encode_cudaSetDeviceFlags_request 4 request) 74 corex_generated_decode_cudaSetDeviceFlags_response rpc_call"

definition corex_generated_call_cudaDeviceGetDefaultMemPool where
  "corex_generated_call_cudaDeviceGetDefaultMemPool rpc_call request =
     generated_call (corex_generated_encode_cudaDeviceGetDefaultMemPool_request 4 request) 75 corex_generated_decode_cudaDeviceGetDefaultMemPool_response rpc_call"

definition corex_generated_call_cudaDeviceGetMemPool where
  "corex_generated_call_cudaDeviceGetMemPool rpc_call request =
     generated_call (corex_generated_encode_cudaDeviceGetMemPool_request 4 request) 76 corex_generated_decode_cudaDeviceGetMemPool_response rpc_call"

definition corex_generated_call_cudaDeviceSetMemPool where
  "corex_generated_call_cudaDeviceSetMemPool rpc_call request =
     generated_call (corex_generated_encode_cudaDeviceSetMemPool_request 12 request) 77 corex_generated_decode_cudaDeviceSetMemPool_response rpc_call"

definition corex_generated_call_cudaMemPoolCreate where
  "corex_generated_call_cudaMemPoolCreate rpc_call request =
     generated_call (corex_generated_encode_cudaMemPoolCreate_request 12 request) 78 corex_generated_decode_cudaMemPoolCreate_response rpc_call"

definition corex_generated_call_cudaMemPoolDestroy where
  "corex_generated_call_cudaMemPoolDestroy rpc_call request =
     generated_call (corex_generated_encode_cudaMemPoolDestroy_request 8 request) 79 corex_generated_decode_cudaMemPoolDestroy_response rpc_call"

definition corex_generated_call_cudaMemPoolTrimTo where
  "corex_generated_call_cudaMemPoolTrimTo rpc_call request =
     generated_call (corex_generated_encode_cudaMemPoolTrimTo_request 16 request) 80 corex_generated_decode_cudaMemPoolTrimTo_response rpc_call"

definition corex_generated_call_cudaMemPoolGetAttribute where
  "corex_generated_call_cudaMemPoolGetAttribute rpc_call request =
     generated_call (corex_generated_encode_cudaMemPoolGetAttribute_request 12 request) 81 corex_generated_decode_cudaMemPoolGetAttribute_response rpc_call"

definition corex_generated_call_cudaMemPoolSetAttribute where
  "corex_generated_call_cudaMemPoolSetAttribute rpc_call request =
     generated_call (corex_generated_encode_cudaMemPoolSetAttribute_request 20 request) 82 corex_generated_decode_cudaMemPoolSetAttribute_response rpc_call"

definition corex_generated_call_cudaMemPoolGetAccess where
  "corex_generated_call_cudaMemPoolGetAccess rpc_call request =
     generated_call (corex_generated_encode_cudaMemPoolGetAccess_request 16 request) 83 corex_generated_decode_cudaMemPoolGetAccess_response rpc_call"

definition corex_generated_call_cudaMemPoolSetAccess where
  "corex_generated_call_cudaMemPoolSetAccess rpc_call request =
     generated_call (corex_generated_encode_cudaMemPoolSetAccess_request 24 request) 84 corex_generated_decode_cudaMemPoolSetAccess_response rpc_call"

definition corex_generated_call_cudaMallocAsync where
  "corex_generated_call_cudaMallocAsync rpc_call request =
     generated_call (corex_generated_encode_cudaMallocAsync_request 16 request) 85 corex_generated_decode_cudaMallocAsync_response rpc_call"

definition corex_generated_call_cudaMallocFromPoolAsync where
  "corex_generated_call_cudaMallocFromPoolAsync rpc_call request =
     generated_call (corex_generated_encode_cudaMallocFromPoolAsync_request 24 request) 86 corex_generated_decode_cudaMallocFromPoolAsync_response rpc_call"

definition corex_generated_call_cudaFreeAsync where
  "corex_generated_call_cudaFreeAsync rpc_call request =
     generated_call (corex_generated_encode_cudaFreeAsync_request 16 request) 87 corex_generated_decode_cudaFreeAsync_response rpc_call"

definition corex_generated_call_cudaGraphCreate where
  "corex_generated_call_cudaGraphCreate rpc_call request =
     generated_call (corex_generated_encode_cudaGraphCreate_request 8244 request) 88 corex_generated_decode_cudaGraphCreate_response rpc_call"

definition corex_generated_call_cudaDeviceGetGraphMemAttribute where
  "corex_generated_call_cudaDeviceGetGraphMemAttribute rpc_call request =
     generated_call (corex_generated_encode_cudaDeviceGetGraphMemAttribute_request 8 request) 89 corex_generated_decode_cudaDeviceGetGraphMemAttribute_response rpc_call"

definition corex_generated_call_cudaDeviceSetGraphMemAttribute where
  "corex_generated_call_cudaDeviceSetGraphMemAttribute rpc_call request =
     generated_call (corex_generated_encode_cudaDeviceSetGraphMemAttribute_request 16 request) 90 corex_generated_decode_cudaDeviceSetGraphMemAttribute_response rpc_call"

definition corex_generated_call_cudaDeviceGraphMemTrim where
  "corex_generated_call_cudaDeviceGraphMemTrim rpc_call request =
     generated_call (corex_generated_encode_cudaDeviceGraphMemTrim_request 4 request) 91 corex_generated_decode_cudaDeviceGraphMemTrim_response rpc_call"

definition corex_generated_call_cudaFuncGetAttributes where
  "corex_generated_call_cudaFuncGetAttributes rpc_call request =
     generated_call (corex_generated_encode_cudaFuncGetAttributes_request 8 request) 92 corex_generated_decode_cudaFuncGetAttributes_response rpc_call"

lemmas stub_defs =
  corex_generated_call_cudaDeviceSynchronize_def
  corex_generated_call_cudaStreamQuery_def
  corex_generated_call_cudaEventQuery_def
  corex_generated_call_cudaDriverGetVersion_def
  corex_generated_call_cudaRuntimeGetVersion_def
  corex_generated_call_cudaDeviceGetAttribute_def
  corex_generated_call_cudaGetDeviceFlags_def
  corex_generated_call_cudaDeviceGetStreamPriorityRange_def
  corex_generated_call_cudaDeviceGetLimit_def
  corex_generated_call_cudaDeviceGetCacheConfig_def
  corex_generated_call_cudaDeviceGetSharedMemConfig_def
  corex_generated_call_cudaFuncSetAttribute_def
  corex_generated_call_cudaFuncSetCacheConfig_def
  corex_generated_call_cudaOccupancyMaxActiveBlocksPerMultiprocessor_def
  corex_generated_call_cudaDeviceGetPCIBusId_def
  corex_generated_call_cudaDeviceGetByPCIBusId_def
  corex_generated_call_cudaDeviceSetLimit_def
  corex_generated_call_cudaDeviceSetCacheConfig_def
  corex_generated_call_cudaDeviceSetSharedMemConfig_def
  corex_generated_call_cudaStreamCopyAttributes_def
  corex_generated_call_cudaStreamGetAttribute_def
  corex_generated_call_cudaStreamSetAttribute_def
  corex_generated_call_cudaMemset3D_def
  corex_generated_call_cudaMemset3DAsync_def
  corex_generated_call_cudaFuncSetSharedMemConfig_def
  corex_generated_call_cudaOccupancyMaxActiveBlocksPerMultiprocessorWithFlags_def
  corex_generated_call_cudaOccupancyMaxPotentialBlockSize_def
  corex_generated_call_cudaLibraryGetKernelCount_def
  corex_generated_call_cudaLibraryEnumerateKernels_def
  corex_generated_call_cudaGetSymbolAddress_def
  corex_generated_call_cudaSetDeviceFlags_def
  corex_generated_call_cudaDeviceGetDefaultMemPool_def
  corex_generated_call_cudaDeviceGetMemPool_def
  corex_generated_call_cudaDeviceSetMemPool_def
  corex_generated_call_cudaMemPoolCreate_def
  corex_generated_call_cudaMemPoolDestroy_def
  corex_generated_call_cudaMemPoolTrimTo_def
  corex_generated_call_cudaMemPoolGetAttribute_def
  corex_generated_call_cudaMemPoolSetAttribute_def
  corex_generated_call_cudaMemPoolGetAccess_def
  corex_generated_call_cudaMemPoolSetAccess_def
  corex_generated_call_cudaMallocAsync_def
  corex_generated_call_cudaMallocFromPoolAsync_def
  corex_generated_call_cudaFreeAsync_def
  corex_generated_call_cudaGraphCreate_def
  corex_generated_call_cudaDeviceGetGraphMemAttribute_def
  corex_generated_call_cudaDeviceSetGraphMemAttribute_def
  corex_generated_call_cudaDeviceGraphMemTrim_def
  corex_generated_call_cudaFuncGetAttributes_def

section \<open>The messages without a field satisfy the contract\<close>

interpretation cudaDeviceSynchronize_request: wire_message "\<lambda>v. the (corex_generated_encode_cudaDeviceSynchronize_request 0 v)" corex_generated_decode_cudaDeviceSynchronize_request "\<lambda>_. True" "\<lambda>_. True"
  by unfold_locales (auto simp: empty_codec_defs split: if_splits)

interpretation cudaDeviceSynchronize_response: wire_message "\<lambda>v. the (corex_generated_encode_cudaDeviceSynchronize_response 0 v)" corex_generated_decode_cudaDeviceSynchronize_response "\<lambda>_. True" "\<lambda>_. True"
  by unfold_locales (auto simp: empty_codec_defs split: if_splits)

interpretation cudaDriverGetVersion_request: wire_message "\<lambda>v. the (corex_generated_encode_cudaDriverGetVersion_request 0 v)" corex_generated_decode_cudaDriverGetVersion_request "\<lambda>_. True" "\<lambda>_. True"
  by unfold_locales (auto simp: empty_codec_defs split: if_splits)

interpretation cudaRuntimeGetVersion_request: wire_message "\<lambda>v. the (corex_generated_encode_cudaRuntimeGetVersion_request 0 v)" corex_generated_decode_cudaRuntimeGetVersion_request "\<lambda>_. True" "\<lambda>_. True"
  by unfold_locales (auto simp: empty_codec_defs split: if_splits)

interpretation cudaGetDeviceFlags_request: wire_message "\<lambda>v. the (corex_generated_encode_cudaGetDeviceFlags_request 0 v)" corex_generated_decode_cudaGetDeviceFlags_request "\<lambda>_. True" "\<lambda>_. True"
  by unfold_locales (auto simp: empty_codec_defs split: if_splits)

interpretation cudaDeviceGetStreamPriorityRange_request: wire_message "\<lambda>v. the (corex_generated_encode_cudaDeviceGetStreamPriorityRange_request 0 v)" corex_generated_decode_cudaDeviceGetStreamPriorityRange_request "\<lambda>_. True" "\<lambda>_. True"
  by unfold_locales (auto simp: empty_codec_defs split: if_splits)

interpretation cudaDeviceGetCacheConfig_request: wire_message "\<lambda>v. the (corex_generated_encode_cudaDeviceGetCacheConfig_request 0 v)" corex_generated_decode_cudaDeviceGetCacheConfig_request "\<lambda>_. True" "\<lambda>_. True"
  by unfold_locales (auto simp: empty_codec_defs split: if_splits)

interpretation cudaDeviceGetSharedMemConfig_request: wire_message "\<lambda>v. the (corex_generated_encode_cudaDeviceGetSharedMemConfig_request 0 v)" corex_generated_decode_cudaDeviceGetSharedMemConfig_request "\<lambda>_. True" "\<lambda>_. True"
  by unfold_locales (auto simp: empty_codec_defs split: if_splits)

interpretation cudaFuncSetAttribute_response: wire_message "\<lambda>v. the (corex_generated_encode_cudaFuncSetAttribute_response 0 v)" corex_generated_decode_cudaFuncSetAttribute_response "\<lambda>_. True" "\<lambda>_. True"
  by unfold_locales (auto simp: empty_codec_defs split: if_splits)

interpretation cudaFuncSetCacheConfig_response: wire_message "\<lambda>v. the (corex_generated_encode_cudaFuncSetCacheConfig_response 0 v)" corex_generated_decode_cudaFuncSetCacheConfig_response "\<lambda>_. True" "\<lambda>_. True"
  by unfold_locales (auto simp: empty_codec_defs split: if_splits)

interpretation cudaDeviceSetLimit_response: wire_message "\<lambda>v. the (corex_generated_encode_cudaDeviceSetLimit_response 0 v)" corex_generated_decode_cudaDeviceSetLimit_response "\<lambda>_. True" "\<lambda>_. True"
  by unfold_locales (auto simp: empty_codec_defs split: if_splits)

interpretation cudaDeviceSetCacheConfig_response: wire_message "\<lambda>v. the (corex_generated_encode_cudaDeviceSetCacheConfig_response 0 v)" corex_generated_decode_cudaDeviceSetCacheConfig_response "\<lambda>_. True" "\<lambda>_. True"
  by unfold_locales (auto simp: empty_codec_defs split: if_splits)

interpretation cudaDeviceSetSharedMemConfig_response: wire_message "\<lambda>v. the (corex_generated_encode_cudaDeviceSetSharedMemConfig_response 0 v)" corex_generated_decode_cudaDeviceSetSharedMemConfig_response "\<lambda>_. True" "\<lambda>_. True"
  by unfold_locales (auto simp: empty_codec_defs split: if_splits)

interpretation cudaStreamCopyAttributes_response: wire_message "\<lambda>v. the (corex_generated_encode_cudaStreamCopyAttributes_response 0 v)" corex_generated_decode_cudaStreamCopyAttributes_response "\<lambda>_. True" "\<lambda>_. True"
  by unfold_locales (auto simp: empty_codec_defs split: if_splits)

interpretation cudaStreamSetAttribute_response: wire_message "\<lambda>v. the (corex_generated_encode_cudaStreamSetAttribute_response 0 v)" corex_generated_decode_cudaStreamSetAttribute_response "\<lambda>_. True" "\<lambda>_. True"
  by unfold_locales (auto simp: empty_codec_defs split: if_splits)

interpretation cudaMemset3D_response: wire_message "\<lambda>v. the (corex_generated_encode_cudaMemset3D_response 0 v)" corex_generated_decode_cudaMemset3D_response "\<lambda>_. True" "\<lambda>_. True"
  by unfold_locales (auto simp: empty_codec_defs split: if_splits)

interpretation cudaMemset3DAsync_response: wire_message "\<lambda>v. the (corex_generated_encode_cudaMemset3DAsync_response 0 v)" corex_generated_decode_cudaMemset3DAsync_response "\<lambda>_. True" "\<lambda>_. True"
  by unfold_locales (auto simp: empty_codec_defs split: if_splits)

interpretation cudaFuncSetSharedMemConfig_response: wire_message "\<lambda>v. the (corex_generated_encode_cudaFuncSetSharedMemConfig_response 0 v)" corex_generated_decode_cudaFuncSetSharedMemConfig_response "\<lambda>_. True" "\<lambda>_. True"
  by unfold_locales (auto simp: empty_codec_defs split: if_splits)

interpretation cudaSetDeviceFlags_response: wire_message "\<lambda>v. the (corex_generated_encode_cudaSetDeviceFlags_response 0 v)" corex_generated_decode_cudaSetDeviceFlags_response "\<lambda>_. True" "\<lambda>_. True"
  by unfold_locales (auto simp: empty_codec_defs split: if_splits)

interpretation cudaDeviceSetMemPool_response: wire_message "\<lambda>v. the (corex_generated_encode_cudaDeviceSetMemPool_response 0 v)" corex_generated_decode_cudaDeviceSetMemPool_response "\<lambda>_. True" "\<lambda>_. True"
  by unfold_locales (auto simp: empty_codec_defs split: if_splits)

interpretation cudaMemPoolDestroy_response: wire_message "\<lambda>v. the (corex_generated_encode_cudaMemPoolDestroy_response 0 v)" corex_generated_decode_cudaMemPoolDestroy_response "\<lambda>_. True" "\<lambda>_. True"
  by unfold_locales (auto simp: empty_codec_defs split: if_splits)

interpretation cudaMemPoolTrimTo_response: wire_message "\<lambda>v. the (corex_generated_encode_cudaMemPoolTrimTo_response 0 v)" corex_generated_decode_cudaMemPoolTrimTo_response "\<lambda>_. True" "\<lambda>_. True"
  by unfold_locales (auto simp: empty_codec_defs split: if_splits)

interpretation cudaMemPoolSetAttribute_response: wire_message "\<lambda>v. the (corex_generated_encode_cudaMemPoolSetAttribute_response 0 v)" corex_generated_decode_cudaMemPoolSetAttribute_response "\<lambda>_. True" "\<lambda>_. True"
  by unfold_locales (auto simp: empty_codec_defs split: if_splits)

interpretation cudaMemPoolSetAccess_response: wire_message "\<lambda>v. the (corex_generated_encode_cudaMemPoolSetAccess_response 0 v)" corex_generated_decode_cudaMemPoolSetAccess_response "\<lambda>_. True" "\<lambda>_. True"
  by unfold_locales (auto simp: empty_codec_defs split: if_splits)

interpretation cudaFreeAsync_response: wire_message "\<lambda>v. the (corex_generated_encode_cudaFreeAsync_response 0 v)" corex_generated_decode_cudaFreeAsync_response "\<lambda>_. True" "\<lambda>_. True"
  by unfold_locales (auto simp: empty_codec_defs split: if_splits)

interpretation cudaDeviceSetGraphMemAttribute_response: wire_message "\<lambda>v. the (corex_generated_encode_cudaDeviceSetGraphMemAttribute_response 0 v)" corex_generated_decode_cudaDeviceSetGraphMemAttribute_response "\<lambda>_. True" "\<lambda>_. True"
  by unfold_locales (auto simp: empty_codec_defs split: if_splits)

interpretation cudaDeviceGraphMemTrim_response: wire_message "\<lambda>v. the (corex_generated_encode_cudaDeviceGraphMemTrim_response 0 v)" corex_generated_decode_cudaDeviceGraphMemTrim_response "\<lambda>_. True" "\<lambda>_. True"
  by unfold_locales (auto simp: empty_codec_defs split: if_splits)

section \<open>The graph messages satisfy the contract\<close>

lemma write_block_bytes:
  "length data \<le> bound \<Longrightarrow> length out + 4 + bound \<le> capacity \<Longrightarrow>
   write_block bound capacity out data = Some (out @ be32 (of_nat (length data)) @ data)"
  by (simp add: write_block_def wire_simps)

lemma take_block_bytes:
  "length data \<le> bound \<Longrightarrow> bound < 2 ^ 32 \<Longrightarrow>
   take_block bound (out @ be32 (of_nat (length data)) @ data) (length out) = Some (data, length out + 4 + length data)"
  by (simp add: take_block_def take_u32_at unat_small32)

lemma take_block_Some:
  assumes "take_block bound input position = Some (data, length input)"
  shows "length data \<le> bound \<and> drop position input = be32 (of_nat (length data)) @ data"
proof -
  from assms obtain n p where t: "corex_protocol_take_u32 input position = Some (n, p)"
    and n: "unat n \<le> bound" "unat n \<le> length input - p"
    and s: "data = take (unat n) (drop p input)" "length input = p + unat n"
    by (auto simp: take_block_def bind_eq_Some_conv split: if_splits)
  have p: "p = position + 4" "p \<le> length input" using take_u32_bounds [OF t] by simp_all
  have "length data = unat n" using s(1) n(2) by simp
  then show ?thesis
    using n(1) s p append_take_drop_id [of 4 "drop position input"] take_u32_inverse [OF t] by (simp add: add.commute)
qed

definition graph_request_head :: "CorexGeneratedcudaGraphCreateRequest \<Rightarrow> bytes" where
  "graph_request_head q = be32 (gq_action q) @ be64 (gq_graph q) @ be64 (gq_node q) @ be64 (gq_exec q) @ be64 (gq_stream q) @
     be32 (gq_kind q) @ be64 (gq_value q)"

lemma length_graph_request_head [simp]: "length (graph_request_head q) = 48"
  by (simp add: graph_request_head_def)

lemma graph_head_split:
  assumes "48 \<le> length b"
  obtains q r where "b = graph_request_head q @ r"
proof -
  obtain a r1 where r1: "b = be32 a @ r1" "length r1 = length b - 4" using split32 [of b] assms by force
  have l1: "44 \<le> length r1" using r1(2) assms by simp
  obtain g r2 where r2: "r1 = be64 g @ r2" "length r2 = length r1 - 8" using split64 [of r1] l1 by force
  have l2: "36 \<le> length r2" using r2(2) l1 by simp
  obtain n r3 where r3: "r2 = be64 n @ r3" "length r3 = length r2 - 8" using split64 [of r2] l2 by force
  have l3: "28 \<le> length r3" using r3(2) l2 by simp
  obtain e r4 where r4: "r3 = be64 e @ r4" "length r4 = length r3 - 8" using split64 [of r3] l3 by force
  have l4: "20 \<le> length r4" using r4(2) l3 by simp
  obtain s r5 where r5: "r4 = be64 s @ r5" "length r5 = length r4 - 8" using split64 [of r4] l4 by force
  have l5: "12 \<le> length r5" using r5(2) l4 by simp
  obtain k r6 where r6: "r5 = be32 k @ r6" "length r6 = length r5 - 4" using split32 [of r5] l5 by force
  have l6: "8 \<le> length r6" using r6(2) l5 by simp
  obtain v r7 where r7: "r6 = be64 v @ r7" using split64 [of r6] l6 by force
  show thesis
    by (rule that [of "\<lparr>gq_action = a, gq_graph = g, gq_node = n, gq_exec = e, gq_stream = s, gq_kind = k, gq_value = v, gq_data = []\<rparr>" r7])
      (simp add: graph_request_head_def r1(1) r2(1) r3(1) r4(1) r5(1) r6(1) r7)
qed

lemma graph_request_decoded:
  "corex_generated_decode_cudaGraphCreate_request (graph_request_head q @ r) =
     (if length r < 4 \<or> length r > 8196 then None
      else take_block 8192 (graph_request_head q @ r) 48 \<bind> (\<lambda>(data, position).
        if position = 48 + length r then Some (q\<lparr>gq_data := data\<rparr>) else None))"
  using take_u32_at [of "[]"] take_u64_at [of "be32 (gq_action q)"]
    take_u64_at [of "be32 (gq_action q) @ be64 (gq_graph q)"]
    take_u64_at [of "be32 (gq_action q) @ be64 (gq_graph q) @ be64 (gq_node q)"]
    take_u64_at [of "be32 (gq_action q) @ be64 (gq_graph q) @ be64 (gq_node q) @ be64 (gq_exec q)"]
    take_u32_at [of "be32 (gq_action q) @ be64 (gq_graph q) @ be64 (gq_node q) @ be64 (gq_exec q) @ be64 (gq_stream q)"]
    take_u64_at [of "be32 (gq_action q) @ be64 (gq_graph q) @ be64 (gq_node q) @ be64 (gq_exec q) @ be64 (gq_stream q) @ be32 (gq_kind q)"]
  by (auto simp: corex_generated_decode_cudaGraphCreate_request_def graph_request_head_def intro!: Option.bind_cong split: if_splits)

lemma graph_request_encoded:
  "length (gq_data q) \<le> 8192 \<Longrightarrow> corex_generated_encode_cudaGraphCreate_request 8244 q =
     Some (graph_request_head q @ be32 (of_nat (length (gq_data q))) @ gq_data q)"
  using write_block_bytes [of "gq_data q" 8192 "graph_request_head q" 8244]
  by (simp add: corex_generated_encode_cudaGraphCreate_request_def graph_request_head_def wire_simps)

lemma graph_request_accepted:
  assumes "corex_generated_decode_cudaGraphCreate_request b = Some m"
  shows "length (gq_data m) \<le> 8192" "b = graph_request_head m @ be32 (of_nat (length (gq_data m))) @ gq_data m"
proof -
  have "48 \<le> length b" using assms by (auto simp: corex_generated_decode_cudaGraphCreate_request_def split: if_splits)
  then obtain q r where b: "b = graph_request_head q @ r" by (rule graph_head_split)
  then obtain data where d: "take_block 8192 b 48 = Some (data, length b)" "m = q\<lparr>gq_data := data\<rparr>"
    using assms by (auto simp: graph_request_decoded bind_eq_Some_conv split: if_splits)
  show "length (gq_data m) \<le> 8192" "b = graph_request_head m @ be32 (of_nat (length (gq_data m))) @ gq_data m"
    using take_block_Some [OF d(1)] b d(2) by (simp_all add: graph_request_head_def)
qed

interpretation cudaGraphCreate_request: wire_message "\<lambda>q. the (corex_generated_encode_cudaGraphCreate_request 8244 q)"
    corex_generated_decode_cudaGraphCreate_request "\<lambda>q. length (gq_data q) \<le> 8192" "\<lambda>_. True"
proof unfold_locales
  fix m :: CorexGeneratedcudaGraphCreateRequest
  assume "length (gq_data m) \<le> 8192"
  then show "corex_generated_decode_cudaGraphCreate_request (the (corex_generated_encode_cudaGraphCreate_request 8244 m)) = Some m"
    using take_block_bytes [of "gq_data m" 8192 "graph_request_head m"]
    by (simp add: graph_request_encoded graph_request_decoded)
qed (simp_all add: graph_request_encoded graph_request_accepted(1) graph_request_accepted(2) [symmetric])

lemma graph_response_encoded:
  "length (gr_data v) \<le> 65535 \<Longrightarrow> corex_generated_encode_cudaGraphCreate_response 65551 v =
     Some (be64 (gr_object v) @ be32 (gr_value v) @ be32 (of_nat (length (gr_data v))) @ gr_data v)"
  using write_block_bytes [of "gr_data v" 65535 "be64 (gr_object v) @ be32 (gr_value v)" 65551]
  by (simp add: corex_generated_encode_cudaGraphCreate_response_def wire_simps)

lemma graph_response_decoded:
  "corex_generated_decode_cudaGraphCreate_response (be64 x @ be32 y @ r) =
     (if length r < 4 \<or> length r > 65539 then None
      else take_block 65535 (be64 x @ be32 y @ r) 12 \<bind> (\<lambda>(data, position).
        if position = 12 + length r then Some \<lparr>gr_object = x, gr_value = y, gr_data = data\<rparr> else None))"
  using take_u64_at [of "[]" x] take_u32_at [of "be64 x" y]
  by (auto simp: corex_generated_decode_cudaGraphCreate_response_def intro!: Option.bind_cong split: if_splits)

lemma graph_response_accepted:
  assumes "corex_generated_decode_cudaGraphCreate_response b = Some m"
  shows "length (gr_data m) \<le> 65535" "b = be64 (gr_object m) @ be32 (gr_value m) @ be32 (of_nat (length (gr_data m))) @ gr_data m"
proof -
  have l: "16 \<le> length b" using assms by (auto simp: corex_generated_decode_cudaGraphCreate_response_def split: if_splits)
  obtain x r1 where r1: "b = be64 x @ r1" "length r1 = length b - 8" using split64 [of b] l by force
  have "4 \<le> length r1" using r1(2) l by simp
  then obtain y r where r: "r1 = be32 y @ r" using split32 [of r1] by force
  have b: "b = be64 x @ be32 y @ r" using r1 r by simp
  then obtain data where d: "take_block 65535 b 12 = Some (data, length b)" "m = \<lparr>gr_object = x, gr_value = y, gr_data = data\<rparr>"
    using assms by (auto simp: graph_response_decoded bind_eq_Some_conv split: if_splits)
  show "length (gr_data m) \<le> 65535" "b = be64 (gr_object m) @ be32 (gr_value m) @ be32 (of_nat (length (gr_data m))) @ gr_data m"
    using take_block_Some [OF d(1)] b d(2) by simp_all
qed

interpretation cudaGraphCreate_response: wire_message "\<lambda>v. the (corex_generated_encode_cudaGraphCreate_response 65551 v)"
    corex_generated_decode_cudaGraphCreate_response "\<lambda>v. length (gr_data v) \<le> 65535" "\<lambda>_. True"
proof unfold_locales
  fix m :: CorexGeneratedcudaGraphCreateResponse
  assume "length (gr_data m) \<le> 65535"
  then show "corex_generated_decode_cudaGraphCreate_response (the (corex_generated_encode_cudaGraphCreate_response 65551 m)) = Some m"
    using take_block_bytes [of "gr_data m" 65535 "be64 (gr_object m) @ be32 (gr_value m)"]
    by (simp add: graph_response_encoded graph_response_decoded)
qed (simp_all add: graph_response_encoded graph_response_accepted(1) graph_response_accepted(2) [symmetric])

section \<open>What a stub returns\<close>

text \<open>
  A stub over two well-formed message formats: when the peer answers a request with an encoded
  response, the stub returns exactly the values of that response, the peer reads exactly the values of
  the request, and nothing but an encoded response is accepted.
\<close>

locale remote_procedure =
  request: wire_message req_enc req_dec req_valid req_sized +
  response: wire_message resp_enc resp_dec resp_valid resp_sized
  for req_enc :: "'q \<Rightarrow> bytes" and req_dec :: "bytes \<Rightarrow> 'q option" and req_valid req_sized
    and resp_enc :: "'r \<Rightarrow> bytes" and resp_dec :: "bytes \<Rightarrow> 'r option" and resp_valid resp_sized +
  fixes call :: "'s rpc_call \<Rightarrow> 'q \<Rightarrow> 's \<Rightarrow> 'r option \<times> 's"
    and opcode :: u32
  assumes call_eq: "req_valid m \<Longrightarrow> call rpc m s = generated_call (Some (req_enc m)) opcode resp_dec rpc s"
begin

lemma call_returns:
  assumes "req_valid m" "resp_valid v" "rpc opcode (req_enc m) s = (Some (resp_enc v), s')"
  shows "call rpc m s = (Some v, s')" "req_dec (req_enc m) = Some m"
  using assms by (simp_all add: call_eq generated_call_def response.dec_enc request.dec_enc)

lemma call_fails: "req_valid m \<Longrightarrow> rpc opcode (req_enc m) s = (None, s') \<Longrightarrow> call rpc m s = (None, s')"
  by (simp add: call_eq generated_call_def)

lemma call_Some:
  assumes "req_valid m" "call rpc m s = (Some v, s')"
  obtains b where "rpc opcode (req_enc m) s = (Some b, s')" "resp_sized b \<Longrightarrow> b = resp_enc v \<and> resp_valid v"
  using assms response.enc_dec response.valid_dec
  by (auto simp: call_eq generated_call_def split: prod.splits option.splits)

end

interpretation cudaDeviceSynchronize: remote_procedure
    "\<lambda>v. the (corex_generated_encode_cudaDeviceSynchronize_request 0 v)" corex_generated_decode_cudaDeviceSynchronize_request "\<lambda>_. True" "\<lambda>_. True"
    "\<lambda>v. the (corex_generated_encode_cudaDeviceSynchronize_response 0 v)" corex_generated_decode_cudaDeviceSynchronize_response "\<lambda>_. True" "\<lambda>_. True"
    corex_generated_call_cudaDeviceSynchronize 4
  by unfold_locales (auto simp: corex_generated_call_cudaDeviceSynchronize_def empty_codec_defs)

interpretation cudaStreamQuery: remote_procedure
    "\<lambda>v. the (corex_generated_encode_cudaStreamQuery_request 8 v)" corex_generated_decode_cudaStreamQuery_request "\<lambda>_. True" "\<lambda>_. True"
    "\<lambda>v. the (corex_generated_encode_cudaStreamQuery_response 4 v)" corex_generated_decode_cudaStreamQuery_response "\<lambda>_. True" "\<lambda>_. True"
    corex_generated_call_cudaStreamQuery 14
  by unfold_locales (auto simp: corex_generated_call_cudaStreamQuery_def corex_generated_encode_cudaStreamQuery_request_def wire_simps)

interpretation cudaEventQuery: remote_procedure
    "\<lambda>v. the (corex_generated_encode_cudaEventQuery_request 8 v)" corex_generated_decode_cudaEventQuery_request "\<lambda>_. True" "\<lambda>_. True"
    "\<lambda>v. the (corex_generated_encode_cudaEventQuery_response 4 v)" corex_generated_decode_cudaEventQuery_response "\<lambda>_. True" "\<lambda>_. True"
    corex_generated_call_cudaEventQuery 19
  by unfold_locales (auto simp: corex_generated_call_cudaEventQuery_def corex_generated_encode_cudaEventQuery_request_def wire_simps)

interpretation cudaDriverGetVersion: remote_procedure
    "\<lambda>v. the (corex_generated_encode_cudaDriverGetVersion_request 0 v)" corex_generated_decode_cudaDriverGetVersion_request "\<lambda>_. True" "\<lambda>_. True"
    "\<lambda>v. the (corex_generated_encode_cudaDriverGetVersion_response 4 v)" corex_generated_decode_cudaDriverGetVersion_response "\<lambda>_. True" "\<lambda>_. True"
    corex_generated_call_cudaDriverGetVersion 35
  by unfold_locales (auto simp: corex_generated_call_cudaDriverGetVersion_def empty_codec_defs)

interpretation cudaRuntimeGetVersion: remote_procedure
    "\<lambda>v. the (corex_generated_encode_cudaRuntimeGetVersion_request 0 v)" corex_generated_decode_cudaRuntimeGetVersion_request "\<lambda>_. True" "\<lambda>_. True"
    "\<lambda>v. the (corex_generated_encode_cudaRuntimeGetVersion_response 4 v)" corex_generated_decode_cudaRuntimeGetVersion_response "\<lambda>_. True" "\<lambda>_. True"
    corex_generated_call_cudaRuntimeGetVersion 36
  by unfold_locales (auto simp: corex_generated_call_cudaRuntimeGetVersion_def empty_codec_defs)

interpretation cudaDeviceGetAttribute: remote_procedure
    "\<lambda>v. the (corex_generated_encode_cudaDeviceGetAttribute_request 8 v)" corex_generated_decode_cudaDeviceGetAttribute_request "\<lambda>_. True" "\<lambda>_. True"
    "\<lambda>v. the (corex_generated_encode_cudaDeviceGetAttribute_response 4 v)" corex_generated_decode_cudaDeviceGetAttribute_response "\<lambda>_. True" "\<lambda>_. True"
    corex_generated_call_cudaDeviceGetAttribute 39
  by unfold_locales (auto simp: corex_generated_call_cudaDeviceGetAttribute_def corex_generated_encode_cudaDeviceGetAttribute_request_def wire_simps)

interpretation cudaGetDeviceFlags: remote_procedure
    "\<lambda>v. the (corex_generated_encode_cudaGetDeviceFlags_request 0 v)" corex_generated_decode_cudaGetDeviceFlags_request "\<lambda>_. True" "\<lambda>_. True"
    "\<lambda>v. the (corex_generated_encode_cudaGetDeviceFlags_response 4 v)" corex_generated_decode_cudaGetDeviceFlags_response "\<lambda>_. True" "\<lambda>_. True"
    corex_generated_call_cudaGetDeviceFlags 40
  by unfold_locales (auto simp: corex_generated_call_cudaGetDeviceFlags_def empty_codec_defs)

interpretation cudaDeviceGetStreamPriorityRange: remote_procedure
    "\<lambda>v. the (corex_generated_encode_cudaDeviceGetStreamPriorityRange_request 0 v)" corex_generated_decode_cudaDeviceGetStreamPriorityRange_request "\<lambda>_. True" "\<lambda>_. True"
    "\<lambda>v. the (corex_generated_encode_cudaDeviceGetStreamPriorityRange_response 8 v)" corex_generated_decode_cudaDeviceGetStreamPriorityRange_response "\<lambda>_. True" "\<lambda>_. True"
    corex_generated_call_cudaDeviceGetStreamPriorityRange 41
  by unfold_locales (auto simp: corex_generated_call_cudaDeviceGetStreamPriorityRange_def empty_codec_defs)

interpretation cudaDeviceGetLimit: remote_procedure
    "\<lambda>v. the (corex_generated_encode_cudaDeviceGetLimit_request 4 v)" corex_generated_decode_cudaDeviceGetLimit_request "\<lambda>_. True" "\<lambda>_. True"
    "\<lambda>v. the (corex_generated_encode_cudaDeviceGetLimit_response 8 v)" corex_generated_decode_cudaDeviceGetLimit_response "\<lambda>_. True" "\<lambda>_. True"
    corex_generated_call_cudaDeviceGetLimit 42
  by unfold_locales (auto simp: corex_generated_call_cudaDeviceGetLimit_def corex_generated_encode_cudaDeviceGetLimit_request_def wire_simps)

interpretation cudaDeviceGetCacheConfig: remote_procedure
    "\<lambda>v. the (corex_generated_encode_cudaDeviceGetCacheConfig_request 0 v)" corex_generated_decode_cudaDeviceGetCacheConfig_request "\<lambda>_. True" "\<lambda>_. True"
    "\<lambda>v. the (corex_generated_encode_cudaDeviceGetCacheConfig_response 4 v)" corex_generated_decode_cudaDeviceGetCacheConfig_response "\<lambda>_. True" "\<lambda>_. True"
    corex_generated_call_cudaDeviceGetCacheConfig 43
  by unfold_locales (auto simp: corex_generated_call_cudaDeviceGetCacheConfig_def empty_codec_defs)

interpretation cudaDeviceGetSharedMemConfig: remote_procedure
    "\<lambda>v. the (corex_generated_encode_cudaDeviceGetSharedMemConfig_request 0 v)" corex_generated_decode_cudaDeviceGetSharedMemConfig_request "\<lambda>_. True" "\<lambda>_. True"
    "\<lambda>v. the (corex_generated_encode_cudaDeviceGetSharedMemConfig_response 4 v)" corex_generated_decode_cudaDeviceGetSharedMemConfig_response "\<lambda>_. True" "\<lambda>_. True"
    corex_generated_call_cudaDeviceGetSharedMemConfig 44
  by unfold_locales (auto simp: corex_generated_call_cudaDeviceGetSharedMemConfig_def empty_codec_defs)

interpretation cudaFuncSetAttribute: remote_procedure
    "\<lambda>v. the (corex_generated_encode_cudaFuncSetAttribute_request 16 v)" corex_generated_decode_cudaFuncSetAttribute_request "\<lambda>_. True" "\<lambda>_. True"
    "\<lambda>v. the (corex_generated_encode_cudaFuncSetAttribute_response 0 v)" corex_generated_decode_cudaFuncSetAttribute_response "\<lambda>_. True" "\<lambda>_. True"
    corex_generated_call_cudaFuncSetAttribute 45
  by unfold_locales (auto simp: corex_generated_call_cudaFuncSetAttribute_def corex_generated_encode_cudaFuncSetAttribute_request_def wire_simps)

interpretation cudaFuncSetCacheConfig: remote_procedure
    "\<lambda>v. the (corex_generated_encode_cudaFuncSetCacheConfig_request 12 v)" corex_generated_decode_cudaFuncSetCacheConfig_request "\<lambda>_. True" "\<lambda>_. True"
    "\<lambda>v. the (corex_generated_encode_cudaFuncSetCacheConfig_response 0 v)" corex_generated_decode_cudaFuncSetCacheConfig_response "\<lambda>_. True" "\<lambda>_. True"
    corex_generated_call_cudaFuncSetCacheConfig 46
  by unfold_locales (auto simp: corex_generated_call_cudaFuncSetCacheConfig_def corex_generated_encode_cudaFuncSetCacheConfig_request_def wire_simps)

interpretation cudaOccupancyMaxActiveBlocksPerMultiprocessor: remote_procedure
    "\<lambda>v. the (corex_generated_encode_cudaOccupancyMaxActiveBlocksPerMultiprocessor_request 20 v)" corex_generated_decode_cudaOccupancyMaxActiveBlocksPerMultiprocessor_request "\<lambda>_. True" "\<lambda>_. True"
    "\<lambda>v. the (corex_generated_encode_cudaOccupancyMaxActiveBlocksPerMultiprocessor_response 4 v)" corex_generated_decode_cudaOccupancyMaxActiveBlocksPerMultiprocessor_response "\<lambda>_. True" "\<lambda>_. True"
    corex_generated_call_cudaOccupancyMaxActiveBlocksPerMultiprocessor 38
  by unfold_locales (auto simp: corex_generated_call_cudaOccupancyMaxActiveBlocksPerMultiprocessor_def corex_generated_encode_cudaOccupancyMaxActiveBlocksPerMultiprocessor_request_def wire_simps)

interpretation cudaDeviceGetPCIBusId: remote_procedure
    "\<lambda>v. the (corex_generated_encode_cudaDeviceGetPCIBusId_request 4 v)" corex_generated_decode_cudaDeviceGetPCIBusId_request "\<lambda>_. True" "\<lambda>_. True"
    "\<lambda>s. the (corex_generated_encode_cudaDeviceGetPCIBusId_response 36 (carray s))" corex_generated_decode_cudaDeviceGetPCIBusId_response "bounded_string 32" "\<lambda>_. True"
    corex_generated_call_cudaDeviceGetPCIBusId 47
  by unfold_locales (auto simp: corex_generated_call_cudaDeviceGetPCIBusId_def corex_generated_encode_cudaDeviceGetPCIBusId_request_def wire_simps)

interpretation cudaDeviceGetByPCIBusId: remote_procedure
    "\<lambda>s. the (corex_generated_encode_cudaDeviceGetByPCIBusId_request 36 (carray s))" corex_generated_decode_cudaDeviceGetByPCIBusId_request "bounded_string 32" "\<lambda>_. True"
    "\<lambda>v. the (corex_generated_encode_cudaDeviceGetByPCIBusId_response 4 v)" corex_generated_decode_cudaDeviceGetByPCIBusId_response "\<lambda>_. True" "\<lambda>_. True"
    "\<lambda>rpc m. corex_generated_call_cudaDeviceGetByPCIBusId rpc (carray m)" 48
  by unfold_locales (auto simp: corex_generated_call_cudaDeviceGetByPCIBusId_def corex_generated_encode_cudaDeviceGetByPCIBusId_request_def string_message)

interpretation cudaDeviceSetLimit: remote_procedure
    "\<lambda>v. the (corex_generated_encode_cudaDeviceSetLimit_request 12 v)" corex_generated_decode_cudaDeviceSetLimit_request "\<lambda>_. True" "\<lambda>_. True"
    "\<lambda>v. the (corex_generated_encode_cudaDeviceSetLimit_response 0 v)" corex_generated_decode_cudaDeviceSetLimit_response "\<lambda>_. True" "\<lambda>_. True"
    corex_generated_call_cudaDeviceSetLimit 59
  by unfold_locales (auto simp: corex_generated_call_cudaDeviceSetLimit_def corex_generated_encode_cudaDeviceSetLimit_request_def wire_simps)

interpretation cudaDeviceSetCacheConfig: remote_procedure
    "\<lambda>v. the (corex_generated_encode_cudaDeviceSetCacheConfig_request 4 v)" corex_generated_decode_cudaDeviceSetCacheConfig_request "\<lambda>_. True" "\<lambda>_. True"
    "\<lambda>v. the (corex_generated_encode_cudaDeviceSetCacheConfig_response 0 v)" corex_generated_decode_cudaDeviceSetCacheConfig_response "\<lambda>_. True" "\<lambda>_. True"
    corex_generated_call_cudaDeviceSetCacheConfig 60
  by unfold_locales (auto simp: corex_generated_call_cudaDeviceSetCacheConfig_def corex_generated_encode_cudaDeviceSetCacheConfig_request_def wire_simps)

interpretation cudaDeviceSetSharedMemConfig: remote_procedure
    "\<lambda>v. the (corex_generated_encode_cudaDeviceSetSharedMemConfig_request 4 v)" corex_generated_decode_cudaDeviceSetSharedMemConfig_request "\<lambda>_. True" "\<lambda>_. True"
    "\<lambda>v. the (corex_generated_encode_cudaDeviceSetSharedMemConfig_response 0 v)" corex_generated_decode_cudaDeviceSetSharedMemConfig_response "\<lambda>_. True" "\<lambda>_. True"
    corex_generated_call_cudaDeviceSetSharedMemConfig 61
  by unfold_locales (auto simp: corex_generated_call_cudaDeviceSetSharedMemConfig_def corex_generated_encode_cudaDeviceSetSharedMemConfig_request_def wire_simps)

interpretation cudaStreamCopyAttributes: remote_procedure
    "\<lambda>v. the (corex_generated_encode_cudaStreamCopyAttributes_request 16 v)" corex_generated_decode_cudaStreamCopyAttributes_request "\<lambda>_. True" "\<lambda>_. True"
    "\<lambda>v. the (corex_generated_encode_cudaStreamCopyAttributes_response 0 v)" corex_generated_decode_cudaStreamCopyAttributes_response "\<lambda>_. True" "\<lambda>_. True"
    corex_generated_call_cudaStreamCopyAttributes 62
  by unfold_locales (auto simp: corex_generated_call_cudaStreamCopyAttributes_def corex_generated_encode_cudaStreamCopyAttributes_request_def wire_simps)

interpretation cudaStreamGetAttribute: remote_procedure
    "\<lambda>v. the (corex_generated_encode_cudaStreamGetAttribute_request 12 v)" corex_generated_decode_cudaStreamGetAttribute_request "\<lambda>_. True" "\<lambda>_. True"
    "\<lambda>v. the (corex_generated_encode_cudaStreamGetAttribute_response 40 v)" corex_generated_decode_cudaStreamGetAttribute_response "\<lambda>_. True" "\<lambda>_. True"
    corex_generated_call_cudaStreamGetAttribute 63
  by unfold_locales (auto simp: corex_generated_call_cudaStreamGetAttribute_def corex_generated_encode_cudaStreamGetAttribute_request_def wire_simps)

interpretation cudaStreamSetAttribute: remote_procedure
    "\<lambda>v. the (corex_generated_encode_cudaStreamSetAttribute_request 52 v)" corex_generated_decode_cudaStreamSetAttribute_request "\<lambda>_. True" "\<lambda>_. True"
    "\<lambda>v. the (corex_generated_encode_cudaStreamSetAttribute_response 0 v)" corex_generated_decode_cudaStreamSetAttribute_response "\<lambda>_. True" "\<lambda>_. True"
    corex_generated_call_cudaStreamSetAttribute 64
  by unfold_locales (auto simp: corex_generated_call_cudaStreamSetAttribute_def corex_generated_encode_cudaStreamSetAttribute_request_def wire_simps)

interpretation cudaMemset3D: remote_procedure
    "\<lambda>v. the (corex_generated_encode_cudaMemset3D_request 60 v)" corex_generated_decode_cudaMemset3D_request "\<lambda>_. True" "\<lambda>_. True"
    "\<lambda>v. the (corex_generated_encode_cudaMemset3D_response 0 v)" corex_generated_decode_cudaMemset3D_response "\<lambda>_. True" "\<lambda>_. True"
    corex_generated_call_cudaMemset3D 65
  by unfold_locales (auto simp: corex_generated_call_cudaMemset3D_def corex_generated_encode_cudaMemset3D_request_def wire_simps)

interpretation cudaMemset3DAsync: remote_procedure
    "\<lambda>v. the (corex_generated_encode_cudaMemset3DAsync_request 68 v)" corex_generated_decode_cudaMemset3DAsync_request "\<lambda>_. True" "\<lambda>_. True"
    "\<lambda>v. the (corex_generated_encode_cudaMemset3DAsync_response 0 v)" corex_generated_decode_cudaMemset3DAsync_response "\<lambda>_. True" "\<lambda>_. True"
    corex_generated_call_cudaMemset3DAsync 66
  by unfold_locales (auto simp: corex_generated_call_cudaMemset3DAsync_def corex_generated_encode_cudaMemset3DAsync_request_def wire_simps)

interpretation cudaFuncSetSharedMemConfig: remote_procedure
    "\<lambda>v. the (corex_generated_encode_cudaFuncSetSharedMemConfig_request 12 v)" corex_generated_decode_cudaFuncSetSharedMemConfig_request "\<lambda>_. True" "\<lambda>_. True"
    "\<lambda>v. the (corex_generated_encode_cudaFuncSetSharedMemConfig_response 0 v)" corex_generated_decode_cudaFuncSetSharedMemConfig_response "\<lambda>_. True" "\<lambda>_. True"
    corex_generated_call_cudaFuncSetSharedMemConfig 67
  by unfold_locales (auto simp: corex_generated_call_cudaFuncSetSharedMemConfig_def corex_generated_encode_cudaFuncSetSharedMemConfig_request_def wire_simps)

interpretation cudaOccupancyMaxActiveBlocksPerMultiprocessorWithFlags: remote_procedure
    "\<lambda>v. the (corex_generated_encode_cudaOccupancyMaxActiveBlocksPerMultiprocessorWithFlags_request 24 v)" corex_generated_decode_cudaOccupancyMaxActiveBlocksPerMultiprocessorWithFlags_request "\<lambda>_. True" "\<lambda>_. True"
    "\<lambda>v. the (corex_generated_encode_cudaOccupancyMaxActiveBlocksPerMultiprocessorWithFlags_response 4 v)" corex_generated_decode_cudaOccupancyMaxActiveBlocksPerMultiprocessorWithFlags_response "\<lambda>_. True" "\<lambda>_. True"
    corex_generated_call_cudaOccupancyMaxActiveBlocksPerMultiprocessorWithFlags 68
  by unfold_locales (auto simp: corex_generated_call_cudaOccupancyMaxActiveBlocksPerMultiprocessorWithFlags_def corex_generated_encode_cudaOccupancyMaxActiveBlocksPerMultiprocessorWithFlags_request_def wire_simps)

interpretation cudaOccupancyMaxPotentialBlockSize: remote_procedure
    "\<lambda>v. the (corex_generated_encode_cudaOccupancyMaxPotentialBlockSize_request 20 v)" corex_generated_decode_cudaOccupancyMaxPotentialBlockSize_request "\<lambda>_. True" "\<lambda>_. True"
    "\<lambda>v. the (corex_generated_encode_cudaOccupancyMaxPotentialBlockSize_response 8 v)" corex_generated_decode_cudaOccupancyMaxPotentialBlockSize_response "\<lambda>_. True" "\<lambda>_. True"
    corex_generated_call_cudaOccupancyMaxPotentialBlockSize 69
  by unfold_locales (auto simp: corex_generated_call_cudaOccupancyMaxPotentialBlockSize_def corex_generated_encode_cudaOccupancyMaxPotentialBlockSize_request_def wire_simps)

interpretation cudaLibraryGetKernelCount: remote_procedure
    "\<lambda>v. the (corex_generated_encode_cudaLibraryGetKernelCount_request 8 v)" corex_generated_decode_cudaLibraryGetKernelCount_request "\<lambda>_. True" "\<lambda>_. True"
    "\<lambda>v. the (corex_generated_encode_cudaLibraryGetKernelCount_response 4 v)" corex_generated_decode_cudaLibraryGetKernelCount_response "\<lambda>_. True" "\<lambda>_. True"
    corex_generated_call_cudaLibraryGetKernelCount 71
  by unfold_locales (auto simp: corex_generated_call_cudaLibraryGetKernelCount_def corex_generated_encode_cudaLibraryGetKernelCount_request_def wire_simps)

interpretation cudaLibraryEnumerateKernels: remote_procedure
    "\<lambda>v. the (corex_generated_encode_cudaLibraryEnumerateKernels_request 12 v)" corex_generated_decode_cudaLibraryEnumerateKernels_request "\<lambda>_. True" "\<lambda>_. True"
    "\<lambda>s. the (corex_generated_encode_cudaLibraryEnumerateKernels_response 131 (carray s))" corex_generated_decode_cudaLibraryEnumerateKernels_response "bounded_string 127" "\<lambda>_. True"
    corex_generated_call_cudaLibraryEnumerateKernels 72
  by unfold_locales (auto simp: corex_generated_call_cudaLibraryEnumerateKernels_def corex_generated_encode_cudaLibraryEnumerateKernels_request_def wire_simps)

interpretation cudaGetSymbolAddress: remote_procedure
    "\<lambda>(m, s). the (corex_generated_encode_cudaGetSymbolAddress_request 139 (m, carray s))" corex_generated_decode_cudaGetSymbolAddress_request "\<lambda>(m, s). bounded_string 127 s" "\<lambda>_. True"
    "\<lambda>v. the (corex_generated_encode_cudaGetSymbolAddress_response 16 v)" corex_generated_decode_cudaGetSymbolAddress_response "\<lambda>_. True" "\<lambda>_. True"
    "\<lambda>rpc (m, s). corex_generated_call_cudaGetSymbolAddress rpc (m, carray s)" 73
  by unfold_locales (auto simp: corex_generated_call_cudaGetSymbolAddress_def symbol_message)

interpretation cudaSetDeviceFlags: remote_procedure
    "\<lambda>v. the (corex_generated_encode_cudaSetDeviceFlags_request 4 v)" corex_generated_decode_cudaSetDeviceFlags_request "\<lambda>_. True" "\<lambda>_. True"
    "\<lambda>v. the (corex_generated_encode_cudaSetDeviceFlags_response 0 v)" corex_generated_decode_cudaSetDeviceFlags_response "\<lambda>_. True" "\<lambda>_. True"
    corex_generated_call_cudaSetDeviceFlags 74
  by unfold_locales (auto simp: corex_generated_call_cudaSetDeviceFlags_def corex_generated_encode_cudaSetDeviceFlags_request_def wire_simps)

interpretation cudaDeviceGetDefaultMemPool: remote_procedure
    "\<lambda>v. the (corex_generated_encode_cudaDeviceGetDefaultMemPool_request 4 v)" corex_generated_decode_cudaDeviceGetDefaultMemPool_request "\<lambda>_. True" "\<lambda>_. True"
    "\<lambda>v. the (corex_generated_encode_cudaDeviceGetDefaultMemPool_response 8 v)" corex_generated_decode_cudaDeviceGetDefaultMemPool_response "\<lambda>_. True" "\<lambda>_. True"
    corex_generated_call_cudaDeviceGetDefaultMemPool 75
  by unfold_locales (auto simp: corex_generated_call_cudaDeviceGetDefaultMemPool_def corex_generated_encode_cudaDeviceGetDefaultMemPool_request_def wire_simps)

interpretation cudaDeviceGetMemPool: remote_procedure
    "\<lambda>v. the (corex_generated_encode_cudaDeviceGetMemPool_request 4 v)" corex_generated_decode_cudaDeviceGetMemPool_request "\<lambda>_. True" "\<lambda>_. True"
    "\<lambda>v. the (corex_generated_encode_cudaDeviceGetMemPool_response 8 v)" corex_generated_decode_cudaDeviceGetMemPool_response "\<lambda>_. True" "\<lambda>_. True"
    corex_generated_call_cudaDeviceGetMemPool 76
  by unfold_locales (auto simp: corex_generated_call_cudaDeviceGetMemPool_def corex_generated_encode_cudaDeviceGetMemPool_request_def wire_simps)

interpretation cudaDeviceSetMemPool: remote_procedure
    "\<lambda>v. the (corex_generated_encode_cudaDeviceSetMemPool_request 12 v)" corex_generated_decode_cudaDeviceSetMemPool_request "\<lambda>_. True" "\<lambda>_. True"
    "\<lambda>v. the (corex_generated_encode_cudaDeviceSetMemPool_response 0 v)" corex_generated_decode_cudaDeviceSetMemPool_response "\<lambda>_. True" "\<lambda>_. True"
    corex_generated_call_cudaDeviceSetMemPool 77
  by unfold_locales (auto simp: corex_generated_call_cudaDeviceSetMemPool_def corex_generated_encode_cudaDeviceSetMemPool_request_def wire_simps)

interpretation cudaMemPoolCreate: remote_procedure
    "\<lambda>v. the (corex_generated_encode_cudaMemPoolCreate_request 12 v)" corex_generated_decode_cudaMemPoolCreate_request "\<lambda>_. True" "\<lambda>_. True"
    "\<lambda>v. the (corex_generated_encode_cudaMemPoolCreate_response 8 v)" corex_generated_decode_cudaMemPoolCreate_response "\<lambda>_. True" "\<lambda>_. True"
    corex_generated_call_cudaMemPoolCreate 78
  by unfold_locales (auto simp: corex_generated_call_cudaMemPoolCreate_def corex_generated_encode_cudaMemPoolCreate_request_def wire_simps)

interpretation cudaMemPoolDestroy: remote_procedure
    "\<lambda>v. the (corex_generated_encode_cudaMemPoolDestroy_request 8 v)" corex_generated_decode_cudaMemPoolDestroy_request "\<lambda>_. True" "\<lambda>_. True"
    "\<lambda>v. the (corex_generated_encode_cudaMemPoolDestroy_response 0 v)" corex_generated_decode_cudaMemPoolDestroy_response "\<lambda>_. True" "\<lambda>_. True"
    corex_generated_call_cudaMemPoolDestroy 79
  by unfold_locales (auto simp: corex_generated_call_cudaMemPoolDestroy_def corex_generated_encode_cudaMemPoolDestroy_request_def wire_simps)

interpretation cudaMemPoolTrimTo: remote_procedure
    "\<lambda>v. the (corex_generated_encode_cudaMemPoolTrimTo_request 16 v)" corex_generated_decode_cudaMemPoolTrimTo_request "\<lambda>_. True" "\<lambda>_. True"
    "\<lambda>v. the (corex_generated_encode_cudaMemPoolTrimTo_response 0 v)" corex_generated_decode_cudaMemPoolTrimTo_response "\<lambda>_. True" "\<lambda>_. True"
    corex_generated_call_cudaMemPoolTrimTo 80
  by unfold_locales (auto simp: corex_generated_call_cudaMemPoolTrimTo_def corex_generated_encode_cudaMemPoolTrimTo_request_def wire_simps)

interpretation cudaMemPoolGetAttribute: remote_procedure
    "\<lambda>v. the (corex_generated_encode_cudaMemPoolGetAttribute_request 12 v)" corex_generated_decode_cudaMemPoolGetAttribute_request "\<lambda>_. True" "\<lambda>_. True"
    "\<lambda>v. the (corex_generated_encode_cudaMemPoolGetAttribute_response 8 v)" corex_generated_decode_cudaMemPoolGetAttribute_response "\<lambda>_. True" "\<lambda>_. True"
    corex_generated_call_cudaMemPoolGetAttribute 81
  by unfold_locales (auto simp: corex_generated_call_cudaMemPoolGetAttribute_def corex_generated_encode_cudaMemPoolGetAttribute_request_def wire_simps)

interpretation cudaMemPoolSetAttribute: remote_procedure
    "\<lambda>v. the (corex_generated_encode_cudaMemPoolSetAttribute_request 20 v)" corex_generated_decode_cudaMemPoolSetAttribute_request "\<lambda>_. True" "\<lambda>_. True"
    "\<lambda>v. the (corex_generated_encode_cudaMemPoolSetAttribute_response 0 v)" corex_generated_decode_cudaMemPoolSetAttribute_response "\<lambda>_. True" "\<lambda>_. True"
    corex_generated_call_cudaMemPoolSetAttribute 82
  by unfold_locales (auto simp: corex_generated_call_cudaMemPoolSetAttribute_def corex_generated_encode_cudaMemPoolSetAttribute_request_def wire_simps)

interpretation cudaMemPoolGetAccess: remote_procedure
    "\<lambda>v. the (corex_generated_encode_cudaMemPoolGetAccess_request 16 v)" corex_generated_decode_cudaMemPoolGetAccess_request "\<lambda>_. True" "\<lambda>_. True"
    "\<lambda>v. the (corex_generated_encode_cudaMemPoolGetAccess_response 4 v)" corex_generated_decode_cudaMemPoolGetAccess_response "\<lambda>_. True" "\<lambda>_. True"
    corex_generated_call_cudaMemPoolGetAccess 83
  by unfold_locales (auto simp: corex_generated_call_cudaMemPoolGetAccess_def corex_generated_encode_cudaMemPoolGetAccess_request_def wire_simps)

interpretation cudaMemPoolSetAccess: remote_procedure
    "\<lambda>v. the (corex_generated_encode_cudaMemPoolSetAccess_request 24 v)" corex_generated_decode_cudaMemPoolSetAccess_request "\<lambda>_. True" "\<lambda>_. True"
    "\<lambda>v. the (corex_generated_encode_cudaMemPoolSetAccess_response 0 v)" corex_generated_decode_cudaMemPoolSetAccess_response "\<lambda>_. True" "\<lambda>_. True"
    corex_generated_call_cudaMemPoolSetAccess 84
  by unfold_locales (auto simp: corex_generated_call_cudaMemPoolSetAccess_def corex_generated_encode_cudaMemPoolSetAccess_request_def wire_simps)

interpretation cudaMallocAsync: remote_procedure
    "\<lambda>v. the (corex_generated_encode_cudaMallocAsync_request 16 v)" corex_generated_decode_cudaMallocAsync_request "\<lambda>_. True" "\<lambda>_. True"
    "\<lambda>v. the (corex_generated_encode_cudaMallocAsync_response 8 v)" corex_generated_decode_cudaMallocAsync_response "\<lambda>_. True" "\<lambda>_. True"
    corex_generated_call_cudaMallocAsync 85
  by unfold_locales (auto simp: corex_generated_call_cudaMallocAsync_def corex_generated_encode_cudaMallocAsync_request_def wire_simps)

interpretation cudaMallocFromPoolAsync: remote_procedure
    "\<lambda>v. the (corex_generated_encode_cudaMallocFromPoolAsync_request 24 v)" corex_generated_decode_cudaMallocFromPoolAsync_request "\<lambda>_. True" "\<lambda>_. True"
    "\<lambda>v. the (corex_generated_encode_cudaMallocFromPoolAsync_response 8 v)" corex_generated_decode_cudaMallocFromPoolAsync_response "\<lambda>_. True" "\<lambda>_. True"
    corex_generated_call_cudaMallocFromPoolAsync 86
  by unfold_locales (auto simp: corex_generated_call_cudaMallocFromPoolAsync_def corex_generated_encode_cudaMallocFromPoolAsync_request_def wire_simps)

interpretation cudaFreeAsync: remote_procedure
    "\<lambda>v. the (corex_generated_encode_cudaFreeAsync_request 16 v)" corex_generated_decode_cudaFreeAsync_request "\<lambda>_. True" "\<lambda>_. True"
    "\<lambda>v. the (corex_generated_encode_cudaFreeAsync_response 0 v)" corex_generated_decode_cudaFreeAsync_response "\<lambda>_. True" "\<lambda>_. True"
    corex_generated_call_cudaFreeAsync 87
  by unfold_locales (auto simp: corex_generated_call_cudaFreeAsync_def corex_generated_encode_cudaFreeAsync_request_def wire_simps)

interpretation cudaGraphCreate: remote_procedure
    "\<lambda>q. the (corex_generated_encode_cudaGraphCreate_request 8244 q)" corex_generated_decode_cudaGraphCreate_request "\<lambda>q. length (gq_data q) \<le> 8192" "\<lambda>_. True"
    "\<lambda>v. the (corex_generated_encode_cudaGraphCreate_response 65551 v)" corex_generated_decode_cudaGraphCreate_response "\<lambda>v. length (gr_data v) \<le> 65535" "\<lambda>_. True"
    corex_generated_call_cudaGraphCreate 88
  by unfold_locales (auto simp: corex_generated_call_cudaGraphCreate_def graph_request_encoded)

interpretation cudaDeviceGetGraphMemAttribute: remote_procedure
    "\<lambda>v. the (corex_generated_encode_cudaDeviceGetGraphMemAttribute_request 8 v)" corex_generated_decode_cudaDeviceGetGraphMemAttribute_request "\<lambda>_. True" "\<lambda>_. True"
    "\<lambda>v. the (corex_generated_encode_cudaDeviceGetGraphMemAttribute_response 8 v)" corex_generated_decode_cudaDeviceGetGraphMemAttribute_response "\<lambda>_. True" "\<lambda>_. True"
    corex_generated_call_cudaDeviceGetGraphMemAttribute 89
  by unfold_locales (auto simp: corex_generated_call_cudaDeviceGetGraphMemAttribute_def corex_generated_encode_cudaDeviceGetGraphMemAttribute_request_def wire_simps)

interpretation cudaDeviceSetGraphMemAttribute: remote_procedure
    "\<lambda>v. the (corex_generated_encode_cudaDeviceSetGraphMemAttribute_request 16 v)" corex_generated_decode_cudaDeviceSetGraphMemAttribute_request "\<lambda>_. True" "\<lambda>_. True"
    "\<lambda>v. the (corex_generated_encode_cudaDeviceSetGraphMemAttribute_response 0 v)" corex_generated_decode_cudaDeviceSetGraphMemAttribute_response "\<lambda>_. True" "\<lambda>_. True"
    corex_generated_call_cudaDeviceSetGraphMemAttribute 90
  by unfold_locales (auto simp: corex_generated_call_cudaDeviceSetGraphMemAttribute_def corex_generated_encode_cudaDeviceSetGraphMemAttribute_request_def wire_simps)

interpretation cudaDeviceGraphMemTrim: remote_procedure
    "\<lambda>v. the (corex_generated_encode_cudaDeviceGraphMemTrim_request 4 v)" corex_generated_decode_cudaDeviceGraphMemTrim_request "\<lambda>_. True" "\<lambda>_. True"
    "\<lambda>v. the (corex_generated_encode_cudaDeviceGraphMemTrim_response 0 v)" corex_generated_decode_cudaDeviceGraphMemTrim_response "\<lambda>_. True" "\<lambda>_. True"
    corex_generated_call_cudaDeviceGraphMemTrim 91
  by unfold_locales (auto simp: corex_generated_call_cudaDeviceGraphMemTrim_def corex_generated_encode_cudaDeviceGraphMemTrim_request_def wire_simps)

interpretation cudaFuncGetAttributes: remote_procedure
    "\<lambda>v. the (corex_generated_encode_cudaFuncGetAttributes_request 8 v)" corex_generated_decode_cudaFuncGetAttributes_request "\<lambda>_. True" "\<lambda>_. True"
    "\<lambda>v. the (corex_generated_encode_cudaFuncGetAttributes_response 36 v)" corex_generated_decode_cudaFuncGetAttributes_response "\<lambda>_. True" "\<lambda>_. True"
    corex_generated_call_cudaFuncGetAttributes 92
  by unfold_locales (auto simp: corex_generated_call_cudaFuncGetAttributes_def corex_generated_encode_cudaFuncGetAttributes_request_def wire_simps)

end
