(* ===== verification/Client.thy ===== *)
theory Client
  imports Stubs Dispatch
begin

text \<open>
  The state of the client library, \<open>CorexRuntimeContext\<close> of \<^verbatim>\<open>include/internal/corex_runtime_context.h\<close>
  with the thread-local variables of \<^verbatim>\<open>src/corex_remote_cuda.c\<close>, and the functions every entry point goes
  through: \<open>rpc\<close>, the session failure path, the mapping of remote errors and the lazy connection.

  The operating system is a parameter \<open>system\<close>: it answers each operation from the operations before
  it. A handle the application holds (\<open>cudaStream_t\<close> and the like) is the address of an entry of a
  table of the context; here it is the position of the entry, and \<^const>\<open>None\<close> the null pointer. Any other
  pointer is a position outside the table. The heap blocks the context owns (frontiers, images) are
  values, \<^const>\<open>None\<close> once they are freed.
\<close>

section \<open>Enumerations\<close>

datatype cudaError_t =
    cudaSuccess | cudaErrorInvalidValue | cudaErrorMemoryAllocation | cudaErrorInitializationError
  | cudaErrorInvalidDevice | cudaErrorInvalidDevicePointer | cudaErrorInvalidSymbol
  | cudaErrorInvalidMemcpyDirection | cudaErrorInvalidResourceHandle | cudaErrorSymbolNotFound
  | cudaErrorNotReady | cudaErrorHostMemoryAlreadyRegistered | cudaErrorHostMemoryNotRegistered
  | cudaErrorNotSupported | cudaErrorStreamCaptureUnsupported | cudaErrorStreamCaptureInvalidated
  | cudaErrorStreamCaptureWrongThread | cudaErrorGraphExecUpdateFailure | cudaErrorOperatingSystem
  | cudaErrorUnknown

datatype cudaStreamCaptureStatus =
  cudaStreamCaptureStatusNone | cudaStreamCaptureStatusActive | cudaStreamCaptureStatusInvalidated

datatype cudaStreamCaptureMode =
  cudaStreamCaptureModeGlobal | cudaStreamCaptureModeThreadLocal | cudaStreamCaptureModeRelaxed

datatype CorexMemoryLayoutKind = COREX_LAYOUT_LINEAR | COREX_LAYOUT_PITCHED_2D | COREX_LAYOUT_PITCHED_3D

datatype G7DKernelOrigin = G7D_KERNEL_ORIGIN_UNSET | G7D_KERNEL_ORIGIN_CONTROLLED | G7D_KERNEL_ORIGIN_COMPILER

datatype G7DAbiState = G7D_ABI_UNKNOWN | G7D_ABI_READY | G7D_ABI_FAILED

datatype corexRemoteKernelArgKind = COREX_REMOTE_KERNEL_ARG_DEVICE_PTR | COREX_REMOTE_KERNEL_ARG_BY_VALUE

datatype G7CRegistrationState =
    G7C_REG_EMPTY | G7C_REG_REGISTERING | G7C_REG_REMOTE_READY | G7C_REG_LIVE | G7C_REG_FAILED
  | G7C_REG_UNLOAD_FAILED | G7C_REG_DEAD

datatype HiddenTransferKind =
    HIDDEN_TRANSFER_UNSET | HIDDEN_TRANSFER_H2D | HIDDEN_TRANSFER_D2H | HIDDEN_TRANSFER_H2D_2D
  | HIDDEN_TRANSFER_D2H_2D | HIDDEN_TRANSFER_H2D_3D | HIDDEN_TRANSFER_D2H_3D

datatype CorexRuntimeLifecycle =
    COREX_RUNTIME_UNINITIALIZED | COREX_RUNTIME_ACTIVE | COREX_RUNTIME_SHUTTING_DOWN
  | COREX_RUNTIME_DISCONNECTED | COREX_RUNTIME_FAILED

datatype CorexHelloState = COREX_HELLO_UNDETERMINED | COREX_HELLO_NEGOTIATED | COREX_HELLO_LEGACY_V3

abbreviation (input) G6A_MAX_ALLOCS :: nat where "G6A_MAX_ALLOCS \<equiv> 1024"
abbreviation (input) G6C_MAX_STREAM_HANDLES :: nat where "G6C_MAX_STREAM_HANDLES \<equiv> 1024"
abbreviation (input) G6E_FRONTIER_SLOTS :: nat where "G6E_FRONTIER_SLOTS \<equiv> 1025"
abbreviation (input) G6E_DEFAULT_STREAM_SLOT :: nat where "G6E_DEFAULT_STREAM_SLOT \<equiv> 1024"
abbreviation (input) G6C_MAX_EVENT_HANDLES :: nat where "G6C_MAX_EVENT_HANDLES \<equiv> 1024"
abbreviation (input) G6C_MAX_HIDDEN_TRANSFERS :: nat where "G6C_MAX_HIDDEN_TRANSFERS \<equiv> 2048"
abbreviation (input) G6D_MAX_MODULE_HANDLES :: nat where "G6D_MAX_MODULE_HANDLES \<equiv> 128"
abbreviation (input) G6D_MAX_KERNEL_HANDLES :: nat where "G6D_MAX_KERNEL_HANDLES \<equiv> 512"
abbreviation (input) G6D_MAX_KERNEL_ARGS :: nat where "G6D_MAX_KERNEL_ARGS \<equiv> 32"
abbreviation (input) G7C_MAX_FATBIN_REGISTRATIONS :: nat where "G7C_MAX_FATBIN_REGISTRATIONS \<equiv> 128"
abbreviation (input) COREX_MAX_POOL_HANDLES :: nat where "COREX_MAX_POOL_HANDLES \<equiv> 128"
abbreviation (input) CRX_GRAPH_MAX_GRAPHS :: nat where "CRX_GRAPH_MAX_GRAPHS \<equiv> 128"
abbreviation (input) CRX_GRAPH_MAX_EXECS :: nat where "CRX_GRAPH_MAX_EXECS \<equiv> 128"
abbreviation (input) CRX_GRAPH_MAX_NODE_HANDLES :: nat where "CRX_GRAPH_MAX_NODE_HANDLES \<equiv> 4096"

abbreviation (input) G6C_STREAM_COOKIE :: u64 where "G6C_STREAM_COOKIE \<equiv> 0x5354524d47364331"
abbreviation (input) G6C_EVENT_COOKIE :: u64 where "G6C_EVENT_COOKIE \<equiv> 0x45564e5447364331"
abbreviation (input) G6D_MODULE_COOKIE :: u64 where "G6D_MODULE_COOKIE \<equiv> 0x4d4f444c47364431"
abbreviation (input) G6D_KERNEL_COOKIE :: u64 where "G6D_KERNEL_COOKIE \<equiv> 0x4b45524e47364431"
abbreviation (input) G7C_REG_COOKIE :: u64 where "G7C_REG_COOKIE \<equiv> 0x4737435245473031"

section \<open>The tables\<close>

record VirtualAllocation =
  va_live :: bool
  va_session_generation :: u64
  va_virtual_base :: u64
  va_size :: u64
  va_allocation_id :: u64
  va_parent_module_id :: u64
  va_graph_id :: u64
  va_graph_active :: bool
  va_graph_paired :: bool
  va_host_symbol :: u64
  va_layout_kind :: CorexMemoryLayoutKind
  va_logical_width_bytes :: u64
  va_logical_height :: u64
  va_logical_depth :: u64
  va_pitch :: u64
  va_slice_pitch :: u64

definition zero_virtual_allocation :: VirtualAllocation where
  "zero_virtual_allocation = \<lparr>va_live = False, va_session_generation = 0, va_virtual_base = 0, va_size = 0,
     va_allocation_id = 0, va_parent_module_id = 0, va_graph_id = 0, va_graph_active = False,
     va_graph_paired = False, va_host_symbol = 0, va_layout_kind = COREX_LAYOUT_LINEAR,
     va_logical_width_bytes = 0, va_logical_height = 0, va_logical_depth = 0, va_pitch = 0, va_slice_pitch = 0\<rparr>"

record corexCudaStreamHandle =
  sh_cookie :: u64
  sh_session_generation :: u64
  sh_stream_id :: u64
  sh_flags :: u32
  sh_priority :: u32
  sh_live :: bool
  sh_slot_index :: nat
  sh_next_transfer_seq :: u64
  sh_frontier :: "u64 list option"

definition zero_stream_handle :: corexCudaStreamHandle where
  "zero_stream_handle = \<lparr>sh_cookie = 0, sh_session_generation = 0, sh_stream_id = 0, sh_flags = 0,
     sh_priority = 0, sh_live = False, sh_slot_index = 0, sh_next_transfer_seq = 0, sh_frontier = None\<rparr>"

record corexCudaEventHandle =
  eh_cookie :: u64
  eh_session_generation :: u64
  eh_event_id :: u64
  eh_flags :: u32
  eh_live :: bool
  eh_recorded :: bool
  eh_frontier :: "u64 list option"

definition zero_event_handle :: corexCudaEventHandle where
  "zero_event_handle = \<lparr>eh_cookie = 0, eh_session_generation = 0, eh_event_id = 0, eh_flags = 0,
     eh_live = False, eh_recorded = False, eh_frontier = None\<rparr>"

record corexCudaPoolHandle =
  ph_session_generation :: u64
  ph_pool_id :: u64
  ph_live :: bool

definition zero_pool_handle :: corexCudaPoolHandle where
  "zero_pool_handle = \<lparr>ph_session_generation = 0, ph_pool_id = 0, ph_live = False\<rparr>"

record corexRemoteModuleHandle =
  mh_cookie :: u64
  mh_session_generation :: u64
  mh_module_id :: u64
  mh_live :: bool
  mh_library_image :: "bytes option"

definition zero_module_handle :: corexRemoteModuleHandle where
  "zero_module_handle = \<lparr>mh_cookie = 0, mh_session_generation = 0, mh_module_id = 0, mh_live = False,
     mh_library_image = None\<rparr>"

record corexRemoteKernelArgDesc =
  ad_kind :: corexRemoteKernelArgKind
  ad_size :: u32

text \<open>The argument descriptions of a kernel are the first \<open>argc\<close> entries of its array.\<close>

record corexRemoteKernelHandle =
  kh_cookie :: u64
  kh_session_generation :: u64
  kh_kernel_id :: u64
  kh_module_id :: u64
  kh_live :: bool
  kh_origin :: G7DKernelOrigin
  kh_abi_state :: G7DAbiState
  kh_host_fun :: u64
  kh_registration_generation :: u64
  kh_args :: "corexRemoteKernelArgDesc list"
  kh_name :: bytes

definition zero_kernel_handle :: corexRemoteKernelHandle where
  "zero_kernel_handle = \<lparr>kh_cookie = 0, kh_session_generation = 0, kh_kernel_id = 0, kh_module_id = 0,
     kh_live = False, kh_origin = G7D_KERNEL_ORIGIN_UNSET, kh_abi_state = G7D_ABI_UNKNOWN, kh_host_fun = 0,
     kh_registration_generation = 0, kh_args = [], kh_name = []\<rparr>"

record G7CFatbinRegistration =
  rg_cookie :: u64
  rg_generation :: u64
  rg_session_generation :: u64
  rg_state :: G7CRegistrationState
  rg_compiler_wrapper :: u64
  rg_fatbin_ptr :: u64
  rg_fatbin_size :: u64
  rg_image_ptr :: u64
  rg_image_size :: u64
  rg_image_offset :: u64
  rg_remote_module :: "nat option"
  rg_module_id_snapshot :: u64
  rg_registration_error :: cudaError_t
  rg_extraction_error :: int
  rg_function_registration_calls :: u32

definition zero_registration :: G7CFatbinRegistration where
  "zero_registration = \<lparr>rg_cookie = 0, rg_generation = 0, rg_session_generation = 0, rg_state = G7C_REG_EMPTY,
     rg_compiler_wrapper = 0, rg_fatbin_ptr = 0, rg_fatbin_size = 0, rg_image_ptr = 0, rg_image_size = 0,
     rg_image_offset = 0, rg_remote_module = None, rg_module_id_snapshot = 0,
     rg_registration_error = cudaSuccess, rg_extraction_error = 0, rg_function_registration_calls = 0\<rparr>"

record HiddenTransfer =
  ht_live :: bool
  ht_session_generation :: u64
  ht_transfer_id :: u64
  ht_kind :: HiddenTransferKind
  ht_allocation_id :: u64
  ht_origin_stream_slot :: nat
  ht_origin_stream_seq :: u64
  ht_submit_order :: u64
  ht_host_dst :: u64
  ht_bytes :: u64
  ht_host_pitch :: u64
  ht_width :: u64
  ht_height :: u64
  ht_depth :: u64
  ht_host_slice_pitch :: u64

definition zero_hidden_transfer :: HiddenTransfer where
  "zero_hidden_transfer = \<lparr>ht_live = False, ht_session_generation = 0, ht_transfer_id = 0,
     ht_kind = HIDDEN_TRANSFER_UNSET, ht_allocation_id = 0, ht_origin_stream_slot = 0, ht_origin_stream_seq = 0,
     ht_submit_order = 0, ht_host_dst = 0, ht_bytes = 0, ht_host_pitch = 0, ht_width = 0, ht_height = 0,
     ht_depth = 0, ht_host_slice_pitch = 0\<rparr>"

text \<open>
  The handles of graphs, executable graphs and graph nodes, with the fields the operations modelled
  here read or write, and the state of a stream capture.
\<close>

record corexCudaGraphHandle =
  gh_id :: u64
  gh_generation :: u64
  gh_live :: bool

record corexCudaGraphExecHandle =
  xh_id :: u64
  xh_generation :: u64
  xh_live :: bool
  xh_frontier :: "u64 list option"
  xh_allocations :: "u64 list"

record corexCudaGraphNodeHandle =
  nh_id :: u64
  nh_generation :: u64
  nh_graph_id :: u64
  nh_live :: bool
  nh_arg_storage :: "bytes option"

record capture_state =
  cap_status :: cudaStreamCaptureStatus
  cap_stream :: "nat option"
  cap_graph :: "nat option"
  cap_tail :: "nat option"
  cap_dependencies :: "nat list"
  cap_owner :: nat

definition zero_capture :: capture_state where
  "zero_capture = \<lparr>cap_status = cudaStreamCaptureStatusNone, cap_stream = None, cap_graph = None, cap_tail = None,
     cap_dependencies = [], cap_owner = 0\<rparr>"

section \<open>The context\<close>

text \<open>Memory of the client that is locked, and the host function that waits to be called.\<close>

record HostAllocation =
  ha_base :: u64
  ha_size :: u64
  ha_locked_size :: u64
  ha_flags :: u32
  ha_owned :: bool

definition zero_host_allocation :: HostAllocation where
  "zero_host_allocation = \<lparr>ha_base = 0, ha_size = 0, ha_locked_size = 0, ha_flags = 0, ha_owned = False\<rparr>"

record callback_state =
  cb_worker_started :: bool
  cb_pending :: bool
  cb_stream :: "nat option"
  cb_host_function :: u64
  cb_stream_callback :: u64
  cb_data :: u64
  cb_stream_id :: u64
  cb_frontier :: "u64 list"

definition zero_callback :: callback_state where
  "zero_callback = \<lparr>cb_worker_started = False, cb_pending = False, cb_stream = None, cb_host_function = 0,
     cb_stream_callback = 0, cb_data = 0, cb_stream_id = 0, cb_frontier = []\<rparr>"

text \<open>
  What the library asks of the operating system. A send or a receive is the whole loop of \<open>send_all\<close>
  or \<open>recv_all\<close>; an answer says whether it succeeded and carries the bytes received or the address or
  descriptor returned.
\<close>

datatype sys_op =
    Sys_send bytes | Sys_recv nat | Sys_malloc u64 | Sys_mmap u64 | Sys_connect | Sys_close int | Sys_atexit
  | Sys_mlock u64 u64 | Sys_munlock u64 u64 | Sys_munmap u64 u64 | Sys_thread

record sys_outcome =
  so_ok :: bool
  so_data :: bytes
  so_value :: u64

type_synonym system = "sys_op list \<Rightarrow> sys_op \<Rightarrow> sys_outcome"

text \<open>
  The context with the names of the code's macros, the thread-local variables of the calling thread
  \<open>self\<close>, the memory of the process as the application sees it, and the operations made so far.
\<close>

record client =
  g_fd :: int
  g_next_req_id :: u32
  g_lifecycle :: CorexRuntimeLifecycle
  g_active_session_generation :: u64
  g_next_session_generation :: u64
  g_hello_state :: CorexHelloState
  g_hello :: CorexHello
  g_va_arena :: u64
  g_va_next :: u64
  g_allocs :: "VirtualAllocation list"
  g_host_allocs :: "HostAllocation list"
  g_callback :: callback_state
  g_stream_handles :: "corexCudaStreamHandle list"
  g_event_handles :: "corexCudaEventHandle list"
  g_pool_handles :: "corexCudaPoolHandle list"
  g_pool_handle_next :: nat
  g_graph_handles :: "corexCudaGraphHandle list"
  g_graph_execs :: "corexCudaGraphExecHandle list"
  g_graph_nodes :: "corexCudaGraphNodeHandle list"
  g_capture :: capture_state
  g_hidden_transfers :: "HiddenTransfer list"
  g_module_handles :: "corexRemoteModuleHandle list"
  g_kernel_handles :: "corexRemoteKernelHandle list"
  g_registrations :: "G7CFatbinRegistration list"
  g_stream_handle_next :: nat
  g_event_handle_next :: nat
  g_module_handle_next :: nat
  g_kernel_handle_next :: nat
  g_registration_next :: nat
  g_registration_generation_next :: u64
  g_transfer_submit_order :: u64
  g_default_frontier :: "u64 list option"
  g_default_next_transfer_seq :: u64
  g_shutdown_registered :: bool
  g_current_device :: u32
  g_last_error :: cudaError_t
  g_last_remote_status :: u32
  g_last_rpc_transport_error :: bool
  g_capture_interaction :: cudaStreamCaptureMode
  self :: nat
  host :: "u64 \<Rightarrow> u8"
  io :: "sys_op list"

definition zero_hello :: CorexHello where
  "zero_hello = \<lparr>server_major = 0, server_minor = 0, server_patch = 0, backend_id = 0, backend_version = 0,
     device_count = 0, device_profile_id = 0, capability_count = 0, capabilities = []\<rparr>"

text \<open>The initial context of \<^verbatim>\<open>src/corex_runtime_context.c\<close>; the graph tables hold the entries in use.\<close>

definition g_runtime_context :: client where
  "g_runtime_context = \<lparr>g_fd = - 1, g_next_req_id = 1, g_lifecycle = COREX_RUNTIME_UNINITIALIZED,
     g_active_session_generation = 0, g_next_session_generation = 1, g_hello_state = COREX_HELLO_UNDETERMINED,
     g_hello = zero_hello, g_va_arena = 0, g_va_next = 0, g_allocs = replicate G6A_MAX_ALLOCS zero_virtual_allocation,
     g_host_allocs = replicate G6A_MAX_ALLOCS zero_host_allocation, g_callback = zero_callback,
     g_stream_handles = replicate G6C_MAX_STREAM_HANDLES zero_stream_handle,
     g_event_handles = replicate G6C_MAX_EVENT_HANDLES zero_event_handle,
     g_pool_handles = replicate COREX_MAX_POOL_HANDLES zero_pool_handle, g_pool_handle_next = 0,
     g_graph_handles = [], g_graph_execs = [], g_graph_nodes = [], g_capture = zero_capture,
     g_hidden_transfers = replicate G6C_MAX_HIDDEN_TRANSFERS zero_hidden_transfer,
     g_module_handles = replicate G6D_MAX_MODULE_HANDLES zero_module_handle,
     g_kernel_handles = replicate G6D_MAX_KERNEL_HANDLES zero_kernel_handle,
     g_registrations = replicate G7C_MAX_FATBIN_REGISTRATIONS zero_registration,
     g_stream_handle_next = 0, g_event_handle_next = 0, g_module_handle_next = 0, g_kernel_handle_next = 0,
     g_registration_next = 0, g_registration_generation_next = 1, g_transfer_submit_order = 0,
     g_default_frontier = None, g_default_next_transfer_seq = 0, g_shutdown_registered = False,
     g_current_device = 0, g_last_error = cudaSuccess, g_last_remote_status = ST_OK,
     g_last_rpc_transport_error = False, g_capture_interaction = cudaStreamCaptureModeGlobal, self = 0,
     host = (\<lambda>_. 0), io = []\<rparr>"

definition syscall :: "system \<Rightarrow> sys_op \<Rightarrow> client \<Rightarrow> sys_outcome \<times> client" where
  "syscall sys op c = (sys (io c) op, c\<lparr>io := op # io c\<rparr>)"


section \<open>The transport\<close>

definition client_send_all :: "system \<Rightarrow> bytes \<Rightarrow> client \<Rightarrow> bool \<times> client" where
  "client_send_all sys buf c = (let (r, c) = syscall sys (Sys_send buf) c in (so_ok r, c))"

definition client_recv_all :: "system \<Rightarrow> nat \<Rightarrow> client \<Rightarrow> bytes option \<times> client" where
  "client_recv_all sys len c =
     (let (r, c) = syscall sys (Sys_recv len) c in (if so_ok r then Some (fit len (so_data r)) else None, c))"

text \<open>\<open>connect_server\<close>: the descriptor, or -1 when a step of the connection fails.\<close>

definition connect_server :: "system \<Rightarrow> client \<Rightarrow> int \<times> client" where
  "connect_server sys c = (let (r, c) = syscall sys Sys_connect c in (if so_ok r then uint (so_value r) else - 1, c))"

section \<open>The end of a session\<close>

text \<open>A loop over the first \<open>n\<close> entries of a table.\<close>

definition map_upto :: "nat \<Rightarrow> ('a \<Rightarrow> 'a) \<Rightarrow> 'a list \<Rightarrow> 'a list" where
  "map_upto n f xs = map f (take n xs) @ drop n xs"

definition invalidate_client_graphs :: "client \<Rightarrow> client" where
  "invalidate_client_graphs c = c\<lparr>g_capture := zero_capture,
     g_graph_handles := map (\<lambda>g. g\<lparr>gh_live := False\<rparr>) (g_graph_handles c),
     g_graph_execs := map (\<lambda>e. e\<lparr>xh_live := False, xh_frontier := None\<rparr>) (g_graph_execs c),
     g_graph_nodes := map (\<lambda>n. n\<lparr>nh_live := False, nh_arg_storage := None\<rparr>) (g_graph_nodes c)\<rparr>"

definition close_fd :: "system \<Rightarrow> client \<Rightarrow> client" where
  "close_fd sys c = (if g_fd c \<ge> 0 then (snd (syscall sys (Sys_close (g_fd c)) c))\<lparr>g_fd := - 1\<rparr> else c)"

definition fail_stream :: "u64 \<Rightarrow> corexCudaStreamHandle \<Rightarrow> corexCudaStreamHandle" where
  "fail_stream failed_generation h =
     (if sh_session_generation h \<noteq> failed_generation then h
      else h\<lparr>sh_frontier := None, sh_live := False, sh_stream_id := 0\<rparr>)"

definition fail_event :: "u64 \<Rightarrow> corexCudaEventHandle \<Rightarrow> corexCudaEventHandle" where
  "fail_event failed_generation h =
     (if eh_session_generation h \<noteq> failed_generation then h
      else h\<lparr>eh_frontier := None, eh_live := False, eh_event_id := 0, eh_recorded := False\<rparr>)"

definition fail_alloc :: "u64 \<Rightarrow> VirtualAllocation \<Rightarrow> VirtualAllocation" where
  "fail_alloc failed_generation a =
     (if va_session_generation a = failed_generation then a\<lparr>va_live := False\<rparr> else a)"

definition fail_module :: "u64 \<Rightarrow> corexRemoteModuleHandle \<Rightarrow> corexRemoteModuleHandle" where
  "fail_module failed_generation h =
     (if mh_session_generation h = failed_generation
      then h\<lparr>mh_library_image := None, mh_live := False, mh_module_id := 0\<rparr> else h)"

definition fail_kernel :: "u64 \<Rightarrow> corexRemoteKernelHandle \<Rightarrow> corexRemoteKernelHandle" where
  "fail_kernel failed_generation h =
     (if kh_session_generation h = failed_generation
      then h\<lparr>kh_live := False, kh_kernel_id := 0, kh_module_id := 0\<rparr> else h)"

definition fail_registration :: "u64 \<Rightarrow> G7CFatbinRegistration \<Rightarrow> G7CFatbinRegistration" where
  "fail_registration failed_generation reg =
     (if rg_session_generation reg \<noteq> failed_generation then reg
      else (let reg = reg\<lparr>rg_remote_module := None\<rparr>
            in if rg_state reg \<noteq> G7C_REG_EMPTY \<and> rg_state reg \<noteq> G7C_REG_FAILED
               then reg\<lparr>rg_state := G7C_REG_DEAD\<rparr> else reg))"

definition mark_session_failed_locked :: "system \<Rightarrow> client \<Rightarrow> client" where
  "mark_session_failed_locked sys c =
     (let c = invalidate_client_graphs c;
          failed_generation = g_active_session_generation c;
          c = c\<lparr>g_hello_state := COREX_HELLO_UNDETERMINED, g_hello := zero_hello\<rparr>;
          c = close_fd sys c
      in c\<lparr>g_stream_handles := map_upto (g_stream_handle_next c) (fail_stream failed_generation) (g_stream_handles c),
           g_event_handles := map_upto (g_event_handle_next c) (fail_event failed_generation) (g_event_handles c),
           g_allocs := map (fail_alloc failed_generation) (g_allocs c),
           g_module_handles := map (fail_module failed_generation) (g_module_handles c),
           g_kernel_handles := map (fail_kernel failed_generation) (g_kernel_handles c),
           g_registrations := map (fail_registration failed_generation) (g_registrations c),
           g_pool_handles := map_upto (g_pool_handle_next c) (\<lambda>p. p\<lparr>ph_live := False\<rparr>) (g_pool_handles c),
           g_hidden_transfers := replicate G6C_MAX_HIDDEN_TRANSFERS zero_hidden_transfer,
           g_default_frontier := None, g_default_next_transfer_seq := 0, g_transfer_submit_order := 0,
           g_active_session_generation := 0, g_lifecycle := COREX_RUNTIME_FAILED\<rparr>)"

section \<open>The remote call\<close>

text \<open>
  The exchange itself, after the capture gate: the request is numbered and sent, the response must
  carry the same opcode and number. \<^const>\<open>None\<close> is the return value -1. Any failure of the transport and
  any mismatch fails the session.
\<close>

definition transport_failure :: "system \<Rightarrow> client \<Rightarrow> bytes option \<times> client" where
  "transport_failure sys c = (None, mark_session_failed_locked sys (c\<lparr>g_last_rpc_transport_error := True\<rparr>))"

definition recv_response :: "system \<Rightarrow> u32 \<Rightarrow> u32 \<Rightarrow> client \<Rightarrow> bytes option \<times> client" where
  "recv_response sys status response_len c =
     (let (allocated, c) =
            (if response_len > 0 then (let (r, c) = syscall sys (Sys_malloc (ucast response_len)) c in (so_ok r, c)) else (True, c))
      in if \<not> allocated then transport_failure sys c
         else let (response, c) =
                    (if response_len > 0 then client_recv_all sys (unat response_len) c else (Some [], c))
              in case response of
                   None \<Rightarrow> transport_failure sys c
                 | Some response \<Rightarrow>
                     if status \<noteq> ST_OK then (None, c\<lparr>g_last_remote_status := status\<rparr>) else (Some response, c))"

definition rpc_exchange :: "system \<Rightarrow> client rpc_call" where
  "rpc_exchange sys opcode payload c =
     (let req_id = g_next_req_id c;
          c = c\<lparr>g_next_req_id := req_id + 1\<rparr>;
          payload_len = of_nat (length payload);
          (sent, c) = client_send_all sys (corex_protocol_encode_request_header opcode req_id payload_len) c
      in if \<not> sent then transport_failure sys c
         else let (sent, c) = (if payload_len > 0 then client_send_all sys payload c else (True, c))
              in if \<not> sent then transport_failure sys c
                 else case client_recv_all sys 24 c of
                        (None, c) \<Rightarrow> transport_failure sys c
                      | (Some rh, c) \<Rightarrow>
                          (case corex_protocol_decode_response_header rh of
                             None \<Rightarrow> transport_failure sys c
                           | Some response_header \<Rightarrow>
                               if rs_opcode response_header \<noteq> opcode \<or> rs_request_id response_header \<noteq> req_id
                               then transport_failure sys c
                               else if opcode = OP_HELLO \<and>
                                   (unat (rs_payload_length response_header) > CRX_HELLO_MAX_BYTES \<or>
                                    rs_status response_header \<noteq> ST_OK \<and> rs_payload_length response_header \<noteq> 0)
                               then transport_failure sys c
                               else recv_response sys (rs_status response_header) (rs_payload_length response_header) c))"

text \<open>
  During a capture only the safe opcodes pass. An allocation by another thread, or under a relaxed
  interaction mode, first asks the server for leave with a graph command; that opcode is safe, so the
  nested call is an exchange.
\<close>

definition capture_graph_id :: "client \<Rightarrow> u64" where
  "capture_graph_id c = (case cap_graph (g_capture c) of Some g \<Rightarrow> gh_id (g_graph_handles c ! g) | None \<Rightarrow> 0)"

abbreviation (input) GRAPH_CAPTURE_ALLOW_ALLOC :: u32 where "GRAPH_CAPTURE_ALLOW_ALLOC \<equiv> 35"

definition graph_request :: CorexGeneratedcudaGraphCreateRequest where
  "graph_request = \<lparr>gq_action = 0, gq_graph = 0, gq_node = 0, gq_exec = 0, gq_stream = 0, gq_kind = 0, gq_value = 0, gq_data = []\<rparr>"

definition capture_allow_allocation_locked :: "system \<Rightarrow> client \<Rightarrow> CorexGeneratedcudaGraphCreateResponse option \<times> client" where
  "capture_allow_allocation_locked sys c =
     corex_generated_call_cudaGraphCreate (rpc_exchange sys)
       (graph_request\<lparr>gq_action := GRAPH_CAPTURE_ALLOW_ALLOC, gq_graph := capture_graph_id c, gq_value := ucast OP_ALLOC\<rparr>) c"

definition rpc :: "system \<Rightarrow> client rpc_call" where
  "rpc sys opcode payload c =
     (let c = c\<lparr>g_last_remote_status := ST_OK, g_last_rpc_transport_error := False\<rparr>;
          capture = g_capture c
      in if cap_status capture \<noteq> cudaStreamCaptureStatusNone \<and> \<not> corex_graph_capture_safe_opcode opcode
         then if opcode = OP_ALLOC \<and> cap_status capture = cudaStreamCaptureStatusActive \<and>
                 (cap_owner capture \<noteq> self c \<or> g_capture_interaction c = cudaStreamCaptureModeRelaxed)
              then (case capture_allow_allocation_locked sys c of
                      (None, c) \<Rightarrow> (None, c)
                    | (Some _, c) \<Rightarrow> rpc_exchange sys opcode payload c)
              else (None, c\<lparr>g_capture := capture\<lparr>cap_status := cudaStreamCaptureStatusInvalidated\<rparr>,
                           g_last_remote_status := ST_CAPTURE_UNSUPPORTED\<rparr>)
         else rpc_exchange sys opcode payload c)"

section \<open>Errors\<close>

definition record_error :: "cudaError_t \<Rightarrow> client \<Rightarrow> cudaError_t \<times> client" where
  "record_error error c = (error, if error \<noteq> cudaSuccess then c\<lparr>g_last_error := error\<rparr> else c)"

definition map_last_rpc_error :: "cudaError_t \<Rightarrow> client \<Rightarrow> cudaError_t" where
  "map_last_rpc_error fallback c =
     (if g_last_rpc_transport_error c then cudaErrorUnknown
      else let status = g_last_remote_status c
           in if status \<in> {ST_BAD_REQUEST, ST_ABI_MISMATCH, ST_METADATA_ERROR} then cudaErrorInvalidValue
              else if status = ST_NOT_FOUND then cudaErrorInvalidResourceHandle
              else if status = ST_INVALID_DEVICE then cudaErrorInvalidDevice
              else if status = ST_SYMBOL_NOT_FOUND then cudaErrorSymbolNotFound
              else if status = ST_NOT_SUPPORTED then cudaErrorNotSupported
              else if status = ST_CAPTURE_UNSUPPORTED then cudaErrorStreamCaptureUnsupported
              else if status = ST_NO_RESOURCE then cudaErrorMemoryAllocation
              else fallback)"

definition cudaPeekAtLastError :: "client \<Rightarrow> cudaError_t \<times> client" where
  "cudaPeekAtLastError c = (g_last_error c, c)"

definition cudaGetLastError :: "client \<Rightarrow> cudaError_t \<times> client" where
  "cudaGetLastError c = (g_last_error c, c\<lparr>g_last_error := cudaSuccess\<rparr>)"

section \<open>The lazy connection\<close>

abbreviation (input) G6A_VA_ARENA_BYTES :: u64 where "G6A_VA_ARENA_BYTES \<equiv> 0x1000000000"

definition ensure_arena :: "system \<Rightarrow> client \<Rightarrow> bool \<times> client" where
  "ensure_arena sys c =
     (if g_va_arena c \<noteq> 0 then (True, c)
      else let (r, c) = syscall sys (Sys_mmap G6A_VA_ARENA_BYTES) c
           in if so_ok r then (True, c\<lparr>g_va_arena := so_value r, g_va_next := 0\<rparr>) else (False, c))"

text \<open>The handshake of a new connection; \<open>True\<close> when the session can be used.\<close>

definition negotiate_hello :: "system \<Rightarrow> client \<Rightarrow> bool \<times> client" where
  "negotiate_hello sys c =
     (case rpc sys OP_HELLO [] c of
        (Some hello_payload, c) \<Rightarrow>
          (case corex_protocol_decode_hello hello_payload of
             None \<Rightarrow> (False, mark_session_failed_locked sys c)
           | Some hello \<Rightarrow> (True, c\<lparr>g_hello := hello, g_hello_state := COREX_HELLO_NEGOTIATED\<rparr>))
      | (None, c) \<Rightarrow>
          if \<not> g_last_rpc_transport_error c \<and> g_last_remote_status c = ST_BAD_REQUEST
          then (True, c\<lparr>g_hello_state := COREX_HELLO_LEGACY_V3, g_last_remote_status := ST_OK\<rparr>)
          else (False, if g_fd c \<ge> 0 then mark_session_failed_locked sys c else c))"

definition register_shutdown :: "system \<Rightarrow> client \<Rightarrow> client" where
  "register_shutdown sys c =
     (if g_shutdown_registered c then c
      else let (r, c) = syscall sys Sys_atexit c in if so_ok r then c\<lparr>g_shutdown_registered := True\<rparr> else c)"

definition default_frontier_buffer :: "system \<Rightarrow> client \<Rightarrow> bool \<times> client" where
  "default_frontier_buffer sys c =
     (if g_default_frontier c \<noteq> None then (True, c)
      else let (r, c) = syscall sys (Sys_malloc (8 * of_nat G6E_FRONTIER_SLOTS)) c
           in if so_ok r then (True, c\<lparr>g_default_frontier := Some (replicate G6E_FRONTIER_SLOTS 0)\<rparr>) else (False, c))"

definition ensure_runtime_locked :: "system \<Rightarrow> client \<Rightarrow> cudaError_t \<times> client" where
  "ensure_runtime_locked sys c =
     (if g_lifecycle c = COREX_RUNTIME_ACTIVE \<and> g_fd c \<ge> 0 then (cudaSuccess, c)
      else if g_lifecycle c = COREX_RUNTIME_SHUTTING_DOWN then record_error cudaErrorInitializationError c
      else if g_next_session_generation c = 0 then record_error cudaErrorInitializationError c
      else let (ok, c) = ensure_arena sys c
           in if \<not> ok then record_error cudaErrorMemoryAllocation c
              else let (ok, c) = default_frontier_buffer sys c
                   in if \<not> ok then record_error cudaErrorMemoryAllocation c
                      else let (fd, c) = connect_server sys c; c = c\<lparr>g_fd := fd\<rparr>
                           in if fd < 0 then record_error cudaErrorInitializationError (c\<lparr>g_lifecycle := COREX_RUNTIME_DISCONNECTED\<rparr>)
                              else let c = c\<lparr>g_active_session_generation := g_next_session_generation c,
                                             g_next_session_generation := g_next_session_generation c + 1,
                                             g_lifecycle := COREX_RUNTIME_ACTIVE,
                                             g_hello_state := COREX_HELLO_UNDETERMINED, g_hello := zero_hello\<rparr>;
                                       (ok, c) = negotiate_hello sys c
                                   in if \<not> ok then record_error cudaErrorInitializationError c
                                      else (cudaSuccess, register_shutdown sys c))"

end
