(* ===== verification/Client_Remote.thy ===== *)
theory Client_Remote
  imports Client
begin

text \<open>
  The \<open>remote_*\<close> functions of \<^verbatim>\<open>src/corex_remote_cuda.c\<close>: each builds the payload of one request, makes the
  call and checks the length of the answer. \<^const>\<open>None\<close> is the return value -1 and \<^const>\<open>Some\<close> the values stored
  through the out-parameters; \<^const>\<open>be32\<close> and \<^const>\<open>be64\<close> are the bytes \<open>corex_protocol_write_u32\<close> and
  \<open>corex_protocol_write_u64\<close> append, which are also those of a word converted by \<open>htonl\<close> or
  \<open>corex_protocol_to_be64\<close>. A buffer of the caller that is only read is the list of its bytes. The
  out-parameters are never null at the call sites, so the null checks on them have no branch.
\<close>

section \<open>Answers of a fixed length\<close>

definition expect :: "nat \<Rightarrow> (bytes \<Rightarrow> 'r) \<Rightarrow> bytes option \<times> client \<Rightarrow> 'r option \<times> client" where
  "expect n read = (\<lambda>(resp, c). case resp of
      None \<Rightarrow> (None, c)
    | Some resp \<Rightarrow> (if length resp = n then Some (read resp) else None, c))"

text \<open>Calls whose answer is discarded (\<open>response_out\<close> null).\<close>

definition discard :: "bytes option \<times> client \<Rightarrow> unit option \<times> client" where
  "discard = (\<lambda>(resp, c). (map_option (\<lambda>_. ()) resp, c))"

definition client_malloc :: "system \<Rightarrow> u64 \<Rightarrow> client \<Rightarrow> bool \<times> client" where
  "client_malloc sys n c = (let (r, c) = syscall sys (Sys_malloc n) c in (so_ok r, c))"

definition generated_rpc_call :: "system \<Rightarrow> client rpc_call" where
  "generated_rpc_call sys opcode payload c = rpc sys opcode payload c"

section \<open>Memory\<close>

definition remote_alloc :: "system \<Rightarrow> u64 \<Rightarrow> client \<Rightarrow> u64 option \<times> client" where
  "remote_alloc sys bytes c = expect 8 corex_protocol_read_u64 (rpc sys OP_ALLOC (be64 bytes) c)"

definition remote_alloc_pitched :: "system \<Rightarrow> u64 \<Rightarrow> u64 \<Rightarrow> client \<Rightarrow> (u64 \<times> u64 \<times> u64) option \<times> client" where
  "remote_alloc_pitched sys width height c =
     expect 24 (\<lambda>resp. (corex_protocol_read_u64 resp, corex_protocol_read_u64 (drop 8 resp), corex_protocol_read_u64 (drop 16 resp)))
       (rpc sys OP_ALLOC_PITCHED (be64 width @ be64 height) c)"

definition remote_free :: "system \<Rightarrow> u64 \<Rightarrow> client \<Rightarrow> unit option \<times> client" where
  "remote_free sys allocation_id c = discard (rpc sys OP_FREE (be64 allocation_id) c)"

text \<open>\<open>host_data\<close> is what \<open>host\<close> points to; the answer of a download is the value returned.\<close>

definition remote_memcpy2d :: "system \<Rightarrow> u32 \<Rightarrow> u64 \<Rightarrow> u64 \<Rightarrow> u64 \<Rightarrow> u64 \<Rightarrow> u64 \<Rightarrow> u64 \<Rightarrow> u64 \<Rightarrow> u64 \<Rightarrow> bytes \<Rightarrow>
    client \<Rightarrow> bytes option \<times> client" where
  "remote_memcpy2d sys mode did doff dpitch sid soff spitch width height host_data c =
     (if width \<noteq> 0 \<and> height > UINT32_MAX64 div width then (None, c)
      else let data_len = (if mode = 1 then width * height else 0); total = 68 + data_len
           in if total > UINT32_MAX64 then (None, c)
              else let (ok, c) = client_malloc sys total c
                   in if \<not> ok then (None, c)
                      else let payload = be32 mode @ be64 did @ be64 doff @ be64 dpitch @ be64 sid @ be64 soff @ be64 spitch @
                                 be64 width @ be64 height @ take (unat data_len) host_data
                           in case rpc sys OP_MEMCPY_2D payload c of
                                (None, c) \<Rightarrow> (None, c)
                              | (Some resp, c) \<Rightarrow>
                                  if mode = 2
                                  then (if of_nat (length resp) = width * height then Some resp else None, c)
                                  else (Some [], c))"

definition remote_memcpy2d_async_d2d :: "system \<Rightarrow> u64 \<Rightarrow> u64 \<Rightarrow> u64 \<Rightarrow> u64 \<Rightarrow> u64 \<Rightarrow> u64 \<Rightarrow> u64 \<Rightarrow> u64 \<Rightarrow> u64 \<Rightarrow>
    client \<Rightarrow> unit option \<times> client" where
  "remote_memcpy2d_async_d2d sys did doff dpitch sid soff spitch width height stream_id c =
     discard (rpc sys OP_MEMCPY_2D_ASYNC (be32 3 @ be64 did @ be64 doff @ be64 dpitch @ be64 sid @ be64 soff @ be64 spitch @
       be64 width @ be64 height @ be64 stream_id) c)"

definition remote_memset2d :: "system \<Rightarrow> u64 \<Rightarrow> u64 \<Rightarrow> u64 \<Rightarrow> u8 \<Rightarrow> u64 \<Rightarrow> u64 \<Rightarrow> client \<Rightarrow> unit option \<times> client" where
  "remote_memset2d sys allocation_id off pitch value width height c =
     discard (rpc sys OP_MEMSET_2D (be64 allocation_id @ be64 off @ be64 pitch @ be64 width @ be64 height @ be32 (ucast value)) c)"

abbreviation (input) CRX_MEMCPY3D_H2D_SUBMIT :: u32 where "CRX_MEMCPY3D_H2D_SUBMIT \<equiv> 4"
abbreviation (input) CRX_MEMCPY3D_D2H_SUBMIT :: u32 where "CRX_MEMCPY3D_D2H_SUBMIT \<equiv> 5"
abbreviation (input) CRX_MEMCPY3D_HEADER_BYTES :: u64 where "CRX_MEMCPY3D_HEADER_BYTES \<equiv> 92"
abbreviation (input) CRX_MEMCPY3D_ASYNC_HEADER_BYTES :: u64 where "CRX_MEMCPY3D_ASYNC_HEADER_BYTES \<equiv> 100"

datatype memcpy3d_result = Copied bytes | Submitted u64

definition remote_memcpy3d :: "system \<Rightarrow> u32 \<Rightarrow> u64 \<Rightarrow> u64 \<Rightarrow> u64 \<Rightarrow> u64 \<Rightarrow> u64 \<Rightarrow> u64 \<Rightarrow> u64 \<Rightarrow> u64 \<Rightarrow> u64 \<Rightarrow> u64 \<Rightarrow> u64 \<Rightarrow>
    bytes \<Rightarrow> bool \<Rightarrow> u64 \<Rightarrow> client \<Rightarrow> memcpy3d_result option \<times> client" where
  "remote_memcpy3d sys mode did doff dpitch dslice sid soff spitch sslice width height depth host_data async stream_id c =
     (if width = 0 \<or> height = 0 \<or> depth = 0 \<or> width > UINT64_MAX div height \<or> width * height > UINT64_MAX div depth then (None, c)
      else let wire_mode = (if async \<and> mode = 1 then CRX_MEMCPY3D_H2D_SUBMIT
                            else if async \<and> mode = 2 then CRX_MEMCPY3D_D2H_SUBMIT else mode);
               opcode = (if async then OP_MEMCPY_3D_ASYNC else OP_MEMCPY_3D);
               header = (if async then CRX_MEMCPY3D_ASYNC_HEADER_BYTES else CRX_MEMCPY3D_HEADER_BYTES);
               volume = width * height * depth
           in if mode = 1 \<and> volume > UINT32_MAX64 - header then (None, c)
              else let total = header + (if mode = 1 then volume else 0);
                       (ok, c) = client_malloc sys total c
                   in if \<not> ok then (None, c)
                      else let payload = be32 wire_mode @ be64 did @ be64 doff @ be64 dpitch @ be64 dslice @ be64 sid @ be64 soff @
                                 be64 spitch @ be64 sslice @ be64 width @ be64 height @ be64 depth @
                                 (if async then be64 stream_id else []) @ (if mode = 1 then take (unat volume) host_data else [])
                           in case rpc sys opcode payload c of
                                (None, c) \<Rightarrow> (None, c)
                              | (Some resp, c) \<Rightarrow>
                                  if async \<and> mode \<noteq> 3
                                  then (if length resp = 8 \<and> corex_protocol_read_u64 resp \<noteq> 0
                                        then Some (Submitted (corex_protocol_read_u64 resp)) else None, c)
                                  else if mode = 2
                                  then (if of_nat (length resp) = volume then Some (Copied resp) else None, c)
                                  else (if resp = [] then Some (Copied []) else None, c))"

definition remote_h2d :: "system \<Rightarrow> u64 \<Rightarrow> u64 \<Rightarrow> bytes \<Rightarrow> u64 \<Rightarrow> client \<Rightarrow> unit option \<times> client" where
  "remote_h2d sys allocation_id offset data bytes c =
     (if bytes > UINT32_MAX64 - 24 then (None, c)
      else let (ok, c) = client_malloc sys (24 + bytes) c
           in if \<not> ok then (None, c)
              else discard (rpc sys OP_H2D (be64 allocation_id @ be64 offset @ be64 bytes @ data) c))"

definition remote_d2h :: "system \<Rightarrow> u64 \<Rightarrow> u64 \<Rightarrow> u64 \<Rightarrow> client \<Rightarrow> bytes option \<times> client" where
  "remote_d2h sys allocation_id offset bytes c =
     expect (unat bytes) (\<lambda>resp. resp) (rpc sys OP_D2H (be64 allocation_id @ be64 offset @ be64 bytes) c)"

definition remote_d2d :: "system \<Rightarrow> u64 \<Rightarrow> u64 \<Rightarrow> u64 \<Rightarrow> u64 \<Rightarrow> u64 \<Rightarrow> client \<Rightarrow> unit option \<times> client" where
  "remote_d2d sys dst_allocation_id dst_offset src_allocation_id src_offset bytes c =
     discard (rpc sys OP_D2D (be64 dst_allocation_id @ be64 dst_offset @ be64 src_allocation_id @ be64 src_offset @ be64 bytes) c)"

definition remote_d2d_async :: "system \<Rightarrow> u64 \<Rightarrow> u64 \<Rightarrow> u64 \<Rightarrow> u64 \<Rightarrow> u64 \<Rightarrow> u64 \<Rightarrow> client \<Rightarrow> unit option \<times> client" where
  "remote_d2d_async sys dst_id dst_off src_id src_off bytes stream_id c =
     discard (rpc sys OP_D2D_ASYNC (be64 dst_id @ be64 dst_off @ be64 src_id @ be64 src_off @ be64 bytes @ be64 stream_id) c)"

definition remote_memset :: "system \<Rightarrow> u64 \<Rightarrow> u64 \<Rightarrow> u8 \<Rightarrow> u64 \<Rightarrow> client \<Rightarrow> unit option \<times> client" where
  "remote_memset sys allocation_id offset value bytes c =
     discard (rpc sys OP_MEMSET (be64 allocation_id @ be64 offset @ be32 (ucast value) @ be64 bytes) c)"

definition remote_memset_async :: "system \<Rightarrow> u64 \<Rightarrow> u64 \<Rightarrow> u8 \<Rightarrow> u64 \<Rightarrow> u64 \<Rightarrow> client \<Rightarrow> unit option \<times> client" where
  "remote_memset_async sys allocation_id offset value bytes stream_id c =
     discard (rpc sys OP_MEMSET_ASYNC (be64 allocation_id @ be64 offset @ be32 (ucast value) @ be64 bytes @ be64 stream_id) c)"

section \<open>Queries\<close>

definition remote_sync :: "system \<Rightarrow> client \<Rightarrow> unit option \<times> client" where
  "remote_sync sys c = corex_generated_call_cudaDeviceSynchronize (generated_rpc_call sys) () c"

definition remote_version_query :: "system \<Rightarrow> u32 \<Rightarrow> client \<Rightarrow> u32 option \<times> client" where
  "remote_version_query sys opcode c = expect 4 corex_protocol_read_u32 (rpc sys opcode [] c)"

definition remote_device_get_attribute :: "system \<Rightarrow> u32 \<Rightarrow> u32 \<Rightarrow> client \<Rightarrow> u32 option \<times> client" where
  "remote_device_get_attribute sys attribute device c =
     corex_generated_call_cudaDeviceGetAttribute (generated_rpc_call sys) (attribute, device) c"

definition remote_device_get_pci_bus_id :: "system \<Rightarrow> u32 \<Rightarrow> client \<Rightarrow> bytes option \<times> client" where
  "remote_device_get_pci_bus_id sys device c =
     corex_generated_call_cudaDeviceGetPCIBusId (generated_rpc_call sys) device c"

definition remote_device_get_by_pci_bus_id :: "system \<Rightarrow> bytes \<Rightarrow> client \<Rightarrow> u32 option \<times> client" where
  "remote_device_get_by_pci_bus_id sys pci_bus_id c =
     (if length pci_bus_id > 32 then (None, c)
      else corex_generated_call_cudaDeviceGetByPCIBusId (generated_rpc_call sys) (carray pci_bus_id) c)"

definition remote_get_device_flags :: "system \<Rightarrow> client \<Rightarrow> u32 option \<times> client" where
  "remote_get_device_flags sys c = corex_generated_call_cudaGetDeviceFlags (generated_rpc_call sys) () c"

definition remote_get_priority_range :: "system \<Rightarrow> client \<Rightarrow> (u32 \<times> u32) option \<times> client" where
  "remote_get_priority_range sys c = corex_generated_call_cudaDeviceGetStreamPriorityRange (generated_rpc_call sys) () c"

definition remote_get_limit :: "system \<Rightarrow> u32 \<Rightarrow> client \<Rightarrow> u64 option \<times> client" where
  "remote_get_limit sys limit c = corex_generated_call_cudaDeviceGetLimit (generated_rpc_call sys) limit c"

definition remote_get_cache_config :: "system \<Rightarrow> client \<Rightarrow> u32 option \<times> client" where
  "remote_get_cache_config sys c = corex_generated_call_cudaDeviceGetCacheConfig (generated_rpc_call sys) () c"

definition remote_get_shared_mem_config :: "system \<Rightarrow> client \<Rightarrow> u32 option \<times> client" where
  "remote_get_shared_mem_config sys c = corex_generated_call_cudaDeviceGetSharedMemConfig (generated_rpc_call sys) () c"

definition remote_function_set_attribute :: "system \<Rightarrow> u64 \<Rightarrow> u32 \<Rightarrow> u32 \<Rightarrow> client \<Rightarrow> unit option \<times> client" where
  "remote_function_set_attribute sys kernel_id attribute value c =
     corex_generated_call_cudaFuncSetAttribute (generated_rpc_call sys) (kernel_id, attribute, value) c"

definition remote_function_set_cache_config :: "system \<Rightarrow> u64 \<Rightarrow> u32 \<Rightarrow> client \<Rightarrow> unit option \<times> client" where
  "remote_function_set_cache_config sys kernel_id config c =
     corex_generated_call_cudaFuncSetCacheConfig (generated_rpc_call sys) (kernel_id, config) c"

text \<open>
  \<open>cudaFuncAttributes\<close>. With the capability in the handshake the schema call is used; its signed fields
  are extended to \<open>size_t\<close>. A legacy server answers seven unsigned words.
\<close>

record cudaFuncAttributes =
  fa_sharedSizeBytes :: u64
  fa_constSizeBytes :: u64
  fa_localSizeBytes :: u64
  fa_maxThreadsPerBlock :: u32
  fa_numRegs :: u32
  fa_ptxVersion :: u32
  fa_binaryVersion :: u32
  fa_cacheModeCA :: u32
  fa_maxDynamicSharedSizeBytes :: u32
  fa_preferredShmemCarveout :: u32

definition remote_function_attributes :: "system \<Rightarrow> u64 \<Rightarrow> client \<Rightarrow> cudaFuncAttributes option \<times> client" where
  "remote_function_attributes sys kernel_id c =
     (if CRX_CAP_FUNCTION_INFO \<in> set (take (unat (capability_count (g_hello c))) (capabilities (g_hello c)))
      then (case corex_generated_call_cudaFuncGetAttributes (generated_rpc_call sys) kernel_id c of
              (None, c) \<Rightarrow> (None, c)
            | (Some (shared_bytes, const_bytes, local_bytes, registers, ptx_version, binary_version, max_threads,
                     cache_mode_ca, max_dynamic_shared), c) \<Rightarrow>
                (Some \<lparr>fa_sharedSizeBytes = scast shared_bytes, fa_constSizeBytes = scast const_bytes,
                   fa_localSizeBytes = scast local_bytes, fa_maxThreadsPerBlock = max_threads, fa_numRegs = registers,
                   fa_ptxVersion = ptx_version, fa_binaryVersion = binary_version, fa_cacheModeCA = cache_mode_ca,
                   fa_maxDynamicSharedSizeBytes = max_dynamic_shared, fa_preferredShmemCarveout = - 1\<rparr>, c))
      else expect 28 (\<lambda>r. \<lparr>fa_sharedSizeBytes = ucast (corex_protocol_read_u32 r),
                   fa_constSizeBytes = ucast (corex_protocol_read_u32 (drop 4 r)),
                   fa_localSizeBytes = ucast (corex_protocol_read_u32 (drop 8 r)),
                   fa_maxThreadsPerBlock = corex_protocol_read_u32 (drop 24 r),
                   fa_numRegs = corex_protocol_read_u32 (drop 12 r), fa_ptxVersion = corex_protocol_read_u32 (drop 16 r),
                   fa_binaryVersion = corex_protocol_read_u32 (drop 20 r), fa_cacheModeCA = 0,
                   fa_maxDynamicSharedSizeBytes = 0, fa_preferredShmemCarveout = - 1\<rparr>)
             (rpc sys OP_FUNCTION_ATTRIBUTES (be64 kernel_id) c))"

definition remote_occupancy :: "system \<Rightarrow> u64 \<Rightarrow> u32 \<Rightarrow> u64 \<Rightarrow> client \<Rightarrow> u32 option \<times> client" where
  "remote_occupancy sys kernel_id block_size dynamic_shared c =
     expect 4 corex_protocol_read_u32 (rpc sys OP_OCCUPANCY (be64 kernel_id @ be32 block_size @ be64 dynamic_shared) c)"

section \<open>Modules and kernels\<close>

text \<open>A name is a C string without its terminator; \<open>strlen\<close> is its length.\<close>

definition remote_upload_module_bytes :: "system \<Rightarrow> u32 \<Rightarrow> bytes \<Rightarrow> bytes \<Rightarrow> client \<Rightarrow> u64 option \<times> client" where
  "remote_upload_module_bytes sys opcode wire_name code c =
     (let name_len = length wire_name; image_size = length code; total64 = 4 + name_len + 8 + image_size
      in if image_size = 0 \<or> name_len = 0 \<or> name_len \<ge> 128 \<or> image_size > 4294967295 then (None, c)
         else if total64 > 4294967295 then (None, c)
         else let (ok, c) = client_malloc sys (of_nat total64) c
              in if \<not> ok then (None, c)
                 else expect 8 corex_protocol_read_u64
                   (rpc sys opcode (be32 (of_nat name_len) @ wire_name @ be64 (of_nat image_size) @ code) c))"

definition remote_get_kernel :: "system \<Rightarrow> u64 \<Rightarrow> bytes \<Rightarrow> client \<Rightarrow> u64 option \<times> client" where
  "remote_get_kernel sys module_id name c =
     (let name_len = length name
      in if name_len = 0 \<or> name_len \<ge> 128 then (None, c)
         else let (ok, c) = client_malloc sys (of_nat (12 + name_len)) c
              in if \<not> ok then (None, c)
                 else expect 8 corex_protocol_read_u64 (rpc sys OP_GET_KERNEL (be64 module_id @ be32 (of_nat name_len) @ name) c))"

definition remote_unload_module :: "system \<Rightarrow> u64 \<Rightarrow> client \<Rightarrow> unit option \<times> client" where
  "remote_unload_module sys module_id c = discard (rpc sys OP_UNLOAD_MODULE (be64 module_id) c)"

section \<open>Streams and events\<close>

definition remote_create_stream_flags :: "system \<Rightarrow> u32 \<Rightarrow> client \<Rightarrow> u64 option \<times> client" where
  "remote_create_stream_flags sys flags c = expect 8 corex_protocol_read_u64 (rpc sys OP_CREATE_STREAM (be32 flags) c)"

definition remote_create_stream_priority :: "system \<Rightarrow> u32 \<Rightarrow> u32 \<Rightarrow> client \<Rightarrow> u64 option \<times> client" where
  "remote_create_stream_priority sys flags priority c =
     expect 8 corex_protocol_read_u64 (rpc sys OP_CREATE_STREAM_PRIORITY (be32 flags @ be32 priority) c)"

definition remote_stream_get_flags :: "system \<Rightarrow> u64 \<Rightarrow> client \<Rightarrow> u32 option \<times> client" where
  "remote_stream_get_flags sys stream_id c = expect 4 corex_protocol_read_u32 (rpc sys OP_STREAM_GET_FLAGS (be64 stream_id) c)"

definition remote_stream_get_priority :: "system \<Rightarrow> u64 \<Rightarrow> client \<Rightarrow> u32 option \<times> client" where
  "remote_stream_get_priority sys stream_id c =
     expect 4 corex_protocol_read_u32 (rpc sys OP_STREAM_GET_PRIORITY (be64 stream_id) c)"

definition remote_destroy_stream :: "system \<Rightarrow> u64 \<Rightarrow> client \<Rightarrow> unit option \<times> client" where
  "remote_destroy_stream sys stream_id c = discard (rpc sys OP_DESTROY_STREAM (be64 stream_id) c)"

definition remote_stream_sync :: "system \<Rightarrow> u64 \<Rightarrow> client \<Rightarrow> unit option \<times> client" where
  "remote_stream_sync sys stream_id c = discard (rpc sys OP_STREAM_SYNC (be64 stream_id) c)"

definition remote_stream_query :: "system \<Rightarrow> u64 \<Rightarrow> client \<Rightarrow> u32 option \<times> client" where
  "remote_stream_query sys stream_id c = corex_generated_call_cudaStreamQuery (generated_rpc_call sys) stream_id c"

definition remote_create_event :: "system \<Rightarrow> client \<Rightarrow> u64 option \<times> client" where
  "remote_create_event sys c = expect 8 corex_protocol_read_u64 (rpc sys OP_CREATE_EVENT (be32 0) c)"

definition remote_create_event_flags :: "system \<Rightarrow> u32 \<Rightarrow> client \<Rightarrow> u64 option \<times> client" where
  "remote_create_event_flags sys flags c = expect 8 corex_protocol_read_u64 (rpc sys OP_CREATE_EVENT (be32 flags) c)"

text \<open>The elapsed time is a single-precision number, kept as its bit pattern.\<close>

definition remote_event_elapsed :: "system \<Rightarrow> u64 \<Rightarrow> u64 \<Rightarrow> client \<Rightarrow> u32 option \<times> client" where
  "remote_event_elapsed sys start stop c =
     expect 4 corex_protocol_read_u32 (rpc sys OP_EVENT_ELAPSED_TIME (be64 start @ be64 stop) c)"

definition remote_destroy_event :: "system \<Rightarrow> u64 \<Rightarrow> client \<Rightarrow> unit option \<times> client" where
  "remote_destroy_event sys event_id c = discard (rpc sys OP_DESTROY_EVENT (be64 event_id) c)"

definition remote_event_record :: "system \<Rightarrow> u64 \<Rightarrow> u64 \<Rightarrow> client \<Rightarrow> unit option \<times> client" where
  "remote_event_record sys event_id stream_id c = discard (rpc sys OP_EVENT_RECORD (be64 event_id @ be64 stream_id) c)"

definition remote_event_sync :: "system \<Rightarrow> u64 \<Rightarrow> client \<Rightarrow> unit option \<times> client" where
  "remote_event_sync sys event_id c = discard (rpc sys OP_EVENT_SYNC (be64 event_id) c)"

definition remote_event_query :: "system \<Rightarrow> u64 \<Rightarrow> client \<Rightarrow> u32 option \<times> client" where
  "remote_event_query sys event_id c = corex_generated_call_cudaEventQuery (generated_rpc_call sys) event_id c"

definition remote_stream_wait_event :: "system \<Rightarrow> u64 \<Rightarrow> u64 \<Rightarrow> client \<Rightarrow> unit option \<times> client" where
  "remote_stream_wait_event sys stream_id event_id c =
     discard (rpc sys OP_STREAM_WAIT_EVENT (be64 stream_id @ be64 event_id @ be32 0) c)"

section \<open>Asynchronous transfers\<close>

definition remote_h2d_async_submit :: "system \<Rightarrow> u64 \<Rightarrow> u64 \<Rightarrow> u64 \<Rightarrow> bytes \<Rightarrow> u64 \<Rightarrow> client \<Rightarrow> u64 option \<times> client" where
  "remote_h2d_async_submit sys allocation_id offset stream_id data bytes c =
     (if bytes = 0 \<or> bytes > UINT32_MAX64 - 32 then (None, c)
      else let (ok, c) = client_malloc sys (32 + bytes) c
           in if \<not> ok then (None, c)
              else expect 8 corex_protocol_read_u64
                (rpc sys OP_H2D_ASYNC_SUBMIT (be64 allocation_id @ be64 offset @ be64 stream_id @ be64 bytes @ data) c))"

definition remote_d2h_async_submit :: "system \<Rightarrow> u64 \<Rightarrow> u64 \<Rightarrow> u64 \<Rightarrow> u64 \<Rightarrow> client \<Rightarrow> u64 option \<times> client" where
  "remote_d2h_async_submit sys allocation_id offset stream_id bytes c =
     (if bytes = 0 \<or> bytes > UINT32_MAX64 then (None, c)
      else expect 8 corex_protocol_read_u64
        (rpc sys OP_D2H_ASYNC_SUBMIT (be64 allocation_id @ be64 offset @ be64 stream_id @ be64 bytes) c))"

definition remote_memcpy2d_h2d_async :: "system \<Rightarrow> u64 \<Rightarrow> u64 \<Rightarrow> u64 \<Rightarrow> u64 \<Rightarrow> u64 \<Rightarrow> u64 \<Rightarrow> bytes \<Rightarrow> client \<Rightarrow> u64 option \<times> client" where
  "remote_memcpy2d_h2d_async sys allocation_id off pitch width height stream_id data c =
     (let bytes = width * height
      in if bytes > UINT32_MAX64 - 48 then (None, c)
         else let (ok, c) = client_malloc sys (48 + bytes) c
              in if \<not> ok then (None, c)
                 else expect 8 corex_protocol_read_u64
                   (rpc sys OP_MEMCPY_2D_H2D_ASYNC (be64 allocation_id @ be64 off @ be64 pitch @ be64 width @ be64 height @
                      be64 stream_id @ take (unat bytes) data) c))"

definition remote_memcpy2d_d2h_async :: "system \<Rightarrow> u64 \<Rightarrow> u64 \<Rightarrow> u64 \<Rightarrow> u64 \<Rightarrow> u64 \<Rightarrow> u64 \<Rightarrow> client \<Rightarrow> u64 option \<times> client" where
  "remote_memcpy2d_d2h_async sys allocation_id off pitch width height stream_id c =
     expect 8 corex_protocol_read_u64
       (rpc sys OP_MEMCPY_2D_D2H_ASYNC (be64 allocation_id @ be64 off @ be64 pitch @ be64 width @ be64 height @ be64 stream_id) c)"

definition remote_transfer_query :: "system \<Rightarrow> u64 \<Rightarrow> client \<Rightarrow> u32 option \<times> client" where
  "remote_transfer_query sys transfer_id c = expect 4 corex_protocol_read_u32 (rpc sys OP_TRANSFER_QUERY (be64 transfer_id) c)"

text \<open>\<open>dst\<close> says whether there is a buffer to copy the answer to.\<close>

definition remote_transfer_wait :: "system \<Rightarrow> u64 \<Rightarrow> bool \<Rightarrow> u32 \<Rightarrow> client \<Rightarrow> bytes option \<times> client" where
  "remote_transfer_wait sys transfer_id dst expected_bytes c =
     (case rpc sys OP_TRANSFER_WAIT (be64 transfer_id) c of
        (None, c) \<Rightarrow> (None, c)
      | (Some resp, c) \<Rightarrow>
          if length resp \<noteq> unat expected_bytes then (None, c)
          else if expected_bytes > 0 \<and> \<not> dst then (None, c)
          else (Some resp, c))"

section \<open>The device description\<close>

text \<open>\<open>CorexRemoteDeviceInfo\<close> of \<^verbatim>\<open>include/internal/corex_device_info.h\<close>.\<close>

record CorexRemoteDeviceInfo =
  di_name :: bytes
  di_total_global_mem :: u64
  di_free_mem :: u64
  di_shared_mem_per_block :: u64
  di_regs_per_block :: u32
  di_warp_size :: u32
  di_mem_pitch :: u64
  di_max_threads_per_block :: u32
  di_max_threads_dim :: "u32 \<times> u32 \<times> u32"
  di_max_grid_size :: "u32 \<times> u32 \<times> u32"
  di_clock_rate :: u32
  di_total_const_mem :: u64
  di_major :: u32
  di_minor :: u32
  di_texture_alignment :: u64
  di_device_overlap :: u32
  di_multi_processor_count :: u32
  di_kernel_exec_timeout_enabled :: u32
  di_integrated :: u32
  di_can_map_host_memory :: u32
  di_compute_mode :: u32
  di_concurrent_kernels :: u32
  di_ecc_enabled :: u32
  di_pci_bus_id :: u32
  di_pci_device_id :: u32
  di_tcc_driver :: u32
  di_memory_clock_rate :: u32
  di_memory_bus_width :: u32
  di_l2_cache_size :: u32
  di_max_threads_per_multiprocessor :: u32
  di_async_engine_count :: u32
  di_unified_addressing :: u32

text \<open>The parser of the answer: every field is there, in order, and nothing follows.\<close>

definition parse_device_info :: "u32 \<Rightarrow> bytes \<Rightarrow> CorexRemoteDeviceInfo option" where
  "parse_device_info logical_device resp =
     do {
        (dto_version, pos) \<leftarrow> corex_protocol_take_u32 resp 0;
        (returned_device, pos) \<leftarrow> corex_protocol_take_u32 resp pos;
        _ \<leftarrow> (if dto_version \<noteq> 1 \<or> returned_device \<noteq> logical_device then None else Some ());
        _ \<leftarrow> (if pos > length resp \<or> length resp - pos < 256 then None else Some ());
        let name = take 256 (drop pos resp);
        let pos = pos + 256;
        (total_global_mem, pos) \<leftarrow> corex_protocol_take_u64 resp pos;
        (free_mem, pos) \<leftarrow> corex_protocol_take_u64 resp pos;
        (shared_mem_per_block, pos) \<leftarrow> corex_protocol_take_u64 resp pos;
        (regs_per_block, pos) \<leftarrow> corex_protocol_take_u32 resp pos;
        (warp_size, pos) \<leftarrow> corex_protocol_take_u32 resp pos;
        (mem_pitch, pos) \<leftarrow> corex_protocol_take_u64 resp pos;
        (max_threads_per_block, pos) \<leftarrow> corex_protocol_take_u32 resp pos;
        (max_threads_dim_0, pos) \<leftarrow> corex_protocol_take_u32 resp pos;
        (max_threads_dim_1, pos) \<leftarrow> corex_protocol_take_u32 resp pos;
        (max_threads_dim_2, pos) \<leftarrow> corex_protocol_take_u32 resp pos;
        (max_grid_size_0, pos) \<leftarrow> corex_protocol_take_u32 resp pos;
        (max_grid_size_1, pos) \<leftarrow> corex_protocol_take_u32 resp pos;
        (max_grid_size_2, pos) \<leftarrow> corex_protocol_take_u32 resp pos;
        (clock_rate, pos) \<leftarrow> corex_protocol_take_u32 resp pos;
        (total_const_mem, pos) \<leftarrow> corex_protocol_take_u64 resp pos;
        (major, pos) \<leftarrow> corex_protocol_take_u32 resp pos;
        (minor, pos) \<leftarrow> corex_protocol_take_u32 resp pos;
        (texture_alignment, pos) \<leftarrow> corex_protocol_take_u64 resp pos;
        (device_overlap, pos) \<leftarrow> corex_protocol_take_u32 resp pos;
        (multi_processor_count, pos) \<leftarrow> corex_protocol_take_u32 resp pos;
        (kernel_exec_timeout_enabled, pos) \<leftarrow> corex_protocol_take_u32 resp pos;
        (integrated, pos) \<leftarrow> corex_protocol_take_u32 resp pos;
        (can_map_host_memory, pos) \<leftarrow> corex_protocol_take_u32 resp pos;
        (compute_mode, pos) \<leftarrow> corex_protocol_take_u32 resp pos;
        (concurrent_kernels, pos) \<leftarrow> corex_protocol_take_u32 resp pos;
        (ecc_enabled, pos) \<leftarrow> corex_protocol_take_u32 resp pos;
        (pci_bus_id, pos) \<leftarrow> corex_protocol_take_u32 resp pos;
        (pci_device_id, pos) \<leftarrow> corex_protocol_take_u32 resp pos;
        (tcc_driver, pos) \<leftarrow> corex_protocol_take_u32 resp pos;
        (memory_clock_rate, pos) \<leftarrow> corex_protocol_take_u32 resp pos;
        (memory_bus_width, pos) \<leftarrow> corex_protocol_take_u32 resp pos;
        (l2_cache_size, pos) \<leftarrow> corex_protocol_take_u32 resp pos;
        (max_threads_per_multiprocessor, pos) \<leftarrow> corex_protocol_take_u32 resp pos;
        (async_engine_count, pos) \<leftarrow> corex_protocol_take_u32 resp pos;
        (unified_addressing, pos) \<leftarrow> corex_protocol_take_u32 resp pos;
        if pos \<noteq> length resp then None
        else Some \<lparr>
          di_name = butlast name @ [0], di_total_global_mem = total_global_mem, di_free_mem = free_mem, 
          di_shared_mem_per_block = shared_mem_per_block, di_regs_per_block = regs_per_block, 
          di_warp_size = warp_size, di_mem_pitch = mem_pitch, di_max_threads_per_block = max_threads_per_block, 
          di_max_threads_dim = (max_threads_dim_0, max_threads_dim_1, max_threads_dim_2), 
          di_max_grid_size = (max_grid_size_0, max_grid_size_1, max_grid_size_2), di_clock_rate = clock_rate, 
          di_total_const_mem = total_const_mem, di_major = major, di_minor = minor, 
          di_texture_alignment = texture_alignment, di_device_overlap = device_overlap, 
          di_multi_processor_count = multi_processor_count, 
          di_kernel_exec_timeout_enabled = kernel_exec_timeout_enabled, di_integrated = integrated, 
          di_can_map_host_memory = can_map_host_memory, di_compute_mode = compute_mode, 
          di_concurrent_kernels = concurrent_kernels, di_ecc_enabled = ecc_enabled, di_pci_bus_id = pci_bus_id, 
          di_pci_device_id = pci_device_id, di_tcc_driver = tcc_driver, di_memory_clock_rate = memory_clock_rate, 
          di_memory_bus_width = memory_bus_width, di_l2_cache_size = l2_cache_size, 
          di_max_threads_per_multiprocessor = max_threads_per_multiprocessor, 
          di_async_engine_count = async_engine_count, di_unified_addressing = unified_addressing\<rparr>
     }"

definition remote_get_device_info :: "system \<Rightarrow> u32 \<Rightarrow> client \<Rightarrow> CorexRemoteDeviceInfo option \<times> client" where
  "remote_get_device_info sys logical_device c =
     (case rpc sys OP_GET_DEVICE_INFO (be32 logical_device) c of
        (None, c) \<Rightarrow> (None, c)
      | (Some resp, c) \<Rightarrow> (parse_device_info logical_device resp, c))"

end
