(* ===== verification/Loopback.thy ===== *)
theory Loopback
  imports Client_Remote
begin

text \<open>
  A client and a server on one connection. The operating system of the client is instantiated with a
  transport that hands what the client sends to the request loop of the server and returns what the
  loop sends back; a remote call is then exactly one request served by the loop. The claims about the
  client that involve the server rest on this.
\<close>

section \<open>The server at the other end\<close>

text \<open>
  The connection of a client to a server that starts in the world \<open>w0\<close>: what can be received is what
  the request loop has sent for the bytes sent so far. Operations other than a receive succeed.
\<close>

fun sent_bytes :: "sys_op list \<Rightarrow> bytes" where
  "sent_bytes [] = []"
| "sent_bytes (op # h) = sent_bytes h @ (case op of Sys_send b \<Rightarrow> b | _ \<Rightarrow> [])"

fun received_bytes :: "sys_op list \<Rightarrow> nat" where
  "received_bytes [] = 0"
| "received_bytes (op # h) = received_bytes h + (case op of Sys_recv n \<Rightarrow> n | _ \<Rightarrow> 0)"

definition responses :: "handler \<Rightarrow> driver \<Rightarrow> bytes \<Rightarrow> world \<Rightarrow> bytes" where
  "responses graph drv input w0 =
     (case serve_session graph drv input w0 of Some (_, w) \<Rightarrow> drop (length (sent w0)) (sent w) | None \<Rightarrow> [])"

definition loopback :: "handler \<Rightarrow> driver \<Rightarrow> world \<Rightarrow> system" where
  "loopback graph drv w0 h op =
     (case op of
        Sys_recv n \<Rightarrow> (let out = drop (received_bytes h) (responses graph drv (sent_bytes h) w0)
                      in \<lparr>so_ok = n \<le> length out, so_data = take n out, so_value = 0\<rparr>)
      | _ \<Rightarrow> \<lparr>so_ok = True, so_data = [], so_value = 65536\<rparr>)"

text \<open>The requests of the input have all been served and the loop waits for the next one.\<close>

inductive drained :: "handler \<Rightarrow> driver \<Rightarrow> bytes \<Rightarrow> world \<Rightarrow> world \<Rightarrow> bool" for graph drv where
  drained_none: "drained graph drv [] w w"
| drained_turn: "serve_turn graph drv input w = Some (Next rest w1) \<Longrightarrow> drained graph drv rest w1 w2 \<Longrightarrow> drained graph drv input w w2"

lemma next_request_append:
  "next_request input = Some (opcode, req_id, p, rest) \<Longrightarrow> next_request (input @ extra) = Some (opcode, req_id, p, rest @ extra)"
  by (auto simp: next_request_def recv_all_def split: option.splits if_splits)

lemma serve_turn_append:
  assumes "serve_turn graph drv input w = Some (Next rest w1)"
  shows "serve_turn graph drv (input @ extra) w = Some (Next (rest @ extra) w1)"
proof -
  obtain opcode req_id p where r: "next_request input = Some (opcode, req_id, p, rest)"
    using serve_turn_rest [OF assms] by auto
  show ?thesis
    using assms by (auto simp: serve_turn_Some [OF r] serve_turn_Some [OF next_request_append [OF r]] Let_def
        split: prod.splits option.splits if_splits)
qed

lemma drained_serve: "drained graph drv input w w' \<Longrightarrow> serve_session graph drv (input @ extra) w = serve_session graph drv extra w'"
proof (induction rule: drained.induct)
  case (drained_turn input w rest w1 w2)
  then show ?case using serve_turn_append [OF drained_turn.hyps(1), of extra] by (subst serve_session.simps) simp
qed simp

lemma drained_append: "drained graph drv input w w1 \<Longrightarrow> drained graph drv extra w1 w2 \<Longrightarrow> drained graph drv (input @ extra) w w2"
proof (induction rule: drained.induct)
  case (drained_turn input w rest w1 w2')
  then show ?case using serve_turn_append [OF drained_turn.hyps(1), of extra] by (auto intro: drained.drained_turn)
qed simp

lemma serve_session_idle: "serve_session graph drv [] w = Some (0, w)"
  by (simp add: serve_session.simps serve_turn_def recv_all_def)

lemma responses_drained: "drained graph drv input w w' \<Longrightarrow> responses graph drv input w = drop (length (sent w)) (sent w')"
  using drained_serve [of graph drv input w w' "[]"] by (simp add: responses_def serve_session_idle)

text \<open>The client has read every response of the server, which is now in the world \<open>w\<close>.\<close>

definition in_sync :: "handler \<Rightarrow> driver \<Rightarrow> world \<Rightarrow> client \<Rightarrow> world \<Rightarrow> bool" where
  "in_sync graph drv w0 c w \<longleftrightarrow> drained graph drv (sent_bytes (io c)) w0 w \<and>
     (\<exists>b. sent w = sent w0 @ b \<and> length b = received_bytes (io c))"

section \<open>A call is an exchange with the server\<close>

lemma syscall_loopback:
  "syscall (loopback graph drv w0) (Sys_send b) c = (\<lparr>so_ok = True, so_data = [], so_value = 65536\<rparr>, c\<lparr>io := Sys_send b # io c\<rparr>)"
  "syscall (loopback graph drv w0) (Sys_malloc k) c = (\<lparr>so_ok = True, so_data = [], so_value = 65536\<rparr>, c\<lparr>io := Sys_malloc k # io c\<rparr>)"
  by (simp_all add: syscall_def loopback_def)

text \<open>The bytes the server has sent and the client has not read.\<close>

definition pending :: "handler \<Rightarrow> driver \<Rightarrow> world \<Rightarrow> client \<Rightarrow> bytes \<Rightarrow> bool" where
  "pending graph drv w0 c b \<longleftrightarrow> drop (received_bytes (io c)) (responses graph drv (sent_bytes (io c)) w0) = b"

lemma recv_pending:
  assumes "pending graph drv w0 c (b1 @ b2)" "length b1 = k"
  shows "client_recv_all (loopback graph drv w0) k c = (Some b1, c\<lparr>io := Sys_recv k # io c\<rparr>)"
    "pending graph drv w0 (c\<lparr>io := Sys_recv k # io c\<rparr>) b2"
proof -
  have d: "drop (received_bytes (io c) + k) out = drop k (drop (received_bytes (io c)) out)" for out :: bytes
    by (simp add: add.commute)
  show "client_recv_all (loopback graph drv w0) k c = (Some b1, c\<lparr>io := Sys_recv k # io c\<rparr>)"
    using assms by (auto simp: client_recv_all_def syscall_def loopback_def pending_def Let_def fit_def)
  show "pending graph drv w0 (c\<lparr>io := Sys_recv k # io c\<rparr>) b2"
    using assms unfolding pending_def by (simp add: d del: drop_drop)
qed

lemma pending_frame [simp]:
  "pending graph drv w0 (c\<lparr>io := Sys_malloc k # io c\<rparr>) b = pending graph drv w0 c b"
  by (simp add: pending_def)

lemma recv_response_loopback:
  assumes "pending graph drv w0 c resp" "length resp < 2 ^ 32" "g_last_remote_status c = ST_OK"
  shows "\<exists>h. recv_response (loopback graph drv w0) status (of_nat (length resp)) c =
      (if status = ST_OK then Some resp else None,
       c\<lparr>io := h @ io c, g_last_remote_status := status\<rparr>) \<and>
    sent_bytes (h @ io c) = sent_bytes (io c) \<and> received_bytes (h @ io c) = received_bytes (io c) + length resp"
proof (cases "resp = []")
  case True
  then show ?thesis by (intro exI [of _ "[]"]) (use assms(3) in \<open>simp add: recv_response_def\<close>)
next
  case False
  have u: "unat (of_nat (length resp) :: u32) = length resp" using assms(2) by (intro unat_small32) simp
  then have p: "(0 :: u32) < of_nat (length resp)" using False by (simp add: word_less_nat_alt)
  let ?c = "c\<lparr>io := Sys_malloc (ucast (of_nat (length resp) :: u32)) # io c\<rparr>"
  have r: "client_recv_all (loopback graph drv w0) (length resp) ?c = (Some resp, ?c\<lparr>io := Sys_recv (length resp) # io ?c\<rparr>)"
    using assms(1) by (intro recv_pending(1) [of _ _ _ _ resp "[]"]) auto
  show ?thesis
    using p u r assms(3)
    by (intro exI [of _ "[Sys_recv (length resp), Sys_malloc (ucast (of_nat (length resp) :: u32))]"])
      (auto simp: recv_response_def syscall_loopback)
qed

text \<open>The state of a client after an exchange.\<close>

abbreviation (input) exchanged :: "client \<Rightarrow> u32 \<Rightarrow> sys_op list \<Rightarrow> client" where
  "exchanged c status h \<equiv> c\<lparr>g_next_req_id := g_next_req_id c + 1, g_last_remote_status := status,
     g_last_rpc_transport_error := False, io := h\<rparr>"

lemma rpc_exchange_loopback:
  assumes "in_sync graph drv w0 c w" "length payload \<le> MAX_PAYLOAD" "opcode \<noteq> OP_HELLO" "length resp < 2 ^ 32"
    "g_last_remote_status c = ST_OK" "\<not> g_last_rpc_transport_error c"
    "serve_turn graph drv (request_bytes (opcode, g_next_req_id c, payload)) w = Some (Next [] w')"
    "sent w' = sent w @ corex_protocol_encode_response_header opcode (g_next_req_id c) status (of_nat (length resp)) @ resp"
  shows "\<exists>h. rpc_exchange (loopback graph drv w0) opcode payload c =
      (if status = ST_OK then Some resp else None, exchanged c status h) \<and> in_sync graph drv w0 (exchanged c status h) w'"
proof -
  let ?sys = "loopback graph drv w0" and ?id = "g_next_req_id c"
  let ?hd = "corex_protocol_encode_request_header opcode ?id (of_nat (length payload))"
  let ?rh = "corex_protocol_encode_response_header opcode ?id status (of_nat (length resp))"
  obtain b where b: "sent w = sent w0 @ b" "length b = received_bytes (io c)" and d: "drained graph drv (sent_bytes (io c)) w0 w"
    using assms(1) by (auto simp: in_sync_def)
  have d': "drained graph drv (sent_bytes (io c) @ request_bytes (opcode, ?id, payload)) w0 w'"
    using d drained_turn [OF assms(7) drained_none] by (rule drained_append)
  have u: "unat (of_nat (length payload) :: u32) = length payload" using assms(2) by (intro unat_small32) simp
  then have zero: "(0 :: u32) < of_nat (length payload) \<longleftrightarrow> payload \<noteq> []" by (simp add: word_less_nat_alt)
  define h1 where "h1 = (if payload = [] then [Sys_send ?hd] else [Sys_send payload, Sys_send ?hd])"
  define c1 where "c1 = c\<lparr>g_next_req_id := ?id + 1, io := h1 @ io c\<rparr>"
  have s1: "sent_bytes (io c1) = sent_bytes (io c) @ request_bytes (opcode, ?id, payload)" "received_bytes (io c1) = received_bytes (io c)"
    by (auto simp: c1_def h1_def request_bytes_def)
  have p1: "pending graph drv w0 c1 (?rh @ resp)"
    using b by (simp add: pending_def s1 responses_drained [OF d'] assms(8))
  have lh: "length ?rh = 24" by (simp add: wire_simps)
  note r1 = recv_pending [OF p1 lh]
  have dec: "corex_protocol_decode_response_header ?rh = Some \<lparr>rs_opcode = opcode, rs_request_id = ?id, rs_status = status, rs_payload_length = of_nat (length resp)\<rparr>"
    using decode_encode_response_header [of opcode ?id status "of_nat (length resp)" "[]"] by simp
  obtain h2 where h2: "recv_response ?sys status (of_nat (length resp)) (c1\<lparr>io := Sys_recv 24 # io c1\<rparr>) =
      (if status = ST_OK then Some resp else None, c1\<lparr>io := h2 @ Sys_recv 24 # io c1, g_last_remote_status := status\<rparr>)"
    "sent_bytes (h2 @ Sys_recv 24 # io c1) = sent_bytes (io c1)"
    "received_bytes (h2 @ Sys_recv 24 # io c1) = received_bytes (io c1) + 24 + length resp"
    using recv_response_loopback [OF r1(2) assms(4), of status] assms(5) by (auto simp: c1_def)
  have e: "rpc_exchange ?sys opcode payload c = recv_response ?sys status (of_nat (length resp)) (c1\<lparr>io := Sys_recv 24 # io c1\<rparr>)"
    using r1(1) dec assms(3)
    by (auto simp: rpc_exchange_def client_send_all_def syscall_loopback zero Let_def c1_def h1_def)
  have "in_sync graph drv w0 (exchanged c status (h2 @ Sys_recv 24 # io c1)) w'"
    using d' b h2(2,3) s1 lh by (auto simp: in_sync_def assms(8))
  moreover have "rpc_exchange ?sys opcode payload c = (if status = ST_OK then Some resp else None, exchanged c status (h2 @ Sys_recv 24 # io c1))"
    using assms(5,6) unfolding e h2(1) by (simp add: c1_def)
  ultimately show ?thesis by blast
qed

lemma serve_turn_answer:
  assumes "session_inv n (sess w)" "Suc n < 2 ^ 64" "reliable drv" "length p \<le> MAX_PAYLOAD" "admissible (sess w) opcode p"
    "opcode \<noteq> OP_CLOSE \<or> p \<noteq> []"
  shows "\<exists>status resp w'. serve_turn graph drv (request_bytes (opcode, req_id, p)) w = Some (Next [] w') \<and>
    serve_request graph drv opcode req_id p (snd (payload_buffer drv p w)) = Some (0, w') \<and> session_inv (Suc n) (sess w') \<and>
    length resp < 2 ^ 32 \<and>
    sent w' = sent w @ corex_protocol_encode_response_header opcode req_id status (of_nat (length resp)) @ resp"
proof -
  obtain ok w1 where b: "payload_buffer drv p w = (ok, w1)" by fastforce
  have w1: "ok" "sess w1 = sess w" "sent w1 = sent w"
    using payload_buffer_effect [where drv = drv and p = p and w = w] b assms(3) by (auto simp: payload_buffer_def reliable_def invoke_case split: if_splits)
  have "ends (serve_request graph drv opcode req_id p w1) (safely_served n drv opcode req_id w1)"
    using assms w1 by (intro serve_request_served) auto
  then obtain rc w' where s: "serve_request graph drv opcode req_id p w1 = Some (rc, w')" "safely_served n drv opcode req_id w1 rc w'"
    by (rule endsE)
  have rc: "rc = 0" using s(2) reliable_hung_up [OF assms(3)] by (auto simp: safely_served_def)
  have "next_request (request_bytes (opcode, req_id, p)) = Some (opcode, req_id, p, [])"
    using next_request_bytes [OF assms(4), of opcode req_id "[]"] by simp
  from serve_turn_Some [OF this] have "serve_turn graph drv (request_bytes (opcode, req_id, p)) w = Some (Next [] w')"
    using b w1(1) s(1) rc assms(6) by auto
  then show ?thesis using s rc b w1(2,3) by (auto simp: safely_served_def served_def replied_def)
qed

lemma rpc_loopback:
  assumes "in_sync graph drv w0 c w" "session_inv n (sess w)" "Suc n < 2 ^ 64" "reliable drv" "length payload \<le> MAX_PAYLOAD"
    "admissible (sess w) opcode payload" "opcode \<noteq> OP_CLOSE" "opcode \<noteq> OP_HELLO" "cap_status (g_capture c) = cudaStreamCaptureStatusNone"
  shows "\<exists>status resp w' h. serve_request graph drv opcode (g_next_req_id c) payload (snd (payload_buffer drv payload w)) = Some (0, w') \<and>
    sent w' = sent w @ corex_protocol_encode_response_header opcode (g_next_req_id c) status (of_nat (length resp)) @ resp \<and>
    rpc (loopback graph drv w0) opcode payload c = (if status = ST_OK then Some resp else None, exchanged c status h) \<and>
    in_sync graph drv w0 (exchanged c status h) w' \<and> session_inv (Suc n) (sess w')"
proof -
  obtain status resp w' where t: "serve_turn graph drv (request_bytes (opcode, g_next_req_id c, payload)) w = Some (Next [] w')"
    "serve_request graph drv opcode (g_next_req_id c) payload (snd (payload_buffer drv payload w)) = Some (0, w')"
    "session_inv (Suc n) (sess w')" "length resp < 2 ^ 32"
    "sent w' = sent w @ corex_protocol_encode_response_header opcode (g_next_req_id c) status (of_nat (length resp)) @ resp"
    using serve_turn_answer [OF assms(2-6), of graph "g_next_req_id c"] assms(7) by auto
  let ?c = "c\<lparr>g_last_remote_status := ST_OK, g_last_rpc_transport_error := False\<rparr>"
  have "in_sync graph drv w0 ?c w" using assms(1) by (simp add: in_sync_def)
  moreover have "serve_turn graph drv (request_bytes (opcode, g_next_req_id ?c, payload)) w = Some (Next [] w')"
    "sent w' = sent w @ corex_protocol_encode_response_header opcode (g_next_req_id ?c) status (of_nat (length resp)) @ resp"
    "g_last_remote_status ?c = ST_OK" "\<not> g_last_rpc_transport_error ?c"
    using t(1,5) by simp_all
  ultimately have "\<exists>h. rpc_exchange (loopback graph drv w0) opcode payload ?c = (if status = ST_OK then Some resp else None, exchanged ?c status h) \<and>
      in_sync graph drv w0 (exchanged ?c status h) w'"
    by (intro rpc_exchange_loopback [OF _ assms(5,8) t(4)])
  then obtain h where x: "rpc_exchange (loopback graph drv w0) opcode payload ?c = (if status = ST_OK then Some resp else None, exchanged c status h)"
    "in_sync graph drv w0 (exchanged c status h) w'"
    by auto
  have "rpc (loopback graph drv w0) opcode payload c = rpc_exchange (loopback graph drv w0) opcode payload ?c"
    using assms(9) by (simp add: rpc_def)
  with x t(2,3,5) show ?thesis by metis
qed

end
