(* ===== verification/Client_Session.thy ===== *)
theory Client_Session
  imports Client_Remote
begin

text \<open>
  The handles of the client (\<^verbatim>\<open>src/corex_remote_cuda.c\<close>): how a handle the application holds is looked up,
  what a remote call can change of the context, and what the failure of a session leaves. Every handle
  carries the generation of the session it was made in; generations are never used twice, so that a
  handle of a failed session is never accepted again, whatever happens later.
\<close>

section \<open>Looking up a handle\<close>

definition resolve_stream_handle :: "nat option \<Rightarrow> client \<Rightarrow> nat option" where
  "resolve_stream_handle stream c =
     (case stream of
        None \<Rightarrow> None
      | Some i \<Rightarrow>
          if i < g_stream_handle_next c
          then let h = g_stream_handles c ! i
               in if sh_cookie h \<noteq> G6C_STREAM_COOKIE \<or> \<not> sh_live h \<or> sh_session_generation h \<noteq> g_active_session_generation c
                  then None else Some i
          else None)"

definition resolve_event_handle :: "nat option \<Rightarrow> client \<Rightarrow> nat option" where
  "resolve_event_handle event c =
     (case event of
        None \<Rightarrow> None
      | Some i \<Rightarrow>
          if i < g_event_handle_next c
          then let h = g_event_handles c ! i
               in if eh_cookie h \<noteq> G6C_EVENT_COOKIE \<or> \<not> eh_live h \<or> eh_session_generation h \<noteq> g_active_session_generation c
                  then None else Some i
          else None)"

definition resolve_module_handle :: "nat option \<Rightarrow> client \<Rightarrow> nat option" where
  "resolve_module_handle module c =
     (case module of
        None \<Rightarrow> None
      | Some i \<Rightarrow>
          if i < g_module_handle_next c
          then let h = g_module_handles c ! i
               in if mh_cookie h \<noteq> G6D_MODULE_COOKIE \<or> \<not> mh_live h \<or> mh_session_generation h \<noteq> g_active_session_generation c
                  then None else Some i
          else None)"

text \<open>
  A kernel is named by its handle or, for a kernel the compiler registered, by the address of its host
  function: the application passes one pointer, here a reference.
\<close>

datatype kernel_ref = Kernel_handle nat | Host_function u64

definition kernel_current :: "client \<Rightarrow> corexRemoteKernelHandle \<Rightarrow> bool" where
  "kernel_current c h \<longleftrightarrow> kh_cookie h = G6D_KERNEL_COOKIE \<and> kh_live h \<and> kh_session_generation h = g_active_session_generation c"

definition resolve_kernel_reference :: "kernel_ref \<Rightarrow> client \<Rightarrow> nat option" where
  "resolve_kernel_reference func c =
     find (\<lambda>i. let h = g_kernel_handles c ! i
        in kernel_current c h \<and>
           (func = Kernel_handle i \<or> kh_origin h = G7D_KERNEL_ORIGIN_COMPILER \<and> func = Host_function (kh_host_fun h)))
       [0..<g_kernel_handle_next c]"

definition find_live_compiler_kernel_by_host_fun :: "u64 \<Rightarrow> client \<Rightarrow> nat option" where
  "find_live_compiler_kernel_by_host_fun host_fun c =
     (if host_fun = 0 then None
      else find (\<lambda>i. let h = g_kernel_handles c ! i
        in kernel_current c h \<and> kh_origin h = G7D_KERNEL_ORIGIN_COMPILER \<and> kh_host_fun h = host_fun)
        [0..<g_kernel_handle_next c])"

definition invalidate_local_module_kernels :: "u64 \<Rightarrow> client \<Rightarrow> client" where
  "invalidate_local_module_kernels module_id c =
     c\<lparr>g_kernel_handles := map_upto (g_kernel_handle_next c)
        (\<lambda>h. if kh_live h \<and> kh_module_id h = module_id then h\<lparr>kh_live := False, kh_kernel_id := 0\<rparr> else h) (g_kernel_handles c)\<rparr>"

definition g7c_resolve_registration :: "nat option \<Rightarrow> client \<Rightarrow> nat option" where
  "g7c_resolve_registration handle c =
     (case handle of
        None \<Rightarrow> None
      | Some i \<Rightarrow>
          if i < g_registration_next c
          then let reg = g_registrations c ! i
               in if rg_cookie reg \<noteq> G7C_REG_COOKIE then None
                  else if rg_session_generation reg \<noteq> 0 \<and> rg_session_generation reg \<noteq> g_active_session_generation c then None
                  else Some i
          else None)"

section \<open>What a remote call changes\<close>

text \<open>A step that only exchanges messages: it changes at most request numbers, the last status, the capture state and the history.\<close>

definition core :: "client \<Rightarrow> client" where
  "core c = c\<lparr>g_next_req_id := 0, g_last_remote_status := 0, g_last_rpc_transport_error := False, g_capture := zero_capture, io := []\<rparr>"

definition quiet :: "client \<Rightarrow> client \<Rightarrow> bool" where
  "quiet c c' \<longleftrightarrow> core c' = core c"

lemma quiet_refl [simp]: "quiet c c"
  by (simp add: quiet_def)

lemma quiet_trans: "quiet c c1 \<Longrightarrow> quiet c1 c2 \<Longrightarrow> quiet c c2"
  by (simp add: quiet_def)

lemma quiet_updates [simp]:
  "quiet c (c1\<lparr>g_next_req_id := x\<rparr>) = quiet c c1"
  "quiet c (c1\<lparr>g_last_remote_status := s\<rparr>) = quiet c c1"
  "quiet c (c1\<lparr>g_last_rpc_transport_error := b\<rparr>) = quiet c c1"
  "quiet c (c1\<lparr>g_capture := k\<rparr>) = quiet c c1"
  "quiet c (c1\<lparr>io := h\<rparr>) = quiet c c1"
  by (simp_all add: quiet_def core_def)

lemma core_fields [simp]:
  "g_fd (core c) = g_fd c" "g_lifecycle (core c) = g_lifecycle c"
  "g_active_session_generation (core c) = g_active_session_generation c"
  "g_next_session_generation (core c) = g_next_session_generation c" "g_hello_state (core c) = g_hello_state c"
  "g_hello (core c) = g_hello c" "g_va_arena (core c) = g_va_arena c" "g_va_next (core c) = g_va_next c"
  "g_allocs (core c) = g_allocs c" "g_stream_handles (core c) = g_stream_handles c"
  "g_event_handles (core c) = g_event_handles c" "g_pool_handles (core c) = g_pool_handles c"
  "g_pool_handle_next (core c) = g_pool_handle_next c" "g_graph_handles (core c) = g_graph_handles c"
  "g_graph_execs (core c) = g_graph_execs c" "g_graph_nodes (core c) = g_graph_nodes c"
  "g_hidden_transfers (core c) = g_hidden_transfers c" "g_module_handles (core c) = g_module_handles c"
  "g_kernel_handles (core c) = g_kernel_handles c" "g_registrations (core c) = g_registrations c"
  "g_stream_handle_next (core c) = g_stream_handle_next c" "g_event_handle_next (core c) = g_event_handle_next c"
  "g_module_handle_next (core c) = g_module_handle_next c" "g_kernel_handle_next (core c) = g_kernel_handle_next c"
  "g_registration_next (core c) = g_registration_next c"
  "g_registration_generation_next (core c) = g_registration_generation_next c"
  "g_transfer_submit_order (core c) = g_transfer_submit_order c" "g_default_frontier (core c) = g_default_frontier c"
  "g_default_next_transfer_seq (core c) = g_default_next_transfer_seq c" "host (core c) = host c"
  "g_last_error (core c) = g_last_error c"
  by (simp_all add: core_def)

lemma quietD:
  assumes "quiet c c'"
  shows "g_fd c' = g_fd c" "g_lifecycle c' = g_lifecycle c" "g_active_session_generation c' = g_active_session_generation c"
    "g_next_session_generation c' = g_next_session_generation c" "g_hello_state c' = g_hello_state c" "g_hello c' = g_hello c"
    "g_va_arena c' = g_va_arena c" "g_va_next c' = g_va_next c" "g_allocs c' = g_allocs c"
    "g_stream_handles c' = g_stream_handles c" "g_event_handles c' = g_event_handles c" "g_pool_handles c' = g_pool_handles c"
    "g_pool_handle_next c' = g_pool_handle_next c" "g_graph_handles c' = g_graph_handles c" "g_graph_execs c' = g_graph_execs c"
    "g_graph_nodes c' = g_graph_nodes c" "g_hidden_transfers c' = g_hidden_transfers c" "g_module_handles c' = g_module_handles c"
    "g_kernel_handles c' = g_kernel_handles c" "g_registrations c' = g_registrations c"
    "g_stream_handle_next c' = g_stream_handle_next c" "g_event_handle_next c' = g_event_handle_next c"
    "g_module_handle_next c' = g_module_handle_next c" "g_kernel_handle_next c' = g_kernel_handle_next c"
    "g_registration_next c' = g_registration_next c" "g_registration_generation_next c' = g_registration_generation_next c"
    "g_transfer_submit_order c' = g_transfer_submit_order c" "g_default_frontier c' = g_default_frontier c"
    "g_default_next_transfer_seq c' = g_default_next_transfer_seq c" "host c' = host c" "g_last_error c' = g_last_error c"
  using arg_cong [OF assms [unfolded quiet_def], of g_fd] arg_cong [OF assms [unfolded quiet_def], of g_lifecycle]
    arg_cong [OF assms [unfolded quiet_def], of g_active_session_generation]
    arg_cong [OF assms [unfolded quiet_def], of g_next_session_generation]
    arg_cong [OF assms [unfolded quiet_def], of g_hello_state] arg_cong [OF assms [unfolded quiet_def], of g_hello]
    arg_cong [OF assms [unfolded quiet_def], of g_va_arena] arg_cong [OF assms [unfolded quiet_def], of g_va_next]
    arg_cong [OF assms [unfolded quiet_def], of g_allocs] arg_cong [OF assms [unfolded quiet_def], of g_stream_handles]
    arg_cong [OF assms [unfolded quiet_def], of g_event_handles]
    arg_cong [OF assms [unfolded quiet_def], of g_pool_handles]
    arg_cong [OF assms [unfolded quiet_def], of g_pool_handle_next]
    arg_cong [OF assms [unfolded quiet_def], of g_graph_handles]
    arg_cong [OF assms [unfolded quiet_def], of g_graph_execs]
    arg_cong [OF assms [unfolded quiet_def], of g_graph_nodes]
    arg_cong [OF assms [unfolded quiet_def], of g_hidden_transfers]
    arg_cong [OF assms [unfolded quiet_def], of g_module_handles]
    arg_cong [OF assms [unfolded quiet_def], of g_kernel_handles]
    arg_cong [OF assms [unfolded quiet_def], of g_registrations]
    arg_cong [OF assms [unfolded quiet_def], of g_stream_handle_next]
    arg_cong [OF assms [unfolded quiet_def], of g_event_handle_next]
    arg_cong [OF assms [unfolded quiet_def], of g_module_handle_next]
    arg_cong [OF assms [unfolded quiet_def], of g_kernel_handle_next]
    arg_cong [OF assms [unfolded quiet_def], of g_registration_next]
    arg_cong [OF assms [unfolded quiet_def], of g_registration_generation_next]
    arg_cong [OF assms [unfolded quiet_def], of g_transfer_submit_order]
    arg_cong [OF assms [unfolded quiet_def], of g_default_frontier]
    arg_cong [OF assms [unfolded quiet_def], of g_default_next_transfer_seq]
    arg_cong [OF assms [unfolded quiet_def], of host] arg_cong [OF assms [unfolded quiet_def], of g_last_error]
  by simp_all

lemma syscall_quiet [simp]: "quiet c (snd (syscall sys op c1)) = quiet c c1"
  by (simp add: syscall_def)

lemma syscall_flag [simp]: "g_last_rpc_transport_error (snd (syscall sys op c)) = g_last_rpc_transport_error c"
  by (simp add: syscall_def)

lemma failed_flag [simp]: "g_last_rpc_transport_error (mark_session_failed_locked sys c) = g_last_rpc_transport_error c"
  by (simp add: mark_session_failed_locked_def invalidate_client_graphs_def close_fd_def Let_def)

text \<open>
  The outcome of a remote call: an exchange, or the failure of the session, which the transport error
  records.
\<close>

definition called :: "system \<Rightarrow> client \<Rightarrow> 'a option \<times> client \<Rightarrow> bool" where
  "called sys c = (\<lambda>(r, c'). quiet c c' \<and> \<not> g_last_rpc_transport_error c' \<or>
     r = None \<and> g_last_rpc_transport_error c' \<and> (\<exists>c1. quiet c c1 \<and> c' = mark_session_failed_locked sys c1))"

lemma called_transport_failure: "quiet c c1 \<Longrightarrow> called sys c (transport_failure sys c1)"
  unfolding called_def transport_failure_def
  by (simp, rule exI [of _ "c1\<lparr>g_last_rpc_transport_error := True\<rparr>"]) simp

lemma called_quiet: "quiet c c1 \<Longrightarrow> \<not> g_last_rpc_transport_error c1 \<Longrightarrow> called sys c (r, c1)"
  by (simp add: called_def)

lemma called_from: "quiet c c0 \<Longrightarrow> called sys c0 x \<Longrightarrow> called sys c x"
  unfolding called_def using quiet_trans by (auto split: prod.splits)

lemma transport_frames [simp]:
  "quiet c (snd (client_send_all sys b c1)) = quiet c c1" "quiet c (snd (client_recv_all sys n c1)) = quiet c c1"
  "g_last_rpc_transport_error (snd (client_send_all sys b c1)) = g_last_rpc_transport_error c1"
  "g_last_rpc_transport_error (snd (client_recv_all sys n c1)) = g_last_rpc_transport_error c1"
  by (simp_all add: client_send_all_def client_recv_all_def syscall_def Let_def)

lemma called_ifI: "(b \<Longrightarrow> called sys c x) \<Longrightarrow> (\<not> b \<Longrightarrow> called sys c y) \<Longrightarrow> called sys c (if b then x else y)"
  by simp

lemma called_optionI: "(r = None \<Longrightarrow> called sys c x) \<Longrightarrow> (\<And>v. r = Some v \<Longrightarrow> called sys c (f v)) \<Longrightarrow>
    called sys c (case r of None \<Rightarrow> x | Some v \<Rightarrow> f v)"
  by (cases r) simp_all

lemmas called_intros = called_ifI called_optionI called_transport_failure called_quiet

lemma called_recv_response:
  assumes "quiet c c1" "\<not> g_last_rpc_transport_error c1"
  shows "called sys c (recv_response sys status n c1)"
  unfolding recv_response_def Let_def case_prod_beta
  using assms by (intro called_intros) (simp_all split: if_splits)

lemma called_rpc_exchange:
  assumes "quiet c c1" "\<not> g_last_rpc_transport_error c1"
  shows "called sys c (rpc_exchange sys opcode payload c1)"
  unfolding rpc_exchange_def Let_def case_prod_beta
  using assms by (intro called_intros called_recv_response) (simp_all split: if_splits)

lemma called_map:
  assumes "called sys c (r, c')" "r = None \<Longrightarrow> r' = None"
  shows "called sys c (r', c')"
  using assms by (auto simp: called_def)

lemma called_Some: "called sys c (Some v, c') \<Longrightarrow> quiet c c' \<and> \<not> g_last_rpc_transport_error c'"
  by (simp add: called_def)

lemma called_generated:
  assumes "\<And>wire. called sys c (rpc_call opcode wire c1)" "quiet c c1" "\<not> g_last_rpc_transport_error c1"
  shows "called sys c (generated_call req opcode dec rpc_call c1)"
  unfolding generated_call_def
proof (intro called_optionI)
  fix wire
  obtain r c2 where r: "rpc_call opcode wire c1 = (r, c2)" by fastforce
  have "called sys c (r, c2)" using assms(1) [of wire] r by simp
  then show "called sys c (case rpc_call opcode wire c1 of (None, s) \<Rightarrow> (None, s) | (Some response_wire, s) \<Rightarrow> (dec response_wire, s))"
    unfolding r by (cases r) (auto intro: called_map)
qed (use assms in \<open>simp add: called_quiet\<close>)

lemma called_rpc: "called sys c (rpc sys opcode payload c)"
proof -
  let ?c = "c\<lparr>g_last_remote_status := ST_OK, g_last_rpc_transport_error := False\<rparr>"
  have q: "quiet c ?c" "\<not> g_last_rpc_transport_error ?c" by simp_all
  obtain r c1 where a: "capture_allow_allocation_locked sys ?c = (r, c1)" by fastforce
  have "called sys c (r, c1)"
    unfolding a [symmetric] capture_allow_allocation_locked_def corex_generated_call_cudaGraphCreate_def
    using q by (intro called_generated called_rpc_exchange)
  then have n: "called sys c (case (r, c1) of (None, c1) \<Rightarrow> (None, c1) | (Some _, c1) \<Rightarrow> rpc_exchange sys opcode payload c1)"
    by (cases r) (auto intro: called_map called_rpc_exchange [OF conjunct1 conjunct2] dest: called_Some)
  show ?thesis
    unfolding rpc_def Let_def a
    using q n by (intro called_ifI called_rpc_exchange) (simp_all add: called_quiet)
qed

text \<open>
  The same for the functions built on a call; some of them return -1 without making one, so that the
  transport error may be that of an earlier call.
\<close>

definition stepped :: "system \<Rightarrow> client \<Rightarrow> 'a option \<times> client \<Rightarrow> bool" where
  "stepped sys c = (\<lambda>(r, c'). quiet c c' \<or> r = None \<and> (\<exists>c1. quiet c c1 \<and> c' = mark_session_failed_locked sys c1))"

lemma called_stepped: "called sys c x \<Longrightarrow> stepped sys c x"
  by (auto simp: called_def stepped_def)

lemma stepped_quiet [simp]: "quiet c c' \<Longrightarrow> stepped sys c (r, c')"
  by (simp add: stepped_def)

lemma stepped_rpc: "quiet c c1 \<Longrightarrow> stepped sys c (rpc sys opcode payload c1)"
  using called_stepped [OF called_from [OF _ called_rpc]] by blast

lemma stepped_expect: "stepped sys c x \<Longrightarrow> stepped sys c (expect n f x)"
  by (auto simp: expect_def stepped_def split: prod.splits option.splits)

lemma stepped_discard: "stepped sys c x \<Longrightarrow> stepped sys c (discard x)"
  by (auto simp: discard_def stepped_def split: prod.splits)

lemma stepped_generated: "stepped sys c (generated_call req opcode dec (generated_rpc_call sys) c)"
proof (cases req)
  case (Some wire)
  obtain r c2 where r: "rpc sys opcode wire c = (r, c2)" by fastforce
  have "stepped sys c (r, c2)" using stepped_rpc [OF quiet_refl, of sys c opcode wire] r by simp
  then show ?thesis using Some r by (cases r) (auto simp: generated_call_def generated_rpc_call_def stepped_def)
qed (simp add: generated_call_def)

lemma stepped_case:
  assumes "stepped sys c x" "\<And>v c'. quiet c c' \<Longrightarrow> stepped sys c (g v c')"
  shows "stepped sys c (case x of (None, c) \<Rightarrow> (None, c) | (Some v, c) \<Rightarrow> g v c)"
proof -
  obtain r c' where x: "x = (r, c')" by fastforce
  show ?thesis
  proof (cases r)
    case None
    then show ?thesis using assms(1) x by (simp add: stepped_def)
  next
    case (Some v)
    then have "quiet c c'" using assms(1) x by (simp add: stepped_def)
    then show ?thesis using assms(2) x Some by simp
  qed
qed

lemma stepped_ifI: "(b \<Longrightarrow> stepped sys c x) \<Longrightarrow> (\<not> b \<Longrightarrow> stepped sys c y) \<Longrightarrow> stepped sys c (if b then x else y)"
  by simp

lemma client_malloc_quiet [simp]: "quiet c (snd (client_malloc sys n c1)) = quiet c c1"
  by (simp add: client_malloc_def syscall_def Let_def)

lemmas stepped_intros = stepped_ifI stepped_expect stepped_discard stepped_rpc stepped_case

lemma stepped_remote_alloc [simp]: "stepped sys c (remote_alloc sys bytes c)"
  unfolding remote_alloc_def by (intro stepped_intros; simp)

lemma stepped_remote_alloc_pitched [simp]: "stepped sys c (remote_alloc_pitched sys width height c)"
  unfolding remote_alloc_pitched_def by (intro stepped_intros; simp)

lemma stepped_remote_free [simp]: "stepped sys c (remote_free sys aid c)"
  unfolding remote_free_def by (intro stepped_intros; simp)

lemma stepped_remote_memcpy2d [simp]: "stepped sys c (remote_memcpy2d sys mode did doff dpitch sid soff spitch width height data c)"
  unfolding remote_memcpy2d_def Let_def case_prod_beta [of _ "client_malloc _ _ _"] by (intro stepped_intros; simp)

lemma stepped_remote_memcpy2d_async_d2d [simp]: "stepped sys c (remote_memcpy2d_async_d2d sys did doff dpitch sid soff spitch width height stream_id c)"
  unfolding remote_memcpy2d_async_d2d_def by (intro stepped_intros; simp)

lemma stepped_remote_memset2d [simp]: "stepped sys c (remote_memset2d sys aid off pitch v width height c)"
  unfolding remote_memset2d_def by (intro stepped_intros; simp)

lemma stepped_remote_memcpy3d [simp]: "stepped sys c (remote_memcpy3d sys mode did doff dpitch dslice sid soff spitch sslice width height depth data async stream_id c)"
  unfolding remote_memcpy3d_def Let_def case_prod_beta [of _ "client_malloc _ _ _"] by (intro stepped_intros; simp)

lemma stepped_remote_h2d [simp]: "stepped sys c (remote_h2d sys aid off data bytes c)"
  unfolding remote_h2d_def Let_def case_prod_beta [of _ "client_malloc _ _ _"] by (intro stepped_intros; simp)

lemma stepped_remote_d2h [simp]: "stepped sys c (remote_d2h sys aid off bytes c)"
  unfolding remote_d2h_def by (intro stepped_intros; simp)

lemma stepped_remote_d2d [simp]: "stepped sys c (remote_d2d sys did doff sid soff bytes c)"
  unfolding remote_d2d_def by (intro stepped_intros; simp)

lemma stepped_remote_d2d_async [simp]: "stepped sys c (remote_d2d_async sys did doff sid soff bytes stream_id c)"
  unfolding remote_d2d_async_def by (intro stepped_intros; simp)

lemma stepped_remote_memset [simp]: "stepped sys c (remote_memset sys aid off v bytes c)"
  unfolding remote_memset_def by (intro stepped_intros; simp)

lemma stepped_remote_memset_async [simp]: "stepped sys c (remote_memset_async sys aid off v bytes stream_id c)"
  unfolding remote_memset_async_def by (intro stepped_intros; simp)

lemma stepped_remote_version_query [simp]: "stepped sys c (remote_version_query sys opcode c)"
  unfolding remote_version_query_def by (intro stepped_intros; simp)

lemma stepped_remote_occupancy [simp]: "stepped sys c (remote_occupancy sys kernel_id block_size dynamic_shared c)"
  unfolding remote_occupancy_def by (intro stepped_intros; simp)

lemma stepped_remote_upload_module_bytes [simp]: "stepped sys c (remote_upload_module_bytes sys opcode wire_name code c)"
  unfolding remote_upload_module_bytes_def Let_def case_prod_beta [of _ "client_malloc _ _ _"] by (intro stepped_intros; simp)

lemma stepped_remote_get_kernel [simp]: "stepped sys c (remote_get_kernel sys module_id name c)"
  unfolding remote_get_kernel_def Let_def case_prod_beta [of _ "client_malloc _ _ _"] by (intro stepped_intros; simp)

lemma stepped_remote_unload_module [simp]: "stepped sys c (remote_unload_module sys module_id c)"
  unfolding remote_unload_module_def by (intro stepped_intros; simp)

lemma stepped_remote_create_stream_flags [simp]: "stepped sys c (remote_create_stream_flags sys flags c)"
  unfolding remote_create_stream_flags_def by (intro stepped_intros; simp)

lemma stepped_remote_create_stream_priority [simp]: "stepped sys c (remote_create_stream_priority sys flags priority c)"
  unfolding remote_create_stream_priority_def by (intro stepped_intros; simp)

lemma stepped_remote_stream_get_flags [simp]: "stepped sys c (remote_stream_get_flags sys sid c)"
  unfolding remote_stream_get_flags_def by (intro stepped_intros; simp)

lemma stepped_remote_stream_get_priority [simp]: "stepped sys c (remote_stream_get_priority sys sid c)"
  unfolding remote_stream_get_priority_def by (intro stepped_intros; simp)

lemma stepped_remote_destroy_stream [simp]: "stepped sys c (remote_destroy_stream sys sid c)"
  unfolding remote_destroy_stream_def by (intro stepped_intros; simp)

lemma stepped_remote_stream_sync [simp]: "stepped sys c (remote_stream_sync sys sid c)"
  unfolding remote_stream_sync_def by (intro stepped_intros; simp)

lemma stepped_remote_create_event [simp]: "stepped sys c (remote_create_event sys c)"
  unfolding remote_create_event_def by (intro stepped_intros; simp)

lemma stepped_remote_create_event_flags [simp]: "stepped sys c (remote_create_event_flags sys flags c)"
  unfolding remote_create_event_flags_def by (intro stepped_intros; simp)

lemma stepped_remote_event_elapsed [simp]: "stepped sys c (remote_event_elapsed sys start stop c)"
  unfolding remote_event_elapsed_def by (intro stepped_intros; simp)

lemma stepped_remote_destroy_event [simp]: "stepped sys c (remote_destroy_event sys eid c)"
  unfolding remote_destroy_event_def by (intro stepped_intros; simp)

lemma stepped_remote_event_record [simp]: "stepped sys c (remote_event_record sys eid sid c)"
  unfolding remote_event_record_def by (intro stepped_intros; simp)

lemma stepped_remote_event_sync [simp]: "stepped sys c (remote_event_sync sys eid c)"
  unfolding remote_event_sync_def by (intro stepped_intros; simp)

lemma stepped_remote_stream_wait_event [simp]: "stepped sys c (remote_stream_wait_event sys sid eid c)"
  unfolding remote_stream_wait_event_def by (intro stepped_intros; simp)

lemma stepped_remote_h2d_async_submit [simp]: "stepped sys c (remote_h2d_async_submit sys aid off sid data bytes c)"
  unfolding remote_h2d_async_submit_def Let_def case_prod_beta [of _ "client_malloc _ _ _"] by (intro stepped_intros; simp)

lemma stepped_remote_d2h_async_submit [simp]: "stepped sys c (remote_d2h_async_submit sys aid off sid bytes c)"
  unfolding remote_d2h_async_submit_def Let_def case_prod_beta [of _ "client_malloc _ _ _"] by (intro stepped_intros; simp)

lemma stepped_remote_memcpy2d_h2d_async [simp]: "stepped sys c (remote_memcpy2d_h2d_async sys aid off pitch width height sid data c)"
  unfolding remote_memcpy2d_h2d_async_def Let_def case_prod_beta [of _ "client_malloc _ _ _"] by (intro stepped_intros; simp)

lemma stepped_remote_memcpy2d_d2h_async [simp]: "stepped sys c (remote_memcpy2d_d2h_async sys aid off pitch width height sid c)"
  unfolding remote_memcpy2d_d2h_async_def by (intro stepped_intros; simp)

lemma stepped_remote_transfer_query [simp]: "stepped sys c (remote_transfer_query sys tid c)"
  unfolding remote_transfer_query_def by (intro stepped_intros; simp)

lemma stepped_remote_transfer_wait [simp]: "stepped sys c (remote_transfer_wait sys tid dst expected c)"
  unfolding remote_transfer_wait_def Let_def case_prod_beta [of _ "client_malloc _ _ _"] by (intro stepped_intros; simp)

lemma stepped_remote_get_device_info [simp]: "stepped sys c (remote_get_device_info sys device c)"
  unfolding remote_get_device_info_def Let_def case_prod_beta [of _ "client_malloc _ _ _"] by (intro stepped_intros; simp)

lemma stepped_stubs [simp]:
  "stepped sys c (remote_sync sys c)"
  "stepped sys c (remote_device_get_attribute sys attribute device c)"
  "stepped sys c (remote_device_get_pci_bus_id sys device c)"
  "stepped sys c (remote_get_device_flags sys c)"
  "stepped sys c (remote_get_priority_range sys c)"
  "stepped sys c (remote_get_limit sys limit c)"
  "stepped sys c (remote_get_cache_config sys c)"
  "stepped sys c (remote_get_shared_mem_config sys c)"
  "stepped sys c (remote_function_set_attribute sys kid attribute v c)"
  "stepped sys c (remote_function_set_cache_config sys kid config c)"
  "stepped sys c (remote_stream_query sys sid c)"
  "stepped sys c (remote_event_query sys eid c)"
  by (simp_all add: remote_sync_def remote_device_get_attribute_def remote_device_get_pci_bus_id_def remote_get_device_flags_def remote_get_priority_range_def remote_get_limit_def remote_get_cache_config_def remote_get_shared_mem_config_def remote_function_set_attribute_def remote_function_set_cache_config_def remote_stream_query_def remote_event_query_def stub_defs stepped_generated)

end
