(* ===== verification/Client_Arena.thy ===== *)
theory Client_Arena
  imports Client_Session
begin

text \<open>
  The pointers the client hands out (\<^verbatim>\<open>src/corex_remote_cuda.c\<close>): one reserved range of addresses, the
  arena, from which every allocation gets a span of its own followed by a guard; the table of live
  allocations; and the functions that turn a pointer or a region of rows or slices into an allocation
  identifier and an offset.

  An entry point returns \<open>Inr\<close> with what it stores through its out-parameters, or \<open>Inl\<close> with the error
  it returns. An out-parameter is kept as its address, which is only compared with null.
\<close>

section \<open>Results\<close>

type_synonym 'a result = "(cudaError_t + 'a) \<times> client"

text \<open>\<open>G6E_RETURN\<close> of an error, and a failed call mapped to an error.\<close>

definition raise :: "cudaError_t \<Rightarrow> client \<Rightarrow> 'a result" where
  "raise error c = (Inl error, c\<lparr>g_last_error := error\<rparr>)"

definition call_or :: "cudaError_t \<Rightarrow> 'a option \<times> client \<Rightarrow> 'a result" where
  "call_or fallback = (\<lambda>(r, c). case r of Some v \<Rightarrow> (Inr v, c) | None \<Rightarrow> raise (map_last_rpc_error fallback c) c)"

definition result_bind :: "'a result \<Rightarrow> ('a \<Rightarrow> client \<Rightarrow> 'b result) \<Rightarrow> 'b result" where
  "result_bind m f = (case m of (Inl error, c) \<Rightarrow> (Inl error, c) | (Inr v, c) \<Rightarrow> f v c)"

definition with_runtime :: "system \<Rightarrow> (client \<Rightarrow> 'a result) \<Rightarrow> client \<Rightarrow> 'a result" where
  "with_runtime sys f c = (case ensure_runtime_locked sys c of (init, c) \<Rightarrow> if init \<noteq> cudaSuccess then raise init c else f c)"

section \<open>The arena\<close>

abbreviation (input) G6A_VA_ALIGNMENT :: u64 where "G6A_VA_ALIGNMENT \<equiv> 65536"
abbreviation (input) G6A_VA_GUARD_BYTES :: u64 where "G6A_VA_GUARD_BYTES \<equiv> 65536"

definition align_up_size :: "u64 \<Rightarrow> u64 \<Rightarrow> u64 option" where
  "align_up_size value alignment =
     (if alignment = 0 then None
      else let mask = alignment - 1
           in if alignment AND mask \<noteq> 0 then None
              else if value > UINT64_MAX - mask then None
              else Some ((value + mask) AND NOT mask))"

definition find_free_slot :: "client \<Rightarrow> nat option" where
  "find_free_slot c = find (\<lambda>i. \<not> va_live (g_allocs c ! i)) [0..<length (g_allocs c)]"

definition current_alloc :: "client \<Rightarrow> VirtualAllocation \<Rightarrow> bool" where
  "current_alloc c a \<longleftrightarrow> va_live a \<and> va_session_generation a = g_active_session_generation c"

definition find_exact_live_base :: "u64 \<Rightarrow> client \<Rightarrow> nat option" where
  "find_exact_live_base ptr c =
     find (\<lambda>i. current_alloc c (g_allocs c ! i) \<and> va_virtual_base (g_allocs c ! i) = ptr) [0..<length (g_allocs c)]"

definition pointer_in_remote_arena :: "u64 \<Rightarrow> client \<Rightarrow> bool" where
  "pointer_in_remote_arena ptr c \<longleftrightarrow>
     ptr \<noteq> 0 \<and> g_va_arena c \<noteq> 0 \<and> ptr \<ge> g_va_arena c \<and> ptr - g_va_arena c < G6A_VA_ARENA_BYTES"

section \<open>Resolving a pointer\<close>

datatype ResolveResult = RESOLVE_OK | RESOLVE_INVALID | RESOLVE_OOB | RESOLVE_GRAPH_RESERVED

text \<open>\<open>ResolvedRemotePtr\<close>: allocation identifier and byte offset; \<open>Inl\<close> is every other result.\<close>

type_synonym resolved = "ResolveResult + u64 \<times> u64"

text \<open>
  The scan of the table: the first current allocation that contains the pointer, one byte past its end
  included, decides; \<open>check\<close> is what it has to pass.
\<close>

definition scan_allocs :: "(VirtualAllocation \<Rightarrow> bool) \<Rightarrow> bool \<Rightarrow> (VirtualAllocation \<Rightarrow> u64 option) \<Rightarrow> client \<Rightarrow> resolved" where
  "scan_allocs inside graph_resources check c =
     (case find (\<lambda>a. current_alloc c a \<and> inside a) (g_allocs c) of
        None \<Rightarrow> Inl RESOLVE_INVALID
      | Some a \<Rightarrow>
          if \<not> graph_resources \<and> va_graph_id a \<noteq> 0 \<and> \<not> va_graph_active a then Inl RESOLVE_GRAPH_RESERVED
          else case check a of None \<Rightarrow> Inl RESOLVE_OOB | Some offset \<Rightarrow> Inr (va_allocation_id a, offset))"

definition resolve_remote_ptr_mode :: "u64 \<Rightarrow> u64 \<Rightarrow> bool \<Rightarrow> client \<Rightarrow> resolved" where
  "resolve_remote_ptr_mode ptr access_bytes graph_resources c =
     scan_allocs (\<lambda>a. \<not> (ptr < va_virtual_base a \<or> ptr > va_virtual_base a + va_size a)) graph_resources
       (\<lambda>a. let offset = ptr - va_virtual_base a
            in if offset > va_size a \<or> access_bytes > va_size a - offset then None
               else if access_bytes > 0 \<and> offset = va_size a then None else Some offset) c"

definition resolve_remote_ptr :: "u64 \<Rightarrow> u64 \<Rightarrow> client \<Rightarrow> resolved" where
  "resolve_remote_ptr ptr bytes c = resolve_remote_ptr_mode ptr bytes False c"

definition map_resolve_error :: "ResolveResult \<Rightarrow> cudaError_t" where
  "map_resolve_error result =
     (if result = RESOLVE_GRAPH_RESERVED then cudaErrorNotSupported
      else if result = RESOLVE_OOB then cudaErrorInvalidValue else cudaErrorInvalidDevicePointer)"

section \<open>Regions\<close>

definition checked_2d_extent :: "u64 \<Rightarrow> u64 \<Rightarrow> u64 \<Rightarrow> u64 \<Rightarrow> u64 \<Rightarrow> bool" where
  "checked_2d_extent offset pitch width height allocation_size =
     (if height = 0 \<or> width = 0 \<or> pitch = 0 \<or> width > pitch \<or> offset > allocation_size then False
      else if height - 1 > (allocation_size - offset) div pitch then False
      else let row = offset + (height - 1) * pitch in width \<le> allocation_size - row)"

definition resolve_remote_2d_region :: "u64 \<Rightarrow> u64 \<Rightarrow> u64 \<Rightarrow> u64 \<Rightarrow> client \<Rightarrow> resolved" where
  "resolve_remote_2d_region ptr pitch width height c =
     (if ptr = 0 \<or> width = 0 \<or> height = 0 \<or> pitch = 0 \<or> width > pitch then Inl RESOLVE_INVALID
      else scan_allocs (\<lambda>a. \<not> (ptr < va_virtual_base a \<or> ptr - va_virtual_base a > va_size a)) False
        (\<lambda>a. let off = ptr - va_virtual_base a
             in if checked_2d_extent off pitch width height (va_size a) then Some off else None) c)"

record cudaPos =
  pos_x :: u64
  pos_y :: u64
  pos_z :: u64

record cudaExtent =
  ext_width :: u64
  ext_height :: u64
  ext_depth :: u64

definition checked_3d_region :: "u64 \<Rightarrow> cudaPos \<Rightarrow> u64 \<Rightarrow> u64 \<Rightarrow> cudaExtent \<Rightarrow> u64 \<Rightarrow> u64 option" where
  "checked_3d_region base_offset position pitch slice_pitch extent limit =
     (if ext_width extent = 0 \<or> ext_height extent = 0 \<or> ext_depth extent = 0 \<or> pitch = 0 \<or> slice_pitch = 0 \<or>
         slice_pitch mod pitch \<noteq> 0 then None
      else let rows = slice_pitch div pitch
           in if pos_x position > pitch \<or> ext_width extent > pitch - pos_x position \<or> pos_y position > rows \<or>
                 ext_height extent > rows - pos_y position \<or> base_offset > limit then None
              else if pos_z position > (limit - base_offset) div slice_pitch then None
              else let offset = base_offset + pos_z position * slice_pitch
                   in if pos_y position > (limit - offset) div pitch then None
                      else let offset = offset + pos_y position * pitch
                           in if pos_x position > limit - offset then None
                              else let offset = offset + pos_x position
                                   in if ext_depth extent - 1 > (limit - offset) div slice_pitch then None
                                      else let last_slice = offset + (ext_depth extent - 1) * slice_pitch
                                           in if checked_2d_extent last_slice pitch (ext_width extent) (ext_height extent) limit
                                              then Some offset else None)"

definition resolve_remote_3d_region_mode :: "u64 \<Rightarrow> cudaPos \<Rightarrow> u64 \<Rightarrow> u64 \<Rightarrow> cudaExtent \<Rightarrow> bool \<Rightarrow> client \<Rightarrow> resolved" where
  "resolve_remote_3d_region_mode ptr position pitch slice_pitch extent graph_resources c =
     (if ptr = 0 then Inl RESOLVE_INVALID
      else scan_allocs (\<lambda>a. \<not> (ptr < va_virtual_base a \<or> ptr - va_virtual_base a > va_size a)) graph_resources
        (\<lambda>a. checked_3d_region (ptr - va_virtual_base a) position pitch slice_pitch extent (va_size a)) c)"

definition resolve_remote_3d_region :: "u64 \<Rightarrow> cudaPos \<Rightarrow> u64 \<Rightarrow> u64 \<Rightarrow> cudaExtent \<Rightarrow> client \<Rightarrow> resolved" where
  "resolve_remote_3d_region ptr position pitch slice_pitch extent c =
     resolve_remote_3d_region_mode ptr position pitch slice_pitch extent False c"

section \<open>New spans\<close>

text \<open>The span of a new allocation: its size rounded up, and the guard; \<^const>\<open>None\<close> when the arena cannot hold it.\<close>

definition arena_span :: "u64 \<Rightarrow> client \<Rightarrow> u64 option" where
  "arena_span bytes c =
     (case align_up_size bytes G6A_VA_ALIGNMENT of
        None \<Rightarrow> None
      | Some aligned_size \<Rightarrow>
          if aligned_size > UINT64_MAX - G6A_VA_GUARD_BYTES then None
          else let span = aligned_size + G6A_VA_GUARD_BYTES
               in if g_va_next c > G6A_VA_ARENA_BYTES \<or> span > G6A_VA_ARENA_BYTES - g_va_next c then None else Some span)"

definition prepare_linear_identity :: "u64 \<Rightarrow> client \<Rightarrow> (nat \<times> u64) result" where
  "prepare_linear_identity bytes c =
     (case find_free_slot c of
        None \<Rightarrow> raise cudaErrorMemoryAllocation c
      | Some slot \<Rightarrow>
          (case arena_span bytes c of
             None \<Rightarrow> raise cudaErrorMemoryAllocation c
           | Some span \<Rightarrow> (Inr (slot, span), c)))"

definition put_alloc :: "nat \<Rightarrow> VirtualAllocation \<Rightarrow> u64 \<Rightarrow> client \<Rightarrow> client" where
  "put_alloc slot a span c = c\<lparr>g_allocs := (g_allocs c)[slot := a], g_va_next := g_va_next c + span\<rparr>"

definition commit_linear_identity :: "nat \<Rightarrow> u64 \<Rightarrow> u64 \<Rightarrow> u64 \<Rightarrow> client \<Rightarrow> u64 result" where
  "commit_linear_identity slot bytes allocation_id span c =
     (let base = g_va_arena c + g_va_next c
      in (Inr base, put_alloc slot (zero_virtual_allocation\<lparr>va_live := True,
            va_session_generation := g_active_session_generation c, va_virtual_base := base, va_size := bytes,
            va_allocation_id := allocation_id, va_layout_kind := COREX_LAYOUT_LINEAR, va_logical_width_bytes := bytes,
            va_logical_height := 1, va_logical_depth := 1, va_pitch := bytes, va_slice_pitch := bytes\<rparr>) span c))"

definition cudaMallocPitch_locked :: "system \<Rightarrow> u64 \<Rightarrow> u64 \<Rightarrow> u64 \<Rightarrow> u64 \<Rightarrow> client \<Rightarrow> (u64 \<times> u64) result" where
  "cudaMallocPitch_locked sys devPtr pitch width height c =
     (if devPtr = 0 \<or> pitch = 0 \<or> width = 0 \<or> height = 0 then raise cudaErrorInvalidValue c
      else with_runtime sys (\<lambda>c. case find_free_slot c of
          None \<Rightarrow> raise cudaErrorMemoryAllocation c
        | Some slot \<Rightarrow>
            result_bind (call_or cudaErrorMemoryAllocation (remote_alloc_pitched sys width height c)) (\<lambda>(aid, p, bytes) c.
              case arena_span bytes c of
                None \<Rightarrow> raise cudaErrorMemoryAllocation c
              | Some span \<Rightarrow>
                  let base = g_va_arena c + g_va_next c
                  in (Inr (base, p), put_alloc slot (zero_virtual_allocation\<lparr>va_live := True,
                        va_session_generation := g_active_session_generation c, va_virtual_base := base, va_size := bytes,
                        va_allocation_id := aid, va_layout_kind := COREX_LAYOUT_PITCHED_2D, va_logical_width_bytes := width,
                        va_logical_height := height, va_logical_depth := 1, va_pitch := p, va_slice_pitch := bytes\<rparr>) span c))) c)"

record cudaPitchedPtr =
  pp_ptr :: u64
  pp_pitch :: u64
  pp_xsize :: u64
  pp_ysize :: u64

text \<open>The new allocation is found again at its base, so that the scan never fails here.\<close>

definition cudaMalloc3D_locked :: "system \<Rightarrow> u64 \<Rightarrow> cudaExtent \<Rightarrow> client \<Rightarrow> cudaPitchedPtr result" where
  "cudaMalloc3D_locked sys pitchedDevPtr extent c =
     (if pitchedDevPtr = 0 then raise cudaErrorInvalidValue c
      else if ext_width extent = 0 \<or> ext_height extent = 0 \<or> ext_depth extent = 0 \<or>
          ext_height extent > UINT64_MAX div ext_depth extent then raise cudaErrorInvalidValue c
      else let rows = ext_height extent * ext_depth extent
           in if ext_width extent > UINT64_MAX div rows then raise cudaErrorInvalidValue c
              else result_bind (cudaMallocPitch_locked sys pitchedDevPtr pitchedDevPtr (ext_width extent) rows c) (\<lambda>(ptr, pitch) c.
                (Inr \<lparr>pp_ptr = ptr, pp_pitch = pitch, pp_xsize = ext_width extent, pp_ysize = ext_height extent\<rparr>,
                 case find_exact_live_base ptr c of
                   None \<Rightarrow> c
                 | Some i \<Rightarrow> c\<lparr>g_allocs := (g_allocs c)[i := (g_allocs c ! i)\<lparr>va_layout_kind := COREX_LAYOUT_PITCHED_3D,
                       va_logical_height := ext_height extent, va_logical_depth := ext_depth extent,
                       va_slice_pitch := va_pitch (g_allocs c ! i) * ext_height extent\<rparr>]\<rparr>)))"

end
