(* ===== verification/Client_Transfers.thy ===== *)
theory Client_Transfers
  imports Client_Arena
begin

text \<open>
  Streams, frontiers and hidden transfers of the client (\<^verbatim>\<open>src/corex_remote_cuda.c\<close>). An asynchronous copy
  between host and device leaves a hidden transfer: the bytes of a download reach the caller's buffer
  only when the transfer is consumed. Each stream carries a frontier, for every stream slot the number
  of the last operation of that slot it is ordered after; a transfer is covered by a frontier when its
  own number is not beyond it. Synchronising consumes the covered transfers, oldest first.
\<close>

section \<open>Streams and their frontiers\<close>

definition frontier_merge :: "u64 list \<Rightarrow> u64 list \<Rightarrow> u64 list" where
  "frontier_merge dst src = map (\<lambda>i. if src ! i > dst ! i then src ! i else dst ! i) [0..<length dst]"

text \<open>
  \<open>G6EStreamView\<close>: the pointers to the frontier and to the counter are those of the default stream or
  of the handle at a position.
\<close>

record G6EStreamView =
  sv_stream_id :: u64
  sv_slot_index :: nat
  sv_owner :: "nat option"
  sv_nonblocking :: bool

definition sv_is_default :: "G6EStreamView \<Rightarrow> bool" where
  "sv_is_default view \<longleftrightarrow> sv_owner view = None"

abbreviation (input) cudaStreamNonBlocking :: u32 where "cudaStreamNonBlocking \<equiv> 1"

definition get_stream_view :: "nat option \<Rightarrow> client \<Rightarrow> G6EStreamView option" where
  "get_stream_view stream c =
     (if stream = None
      then if g_default_frontier c = None then None
           else Some \<lparr>sv_stream_id = 0, sv_slot_index = G6E_DEFAULT_STREAM_SLOT, sv_owner = None, sv_nonblocking = False\<rparr>
      else case resolve_stream_handle stream c of
             None \<Rightarrow> None
           | Some i \<Rightarrow> Some \<lparr>sv_stream_id = sh_stream_id (g_stream_handles c ! i), sv_slot_index = sh_slot_index (g_stream_handles c ! i),
               sv_owner = Some i, sv_nonblocking = (sh_flags (g_stream_handles c ! i) AND cudaStreamNonBlocking \<noteq> 0)\<rparr>)"

definition upd_stream_handle :: "nat \<Rightarrow> (corexCudaStreamHandle \<Rightarrow> corexCudaStreamHandle) \<Rightarrow> client \<Rightarrow> client" where
  "upd_stream_handle i f c = c\<lparr>g_stream_handles := (g_stream_handles c)[i := f (g_stream_handles c ! i)]\<rparr>"

definition view_frontier :: "G6EStreamView \<Rightarrow> client \<Rightarrow> u64 list option" where
  "view_frontier view c = (case sv_owner view of None \<Rightarrow> g_default_frontier c | Some i \<Rightarrow> sh_frontier (g_stream_handles c ! i))"

definition view_next_transfer_seq :: "G6EStreamView \<Rightarrow> client \<Rightarrow> u64" where
  "view_next_transfer_seq view c =
     (case sv_owner view of None \<Rightarrow> g_default_next_transfer_seq c | Some i \<Rightarrow> sh_next_transfer_seq (g_stream_handles c ! i))"

definition map_view_frontier :: "(u64 list \<Rightarrow> u64 list) \<Rightarrow> G6EStreamView \<Rightarrow> client \<Rightarrow> client" where
  "map_view_frontier f view c =
     (case sv_owner view of
        None \<Rightarrow> c\<lparr>g_default_frontier := map_option f (g_default_frontier c)\<rparr>
      | Some i \<Rightarrow> upd_stream_handle i (\<lambda>h. h\<lparr>sh_frontier := map_option f (sh_frontier h)\<rparr>) c)"

text \<open>\<open>seq = ++(*next_transfer_seq); frontier[slot_index] = seq\<close>: one more operation on the stream.\<close>

definition view_advance :: "G6EStreamView \<Rightarrow> client \<Rightarrow> u64 \<times> client" where
  "view_advance view c =
     (let seq = view_next_transfer_seq view c + 1;
          c = (case sv_owner view of
                 None \<Rightarrow> c\<lparr>g_default_next_transfer_seq := seq\<rparr>
               | Some i \<Rightarrow> upd_stream_handle i (\<lambda>h. h\<lparr>sh_next_transfer_seq := seq\<rparr>) c)
      in (seq, map_view_frontier (\<lambda>f. f[sv_slot_index view := seq]) view c))"

definition apply_legacy_default_ordering :: "G6EStreamView \<Rightarrow> client \<Rightarrow> client" where
  "apply_legacy_default_ordering view c =
     (case (view_frontier view c, g_default_frontier c) of
        (Some own, Some common) \<Rightarrow>
          if sv_is_default view
          then c\<lparr>g_default_frontier := Some (foldl (\<lambda>d h. case sh_frontier h of
                  Some f \<Rightarrow> if sh_live h then frontier_merge d f else d | None \<Rightarrow> d)
                common (take (g_stream_handle_next c) (g_stream_handles c)))\<rparr>
          else if \<not> sv_nonblocking view then map_view_frontier (\<lambda>f. frontier_merge f common) view c else c
      | _ \<Rightarrow> c)"

section \<open>Hidden transfers\<close>

definition find_free_hidden_transfer :: "client \<Rightarrow> nat option" where
  "find_free_hidden_transfer c = find (\<lambda>i. \<not> ht_live (g_hidden_transfers c ! i)) [0..<length (g_hidden_transfers c)]"

definition live_hidden_transfer_count :: "client \<Rightarrow> nat" where
  "live_hidden_transfer_count c = length (filter ht_live (g_hidden_transfers c))"

definition transfer_covered_by_frontier :: "HiddenTransfer \<Rightarrow> u64 list \<Rightarrow> bool" where
  "transfer_covered_by_frontier t frontier \<longleftrightarrow>
     ht_live t \<and> ht_origin_stream_slot t < G6E_FRONTIER_SLOTS \<and> ht_origin_stream_seq t \<le> frontier ! ht_origin_stream_slot t"

text \<open>The loop keeps the earliest entry with the least submission number.\<close>

definition transfer_matches :: "u64 list option \<Rightarrow> u64 option \<Rightarrow> HiddenTransfer \<Rightarrow> bool" where
  "transfer_matches frontier allocation t \<longleftrightarrow> ht_live t \<and>
     (case frontier of Some f \<Rightarrow> transfer_covered_by_frontier t f | None \<Rightarrow> True) \<and>
     (case allocation of Some a \<Rightarrow> ht_allocation_id t = a | None \<Rightarrow> True)"

definition oldest_matching_transfer :: "u64 list option \<Rightarrow> u64 option \<Rightarrow> client \<Rightarrow> nat option" where
  "oldest_matching_transfer frontier allocation c =
     foldl (\<lambda>best i. let t = g_hidden_transfers c ! i
         in if \<not> transfer_matches frontier allocation t then best
            else case best of
                   None \<Rightarrow> Some i
                 | Some b \<Rightarrow> if ht_submit_order t < ht_submit_order (g_hidden_transfers c ! b) then Some i else best)
       None [0..<length (g_hidden_transfers c)]"

definition host_load :: "u64 \<Rightarrow> nat \<Rightarrow> client \<Rightarrow> bytes" where
  "host_load p n c = dev_read (host c) p n"

definition host_store :: "u64 \<Rightarrow> bytes \<Rightarrow> client \<Rightarrow> client" where
  "host_store p data c = c\<lparr>host := dev_write p data (host c)\<rparr>"

text \<open>The rows of a flat buffer written with the pitches of the destination.\<close>

definition scatter_rows :: "u64 \<Rightarrow> u64 \<Rightarrow> u64 \<Rightarrow> u64 \<Rightarrow> u64 \<Rightarrow> u64 \<Rightarrow> bytes \<Rightarrow> client \<Rightarrow> client" where
  "scatter_rows dst slice_pitch pitch width height depth flat c =
     foldl (\<lambda>c (z, y). host_store (dst + of_nat z * slice_pitch + of_nat y * pitch)
          (take (unat width) (drop ((z * unat height + y) * unat width) flat)) c)
       c (List.product [0..<unat depth] [0..<unat height])"

text \<open>The rows of a region gathered into a flat buffer.\<close>

definition gather_rows :: "u64 \<Rightarrow> u64 \<Rightarrow> u64 \<Rightarrow> u64 \<Rightarrow> u64 \<Rightarrow> u64 \<Rightarrow> client \<Rightarrow> bytes" where
  "gather_rows src slice_pitch pitch width height depth c =
     concat (map (\<lambda>(z, y). host_load (src + of_nat z * slice_pitch + of_nat y * pitch) (unat width) c)
       (List.product [0..<unat depth] [0..<unat height]))"

definition retire_hidden_transfer :: "nat \<Rightarrow> client \<Rightarrow> client" where
  "retire_hidden_transfer i c = c\<lparr>g_hidden_transfers := (g_hidden_transfers c)[i := zero_hidden_transfer]\<rparr>"

text \<open>
  \<open>consume_hidden_transfer\<close>: wait for the transfer, write a download to the caller's buffer, forget the
  transfer. The buffer for the rows of a strided download is allocated first; what the answer does not
  fill of it has no specified content and is zero here.
\<close>

definition strided_download :: "HiddenTransfer \<Rightarrow> bool" where
  "strided_download t \<longleftrightarrow> ht_kind t = HIDDEN_TRANSFER_D2H_2D \<or> ht_kind t = HIDDEN_TRANSFER_D2H_3D"

definition wait_hidden_transfer :: "system \<Rightarrow> HiddenTransfer \<Rightarrow> client \<Rightarrow> bytes result" where
  "wait_hidden_transfer sys t c =
     (if strided_download t
      then let (ok, c) = client_malloc sys (ht_bytes t) c
           in if \<not> ok then raise cudaErrorMemoryAllocation c
              else call_or cudaErrorUnknown (remote_transfer_wait sys (ht_transfer_id t) True (ucast (ht_bytes t)) c)
      else let expected = (if ht_kind t = HIDDEN_TRANSFER_D2H then ucast (ht_bytes t) else 0);
               dst = (if ht_kind t = HIDDEN_TRANSFER_D2H then ht_host_dst t else 0)
           in call_or cudaErrorUnknown (remote_transfer_wait sys (ht_transfer_id t) (dst \<noteq> 0) expected c))"

definition deliver :: "HiddenTransfer \<Rightarrow> bytes \<Rightarrow> client \<Rightarrow> client" where
  "deliver t resp c =
     (if strided_download t
      then scatter_rows (ht_host_dst t) (ht_host_slice_pitch t) (ht_host_pitch t) (ht_width t) (ht_height t)
             (if ht_kind t = HIDDEN_TRANSFER_D2H_3D then ht_depth t else 1) (fit (unat (ht_bytes t)) resp) c
      else if ht_kind t = HIDDEN_TRANSFER_D2H then host_store (ht_host_dst t) resp c else c)"

definition consume_hidden_transfer :: "system \<Rightarrow> nat \<Rightarrow> client \<Rightarrow> unit result" where
  "consume_hidden_transfer sys i c =
     (let t = g_hidden_transfers c ! i
      in if \<not> ht_live t then raise cudaErrorUnknown c
         else result_bind (wait_hidden_transfer sys t c) (\<lambda>resp c. (Inr (), retire_hidden_transfer i (deliver t resp c))))"

section \<open>Frames\<close>

lemma raise_simps [simp]: "fst (raise e c) = Inl e"
  "snd (raise e c) = c\<lparr>g_last_error := e\<rparr>"
  by (simp_all add: raise_def)

lemma call_or_Inr: "call_or e x = (Inr v, c) \<Longrightarrow> x = (Some v, c)"
  by (auto simp: call_or_def raise_def split: prod.splits option.splits)

lemma result_bind_Inr: "result_bind m f = (Inr v, c') \<Longrightarrow> \<exists>u c. m = (Inr u, c) \<and> f u c = (Inr v, c')"
  by (auto simp: result_bind_def split: prod.splits sum.splits)

lemma stepped_Some: "stepped sys c (Some v, c') \<Longrightarrow> quiet c c'"
  by (simp add: stepped_def)

lemma host_store_frame [simp]: "g_hidden_transfers (host_store p d c) = g_hidden_transfers c"
  by (simp add: host_store_def)

lemma scatter_rows_host: "\<exists>m. scatter_rows dst s p w h d flat c = c\<lparr>host := m\<rparr>"
proof -
  have f: "\<exists>m. foldl (\<lambda>c (z, y). host_store (a z y) (b z y) c) c xs = c\<lparr>host := m\<rparr>" for a b and xs :: "(nat \<times> nat) list"
  proof (induction xs arbitrary: c)
    case Nil
    show ?case by (rule exI [of _ "host c"]) simp
  next
    case (Cons x xs)
    obtain z y where x: "x = (z, y)" by fastforce
    show ?case using Cons.IH [of "host_store (a z y) (b z y) c"] by (auto simp: x host_store_def)
  qed
  show ?thesis unfolding scatter_rows_def by (rule f)
qed

lemma deliver_host: "\<exists>m. deliver t resp c = c\<lparr>host := m\<rparr>"
  using scatter_rows_host by (auto simp: deliver_def host_store_def intro: exI [of _ "host c"])

section \<open>Consuming a transfer\<close>

text \<open>
  A transfer is consumed only by a successful wait: then exactly its entry is cleared and, for a
  download, only the memory of the process changes.
\<close>

lemma wait_quiet: "quiet c c0 \<Longrightarrow> remote_transfer_wait sys tid d e c0 = (Some resp, c1) \<Longrightarrow> quiet c c1"
  using stepped_remote_transfer_wait [of sys c0 tid d e] quiet_trans by (simp add: stepped_def)

lemma wait_hidden_transfer_Inr: "wait_hidden_transfer sys t c = (Inr resp, c1) \<Longrightarrow> quiet c c1"
  by (auto simp: wait_hidden_transfer_def Let_def case_prod_beta raise_def dest!: call_or_Inr elim!: wait_quiet [rotated] split: if_splits)

lemma consume_Inr:
  assumes "consume_hidden_transfer sys i c = (Inr (), c')"
  obtains resp c1 where "ht_live (g_hidden_transfers c ! i)" "wait_hidden_transfer sys (g_hidden_transfers c ! i) c = (Inr resp, c1)"
    "quiet c c1" "c' = retire_hidden_transfer i (deliver (g_hidden_transfers c ! i) resp c1)"
  using assms wait_hidden_transfer_Inr
  by (auto simp: consume_hidden_transfer_def raise_def Let_def dest!: result_bind_Inr split: if_splits)

lemma consume_clears:
  assumes "consume_hidden_transfer sys i c = (Inr (), c')"
  shows "g_hidden_transfers c' = (g_hidden_transfers c)[i := zero_hidden_transfer]"
proof -
  obtain resp c1 where r: "quiet c c1" "c' = retire_hidden_transfer i (deliver (g_hidden_transfers c ! i) resp c1)"
    using assms by (rule consume_Inr)
  obtain m where "deliver (g_hidden_transfers c ! i) resp c1 = c1\<lparr>host := m\<rparr>" using deliver_host by blast
  with r show ?thesis by (simp add: retire_hidden_transfer_def quietD)
qed

section \<open>The oldest matching transfer\<close>

definition oldest :: "(nat \<Rightarrow> bool) \<Rightarrow> (nat \<Rightarrow> u64) \<Rightarrow> nat \<Rightarrow> nat option \<Rightarrow> bool" where
  "oldest P key n best \<longleftrightarrow> (case best of
      None \<Rightarrow> \<forall>i < n. \<not> P i
    | Some b \<Rightarrow> b < n \<and> P b \<and> (\<forall>i < n. P i \<longrightarrow> key b \<le> key i))"

lemma oldest_Suc:
  assumes "oldest P key n best"
  shows "oldest P key (Suc n) (if \<not> P n then best else case best of None \<Rightarrow> Some n | Some b \<Rightarrow> if key n < key b then Some n else best)"
  using assms by (auto simp: oldest_def less_Suc_eq split: option.splits intro: order.trans less_imp_le)

lemma oldest_matching:
  "oldest (\<lambda>i. transfer_matches frontier allocation (g_hidden_transfers c ! i)) (\<lambda>i. ht_submit_order (g_hidden_transfers c ! i))
     (length (g_hidden_transfers c)) (oldest_matching_transfer frontier allocation c)"
proof -
  let ?P = "\<lambda>i. transfer_matches frontier allocation (g_hidden_transfers c ! i)" and ?key = "\<lambda>i. ht_submit_order (g_hidden_transfers c ! i)"
  let ?f = "\<lambda>best i. if \<not> ?P i then best else case best of None \<Rightarrow> Some i | Some b \<Rightarrow> if ?key i < ?key b then Some i else best"
  have "oldest ?P ?key n (foldl ?f None [0..<n])" for n
  proof (induction n)
    case (Suc n)
    have "foldl ?f None [0..<Suc n] = ?f (foldl ?f None [0..<n]) n" by (simp only: upt_Suc_append [OF le0] foldl_append foldl.simps)
    then show ?case using oldest_Suc [OF Suc.IH] by (simp only:)
  qed (simp add: oldest_def)
  then show ?thesis by (simp add: oldest_matching_transfer_def Let_def)
qed

lemma oldest_matching_Some:
  assumes "oldest_matching_transfer frontier allocation c = Some i"
  shows "i < length (g_hidden_transfers c)" "transfer_matches frontier allocation (g_hidden_transfers c ! i)"
    "\<And>j. j < length (g_hidden_transfers c) \<Longrightarrow> transfer_matches frontier allocation (g_hidden_transfers c ! j) \<Longrightarrow>
       ht_submit_order (g_hidden_transfers c ! i) \<le> ht_submit_order (g_hidden_transfers c ! j)"
  using oldest_matching [of frontier allocation c] assms by (auto simp: oldest_def)

lemma oldest_matching_None:
  "oldest_matching_transfer frontier allocation c = None \<Longrightarrow> i < length (g_hidden_transfers c) \<Longrightarrow>
   \<not> transfer_matches frontier allocation (g_hidden_transfers c ! i)"
  using oldest_matching [of frontier allocation c] by (auto simp: oldest_def)

section \<open>Draining\<close>

lemma consume_fewer:
  assumes "oldest_matching_transfer frontier allocation c = Some i" "consume_hidden_transfer sys i c = (Inr (), c')"
  shows "live_hidden_transfer_count c' < live_hidden_transfer_count c"
proof -
  let ?ts = "g_hidden_transfers c"
  have i: "i < length ?ts" "ht_live (?ts ! i)" using oldest_matching_Some [OF assms(1)] by (simp_all add: transfer_matches_def)
  have "length (filter ht_live (?ts[i := zero_hidden_transfer])) < length (filter ht_live ?ts)"
    using i by (subst (2) id_take_nth_drop [OF i(1)]) (simp add: upd_conv_take_nth_drop zero_hidden_transfer_def)
  then show ?thesis by (simp add: live_hidden_transfer_count_def consume_clears [OF assms(2)])
qed

text \<open>
  The loop of the three draining functions: a frontier, or null for every transfer, and an allocation
  to match, if any. It ends because every successful turn clears a live entry.
\<close>

function drain_matching :: "system \<Rightarrow> u64 list option \<Rightarrow> u64 option \<Rightarrow> client \<Rightarrow> unit result" where
  "drain_matching sys frontier allocation c =
     (case oldest_matching_transfer frontier allocation c of
        None \<Rightarrow> (Inr (), c)
      | Some i \<Rightarrow>
          (case consume_hidden_transfer sys i c of
             (Inl err, c) \<Rightarrow> raise err c
           | (Inr _, c) \<Rightarrow> drain_matching sys frontier allocation c))"
  by pat_completeness auto
termination
  by (relation "measure (\<lambda>(_, _, _, c). live_hidden_transfer_count c)") (auto dest: consume_fewer [OF _ sym])

declare drain_matching.simps [simp del]

definition drain_frontier_blocking :: "system \<Rightarrow> u64 list option \<Rightarrow> client \<Rightarrow> unit result" where
  "drain_frontier_blocking sys frontier c = drain_matching sys frontier None c"

definition drain_all_transfers_blocking :: "system \<Rightarrow> client \<Rightarrow> unit result" where
  "drain_all_transfers_blocking sys c = drain_matching sys None None c"

definition drain_allocation_transfers_blocking :: "system \<Rightarrow> u64 \<Rightarrow> client \<Rightarrow> unit result" where
  "drain_allocation_transfers_blocking sys allocation_id c = drain_matching sys None (Some allocation_id) c"

text \<open>
  \<open>drain_frontier_if_ready\<close>: every covered transfer is queried before any is consumed. The result is
  whether all were ready.
\<close>

abbreviation (input) STREAM_STATE_READY :: u32 where "STREAM_STATE_READY \<equiv> 0"
abbreviation (input) STREAM_STATE_PENDING :: u32 where "STREAM_STATE_PENDING \<equiv> 1"

fun query_covered :: "system \<Rightarrow> u64 list \<Rightarrow> nat list \<Rightarrow> client \<Rightarrow> bool result" where
  "query_covered sys frontier [] c = (Inr True, c)"
| "query_covered sys frontier (i # is) c =
     (let t = g_hidden_transfers c ! i
      in if \<not> transfer_covered_by_frontier t frontier then query_covered sys frontier is c
         else result_bind (call_or cudaErrorUnknown (remote_transfer_query sys (ht_transfer_id t) c)) (\<lambda>state c.
           if state = STREAM_STATE_PENDING then (Inr False, c)
           else if state \<noteq> STREAM_STATE_READY then raise cudaErrorUnknown c
           else query_covered sys frontier is c))"

definition drain_frontier_if_ready :: "system \<Rightarrow> u64 list option \<Rightarrow> client \<Rightarrow> bool result" where
  "drain_frontier_if_ready sys frontier c =
     result_bind (case frontier of
         Some f \<Rightarrow> query_covered sys f [0..<length (g_hidden_transfers c)] c
       | None \<Rightarrow> (Inr True, c)) (\<lambda>all_ready c.
       if all_ready then result_bind (drain_frontier_blocking sys frontier c) (\<lambda>_ c. (Inr True, c)) else (Inr False, c))"
section \<open>What draining does\<close>

text \<open>The reference: the transfers of a list consumed one after the other, up to the first error.\<close>

fun consume_each :: "system \<Rightarrow> nat list \<Rightarrow> client \<Rightarrow> unit result" where
  "consume_each sys [] c = (Inr (), c)"
| "consume_each sys (i # ks) c =
     (case consume_hidden_transfer sys i c of (Inl err, c) \<Rightarrow> raise err c | (Inr _, c) \<Rightarrow> consume_each sys ks c)"

definition matching :: "u64 list option \<Rightarrow> u64 option \<Rightarrow> client \<Rightarrow> nat set" where
  "matching frontier allocation c =
     {i. i < length (g_hidden_transfers c) \<and> transfer_matches frontier allocation (g_hidden_transfers c ! i)}"

abbreviation (input) submitted_at :: "client \<Rightarrow> nat \<Rightarrow> u64" where
  "submitted_at c i \<equiv> ht_submit_order (g_hidden_transfers c ! i)"

lemma matching_consumed:
  assumes "consume_hidden_transfer sys i c = (Inr (), c')"
  shows "matching frontier allocation c' = matching frontier allocation c - {i}"
    "\<And>j. j \<noteq> i \<Longrightarrow> g_hidden_transfers c' ! j = g_hidden_transfers c ! j"
proof -
  have z: "\<not> transfer_matches frontier allocation zero_hidden_transfer" by (simp add: transfer_matches_def zero_hidden_transfer_def)
  have "transfer_matches frontier allocation ((g_hidden_transfers c)[i := zero_hidden_transfer] ! j) \<longleftrightarrow>
      j \<noteq> i \<and> transfer_matches frontier allocation (g_hidden_transfers c ! j)" if "j < length (g_hidden_transfers c)" for j
    using z that by (cases "j = i") auto
  then show "matching frontier allocation c' = matching frontier allocation c - {i}"
    by (auto simp: matching_def consume_clears [OF assms])
qed (simp add: consume_clears [OF assms])

lemma drain_in_order:
  "\<exists>ks. distinct ks \<and> set ks = matching frontier allocation c \<and> sorted (map (submitted_at c) ks) \<and>
     drain_matching sys frontier allocation c = consume_each sys ks c"
proof (induction sys frontier allocation c rule: drain_matching.induct)
  case (1 sys frontier allocation c)
  show ?case
  proof (cases "oldest_matching_transfer frontier allocation c")
    case None
    then have "matching frontier allocation c = {}" using oldest_matching_None by (auto simp: matching_def)
    then show ?thesis using None by (intro exI [of _ "[]"]) (simp add: drain_matching.simps)
  next
    case (Some i)
    note i = oldest_matching_Some [OF Some]
    have im: "i \<in> matching frontier allocation c" using i by (simp add: matching_def)
    have least: "\<forall>j \<in> matching frontier allocation c. submitted_at c i \<le> submitted_at c j" using i(3) by (auto simp: matching_def)
    have fin: "finite (matching frontier allocation c)" by (rule finite_subset [of _ "{..<length (g_hidden_transfers c)}"]) (auto simp: matching_def)
    obtain r c' where r: "consume_hidden_transfer sys i c = (r, c')" by fastforce
    show ?thesis
    proof (cases r)
      case (Inl e)
      obtain js where js: "set js = matching frontier allocation c - {i}" "distinct js" using fin finite_distinct_list [of "matching frontier allocation c - {i}"] by auto
      let ?ks = "i # sort_key (submitted_at c) js"
      have "drain_matching sys frontier allocation c = consume_each sys ?ks c" using Some r Inl by (simp add: drain_matching.simps)
      moreover have "sorted (map (submitted_at c) ?ks)" using least js by simp
      moreover have "distinct ?ks" "set ?ks = matching frontier allocation c" using js im by auto
      ultimately show ?thesis by (intro exI [of _ ?ks] conjI)
    next
      case (Inr u)
      have r': "consume_hidden_transfer sys i c = (Inr (), c')" using r Inr by simp
      obtain ks where ks: "distinct ks" "set ks = matching frontier allocation c'" "sorted (map (submitted_at c') ks)"
        "drain_matching sys frontier allocation c' = consume_each sys ks c'"
        using "1.IH" [OF Some r [symmetric] Inr] by auto
      note m = matching_consumed(1) [OF r', of frontier allocation] matching_consumed(2) [OF r']
      have "map (submitted_at c') ks = map (submitted_at c) ks" using m(2) ks(2) m(1) by (intro map_cong) auto
      then have "sorted (map (submitted_at c) ks)" using ks(3) by (simp only:)
      then have "sorted (map (submitted_at c) (i # ks))" using ks(2) m(1) least by auto
      moreover have "drain_matching sys frontier allocation c = consume_each sys (i # ks) c"
        using Some r' ks(4) by (simp add: drain_matching.simps [of sys frontier allocation c])
      moreover have "distinct (i # ks)" "set (i # ks) = matching frontier allocation c" using ks(1,2) m(1) im by auto
      ultimately show ?thesis by (intro exI [of _ "i # ks"] conjI)
    qed
  qed
qed


lemma consume_each_clears:
  "consume_each sys ks c = (Inr (), c') \<Longrightarrow>
   g_hidden_transfers c' = map (\<lambda>i. if i \<in> set ks then zero_hidden_transfer else g_hidden_transfers c ! i) [0..<length (g_hidden_transfers c)]"
proof (induction ks arbitrary: c)
  case Nil
  then show ?case by (simp add: map_nth)
next
  case (Cons i ks)
  then obtain c1 where c1: "consume_hidden_transfer sys i c = (Inr (), c1)" "consume_each sys ks c1 = (Inr (), c')"
    by (auto simp: raise_def split: prod.splits sum.splits)
  show ?case unfolding Cons.IH [OF c1(2)] by (simp add: consume_clears [OF c1(1)])
qed
text \<open>
  C12. Draining a frontier ends, whatever the network answers. It consumes the pending transfers the
  frontier covers (for an allocation, those of the allocation), each once and in the order of their
  submission, up to the first error; when it succeeds exactly their entries have been cleared, so every
  download the frontier covers has been delivered and no other entry has changed.
\<close>

theorem drain_consumes_covered:
  "\<exists>ks. distinct ks \<and> set ks = matching frontier allocation c \<and> sorted (map (submitted_at c) ks) \<and>
     drain_matching sys frontier allocation c = consume_each sys ks c \<and>
     ((\<exists>err c'. drain_matching sys frontier allocation c = (Inl err, c')) \<or>
      (\<exists>c'. drain_matching sys frontier allocation c = (Inr (), c') \<and> matching frontier allocation c' = {} \<and>
         g_hidden_transfers c' = map (\<lambda>i. if i \<in> set ks then zero_hidden_transfer else g_hidden_transfers c ! i)
           [0..<length (g_hidden_transfers c)]))"
proof -
  obtain ks where ks: "distinct ks" "set ks = matching frontier allocation c" "sorted (map (submitted_at c) ks)"
    "drain_matching sys frontier allocation c = consume_each sys ks c"
    using drain_in_order by blast
  obtain r c' where r: "consume_each sys ks c = (r, c')" by fastforce
  show ?thesis
  proof (cases r)
    case (Inl err)
    then show ?thesis using ks r by auto
  next
    case (Inr u)
    then have h: "g_hidden_transfers c' = map (\<lambda>i. if i \<in> set ks then zero_hidden_transfer else g_hidden_transfers c ! i)
        [0..<length (g_hidden_transfers c)]"
      using consume_each_clears [of sys ks c c'] r by simp
    have z: "\<not> transfer_matches frontier allocation zero_hidden_transfer" by (simp add: transfer_matches_def zero_hidden_transfer_def)
    have "i \<in> matching frontier allocation c' \<Longrightarrow> i \<notin> set ks \<and> i \<in> matching frontier allocation c" for i
      using z by (auto simp: matching_def h split: if_splits)
    with ks(2) have "matching frontier allocation c' = {}" by blast
    with h show ?thesis using ks r Inr by (intro exI [of _ ks]) simp
  qed
qed

end
