(* ===== verification/Client_Capture.thy ===== *)
theory Client_Capture
  imports Client_Transfers
begin

text \<open>
  What a stream capture does to the ordinary entry points of the client (\<^verbatim>\<open>src/corex_capture_runtime.inc\<close>
  and the parts of \<^verbatim>\<open>src/corex_graph_runtime.inc\<close> it uses). While a capture is open an asynchronous copy,
  fill or launch on the captured stream becomes a node of the graph, sent to the server as one graph
  command; every other operation is refused and invalidates the capture. The copies of the node
  parameters the client keeps for the graph query functions are not part of the model, except the
  storage of the kernel arguments.
\<close>

section \<open>Graph handles and graph calls\<close>

definition resolve_graph_handle :: "nat option \<Rightarrow> client \<Rightarrow> nat option" where
  "resolve_graph_handle h c =
     (case h of
        None \<Rightarrow> None
      | Some i \<Rightarrow>
          if i < length (g_graph_handles c) \<and> gh_live (g_graph_handles c ! i) \<and>
             gh_generation (g_graph_handles c ! i) = g_active_session_generation c
          then Some i else None)"

abbreviation (input) CRX_CAP_MEMORY_POOLS :: u32 where "CRX_CAP_MEMORY_POOLS \<equiv> 8"
abbreviation (input) CRX_CAP_GRAPHS :: u32 where "CRX_CAP_GRAPHS \<equiv> 9"

text \<open>The loop over the capabilities the server announced.\<close>

definition announced :: "u32 \<Rightarrow> client \<Rightarrow> bool" where
  "announced capability c \<longleftrightarrow> g_hello_state c = COREX_HELLO_NEGOTIATED \<and>
     capability \<in> set (take (unat (capability_count (g_hello c))) (capabilities (g_hello c)))"

definition graph_runtime_locked :: "system \<Rightarrow> client \<Rightarrow> unit result" where
  "graph_runtime_locked sys c =
     (case ensure_runtime_locked sys c of
        (r, c) \<Rightarrow> if r \<noteq> cudaSuccess then (Inl r, c)
                  else if announced CRX_CAP_GRAPHS c then (Inr (), c) else (Inl cudaErrorNotSupported, c))"

abbreviation (input) GRAPH_CREATE :: u32 where "GRAPH_CREATE \<equiv> 1"
abbreviation (input) GRAPH_ADD_NODE :: u32 where "GRAPH_ADD_NODE \<equiv> 3"
abbreviation (input) GRAPH_INSTANTIATE :: u32 where "GRAPH_INSTANTIATE \<equiv> 8"
abbreviation (input) GRAPH_GET_ENABLED :: u32 where "GRAPH_GET_ENABLED \<equiv> 20"
abbreviation (input) GRAPH_CLONE :: u32 where "GRAPH_CLONE \<equiv> 21"
abbreviation (input) GRAPH_FIND_CLONE :: u32 where "GRAPH_FIND_CLONE \<equiv> 22"
abbreviation (input) GRAPH_EXEC_UPDATE :: u32 where "GRAPH_EXEC_UPDATE \<equiv> 23"
abbreviation (input) GRAPH_CAPTURE_BEGIN :: u32 where "GRAPH_CAPTURE_BEGIN \<equiv> 24"
abbreviation (input) GRAPH_CAPTURE_ADD :: u32 where "GRAPH_CAPTURE_ADD \<equiv> 25"
abbreviation (input) cudaGraphExecUpdateErrorNotSupported :: u32 where "cudaGraphExecUpdateErrorNotSupported \<equiv> 6"

text \<open>An answer the client cannot accept, or a malformed one, ends the session.\<close>

definition graph_rpc :: "system \<Rightarrow> CorexGeneratedcudaGraphCreateRequest \<Rightarrow> client \<Rightarrow> CorexGeneratedcudaGraphCreateResponse result" where
  "graph_rpc sys q c =
     (case corex_generated_call_cudaGraphCreate (generated_rpc_call sys) q c of
        (None, c) \<Rightarrow>
          let c = (if \<not> g_last_rpc_transport_error c \<and> g_last_remote_status c = ST_OK then mark_session_failed_locked sys c else c)
          in (Inl (map_last_rpc_error cudaErrorUnknown c), c)
      | (Some r, c) \<Rightarrow>
          if gq_action q \<in> {GRAPH_CREATE, GRAPH_ADD_NODE, GRAPH_INSTANTIATE, GRAPH_CLONE, GRAPH_FIND_CLONE,
                GRAPH_CAPTURE_BEGIN, GRAPH_CAPTURE_ADD} \<and> gr_object r = 0 \<or>
             gq_action q = GRAPH_GET_ENABLED \<and> gr_value r > 1 \<or>
             gq_action q = GRAPH_EXEC_UPDATE \<and> gr_value r > cudaGraphExecUpdateErrorNotSupported
          then (Inl cudaErrorUnknown, mark_session_failed_locked sys c)
          else (Inr r, c))"

section \<open>Node parameters\<close>

text \<open>
  \<open>graph_params_locked\<close>, one function per kind of node: the bytes sent to the server and the storage of
  the kernel arguments.
\<close>

type_synonym node_params = "bytes \<times> bytes option"

record cudaMemsetParams =
  mp_dst :: u64
  mp_pitch :: u64
  mp_value :: u32
  mp_elementSize :: u32
  mp_width :: u64
  mp_height :: u64

definition graph_params_memset :: "cudaMemsetParams \<Rightarrow> client \<Rightarrow> node_params result" where
  "graph_params_memset p c =
     (if mp_elementSize p \<notin> {1, 2, 4} \<or> mp_width p = 0 \<or> mp_height p = 0 \<or>
         mp_width p > UINT64_MAX div ucast (mp_elementSize p) then (Inl cudaErrorInvalidValue, c)
      else let row = mp_width p * ucast (mp_elementSize p);
               pitch = (if mp_height p = 1 then row else mp_pitch p)
           in if pitch < row \<or> mp_height p - 1 > (UINT64_MAX - row) div pitch then (Inl cudaErrorInvalidValue, c)
              else case resolve_remote_ptr_mode (mp_dst p) ((mp_height p - 1) * pitch + row) True c of
                     Inl rr \<Rightarrow> raise (map_resolve_error rr) c
                   | Inr (allocation_id, byte_offset) \<Rightarrow>
                       if mp_dst p mod ucast (mp_elementSize p) \<noteq> 0 then (Inl cudaErrorInvalidValue, c)
                       else (Inr (be64 allocation_id @ be64 byte_offset @ be64 (mp_pitch p) @ be64 (mp_width p) @
                               be64 (mp_height p) @ be32 (mp_value p) @ be32 (mp_elementSize p), None), c))"

text \<open>\<open>cudaMemcpyKind\<close>, of which any value can be passed.\<close>

type_synonym cudaMemcpyKind = u32

abbreviation (input) cudaMemcpyHostToHost :: cudaMemcpyKind where "cudaMemcpyHostToHost \<equiv> 0"
abbreviation (input) cudaMemcpyHostToDevice :: cudaMemcpyKind where "cudaMemcpyHostToDevice \<equiv> 1"
abbreviation (input) cudaMemcpyDeviceToHost :: cudaMemcpyKind where "cudaMemcpyDeviceToHost \<equiv> 2"
abbreviation (input) cudaMemcpyDeviceToDevice :: cudaMemcpyKind where "cudaMemcpyDeviceToDevice \<equiv> 3"
abbreviation (input) cudaMemcpyDefault :: cudaMemcpyKind where "cudaMemcpyDefault \<equiv> 4"

record cudaMemcpy3DParms =
  cp_srcArray :: u64
  cp_srcPos :: cudaPos
  cp_srcPtr :: cudaPitchedPtr
  cp_dstArray :: u64
  cp_dstPos :: cudaPos
  cp_dstPtr :: cudaPitchedPtr
  cp_extent :: cudaExtent
  cp_kind :: cudaMemcpyKind

text \<open>A null \<open>params\<close> is \<^const>\<open>None\<close>.\<close>

definition graph_params_memcpy :: "cudaMemcpy3DParms option \<Rightarrow> client \<Rightarrow> node_params result" where
  "graph_params_memcpy params c =
     (case params of
        None \<Rightarrow> (Inl cudaErrorInvalidValue, c)
      | Some p \<Rightarrow>
          let src = cp_srcPtr p; dst = cp_dstPtr p; extent = cp_extent p
          in if cp_srcArray p \<noteq> 0 \<or> cp_dstArray p \<noteq> 0 then (Inl cudaErrorNotSupported, c)
             else if cp_kind p \<noteq> cudaMemcpyDeviceToDevice \<and> cp_kind p \<noteq> cudaMemcpyDefault then (Inl cudaErrorNotSupported, c)
             else if cp_kind p = cudaMemcpyDefault \<and>
                 (\<not> pointer_in_remote_arena (pp_ptr src) c \<or> \<not> pointer_in_remote_arena (pp_ptr dst) c)
             then (Inl cudaErrorNotSupported, c)
             else if pp_pitch src = 0 \<or> pp_pitch dst = 0 \<or> ext_width extent = 0 \<or> ext_height extent = 0 \<or> ext_depth extent = 0 \<or>
                 pp_ysize src > UINT64_MAX div pp_pitch src \<or> pp_ysize dst > UINT64_MAX div pp_pitch dst
             then (Inl cudaErrorInvalidValue, c)
             else let ss = pp_pitch src * pp_ysize src; ds = pp_pitch dst * pp_ysize dst
                  in case resolve_remote_3d_region_mode (pp_ptr dst) (cp_dstPos p) (pp_pitch dst) ds extent True c of
                       Inl rr \<Rightarrow> raise (map_resolve_error rr) c
                     | Inr (did, doff) \<Rightarrow>
                         (case resolve_remote_3d_region_mode (pp_ptr src) (cp_srcPos p) (pp_pitch src) ss extent True c of
                            Inl rr \<Rightarrow> raise (map_resolve_error rr) c
                          | Inr (sid, soff) \<Rightarrow>
                              (Inr (concat (map be64 [did, doff, pp_pitch dst, ds, sid, soff, pp_pitch src, ss,
                                 ext_width extent, ext_height extent, ext_depth extent]), None), c)))"

section \<open>Capturing\<close>

definition capture_active_locked :: "client \<Rightarrow> bool" where
  "capture_active_locked c \<longleftrightarrow> cap_status (g_capture c) \<noteq> cudaStreamCaptureStatusNone"

definition invalidate_capture :: "client \<Rightarrow> client" where
  "invalidate_capture c = c\<lparr>g_capture := (g_capture c)\<lparr>cap_status := cudaStreamCaptureStatusInvalidated\<rparr>\<rparr>"

definition capture_reject_locked :: "client \<Rightarrow> 'a result" where
  "capture_reject_locked c =
     (if cap_status (g_capture c) = cudaStreamCaptureStatusInvalidated then (Inl cudaErrorStreamCaptureInvalidated, c)
      else (Inl cudaErrorStreamCaptureUnsupported, invalidate_capture c))"

text \<open>\<open>capture_exchange_locked\<close>: the mode arrives as a number.\<close>

definition capture_exchange_locked :: "cudaStreamCaptureMode option \<Rightarrow> client \<Rightarrow> cudaStreamCaptureMode result" where
  "capture_exchange_locked mode c =
     (case mode of
        None \<Rightarrow> (Inl cudaErrorInvalidValue, c)
      | Some m \<Rightarrow> (Inr (g_capture_interaction c), c\<lparr>g_capture_interaction := m\<rparr>))"

definition append_node :: "u64 \<Rightarrow> u64 \<Rightarrow> bytes option \<Rightarrow> client \<Rightarrow> client" where
  "append_node object graph_id storage c =
     c\<lparr>g_graph_nodes := g_graph_nodes c @ [\<lparr>nh_id = object, nh_generation = g_active_session_generation c,
         nh_graph_id = graph_id, nh_live = True, nh_arg_storage = storage\<rparr>]\<rparr>"

definition capture_submit_locked :: "system \<Rightarrow> nat option \<Rightarrow> u32 \<Rightarrow> (client \<Rightarrow> node_params result) \<Rightarrow> client \<Rightarrow> unit result" where
  "capture_submit_locked sys stream kind params c =
     (if cap_status (g_capture c) = cudaStreamCaptureStatusInvalidated then (Inl cudaErrorStreamCaptureInvalidated, c)
      else if cap_owner (g_capture c) \<noteq> self c then (Inl cudaErrorStreamCaptureWrongThread, c)
      else if stream \<noteq> cap_stream (g_capture c) then capture_reject_locked c
      else case (resolve_graph_handle (cap_graph (g_capture c)) c, get_stream_view stream c) of
             (Some g, Some sv) \<Rightarrow>
               if length (g_graph_nodes c) = CRX_GRAPH_MAX_NODE_HANDLES then capture_reject_locked c
               else (case params c of
                       (Inl r, c) \<Rightarrow> if r = cudaErrorNotSupported then capture_reject_locked c else (Inl r, invalidate_capture c)
                     | (Inr (wire, storage), c) \<Rightarrow>
                         (case graph_rpc sys (graph_request\<lparr>gq_action := GRAPH_CAPTURE_ADD, gq_graph := gh_id (g_graph_handles c ! g),
                               gq_stream := sv_stream_id sv, gq_kind := kind, gq_data := wire\<rparr>) c of
                            (Inl r, c) \<Rightarrow> (Inl r, if cap_graph (g_capture c) \<noteq> None then invalidate_capture c else c)
                          | (Inr rsp, c) \<Rightarrow>
                              let n = length (g_graph_nodes c); c = append_node (gr_object rsp) (gh_id (g_graph_handles c ! g)) storage c
                              in (Inr (), c\<lparr>g_capture := (g_capture c)\<lparr>cap_tail := Some n, cap_dependencies := [n]\<rparr>\<rparr>)))
           | _ \<Rightarrow> (Inl cudaErrorInvalidResourceHandle, c))"

end
