(* ===== verification/Client_Memory.thy ===== *)
theory Client_Memory
  imports Client_Capture
begin

text \<open>
  The memory entry points of the client (\<^verbatim>\<open>src/corex_remote_cuda.c\<close>): allocation and release, copies and
  fills, linear and strided, synchronous and on a stream. Each is the \<open>_locked\<close> function that the
  exported entry point calls under the mutex of the context.
\<close>

section \<open>Allocation and release\<close>

definition allocate_linear_locked :: "system \<Rightarrow> u64 \<Rightarrow> u64 \<Rightarrow> G6EStreamView option \<Rightarrow> u64 \<Rightarrow> client \<Rightarrow> u64 result" where
  "allocate_linear_locked sys devPtr bytes view pool_id c =
     (if devPtr = 0 \<or> bytes = 0 then raise cudaErrorInvalidValue c
      else if cap_status (g_capture c) = cudaStreamCaptureStatusInvalidated then raise cudaErrorStreamCaptureInvalidated c
      else with_runtime sys (\<lambda>c.
        result_bind (prepare_linear_identity bytes c) (\<lambda>(slot, span) c.
          result_bind
            (case view of
               Some view \<Rightarrow>
                 result_bind
                   (if pool_id \<noteq> 0
                    then call_or cudaErrorMemoryAllocation
                      (corex_generated_call_cudaMallocFromPoolAsync (generated_rpc_call sys) (bytes, pool_id, sv_stream_id view) c)
                    else call_or cudaErrorMemoryAllocation
                      (corex_generated_call_cudaMallocAsync (generated_rpc_call sys) (bytes, sv_stream_id view) c))
                   (\<lambda>allocation_id c. (Inr allocation_id, snd (view_advance view c)))
             | None \<Rightarrow> call_or cudaErrorMemoryAllocation (remote_alloc sys bytes c))
            (\<lambda>allocation_id c. commit_linear_identity slot bytes allocation_id span c))) c)"

definition cudaMalloc_locked :: "system \<Rightarrow> u64 \<Rightarrow> u64 \<Rightarrow> client \<Rightarrow> u64 result" where
  "cudaMalloc_locked sys devPtr bytes c = allocate_linear_locked sys devPtr bytes None 0 c"

definition graph_allocation_owned :: "client \<Rightarrow> VirtualAllocation \<Rightarrow> bool" where
  "graph_allocation_owned c a \<longleftrightarrow>
     list_ex (\<lambda>g. gh_live g \<and> gh_generation g = g_active_session_generation c \<and> gh_id g = va_graph_id a) (g_graph_handles c) \<or>
     list_ex (\<lambda>e. xh_live e \<and> va_allocation_id a \<in> set (xh_allocations e)) (g_graph_execs c)"

definition retire_client_graph_allocations :: "client \<Rightarrow> client" where
  "retire_client_graph_allocations c = c\<lparr>g_allocs := map (\<lambda>a.
      if \<not> va_live a \<or> va_graph_id a = 0 \<or> va_graph_active a \<or> va_session_generation a \<noteq> g_active_session_generation c then a
      else if graph_allocation_owned c a then a
      else a\<lparr>va_live := False, va_allocation_id := 0\<rparr>) (g_allocs c)\<rparr>"

text \<open>What the release of an allocation leaves: the address is not used again.\<close>

definition tombstone :: "nat \<Rightarrow> client \<Rightarrow> client" where
  "tombstone i c =
     (let slot = g_allocs c ! i
      in if va_graph_id slot \<noteq> 0
         then retire_client_graph_allocations (c\<lparr>g_allocs := (g_allocs c)[i := slot\<lparr>va_graph_active := False\<rparr>]\<rparr>)
         else c\<lparr>g_allocs := (g_allocs c)[i := slot\<lparr>va_live := False, va_allocation_id := 0\<rparr>]\<rparr>)"

definition cudaFree_locked :: "system \<Rightarrow> u64 \<Rightarrow> client \<Rightarrow> unit result" where
  "cudaFree_locked sys devPtr c =
     (if devPtr = 0 then (Inr (), c)
      else with_runtime sys (\<lambda>c. case find_exact_live_base devPtr c of
          None \<Rightarrow> raise cudaErrorInvalidDevicePointer c
        | Some i \<Rightarrow>
            let slot = g_allocs c ! i
            in if va_parent_module_id slot \<noteq> 0 then raise cudaErrorInvalidDevicePointer c
               else if va_graph_id slot \<noteq> 0 \<and> \<not> va_graph_active slot then raise cudaErrorNotSupported c
               else result_bind (drain_allocation_transfers_blocking sys (va_allocation_id slot) c) (\<lambda>_ c.
                 result_bind (call_or cudaErrorUnknown (remote_free sys (va_allocation_id slot) c)) (\<lambda>_ c.
                   (Inr (), tombstone i c)))) c)"

definition pool_runtime_locked :: "system \<Rightarrow> client \<Rightarrow> unit result" where
  "pool_runtime_locked sys c =
     (case ensure_runtime_locked sys c of
        (r, c) \<Rightarrow> if r \<noteq> cudaSuccess then (Inl r, c)
                  else if announced CRX_CAP_MEMORY_POOLS c then (Inr (), c) else raise cudaErrorNotSupported c)"

definition resolve_pool_handle :: "nat option \<Rightarrow> client \<Rightarrow> nat option" where
  "resolve_pool_handle handle c =
     (case handle of
        None \<Rightarrow> None
      | Some i \<Rightarrow>
          if i < g_pool_handle_next c \<and> ph_live (g_pool_handles c ! i) \<and>
             ph_session_generation (g_pool_handles c ! i) = g_active_session_generation c
          then Some i else None)"

text \<open>The pool is \<^const>\<open>None\<close> when \<open>explicit_pool\<close> is zero; a request for zero bytes returns null.\<close>

definition malloc_async_locked :: "system \<Rightarrow> u64 \<Rightarrow> u64 \<Rightarrow> nat option \<Rightarrow> nat option \<Rightarrow> bool \<Rightarrow> client \<Rightarrow> u64 result" where
  "malloc_async_locked sys ptr bytes pool stream explicit_pool c =
     (if ptr = 0 then raise cudaErrorInvalidValue c
      else result_bind (pool_runtime_locked sys c) (\<lambda>_ c.
        if explicit_pool \<and> resolve_pool_handle pool c = None then raise cudaErrorInvalidResourceHandle c
        else let pool_id = (if explicit_pool then ph_pool_id (g_pool_handles c ! the (resolve_pool_handle pool c)) else 0)
             in case get_stream_view stream c of
                  None \<Rightarrow> raise cudaErrorInvalidResourceHandle c
                | Some view \<Rightarrow>
                    if bytes = 0 then if explicit_pool then raise cudaErrorInvalidValue c else (Inr 0, c)
                    else allocate_linear_locked sys ptr bytes (Some view) pool_id (apply_legacy_default_ordering view c)))"

definition free_async_locked :: "system \<Rightarrow> u64 \<Rightarrow> nat option \<Rightarrow> client \<Rightarrow> unit result" where
  "free_async_locked sys ptr stream c =
     (if ptr = 0 then (Inr (), c)
      else result_bind (pool_runtime_locked sys c) (\<lambda>_ c.
        case find_exact_live_base ptr c of
          None \<Rightarrow> raise cudaErrorInvalidDevicePointer c
        | Some i \<Rightarrow>
            let slot = g_allocs c ! i
            in if va_parent_module_id slot \<noteq> 0 then raise cudaErrorInvalidDevicePointer c
               else if va_graph_id slot \<noteq> 0 \<and> \<not> va_graph_active slot then raise cudaErrorNotSupported c
               else case get_stream_view stream c of
                      None \<Rightarrow> raise cudaErrorInvalidResourceHandle c
                    | Some view \<Rightarrow>
                        let c = apply_legacy_default_ordering view c
                        in result_bind (call_or cudaErrorUnknown (corex_generated_call_cudaFreeAsync (generated_rpc_call sys)
                             (va_allocation_id slot, sv_stream_id view) c)) (\<lambda>_ c. (Inr (), tombstone i (snd (view_advance view c))))))"

section \<open>Linear copies\<close>

abbreviation (input) G6A_COPY_CHUNK :: u64 where "G6A_COPY_CHUNK \<equiv> 0x1000000"

text \<open>The loop over the chunks of a copy; \<open>f\<close> gets what is done so far and the size of the chunk.\<close>

function copy_chunks :: "(u64 \<Rightarrow> u64 \<Rightarrow> client \<Rightarrow> unit result) \<Rightarrow> u64 \<Rightarrow> u64 \<Rightarrow> client \<Rightarrow> unit result" where
  "copy_chunks f count dn c =
     (if dn < count
      then let chunk = (if count - dn > G6A_COPY_CHUNK then G6A_COPY_CHUNK else count - dn)
           in case f dn chunk c of
                (Inl err, c) \<Rightarrow> (Inl err, c)
              | (Inr _, c) \<Rightarrow> copy_chunks f count (dn + chunk) c
      else (Inr (), c))"
  by pat_completeness auto

lemma chunk_progress:
  fixes dn count :: u64
  assumes "dn < count"
  shows "unat (count - (dn + (if count - dn > G6A_COPY_CHUNK then G6A_COPY_CHUNK else count - dn))) < unat (count - dn)"
proof (cases "count - dn > G6A_COPY_CHUNK")
  case True
  have "count - (dn + G6A_COPY_CHUNK) = (count - dn) - G6A_COPY_CHUNK" by simp
  also have "unat \<dots> = unat (count - dn) - unat (G6A_COPY_CHUNK :: u64)" using True by (intro unat_sub) simp
  finally show ?thesis using True by (simp add: word_less_nat_alt)
next
  case False
  have "count - dn \<noteq> 0" using assms by simp
  then show ?thesis using False by (simp add: unat_gt_0)
qed

termination copy_chunks
  by (relation "measure (\<lambda>(_, count, dn, _). unat (count - dn))") (auto simp: chunk_progress simp del: unat_sub)

declare copy_chunks.simps [simp del]

text \<open>The direction of a copy of the default kind, from where the pointers point.\<close>

definition copy_kind :: "cudaMemcpyKind \<Rightarrow> bool \<Rightarrow> bool \<Rightarrow> cudaMemcpyKind" where
  "copy_kind kind dst_remote src_remote =
     (if kind = cudaMemcpyDefault
      then if dst_remote \<and> src_remote then cudaMemcpyDeviceToDevice
           else if dst_remote then cudaMemcpyHostToDevice
           else if src_remote then cudaMemcpyDeviceToHost else cudaMemcpyHostToHost
      else kind)"

definition resolved_or :: "resolved \<Rightarrow> client \<Rightarrow> (u64 \<times> u64) result" where
  "resolved_or rr c = (case rr of Inl e \<Rightarrow> raise (map_resolve_error e) c | Inr r \<Rightarrow> (Inr r, c))"

definition ranges_overlap :: "u64 \<times> u64 \<Rightarrow> u64 \<times> u64 \<Rightarrow> u64 \<Rightarrow> bool" where
  "ranges_overlap dst src count \<longleftrightarrow> fst dst = fst src \<and> snd dst < snd src + count \<and> snd src < snd dst + count"

definition host_copy :: "u64 \<Rightarrow> u64 \<Rightarrow> nat \<Rightarrow> client \<Rightarrow> client" where
  "host_copy dst src n c = host_store dst (host_load src n c) c"

definition cudaMemcpy_locked :: "system \<Rightarrow> u64 \<Rightarrow> u64 \<Rightarrow> u64 \<Rightarrow> cudaMemcpyKind \<Rightarrow> client \<Rightarrow> unit result" where
  "cudaMemcpy_locked sys dst src count kind c =
     (if capture_active_locked c then capture_reject_locked c
      else if count = 0 then (Inr (), c)
      else if dst = 0 \<or> src = 0 then raise cudaErrorInvalidValue c
      else with_runtime sys (\<lambda>c.
        let dst_remote = pointer_in_remote_arena dst c; src_remote = pointer_in_remote_arena src c;
            kind = copy_kind kind dst_remote src_remote
        in if kind = cudaMemcpyHostToDevice
           then if src_remote then raise cudaErrorInvalidValue c
                else result_bind (resolved_or (resolve_remote_ptr dst count c) c) (\<lambda>(aid, off) c.
                  copy_chunks (\<lambda>dn chunk c. call_or cudaErrorUnknown
                      (remote_h2d sys aid (off + dn) (host_load (src + dn) (unat chunk) c) chunk c)) count 0 c)
           else if kind = cudaMemcpyDeviceToHost
           then if dst_remote then raise cudaErrorInvalidValue c
                else result_bind (resolved_or (resolve_remote_ptr src count c) c) (\<lambda>(aid, off) c.
                  copy_chunks (\<lambda>dn chunk c. result_bind (call_or cudaErrorUnknown (remote_d2h sys aid (off + dn) chunk c))
                      (\<lambda>data c. (Inr (), host_store (dst + dn) data c))) count 0 c)
           else if kind = cudaMemcpyHostToHost
           then if dst_remote \<or> src_remote then raise cudaErrorInvalidValue c else (Inr (), host_copy dst src (unat count) c)
           else if kind = cudaMemcpyDeviceToDevice
           then if \<not> dst_remote \<or> \<not> src_remote then raise cudaErrorInvalidValue c
                else result_bind (resolved_or (resolve_remote_ptr dst count c) c) (\<lambda>d c.
                  result_bind (resolved_or (resolve_remote_ptr src count c) c) (\<lambda>s c.
                    if ranges_overlap d s count then raise cudaErrorInvalidValue c
                    else copy_chunks (\<lambda>dn chunk c. call_or cudaErrorUnknown
                      (remote_d2d sys (fst d) (snd d + dn) (fst s) (snd s + dn) chunk c)) count 0 c))
           else raise cudaErrorInvalidMemcpyDirection c) c)"

section \<open>Copies on a stream\<close>

text \<open>The entry of a transfer that has been submitted on a stream, before the stream advances.\<close>

definition track_transfer :: "nat \<Rightarrow> HiddenTransfer \<Rightarrow> G6EStreamView \<Rightarrow> client \<Rightarrow> client" where
  "track_transfer slot t sv c =
     (let order = g_transfer_submit_order c + 1
      in c\<lparr>g_transfer_submit_order := order, g_hidden_transfers := (g_hidden_transfers c)[slot := t\<lparr>ht_live := True,
             ht_session_generation := g_active_session_generation c, ht_origin_stream_slot := sv_slot_index sv,
             ht_origin_stream_seq := view_next_transfer_seq sv c + 1, ht_submit_order := order\<rparr>]\<rparr>)"

definition advance :: "G6EStreamView \<Rightarrow> client \<Rightarrow> unit result" where
  "advance sv c = (Inr (), snd (view_advance sv c))"

text \<open>One turn of the loop: a free entry, the submission \<open>f\<close>, the entry, the stream.\<close>

definition submit_chunk :: "G6EStreamView \<Rightarrow> (client \<Rightarrow> u64 option \<times> client) \<Rightarrow> HiddenTransfer \<Rightarrow> client \<Rightarrow> unit result" where
  "submit_chunk sv f t c =
     (case find_free_hidden_transfer c of
        None \<Rightarrow> raise cudaErrorMemoryAllocation c
      | Some slot \<Rightarrow>
          result_bind (call_or cudaErrorUnknown (f c)) (\<lambda>transfer_id c.
            advance sv (track_transfer slot (t\<lparr>ht_transfer_id := transfer_id\<rparr>) sv c)))"

abbreviation (input) cudaGraphNodeTypeKernel :: u32 where "cudaGraphNodeTypeKernel \<equiv> 0"
abbreviation (input) cudaGraphNodeTypeMemcpy :: u32 where "cudaGraphNodeTypeMemcpy \<equiv> 1"
abbreviation (input) cudaGraphNodeTypeMemset :: u32 where "cudaGraphNodeTypeMemset \<equiv> 2"

definition zero_pos :: cudaPos where
  "zero_pos = \<lparr>pos_x = 0, pos_y = 0, pos_z = 0\<rparr>"

text \<open>A linear copy as the three-dimensional copy of one row.\<close>

definition linear_copy_params :: "u64 \<Rightarrow> u64 \<Rightarrow> u64 \<Rightarrow> cudaMemcpyKind \<Rightarrow> cudaMemcpy3DParms" where
  "linear_copy_params dst src count kind =
     \<lparr>cp_srcArray = 0, cp_srcPos = zero_pos, cp_srcPtr = \<lparr>pp_ptr = src, pp_pitch = count, pp_xsize = count, pp_ysize = 1\<rparr>,
      cp_dstArray = 0, cp_dstPos = zero_pos, cp_dstPtr = \<lparr>pp_ptr = dst, pp_pitch = count, pp_xsize = count, pp_ysize = 1\<rparr>,
      cp_extent = \<lparr>ext_width = count, ext_height = 1, ext_depth = 1\<rparr>, cp_kind = kind\<rparr>"

definition with_stream :: "nat option \<Rightarrow> (G6EStreamView \<Rightarrow> client \<Rightarrow> 'a result) \<Rightarrow> client \<Rightarrow> 'a result" where
  "with_stream stream f c =
     (case get_stream_view stream c of
        None \<Rightarrow> raise cudaErrorInvalidResourceHandle c
      | Some sv \<Rightarrow> f sv (apply_legacy_default_ordering sv c))"

definition cudaMemcpyAsync_locked :: "system \<Rightarrow> u64 \<Rightarrow> u64 \<Rightarrow> u64 \<Rightarrow> cudaMemcpyKind \<Rightarrow> nat option \<Rightarrow> client \<Rightarrow> unit result" where
  "cudaMemcpyAsync_locked sys dst src count kind stream c =
     (if capture_active_locked c
      then if count = 0 then (Inr (), c)
           else if kind \<noteq> cudaMemcpyDeviceToDevice \<and> kind \<noteq> cudaMemcpyDefault then capture_reject_locked c
           else capture_submit_locked sys stream cudaGraphNodeTypeMemcpy
                  (graph_params_memcpy (Some (linear_copy_params dst src count kind))) c
      else if count = 0 then (Inr (), c)
      else if dst = 0 \<or> src = 0 then raise cudaErrorInvalidValue c
      else with_runtime sys (with_stream stream (\<lambda>sv c.
        let dst_remote = pointer_in_remote_arena dst c; src_remote = pointer_in_remote_arena src c;
            kind = copy_kind kind dst_remote src_remote
        in if kind = cudaMemcpyHostToDevice
           then if src_remote then raise cudaErrorInvalidValue c
                else result_bind (resolved_or (resolve_remote_ptr dst count c) c) (\<lambda>(aid, off) c.
                  copy_chunks (\<lambda>dn chunk c. submit_chunk sv
                      (\<lambda>c. remote_h2d_async_submit sys aid (off + dn) (sv_stream_id sv) (host_load (src + dn) (unat chunk) c) chunk c)
                      (zero_hidden_transfer\<lparr>ht_kind := HIDDEN_TRANSFER_H2D, ht_allocation_id := aid, ht_bytes := chunk\<rparr>) c) count 0 c)
           else if kind = cudaMemcpyDeviceToHost
           then if dst_remote then raise cudaErrorInvalidValue c
                else result_bind (resolved_or (resolve_remote_ptr src count c) c) (\<lambda>(aid, off) c.
                  copy_chunks (\<lambda>dn chunk c. submit_chunk sv
                      (\<lambda>c. remote_d2h_async_submit sys aid (off + dn) (sv_stream_id sv) chunk c)
                      (zero_hidden_transfer\<lparr>ht_kind := HIDDEN_TRANSFER_D2H, ht_allocation_id := aid, ht_host_dst := dst + dn,
                         ht_bytes := chunk\<rparr>) c) count 0 c)
           else if kind = cudaMemcpyHostToHost
           then if dst_remote \<or> src_remote then raise cudaErrorInvalidValue c else (Inr (), host_copy dst src (unat count) c)
           else if kind = cudaMemcpyDeviceToDevice
           then if \<not> dst_remote \<or> \<not> src_remote then raise cudaErrorInvalidValue c
                else (case (resolve_remote_ptr dst count c, resolve_remote_ptr src count c) of
                        (Inr d, Inr s) \<Rightarrow>
                          if ranges_overlap d s count then raise cudaErrorInvalidValue c
                          else result_bind (call_or cudaErrorUnknown
                            (remote_d2d_async sys (fst d) (snd d) (fst s) (snd s) count (sv_stream_id sv) c)) (\<lambda>_. advance sv)
                      | _ \<Rightarrow> raise cudaErrorInvalidValue c)
           else raise cudaErrorInvalidMemcpyDirection c)) c)"

section \<open>Strided copies\<close>

text \<open>The loop of \<open>memmove\<close> over the rows, each reading the memory as the rows before left it.\<close>

definition move_rows :: "u64 \<Rightarrow> u64 \<Rightarrow> u64 \<Rightarrow> u64 \<Rightarrow> u64 \<Rightarrow> u64 \<Rightarrow> u64 \<Rightarrow> u64 \<Rightarrow> u64 \<Rightarrow> client \<Rightarrow> client" where
  "move_rows dst dslice dpitch src sslice spitch width height depth c =
     foldl (\<lambda>c (z, y). host_copy (dst + of_nat z * dslice + of_nat y * dpitch) (src + of_nat z * sslice + of_nat y * spitch)
          (unat width) c)
       c (List.product [0..<unat depth] [0..<unat height])"

text \<open>A buffer for the rows, then \<open>f\<close>.\<close>

definition with_buffer :: "system \<Rightarrow> u64 \<Rightarrow> (client \<Rightarrow> 'a result) \<Rightarrow> client \<Rightarrow> 'a result" where
  "with_buffer sys n f c = (case client_malloc sys n c of (ok, c) \<Rightarrow> if ok then f c else raise cudaErrorMemoryAllocation c)"

definition cudaMemcpy2D_locked :: "system \<Rightarrow> u64 \<Rightarrow> u64 \<Rightarrow> u64 \<Rightarrow> u64 \<Rightarrow> u64 \<Rightarrow> u64 \<Rightarrow> cudaMemcpyKind \<Rightarrow> client \<Rightarrow> unit result" where
  "cudaMemcpy2D_locked sys dst dpitch src spitch width height kind c =
     (if capture_active_locked c then capture_reject_locked c
      else if width = 0 \<or> height = 0 then (Inr (), c)
      else if dst = 0 \<or> src = 0 \<or> dpitch = 0 \<or> spitch = 0 \<or> width > dpitch \<or> width > spitch then raise cudaErrorInvalidValue c
      else with_runtime sys (\<lambda>c.
        let dr = pointer_in_remote_arena dst c; sr = pointer_in_remote_arena src c; kind = copy_kind kind dr sr;
            d = resolve_remote_2d_region dst dpitch width height c; s = resolve_remote_2d_region src spitch width height c
        in if kind = cudaMemcpyHostToHost
           then if dr \<or> sr then raise cudaErrorInvalidValue c else (Inr (), move_rows dst 0 dpitch src 0 spitch width height 1 c)
           else if kind = cudaMemcpyHostToDevice
           then (case d of
                   Inr (did, doff) \<Rightarrow>
                     if sr then raise cudaErrorInvalidValue c
                     else with_buffer sys (width * height) (\<lambda>c. result_bind (call_or cudaErrorUnknown (remote_memcpy2d sys 1 did doff dpitch
                       0 0 spitch width height (gather_rows src 0 spitch width height 1 c) c)) (\<lambda>_ c. (Inr (), c))) c
                 | Inl _ \<Rightarrow> raise cudaErrorInvalidValue c)
           else if kind = cudaMemcpyDeviceToHost
           then (case s of
                   Inr (sid, soff) \<Rightarrow>
                     if dr then raise cudaErrorInvalidValue c
                     else with_buffer sys (width * height) (\<lambda>c. result_bind (call_or cudaErrorUnknown (remote_memcpy2d sys 2 0 0 dpitch
                       sid soff spitch width height [] c)) (\<lambda>resp c. (Inr (), scatter_rows dst 0 dpitch width height 1 resp c))) c
                 | Inl _ \<Rightarrow> raise cudaErrorInvalidValue c)
           else if kind = cudaMemcpyDeviceToDevice
           then (case (d, s) of
                   (Inr (did, doff), Inr (sid, soff)) \<Rightarrow>
                     if \<not> dr \<or> \<not> sr then raise cudaErrorInvalidValue c
                     else result_bind (call_or cudaErrorUnknown (remote_memcpy2d sys 3 did doff dpitch sid soff spitch width height [] c))
                       (\<lambda>_ c. (Inr (), c))
                 | _ \<Rightarrow> raise cudaErrorInvalidValue c)
           else raise cudaErrorInvalidMemcpyDirection c) c)"

definition cudaMemset2D_locked :: "system \<Rightarrow> u64 \<Rightarrow> u64 \<Rightarrow> int \<Rightarrow> u64 \<Rightarrow> u64 \<Rightarrow> client \<Rightarrow> unit result" where
  "cudaMemset2D_locked sys devPtr pitch value width height c =
     (if capture_active_locked c then capture_reject_locked c
      else if width = 0 \<or> height = 0 then (Inr (), c)
      else if devPtr = 0 \<or> value < 0 \<or> value > 255 then raise cudaErrorInvalidValue c
      else with_runtime sys (\<lambda>c.
        case resolve_remote_2d_region devPtr pitch width height c of
          Inl _ \<Rightarrow> raise cudaErrorInvalidValue c
        | Inr (aid, off) \<Rightarrow> call_or cudaErrorUnknown (remote_memset2d sys aid off pitch (of_int value) width height c)) c)"

text \<open>The transfer is submitted before a free entry is looked for.\<close>

definition track_submitted :: "G6EStreamView \<Rightarrow> HiddenTransfer \<Rightarrow> u64 option \<times> client \<Rightarrow> unit result" where
  "track_submitted sv t r =
     result_bind (call_or cudaErrorUnknown r) (\<lambda>transfer c.
       case find_free_hidden_transfer c of
         None \<Rightarrow> raise cudaErrorMemoryAllocation c
       | Some slot \<Rightarrow> advance sv (track_transfer slot (t\<lparr>ht_transfer_id := transfer\<rparr>) sv c))"

definition cudaMemcpy2DAsync_locked :: "system \<Rightarrow> u64 \<Rightarrow> u64 \<Rightarrow> u64 \<Rightarrow> u64 \<Rightarrow> u64 \<Rightarrow> u64 \<Rightarrow> cudaMemcpyKind \<Rightarrow> nat option \<Rightarrow>
    client \<Rightarrow> unit result" where
  "cudaMemcpy2DAsync_locked sys dst dpitch src spitch width height kind stream c =
     (if capture_active_locked c then capture_reject_locked c
      else if width = 0 \<or> height = 0 then (Inr (), c)
      else with_runtime sys (with_stream stream (\<lambda>sv c.
        let dr = pointer_in_remote_arena dst c; sr = pointer_in_remote_arena src c; kind = copy_kind kind dr sr;
            d = resolve_remote_2d_region dst dpitch width height c; s = resolve_remote_2d_region src spitch width height c;
            region = zero_hidden_transfer\<lparr>ht_bytes := width * height, ht_width := width, ht_height := height\<rparr>
        in if kind = cudaMemcpyDeviceToDevice
           then (case (d, s) of
                   (Inr (did, doff), Inr (sid, soff)) \<Rightarrow>
                     if \<not> dr \<or> \<not> sr then raise cudaErrorInvalidValue c
                     else result_bind (call_or cudaErrorUnknown (remote_memcpy2d_async_d2d sys did doff dpitch sid soff spitch width height
                       (sv_stream_id sv) c)) (\<lambda>_. advance sv)
                 | _ \<Rightarrow> raise cudaErrorInvalidValue c)
           else if kind = cudaMemcpyHostToDevice
           then (case d of
                   Inr (did, doff) \<Rightarrow>
                     if sr then raise cudaErrorInvalidValue c
                     else with_buffer sys (width * height) (\<lambda>c. track_submitted sv
                       (region\<lparr>ht_kind := HIDDEN_TRANSFER_H2D_2D, ht_allocation_id := did, ht_host_pitch := spitch\<rparr>)
                       (remote_memcpy2d_h2d_async sys did doff dpitch width height (sv_stream_id sv)
                          (gather_rows src 0 spitch width height 1 c) c)) c
                 | Inl _ \<Rightarrow> raise cudaErrorInvalidValue c)
           else if kind = cudaMemcpyDeviceToHost
           then (case s of
                   Inr (sid, soff) \<Rightarrow>
                     if dr then raise cudaErrorInvalidValue c
                     else track_submitted sv
                       (region\<lparr>ht_kind := HIDDEN_TRANSFER_D2H_2D, ht_allocation_id := sid, ht_host_dst := dst, ht_host_pitch := dpitch\<rparr>)
                       (remote_memcpy2d_d2h_async sys sid soff spitch width height (sv_stream_id sv) c)
                 | Inl _ \<Rightarrow> raise cudaErrorInvalidValue c)
           else if kind = cudaMemcpyHostToHost
           then if dr \<or> sr then raise cudaErrorInvalidValue c else (Inr (), move_rows dst 0 dpitch src 0 spitch width height 1 c)
           else raise cudaErrorInvalidMemcpyDirection c)) c)"

definition cudaMemset2DAsync_locked :: "system \<Rightarrow> u64 \<Rightarrow> u64 \<Rightarrow> int \<Rightarrow> u64 \<Rightarrow> u64 \<Rightarrow> nat option \<Rightarrow> client \<Rightarrow> unit result" where
  "cudaMemset2DAsync_locked sys devPtr pitch value width height stream c =
     (if width = 0 \<or> height = 0 then (Inr (), c)
      else case get_stream_view stream c of
             None \<Rightarrow> raise cudaErrorInvalidResourceHandle c
           | Some sv \<Rightarrow> result_bind (cudaMemset2D_locked sys devPtr pitch value width height c) (\<lambda>_. advance sv))"

section \<open>Three-dimensional copies\<close>

text \<open>A side of the copy that is not remote: the address of the first byte, after the bounds check.\<close>

definition host_region :: "u64 \<Rightarrow> cudaPos \<Rightarrow> u64 \<Rightarrow> u64 \<Rightarrow> cudaExtent \<Rightarrow> client \<Rightarrow> u64 result" where
  "host_region ptr position pitch slice_pitch extent c =
     (case checked_3d_region 0 position pitch slice_pitch extent (UINT64_MAX - ptr) of
        None \<Rightarrow> raise cudaErrorInvalidValue c
      | Some offset \<Rightarrow> (Inr (ptr + offset), c))"

text \<open>Both sides resolved, the source first: allocation and offset of the source, its host address, and the same of the destination.\<close>

definition copy3d_side :: "bool \<Rightarrow> cudaPitchedPtr \<Rightarrow> cudaPos \<Rightarrow> u64 \<Rightarrow> cudaExtent \<Rightarrow> client \<Rightarrow> (u64 \<times> u64 \<times> u64) result" where
  "copy3d_side remote ptr position slice_pitch extent c =
     (if remote
      then result_bind (resolved_or (resolve_remote_3d_region (pp_ptr ptr) position (pp_pitch ptr) slice_pitch extent c) c)
             (\<lambda>(aid, off) c. (Inr (aid, off, 0), c))
      else result_bind (host_region (pp_ptr ptr) position (pp_pitch ptr) slice_pitch extent c) (\<lambda>p c. (Inr (0, 0, p), c)))"

text \<open>The direction as the number the wire uses; \<^const>\<open>None\<close> is -1.\<close>

definition copy3d_mode :: "cudaMemcpyKind \<Rightarrow> u32 option" where
  "copy3d_mode kind =
     (if kind = cudaMemcpyHostToDevice then Some 1 else if kind = cudaMemcpyDeviceToHost then Some 2
      else if kind = cudaMemcpyDeviceToDevice then Some 3 else if kind = cudaMemcpyHostToHost then Some 0 else None)"

definition copy3d_invalid :: "cudaMemcpy3DParms \<Rightarrow> bool" where
  "copy3d_invalid p \<longleftrightarrow>
     (let src = cp_srcPtr p; dst = cp_dstPtr p; extent = cp_extent p
      in cp_srcArray p \<noteq> 0 \<or> cp_dstArray p \<noteq> 0 \<or> pp_ptr src = 0 \<or> pp_ptr dst = 0 \<or>
         ext_width extent = 0 \<or> ext_height extent = 0 \<or> ext_depth extent = 0 \<or>
         ext_width extent > UINT64_MAX div ext_height extent \<or>
         ext_width extent * ext_height extent > UINT64_MAX div ext_depth extent \<or>
         pp_pitch src = 0 \<or> pp_pitch dst = 0 \<or>
         pp_ysize src > UINT64_MAX div pp_pitch src \<or> pp_ysize dst > UINT64_MAX div pp_pitch dst)"

text \<open>The exchange with the server once both sides are resolved; the stream is given for an asynchronous copy.\<close>

definition copy3d_remote :: "system \<Rightarrow> cudaMemcpy3DParms \<Rightarrow> u32 \<Rightarrow> u64 \<times> u64 \<times> u64 \<Rightarrow> u64 \<times> u64 \<times> u64 \<Rightarrow> G6EStreamView option \<Rightarrow>
    client \<Rightarrow> unit result" where
  "copy3d_remote sys p mode = (\<lambda>(did, doff, host_dst) (sid, soff, host_src) view c.
     let extent = cp_extent p; width = ext_width extent; height = ext_height extent; depth = ext_depth extent;
         spitch = pp_pitch (cp_srcPtr p); dpitch = pp_pitch (cp_dstPtr p);
         ss = spitch * pp_ysize (cp_srcPtr p); ds = dpitch * pp_ysize (cp_dstPtr p);
         volume = width * height * depth; async = (view \<noteq> None);
         hidden = (if async \<and> mode \<noteq> 3 then find_free_hidden_transfer c else None);
         flat = (if mode = 1 then gather_rows host_src ss spitch width height depth c else []);
         call = (\<lambda>c. result_bind (call_or cudaErrorUnknown (remote_memcpy3d sys mode did doff dpitch ds sid soff spitch ss
           width height depth flat async (case view of Some sv \<Rightarrow> sv_stream_id sv | None \<Rightarrow> 0) c)) (\<lambda>r c.
             case view of
               None \<Rightarrow> (Inr (), case r of
                   Copied resp \<Rightarrow> if mode = 2 then scatter_rows host_dst ds dpitch width height depth resp c else c
                 | Submitted _ \<Rightarrow> c)
             | Some sv \<Rightarrow> advance sv (case (hidden, r) of
                   (Some slot, Submitted transfer) \<Rightarrow>
                     track_transfer slot (zero_hidden_transfer\<lparr>ht_transfer_id := transfer,
                       ht_kind := (if mode = 1 then HIDDEN_TRANSFER_H2D_3D else HIDDEN_TRANSFER_D2H_3D),
                       ht_allocation_id := (if mode = 1 then did else sid), ht_bytes := volume, ht_host_dst := host_dst,
                       ht_host_pitch := dpitch, ht_host_slice_pitch := ds, ht_width := width, ht_height := height,
                       ht_depth := depth\<rparr>) sv c
                 | _ \<Rightarrow> c)))
     in if async \<and> mode \<noteq> 3 \<and> hidden = None then raise cudaErrorMemoryAllocation c
        else if mode = 1 \<or> \<not> async \<and> mode = 2 then with_buffer sys volume call c else call c)"

definition cudaMemcpy3D_locked :: "system \<Rightarrow> cudaMemcpy3DParms option \<Rightarrow> nat option \<Rightarrow> bool \<Rightarrow> client \<Rightarrow> unit result" where
  "cudaMemcpy3D_locked sys parms stream async c =
     (if capture_active_locked c
      then if async then capture_submit_locked sys stream cudaGraphNodeTypeMemcpy (graph_params_memcpy parms) c
           else capture_reject_locked c
      else case parms of
             None \<Rightarrow> raise cudaErrorInvalidValue c
           | Some p \<Rightarrow>
               if copy3d_invalid p then raise cudaErrorInvalidValue c
               else let ss = pp_pitch (cp_srcPtr p) * pp_ysize (cp_srcPtr p);
                        ds = pp_pitch (cp_dstPtr p) * pp_ysize (cp_dstPtr p);
                        body = (\<lambda>view c.
                          let dr = pointer_in_remote_arena (pp_ptr (cp_dstPtr p)) c;
                              sr = pointer_in_remote_arena (pp_ptr (cp_srcPtr p)) c
                          in case copy3d_mode (copy_kind (cp_kind p) dr sr) of
                               None \<Rightarrow> raise cudaErrorInvalidMemcpyDirection c
                             | Some mode \<Rightarrow>
                                 if dr \<noteq> (mode = 1 \<or> mode = 3) \<or> sr \<noteq> (mode = 2 \<or> mode = 3) then raise cudaErrorInvalidValue c
                                 else result_bind (copy3d_side sr (cp_srcPtr p) (cp_srcPos p) ss (cp_extent p) c) (\<lambda>src c.
                                   result_bind (copy3d_side dr (cp_dstPtr p) (cp_dstPos p) ds (cp_extent p) c) (\<lambda>dst c.
                                     if mode = 0
                                     then (Inr (), move_rows (snd (snd dst)) ds (pp_pitch (cp_dstPtr p)) (snd (snd src)) ss (pp_pitch (cp_srcPtr p))
                                       (ext_width (cp_extent p)) (ext_height (cp_extent p)) (ext_depth (cp_extent p)) c)
                                     else copy3d_remote sys p mode dst src view c)))
                    in with_runtime sys (if async then with_stream stream (\<lambda>sv. body (Some sv)) else body None) c)"

section \<open>Fills\<close>

definition cudaMemset_locked :: "system \<Rightarrow> u64 \<Rightarrow> int \<Rightarrow> u64 \<Rightarrow> client \<Rightarrow> unit result" where
  "cudaMemset_locked sys devPtr value count c =
     (if capture_active_locked c then capture_reject_locked c
      else if count = 0 then (Inr (), c)
      else if devPtr = 0 then raise cudaErrorInvalidValue c
      else with_runtime sys (\<lambda>c.
        result_bind (resolved_or (resolve_remote_ptr devPtr count c) c) (\<lambda>(aid, off) c.
          call_or cudaErrorUnknown (remote_memset sys aid off (of_int value) count c))) c)"

definition cudaMemsetAsync_locked :: "system \<Rightarrow> u64 \<Rightarrow> int \<Rightarrow> u64 \<Rightarrow> nat option \<Rightarrow> client \<Rightarrow> unit result" where
  "cudaMemsetAsync_locked sys devPtr value count stream c =
     (if capture_active_locked c
      then if count = 0 then (Inr (), c)
           else capture_submit_locked sys stream cudaGraphNodeTypeMemset (graph_params_memset
                  \<lparr>mp_dst = devPtr, mp_pitch = 0, mp_value = ucast (of_int value :: u8), mp_elementSize = 1, mp_width = count, mp_height = 1\<rparr>) c
      else if count = 0 then (Inr (), c)
      else if devPtr = 0 then raise cudaErrorInvalidValue c
      else with_runtime sys (with_stream stream (\<lambda>sv c.
        result_bind (resolved_or (resolve_remote_ptr devPtr count c) c) (\<lambda>(aid, off) c.
          result_bind (call_or cudaErrorUnknown (remote_memset_async sys aid off (of_int value) count (sv_stream_id sv) c))
            (\<lambda>_. advance sv)))) c)"

text \<open>A single row ignores the pitch.\<close>

definition cudaMemset3D_locked :: "system \<Rightarrow> cudaPitchedPtr \<Rightarrow> int \<Rightarrow> cudaExtent \<Rightarrow> nat option \<Rightarrow> bool \<Rightarrow> client \<Rightarrow> unit result" where
  "cudaMemset3D_locked sys pointer value extent stream async c =
     (let width = ext_width extent; height = ext_height extent; depth = ext_depth extent;
          row = (height = 1 \<and> depth = 1); fill_value = ucast (of_int value :: u8)
      in if width = 0 \<or> height = 0 \<or> depth = 0 then (Inr (), c)
         else if pp_ptr pointer = 0 then raise cudaErrorInvalidValue c
         else if \<not> row \<and> (pp_pitch pointer = 0 \<or> pp_ysize pointer > UINT64_MAX div pp_pitch pointer) then raise cudaErrorInvalidValue c
         else let pitch = (if row then width else pp_pitch pointer);
                  slice_pitch = (if row then width else pp_pitch pointer * pp_ysize pointer)
              in with_runtime sys (\<lambda>c.
                   result_bind (resolved_or (resolve_remote_3d_region (pp_ptr pointer) zero_pos pitch slice_pitch extent c) c) (\<lambda>(aid, off) c.
                     if async
                     then with_stream stream (\<lambda>sv c. result_bind (call_or cudaErrorUnknown
                            (corex_generated_call_cudaMemset3DAsync (generated_rpc_call sys)
                               (aid, off, pitch, slice_pitch, width, height, depth, fill_value, sv_stream_id sv) c)) (\<lambda>_. advance sv)) c
                     else result_bind (call_or cudaErrorUnknown (corex_generated_call_cudaMemset3D (generated_rpc_call sys)
                            (aid, off, pitch, slice_pitch, width, height, depth, fill_value) c)) (\<lambda>_ c. (Inr (), c)))) c)"

definition cudaDeviceSynchronize_locked :: "system \<Rightarrow> client \<Rightarrow> unit result" where
  "cudaDeviceSynchronize_locked sys c =
     with_runtime sys (\<lambda>c. result_bind (call_or cudaErrorUnknown (remote_sync sys c)) (\<lambda>_. drain_all_transfers_blocking sys)) c"

end
