(* ===== verification/Client_Streams.thy ===== *)
theory Client_Streams
  imports Client_Memory
begin

text \<open>
  The stream and event entry points of the client (\<^verbatim>\<open>src/corex_remote_cuda.c\<close>). A stream or an event is
  created only after the server has created its own; synchronising with one makes the host see every
  download its frontier covers; a wait for an event merges the frontier the event recorded.
\<close>

section \<open>Streams\<close>

text \<open>The zeroed block of a frontier.\<close>

definition with_frontier :: "system \<Rightarrow> (u64 list \<Rightarrow> client \<Rightarrow> 'a result) \<Rightarrow> client \<Rightarrow> 'a result" where
  "with_frontier sys f c = with_buffer sys (8 * of_nat G6E_FRONTIER_SLOTS) (f (replicate G6E_FRONTIER_SLOTS 0)) c"

definition cudaStreamCreate_impl_locked :: "system \<Rightarrow> u64 \<Rightarrow> u32 \<Rightarrow> u32 \<Rightarrow> bool \<Rightarrow> client \<Rightarrow> nat result" where
  "cudaStreamCreate_impl_locked sys pStream flags priority with_priority c =
     (if pStream = 0 then raise cudaErrorInvalidValue c
      else with_runtime sys (\<lambda>c.
        if g_stream_handle_next c \<ge> G6C_MAX_STREAM_HANDLES then raise cudaErrorMemoryAllocation c
        else with_frontier sys (\<lambda>frontier c.
          result_bind (call_or cudaErrorUnknown
              (if with_priority then remote_create_stream_priority sys flags priority c else remote_create_stream_flags sys flags c))
            (\<lambda>stream_id c.
              let i = g_stream_handle_next c
              in (Inr i, c\<lparr>g_stream_handles := (g_stream_handles c)[i := \<lparr>sh_cookie = G6C_STREAM_COOKIE,
                    sh_session_generation = g_active_session_generation c, sh_stream_id = stream_id, sh_flags = flags,
                    sh_priority = priority, sh_live = True, sh_slot_index = i, sh_next_transfer_seq = 0,
                    sh_frontier = Some frontier\<rparr>], g_stream_handle_next := i + 1\<rparr>))) c) c)"

definition cudaStreamCreate_locked :: "system \<Rightarrow> u64 \<Rightarrow> client \<Rightarrow> nat result" where
  "cudaStreamCreate_locked sys pStream c = cudaStreamCreate_impl_locked sys pStream 0 0 False c"

definition cudaStreamCreateWithFlags_locked :: "system \<Rightarrow> u64 \<Rightarrow> u32 \<Rightarrow> client \<Rightarrow> nat result" where
  "cudaStreamCreateWithFlags_locked sys pStream flags c = cudaStreamCreate_impl_locked sys pStream flags 0 False c"

definition cudaStreamCreateWithPriority_locked :: "system \<Rightarrow> u64 \<Rightarrow> u32 \<Rightarrow> u32 \<Rightarrow> client \<Rightarrow> nat result" where
  "cudaStreamCreateWithPriority_locked sys pStream flags priority c = cudaStreamCreate_impl_locked sys pStream flags priority True c"

definition with_stream_handle :: "nat option \<Rightarrow> (nat \<Rightarrow> client \<Rightarrow> 'a result) \<Rightarrow> client \<Rightarrow> 'a result" where
  "with_stream_handle stream f c =
     (case resolve_stream_handle stream c of None \<Rightarrow> raise cudaErrorInvalidResourceHandle c | Some i \<Rightarrow> f i c)"

definition cudaStreamGetFlags_locked :: "system \<Rightarrow> nat option \<Rightarrow> u64 \<Rightarrow> client \<Rightarrow> u32 result" where
  "cudaStreamGetFlags_locked sys stream flags c =
     (if flags = 0 then raise cudaErrorInvalidValue c
      else with_runtime sys (with_stream_handle stream (\<lambda>i c.
        call_or cudaErrorUnknown (remote_stream_get_flags sys (sh_stream_id (g_stream_handles c ! i)) c))) c)"

definition cudaStreamGetPriority_locked :: "system \<Rightarrow> nat option \<Rightarrow> u64 \<Rightarrow> client \<Rightarrow> u32 result" where
  "cudaStreamGetPriority_locked sys stream priority c =
     (if priority = 0 then raise cudaErrorInvalidValue c
      else with_runtime sys (with_stream_handle stream (\<lambda>i c.
        call_or cudaErrorUnknown (remote_stream_get_priority sys (sh_stream_id (g_stream_handles c ! i)) c))) c)"

text \<open>Completion on the server, then every covered transfer on the host.\<close>

definition sync_stream :: "system \<Rightarrow> nat \<Rightarrow> client \<Rightarrow> unit result" where
  "sync_stream sys i c =
     result_bind (call_or cudaErrorUnknown (remote_stream_sync sys (sh_stream_id (g_stream_handles c ! i)) c))
       (\<lambda>_ c. drain_frontier_blocking sys (sh_frontier (g_stream_handles c ! i)) c)"

definition cudaStreamDestroy_locked :: "system \<Rightarrow> nat option \<Rightarrow> client \<Rightarrow> unit result" where
  "cudaStreamDestroy_locked sys stream c =
     with_runtime sys (with_stream_handle stream (\<lambda>i c.
       let stream_id = sh_stream_id (g_stream_handles c ! i)
       in result_bind (sync_stream sys i c) (\<lambda>_ c.
            result_bind (call_or cudaErrorUnknown (remote_destroy_stream sys stream_id c)) (\<lambda>_ c.
              (Inr (), upd_stream_handle i (\<lambda>h. h\<lparr>sh_live := False, sh_stream_id := 0, sh_frontier := None\<rparr>) c))))) c"

definition cudaStreamSynchronize_locked :: "system \<Rightarrow> nat option \<Rightarrow> client \<Rightarrow> unit result" where
  "cudaStreamSynchronize_locked sys stream c =
     with_runtime sys (\<lambda>c.
       if stream = None then result_bind (call_or cudaErrorUnknown (remote_sync sys c)) (\<lambda>_. drain_all_transfers_blocking sys)
       else with_stream_handle stream (sync_stream sys) c) c"

text \<open>The end of the two queries: the state the server reports, then the covered transfers.\<close>

definition query_outcome :: "system \<Rightarrow> u64 list option \<Rightarrow> u32 \<Rightarrow> client \<Rightarrow> unit result" where
  "query_outcome sys frontier state c =
     (if state = STREAM_STATE_PENDING then raise cudaErrorNotReady c
      else if state \<noteq> STREAM_STATE_READY then raise cudaErrorUnknown c
      else result_bind (drain_frontier_if_ready sys frontier c) (\<lambda>all_ready c.
        if \<not> all_ready then raise cudaErrorNotReady c else (Inr (), c)))"

definition cudaStreamQuery_locked :: "system \<Rightarrow> nat option \<Rightarrow> client \<Rightarrow> unit result" where
  "cudaStreamQuery_locked sys stream c =
     with_runtime sys (with_stream stream (\<lambda>sv c.
       result_bind (call_or cudaErrorUnknown (remote_stream_query sys (sv_stream_id sv) c)) (\<lambda>state c.
         query_outcome sys (view_frontier sv c) state c))) c"

section \<open>Events\<close>

abbreviation (input) cudaEventBlockingSync :: u32 where "cudaEventBlockingSync \<equiv> 1"
abbreviation (input) cudaEventDisableTiming :: u32 where "cudaEventDisableTiming \<equiv> 2"

definition new_event :: "u64 \<Rightarrow> u32 \<Rightarrow> u64 list \<Rightarrow> client \<Rightarrow> nat result" where
  "new_event event_id flags frontier c =
     (let i = g_event_handle_next c
      in (Inr i, c\<lparr>g_event_handles := (g_event_handles c)[i := \<lparr>eh_cookie = G6C_EVENT_COOKIE,
            eh_session_generation = g_active_session_generation c, eh_event_id = event_id, eh_flags = flags, eh_live = True,
            eh_recorded = False, eh_frontier = Some frontier\<rparr>], g_event_handle_next := i + 1\<rparr>))"

definition cudaEventCreate_locked :: "system \<Rightarrow> u64 \<Rightarrow> client \<Rightarrow> nat result" where
  "cudaEventCreate_locked sys event c =
     (if event = 0 then raise cudaErrorInvalidValue c
      else with_runtime sys (\<lambda>c.
        if g_event_handle_next c \<ge> G6C_MAX_EVENT_HANDLES then raise cudaErrorMemoryAllocation c
        else with_frontier sys (\<lambda>frontier c.
          result_bind (call_or cudaErrorUnknown (remote_create_event sys c)) (\<lambda>event_id. new_event event_id 0 frontier)) c) c)"

definition cudaEventCreateWithFlags_locked :: "system \<Rightarrow> u64 \<Rightarrow> u32 \<Rightarrow> client \<Rightarrow> nat result" where
  "cudaEventCreateWithFlags_locked sys event flags c =
     (if event = 0 then raise cudaErrorInvalidValue c
      else if flags \<noteq> 0 \<and> flags \<noteq> cudaEventBlockingSync \<and> flags \<noteq> cudaEventDisableTiming then raise cudaErrorInvalidValue c
      else with_runtime sys (\<lambda>c.
        if g_event_handle_next c \<ge> G6C_MAX_EVENT_HANDLES then raise cudaErrorMemoryAllocation c
        else with_frontier sys (\<lambda>frontier c.
          result_bind (call_or cudaErrorUnknown (remote_create_event_flags sys flags c)) (\<lambda>event_id. new_event event_id flags frontier)) c) c)"

definition cudaEventElapsedTime_locked :: "system \<Rightarrow> u64 \<Rightarrow> nat option \<Rightarrow> nat option \<Rightarrow> client \<Rightarrow> u32 result" where
  "cudaEventElapsedTime_locked sys ms start stop c =
     (if ms = 0 then raise cudaErrorInvalidValue c
      else with_runtime sys (\<lambda>c. case (resolve_event_handle start c, resolve_event_handle stop c) of
          (Some s, Some e) \<Rightarrow>
            if eh_flags (g_event_handles c ! s) AND cudaEventDisableTiming \<noteq> 0 \<or> eh_flags (g_event_handles c ! e) AND cudaEventDisableTiming \<noteq> 0
            then raise cudaErrorInvalidValue c
            else call_or cudaErrorUnknown (remote_event_elapsed sys (eh_event_id (g_event_handles c ! s)) (eh_event_id (g_event_handles c ! e)) c)
        | _ \<Rightarrow> raise cudaErrorInvalidResourceHandle c) c)"

definition with_event_handle :: "nat option \<Rightarrow> (nat \<Rightarrow> client \<Rightarrow> 'a result) \<Rightarrow> client \<Rightarrow> 'a result" where
  "with_event_handle event f c =
     (case resolve_event_handle event c of None \<Rightarrow> raise cudaErrorInvalidResourceHandle c | Some i \<Rightarrow> f i c)"

definition upd_event_handle :: "nat \<Rightarrow> (corexCudaEventHandle \<Rightarrow> corexCudaEventHandle) \<Rightarrow> client \<Rightarrow> client" where
  "upd_event_handle i f c = c\<lparr>g_event_handles := (g_event_handles c)[i := f (g_event_handles c ! i)]\<rparr>"

definition sync_event :: "system \<Rightarrow> nat \<Rightarrow> client \<Rightarrow> unit result" where
  "sync_event sys i c =
     result_bind (call_or cudaErrorUnknown (remote_event_sync sys (eh_event_id (g_event_handles c ! i)) c))
       (\<lambda>_ c. drain_frontier_blocking sys (eh_frontier (g_event_handles c ! i)) c)"

definition cudaEventDestroy_locked :: "system \<Rightarrow> nat option \<Rightarrow> client \<Rightarrow> unit result" where
  "cudaEventDestroy_locked sys event c =
     with_runtime sys (with_event_handle event (\<lambda>i c.
       let event_id = eh_event_id (g_event_handles c ! i)
       in result_bind (if eh_recorded (g_event_handles c ! i) then sync_event sys i c else (Inr (), c)) (\<lambda>_ c.
            result_bind (call_or cudaErrorUnknown (remote_destroy_event sys event_id c)) (\<lambda>_ c.
              (Inr (), upd_event_handle i
                (\<lambda>h. h\<lparr>eh_live := False, eh_event_id := 0, eh_recorded := False, eh_frontier := None\<rparr>) c))))) c"

definition cudaEventRecord_locked :: "system \<Rightarrow> nat option \<Rightarrow> nat option \<Rightarrow> client \<Rightarrow> unit result" where
  "cudaEventRecord_locked sys event stream c =
     with_runtime sys (with_event_handle event (\<lambda>i. with_stream stream (\<lambda>sv c.
       result_bind (call_or cudaErrorUnknown (remote_event_record sys (eh_event_id (g_event_handles c ! i)) (sv_stream_id sv) c)) (\<lambda>_ c.
         (Inr (), upd_event_handle i (\<lambda>h. h\<lparr>eh_frontier := view_frontier sv c, eh_recorded := True\<rparr>) c))))) c"

definition cudaEventSynchronize_locked :: "system \<Rightarrow> nat option \<Rightarrow> client \<Rightarrow> unit result" where
  "cudaEventSynchronize_locked sys event c = with_runtime sys (with_event_handle event (sync_event sys)) c"

definition cudaEventQuery_locked :: "system \<Rightarrow> nat option \<Rightarrow> client \<Rightarrow> unit result" where
  "cudaEventQuery_locked sys event c =
     with_runtime sys (with_event_handle event (\<lambda>i c.
       result_bind (call_or cudaErrorUnknown (remote_event_query sys (eh_event_id (g_event_handles c ! i)) c)) (\<lambda>state c.
         query_outcome sys (eh_frontier (g_event_handles c ! i)) state c))) c"

definition cudaStreamWaitEvent_locked :: "system \<Rightarrow> nat option \<Rightarrow> nat option \<Rightarrow> u32 \<Rightarrow> client \<Rightarrow> unit result" where
  "cudaStreamWaitEvent_locked sys stream event flags c =
     (if flags \<noteq> 0 then raise cudaErrorInvalidValue c
      else with_runtime sys (with_event_handle event (\<lambda>i. with_stream stream (\<lambda>sv c.
        result_bind (call_or cudaErrorUnknown (remote_stream_wait_event sys (sv_stream_id sv) (eh_event_id (g_event_handles c ! i)) c)) (\<lambda>_ c.
          (Inr (), case (eh_recorded (g_event_handles c ! i), eh_frontier (g_event_handles c ! i)) of
              (True, Some f) \<Rightarrow> map_view_frontier (\<lambda>own. frontier_merge own f) sv c
            | _ \<Rightarrow> c))))) c)"

end
