(* ===== verification/Fatbin.thy ===== *)
theory Fatbin
  imports Metadata_Safety Memory
begin

text \<open>
  Finding the device image of a program (\<^verbatim>\<open>src/corex_fatbin_runtime.c\<close>). The compiler emits a wrapper that
  points to a fat binary inside the same loaded object; the fat binary has to hold exactly one valid
  ELF image for the device. Every address comes from the program, so nothing is read that does not
  lie in a readable file-backed segment the dynamic loader reports.
\<close>

section \<open>Checked arithmetic\<close>

definition add_u64 :: "u64 \<Rightarrow> u64 \<Rightarrow> u64 option" where
  "add_u64 a b = (if UINT64_MAX - a < b then None else Some (a + b))"

definition mul_u64 :: "u64 \<Rightarrow> u64 \<Rightarrow> u64 option" where
  "mul_u64 a b = (if a \<noteq> 0 \<and> b > UINT64_MAX div a then None else Some (a * b))"

definition range_end :: "u64 \<Rightarrow> u64 \<Rightarrow> u64 \<Rightarrow> u64 option" where
  "range_end off len limit = (case add_u64 off len of None \<Rightarrow> None | Some e \<Rightarrow> if e \<le> limit then Some e else None)"

section \<open>Loaded objects\<close>

text \<open>What \<open>dl_iterate_phdr\<close> reports of an object and of one of its program headers.\<close>

record dl_phdr =
  ph_load :: bool
  ph_readable :: bool
  ph_vaddr :: u64
  ph_filesz :: u64

record dl_object =
  dl_addr :: u64
  dl_name :: bytes
  dl_phdrs :: "dl_phdr list"

record ObjSpan =
  object_base :: u64
  seg_begin :: u64
  seg_end :: u64
  object_name :: bytes

text \<open>\<open>add_uptr\<close> is \<^const>\<open>add_u64\<close> on addresses; a name is cut to the 255 bytes the buffer holds.\<close>

definition segment_span :: "u64 \<Rightarrow> u64 \<Rightarrow> dl_object \<Rightarrow> dl_phdr \<Rightarrow> ObjSpan option" where
  "segment_span begin_at end_at obj ph =
     (if \<not> ph_load ph \<or> \<not> ph_readable ph then None
      else let start = dl_addr obj + ph_vaddr ph
           in case add_u64 start (ph_filesz ph) of
                None \<Rightarrow> None
              | Some stop \<Rightarrow>
                  if begin_at \<ge> start \<and> end_at \<le> stop
                  then Some \<lparr>object_base = dl_addr obj, seg_begin = start, seg_end = stop,
                         object_name = take 255 (if dl_name obj \<noteq> [] then dl_name obj else cstr ''<main>'')\<rparr>
                  else None)"

definition span_cb :: "u64 \<Rightarrow> u64 \<Rightarrow> dl_object \<Rightarrow> ObjSpan option" where
  "span_cb begin_at end_at obj =
     (case List.find (\<lambda>ph. segment_span begin_at end_at obj ph \<noteq> None) (dl_phdrs obj) of
        None \<Rightarrow> None
      | Some ph \<Rightarrow> segment_span begin_at end_at obj ph)"

definition locate_file_backed_span :: "dl_object list \<Rightarrow> u64 \<Rightarrow> u64 \<Rightarrow> ObjSpan option" where
  "locate_file_backed_span objects ptr len =
     (if ptr = 0 \<or> len = 0 then None
      else case add_u64 ptr len of
             None \<Rightarrow> None
           | Some stop \<Rightarrow>
               (case List.find (\<lambda>obj. span_cb ptr stop obj \<noteq> None) objects of
                  None \<Rightarrow> None
                | Some obj \<Rightarrow> span_cb ptr stop obj))"

definition same_object :: "ObjSpan \<Rightarrow> ObjSpan \<Rightarrow> bool" where
  "same_object a b \<longleftrightarrow> object_base a = object_base b \<and> object_name a = object_name b"

section \<open>The ELF image\<close>

abbreviation (input) SHT_NOBITS :: u32 where "SHT_NOBITS \<equiv> 8"
abbreviation (input) ILUVATAR_OSABI :: u8 where "ILUVATAR_OSABI \<equiv> 0x42"
abbreviation (input) ILUVATAR_MACHINE :: "16 word" where "ILUVATAR_MACHINE \<equiv> 0x00f8"

text \<open>The end of a table of \<open>num\<close> entries, which has to lie inside the image; an absent table is skipped.\<close>

definition table_end :: "u64 \<Rightarrow> u64 \<Rightarrow> u64 \<Rightarrow> u64 \<Rightarrow> u64 \<Rightarrow> u64 parse" where
  "table_end avail off entsize num end_at =
     (if num = 0 then Ok end_at
      else case mul_u64 entsize num of
             None \<Rightarrow> Fail
           | Some bytes \<Rightarrow>
               (case range_end off bytes avail of None \<Rightarrow> Fail | Some e \<Rightarrow> Ok (if e > end_at then e else end_at)))"

fun program_ends :: "bytes \<Rightarrow> nat \<Rightarrow> nat \<Rightarrow> nat list \<Rightarrow> u64 \<Rightarrow> u64 parse" where
  "program_ends base phoff phentsize [] end_at = Ok end_at"
| "program_ends base phoff phentsize (i # ks) end_at =
     (let ph = phoff + i * phentsize
      in and_then (read_le64 base (ph + 8)) (\<lambda>off.
         and_then (read_le64 base (ph + 32)) (\<lambda>filesz.
           case range_end off filesz (of_nat (length base)) of
             None \<Rightarrow> Fail
           | Some e \<Rightarrow> program_ends base phoff phentsize ks (if e > end_at then e else end_at))))"

fun section_ends :: "bytes \<Rightarrow> nat \<Rightarrow> nat \<Rightarrow> nat list \<Rightarrow> u64 \<Rightarrow> u64 parse" where
  "section_ends base shoff shentsize [] end_at = Ok end_at"
| "section_ends base shoff shentsize (i # ks) end_at =
     (let sh = shoff + i * shentsize
      in and_then (read_le32 base (sh + 4)) (\<lambda>type.
         and_then (read_le64 base (sh + 24)) (\<lambda>off.
         and_then (read_le64 base (sh + 32)) (\<lambda>bytes.
           if type = SHT_NOBITS then section_ends base shoff shentsize ks end_at
           else case range_end off bytes (of_nat (length base)) of
                  None \<Rightarrow> Fail
                | Some e \<Rightarrow> section_ends base shoff shentsize ks (if e > end_at then e else end_at)))))"

text \<open>
  The list is the \<open>avail\<close> bytes at \<open>base\<close>; the result is the exact size of the image. The second half
  follows the two header tables and what they describe.
\<close>

definition elf_extent :: "bytes \<Rightarrow> u64 \<Rightarrow> u64 \<Rightarrow> 16 word \<Rightarrow> 16 word \<Rightarrow> 16 word \<Rightarrow> 16 word \<Rightarrow> 16 word \<Rightarrow> nat parse" where
  "elf_extent base phoff shoff ehsize phentsize phnum shentsize shnum =
     (let avail = of_nat (length base)
      in and_then (table_end avail phoff (ucast phentsize) (ucast phnum) (ucast ehsize)) (\<lambda>e.
         and_then (table_end avail shoff (ucast shentsize) (ucast shnum) e) (\<lambda>e.
         and_then (program_ends base (unat phoff) (unat phentsize) [0..<unat phnum] e) (\<lambda>e.
         and_then (section_ends base (unat shoff) (unat shentsize) [0..<unat shnum] e) (\<lambda>e.
           if e < 64 \<or> e > avail then Fail else Ok (unat e))))))"

definition valid_iluvatar_elf :: "bytes \<Rightarrow> nat parse" where
  "valid_iluvatar_elf base =
     (if length base < 64 then Fail
      else if take 4 base \<noteq> [0x7f, 0x45, 0x4c, 0x46] then Fail
      else if base ! 4 \<noteq> 2 \<or> base ! 5 \<noteq> 1 \<or> base ! 6 \<noteq> 1 \<or> base ! 7 \<noteq> ILUVATAR_OSABI then Fail
      else and_then (read_le16 base 18) (\<lambda>machine. and_then (read_le32 base 20) (\<lambda>version.
        if machine \<noteq> ILUVATAR_MACHINE \<or> version \<noteq> 1 then Fail
        else and_then (read_le64 base 32) (\<lambda>phoff. and_then (read_le64 base 40) (\<lambda>shoff.
             and_then (read_le16 base 52) (\<lambda>ehsize. and_then (read_le16 base 54) (\<lambda>phentsize.
             and_then (read_le16 base 56) (\<lambda>phnum. and_then (read_le16 base 58) (\<lambda>shentsize.
             and_then (read_le16 base 60) (\<lambda>shnum.
               if ehsize \<noteq> 64 \<or> (phnum \<noteq> 0 \<and> phentsize < 56) \<or> (shnum \<noteq> 0 \<and> shentsize < 64) then Fail
               else elf_extent base phoff shoff ehsize phentsize phnum shentsize shnum))))))))))"

section \<open>The image of a fat binary\<close>

text \<open>The scan: how many images were found, and the offset and the size of the last one.\<close>

function extract_scan :: "bytes \<Rightarrow> nat \<Rightarrow> nat \<times> nat \<times> nat \<Rightarrow> (nat \<times> nat \<times> nat) parse" where
  "extract_scan fatbin off found =
     (if off + 4 \<le> length fatbin
      then if take 4 (drop off fatbin) \<noteq> [0x7f, 0x45, 0x4c, 0x46] then extract_scan fatbin (off + 1) found
           else (case valid_iluvatar_elf (drop off fatbin) of
                   Undef \<Rightarrow> Undef
                 | Fail \<Rightarrow> extract_scan fatbin (off + 1) found
                 | Ok exact \<Rightarrow> extract_scan fatbin (if exact \<noteq> 0 then off + exact else off + 1) (fst found + 1, off, exact))
      else Ok found)"
  by pat_completeness auto
termination
  by (relation "measure (\<lambda>(fatbin, off, _). length fatbin - off)") auto

declare extract_scan.simps [simp del]

definition extract_one :: "bytes \<Rightarrow> (nat \<times> nat) parse" where
  "extract_one fatbin =
     and_then (extract_scan fatbin 0 (0, 0, 0)) (\<lambda>(count, off, bytes). if count \<noteq> 1 then Fail else Ok (off, bytes))"

abbreviation (input) MAX_FATBIN_BYTES :: nat where "MAX_FATBIN_BYTES \<equiv> 0x10000000"
abbreviation (input) FATBIN_MAGIC :: u32 where "FATBIN_MAGIC \<equiv> 0x20160329"
abbreviation (input) FATBIN_VERSION :: u32 where "FATBIN_VERSION \<equiv> 0x00010000"
abbreviation (input) WRAPPER_MAGIC :: u32 where "WRAPPER_MAGIC \<equiv> 0x54535a58"
abbreviation (input) WRAPPER_VERSION :: u32 where "WRAPPER_VERSION \<equiv> 1"

definition corex_library_image_size :: "bytes \<Rightarrow> nat parse" where
  "corex_library_image_size img = valid_iluvatar_elf (take MAX_FATBIN_BYTES img)"

text \<open>Offset and size of the image in \<open>code\<close>, a bare image or a fat binary.\<close>

definition corex_library_image :: "bytes \<Rightarrow> (nat \<times> nat) parse" where
  "corex_library_image code =
     (case corex_library_image_size code of
        Undef \<Rightarrow> Undef
      | Ok n \<Rightarrow> Ok (0, n)
      | Fail \<Rightarrow>
          if length code < 24 then Fail
          else and_then (read_le32 code 0) (\<lambda>magic. and_then (read_le32 code 4) (\<lambda>version.
            if magic \<noteq> FATBIN_MAGIC \<or> version \<noteq> FATBIN_VERSION then Fail
            else and_then (read_le64 code 8) (\<lambda>payload.
              case add_u64 payload 16 of
                None \<Rightarrow> Fail
              | Some whole \<Rightarrow>
                  if whole < 24 \<or> whole > of_nat (length code) \<or> whole > of_nat MAX_FATBIN_BYTES then Fail
                  else extract_one (take (unat whole) code)))))"

record CorexLoadableImage =
  li_fatbin_bytes :: u64
  li_fatbin_size :: nat
  li_image_bytes :: u64
  li_image_size :: nat
  li_image_offset :: nat
  li_object_base :: u64
  li_object_name :: bytes

text \<open>
  The memory of the process: \<^const>\<open>None\<close> at an address that is not mapped. Reading such an address is
  undefined.
\<close>

type_synonym process_memory = "u64 \<Rightarrow> u8 option"

definition mem_read :: "process_memory \<Rightarrow> u64 \<Rightarrow> nat \<Rightarrow> bytes parse" where
  "mem_read mem a n =
     (let bs = map (\<lambda>k. mem (a + of_nat k)) [0..<n] in if None \<in> set bs then Undef else Ok (map the bs))"

definition load_le32 :: "process_memory \<Rightarrow> u64 \<Rightarrow> u32 parse" where
  "load_le32 mem a = and_then (mem_read mem a 4) (\<lambda>b. read_le32 b 0)"

definition load_le64 :: "process_memory \<Rightarrow> u64 \<Rightarrow> u64 parse" where
  "load_le64 mem a = and_then (mem_read mem a 8) (\<lambda>b. read_le64 b 0)"

text \<open>
  The loaded objects and the memory of the process are parameters; \<open>Inl\<close> is a negative result. The
  wrapper holds a magic number, a version and the address of the fat binary.
\<close>

definition corex_image_from_compiler_wrapper :: "dl_object list \<Rightarrow> process_memory \<Rightarrow> u64 \<Rightarrow> (int + CorexLoadableImage) parse" where
  "corex_image_from_compiler_wrapper objects mem wrapper =
     (if wrapper = 0 then Ok (Inl (- 1))
      else case locate_file_backed_span objects wrapper 24 of
        None \<Rightarrow> Ok (Inl (- 2))
      | Some wrapper_obj \<Rightarrow>
          and_then (load_le32 mem wrapper) (\<lambda>magic. and_then (load_le32 mem (wrapper + 4)) (\<lambda>version.
            if magic \<noteq> WRAPPER_MAGIC \<or> version \<noteq> WRAPPER_VERSION then Ok (Inl (- 3))
            else and_then (load_le64 mem (wrapper + 8)) (\<lambda>fatbin.
              if fatbin = 0 then Ok (Inl (- 4))
              else case locate_file_backed_span objects fatbin 24 of
                None \<Rightarrow> Ok (Inl (- 5))
              | Some header_obj \<Rightarrow>
                  if \<not> same_object wrapper_obj header_obj then Ok (Inl (- 6))
                  else and_then (load_le32 mem fatbin) (\<lambda>magic. and_then (load_le32 mem (fatbin + 4)) (\<lambda>version.
                         if magic \<noteq> FATBIN_MAGIC \<or> version \<noteq> FATBIN_VERSION then Ok (Inl (- 7))
                         else and_then (load_le64 mem (fatbin + 8)) (\<lambda>payload.
                           case add_u64 payload 16 of
                             None \<Rightarrow> Ok (Inl (- 8))
                           | Some whole \<Rightarrow>
                               if whole < 24 \<or> whole > of_nat MAX_FATBIN_BYTES then Ok (Inl (- 8))
                               else (case locate_file_backed_span objects fatbin whole of
                                       None \<Rightarrow> Ok (Inl (- 9))
                                     | Some full_obj \<Rightarrow>
                                         if \<not> same_object wrapper_obj full_obj then Ok (Inl (- 10))
                                         else (case and_then (mem_read mem fatbin (unat whole)) extract_one of
                                                 Undef \<Rightarrow> Undef
                                               | Fail \<Rightarrow> Ok (Inl (- 11))
                                               | Ok (off, bytes) \<Rightarrow> Ok (Inr \<lparr>li_fatbin_bytes = fatbin, li_fatbin_size = unat whole,
                                                   li_image_bytes = fatbin + of_nat off, li_image_size = bytes, li_image_offset = off,
                                                   li_object_base = object_base wrapper_obj, li_object_name = object_name wrapper_obj\<rparr>))))))))))"

text \<open>An address in a readable file-backed segment of a loaded object, and the memory of these segments alone.\<close>

definition in_segment :: "dl_object list \<Rightarrow> u64 \<Rightarrow> bool" where
  "in_segment objects a \<longleftrightarrow> list_ex (\<lambda>obj. list_ex (\<lambda>ph. ph_load ph \<and> ph_readable ph \<and>
     unat (dl_addr obj + ph_vaddr ph) \<le> unat a \<and>
     unat a < unat (dl_addr obj + ph_vaddr ph) + unat (ph_filesz ph)) (dl_phdrs obj)) objects"

definition segment_memory :: "dl_object list \<Rightarrow> (u64 \<Rightarrow> u8) \<Rightarrow> process_memory" where
  "segment_memory objects m a = (if in_segment objects a then Some (m a) else None)"

section \<open>Every read stays inside\<close>

lemma unat_UINT64_MAX: "unat UINT64_MAX = 18446744073709551615"
  by (simp add: unsigned_minus_1_eq_mask mask_eq_exp_minus_1)

lemma add_u64_Some:
  assumes "add_u64 a b = Some e"
  shows "unat e = unat a + unat b"
proof -
  have e: "e = a + b" "\<not> UINT64_MAX - a < b" using assms by (auto simp: add_u64_def split: if_splits)
  have "\<not> UINT64_MAX < a" by (simp add: not_less word_order.extremum)
  from word_range_ok [OF this e(2)] show ?thesis unfolding e(1) unat_UINT64_MAX by (intro unat_add_no_wrap) simp
qed

lemma mul_u64_Some:
  assumes "mul_u64 a b = Some e"
  shows "unat e = unat a * unat b"
proof (cases "a = 0")
  case False
  then have e: "e = a * b" "b \<le> UINT64_MAX div a" using assms by (auto simp: mul_u64_def split: if_splits)
  have "unat b * unat a \<le> 18446744073709551615" using unat_le_div_mult [OF e(2) False] by (simp add: unat_UINT64_MAX)
  then show ?thesis unfolding e(1) by (intro unat_mult_no_wrap) (simp add: mult.commute)
qed (use assms in \<open>simp add: mul_u64_def\<close>)

lemma range_end_Some: "range_end off len limit = Some e \<Longrightarrow> unat off + unat len = unat e \<and> unat e \<le> unat limit"
  using add_u64_Some by (auto simp: range_end_def word_le_nat_alt split: option.splits if_splits)

lemma post_table_end:
  "post (table_end avail off entsize num e) (\<lambda>_. num \<noteq> 0 \<longrightarrow> unat off + unat num * unat entsize \<le> unat avail)"
  using range_end_Some mul_u64_Some by (fastforce simp: table_end_def mult.commute split: option.splits)

lemma post_program_ends:
  "\<forall>i \<in> set ks. phoff + i * phentsize + 40 \<le> length base \<Longrightarrow> post (program_ends base phoff phentsize ks e) (\<lambda>_. True)"
  by (induction ks arbitrary: e) (auto simp: Let_def intro!: post_reads split: option.splits)

lemma post_section_ends:
  "\<forall>i \<in> set ks. shoff + i * shentsize + 40 \<le> length base \<Longrightarrow> post (section_ends base shoff shentsize ks e) (\<lambda>_. True)"
  by (induction ks arbitrary: e) (auto simp: Let_def intro!: post_reads split: option.splits)

lemma in_table:
  assumes "off + num * entsize \<le> len" "n \<le> entsize" "i < (num :: nat)"
  shows "off + i * entsize + n \<le> len"
proof -
  have "i * entsize + n \<le> i * entsize + entsize" using assms(2) by simp
  also have "\<dots> = Suc i * entsize" by simp
  also have "\<dots> \<le> num * entsize" using assms(3) by (intro mult_right_mono) simp_all
  finally show ?thesis using assms(1) by simp
qed

lemma length_word_le: "unat (of_nat (length xs) :: u64) \<le> length xs"
  by (simp add: unat_of_nat)

lemma wide:
  fixes x :: "16 word"
  shows "unat (ucast x :: u64) = unat x" "(ucast x :: u64) = 0 \<longleftrightarrow> x = 0"
proof -
  have "unat x < 2 ^ LENGTH(16)" by (rule unsigned_less)
  then show u: "unat (ucast x :: u64) = unat x" by (simp add: unsigned_ucast_eq take_bit_eq_mod)
  show "(ucast x :: u64) = 0 \<longleftrightarrow> x = 0" using u by (metis unat_eq_zero)
qed

lemma table_rows:
  fixes num entsize :: "16 word"
  assumes "num \<noteq> 0 \<longrightarrow> of_nat n \<le> entsize" "n < 65536" "40 \<le> n"
    "(ucast num :: u64) \<noteq> 0 \<longrightarrow> unat off + unat (ucast num :: u64) * unat (ucast entsize :: u64) \<le> unat (of_nat (length base) :: u64)"
  shows "\<forall>i \<in> set [0..<unat num]. unat off + i * unat entsize + 40 \<le> length base"
proof
  fix i assume "i \<in> set [0..<unat num]"
  then have i: "i < unat num" "num \<noteq> 0" by auto
  have "n \<le> unat entsize" using assms(1,2) i(2) by (simp add: word_le_nat_alt unat_of_nat)
  moreover have "unat off + unat num * unat entsize \<le> length base"
    using assms(4) i(2) length_word_le [of base] by (simp add: wide)
  ultimately show "unat off + i * unat entsize + 40 \<le> length base" using i(1) assms(3) by (intro in_table) simp_all
qed

lemma post_elf_extent:
  assumes "phnum \<noteq> 0 \<longrightarrow> 56 \<le> phentsize" "shnum \<noteq> 0 \<longrightarrow> 64 \<le> shentsize"
  shows "post (elf_extent base phoff shoff ehsize phentsize phnum shentsize shnum) (\<lambda>n. 64 \<le> n \<and> n \<le> length base)"
proof -
  let ?avail = "of_nat (length base) :: u64"
  have fin: "post (if e < 64 \<or> e > ?avail then Fail else Ok (unat e)) (\<lambda>n. 64 \<le> n \<and> n \<le> length base)" for e
    using length_word_le [of base] by (auto simp: word_le_nat_alt not_less)
  have s: "post (section_ends base (unat shoff) (unat shentsize) [0..<unat shnum] e)
      (\<lambda>e. post (if e < 64 \<or> e > ?avail then Fail else Ok (unat e)) (\<lambda>n. 64 \<le> n \<and> n \<le> length base))"
    if "(ucast shnum :: u64) \<noteq> 0 \<longrightarrow> unat shoff + unat (ucast shnum :: u64) * unat (ucast shentsize :: u64) \<le> unat ?avail" for e
    by (rule post_mono [OF post_section_ends [OF table_rows [where n = 64, OF _ _ _ that]] fin]) (use assms in simp_all)
  have p: "post (program_ends base (unat phoff) (unat phentsize) [0..<unat phnum] e) (\<lambda>_. True)"
    if "(ucast phnum :: u64) \<noteq> 0 \<longrightarrow> unat phoff + unat (ucast phnum :: u64) * unat (ucast phentsize :: u64) \<le> unat ?avail" for e
    by (rule post_program_ends [OF table_rows [where n = 56, OF _ _ _ that]]) (use assms in simp_all)
  show ?thesis
    unfolding elf_extent_def Let_def post_simps
    by (rule post_mono [OF post_table_end], rule post_mono [OF post_table_end], rule post_mono [OF p], assumption, rule s, assumption)
qed

lemma post_valid_elf: "post (valid_iluvatar_elf base) (\<lambda>n. 64 \<le> n \<and> n \<le> length base)"
  unfolding valid_iluvatar_elf_def by (auto intro!: post_reads post_elf_extent simp: not_less)

section \<open>What is found\<close>

text \<open>The last image of the scan, if there is one.\<close>

definition found_image :: "bytes \<Rightarrow> nat \<times> nat \<times> nat \<Rightarrow> bool" where
  "found_image fatbin = (\<lambda>(count, off, n). count = 0 \<or>
     64 \<le> n \<and> off + n \<le> length fatbin \<and> valid_iluvatar_elf (drop off fatbin) = Ok n)"

lemma post_extract_scan: "found_image fatbin found \<Longrightarrow> post (extract_scan fatbin off found) (found_image fatbin)"
proof (induction fatbin off found rule: extract_scan.induct)
  case (1 fatbin off found)
  have elf: "post (valid_iluvatar_elf (drop off fatbin)) (\<lambda>n. 64 \<le> n \<and> n \<le> length fatbin - off)"
    using post_valid_elf [of "drop off fatbin"] by simp
  show ?case
  proof (cases "off + 4 \<le> length fatbin \<and> take 4 (drop off fatbin) = [0x7f, 0x45, 0x4c, 0x46]")
    case False
    then show ?thesis using "1.IH"(1) "1.prems" by (subst extract_scan.simps) auto
  next
    case True
    show ?thesis
    proof (cases "valid_iluvatar_elf (drop off fatbin)")
      case Undef
      then show ?thesis using elf by simp
    next
      case Fail
      then show ?thesis using "1.IH"(2) "1.prems" True by (subst extract_scan.simps) auto
    next
      case (Ok n)
      then have "found_image fatbin (fst found + 1, off, n)" using elf True by (auto simp: found_image_def)
      then show ?thesis using "1.IH"(3) [OF _ _ Ok] True by (subst extract_scan.simps) (simp add: Ok)
    qed
  qed
qed

lemma post_extract_one:
  "post (extract_one fatbin) (\<lambda>(off, n). 64 \<le> n \<and> off + n \<le> length fatbin \<and> valid_iluvatar_elf (drop off fatbin) = Ok n)"
  unfolding extract_one_def post_simps
  by (rule post_mono [OF post_extract_scan]) (auto simp: found_image_def)

text \<open>A range of addresses inside one readable file-backed segment of a loaded object.\<close>

definition readable_span :: "dl_object list \<Rightarrow> u64 \<Rightarrow> nat \<Rightarrow> bool" where
  "readable_span objects ptr n \<longleftrightarrow> (\<exists>obj \<in> set objects. \<exists>ph \<in> set (dl_phdrs obj). ph_load ph \<and> ph_readable ph \<and>
     unat (dl_addr obj + ph_vaddr ph) \<le> unat ptr \<and>
     unat ptr + n \<le> unat (dl_addr obj + ph_vaddr ph) + unat (ph_filesz ph) \<and>
     unat (dl_addr obj + ph_vaddr ph) + unat (ph_filesz ph) < 2 ^ 64)"

lemma segment_span_Some:
  assumes "segment_span ptr stop obj ph = Some sp" "unat stop = unat ptr + n"
  shows "ph_load ph \<and> ph_readable ph \<and> unat (dl_addr obj + ph_vaddr ph) \<le> unat ptr \<and>
     unat ptr + n \<le> unat (dl_addr obj + ph_vaddr ph) + unat (ph_filesz ph) \<and>
     unat (dl_addr obj + ph_vaddr ph) + unat (ph_filesz ph) < 2 ^ 64"
proof -
  obtain e where e: "add_u64 (dl_addr obj + ph_vaddr ph) (ph_filesz ph) = Some e" "ph_load ph" "ph_readable ph"
    "dl_addr obj + ph_vaddr ph \<le> ptr" "stop \<le> e"
    using assms(1) by (auto simp: segment_span_def Let_def split: if_splits option.splits)
  have "unat e < 2 ^ 64" using unsigned_less [of e, where 'a = nat] by simp
  then show ?thesis using e add_u64_Some [OF e(1)] assms(2) by (simp add: word_le_nat_alt)
qed

lemma find_in: "List.find P xs = Some x \<Longrightarrow> x \<in> set xs"
  by (auto simp: find_Some_iff)

lemma span_cb_Some:
  assumes "span_cb ptr stop obj = Some sp"
  obtains ph where "ph \<in> set (dl_phdrs obj)" "segment_span ptr stop obj ph = Some sp"
  using assms find_in by (fastforce simp: span_cb_def split: option.splits)

lemma locate_readable:
  assumes "locate_file_backed_span objects ptr len = Some sp"
  shows "readable_span objects ptr (unat len)"
proof -
  obtain stop obj where s: "add_u64 ptr len = Some stop" "obj \<in> set objects" "span_cb ptr stop obj = Some sp"
    using assms find_in by (fastforce simp: locate_file_backed_span_def split: if_splits option.splits)
  obtain ph where ph: "ph \<in> set (dl_phdrs obj)" "segment_span ptr stop obj ph = Some sp" using s(3) by (rule span_cb_Some)
  show ?thesis using segment_span_Some [OF ph(2) add_u64_Some [OF s(1)]] s(2) ph(1) unfolding readable_span_def by blast
qed

text \<open>The loader has mapped what it reports. Nothing is known about the rest of the memory.\<close>

definition segments_mapped :: "dl_object list \<Rightarrow> process_memory \<Rightarrow> bool" where
  "segments_mapped objects mem \<longleftrightarrow> (\<forall>a. in_segment objects a \<longrightarrow> mem a \<noteq> None)"

lemma readable_span_address:
  assumes "readable_span objects p n" "k < n"
  shows "in_segment objects (p + of_nat k)"
proof -
  obtain obj ph where o: "obj \<in> set objects" "ph \<in> set (dl_phdrs obj)" "ph_load ph" "ph_readable ph"
    "unat (dl_addr obj + ph_vaddr ph) \<le> unat p" "unat p + n \<le> unat (dl_addr obj + ph_vaddr ph) + unat (ph_filesz ph)"
    "unat (dl_addr obj + ph_vaddr ph) + unat (ph_filesz ph) < 2 ^ 64"
    using assms(1) by (auto simp: readable_span_def)
  have k: "unat p + k < 2 ^ 64" using o(6,7) assms(2) by linarith
  then have "unat (of_nat k :: u64) = k" by (simp add: unat_of_nat)
  then have "unat (p + of_nat k) = unat p + k" using k by (subst unat_add_no_wrap) simp_all
  then show ?thesis using o(3-6) assms(2) unfolding in_segment_def list_ex_iff by (intro bexI [OF _ o(1)] bexI [OF _ o(2)]) simp
qed

lemma post_mem_read:
  assumes "segments_mapped objects mem" "readable_span objects p n" "k + m \<le> n"
  shows "post (mem_read mem (p + of_nat k) m) (\<lambda>b. length b = m)"
proof -
  have "mem (p + of_nat k + of_nat j) \<noteq> None" if "j < m" for j
    using assms(1) readable_span_address [OF assms(2), of "k + j"] assms(3) that by (simp add: segments_mapped_def add.assoc)
  then have "None \<notin> set (map (\<lambda>j. mem (p + of_nat k + of_nat j)) [0..<m])" by (metis (no_types, lifting) atLeastLessThan_iff image_iff set_map set_upt)
  then show ?thesis by (simp add: mem_read_def)
qed

text \<open>An outcome of the search that the rest of the client can rely on.\<close>

definition image_ok :: "dl_object list \<Rightarrow> process_memory \<Rightarrow> u64 \<Rightarrow> int + CorexLoadableImage \<Rightarrow> bool" where
  "image_ok objects mem wrapper r = (case r of
      Inl rc \<Rightarrow> - 11 \<le> rc \<and> rc \<le> - 1
    | Inr im \<Rightarrow> readable_span objects wrapper 24 \<and>
        readable_span objects (li_fatbin_bytes im) (li_fatbin_size im) \<and> li_fatbin_size im \<le> MAX_FATBIN_BYTES \<and>
        li_image_bytes im = li_fatbin_bytes im + of_nat (li_image_offset im) \<and>
        64 \<le> li_image_size im \<and> li_image_offset im + li_image_size im \<le> li_fatbin_size im \<and>
        (\<exists>fatbin. mem_read mem (li_fatbin_bytes im) (li_fatbin_size im) = Ok fatbin \<and>
           valid_iluvatar_elf (drop (li_image_offset im) fatbin) = Ok (li_image_size im)))"

lemma post_extracted:
  assumes "segments_mapped objects mem" "readable_span objects wrapper 24" "readable_span objects fatbin n" "n \<le> MAX_FATBIN_BYTES"
  shows "post (case and_then (mem_read mem fatbin n) extract_one of Undef \<Rightarrow> Undef | Fail \<Rightarrow> Ok (Inl (- 11))
        | Ok (off, bytes) \<Rightarrow> Ok (Inr \<lparr>li_fatbin_bytes = fatbin, li_fatbin_size = n, li_image_bytes = fatbin + of_nat off,
            li_image_size = bytes, li_image_offset = off, li_object_base = b, li_object_name = nm\<rparr>))
      (image_ok objects mem wrapper)"
proof (cases "mem_read mem fatbin n")
  case (Ok bs)
  then have "length bs = n" using post_mem_read [OF assms(1,3), of 0 n] by simp
  then show ?thesis using post_extract_one [of bs] assms Ok by (auto simp: image_ok_def split: parse.splits)
qed (use post_mem_read [OF assms(1,3), of 0 n] in \<open>simp_all add: image_ok_def\<close>)

lemma image_ok_code: "- 11 \<le> rc \<Longrightarrow> rc \<le> - 1 \<Longrightarrow> image_ok objects mem wrapper (Inl rc)"
  by (simp add: image_ok_def)

text \<open>Branches of a parser.\<close>

lemma post_condI: "(b \<Longrightarrow> post x Q) \<Longrightarrow> (\<not> b \<Longrightarrow> post y Q) \<Longrightarrow> post (if b then x else y) Q"
  by simp

lemma post_optionI: "(r = None \<Longrightarrow> post x Q) \<Longrightarrow> (\<And>v. r = Some v \<Longrightarrow> post (f v) Q) \<Longrightarrow> post (case r of None \<Rightarrow> x | Some v \<Rightarrow> f v) Q"
  by (cases r) simp_all

lemma post_thenI: "post r (\<lambda>x. post (f x) Q) \<Longrightarrow> post (and_then r f) Q"
  by simp

text \<open>A field of the first 24 bytes of a range, which the loader reports.\<close>

lemma post_load:
  assumes "segments_mapped objects mem" "locate_file_backed_span objects p 24 = Some sp"
  shows "(\<And>v. post (f v) Q) \<Longrightarrow> post (and_then (load_le32 mem p) f) Q"
    "(\<And>v. post (f v) Q) \<Longrightarrow> post (and_then (load_le32 mem (p + 4)) f) Q"
    "(\<And>v. post (g v) Q) \<Longrightarrow> post (and_then (load_le64 mem (p + 8)) g) Q"
proof -
  have "readable_span objects p 24" using locate_readable [OF assms(2)] by simp
  note m = post_mem_read [OF assms(1) this]
  show "(\<And>v. post (f v) Q) \<Longrightarrow> post (and_then (load_le32 mem p) f) Q"
    using m [of 0 4] by (auto simp: load_le32_def elim!: post_mono intro!: post_reads)
  show "(\<And>v. post (f v) Q) \<Longrightarrow> post (and_then (load_le32 mem (p + 4)) f) Q"
    using m [of 4 4] by (auto simp: load_le32_def elim!: post_mono intro!: post_reads)
  show "(\<And>v. post (g v) Q) \<Longrightarrow> post (and_then (load_le64 mem (p + 8)) g) Q"
    using m [of 8 8] by (auto simp: load_le64_def elim!: post_mono intro!: post_reads)
qed

text \<open>
  C11. Finding the device image reads only memory the loader reports: if the readable file-backed
  segments of the loaded objects are mapped, then whatever the wrapper and the memory hold, and
  however little else is mapped, no read is undefined. A result names an image that lies inside the
  fat binary, which lies inside one readable segment and is at most 256 MiB, and the image passes the
  ELF check with exactly that size; otherwise the result is one of the negative codes.
\<close>

theorem image_from_wrapper_safe:
  assumes "segments_mapped objects mem"
  shows "post (corex_image_from_compiler_wrapper objects mem wrapper) (image_ok objects mem wrapper)"
  unfolding corex_image_from_compiler_wrapper_def
  by (intro post_condI post_optionI post_load [OF assms] post_extracted [OF assms])
    (auto simp: image_ok_code not_less word_le_nat_alt dest: locate_readable)

text \<open>A program with one segment: a wrapper, a fat binary and in it an image that is nothing but its ELF header.\<close>

definition sample_elf :: bytes where
  "sample_elf = [0x7f, 0x45, 0x4c, 0x46, 2, 1, 1, 0x42] @ replicate 10 0 @ [0xf8, 0, 1] @ replicate 31 0 @ [64] @ replicate 11 0"

definition sample_program :: bytes where
  "sample_program = [0x58, 0x5a, 0x53, 0x54, 1, 0, 0, 0, 0x18, 0x10] @ replicate 14 0 @
     [0x29, 0x03, 0x16, 0x20, 0, 0, 1, 0, 72] @ replicate 15 0 @ sample_elf"

definition sample_objects :: "dl_object list" where
  "sample_objects = [\<lparr>dl_addr = 0, dl_name = [],
     dl_phdrs = [\<lparr>ph_load = True, ph_readable = True, ph_vaddr = 4096, ph_filesz = 112\<rparr>]\<rparr>]"

definition sample_memory :: process_memory where
  "sample_memory = segment_memory sample_objects (\<lambda>a. sample_program ! unat (a - 4096))"

lemma segment_memory_mapped: "segments_mapped objects (segment_memory objects m)"
  by (simp add: segments_mapped_def segment_memory_def)

lemma sample_memory_read:
  assumes "k + n \<le> 112"
  shows "mem_read sample_memory (4096 + of_nat k) n = Ok (take n (drop k sample_program))"
proof -
  have len: "length sample_program = 112" by (simp add: sample_program_def sample_elf_def)
  have "sample_memory (4096 + of_nat k + of_nat j) = Some (sample_program ! (k + j))" if "j < n" for j
  proof -
    have "unat (of_nat (k + j) :: u64) = k + j" using assms that by (simp only: unat_of_nat) simp
    moreover from this have "unat (4096 + of_nat (k + j) :: u64) = 4096 + (k + j)" using assms that by (subst unat_add_no_wrap) simp_all
    ultimately show ?thesis
      using assms that by (simp add: sample_memory_def segment_memory_def in_segment_def sample_objects_def add.assoc)
  qed
  then have "map (\<lambda>j. sample_memory (4096 + of_nat k + of_nat j)) [0..<n] = map Some (take n (drop k sample_program))"
    using assms len by (intro nth_equalityI) simp_all
  then show ?thesis by (simp add: mem_read_def comp_def image_iff)
qed

lemmas sample_reads = sample_memory_read [of 0 4, simplified] sample_memory_read [of 4 4, simplified] sample_memory_read [of 8 8, simplified]
  sample_memory_read [of 24 4, simplified] sample_memory_read [of 28 4, simplified] sample_memory_read [of 32 8, simplified]
  sample_memory_read [of 24 88, simplified]

lemma sample_extract: "extract_one (drop 24 sample_program) = Ok (24, 64)"
  by code_simp

lemma sample_fields:
  "read_le32 (take 4 sample_program) 0 = Ok WRAPPER_MAGIC" "read_le32 (take 4 (drop 4 sample_program)) 0 = Ok WRAPPER_VERSION"
  "read_le64 (take 8 (drop 8 sample_program)) 0 = Ok 4120"
  "read_le32 (take 4 (drop 24 sample_program)) 0 = Ok FATBIN_MAGIC" "read_le32 (take 4 (drop 28 sample_program)) 0 = Ok FATBIN_VERSION"
  "read_le64 (take 8 (drop 32 sample_program)) 0 = Ok 72" "take 88 (drop 24 sample_program) = drop 24 sample_program"
  by code_simp+

lemma sample_spans:
  "locate_file_backed_span sample_objects 4096 24 = Some \<lparr>object_base = 0, seg_begin = 4096, seg_end = 4208, object_name = cstr ''<main>''\<rparr>"
  "locate_file_backed_span sample_objects 4120 24 = Some \<lparr>object_base = 0, seg_begin = 4096, seg_end = 4208, object_name = cstr ''<main>''\<rparr>"
  "locate_file_backed_span sample_objects 4120 88 = Some \<lparr>object_base = 0, seg_begin = 4096, seg_end = 4208, object_name = cstr ''<main>''\<rparr>"
  by code_simp+

lemma sample_image:
  "corex_image_from_compiler_wrapper sample_objects sample_memory 4096 = Ok (Inr \<lparr>li_fatbin_bytes = 4120, li_fatbin_size = 88,
     li_image_bytes = 4144, li_image_size = 64, li_image_offset = 24, li_object_base = 0, li_object_name = cstr ''<main>''\<rparr>)"
  by (simp add: corex_image_from_compiler_wrapper_def sample_spans load_le32_def load_le64_def sample_reads sample_fields
      sample_extract same_object_def add_u64_def)

theorem image_from_wrapper_safe_witness:
  "segments_mapped sample_objects sample_memory \<and> readable_span sample_objects 4120 88 \<and>
   post (corex_image_from_compiler_wrapper sample_objects sample_memory 4096) (image_ok sample_objects sample_memory 4096)"
proof -
  have m: "segments_mapped sample_objects sample_memory" by (simp add: sample_memory_def segment_memory_mapped)
  from image_from_wrapper_safe [OF this, of 4096] show ?thesis using m by (simp add: sample_image image_ok_def)
qed

end
