(* ===== verification/Client_Kernels.thy ===== *)
theory Client_Kernels
  imports Client_Streams Fatbin
begin

text \<open>
  Queries, modules and kernels of the client (\<^verbatim>\<open>src/corex_remote_cuda.c\<close>): the device and function
  queries, modules and kernels registered by the application or by the code the compiler emits, the
  launch of a kernel, and the end of the runtime.
\<close>

section \<open>Device queries\<close>

text \<open>An entry point that makes one call and stores the answer; a null out-parameter is refused first.\<close>

definition query_entry :: "system \<Rightarrow> bool \<Rightarrow> cudaError_t \<Rightarrow> (client \<Rightarrow> 'a option \<times> client) \<Rightarrow> client \<Rightarrow> 'a result" where
  "query_entry sys bad fallback f c =
     (if bad then raise cudaErrorInvalidValue c else with_runtime sys (\<lambda>c. call_or fallback (f c)) c)"

definition corexRemoteGetDeviceInfoInternal_locked :: "system \<Rightarrow> u32 \<Rightarrow> u64 \<Rightarrow> client \<Rightarrow> CorexRemoteDeviceInfo result" where
  "corexRemoteGetDeviceInfoInternal_locked sys logical_device info_out c =
     (if info_out = 0 then raise cudaErrorInvalidValue c
      else if logical_device \<noteq> 0 then raise cudaErrorInvalidDevice c
      else with_runtime sys (\<lambda>c. call_or cudaErrorUnknown (remote_get_device_info sys logical_device c)) c)"

definition cudaGetDeviceCount_locked :: "system \<Rightarrow> u64 \<Rightarrow> client \<Rightarrow> u32 result" where
  "cudaGetDeviceCount_locked sys count c =
     (if count = 0 then raise cudaErrorInvalidValue c else with_runtime sys (\<lambda>c. (Inr 1, c)) c)"

definition cudaGetDevice_locked :: "system \<Rightarrow> u64 \<Rightarrow> client \<Rightarrow> u32 result" where
  "cudaGetDevice_locked sys device c =
     (if device = 0 then raise cudaErrorInvalidValue c else with_runtime sys (\<lambda>c. (Inr (g_current_device c), c)) c)"

definition cudaSetDevice_locked :: "system \<Rightarrow> u32 \<Rightarrow> client \<Rightarrow> unit result" where
  "cudaSetDevice_locked sys device c =
     with_runtime sys (\<lambda>c. if device \<noteq> 0 then raise cudaErrorInvalidDevice c else (Inr (), c\<lparr>g_current_device := 0\<rparr>)) c"

definition cudaDriverGetVersion_locked :: "system \<Rightarrow> u64 \<Rightarrow> client \<Rightarrow> u32 result" where
  "cudaDriverGetVersion_locked sys version c =
     query_entry sys (version = 0) cudaErrorUnknown (remote_version_query sys OP_GET_DRIVER_VERSION) c"

definition cudaRuntimeGetVersion_locked :: "system \<Rightarrow> u64 \<Rightarrow> client \<Rightarrow> u32 result" where
  "cudaRuntimeGetVersion_locked sys version c =
     query_entry sys (version = 0) cudaErrorUnknown (remote_version_query sys OP_GET_RUNTIME_VERSION) c"

definition cudaDeviceGetAttribute_locked :: "system \<Rightarrow> u64 \<Rightarrow> u32 \<Rightarrow> u32 \<Rightarrow> client \<Rightarrow> u32 result" where
  "cudaDeviceGetAttribute_locked sys out attr device c =
     (if out = 0 then raise cudaErrorInvalidValue c
      else if device \<noteq> 0 then raise cudaErrorInvalidDevice c
      else with_runtime sys (\<lambda>c. call_or cudaErrorInvalidValue (remote_device_get_attribute sys attr device c)) c)"

text \<open>The text is written with its terminator, or only a terminator when the buffer is too short.\<close>

definition cudaDeviceGetPCIBusId_locked :: "system \<Rightarrow> u64 \<Rightarrow> int \<Rightarrow> u32 \<Rightarrow> client \<Rightarrow> unit result" where
  "cudaDeviceGetPCIBusId_locked sys pci_bus_id len device c =
     (if pci_bus_id = 0 \<or> len \<le> 0 then raise cudaErrorInvalidValue c
      else with_runtime sys (\<lambda>c.
        result_bind (call_or cudaErrorInvalidValue (remote_device_get_pci_bus_id sys device c)) (\<lambda>text c.
          if len < int (length text + 1) then raise cudaErrorInvalidValue (host_store pci_bus_id [0] c)
          else (Inr (), host_store pci_bus_id (text @ [0]) c))) c)"

definition cudaDeviceGetByPCIBusId_locked :: "system \<Rightarrow> u64 \<Rightarrow> bytes option \<Rightarrow> client \<Rightarrow> u32 result" where
  "cudaDeviceGetByPCIBusId_locked sys device pci_bus_id c =
     (case pci_bus_id of
        None \<Rightarrow> raise cudaErrorInvalidValue c
      | Some text \<Rightarrow>
          if device = 0 \<or> length text > 32 then raise cudaErrorInvalidValue c
          else with_runtime sys (\<lambda>c. call_or cudaErrorInvalidValue (remote_device_get_by_pci_bus_id sys text c)) c)"

definition cudaGetDeviceFlags_locked :: "system \<Rightarrow> u64 \<Rightarrow> client \<Rightarrow> u32 result" where
  "cudaGetDeviceFlags_locked sys flags c = query_entry sys (flags = 0) cudaErrorUnknown (remote_get_device_flags sys) c"

definition cudaDeviceGetStreamPriorityRange_locked :: "system \<Rightarrow> u64 \<Rightarrow> u64 \<Rightarrow> client \<Rightarrow> (u32 \<times> u32) result" where
  "cudaDeviceGetStreamPriorityRange_locked sys least_priority greatest_priority c =
     query_entry sys (least_priority = 0 \<or> greatest_priority = 0) cudaErrorUnknown (remote_get_priority_range sys) c"

definition cudaDeviceGetLimit_locked :: "system \<Rightarrow> u64 \<Rightarrow> int \<Rightarrow> client \<Rightarrow> u64 result" where
  "cudaDeviceGetLimit_locked sys out limit c =
     query_entry sys (out = 0 \<or> limit < 0 \<or> limit > 6) cudaErrorNotSupported (remote_get_limit sys (of_int limit)) c"

definition cudaDeviceGetCacheConfig_locked :: "system \<Rightarrow> u64 \<Rightarrow> client \<Rightarrow> u32 result" where
  "cudaDeviceGetCacheConfig_locked sys config c = query_entry sys (config = 0) cudaErrorUnknown (remote_get_cache_config sys) c"

definition cudaDeviceGetSharedMemConfig_locked :: "system \<Rightarrow> u64 \<Rightarrow> client \<Rightarrow> u32 result" where
  "cudaDeviceGetSharedMemConfig_locked sys config c =
     query_entry sys (config = 0) cudaErrorUnknown (remote_get_shared_mem_config sys) c"

section \<open>Function queries\<close>

text \<open>\<open>bad\<close> is what is refused before the runtime is asked for; a null function is \<^const>\<open>None\<close>.\<close>

definition kernel_entry :: "system \<Rightarrow> kernel_ref option \<Rightarrow> bool \<Rightarrow> cudaError_t \<Rightarrow> (u64 \<Rightarrow> client \<Rightarrow> 'a option \<times> client) \<Rightarrow>
    client \<Rightarrow> 'a result" where
  "kernel_entry sys func bad fallback f c =
     (case func of
        None \<Rightarrow> raise cudaErrorInvalidValue c
      | Some k \<Rightarrow>
          if bad then raise cudaErrorInvalidValue c
          else with_runtime sys (\<lambda>c. case resolve_kernel_reference k c of
              None \<Rightarrow> raise cudaErrorInvalidResourceHandle c
            | Some i \<Rightarrow> call_or fallback (f (kh_kernel_id (g_kernel_handles c ! i)) c)) c)"

definition cudaFuncGetAttributes_locked :: "system \<Rightarrow> u64 \<Rightarrow> kernel_ref option \<Rightarrow> client \<Rightarrow> cudaFuncAttributes result" where
  "cudaFuncGetAttributes_locked sys attr func c = kernel_entry sys func (attr = 0) cudaErrorUnknown (remote_function_attributes sys) c"

abbreviation (input) cudaFuncAttributeMaxDynamicSharedMemorySize :: u32 where "cudaFuncAttributeMaxDynamicSharedMemorySize \<equiv> 8"
abbreviation (input) cudaFuncAttributePreferredSharedMemoryCarveout :: u32 where "cudaFuncAttributePreferredSharedMemoryCarveout \<equiv> 9"

definition cudaFuncSetAttribute_locked :: "system \<Rightarrow> kernel_ref option \<Rightarrow> u32 \<Rightarrow> u32 \<Rightarrow> client \<Rightarrow> unit result" where
  "cudaFuncSetAttribute_locked sys func attr value c =
     kernel_entry sys func (attr \<noteq> cudaFuncAttributeMaxDynamicSharedMemorySize \<and> attr \<noteq> cudaFuncAttributePreferredSharedMemoryCarveout)
       cudaErrorInvalidValue (\<lambda>kid. remote_function_set_attribute sys kid attr value) c"

definition cudaFuncSetCacheConfig_locked :: "system \<Rightarrow> kernel_ref option \<Rightarrow> int \<Rightarrow> client \<Rightarrow> unit result" where
  "cudaFuncSetCacheConfig_locked sys func config c =
     kernel_entry sys func (config < 0 \<or> config > 3) cudaErrorInvalidValue (\<lambda>kid. remote_function_set_cache_config sys kid (of_int config)) c"

definition cudaFuncSetSharedMemConfig_locked :: "system \<Rightarrow> kernel_ref option \<Rightarrow> int \<Rightarrow> client \<Rightarrow> unit result" where
  "cudaFuncSetSharedMemConfig_locked sys func config c =
     kernel_entry sys func (config < 0 \<or> config > 2) cudaErrorUnknown
       (\<lambda>kid. corex_generated_call_cudaFuncSetSharedMemConfig (generated_rpc_call sys) (kid, of_int config)) c"

definition cudaOccupancy_locked :: "system \<Rightarrow> u64 \<Rightarrow> kernel_ref option \<Rightarrow> int \<Rightarrow> u64 \<Rightarrow> client \<Rightarrow> u32 result" where
  "cudaOccupancy_locked sys blocks func block_size dynamic_shared c =
     kernel_entry sys func (blocks = 0 \<or> block_size \<le> 0) cudaErrorUnknown
       (\<lambda>kid. remote_occupancy sys kid (of_int block_size) dynamic_shared) c"

definition cudaOccupancyFlags_locked :: "system \<Rightarrow> u64 \<Rightarrow> kernel_ref option \<Rightarrow> int \<Rightarrow> u64 \<Rightarrow> u32 \<Rightarrow> client \<Rightarrow> u32 result" where
  "cudaOccupancyFlags_locked sys blocks func block_size dynamic_shared flags c =
     kernel_entry sys func (blocks = 0 \<or> block_size \<le> 0 \<or> flags > 1) (if flags \<noteq> 0 then cudaErrorNotSupported else cudaErrorUnknown)
       (\<lambda>kid. corex_generated_call_cudaOccupancyMaxActiveBlocksPerMultiprocessorWithFlags (generated_rpc_call sys)
         (kid, of_int block_size, dynamic_shared, flags)) c"

definition cudaOccupancyPotential_locked :: "system \<Rightarrow> u64 \<Rightarrow> u64 \<Rightarrow> kernel_ref option \<Rightarrow> u64 \<Rightarrow> int \<Rightarrow> client \<Rightarrow> (u32 \<times> u32) result" where
  "cudaOccupancyPotential_locked sys grid block func dynamic_shared block_limit c =
     kernel_entry sys func (grid = 0 \<or> block = 0 \<or> block_limit < 0) cudaErrorUnknown
       (\<lambda>kid. corex_generated_call_cudaOccupancyMaxPotentialBlockSize (generated_rpc_call sys)
         (kid, dynamic_shared, of_int block_limit)) c"

section \<open>Modules\<close>

text \<open>A failed call returned without recording the error, and the result of a call recorded (\<open>G6E_RETURN\<close>).\<close>

definition call_else :: "cudaError_t \<Rightarrow> 'a option \<times> client \<Rightarrow> 'a result" where
  "call_else fallback = (\<lambda>(r, c). case r of Some v \<Rightarrow> (Inr v, c) | None \<Rightarrow> (Inl (map_last_rpc_error fallback c), c))"

definition recorded :: "'a result \<Rightarrow> 'a result" where
  "recorded = (\<lambda>(r, c). case r of Inl e \<Rightarrow> raise e c | Inr v \<Rightarrow> (Inr v, c))"

definition module_load_bytes_after_runtime :: "system \<Rightarrow> bytes \<Rightarrow> bytes \<Rightarrow> client \<Rightarrow> nat result" where
  "module_load_bytes_after_runtime sys wire_name img c =
     (if img = [] then (Inl cudaErrorInvalidValue, c)
      else if g_module_handle_next c \<ge> G6D_MAX_MODULE_HANDLES then (Inl cudaErrorMemoryAllocation, c)
      else result_bind (call_else cudaErrorUnknown (remote_upload_module_bytes sys OP_UPLOAD_MODULE wire_name img c)) (\<lambda>module_id c.
        let i = g_module_handle_next c
        in (Inr i, c\<lparr>g_module_handles := (g_module_handles c)[i := \<lparr>mh_cookie = G6D_MODULE_COOKIE,
              mh_session_generation = g_active_session_generation c, mh_module_id = module_id, mh_live = True,
              mh_library_image = None\<rparr>], g_module_handle_next := i + 1\<rparr>)))"

definition module_symbol :: "u64 \<Rightarrow> client \<Rightarrow> VirtualAllocation \<Rightarrow> bool" where
  "module_symbol module_id c a \<longleftrightarrow> current_alloc c a \<and> va_parent_module_id a = module_id"

fun drain_module_symbols :: "system \<Rightarrow> u64 \<Rightarrow> nat list \<Rightarrow> client \<Rightarrow> unit result" where
  "drain_module_symbols sys module_id [] c = (Inr (), c)"
| "drain_module_symbols sys module_id (i # ks) c =
     (if module_symbol module_id c (g_allocs c ! i)
      then result_bind (drain_allocation_transfers_blocking sys (va_allocation_id (g_allocs c ! i)) c)
             (\<lambda>_. drain_module_symbols sys module_id ks)
      else drain_module_symbols sys module_id ks c)"

definition module_unload_after_runtime :: "system \<Rightarrow> nat option \<Rightarrow> client \<Rightarrow> unit result" where
  "module_unload_after_runtime sys module c =
     (case resolve_module_handle module c of
        None \<Rightarrow> (Inl cudaErrorInvalidResourceHandle, c)
      | Some i \<Rightarrow>
          let module_id = mh_module_id (g_module_handles c ! i)
          in result_bind (drain_module_symbols sys module_id [0..<length (g_allocs c)] c) (\<lambda>_ c.
             result_bind (call_else cudaErrorUnknown (remote_unload_module sys module_id c)) (\<lambda>_ c.
               let c = invalidate_local_module_kernels module_id c
               in (Inr (), c\<lparr>g_allocs := map (\<lambda>a. if module_symbol module_id c a then a\<lparr>va_live := False\<rparr> else a) (g_allocs c),
                     g_module_handles := (g_module_handles c)[i := (g_module_handles c ! i)\<lparr>mh_library_image := None, mh_live := False,
                       mh_module_id := 0\<rparr>]\<rparr>))))"

text \<open>The file is read by the caller; \<^const>\<open>None\<close> is a failed read. The name sent is what follows the last slash of the path.\<close>

definition base_name :: "bytes \<Rightarrow> bytes" where
  "base_name path = rev (takeWhile (\<lambda>b. b \<noteq> 0x2f) (rev path))"

definition corexRemoteModuleLoad_locked :: "system \<Rightarrow> bytes option \<Rightarrow> bytes option \<Rightarrow> u64 \<Rightarrow> client \<Rightarrow> nat result" where
  "corexRemoteModuleLoad_locked sys cubin_path file module_out c =
     (case cubin_path of
        None \<Rightarrow> raise cudaErrorInvalidValue c
      | Some path \<Rightarrow>
          if module_out = 0 then raise cudaErrorInvalidValue c
          else with_runtime sys (\<lambda>c.
            if g_module_handle_next c \<ge> G6D_MAX_MODULE_HANDLES then raise cudaErrorMemoryAllocation c
            else case file of
                   None \<Rightarrow> raise cudaErrorUnknown c
                 | Some img \<Rightarrow>
                     result_bind (recorded (module_load_bytes_after_runtime sys (base_name path) img c)) (\<lambda>i c.
                       if resolve_module_handle (Some i) c = None then raise cudaErrorUnknown c else (Inr i, c))) c)"

definition corexRemoteModuleUnload_locked :: "system \<Rightarrow> nat option \<Rightarrow> client \<Rightarrow> unit result" where
  "corexRemoteModuleUnload_locked sys module c = with_runtime sys (\<lambda>c. recorded (module_unload_after_runtime sys module c)) c"

section \<open>Kernels\<close>

text \<open>
  A kernel the compiler registered is found again by the address of its host function: the same
  module, name and registration give the same kernel, anything else is refused.
\<close>

definition bind_kernel_identity_after_runtime :: "system \<Rightarrow> nat \<Rightarrow> bytes \<Rightarrow> G7DKernelOrigin \<Rightarrow> u64 \<Rightarrow> u64 \<Rightarrow> client \<Rightarrow> nat result" where
  "bind_kernel_identity_after_runtime sys mh kernel_name origin host_fun registration_generation c =
     (if kernel_name = [] \<or> length kernel_name \<ge> 128 then (Inl cudaErrorInvalidValue, c)
      else if origin = G7D_KERNEL_ORIGIN_COMPILER \<and> host_fun = 0 then (Inl cudaErrorInvalidValue, c)
      else case (if origin = G7D_KERNEL_ORIGIN_COMPILER then find_live_compiler_kernel_by_host_fun host_fun c else None) of
             Some e \<Rightarrow>
               let existing = g_kernel_handles c ! e
               in if kh_module_id existing = mh_module_id (g_module_handles c ! mh) \<and> kh_name existing = kernel_name \<and>
                     kh_registration_generation existing = registration_generation
                  then (Inr e, c) else (Inl cudaErrorInvalidValue, c)
           | None \<Rightarrow>
               if g_kernel_handle_next c \<ge> G6D_MAX_KERNEL_HANDLES then (Inl cudaErrorMemoryAllocation, c)
               else result_bind (call_else cudaErrorUnknown (remote_get_kernel sys (mh_module_id (g_module_handles c ! mh)) kernel_name c))
                 (\<lambda>kernel_id c.
                   let i = g_kernel_handle_next c
                   in (Inr i, c\<lparr>g_kernel_handles := (g_kernel_handles c)[i := \<lparr>kh_cookie = G6D_KERNEL_COOKIE,
                         kh_session_generation = g_active_session_generation c, kh_kernel_id = kernel_id,
                         kh_module_id = mh_module_id (g_module_handles c ! mh), kh_live = True, kh_origin = origin,
                         kh_abi_state = G7D_ABI_UNKNOWN, kh_host_fun = host_fun,
                         kh_registration_generation = registration_generation, kh_args = [], kh_name = kernel_name\<rparr>],
                       g_kernel_handle_next := i + 1\<rparr>)))"

definition upd_kernel :: "nat \<Rightarrow> (corexRemoteKernelHandle \<Rightarrow> corexRemoteKernelHandle) \<Rightarrow> client \<Rightarrow> client" where
  "upd_kernel i f c = c\<lparr>g_kernel_handles := (g_kernel_handles c)[i := f (g_kernel_handles c ! i)]\<rparr>"

definition arg_desc_ok :: "corexRemoteKernelArgDesc \<Rightarrow> bool" where
  "arg_desc_ok a = (case ad_kind a of
      COREX_REMOTE_KERNEL_ARG_DEVICE_PTR \<Rightarrow> ad_size a = 8
    | COREX_REMOTE_KERNEL_ARG_BY_VALUE \<Rightarrow> ad_size a \<noteq> 0)"

text \<open>The descriptions are the \<open>argc\<close> entries of the array, \<^const>\<open>None\<close> a null array with entries.\<close>

definition corexRemoteRegisterKernel_locked :: "system \<Rightarrow> nat option \<Rightarrow> bytes option \<Rightarrow> corexRemoteKernelArgDesc list option \<Rightarrow> u64 \<Rightarrow>
    client \<Rightarrow> nat result" where
  "corexRemoteRegisterKernel_locked sys module kernel_name args func_out c =
     (case (kernel_name, args) of
        (Some name, Some descs) \<Rightarrow>
          if func_out = 0 \<or> length descs > G6D_MAX_KERNEL_ARGS \<or> \<not> list_all arg_desc_ok descs then raise cudaErrorInvalidValue c
          else with_runtime sys (\<lambda>c. case resolve_module_handle module c of
              None \<Rightarrow> raise cudaErrorInvalidResourceHandle c
            | Some mh \<Rightarrow>
                result_bind (recorded (bind_kernel_identity_after_runtime sys mh name G7D_KERNEL_ORIGIN_CONTROLLED 0 0 c)) (\<lambda>i c.
                  (Inr i, upd_kernel i (\<lambda>h. h\<lparr>kh_args := descs, kh_abi_state := G7D_ABI_READY\<rparr>) c))) c
      | _ \<Rightarrow> raise cudaErrorInvalidValue c)"

section \<open>The argument descriptions of a compiled kernel\<close>

text \<open>One argument of the metadata, behind the end of the argument before it: its description and its end.\<close>

definition normalize_arg :: "CorexKernelMeta \<Rightarrow> u64 option \<Rightarrow> CorexArgMeta \<Rightarrow> (corexRemoteKernelArgDesc \<times> u64) option" where
  "normalize_arg meta prior_end arg =
     (if ar_size arg = 0 then None
      else let arg_end = ucast (ar_offset arg) + ucast (ar_size arg)
           in if arg_end < ucast (ar_offset arg) \<or> arg_end > ucast (km_kernarg_segment_size meta) \<or>
                 (case prior_end of Some e \<Rightarrow> ucast (ar_offset arg) < e | None \<Rightarrow> False) then None
              else case ar_kind arg of
                     COREX_META_ARG_GLOBAL_BUFFER \<Rightarrow>
                       if ar_size arg \<noteq> 8 \<or> ar_address_space arg \<noteq> cstr ''global'' then None
                       else Some (\<lparr>ad_kind = COREX_REMOTE_KERNEL_ARG_DEVICE_PTR, ad_size = 8\<rparr>, arg_end)
                   | COREX_META_ARG_BY_VALUE \<Rightarrow> Some (\<lparr>ad_kind = COREX_REMOTE_KERNEL_ARG_BY_VALUE, ad_size = ar_size arg\<rparr>, arg_end)
                   | COREX_META_ARG_UNKNOWN \<Rightarrow> None)"

fun normalize_args :: "CorexKernelMeta \<Rightarrow> u64 option \<Rightarrow> CorexArgMeta list \<Rightarrow> corexRemoteKernelArgDesc list option" where
  "normalize_args meta prior_end [] = Some []"
| "normalize_args meta prior_end (arg # args) =
     (case normalize_arg meta prior_end arg of
        None \<Rightarrow> None
      | Some (d, e) \<Rightarrow> map_option (Cons d) (normalize_args meta (Some e) args))"

text \<open>
  What the metadata of the image says of the kernel, or the error; the parser never reads outside the
  image. The size of the block it fills is not part of the model.
\<close>

definition kernel_abi :: "system \<Rightarrow> bytes \<Rightarrow> bytes \<Rightarrow> client \<Rightarrow> corexRemoteKernelArgDesc list result" where
  "kernel_abi sys img device_name c =
     (let (ok, c) = client_malloc sys 0 c
      in if \<not> ok then (Inl cudaErrorMemoryAllocation, c)
         else case corex_parse_metadata img of
                Ok mm \<Rightarrow>
                  (case corex_find_kernel_meta mm device_name of
                     None \<Rightarrow> (Inl cudaErrorInvalidValue, c)
                   | Some meta \<Rightarrow>
                       if unat (km_argc meta) > G6D_MAX_KERNEL_ARGS then (Inl cudaErrorNotSupported, c)
                       else (case normalize_args meta None (take (unat (km_argc meta)) (km_args meta)) of
                               None \<Rightarrow> (Inl cudaErrorNotSupported, c)
                             | Some descs \<Rightarrow> (Inr descs, c)))
              | _ \<Rightarrow> (Inl cudaErrorInvalidValue, c))"

text \<open>The image is given as its bytes, empty when the registration has none.\<close>

definition g7e_attach_compiler_abi_from_metadata :: "system \<Rightarrow> bytes \<Rightarrow> nat \<Rightarrow> bytes \<Rightarrow> client \<Rightarrow> unit result" where
  "g7e_attach_compiler_abi_from_metadata sys img kh device_name c =
     (let failed = upd_kernel kh (\<lambda>h. h\<lparr>kh_abi_state := G7D_ABI_FAILED\<rparr>)
      in if img = [] then (Inl cudaErrorInvalidValue, failed c)
         else if kh_abi_state (g_kernel_handles c ! kh) = G7D_ABI_READY then (Inr (), c)
         else case kernel_abi sys img device_name c of
                (Inl e, c) \<Rightarrow> (Inl e, failed c)
              | (Inr descs, c) \<Rightarrow> (Inr (), upd_kernel kh (\<lambda>h. h\<lparr>kh_args := descs, kh_abi_state := G7D_ABI_READY\<rparr>) c))"

definition registered_image :: "G7CFatbinRegistration \<Rightarrow> client \<Rightarrow> bytes" where
  "registered_image reg c = (if rg_image_ptr reg = 0 then [] else host_load (rg_image_ptr reg) (unat (rg_image_size reg)) c)"

section \<open>Registration by compiled code\<close>

text \<open>The hooks leave the error state of the application as it was.\<close>

definition g7c_restore_hidden_error_state :: "client \<Rightarrow> client \<Rightarrow> client" where
  "g7c_restore_hidden_error_state snapshot c = c\<lparr>g_last_error := g_last_error snapshot,
     g_last_remote_status := g_last_remote_status snapshot, g_last_rpc_transport_error := g_last_rpc_transport_error snapshot\<rparr>"

definition hidden :: "(client \<Rightarrow> 'a result) \<Rightarrow> client \<Rightarrow> 'a result" where
  "hidden f c = (case f c of (r, c') \<Rightarrow> (r, g7c_restore_hidden_error_state c c'))"

text \<open>The runtime without recording its error once more.\<close>

definition if_runtime :: "system \<Rightarrow> (client \<Rightarrow> 'a result) \<Rightarrow> client \<Rightarrow> 'a result" where
  "if_runtime sys f c = (case ensure_runtime_locked sys c of (init, c) \<Rightarrow> if init \<noteq> cudaSuccess then (Inl init, c) else f c)"

definition g7c_hidden_module_load_bytes :: "system \<Rightarrow> bytes \<Rightarrow> bytes \<Rightarrow> client \<Rightarrow> nat result" where
  "g7c_hidden_module_load_bytes sys wire_name img c = hidden (if_runtime sys (module_load_bytes_after_runtime sys wire_name img)) c"

definition g7c_hidden_module_unload :: "system \<Rightarrow> nat option \<Rightarrow> client \<Rightarrow> unit result" where
  "g7c_hidden_module_unload sys module c = hidden (module_unload_after_runtime sys module) c"

definition upd_registration :: "nat \<Rightarrow> (G7CFatbinRegistration \<Rightarrow> G7CFatbinRegistration) \<Rightarrow> client \<Rightarrow> client" where
  "upd_registration i f c = c\<lparr>g_registrations := (g_registrations c)[i := f (g_registrations c ! i)]\<rparr>"

fun decimal :: "nat \<Rightarrow> string" where
  "decimal n = (if n < 10 then [char_of (n + 48)] else decimal (n div 10) @ [char_of (n mod 10 + 48)])"

declare decimal.simps [simp del]

definition auto_module_name :: "u64 \<Rightarrow> bytes" where
  "auto_module_name generation = cstr (''g7c-auto-'' @ decimal (unat generation) @ ''.cubin'')"

definition registration_failed :: "nat \<Rightarrow> cudaError_t \<Rightarrow> int \<Rightarrow> client \<Rightarrow> nat option \<times> client" where
  "registration_failed i e rc c =
     (Some i, upd_registration i (\<lambda>r. r\<lparr>rg_state := G7C_REG_FAILED, rg_registration_error := e,
        rg_extraction_error := rc\<rparr>) c)"

text \<open>
  \<open>objects\<close> is what the dynamic loader reports. The handle returned is the position of the
  registration, also of one that failed; \<^const>\<open>None\<close> is null, when the table is full.
\<close>

definition cudaRegisterFatBinary_locked :: "system \<Rightarrow> dl_object list \<Rightarrow> u64 \<Rightarrow> client \<Rightarrow> nat option \<times> client" where
  "cudaRegisterFatBinary_locked sys objects fatCubin c =
     (if g_registration_next c \<ge> G7C_MAX_FATBIN_REGISTRATIONS then (None, c)
      else let i = g_registration_next c; generation = g_registration_generation_next c;
               c = c\<lparr>g_registrations := (g_registrations c)[i := zero_registration\<lparr>rg_cookie := G7C_REG_COOKIE,
                       rg_generation := generation, rg_state := G7C_REG_REGISTERING, rg_compiler_wrapper := fatCubin\<rparr>],
                     g_registration_next := i + 1, g_registration_generation_next := generation + 1\<rparr>
           in case corex_image_from_compiler_wrapper objects (segment_memory objects (host c)) fatCubin of
                Ok (Inr im) \<Rightarrow>
                  let c = upd_registration i (\<lambda>r. r\<lparr>rg_fatbin_ptr := li_fatbin_bytes im, rg_fatbin_size := of_nat (li_fatbin_size im),
                            rg_image_ptr := li_image_bytes im, rg_image_size := of_nat (li_image_size im),
                            rg_image_offset := of_nat (li_image_offset im)\<rparr>) c;
                      wire_name = auto_module_name generation
                  in if wire_name = [] \<or> length wire_name \<ge> 96 then registration_failed i cudaErrorInvalidValue 0 c
                     else (case g7c_hidden_module_load_bytes sys wire_name (host_load (li_image_bytes im) (li_image_size im) c) c of
                             (Inl e, c) \<Rightarrow> registration_failed i e 0 c
                           | (Inr m, c) \<Rightarrow>
                               let c = upd_registration i (\<lambda>r. r\<lparr>rg_remote_module := Some m\<rparr>) c
                               in case resolve_module_handle (Some m) c of
                                    None \<Rightarrow> registration_failed i cudaErrorUnknown 0 c
                                  | Some m \<Rightarrow>
                                      (Some i, upd_registration i (\<lambda>r. r\<lparr>rg_module_id_snapshot := mh_module_id (g_module_handles c ! m),
                                         rg_session_generation := g_active_session_generation c, rg_state := G7C_REG_REMOTE_READY\<rparr>) c))
              | Ok (Inl rc) \<Rightarrow> registration_failed i cudaErrorInvalidValue rc c
              | _ \<Rightarrow> registration_failed i cudaErrorInvalidValue 0 c)"

definition find_registered_symbol :: "u64 \<Rightarrow> client \<Rightarrow> nat option" where
  "find_registered_symbol symbol c =
     (if symbol = 0 then None
      else find (\<lambda>i. let a = g_allocs c ! i in current_alloc c a \<and> va_parent_module_id a \<noteq> 0 \<and> va_host_symbol a = symbol)
        [0..<length (g_allocs c)])"

text \<open>
  A variable of the program gets an address of the arena like an allocation, but its storage belongs
  to the module. The table of registrations is only read.
\<close>

definition register_symbol :: "system \<Rightarrow> u64 \<Rightarrow> u64 \<Rightarrow> bytes \<Rightarrow> u64 \<Rightarrow> client \<Rightarrow> unit result" where
  "register_symbol sys module_id host_var device_name bytes c =
     if_runtime sys (\<lambda>c. case (find_free_slot c, arena_span bytes c) of
         (Some slot, Some span) \<Rightarrow>
           result_bind (call_else cudaErrorInvalidSymbol (corex_generated_call_cudaGetSymbolAddress (generated_rpc_call sys)
               (module_id, carray device_name) c)) (\<lambda>(allocation, sz) c.
             if allocation = 0 \<or> sz \<noteq> bytes then (Inl cudaErrorInvalidSymbol, c)
             else (Inr (), put_alloc slot (zero_virtual_allocation\<lparr>va_live := True,
                 va_session_generation := g_active_session_generation c, va_virtual_base := g_va_arena c + g_va_next c, va_size := bytes,
                 va_allocation_id := allocation, va_parent_module_id := module_id, va_host_symbol := host_var,
                 va_layout_kind := COREX_LAYOUT_LINEAR, va_logical_width_bytes := bytes, va_logical_height := 1, va_logical_depth := 1,
                 va_pitch := bytes, va_slice_pitch := bytes\<rparr>) span c))
       | _ \<Rightarrow> (Inl cudaErrorMemoryAllocation, c)) c"

definition cudaRegisterVar_locked :: "system \<Rightarrow> nat option \<Rightarrow> u64 \<Rightarrow> bytes option \<Rightarrow> u64 \<Rightarrow> client \<Rightarrow> client" where
  "cudaRegisterVar_locked sys handle host_var device_name bytes c =
     (case (g7c_resolve_registration handle c, device_name) of
        (Some r, Some name) \<Rightarrow>
          let reg = g_registrations c ! r
          in if (rg_state reg \<noteq> G7C_REG_REMOTE_READY \<and> rg_state reg \<noteq> G7C_REG_LIVE) \<or> rg_remote_module reg = None \<or>
                host_var = 0 \<or> bytes = 0 \<or> name = [] \<or> length name > 127 \<or> find_registered_symbol host_var c \<noteq> None then c
             else snd (hidden (register_symbol sys (rg_module_id_snapshot reg) host_var name bytes) c)
      | _ \<Rightarrow> c)"

definition cudaRegisterFunction_locked :: "system \<Rightarrow> nat option \<Rightarrow> u64 \<Rightarrow> bytes option \<Rightarrow> client \<Rightarrow> client" where
  "cudaRegisterFunction_locked sys fatCubinHandle hostFun deviceName c =
     (case g7c_resolve_registration fatCubinHandle c of
        None \<Rightarrow> c
      | Some r \<Rightarrow>
          let c = upd_registration r (\<lambda>g. g\<lparr>rg_function_registration_calls := rg_function_registration_calls g + 1\<rparr>) c;
              reg = g_registrations c ! r
          in if rg_state reg \<in> {G7C_REG_FAILED, G7C_REG_UNLOAD_FAILED, G7C_REG_DEAD} \<or> rg_remote_module reg = None then c
             else if rg_state reg \<noteq> G7C_REG_REMOTE_READY \<and> rg_state reg \<noteq> G7C_REG_LIVE then c
             else (case deviceName of
                     None \<Rightarrow> c
                   | Some name \<Rightarrow>
                       if hostFun = 0 \<or> name = [] then c
                       else (case resolve_module_handle (rg_remote_module reg) c of
                               None \<Rightarrow> c
                             | Some mh \<Rightarrow>
                                 (case hidden (if_runtime sys (bind_kernel_identity_after_runtime sys mh name
                                     G7D_KERNEL_ORIGIN_COMPILER hostFun (rg_generation reg))) c of
                                    (Inl _, c) \<Rightarrow> c
                                  | (Inr kh, c) \<Rightarrow>
                                      snd (g7e_attach_compiler_abi_from_metadata sys (registered_image (g_registrations c ! r) c) kh name c)))))"

definition cudaRegisterFatBinaryEnd_locked :: "nat option \<Rightarrow> client \<Rightarrow> client" where
  "cudaRegisterFatBinaryEnd_locked fatCubinHandle c =
     (case g7c_resolve_registration fatCubinHandle c of
        None \<Rightarrow> c
      | Some r \<Rightarrow> upd_registration r (\<lambda>g. if rg_state g = G7C_REG_REMOTE_READY then g\<lparr>rg_state := G7C_REG_LIVE\<rparr> else g) c)"

text \<open>The end of one registration, for the hook of the compiler and for the end of the runtime.\<close>

definition unload_registration :: "system \<Rightarrow> nat \<Rightarrow> client \<Rightarrow> client" where
  "unload_registration sys r c =
     (let reg = g_registrations c ! r
      in if rg_state reg \<in> {G7C_REG_LIVE, G7C_REG_REMOTE_READY, G7C_REG_UNLOAD_FAILED} \<and> rg_remote_module reg \<noteq> None
         then (case g7c_hidden_module_unload sys (rg_remote_module reg) c of
                 (Inr _, c) \<Rightarrow> upd_registration r (\<lambda>g. g\<lparr>rg_remote_module := None, rg_state := G7C_REG_DEAD\<rparr>) c
               | (Inl e, c) \<Rightarrow> upd_registration r (\<lambda>g. g\<lparr>rg_registration_error := e, rg_state := G7C_REG_UNLOAD_FAILED\<rparr>) c)
         else if rg_state reg = G7C_REG_FAILED then upd_registration r (\<lambda>g. g\<lparr>rg_state := G7C_REG_DEAD\<rparr>) c else c)"

definition cudaUnregisterFatBinary_locked :: "system \<Rightarrow> nat option \<Rightarrow> client \<Rightarrow> client" where
  "cudaUnregisterFatBinary_locked sys fatCubinHandle c =
     (case g7c_resolve_registration fatCubinHandle c of None \<Rightarrow> c | Some r \<Rightarrow> unload_registration sys r c)"

definition g7c_cleanup_registrations_before_runtime_shutdown :: "system \<Rightarrow> client \<Rightarrow> client" where
  "g7c_cleanup_registrations_before_runtime_shutdown sys c =
     foldl (\<lambda>c r. if rg_cookie (g_registrations c ! r) \<noteq> G7C_REG_COOKIE then c else unload_registration sys r c)
       c [0..<g_registration_next c]"

definition g7c_finalize_registrations_after_session_close :: "client \<Rightarrow> client" where
  "g7c_finalize_registrations_after_session_close c =
     c\<lparr>g_registrations := map_upto (g_registration_next c) (\<lambda>reg.
         if rg_cookie reg = G7C_REG_COOKIE \<and> rg_remote_module reg \<noteq> None
         then reg\<lparr>rg_remote_module := None, rg_state := G7C_REG_DEAD\<rparr> else reg) (g_registrations c)\<rparr>"

section \<open>Launching a kernel\<close>

type_synonym dim3 = "u32 \<times> u32 \<times> u32"

definition zero_dim :: "dim3 \<Rightarrow> bool" where
  "zero_dim = (\<lambda>(x, y, z). x = 0 \<or> y = 0 \<or> z = 0)"

definition be_dim :: "dim3 \<Rightarrow> bytes" where
  "be_dim = (\<lambda>(x, y, z). be32 x @ be32 y @ be32 z)"

text \<open>A pointer in the memory of the process, little-endian.\<close>

definition host_pointer :: "u64 \<Rightarrow> client \<Rightarrow> u64" where
  "host_pointer p c = (case read_le64 (host_load p 8 c) 0 of Ok v \<Rightarrow> v | _ \<Rightarrow> 0)"

definition wire_arg_size :: "corexRemoteKernelArgDesc \<Rightarrow> nat" where
  "wire_arg_size a = (case ad_kind a of COREX_REMOTE_KERNEL_ARG_DEVICE_PTR \<Rightarrow> 24 | COREX_REMOTE_KERNEL_ARG_BY_VALUE \<Rightarrow> 8 + unat (ad_size a))"

text \<open>The arguments on the wire; \<open>args\<close> gives the address of each value.\<close>

fun serialize_args :: "(nat \<Rightarrow> u64) \<Rightarrow> bool \<Rightarrow> nat \<Rightarrow> corexRemoteKernelArgDesc list \<Rightarrow> client \<Rightarrow> ResolveResult + bytes" where
  "serialize_args args graph_resources i [] c = Inr []"
| "serialize_args args graph_resources i (a # descs) c =
     (case (case ad_kind a of
              COREX_REMOTE_KERNEL_ARG_DEVICE_PTR \<Rightarrow>
                (case resolve_remote_ptr_mode (host_pointer (args i) c) 1 graph_resources c of
                   Inl rr \<Rightarrow> Inl rr
                 | Inr (allocation_id, byte_offset) \<Rightarrow> Inr (be32 ARG_REMOTE_PTR @ be32 16 @ be64 allocation_id @ be64 byte_offset))
            | COREX_REMOTE_KERNEL_ARG_BY_VALUE \<Rightarrow>
                Inr (be32 ARG_RAW_VALUE @ be32 (ad_size a) @ host_load (args i) (unat (ad_size a)) c)) of
        Inl rr \<Rightarrow> Inl rr
      | Inr wire \<Rightarrow>
          (case serialize_args args graph_resources (Suc i) descs c of Inl rr \<Rightarrow> Inl rr | Inr rest \<Rightarrow> Inr (wire @ rest)))"

definition serialize_kernel_launch :: "system \<Rightarrow> kernel_ref \<Rightarrow> dim3 \<Rightarrow> dim3 \<Rightarrow> (nat \<Rightarrow> u64) option \<Rightarrow> u64 \<Rightarrow> u64 \<Rightarrow> bool \<Rightarrow>
    client \<Rightarrow> bytes result" where
  "serialize_kernel_launch sys func gridDim blockDim args sharedMem stream_id graph_resources c =
     (case resolve_kernel_reference func c of
        None \<Rightarrow> raise cudaErrorInvalidResourceHandle c
      | Some k \<Rightarrow>
          let kh = g_kernel_handles c ! k; descs = kh_args kh; argv = (case args of Some a \<Rightarrow> a | None \<Rightarrow> (\<lambda>_. 0));
              payload_len = 48 + sum_list (map wire_arg_size descs)
          in if kh_abi_state kh \<noteq> G7D_ABI_READY then raise cudaErrorNotSupported c
             else if zero_dim gridDim \<or> zero_dim blockDim \<or> sharedMem > UINT32_MAX64 then raise cudaErrorInvalidValue c
             else if descs \<noteq> [] \<and> args = None then raise cudaErrorInvalidValue c
             else if list_ex (\<lambda>i. argv i = 0) [0..<length descs] \<or> payload_len > 4294967295 then raise cudaErrorInvalidValue c
             else with_buffer sys (of_nat payload_len) (\<lambda>c.
               case serialize_args argv graph_resources 0 descs c of
                 Inl rr \<Rightarrow> raise (map_resolve_error rr) c
               | Inr wire \<Rightarrow>
                   let payload = be64 (kh_kernel_id kh) @ be64 stream_id @ be_dim gridDim @ be_dim blockDim @
                         be32 (ucast sharedMem) @ be32 (of_nat (length descs)) @ wire
                   in if length payload \<noteq> payload_len then raise cudaErrorUnknown c else (Inr payload, c)) c)"

text \<open>The node of a captured launch: its bytes, and the storage of the arguments, each in a 16-byte aligned cell.\<close>

abbreviation (input) CRX_GRAPH_PARAM_BYTES :: nat where "CRX_GRAPH_PARAM_BYTES \<equiv> 4096"

definition arg_cell :: "corexRemoteKernelArgDesc \<Rightarrow> nat" where
  "arg_cell a = unat ((ad_size a + 15) AND NOT 15)"

definition arg_cells :: "(nat \<Rightarrow> u64) \<Rightarrow> corexRemoteKernelArgDesc list \<Rightarrow> client \<Rightarrow> bytes" where
  "arg_cells argv descs c = concat (map (\<lambda>(i, a). fit (arg_cell a) (host_load (argv i) (unat (ad_size a)) c)) (enumerate 0 descs))"

definition graph_params_kernel :: "system \<Rightarrow> kernel_ref \<Rightarrow> dim3 \<Rightarrow> dim3 \<Rightarrow> (nat \<Rightarrow> u64) option \<Rightarrow> u32 \<Rightarrow> client \<Rightarrow> node_params result" where
  "graph_params_kernel sys func gridDim blockDim args sharedMemBytes c =
     result_bind (serialize_kernel_launch sys func gridDim blockDim args (ucast sharedMemBytes) 0 True c) (\<lambda>wire c.
       if length wire > CRX_GRAPH_PARAM_BYTES then (Inl cudaErrorNotSupported, c)
       else let descs = (case resolve_kernel_reference func c of Some k \<Rightarrow> kh_args (g_kernel_handles c ! k) | None \<Rightarrow> []);
                bytes = sum_list (map arg_cell descs);
                (ok, c) = client_malloc sys (if bytes \<noteq> 0 then of_nat bytes else 1) c
            in if \<not> ok then (Inl cudaErrorMemoryAllocation, c)
               else (Inr (wire, Some (arg_cells (case args of Some a \<Rightarrow> a | None \<Rightarrow> (\<lambda>_. 0)) descs c)), c))"

definition cudaLaunchKernel_locked :: "system \<Rightarrow> kernel_ref \<Rightarrow> dim3 \<Rightarrow> dim3 \<Rightarrow> (nat \<Rightarrow> u64) option \<Rightarrow> u64 \<Rightarrow> nat option \<Rightarrow>
    client \<Rightarrow> unit result" where
  "cudaLaunchKernel_locked sys func gridDim blockDim args sharedMem stream c =
     (if capture_active_locked c
      then if sharedMem > UINT32_MAX64 then capture_reject_locked c
           else capture_submit_locked sys stream cudaGraphNodeTypeKernel
                  (graph_params_kernel sys func gridDim blockDim args (ucast sharedMem)) c
      else with_runtime sys (with_stream stream (\<lambda>sv c.
        result_bind (serialize_kernel_launch sys func gridDim blockDim args sharedMem (sv_stream_id sv) False c) (\<lambda>payload c.
          call_or cudaErrorUnknown (discard (rpc sys OP_LAUNCH_GENERIC payload c))))) c)"

section \<open>The end of the runtime\<close>

definition corexRemoteDebugLiveTransfers_locked :: "client \<Rightarrow> nat" where
  "corexRemoteDebugLiveTransfers_locked c = live_hidden_transfer_count c"

text \<open>What is left of the tables: tombstones. The arena and its cursor stay.\<close>

definition close_streams :: "client \<Rightarrow> client" where
  "close_streams c = c\<lparr>
     g_stream_handles := map_upto (g_stream_handle_next c) (\<lambda>h. h\<lparr>sh_frontier := None, sh_live := False, sh_stream_id := 0\<rparr>) (g_stream_handles c),
     g_event_handles := map_upto (g_event_handle_next c)
       (\<lambda>h. h\<lparr>eh_frontier := None, eh_live := False, eh_event_id := 0, eh_recorded := False\<rparr>) (g_event_handles c),
     g_module_handles := map_upto (g_module_handle_next c)
       (\<lambda>h. h\<lparr>mh_library_image := None, mh_live := False, mh_module_id := 0\<rparr>) (g_module_handles c),
     g_kernel_handles := map_upto (g_kernel_handle_next c)
       (\<lambda>h. h\<lparr>kh_live := False, kh_kernel_id := 0, kh_module_id := 0\<rparr>) (g_kernel_handles c)\<rparr>"

definition close_tables :: "client \<Rightarrow> client" where
  "close_tables c = c\<lparr>g_default_frontier := None, g_default_next_transfer_seq := 0,
     g_allocs := replicate G6A_MAX_ALLOCS zero_virtual_allocation,
     g_pool_handles := map_upto (g_pool_handle_next c) (\<lambda>p. p\<lparr>ph_live := False\<rparr>) (g_pool_handles c),
     g_hidden_transfers := replicate G6C_MAX_HIDDEN_TRANSFERS zero_hidden_transfer, g_transfer_submit_order := 0,
     g_active_session_generation := 0, g_lifecycle := COREX_RUNTIME_DISCONNECTED,
     g_hello_state := COREX_HELLO_UNDETERMINED, g_hello := zero_hello\<rparr>"

text \<open>The descriptor is closed even when the last call has already closed it.\<close>

definition close_connection :: "system \<Rightarrow> client \<Rightarrow> client" where
  "close_connection sys c =
     (if g_fd c \<ge> 0
      then let c = snd (rpc sys OP_CLOSE [] c) in (snd (syscall sys (Sys_close (g_fd c)) c))\<lparr>g_fd := - 1\<rparr>
      else c)"

definition corexRemoteRuntimeShutdown_locked :: "system \<Rightarrow> client \<Rightarrow> client" where
  "corexRemoteRuntimeShutdown_locked sys c =
     (let c = invalidate_client_graphs c
      in if g_lifecycle c \<noteq> COREX_RUNTIME_ACTIVE \<or> g_fd c < 0
         then c\<lparr>g_lifecycle := COREX_RUNTIME_DISCONNECTED, g_active_session_generation := 0\<rparr>
         else let c = c\<lparr>g_lifecycle := COREX_RUNTIME_SHUTTING_DOWN\<rparr>;
                  c = g7c_cleanup_registrations_before_runtime_shutdown sys c;
                  c = close_connection sys (close_streams c)
              in close_tables (g7c_finalize_registrations_after_session_close c))"

end
