(* ===== verification/Client_Safety.thy ===== *)
theory Client_Safety
  imports Client_Kernels
begin

text \<open>
  What holds of the client whatever the application calls and whatever the network does. The
  invariant: every live entry of a table belongs to the session in use, and every live allocation has
  a span of the arena of its own, with a guard behind it. The lineage of two states: an entry that is
  live in the later one was live, and the same, in the earlier one, unless it was made in between; an
  address below the cursor of the arena is never given to another allocation. The entry points are
  the steps of a transition relation, and each keeps the invariant and the lineage.
\<close>

section \<open>Tables\<close>

text \<open>An entry of a table: whether it can be resolved, its session and its identifier.\<close>

type_synonym entry = "bool \<times> u64 \<times> u64"

definition stream_entry :: "corexCudaStreamHandle \<Rightarrow> entry" where
  "stream_entry h = (sh_cookie h = G6C_STREAM_COOKIE \<and> sh_live h, sh_session_generation h, sh_stream_id h)"

definition event_entry :: "corexCudaEventHandle \<Rightarrow> entry" where
  "event_entry h = (eh_cookie h = G6C_EVENT_COOKIE \<and> eh_live h, eh_session_generation h, eh_event_id h)"

definition module_entry :: "corexRemoteModuleHandle \<Rightarrow> entry" where
  "module_entry h = (mh_cookie h = G6D_MODULE_COOKIE \<and> mh_live h, mh_session_generation h, mh_module_id h)"

definition kernel_entry_of :: "corexRemoteKernelHandle \<Rightarrow> entry" where
  "kernel_entry_of h = (kh_cookie h = G6D_KERNEL_COOKIE \<and> kh_live h, kh_session_generation h, kh_kernel_id h)"

definition pool_entry :: "corexCudaPoolHandle \<Rightarrow> entry" where
  "pool_entry h = (ph_live h, ph_session_generation h, ph_pool_id h)"

lemmas entry_defs = stream_entry_def event_entry_def module_entry_def kernel_entry_of_def pool_entry_def

definition tables :: "client \<Rightarrow> entry list list" where
  "tables c =
     [map stream_entry (take (g_stream_handle_next c) (g_stream_handles c)),
      map event_entry (take (g_event_handle_next c) (g_event_handles c)),
      map module_entry (take (g_module_handle_next c) (g_module_handles c)),
      map kernel_entry_of (take (g_kernel_handle_next c) (g_kernel_handles c)),
      map pool_entry (take (g_pool_handle_next c) (g_pool_handles c))]"

text \<open>How many entries each table has and how many are in use.\<close>

definition sizes :: "client \<Rightarrow> (nat \<times> nat) list" where
  "sizes c =
     [(g_stream_handle_next c, length (g_stream_handles c)), (g_event_handle_next c, length (g_event_handles c)),
      (g_module_handle_next c, length (g_module_handles c)), (g_kernel_handle_next c, length (g_kernel_handles c)),
      (g_pool_handle_next c, length (g_pool_handles c))]"

definition of_session :: "u64 \<Rightarrow> entry \<Rightarrow> bool" where
  "of_session active = (\<lambda>(live, generation, _). live \<longrightarrow> generation = active \<and> active \<noteq> 0)"

definition descends :: "entry list \<Rightarrow> entry list \<Rightarrow> bool" where
  "descends es es' \<longleftrightarrow> length es \<le> length es' \<and> (\<forall>i < length es. fst (es' ! i) \<longrightarrow> es ! i = es' ! i)"

lemma descends_refl [simp]: "descends es es"
  by (simp add: descends_def)

lemma descends_trans: "descends a b \<Longrightarrow> descends b c \<Longrightarrow> descends a c"
  by (auto simp: descends_def)

section \<open>The arena\<close>

definition span_of :: "VirtualAllocation \<Rightarrow> nat \<times> nat" where
  "span_of a = (unat (va_virtual_base a), unat (va_virtual_base a) + unat (va_size a))"

text \<open>The address where the next span starts.\<close>

definition cursor :: "client \<Rightarrow> nat" where
  "cursor c = unat (g_va_arena c) + unat (g_va_next c)"

definition apart :: "VirtualAllocation \<Rightarrow> VirtualAllocation \<Rightarrow> bool" where
  "apart a b \<longleftrightarrow> snd (span_of a) + 65536 \<le> fst (span_of b) \<or> snd (span_of b) + 65536 \<le> fst (span_of a)"

definition arena_inv :: "client \<Rightarrow> bool" where
  "arena_inv c \<longleftrightarrow>
     length (g_allocs c) = G6A_MAX_ALLOCS \<and> unat (g_va_next c) \<le> 2 ^ 36 \<and>
     (if g_va_arena c = 0 then g_va_next c = 0 \<and> g_active_session_generation c = 0 else unat (g_va_arena c) + 2 ^ 36 \<le> 2 ^ 64) \<and>
     (\<forall>a \<in> set (g_allocs c). va_live a \<longrightarrow>
        va_session_generation a = g_active_session_generation c \<and> g_active_session_generation c \<noteq> 0 \<and> unat (g_va_arena c) \<le> fst (span_of a) \<and> snd (span_of a) + 65536 \<le> cursor c) \<and>
     (\<forall>i < length (g_allocs c). \<forall>j < length (g_allocs c). i \<noteq> j \<longrightarrow>
        va_live (g_allocs c ! i) \<longrightarrow> va_live (g_allocs c ! j) \<longrightarrow> apart (g_allocs c ! i) (g_allocs c ! j))"

definition alloc_key :: "VirtualAllocation \<Rightarrow> u64 \<times> u64 \<times> u64" where
  "alloc_key a = (va_virtual_base a, va_size a, va_allocation_id a)"

text \<open>Every live allocation of the later state is one of the earlier state or lies behind its cursor.\<close>

definition allocs_descend :: "client \<Rightarrow> client \<Rightarrow> bool" where
  "allocs_descend c c' \<longleftrightarrow> cursor c \<le> cursor c' \<and>
     (\<forall>a' \<in> set (g_allocs c'). va_live a' \<longrightarrow>
        (\<exists>a \<in> set (g_allocs c). va_live a \<and> alloc_key a = alloc_key a') \<or> cursor c \<le> fst (span_of a'))"

lemma span_of_key: "alloc_key a = alloc_key b \<Longrightarrow> span_of a = span_of b"
  by (simp add: alloc_key_def span_of_def)

lemma allocs_descend_trans:
  assumes "allocs_descend a b" "allocs_descend b c"
  shows "allocs_descend a c"
proof -
  have "(\<exists>x \<in> set (g_allocs a). va_live x \<and> alloc_key x = alloc_key z) \<or> cursor a \<le> fst (span_of z)"
    if z: "z \<in> set (g_allocs c)" "va_live z" for z
  proof -
    consider y where "y \<in> set (g_allocs b)" "va_live y" "alloc_key y = alloc_key z" | "cursor b \<le> fst (span_of z)"
      using assms(2) z by (auto simp: allocs_descend_def)
    then show ?thesis
    proof cases
      case 1
      then show ?thesis using assms(1) span_of_key [OF 1(3)] by (force simp: allocs_descend_def)
    next
      case 2
      then show ?thesis using assms(1) by (auto simp: allocs_descend_def)
    qed
  qed
  then show ?thesis using assms by (auto simp: allocs_descend_def)
qed

section \<open>The invariant and the lineage\<close>

text \<open>A session is in use exactly while the runtime is active; the end of the runtime closes it on the way.\<close>

definition session_inv_of :: "client \<Rightarrow> bool" where
  "session_inv_of c \<longleftrightarrow>
     (if g_lifecycle c = COREX_RUNTIME_ACTIVE then g_fd c \<ge> 0 \<and> g_active_session_generation c \<noteq> 0
      else g_lifecycle c = COREX_RUNTIME_SHUTTING_DOWN \<or> g_active_session_generation c = 0)"

definition client_inv :: "client \<Rightarrow> bool" where
  "client_inv c \<longleftrightarrow> session_inv_of c \<and>
     map snd (sizes c) = [G6C_MAX_STREAM_HANDLES, G6C_MAX_EVENT_HANDLES, G6D_MAX_MODULE_HANDLES, G6D_MAX_KERNEL_HANDLES, COREX_MAX_POOL_HANDLES] \<and>
     (\<forall>(n, len) \<in> set (sizes c). n \<le> len) \<and>
     (\<forall>t \<in> set (tables c). \<forall>e \<in> set t. of_session (g_active_session_generation c) e) \<and>
     arena_inv c"

definition lineage :: "client \<Rightarrow> client \<Rightarrow> bool" where
  "lineage c c' \<longleftrightarrow> list_all2 descends (tables c) (tables c') \<and> allocs_descend c c'"

text \<open>
  The one thing asked of the operating system: memory it maps is an interval of addresses that does
  not contain null.
\<close>

definition maps_memory :: "system \<Rightarrow> bool" where
  "maps_memory sys \<longleftrightarrow> (\<forall>h n. so_ok (sys h (Sys_mmap n)) \<longrightarrow>
     so_value (sys h (Sys_mmap n)) \<noteq> 0 \<and> unat (so_value (sys h (Sys_mmap n))) + unat n \<le> 2 ^ 64)"

definition safe_step :: "system \<Rightarrow> client \<Rightarrow> client \<Rightarrow> bool" where
  "safe_step sys c c' \<longleftrightarrow> (maps_memory sys \<longrightarrow> client_inv c \<longrightarrow> client_inv c' \<and> lineage c c')"

lemma lineage_refl [simp]: "lineage c c"
  by (auto simp: lineage_def allocs_descend_def tables_def)

lemma lineage_trans: "lineage a b \<Longrightarrow> lineage b c \<Longrightarrow> lineage a c"
  by (auto simp: lineage_def intro: allocs_descend_trans list_all2_trans [OF descends_trans])

lemma safe_refl [simp]: "safe_step sys c c"
  by (simp add: safe_step_def)

lemma safe_trans: "safe_step sys a b \<Longrightarrow> safe_step sys b c \<Longrightarrow> safe_step sys a c"
  by (auto simp: safe_step_def intro: lineage_trans)

section \<open>Steps that only remove\<close>

text \<open>Nothing changes that the invariant or the lineage sees.\<close>

definition same :: "client \<Rightarrow> client \<Rightarrow> bool" where
  "same c c' \<longleftrightarrow> g_lifecycle c' = g_lifecycle c \<and> g_fd c' = g_fd c \<and> g_active_session_generation c' = g_active_session_generation c \<and>
     g_va_arena c' = g_va_arena c \<and> g_va_next c' = g_va_next c \<and> g_allocs c' = g_allocs c \<and> tables c' = tables c \<and> sizes c' = sizes c"

text \<open>Entries and allocations may die, nothing else changes.\<close>

definition dies :: "entry \<Rightarrow> entry \<Rightarrow> bool" where
  "dies e e' \<longleftrightarrow> fst e' \<longrightarrow> e' = e"

definition alloc_dies :: "VirtualAllocation \<Rightarrow> VirtualAllocation \<Rightarrow> bool" where
  "alloc_dies a a' \<longleftrightarrow> va_live a' \<longrightarrow> va_live a \<and> alloc_key a' = alloc_key a \<and> va_session_generation a' = va_session_generation a"

definition retires :: "client \<Rightarrow> client \<Rightarrow> bool" where
  "retires c c' \<longleftrightarrow> g_lifecycle c' = g_lifecycle c \<and> g_fd c' = g_fd c \<and> g_active_session_generation c' = g_active_session_generation c \<and>
     g_va_arena c' = g_va_arena c \<and> g_va_next c' = g_va_next c \<and> list_all2 alloc_dies (g_allocs c) (g_allocs c') \<and>
     list_all2 (list_all2 dies) (tables c) (tables c') \<and> sizes c' = sizes c"

lemma alloc_dies_refl [simp]: "alloc_dies a a"
  by (simp add: alloc_dies_def)

lemma alloc_diesD:
  "alloc_dies a a' \<Longrightarrow> va_live a' \<Longrightarrow> va_live a \<and> span_of a' = span_of a \<and> va_session_generation a' = va_session_generation a"
  by (simp add: alloc_dies_def alloc_key_def span_of_def)

lemma dies_refl [simp]: "dies e e"
  by (simp add: dies_def)

lemma same_retires: "same c c' \<Longrightarrow> retires c c'"
  by (auto simp: same_def retires_def intro!: list.rel_refl)

lemma of_session_dies: "of_session g e \<Longrightarrow> dies e e' \<Longrightarrow> of_session g e'"
  by (auto simp: of_session_def dies_def)

lemma list_all2_set2: "list_all2 P xs ys \<Longrightarrow> y \<in> set ys \<Longrightarrow> \<exists>x \<in> set xs. P x y"
  by (induction rule: list_all2_induct) auto

lemma descends_dies: "list_all2 dies es es' \<Longrightarrow> descends es es'"
  by (auto simp: descends_def dies_def list_all2_conv_all_nth)

lemma tables_of_session:
  assumes "list_all2 (list_all2 dies) ts ts'" "\<forall>t \<in> set ts. \<forall>e \<in> set t. of_session g e"
  shows "\<forall>t \<in> set ts'. \<forall>e \<in> set t. of_session g e"
proof (intro ballI)
  fix t' e' assume t': "t' \<in> set ts'" and e': "e' \<in> set t'"
  obtain t where t: "t \<in> set ts" "list_all2 dies t t'" using list_all2_set2 [OF assms(1) t'] by blast
  obtain e where e: "e \<in> set t" "dies e e'" using list_all2_set2 [OF t(2) e'] by blast
  show "of_session g e'" using assms(2) t(1) e by (blast intro: of_session_dies)
qed

lemma arena_inv_retires:
  assumes "arena_inv c" "list_all2 alloc_dies (g_allocs c) (g_allocs c')" "g_va_arena c' = g_va_arena c" "g_va_next c' = g_va_next c"
    "g_active_session_generation c' = g_active_session_generation c"
  shows "arena_inv c'"
proof -
  have n: "length (g_allocs c') = length (g_allocs c)" using assms(2) by (simp add: list_all2_lengthD)
  have d: "alloc_dies (g_allocs c ! i) (g_allocs c' ! i)" if "i < length (g_allocs c)" for i
    using assms(2) that by (simp add: list_all2_conv_all_nth)
  have k: "va_live (g_allocs c' ! i) \<Longrightarrow> va_live (g_allocs c ! i) \<and> span_of (g_allocs c' ! i) = span_of (g_allocs c ! i) \<and>
      va_session_generation (g_allocs c' ! i) = va_session_generation (g_allocs c ! i)" if "i < length (g_allocs c)" for i
    using alloc_diesD [OF d [OF that]] .
  have live: "va_session_generation a' = g_active_session_generation c' \<and> g_active_session_generation c' \<noteq> 0 \<and>
      unat (g_va_arena c') \<le> fst (span_of a') \<and> snd (span_of a') + 65536 \<le> cursor c'" if a': "a' \<in> set (g_allocs c')" "va_live a'" for a'
  proof -
    obtain a where a: "a \<in> set (g_allocs c)" "alloc_dies a a'" using list_all2_set2 [OF assms(2) a'(1)] by blast
    then show ?thesis using alloc_diesD [OF a(2) a'(2)] assms(1) a(1) unfolding arena_inv_def cursor_def assms(3,4,5) by simp
  qed
  have "apart (g_allocs c' ! i) (g_allocs c' ! j)"
    if "i < length (g_allocs c)" "j < length (g_allocs c)" "i \<noteq> j" "va_live (g_allocs c' ! i)" "va_live (g_allocs c' ! j)" for i j
    using assms(1) k [OF that(1,4)] k [OF that(2,5)] that(1-3) unfolding arena_inv_def apart_def by simp
  moreover have "length (g_allocs c') = G6A_MAX_ALLOCS \<and> unat (g_va_next c') \<le> 2 ^ 36 \<and>
     (if g_va_arena c' = 0 then g_va_next c' = 0 \<and> g_active_session_generation c' = 0 else unat (g_va_arena c') + 2 ^ 36 \<le> 2 ^ 64)"
    using assms(1) unfolding n assms(3,4,5) arena_inv_def by blast
  ultimately show ?thesis using live unfolding arena_inv_def n by blast
qed

lemma session_inv_cong:
  "g_lifecycle c' = g_lifecycle c \<Longrightarrow> g_fd c' = g_fd c \<Longrightarrow> g_active_session_generation c' = g_active_session_generation c \<Longrightarrow>
   session_inv_of c' = session_inv_of c"
  by (simp only: session_inv_of_def)

lemma safe_retires:
  assumes "retires c c'"
  shows "safe_step sys c c'"
proof -
  have "cursor c = cursor c'" using assms by (simp add: cursor_def retires_def)
  moreover have "\<exists>a \<in> set (g_allocs c). va_live a \<and> alloc_key a = alloc_key a'" if "a' \<in> set (g_allocs c')" "va_live a'" for a'
    using assms that by (auto simp: retires_def alloc_dies_def dest!: list_all2_set2)
  ultimately have l: "lineage c c'"
    using assms by (auto simp: lineage_def allocs_descend_def retires_def intro: list_all2_mono descends_dies)
  have "client_inv c'" if "client_inv c"
    using that assms tables_of_session [of "tables c" "tables c'"] arena_inv_retires [of c c'] session_inv_cong [of c' c]
    by (simp add: client_inv_def retires_def)
  with l show ?thesis by (simp add: safe_step_def)
qed

lemma safe_same: "same c c' \<Longrightarrow> safe_step sys c c'"
  by (intro safe_retires same_retires)

section \<open>The end of a session\<close>

text \<open>No session is in use and nothing is live any more.\<close>

definition closed :: "client \<Rightarrow> client \<Rightarrow> bool" where
  "closed c c' \<longleftrightarrow> g_lifecycle c' \<noteq> COREX_RUNTIME_ACTIVE \<and> g_active_session_generation c' = 0 \<and>
     g_va_arena c' = g_va_arena c \<and> g_va_next c' = g_va_next c \<and> length (g_allocs c') = G6A_MAX_ALLOCS \<and>
     (\<forall>a \<in> set (g_allocs c'). \<not> va_live a) \<and>
     list_all2 (\<lambda>t t'. length t' = length t \<and> (\<forall>e \<in> set t'. \<not> fst e)) (tables c) (tables c') \<and> sizes c' = sizes c"

lemma safe_closed:
  assumes "client_inv c \<Longrightarrow> closed c c'"
  shows "safe_step sys c c'"
proof -
  have "client_inv c' \<and> lineage c c'" if inv: "client_inv c"
  proof -
    have cl: "closed c c'" using assms inv .
    have "\<forall>t' \<in> set (tables c'). \<forall>e \<in> set t'. of_session g e" for g
      using cl by (fastforce simp: closed_def of_session_def dest: list_all2_set2)
    moreover have "arena_inv c'" using inv cl by (auto simp: client_inv_def arena_inv_def closed_def)
    moreover have "session_inv_of c'" using cl by (auto simp: closed_def session_inv_of_def)
    ultimately have i: "client_inv c'" using inv cl by (simp add: client_inv_def closed_def)
    have "list_all2 descends (tables c) (tables c')"
      using cl unfolding closed_def by (auto elim!: list_all2_mono simp: descends_def)
    then have "lineage c c'" using cl by (auto simp: lineage_def closed_def allocs_descend_def cursor_def)
    with i show ?thesis ..
  qed
  then show ?thesis by (simp add: safe_step_def)
qed

lemma take_map_upto: "n \<le> length xs \<Longrightarrow> take n (map_upto n f xs) = map f (take n xs)"
  by (simp add: map_upto_def)

lemma length_map_upto [simp]: "length (map_upto n f xs) = length xs"
  by (simp add: map_upto_def)

lemma inv_sizes:
  assumes "client_inv c"
  shows "g_stream_handle_next c \<le> length (g_stream_handles c)" "g_event_handle_next c \<le> length (g_event_handles c)"
    "g_module_handle_next c \<le> length (g_module_handles c)" "g_kernel_handle_next c \<le> length (g_kernel_handles c)"
    "g_pool_handle_next c \<le> length (g_pool_handles c)" "length (g_stream_handles c) = G6C_MAX_STREAM_HANDLES"
    "length (g_event_handles c) = G6C_MAX_EVENT_HANDLES" "length (g_module_handles c) = G6D_MAX_MODULE_HANDLES"
    "length (g_kernel_handles c) = G6D_MAX_KERNEL_HANDLES" "length (g_pool_handles c) = COREX_MAX_POOL_HANDLES"
  using assms by (simp_all add: client_inv_def sizes_def)

lemma inv_entries:
  assumes "client_inv c"
  shows "h \<in> set (take (g_stream_handle_next c) (g_stream_handles c)) \<Longrightarrow> of_session (g_active_session_generation c) (stream_entry h)"
    "e \<in> set (take (g_event_handle_next c) (g_event_handles c)) \<Longrightarrow> of_session (g_active_session_generation c) (event_entry e)"
    "m \<in> set (take (g_module_handle_next c) (g_module_handles c)) \<Longrightarrow> of_session (g_active_session_generation c) (module_entry m)"
    "k \<in> set (take (g_kernel_handle_next c) (g_kernel_handles c)) \<Longrightarrow> of_session (g_active_session_generation c) (kernel_entry_of k)"
  using assms by (simp_all add: client_inv_def tables_def)

lemma failed_fields [simp]:
  "g_lifecycle (mark_session_failed_locked sys c) = COREX_RUNTIME_FAILED" "g_active_session_generation (mark_session_failed_locked sys c) = 0"
  "g_va_arena (mark_session_failed_locked sys c) = g_va_arena c" "g_va_next (mark_session_failed_locked sys c) = g_va_next c"
  "g_allocs (mark_session_failed_locked sys c) = map (fail_alloc (g_active_session_generation c)) (g_allocs c)"
  "sizes (mark_session_failed_locked sys c) = sizes c"
  by (simp_all add: mark_session_failed_locked_def invalidate_client_graphs_def close_fd_def syscall_def Let_def sizes_def)

lemma failed_tables:
  assumes "client_inv c"
  shows "tables (mark_session_failed_locked sys c) =
     [map (stream_entry \<circ> fail_stream (g_active_session_generation c)) (take (g_stream_handle_next c) (g_stream_handles c)),
      map (event_entry \<circ> fail_event (g_active_session_generation c)) (take (g_event_handle_next c) (g_event_handles c)),
      map (module_entry \<circ> fail_module (g_active_session_generation c)) (take (g_module_handle_next c) (g_module_handles c)),
      map (kernel_entry_of \<circ> fail_kernel (g_active_session_generation c)) (take (g_kernel_handle_next c) (g_kernel_handles c)),
      map (pool_entry \<circ> (\<lambda>p. p\<lparr>ph_live := False\<rparr>)) (take (g_pool_handle_next c) (g_pool_handles c))]"
  using inv_sizes [OF assms]
  by (simp add: mark_session_failed_locked_def invalidate_client_graphs_def close_fd_def syscall_def Let_def tables_def take_map_upto take_map)

lemma failed_closed:
  assumes "client_inv c"
  shows "closed c (mark_session_failed_locked sys c)"
proof -
  have "\<not> va_live (fail_alloc (g_active_session_generation c) a)" if "a \<in> set (g_allocs c)" for a
    using assms that by (auto simp: client_inv_def arena_inv_def fail_alloc_def)
  moreover have "length (g_allocs c) = G6A_MAX_ALLOCS" using assms by (simp add: client_inv_def arena_inv_def)
  moreover have "list_all2 (\<lambda>t t'. length t' = length t \<and> (\<forall>e \<in> set t'. \<not> fst e)) (tables c) (tables (mark_session_failed_locked sys c))"
    unfolding failed_tables [OF assms] using inv_entries [OF assms]
    by (auto simp: tables_def entry_defs fail_stream_def fail_event_def fail_module_def fail_kernel_def of_session_def)
  ultimately show ?thesis by (auto simp: closed_def)
qed

lemma safe_failed: "safe_step sys c (mark_session_failed_locked sys' c)"
  by (intro safe_closed failed_closed)

section \<open>The start of a session\<close>

lemma same_refl [simp]: "same c c"
  by (simp add: same_def)

lemma same_trans: "same a b \<Longrightarrow> same b c \<Longrightarrow> same a c"
  by (simp add: same_def)

lemma same_quiet: "quiet c c' \<Longrightarrow> same c c'"
  by (simp add: same_def tables_def sizes_def quietD)

lemma same_updates [simp]:
  "same c (c1\<lparr>g_last_error := e\<rparr>) = same c c1" "same c (c1\<lparr>g_hello := h\<rparr>) = same c c1" "same c (c1\<lparr>g_hello_state := s\<rparr>) = same c c1"
  "same c (c1\<lparr>g_last_remote_status := st\<rparr>) = same c c1" "same c (c1\<lparr>g_shutdown_registered := b\<rparr>) = same c c1"
  "same c (c1\<lparr>g_default_frontier := f\<rparr>) = same c c1" "same c (c1\<lparr>io := i\<rparr>) = same c c1" "same c (c1\<lparr>g_capture := k\<rparr>) = same c c1"
  "same c (c1\<lparr>host := m\<rparr>) = same c c1" "same c (c1\<lparr>g_hidden_transfers := ts\<rparr>) = same c c1"
  "same c (c1\<lparr>g_transfer_submit_order := n\<rparr>) = same c c1" "same c (c1\<lparr>g_default_next_transfer_seq := q\<rparr>) = same c c1"
  "same c (c1\<lparr>g_graph_nodes := ns\<rparr>) = same c c1" "same c (c1\<lparr>g_registrations := rs\<rparr>) = same c c1"
  "same c (c1\<lparr>g_registration_next := rn\<rparr>) = same c c1" "same c (c1\<lparr>g_registration_generation_next := rg\<rparr>) = same c c1"
  "same c (c1\<lparr>g_current_device := d\<rparr>) = same c c1" "same c (c1\<lparr>g_capture_interaction := ci\<rparr>) = same c c1"
  "same c (c1\<lparr>g_last_rpc_transport_error := te\<rparr>) = same c c1" "same c (c1\<lparr>g_next_req_id := ri\<rparr>) = same c c1"
  "same c (c1\<lparr>g_host_allocs := ha\<rparr>) = same c c1" "same c (c1\<lparr>g_callback := cb\<rparr>) = same c c1" "same c (c1\<lparr>self := th\<rparr>) = same c c1"
  by (simp_all add: same_def tables_def sizes_def)

lemma same_syscall [simp]: "same c (snd (syscall sys op c1)) = same c c1"
  by (simp add: syscall_def)

lemma same_register: "same c (register_shutdown sys c)"
  by (simp add: register_shutdown_def Let_def case_prod_beta)

lemma arena_inv_cong:
  "g_va_arena c' = g_va_arena c \<Longrightarrow> g_va_next c' = g_va_next c \<Longrightarrow> g_allocs c' = g_allocs c \<Longrightarrow>
   g_active_session_generation c' = g_active_session_generation c \<Longrightarrow> arena_inv c' = arena_inv c"
  by (simp only: arena_inv_def cursor_def)

lemma idle_allocs: "client_inv c \<Longrightarrow> g_active_session_generation c = 0 \<Longrightarrow> a \<in> set (g_allocs c) \<Longrightarrow> \<not> va_live a"
  by (auto simp: client_inv_def arena_inv_def)

lemma safe_ensure_arena: "safe_step sys c (snd (ensure_arena sys c))"
proof (cases "g_va_arena c = 0")
  case True
  let ?r = "sys (io c) (Sys_mmap G6A_VA_ARENA_BYTES)"
  let ?c = "c\<lparr>io := Sys_mmap G6A_VA_ARENA_BYTES # io c, g_va_arena := so_value ?r, g_va_next := 0\<rparr>"
  have "client_inv ?c \<and> lineage c ?c" if inv: "client_inv c" and m: "maps_memory sys" and ok: "so_ok ?r"
  proof -
    have z: "g_va_next c = 0" "g_active_session_generation c = 0" using inv True by (simp_all add: client_inv_def arena_inv_def)
    have v: "so_value ?r \<noteq> 0" "unat (so_value ?r) + unat G6A_VA_ARENA_BYTES \<le> 2 ^ 64" using m ok unfolding maps_memory_def by blast+
    have "arena_inv ?c" using inv v z idle_allocs [OF inv z(2)] by (auto simp: client_inv_def arena_inv_def all_set_conv_all_nth)
    then have "client_inv ?c" using inv by (simp add: client_inv_def session_inv_of_def tables_def sizes_def)
    moreover have "lineage c ?c" using True z by (auto simp: lineage_def tables_def allocs_descend_def cursor_def)
    ultimately show ?thesis ..
  qed
  then have "so_ok ?r \<Longrightarrow> safe_step sys c ?c" by (simp add: safe_step_def)
  then show ?thesis using True by (auto simp: ensure_arena_def syscall_def Let_def intro: safe_same)
qed (simp add: ensure_arena_def)

lemma safe_connected:
  assumes "fd \<ge> 0" "g \<noteq> 0" "g_va_arena c \<noteq> 0" "g_active_session_generation c = 0"
  shows "safe_step sys c (c\<lparr>g_fd := fd, g_active_session_generation := g, g_next_session_generation := n,
     g_lifecycle := COREX_RUNTIME_ACTIVE, g_hello_state := hs, g_hello := hl\<rparr>)" (is "safe_step sys c ?c")
proof -
  have "client_inv ?c \<and> lineage c ?c" if inv: "client_inv c"
  proof -
    have "\<forall>t \<in> set (tables c). \<forall>e \<in> set t. of_session g e"
      using inv assms(4) by (fastforce simp: client_inv_def of_session_def)
    moreover have "arena_inv ?c" using inv assms idle_allocs [OF inv assms(4)] by (auto simp: client_inv_def arena_inv_def all_set_conv_all_nth)
    ultimately have "client_inv ?c" using inv assms(1,2) by (simp add: client_inv_def session_inv_of_def tables_def sizes_def)
    moreover have "lineage c ?c" by (auto simp: lineage_def tables_def allocs_descend_def cursor_def)
    ultimately show ?thesis ..
  qed
  then show ?thesis by (simp add: safe_step_def)
qed

lemma safe_lost:
  assumes "g_active_session_generation c = 0"
  shows "safe_step sys c (c\<lparr>g_fd := fd, g_lifecycle := COREX_RUNTIME_DISCONNECTED, g_last_error := e\<rparr>)" (is "safe_step sys c ?c")
proof -
  have "client_inv ?c \<and> lineage c ?c" if inv: "client_inv c"
  proof -
    have "arena_inv ?c = arena_inv c" by (intro arena_inv_cong) simp_all
    then have "client_inv ?c" using inv assms by (simp add: client_inv_def session_inv_of_def tables_def sizes_def)
    moreover have "lineage c ?c" by (auto simp: lineage_def tables_def allocs_descend_def cursor_def)
    ultimately show ?thesis ..
  qed
  then show ?thesis by (simp add: safe_step_def)
qed

lemma safe_called:
  assumes "stepped sys' c x"
  shows "safe_step sys c (snd x)"
proof -
  obtain r c' where x: "x = (r, c')" by fastforce
  show ?thesis using assms safe_trans [OF safe_same [OF same_quiet] safe_failed] safe_same [OF same_quiet]
    by (auto simp: x stepped_def)
qed

lemma safe_negotiate: "safe_step sys c (snd (negotiate_hello sys c))"
proof -
  obtain r c1 where r: "rpc sys OP_HELLO [] c = (r, c1)" by fastforce
  have "stepped sys c (rpc sys OP_HELLO [] c)" by (rule stepped_rpc) simp
  then have c1: "safe_step sys c c1" using safe_called r by fastforce
  note t = safe_trans [OF c1 safe_same] safe_trans [OF c1 safe_failed]
  show ?thesis unfolding negotiate_hello_def r by (cases r) (auto intro: t c1 split: option.split)
qed

lemma safe_ensure_runtime: "safe_step sys c (snd (ensure_runtime_locked sys c))"
proof (cases "g_lifecycle c = COREX_RUNTIME_ACTIVE \<and> g_fd c \<ge> 0 \<or> g_lifecycle c = COREX_RUNTIME_SHUTTING_DOWN \<or> g_next_session_generation c = 0")
  case True
  then show ?thesis by (auto simp: ensure_runtime_locked_def record_error_def intro: safe_same)
next
  case idle: False
  obtain ok1 c1 where a: "ensure_arena sys c = (ok1, c1)" by fastforce
  obtain ok2 c2 where f: "default_frontier_buffer sys c1 = (ok2, c2)" by fastforce
  obtain fd c3 where k: "connect_server sys c2 = (fd, c3)" by fastforce
  have s1: "safe_step sys c c1" using safe_ensure_arena [of sys c] a by simp
  have keep1: "g_lifecycle c1 = g_lifecycle c" "g_fd c1 = g_fd c" "g_active_session_generation c1 = g_active_session_generation c"
      "g_next_session_generation c1 = g_next_session_generation c"
    using a by (auto simp: ensure_arena_def syscall_def Let_def split: if_splits)
  have m2: "same c1 c2" "g_next_session_generation c2 = g_next_session_generation c1"
    using f by (auto simp: default_frontier_buffer_def syscall_def Let_def split: if_splits)
  have m3: "same c1 c3" "g_next_session_generation c3 = g_next_session_generation c"
    using k m2 keep1 by (auto simp: connect_server_def syscall_def Let_def split: if_splits)
  have arena: "g_va_arena c3 \<noteq> 0" if "maps_memory sys" ok1
    using a m3 that by (auto simp: ensure_arena_def syscall_def Let_def same_def maps_memory_def split: if_splits)
  have active: "g_active_session_generation c = 0" if "client_inv c"
    using that idle by (auto simp: client_inv_def session_inv_of_def split: if_splits)
  let ?start = "c3\<lparr>g_fd := fd, g_active_session_generation := g_next_session_generation c3,
      g_next_session_generation := g_next_session_generation c3 + 1, g_lifecycle := COREX_RUNTIME_ACTIVE,
      g_hello_state := COREX_HELLO_UNDETERMINED, g_hello := zero_hello\<rparr>"
  have start: "safe_step sys c ?start" if "fd \<ge> 0" ok1
    unfolding safe_step_def
  proof (intro impI)
    assume m: "maps_memory sys" and inv: "client_inv c"
    have "safe_step sys c3 ?start"
      using that arena [OF m] active [OF inv] idle m3 keep1 by (intro safe_connected) (simp_all add: same_def)
    from safe_trans [OF s1 safe_trans [OF safe_same [OF m3(1)] this]] show "client_inv ?start \<and> lineage c ?start"
      unfolding safe_step_def using m inv by blast
  qed
  have lost: "safe_step sys c (c3\<lparr>g_fd := fd, g_lifecycle := COREX_RUNTIME_DISCONNECTED, g_last_error := e\<rparr>)" (is "safe_step sys c ?lost") for e
    unfolding safe_step_def
  proof (intro impI)
    assume m: "maps_memory sys" and inv: "client_inv c"
    have "safe_step sys c3 ?lost" using active [OF inv] m3 keep1 by (intro safe_lost) (simp add: same_def)
    from safe_trans [OF s1 safe_trans [OF safe_same [OF m3(1)] this]] show "client_inv ?lost \<and> lineage c ?lost"
      unfolding safe_step_def using m inv by blast
  qed
  obtain ok4 c4 where h: "negotiate_hello sys ?start = (ok4, c4)" by fastforce
  have "safe_step sys ?start c4" using safe_negotiate [of sys ?start] h by simp
  then have s4: "safe_step sys c c4" if "fd \<ge> 0" ok1 using start [OF that] by (rule safe_trans [rotated])
  show ?thesis
    using idle s1 m2 m3 lost s4 a f k h
    by (auto simp: ensure_runtime_locked_def record_error_def Let_def not_less
        intro: safe_trans [OF _ safe_same] safe_trans [OF _ safe_same [OF same_register]] split: prod.split)
qed

lemma negotiate_ready:
  assumes "negotiate_hello sys c = (True, c')" "g_lifecycle c = COREX_RUNTIME_ACTIVE"
  shows "g_lifecycle c' = COREX_RUNTIME_ACTIVE"
proof -
  obtain r c1 where r: "rpc sys OP_HELLO [] c = (r, c1)" by fastforce
  have "called sys c (r, c1)" using called_rpc [of sys c OP_HELLO "[]"] r by simp
  then have "g_lifecycle c1 = COREX_RUNTIME_ACTIVE \<or> r = None \<and> g_last_rpc_transport_error c1"
    using assms(2) quietD(2) by (auto simp: called_def)
  then show ?thesis using assms(1) r by (auto simp: negotiate_hello_def split: option.splits if_splits)
qed

lemma ensure_ready:
  assumes "ensure_runtime_locked sys c = (cudaSuccess, c')"
  shows "g_lifecycle c' = COREX_RUNTIME_ACTIVE"
  using assms
  by (auto simp: ensure_runtime_locked_def record_error_def register_shutdown_def syscall_def Let_def negotiate_ready
      split: prod.splits if_splits)

section \<open>The contract of an entry point\<close>

text \<open>
  A relation between the state before and after that every part of an entry point keeps: what does not
  touch the tables, the failure of a session, and the lazy connection. The rules follow the structure
  of the entry points, so that only the steps that make or retire something are left to prove.
\<close>

locale client_contract =
  fixes sys :: system and R :: "client \<Rightarrow> client \<Rightarrow> bool"
  assumes R_refl: "R c c"
    and R_trans: "R a b \<Longrightarrow> R b c \<Longrightarrow> R a c"
    and R_same: "same c c' \<Longrightarrow> R c c'"
    and R_retires: "retires c c' \<Longrightarrow> R c c'"
    and R_failed: "R c (mark_session_failed_locked sys c)"
    and R_runtime: "R c (snd (ensure_runtime_locked sys c))"
begin

lemma called: "stepped sys c x \<Longrightarrow> R c (snd x)"
  by (cases x) (auto simp: stepped_def intro: R_trans [OF R_same [OF same_quiet] R_failed] R_same [OF same_quiet])

lemma raised: "R c (snd (raise e c))"
  by (simp add: R_same)

lemma returned: "R c (snd (v, c))"
  by (simp add: R_refl)

lemma branch: "(b \<Longrightarrow> R c (snd x)) \<Longrightarrow> (\<not> b \<Longrightarrow> R c (snd y)) \<Longrightarrow> R c (snd (if b then x else y))"
  by simp

lemma on_option: "(r = None \<Longrightarrow> R c (snd x)) \<Longrightarrow> (\<And>v. r = Some v \<Longrightarrow> R c (snd (f v))) \<Longrightarrow> R c (snd (case r of None \<Rightarrow> x | Some v \<Rightarrow> f v))"
  by (cases r) simp_all

lemma on_sum: "(\<And>e. r = Inl e \<Longrightarrow> R c (snd (g e))) \<Longrightarrow> (\<And>v. r = Inr v \<Longrightarrow> R c (snd (f v))) \<Longrightarrow>
    R c (snd (case r of Inl e \<Rightarrow> g e | Inr v \<Rightarrow> f v))"
  by (cases r) simp_all

lemma on_pair: "(\<And>a b. p = (a, b) \<Longrightarrow> R c (snd (f a b))) \<Longrightarrow> R c (snd (case p of (a, b) \<Rightarrow> f a b))"
  by (cases p) simp

lemma bind: "R c (snd m) \<Longrightarrow> (\<And>v c'. m = (Inr v, c') \<Longrightarrow> R c' (snd (f v c'))) \<Longrightarrow> R c (snd (result_bind m f))"
  by (cases m; cases "fst m") (auto simp: result_bind_def intro: R_trans)

lemma call: "stepped sys c x \<Longrightarrow> R c (snd (call_or e x))"
  by (cases x) (auto simp: call_or_def raise_def intro: R_trans [OF _ R_same] dest: called split: option.split)

lemma call_bind:
  assumes "stepped sys c x" "\<And>v c'. quiet c c' \<Longrightarrow> R c' (snd (f v c'))"
  shows "R c (snd (result_bind (call_or e x) f))"
  using assms by (intro bind call) (auto dest!: call_or_Inr simp: stepped_def)

lemma runtime:
  assumes "\<And>c'. g_lifecycle c' = COREX_RUNTIME_ACTIVE \<Longrightarrow> R c' (snd (f c'))"
  shows "R c (snd (with_runtime sys f c))"
proof -
  obtain init c1 where e: "ensure_runtime_locked sys c = (init, c1)" by fastforce
  have "R c c1" using R_runtime [of c] e by simp
  moreover have "R c1 (snd (f c1))" if "init = cudaSuccess" using assms ensure_ready e that by blast
  moreover have "R c (snd (raise init c1))" using \<open>R c c1\<close> by (auto intro: R_trans [OF _ R_same])
  ultimately show ?thesis by (auto simp: with_runtime_def e intro: R_trans)
qed

lemma buffer:
  assumes "\<And>c'. quiet c c' \<Longrightarrow> R c' (snd (f c'))"
  shows "R c (snd (with_buffer sys n f c))"
proof -
  obtain ok c1 where m: "client_malloc sys n c = (ok, c1)" by fastforce
  have q: "quiet c c1" using m by (auto simp: client_malloc_def syscall_def Let_def)
  have "R c (snd (raise cudaErrorMemoryAllocation c1))" by (simp add: R_same same_quiet q)
  moreover have "R c (snd (f c1))" using R_trans [OF R_same [OF same_quiet [OF q]] assms [OF q]] .
  ultimately show ?thesis by (simp add: with_buffer_def m)
qed

lemmas rules = branch on_option on_sum on_pair raised returned runtime buffer call_bind call bind R_refl

end

interpretation safe: client_contract sys "safe_step sys" for sys
  by unfold_locales (auto intro: safe_trans safe_same safe_retires safe_failed safe_ensure_runtime)

section \<open>Steps that touch no table\<close>

lemma map_upd_same: "f y = f (xs ! i) \<Longrightarrow> map f (xs[i := y]) = map f xs"
  by (cases "i < length xs") (simp_all add: map_update list_update_same_conv list_update_beyond)

lemma same_upd_stream:
  assumes "\<And>h. stream_entry (f h) = stream_entry h"
  shows "same c (upd_stream_handle i f c)"
proof -
  have "map stream_entry (take n ((g_stream_handles c)[i := f (g_stream_handles c ! i)])) = map stream_entry (take n (g_stream_handles c))" for n
    using assms by (simp add: take_map [symmetric] map_upd_same)
  then show ?thesis by (simp add: upd_stream_handle_def same_def tables_def sizes_def)
qed

lemma same_upd_event:
  assumes "\<And>h. event_entry (f h) = event_entry h"
  shows "same c (upd_event_handle i f c)"
proof -
  have "map event_entry (take n ((g_event_handles c)[i := f (g_event_handles c ! i)])) = map event_entry (take n (g_event_handles c))" for n
    using assms by (simp add: take_map [symmetric] map_upd_same)
  then show ?thesis by (simp add: upd_event_handle_def same_def tables_def sizes_def)
qed

lemma same_upd_kernel:
  assumes "\<And>h. kernel_entry_of (f h) = kernel_entry_of h"
  shows "same c (upd_kernel i f c)"
proof -
  have "map kernel_entry_of (take n ((g_kernel_handles c)[i := f (g_kernel_handles c ! i)])) = map kernel_entry_of (take n (g_kernel_handles c))" for n
    using assms by (simp add: take_map [symmetric] map_upd_same)
  then show ?thesis by (simp add: upd_kernel_def same_def tables_def sizes_def)
qed

lemma same_frontier [simp]: "same c (map_view_frontier f view c)"
  by (auto simp: map_view_frontier_def entry_defs intro!: same_upd_stream split: option.split)

lemma same_advance [simp]: "same c (snd (view_advance view c))"
  unfolding view_advance_def Let_def
  by (auto simp: entry_defs intro!: same_trans [OF _ same_frontier] same_upd_stream split: option.split)

lemma same_ordering [simp]: "same c (apply_legacy_default_ordering view c)"
  by (auto simp: apply_legacy_default_ordering_def split: option.split)

lemma same_scatter [simp]: "same c (scatter_rows dst s p w h d flat c)"
  using scatter_rows_host [of dst s p w h d flat c] by auto

lemma same_host [simp]: "same c (host_store p d c1) = same c c1" "same c (host_copy dst src n c1) = same c c1"
  by (simp_all add: host_copy_def host_store_def)

lemma same_move_rows [simp]: "same c (move_rows dst ds dp src ss sp w h d c)"
proof -
  have "same c (foldl (\<lambda>c (z, y). host_copy (a z y) (b z y) n c) c1 xs) = same c c1" for a b n c1 and xs :: "(nat \<times> nat) list"
    by (induction xs arbitrary: c1) (simp_all add: case_prod_beta)
  then show ?thesis by (simp add: move_rows_def)
qed

lemma same_track [simp]: "same c (track_transfer slot t sv c)"
  by (simp add: track_transfer_def Let_def)

lemma same_malloc [simp]: "same c (snd (client_malloc sys n c1)) = same c c1"
  by (simp add: client_malloc_def case_prod_beta)

lemma same_append_node [simp]: "same c (append_node object g storage c1) = same c c1"
  by (simp add: append_node_def)

lemma same_invalidate_capture [simp]: "same c (invalidate_capture c1) = same c c1"
  by (simp add: invalidate_capture_def)

lemma same_upd_registration [simp]: "same c (upd_registration i f c1) = same c c1"
  by (simp add: upd_registration_def)

context client_contract
begin

lemma then_same: "R c c1 \<Longrightarrow> same c1 c2 \<Longrightarrow> R c c2"
  by (rule R_trans [OF _ R_same])

lemma advanced: "R c (snd (advance sv c))"
  by (simp add: advance_def R_same)

lemma streamed:
  assumes "\<And>sv c'. same c c' \<Longrightarrow> g_lifecycle c' = g_lifecycle c \<Longrightarrow> R c' (snd (f sv c'))"
  shows "R c (snd (with_stream stream f c))"
proof -
  have "g_lifecycle (apply_legacy_default_ordering sv c) = g_lifecycle c" for sv using same_ordering [of c sv] by (simp add: same_def)
  then have "R c (snd (f sv (apply_legacy_default_ordering sv c)))" for sv
    by (intro R_trans [OF R_same [OF same_ordering] assms [OF same_ordering]])
  then show ?thesis by (auto simp: with_stream_def R_same split: option.split)
qed

lemma waited: "R c (snd (wait_hidden_transfer sys t c))"
proof (cases "strided_download t")
  case True
  let ?c = "snd (client_malloc sys (ht_bytes t) c)"
  have "R ?c (snd (call_or cudaErrorUnknown (remote_transfer_wait sys (ht_transfer_id t) True (ucast (ht_bytes t)) ?c)))" by (rule call) simp
  then have "R c (snd (call_or cudaErrorUnknown (remote_transfer_wait sys (ht_transfer_id t) True (ucast (ht_bytes t)) ?c)))"
    by (rule R_trans [OF R_same, rotated]) simp
  then show ?thesis using True by (simp add: wait_hidden_transfer_def Let_def case_prod_beta R_same)
qed (simp add: wait_hidden_transfer_def Let_def call)

lemma consumed: "R c (snd (consume_hidden_transfer sys i c))"
  unfolding consume_hidden_transfer_def Let_def
proof (intro rules waited)
  fix resp c1
  obtain m where "deliver (g_hidden_transfers c ! i) resp c1 = c1\<lparr>host := m\<rparr>" using deliver_host by blast
  then show "R c1 (snd (Inr (), retire_hidden_transfer i (deliver (g_hidden_transfers c ! i) resp c1)))"
    by (simp add: retire_hidden_transfer_def R_same)
qed

lemma drained: "R c (snd (drain_matching sys frontier allocation c))"
proof (induction "live_hidden_transfer_count c" arbitrary: c rule: less_induct)
  case less
  show ?case
  proof (cases "oldest_matching_transfer frontier allocation c")
    case (Some i)
    obtain r c1 where r: "consume_hidden_transfer sys i c = (r, c1)" by fastforce
    have c1: "R c c1" using consumed [of c i] r by simp
    show ?thesis
    proof (cases r)
      case (Inl e)
      then show ?thesis using Some r c1 by (auto simp: drain_matching.simps [of sys frontier allocation c] intro: then_same)
    next
      case (Inr u)
      then have "live_hidden_transfer_count c1 < live_hidden_transfer_count c" using consume_fewer [OF Some] r by simp
      then show ?thesis using Some r Inr R_trans [OF c1 less] by (simp add: drain_matching.simps [of sys frontier allocation c])
    qed
  qed (simp add: drain_matching.simps R_refl)
qed

lemma drains:
  "R c (snd (drain_frontier_blocking sys f c))" "R c (snd (drain_all_transfers_blocking sys c))"
  "R c (snd (drain_allocation_transfers_blocking sys a c))"
  by (simp_all add: drain_frontier_blocking_def drain_all_transfers_blocking_def drain_allocation_transfers_blocking_def drained)

lemma queried: "R c (snd (query_covered sys f ks c))"
proof (induction ks arbitrary: c)
  case (Cons i ks)
  show ?case unfolding query_covered.simps Let_def by (intro rules Cons) simp_all
qed (simp add: R_refl)

lemma drained_if_ready: "R c (snd (drain_frontier_if_ready sys f c))"
  unfolding drain_frontier_if_ready_def by (intro rules queried drains)

lemma chunked: "(\<And>dn chunk c. R c (snd (f dn chunk c))) \<Longrightarrow> R c (snd (copy_chunks f count dn c))"
proof (induction f count dn c rule: copy_chunks.induct)
  case (1 f count dn c)
  let ?chunk = "if count - dn > G6A_COPY_CHUNK then G6A_COPY_CHUNK else count - dn"
  obtain r c1 where r: "f dn ?chunk c = (r, c1)" by fastforce
  have c1: "R c c1" using "1.prems" [of c dn ?chunk] r by simp
  show ?case
  proof (cases "dn < count")
    case True
    show ?thesis
    proof (cases r)
      case (Inl e)
      then show ?thesis using True r c1 by (simp add: copy_chunks.simps [of f count dn c] Let_def)
    next
      case (Inr u)
      have "R c1 (snd (copy_chunks f count (dn + ?chunk) c1))" by (rule "1.IH" [OF True refl r [symmetric] Inr "1.prems"])
      then show ?thesis using True r Inr R_trans [OF c1] by (simp add: copy_chunks.simps [of f count dn c] Let_def)
    qed
  qed (simp add: copy_chunks.simps R_refl)
qed

end

section \<open>New allocations\<close>

lemma and_not_ge:
  fixes x m :: u64
  shows "unat x \<le> unat (x AND NOT m) + unat m" "unat (x AND NOT m) \<le> unat x"
proof -
  have "(x AND NOT m) AND (x AND m) = 0" by (rule bit_eqI) (simp add: bit_simps)
  then have "(x AND NOT m) + (x AND m) = (x AND NOT m) OR (x AND m)" by (rule disjunctive_add_eq_or)
  also have "\<dots> = x" by (rule bit_eqI) (auto simp: bit_simps)
  finally have u: "x AND NOT m = x - (x AND m)" by (simp add: algebra_simps)
  have "x AND m \<le> x" "x AND m \<le> m" by (rule word_and_le2, rule word_and_le1)
  then have "unat (x AND NOT m) = unat x - unat (x AND m)" "unat (x AND m) \<le> unat x" "unat (x AND m) \<le> unat m"
    unfolding u by (simp_all add: unat_sub word_le_nat_alt)
  then show "unat x \<le> unat (x AND NOT m) + unat m" "unat (x AND NOT m) \<le> unat x" by simp_all
qed

lemma align_up_ge:
  assumes "align_up_size n 65536 = Some al"
  shows "unat n \<le> unat al"
proof -
  have "n \<le> UINT64_MAX - 65535" "al = (n + 65535) AND NOT 65535" using assms by (auto simp: align_up_size_def Let_def split: if_splits)
  moreover have "unat (UINT64_MAX - 65535 :: u64) = 18446744073709486080" by simp
  ultimately have n: "unat n \<le> 18446744073709486080" "al = (n + 65535) AND NOT 65535" by (simp_all add: word_le_nat_alt)
  have "unat (n + 65535) = unat n + 65535" using n(1) by (subst unat_add_no_wrap) simp_all
  then show ?thesis using and_not_ge(1) [of "n + 65535" 65535] unfolding n(2) by simp
qed

lemma arena_span_Some:
  assumes "arena_span n c = Some span"
  shows "unat n + 65536 \<le> unat span" "unat (g_va_next c) + unat span \<le> 2 ^ 36"
proof -
  obtain al where al: "align_up_size n 65536 = Some al" "\<not> al > UINT64_MAX - 65536" "span = al + 65536"
    "\<not> g_va_next c > G6A_VA_ARENA_BYTES" "\<not> span > G6A_VA_ARENA_BYTES - g_va_next c"
    using assms by (auto simp: arena_span_def Let_def split: option.splits if_splits)
  have "unat al \<le> unat (UINT64_MAX - 65536 :: u64)" using al(2) by (simp add: word_le_nat_alt not_less)
  then have "unat span = unat al + 65536" unfolding al(3) by (subst unat_add_no_wrap) simp_all
  then show "unat n + 65536 \<le> unat span" using align_up_ge [OF al(1)] by simp
  show "unat (g_va_next c) + unat span \<le> 2 ^ 36" using word_range_ok [OF al(4,5)] by simp
qed

definition fresh_alloc :: "client \<Rightarrow> u64 \<Rightarrow> VirtualAllocation \<Rightarrow> bool" where
  "fresh_alloc c n a \<longleftrightarrow> va_live a \<and> va_virtual_base a = g_va_arena c + g_va_next c \<and> va_size a = n \<and>
     va_session_generation a = g_active_session_generation c"

lemma find_free_slot_Some: "find_free_slot c = Some slot \<Longrightarrow> slot < length (g_allocs c) \<and> \<not> va_live (g_allocs c ! slot)"
  by (auto simp: find_free_slot_def find_upt_Some)

lemma safe_put_alloc:
  assumes slot: "find_free_slot c = Some slot" and span: "arena_span n c = Some span" and ready: "g_lifecycle c = COREX_RUNTIME_ACTIVE"
    and a: "fresh_alloc c n a"
  shows "safe_step sys c (put_alloc slot a span c)" (is "safe_step sys c ?c")
proof -
  have "client_inv ?c \<and> lineage c ?c" if inv: "client_inv c"
  proof -
    note sl = find_free_slot_Some [OF slot] and sp = arena_span_Some [OF span]
    have act: "g_active_session_generation c \<noteq> 0" using inv ready by (simp add: client_inv_def session_inv_of_def)
    have ai: "arena_inv c" using inv by (simp add: client_inv_def)
    have top: "unat (g_va_arena c) + 2 ^ 36 \<le> 2 ^ 64" "g_va_arena c \<noteq> 0" using ai act by (auto simp: arena_inv_def split: if_splits)
    have "unat (g_va_next c) + unat span < 2 ^ 64" using sp(2) by simp
    then have next': "unat (g_va_next c + span) = unat (g_va_next c) + unat span" by (subst unat_add_no_wrap) simp_all
    have "unat (g_va_arena c + g_va_next c) = cursor c" unfolding cursor_def using sp top by (subst unat_add_no_wrap) simp_all
    then have sa: "span_of a = (cursor c, cursor c + unat n)" using a by (simp add: span_of_def fresh_alloc_def)
    have cur: "cursor ?c = cursor c + unat span" using next' by (simp add: cursor_def put_alloc_def)
    have old: "va_live b \<Longrightarrow> va_session_generation b = g_active_session_generation c \<and> unat (g_va_arena c) \<le> fst (span_of b) \<and>
        snd (span_of b) + 65536 \<le> cursor c" if "b \<in> set (g_allocs c)" for b
      using ai that by (simp add: arena_inv_def)
    have "apart (g_allocs ?c ! i) (g_allocs ?c ! j)"
      if "i < length (g_allocs c)" "j < length (g_allocs c)" "i \<noteq> j" "va_live (g_allocs ?c ! i)" "va_live (g_allocs ?c ! j)" for i j
    proof -
      have new: "apart a (g_allocs c ! k)" "apart (g_allocs c ! k) a" if "k < length (g_allocs c)" "va_live (g_allocs c ! k)" for k
        using old [of "g_allocs c ! k"] that by (simp_all add: apart_def sa)
      show ?thesis using that new ai sl by (auto simp: put_alloc_def nth_list_update arena_inv_def)
    qed
    moreover have "va_session_generation b = g_active_session_generation c \<and> unat (g_va_arena c) \<le> fst (span_of b) \<and>
        snd (span_of b) + 65536 \<le> cursor ?c" if "b \<in> set (g_allocs ?c)" "va_live b" for b
    proof -
      have "b = a \<or> b \<in> set (g_allocs c)" using that(1) set_update_subset_insert [of "g_allocs c" slot a] by (auto simp: put_alloc_def)
      then show ?thesis
      proof
        assume "b = a"
        then show ?thesis using a sa sp(1) unfolding cur by (simp add: fresh_alloc_def cursor_def)
      next
        assume "b \<in> set (g_allocs c)"
        then show ?thesis using old that(2) unfolding cur by fastforce
      qed
    qed
    ultimately have "arena_inv ?c"
      using ai act top next' sp(2) unfolding arena_inv_def by (simp add: put_alloc_def)
    then have i: "client_inv ?c" using inv by (simp add: client_inv_def session_inv_of_def tables_def sizes_def put_alloc_def)
    have "lineage c ?c"
      using cur sa set_update_subset_insert [of "g_allocs c" slot a]
      by (auto simp: lineage_def tables_def allocs_descend_def put_alloc_def)
    with i show ?thesis ..
  qed
  then show ?thesis by (simp add: safe_step_def)
qed

section \<open>New entries\<close>

text \<open>A table grows by one live entry of the session in use.\<close>

definition grows :: "client \<Rightarrow> entry list \<Rightarrow> entry list \<Rightarrow> bool" where
  "grows c t t' \<longleftrightarrow> t' = t \<or> (\<exists>x. t' = t @ [(True, g_active_session_generation c, x)])"

definition appends :: "client \<Rightarrow> client \<Rightarrow> bool" where
  "appends c c' \<longleftrightarrow> g_lifecycle c' = g_lifecycle c \<and> g_fd c' = g_fd c \<and> g_active_session_generation c' = g_active_session_generation c \<and>
     g_va_arena c' = g_va_arena c \<and> g_va_next c' = g_va_next c \<and> g_allocs c' = g_allocs c \<and>
     (client_inv c \<longrightarrow> list_all2 (grows c) (tables c) (tables c') \<and> map snd (sizes c') = map snd (sizes c) \<and>
        (\<forall>(n, len) \<in> set (sizes c'). n \<le> len))"

lemma descends_grows: "grows c t t' \<Longrightarrow> descends t t'"
  by (auto simp: grows_def descends_def nth_append)

lemma safe_appends:
  assumes "appends c c'" "g_lifecycle c = COREX_RUNTIME_ACTIVE"
  shows "safe_step sys c c'"
proof -
  have "client_inv c' \<and> lineage c c'" if inv: "client_inv c"
  proof -
    have act: "g_active_session_generation c \<noteq> 0" using inv assms(2) by (simp add: client_inv_def session_inv_of_def)
    have g: "list_all2 (grows c) (tables c) (tables c')" using assms(1) inv by (simp add: appends_def)
    have "of_session (g_active_session_generation c) e" if t': "t' \<in> set (tables c')" and e: "e \<in> set t'" for t' e
    proof -
      obtain t where t: "t \<in> set (tables c)" "grows c t t'" using list_all2_set2 [OF g t'] by blast
      then have "e \<in> set t \<or> (\<exists>x. e = (True, g_active_session_generation c, x))" using e by (auto simp: grows_def)
      then show ?thesis using inv t(1) act by (auto simp: client_inv_def of_session_def)
    qed
    then have "client_inv c'" using inv assms(1) arena_inv_cong [of c' c] session_inv_cong [of c' c] by (simp add: client_inv_def appends_def)
    moreover have "lineage c c'"
      using g assms(1) by (auto simp: lineage_def appends_def allocs_descend_def cursor_def intro: list_all2_mono descends_grows)
    ultimately show ?thesis ..
  qed
  then show ?thesis by (simp add: safe_step_def)
qed

lemma grows_next:
  "n < length xs \<Longrightarrow> f y = (True, g_active_session_generation c, x) \<Longrightarrow>
   grows c (map f (take n xs)) (map f (take (Suc n) (xs[n := y])))"
  by (auto simp: grows_def take_Suc_conv_app_nth)

lemma grows_refl [simp]: "grows c t t"
  by (simp add: grows_def)

lemma appends_stream:
  assumes "g_stream_handle_next c < G6C_MAX_STREAM_HANDLES" "stream_entry h = (True, g_active_session_generation c, x)"
  shows "appends c (c\<lparr>g_stream_handles := (g_stream_handles c)[g_stream_handle_next c := h], g_stream_handle_next := g_stream_handle_next c + 1\<rparr>)"
  using assms inv_sizes [of c] grows_next [of "g_stream_handle_next c" "g_stream_handles c" stream_entry h c x]
  by (auto simp: appends_def tables_def sizes_def)

lemma appends_event:
  assumes "g_event_handle_next c < G6C_MAX_EVENT_HANDLES" "event_entry h = (True, g_active_session_generation c, x)"
  shows "appends c (c\<lparr>g_event_handles := (g_event_handles c)[g_event_handle_next c := h], g_event_handle_next := g_event_handle_next c + 1\<rparr>)"
  using assms inv_sizes [of c] grows_next [of "g_event_handle_next c" "g_event_handles c" event_entry h c x]
  by (auto simp: appends_def tables_def sizes_def)

lemma appends_module:
  assumes "g_module_handle_next c < G6D_MAX_MODULE_HANDLES" "module_entry h = (True, g_active_session_generation c, x)"
  shows "appends c (c\<lparr>g_module_handles := (g_module_handles c)[g_module_handle_next c := h], g_module_handle_next := g_module_handle_next c + 1\<rparr>)"
  using assms inv_sizes [of c] grows_next [of "g_module_handle_next c" "g_module_handles c" module_entry h c x]
  by (auto simp: appends_def tables_def sizes_def)

lemma appends_kernel:
  assumes "g_kernel_handle_next c < G6D_MAX_KERNEL_HANDLES" "kernel_entry_of h = (True, g_active_session_generation c, x)"
  shows "appends c (c\<lparr>g_kernel_handles := (g_kernel_handles c)[g_kernel_handle_next c := h], g_kernel_handle_next := g_kernel_handle_next c + 1\<rparr>)"
  using assms inv_sizes [of c] grows_next [of "g_kernel_handle_next c" "g_kernel_handles c" kernel_entry_of h c x]
  by (auto simp: appends_def tables_def sizes_def)

lemma appends_pool:
  assumes "g_pool_handle_next c < COREX_MAX_POOL_HANDLES" "pool_entry h = (True, g_active_session_generation c, x)"
  shows "appends c (c\<lparr>g_pool_handles := (g_pool_handles c)[g_pool_handle_next c := h], g_pool_handle_next := g_pool_handle_next c + 1\<rparr>)"
  using assms inv_sizes [of c] grows_next [of "g_pool_handle_next c" "g_pool_handles c" pool_entry h c x]
  by (auto simp: appends_def tables_def sizes_def)

text \<open>The laws of the tables, added to the contract.\<close>

locale client_tables = client_contract +
  assumes R_alloc: "find_free_slot c = Some slot \<Longrightarrow> arena_span n c = Some span \<Longrightarrow> g_lifecycle c = COREX_RUNTIME_ACTIVE \<Longrightarrow>
      fresh_alloc c n a \<Longrightarrow> R c (put_alloc slot a span c)"
    and R_append: "appends c c' \<Longrightarrow> g_lifecycle c = COREX_RUNTIME_ACTIVE \<Longrightarrow> R c c'"

interpretation safe: client_tables sys "safe_step sys" for sys
  by unfold_locales (auto intro: safe_put_alloc safe_appends)

end
