(* ===== verification/Client_Steps.thy ===== *)
theory Client_Steps
  imports Client_Safety
begin

text \<open>
  The contract of the client for every entry point (\<^verbatim>\<open>src/corex_remote_cuda.c\<close>), proved once in the locale
  of the contract: memory, copies and fills, streams and events, queries, modules and kernels, the
  hooks of compiled code, and the launch. Only what makes or retires an entry needs a lemma of its
  own; the rest follows the structure of the functions by the rules of the locale.
\<close>

section \<open>Memory\<close>

lemma same_slots:
  assumes "same c c'"
  shows "find_free_slot c' = find_free_slot c" "arena_span n c' = arena_span n c" "fresh_alloc c' n a = fresh_alloc c n a"
  using assms unfolding same_def find_free_slot_def arena_span_def fresh_alloc_def by (elim conjE, simp only:)+

lemma same_ready: "same c c' \<Longrightarrow> g_lifecycle c' = g_lifecycle c"
  by (simp add: same_def)

lemma stepped_stub [simp]: "stepped sys c (generated_call req opcode dec (generated_rpc_call sys) c)"
  by (rule stepped_generated)

lemma result_bind_assoc: "result_bind (result_bind m f) g = result_bind m (\<lambda>v c. result_bind (f v c) g)"
  by (cases m; cases "fst m") (auto simp: result_bind_def)

lemma result_bind_ok [simp]: "result_bind (Inr v, c) f = f v c" "result_bind (Inl e, c) f = (Inl e, c)"
  by (simp_all add: result_bind_def)

context client_tables
begin

lemma placed:
  assumes "find_free_slot c = Some slot" "g_lifecycle c = COREX_RUNTIME_ACTIVE" "same c c'" "arena_span n c' = Some span" "fresh_alloc c' n a"
  shows "R c' (put_alloc slot a span c')"
  using assms same_slots [OF assms(3)] same_ready [OF assms(3)] by (intro R_alloc [where n = n]) simp_all

lemma committed:
  assumes "find_free_slot c = Some slot" "arena_span n c = Some span" "g_lifecycle c = COREX_RUNTIME_ACTIVE" "same c c'"
  shows "R c' (snd (commit_linear_identity slot n aid span c'))"
  unfolding commit_linear_identity_def Let_def using assms same_slots(2) [OF assms(4)] by (auto simp: fresh_alloc_def intro!: placed)

lemma same_bind:
  assumes "stepped sys c x" "\<And>v c'. same c c' \<Longrightarrow> R c' (snd (f v c'))"
  shows "R c (snd (result_bind (call_or e x) f))"
  using assms by (intro call_bind) (auto intro: same_quiet)

lemma allocated: "R c (snd (allocate_linear_locked sys p n view pool c))"
proof -
  have "R c (snd (result_bind (prepare_linear_identity n c) (\<lambda>(slot, span) c. result_bind
      (case view of Some view \<Rightarrow> result_bind
           (if pool \<noteq> 0
            then call_or cudaErrorMemoryAllocation (corex_generated_call_cudaMallocFromPoolAsync (generated_rpc_call sys) (n, pool, sv_stream_id view) c)
            else call_or cudaErrorMemoryAllocation (corex_generated_call_cudaMallocAsync (generated_rpc_call sys) (n, sv_stream_id view) c))
           (\<lambda>allocation_id c. (Inr allocation_id, snd (view_advance view c)))
       | None \<Rightarrow> call_or cudaErrorMemoryAllocation (remote_alloc sys n c))
      (\<lambda>allocation_id c. commit_linear_identity slot n allocation_id span c))))"
    if ready: "g_lifecycle c = COREX_RUNTIME_ACTIVE" for c
  proof (cases "find_free_slot c"; cases "arena_span n c")
    fix slot span assume s: "find_free_slot c = Some slot" "arena_span n c = Some span"
    note go = committed [OF s ready] R_trans [OF R_same [OF same_advance] committed [OF s ready]]
    show ?thesis using s
      by (auto simp: prepare_linear_identity_def result_bind_assoc stub_defs split: option.split intro!: same_bind go intro: same_trans)
  qed (simp_all add: prepare_linear_identity_def R_same raise_def)
  then show ?thesis unfolding allocate_linear_locked_def by (intro branch raised runtime)
qed

end

text \<open>Releasing an allocation, and changing its layout, keep everything else.\<close>

lemma retires_allocs:
  assumes "list_all2 alloc_dies (g_allocs c) as"
  shows "retires c (c\<lparr>g_allocs := as\<rparr>)"
proof -
  have "list_all2 (list_all2 dies) (tables c) (tables c)" by (intro list.rel_refl) simp
  then show ?thesis using assms by (simp add: retires_def tables_def sizes_def)
qed

lemma alloc_dies_update: "alloc_dies (as ! i) a \<Longrightarrow> list_all2 alloc_dies as (as[i := a])"
  by (cases "i < length as") (auto simp: list_all2_conv_all_nth nth_list_update)

lemma alloc_dies_map: "(\<And>a. alloc_dies a (f a)) \<Longrightarrow> list_all2 alloc_dies as (map f as)"
  by (simp add: list_all2_conv_all_nth)

lemma alloc_dies_trans: "alloc_dies a b \<Longrightarrow> alloc_dies b c \<Longrightarrow> alloc_dies a c"
  by (auto simp: alloc_dies_def)

lemma retires_tombstone: "retires c (tombstone i c)"
proof -
  let ?slot = "g_allocs c ! i"
  let ?off = "(g_allocs c)[i := ?slot\<lparr>va_graph_active := False\<rparr>]"
  have off: "list_all2 alloc_dies (g_allocs c) ?off" by (intro alloc_dies_update) (simp add: alloc_dies_def alloc_key_def)
  have "retires c (retire_client_graph_allocations (c\<lparr>g_allocs := ?off\<rparr>))"
    unfolding retire_client_graph_allocations_def
    by (simp, intro retires_allocs list_all2_trans [OF alloc_dies_trans off alloc_dies_map]) (auto simp: alloc_dies_def)
  then show ?thesis
    by (auto simp: tombstone_def Let_def alloc_dies_def intro!: retires_allocs alloc_dies_update)
qed

context client_tables
begin

lemma malloc_pitch: "R c (snd (cudaMallocPitch_locked sys p q w h c))"
  unfolding cudaMallocPitch_locked_def
  by (intro branch raised runtime on_option same_bind)
    (auto simp: Let_def R_same fresh_alloc_def split: option.split intro!: placed)

lemma malloc_3d: "R c (snd (cudaMalloc3D_locked sys p e c))"
  unfolding cudaMalloc3D_locked_def Let_def
  by (intro branch raised bind malloc_pitch)
    (auto simp: alloc_dies_def alloc_key_def split: option.split prod.split intro!: R_refl R_retires retires_allocs alloc_dies_update)

lemma free: "R c (snd (cudaFree_locked sys p c))"
  unfolding cudaFree_locked_def Let_def
  by (intro branch returned raised runtime on_option bind drains call) (simp_all add: R_retires retires_tombstone)

lemma pool_runtime: "R c (snd (pool_runtime_locked sys c))"
  using R_runtime [of c] by (auto simp: pool_runtime_locked_def split: prod.split intro: then_same)

lemma malloc_async: "R c (snd (malloc_async_locked sys p n pool stream ex c))"
  unfolding malloc_async_locked_def Let_def
  by (intro branch returned raised on_option bind pool_runtime R_trans [OF R_same [OF same_ordering] allocated])

lemma free_async: "R c (snd (free_async_locked sys p stream c))"
proof -
  have go: "R c (snd (result_bind (call_or e (corex_generated_call_cudaFreeAsync (generated_rpc_call sys) q c))
      (\<lambda>_ c. (Inr (), tombstone i (snd (view_advance sv c))))))" for e q i sv c
    by (intro same_bind) (simp_all add: stub_defs R_trans [OF R_same [OF same_advance] R_retires [OF retires_tombstone]])
  show ?thesis
    unfolding free_async_locked_def Let_def
    by (intro branch returned raised on_option R_trans [OF R_same [OF same_ordering] go] bind pool_runtime)
qed

end

section \<open>Copies and fills\<close>

context client_tables
begin

lemma on_pair_fun: "(\<And>a b. v = (a, b) \<Longrightarrow> R c (snd (f a b c'))) \<Longrightarrow> R c (snd ((case v of (a, b) \<Rightarrow> f a b) c'))"
  by (cases v) simp

lemma resolved: "R c (snd (resolved_or rr c))"
  by (auto simp: resolved_or_def R_refl R_same split: sum.split)

lemma rejected: "R c (snd (capture_reject_locked c))"
  by (simp add: capture_reject_locked_def R_same)

lemma graph_called: "R c (snd (graph_rpc sys q c))"
proof -
  obtain r c1 where r: "corex_generated_call_cudaGraphCreate (generated_rpc_call sys) q c = (r, c1)" by fastforce
  have "R c (snd (corex_generated_call_cudaGraphCreate (generated_rpc_call sys) q c))" by (rule called) (simp add: stub_defs)
  then have "R c c1" by (simp add: r)
  then show ?thesis by (auto simp: graph_rpc_def r Let_def split: option.split intro: R_trans [OF _ R_failed])
qed

lemma captured:
  assumes "\<And>c. R c (snd (params c))"
  shows "R c (snd (capture_submit_locked sys stream kind params c))"
proof -
  obtain r c1 where p: "params c = (r, c1)" by fastforce
  have c1: "R c c1" using assms [of c] p by simp
  have g: "R c c2" if "graph_rpc sys q c1 = (x, c2)" for q x c2 using R_trans [OF c1 graph_called [of c1 q]] that by simp
  show ?thesis
    by (auto simp: capture_submit_locked_def p Let_def R_refl rejected split: option.split sum.split prod.split
        intro: c1 g then_same R_trans [OF c1 rejected])
qed

lemma memset_params: "R c (snd (graph_params_memset p c))"
  by (auto simp: graph_params_memset_def Let_def R_refl R_same split: sum.split)

lemma memcpy_params: "R c (snd (graph_params_memcpy p c))"
  by (auto simp: graph_params_memcpy_def Let_def R_refl R_same split: sum.split option.split)

lemmas entry_rules = branch raised returned rejected runtime streamed buffer on_option on_pair on_pair_fun same_bind call chunked advanced captured

lemma memcpy: "R c (snd (cudaMemcpy_locked sys dst src n kind c))"
  unfolding cudaMemcpy_locked_def Let_def by (intro entry_rules bind resolved) (simp_all add: R_same)

lemma submitted_chunk: "(\<And>c. stepped sys c (f c)) \<Longrightarrow> R c (snd (submit_chunk sv f t c))"
  unfolding submit_chunk_def by (intro entry_rules R_trans [OF R_same [OF same_track] advanced])

lemma tracked: "stepped sys c x \<Longrightarrow> R c (snd (track_submitted sv t x))"
  unfolding track_submitted_def by (intro entry_rules R_trans [OF R_same [OF same_track] advanced])

lemma memcpy_async: "R c (snd (cudaMemcpyAsync_locked sys dst src n kind stream c))"
  unfolding cudaMemcpyAsync_locked_def Let_def
  by (intro entry_rules bind resolved submitted_chunk on_sum memcpy_params) (simp_all add: R_same)

lemma memcpy_2d: "R c (snd (cudaMemcpy2D_locked sys dst dp src sp w h kind c))"
  unfolding cudaMemcpy2D_locked_def Let_def by (intro entry_rules on_sum) (simp_all add: R_same)

lemma memset_2d: "R c (snd (cudaMemset2D_locked sys p pitch v w h c))"
  unfolding cudaMemset2D_locked_def by (intro entry_rules on_sum) simp

lemma memcpy_2d_async: "R c (snd (cudaMemcpy2DAsync_locked sys dst dp src sp w h kind stream c))"
  unfolding cudaMemcpy2DAsync_locked_def Let_def by (intro entry_rules on_sum tracked) (simp_all add: R_same)

lemma memset_2d_async: "R c (snd (cudaMemset2DAsync_locked sys p pitch v w h stream c))"
  unfolding cudaMemset2DAsync_locked_def by (intro entry_rules bind memset_2d)

lemma memset: "R c (snd (cudaMemset_locked sys p v n c))"
  unfolding cudaMemset_locked_def by (intro entry_rules bind resolved) simp

lemma memset_async: "R c (snd (cudaMemsetAsync_locked sys p v n stream c))"
  unfolding cudaMemsetAsync_locked_def by (intro entry_rules bind resolved memset_params) simp

lemma memset_3d: "R c (snd (cudaMemset3D_locked sys p v e stream async c))"
  unfolding cudaMemset3D_locked_def Let_def by (intro entry_rules bind resolved) (simp_all add: stub_defs)

lemma device_synchronize: "R c (snd (cudaDeviceSynchronize_locked sys c))"
  unfolding cudaDeviceSynchronize_locked_def by (intro entry_rules drains) simp

end

context client_tables
begin

lemma copy_3d_side: "R c (snd (copy3d_side remote p pos s e c))"
  unfolding copy3d_side_def host_region_def by (intro entry_rules bind resolved)

lemma copy_3d_remote: "R c (snd (copy3d_remote sys p mode dst src view c))"
proof -
  obtain did doff host_dst sid soff host_src where s: "dst = (did, doff, host_dst)" "src = (sid, soff, host_src)" by (metis prod_cases3)
  have "R c (snd (case view of None \<Rightarrow> (Inr (), case r of
                   Copied resp \<Rightarrow> if mode = 2 then scatter_rows host_dst ds dp w h d resp c else c
                 | Submitted _ \<Rightarrow> c)
             | Some sv \<Rightarrow> advance sv (case (hd, r) of
                   (Some slot, Submitted transfer) \<Rightarrow> track_transfer slot (t transfer) sv c
                 | _ \<Rightarrow> c)))" for r ds dp w h d hd t c
    by (auto simp: R_same R_refl split: option.split memcpy3d_result.split intro: advanced R_trans [OF R_same [OF same_track] advanced])
  then show ?thesis unfolding copy3d_remote_def s Let_def prod.case by (intro entry_rules) simp_all
qed

lemma memcpy_3d: "R c (snd (cudaMemcpy3D_locked sys p stream async c))"
  unfolding cudaMemcpy3D_locked_def Let_def
  by (cases async; simp only: if_True if_False; intro entry_rules bind copy_3d_side copy_3d_remote memcpy_params; simp add: R_same)

end

section \<open>Streams and events\<close>

context client_contract
begin

lemma stream_handle: "(\<And>i. R c (snd (f i c))) \<Longrightarrow> R c (snd (with_stream_handle stream f c))"
  by (auto simp: with_stream_handle_def R_same split: option.split)

lemma event_handle: "(\<And>i. R c (snd (f i c))) \<Longrightarrow> R c (snd (with_event_handle event f c))"
  by (auto simp: with_event_handle_def R_same split: option.split)

end

lemma dies_update: "dies (xs ! i) x \<Longrightarrow> list_all2 dies xs (xs[i := x])"
  by (cases "i < length xs") (auto simp: list_all2_conv_all_nth nth_list_update)

lemma dies_take: "dies (f (xs ! i)) (f x) \<Longrightarrow> list_all2 dies (map f (take n xs)) (map f (take n (xs[i := x])))"
  by (cases "i < n \<and> i < length xs") (auto simp: list_all2_conv_all_nth nth_list_update)

lemma dies_tables [simp]: "list_all2 dies es es"
  by (intro list.rel_refl) simp

lemma retires_stream:
  assumes "\<And>h. dies (stream_entry h) (stream_entry (f h))"
  shows "retires c (upd_stream_handle i f c)"
  using assms dies_take [of stream_entry "g_stream_handles c" i] 
  by (auto simp: upd_stream_handle_def retires_def tables_def sizes_def intro: list.rel_refl)

lemma retires_event:
  assumes "\<And>h. dies (event_entry h) (event_entry (f h))"
  shows "retires c (upd_event_handle i f c)"
  using assms dies_take [of event_entry "g_event_handles c" i] 
  by (auto simp: upd_event_handle_def retires_def tables_def sizes_def intro: list.rel_refl)

lemma same_next:
  assumes "same c c'"
  shows "g_stream_handle_next c' = g_stream_handle_next c" "g_event_handle_next c' = g_event_handle_next c"
    "g_module_handle_next c' = g_module_handle_next c" "g_kernel_handle_next c' = g_kernel_handle_next c"
    "g_pool_handle_next c' = g_pool_handle_next c"
  using assms by (simp_all add: same_def sizes_def)

lemma entry_new [simp]:
  "stream_entry \<lparr>sh_cookie = G6C_STREAM_COOKIE, sh_session_generation = g, sh_stream_id = i, sh_flags = fl, sh_priority = p, sh_live = True,
     sh_slot_index = s, sh_next_transfer_seq = q, sh_frontier = f\<rparr> = (True, g, i)"
  "event_entry \<lparr>eh_cookie = G6C_EVENT_COOKIE, eh_session_generation = g, eh_event_id = i, eh_flags = fl, eh_live = True,
     eh_recorded = rd, eh_frontier = f\<rparr> = (True, g, i)"
  "module_entry \<lparr>mh_cookie = G6D_MODULE_COOKIE, mh_session_generation = g, mh_module_id = i, mh_live = True, mh_library_image = li\<rparr> = (True, g, i)"
  "kernel_entry_of \<lparr>kh_cookie = G6D_KERNEL_COOKIE, kh_session_generation = g, kh_kernel_id = i, kh_module_id = m, kh_live = True,
     kh_origin = og, kh_abi_state = ab, kh_host_fun = hf, kh_registration_generation = rg, kh_args = ar, kh_name = nm\<rparr> = (True, g, i)"
  by (simp_all add: entry_defs)

context client_tables
begin

lemma new_entry:
  assumes "same c c'" "g_lifecycle c = COREX_RUNTIME_ACTIVE"
  shows "g_stream_handle_next c < G6C_MAX_STREAM_HANDLES \<Longrightarrow> stream_entry h = (True, g_active_session_generation c', x) \<Longrightarrow>
      R c' (c'\<lparr>g_stream_handles := (g_stream_handles c')[g_stream_handle_next c' := h], g_stream_handle_next := g_stream_handle_next c' + 1\<rparr>)"
    "g_event_handle_next c < G6C_MAX_EVENT_HANDLES \<Longrightarrow> event_entry e = (True, g_active_session_generation c', x) \<Longrightarrow>
      R c' (c'\<lparr>g_event_handles := (g_event_handles c')[g_event_handle_next c' := e], g_event_handle_next := g_event_handle_next c' + 1\<rparr>)"
    "g_module_handle_next c < G6D_MAX_MODULE_HANDLES \<Longrightarrow> module_entry m = (True, g_active_session_generation c', x) \<Longrightarrow>
      R c' (c'\<lparr>g_module_handles := (g_module_handles c')[g_module_handle_next c' := m], g_module_handle_next := g_module_handle_next c' + 1\<rparr>)"
    "g_kernel_handle_next c < G6D_MAX_KERNEL_HANDLES \<Longrightarrow> kernel_entry_of k = (True, g_active_session_generation c', x) \<Longrightarrow>
      R c' (c'\<lparr>g_kernel_handles := (g_kernel_handles c')[g_kernel_handle_next c' := k], g_kernel_handle_next := g_kernel_handle_next c' + 1\<rparr>)"
  by (rule R_append [OF appends_stream] R_append [OF appends_event] R_append [OF appends_module] R_append [OF appends_kernel];
      (assumption | use assms(2) same_next [OF assms(1)] same_ready [OF assms(1)] in simp))+

lemma framed:
  assumes "\<And>f c'. same c c' \<Longrightarrow> R c' (snd (g f c'))"
  shows "R c (snd (with_frontier sys g c))"
  unfolding with_frontier_def using assms by (intro buffer) (simp add: same_quiet)

lemma stream_create: "R c (snd (cudaStreamCreate_impl_locked sys p flags priority wp c))"
proof -
  have go: "R c' (snd (let i = g_stream_handle_next c' in (Inr i, c'\<lparr>g_stream_handles := (g_stream_handles c')[i := \<lparr>sh_cookie = G6C_STREAM_COOKIE,
        sh_session_generation = g_active_session_generation c', sh_stream_id = stream_id, sh_flags = flags, sh_priority = priority, sh_live = True,
        sh_slot_index = i, sh_next_transfer_seq = 0, sh_frontier = Some frontier\<rparr>], g_stream_handle_next := i + 1\<rparr>)))"
    if "g_lifecycle c = COREX_RUNTIME_ACTIVE" "\<not> g_stream_handle_next c \<ge> G6C_MAX_STREAM_HANDLES" "same c c1" "same c1 c'" for c c1 c' stream_id frontier
    using that same_trans [OF that(3,4)] by (simp add: Let_def new_entry(1) [of c] del: One_nat_def add_Suc_right)
  show ?thesis
    unfolding cudaStreamCreate_impl_locked_def
    by (intro branch raised runtime framed same_bind; (rule go; assumption)?; simp)
qed

lemma event_new:
  assumes "g_lifecycle c = COREX_RUNTIME_ACTIVE" "\<not> g_event_handle_next c \<ge> G6C_MAX_EVENT_HANDLES" "same c c1" "same c1 c'"
  shows "R c' (snd (new_event event_id flags frontier c'))"
  using assms same_trans [OF assms(3,4)] by (simp add: new_event_def Let_def new_entry(2) [of c] del: One_nat_def add_Suc_right)

lemma event_create: "R c (snd (cudaEventCreate_locked sys p c))" "R c (snd (cudaEventCreateWithFlags_locked sys p flags c))"
  unfolding cudaEventCreate_locked_def cudaEventCreateWithFlags_locked_def
  by (intro branch raised runtime framed same_bind; (rule event_new; assumption)?; simp)+

end

context client_tables
begin

lemma stream_synced: "R c (snd (sync_stream sys i c))"
  unfolding sync_stream_def by (intro same_bind drains) simp

lemma event_synced: "R c (snd (sync_event sys i c))"
  unfolding sync_event_def by (intro same_bind drains) simp

lemma stream_destroy: "R c (snd (cudaStreamDestroy_locked sys stream c))"
  unfolding cudaStreamDestroy_locked_def Let_def
  by (intro runtime stream_handle bind [OF stream_synced] same_bind)
    (auto simp: dies_def stream_entry_def intro!: R_retires retires_stream)

lemma stream_synchronize: "R c (snd (cudaStreamSynchronize_locked sys stream c))"
  unfolding cudaStreamSynchronize_locked_def by (intro runtime branch stream_handle same_bind drains stream_synced) simp

lemma stream_get: "R c (snd (cudaStreamGetFlags_locked sys stream p c))" "R c (snd (cudaStreamGetPriority_locked sys stream p c))"
  unfolding cudaStreamGetFlags_locked_def cudaStreamGetPriority_locked_def by (intro branch raised runtime stream_handle call; simp)+

lemma query_answered: "R c (snd (query_outcome sys f state c))"
  unfolding query_outcome_def by (intro branch raised returned bind drained_if_ready)

lemma stream_query: "R c (snd (cudaStreamQuery_locked sys stream c))"
  unfolding cudaStreamQuery_locked_def by (intro runtime streamed same_bind query_answered) simp

lemma event_elapsed: "R c (snd (cudaEventElapsedTime_locked sys p s e c))"
  unfolding cudaEventElapsedTime_locked_def by (intro branch raised runtime on_pair on_option call) simp

lemma event_destroy: "R c (snd (cudaEventDestroy_locked sys event c))"
proof -
  have "R c (snd (if b then sync_event sys i c else (Inr (), c)))" for b i c by (simp add: event_synced R_refl)
  then show ?thesis
    unfolding cudaEventDestroy_locked_def Let_def
    by (intro runtime event_handle bind same_bind) (auto simp: dies_def event_entry_def intro!: R_retires retires_event)
qed

lemma event_record: "R c (snd (cudaEventRecord_locked sys event stream c))"
  unfolding cudaEventRecord_locked_def
  by (intro runtime event_handle streamed same_bind) (auto simp: event_entry_def intro!: R_same same_upd_event)

lemma event_synchronize: "R c (snd (cudaEventSynchronize_locked sys event c))"
  unfolding cudaEventSynchronize_locked_def by (intro runtime event_handle event_synced)

lemma event_query: "R c (snd (cudaEventQuery_locked sys event c))"
  unfolding cudaEventQuery_locked_def by (intro runtime event_handle same_bind query_answered) simp

lemma stream_wait_event: "R c (snd (cudaStreamWaitEvent_locked sys stream event flags c))"
  unfolding cudaStreamWaitEvent_locked_def
  by (intro branch raised runtime event_handle streamed same_bind) (auto split: option.split bool.split intro: R_same R_refl)

end

section \<open>Queries\<close>

lemma stepped_by_pci_bus_id [simp]: "stepped sys c (remote_device_get_by_pci_bus_id sys t c)"
  unfolding remote_device_get_by_pci_bus_id_def by (intro stepped_ifI; simp add: stub_defs)

lemma stepped_function_attributes [simp]: "stepped sys c (remote_function_attributes sys k c)"
proof -
  obtain r c1 where r: "corex_generated_call_cudaFuncGetAttributes (generated_rpc_call sys) k c = (r, c1)" by fastforce
  have "stepped sys c (corex_generated_call_cudaFuncGetAttributes (generated_rpc_call sys) k c)" by (simp add: stub_defs)
  then have "stepped sys c (r, c1)" by (simp only: r)
  then have "r = None \<or> quiet c c1" "stepped sys c (None :: cudaFuncAttributes option, c1)" by (auto simp: stepped_def)
  then show ?thesis
    unfolding remote_function_attributes_def r by (intro stepped_ifI stepped_expect stepped_rpc) (auto split: option.split)
qed

context client_tables
begin

lemma queried_entry: "(\<And>c. stepped sys c (f c)) \<Longrightarrow> R c (snd (query_entry sys bad e f c))"
  unfolding query_entry_def by (intro branch raised runtime call)

lemma kernel_queried: "(\<And>k c. stepped sys c (f k c)) \<Longrightarrow> R c (snd (kernel_entry sys func bad e f c))"
  unfolding kernel_entry_def by (intro branch raised runtime on_option call)

lemma device_queries:
  "R c (snd (corexRemoteGetDeviceInfoInternal_locked sys d p c))" "R c (snd (cudaGetDeviceCount_locked sys p c))"
  "R c (snd (cudaGetDevice_locked sys p c))" "R c (snd (cudaSetDevice_locked sys d c))"
  "R c (snd (cudaDriverGetVersion_locked sys p c))" "R c (snd (cudaRuntimeGetVersion_locked sys p c))"
  "R c (snd (cudaDeviceGetAttribute_locked sys p a d c))" "R c (snd (cudaDeviceGetPCIBusId_locked sys p len d c))"
  "R c (snd (cudaDeviceGetByPCIBusId_locked sys p t c))" "R c (snd (cudaGetDeviceFlags_locked sys p c))"
  "R c (snd (cudaDeviceGetStreamPriorityRange_locked sys p q c))" "R c (snd (cudaDeviceGetLimit_locked sys p l c))"
  "R c (snd (cudaDeviceGetCacheConfig_locked sys p c))" "R c (snd (cudaDeviceGetSharedMemConfig_locked sys p c))"
  unfolding corexRemoteGetDeviceInfoInternal_locked_def cudaGetDeviceCount_locked_def cudaGetDevice_locked_def cudaSetDevice_locked_def
    cudaDriverGetVersion_locked_def cudaRuntimeGetVersion_locked_def cudaDeviceGetAttribute_locked_def cudaDeviceGetPCIBusId_locked_def
    cudaDeviceGetByPCIBusId_locked_def cudaGetDeviceFlags_locked_def cudaDeviceGetStreamPriorityRange_locked_def cudaDeviceGetLimit_locked_def
    cudaDeviceGetCacheConfig_locked_def cudaDeviceGetSharedMemConfig_locked_def
  by (intro branch raised runtime returned on_option queried_entry same_bind call; simp add: R_same raise_def)+

lemma function_queries:
  "R c (snd (cudaFuncGetAttributes_locked sys p func c))" "R c (snd (cudaFuncSetAttribute_locked sys func a v c))"
  "R c (snd (cudaFuncSetCacheConfig_locked sys func cfg c))" "R c (snd (cudaFuncSetSharedMemConfig_locked sys func cfg c))"
  "R c (snd (cudaOccupancy_locked sys p func b n c))" "R c (snd (cudaOccupancyFlags_locked sys p func b n fl c))"
  "R c (snd (cudaOccupancyPotential_locked sys p q func n b c))"
  unfolding cudaFuncGetAttributes_locked_def cudaFuncSetAttribute_locked_def cudaFuncSetCacheConfig_locked_def
    cudaFuncSetSharedMemConfig_locked_def cudaOccupancy_locked_def cudaOccupancyFlags_locked_def cudaOccupancyPotential_locked_def
  by (intro kernel_queried; simp add: stub_defs)+

end

section \<open>Modules and kernels\<close>

context client_tables
begin

lemma call_else_ok:
  assumes "stepped sys c x" "\<And>v c'. same c c' \<Longrightarrow> R c' (snd (f v c'))"
  shows "R c (snd (result_bind (call_else e x) f))"
proof -
  obtain r c1 where x: "x = (r, c1)" by fastforce
  have "R c c1" using called [OF assms(1)] x by simp
  moreover have "R c1 (snd (f v c1))" if "r = Some v" for v using assms x that by (auto simp: stepped_def intro: same_quiet)
  ultimately show ?thesis by (auto simp: call_else_def x split: option.split intro: R_trans)
qed

lemma noted: "R c (snd x) \<Longrightarrow> R c (snd (recorded x))"
  by (cases x) (auto simp: recorded_def split: sum.split intro: then_same)

lemma module_loaded: "g_lifecycle c = COREX_RUNTIME_ACTIVE \<Longrightarrow> R c (snd (module_load_bytes_after_runtime sys n img c))"
  unfolding module_load_bytes_after_runtime_def Let_def
  by (intro branch returned call_else_ok) (auto intro!: new_entry(3) [simplified] simp: not_le)

end

lemma nth_map_upto: "i < length xs \<Longrightarrow> map_upto m g xs ! i = (if i < m then g (xs ! i) else xs ! i)"
  by (simp add: map_upto_def nth_append)

lemma dies_upto: "(\<And>h. dies (f h) (f (g h))) \<Longrightarrow> list_all2 dies (map f (take n xs)) (map f (take n (map_upto m g xs)))"
  by (auto simp: list_all2_conv_all_nth nth_map_upto)

lemma dies_trans: "dies a b \<Longrightarrow> dies b c \<Longrightarrow> dies a c"
  by (auto simp: dies_def)

lemma retires_trans: "retires a b \<Longrightarrow> retires b c \<Longrightarrow> retires a c"
  unfolding retires_def
  by (auto intro: list_all2_trans [OF alloc_dies_trans] list_all2_trans [OF list_all2_trans [OF dies_trans]])

lemma retires_module:
  "retires c (c\<lparr>g_module_handles := (g_module_handles c)[i := (g_module_handles c ! i)\<lparr>mh_library_image := None, mh_live := False, mh_module_id := 0\<rparr>]\<rparr>)"
  using dies_take [of module_entry "g_module_handles c" i]
  by (auto simp: retires_def tables_def sizes_def dies_def module_entry_def intro: list.rel_refl)

lemma retires_module_kernels: "retires c (invalidate_local_module_kernels m c)"
proof -
  have "dies (kernel_entry_of h) (kernel_entry_of (if kh_live h \<and> kh_module_id h = m then h\<lparr>kh_live := False, kh_kernel_id := 0\<rparr> else h))" for h
    by (simp add: dies_def kernel_entry_of_def)
  from dies_upto [of kernel_entry_of, OF this] show ?thesis
    by (auto simp: invalidate_local_module_kernels_def retires_def tables_def sizes_def intro: list.rel_refl)
qed

context client_tables
begin

lemma symbols_drained: "R c (snd (drain_module_symbols sys m ks c))"
proof (induction ks arbitrary: c)
  case (Cons i ks)
  show ?case unfolding drain_module_symbols.simps by (intro branch bind drains Cons)
qed (simp add: R_refl)

lemma module_unloaded: "R c (snd (module_unload_after_runtime sys h c))"
proof -
  have go: "R c (snd (let c = invalidate_local_module_kernels m c
      in (Inr (), c\<lparr>g_allocs := map (\<lambda>a. if module_symbol m c a then a\<lparr>va_live := False\<rparr> else a) (g_allocs c),
            g_module_handles := (g_module_handles c)[i := (g_module_handles c ! i)\<lparr>mh_library_image := None, mh_live := False, mh_module_id := 0\<rparr>]\<rparr>)))"
    for m i c
  proof -
    let ?c1 = "invalidate_local_module_kernels m c"
    let ?c2 = "?c1\<lparr>g_allocs := map (\<lambda>a. if module_symbol m ?c1 a then a\<lparr>va_live := False\<rparr> else a) (g_allocs ?c1)\<rparr>"
    have "retires ?c1 ?c2" by (intro retires_allocs alloc_dies_map) (simp add: alloc_dies_def)
    from R_retires [OF retires_trans [OF retires_trans [OF retires_module_kernels this] retires_module [of ?c2 i]]] show ?thesis
      by (simp add: Let_def)
  qed
  show ?thesis
    unfolding module_unload_after_runtime_def Let_def
    by (intro on_option returned bind symbols_drained call_else_ok go [unfolded Let_def]) simp
qed

lemma module_load: "R c (snd (corexRemoteModuleLoad_locked sys path file p c))"
  unfolding corexRemoteModuleLoad_locked_def
  by (intro on_option branch raised returned runtime bind noted module_loaded)

lemma module_unload: "R c (snd (corexRemoteModuleUnload_locked sys h c))"
  unfolding corexRemoteModuleUnload_locked_def by (intro runtime noted module_unloaded)

lemma kernel_bound:
  "g_lifecycle c = COREX_RUNTIME_ACTIVE \<Longrightarrow> R c (snd (bind_kernel_identity_after_runtime sys mh n og hf rg c))"
  unfolding bind_kernel_identity_after_runtime_def Let_def
  by (intro branch returned on_option call_else_ok) (auto intro!: new_entry(4) [simplified] simp: not_le)

lemma kernel_register: "R c (snd (corexRemoteRegisterKernel_locked sys h n args p c))"
  unfolding corexRemoteRegisterKernel_locked_def
  by (intro on_pair on_option branch raised returned runtime bind noted kernel_bound)
    (auto simp: kernel_entry_of_def intro!: R_same same_upd_kernel)

end

section \<open>Registration by compiled code\<close>

context client_tables
begin

lemma kept_hidden: "R c (snd (f c)) \<Longrightarrow> R c (snd (hidden f c))"
  by (cases "f c") (auto simp: hidden_def g7c_restore_hidden_error_state_def intro: then_same)

lemma runtime_if: "(\<And>c'. g_lifecycle c' = COREX_RUNTIME_ACTIVE \<Longrightarrow> R c' (snd (f c'))) \<Longrightarrow> R c (snd (if_runtime sys f c))"
proof -
  assume f: "\<And>c'. g_lifecycle c' = COREX_RUNTIME_ACTIVE \<Longrightarrow> R c' (snd (f c'))"
  obtain init c1 where e: "ensure_runtime_locked sys c = (init, c1)" by fastforce
  have "R c c1" using R_runtime [of c] e by simp
  moreover have "R c1 (snd (f c1))" if "init = cudaSuccess" using f ensure_ready e that by blast
  ultimately show ?thesis by (auto simp: if_runtime_def e intro: R_trans)
qed

lemma updated: "R c c1 \<Longrightarrow> R c (upd_registration i f c1)"
  by (auto intro: then_same)

lemma fat_binary: "R c (snd (cudaRegisterFatBinary_locked sys objects p c))"
proof -
  have load: "R c1 (snd (g7c_hidden_module_load_bytes sys n img c1))" for n img c1
    unfolding g7c_hidden_module_load_bytes_def by (intro kept_hidden runtime_if module_loaded)
  have go: "R c (snd (case g7c_hidden_module_load_bytes sys n img c1 of
        (Inl e, c) \<Rightarrow> registration_failed i e 0 c
      | (Inr m, c) \<Rightarrow>
          let c = upd_registration i (\<lambda>r. r\<lparr>rg_remote_module := Some m\<rparr>) c
          in case resolve_module_handle (Some m) c of
               None \<Rightarrow> registration_failed i cudaErrorUnknown 0 c
             | Some m \<Rightarrow> (Some i, upd_registration i (\<lambda>r. r\<lparr>rg_module_id_snapshot := mh_module_id (g_module_handles c ! m),
                    rg_session_generation := g_active_session_generation c, rg_state := G7C_REG_REMOTE_READY\<rparr>) c)))"
    if "R c c1" for n img i c1
    using R_trans [OF that load [of c1 n img]]
    by (auto simp: registration_failed_def Let_def split: prod.split sum.split option.split intro!: updated)
  show ?thesis
    unfolding cudaRegisterFatBinary_locked_def Let_def
    by (auto simp: registration_failed_def R_refl R_same split: parse.split sum.split intro!: go [unfolded Let_def])
qed

lemma placed_before:
  assumes "find_free_slot c = Some slot" "arena_span n c = Some span" "g_lifecycle c = COREX_RUNTIME_ACTIVE" "same c c'" "fresh_alloc c' n a"
  shows "R c' (put_alloc slot a span c')"
  using assms same_slots(2) [OF assms(4)] by (intro placed) simp_all

lemma symbol_registered: "R c (snd (register_symbol sys m hv n bytes c))"
  unfolding register_symbol_def
  by (intro runtime_if on_pair on_option returned call_else_ok on_pair_fun branch)
    (auto simp: stub_defs fresh_alloc_def intro!: placed_before)

lemma register_var: "R c (cudaRegisterVar_locked sys handle hv n bytes c)"
  by (auto simp: cudaRegisterVar_locked_def Let_def R_refl split: option.split intro!: kept_hidden symbol_registered)

lemma abi_attached: "R c (snd (g7e_attach_compiler_abi_from_metadata sys img kh n c))"
proof -
  have keep: "same c1 (upd_kernel kh (\<lambda>h. h\<lparr>kh_abi_state := s\<rparr>) c1)" "same c1 (upd_kernel kh (\<lambda>h. h\<lparr>kh_args := d, kh_abi_state := s\<rparr>) c1)" for s d c1
    by (auto simp: kernel_entry_of_def intro!: same_upd_kernel)
  have "same c (snd (kernel_abi sys img n c))"
    by (auto simp: kernel_abi_def Let_def case_prod_beta split: parse.split option.split)
  then have "same c c1" if "kernel_abi sys img n c = (r, c1)" for r c1 using that by simp
  then show ?thesis
    by (auto simp: g7e_attach_compiler_abi_from_metadata_def Let_def R_refl split: prod.split sum.split
        intro!: R_same keep intro: same_trans [OF _ keep(1)] same_trans [OF _ keep(2)])
qed

lemma register_function: "R c (cudaRegisterFunction_locked sys handle hf n c)"
proof -
  have go: "R c (case hidden (if_runtime sys (bind_kernel_identity_after_runtime sys mh name og hf rg)) c1 of
      (Inl _, c) \<Rightarrow> c
    | (Inr kh, c) \<Rightarrow> snd (g7e_attach_compiler_abi_from_metadata sys (registered_image (g_registrations c ! r) c) kh name c))" if "R c c1" for mh name og rg r c1
  proof -
    have "R c1 (snd (hidden (if_runtime sys (bind_kernel_identity_after_runtime sys mh name og hf rg)) c1))"
      by (intro kept_hidden runtime_if kernel_bound)
    with that show ?thesis by (auto split: prod.split sum.split intro: R_trans R_trans [OF R_trans abi_attached])
  qed
  show ?thesis
    by (auto simp: cudaRegisterFunction_locked_def Let_def R_refl R_same split: option.split intro!: go)
qed

lemma fat_binary_end: "R c (cudaRegisterFatBinaryEnd_locked handle c)"
  by (auto simp: cudaRegisterFatBinaryEnd_locked_def R_refl R_same split: option.split)

lemma registration_unloaded: "R c (unload_registration sys i c)"
proof -
  have "R c (snd (g7c_hidden_module_unload sys h c))" for h
    unfolding g7c_hidden_module_unload_def by (intro kept_hidden module_unloaded)
  then have "R c c1" if "g7c_hidden_module_unload sys h c = (x, c1)" for h x c1 using that by (metis snd_conv)
  then show ?thesis
    by (auto simp: unload_registration_def Let_def R_refl R_same split: prod.split sum.split intro!: updated)
qed

lemma unregister: "R c (cudaUnregisterFatBinary_locked sys handle c)"
  by (auto simp: cudaUnregisterFatBinary_locked_def R_refl registration_unloaded split: option.split)

lemma registrations_cleaned: "R c (g7c_cleanup_registrations_before_runtime_shutdown sys c)"
proof -
  have "R c (foldl (\<lambda>c r. if rg_cookie (g_registrations c ! r) \<noteq> G7C_REG_COOKIE then c else unload_registration sys r c) c rs)" for rs c
    by (induction rs arbitrary: c) (auto simp: R_refl intro: R_trans [OF registration_unloaded])
  then show ?thesis by (simp add: g7c_cleanup_registrations_before_runtime_shutdown_def)
qed

end

section \<open>Launching a kernel\<close>

context client_tables
begin

lemma launch_serialized: "R c (snd (serialize_kernel_launch sys func g b args m sid gr c))"
  unfolding serialize_kernel_launch_def Let_def by (intro on_option branch raised returned buffer on_sum)

lemma kernel_params: "R c (snd (graph_params_kernel sys func g b args m c))"
  unfolding graph_params_kernel_def Let_def case_prod_beta
  by (intro bind launch_serialized) (simp add: R_refl R_same)

lemma launch: "R c (snd (cudaLaunchKernel_locked sys func g b args m stream c))"
  unfolding cudaLaunchKernel_locked_def
  by (intro branch rejected captured kernel_params runtime streamed bind launch_serialized call) (simp add: stepped_discard stepped_rpc)

end

end
