(* ===== verification/Client_Objects.thy ===== *)
theory Client_Objects
  imports Client_Kernels
begin

text \<open>
  More objects of the client (\<^verbatim>\<open>src/corex_remote_cuda.c\<close>): device settings and stream attributes, memory
  pools, the symbols and libraries of modules, host functions, and the reset of the device. A pool
  handle, like every other handle, is a position in a table that only grows.
\<close>

section \<open>Device settings\<close>

definition set_entry :: "system \<Rightarrow> bool \<Rightarrow> (client \<Rightarrow> 'a option \<times> client) \<Rightarrow> client \<Rightarrow> unit result" where
  "set_entry sys bad f c =
     (if bad then raise cudaErrorInvalidValue c
      else with_runtime sys (\<lambda>c. result_bind (call_or cudaErrorNotSupported (f c)) (\<lambda>_ c. (Inr (), c))) c)"

definition cudaDeviceSetLimit_locked :: "system \<Rightarrow> int \<Rightarrow> u64 \<Rightarrow> client \<Rightarrow> unit result" where
  "cudaDeviceSetLimit_locked sys limit value c =
     set_entry sys (limit < 0 \<or> limit > 6) (corex_generated_call_cudaDeviceSetLimit (generated_rpc_call sys) (of_int limit, value)) c"

definition cudaDeviceSetCacheConfig_locked :: "system \<Rightarrow> int \<Rightarrow> client \<Rightarrow> unit result" where
  "cudaDeviceSetCacheConfig_locked sys config c =
     set_entry sys (config < 0 \<or> config > 3) (corex_generated_call_cudaDeviceSetCacheConfig (generated_rpc_call sys) (of_int config)) c"

definition cudaDeviceSetSharedMemConfig_locked :: "system \<Rightarrow> int \<Rightarrow> client \<Rightarrow> unit result" where
  "cudaDeviceSetSharedMemConfig_locked sys config c =
     set_entry sys (config < 0 \<or> config > 2) (corex_generated_call_cudaDeviceSetSharedMemConfig (generated_rpc_call sys) (of_int config)) c"

definition cudaSetValidDevices :: "system \<Rightarrow> int list option \<Rightarrow> int \<Rightarrow> client \<Rightarrow> unit result" where
  "cudaSetValidDevices sys devices len c =
     (if len < 0 \<or> len > 1 \<or> len \<noteq> 0 \<and> devices = None then raise cudaErrorInvalidValue c
      else case devices of
             Some (d # _) \<Rightarrow> if len \<noteq> 0 \<and> d \<noteq> 0 then raise cudaErrorInvalidDevice c else cudaSetDevice_locked sys 0 c
           | _ \<Rightarrow> cudaSetDevice_locked sys 0 c)"

definition cudaSetDeviceFlags :: "system \<Rightarrow> u32 \<Rightarrow> client \<Rightarrow> unit result" where
  "cudaSetDeviceFlags sys flags c =
     with_runtime sys (\<lambda>c. result_bind (call_or cudaErrorInvalidValue
       (corex_generated_call_cudaSetDeviceFlags (generated_rpc_call sys) flags c)) (\<lambda>_ c. (Inr (), c))) c"

text \<open>The end of the runtime, behind a synchronisation whose error is what the caller gets.\<close>

definition cudaDeviceReset :: "system \<Rightarrow> client \<Rightarrow> unit result" where
  "cudaDeviceReset sys c =
     (let (r, c) = (if g_lifecycle c = COREX_RUNTIME_ACTIVE
                    then (case cudaDeviceSynchronize_locked sys c of (r, c) \<Rightarrow> (r, corexRemoteRuntimeShutdown_locked sys c))
                    else (Inr (), c))
      in recorded (r, c\<lparr>g_current_device := 0\<rparr>))"

section \<open>Stream attributes\<close>

text \<open>The stream of a call: \<^const>\<open>None\<close> is the default stream, which always resolves.\<close>

definition named_stream :: "nat option \<Rightarrow> client \<Rightarrow> u64 result" where
  "named_stream stream c =
     (case stream of
        None \<Rightarrow> (Inr 0, c)
      | Some _ \<Rightarrow> with_stream_handle stream (\<lambda>i c. (Inr (sh_stream_id (g_stream_handles c ! i)), c)) c)"

definition cudaStreamCopyAttributes_locked :: "system \<Rightarrow> nat option \<Rightarrow> nat option \<Rightarrow> client \<Rightarrow> unit result" where
  "cudaStreamCopyAttributes_locked sys dst src c =
     with_runtime sys (\<lambda>c. result_bind (named_stream dst c) (\<lambda>d c. result_bind (named_stream src c) (\<lambda>s c.
       result_bind (call_or cudaErrorNotSupported (corex_generated_call_cudaStreamCopyAttributes (generated_rpc_call sys) (d, s) c))
         (\<lambda>_ c. (Inr (), c))))) c"

record cudaAccessPolicyWindow =
  aw_base_ptr :: u64
  aw_num_bytes :: u64
  aw_hitRatio :: u32
  aw_hitProp :: u32
  aw_missProp :: u32

text \<open>The two readings of the union; the ratio is a float, here its bits.\<close>

record cudaStreamAttrValue =
  av_accessPolicyWindow :: cudaAccessPolicyWindow
  av_syncPolicy :: u32

definition zero_window :: cudaAccessPolicyWindow where
  "zero_window = \<lparr>aw_base_ptr = 0, aw_num_bytes = 0, aw_hitRatio = 0, aw_hitProp = 0, aw_missProp = 0\<rparr>"

text \<open>The address of the window the server names by allocation and offset.\<close>

definition window_base :: "u64 \<Rightarrow> u64 \<Rightarrow> u64 \<Rightarrow> client \<Rightarrow> u64 option" where
  "window_base allocation offset bytes c =
     (if allocation \<noteq> 0
      then (case find (\<lambda>a. current_alloc c a \<and> va_allocation_id a = allocation) (g_allocs c) of
              None \<Rightarrow> None
            | Some a \<Rightarrow> if offset > va_size a \<or> bytes > va_size a - offset then None else Some (va_virtual_base a + offset))
      else if offset \<noteq> 0 \<or> bytes \<noteq> 0 then None else Some 0)"

definition cudaStreamGetAttribute_locked :: "system \<Rightarrow> nat option \<Rightarrow> int \<Rightarrow> u64 \<Rightarrow> client \<Rightarrow> (cudaAccessPolicyWindow + u32) result" where
  "cudaStreamGetAttribute_locked sys stream attr value c =
     (if value = 0 \<or> attr \<noteq> 1 \<and> attr \<noteq> 3 then raise cudaErrorInvalidValue c
      else with_runtime sys (\<lambda>c. result_bind (named_stream stream c) (\<lambda>sid c.
        result_bind (call_or cudaErrorNotSupported
            (corex_generated_call_cudaStreamGetAttribute (generated_rpc_call sys) (sid, of_int attr) c))
          (\<lambda>(allocation, offset, bytes, hit_ratio_bits, hit_property, miss_property, sync_policy) c.
            if attr = 1
            then (case window_base allocation offset bytes c of
                    None \<Rightarrow> raise cudaErrorUnknown c
                  | Some base \<Rightarrow> (Inr (Inl \<lparr>aw_base_ptr = base, aw_num_bytes = bytes, aw_hitRatio = hit_ratio_bits,
                                  aw_hitProp = hit_property, aw_missProp = miss_property\<rparr>), c))
            else (Inr (Inr sync_policy), c)))) c)"

definition window_range :: "cudaAccessPolicyWindow \<Rightarrow> client \<Rightarrow> (u64 \<times> u64) result" where
  "window_range w c =
     (if aw_base_ptr w \<noteq> 0 then resolved_or (resolve_remote_ptr (aw_base_ptr w) (aw_num_bytes w) c) c
      else if aw_num_bytes w \<noteq> 0 then raise cudaErrorInvalidValue c else (Inr (0, 0), c))"

definition cudaStreamSetAttribute_locked :: "system \<Rightarrow> nat option \<Rightarrow> int \<Rightarrow> cudaStreamAttrValue option \<Rightarrow> client \<Rightarrow> unit result" where
  "cudaStreamSetAttribute_locked sys stream attr value c =
     (case value of
        None \<Rightarrow> raise cudaErrorInvalidValue c
      | Some v \<Rightarrow>
          if attr \<noteq> 1 \<and> attr \<noteq> 3 then raise cudaErrorInvalidValue c
          else with_runtime sys (\<lambda>c. result_bind (named_stream stream c) (\<lambda>sid c.
            result_bind
              (if attr = 1
               then result_bind (window_range (av_accessPolicyWindow v) c) (\<lambda>(allocation, offset) c.
                      let w = av_accessPolicyWindow v
                      in (Inr (sid, of_int attr, allocation, offset, aw_num_bytes w, aw_hitRatio w, aw_hitProp w, aw_missProp w, 0), c))
               else (Inr (sid, of_int attr, 0, 0, 0, 0, 0, 0, av_syncPolicy v), c))
              (\<lambda>request c. result_bind (call_or cudaErrorNotSupported
                 (corex_generated_call_cudaStreamSetAttribute (generated_rpc_call sys) request c)) (\<lambda>_ c. (Inr (), c))))) c)"

section \<open>Memory pools\<close>

definition remember_pool :: "u64 \<Rightarrow> client \<Rightarrow> nat result" where
  "remember_pool pid c =
     (case find (\<lambda>i. ph_live (g_pool_handles c ! i) \<and> ph_session_generation (g_pool_handles c ! i) = g_active_session_generation c \<and>
              ph_pool_id (g_pool_handles c ! i) = pid) [0..<g_pool_handle_next c] of
        Some i \<Rightarrow> (Inr i, c)
      | None \<Rightarrow>
          if g_pool_handle_next c = COREX_MAX_POOL_HANDLES then raise cudaErrorMemoryAllocation c
          else let i = g_pool_handle_next c
               in (Inr i, c\<lparr>g_pool_handles := (g_pool_handles c)[i := \<lparr>ph_session_generation = g_active_session_generation c,
                     ph_pool_id = pid, ph_live = True\<rparr>], g_pool_handle_next := i + 1\<rparr>))"

definition device_pool_locked :: "system \<Rightarrow> u64 \<Rightarrow> u32 \<Rightarrow> bool \<Rightarrow> client \<Rightarrow> nat result" where
  "device_pool_locked sys pool device is_default c =
     (if pool = 0 then raise cudaErrorInvalidValue c
      else if device \<noteq> 0 then raise cudaErrorInvalidDevice c
      else result_bind (pool_runtime_locked sys c) (\<lambda>_ c.
        result_bind (call_or cudaErrorUnknown
            (if is_default then corex_generated_call_cudaDeviceGetDefaultMemPool (generated_rpc_call sys) device c
             else corex_generated_call_cudaDeviceGetMemPool (generated_rpc_call sys) device c)) remember_pool))"

text \<open>A call on a pool the application names.\<close>

definition on_pool :: "system \<Rightarrow> nat option \<Rightarrow> (nat \<Rightarrow> u64 \<Rightarrow> client \<Rightarrow> 'a result) \<Rightarrow> client \<Rightarrow> 'a result" where
  "on_pool sys pool f c =
     result_bind (pool_runtime_locked sys c) (\<lambda>_ c.
       case resolve_pool_handle pool c of
         None \<Rightarrow> raise cudaErrorInvalidResourceHandle c
       | Some i \<Rightarrow> f i (ph_pool_id (g_pool_handles c ! i)) c)"

definition set_device_pool_locked :: "system \<Rightarrow> u32 \<Rightarrow> nat option \<Rightarrow> client \<Rightarrow> unit result" where
  "set_device_pool_locked sys device pool c =
     (if device \<noteq> 0 then raise cudaErrorInvalidDevice c
      else on_pool sys pool (\<lambda>_ pid c. result_bind (call_or cudaErrorUnknown
        (corex_generated_call_cudaDeviceSetMemPool (generated_rpc_call sys) (device, pid) c)) (\<lambda>_ c. (Inr (), c))) c)"

record cudaMemLocation =
  ml_type :: u32
  ml_id :: u32

record cudaMemPoolProps =
  pr_allocType :: u32
  pr_handleTypes :: u32
  pr_location :: cudaMemLocation
  pr_win32SecurityAttributes :: u64
  pr_reserved :: bytes

definition pool_create_locked :: "system \<Rightarrow> u64 \<Rightarrow> cudaMemPoolProps option \<Rightarrow> client \<Rightarrow> nat result" where
  "pool_create_locked sys pool props c =
     (case props of
        None \<Rightarrow> raise cudaErrorInvalidValue c
      | Some p \<Rightarrow>
          if pool = 0 \<or> pr_allocType p \<noteq> 1 \<or> ml_type (pr_location p) \<noteq> 1 \<or> pr_win32SecurityAttributes p \<noteq> 0
          then raise cudaErrorInvalidValue c
          else if ml_id (pr_location p) \<noteq> 0 then raise cudaErrorInvalidDevice c
          else if \<not> list_all (\<lambda>b. b = 0) (pr_reserved p) then raise cudaErrorInvalidValue c
          else if pr_handleTypes p \<noteq> 0 then raise cudaErrorNotSupported c
          else result_bind (pool_runtime_locked sys c) (\<lambda>_ c.
            if g_pool_handle_next c = COREX_MAX_POOL_HANDLES then raise cudaErrorMemoryAllocation c
            else result_bind (call_or cudaErrorMemoryAllocation (corex_generated_call_cudaMemPoolCreate (generated_rpc_call sys)
                (pr_allocType p, ml_type (pr_location p), 0) c)) remember_pool))"

definition upd_pool_handle :: "nat \<Rightarrow> (corexCudaPoolHandle \<Rightarrow> corexCudaPoolHandle) \<Rightarrow> client \<Rightarrow> client" where
  "upd_pool_handle i f c = c\<lparr>g_pool_handles := (g_pool_handles c)[i := f (g_pool_handles c ! i)]\<rparr>"

definition pool_destroy_locked :: "system \<Rightarrow> nat option \<Rightarrow> client \<Rightarrow> unit result" where
  "pool_destroy_locked sys pool c =
     on_pool sys pool (\<lambda>i pid c. result_bind (call_or cudaErrorUnknown
       (corex_generated_call_cudaMemPoolDestroy (generated_rpc_call sys) pid c)) (\<lambda>_ c.
         (Inr (), upd_pool_handle i (\<lambda>p. p\<lparr>ph_live := False\<rparr>) c))) c"

definition pool_trim_locked :: "system \<Rightarrow> nat option \<Rightarrow> u64 \<Rightarrow> client \<Rightarrow> unit result" where
  "pool_trim_locked sys pool bytes c =
     on_pool sys pool (\<lambda>_ pid c. result_bind (call_or cudaErrorUnknown
       (corex_generated_call_cudaMemPoolTrimTo (generated_rpc_call sys) (pid, bytes) c)) (\<lambda>_ c. (Inr (), c))) c"

text \<open>
  The first three attributes are an \<open>int\<close> in the memory of the caller, the others 64-bit numbers; both
  are little-endian.
\<close>

definition load_le :: "nat \<Rightarrow> u64 \<Rightarrow> client \<Rightarrow> u64" where
  "load_le n p c = horner_sum ucast (256 :: u64) (host_load p n c)"

definition store_le :: "nat \<Rightarrow> u64 \<Rightarrow> u64 \<Rightarrow> client \<Rightarrow> client" where
  "store_le n p v c = host_store p (map (\<lambda>i. ucast (drop_bit (8 * i) v)) [0..<n]) c"

definition pool_attribute_locked :: "system \<Rightarrow> nat option \<Rightarrow> u32 \<Rightarrow> u64 \<Rightarrow> bool \<Rightarrow> client \<Rightarrow> unit result" where
  "pool_attribute_locked sys pool attr value st c =
     (if value = 0 \<or> attr < 1 \<or> attr > 8 then raise cudaErrorInvalidValue c
      else on_pool sys pool (\<lambda>_ pid c.
        if st
        then let scalar = (if attr \<le> 3 then scast (ucast (load_le 4 value c) :: u32) else load_le 8 value c)
             in result_bind (call_or cudaErrorUnknown (corex_generated_call_cudaMemPoolSetAttribute (generated_rpc_call sys)
                  (pid, attr, scalar) c)) (\<lambda>_ c. (Inr (), c))
        else result_bind (call_or cudaErrorUnknown (corex_generated_call_cudaMemPoolGetAttribute (generated_rpc_call sys) (pid, attr) c))
               (\<lambda>v c. (Inr (), store_le (if attr \<le> 3 then 4 else 8) value v c))) c)"

definition pool_get_access_locked :: "system \<Rightarrow> u64 \<Rightarrow> nat option \<Rightarrow> cudaMemLocation option \<Rightarrow> client \<Rightarrow> u32 result" where
  "pool_get_access_locked sys flags pool location c =
     (case location of
        None \<Rightarrow> raise cudaErrorInvalidValue c
      | Some l \<Rightarrow>
          if flags = 0 \<or> ml_type l \<noteq> 1 then raise cudaErrorInvalidValue c
          else if ml_id l \<noteq> 0 then raise cudaErrorInvalidDevice c
          else on_pool sys pool (\<lambda>_ pid c. call_or cudaErrorUnknown
            (corex_generated_call_cudaMemPoolGetAccess (generated_rpc_call sys) (pid, ml_type l, ml_id l) c)) c)"

text \<open>The description is a location and flags, given exactly when the count is one.\<close>

definition pool_set_access_locked :: "system \<Rightarrow> nat option \<Rightarrow> (cudaMemLocation \<times> u32) option \<Rightarrow> u64 \<Rightarrow> client \<Rightarrow> unit result" where
  "pool_set_access_locked sys pool desc count c =
     (if count > 1 \<or> count \<noteq> 0 \<and> desc = None then raise cudaErrorInvalidValue c
      else let d = (if count \<noteq> 0 then desc else None)
           in if (case d of Some (l, _) \<Rightarrow> ml_type l \<noteq> 1 | None \<Rightarrow> False) then raise cudaErrorInvalidValue c
              else if (case d of Some (l, _) \<Rightarrow> ml_id l \<noteq> 0 | None \<Rightarrow> False) then raise cudaErrorInvalidDevice c
              else on_pool sys pool (\<lambda>_ pid c. result_bind (call_or cudaErrorUnknown
                (corex_generated_call_cudaMemPoolSetAccess (generated_rpc_call sys)
                  (case d of Some (l, flags) \<Rightarrow> (pid, ucast count, ml_type l, ml_id l, flags) | None \<Rightarrow> (pid, ucast count, 0, 0, 0)) c))
                (\<lambda>_ c. (Inr (), c))) c)"

section \<open>Symbols\<close>

definition symbol_address_locked :: "system \<Rightarrow> u64 \<Rightarrow> u64 \<Rightarrow> u64 \<Rightarrow> client \<Rightarrow> u64 result" where
  "symbol_address_locked sys symbol count offset c =
     with_runtime sys (\<lambda>c. case find_registered_symbol symbol c of
         None \<Rightarrow> raise cudaErrorInvalidSymbol c
       | Some i \<Rightarrow>
           let a = g_allocs c ! i
           in if offset > va_size a \<or> count > va_size a - offset then raise cudaErrorInvalidValue c
              else (Inr (va_virtual_base a + offset), c)) c"

definition cudaGetSymbolAddress :: "system \<Rightarrow> u64 \<Rightarrow> u64 \<Rightarrow> client \<Rightarrow> u64 result" where
  "cudaGetSymbolAddress sys pointer symbol c =
     (if pointer \<noteq> 0 then symbol_address_locked sys symbol 0 0 c else raise cudaErrorInvalidValue c)"

definition cudaGetSymbolSize :: "system \<Rightarrow> u64 \<Rightarrow> u64 \<Rightarrow> client \<Rightarrow> u64 result" where
  "cudaGetSymbolSize sys out symbol c =
     (if out \<noteq> 0
      then result_bind (symbol_address_locked sys symbol 0 0 c) (\<lambda>_ c.
             (Inr (case find_registered_symbol symbol c of Some i \<Rightarrow> va_size (g_allocs c ! i) | None \<Rightarrow> 0), c))
      else raise cudaErrorInvalidValue c)"

definition symbol_copy_locked :: "system \<Rightarrow> u64 \<Rightarrow> u64 \<Rightarrow> u64 \<Rightarrow> u64 \<Rightarrow> cudaMemcpyKind \<Rightarrow> nat option \<Rightarrow> bool \<Rightarrow> bool \<Rightarrow> client \<Rightarrow> unit result" where
  "symbol_copy_locked sys symbol other count offset kind stream to_symbol async c =
     result_bind (symbol_address_locked sys symbol count offset c) (\<lambda>address c.
       if kind \<noteq> cudaMemcpyDefault \<and> kind \<noteq> cudaMemcpyDeviceToDevice \<and>
          kind \<noteq> (if to_symbol then cudaMemcpyHostToDevice else cudaMemcpyDeviceToHost) then raise cudaErrorInvalidMemcpyDirection c
       else let dst = (if to_symbol then address else other); src = (if to_symbol then other else address)
            in if async then cudaMemcpyAsync_locked sys dst src count kind stream c else cudaMemcpy_locked sys dst src count kind c)"

section \<open>Libraries\<close>

abbreviation (input) MAX_LIBRARY_BYTES :: nat where "MAX_LIBRARY_BYTES \<equiv> 67108864"

text \<open>The library keeps its own copy of the image.\<close>

definition library_load_image_locked :: "system \<Rightarrow> u64 \<Rightarrow> bytes \<Rightarrow> client \<Rightarrow> nat result" where
  "library_load_image_locked sys library img c =
     (if library = 0 \<or> img = [] then raise cudaErrorInvalidValue c
      else if length img > MAX_LIBRARY_BYTES - 128 then raise cudaErrorNotSupported c
      else if g_module_handle_next c \<ge> G6D_MAX_MODULE_HANDLES then raise cudaErrorMemoryAllocation c
      else case corex_library_image img of
             Ok (offset, exact) \<Rightarrow>
               with_buffer sys (of_nat exact) (\<lambda>c.
                 let owned = take exact (drop offset img)
                 in result_bind (call_or cudaErrorUnknown (remote_upload_module_bytes sys OP_UPLOAD_LIBRARY (cstr ''library.cubin'') owned c))
                      (\<lambda>module_id c. let i = g_module_handle_next c
                         in (Inr i, c\<lparr>g_module_handles := (g_module_handles c)[i := \<lparr>mh_cookie = G6D_MODULE_COOKIE,
                               mh_session_generation = g_active_session_generation c, mh_module_id = module_id, mh_live = True,
                               mh_library_image = Some owned\<rparr>], g_module_handle_next := i + 1\<rparr>))) c
           | _ \<Rightarrow> raise cudaErrorInvalidValue c)"

text \<open>
  The library is given by its address or by the content of a file, of which \<open>Some None\<close> is one that
  cannot be read; the options are the values of the option array, \<^const>\<open>None\<close> a null array with entries.
\<close>

fun check_library_options :: "bool \<Rightarrow> u32 list \<Rightarrow> cudaError_t option" where
  "check_library_options file [] = None"
| "check_library_options file (v # options) =
     (if v \<noteq> 1 then Some cudaErrorNotSupported
      else if file then Some cudaErrorInvalidValue else check_library_options file options)"

definition library_load_locked :: "system \<Rightarrow> u64 \<Rightarrow> u64 \<Rightarrow> bytes option option \<Rightarrow> u32 \<Rightarrow> u32 list option \<Rightarrow> client \<Rightarrow> nat result" where
  "library_load_locked sys library code file jit_count options c =
     (if library = 0 \<or> code = 0 \<and> file = None then raise cudaErrorInvalidValue c
      else if jit_count \<noteq> 0 then raise cudaErrorNotSupported c
      else case map_option (check_library_options (file \<noteq> None)) options of
             None \<Rightarrow> raise cudaErrorInvalidValue c
           | Some (Some e) \<Rightarrow> raise e c
           | Some None \<Rightarrow>
               with_runtime sys (\<lambda>c.
                 case file of
                   Some None \<Rightarrow> raise cudaErrorInvalidValue c
                 | Some (Some img) \<Rightarrow> library_load_image_locked sys library img c
                 | None \<Rightarrow>
                     if pointer_in_remote_arena code c then raise cudaErrorInvalidValue c
                     else let bytes = host_load code MAX_LIBRARY_BYTES c
                          in (case corex_library_image bytes of
                                Ok (offset, n) \<Rightarrow> library_load_image_locked sys library (take n (drop offset bytes)) c
                              | _ \<Rightarrow> raise cudaErrorNotSupported c)) c)"

text \<open>A library is a module with an image.\<close>

definition with_library :: "nat option \<Rightarrow> (nat \<Rightarrow> bytes \<Rightarrow> client \<Rightarrow> 'a result) \<Rightarrow> client \<Rightarrow> 'a result" where
  "with_library library f c =
     (case resolve_module_handle library c of
        None \<Rightarrow> raise cudaErrorInvalidResourceHandle c
      | Some m \<Rightarrow> (case mh_library_image (g_module_handles c ! m) of
                     None \<Rightarrow> raise cudaErrorInvalidResourceHandle c
                   | Some img \<Rightarrow> f m img c))"

definition find_library_kernel :: "u64 \<Rightarrow> bytes \<Rightarrow> client \<Rightarrow> nat option" where
  "find_library_kernel module_id name c =
     find (\<lambda>i. let k = g_kernel_handles c ! i
        in kh_live k \<and> kh_module_id k = module_id \<and> kh_session_generation k = g_active_session_generation c \<and> kh_name k = name)
       [0..<g_kernel_handle_next c]"

text \<open>A kernel whose metadata cannot be used is retired again.\<close>

definition library_get_kernel_locked :: "system \<Rightarrow> u64 \<Rightarrow> nat option \<Rightarrow> bytes option \<Rightarrow> client \<Rightarrow> nat result" where
  "library_get_kernel_locked sys out library name c =
     (case name of
        None \<Rightarrow> raise cudaErrorInvalidValue c
      | Some name \<Rightarrow>
          if out = 0 then raise cudaErrorInvalidValue c
          else with_runtime sys (with_library library (\<lambda>m img c.
            case find_library_kernel (mh_module_id (g_module_handles c ! m)) name c of
              Some k \<Rightarrow> (Inr k, c)
            | None \<Rightarrow>
                result_bind (recorded (bind_kernel_identity_after_runtime sys m name G7D_KERNEL_ORIGIN_CONTROLLED 0 0 c)) (\<lambda>k c.
                  case g7e_attach_compiler_abi_from_metadata sys img k name c of
                    (Inl e, c) \<Rightarrow> raise e (upd_kernel k (\<lambda>h. h\<lparr>kh_live := False\<rparr>) c)
                  | (Inr _, c) \<Rightarrow> (Inr k, c)))) c)"

definition library_count_locked :: "system \<Rightarrow> u64 \<Rightarrow> nat option \<Rightarrow> client \<Rightarrow> u32 result" where
  "library_count_locked sys count library c =
     (if count = 0 then raise cudaErrorInvalidValue c
      else with_runtime sys (with_library library (\<lambda>m _ c. call_or cudaErrorUnknown
        (corex_generated_call_cudaLibraryGetKernelCount (generated_rpc_call sys) (mh_module_id (g_module_handles c ! m)) c))) c)"

fun enumerate_kernels :: "system \<Rightarrow> nat option \<Rightarrow> nat \<Rightarrow> nat list \<Rightarrow> client \<Rightarrow> nat list result" where
  "enumerate_kernels sys library m [] c = (Inr [], c)"
| "enumerate_kernels sys library m (i # ks) c =
     result_bind (call_or cudaErrorUnknown (corex_generated_call_cudaLibraryEnumerateKernels (generated_rpc_call sys)
         (mh_module_id (g_module_handles c ! m), of_nat i) c)) (\<lambda>name c.
       result_bind (library_get_kernel_locked sys 1 library (Some name) c) (\<lambda>k c.
         result_bind (enumerate_kernels sys library m ks c) (\<lambda>rest c. (Inr (k # rest), c))))"

text \<open>The handles of the kernels, as many as the array of the caller holds.\<close>

definition library_enumerate_locked :: "system \<Rightarrow> u64 \<Rightarrow> u32 \<Rightarrow> nat option \<Rightarrow> client \<Rightarrow> nat list result" where
  "library_enumerate_locked sys out capacity library c =
     (if out = 0 then raise cudaErrorInvalidResourceHandle c
      else result_bind (library_count_locked sys 1 library c) (\<lambda>count c.
        if unat count > COREX_META_MAX_KERNELS then raise cudaErrorNotSupported c
        else (case resolve_module_handle library c of
                None \<Rightarrow> raise cudaErrorInvalidResourceHandle c
              | Some m \<Rightarrow> enumerate_kernels sys library m [0..<min (unat capacity) (unat count)] c)))"

definition library_unload_locked :: "system \<Rightarrow> nat option \<Rightarrow> client \<Rightarrow> unit result" where
  "library_unload_locked sys library c =
     with_runtime sys (with_library library (\<lambda>_ _ c. recorded (module_unload_after_runtime sys library c))) c"

definition kernel_identity_locked :: "system \<Rightarrow> u64 \<Rightarrow> kernel_ref option \<Rightarrow> client \<Rightarrow> nat result" where
  "kernel_identity_locked sys out symbol c =
     (case symbol of
        None \<Rightarrow> raise cudaErrorInvalidValue c
      | Some func \<Rightarrow>
          if out = 0 then raise cudaErrorInvalidValue c
          else with_runtime sys (\<lambda>c. case resolve_kernel_reference func c of
              None \<Rightarrow> raise cudaErrorInvalidResourceHandle c
            | Some k \<Rightarrow> (Inr k, c)) c)"

section \<open>Host functions\<close>

text \<open>
  A host function is not sent to the server: the worker waits for the stream, delivers the downloads its
  frontier covers and calls the function while every other entry point waits for it.
\<close>

definition prepare_host_callback_worker_locked :: "system \<Rightarrow> client \<Rightarrow> unit result" where
  "prepare_host_callback_worker_locked sys c =
     (if cb_worker_started (g_callback c) then (Inr (), c)
      else case syscall sys Sys_thread c of
             (r, c) \<Rightarrow> if \<not> so_ok r then raise cudaErrorMemoryAllocation c
                       else (Inr (), c\<lparr>g_callback := (g_callback c)\<lparr>cb_worker_started := True\<rparr>\<rparr>))"

definition submit_host_callback_locked :: "system \<Rightarrow> nat option \<Rightarrow> u64 \<Rightarrow> u64 \<Rightarrow> u64 \<Rightarrow> client \<Rightarrow> unit result" where
  "submit_host_callback_locked sys stream host_function callback data c =
     (if capture_active_locked c then capture_reject_locked c
      else if host_function = 0 \<and> callback = 0 then raise cudaErrorInvalidValue c
      else with_runtime sys (with_stream stream (\<lambda>sv c.
        result_bind (prepare_host_callback_worker_locked sys c) (\<lambda>_ c.
          (Inr (), c\<lparr>g_callback := (g_callback c)\<lparr>cb_stream := stream, cb_stream_id := sv_stream_id sv,
             cb_frontier := (case view_frontier sv c of Some f \<Rightarrow> f | None \<Rightarrow> []), cb_host_function := host_function,
             cb_stream_callback := callback, cb_data := data, cb_pending := True\<rparr>\<rparr>)))) c)"

definition cudaLaunchHostFunc :: "system \<Rightarrow> nat option \<Rightarrow> u64 \<Rightarrow> u64 \<Rightarrow> client \<Rightarrow> unit result" where
  "cudaLaunchHostFunc sys stream function data c = submit_host_callback_locked sys stream function 0 data c"

definition cudaStreamAddCallback :: "system \<Rightarrow> nat option \<Rightarrow> u64 \<Rightarrow> u64 \<Rightarrow> u32 \<Rightarrow> client \<Rightarrow> unit result" where
  "cudaStreamAddCallback sys stream callback data flags c =
     (if flags \<noteq> 0 then raise cudaErrorInvalidValue c else submit_host_callback_locked sys stream 0 callback data c)"

text \<open>
  One turn of the worker: what it does before it calls the function, whose status says whether the host
  function is called and what the stream callback gets, and what it does after.
\<close>

definition callback_prepare :: "system \<Rightarrow> client \<Rightarrow> unit result" where
  "callback_prepare sys c =
     (let cb = g_callback c
      in result_bind (call_else cudaErrorUnknown (remote_stream_sync sys (cb_stream_id cb) c))
           (\<lambda>_. drain_frontier_blocking sys (Some (cb_frontier cb))))"

definition callback_finish :: "client \<Rightarrow> client" where
  "callback_finish c = c\<lparr>g_callback := (g_callback c)\<lparr>cb_pending := False, cb_host_function := 0, cb_stream_callback := 0, cb_data := 0\<rparr>\<rparr>"

end
