(* ===== verification/Client_Host.thy ===== *)
theory Client_Host
  imports Client_Kernels
begin

text \<open>
  The host memory the client locks (\<^verbatim>\<open>src/corex_remote_cuda.c\<close>): a registry of allocations and
  registrations. Page locks of the operating system do not count, so the release of one registration
  must leave the pages it shares with another locked.
\<close>

section \<open>Locked memory\<close>

text \<open>The first entry that contains the address; an entry is free when its base is null.\<close>

definition find_host_allocation :: "u64 \<Rightarrow> bool \<Rightarrow> client \<Rightarrow> nat option" where
  "find_host_allocation address exact c =
     find (\<lambda>i. let a = g_host_allocs c ! i
        in ha_base a \<noteq> 0 \<and> address \<ge> ha_base a \<and> address - ha_base a < ha_size a \<and> (exact \<longrightarrow> address = ha_base a))
       [0..<length (g_host_allocs c)]"

definition host_slot :: "client \<Rightarrow> nat option" where
  "host_slot c = find (\<lambda>i. ha_base (g_host_allocs c ! i) = 0) [0..<length (g_host_allocs c)]"

definition put_host :: "nat \<Rightarrow> HostAllocation \<Rightarrow> client \<Rightarrow> client" where
  "put_host i a c = c\<lparr>g_host_allocs := (g_host_allocs c)[i := a]\<rparr>"

definition cudaHostAlloc_locked :: "system \<Rightarrow> u64 \<Rightarrow> u64 \<Rightarrow> u32 \<Rightarrow> client \<Rightarrow> u64 result" where
  "cudaHostAlloc_locked sys ptr bytes flags c =
     (if ptr = 0 \<or> flags AND NOT 7 \<noteq> 0 then raise cudaErrorInvalidValue c
      else if flags AND 6 \<noteq> 0 then raise cudaErrorNotSupported c
      else if bytes = 0 then (Inr 0, c)
      else case host_slot c of
             None \<Rightarrow> raise cudaErrorMemoryAllocation c
           | Some i \<Rightarrow>
               (let (mapped, c) = syscall sys (Sys_mmap bytes) c
                in if \<not> so_ok mapped then raise cudaErrorMemoryAllocation c
                   else let base = so_value mapped; (locked, c) = syscall sys (Sys_mlock base bytes) c
                        in if \<not> so_ok locked then raise cudaErrorMemoryAllocation (snd (syscall sys (Sys_munmap base bytes) c))
                           else (Inr base, put_host i \<lparr>ha_base = base, ha_size = bytes, ha_locked_size = bytes, ha_flags = flags,
                                  ha_owned = True\<rparr> c)))"

text \<open>The size of a page is what \<open>sysconf\<close> returns.\<close>

definition round_up :: "u64 \<Rightarrow> u64 \<Rightarrow> u64" where
  "round_up page n = (n + page - 1) div page * page"

definition round_down :: "u64 \<Rightarrow> u64 \<Rightarrow> u64" where
  "round_down page n = n div page * page"

definition registered_span :: "u64 \<Rightarrow> HostAllocation \<Rightarrow> u64" where
  "registered_span page a = (if ha_owned a then round_up page (ha_size a) else ha_size a)"

definition cudaHostRegister_locked :: "system \<Rightarrow> u64 \<Rightarrow> u64 \<Rightarrow> u64 \<Rightarrow> u32 \<Rightarrow> client \<Rightarrow> unit result" where
  "cudaHostRegister_locked sys page ptr bytes flags c =
     (if ptr = 0 \<or> bytes = 0 \<or> flags AND NOT 15 \<noteq> 0 \<or> page = 0 \<or> bytes > UINT64_MAX - (page - 1) \<or> ptr > UINT64_MAX - bytes \<or>
         pointer_in_remote_arena ptr c then raise cudaErrorInvalidValue c
      else if flags AND NOT 1 \<noteq> 0 then raise cudaErrorNotSupported c
      else let lock_start = round_down page ptr; offset = ptr - lock_start
           in if bytes > UINT64_MAX - offset - (page - 1) then raise cudaErrorInvalidValue c
              else let locked = round_up page (bytes + offset)
                   in if lock_start > UINT64_MAX - locked then raise cudaErrorInvalidValue c
                      else if list_ex (\<lambda>a. ha_base a \<noteq> 0 \<and> ptr < ha_base a + registered_span page a \<and> ha_base a < ptr + bytes) (g_host_allocs c)
                      then raise cudaErrorHostMemoryAlreadyRegistered c
                      else case host_slot c of
                             None \<Rightarrow> raise cudaErrorMemoryAllocation c
                           | Some i \<Rightarrow>
                               (let (r, c) = syscall sys (Sys_mlock lock_start locked) c
                                in if \<not> so_ok r then raise cudaErrorMemoryAllocation c
                                   else (Inr (), put_host i \<lparr>ha_base = ptr, ha_size = bytes, ha_locked_size = locked, ha_flags = flags,
                                          ha_owned = False\<rparr> c)))"

text \<open>The pages of a registration, from the first to behind the last.\<close>

definition locked_pages :: "u64 \<Rightarrow> HostAllocation \<Rightarrow> u64 \<times> u64" where
  "locked_pages page a = (round_down page (ha_base a), round_down page (ha_base a) + round_up page (ha_locked_size a))"

text \<open>
  The loop of \<open>release_host_locked\<close>. Every turn looks at the pages of the other registrations: the end of
  those that cover the cursor, and the start of the first one behind it.
\<close>

definition covered_end :: "(u64 \<times> u64) list \<Rightarrow> u64 \<Rightarrow> u64" where
  "covered_end others cursor = foldl (\<lambda>m (first, last). if first \<le> cursor \<and> last > m then last else m) cursor others"

definition next_start :: "(u64 \<times> u64) list \<Rightarrow> u64 \<Rightarrow> u64 \<Rightarrow> u64" where
  "next_start others cursor limit = foldl (\<lambda>m (first, last). if first > cursor \<and> first < m then first else m) limit others"

lemma covered_end_ge: "covered_end others cursor \<ge> cursor"
proof -
  have "m \<ge> cursor \<Longrightarrow> foldl (\<lambda>m (first, last). if first \<le> cursor \<and> last > m then last else m) m others \<ge> cursor" for m
    by (induction others arbitrary: m) (auto intro: order.trans less_imp_le)
  then show ?thesis by (simp add: covered_end_def)
qed

lemma next_start_gt: "limit > cursor \<Longrightarrow> next_start others cursor limit > cursor"
  unfolding next_start_def by (induction others arbitrary: limit) (auto split: prod.split)

function unlock_pages :: "system \<Rightarrow> (u64 \<times> u64) list \<Rightarrow> u64 \<Rightarrow> u64 \<Rightarrow> client \<Rightarrow> unit result" where
  "unlock_pages sys others cursor limit c =
     (if cursor < limit
      then let covered = covered_end others cursor; following = next_start others cursor limit
           in if covered > cursor then unlock_pages sys others (if covered < limit then covered else limit) limit c
              else (case syscall sys (Sys_munlock cursor (following - cursor)) c of
                      (r, c) \<Rightarrow> if \<not> so_ok r then raise cudaErrorUnknown c else unlock_pages sys others following limit c)
      else (Inr (), c))"
  by pat_completeness auto
termination
  by (relation "measure (\<lambda>(_, _, cursor, limit, _). unat limit - unat cursor)")
    (auto simp: word_less_nat_alt dest: next_start_gt [unfolded word_less_nat_alt] intro!: diff_less_mono2)

declare unlock_pages.simps [simp del]

definition other_pages :: "u64 \<Rightarrow> nat \<Rightarrow> HostAllocation list \<Rightarrow> (u64 \<times> u64) list" where
  "other_pages page i as = map (\<lambda>j. locked_pages page (as ! j)) (filter (\<lambda>j. j \<noteq> i \<and> ha_base (as ! j) \<noteq> 0) [0..<length as])"

text \<open>The entry is released once no download is pending that could write to its memory.\<close>

definition release_entry :: "system \<Rightarrow> u64 \<Rightarrow> nat \<Rightarrow> bool \<Rightarrow> client \<Rightarrow> unit result" where
  "release_entry sys page i owned c =
     (let a = g_host_allocs c ! i; cursor = round_down page (ha_base a); limit = cursor + round_up page (ha_locked_size a)
      in result_bind (unlock_pages sys (other_pages page i (g_host_allocs c)) cursor limit c) (\<lambda>_ c.
           if owned
           then (case syscall sys (Sys_munmap (ha_base a) (ha_size a)) c of
                   (r, c) \<Rightarrow> if \<not> so_ok r then raise cudaErrorUnknown c else (Inr (), put_host i zero_host_allocation c))
           else (Inr (), put_host i zero_host_allocation c)))"

definition release_host_locked :: "system \<Rightarrow> u64 \<Rightarrow> u64 \<Rightarrow> bool \<Rightarrow> client \<Rightarrow> unit result" where
  "release_host_locked sys page ptr owned c =
     (if owned \<and> ptr = 0 then (Inr (), c)
      else case find_host_allocation ptr True c of
             None \<Rightarrow> raise (if owned then cudaErrorInvalidValue else cudaErrorHostMemoryNotRegistered) c
           | Some i \<Rightarrow>
               if ha_owned (g_host_allocs c ! i) \<noteq> owned
               then raise (if owned then cudaErrorInvalidValue else cudaErrorHostMemoryNotRegistered) c
               else result_bind (if live_hidden_transfer_count c \<noteq> 0 then cudaDeviceSynchronize_locked sys c else (Inr (), c))
                      (\<lambda>_. release_entry sys page i owned))"

definition cudaHostGetFlags_locked :: "u64 \<Rightarrow> u64 \<Rightarrow> client \<Rightarrow> u32 result" where
  "cudaHostGetFlags_locked flags ptr c =
     (if flags = 0 then raise cudaErrorInvalidValue c
      else case find_host_allocation ptr False c of
             None \<Rightarrow> raise cudaErrorInvalidValue c
           | Some i \<Rightarrow> (Inr (ha_flags (g_host_allocs c ! i)), c))"

definition cudaHostGetDevicePointer_locked :: "u64 \<Rightarrow> u64 \<Rightarrow> u32 \<Rightarrow> client \<Rightarrow> u64 result" where
  "cudaHostGetDevicePointer_locked device ptr flags c =
     (if device = 0 \<or> ptr = 0 \<or> flags \<noteq> 0 then raise cudaErrorInvalidValue c
      else if find_host_allocation ptr False c = None then raise cudaErrorInvalidValue c
      else raise cudaErrorNotSupported c)"

datatype cudaMemoryType = cudaMemoryTypeUnregistered | cudaMemoryTypeHost | cudaMemoryTypeDevice | cudaMemoryTypeManaged

record cudaPointerAttributes =
  pa_memoryType :: cudaMemoryType
  pa_type :: cudaMemoryType
  pa_device :: int
  pa_devicePointer :: u64
  pa_hostPointer :: u64
  pa_isManaged :: int

definition cudaPointerGetAttributes_locked :: "u64 \<Rightarrow> u64 \<Rightarrow> client \<Rightarrow> cudaPointerAttributes result" where
  "cudaPointerGetAttributes_locked attributes ptr c =
     (if attributes = 0 \<or> ptr = 0 then raise cudaErrorInvalidValue c
      else if pointer_in_remote_arena ptr c
      then (case resolve_remote_ptr ptr 1 c of
              Inl _ \<Rightarrow> raise cudaErrorInvalidValue c
            | Inr _ \<Rightarrow> (Inr \<lparr>pa_memoryType = cudaMemoryTypeDevice, pa_type = cudaMemoryTypeDevice, pa_device = 0, pa_devicePointer = ptr,
                        pa_hostPointer = 0, pa_isManaged = 0\<rparr>, c))
      else if find_host_allocation ptr False c \<noteq> None
      then (Inr \<lparr>pa_memoryType = cudaMemoryTypeHost, pa_type = cudaMemoryTypeHost, pa_device = 0, pa_devicePointer = 0,
              pa_hostPointer = ptr, pa_isManaged = 0\<rparr>, c)
      else (Inr \<lparr>pa_memoryType = cudaMemoryTypeUnregistered, pa_type = cudaMemoryTypeUnregistered, pa_device = - 1, pa_devicePointer = 0,
              pa_hostPointer = ptr, pa_isManaged = 0\<rparr>, c))"

section \<open>Which pages are unlocked\<close>

text \<open>The addresses a list of operations unlocks.\<close>

definition unlocked :: "sys_op list \<Rightarrow> u64 set" where
  "unlocked ops = {x. \<exists>a n. Sys_munlock a n \<in> set ops \<and> a \<le> x \<and> x - a < n}"

definition covered_by :: "(u64 \<times> u64) list \<Rightarrow> u64 \<Rightarrow> bool" where
  "covered_by others x \<longleftrightarrow> (\<exists>(first, last) \<in> set others. first \<le> x \<and> x < last)"

abbreviation (input) cover :: "u64 \<Rightarrow> u64 \<Rightarrow> u64 \<times> u64 \<Rightarrow> u64" where
  "cover cursor \<equiv> \<lambda>m (first, last). if first \<le> cursor \<and> last > m then last else m"

lemma cover_ge: "m \<le> foldl (cover cursor) m others"
proof (induction others arbitrary: m)
  case (Cons p others)
  have "m \<le> cover cursor m p" by (auto split: prod.split)
  then show ?case using Cons.IH [of "cover cursor m p"] by simp
qed simp

lemma cover_upper: "(f, l) \<in> set others \<Longrightarrow> f \<le> cursor \<Longrightarrow> l \<le> foldl (cover cursor) m others"
proof (induction others arbitrary: m)
  case (Cons p others)
  then show ?case using cover_ge [of "cover cursor m p" cursor others] by (auto simp: not_less split: if_splits intro: order.trans)
qed simp

lemma cover_attained: "foldl (cover cursor) m others = m \<or> (\<exists>f. (f, foldl (cover cursor) m others) \<in> set others \<and> f \<le> cursor)"
proof (induction others arbitrary: m)
  case (Cons p others)
  obtain f l where p: "p = (f, l)" by fastforce
  show ?case
  proof (cases "f \<le> cursor \<and> l > m")
    case True
    then show ?thesis using Cons.IH [of l] p by auto
  next
    case False
    then show ?thesis using Cons.IH [of m] p by auto
  qed
qed simp

lemma covered_end_covers:
  assumes "covered_end others cursor > x" "x \<ge> cursor"
  shows "covered_by others x"
proof -
  have "covered_end others cursor \<noteq> cursor" using assms by auto
  then obtain f where "(f, covered_end others cursor) \<in> set others" "f \<le> cursor"
    using cover_attained [of cursor cursor others] by (auto simp: covered_end_def)
  then show ?thesis using assms unfolding covered_by_def by (blast intro: order.trans)
qed

lemma covered_end_none: "covered_end others cursor = cursor \<Longrightarrow> (f, l) \<in> set others \<Longrightarrow> f \<le> cursor \<Longrightarrow> l \<le> cursor"
  using cover_upper [of f l others cursor cursor] by (simp add: covered_end_def)

lemma next_start_least:
  "next_start others cursor limit \<le> limit" "(f, l) \<in> set others \<Longrightarrow> cursor < f \<Longrightarrow> next_start others cursor limit \<le> f"
proof -
  have "foldl (\<lambda>m (first, last). if first > cursor \<and> first < m then first else m) m others \<le> m \<and>
      (\<forall>(first, last) \<in> set others. cursor < first \<longrightarrow> foldl (\<lambda>m (first, last). if first > cursor \<and> first < m then first else m) m others \<le> first)" for m
  proof (induction others arbitrary: m)
    case (Cons p others)
    obtain f l where p: "p = (f, l)" by fastforce
    show ?case using Cons.IH [of m] Cons.IH [of f] by (cases "f > cursor \<and> f < m") (auto simp: p not_less)
  qed simp
  then show "next_start others cursor limit \<le> limit" "(f, l) \<in> set others \<Longrightarrow> cursor < f \<Longrightarrow> next_start others cursor limit \<le> f"
    unfolding next_start_def by blast+
qed

lemma uncovered_gap:
  assumes "covered_end others cursor = cursor" "cursor \<le> x" "x < next_start others cursor limit"
  shows "\<not> covered_by others x"
proof
  assume "covered_by others x"
  then obtain f l where fl: "(f, l) \<in> set others" "f \<le> x" "x < l" by (auto simp: covered_by_def)
  show False
  proof (cases "f \<le> cursor")
    case True
    then show ?thesis using covered_end_none [OF assms(1) fl(1)] assms(2) fl(3) by simp
  next
    case False
    then have "cursor < f" by simp
    then have "next_start others cursor limit \<le> f" by (rule next_start_least(2) [OF fl(1)])
    then show ?thesis using assms(3) fl(2) by simp
  qed
qed

lemma unlock_exact:
  "unlock_pages sys others cursor limit c = (Inr (), c') \<Longrightarrow>
   \<exists>ops. c' = c\<lparr>io := ops @ io c\<rparr> \<and> unlocked ops = {x. cursor \<le> x \<and> x < limit \<and> \<not> covered_by others x}"
proof (induction sys others cursor limit c rule: unlock_pages.induct)
  case (1 sys others cursor limit c)
  let ?e = "covered_end others cursor" and ?n = "next_start others cursor limit"
  consider "\<not> cursor < limit" | "cursor < limit" "cursor < ?e" | "cursor < limit" "?e = cursor"
    using covered_end_ge [of cursor others] by fastforce
  then show ?case
  proof cases
    case 1
    then have "c' = c" using "1.prems" by (simp add: unlock_pages.simps [of sys others cursor limit c])
    then show ?thesis using 1 by (intro exI [of _ "[]"]) (auto simp: unlocked_def)
  next
    case 2
    let ?m = "if ?e < limit then ?e else limit"
    have "unlock_pages sys others ?m limit c = (Inr (), c')"
      using "1.prems" 2 by (simp add: unlock_pages.simps [of sys others cursor limit c] Let_def)
    then obtain ops where ops: "c' = c\<lparr>io := ops @ io c\<rparr>" "unlocked ops = {x. ?m \<le> x \<and> x < limit \<and> \<not> covered_by others x}"
      using "1.IH"(1) [OF 2(1) refl refl 2(2)] by blast
    have "?m \<le> x \<and> x < limit \<and> \<not> covered_by others x \<longleftrightarrow> cursor \<le> x \<and> x < limit \<and> \<not> covered_by others x" for x
    proof (cases "cursor \<le> x \<and> x < ?m")
      case True
      then have "covered_by others x" using covered_end_covers [of x others cursor] 2 by (auto split: if_splits)
      with True show ?thesis by simp
    next
      case False
      then show ?thesis using 2 by (auto simp: not_less split: if_splits)
    qed
    then show ?thesis using ops by blast
  next
    case 3
    let ?op = "Sys_munlock cursor (?n - cursor)"
    obtain r c1 where r: "syscall sys ?op c = (r, c1)" by fastforce
    have ok: "so_ok r" "unlock_pages sys others ?n limit c1 = (Inr (), c')"
      using "1.prems" 3 r by (auto simp: unlock_pages.simps [of sys others cursor limit c] raise_def split: if_splits)
    have c1: "c1 = c\<lparr>io := ?op # io c\<rparr>" using r by (simp add: syscall_def)
    obtain ops where ops: "c' = c1\<lparr>io := ops @ io c1\<rparr>" "unlocked ops = {x. ?n \<le> x \<and> x < limit \<and> \<not> covered_by others x}"
      using "1.IH"(2) [OF 3(1) refl refl _ r [symmetric]] ok 3(2) by auto
    have n: "cursor < ?n" "?n \<le> limit" using next_start_gt [OF 3(1)] next_start_least(1) by blast+
    have in_op: "cursor \<le> x \<and> x - cursor < ?n - cursor \<longleftrightarrow> cursor \<le> x \<and> x < ?n" for x
      using n(1) by (auto simp: word_less_nat_alt word_le_nat_alt unat_sub)
    have "unlocked (ops @ [?op]) = unlocked ops \<union> {x. cursor \<le> x \<and> x - cursor < ?n - cursor}" by (auto simp: unlocked_def)
    also have "\<dots> = {x. cursor \<le> x \<and> x < limit \<and> \<not> covered_by others x}"
      unfolding ops(2) in_op using n uncovered_gap [OF 3(2), of _ limit] by (auto simp: not_less intro: order.trans less_imp_le less_le_trans)
    finally show ?thesis using ops(1) by (intro exI [of _ "ops @ [?op]"]) (simp add: c1)
  qed
qed

lemma unlock_succeeds:
  assumes "\<And>h a n. so_ok (sys h (Sys_munlock a n))"
  shows "\<exists>ops. unlock_pages sys others cursor limit c = (Inr (), c\<lparr>io := ops @ io c\<rparr>)"
proof -
  have "fst (unlock_pages sys others cursor limit c) = Inr ()" using assms
  proof (induction sys others cursor limit c rule: unlock_pages.induct)
    case (1 sys others cursor limit c)
    then show ?case by (subst unlock_pages.simps) (simp add: Let_def syscall_def)
  qed
  then show ?thesis using unlock_exact [of sys others cursor limit c] by (metis prod.collapse)
qed

text \<open>The pages of the other registrations.\<close>

definition other_holds :: "u64 \<Rightarrow> nat \<Rightarrow> HostAllocation list \<Rightarrow> u64 \<Rightarrow> bool" where
  "other_holds page i as x \<longleftrightarrow> (\<exists>j < length as. j \<noteq> i \<and> ha_base (as ! j) \<noteq> 0 \<and>
     fst (locked_pages page (as ! j)) \<le> x \<and> x < snd (locked_pages page (as ! j)))"

lemma covered_by_others: "covered_by (other_pages page i as) x \<longleftrightarrow> other_holds page i as x"
  by (auto simp: covered_by_def other_holds_def other_pages_def case_prod_beta)

lemma release_entry_exact:
  assumes "release_entry sys page i owned c = (Inr (), c')"
  shows "\<exists>ops. io c' = ops @ io c \<and> g_host_allocs c' = (g_host_allocs c)[i := zero_host_allocation] \<and>
    unlocked ops = {x. fst (locked_pages page (g_host_allocs c ! i)) \<le> x \<and> x < snd (locked_pages page (g_host_allocs c ! i)) \<and>
      \<not> other_holds page i (g_host_allocs c) x}"
proof -
  let ?a = "g_host_allocs c ! i" and ?others = "other_pages page i (g_host_allocs c)"
  let ?first = "round_down page (ha_base ?a)"
  let ?limit = "?first + round_up page (ha_locked_size ?a)"
  obtain u c1 where u: "unlock_pages sys ?others ?first ?limit c = (u, c1)" by fastforce
  have lp: "fst (locked_pages page ?a) = ?first" "snd (locked_pages page ?a) = ?limit" by (simp_all add: locked_pages_def)
  have run: "u = Inr () \<and> g_host_allocs c' = (g_host_allocs c1)[i := zero_host_allocation] \<and>
      (io c' = io c1 \<or> io c' = Sys_munmap (ha_base ?a) (ha_size ?a) # io c1)"
    using assms u unfolding release_entry_def Let_def
    by (cases u) (auto simp: raise_def put_host_def syscall_def result_bind_def split: if_splits)
  then obtain ops where ops: "c1 = c\<lparr>io := ops @ io c\<rparr>" "unlocked ops = {x. ?first \<le> x \<and> x < ?limit \<and> \<not> covered_by ?others x}"
    using unlock_exact [of sys ?others] u by blast
  have "unlocked (Sys_munmap p n # ops) = unlocked ops" for p n by (simp add: unlocked_def)
  then show ?thesis using run ops unfolding covered_by_others lp
    by (auto intro: exI [of _ ops] exI [of _ "Sys_munmap (ha_base ?a) (ha_size ?a) # ops"])
qed

text \<open>
  C13. Releasing locked memory ends, and when it succeeds it has unlocked exactly the pages of the
  registration that no other registration holds: page locks do not nest, and registrations may share
  a page. When downloads are pending the device is synchronised first, which leads to the state \<open>c1\<close>; of the
  registry only the entry of the registration is cleared.
\<close>

theorem release_unlocks_exactly:
  assumes "release_host_locked sys page ptr owned c = (Inr (), c')" "find_host_allocation ptr True c = Some i"
  shows "\<exists>c1 ops. (if live_hidden_transfer_count c = 0 then c1 = c else cudaDeviceSynchronize_locked sys c = (Inr (), c1)) \<and>
    io c' = ops @ io c1 \<and> g_host_allocs c' = (g_host_allocs c1)[i := zero_host_allocation] \<and>
    unlocked ops = {x. fst (locked_pages page (g_host_allocs c1 ! i)) \<le> x \<and> x < snd (locked_pages page (g_host_allocs c1 ! i)) \<and>
      \<not> other_holds page i (g_host_allocs c1) x}"
proof -
  have "ptr \<noteq> 0" using assms(2) by (auto simp: find_host_allocation_def find_upt_Some Let_def)
  then obtain c1 where c1: "if live_hidden_transfer_count c = 0 then c1 = c else cudaDeviceSynchronize_locked sys c = (Inr (), c1)"
    "release_entry sys page i owned c1 = (Inr (), c')"
    using assms by (auto simp: release_host_locked_def result_bind_def raise_def split: if_splits prod.splits sum.splits)
  then show ?thesis using release_entry_exact [OF c1(2)] by blast
qed

text \<open>Two registrations that share the page at 8192; the first is released.\<close>

definition sample_host :: client where
  "sample_host = g_runtime_context\<lparr>g_host_allocs :=
     [\<lparr>ha_base = 4096, ha_size = 5000, ha_locked_size = 8192, ha_flags = 0, ha_owned = False\<rparr>,
      \<lparr>ha_base = 9200, ha_size = 16, ha_locked_size = 4096, ha_flags = 0, ha_owned = False\<rparr>]\<rparr>"

theorem release_unlocks_exactly_witness:
  "\<exists>ops. io (snd (release_host_locked (\<lambda>_ _. \<lparr>so_ok = True, so_data = [], so_value = 0\<rparr>) 4096 4096 False sample_host)) = ops \<and>
     unlocked ops = {x. 4096 \<le> x \<and> x < 8192}"
proof -
  let ?sys = "\<lambda>_ _. \<lparr>so_ok = True, so_data = [], so_value = 0\<rparr> :: sys_outcome"
  have find: "find_host_allocation 4096 True sample_host = Some 0"
    by (simp add: find_host_allocation_def find_upt_Some sample_host_def)
  have none: "live_hidden_transfer_count sample_host = 0"
    by (simp add: live_hidden_transfer_count_def sample_host_def g_runtime_context_def zero_hidden_transfer_def filter_empty_conv)
  obtain ops where "unlock_pages ?sys (other_pages 4096 0 (g_host_allocs sample_host)) 4096 12288 sample_host =
      (Inr (), sample_host\<lparr>io := ops @ io sample_host\<rparr>)"
    using unlock_succeeds [of ?sys] by fastforce
  then have "fst (release_host_locked ?sys 4096 4096 False sample_host) = Inr ()"
    unfolding release_host_locked_def find
    by (simp add: none result_bind_def release_entry_def) (simp add: sample_host_def round_down_def round_up_def)
  then have run: "release_host_locked ?sys 4096 4096 False sample_host = (Inr (), snd (release_host_locked ?sys 4096 4096 False sample_host))"
    by (metis prod.collapse)
  have "other_holds 4096 0 (g_host_allocs sample_host) x \<longleftrightarrow> 8192 \<le> x \<and> x < 12288" for x
    by (auto simp: other_holds_def sample_host_def locked_pages_def round_down_def round_up_def less_Suc_eq)
  moreover have "locked_pages 4096 (g_host_allocs sample_host ! 0) = (4096, 12288)"
    by (simp add: sample_host_def locked_pages_def round_down_def round_up_def)
  moreover have "{x :: u64. 4096 \<le> x \<and> x < 12288 \<and> \<not> (8192 \<le> x \<and> x < 12288)} = {x. 4096 \<le> x \<and> x < 8192}"
    by (auto simp: not_le intro: order.strict_trans)
  moreover have "io sample_host = []" by (simp add: sample_host_def g_runtime_context_def)
  ultimately show ?thesis using release_unlocks_exactly [OF run find] none by auto
qed

end
