(* ===== verification/Client_Device_Api.thy ===== *)
theory Client_Device_Api
  imports Client_Objects
begin

text \<open>
  The launch configuration of the compiler (\<^verbatim>\<open>src/corex_launch_config.c\<close>) and the entry points built on
  the exported ones (\<^verbatim>\<open>src/corex_device_api.c\<close>): the driver functions the application can query, device
  properties and the memory query. They keep no state of their own but the stack of configurations.
\<close>

section \<open>Launch configurations\<close>

abbreviation (input) G8A_LAUNCH_CONFIG_STACK_MAX :: nat where "G8A_LAUNCH_CONFIG_STACK_MAX \<equiv> 32"

record G8ALaunchConfig =
  lc_grid :: dim3
  lc_block :: dim3
  lc_shared_mem :: u64
  lc_stream :: "nat option"

definition zero_config :: G8ALaunchConfig where
  "zero_config = \<lparr>lc_grid = (0, 0, 0), lc_block = (0, 0, 0), lc_shared_mem = 0, lc_stream = None\<rparr>"

text \<open>The thread-local array and its depth.\<close>

record launch_stack =
  g_g8a_launch_stack :: "G8ALaunchConfig list"
  g_g8a_launch_depth :: nat

definition empty_launch_stack :: launch_stack where
  "empty_launch_stack = \<lparr>g_g8a_launch_stack = replicate G8A_LAUNCH_CONFIG_STACK_MAX zero_config, g_g8a_launch_depth = 0\<rparr>"

definition cudaPushCallConfiguration :: "G8ALaunchConfig \<Rightarrow> launch_stack \<Rightarrow> cudaError_t \<times> launch_stack" where
  "cudaPushCallConfiguration cfg s =
     (if g_g8a_launch_depth s \<ge> G8A_LAUNCH_CONFIG_STACK_MAX then (cudaErrorInvalidValue, s)
      else (cudaSuccess, s\<lparr>g_g8a_launch_stack := (g_g8a_launch_stack s)[g_g8a_launch_depth s := cfg],
              g_g8a_launch_depth := g_g8a_launch_depth s + 1\<rparr>))"

text \<open>\<open>null\<close>: one of the out-parameters is a null pointer. An empty stack stores zeros and reports an error.\<close>

definition cudaPopCallConfiguration :: "bool \<Rightarrow> launch_stack \<Rightarrow> cudaError_t \<times> G8ALaunchConfig option \<times> launch_stack" where
  "cudaPopCallConfiguration null s =
     (if null then (cudaErrorInvalidValue, None, s)
      else if g_g8a_launch_depth s = 0 then (cudaErrorInvalidValue, Some zero_config, s)
      else let depth = g_g8a_launch_depth s - 1
           in (cudaSuccess, Some (g_g8a_launch_stack s ! depth), s\<lparr>g_g8a_launch_depth := depth\<rparr>))"

definition cudaConfigureCall :: "G8ALaunchConfig \<Rightarrow> launch_stack \<Rightarrow> cudaError_t \<times> launch_stack" where
  "cudaConfigureCall cfg s =
     (if zero_dim (lc_grid cfg) \<or> zero_dim (lc_block cfg) then (cudaErrorInvalidValue, s) else cudaPushCallConfiguration cfg s)"

text \<open>
  The array with its depth is a bounded stack: what was pushed last is popped first, whatever calls
  are nested in between, and a push on a full stack or a pop of an empty one changes nothing.
\<close>

definition configs :: "launch_stack \<Rightarrow> G8ALaunchConfig list" where
  "configs s = rev (take (g_g8a_launch_depth s) (g_g8a_launch_stack s))"

definition stack_ok :: "launch_stack \<Rightarrow> bool" where
  "stack_ok s \<longleftrightarrow> length (g_g8a_launch_stack s) = G8A_LAUNCH_CONFIG_STACK_MAX \<and> g_g8a_launch_depth s \<le> G8A_LAUNCH_CONFIG_STACK_MAX"

locale bounded_stack =
  fixes ok :: "'s \<Rightarrow> bool" and contents :: "'s \<Rightarrow> 'a list" and bound :: nat
    and push :: "'a \<Rightarrow> 's \<Rightarrow> 's option" and pop :: "'s \<Rightarrow> ('a \<times> 's) option"
  assumes push_some: "ok s \<Longrightarrow> push x s = Some s' \<Longrightarrow> ok s' \<and> contents s' = x # contents s \<and> length (contents s') \<le> bound"
    and push_none: "ok s \<Longrightarrow> push x s = None \<longleftrightarrow> length (contents s) = bound"
    and pop_some: "ok s \<Longrightarrow> pop s = Some (x, s') \<Longrightarrow> ok s' \<and> contents s = x # contents s'"
    and pop_none: "ok s \<Longrightarrow> pop s = None \<longleftrightarrow> contents s = []"
begin

text \<open>A balanced sequence of pushes and pops gives back what was pushed before it.\<close>

fun pushes :: "'a list \<Rightarrow> 's \<Rightarrow> 's option" where
  "pushes [] s = Some s"
| "pushes (x # xs) s = (case push x s of None \<Rightarrow> None | Some s' \<Rightarrow> pushes xs s')"

fun pops :: "nat \<Rightarrow> 's \<Rightarrow> ('a list \<times> 's) option" where
  "pops 0 s = Some ([], s)"
| "pops (Suc n) s = (case pop s of None \<Rightarrow> None | Some (x, s') \<Rightarrow> map_option (\<lambda>(xs, t). (x # xs, t)) (pops n s'))"

lemma pushes_contents: "ok s \<Longrightarrow> pushes xs s = Some s' \<Longrightarrow> ok s' \<and> contents s' = rev xs @ contents s"
  by (induction xs arbitrary: s) (auto split: option.splits dest: push_some)

lemma pops_contents:
  "ok s \<Longrightarrow> n \<le> length (contents s) \<Longrightarrow> \<exists>t. pops n s = Some (take n (contents s), t) \<and> ok t \<and> contents t = drop n (contents s)"
proof (induction n arbitrary: s)
  case (Suc n)
  then obtain x s' where p: "pop s = Some (x, s')" using pop_none [of s] by fastforce
  have s': "ok s'" "contents s = x # contents s'" using pop_some [OF Suc.prems(1) p] by auto
  then obtain t where "pops n s' = Some (take n (contents s'), t)" "ok t" "contents t = drop n (contents s')"
    using Suc.IH [of s'] Suc.prems by auto
  then show ?case using p s' by simp
qed simp

lemma last_in_first_out:
  assumes "ok s" "pushes xs s = Some s'"
  shows "\<exists>t. pops (length xs) s' = Some (rev xs, t) \<and> ok t \<and> contents t = contents s"
  using pushes_contents [OF assms] pops_contents [of s' "length xs"] by auto

end

definition push_config :: "G8ALaunchConfig \<Rightarrow> launch_stack \<Rightarrow> launch_stack option" where
  "push_config cfg s = (case cudaPushCallConfiguration cfg s of (r, s') \<Rightarrow> if r = cudaSuccess then Some s' else None)"

definition pop_config :: "launch_stack \<Rightarrow> (G8ALaunchConfig \<times> launch_stack) option" where
  "pop_config s = (case cudaPopCallConfiguration False s of (r, Some cfg, s') \<Rightarrow> if r = cudaSuccess then Some (cfg, s') else None | _ \<Rightarrow> None)"

interpretation launch: bounded_stack stack_ok configs G8A_LAUNCH_CONFIG_STACK_MAX push_config pop_config
proof unfold_locales
  fix s x s'
  assume "stack_ok s"
  then show "push_config x s = None \<longleftrightarrow> length (configs s) = G8A_LAUNCH_CONFIG_STACK_MAX"
    "push_config x s = Some s' \<Longrightarrow> stack_ok s' \<and> configs s' = x # configs s \<and> length (configs s') \<le> G8A_LAUNCH_CONFIG_STACK_MAX"
    by (auto simp: push_config_def cudaPushCallConfiguration_def stack_ok_def configs_def take_Suc_conv_app_nth split: if_splits)
next
  fix s x s'
  assume ok: "stack_ok s"
  then show "pop_config s = None \<longleftrightarrow> configs s = []"
    by (auto simp: pop_config_def cudaPopCallConfiguration_def stack_ok_def configs_def Let_def)
  show "pop_config s = Some (x, s') \<Longrightarrow> stack_ok s' \<and> configs s = x # configs s'"
    using ok by (auto simp: pop_config_def cudaPopCallConfiguration_def stack_ok_def configs_def Let_def take_Suc_conv_app_nth
        gr0_conv_Suc split: if_splits)
qed
section \<open>Driver functions\<close>

text \<open>The result codes of the driver interface the client offers.\<close>

datatype driver_code =
    DRV_SUCCESS | DRV_ERROR_INVALID_VALUE | DRV_ERROR_OUT_OF_MEMORY | DRV_ERROR_NOT_INITIALIZED | DRV_ERROR_INVALID_DEVICE
  | DRV_ERROR_INVALID_HANDLE | DRV_ERROR_NOT_SUPPORTED | DRV_ERROR_NOT_READY | DRV_ERROR_UNKNOWN

definition driver_result :: "cudaError_t \<Rightarrow> driver_code" where
  "driver_result result =
     (case result of
        cudaSuccess \<Rightarrow> DRV_SUCCESS
      | cudaErrorInvalidValue \<Rightarrow> DRV_ERROR_INVALID_VALUE
      | cudaErrorInvalidDevicePointer \<Rightarrow> DRV_ERROR_INVALID_VALUE
      | cudaErrorInvalidMemcpyDirection \<Rightarrow> DRV_ERROR_INVALID_VALUE
      | cudaErrorMemoryAllocation \<Rightarrow> DRV_ERROR_OUT_OF_MEMORY
      | cudaErrorInitializationError \<Rightarrow> DRV_ERROR_NOT_INITIALIZED
      | cudaErrorInvalidDevice \<Rightarrow> DRV_ERROR_INVALID_DEVICE
      | cudaErrorInvalidResourceHandle \<Rightarrow> DRV_ERROR_INVALID_HANDLE
      | cudaErrorNotSupported \<Rightarrow> DRV_ERROR_NOT_SUPPORTED
      | cudaErrorNotReady \<Rightarrow> DRV_ERROR_NOT_READY
      | _ \<Rightarrow> DRV_ERROR_UNKNOWN)"

type_synonym 'a driver_outcome = "(driver_code + 'a) \<times> client"

definition as_driver :: "'a result \<Rightarrow> 'a driver_outcome" where
  "as_driver = (\<lambda>(r, c). (case r of Inl e \<Rightarrow> Inl (driver_result e) | Inr v \<Rightarrow> Inr v, c))"

text \<open>The out-parameter of an allocation is null when it fails.\<close>

definition entry_mem_alloc :: "system \<Rightarrow> u64 \<Rightarrow> u64 \<Rightarrow> client \<Rightarrow> u64 driver_outcome" where
  "entry_mem_alloc sys out bytes c =
     (if out = 0 \<or> bytes = 0 then (Inl DRV_ERROR_INVALID_VALUE, c) else as_driver (cudaMalloc_locked sys 1 bytes c))"

definition entry_mem_free :: "system \<Rightarrow> u64 \<Rightarrow> client \<Rightarrow> unit driver_outcome" where
  "entry_mem_free sys ptr c = (if ptr = 0 then (Inr (), c) else as_driver (cudaFree_locked sys ptr c))"

definition entry_htod :: "system \<Rightarrow> u64 \<Rightarrow> u64 \<Rightarrow> u64 \<Rightarrow> client \<Rightarrow> unit driver_outcome" where
  "entry_htod sys dst src bytes c = as_driver (cudaMemcpy_locked sys dst src bytes cudaMemcpyHostToDevice c)"

definition entry_dtoh :: "system \<Rightarrow> u64 \<Rightarrow> u64 \<Rightarrow> u64 \<Rightarrow> client \<Rightarrow> unit driver_outcome" where
  "entry_dtoh sys dst src bytes c = as_driver (cudaMemcpy_locked sys dst src bytes cudaMemcpyDeviceToHost c)"

definition entry_dtod :: "system \<Rightarrow> u64 \<Rightarrow> u64 \<Rightarrow> u64 \<Rightarrow> client \<Rightarrow> unit driver_outcome" where
  "entry_dtod sys dst src bytes c = as_driver (cudaMemcpy_locked sys dst src bytes cudaMemcpyDeviceToDevice c)"

definition entry_context_sync :: "system \<Rightarrow> client \<Rightarrow> unit driver_outcome" where
  "entry_context_sync sys c = as_driver (cudaDeviceSynchronize_locked sys c)"

definition entry_htod_async :: "system \<Rightarrow> u64 \<Rightarrow> u64 \<Rightarrow> u64 \<Rightarrow> nat option \<Rightarrow> client \<Rightarrow> unit driver_outcome" where
  "entry_htod_async sys dst src bytes stream c = as_driver (cudaMemcpyAsync_locked sys dst src bytes cudaMemcpyHostToDevice stream c)"

definition entry_dtoh_async :: "system \<Rightarrow> u64 \<Rightarrow> u64 \<Rightarrow> u64 \<Rightarrow> nat option \<Rightarrow> client \<Rightarrow> unit driver_outcome" where
  "entry_dtoh_async sys dst src bytes stream c = as_driver (cudaMemcpyAsync_locked sys dst src bytes cudaMemcpyDeviceToHost stream c)"

definition entry_dtod_async :: "system \<Rightarrow> u64 \<Rightarrow> u64 \<Rightarrow> u64 \<Rightarrow> nat option \<Rightarrow> client \<Rightarrow> unit driver_outcome" where
  "entry_dtod_async sys dst src bytes stream c = as_driver (cudaMemcpyAsync_locked sys dst src bytes cudaMemcpyDeviceToDevice stream c)"

definition entry_memset :: "system \<Rightarrow> u64 \<Rightarrow> u8 \<Rightarrow> u64 \<Rightarrow> client \<Rightarrow> unit driver_outcome" where
  "entry_memset sys dst value bytes c = as_driver (cudaMemset_locked sys dst (uint value) bytes c)"

definition entry_memset_async :: "system \<Rightarrow> u64 \<Rightarrow> u8 \<Rightarrow> u64 \<Rightarrow> nat option \<Rightarrow> client \<Rightarrow> unit driver_outcome" where
  "entry_memset_async sys dst value bytes stream c = as_driver (cudaMemsetAsync_locked sys dst (uint value) bytes stream c)"

definition entry_stream_create :: "system \<Rightarrow> u64 \<Rightarrow> u32 \<Rightarrow> client \<Rightarrow> nat driver_outcome" where
  "entry_stream_create sys out flags c = as_driver (cudaStreamCreateWithFlags_locked sys out flags c)"

definition entry_stream_priority_create :: "system \<Rightarrow> u64 \<Rightarrow> u32 \<Rightarrow> u32 \<Rightarrow> client \<Rightarrow> nat driver_outcome" where
  "entry_stream_priority_create sys out flags priority c = as_driver (cudaStreamCreateWithPriority_locked sys out flags priority c)"

definition entry_stream_destroy :: "system \<Rightarrow> nat option \<Rightarrow> client \<Rightarrow> unit driver_outcome" where
  "entry_stream_destroy sys stream c = as_driver (cudaStreamDestroy_locked sys stream c)"

definition entry_stream_sync :: "system \<Rightarrow> nat option \<Rightarrow> client \<Rightarrow> unit driver_outcome" where
  "entry_stream_sync sys stream c = as_driver (cudaStreamSynchronize_locked sys stream c)"

definition entry_stream_query :: "system \<Rightarrow> nat option \<Rightarrow> client \<Rightarrow> unit driver_outcome" where
  "entry_stream_query sys stream c = as_driver (cudaStreamQuery_locked sys stream c)"

definition entry_stream_flags :: "system \<Rightarrow> nat option \<Rightarrow> u64 \<Rightarrow> client \<Rightarrow> u32 driver_outcome" where
  "entry_stream_flags sys stream flags c = as_driver (cudaStreamGetFlags_locked sys stream flags c)"

definition entry_stream_priority :: "system \<Rightarrow> nat option \<Rightarrow> u64 \<Rightarrow> client \<Rightarrow> u32 driver_outcome" where
  "entry_stream_priority sys stream priority c = as_driver (cudaStreamGetPriority_locked sys stream priority c)"

definition entry_stream_wait :: "system \<Rightarrow> nat option \<Rightarrow> nat option \<Rightarrow> u32 \<Rightarrow> client \<Rightarrow> unit driver_outcome" where
  "entry_stream_wait sys stream event flags c = as_driver (cudaStreamWaitEvent_locked sys stream event flags c)"

definition entry_event_create :: "system \<Rightarrow> u64 \<Rightarrow> u32 \<Rightarrow> client \<Rightarrow> nat driver_outcome" where
  "entry_event_create sys out flags c = as_driver (cudaEventCreateWithFlags_locked sys out flags c)"

definition entry_event_destroy :: "system \<Rightarrow> nat option \<Rightarrow> client \<Rightarrow> unit driver_outcome" where
  "entry_event_destroy sys event c = as_driver (cudaEventDestroy_locked sys event c)"

definition entry_event_record :: "system \<Rightarrow> nat option \<Rightarrow> nat option \<Rightarrow> client \<Rightarrow> unit driver_outcome" where
  "entry_event_record sys event stream c = as_driver (cudaEventRecord_locked sys event stream c)"

definition entry_event_sync :: "system \<Rightarrow> nat option \<Rightarrow> client \<Rightarrow> unit driver_outcome" where
  "entry_event_sync sys event c = as_driver (cudaEventSynchronize_locked sys event c)"

definition entry_event_query :: "system \<Rightarrow> nat option \<Rightarrow> client \<Rightarrow> unit driver_outcome" where
  "entry_event_query sys event c = as_driver (cudaEventQuery_locked sys event c)"

definition entry_launch :: "system \<Rightarrow> kernel_ref \<Rightarrow> dim3 \<Rightarrow> dim3 \<Rightarrow> u32 \<Rightarrow> nat option \<Rightarrow> (nat \<Rightarrow> u64) option \<Rightarrow> u64 \<Rightarrow> client \<Rightarrow>
    unit driver_outcome" where
  "entry_launch sys func grid block shared stream args extra c =
     (if extra \<noteq> 0 then (Inl DRV_ERROR_NOT_SUPPORTED, c)
      else as_driver (cudaLaunchKernel_locked sys func grid block args (ucast shared) stream c))"

section \<open>Device queries\<close>

text \<open>\<open>corexRemoteRecordErrorInternal\<close>.\<close>

definition corexRemoteRecordErrorInternal :: "cudaError_t \<Rightarrow> client \<Rightarrow> 'a result" where
  "corexRemoteRecordErrorInternal e c = (Inl e, snd (record_error e c))"

definition cudaMemGetInfo :: "system \<Rightarrow> u64 \<Rightarrow> u64 \<Rightarrow> client \<Rightarrow> (u64 \<times> u64) result" where
  "cudaMemGetInfo sys free_bytes total_bytes c =
     (if free_bytes = 0 \<or> total_bytes = 0 then corexRemoteRecordErrorInternal cudaErrorInvalidValue c
      else result_bind (corexRemoteGetDeviceInfoInternal_locked sys 0 1 c)
             (\<lambda>info c. (Inr (di_free_mem info, di_total_global_mem info), c)))"

definition entry_mem_info :: "system \<Rightarrow> u64 \<Rightarrow> u64 \<Rightarrow> client \<Rightarrow> (u64 \<times> u64) driver_outcome" where
  "entry_mem_info sys free_bytes total_bytes c = as_driver (cudaMemGetInfo sys free_bytes total_bytes c)"

text \<open>The properties the application prefers are not looked at.\<close>

definition cudaChooseDevice :: "system \<Rightarrow> u64 \<Rightarrow> u64 \<Rightarrow> client \<Rightarrow> u32 result" where
  "cudaChooseDevice sys device properties c =
     (if device = 0 \<or> properties = 0 then corexRemoteRecordErrorInternal cudaErrorInvalidValue c else cudaGetDevice_locked sys device c)"

definition cudaDeviceCanAccessPeer :: "system \<Rightarrow> u64 \<Rightarrow> int \<Rightarrow> int \<Rightarrow> client \<Rightarrow> int result" where
  "cudaDeviceCanAccessPeer sys can_access device peer_device c =
     (if can_access = 0 then corexRemoteRecordErrorInternal cudaErrorInvalidValue c
      else if device \<noteq> 0 \<or> peer_device \<noteq> 0 then corexRemoteRecordErrorInternal cudaErrorInvalidDevice c
      else result_bind (cudaGetDeviceCount_locked sys 1 c) (\<lambda>_ c. (Inr 0, c)))"

text \<open>
  The table of the driver functions: the name, and whether the function depends on the convention of the
  default stream. The position of a name stands for the address of its function.
\<close>

definition driver_entries :: "(string \<times> bool) list" where
  "driver_entries =
     [(''cuMemAlloc'', False), (''cuMemFree'', False), (''cuMemGetInfo'', False), (''cuMemcpyHtoD'', True), (''cuMemcpyDtoH'', True),
      (''cuMemcpyDtoD'', True), (''cuMemcpyHtoDAsync'', True), (''cuMemcpyDtoHAsync'', True), (''cuMemcpyDtoDAsync'', True),
      (''cuMemsetD8'', True), (''cuMemsetD8Async'', True), (''cuCtxSynchronize'', False), (''cuStreamCreate'', False),
      (''cuStreamCreateWithPriority'', False), (''cuStreamDestroy'', False), (''cuStreamSynchronize'', True), (''cuStreamQuery'', True),
      (''cuStreamGetFlags'', True), (''cuStreamGetPriority'', True), (''cuStreamWaitEvent'', True), (''cuEventCreate'', False),
      (''cuEventDestroy'', False), (''cuEventRecord'', True), (''cuEventSynchronize'', False), (''cuEventQuery'', False),
      (''cuLaunchKernel'', True)]"

text \<open>\<open>per_thread\<close> is \<open>cudaEnablePerThreadDefaultStream\<close>, a constant of the toolkit.\<close>

definition cudaGetDriverEntryPoint :: "system \<Rightarrow> u64 \<Rightarrow> string option \<Rightarrow> u64 \<Rightarrow> u64 \<Rightarrow> client \<Rightarrow> nat result" where
  "cudaGetDriverEntryPoint sys per_thread symbol out flags c =
     (case symbol of
        None \<Rightarrow> corexRemoteRecordErrorInternal cudaErrorInvalidValue c
      | Some name \<Rightarrow>
          if out = 0 \<or> flags > per_thread then corexRemoteRecordErrorInternal cudaErrorInvalidValue c
          else case find (\<lambda>i. fst (driver_entries ! i) = name) [0..<length driver_entries] of
                 None \<Rightarrow> corexRemoteRecordErrorInternal cudaErrorNotSupported c
               | Some i \<Rightarrow>
                   if flags = per_thread \<and> snd (driver_entries ! i) then corexRemoteRecordErrorInternal cudaErrorNotSupported c
                   else result_bind (cudaGetDevice_locked sys 1 c) (\<lambda>_ c. (Inr i, c)))"

text \<open>
  \<open>cudaLaunchKernelExC\<close>: the configuration, and whether each attribute is the one to ignore; \<^const>\<open>None\<close> is a null
  configuration, or a null array that should have entries.
\<close>

definition cudaLaunchKernelExC :: "system \<Rightarrow> (G8ALaunchConfig \<times> bool list) option \<Rightarrow> kernel_ref \<Rightarrow> (nat \<Rightarrow> u64) option \<Rightarrow> client \<Rightarrow> unit result" where
  "cudaLaunchKernelExC sys config func args c =
     (case config of
        None \<Rightarrow> corexRemoteRecordErrorInternal cudaErrorInvalidValue c
      | Some (cfg, ignored) \<Rightarrow>
          if \<not> list_all id ignored then corexRemoteRecordErrorInternal cudaErrorNotSupported c
          else cudaLaunchKernel_locked sys func (lc_grid cfg) (lc_block cfg) args (lc_shared_mem cfg) (lc_stream cfg) c)"

end
