(* ===== verification/Client_Lifecycle.thy ===== *)
theory Client_Lifecycle
  imports Client_Steps Client_Objects Client_Host Client_Device_Api
begin

text \<open>
  The client as a transition system. The entry points of \<^verbatim>\<open>src/corex_remote_cuda.c\<close> are the steps, among
  them the end of the runtime and the turns of the callback worker; between two steps the application
  writes its memory and another thread takes its turn. The properties hold of every state the steps reach
  from the initial context, whatever the network and the operating system answer.
\<close>

section \<open>The contract of the other objects\<close>

lemma same_store_le [simp]: "same c (store_le n p v c1) = same c c1"
  by (simp add: store_le_def)

lemma retires_pool:
  assumes "\<And>h. dies (pool_entry h) (pool_entry (f h))"
  shows "retires c (upd_pool_handle i f c)"
  using assms dies_take [of pool_entry "g_pool_handles c" i]
  by (auto simp: upd_pool_handle_def retires_def tables_def sizes_def intro: list.rel_refl)

lemma retires_kernel:
  assumes "\<And>h. dies (kernel_entry_of h) (kernel_entry_of (f h))"
  shows "retires c (upd_kernel i f c)"
  using assms dies_take [of kernel_entry_of "g_kernel_handles c" i]
  by (auto simp: upd_kernel_def retires_def tables_def sizes_def intro: list.rel_refl)

context client_tables
begin

lemma settings:
  "R c (snd (cudaDeviceSetLimit_locked sys l v c))" "R c (snd (cudaDeviceSetCacheConfig_locked sys k c))"
  "R c (snd (cudaDeviceSetSharedMemConfig_locked sys k c))" "R c (snd (cudaSetDeviceFlags sys fl c))"
  unfolding cudaDeviceSetLimit_locked_def cudaDeviceSetCacheConfig_locked_def cudaDeviceSetSharedMemConfig_locked_def
    cudaSetDeviceFlags_def set_entry_def
  by (intro branch raised runtime same_bind returned; simp add: stub_defs)+

lemma valid_devices: "R c (snd (cudaSetValidDevices sys ds n c))"
  by (auto simp: cudaSetValidDevices_def device_queries(4) R_same split: option.split list.split)

lemma stream_named: "R c (snd (named_stream stream c))"
  by (auto simp: named_stream_def R_refl split: option.split intro!: stream_handle)

lemma stream_attributes:
  "R c (snd (cudaStreamCopyAttributes_locked sys d s c))" "R c (snd (cudaStreamGetAttribute_locked sys stream a p c))"
  unfolding cudaStreamCopyAttributes_locked_def cudaStreamGetAttribute_locked_def
  by (intro branch raised returned runtime on_option on_pair_fun bind [OF stream_named] same_bind; simp add: stub_defs)+

lemma stream_set_attribute: "R c (snd (cudaStreamSetAttribute_locked sys stream a v c))"
proof -
  have w: "R c (snd (window_range w c))" for w c unfolding window_range_def by (intro branch raised returned resolved)
  have s: "stepped sys c (corex_generated_call_cudaStreamSetAttribute (generated_rpc_call sys) q c)" for q c by (simp add: stub_defs)
  show ?thesis
    unfolding cudaStreamSetAttribute_locked_def Let_def
    by (intro on_option branch raised returned runtime bind [OF stream_named] bind w on_pair_fun call s)
qed

end

lemma pool_ready: "pool_runtime_locked sys c = (Inr u, c') \<Longrightarrow> g_lifecycle c' = COREX_RUNTIME_ACTIVE"
  by (auto simp: pool_runtime_locked_def raise_def split: prod.splits if_splits dest: ensure_ready)

context client_tables
begin

lemma pooled:
  assumes "\<And>c'. g_lifecycle c' = COREX_RUNTIME_ACTIVE \<Longrightarrow> R c' (snd (f c'))"
  shows "R c (snd (result_bind (pool_runtime_locked sys c) (\<lambda>_. f)))"
  using assms by (intro bind pool_runtime) (blast dest: pool_ready)

lemma pool_named:
  assumes "\<And>i pid c'. R c' (snd (f i pid c'))"
  shows "R c (snd (on_pool sys pool f c))"
  unfolding on_pool_def using assms by (intro pooled on_option raised)

lemma pool_remembered: "g_lifecycle c = COREX_RUNTIME_ACTIVE \<Longrightarrow> R c (snd (remember_pool pid c))"
proof -
  assume ready: "g_lifecycle c = COREX_RUNTIME_ACTIVE"
  have "appends c (c\<lparr>g_pool_handles := (g_pool_handles c)[g_pool_handle_next c := \<lparr>ph_session_generation = g_active_session_generation c,
      ph_pool_id = pid, ph_live = True\<rparr>], g_pool_handle_next := g_pool_handle_next c + 1\<rparr>)" if "g_pool_handle_next c \<noteq> COREX_MAX_POOL_HANDLES"
  proof (cases "g_pool_handle_next c < COREX_MAX_POOL_HANDLES")
    case True
    then show ?thesis by (intro appends_pool) (simp_all add: pool_entry_def)
  next
    case False
    then have "\<not> client_inv c" using that inv_sizes(5,10) [of c] by auto
    then show ?thesis by (simp add: appends_def)
  qed
  from R_append [OF this ready] show ?thesis by (auto simp: remember_pool_def Let_def R_refl R_same split: option.split)
qed

lemma device_pool: "R c (snd (device_pool_locked sys p d b c))"
  unfolding device_pool_locked_def
  by (intro branch raised pooled same_bind pool_remembered) (auto simp: stub_defs dest: same_ready)

lemma pool_create: "R c (snd (pool_create_locked sys p props c))"
  unfolding pool_create_locked_def
  by (intro on_option branch raised pooled same_bind pool_remembered) (auto simp: stub_defs dest: same_ready)

lemma pool_calls:
  "R c (snd (set_device_pool_locked sys d pool c))" "R c (snd (pool_trim_locked sys pool n c))"
  "R c (snd (pool_attribute_locked sys pool a p st c))" "R c (snd (pool_get_access_locked sys p pool l c))"
  "R c (snd (pool_set_access_locked sys pool ds k c))"
  unfolding set_device_pool_locked_def pool_trim_locked_def pool_attribute_locked_def pool_get_access_locked_def pool_set_access_locked_def Let_def
  by (intro on_option branch raised returned pool_named same_bind call; simp add: stub_defs R_same)+

lemma pool_destroy: "R c (snd (pool_destroy_locked sys pool c))"
  unfolding pool_destroy_locked_def
  by (intro pool_named same_bind) (auto simp: stub_defs dies_def pool_entry_def intro!: R_retires retires_pool)

lemma symbol_address: "R c (snd (symbol_address_locked sys s n off c))"
  unfolding symbol_address_locked_def Let_def by (intro runtime on_option branch raised returned)

lemma symbol_calls:
  "R c (snd (cudaGetSymbolAddress sys p s c))" "R c (snd (cudaGetSymbolSize sys p s c))"
  "R c (snd (symbol_copy_locked sys s other n off kind stream ts async c))"
  unfolding cudaGetSymbolAddress_def cudaGetSymbolSize_def symbol_copy_locked_def Let_def
  by (intro branch raised returned bind symbol_address memcpy memcpy_async)+

lemma library_load_image: "g_lifecycle c = COREX_RUNTIME_ACTIVE \<Longrightarrow> R c (snd (library_load_image_locked sys lib img c))"
proof -
  assume ready: "g_lifecycle c = COREX_RUNTIME_ACTIVE"
  have go: "R c' (snd (let i = g_module_handle_next c' in (Inr i, c'\<lparr>g_module_handles := (g_module_handles c')[i := \<lparr>mh_cookie = G6D_MODULE_COOKIE,
        mh_session_generation = g_active_session_generation c', mh_module_id = m, mh_live = True, mh_library_image = im\<rparr>], g_module_handle_next := i + 1\<rparr>)))"
    if "\<not> g_module_handle_next c \<ge> G6D_MAX_MODULE_HANDLES" "quiet c c1" "same c1 c'" for c1 c' m im
    using that ready same_trans [OF same_quiet [OF that(2)] that(3)]
    by (simp add: Let_def new_entry(3) [of c] del: One_nat_def add_Suc_right)
  have "R c (snd (with_buffer sys n (\<lambda>c. result_bind (call_or e (remote_upload_module_bytes sys opc nm im c)) (\<lambda>m c.
      let i = g_module_handle_next c in (Inr i, c\<lparr>g_module_handles := (g_module_handles c)[i := \<lparr>mh_cookie = G6D_MODULE_COOKIE,
        mh_session_generation = g_active_session_generation c, mh_module_id = m, mh_live = True, mh_library_image = Some im\<rparr>], g_module_handle_next := i + 1\<rparr>))) c))"
    if "\<not> g_module_handle_next c \<ge> G6D_MAX_MODULE_HANDLES" for n e opc nm im
    using go that by (intro buffer same_bind) simp_all
  then show ?thesis
    by (auto simp: library_load_image_locked_def Let_def R_same split: parse.split)
qed

lemma library_load: "R c (snd (library_load_locked sys lib code file jit opts c))"
proof -
  have go: "R c (snd (case corex_library_image bytes of Ok (offset, n) \<Rightarrow> library_load_image_locked sys lib (take n (drop offset bytes)) c
      | _ \<Rightarrow> raise cudaErrorNotSupported c))" if "g_lifecycle c = COREX_RUNTIME_ACTIVE" for bytes c
    using that by (auto simp: R_same library_load_image split: parse.split)
  show ?thesis
    unfolding library_load_locked_def Let_def
    by (intro branch raised on_option runtime library_load_image go)
qed

lemma library_named: "(\<And>m img. R c (snd (f m img c))) \<Longrightarrow> R c (snd (with_library lib f c))"
  unfolding with_library_def by (intro on_option raised)

lemma library_get_kernel: "R c (snd (library_get_kernel_locked sys p lib n c))"
proof -
  have go: "R c (snd (case g7e_attach_compiler_abi_from_metadata sys img k nm c of
        (Inl e, c) \<Rightarrow> raise e (upd_kernel k (\<lambda>h. h\<lparr>kh_live := False\<rparr>) c) | (Inr _, c) \<Rightarrow> (Inr k, c)))" for img k nm c
  proof -
    obtain r c1 where r: "g7e_attach_compiler_abi_from_metadata sys img k nm c = (r, c1)" by fastforce
    have "R c c1" using abi_attached [of c img k nm] r by simp
    moreover have "R c1 (upd_kernel k (\<lambda>h. h\<lparr>kh_live := False\<rparr>) c1)"
      by (intro R_retires retires_kernel) (simp add: dies_def kernel_entry_of_def)
    ultimately show ?thesis by (auto simp: r raise_def split: sum.split intro: R_trans then_same [OF R_trans])
  qed
  have "R c (snd (with_library lib (\<lambda>m img c. case find_library_kernel (mh_module_id (g_module_handles c ! m)) nm c of
              Some k \<Rightarrow> (Inr k, c)
            | None \<Rightarrow> result_bind (recorded (bind_kernel_identity_after_runtime sys m nm G7D_KERNEL_ORIGIN_CONTROLLED 0 0 c)) (\<lambda>k c.
                  case g7e_attach_compiler_abi_from_metadata sys img k nm c of
                    (Inl e, c) \<Rightarrow> raise e (upd_kernel k (\<lambda>h. h\<lparr>kh_live := False\<rparr>) c)
                  | (Inr _, c) \<Rightarrow> (Inr k, c))) c))" if "g_lifecycle c = COREX_RUNTIME_ACTIVE" for nm c
    using that by (intro library_named on_option returned bind noted kernel_bound go)
  then show ?thesis unfolding library_get_kernel_locked_def by (intro on_option branch raised runtime)
qed

lemma library_count: "R c (snd (library_count_locked sys p lib c))"
  unfolding library_count_locked_def by (intro branch raised runtime library_named call) (simp add: stub_defs)

lemma kernels_enumerated: "R c (snd (enumerate_kernels sys lib m ks c))"
proof (induction ks arbitrary: c)
  case (Cons i ks)
  show ?case unfolding enumerate_kernels.simps by (intro same_bind bind library_get_kernel Cons returned) (simp add: stub_defs)
qed (simp add: R_refl)

lemma library_enumerate: "R c (snd (library_enumerate_locked sys p k lib c))"
  unfolding library_enumerate_locked_def by (intro branch raised bind library_count on_option kernels_enumerated)

lemma library_unload: "R c (snd (library_unload_locked sys lib c))"
  unfolding library_unload_locked_def by (intro runtime library_named noted module_unloaded)

lemma kernel_identity: "R c (snd (kernel_identity_locked sys p symbol c))"
  unfolding kernel_identity_locked_def by (intro on_option branch raised returned runtime)

lemma callback_submitted: "R c (snd (submit_host_callback_locked sys stream hf cb d c))"
proof -
  have "R c (snd (prepare_host_callback_worker_locked sys c))" for c
    by (auto simp: prepare_host_callback_worker_locked_def R_refl R_same case_prod_beta)
  then show ?thesis
    unfolding submit_host_callback_locked_def by (intro branch rejected raised runtime streamed bind) (simp_all add: R_same)
qed

lemma callbacks:
  "R c (snd (cudaLaunchHostFunc sys stream f d c))" "R c (snd (cudaStreamAddCallback sys stream f d fl c))"
  unfolding cudaLaunchHostFunc_def cudaStreamAddCallback_def by (intro branch raised callback_submitted)+

lemma callback_run: "R c (snd (callback_prepare sys c))" "R c (callback_finish c)"
  unfolding callback_prepare_def Let_def by (intro call_else_ok drains; simp) (simp add: callback_finish_def R_same)

end

section \<open>The contract of locked memory and the device queries\<close>

lemma unlock_same: "same c (snd (unlock_pages sys others start limit c))"
proof (induction sys others start limit c rule: unlock_pages.induct)
  case (1 sys others start limit c)
  let ?n = "next_start others start limit" and ?m = "if covered_end others start < limit then covered_end others start else limit"
  obtain r c1 where r: "syscall sys (Sys_munlock start (?n - start)) c = (r, c1)" by fastforce
  have c1: "same c c1" using same_syscall [of c sys "Sys_munlock start (?n - start)" c] r by simp
  show ?case
  proof (cases "start < limit \<and> \<not> covered_end others start > start \<and> so_ok r")
    case True
    then have "same c1 (snd (unlock_pages sys others ?n limit c1))" using "1.IH"(2) [OF _ refl refl _ r [symmetric]] by auto
    then show ?thesis using True r same_trans [OF c1] by (simp add: unlock_pages.simps [of sys others start limit c])
  next
    case False
    then show ?thesis using "1.IH"(1) c1 r
      by (auto simp: unlock_pages.simps [of sys others start limit c] Let_def raise_def)
  qed
qed

lemma put_host_same [simp]: "same c (put_host i a c1) = same c c1"
  by (simp add: put_host_def)

lemma as_driver_state [simp]: "snd (as_driver x) = snd x"
  by (simp add: as_driver_def case_prod_beta)

lemma recorded_same: "same c (snd (corexRemoteRecordErrorInternal e c))"
  by (simp add: corexRemoteRecordErrorInternal_def record_error_def)

context client_tables
begin

lemma host_alloc: "R c (snd (cudaHostAlloc_locked sys p n flags c))"
  by (rule R_same) (auto simp: cudaHostAlloc_locked_def raise_def Let_def case_prod_beta split: option.split)

lemma host_register: "R c (snd (cudaHostRegister_locked sys page p n flags c))"
  by (rule R_same) (auto simp: cudaHostRegister_locked_def raise_def Let_def case_prod_beta split: option.split)

lemma host_release: "R c (snd (release_host_locked sys page p owned c))"
proof -
  have "same c' (snd (release_entry sys page i owned c'))" for i c'
    using unlock_same [of c' sys]
    by (auto simp: release_entry_def result_bind_def raise_def Let_def case_prod_beta split: sum.split)
  then show ?thesis unfolding release_host_locked_def by (intro branch on_option bind returned raised device_synchronize R_same) blast+
qed

lemma host_queries:
  "R c (snd (cudaHostGetFlags_locked p q c))" "R c (snd (cudaHostGetDevicePointer_locked p q flags c))"
  "R c (snd (cudaPointerGetAttributes_locked p q c))"
  by (rule R_same, auto simp: cudaHostGetFlags_locked_def cudaHostGetDevicePointer_locked_def cudaPointerGetAttributes_locked_def raise_def
      split: option.split sum.split)+

lemma device_api:
  "R c (snd (cudaMemGetInfo sys p q c))" "R c (snd (cudaChooseDevice sys p q c))" "R c (snd (cudaDeviceCanAccessPeer sys p d e c))"
  "R c (snd (cudaGetDriverEntryPoint sys k symbol p fl c))" "R c (snd (cudaLaunchKernelExC sys cfg kref args c))"
  unfolding cudaMemGetInfo_def cudaChooseDevice_def cudaDeviceCanAccessPeer_def cudaGetDriverEntryPoint_def cudaLaunchKernelExC_def
  by (intro branch on_option on_pair_fun on_pair bind device_queries launch returned R_same recorded_same)+

end

section \<open>The end of the runtime\<close>

definition dead :: "client \<Rightarrow> bool" where
  "dead c \<longleftrightarrow> (\<forall>t \<in> set (tables c). \<forall>e \<in> set t. \<not> fst e)"

lemma dies_map: "(\<And>h. dies (f h) (f (g h))) \<Longrightarrow> list_all2 dies (map f (take n xs)) (map f (take n (map g xs)))"
  by (simp add: list_all2_conv_all_nth)

lemma failed_dies: "list_all2 (list_all2 dies) (tables c) (tables (mark_session_failed_locked sys c))"
  by (auto simp: mark_session_failed_locked_def invalidate_client_graphs_def close_fd_def syscall_def Let_def tables_def entry_defs dies_def
      fail_stream_def fail_event_def fail_module_def fail_kernel_def intro!: dies_upto dies_map)

lemma dead_closed:
  assumes "dead c'" "sizes c' = sizes c"
  shows "list_all2 (\<lambda>t t'. length t' = length t \<and> (\<forall>e \<in> set t'. \<not> fst e)) (tables c) (tables c')"
  using assms by (auto simp: tables_def sizes_def dead_def)

text \<open>What the calls between the two loops over the tables leave: the four tables that were closed stay closed.\<close>

definition half_dead :: "client \<Rightarrow> bool" where
  "half_dead c \<longleftrightarrow> (\<forall>t \<in> set (take 4 (tables c)). \<forall>e \<in> set t. \<not> fst e)"

lemma all_dead:
  assumes "\<forall>t \<in> set ts. \<forall>e \<in> set t. \<not> fst e" "list_all2 (list_all2 dies) ts ts'"
  shows "\<forall>t \<in> set ts'. \<forall>e \<in> set t. \<not> fst e"
proof (intro ballI)
  fix t' e' assume t': "t' \<in> set ts'" and e': "e' \<in> set t'"
  obtain t where t: "t \<in> set ts" "list_all2 dies t t'" using list_all2_set2 [OF assms(2) t'] by blast
  obtain e where e: "e \<in> set t" "dies e e'" using list_all2_set2 [OF t(2) e'] by blast
  show "\<not> fst e'" using assms(1) t(1) e by (auto simp: dies_def)
qed

lemma set_take_upto: "x \<in> set (take n (map_upto n f xs)) \<Longrightarrow> \<exists>y. x = f y"
  by (auto simp: in_set_conv_nth nth_map_upto)

lemma half_dead_close_streams: "half_dead (close_streams c)"
  by (auto simp: half_dead_def close_streams_def tables_def entry_defs dest!: set_take_upto)

lemma dead_close_tables: "half_dead c \<Longrightarrow> dead (close_tables c)"
  by (auto simp: half_dead_def dead_def close_tables_def tables_def entry_defs dest!: set_take_upto)

text \<open>Nothing comes to life and the arena stays, whatever becomes of the session.\<close>

definition ebbs :: "client \<Rightarrow> client \<Rightarrow> bool" where
  "ebbs c c' \<longleftrightarrow> list_all2 (list_all2 dies) (tables c) (tables c') \<and> sizes c' = sizes c \<and> g_va_arena c' = g_va_arena c \<and>
     g_va_next c' = g_va_next c"

lemma ebbs_trans: "ebbs a b \<Longrightarrow> ebbs b c \<Longrightarrow> ebbs a c"
  unfolding ebbs_def by (auto intro: list_all2_trans [OF list_all2_trans [OF dies_trans]])

lemma ebbs_same: "same c c' \<Longrightarrow> ebbs c c'"
  using same_retires [of c c'] by (simp add: ebbs_def retires_def)

lemma ebbs_failed: "ebbs c (mark_session_failed_locked sys c)"
  by (simp add: ebbs_def failed_dies)

lemma ebbs_called: "stepped sys c x \<Longrightarrow> ebbs c (snd x)"
  by (cases x) (auto simp: stepped_def intro: ebbs_same ebbs_trans [OF ebbs_same ebbs_failed] same_quiet)

lemma ebbs_connection: "ebbs c (close_connection sys c)"
proof -
  have "ebbs c (snd (rpc sys OP_CLOSE [] c))" by (rule ebbs_called [of sys]) (simp add: stepped_rpc)
  moreover have "ebbs c1 ((snd (syscall sys (Sys_close (g_fd c1)) c1))\<lparr>g_fd := - 1\<rparr>)" for c1
    using ebbs_same [of c1 c1] by (simp add: ebbs_def syscall_def tables_def sizes_def)
  moreover have "ebbs c c" by (simp add: ebbs_same)
  ultimately show ?thesis unfolding close_connection_def Let_def by (auto intro: ebbs_trans)
qed

lemma shutdown_closed:
  assumes "c' = close_tables (g7c_finalize_registrations_after_session_close (close_connection sys (close_streams c)))"
  shows "closed c c'"
proof -
  let ?c1 = "close_streams c" and ?c2 = "close_connection sys (close_streams c)"
  let ?c3 = "g7c_finalize_registrations_after_session_close ?c2"
  have k: "ebbs ?c1 ?c2" by (rule ebbs_connection)
  have "half_dead ?c2" using half_dead_close_streams [of c] k all_dead [of "take 4 (tables ?c1)" "take 4 (tables ?c2)"]
    by (simp add: half_dead_def ebbs_def list_all2_takeI)
  moreover have "same ?c2 ?c3" by (simp add: g7c_finalize_registrations_after_session_close_def)
  ultimately have d: "dead c'" unfolding assms by (intro dead_close_tables) (simp add: half_dead_def same_def)
  have "sizes c' = sizes c" "g_va_arena c' = g_va_arena c" "g_va_next c' = g_va_next c"
    using k \<open>same ?c2 ?c3\<close> unfolding assms by (simp_all add: ebbs_def same_def close_tables_def close_streams_def sizes_def)
  then show ?thesis
    using d dead_closed [OF d, of c] unfolding assms by (simp add: closed_def close_tables_def zero_virtual_allocation_def)
qed
text \<open>Between two steps the runtime is never caught on its way down.\<close>

definition kept :: "system \<Rightarrow> client \<Rightarrow> client \<Rightarrow> bool" where
  "kept sys c c' \<longleftrightarrow> safe_step sys c c' \<and>
     (g_lifecycle c \<noteq> COREX_RUNTIME_SHUTTING_DOWN \<longrightarrow> g_lifecycle c' \<noteq> COREX_RUNTIME_SHUTTING_DOWN)"

lemma stepped_lifecycle: "stepped sys c x \<Longrightarrow> g_lifecycle (snd x) \<in> {g_lifecycle c, COREX_RUNTIME_FAILED}"
  by (cases x) (auto simp: stepped_def quietD)

lemma negotiate_lifecycle: "g_lifecycle (snd (negotiate_hello sys c)) \<in> {g_lifecycle c, COREX_RUNTIME_FAILED}"
proof -
  obtain r c1 where r: "rpc sys OP_HELLO [] c = (r, c1)" by fastforce
  have "stepped sys c (rpc sys OP_HELLO [] c)" by (rule stepped_rpc) simp
  then show ?thesis using stepped_lifecycle [of sys c "(r, c1)"] r
    by (auto simp: negotiate_hello_def split: option.split)
qed

lemma runtime_lifecycle:
  "g_lifecycle c \<noteq> COREX_RUNTIME_SHUTTING_DOWN \<Longrightarrow> g_lifecycle (snd (ensure_runtime_locked sys c)) \<noteq> COREX_RUNTIME_SHUTTING_DOWN"
proof -
  assume c: "g_lifecycle c \<noteq> COREX_RUNTIME_SHUTTING_DOWN"
  have a: "g_lifecycle (snd (ensure_arena sys c)) = g_lifecycle c" by (simp add: ensure_arena_def syscall_def Let_def)
  have f: "g_lifecycle (snd (default_frontier_buffer sys c1)) = g_lifecycle c1" for c1 by (simp add: default_frontier_buffer_def syscall_def Let_def)
  have n: "negotiate_hello sys c1 = (ok, c2) \<Longrightarrow> g_lifecycle c1 = COREX_RUNTIME_ACTIVE \<Longrightarrow> g_lifecycle c2 \<noteq> COREX_RUNTIME_SHUTTING_DOWN" for c1 ok c2
    using negotiate_lifecycle [of sys c1] by auto
  have s: "g_lifecycle (register_shutdown sys c1) = g_lifecycle c1" for c1 using same_register [of c1 sys] by (simp add: same_def)
  show ?thesis using c a f n s
    by (auto simp: ensure_runtime_locked_def record_error_def Let_def split: prod.split) (metis snd_conv)+
qed

interpretation kept: client_tables sys "kept sys" for sys
  by unfold_locales
    (auto simp: kept_def same_def retires_def runtime_lifecycle appends_def put_alloc_def
      intro: safe_trans safe_same safe_retires safe_failed safe_ensure_runtime safe_put_alloc safe_appends)

lemma same_graphs: "same c (invalidate_client_graphs c)"
  by (simp add: invalidate_client_graphs_def same_def tables_def sizes_def)

text \<open>The lifecycle moves, and nothing else the invariant sees.\<close>

lemma safe_lifecycle:
  assumes "g_va_arena c' = g_va_arena c" "g_va_next c' = g_va_next c" "g_allocs c' = g_allocs c" "tables c' = tables c" "sizes c' = sizes c"
    and "client_inv c \<Longrightarrow> g_active_session_generation c' = g_active_session_generation c \<and> session_inv_of c'"
  shows "safe_step sys c c'"
proof -
  have "client_inv c' \<and> lineage c c'" if inv: "client_inv c"
  proof -
    have "arena_inv c' = arena_inv c" using assms inv by (intro arena_inv_cong) simp_all
    then have "client_inv c'" using inv assms by (simp add: client_inv_def)
    moreover have "lineage c c'"
      using assms(1-4) by (auto simp: lineage_def allocs_descend_def cursor_def intro!: list.rel_refl)
    ultimately show ?thesis ..
  qed
  then show ?thesis by (simp add: safe_step_def)
qed

lemma safe_shutting_down: "g_lifecycle c = COREX_RUNTIME_ACTIVE \<Longrightarrow> safe_step sys c (c\<lparr>g_lifecycle := COREX_RUNTIME_SHUTTING_DOWN\<rparr>)"
  by (rule safe_lifecycle) (simp_all add: tables_def sizes_def session_inv_of_def)

lemma safe_disconnected:
  assumes "g_lifecycle c \<noteq> COREX_RUNTIME_ACTIVE \<or> g_fd c < 0" "g_lifecycle c \<noteq> COREX_RUNTIME_SHUTTING_DOWN"
  shows "safe_step sys c (c\<lparr>g_lifecycle := COREX_RUNTIME_DISCONNECTED, g_active_session_generation := 0\<rparr>)"
  using assms by (intro safe_lifecycle) (auto simp: tables_def sizes_def session_inv_of_def client_inv_def split: if_splits)

lemma shutdown_kept: "g_lifecycle c \<noteq> COREX_RUNTIME_SHUTTING_DOWN \<Longrightarrow> kept sys c (corexRemoteRuntimeShutdown_locked sys c)"
proof -
  assume c: "g_lifecycle c \<noteq> COREX_RUNTIME_SHUTTING_DOWN"
  let ?c1 = "invalidate_client_graphs c"
  let ?c2 = "?c1\<lparr>g_lifecycle := COREX_RUNTIME_SHUTTING_DOWN\<rparr>"
  let ?c3 = "g7c_cleanup_registrations_before_runtime_shutdown sys ?c2"
  let ?c4 = "close_tables (g7c_finalize_registrations_after_session_close (close_connection sys (close_streams ?c3)))"
  have s: "safe_step sys c ?c1" "g_lifecycle ?c1 = g_lifecycle c" using safe_same [OF same_graphs] same_graphs [of c] by (simp_all add: same_def)
  show ?thesis
  proof (cases "g_lifecycle ?c1 \<noteq> COREX_RUNTIME_ACTIVE \<or> g_fd ?c1 < 0")
    case True
    then show ?thesis using safe_trans [OF s(1) safe_disconnected [OF True]] c s(2)
      by (simp add: kept_def corexRemoteRuntimeShutdown_locked_def Let_def)
  next
    case False
    have "safe_step sys ?c1 ?c2" using False by (intro safe_shutting_down) simp
    moreover have "safe_step sys ?c2 ?c3" by (rule safe.registrations_cleaned)
    moreover have "safe_step sys ?c3 ?c4" by (rule safe_closed [OF shutdown_closed]) simp
    ultimately have "safe_step sys c ?c4" using s(1) safe_trans by blast
    then show ?thesis using False by (simp add: kept_def corexRemoteRuntimeShutdown_locked_def Let_def close_tables_def)
  qed
qed

lemma reset_kept: "g_lifecycle c \<noteq> COREX_RUNTIME_SHUTTING_DOWN \<Longrightarrow> kept sys c (snd (cudaDeviceReset sys c))"
proof -
  assume c: "g_lifecycle c \<noteq> COREX_RUNTIME_SHUTTING_DOWN"
  obtain r c1 where r: "cudaDeviceSynchronize_locked sys c = (r, c1)" by fastforce
  have k: "kept sys c c1" using kept.device_synchronize [of sys c] r by simp
  then have "kept sys c (corexRemoteRuntimeShutdown_locked sys c1)" using c by (intro kept.R_trans [OF k shutdown_kept]) (simp add: kept_def)
  then have "kept sys c (snd (r, (corexRemoteRuntimeShutdown_locked sys c1)\<lparr>g_current_device := 0\<rparr>))"
    by (rule kept.R_trans) (simp add: kept.R_same)
  then have "kept sys c (snd (recorded (r, (corexRemoteRuntimeShutdown_locked sys c1)\<lparr>g_current_device := 0\<rparr>)))" by (rule kept.noted)
  moreover have "kept sys c (snd (recorded (Inr (), c\<lparr>g_current_device := 0\<rparr>)))" by (rule kept.noted) (simp add: kept.R_same)
  ultimately show ?thesis by (simp add: cudaDeviceReset_def r)
qed
section \<open>The transition system\<close>

text \<open>
  One step: an entry point with any arguments; the part of the library that runs when the process loads
  and unloads its images; a turn of the callback worker; another thread, with its own values of the
  thread-local variables; the application writing its memory. An entry point returns only once the worker
  has called a pending function; the relation allows any order of the two. The driver functions of
  \<^verbatim>\<open>src/corex_device_api.c\<close> are the entry points they call, with another result code.
\<close>

inductive client_step :: "system \<Rightarrow> client \<Rightarrow> client \<Rightarrow> bool" for sys where
  "client_step sys c (snd (cudaGetLastError c))"
| "client_step sys c (snd (cudaMalloc_locked sys p n c))"
| "client_step sys c (snd (cudaMallocPitch_locked sys p q w h c))"
| "client_step sys c (snd (cudaMalloc3D_locked sys p e c))"
| "client_step sys c (snd (cudaFree_locked sys p c))"
| "client_step sys c (snd (malloc_async_locked sys p n pool stream explicit c))"
| "client_step sys c (snd (free_async_locked sys p stream c))"
| "client_step sys c (snd (cudaMemcpy_locked sys dst src n kind c))"
| "client_step sys c (snd (cudaMemcpyAsync_locked sys dst src n kind stream c))"
| "client_step sys c (snd (cudaMemcpy2D_locked sys dst dpitch src spitch w h kind c))"
| "client_step sys c (snd (cudaMemcpy2DAsync_locked sys dst dpitch src spitch w h kind stream c))"
| "client_step sys c (snd (cudaMemcpy3D_locked sys params stream async c))"
| "client_step sys c (snd (cudaMemset_locked sys p v n c))"
| "client_step sys c (snd (cudaMemsetAsync_locked sys p v n stream c))"
| "client_step sys c (snd (cudaMemset2D_locked sys p pitch v w h c))"
| "client_step sys c (snd (cudaMemset2DAsync_locked sys p pitch v w h stream c))"
| "client_step sys c (snd (cudaMemset3D_locked sys pitched v e stream async c))"
| "client_step sys c (snd (cudaDeviceSynchronize_locked sys c))"
| "client_step sys c (snd (cudaStreamCreate_locked sys p c))"
| "client_step sys c (snd (cudaStreamCreateWithFlags_locked sys p flags c))"
| "client_step sys c (snd (cudaStreamCreateWithPriority_locked sys p flags priority c))"
| "client_step sys c (snd (cudaStreamGetFlags_locked sys stream p c))"
| "client_step sys c (snd (cudaStreamGetPriority_locked sys stream p c))"
| "client_step sys c (snd (cudaStreamDestroy_locked sys stream c))"
| "client_step sys c (snd (cudaStreamSynchronize_locked sys stream c))"
| "client_step sys c (snd (cudaStreamQuery_locked sys stream c))"
| "client_step sys c (snd (cudaStreamWaitEvent_locked sys stream event flags c))"
| "client_step sys c (snd (cudaEventCreate_locked sys p c))"
| "client_step sys c (snd (cudaEventCreateWithFlags_locked sys p flags c))"
| "client_step sys c (snd (cudaEventDestroy_locked sys event c))"
| "client_step sys c (snd (cudaEventRecord_locked sys event stream c))"
| "client_step sys c (snd (cudaEventSynchronize_locked sys event c))"
| "client_step sys c (snd (cudaEventQuery_locked sys event c))"
| "client_step sys c (snd (cudaEventElapsedTime_locked sys p event stop c))"
| "client_step sys c (snd (corexRemoteGetDeviceInfoInternal_locked sys d p c))"
| "client_step sys c (snd (cudaGetDeviceCount_locked sys p c))"
| "client_step sys c (snd (cudaGetDevice_locked sys p c))"
| "client_step sys c (snd (cudaSetDevice_locked sys d c))"
| "client_step sys c (snd (cudaDriverGetVersion_locked sys p c))"
| "client_step sys c (snd (cudaRuntimeGetVersion_locked sys p c))"
| "client_step sys c (snd (cudaDeviceGetAttribute_locked sys p a d c))"
| "client_step sys c (snd (cudaDeviceGetPCIBusId_locked sys p len d c))"
| "client_step sys c (snd (cudaDeviceGetByPCIBusId_locked sys p name c))"
| "client_step sys c (snd (cudaGetDeviceFlags_locked sys p c))"
| "client_step sys c (snd (cudaDeviceGetStreamPriorityRange_locked sys p q c))"
| "client_step sys c (snd (cudaDeviceGetLimit_locked sys p l c))"
| "client_step sys c (snd (cudaDeviceGetCacheConfig_locked sys p c))"
| "client_step sys c (snd (cudaDeviceGetSharedMemConfig_locked sys p c))"
| "client_step sys c (snd (cudaFuncGetAttributes_locked sys p func c))"
| "client_step sys c (snd (cudaFuncSetAttribute_locked sys func a d c))"
| "client_step sys c (snd (cudaFuncSetCacheConfig_locked sys func cfg c))"
| "client_step sys c (snd (cudaFuncSetSharedMemConfig_locked sys func cfg c))"
| "client_step sys c (snd (cudaOccupancy_locked sys p func b n c))"
| "client_step sys c (snd (cudaOccupancyFlags_locked sys p func b n flags c))"
| "client_step sys c (snd (cudaOccupancyPotential_locked sys p q func n b c))"
| "client_step sys c (snd (corexRemoteModuleLoad_locked sys name file p c))"
| "client_step sys c (snd (corexRemoteModuleUnload_locked sys module c))"
| "client_step sys c (snd (corexRemoteRegisterKernel_locked sys module name args p c))"
| "client_step sys c (snd (cudaRegisterFatBinary_locked sys objects p c))"
| "client_step sys c (snd (cudaLaunchKernel_locked sys kref grid block params n stream c))"
| "client_step sys c (snd (capture_exchange_locked mode c))"
| "client_step sys c (snd (cudaDeviceSetLimit_locked sys l n c))"
| "client_step sys c (snd (cudaDeviceSetCacheConfig_locked sys cfg c))"
| "client_step sys c (snd (cudaDeviceSetSharedMemConfig_locked sys cfg c))"
| "client_step sys c (snd (cudaSetValidDevices sys devices len c))"
| "client_step sys c (snd (cudaSetDeviceFlags sys flags c))"
| "client_step sys c (snd (cudaStreamCopyAttributes_locked sys stream other c))"
| "client_step sys c (snd (cudaStreamGetAttribute_locked sys stream l p c))"
| "client_step sys c (snd (cudaStreamSetAttribute_locked sys stream l attribute c))"
| "client_step sys c (snd (device_pool_locked sys p d set_default c))"
| "client_step sys c (snd (set_device_pool_locked sys d pool c))"
| "client_step sys c (snd (pool_create_locked sys p props c))"
| "client_step sys c (snd (pool_destroy_locked sys pool c))"
| "client_step sys c (snd (pool_trim_locked sys pool n c))"
| "client_step sys c (snd (pool_attribute_locked sys pool a p set_it c))"
| "client_step sys c (snd (pool_get_access_locked sys p pool location c))"
| "client_step sys c (snd (pool_set_access_locked sys pool access n c))"
| "client_step sys c (snd (cudaGetSymbolAddress sys p symbol c))"
| "client_step sys c (snd (cudaGetSymbolSize sys p symbol c))"
| "client_step sys c (snd (symbol_copy_locked sys symbol p n offset kind stream to_symbol async c))"
| "client_step sys c (snd (library_load_locked sys p code image_file jit options c))"
| "client_step sys c (snd (library_get_kernel_locked sys p module name c))"
| "client_step sys c (snd (library_count_locked sys p module c))"
| "client_step sys c (snd (library_enumerate_locked sys p capacity module c))"
| "client_step sys c (snd (library_unload_locked sys module c))"
| "client_step sys c (snd (kernel_identity_locked sys p func c))"
| "client_step sys c (snd (cudaLaunchHostFunc sys stream f data c))"
| "client_step sys c (snd (cudaStreamAddCallback sys stream f data flags c))"
| "client_step sys c (snd (cudaHostAlloc_locked sys p n flags c))"
| "client_step sys c (snd (cudaHostRegister_locked sys page p n flags c))"
| "client_step sys c (snd (release_host_locked sys page p owned c))"
| "client_step sys c (snd (cudaHostGetFlags_locked p q c))"
| "client_step sys c (snd (cudaHostGetDevicePointer_locked p q flags c))"
| "client_step sys c (snd (cudaPointerGetAttributes_locked p q c))"
| "client_step sys c (snd (cudaMemGetInfo sys p q c))"
| "client_step sys c (snd (cudaChooseDevice sys p q c))"
| "client_step sys c (snd (cudaDeviceCanAccessPeer sys p l peer c))"
| "client_step sys c (snd (cudaGetDriverEntryPoint sys per_thread symbol_name p n c))"
| "client_step sys c (snd (cudaLaunchKernelExC sys config kref params c))"
| "client_step sys c (snd (cudaDeviceReset sys c))"
| "client_step sys c (cudaRegisterVar_locked sys handle var name n c)"
| "client_step sys c (cudaRegisterFunction_locked sys handle f name c)"
| "client_step sys c (cudaRegisterFatBinaryEnd_locked handle c)"
| "client_step sys c (cudaUnregisterFatBinary_locked sys handle c)"
| "client_step sys c (corexRemoteRuntimeShutdown_locked sys c)"
| "cb_pending (g_callback c) \<Longrightarrow> client_step sys c (snd (callback_prepare sys c))"
| "cb_pending (g_callback c) \<Longrightarrow> client_step sys c (callback_finish c)"
| "client_step sys c (c\<lparr>self := thread, g_last_error := error, g_last_remote_status := status, g_last_rpc_transport_error := lost,
     g_current_device := d, g_capture_interaction := interaction\<rparr>)"
| "client_step sys c (c\<lparr>host := memory\<rparr>)"

lemma exchange_kept: "kept sys c (snd (capture_exchange_locked mode c))"
  by (auto simp: capture_exchange_locked_def split: option.split intro: kept.R_same)

lemmas entry_point_kept = kept.allocated kept.malloc_pitch kept.malloc_3d kept.free kept.malloc_async kept.free_async kept.memcpy
  kept.memcpy_async kept.memcpy_2d kept.memcpy_2d_async kept.memcpy_3d kept.memset kept.memset_async kept.memset_2d
  kept.memset_2d_async kept.memset_3d kept.device_synchronize kept.stream_create kept.stream_get kept.stream_destroy
  kept.stream_synchronize kept.stream_query kept.stream_wait_event kept.event_create kept.event_destroy kept.event_record
  kept.event_synchronize kept.event_query kept.event_elapsed kept.device_queries kept.function_queries kept.module_load
  kept.module_unload kept.kernel_register kept.fat_binary kept.launch exchange_kept kept.settings kept.valid_devices
  kept.stream_attributes kept.stream_set_attribute kept.device_pool kept.pool_create kept.pool_destroy kept.pool_calls
  kept.symbol_calls kept.library_load kept.library_get_kernel kept.library_count kept.library_enumerate kept.library_unload
  kept.kernel_identity kept.callbacks kept.register_var kept.register_function kept.fat_binary_end kept.unregister
  kept.callback_run kept.host_alloc kept.host_register kept.host_release kept.host_queries kept.device_api reset_kept shutdown_kept

lemma step_kept: "client_step sys c c' \<Longrightarrow> g_lifecycle c \<noteq> COREX_RUNTIME_SHUTTING_DOWN \<Longrightarrow> kept sys c c'"
  by (erule client_step.cases)
    (simp_all add: entry_point_kept cudaMalloc_locked_def cudaStreamCreate_locked_def cudaStreamCreateWithFlags_locked_def
      cudaStreamCreateWithPriority_locked_def cudaGetLastError_def kept.R_same)

lemma initial_inv: "client_inv g_runtime_context" "g_lifecycle g_runtime_context \<noteq> COREX_RUNTIME_SHUTTING_DOWN"
  by (simp_all add: g_runtime_context_def client_inv_def session_inv_of_def sizes_def tables_def arena_inv_def zero_virtual_allocation_def)

lemma steps_kept: "(client_step sys)\<^sup>*\<^sup>* c c' \<Longrightarrow> g_lifecycle c \<noteq> COREX_RUNTIME_SHUTTING_DOWN \<Longrightarrow> kept sys c c'"
proof (induction rule: rtranclp_induct)
  case (step c1 c2)
  then have "kept sys c c1" by simp
  moreover have "kept sys c1 c2" using step calculation by (intro step_kept) (simp_all add: kept_def)
  ultimately show ?case by (rule kept.R_trans)
qed (rule kept.R_refl)

text \<open>The states the runtime can be in between two steps.\<close>

definition reachable :: "system \<Rightarrow> client \<Rightarrow> bool" where
  "reachable sys c \<longleftrightarrow> (client_step sys)\<^sup>*\<^sup>* g_runtime_context c"

lemma reachable_inv:
  assumes "reachable sys c" "maps_memory sys"
  shows "client_inv c" "g_lifecycle c \<noteq> COREX_RUNTIME_SHUTTING_DOWN"
  using steps_kept [of sys g_runtime_context c] assms initial_inv by (auto simp: reachable_def kept_def safe_step_def)

lemma reachable_lineage:
  assumes "reachable sys c" "maps_memory sys" "(client_step sys)\<^sup>*\<^sup>* c c'"
  shows "lineage c c'" "reachable sys c'"
  using steps_kept [OF assms(3)] reachable_inv [OF assms(1,2)] assms by (auto simp: reachable_def kept_def safe_step_def)
section \<open>Handles\<close>

text \<open>The handles the application holds, and the identifier of the remote object a handle stands for.\<close>

datatype client_handle = Stream_handle nat | Event_handle nat | Module_handle nat | Kernel_of nat | Pool_handle nat

definition remote_id :: "client_handle \<Rightarrow> client \<Rightarrow> u64 option" where
  "remote_id h c =
     (case h of
        Stream_handle i \<Rightarrow> map_option (\<lambda>i. sh_stream_id (g_stream_handles c ! i)) (resolve_stream_handle (Some i) c)
      | Event_handle i \<Rightarrow> map_option (\<lambda>i. eh_event_id (g_event_handles c ! i)) (resolve_event_handle (Some i) c)
      | Module_handle i \<Rightarrow> map_option (\<lambda>i. mh_module_id (g_module_handles c ! i)) (resolve_module_handle (Some i) c)
      | Kernel_of i \<Rightarrow> map_option (\<lambda>i. kh_kernel_id (g_kernel_handles c ! i)) (resolve_kernel_reference (Kernel_handle i) c)
      | Pool_handle i \<Rightarrow> map_option (\<lambda>i. ph_pool_id (g_pool_handles c ! i)) (resolve_pool_handle (Some i) c))"

text \<open>Whether a handle has been given to the application.\<close>

definition issued :: "client_handle \<Rightarrow> client \<Rightarrow> bool" where
  "issued h c =
     (case h of
        Stream_handle i \<Rightarrow> i < g_stream_handle_next c
      | Event_handle i \<Rightarrow> i < g_event_handle_next c
      | Module_handle i \<Rightarrow> i < g_module_handle_next c
      | Kernel_of i \<Rightarrow> i < g_kernel_handle_next c
      | Pool_handle i \<Rightarrow> i < g_pool_handle_next c)"

definition table_of :: "client_handle \<Rightarrow> nat \<times> nat" where
  "table_of h = (case h of Stream_handle i \<Rightarrow> (0, i) | Event_handle i \<Rightarrow> (1, i) | Module_handle i \<Rightarrow> (2, i) | Kernel_of i \<Rightarrow> (3, i)
     | Pool_handle i \<Rightarrow> (4, i))"

definition entry_at :: "client_handle \<Rightarrow> client \<Rightarrow> entry" where
  "entry_at h c = tables c ! fst (table_of h) ! snd (table_of h)"

lemma kernel_by_handle:
  "resolve_kernel_reference (Kernel_handle i) c = (if i < g_kernel_handle_next c \<and> kernel_current c (g_kernel_handles c ! i) then Some i else None)"
  by (auto simp: resolve_kernel_reference_def find_upt_Some find_upt_None Let_def)

lemma table_exists [simp]: "fst (table_of h) < length (tables c)"
  by (cases h) (simp_all add: table_of_def tables_def)

lemma issued_entry: "client_inv c \<Longrightarrow> issued h c \<longleftrightarrow> snd (table_of h) < length (tables c ! fst (table_of h))"
  using inv_sizes [of c] by (cases h) (simp_all add: issued_def table_of_def tables_def)

lemma remote_id_entry:
  assumes "client_inv c" "issued h c"
  shows "remote_id h c = (if fst (entry_at h c) then Some (snd (snd (entry_at h c))) else None)"
proof -
  have "of_session (g_active_session_generation c) (entry_at h c)"
    using assms nth_mem [OF table_exists [of h c]] unfolding issued_entry [OF assms(1)] client_inv_def entry_at_def by (blast intro: nth_mem)
  then show ?thesis
    using assms(2) inv_sizes [OF assms(1)]
    by (cases h) (auto simp: remote_id_def issued_def entry_at_def table_of_def tables_def entry_defs of_session_def kernel_by_handle
        kernel_current_def resolve_stream_handle_def resolve_event_handle_def resolve_module_handle_def resolve_pool_handle_def Let_def)
qed

lemma entry_descends:
  assumes "lineage c c'" "client_inv c" "client_inv c'" "issued h c"
  shows "issued h c'" "fst (entry_at h c') \<Longrightarrow> entry_at h c = entry_at h c'"
proof -
  have "descends (tables c ! fst (table_of h)) (tables c' ! fst (table_of h))"
    using assms(1) by (simp add: lineage_def list_all2_nthD)
  then show "issued h c'" "fst (entry_at h c') \<Longrightarrow> entry_at h c = entry_at h c'"
    using assms(4) unfolding issued_entry [OF assms(2)] issued_entry [OF assms(3)] entry_at_def descends_def by auto
qed

text \<open>
  C2. Handles are never reused: in every run of the library, whatever the network answers, a handle that
  has been issued and stands for a remote object later already stood for the same object. A handle that
  no longer stands for one, because the object was destroyed, the session failed or the runtime was shut
  down, never stands for one again, not even after the library has connected anew.
\<close>

theorem handles_not_reused:
  assumes "maps_memory sys" "reachable sys c" "(client_step sys)\<^sup>*\<^sup>* c c'" "issued h c" "remote_id h c' = Some x"
  shows "remote_id h c = Some x"
proof -
  have inv: "client_inv c" "client_inv c'" "lineage c c'"
    using reachable_inv(1) reachable_lineage assms(1-3) by blast+
  note e = entry_descends [OF inv(3,1,2) assms(4)]
  show ?thesis using e assms(5) unfolding remote_id_entry [OF inv(1) assms(4)] remote_id_entry [OF inv(2) e(1)]
    by (auto split: if_splits)
qed

section \<open>Device addresses\<close>

lemma inside_span:
  assumes "client_inv c" "a \<in> set (g_allocs c)" "va_live a"
  shows "\<not> (p < va_virtual_base a \<or> p > va_virtual_base a + va_size a) \<longleftrightarrow> fst (span_of a) \<le> unat p \<and> unat p \<le> snd (span_of a)"
proof -
  have "snd (span_of a) + 65536 \<le> cursor c" "cursor c \<le> 2 ^ 64"
    using assms unfolding client_inv_def arena_inv_def cursor_def by (auto split: if_splits)
  then have "unat (va_virtual_base a + va_size a) = snd (span_of a)" by (simp add: span_of_def unat_add_no_wrap)
  then show ?thesis by (simp add: word_less_nat_alt not_less span_of_def)
qed

lemma allocs_apart:
  assumes "client_inv c" "a \<in> set (g_allocs c)" "b \<in> set (g_allocs c)" "va_live a" "va_live b" "a \<noteq> b"
  shows "apart a b"
proof -
  obtain i j where "i < length (g_allocs c)" "g_allocs c ! i = a" "j < length (g_allocs c)" "g_allocs c ! j = b"
    using assms(2,3) by (auto simp: in_set_conv_nth)
  then show ?thesis using assms unfolding client_inv_def arena_inv_def by blast
qed

text \<open>The allocation a pointer is in is the one the scan finds.\<close>

lemma alloc_found:
  assumes "client_inv c" "a \<in> set (g_allocs c)" "va_live a" "fst (span_of a) \<le> unat p" "unat p \<le> snd (span_of a)"
  shows "find (\<lambda>a. current_alloc c a \<and> \<not> (p < va_virtual_base a \<or> p > va_virtual_base a + va_size a)) (g_allocs c) = Some a"
    (is "find ?Q _ = _")
proof -
  have cur: "?Q a" using assms inside_span [OF assms(1-3)] unfolding current_alloc_def client_inv_def arena_inv_def by blast
  have unique: "b = a" if "b \<in> set (g_allocs c)" "?Q b" for b
  proof (rule ccontr)
    assume "b \<noteq> a"
    then have "apart a b" using that assms by (intro allocs_apart [OF assms(1)]) (simp_all add: current_alloc_def)
    then show False using that assms(4,5) inside_span [OF assms(1), of b p] by (auto simp: current_alloc_def apart_def)
  qed
  have "find ?Q (g_allocs c) \<noteq> None" using cur assms(2) unfolding find_None_iff by blast
  then obtain b where b: "find ?Q (g_allocs c) = Some b" by blast
  then have "b \<in> set (g_allocs c)" "?Q b" unfolding find_Some_iff by auto
  then show ?thesis using unique b by blast
qed

lemma resolve_inside:
  assumes "client_inv c" "a \<in> set (g_allocs c)" "va_live a" "va_graph_id a = 0" "unat off + unat len \<le> unat (va_size a)"
  shows "resolve_remote_ptr (va_virtual_base a + off) len c = Inr (va_allocation_id a, off)"
proof -
  have "snd (span_of a) + 65536 \<le> cursor c" "cursor c \<le> 2 ^ 64"
    using assms unfolding client_inv_def arena_inv_def cursor_def by (auto split: if_splits)
  then have "unat (va_virtual_base a + off) = unat (va_virtual_base a) + unat off"
    using assms(5) by (subst unat_add_no_wrap) (simp_all add: span_of_def)
  then have "find (\<lambda>b. current_alloc c b \<and> \<not> (va_virtual_base a + off < va_virtual_base b \<or> va_virtual_base a + off > va_virtual_base b + va_size b))
      (g_allocs c) = Some a"
    using assms by (intro alloc_found) (simp_all add: span_of_def)
  moreover have "\<not> (off > va_size a \<or> len > va_size a - off)" "\<not> (len > 0 \<and> off = va_size a)"
    using assms(5) by (auto simp: word_less_nat_alt unat_sub word_le_nat_alt)
  ultimately show ?thesis using assms(4)
    by (simp add: resolve_remote_ptr_def resolve_remote_ptr_mode_def scan_allocs_def Let_def)
qed

text \<open>
  C5. Device addresses are never reused: an address below the cursor of the arena resolves later only to
  the allocation and the offset it stood for before; once its allocation is freed or the session has
  ended, every access through it is refused.
\<close>

theorem addresses_not_reused:
  assumes "maps_memory sys" "reachable sys c" "(client_step sys)\<^sup>*\<^sup>* c c'" "unat p < cursor c"
    "resolve_remote_ptr_mode p n graph c' = Inr r"
  shows "resolve_remote_ptr_mode p n True c = Inr r"
proof -
  have inv: "client_inv c" "client_inv c'" "lineage c c'" using reachable_inv(1) reachable_lineage assms(1-3) by blast+
  obtain a' where a': "find (\<lambda>a. current_alloc c' a \<and> \<not> (p < va_virtual_base a \<or> p > va_virtual_base a + va_size a)) (g_allocs c') = Some a'"
    using assms(5) unfolding resolve_remote_ptr_mode_def scan_allocs_def by (auto split: option.splits)
  then have m': "a' \<in> set (g_allocs c')" "va_live a'" "fst (span_of a') \<le> unat p" "unat p \<le> snd (span_of a')"
    using inside_span [OF inv(2), of a' p] by (auto simp: find_Some_iff current_alloc_def)
  then obtain a where a: "a \<in> set (g_allocs c)" "va_live a" "alloc_key a = alloc_key a'"
    using inv(3) assms(4) unfolding lineage_def allocs_descend_def by (meson not_le order_trans)
  have "find (\<lambda>a. current_alloc c a \<and> \<not> (p < va_virtual_base a \<or> p > va_virtual_base a + va_size a)) (g_allocs c) = Some a"
    using m'(3,4) span_of_key [OF a(3)] by (intro alloc_found [OF inv(1) a(1,2)]) simp_all
  then show ?thesis using assms(5) a' a(3) unfolding resolve_remote_ptr_mode_def scan_allocs_def
    by (auto simp: alloc_key_def Let_def split: if_splits option.splits)
qed

section \<open>A sample run\<close>

text \<open>
  An operating system that ds the receives from a list: a server without the handshake, a stream
  and an allocation.
\<close>

fun receives :: "sys_op list \<Rightarrow> nat" where
  "receives [] = 0"
| "receives (op # h) = receives h + (case op of Sys_recv _ \<Rightarrow> 1 | _ \<Rightarrow> 0)"

definition scripted :: "bytes list \<Rightarrow> system" where
  "scripted ds h op =
     (case op of
        Sys_recv _ \<Rightarrow> \<lparr>so_ok = True, so_data = ds ! receives h, so_value = 0\<rparr>
      | Sys_mmap n \<Rightarrow> \<lparr>so_ok = n \<le> G6A_VA_ARENA_BYTES, so_data = [], so_value = 65536\<rparr>
      | _ \<Rightarrow> \<lparr>so_ok = True, so_data = [], so_value = 65536\<rparr>)"

definition sample_answers :: "bytes list" where
  "sample_answers =
     [corex_protocol_encode_response_header OP_HELLO 1 ST_BAD_REQUEST 0,
      corex_protocol_encode_response_header OP_CREATE_STREAM 2 ST_OK 8, be64 7,
      corex_protocol_encode_response_header OP_ALLOC 3 ST_OK 8, be64 9]"

abbreviation (input) sample_system :: system where
  "sample_system \<equiv> scripted sample_answers"

lemma maps_memory_scripted: "maps_memory (scripted ds)"
  by (simp add: maps_memory_def scripted_def word_le_nat_alt)

lemma scripted_ops [simp]:
  "syscall (scripted ds) (Sys_send b) c = (\<lparr>so_ok = True, so_data = [], so_value = 65536\<rparr>, c\<lparr>io := Sys_send b # io c\<rparr>)"
  "syscall (scripted ds) (Sys_malloc k) c = (\<lparr>so_ok = True, so_data = [], so_value = 65536\<rparr>, c\<lparr>io := Sys_malloc k # io c\<rparr>)"
  "syscall (scripted ds) (Sys_mmap G6A_VA_ARENA_BYTES) c = (\<lparr>so_ok = True, so_data = [], so_value = 65536\<rparr>, c\<lparr>io := Sys_mmap G6A_VA_ARENA_BYTES # io c\<rparr>)"
  "syscall (scripted ds) Sys_connect c = (\<lparr>so_ok = True, so_data = [], so_value = 65536\<rparr>, c\<lparr>io := Sys_connect # io c\<rparr>)"
  "syscall (scripted ds) Sys_atexit c = (\<lparr>so_ok = True, so_data = [], so_value = 65536\<rparr>, c\<lparr>io := Sys_atexit # io c\<rparr>)"
  by (simp_all add: syscall_def scripted_def)

lemma scripted_recv [simp]:
  "length (ds ! receives (io c)) = n \<Longrightarrow>
   client_recv_all (scripted ds) n c = (Some (ds ! receives (io c)), c\<lparr>io := Sys_recv n # io c\<rparr>)"
  by (simp add: client_recv_all_def syscall_def scripted_def fit_def)

lemma decoded_header:
  "corex_protocol_decode_response_header (corex_protocol_encode_response_header opcode req_id status len) =
     Some \<lparr>rs_opcode = opcode, rs_request_id = req_id, rs_status = status, rs_payload_length = len\<rparr>"
  using decode_encode_response_header [of opcode req_id status len "[]"] by simp

lemma length_header [simp]: "length (corex_protocol_encode_response_header opcode req_id status len) = 24"
  by (simp add: wire_simps)

text \<open>A call with a payload and the answer in the script.\<close>

lemma scripted_rpc:
  assumes "cap_status (g_capture c) = cudaStreamCaptureStatusNone" "0 < length payload" "length payload < 2 ^ 32" "opcode \<noteq> OP_HELLO"
    "ds ! receives (io c) = corex_protocol_encode_response_header opcode (g_next_req_id c) ST_OK 8"
    "ds ! Suc (receives (io c)) = be64 x"
  shows "rpc (scripted ds) opcode payload c = (Some (be64 x), c\<lparr>g_next_req_id := g_next_req_id c + 1, g_last_remote_status := ST_OK,
     g_last_rpc_transport_error := False,
     io := [Sys_recv 8, Sys_malloc 8, Sys_recv 24, Sys_send payload,
       Sys_send (corex_protocol_encode_request_header opcode (g_next_req_id c) (of_nat (length payload)))] @ io c\<rparr>)"
proof -
  have "unat (of_nat (length payload) :: u32) = length payload" using assms(3) by (intro unat_small32) simp
  then have "(0 :: u32) < of_nat (length payload)" using assms(2) by (simp add: word_less_nat_alt)
  then show ?thesis using assms
    by (simp add: rpc_def rpc_exchange_def client_send_all_def recv_response_def decoded_header Let_def)
qed

lemma scripted_hello:
  assumes "cap_status (g_capture c) = cudaStreamCaptureStatusNone"
    "ds ! receives (io c) = corex_protocol_encode_response_header OP_HELLO (g_next_req_id c) ST_BAD_REQUEST 0"
  shows "negotiate_hello (scripted ds) c = (True, c\<lparr>g_next_req_id := g_next_req_id c + 1, g_last_remote_status := ST_OK,
     g_last_rpc_transport_error := False, g_hello_state := COREX_HELLO_LEGACY_V3,
     io := [Sys_recv 24, Sys_send (corex_protocol_encode_request_header OP_HELLO (g_next_req_id c) 0)] @ io c\<rparr>)"
  using assms by (simp add: negotiate_hello_def rpc_def rpc_exchange_def client_send_all_def recv_response_def decoded_header Let_def)

text \<open>The states of the run: connected, with a stream, with an allocation.\<close>

definition sample_connected :: client where
  "sample_connected = snd (ensure_runtime_locked sample_system g_runtime_context)"

definition sample_stream :: client where
  "sample_stream = snd (cudaStreamCreate_locked sample_system 8 g_runtime_context)"

definition sample_alloc :: client where
  "sample_alloc = snd (cudaMalloc_locked sample_system 8 16 sample_stream)"

lemma sample_answers_nth:
  "sample_answers ! 0 = corex_protocol_encode_response_header OP_HELLO 1 ST_BAD_REQUEST 0"
  "sample_answers ! Suc 0 = corex_protocol_encode_response_header OP_CREATE_STREAM 2 ST_OK 8" "sample_answers ! Suc (Suc 0) = be64 7"
  "sample_answers ! 3 = corex_protocol_encode_response_header OP_ALLOC 3 ST_OK 8" "sample_answers ! Suc 3 = be64 9"
  "sample_answers ! 4 = be64 9"
  by (simp_all add: sample_answers_def)

lemma sample_connected_run:
  "ensure_runtime_locked sample_system g_runtime_context = (cudaSuccess, sample_connected)"
  "g_lifecycle sample_connected = COREX_RUNTIME_ACTIVE" "g_fd sample_connected = 65536" "g_active_session_generation sample_connected = 1"
  "g_va_arena sample_connected = 65536" "g_va_next sample_connected = 0" "g_next_req_id sample_connected = 2"
  "g_allocs sample_connected = replicate G6A_MAX_ALLOCS zero_virtual_allocation" "g_capture sample_connected = zero_capture"
  "g_stream_handles sample_connected = replicate G6C_MAX_STREAM_HANDLES zero_stream_handle" "g_stream_handle_next sample_connected = 0"
  "receives (io sample_connected) = 1"
  unfolding sample_connected_def
  by (simp_all add: ensure_runtime_locked_def ensure_arena_def default_frontier_buffer_def connect_server_def scripted_hello
      register_shutdown_def g_runtime_context_def zero_capture_def sample_answers_nth record_error_def Let_def)

lemma zero_capture_none [simp]: "cap_status zero_capture = cudaStreamCaptureStatusNone"
  by (simp add: zero_capture_def)

lemma sample_stream_run:
  "g_lifecycle sample_stream = COREX_RUNTIME_ACTIVE" "g_fd sample_stream = 65536" "g_active_session_generation sample_stream = 1"
  "g_va_arena sample_stream = 65536" "g_va_next sample_stream = 0" "g_next_req_id sample_stream = 3"
  "g_allocs sample_stream = replicate G6A_MAX_ALLOCS zero_virtual_allocation" "g_capture sample_stream = zero_capture"
  "g_stream_handle_next sample_stream = 1" "sh_stream_id (g_stream_handles sample_stream ! 0) = 7"
  "resolve_stream_handle (Some 0) sample_stream = Some 0" "receives (io sample_stream) = 3"
  unfolding sample_stream_def cudaStreamCreate_locked_def cudaStreamCreate_impl_locked_def with_runtime_def with_frontier_def with_buffer_def
    client_malloc_def result_bind_def call_or_def remote_create_stream_flags_def expect_def resolve_stream_handle_def
  by (simp_all add: sample_connected_run scripted_rpc [where x = 7] sample_answers_nth Let_def)

lemma sample_free_slot: "find_free_slot sample_stream = Some 0"
  by (simp add: find_free_slot_def sample_stream_run find_upt_Some zero_virtual_allocation_def)

lemma find_head: "0 < n \<Longrightarrow> P y \<Longrightarrow> find P ((replicate n z)[0 := y]) = Some y"
  by (cases n) simp_all

lemma sample_alloc_run:
  "resolve_remote_ptr_mode 65540 8 False sample_alloc = Inr (9, 4)" "cursor sample_alloc = 196608"
proof -
  have span: "arena_span 16 sample_stream = Some 131072" by (simp add: arena_span_def align_up_size_def sample_stream_run Let_def)
  have run: "sample_alloc = put_alloc 0 (zero_virtual_allocation\<lparr>va_live := True, va_session_generation := 1,
      va_virtual_base := 65536, va_size := 16, va_allocation_id := 9, va_layout_kind := COREX_LAYOUT_LINEAR, va_logical_width_bytes := 16,
      va_logical_height := 1, va_logical_depth := 1, va_pitch := 16, va_slice_pitch := 16\<rparr>) 131072 (snd (remote_alloc sample_system 16 sample_stream))"
    unfolding sample_alloc_def cudaMalloc_locked_def allocate_linear_locked_def with_runtime_def prepare_linear_identity_def result_bind_def
      call_or_def remote_alloc_def expect_def commit_linear_identity_def ensure_runtime_locked_def
    by (simp add: sample_stream_run scripted_rpc [where x = 9] sample_answers_nth sample_free_slot span)
  show "resolve_remote_ptr_mode 65540 8 False sample_alloc = Inr (9, 4)" "cursor sample_alloc = 196608"
    unfolding run remote_alloc_def expect_def
    by (simp_all add: put_alloc_def sample_stream_run scripted_rpc [where x = 9] sample_answers_nth resolve_remote_ptr_mode_def scan_allocs_def
        current_alloc_def zero_virtual_allocation_def cursor_def Let_def find_head)
qed

lemma sample_reachable: "reachable sample_system sample_stream" "reachable sample_system sample_alloc"
proof -
  have "client_step sample_system g_runtime_context sample_stream" "client_step sample_system sample_stream sample_alloc"
    by (simp_all add: sample_stream_def sample_alloc_def client_step.intros)
  then show "reachable sample_system sample_stream" "reachable sample_system sample_alloc"
    by (auto simp: reachable_def intro: rtranclp.rtrancl_into_rtrancl)
qed

text \<open>The stream of the sample run, and the address of its allocation, before and after a further call.\<close>

theorem handles_not_reused_witness: "remote_id (Stream_handle 0) sample_stream = Some 7"
proof (rule handles_not_reused [OF maps_memory_scripted sample_reachable(1)])
  show "(client_step sample_system)\<^sup>*\<^sup>* sample_stream (snd (cudaGetLastError sample_stream))" by (auto intro: client_step.intros)
  show "issued (Stream_handle 0) sample_stream" by (simp add: issued_def sample_stream_run)
  show "remote_id (Stream_handle 0) (snd (cudaGetLastError sample_stream)) = Some 7"
    using sample_stream_run(10,11) by (simp add: remote_id_def cudaGetLastError_def resolve_stream_handle_def Let_def split: if_splits)
qed

theorem addresses_not_reused_witness: "resolve_remote_ptr_mode 65540 8 True sample_alloc = Inr (9, 4)"
proof (rule addresses_not_reused [OF maps_memory_scripted sample_reachable(2)])
  show "(client_step sample_system)\<^sup>*\<^sup>* sample_alloc (snd (cudaGetLastError sample_alloc))" by (auto intro: client_step.intros)
  show "unat (65540 :: u64) < cursor sample_alloc" by (simp add: sample_alloc_run)
  show "resolve_remote_ptr_mode 65540 8 False (snd (cudaGetLastError sample_alloc)) = Inr (9, 4)"
    using sample_alloc_run(1) by (simp add: cudaGetLastError_def resolve_remote_ptr_mode_def scan_allocs_def current_alloc_def)
qed
section \<open>A failed session\<close>

lemma unissued: "\<not> issued h c \<Longrightarrow> remote_id h c = None"
  by (cases h) (simp_all add: issued_def remote_id_def resolve_stream_handle_def resolve_event_handle_def resolve_module_handle_def
      resolve_pool_handle_def kernel_by_handle)

text \<open>A state without live entries and allocations answers no lookup.\<close>

lemma closed_resolves_nothing:
  assumes "closed c c'" "client_inv c'"
  shows "remote_id h c' = None" "resolve_remote_ptr_mode p n graph c' = Inl RESOLVE_INVALID"
proof -
  have "\<forall>t \<in> set (tables c'). \<forall>e \<in> set t. \<not> fst e" using assms(1) by (auto simp: closed_def dest: list_all2_set2)
  moreover have "entry_at h c' \<in> set (tables c' ! fst (table_of h))" if "issued h c'"
    using that by (simp add: entry_at_def issued_entry [OF assms(2)])
  ultimately have "\<not> fst (entry_at h c')" if "issued h c'" using that nth_mem [OF table_exists [of h c']] by blast
  then show "remote_id h c' = None" using remote_id_entry [OF assms(2), of h] unissued [of h c'] by (cases "issued h c'") simp_all
  have "find (\<lambda>a. current_alloc c' a \<and> Q a) (g_allocs c') = None" for Q
    using assms(1) by (auto simp: closed_def current_alloc_def find_None_iff)
  then show "resolve_remote_ptr_mode p n graph c' = Inl RESOLVE_INVALID" by (simp add: resolve_remote_ptr_mode_def scan_allocs_def)
qed

text \<open>A call that does not fail the session leaves what the application holds alone.\<close>

lemma quiet_resolves:
  assumes "quiet c c'"
  shows "remote_id h c' = remote_id h c" "resolve_remote_ptr_mode p n graph c' = resolve_remote_ptr_mode p n graph c"
  by (cases h) (simp_all add: quietD [OF assms] remote_id_def resolve_stream_handle_def resolve_event_handle_def resolve_module_handle_def
      resolve_pool_handle_def resolve_kernel_reference_def kernel_current_def resolve_remote_ptr_mode_def scan_allocs_def current_alloc_def)

text \<open>
  C6. A remote call either keeps the session or fails it as a whole. When the transport fails, the
  response is malformed, or it belongs to another request, the call returns nothing, the descriptor is
  closed, the runtime is marked as failed, no handle and no device address resolves any more and no
  download is left that could still write to the memory of the application. Otherwise every handle and
  every device address resolves as before.
\<close>

theorem rpc_all_or_nothing:
  assumes "maps_memory sys" "reachable sys c" "rpc sys opcode payload c = (r, c')"
  shows "\<not> g_last_rpc_transport_error c' \<and> g_fd c' = g_fd c \<and> (\<forall>h. remote_id h c' = remote_id h c) \<and>
      (\<forall>p n graph. resolve_remote_ptr_mode p n graph c' = resolve_remote_ptr_mode p n graph c) \<or>
    r = None \<and> g_last_rpc_transport_error c' \<and> g_fd c' < 0 \<and> g_lifecycle c' = COREX_RUNTIME_FAILED \<and>
      (\<forall>h. remote_id h c' = None) \<and> (\<forall>p n graph. resolve_remote_ptr_mode p n graph c' = Inl RESOLVE_INVALID) \<and>
      (\<forall>t \<in> set (g_hidden_transfers c'). \<not> ht_live t)"
proof -
  have "called sys c (r, c')" using called_rpc [of sys c opcode payload] assms(3) by simp
  then consider "quiet c c'" "\<not> g_last_rpc_transport_error c'"
    | c1 where "r = None" "g_last_rpc_transport_error c'" "quiet c c1" "c' = mark_session_failed_locked sys c1"
    by (auto simp: called_def)
  then show ?thesis
  proof cases
    case 1
    then show ?thesis using quiet_resolves quietD by metis
  next
    case 2
    have "client_inv c1" using safe_same [OF same_quiet [OF 2(3)]] reachable_inv(1) [OF assms(2,1)] assms(1) unfolding safe_step_def by blast
    then have cl: "closed c1 c'" "client_inv c'"
      using failed_closed [of c1 sys] safe_failed [of sys c1 sys] assms(1) unfolding 2(4) safe_step_def by blast+
    have "g_fd c' < 0" "\<forall>t \<in> set (g_hidden_transfers c'). \<not> ht_live t"
      by (auto simp: 2(4) mark_session_failed_locked_def close_fd_def syscall_def invalidate_client_graphs_def Let_def zero_hidden_transfer_def)
    then show ?thesis using 2(1,2,4) closed_resolves_nothing [OF cl] failed_fields(1) by metis
  qed
qed

text \<open>The next answer of the sample run is the one of another request.\<close>

theorem rpc_all_or_nothing_witness:
  "remote_id (Stream_handle 0) (snd (rpc sample_system OP_SYNC [] sample_stream)) = None"
proof -
  let ?x = "rpc sample_system OP_SYNC [] sample_stream"
  have "g_last_rpc_transport_error (snd (transport_failure sample_system c))" for c
    by (simp add: transport_failure_def mark_session_failed_locked_def close_fd_def syscall_def invalidate_client_graphs_def Let_def)
  then have "g_last_rpc_transport_error (snd ?x)"
    by (simp add: rpc_def rpc_exchange_def client_send_all_def sample_stream_run sample_answers_nth decoded_header Let_def)
  then show ?thesis using rpc_all_or_nothing [OF maps_memory_scripted sample_reachable(1), of OP_SYNC "[]" "fst ?x" "snd ?x"] by simp
qed

end
