(* ===== verification/End_To_End.thy ===== *)
theory End_To_End
  imports Loopback Client_Lifecycle
begin

text \<open>
  The client and the server together: an allocation of the client, over the loopback connection, as one
  transition of the pair of them.
\<close>

section \<open>The server's side\<close>

text \<open>
  The answer to a request for memory: an error and an unchanged map, or the identifier the map now
  gives to the memory.
\<close>

definition alloc_answer :: "u32 \<Rightarrow> u64 \<Rightarrow> world \<Rightarrow> world \<Rightarrow> bool" where
  "alloc_answer req_id n w w' \<longleftrightarrow>
     (\<exists>status. status \<noteq> ST_OK \<and> sent w' = sent w @ corex_protocol_encode_response_header OP_ALLOC req_id status 0 \<and>
        alloc_map (sess w') = alloc_map (sess w)) \<or>
     (\<exists>k dev. sent w' = sent w @ corex_protocol_encode_response_header OP_ALLOC req_id ST_OK 8 @ be64 k \<and>
        alloc_map (sess w) k = None \<and> alloc_map (sess w') = (alloc_map (sess w))(k \<mapsto> (dev, n)))"

lemma reply_reliable:
  assumes "reliable drv"
  shows "fst (send_response drv opcode req_id status resp w) = 0" "sess (snd (send_response drv opcode req_id status resp w)) = sess w"
    "sent (snd (send_response drv opcode req_id status resp w)) =
       sent w @ corex_protocol_encode_response_header opcode req_id status (of_nat (length resp)) @ resp"
  using assms by (auto simp: reliable_def connected_def send_response_def send_all_def invoke_def Let_def)

lemma alloc_refused:
  assumes "reliable drv" "status \<noteq> ST_OK" "alloc_map (sess w1) = alloc_map (sess w)" "sent w1 = sent w"
  shows "alloc_answer req_id n w (snd (send_response drv OP_ALLOC req_id status [] w1))"
  using reply_reliable [OF assms(1), of OP_ALLOC req_id status "[]" w1] assms by (auto simp: alloc_answer_def)

lemma alloc_answered:
  assumes "session_inv k (sess w)" "Suc k < 2 ^ 64" "reliable drv"
  shows "ends (handle_alloc drv req_id (be64 n) w) (\<lambda>rc. alloc_answer req_id n w)"
proof -
  show ?thesis
  proof (cases "new_allocation_slot (sess w)")
    case None
    then show ?thesis by (auto simp: handle_alloc_def intro!: alloc_refused [OF assms(3)])
  next
    case (Some x)
    obtain i s where slot: "new_allocation_slot (sess w) = Some (i, s)" using Some by (cases x) simp
    have i: "i < length (allocations (sess w))"
      "s = (sess w)\<lparr>allocations := (allocations (sess w))[i := fresh_allocation (next_alloc_id (sess w))],
             next_alloc_id := next_alloc_id (sess w) + 1\<rparr>"
      using new_allocation_slot_inv [OF assms(1,2) slot] session_inv_alloc_table [OF assms(1)] by auto
    have m: "alloc_map (upd_allocation i (\<lambda>a. a\<lparr>a_ptr := y, a_size := n\<rparr>) s) = (alloc_map (sess w))(next_alloc_id (sess w) \<mapsto> (y, n))"
      "alloc_map (upd_allocation i (\<lambda>_. zero_allocation) s) = alloc_map (sess w)"
      "alloc_map (sess w) (next_alloc_id (sess w)) = None" for y
      using alloc_map_new [OF assms(1,2) slot, of "\<lambda>a. a\<lparr>a_ptr := y, a_size := n\<rparr>"]
      by (auto simp: fresh_allocation_def zero_allocation_def visible_def)
    have aid: "a_id (allocations (upd_allocation i (\<lambda>a. a\<lparr>a_ptr := y, a_size := n\<rparr>) s) ! i) = next_alloc_id (sess w)" for y
      using i by (simp add: upd_allocation_def fresh_allocation_def)
    have granted: "alloc_answer req_id n w
        (snd (send_response drv OP_ALLOC req_id ST_OK (be64 (next_alloc_id (sess w))) w1))"
      if "sess w1 = upd_allocation i (\<lambda>a. a\<lparr>a_ptr := y, a_size := n\<rparr>) s" "sent w1 = sent w" for w1 y
      using reply_reliable [OF assms(3), of OP_ALLOC req_id ST_OK "be64 (next_alloc_id (sess w))" w1] that m
      by (auto simp: alloc_answer_def)
    show ?thesis by (auto simp: handle_alloc_def slot Let_def invoke_def le_bytes64_to_be64 aid intro!: alloc_refused [OF assms(3)] granted m(2))
  qed
qed

lemma serve_alloc:
  assumes "session_inv k (sess w)" "Suc k < 2 ^ 64" "reliable drv"
  shows "ends (serve_request graph drv OP_ALLOC req_id (be64 n) w) (\<lambda>rc. alloc_answer req_id n w)"
proof -
  define w0 where "w0 = put_sess (\<lambda>s. s\<lparr>capture_allow_alloc := False\<rparr>) w"
  define result where "result ok v = (if \<not> ok then reply drv OP_ALLOC req_id ST_CUDA_ERROR [] v
      else if generated_schema_error OP_ALLOC 8 then reply drv OP_ALLOC req_id ST_BAD_REQUEST [] v
      else case g_handlers graph OP_ALLOC of Some (h, _) \<Rightarrow> h drv req_id (be64 n) v | None \<Rightarrow> reply drv OP_ALLOC req_id ST_BAD_REQUEST [] v)" for ok v
  have h: "g_handlers graph OP_ALLOC = Some (handle_alloc, CRX_CAP_LINEAR_MEMORY)" by (simp add: g_handlers_def SERVER_HANDLER_REGISTRY_def)
  have w0: "session_inv k (sess w0)" "alloc_map (sess w0) = alloc_map (sess w)" "sent w0 = sent w"
    using assms(1) by (simp_all add: w0_def alloc_map_slot_map fun_eq_iff)
  have shift: "alloc_answer req_id n w w'" if "alloc_answer req_id n v w'" "sess v = sess w0" "sent v = sent w" for v w'
    using that w0(2) by (simp add: alloc_answer_def)
  have r: "ends (result ok v) (\<lambda>rc. alloc_answer req_id n w)" if "sess v = sess w0" "sent v = sent w" for ok v
    using alloc_answered [of k v drv req_id n] w0 assms(2,3) that
    by (auto simp: result_def h elim!: ends_mono intro: shift alloc_refused)
  have after: "alloc_answer req_id n w (snd (invoke drv cl w'))" if "alloc_answer req_id n w w'" for w' cl
    using that by (simp add: alloc_answer_def)
  define w1 where "w1 = snd (invoke drv (Graph (B_capture_exchange CU_STREAM_CAPTURE_MODE_RELAXED)) w0)"
  define ok where "ok = (o_rc (drv (calls w0) (Graph (B_capture_exchange CU_STREAM_CAPTURE_MODE_RELAXED))) = CUDA_SUCCESS)"
  obtain rc0 v0 where v0: "result True w0 = Some (rc0, v0)" "alloc_answer req_id n w v0" using r [of w0 True] w0 by (auto elim: endsE)
  obtain rc1 v1 where v1: "result ok w1 = Some (rc1, v1)" "alloc_answer req_id n w v1" using r [of w1 ok] w0 by (auto simp: w1_def elim: endsE)
  have c: "alloc_answer req_id n w (snd (send_response drv OP_ALLOC req_id ST_CAPTURE_UNSUPPORTED [] w0))"
    using w0 by (intro alloc_refused [OF assms(3)]) simp_all
  note unfolded = serve_request_def Let_def w0_def [symmetric] invoke_case w1_def [symmetric] ok_def [symmetric] length_be
  show ?thesis
  proof (cases "capture_graph (sess w) \<noteq> 0 \<and> capture_allow_alloc (sess w) \<and> OP_ALLOC = OP_ALLOC")
    case True
    then show ?thesis unfolding unfolded using v1 after [OF v1(2)] by (cases ok) (simp_all add: result_def [symmetric])
  next
    case False
    then show ?thesis unfolding unfolded if_not_P [OF False] using False c v0 by (auto simp: result_def [symmetric])
  qed
qed

lemma same_header:
  assumes "corex_protocol_encode_response_header opcode req_id status len @ b = corex_protocol_encode_response_header opcode req_id status' len' @ b'"
  shows "status = status'" "b = b'"
proof -
  have h: "corex_protocol_encode_response_header opcode req_id status len = corex_protocol_encode_response_header opcode req_id status' len'"
    and "b = b'" using assms by (simp_all add: append_eq_append_conv)
  show "status = status'" using decoded_header [of opcode req_id status len] decoded_header [of opcode req_id status' len'] unfolding h by simp
  show "b = b'" by fact
qed

section \<open>Memory, end to end\<close>

text \<open>The client's half of an allocation, once the identifier is known.\<close>

lemma committed_resolves:
  assumes "client_inv c" "g_lifecycle c = COREX_RUNTIME_ACTIVE" "prepare_linear_identity n c0 = (Inr (slot, span), c0)" "same c0 c"
    "commit_linear_identity slot n k span c = (r, c')" "unat off + unat len \<le> unat n"
  shows "r = Inr (g_va_arena c + g_va_next c)" "resolve_remote_ptr (g_va_arena c + g_va_next c + off) len c' = Inr (k, off)"
proof -
  have slot: "find_free_slot c = Some slot" "arena_span n c = Some span"
    using assms(3,4) by (auto simp: prepare_linear_identity_def same_slots [OF assms(4)] raise_def split: option.splits)
  let ?a = "zero_virtual_allocation\<lparr>va_live := True, va_session_generation := g_active_session_generation c,
      va_virtual_base := g_va_arena c + g_va_next c, va_size := n, va_allocation_id := k, va_layout_kind := COREX_LAYOUT_LINEAR,
      va_logical_width_bytes := n, va_logical_height := 1, va_logical_depth := 1, va_pitch := n, va_slice_pitch := n\<rparr>"
  have c': "c' = put_alloc slot ?a span c" and r: "r = Inr (g_va_arena c + g_va_next c)"
    using assms(5) by (simp_all add: commit_linear_identity_def Let_def)
  have "safe_step (scripted []) c c'" unfolding c' using slot assms(2) by (intro safe_put_alloc) (simp_all add: fresh_alloc_def)
  then have "client_inv c'" using assms(1) maps_memory_scripted by (simp add: safe_step_def)
  moreover have "?a \<in> set (g_allocs c')"
    using find_free_slot_Some [OF slot(1)] by (simp add: c' put_alloc_def set_update_memI)
  ultimately show "resolve_remote_ptr (g_va_arena c + g_va_next c + off) len c' = Inr (k, off)"
    using resolve_inside [of c' ?a off len] assms(6) by (simp add: zero_virtual_allocation_def)
  show "r = Inr (g_va_arena c + g_va_next c)" by (rule r)
qed

text \<open>The remote half: one turn of the request loop of the server.\<close>

lemma remote_alloc_loopback:
  assumes "in_sync graph drv w0 c w" "session_inv k (sess w)" "Suc k < 2 ^ 64" "reliable drv" "cap_status (g_capture c) = cudaStreamCaptureStatusNone"
  shows "\<exists>got c1 w'. remote_alloc (loopback graph drv w0) n c = (got, c1) \<and> same c c1 \<and> in_sync graph drv w0 c1 w' \<and>
    session_inv (Suc k) (sess w') \<and>
    (case got of
       None \<Rightarrow> alloc_map (sess w') = alloc_map (sess w)
     | Some i \<Rightarrow> alloc_map (sess w) i = None \<and> (\<exists>dev. alloc_map (sess w') = (alloc_map (sess w))(i \<mapsto> (dev, n))))"
proof -
  let ?hd = "corex_protocol_encode_response_header OP_ALLOC (g_next_req_id c)"
  obtain status resp w' h where rp:
    "serve_request graph drv OP_ALLOC (g_next_req_id c) (be64 n) (snd (payload_buffer drv (be64 n) w)) = Some (0, w')"
    "sent w' = sent w @ ?hd status (of_nat (length resp)) @ resp"
    "rpc (loopback graph drv w0) OP_ALLOC (be64 n) c = (if status = ST_OK then Some resp else None, exchanged c status h)"
    "in_sync graph drv w0 (exchanged c status h) w'" "session_inv (Suc k) (sess w')"
    using rpc_loopback [OF assms(1-4), of "be64 n" OP_ALLOC] assms(5) by (auto simp: admissible_def)
  have "alloc_answer (g_next_req_id c) n w w'"
    using serve_alloc [of k "snd (payload_buffer drv (be64 n) w)" drv graph "g_next_req_id c" n] assms(2-4) rp(1)
    by (simp add: alloc_answer_def payload_buffer_effect)
  then consider st where "st \<noteq> ST_OK" "sent w' = sent w @ ?hd st 0 @ []" "alloc_map (sess w') = alloc_map (sess w)"
    | i dev where "sent w' = sent w @ ?hd ST_OK 8 @ be64 i" "alloc_map (sess w) i = None" "alloc_map (sess w') = (alloc_map (sess w))(i \<mapsto> (dev, n))"
    unfolding alloc_answer_def by auto
  then show ?thesis
  proof cases
    case 1
    have "?hd status (of_nat (length resp)) @ resp = ?hd st 0 @ []" using 1(2) rp(2) by (simp only: same_append_eq)
    from same_header(1) [OF this] have "remote_alloc (loopback graph drv w0) n c = (None, exchanged c status h)"
      using 1(1) rp(3) by (simp add: remote_alloc_def expect_def)
    then show ?thesis using rp(4,5) 1(3) by auto
  next
    case 2
    have "?hd status (of_nat (length resp)) @ resp = ?hd ST_OK 8 @ be64 i" using 2(1) rp(2) by (simp only: same_append_eq)
    note same_header [OF this]
    then have "remote_alloc (loopback graph drv w0) n c = (Some i, exchanged c status h)" using rp(3) by (simp add: remote_alloc_def expect_def)
    then show ?thesis using rp(4,5) 2(2,3) by auto
  qed
qed

text \<open>\<open>cudaMalloc\<close> of a connected client, as the steps of its two halves.\<close>

lemma malloc_run:
  assumes "client_inv c" "g_lifecycle c = COREX_RUNTIME_ACTIVE" "cap_status (g_capture c) = cudaStreamCaptureStatusNone"
    "cudaMalloc_locked sys p n c = (r, c')"
  shows "(\<exists>e. r = Inl e) \<and> io c' = io c \<or>
    (\<exists>slot span. prepare_linear_identity n c = (Inr (slot, span), c) \<and>
       (r, c') = result_bind (call_or cudaErrorMemoryAllocation (remote_alloc sys n c)) (\<lambda>i c. commit_linear_identity slot n i span c))"
proof -
  have "g_fd c \<ge> 0" using assms(1,2) by (simp add: client_inv_def session_inv_of_def)
  then show ?thesis using assms(2-4)
    by (auto simp: cudaMalloc_locked_def allocate_linear_locked_def with_runtime_def ensure_runtime_locked_def result_bind_def raise_def
        prepare_linear_identity_def split: option.splits if_splits)
qed

text \<open>
  C4. \<open>cudaMalloc\<close> end to end: a client connected to the server of this development. Whatever the
  backend of the server answers, the call ends in step with the server. When it succeeds, the server holds exactly one
  new allocation of the requested size, under an identifier that named nothing before, and every
  access inside the returned block resolves to that identifier and its offset. When it fails, the
  server holds exactly the allocations it held before: nothing is leaked.
\<close>

theorem malloc_end_to_end:
  assumes "in_sync graph drv w0 c w" "session_inv k (sess w)" "Suc k < 2 ^ 64" "reliable drv" "client_inv c"
    "g_lifecycle c = COREX_RUNTIME_ACTIVE" "cap_status (g_capture c) = cudaStreamCaptureStatusNone"
    "cudaMalloc_locked (loopback graph drv w0) p n c = (r, c')"
  shows "\<exists>w'. in_sync graph drv w0 c' w' \<and> session_inv (Suc k) (sess w') \<and>
    (case r of
       Inl e \<Rightarrow> alloc_map (sess w') = alloc_map (sess w)
     | Inr va \<Rightarrow> \<exists>k dev. alloc_map (sess w) k = None \<and> alloc_map (sess w') = (alloc_map (sess w))(k \<mapsto> (dev, n)) \<and>
         (\<forall>off len. unat off + unat len \<le> unat n \<longrightarrow> resolve_remote_ptr (va + off) len c' = Inr (k, off)))"
proof -
  consider e where "r = Inl e" "io c' = io c"
    | slot span where "prepare_linear_identity n c = (Inr (slot, span), c)"
      "(r, c') = result_bind (call_or cudaErrorMemoryAllocation (remote_alloc (loopback graph drv w0) n c)) (\<lambda>i c. commit_linear_identity slot n i span c)"
    using malloc_run [OF assms(5-8)] by blast
  then show ?thesis
  proof cases
    case 1
    then show ?thesis using assms(1) session_inv_mono [OF assms(2), of "Suc k"] by (auto simp: in_sync_def)
  next
    case 2
    obtain a c1 w' where a: "remote_alloc (loopback graph drv w0) n c = (a, c1)" "same c c1" "in_sync graph drv w0 c1 w'" "session_inv (Suc k) (sess w')"
      "case a of None \<Rightarrow> alloc_map (sess w') = alloc_map (sess w)
         | Some i \<Rightarrow> alloc_map (sess w) i = None \<and> (\<exists>dev. alloc_map (sess w') = (alloc_map (sess w))(i \<mapsto> (dev, n)))"
      using remote_alloc_loopback [OF assms(1-4,7)] by blast
    show ?thesis
    proof (cases a)
      case None
      then have "r = Inl (map_last_rpc_error cudaErrorMemoryAllocation c1)" "io c' = io c1"
        using 2(2) a(1) by (auto simp: call_or_def result_bind_def raise_def)
      then show ?thesis using a(3-5) None by (auto simp: in_sync_def)
    next
      case (Some i)
      then have commit: "commit_linear_identity slot n i span c1 = (r, c')" using 2(2) a(1) by (simp add: call_or_def result_bind_def)
      have "client_inv c1" "g_lifecycle c1 = COREX_RUNTIME_ACTIVE"
        using safe_same [OF a(2), of "scripted []"] assms(5,6) maps_memory_scripted same_ready [OF a(2)] by (simp_all add: safe_step_def)
      note res = committed_resolves [OF this 2(1) a(2) commit]
      have "in_sync graph drv w0 c' w'" using a(3) commit by (auto simp: in_sync_def commit_linear_identity_def put_alloc_def Let_def)
      then show ?thesis using a(4,5) Some res(1) [of 0 0] res(2) by auto
    qed
  qed
qed

text \<open>A client that has just connected to a server whose driver grants the memory.\<close>

definition sample_client :: client where
  "sample_client = g_runtime_context\<lparr>g_fd := 3, g_lifecycle := COREX_RUNTIME_ACTIVE, g_active_session_generation := 1,
     g_next_session_generation := 2, g_va_arena := 65536\<rparr>"

theorem malloc_end_to_end_witness:
  "\<exists>w'. in_sync (\<lambda>_ _ _ w. Some (0, w)) (ok_driver 4096) init_world
       (snd (cudaMalloc_locked (loopback (\<lambda>_ _ _ w. Some (0, w)) (ok_driver 4096) init_world) 8 16 sample_client)) w' \<and> session_inv (Suc 1) (sess w')"
proof -
  let ?g = "\<lambda>_ _ _ w. Some (0, w)" and ?d = "ok_driver 4096"
  have sync: "in_sync ?g ?d init_world sample_client init_world"
    by (simp add: in_sync_def sample_client_def g_runtime_context_def drained_none)
  have inv: "client_inv sample_client"
    using initial_inv(1) by (simp add: sample_client_def g_runtime_context_def client_inv_def session_inv_of_def sizes_def tables_def
        arena_inv_def zero_virtual_allocation_def)
  have rel: "reliable ?d" by (simp add: reliable_def connected_def ok_driver_def)
  have act: "g_lifecycle sample_client = COREX_RUNTIME_ACTIVE" and cap: "cap_status (g_capture sample_client) = cudaStreamCaptureStatusNone"
    by (simp_all add: sample_client_def g_runtime_context_def)
  have "Suc 1 < 2 ^ 64" by simp
  from malloc_end_to_end [OF sync init_world_inv this rel inv act cap surjective_pairing, of 8 16] show ?thesis by blast
qed

end
