(* ===== verification/Spec2Isabelle.thy ===== *)
theory Spec2Isabelle
  imports Hello Memory Transfers Streams Layout_2d Pools Queries Metadata_Roundtrip Dispatch End_To_End
begin

text \<open>
  A verification library for x-remote-runtime, a remote CUDA runtime: a client library turns runtime calls
  into requests of the CRX9 protocol, a server process (\<^verbatim>\<open>server/runtime_server.c\<close>) owns the device, keeps one
  session per client and answers each request with one response. The library models the protocol, the
  server, the client library and the parser of kernel metadata, and proves what makes them correct, alone and
  together.

  \<^bold>\<open>How code becomes definitions.\<close> A C function is a function of the same name. Structures are records with
  their fields prefixed by a letter, machine integers are words of their width (\<open>u8\<close>, \<open>u32\<close>, \<open>u64\<close>), buffers are
  lists of bytes. \<^const>\<open>None\<close> stands for undefined behaviour: a read outside a buffer, a dereferenced null
  pointer, a loop that exceeds its fuel; that a handler returns \<^const>\<open>Some\<close> is part of its contract. The vendor driver, the
  operating system and the sockets are not in the repository: they are the parameter \<open>drv\<close>, a function
  from the history of calls and the next call to its outcome (\<open>Backend\<close>). Nothing is assumed of it, so the
  theorems hold for every answer a driver can give, failures included; the few that need a documented behaviour name it
  as a hypothesis (\<open>stores_data\<close>: synchronous copies while nothing is in flight; \<open>connected\<close>: sends succeed). The state of the process is a
  \<open>world\<close>: session, history of calls, bytes sent, context and the two global switches.

  \<^bold>\<open>The theories, bottom up.\<close>
  \<^item> \<open>Prelude\<close>, \<open>Wire\<close>, \<open>Hello\<close>: words, buffers, byte order, headers and HELLO (\<^verbatim>\<open>include/internal/corex_protocol.h\<close>).
    The locale \<open>wire_message\<close> is the contract of a codec: decoding inverts encoding and only encodings are
    accepted. \<open>Codecs\<close> and \<open>Strings_Codecs\<close> interpret it on every message of \<^verbatim>\<open>include/generated/corex_api_schema.h\<close>.
  \<^item> \<open>Slots\<close>, \<open>Backend\<close>, \<open>Session\<close>: the tables with their identifiers (locale \<open>slot_table\<close>, interpreted on seven
    tables: claiming a slot inserts a fresh key into a map, releasing it deletes the key), the driver seam and
    the \<open>ServerSession\<close>.
  \<^item> \<open>Contract\<close>: the session invariant and the contract of a request handler, as the locales \<open>request_handler\<close>
    and \<open>safe_handler\<close>: the handler returns, keeps the invariant, revives no identifier, sends one response
    with the opcode and the identifier of the request unless the client is gone, touches device memory only
    inside live allocations, and keeps the ledger of pinned buffers balanced. Each of the handlers below is
    shown to meet it by an interpretation. \<open>Samples\<close> holds concrete worlds and drivers.
  \<^item> \<open>Lifetime\<close>, \<open>Memory\<close>, \<open>Transfers\<close>, \<open>Streams\<close>, \<open>Layout\<close> with \<open>Layout_Safety\<close> and \<open>Layout_2d\<close>, \<open>Pools\<close>, \<open>Queries\<close>, \<open>Modules\<close>,
    \<open>Launch\<close>: the handlers of \<^verbatim>\<open>server/runtime_server.c\<close> by subject. Their theorems say how each request changes
    the map of objects a client sees, on success and on every failure, that destruction happens behind a
    barrier, that bounds checks are exact, and that only well-typed launches reach the driver.
  \<^item> \<open>GraphMem\<close>: the lifetime of graph allocations (\<^verbatim>\<open>server/corex_graph_runtime.inc\<close>), which frees reach.
  \<^item> \<open>Metadata\<close>, \<open>Metadata_Safety\<close>, \<open>Metadata_Roundtrip\<close>: the parser of \<^verbatim>\<open>src/corex_metadata.c\<close>. It is safe on every
    image, and the encoding of a module is parsed back to it. Its fuel is the length of the image
    plus one per nested value, which is enough since every value consumes a byte. That fuel is the depth of the
    recursion; the size of the C stack is not modelled, and \<open>mp_skip_depth\<close> shows that the code does not bound the depth.
  \<^item> \<open>Registry\<close>: the table of handlers, its start-up check, the schema table, and the lemma that every
    registered handler meets \<open>safe_handler\<close>.
  \<^item> \<open>Cleanup\<close>: the end of a session. The locale \<open>session_table\<close> describes a loop over a table once and is
    interpreted on all ten tables; \<open>release_plan\<close> lists every call the end of a session makes, in order. From it follows what a
    session owns, which is what the request that replaces the context has to check.
  \<^item> \<open>Dispatch\<close>: the request loop and the succession of sessions; here the components meet. The theorems speak of
    whole sessions of admissible requests: the invariant, one answer per request, no handle revived, the capture allowlist,
    isolation of sessions and termination. The loops are total functions, no fuel is needed: every turn
    consumes a request header.

  \<^bold>\<open>The client\<close> (\<^verbatim>\<open>src/corex_remote_cuda.c\<close> and the files beside it). Its state is the record \<open>client\<close>: the runtime context, the
  thread-local variables of the calling thread, the memory of the application and the history of operations
  of the operating system, which is the parameter \<open>sys\<close>. A handle is a position in a table. An entry point returns a
  CUDA error or a value, and the next state.
  \<^item> \<open>Stubs\<close>, \<open>Client\<close>, \<open>Client_Remote\<close>, \<open>Client_Session\<close>: the generated stubs, the context, the remote call and the failure of a
    session, one function per request, the resolution of handles.
  \<^item> \<open>Client_Arena\<close>, \<open>Client_Transfers\<close>, \<open>Client_Capture\<close>, \<open>Client_Memory\<close>, \<open>Client_Streams\<close>, \<open>Client_Kernels\<close>, \<open>Client_Objects\<close>, \<open>Client_Host\<close>,
    \<open>Client_Device_Api\<close>: the entry points by subject. Draining a frontier consumes the covered transfers in the order of
    their submission; releasing locked memory unlocks exactly the pages nobody else holds; the launch
    configurations are a bounded stack (locale \<open>bounded_stack\<close>).
  \<^item> \<open>Fatbin\<close>: the device image of a fat binary (\<^verbatim>\<open>src/corex_fatbin_runtime.c\<close>), found without a read outside the memory the
    loader reports. The memory of the process is partial here: a read of an address that is not mapped is undefined.
  \<^item> \<open>Client_Safety\<close>, \<open>Client_Steps\<close>, \<open>Client_Lifecycle\<close>: the invariant of the context and the lineage of two states. The locales
    \<open>client_contract\<close> and \<open>client_tables\<close> state what a relation on states needs so that every entry point is in it; they are
    interpreted on the safe steps. The entry points, the callback worker, other threads and the application are the
    steps of a transition relation; in every run handles and device addresses are never reused, and a
    failed call ends the session as a whole.
  \<^item> \<open>Loopback\<close>, \<open>End_To_End\<close>: the client connected to the server of this library. A remote call is one turn of the request
    loop, and an allocation of the client is one of the server or nothing.

  \<^bold>\<open>Bounds.\<close> The identifier counters wrap at \<open>2 ^ 64\<close>; the invariant carries the number \<open>n\<close> of requests served so
  far, and the theorems ask for \<open>n\<close> below \<open>2 ^ 64\<close>. Payloads are at most 64 MiB, as the loop enforces.

  \<^bold>\<open>What is not modelled.\<close> The command interpreter behind \<open>OP_GRAPH\<close> is an argument of the registry and the loop, and
  the session theorems exclude its requests; the graph entry points of the client, which only prepare such commands,
  are left out with it. The exported functions of the client add the mutex of the context to the functions modelled
  here; null stores to out-parameters on error paths and the structures of the CUDA toolkit are left out. The
  theorems about runs of the client ask that memory the operating system maps does not wrap around
  (\<open>maps_memory\<close>). Socket set-up, environment variables and log output are I/O. The two-dimensional copies
  meet their contract only when their layout does not wrap, which \<open>unwrapped_2d\<close> states; the theorems
  \<open>decode_2d_wraps\<close> and \<open>memcpy_2d_null\<close> show why.
\<close>

end
